(* ===== verification/Py_Prelude.thy ===== *)
theory Py_Prelude
  imports Complex_Main
begin

section \<open>Python values shared by every component\<close>

text \<open>
  The service is Python: rows and payloads are dictionaries of dynamically typed values, and
  most of the code's care goes into what happens when a field is missing, null, of the wrong
  type or not finite. This theory fixes the value domain (\<open>pyval\<close>), the few built-ins the
  modelled code calls (\<open>float\<close>, \<open>int\<close>, \<open>Decimal(str(x))\<close>, truth testing, \<open>dict.get\<close>,
  \<open>str.strip/lower/upper\<close>) and results that are either an exception or a value.

  Numbers. A float or a \<open>Decimal\<close> is a \<open>pynum\<close>: a rational, an infinity or NaN, so that
  every finiteness guard of the code is a real branch. Finite arithmetic is exact on
  rationals: binary64 rounding, the 28-digit decimal context and overflow to infinity are
  not modelled. Python integers are \<open>int\<close>. Text is a list of 8-bit characters and the
  character classes are the ASCII ones.
\<close>

named_theorems py_defs \<open>unfolding rules of the built-ins, for evaluation\<close>

subsection \<open>Results: an exception or a value\<close>

definition rbind :: "'e + 'a \<Rightarrow> ('a \<Rightarrow> 'e + 'b) \<Rightarrow> 'e + 'b" where
  "rbind m f = (case m of Inl e \<Rightarrow> Inl e | Inr x \<Rightarrow> f x)"

lemma rbind_simps [simp, code]:
  "rbind (Inl e) f = Inl e"
  "rbind (Inr x) f = f x"
  by (simp_all add: rbind_def)

lemma rbind_Inr_iff: "rbind m f = Inr y \<longleftrightarrow> (\<exists>x. m = Inr x \<and> f x = Inr y)"
  by (cases m) auto

lemma rbind_Inl_iff: "rbind m f = Inl e \<longleftrightarrow> m = Inl e \<or> (\<exists>x. m = Inr x \<and> f x = Inl e)"
  by (cases m) auto

lemma rbind_cong [fundef_cong]:
  "m = n \<Longrightarrow> (\<And>x. n = Inr x \<Longrightarrow> f x = g x) \<Longrightarrow> rbind m f = rbind n g"
  by (cases n) auto

text \<open>A loop that stops at the first exception, as a Python \<open>for\<close> with a raise in it does.\<close>

fun rmap :: "('a \<Rightarrow> 'e + 'b) \<Rightarrow> 'a list \<Rightarrow> 'e + 'b list" where
  "rmap f [] = Inr []"
| "rmap f (x # xs) = rbind (f x) (\<lambda>y. rbind (rmap f xs) (\<lambda>ys. Inr (y # ys)))"

lemma rmap_Inr_iff: "rmap f xs = Inr ys \<longleftrightarrow> list_all2 (\<lambda>x y. f x = Inr y) xs ys"
  by (induction xs arbitrary: ys) (auto simp: rbind_Inr_iff list_all2_Cons1)

lemma rmap_Inr_length: "rmap f xs = Inr ys \<Longrightarrow> length ys = length xs"
  by (simp add: rmap_Inr_iff list_all2_lengthD)

lemma rmap_Inr_setD:
  assumes "rmap f xs = Inr ys" and "y \<in> set ys"
  shows "\<exists>x \<in> set xs. f x = Inr y"
  using assms by (induction xs arbitrary: ys) (auto simp: rbind_Inr_iff)

lemma rmap_Inr_preD:
  assumes "rmap f xs = Inr ys" and "x \<in> set xs"
  shows "\<exists>y \<in> set ys. f x = Inr y"
  using assms by (induction xs arbitrary: ys) (auto simp: rbind_Inr_iff)

lemma rmap_Inr_total:
  assumes "\<And>x. x \<in> set xs \<Longrightarrow> \<exists>y. f x = Inr y"
  shows "\<exists>ys. rmap f xs = Inr ys"
  using assms by (induction xs) (fastforce simp: rbind_Inr_iff)+

lemma rmap_cong [fundef_cong]:
  "xs = ys \<Longrightarrow> (\<And>x. x \<in> set ys \<Longrightarrow> f x = g x) \<Longrightarrow> rmap f xs = rmap g ys"
  by (induction xs arbitrary: ys) auto

text \<open>A loop with an accumulator that stops at the first exception.\<close>

fun rfold :: "('a \<Rightarrow> 's \<Rightarrow> 'e + 's) \<Rightarrow> 'a list \<Rightarrow> 's \<Rightarrow> 'e + 's" where
  "rfold f [] s = Inr s"
| "rfold f (x # xs) s = rbind (f x s) (rfold f xs)"

lemma rfold_invariant:
  assumes "rfold f xs s = Inr t" and "P s"
    and "\<And>x u v. x \<in> set xs \<Longrightarrow> P u \<Longrightarrow> f x u = Inr v \<Longrightarrow> P v"
  shows "P t"
  using assms by (induction xs arbitrary: s) (auto simp: rbind_Inr_iff)

subsection \<open>Numbers\<close>

datatype pynum = Fin rat | PInf | NInf | NaN

fun is_finite :: "pynum \<Rightarrow> bool" where
  "is_finite (Fin _) = True"
| "is_finite _ = False"

lemma is_finite_iff: "is_finite x \<longleftrightarrow> (\<exists>q. x = Fin q)"
  by (cases x) auto

text \<open>Python's \<open>==\<close> on floats and decimals: NaN equals nothing.\<close>

fun num_eq :: "pynum \<Rightarrow> pynum \<Rightarrow> bool" where
  "num_eq (Fin a) (Fin b) = (a = b)"
| "num_eq PInf PInf = True"
| "num_eq NInf NInf = True"
| "num_eq _ _ = False"

text \<open>Rounding to the nearest integer, ties to even, and to cents.\<close>

definition round_half_even :: "rat \<Rightarrow> int" where
  "round_half_even x =
     (let f = \<lfloor>x\<rfloor>; d = x - of_int f
      in if d < 1/2 then f else if 1/2 < d then f + 1 else if even f then f else f + 1)"

lemma round_half_even_of_int [simp]: "round_half_even (of_int n) = n"
  by (simp add: round_half_even_def Let_def)

lemma round_half_even_error: "\<bar>of_int (round_half_even x) - x\<bar> \<le> 1/2"
proof -
  have "of_int \<lfloor>x\<rfloor> \<le> x" and "x < of_int \<lfloor>x\<rfloor> + 1" by linarith+
  then show ?thesis unfolding round_half_even_def Let_def abs_if by (auto; linarith)
qed

lemma round_half_even_le:
  assumes "x \<le> of_int n" shows "round_half_even x \<le> n"
proof (cases "x = of_int n")
  case False
  with assms have lt: "x < of_int n" by simp
  then have f: "\<lfloor>x\<rfloor> + 1 \<le> n" by linarith
  then show ?thesis by (auto simp: round_half_even_def Let_def)
qed simp

lemma round_half_even_ge:
  assumes "of_int n \<le> x" shows "n \<le> round_half_even x"
proof -
  from assms have "n \<le> \<lfloor>x\<rfloor>" by linarith
  then show ?thesis by (auto simp: round_half_even_def Let_def)
qed

lemma round_half_even_minus: "round_half_even (- x) = - round_half_even x"
proof (cases "x \<in> \<int>")
  case True
  then obtain n where "x = of_int n" by (auto elim: Ints_cases)
  then show ?thesis using round_half_even_of_int [of "- n"] by simp
next
  case False
  have fl: "\<lfloor>- x\<rfloor> = - \<lfloor>x\<rfloor> - 1"
  proof (rule floor_unique)
    have ne: "of_int \<lfloor>x\<rfloor> \<noteq> x" using False by (metis Ints_of_int)
    have le: "of_int \<lfloor>x\<rfloor> \<le> x" and lt: "x < of_int \<lfloor>x\<rfloor> + 1" by linarith+
    show "of_int (- \<lfloor>x\<rfloor> - 1) \<le> - x" using lt by simp
    show "- x < of_int (- \<lfloor>x\<rfloor> - 1) + 1" using le_neq_trans [OF le ne] by simp
  qed
  show ?thesis unfolding round_half_even_def Let_def fl by auto
qed

definition to_cents :: "rat \<Rightarrow> rat" where
  "to_cents x = of_int (round_half_even (100 * x)) / 100"

lemma to_cents_error: "\<bar>to_cents x - x\<bar> \<le> 1/200"
proof -
  have "to_cents x - x = (of_int (round_half_even (100 * x)) - 100 * x) / 100"
    by (simp add: to_cents_def field_simps)
  then show ?thesis using round_half_even_error [of "100 * x"] by (simp add: abs_if field_simps split: if_splits)
qed

lemma to_cents_minus: "to_cents (- x) = - to_cents x"
  using round_half_even_minus [of "100 * x"] by (simp add: to_cents_def)

lemma to_cents_exact: "100 * x = of_int n \<Longrightarrow> to_cents x = x"
  by (simp add: to_cents_def)

lemma to_cents_zero [simp]: "to_cents 0 = 0"
  using to_cents_exact [of 0 0] by simp

subsection \<open>Characters and text\<close>

definition is_digit :: "char \<Rightarrow> bool" where
  "is_digit c \<longleftrightarrow> 48 \<le> (of_char c :: nat) \<and> (of_char c :: nat) \<le> 57"

definition is_upper :: "char \<Rightarrow> bool" where
  "is_upper c \<longleftrightarrow> 65 \<le> (of_char c :: nat) \<and> (of_char c :: nat) \<le> 90"

definition is_lower :: "char \<Rightarrow> bool" where
  "is_lower c \<longleftrightarrow> 97 \<le> (of_char c :: nat) \<and> (of_char c :: nat) \<le> 122"

definition is_alpha :: "char \<Rightarrow> bool" where
  "is_alpha c \<longleftrightarrow> is_upper c \<or> is_lower c"

definition is_space :: "char \<Rightarrow> bool" where
  "is_space c \<longleftrightarrow> (let n = (of_char c :: nat) in 9 \<le> n \<and> n \<le> 13 \<or> 28 \<le> n \<and> n \<le> 32)"

definition to_lower :: "char \<Rightarrow> char" where
  "to_lower c = (if is_upper c then char_of ((of_char c :: nat) + 32) else c)"

definition to_upper :: "char \<Rightarrow> char" where
  "to_upper c = (if is_lower c then char_of ((of_char c :: nat) - 32) else c)"

definition str_lower :: "string \<Rightarrow> string" where "str_lower s = map to_lower s"
definition str_upper :: "string \<Rightarrow> string" where "str_upper s = map to_upper s"

definition str_strip :: "string \<Rightarrow> string" where
  "str_strip s = rev (dropWhile is_space (rev (dropWhile is_space s)))"

definition digit_val :: "char \<Rightarrow> nat" where
  "digit_val c = of_char c - 48"

definition digits_val :: "string \<Rightarrow> nat" where
  "digits_val s = foldl (\<lambda>n c. 10 * n + digit_val c) 0 s"

lemmas char_defs = is_digit_def is_upper_def is_lower_def is_alpha_def is_space_def
  to_lower_def to_upper_def digit_val_def

declare char_defs [py_defs] str_lower_def [py_defs] str_upper_def [py_defs]
  str_strip_def [py_defs] digits_val_def [py_defs]

text \<open>Decimal digits of a natural number, as \<open>str(n)\<close> prints them.\<close>

fun digits_of_nat :: "nat \<Rightarrow> string" where
  "digits_of_nat n =
     (if n < 10 then [char_of (48 + n)] else digits_of_nat (n div 10) @ [char_of (48 + n mod 10)])"

declare digits_of_nat.simps [simp del]

definition str_of_int :: "int \<Rightarrow> string" where
  "str_of_int n = (if n < 0 then CHR ''-'' # digits_of_nat (nat (- n)) else digits_of_nat (nat n))"

lemma digit_char [simp]:
  assumes "d < 10"
  shows "is_digit (char_of (48 + d :: nat))" and "digit_val (char_of (48 + d :: nat)) = d"
  using assms by (simp_all add: is_digit_def digit_val_def)

lemma digits_of_nat_digits: "\<forall>c \<in> set (digits_of_nat n). is_digit c"
proof (induction n rule: digits_of_nat.induct)
  case (1 n)
  then show ?case by (subst digits_of_nat.simps) auto
qed

lemma digits_of_nat_nonempty [simp]: "digits_of_nat n \<noteq> []"
  by (subst digits_of_nat.simps) simp

lemma digits_val_snoc [simp]: "digits_val (s @ [c]) = 10 * digits_val s + digit_val c"
  by (simp add: digits_val_def)

text \<open>Printing a natural number and reading it back gives the number.\<close>

lemma digits_val_of_nat [simp]: "digits_val (digits_of_nat n) = n"
proof (induction n rule: digits_of_nat.induct)
  case (1 n)
  show ?case
  proof (cases "n < 10")
    case True
    then show ?thesis by (subst digits_of_nat.simps) (simp add: digits_val_def)
  next
    case False
    with "1" show ?thesis by (subst digits_of_nat.simps) simp
  qed
qed

subsection \<open>Reading numbers from text\<close>

definition pow10 :: "int \<Rightarrow> rat" where
  "pow10 e = (if 0 \<le> e then 10 ^ nat e else 1 / 10 ^ nat (- e))"

definition split_sign :: "string \<Rightarrow> bool \<times> string" where
  "split_sign s = (case s of [] \<Rightarrow> (False, [])
     | c # cs \<Rightarrow> if c = CHR ''-'' then (True, cs) else if c = CHR ''+'' then (False, cs) else (False, s))"

definition parse_exponent :: "string \<Rightarrow> int option" where
  "parse_exponent s = (case s of [] \<Rightarrow> Some 0
     | c # cs \<Rightarrow>
        if c = CHR ''e'' \<or> c = CHR ''E'' then
          (let (neg, ds) = split_sign cs
           in if ds \<noteq> [] \<and> list_all is_digit ds
              then Some (if neg then - int (digits_val ds) else int (digits_val ds)) else None)
        else None)"

definition parse_unsigned :: "string \<Rightarrow> rat option" where
  "parse_unsigned s =
     (let ip = takeWhile is_digit s; r1 = dropWhile is_digit s;
          fp = (case r1 of c # cs \<Rightarrow> if c = CHR ''.'' then takeWhile is_digit cs else [] | [] \<Rightarrow> []);
          r2 = (case r1 of c # cs \<Rightarrow> if c = CHR ''.'' then dropWhile is_digit cs else r1 | [] \<Rightarrow> [])
      in if ip = [] \<and> fp = [] then None
         else map_option (\<lambda>e. of_nat (digits_val (ip @ fp)) * pow10 (e - int (length fp)))
                (parse_exponent r2))"

definition parse_num :: "string \<Rightarrow> pynum option" where
  "parse_num s =
     (let (neg, u) = split_sign s; l = str_lower u
      in if l = ''nan'' then Some NaN
         else if l = ''inf'' \<or> l = ''infinity'' then Some (if neg then NInf else PInf)
         else map_option (\<lambda>q. Fin (if neg then - q else q)) (parse_unsigned u))"

text \<open>In a float or integer literal an underscore stands between two digits; \<open>Decimal\<close> drops them all.\<close>

fun underscores_ok :: "bool \<Rightarrow> string \<Rightarrow> bool" where
  "underscores_ok prev [] = True"
| "underscores_ok prev [c] = (c \<noteq> CHR ''_'')"
| "underscores_ok prev (c # d # cs) =
     ((c = CHR ''_'' \<longrightarrow> prev \<and> is_digit d) \<and> underscores_ok (is_digit c) (d # cs))"

definition float_of_str :: "string \<Rightarrow> pynum option" where
  "float_of_str s = (let t = str_strip s
     in if underscores_ok False t then parse_num (filter (\<lambda>c. c \<noteq> CHR ''_'') t) else None)"

definition dec_of_str :: "string \<Rightarrow> pynum option" where
  "dec_of_str s = parse_num (filter (\<lambda>c. c \<noteq> CHR ''_'') (str_strip s))"

definition int_of_str :: "string \<Rightarrow> int option" where
  "int_of_str s = (let t = str_strip s
     in if underscores_ok False t then
          (let (neg, ds) = split_sign (filter (\<lambda>c. c \<noteq> CHR ''_'') t)
           in if ds \<noteq> [] \<and> list_all is_digit ds
              then Some (if neg then - int (digits_val ds) else int (digits_val ds)) else None)
        else None)"

lemmas parse_defs = pow10_def split_sign_def parse_exponent_def parse_unsigned_def parse_num_def
  float_of_str_def dec_of_str_def int_of_str_def

declare parse_defs [py_defs] Let_def [py_defs]

subsection \<open>Dynamically typed values\<close>

datatype pyval =
    PNone
  | PBool bool
  | PInt int
  | PFloat pynum
  | PDec pynum
  | PStr string
  | PList "pyval list"
  | PDict "(string \<times> pyval) list"

type_synonym pydict = "(string \<times> pyval) list"

datatype pyexn =
    TypeError | ValueError | KeyError | AttributeError | ZeroDivisionError | OverflowError
  | InvalidOperation | RuntimeError

definition num_truthy :: "pynum \<Rightarrow> bool" where
  "num_truthy x \<longleftrightarrow> x \<noteq> Fin 0"

fun truthy :: "pyval \<Rightarrow> bool" where
  "truthy PNone = False"
| "truthy (PBool b) = b"
| "truthy (PInt n) = (n \<noteq> 0)"
| "truthy (PFloat x) = num_truthy x"
| "truthy (PDec x) = num_truthy x"
| "truthy (PStr s) = (s \<noteq> [])"
| "truthy (PList xs) = (xs \<noteq> [])"
| "truthy (PDict d) = (d \<noteq> [])"

definition py_or :: "pyval \<Rightarrow> pyval \<Rightarrow> pyval" where
  "py_or a b = (if truthy a then a else b)"

definition dget :: "pydict \<Rightarrow> string \<Rightarrow> pyval" where
  "dget d k = (case map_of d k of None \<Rightarrow> PNone | Some v \<Rightarrow> v)"

definition dget_default :: "pydict \<Rightarrow> string \<Rightarrow> pyval \<Rightarrow> pyval" where
  "dget_default d k v = (case map_of d k of None \<Rightarrow> v | Some w \<Rightarrow> w)"

text \<open>Assignment \<open>d[k] = v\<close>: an existing key keeps its place, a new one goes to the end.\<close>

fun dset :: "pydict \<Rightarrow> string \<Rightarrow> pyval \<Rightarrow> pydict" where
  "dset [] k v = [(k, v)]"
| "dset ((k', v') # d) k v = (if k' = k then (k, v) # d else (k', v') # dset d k v)"

lemma map_of_dset [simp]: "map_of (dset d k v) = (map_of d)(k \<mapsto> v)"
  by (induction d k v rule: dset.induct) auto

lemma dget_dset [simp]: "dget (dset d k v) k' = (if k' = k then v else dget d k')"
  by (simp add: dget_def)

fun as_dict :: "pyval \<Rightarrow> pydict option" where
  "as_dict (PDict d) = Some d"
| "as_dict _ = None"

lemma as_dict_Some_iff [simp]: "as_dict v = Some d \<longleftrightarrow> v = PDict d"
  by (cases v) auto

text \<open>
  \<open>str(x)\<close> as far as the code looks at it. The text of a float, a list or a dictionary starts
  with a digit, a sign, a bracket, or is \<open>nan\<close> or \<open>inf\<close>; none of the code's tokens and no
  OCC symbol equals such a text, so it is \<open>None\<close> here: a text no token matches.
\<close>

fun py_text :: "pyval \<Rightarrow> string option" where
  "py_text PNone = Some ''None''"
| "py_text (PBool b) = Some (if b then ''True'' else ''False'')"
| "py_text (PInt n) = Some (str_of_int n)"
| "py_text (PStr s) = Some s"
| "py_text _ = None"

definition token_of :: "pyval \<Rightarrow> string option" where
  "token_of v = map_option (\<lambda>s. str_lower (str_strip s)) (py_text v)"

definition token_in :: "string option \<Rightarrow> string list \<Rightarrow> bool" where
  "token_in t ts = (case t of None \<Rightarrow> False | Some s \<Rightarrow> s \<in> set ts)"

text \<open>The constructor \<open>float(x)\<close>.\<close>

fun py_float :: "pyval \<Rightarrow> pyexn + pynum" where
  "py_float PNone = Inl TypeError"
| "py_float (PBool b) = Inr (Fin (if b then 1 else 0))"
| "py_float (PInt n) = Inr (Fin (of_int n))"
| "py_float (PFloat x) = Inr x"
| "py_float (PDec x) = Inr x"
| "py_float (PStr s) = (case float_of_str s of None \<Rightarrow> Inl ValueError | Some x \<Rightarrow> Inr x)"
| "py_float (PList _) = Inl TypeError"
| "py_float (PDict _) = Inl TypeError"

text \<open>The constructor \<open>int(x)\<close>: floats are truncated towards zero.\<close>

definition rat_trunc :: "rat \<Rightarrow> int" where
  "rat_trunc q = (if 0 \<le> q then \<lfloor>q\<rfloor> else - \<lfloor>- q\<rfloor>)"

fun py_int_of_num :: "pynum \<Rightarrow> pyexn + int" where
  "py_int_of_num (Fin q) = Inr (rat_trunc q)"
| "py_int_of_num NaN = Inl ValueError"
| "py_int_of_num _ = Inl OverflowError"

fun py_int :: "pyval \<Rightarrow> pyexn + int" where
  "py_int PNone = Inl TypeError"
| "py_int (PBool b) = Inr (if b then 1 else 0)"
| "py_int (PInt n) = Inr n"
| "py_int (PFloat x) = py_int_of_num x"
| "py_int (PDec x) = py_int_of_num x"
| "py_int (PStr s) = (case int_of_str s of None \<Rightarrow> Inl ValueError | Some n \<Rightarrow> Inr n)"
| "py_int (PList _) = Inl TypeError"
| "py_int (PDict _) = Inl TypeError"

lemma rat_trunc_of_int [simp]: "rat_trunc (of_int n) = n"
  by (simp add: rat_trunc_def)

text \<open>\<open>Decimal(str(x))\<close>: a boolean, null or container prints as text no decimal literal matches.\<close>

fun py_dec :: "pyval \<Rightarrow> pyexn + pynum" where
  "py_dec (PInt n) = Inr (Fin (of_int n))"
| "py_dec (PFloat x) = Inr x"
| "py_dec (PDec x) = Inr x"
| "py_dec (PStr s) = (case dec_of_str s of None \<Rightarrow> Inl InvalidOperation | Some x \<Rightarrow> Inr x)"
| "py_dec _ = Inl InvalidOperation"

declare num_truthy_def [py_defs] py_or_def [py_defs] dget_def [py_defs] dget_default_def [py_defs]
  token_of_def [py_defs] token_in_def [py_defs] rat_trunc_def [py_defs]

lemma py_or_truthy [simp]: "truthy a \<Longrightarrow> py_or a b = a"
  by (simp add: py_or_def)

lemma py_or_falsy [simp]: "\<not> truthy a \<Longrightarrow> py_or a b = b"
  by (simp add: py_or_def)

subsection \<open>Tables as lists of rows\<close>

text \<open>
  A database table is the list of its rows. An UPDATE rewrites the rows a predicate selects;
  summing a quantity over a table changes by the updated row's difference when the selecting
  key is unique.
\<close>

definition update_rows :: "('r \<Rightarrow> bool) \<Rightarrow> ('r \<Rightarrow> 'r) \<Rightarrow> 'r list \<Rightarrow> 'r list" where
  "update_rows P f rows = map (\<lambda>r. if P r then f r else r) rows"

lemma update_rows_simps [simp]:
  "update_rows P f [] = []"
  "update_rows P f (r # rs) = (if P r then f r else r) # update_rows P f rs"
  "length (update_rows P f rs) = length rs"
  by (simp_all add: update_rows_def)

lemma set_update_rows: "set (update_rows P f rs) = {r \<in> set rs. \<not> P r} \<union> f ` {r \<in> set rs. P r}"
  by (induction rs) auto

lemma map_key_update_rows:
  "(\<And>r. key (f r) = key r) \<Longrightarrow> map key (update_rows P f rs) = map key rs"
  by (induction rs) auto

lemma update_rows_none: "(\<And>r. r \<in> set rs \<Longrightarrow> \<not> P r) \<Longrightarrow> update_rows P f rs = rs"
  by (induction rs) auto

lemma sum_update_rows:
  fixes g :: "'r \<Rightarrow> 'n::ab_group_add"
  assumes "distinct (map key rs)" and "r \<in> set rs"
  shows "(\<Sum>x\<leftarrow>update_rows (\<lambda>x. key x = key r) f rs. g x) = (\<Sum>x\<leftarrow>rs. g x) - g r + g (f r)"
  using assms
proof (induction rs)
  case (Cons a rs)
  show ?case
  proof (cases "a = r")
    case True
    have fresh: "key r \<notin> key ` set rs" using Cons.prems(1) True by simp
    have "update_rows (\<lambda>x. key x = key r) f rs = rs"
      by (rule update_rows_none) (metis fresh image_eqI)
    with True show ?thesis by simp
  next
    case False
    with Cons.prems have "r \<in> set rs" and "key a \<noteq> key r" by auto
    with Cons show ?thesis by (simp add: algebra_simps)
  qed
qed simp

lemma sum_update_rows_same:
  "(\<And>x. g (f x) = g x) \<Longrightarrow> (\<Sum>x\<leftarrow>update_rows P f rs. g x) = (\<Sum>x\<leftarrow>rs. g x)"
  by (induction rs) auto

lemma find_Some_props: "find P xs = Some x \<Longrightarrow> P x \<and> x \<in> set xs"
  by (induction xs) (auto split: if_splits)

lemma find_snoc: "find P xs = None \<Longrightarrow> P y \<Longrightarrow> find P (xs @ [y]) = Some y"
  by (induction xs) (auto split: if_splits)

lemma sum_list_zero: "(\<And>x. x \<in> set xs \<Longrightarrow> f x = (0::'n::monoid_add)) \<Longrightarrow> (\<Sum>x\<leftarrow>xs. f x) = 0"
  by (induction xs) auto

lemma set_map_filter: "set (List.map_filter f xs) = {y. \<exists>x \<in> set xs. f x = Some y}"
  by (induction xs) (auto simp: List.map_filter_simps split: option.splits)

text \<open>A map over distinct keys that keeps the key yields each key at most once.\<close>

lemma count_map_filter_key:
  assumes "distinct xs" and "\<And>x y. f x = Some y \<Longrightarrow> key y = x"
  shows "length (filter (\<lambda>y. key y = k) (List.map_filter f xs)) = (if k \<in> set xs \<and> f k \<noteq> None then 1 else 0)"
  using assms(1)
proof (induction xs)
  case (Cons x xs)
  then show ?case using assms(2) by (cases "f x") (auto simp: List.map_filter_simps dest: assms(2))
qed (simp add: List.map_filter_simps)

end
