(* ===== verification/Occ_Symbols.thy ===== *)
theory Occ_Symbols
  imports Py_Prelude "HOL-Library.List_Lexorder" "HOL-Library.Char_ord" "HOL-Library.Multiset"
begin

section \<open>OCC option symbols (services/options_utils.py)\<close>

text \<open>
  Every component identifies an option by its OCC symbol, optionally with Polygon's \<open>O:\<close>
  prefix. This theory models the parser, the builder, the contract multiplier and the
  structure fingerprint. The parser's regular expression
  \<^verbatim>\<open>^([A-Z\.-]+)(\d{6})([CP])(\d{8})$\<close> has disjoint adjacent classes, so matching it is
  a left-to-right split. SHA-256 and the text of a value that is no string are parameters.
\<close>

subsection \<open>Calendar dates\<close>

record pydate =
  d_year :: nat
  d_month :: nat
  d_day :: nat

definition leap_year :: "nat \<Rightarrow> bool" where
  "leap_year y \<longleftrightarrow> y mod 4 = 0 \<and> (y mod 100 \<noteq> 0 \<or> y mod 400 = 0)"

definition days_in_month :: "nat \<Rightarrow> nat \<Rightarrow> nat" where
  "days_in_month y m =
     (if m = 2 then (if leap_year y then 29 else 28) else if m \<in> set [4, 6, 9, 11] then 30 else 31)"

definition valid_date :: "pydate \<Rightarrow> bool" where
  "valid_date d \<longleftrightarrow> 1 \<le> d_year d \<and> 1 \<le> d_month d \<and> d_month d \<le> 12 \<and> 1 \<le> d_day d
     \<and> d_day d \<le> days_in_month (d_year d) (d_month d)"

definition two_digits :: "nat \<Rightarrow> string" where
  "two_digits n = [char_of (48 + n div 10 mod 10), char_of (48 + n mod 10)]"

text \<open>\<open>strptime(s, "%Y-%m-%d")\<close>: a four-digit year, then one or two digits for month and day.\<close>

definition month_field :: "string \<Rightarrow> nat option" where
  "month_field s =
     (if list_all is_digit s \<and> (length s = 1 \<or> length s = 2) \<and> 1 \<le> digits_val s \<and> digits_val s \<le> 12
      then Some (digits_val s) else None)"

definition day_field :: "string \<Rightarrow> nat option" where
  "day_field s =
     (let t = (case s of [a, b] \<Rightarrow> if a = CHR '' '' then [b] else s | _ \<Rightarrow> s)
      in if list_all is_digit t \<and> (length t = 1 \<or> length t = 2) \<and> 1 \<le> digits_val t \<and> digits_val t \<le> 31
         then Some (digits_val t) else None)"

definition parse_ymd :: "string \<Rightarrow> pydate option" where
  "parse_ymd s =
     (let y = take 4 s; r = drop 4 s
      in if length y = 4 \<and> list_all is_digit y \<and> r \<noteq> [] \<and> hd r = CHR ''-'' then
           (let m = takeWhile (\<lambda>c. c \<noteq> CHR ''-'') (tl r); r2 = dropWhile (\<lambda>c. c \<noteq> CHR ''-'') (tl r)
            in if r2 = [] then None else
                 (case (month_field m, day_field (tl r2)) of
                    (Some mm, Some dd) \<Rightarrow>
                      (let d = \<lparr>d_year = digits_val y, d_month = mm, d_day = dd\<rparr>
                       in if valid_date d then Some d else None)
                  | _ \<Rightarrow> None))
         else None)"

subsection \<open>Parsing\<close>

record occ_parts =
  op_underlying :: string
  op_expiry :: string
  op_type :: char
  op_strike :: rat

fun remove_o_colon :: "string \<Rightarrow> string" where
  "remove_o_colon (c # d # cs) =
     (if c = CHR ''O'' \<and> d = CHR '':'' then remove_o_colon cs else c # remove_o_colon (d # cs))"
| "remove_o_colon s = s"

definition is_root_char :: "char \<Rightarrow> bool" where
  "is_root_char c \<longleftrightarrow> is_upper c \<or> c = CHR ''.'' \<or> c = CHR ''-''"

text \<open>The pattern's final \<open>$\<close> also matches before one trailing newline.\<close>

definition drop_final_newline :: "string \<Rightarrow> string" where
  "drop_final_newline s = (if s \<noteq> [] \<and> last s = CHR 0x0A then butlast s else s)"

definition parse_option_symbol :: "string \<Rightarrow> occ_parts option" where
  "parse_option_symbol symbol =
     (let clean = drop_final_newline (remove_o_colon symbol);
          rt = takeWhile is_root_char clean;
          rest = dropWhile is_root_char clean;
          date = take 6 rest; typ = take 1 (drop 6 rest); strike = drop 7 rest
      in if rt \<noteq> [] \<and> length date = 6 \<and> list_all is_digit date
            \<and> (typ = ''C'' \<or> typ = ''P'') \<and> length strike = 8 \<and> list_all is_digit strike
         then Some \<lparr>op_underlying = rt,
                    op_expiry = ''20'' @ take 2 date @ ''-'' @ take 2 (drop 2 date) @ ''-'' @ drop 4 date,
                    op_type = hd typ,
                    op_strike = of_nat (digits_val strike) / 1000\<rparr>
         else None)"

lemmas occ_parse_defs = parse_option_symbol_def is_root_char_def drop_final_newline_def

declare occ_parse_defs [py_defs] month_field_def [py_defs] day_field_def [py_defs]
  parse_ymd_def [py_defs] valid_date_def [py_defs] days_in_month_def [py_defs] leap_year_def [py_defs]

definition get_contract_multiplier :: "string \<Rightarrow> rat" where
  "get_contract_multiplier symbol = (case parse_option_symbol symbol of Some _ \<Rightarrow> 100 | None \<Rightarrow> 1)"

subsection \<open>Building\<close>

definition pad8 :: "int \<Rightarrow> string" where
  "pad8 n = (if n < 0 then (let s = digits_of_nat (nat (- n)) in ''-'' @ replicate (7 - length s) CHR ''0'' @ s)
     else (let s = digits_of_nat (nat n) in replicate (8 - length s) CHR ''0'' @ s))"

definition build_occ_symbol :: "string \<Rightarrow> pydate + string \<Rightarrow> string \<Rightarrow> rat \<Rightarrow> bool \<Rightarrow> pyexn + string" where
  "build_occ_symbol underlying expiry right strike include_prefix =
     (let und = filter (\<lambda>c. c \<noteq> CHR '' '') (str_upper underlying)
      in rbind (case expiry of Inl d \<Rightarrow> Inr d
                | Inr s \<Rightarrow> (case parse_ymd s of None \<Rightarrow> Inl ValueError | Some d \<Rightarrow> Inr d))
         (\<lambda>d. let expiry_str = two_digits (d_year d mod 100) @ two_digits (d_month d) @ two_digits (d_day d);
                  r = str_upper right
              in rbind (if r = ''CALL'' \<or> r = ''C'' then Inr ''C''
                        else if r = ''PUT'' \<or> r = ''P'' then Inr ''P'' else Inl ValueError)
                 (\<lambda>rc. let symbol = und @ expiry_str @ rc @ pad8 (round_half_even (strike * 1000))
                        in Inr (if include_prefix then ''O:'' @ symbol else symbol))))"

subsection \<open>The fingerprint of a structure\<close>

text \<open>\<open>str(strike)\<close> for a strike that is a whole number of thousandths.\<close>

definition str_of_strike :: "rat \<Rightarrow> string" where
  "str_of_strike q =
     (let k = nat \<lfloor>q * 1000\<rfloor>; m = k mod 1000;
          f = [char_of (48 + m div 100), char_of (48 + m div 10 mod 10), char_of (48 + m mod 10)];
          g = rev (dropWhile (\<lambda>c. c = CHR ''0'') (rev f))
      in digits_of_nat (k div 1000) @ ''.'' @ (if g = [] then ''0'' else g))"

definition leg_key :: "string \<Rightarrow> string" where
  "leg_key symbol =
     (case parse_option_symbol symbol of
        None \<Rightarrow> ''STOCK:'' @ symbol
      | Some p \<Rightarrow> op_underlying p @ '':'' @ op_expiry p @ '':'' @ [op_type p] @ '':'' @ str_of_strike (op_strike p))"

definition normalized_leg :: "pyval \<Rightarrow> pyexn + string" where
  "normalized_leg leg =
     (case leg of
        PDict d \<Rightarrow>
          (case dget_default d ''side'' (PStr '''') of
             PStr side \<Rightarrow>
               (case dget_default d ''symbol'' (PStr '''') of
                  PStr symbol \<Rightarrow> Inr (str_lower side @ '':'' @ leg_key symbol)
                | _ \<Rightarrow> Inl AttributeError)
           | _ \<Rightarrow> Inl AttributeError)
      | _ \<Rightarrow> Inl AttributeError)"

definition join_bar :: "string list \<Rightarrow> string" where
  "join_bar xs = concat (case xs of [] \<Rightarrow> [] | y # ys \<Rightarrow> y # map (\<lambda>z. CHR ''|'' # z) ys)"

definition compute_legs_fingerprint ::
    "(string \<Rightarrow> string) \<Rightarrow> (pyval \<Rightarrow> string) \<Rightarrow> pydict \<Rightarrow> pyexn + string" where
  "compute_legs_fingerprint sha256 show order_json =
     (let legs = dget_default order_json ''legs'' (PList [])
      in if \<not> truthy legs then
           (let u = dget_default order_json ''underlying'' (PStr '''')
            in if truthy u then Inr (sha256 (''STOCK:'' @ show u)) else Inr ''no_legs'')
         else (case legs of
             PList ls \<Rightarrow> rbind (rmap normalized_leg ls) (\<lambda>ks. Inr (sha256 (join_bar (sort ks))))
           | PStr _ \<Rightarrow> Inl AttributeError
           | PDict _ \<Rightarrow> Inl AttributeError
           | _ \<Rightarrow> Inl TypeError))"

subsection \<open>Round trip of builder and parser\<close>

lemma two_digits_props:
  assumes "n < 100"
  shows "length (two_digits n) = 2" and "list_all is_digit (two_digits n)"
  using assms by (simp_all add: two_digits_def)

lemma remove_o_colon_no_colon: "CHR '':'' \<notin> set s \<Longrightarrow> remove_o_colon s = s"
  by (induction s rule: remove_o_colon.induct) auto

lemma digit_not_root [simp]: "is_digit c \<Longrightarrow> \<not> is_root_char c"
  by (auto simp: is_root_char_def is_digit_def is_upper_def)

lemma digit_not_special:
  "is_digit c \<Longrightarrow> c \<noteq> CHR '':''" "is_digit c \<Longrightarrow> c \<noteq> CHR 0x0A"
  "is_root_char c \<Longrightarrow> c \<noteq> CHR '':''" "is_root_char c \<Longrightarrow> c \<noteq> CHR '' ''"
  by (auto simp: is_digit_def is_root_char_def is_upper_def)

lemma no_colon:
  "list_all is_digit s \<Longrightarrow> CHR '':'' \<notin> set s"
  "list_all is_root_char s \<Longrightarrow> CHR '':'' \<notin> set s"
  by (induction s) (auto dest: digit_not_special)

lemma root_char_upper [simp]: "is_root_char c \<Longrightarrow> to_upper c = c"
  by (auto simp: is_root_char_def to_upper_def is_lower_def is_upper_def)

lemma upper_root_id: "list_all is_root_char s \<Longrightarrow> filter (\<lambda>c. c \<noteq> CHR '' '') (str_upper s) = s"
  by (induction s) (auto simp: str_upper_def digit_not_special)

lemma length_digits_of_nat: "n < 10 ^ k \<Longrightarrow> 0 < k \<Longrightarrow> length (digits_of_nat n) \<le> k"
proof (induction n arbitrary: k rule: digits_of_nat.induct)
  case (1 n)
  show ?case
  proof (cases "n < 10")
    case True
    then show ?thesis using "1.prems" by (subst digits_of_nat.simps) simp
  next
    case False
    with "1.prems" obtain j where k: "k = Suc j" and "0 < j"
      by (cases k; cases "k - 1") auto
    with False "1.IH" [of j] "1.prems" have "length (digits_of_nat (n div 10)) \<le> j" by auto
    with False k show ?thesis by (subst digits_of_nat.simps) simp
  qed
qed

lemma digits_val_pad [simp]: "digits_val (replicate k CHR ''0'' @ s) = digits_val s"
  by (induction k) (simp_all add: digits_val_def digit_val_def)

lemma zero_is_digit [simp]: "is_digit CHR ''0''"
  by (simp add: is_digit_def)

lemma pad8_props:
  assumes "0 \<le> n" and "n < 10 ^ 8"
  shows "length (pad8 n) = 8" and "list_all is_digit (pad8 n)" and "digits_val (pad8 n) = nat n"
proof -
  from assms have "length (digits_of_nat (nat n)) \<le> 8"
    by (intro length_digits_of_nat) auto
  then show "length (pad8 n) = 8" using assms by (simp add: pad8_def Let_def)
  show "list_all is_digit (pad8 n)"
    using assms digits_of_nat_digits [of "nat n"] by (auto simp: pad8_def Let_def list_all_iff)
  show "digits_val (pad8 n) = nat n" using assms by (simp add: pad8_def Let_def)
qed

lemma days_in_month_le: "days_in_month y m \<le> 31"
  by (simp add: days_in_month_def)

text \<open>A root, six digits, a right and eight digits parse into their parts.\<close>

lemma parse_option_symbol_parts:
  assumes root: "und \<noteq> []" "list_all is_root_char und"
    and date: "length date = 6" "list_all is_digit date"
    and rt: "typ = CHR ''C'' \<or> typ = CHR ''P''"
    and strike: "length strike = 8" "list_all is_digit strike"
    and sym: "remove_o_colon symbol = und @ date @ [typ] @ strike"
  shows "parse_option_symbol symbol = Some \<lparr>op_underlying = und,
     op_expiry = ''20'' @ take 2 date @ ''-'' @ take 2 (drop 2 date) @ ''-'' @ drop 4 date,
     op_type = typ, op_strike = of_nat (digits_val strike) / 1000\<rparr>"
proof -
  let ?s = "und @ date @ [typ] @ strike"
  have ne: "strike \<noteq> []" using strike(1) by auto
  then have "is_digit (last strike)" using strike(2) by (simp add: list_all_iff)
  then have nl: "drop_final_newline ?s = ?s" using ne by (auto simp: drop_final_newline_def is_digit_def)
  obtain d ds where dd: "date = d # ds" using date(1) by (cases date) auto
  have tk: "takeWhile is_root_char ?s = und" and dr: "dropWhile is_root_char ?s = date @ [typ] @ strike"
    using root(2) date(2) dd by (auto simp: list_all_iff takeWhile_append dropWhile_append)
  show ?thesis unfolding parse_option_symbol_def Let_def sym nl tk dr
    using root date rt strike by auto
qed

definition iso_date :: "pydate \<Rightarrow> string" where
  "iso_date d = ''20'' @ two_digits (d_year d mod 100) @ ''-'' @ two_digits (d_month d) @ ''-'' @ two_digits (d_day d)"

text \<open>
  A symbol built from an upper-case root, a date of this century, a right
  and a strike that is a whole number of thousandths below 100000 parses back into exactly
  these parts, with the Polygon prefix or without it.
\<close>

theorem build_parse_roundtrip:
  assumes root: "und \<noteq> []" "list_all is_root_char und"
    and date: "valid_date d" "2000 \<le> d_year d" "d_year d < 2100"
    and right: "str_upper right = ''C'' \<and> rc = CHR ''C'' \<or> str_upper right = ''CALL'' \<and> rc = CHR ''C''
      \<or> str_upper right = ''P'' \<and> rc = CHR ''P'' \<or> str_upper right = ''PUT'' \<and> rc = CHR ''P''"
    and strike: "strike * 1000 = of_int k" "0 \<le> k" "k < 10 ^ 8"
  shows "\<exists>s. build_occ_symbol und (Inl d) right strike prefix = Inr s
     \<and> parse_option_symbol s = Some \<lparr>op_underlying = und, op_expiry = iso_date d,
          op_type = rc, op_strike = strike\<rparr>"
proof -
  let ?date = "two_digits (d_year d mod 100) @ two_digits (d_month d) @ two_digits (d_day d)"
  let ?sym = "und @ ?date @ [rc] @ pad8 k"
  have dm: "d_day d < 100" "d_month d < 100"
    using date(1) days_in_month_le [of "d_year d" "d_month d"] by (auto simp: valid_date_def)
  have len: "length ?date = 6" and dig: "list_all is_digit ?date"
    using dm by (simp_all add: two_digits_props)
  have strike_eq: "strike = of_nat (digits_val (pad8 k)) / 1000"
    using strike pad8_props(3) [OF strike(2,3)] by (simp add: field_simps)
  have nocolon: "CHR '':'' \<notin> set ?sym"
  proof -
    have rc: "rc \<noteq> CHR '':''" using right by auto
    have "CHR '':'' \<notin> set ?date" "CHR '':'' \<notin> set (pad8 k)" "CHR '':'' \<notin> set und"
      using no_colon(1) [OF dig] no_colon(1) [OF pad8_props(2) [OF strike(2,3)]] no_colon(2) [OF root(2)]
      by blast+
    with rc show ?thesis by simp
  qed
  have built: "build_occ_symbol und (Inl d) right strike prefix = Inr (if prefix then ''O:'' @ ?sym else ?sym)"
    using right root(2) strike(1) by (auto simp: build_occ_symbol_def upper_root_id Let_def)
  have "remove_o_colon (if prefix then ''O:'' @ ?sym else ?sym) = ?sym"
    using remove_o_colon_no_colon [OF nocolon] by simp
  moreover have "rc = CHR ''C'' \<or> rc = CHR ''P''" using right by auto
  ultimately have "parse_option_symbol (if prefix then ''O:'' @ ?sym else ?sym) =
      Some \<lparr>op_underlying = und, op_expiry = iso_date d, op_type = rc, op_strike = strike\<rparr>"
    using parse_option_symbol_parts [OF root len dig _ pad8_props(1,2) [OF strike(2,3)]] strike_eq
    by (auto simp: iso_date_def two_digits_def)
  with built show ?thesis by blast
qed

theorem build_parse_roundtrip_witness:
  "\<exists>s. build_occ_symbol ''AMZN'' (Inl \<lparr>d_year = 2026, d_month = 6, d_day = 16\<rparr>) ''call'' (255/2) True = Inr s
     \<and> parse_option_symbol s = Some \<lparr>op_underlying = ''AMZN'',
          op_expiry = iso_date \<lparr>d_year = 2026, d_month = 6, d_day = 16\<rparr>, op_type = CHR ''C'', op_strike = 255/2\<rparr>"
proof -
  have up: "str_upper ''call'' = ''CALL''" by code_simp
  show ?thesis by (rule build_parse_roundtrip [where k = 127500]) (simp_all add: up occ_parse_defs
      is_upper_def valid_date_def days_in_month_def)
qed

text \<open>
  The fingerprint of a structure does not depend on the order of its legs:
  any permutation of a leg list that has a fingerprint has the same one.
\<close>

theorem fingerprint_leg_order:
  assumes "compute_legs_fingerprint sha256 show [(''legs'', PList ls)] = Inr h"
    and "mset ls' = mset ls"
  shows "compute_legs_fingerprint sha256 show [(''legs'', PList ls')] = Inr h"
proof (cases "ls = []")
  case True
  then show ?thesis using assms by simp
next
  case False
  then have ne: "ls' \<noteq> []" using assms(2) by auto
  from assms(1) False obtain ks where ks: "rmap normalized_leg ls = Inr ks"
    and h: "h = sha256 (join_bar (sort ks))"
    by (auto simp: compute_legs_fingerprint_def dget_default_def rbind_Inr_iff)
  have "\<exists>ks'. rmap normalized_leg ls' = Inr ks'"
    by (rule rmap_Inr_total) (metis assms(2) mset_eq_setD rmap_Inr_preD [OF ks])
  then obtain ks' where ks': "rmap normalized_leg ls' = Inr ks'" ..
  let ?g = "\<lambda>l. projr (normalized_leg l)"
  have "map ?g xs = ys" if "rmap normalized_leg xs = Inr ys" for xs ys
    using that by (induction xs arbitrary: ys) (auto simp: rbind_Inr_iff)
  then have "map ?g ls = ks" "map ?g ls' = ks'" using ks ks' by auto
  then have "mset ks' = mset ks" using assms(2) by (metis mset_map)
  then have "sort ks' = sort ks" by (metis mset_sort properties_for_sort sorted_sort)
  with ks' h ne show ?thesis by (simp add: compute_legs_fingerprint_def dget_default_def)
qed

definition fp_leg1 :: pyval where
  "fp_leg1 = PDict [(''symbol'', PStr ''SPY260116C00500000''), (''side'', PStr ''buy'')]"

definition fp_leg2 :: pyval where
  "fp_leg2 = PDict [(''symbol'', PStr ''SPY260116C00510000''), (''side'', PStr ''sell'')]"

theorem fingerprint_leg_order_witness:
  "\<exists>h. compute_legs_fingerprint rev (\<lambda>_. []) [(''legs'', PList [fp_leg1, fp_leg2])] = Inr h
     \<and> compute_legs_fingerprint rev (\<lambda>_. []) [(''legs'', PList [fp_leg2, fp_leg1])] = Inr h"
proof -
  have "\<exists>h. compute_legs_fingerprint rev (\<lambda>_. []) [(''legs'', PList [fp_leg1, fp_leg2])] = Inr h"
    by (simp add: compute_legs_fingerprint_def dget_default_def fp_leg1_def fp_leg2_def normalized_leg_def)
  then show ?thesis using fingerprint_leg_order [where ls = "[fp_leg1, fp_leg2]" and ls' = "[fp_leg2, fp_leg1]"]
    by fastforce
qed

end
