(* ===== verification/Close_Math.thy ===== *)
theory Close_Math
  imports Py_Prelude
begin

section \<open>Realized P\&L of a close (services/close_math.py)\<close>

text \<open>
  Leg-level realized P\&L and the normalisation of broker fill payloads into close legs. A
  payload is a dictionary of dynamically typed values; every exception the code raises, and
  every one a conversion inside it raises, is a value of \<open>close_error\<close>. Legs that are no
  dictionaries fail in \<open>leg.get\<close>, as in the source.
\<close>

datatype close_error = PartialFillDetected | MalformedFillData | CloseExn pyexn

definition lift_exn :: "pyexn + 'a \<Rightarrow> close_error + 'a" where
  "lift_exn m = (case m of Inl e \<Rightarrow> Inl (CloseExn e) | Inr x \<Rightarrow> Inr x)"

lemma lift_exn_simps [simp]:
  "lift_exn (Inr x) = Inr x" "lift_exn (Inl e) = Inl (CloseExn e)"
  "lift_exn m = Inr x \<longleftrightarrow> m = Inr x"
  by (auto simp: lift_exn_def split: sum.splits)

lemma lift_exn_Inl [simp]: "lift_exn m = Inl e \<longleftrightarrow> (\<exists>x. m = Inl x \<and> e = CloseExn x)"
  by (auto simp: lift_exn_def split: sum.splits)

subsection \<open>Decimal arithmetic\<close>

fun dec_add :: "pynum \<Rightarrow> pynum \<Rightarrow> pyexn + pynum" where
  "dec_add (Fin a) (Fin b) = Inr (Fin (a + b))"
| "dec_add NaN _ = Inr NaN"
| "dec_add _ NaN = Inr NaN"
| "dec_add PInf NInf = Inl InvalidOperation"
| "dec_add NInf PInf = Inl InvalidOperation"
| "dec_add PInf _ = Inr PInf"
| "dec_add NInf _ = Inr NInf"
| "dec_add (Fin _) b = Inr b"

fun num_sign :: "pynum \<Rightarrow> rat" where
  "num_sign (Fin a) = sgn a"
| "num_sign PInf = 1"
| "num_sign NInf = - 1"
| "num_sign NaN = 0"

fun dec_mul :: "pynum \<Rightarrow> pynum \<Rightarrow> pyexn + pynum" where
  "dec_mul (Fin a) (Fin b) = Inr (Fin (a * b))"
| "dec_mul NaN _ = Inr NaN"
| "dec_mul _ NaN = Inr NaN"
| "dec_mul a b = (if num_sign a * num_sign b = 0 then Inl InvalidOperation
     else if 0 < num_sign a * num_sign b then Inr PInf else Inr NInf)"

fun dec_neg :: "pynum \<Rightarrow> pynum" where
  "dec_neg (Fin a) = Fin (- a)"
| "dec_neg PInf = NInf"
| "dec_neg NInf = PInf"
| "dec_neg NaN = NaN"

text \<open>Order comparison with NaN signals \<open>InvalidOperation\<close>; equality does not.\<close>

fun dec_lt :: "pynum \<Rightarrow> pynum \<Rightarrow> pyexn + bool" where
  "dec_lt NaN _ = Inl InvalidOperation"
| "dec_lt _ NaN = Inl InvalidOperation"
| "dec_lt (Fin a) (Fin b) = Inr (a < b)"
| "dec_lt NInf b = Inr (b \<noteq> NInf)"
| "dec_lt a PInf = Inr (a \<noteq> PInf)"
| "dec_lt _ _ = Inr False"

text \<open>\<open>quantize(Decimal("0.01"))\<close>: ties to even, and at most 28 significant digits.\<close>

fun quantize_cents :: "pynum \<Rightarrow> pyexn + pynum" where
  "quantize_cents (Fin x) =
     (if \<bar>round_half_even (100 * x)\<bar> < 10 ^ 28 then Inr (Fin (to_cents x)) else Inl InvalidOperation)"
| "quantize_cents NaN = Inr NaN"
| "quantize_cents _ = Inl InvalidOperation"

subsection \<open>The leg-level computation\<close>

definition sell_actions :: "string list" where
  "sell_actions = [''sell'', ''sell_to_open'', ''sell_to_close'', ''short'']"

definition buy_actions :: "string list" where
  "buy_actions = [''buy'', ''buy_to_open'', ''buy_to_close'', ''long'']"

definition leg_action :: "pydict \<Rightarrow> string option" where
  "leg_action leg = token_of (py_or (py_or (dget leg ''action'') (dget leg ''side'')) (PStr ''''))"

definition leg_sign :: "pydict \<Rightarrow> close_error + rat" where
  "leg_sign leg =
     (if token_in (leg_action leg) sell_actions then Inr 1
      else if token_in (leg_action leg) buy_actions then Inr (- 1)
      else Inl (CloseExn ValueError))"

definition as_decimal :: "pyval \<Rightarrow> close_error + pynum" where
  "as_decimal v = (if v = PNone then Inl (CloseExn ValueError) else lift_exn (py_dec v))"

definition check_leg_qty :: "pynum \<Rightarrow> pydict \<Rightarrow> close_error + unit" where
  "check_leg_qty expected leg =
     rbind (as_decimal (dget leg ''filled_qty''))
       (\<lambda>q. if num_eq q expected then Inr () else Inl PartialFillDetected)"

definition leg_close_cash :: "pynum \<Rightarrow> pydict \<Rightarrow> pynum \<Rightarrow> close_error + pynum" where
  "leg_close_cash mult leg acc =
     rbind (leg_sign leg) (\<lambda>sign.
     rbind (as_decimal (dget leg ''filled_avg_price'')) (\<lambda>price.
     rbind (as_decimal (dget leg ''filled_qty'')) (\<lambda>leg_qty.
     rbind (lift_exn (dec_mul (Fin sign) price)) (\<lambda>x.
     rbind (lift_exn (dec_mul x leg_qty)) (\<lambda>y.
     rbind (lift_exn (dec_mul y mult)) (\<lambda>z. lift_exn (dec_add acc z)))))))"

definition compute_realized_pl ::
    "pydict list \<Rightarrow> pyval \<Rightarrow> int \<Rightarrow> string \<Rightarrow> int \<Rightarrow> close_error + pynum" where
  "compute_realized_pl legs entry_price qty spread_type multiplier =
     (if legs = [] then Inl (CloseExn ValueError)
      else if qty \<le> 0 then Inl (CloseExn ValueError)
      else
        (let expected = Fin (of_int qty); mult = Fin (of_int multiplier)
         in rbind (rmap (check_leg_qty expected) legs) (\<lambda>_.
            rbind (as_decimal entry_price) (\<lambda>entry.
            rbind (lift_exn (dec_mul entry expected)) (\<lambda>e1.
            rbind (lift_exn (dec_mul e1 mult)) (\<lambda>e2.
            rbind (if spread_type = ''debit'' then Inr (dec_neg e2)
                   else if spread_type = ''credit'' then Inr e2
                   else Inl (CloseExn ValueError)) (\<lambda>entry_cash.
            rbind (rfold (leg_close_cash mult) legs (Fin 0)) (\<lambda>close_cash.
            rbind (lift_exn (dec_add entry_cash close_cash)) (\<lambda>total.
              lift_exn (quantize_cents total))))))))))"

subsection \<open>Extracting close legs from a broker payload\<close>

definition leg_fill :: "pyval \<Rightarrow> pyval \<Rightarrow> pyval \<Rightarrow> pyval \<Rightarrow> pydict" where
  "leg_fill symbol action qty price =
     [(''symbol'', symbol), (''action'', action), (''filled_qty'', qty), (''filled_avg_price'', price)]"

fun any_zero_qty :: "pyval list \<Rightarrow> pyexn + bool" where
  "any_zero_qty [] = Inr False"
| "any_zero_qty (q # qs) =
     rbind (py_dec q) (\<lambda>d. if num_eq d (Fin 0) then Inr True else any_zero_qty qs)"

text \<open>A set of decimals has one element exactly when neighbours are equal (NaN equals nothing).\<close>

fun all_equal_nums :: "pynum list \<Rightarrow> bool" where
  "all_equal_nums (x # y # zs) = (num_eq x y \<and> all_equal_nums (y # zs))"
| "all_equal_nums _ = True"

definition canonical_leg :: "pydict \<Rightarrow> close_error + pydict" where
  "canonical_leg leg =
     (if dget leg ''filled_avg_price'' = PNone then Inl PartialFillDetected
      else
        (let action = py_or (dget leg ''action'') (dget leg ''side'')
         in if \<not> truthy action then Inl MalformedFillData
            else Inr (leg_fill (dget leg ''symbol'') action (dget leg ''filled_qty'')
                        (dget leg ''filled_avg_price''))))"

definition leg_as_dict :: "pyval \<Rightarrow> close_error + pydict" where
  "leg_as_dict v = (case as_dict v of None \<Rightarrow> Inl (CloseExn AttributeError) | Some d \<Rightarrow> Inr d)"

definition iterate_legs :: "pyval \<Rightarrow> close_error + pydict list" where
  "iterate_legs legs =
     (case legs of PList vs \<Rightarrow> rmap leg_as_dict vs
      | PStr _ \<Rightarrow> Inl (CloseExn AttributeError)
      | PDict _ \<Rightarrow> Inl (CloseExn AttributeError)
      | _ \<Rightarrow> Inl (CloseExn TypeError))"

definition check_parent_qty :: "pydict \<Rightarrow> pynum \<Rightarrow> close_error + unit" where
  "check_parent_qty source leg_qty =
     (let pq = dget source ''filled_qty''
      in if pq = PNone then Inr ()
         else rbind (lift_exn (py_dec pq)) (\<lambda>p.
              rbind (lift_exn (dec_lt (Fin 0) p)) (\<lambda>pos.
                if pos \<and> \<not> num_eq leg_qty p then Inl PartialFillDetected else Inr ())))"

definition extract_from_legs :: "pydict \<Rightarrow> pyval \<Rightarrow> close_error + pydict list" where
  "extract_from_legs source legs_value =
     rbind (iterate_legs legs_value) (\<lambda>legs.
       (let qtys = map (\<lambda>l. dget l ''filled_qty'') legs
        in if PNone \<in> set qtys then Inl PartialFillDetected
           else rbind (lift_exn (any_zero_qty qtys)) (\<lambda>zero.
             if zero then Inl PartialFillDetected
             else rbind (lift_exn (rmap py_dec qtys)) (\<lambda>ds.
               if \<not> all_equal_nums ds then Inl PartialFillDetected
               else rbind (check_parent_qty source (hd ds)) (\<lambda>_. rmap canonical_leg legs)))))"

definition synthesize_single_leg :: "pydict \<Rightarrow> close_error + pydict list" where
  "synthesize_single_leg source =
     (let symbol = dget source ''symbol'';
          side = py_or (dget source ''side'') (dget source ''action'');
          filled_qty = dget source ''filled_qty'';
          filled_avg = dget source ''filled_avg_price'';
          qty = dget source ''qty''
      in if \<not> truthy symbol \<or> \<not> truthy side then Inl MalformedFillData
         else if filled_qty = PNone then Inl PartialFillDetected
         else rbind (lift_exn (py_dec filled_qty)) (\<lambda>f.
           if num_eq f (Fin 0) then Inl PartialFillDetected
           else if filled_avg = PNone then Inl PartialFillDetected
           else rbind (if qty = PNone then Inr False
                       else rbind (lift_exn (py_dec qty)) (\<lambda>q. lift_exn (dec_lt f q))) (\<lambda>partial.
             if partial then Inl PartialFillDetected
             else Inr [leg_fill symbol side filled_qty filled_avg])))"

definition extract_close_legs :: "pyval \<Rightarrow> close_error + pydict list" where
  "extract_close_legs source =
     (case source of
        PDict d \<Rightarrow>
          (if truthy (dget d ''legs'') then extract_from_legs d (dget d ''legs'')
           else synthesize_single_leg d)
      | _ \<Rightarrow> Inl MalformedFillData)"

lemmas close_math_defs = leg_action_def leg_sign_def as_decimal_def check_leg_qty_def
  leg_close_cash_def compute_realized_pl_def sell_actions_def buy_actions_def

lemmas extract_defs = extract_close_legs_def extract_from_legs_def synthesize_single_leg_def
  canonical_leg_def iterate_legs_def leg_as_dict_def check_parent_qty_def leg_fill_def

subsection \<open>What the computation returns\<close>

text \<open>
  A leg as the formula sees it: its fill quantity is the position quantity, its action is
  recognised and its price is a finite number. \<open>signed_price\<close> is its contribution per
  contract and share: positive for a sale.
\<close>

definition leg_fill_ok :: "int \<Rightarrow> pydict \<Rightarrow> bool" where
  "leg_fill_ok qty leg \<longleftrightarrow> as_decimal (dget leg ''filled_qty'') = Inr (Fin (of_int qty))
     \<and> \<not> isl (leg_sign leg)
     \<and> (case as_decimal (dget leg ''filled_avg_price'') of Inl _ \<Rightarrow> False | Inr p \<Rightarrow> is_finite p)"

fun fin_val :: "pynum \<Rightarrow> rat" where
  "fin_val (Fin q) = q"
| "fin_val _ = 0"

definition signed_price :: "pydict \<Rightarrow> rat" where
  "signed_price leg =
     (if token_in (leg_action leg) sell_actions then 1 else - 1) * fin_val (projr (as_decimal (dget leg ''filled_avg_price'')))"

lemma leg_close_cash_ok:
  assumes "leg_fill_ok qty leg"
  shows "leg_close_cash (Fin m) leg (Fin a) = Inr (Fin (a + signed_price leg * of_int qty * m))"
  using assms
  by (auto simp: leg_fill_ok_def leg_close_cash_def signed_price_def leg_sign_def is_finite_iff split: sum.splits if_splits)

lemma close_cash_sum:
  assumes "\<forall>l \<in> set legs. leg_fill_ok qty l"
  shows "rfold (leg_close_cash (Fin m)) legs (Fin a)
    = Inr (Fin (a + (\<Sum>l\<leftarrow>legs. signed_price l) * of_int qty * m))"
  using assms
proof (induction legs arbitrary: a)
  case (Cons l ls)
  then have "leg_close_cash (Fin m) l (Fin a) = Inr (Fin (a + signed_price l * of_int qty * m))"
    by (intro leg_close_cash_ok) simp
  with Cons show ?case by (simp add: algebra_simps)
qed simp

lemma check_leg_qty_ok:
  "\<forall>l \<in> set legs. leg_fill_ok qty l \<Longrightarrow> \<exists>us. rmap (check_leg_qty (Fin (of_int qty))) legs = Inr us"
  by (rule rmap_Inr_total) (auto simp: check_leg_qty_def leg_fill_ok_def)

definition entry_sign :: "string \<Rightarrow> rat" where
  "entry_sign spread_type = (if spread_type = ''debit'' then - 1 else 1)"

definition realized_total :: "pydict list \<Rightarrow> rat \<Rightarrow> int \<Rightarrow> string \<Rightarrow> int \<Rightarrow> rat" where
  "realized_total legs entry qty spread_type multiplier =
     (entry_sign spread_type * entry + (\<Sum>l\<leftarrow>legs. signed_price l)) * of_int qty * of_int multiplier"

lemma realized_pl_formula:
  assumes "legs \<noteq> []" and "0 < qty" and "\<forall>l \<in> set legs. leg_fill_ok qty l"
    and "as_decimal entry_price = Inr (Fin e)"
    and "spread_type = ''debit'' \<or> spread_type = ''credit''"
    and "\<bar>round_half_even (100 * realized_total legs e qty spread_type multiplier)\<bar> < 10 ^ 28"
  shows "compute_realized_pl legs entry_price qty spread_type multiplier
    = Inr (Fin (to_cents (realized_total legs e qty spread_type multiplier)))"
proof -
  obtain us where "rmap (check_leg_qty (Fin (of_int qty))) legs = Inr us"
    using check_leg_qty_ok [OF assms(3)] ..
  moreover have "realized_total legs e qty spread_type multiplier
      = entry_sign spread_type * (e * of_int qty * of_int multiplier)
        + (\<Sum>l\<leftarrow>legs. signed_price l) * of_int qty * of_int multiplier"
    by (simp add: realized_total_def algebra_simps)
  ultimately show ?thesis
    using assms by (auto simp: compute_realized_pl_def entry_sign_def close_cash_sum Let_def)
qed

text \<open>
  C5 (functional). For an all-or-nothing close the result is the canonical formula, rounded to
  cents half-even: the signed entry premium plus the signed leg prices, times quantity and
  multiplier. The hypothesis on the size is the 28-digit limit of \<open>quantize\<close>.
\<close>

theorem realized_pl_canonical:
  assumes "legs \<noteq> []" and "0 < qty" and "\<forall>l \<in> set legs. leg_fill_ok qty l"
    and "as_decimal entry_price = Inr (Fin e)"
    and "spread_type = ''debit'' \<or> spread_type = ''credit''"
    and "\<bar>round_half_even (100 * realized_total legs e qty spread_type multiplier)\<bar> < 10 ^ 28"
  shows "\<exists>pl. compute_realized_pl legs entry_price qty spread_type multiplier = Inr (Fin pl)
    \<and> pl = to_cents (realized_total legs e qty spread_type multiplier)
    \<and> \<bar>pl - realized_total legs e qty spread_type multiplier\<bar> \<le> 1/200"
  using realized_pl_formula [OF assms] to_cents_error by blast

definition pypl_legs :: "pydict list" where
  "pypl_legs = [[(''action'', PStr ''sell''), (''filled_qty'', PInt 6), (''filled_avg_price'', PDec (Fin (505/100)))],
                [(''action'', PStr ''buy''), (''filled_qty'', PInt 6), (''filled_avg_price'', PDec (Fin (245/100)))]]"

lemma pypl_leg_ok: "\<forall>l \<in> set pypl_legs. leg_fill_ok 6 l"
  by (auto simp: pypl_legs_def leg_fill_ok_def close_math_defs py_defs)

lemma pypl_total: "realized_total pypl_legs (294/100) 6 ''debit'' 100 = - 204"
  by (simp add: realized_total_def entry_sign_def signed_price_def pypl_legs_def close_math_defs py_defs)

text \<open>The reference case of the source: a $2.94 debit spread of 6, closed at 5.05 and 2.45, loses $204.\<close>

theorem realized_pl_canonical_witness:
  "compute_realized_pl pypl_legs (PDec (Fin (294/100))) 6 ''debit'' 100 = Inr (Fin (- 204))"
proof -
  have r: "round_half_even (100 * (- 204)) = - 20400"
    using round_half_even_of_int [of "- 20400"] by simp
  have "\<exists>pl. compute_realized_pl pypl_legs (PDec (Fin (294/100))) 6 ''debit'' 100 = Inr (Fin pl)
      \<and> pl = to_cents (realized_total pypl_legs (294/100) 6 ''debit'' 100)
      \<and> \<bar>pl - realized_total pypl_legs (294/100) 6 ''debit'' 100\<bar> \<le> 1/200"
  proof (rule realized_pl_canonical [OF _ _ pypl_leg_ok])
    show "\<bar>round_half_even (100 * realized_total pypl_legs (294/100) 6 ''debit'' 100)\<bar> < 10 ^ 28"
      unfolding pypl_total r by simp
  qed (simp_all add: pypl_legs_def as_decimal_def)
  moreover have "to_cents (- 204) = - 204" using to_cents_exact [of "- 204" "- 20400"] by simp
  ultimately show ?thesis unfolding pypl_total by auto
qed

lemma realized_pl_complete:
  assumes "compute_realized_pl legs entry_price qty spread_type multiplier = Inr pl"
  shows "legs \<noteq> [] \<and> 0 < qty \<and> (spread_type = ''debit'' \<or> spread_type = ''credit'') \<and>
    (\<forall>l \<in> set legs. as_decimal (dget l ''filled_qty'') = Inr (Fin (of_int qty)) \<and> \<not> isl (leg_sign l))"
proof -
  from assms have ne: "legs \<noteq> []" and q: "0 < qty"
    and sp: "spread_type = ''debit'' \<or> spread_type = ''credit''"
    by (auto simp: compute_realized_pl_def rbind_Inr_iff Let_def split: if_splits)
  from assms ne q obtain us c where us: "rmap (check_leg_qty (Fin (of_int qty))) legs = Inr us"
    and c: "rfold (leg_close_cash (Fin (of_int multiplier))) legs (Fin 0) = Inr c"
    by (auto simp: compute_realized_pl_def rbind_Inr_iff Let_def split: if_splits)
  have qty_eq: "as_decimal (dget l ''filled_qty'') = Inr (Fin (of_int qty))" if l: "l \<in> set legs" for l
  proof -
    from rmap_Inr_preD [OF us l] obtain x where "as_decimal (dget l ''filled_qty'') = Inr x"
      and "num_eq x (Fin (of_int qty))" by (auto simp: check_leg_qty_def rbind_Inr_iff split: if_splits)
    then show ?thesis by (cases x) auto
  qed
  have "\<not> isl (leg_sign l)" if "rfold (leg_close_cash m) ls a = Inr b" "l \<in> set ls" for ls l m a b
    using that by (induction ls arbitrary: a) (auto simp: rbind_Inr_iff leg_close_cash_def)
  with c qty_eq ne q sp show ?thesis by blast
qed

text \<open>
  A close is never booked on a partial fill: whenever a P\&L is returned, the
  quantity was positive, there was a leg, every leg's filled quantity equalled the position
  quantity and every leg's action was a known buy or sell.
\<close>

theorem realized_pl_all_or_nothing:
  assumes "compute_realized_pl legs entry_price qty spread_type multiplier = Inr pl"
  shows "legs \<noteq> [] \<and> 0 < qty \<and> (spread_type = ''debit'' \<or> spread_type = ''credit'') \<and>
    (\<forall>l \<in> set legs. as_decimal (dget l ''filled_qty'') = Inr (Fin (of_int qty)) \<and> \<not> isl (leg_sign l))"
  using assms by (rule realized_pl_complete)

theorem realized_pl_all_or_nothing_witness:
  "as_decimal (dget (hd pypl_legs) ''filled_qty'') = Inr (Fin (of_int 6)) \<and> \<not> isl (leg_sign (hd pypl_legs))"
proof -
  have "compute_realized_pl pypl_legs (PInt 3) 6 ''debit'' 100 = Inr (Fin (to_cents (realized_total pypl_legs 3 6 ''debit'' 100)))"
    by (rule realized_pl_formula [OF _ _ pypl_leg_ok])
       (simp_all add: as_decimal_def realized_total_def entry_sign_def signed_price_def pypl_legs_def
          close_math_defs py_defs round_half_even_def)
  from realized_pl_all_or_nothing [OF this] show ?thesis by simp
qed

subsection \<open>What extraction guarantees\<close>

lemma any_zero_qty_False:
  "any_zero_qty qs = Inr False \<Longrightarrow> q \<in> set qs \<Longrightarrow> \<exists>d. py_dec q = Inr d \<and> d \<noteq> Fin 0"
  by (induction qs) (auto simp: rbind_Inr_iff split: if_splits)

lemma all_equal_nums_hd:
  "all_equal_nums xs \<Longrightarrow> x \<in> set xs \<Longrightarrow> 1 < length xs \<Longrightarrow> num_eq (hd xs) x \<and> is_finite x = is_finite (hd xs)"
proof (induction xs rule: all_equal_nums.induct)
  case (1 u v zs)
  have tr: "num_eq a c \<and> is_finite c = is_finite a" if "num_eq a b" "num_eq b c" "is_finite c = is_finite b" for a b c
    using that by (cases a; cases b; cases c) auto
  have sym: "num_eq u u \<and> is_finite v = is_finite u" using "1.prems"(1) by (cases u; cases v) auto
  from "1.prems" have uv: "num_eq u v" and rest: "all_equal_nums (v # zs)" by auto
  show ?case
  proof (cases "x = u")
    case True
    with sym show ?thesis by simp
  next
    case False
    with "1.prems" have xin: "x \<in> set (v # zs)" by auto
    show ?thesis
    proof (cases zs)
      case Nil
      with xin uv sym show ?thesis by auto
    next
      case (Cons z zs')
      with "1.IH" rest xin have "num_eq v x \<and> is_finite x = is_finite v" by auto
      with tr [OF uv] sym show ?thesis by auto
    qed
  qed
qed auto

lemma canonical_leg_Inr:
  "canonical_leg l = Inr r \<Longrightarrow> dget r ''filled_qty'' = dget l ''filled_qty''
     \<and> dget r ''filled_avg_price'' \<noteq> PNone \<and> truthy (dget r ''action'')"
  by (auto simp: canonical_leg_def leg_fill_def dget_def Let_def split: if_splits)

text \<open>
  Extraction hands on only complete fills: there is at least one leg, every
  leg has a readable non-zero filled quantity, a price and an action, and on a multi-leg
  order all legs filled the same quantity.
\<close>

theorem extracted_legs_complete:
  assumes "extract_close_legs source = Inr legs"
  shows "legs \<noteq> [] \<and>
    (\<forall>l \<in> set legs. \<exists>d. py_dec (dget l ''filled_qty'') = Inr d \<and> d \<noteq> Fin 0
       \<and> dget l ''filled_avg_price'' \<noteq> PNone \<and> truthy (dget l ''action'')) \<and>
    (\<forall>l \<in> set legs. \<forall>l' \<in> set legs. 1 < length legs \<longrightarrow>
       num_eq (projr (py_dec (dget l ''filled_qty''))) (projr (py_dec (dget l' ''filled_qty''))))"
proof -
  from assms obtain d where src: "source = PDict d" by (auto simp: extract_close_legs_def split: pyval.splits)
  show ?thesis
  proof (cases "truthy (dget d ''legs'')")
    case False
    with assms src show ?thesis
      by (auto simp: extract_close_legs_def synthesize_single_leg_def rbind_Inr_iff leg_fill_def Let_def
          dget_def split: if_splits)
  next
    case True
    with assms src obtain ls ds where it: "iterate_legs (dget d ''legs'') = Inr ls"
      and z: "any_zero_qty (map (\<lambda>l. dget l ''filled_qty'') ls) = Inr False"
      and ds: "rmap py_dec (map (\<lambda>l. dget l ''filled_qty'') ls) = Inr ds"
      and eq: "all_equal_nums ds" and can: "rmap canonical_leg ls = Inr legs"
      by (auto simp: extract_close_legs_def extract_from_legs_def rbind_Inr_iff Let_def split: if_splits)
    have "ls \<noteq> []"
      using it True by (auto simp: iterate_legs_def rbind_Inr_iff split: pyval.splits dest: rmap_Inr_length)
    then have ne: "legs \<noteq> []" using rmap_Inr_length [OF can] by auto
    have len: "length ds = length legs" using rmap_Inr_length [OF ds] rmap_Inr_length [OF can] by simp
    have each: "(\<exists>q. py_dec (dget l ''filled_qty'') = Inr q \<and> q \<noteq> Fin 0 \<and> q \<in> set ds)
        \<and> dget l ''filled_avg_price'' \<noteq> PNone \<and> truthy (dget l ''action'')" if l: "l \<in> set legs" for l
    proof -
      obtain l0 where l0: "l0 \<in> set ls" "canonical_leg l0 = Inr l" using rmap_Inr_setD [OF can l] by blast
      have "\<exists>q. py_dec (dget l0 ''filled_qty'') = Inr q \<and> q \<noteq> Fin 0"
        using any_zero_qty_False [OF z] l0(1) by auto
      moreover have "\<exists>q \<in> set ds. py_dec (dget l0 ''filled_qty'') = Inr q"
        using rmap_Inr_preD [OF ds] l0(1) by auto
      ultimately show ?thesis using canonical_leg_Inr [OF l0(2)] by auto
    qed
    have num: "num_eq x y" if "x \<in> set ds" "y \<in> set ds" "1 < length ds" for x y
      using all_equal_nums_hd [OF eq that(1) that(3)] all_equal_nums_hd [OF eq that(2) that(3)]
      by (cases "hd ds"; cases x; cases y) auto
    show ?thesis using ne each num len by (metis projr_def sum.case(2) sum.sel(2))
  qed
qed

definition single_payload :: pyval where
  "single_payload = PDict [(''symbol'', PStr ''O:SPY260116C00500000''), (''side'', PStr ''sell''),
     (''filled_qty'', PInt 2), (''filled_avg_price'', PDec (Fin (3/2))), (''qty'', PInt 2)]"

theorem extracted_legs_complete_witness:
  "\<exists>legs. extract_close_legs single_payload = Inr legs \<and> legs \<noteq> []"
proof -
  have "\<exists>legs. extract_close_legs single_payload = Inr legs"
    by (simp add: single_payload_def extract_defs py_defs)
  then show ?thesis using extracted_legs_complete by blast
qed

end
