(* ===== verification/Position_Ledger.thy ===== *)
theory Position_Ledger
  imports Py_Prelude
begin

section \<open>The position ledger (services/position_ledger_service.py)\<close>

text \<open>
  Fills are booked into groups (strategies), legs, fills and an append-only event log. The
  four tables are lists of rows in insertion order; a new row's id comes from a counter, which
  stands for the database's \<open>gen_random_uuid()\<close>: it is never one in use. The two unique
  indexes of the schema (a broker execution id per user, an event key per user) reject an
  insert, which the service sees as an exception. \<open>record_fill\<close> catches every exception and
  returns a failure, and what was written before it stays written.
\<close>

datatype fill_action = BUY | SELL
datatype leg_side = LONG | SHORT
datatype group_status = OPEN | CLOSED

record pgroup =
  g_id :: nat
  g_user :: string
  g_underlying :: string
  g_fingerprint :: "string option"
  g_strategy_key :: "string option"
  g_status :: group_status
  g_fees :: rat
  g_realized :: "rat option"
  g_closed_at :: "string option"

record pleg =
  l_id :: nat
  l_group :: nat
  l_user :: string
  l_symbol :: string
  l_underlying :: string
  l_right :: string
  l_strike :: "rat option"
  l_expiry :: "string option"
  l_mult :: int
  l_side :: leg_side
  l_opened :: int
  l_closed :: int
  l_avg_open :: "rat option"
  l_avg_close :: "rat option"

record pfill =
  f_id :: nat
  f_user :: string
  f_group :: nat
  f_leg :: nat
  f_exec :: "string option"
  f_broker :: "string option"
  f_action :: fill_action
  f_side :: leg_side
  f_qty :: int
  f_price :: rat
  f_fee :: rat
  f_filled_at :: string
  f_source :: string

record pevent =
  e_id :: nat
  e_user :: string
  e_group :: nat
  e_fill :: nat
  e_leg :: nat
  e_type :: string
  e_cash :: rat
  e_qty :: int
  e_key :: "string option"

record ledger =
  groups :: "pgroup list"
  legs :: "pleg list"
  fills :: "pfill list"
  events :: "pevent list"
  next_id :: nat

text \<open>The payload, with the documented types; \<open>None\<close> is an absent field.\<close>

record fill_data =
  fd_symbol :: "string option"
  fd_underlying :: "string option"
  fd_action :: "string option"
  fd_side :: "string option"
  fd_qty :: int
  fd_price :: rat
  fd_price_text :: string
  fd_fee :: rat
  fd_filled_at :: "string option"
  fd_broker :: "string option"
  fd_right :: "string option"
  fd_strike :: "rat option"
  fd_expiry :: "string option"
  fd_mult :: "int option"

record fill_context =
  c_fingerprint :: "string option"
  c_strategy_key :: "string option"
  c_source :: "string option"

datatype fill_error = SymbolRequired | QtyNotPositive | BadAction | DbError | MissingKey

type_synonym closed_part = "nat \<times> nat \<times> nat \<times> nat \<times> group_status \<times> int"

datatype fill_outcome =
    Failed fill_error
  | DedupEvent nat nat
  | DedupFill nat nat nat
  | Recorded nat nat nat nat group_status
  | OverClosed "closed_part option" "fill_outcome option"

subsection \<open>Database actions\<close>

type_synonym 'a act = "ledger \<Rightarrow> (fill_error + 'a) \<times> ledger"

definition areturn :: "'a \<Rightarrow> 'a act" where
  "areturn x s = (Inr x, s)"

definition abind :: "'a act \<Rightarrow> ('a \<Rightarrow> 'b act) \<Rightarrow> 'b act" where
  "abind m f s = (case m s of (Inl e, t) \<Rightarrow> (Inl e, t) | (Inr x, t) \<Rightarrow> f x t)"

lemma areturn_simp [simp]: "areturn x s = (Inr x, s)"
  by (simp add: areturn_def)

lemma abind_eq: "m s = (Inr x, t) \<Longrightarrow> abind m f s = f x t"
  by (simp add: abind_def)

lemma abind_Inr_iff:
  "abind m f s = (Inr y, u) \<longleftrightarrow> (\<exists>x t. m s = (Inr x, t) \<and> f x t = (Inr y, u))"
  by (auto simp: abind_def split: prod.splits sum.splits)

lemma abind_inv:
  assumes "abind m f s = (r, u)"
    and "\<And>r t. m s = (r, t) \<Longrightarrow> P t"
    and "\<And>x t r u. m s = (Inr x, t) \<Longrightarrow> f x t = (r, u) \<Longrightarrow> P t \<Longrightarrow> P u"
  shows "P u"
  using assms by (fastforce simp: abind_def split: prod.splits sum.splits)

definition some_text :: "string option \<Rightarrow> bool" where
  "some_text v \<longleftrightarrow> v \<noteq> None \<and> v \<noteq> Some []"

definition text_or :: "string option \<Rightarrow> string \<Rightarrow> string" where
  "text_or v d = (if some_text v then the v else d)"

definition extract_underlying :: "string option \<Rightarrow> string" where
  "extract_underlying symbol =
     (if \<not> some_text symbol then ''UNKNOWN''
      else (let s = the symbol
            in if 10 < length s \<and> list_ex is_digit s
               then (let u = takeWhile is_alpha s in if u = [] then s else u)
               else s))"

definition find_open_group :: "(pgroup \<Rightarrow> bool) \<Rightarrow> string \<Rightarrow> ledger \<Rightarrow> pgroup option" where
  "find_open_group P user s = find (\<lambda>g. g_user g = user \<and> P g \<and> g_status g = OPEN) (groups s)"

definition create_group ::
    "string \<Rightarrow> string \<Rightarrow> string option \<Rightarrow> string option \<Rightarrow> pgroup act" where
  "create_group user underlying fp sk s =
     (let g = \<lparr>g_id = next_id s, g_user = user, g_underlying = underlying, g_fingerprint = fp,
               g_strategy_key = sk, g_status = OPEN, g_fees = 0, g_realized = None, g_closed_at = None\<rparr>
      in (Inr g, s\<lparr>groups := groups s @ [g], next_id := Suc (next_id s)\<rparr>))"

definition find_or_create_group ::
    "string \<Rightarrow> string \<Rightarrow> string option \<Rightarrow> string option \<Rightarrow> pgroup act" where
  "find_or_create_group user underlying fp sk s =
     (case (if some_text fp then find_open_group (\<lambda>g. g_fingerprint g = fp) user s else None) of
        Some g \<Rightarrow> (Inr g, s)
      | None \<Rightarrow>
          (case (if some_text sk
                 then find_open_group (\<lambda>g. g_strategy_key g = sk \<and> g_underlying g = underlying) user s
                 else None) of
             Some g \<Rightarrow> (Inr g, s)
           | None \<Rightarrow> create_group user underlying fp sk s))"

definition side_of_first :: "fill_action \<Rightarrow> leg_side" where
  "side_of_first a = (if a = BUY then LONG else SHORT)"

definition find_or_create_leg ::
    "nat \<Rightarrow> string \<Rightarrow> string \<Rightarrow> string \<Rightarrow> string \<Rightarrow> rat option \<Rightarrow> string option \<Rightarrow> int
     \<Rightarrow> fill_action \<Rightarrow> (pleg \<times> bool) act" where
  "find_or_create_leg gid user symbol underlying right strike expiry mult action s =
     (case find (\<lambda>l. l_group l = gid \<and> l_symbol l = symbol) (legs s) of
        Some l \<Rightarrow> (Inr (l, False), s)
      | None \<Rightarrow>
          (let l = \<lparr>l_id = next_id s, l_group = gid, l_user = user, l_symbol = symbol,
                    l_underlying = underlying, l_right = right,
                    l_strike = (if strike = Some 0 then None else strike), l_expiry = expiry,
                    l_mult = mult, l_side = side_of_first action, l_opened = 0, l_closed = 0,
                    l_avg_open = None, l_avg_close = None\<rparr>
           in (Inr (l, True), s\<lparr>legs := legs s @ [l], next_id := Suc (next_id s)\<rparr>)))"

fun is_opening_fill :: "leg_side \<Rightarrow> fill_action \<Rightarrow> bool" where
  "is_opening_fill LONG a = (a = BUY)"
| "is_opening_fill SHORT a = (a = SELL)"

definition insert_fill ::
    "string \<Rightarrow> nat \<Rightarrow> nat \<Rightarrow> string option \<Rightarrow> string option \<Rightarrow> fill_action \<Rightarrow> leg_side \<Rightarrow> int
     \<Rightarrow> rat \<Rightarrow> rat \<Rightarrow> string \<Rightarrow> string \<Rightarrow> nat act" where
  "insert_fill user gid lid te broker action side qty price fee filled_at source s =
     (if broker \<noteq> None \<and> (\<exists>f \<in> set (fills s). f_user f = user \<and> f_broker f = broker) then (Inl DbError, s)
      else (Inr (next_id s),
        s\<lparr>fills := fills s @ [\<lparr>f_id = next_id s, f_user = user, f_group = gid, f_leg = lid, f_exec = te,
            f_broker = broker, f_action = action, f_side = side, f_qty = qty, f_price = price,
            f_fee = fee, f_filled_at = filled_at, f_source = source\<rparr>],
          next_id := Suc (next_id s)\<rparr>))"

definition weighted_avg :: "int \<Rightarrow> rat option \<Rightarrow> int \<Rightarrow> rat \<Rightarrow> rat" where
  "weighted_avg n avg qty price =
     (if n = 0 then price
      else ((case avg of None \<Rightarrow> 0 | Some a \<Rightarrow> a) * of_int n + price * of_int qty) / of_int (n + qty))"

definition bump_leg :: "int \<Rightarrow> rat \<Rightarrow> bool \<Rightarrow> pleg \<Rightarrow> pleg" where
  "bump_leg qty price is_opening l =
     (if is_opening
      then l\<lparr>l_opened := l_opened l + qty, l_avg_open := Some (weighted_avg (l_opened l) (l_avg_open l) qty price)\<rparr>
      else l\<lparr>l_closed := l_closed l + qty, l_avg_close := Some (weighted_avg (l_closed l) (l_avg_close l) qty price)\<rparr>)"

definition update_leg_quantities :: "nat \<Rightarrow> int \<Rightarrow> rat \<Rightarrow> bool \<Rightarrow> unit act" where
  "update_leg_quantities lid qty price is_opening s =
     (case find (\<lambda>l. l_id l = lid) (legs s) of
        None \<Rightarrow> (Inl DbError, s)
      | Some l \<Rightarrow> (Inr (), s\<lparr>legs := update_rows (\<lambda>x. l_id x = lid) (\<lambda>_. bump_leg qty price is_opening l) (legs s)\<rparr>))"

definition compute_cash_impact :: "fill_action \<Rightarrow> int \<Rightarrow> rat \<Rightarrow> rat \<Rightarrow> int \<Rightarrow> rat" where
  "compute_cash_impact action qty price fee mult =
     (let notional = price * of_int qty * of_int mult
      in if action = BUY then - (notional + fee) else notional - fee)"

definition insert_event ::
    "string \<Rightarrow> nat \<Rightarrow> nat \<Rightarrow> nat \<Rightarrow> string \<Rightarrow> rat \<Rightarrow> int \<Rightarrow> string option \<Rightarrow> nat act" where
  "insert_event user gid fid lid ty cash qty key s =
     (if key \<noteq> None \<and> (\<exists>e \<in> set (events s). e_user e = user \<and> e_key e = key) then (Inl DbError, s)
      else (Inr (next_id s),
        s\<lparr>events := events s @ [\<lparr>e_id = next_id s, e_user = user, e_group = gid, e_fill = fid, e_leg = lid,
            e_type = ty, e_cash = cash, e_qty = qty, e_key = key\<rparr>], next_id := Suc (next_id s)\<rparr>))"

definition update_group_stats :: "nat \<Rightarrow> rat \<Rightarrow> rat option \<Rightarrow> unit act" where
  "update_group_stats gid fee realized s =
     (case find (\<lambda>g. g_id g = gid) (groups s) of
        None \<Rightarrow> (Inl DbError, s)
      | Some g \<Rightarrow> (Inr (), s\<lparr>groups := update_rows (\<lambda>x. g_id x = gid)
          (\<lambda>x. x\<lparr>g_fees := g_fees g + fee,
                 g_realized := (case realized of None \<Rightarrow> g_realized x
                    | Some r \<Rightarrow> Some ((case g_realized g of None \<Rightarrow> 0 | Some p \<Rightarrow> p) + r))\<rparr>) (groups s)\<rparr>))"

definition check_and_close_group :: "string \<Rightarrow> nat \<Rightarrow> group_status act" where
  "check_and_close_group now gid s =
     (if \<exists>l \<in> set (legs s). l_group l = gid \<and> 0 < l_opened l - l_closed l then (Inr OPEN, s)
      else (Inr CLOSED, s\<lparr>groups := update_rows (\<lambda>x. g_id x = gid)
              (\<lambda>x. x\<lparr>g_status := CLOSED, g_closed_at := Some now\<rparr>) (groups s)\<rparr>))"

definition build_event_key ::
    "string option \<Rightarrow> string \<Rightarrow> fill_action \<Rightarrow> string \<Rightarrow> int \<Rightarrow> string \<Rightarrow> string option" where
  "build_event_key te symbol action filled_at qty price_text =
     (if some_text te
      then Some (''fill:'' @ the te @ '':'' @ symbol @ '':''
             @ (case action of BUY \<Rightarrow> ''BUY'' | SELL \<Rightarrow> ''SELL'') @ '':'' @ filled_at @ '':''
             @ str_of_int qty @ '':'' @ price_text)
      else None)"

text \<open>Steps 5 to 9 of \<open>record_fill\<close>, which \<open>_handle_over_close\<close> repeats for the closing part.\<close>

definition book_fill ::
    "string \<Rightarrow> string \<Rightarrow> nat \<Rightarrow> pleg \<Rightarrow> string option \<Rightarrow> string option \<Rightarrow> fill_action \<Rightarrow> int \<Rightarrow> rat \<Rightarrow> rat
     \<Rightarrow> string \<Rightarrow> string \<Rightarrow> int \<Rightarrow> bool \<Rightarrow> string option \<Rightarrow> (nat \<times> nat \<times> group_status) act" where
  "book_fill now user gid leg te broker action qty price fee filled_at source mult is_opening key =
     abind (insert_fill user gid (l_id leg) te broker action (l_side leg) qty price fee filled_at source) (\<lambda>fid.
     abind (update_leg_quantities (l_id leg) qty price is_opening) (\<lambda>_.
     (let cash = compute_cash_impact action qty price fee mult;
          qty_delta = (if action = BUY then qty else - qty)
      in abind (insert_event user gid fid (l_id leg) ''FILL'' cash qty_delta key) (\<lambda>eid.
         abind (update_group_stats gid fee (if is_opening then None else Some cash)) (\<lambda>_.
         abind (check_and_close_group now gid) (\<lambda>st. areturn (fid, eid, st)))))))"

subsection \<open>Recording a fill\<close>

type_synonym recorder = "fill_data \<Rightarrow> fill_context \<Rightarrow> ledger \<Rightarrow> fill_outcome \<times> ledger"

definition has_all_ids :: "fill_outcome \<Rightarrow> bool" where
  "has_all_ids r = (case r of Recorded _ _ _ _ _ \<Rightarrow> True | OverClosed _ _ \<Rightarrow> True | _ \<Rightarrow> False)"

text \<open>
  Without a closing part the combined result reads the ids of the opening part's result; a
  failure or a deduplicated result has not all of them, and the \<open>KeyError\<close> is the failure.
\<close>

definition handle_over_close ::
    "recorder \<Rightarrow> string \<Rightarrow> string \<Rightarrow> string option \<Rightarrow> nat \<Rightarrow> pleg \<Rightarrow> fill_action \<Rightarrow> int \<Rightarrow> int \<Rightarrow> string
     \<Rightarrow> fill_data \<Rightarrow> fill_context \<Rightarrow> ledger \<Rightarrow> fill_outcome \<times> ledger" where
  "handle_over_close rec now user te gid leg action total_qty close_qty filled_at fd ctx s =
     (let remainder = total_qty - close_qty;
          fee_per_unit = (if 0 < total_qty then fd_fee fd / of_int total_qty else 0);
          close_fee = fee_per_unit * of_int close_qty;
          open_fee = fee_per_unit * of_int remainder;
          mult = (case fd_mult fd of None \<Rightarrow> 100 | Some m \<Rightarrow> m);
          key = build_event_key te (text_or (fd_symbol fd) []) action filled_at close_qty (fd_price_text fd)
      in case (if 0 < close_qty
               then abind (book_fill now user gid leg te (fd_broker fd) action close_qty (fd_price fd)
                             close_fee filled_at (text_or (c_source ctx) ''LIVE'') mult False key)
                      (\<lambda>(fid, eid, st). areturn (Some (gid, l_id leg, fid, eid, st, close_qty))) s
               else areturn None s) of
           (Inl e, s1) \<Rightarrow> (Failed e, s1)
         | (Inr close, s1) \<Rightarrow>
             (case (if 0 < remainder
                    then (let (r, s2) = rec
                             (fd\<lparr>fd_qty := remainder, fd_fee := open_fee,
                                 fd_action := Some (case action of BUY \<Rightarrow> ''BUY'' | SELL \<Rightarrow> ''SELL''),
                                 fd_broker := None\<rparr>)
                             (ctx\<lparr>c_strategy_key := None, c_fingerprint := None\<rparr>) s1
                          in (Some r, s2))
                    else (None, s1)) of
                (open', s2) \<Rightarrow>
                  if close = None \<and> (case open' of None \<Rightarrow> True | Some r \<Rightarrow> \<not> has_all_ids r)
                  then (Failed MissingKey, s2)
                  else (OverClosed close open', s2)))"

definition fill_action_of :: "fill_data \<Rightarrow> string" where
  "fill_action_of fd =
     (let a = (case fd_action fd of None \<Rightarrow> [] | Some t \<Rightarrow> str_upper t)
      in if a = [] then (if (case fd_side fd of None \<Rightarrow> ''buy'' | Some t \<Rightarrow> str_lower t) = ''buy''
                         then ''BUY'' else ''SELL'')
         else a)"

definition existing_event :: "string \<Rightarrow> string option \<Rightarrow> ledger \<Rightarrow> pevent option" where
  "existing_event user key s =
     (if some_text key then find (\<lambda>e. e_user e = user \<and> e_key e = key) (events s) else None)"

definition existing_fill :: "string \<Rightarrow> string option \<Rightarrow> ledger \<Rightarrow> pfill option" where
  "existing_fill user broker s =
     (if some_text broker then find (\<lambda>f. f_user f = user \<and> f_broker f = broker) (fills s) else None)"

definition process_fill ::
    "recorder \<Rightarrow> string \<Rightarrow> string \<Rightarrow> string option \<Rightarrow> fill_action \<Rightarrow> string \<Rightarrow> string option
     \<Rightarrow> fill_data \<Rightarrow> fill_context \<Rightarrow> ledger \<Rightarrow> fill_outcome \<times> ledger" where
  "process_fill rec now user te action filled_at key fd ctx s =
     (let symbol = text_or (fd_symbol fd) [];
          underlying = text_or (fd_underlying fd) (extract_underlying (fd_symbol fd));
          right = (case fd_right fd of None \<Rightarrow> ''S'' | Some r \<Rightarrow> str_upper r);
          mult = (case fd_mult fd of None \<Rightarrow> 100 | Some m \<Rightarrow> m);
          qty = fd_qty fd
      in case find_or_create_group user underlying (c_fingerprint ctx) (c_strategy_key ctx) s of
           (Inl e, s1) \<Rightarrow> (Failed e, s1)
         | (Inr g, s1) \<Rightarrow>
             (case find_or_create_leg (g_id g) user symbol underlying right (fd_strike fd) (fd_expiry fd) mult action s1 of
                (Inl e, s2) \<Rightarrow> (Failed e, s2)
              | (Inr (leg, is_new), s2) \<Rightarrow>
                  (let is_opening = is_opening_fill (l_side leg) action;
                       qty_current = l_opened leg - l_closed leg
                   in if \<not> is_opening \<and> qty_current < qty
                      then handle_over_close rec now user te (g_id g) leg action qty qty_current filled_at fd ctx s2
                      else (case book_fill now user (g_id g) leg te (fd_broker fd) action qty (fd_price fd) (fd_fee fd)
                                   filled_at (text_or (c_source ctx) ''LIVE'') mult is_opening key s2 of
                              (Inl e, s3) \<Rightarrow> (Failed e, s3)
                            | (Inr (fid, eid, st), s3) \<Rightarrow> (Recorded (g_id g) (l_id leg) fid eid st, s3)))))"

definition record_fill_body ::
    "recorder \<Rightarrow> string \<Rightarrow> string \<Rightarrow> string option \<Rightarrow> recorder" where
  "record_fill_body rec now user te fd ctx s =
     (let a = fill_action_of fd;
          filled_at = text_or (fd_filled_at fd) now
      in if \<not> some_text (fd_symbol fd) then (Failed SymbolRequired, s)
         else if fd_qty fd \<le> 0 then (Failed QtyNotPositive, s)
         else if a \<noteq> ''BUY'' \<and> a \<noteq> ''SELL'' then (Failed BadAction, s)
         else
           (let action = (if a = ''BUY'' then BUY else SELL);
                key = build_event_key te (the (fd_symbol fd)) action filled_at (fd_qty fd) (fd_price_text fd)
            in case existing_event user key s of
                 Some e \<Rightarrow> (DedupEvent (e_group e) (e_fill e), s)
               | None \<Rightarrow>
                   (case existing_fill user (fd_broker fd) s of
                      Some f \<Rightarrow> (DedupFill (f_group f) (f_leg f) (f_id f), s)
                    | None \<Rightarrow> process_fill rec now user te action filled_at key fd ctx s)))"

text \<open>
  The recursion of the source is at most one deep: the remainder of an over-close is booked
  without grouping keys, so into a new group, where the first fill always opens. \<open>record_fill\<close>
  is that unrolling, and \<open>record_fill_fixpoint\<close> shows that it satisfies the source's own
  recursive equation.
\<close>

definition record_fill :: "string \<Rightarrow> string \<Rightarrow> string option \<Rightarrow> recorder" where
  "record_fill now user te =
     record_fill_body (record_fill_body (\<lambda>fd ctx s. (Failed DbError, s)) now user te) now user te"

subsection \<open>Reconciliation\<close>

definition signed_remaining :: "pleg \<Rightarrow> int" where
  "signed_remaining l = (if l_side l = SHORT then - (l_opened l - l_closed l) else l_opened l - l_closed l)"

definition ledger_qty :: "ledger \<Rightarrow> string \<Rightarrow> string \<Rightarrow> int" where
  "ledger_qty s user symbol =
     (\<Sum>l\<leftarrow>legs s. if l_user l = user \<and> l_symbol l = symbol
         \<and> (\<exists>g \<in> set (groups s). g_user g = user \<and> g_status g = OPEN \<and> g_id g = l_group l)
       then signed_remaining l else 0)"

definition ledger_symbols :: "ledger \<Rightarrow> string \<Rightarrow> string list" where
  "ledger_symbols s user = remdups (map l_symbol (filter (\<lambda>l. l_user l = user
     \<and> (\<exists>g \<in> set (groups s). g_user g = user \<and> g_status g = OPEN \<and> g_id g = l_group l)) (legs s)))"

datatype break_type = MISSING_IN_BROKER | MISSING_IN_LEDGER | QTY_MISMATCH

record break_record =
  b_type :: break_type
  b_symbol :: string
  b_underlying :: string
  b_ledger_qty :: int
  b_broker_qty :: int
  b_diff :: int

definition broker_qty :: "(string option \<times> int) list \<Rightarrow> string \<Rightarrow> int" where
  "broker_qty rows symbol = (\<Sum>(sym, q)\<leftarrow>rows. if some_text sym \<and> sym = Some symbol then q else 0)"

definition reconcile_symbol :: "ledger \<Rightarrow> string \<Rightarrow> (string option \<times> int) list \<Rightarrow> string \<Rightarrow> break_record option" where
  "reconcile_symbol s user rows symbol =
     (let lq = ledger_qty s user symbol; bq = broker_qty rows symbol
      in if lq = bq then None
         else Some \<lparr>b_type = (if lq \<noteq> 0 \<and> bq = 0 then MISSING_IN_BROKER
                              else if lq = 0 \<and> bq \<noteq> 0 then MISSING_IN_LEDGER else QTY_MISMATCH),
                    b_symbol = symbol, b_underlying = extract_underlying (Some symbol),
                    b_ledger_qty = lq, b_broker_qty = bq, b_diff = lq - bq\<rparr>)"

definition reconcile_snapshot :: "ledger \<Rightarrow> string \<Rightarrow> (string option \<times> int) list \<Rightarrow> break_record list" where
  "reconcile_snapshot s user rows =
     List.map_filter (reconcile_symbol s user rows)
       (remdups (ledger_symbols s user @ List.map_filter (\<lambda>(sym, q). if some_text sym then sym else None) rows))"

lemmas ledger_op_defs = find_or_create_group_def find_open_group_def create_group_def
  find_or_create_leg_def insert_fill_def update_leg_quantities_def insert_event_def
  update_group_stats_def check_and_close_group_def

end
