(* ===== verification/Interfaces.thy ===== *)
theory Interfaces
  imports Py_Prelude
begin

section \<open>Contracts between components\<close>

text \<open>
  \<open>one_shot\<close> is the contract of every idempotent writer of the service: an operation that
  takes effect leaves a mark under its key, no operation takes effect under a marked key, and
  marks are never removed. Its consequence is that in any sequence of operations each key takes
  effect at most once, in whatever order retries and duplicates arrive.
\<close>

fun run_ops :: "('op \<Rightarrow> 's \<Rightarrow> bool \<times> 's) \<Rightarrow> 'op list \<Rightarrow> 's \<Rightarrow> bool list \<times> 's" where
  "run_ops act [] s = ([], s)"
| "run_ops act (x # xs) s =
     (case act x s of (b, t) \<Rightarrow> (case run_ops act xs t of (bs, u) \<Rightarrow> (b # bs, u)))"

lemma run_ops_length: "length (fst (run_ops act xs s)) = length xs"
proof (induction xs arbitrary: s)
  case (Cons x xs)
  then show ?case by (cases "act x s"; cases "run_ops act xs (snd (act x s))") (auto, metis fst_conv)
qed simp

definition effective_keys :: "('op \<Rightarrow> 's \<Rightarrow> bool \<times> 's) \<Rightarrow> ('op \<Rightarrow> 'k) \<Rightarrow> 'op list \<Rightarrow> 's \<Rightarrow> 'k list" where
  "effective_keys act key xs s = map (key \<circ> fst) (filter snd (zip xs (fst (run_ops act xs s))))"

lemma effective_keys_Cons:
  "effective_keys act key (x # xs) s =
     (if fst (act x s) then [key x] else []) @ effective_keys act key xs (snd (act x s))"
  by (auto simp: effective_keys_def split: prod.splits)

locale one_shot =
  fixes act :: "'op \<Rightarrow> 's \<Rightarrow> bool \<times> 's"
    and key :: "'op \<Rightarrow> 'k"
    and spent :: "'s \<Rightarrow> 'k \<Rightarrow> bool"
    and ok :: "'s \<Rightarrow> bool"
  assumes ok_step: "ok s \<Longrightarrow> act x s = (b, t) \<Longrightarrow> ok t"
    and fires: "ok s \<Longrightarrow> act x s = (True, t) \<Longrightarrow> \<not> spent s (key x) \<and> spent t (key x)"
    and keeps: "ok s \<Longrightarrow> act x s = (b, t) \<Longrightarrow> spent s k \<Longrightarrow> spent t k"
begin

lemma spent_never_effective:
  "ok s \<Longrightarrow> spent s k \<Longrightarrow> k \<notin> set (effective_keys act key xs s)"
proof (induction xs arbitrary: s)
  case Nil
  show ?case by (simp add: effective_keys_def)
next
  case (Cons x xs)
  obtain b t where act: "act x s = (b, t)" by fastforce
  with Cons.prems have "ok t" and "spent t k" by (auto dest: ok_step keeps)
  then have "k \<notin> set (effective_keys act key xs t)" by (rule Cons.IH)
  moreover have "b \<Longrightarrow> key x \<noteq> k" using fires [of s x t] act Cons.prems by auto
  ultimately show ?case by (auto simp: effective_keys_Cons act)
qed

lemma at_most_once: "ok s \<Longrightarrow> distinct (effective_keys act key xs s)"
proof (induction xs arbitrary: s)
  case Nil
  show ?case by (simp add: effective_keys_def)
next
  case (Cons x xs)
  obtain b t where act: "act x s = (b, t)" by fastforce
  with Cons.prems have "ok t" by (auto dest: ok_step)
  then have "distinct (effective_keys act key xs t)" by (rule Cons.IH)
  moreover have "b \<Longrightarrow> key x \<notin> set (effective_keys act key xs t)"
    using spent_never_effective [OF \<open>ok t\<close>] fires [of s x t] act Cons.prems by auto
  ultimately show ?case by (auto simp: effective_keys_Cons act)
qed

end

text \<open>
  \<open>bounded_gate\<close> is the contract of a pre-trade gate: it admits or refuses a candidate, and
  what it admits keeps the exposure of the book within the limit the gate was given.
\<close>

locale bounded_gate =
  fixes admit :: "'book \<Rightarrow> 'cand \<Rightarrow> bool"
    and add :: "'book \<Rightarrow> 'cand \<Rightarrow> 'book"
    and limit_ok :: "'book \<Rightarrow> bool"
  assumes admit_within: "limit_ok bk \<Longrightarrow> admit bk c \<Longrightarrow> limit_ok (add bk c)"
begin

lemma gated_run_within:
  "limit_ok bk \<Longrightarrow> limit_ok (foldl (\<lambda>q c. if admit q c then add q c else q) bk cs)"
  by (induction cs arbitrary: bk) (auto intro: admit_within)

end

end
