(* ===== verification/Ledger_Correct.thy ===== *)
theory Ledger_Correct
  imports Position_Ledger Interfaces "HOL-Library.Sublist"
begin

section \<open>Correctness of the position ledger\<close>

text \<open>
  The ledger's invariant, and the abstract view it refines: a signed net quantity per user and
  symbol, and a running cash total per user. Every booking changes the abstract state by
  exactly the fill's signed quantity and cash, on the direct path and on the over-close path.
\<close>

definition leg_ok :: "ledger \<Rightarrow> pleg \<Rightarrow> bool" where
  "leg_ok s l \<longleftrightarrow> l_id l < next_id s \<and> 0 \<le> l_closed l \<and> l_closed l \<le> l_opened l
     \<and> (\<exists>g \<in> set (groups s). g_id g = l_group l \<and> g_user g = l_user l
          \<and> (g_status g = CLOSED \<longrightarrow> l_opened l = l_closed l))"

definition ledger_inv :: "ledger \<Rightarrow> bool" where
  "ledger_inv s \<longleftrightarrow> distinct (map l_id (legs s)) \<and> distinct (map g_id (groups s))
     \<and> (\<forall>l \<in> set (legs s). leg_ok s l) \<and> (\<forall>g \<in> set (groups s). g_id g < next_id s)"

definition net_qty :: "ledger \<Rightarrow> string \<Rightarrow> string \<Rightarrow> int" where
  "net_qty s user symbol =
     (\<Sum>l\<leftarrow>legs s. if l_user l = user \<and> l_symbol l = symbol then signed_remaining l else 0)"

definition cash_total :: "ledger \<Rightarrow> string \<Rightarrow> rat" where
  "cash_total s user = (\<Sum>e\<leftarrow>events s. if e_user e = user then e_cash e else 0)"

definition signed_qty :: "fill_action \<Rightarrow> int \<Rightarrow> int" where
  "signed_qty action qty = (if action = BUY then qty else - qty)"

definition gview :: "pgroup \<Rightarrow> nat \<times> string \<times> group_status" where
  "gview g = (g_id g, g_user g, g_status g)"

lemma leg_ok_gview:
  "leg_ok s l \<longleftrightarrow> l_id l < next_id s \<and> 0 \<le> l_closed l \<and> l_closed l \<le> l_opened l
     \<and> (\<exists>st. (l_group l, l_user l, st) \<in> set (map gview (groups s)) \<and> (st = CLOSED \<longrightarrow> l_opened l = l_closed l))"
proof -
  have "(\<exists>st. (l_group l, l_user l, st) \<in> set (map gview (groups s)) \<and> (st = CLOSED \<longrightarrow> l_opened l = l_closed l))
    \<longleftrightarrow> (\<exists>g \<in> set (groups s). g_id g = l_group l \<and> g_user g = l_user l
          \<and> (g_status g = CLOSED \<longrightarrow> l_opened l = l_closed l))"
    unfolding set_map gview_def image_iff by (metis (no_types, lifting) prod.inject)
  then show ?thesis by (simp add: leg_ok_def)
qed

lemma ledger_inv_frame:
  assumes "ledger_inv s" and "legs t = legs s"
    and "map gview (groups t) = map gview (groups s)" and "next_id s \<le> next_id t"
  shows "ledger_inv t"
proof -
  have ids: "map g_id (groups t) = map g_id (groups s)"
    using arg_cong [OF assms(3), of "map fst"] by (simp add: gview_def comp_def)
  have "g_id g < next_id t" if "g \<in> set (groups t)" for g
  proof -
    from that have "g_id g \<in> set (map g_id (groups s))" unfolding ids [symmetric] by simp
    then show ?thesis using assms(1,4) by (auto simp: ledger_inv_def)
  qed
  then show ?thesis
    using assms ids by (auto simp: ledger_inv_def leg_ok_gview simp del: set_map)
qed

lemma net_qty_frame: "legs t = legs s \<Longrightarrow> net_qty t = net_qty s"
  by (simp add: net_qty_def fun_eq_iff)

lemma cash_total_frame: "events t = events s \<Longrightarrow> cash_total t = cash_total s"
  by (simp add: cash_total_def fun_eq_iff)

subsection \<open>The database actions one by one\<close>

lemma insert_fill_frame:
  "insert_fill user gid lid te b a sd q p f ts src s = (r, t) \<Longrightarrow>
     legs t = legs s \<and> groups t = groups s \<and> events t = events s \<and> next_id s \<le> next_id t"
  by (auto simp: insert_fill_def split: if_splits)

lemma insert_event_frame:
  "insert_event user gid fid lid ty cash q key s = (r, t) \<Longrightarrow>
     legs t = legs s \<and> groups t = groups s \<and> next_id s \<le> next_id t
     \<and> (\<forall>i. r = Inr i \<longrightarrow> cash_total t u = cash_total s u + (if u = user then cash else 0))"
  by (auto simp: insert_event_def cash_total_def split: if_splits)

lemma update_leg_found:
  assumes "distinct (map l_id (legs s))" and "leg \<in> set (legs s)"
  shows "update_leg_quantities (l_id leg) qty price opening s
    = (Inr (), s\<lparr>legs := update_rows (\<lambda>x. l_id x = l_id leg) (bump_leg qty price opening) (legs s)\<rparr>)"
proof -
  have one: "x = leg" if "x \<in> set (legs s)" "l_id x = l_id leg" for x
    using that assms by (auto simp: distinct_map inj_on_def)
  have "find (\<lambda>l. l_id l = l_id leg) (legs s) \<noteq> None" using assms(2) by (auto simp: find_None_iff)
  then obtain l where l: "find (\<lambda>l. l_id l = l_id leg) (legs s) = Some l" by blast
  with one have "l = leg" using find_Some_props [OF l] by blast
  have "update_rows (\<lambda>x. l_id x = l_id leg) (\<lambda>_. bump_leg qty price opening leg) (legs s)
      = update_rows (\<lambda>x. l_id x = l_id leg) (bump_leg qty price opening) (legs s)"
    unfolding update_rows_def using one by (intro map_cong) auto
  with l \<open>l = leg\<close> show ?thesis by (simp add: update_leg_quantities_def)
qed

lemma update_group_stats_frame:
  assumes "g \<in> set (groups s)"
  shows "\<exists>t. update_group_stats (g_id g) fee realized s = (Inr (), t) \<and> legs t = legs s \<and> events t = events s
    \<and> map gview (groups t) = map gview (groups s) \<and> next_id t = next_id s"
proof -
  have "find (\<lambda>x. g_id x = g_id g) (groups s) \<noteq> None" using assms by (auto simp: find_None_iff)
  then show ?thesis
    by (auto simp: update_group_stats_def gview_def intro!: map_key_update_rows)
qed

lemma check_and_close_inv:
  assumes "ledger_inv s" and "check_and_close_group now gid s = (r, t)"
  shows "ledger_inv t \<and> legs t = legs s \<and> events t = events s"
proof (cases "\<exists>l \<in> set (legs s). l_group l = gid \<and> 0 < l_opened l - l_closed l")
  case True
  with assms show ?thesis by (auto simp: check_and_close_group_def)
next
  case False
  let ?f = "\<lambda>x. x\<lparr>g_status := CLOSED, g_closed_at := Some now\<rparr>"
  from False assms(2) have t: "t = s\<lparr>groups := update_rows (\<lambda>x. g_id x = gid) ?f (groups s)\<rparr>"
    by (simp only: check_and_close_group_def if_False) simp
  have ids: "map g_id (groups t) = map g_id (groups s)"
    by (simp add: t map_key_update_rows)
  have flat: "l_opened l = l_closed l" if "l \<in> set (legs s)" "l_group l = gid" for l
  proof -
    have "l_closed l \<le> l_opened l" using that assms(1) by (auto simp: ledger_inv_def leg_ok_def)
    then show ?thesis using False that by force
  qed
  have "leg_ok t l" if l: "l \<in> set (legs s)" for l
  proof -
    from l assms(1) obtain g where g: "g \<in> set (groups s)" "g_id g = l_group l" "g_user g = l_user l"
      "g_status g = CLOSED \<longrightarrow> l_opened l = l_closed l" and ok: "leg_ok s l"
      by (auto simp: ledger_inv_def leg_ok_def)
    let ?g = "if g_id g = gid then ?f g else g"
    have "?g \<in> set (groups t)" using g(1) by (auto simp: t set_update_rows)
    moreover have "g_id ?g = l_group l \<and> g_user ?g = l_user l \<and> (g_status ?g = CLOSED \<longrightarrow> l_opened l = l_closed l)"
      using g flat [OF l] by simp
    ultimately show ?thesis using ok unfolding leg_ok_def by (auto simp: t)
  qed
  moreover have "\<forall>g \<in> set (groups t). g_id g < next_id t"
    using assms(1) by (auto simp: t ledger_inv_def set_update_rows)
  ultimately show ?thesis using assms(1) ids by (simp add: ledger_inv_def t)
qed

lemma bump_leg_simps [simp]:
  "l_id (bump_leg q p b l) = l_id l" "l_group (bump_leg q p b l) = l_group l"
  "l_user (bump_leg q p b l) = l_user l" "l_symbol (bump_leg q p b l) = l_symbol l"
  "l_side (bump_leg q p b l) = l_side l"
  "l_opened (bump_leg q p b l) = (if b then l_opened l + q else l_opened l)"
  "l_closed (bump_leg q p b l) = (if b then l_closed l else l_closed l + q)"
  by (simp_all add: bump_leg_def)

lemma bump_signed_remaining:
  "signed_remaining (bump_leg q p (is_opening_fill (l_side l) a) l) = signed_remaining l + signed_qty a q"
  by (cases "l_side l"; cases a) (simp_all add: signed_remaining_def signed_qty_def)

subsection \<open>Booking one fill\<close>

text \<open>A booking context: the leg sits in an open group and a closing fill fits into it.\<close>

definition bookable :: "ledger \<Rightarrow> pgroup \<Rightarrow> pleg \<Rightarrow> fill_action \<Rightarrow> int \<Rightarrow> bool" where
  "bookable s g leg action qty \<longleftrightarrow> ledger_inv s \<and> leg \<in> set (legs s) \<and> g \<in> set (groups s)
     \<and> g_status g = OPEN \<and> l_group leg = g_id g \<and> 0 < qty
     \<and> (\<not> is_opening_fill (l_side leg) action \<longrightarrow> qty \<le> l_opened leg - l_closed leg)"

lemma bump_inv:
  assumes b: "bookable s g leg action qty"
    and t: "t = s\<lparr>legs := update_rows (\<lambda>x. l_id x = l_id leg)
               (bump_leg qty price (is_opening_fill (l_side leg) action)) (legs s)\<rparr>"
  shows "ledger_inv t"
    and "net_qty t u y = net_qty s u y + (if u = l_user leg \<and> y = l_symbol leg then signed_qty action qty else 0)"
proof -
  let ?f = "bump_leg qty price (is_opening_fill (l_side leg) action)"
  from b have inv: "ledger_inv s" and leg: "leg \<in> set (legs s)" and g: "g \<in> set (groups s)" "g_status g = OPEN"
    "l_group leg = g_id g" and q: "0 < qty"
    and fit: "\<not> is_opening_fill (l_side leg) action \<longrightarrow> qty \<le> l_opened leg - l_closed leg"
    by (auto simp: bookable_def)
  have one: "x = leg" if "x \<in> set (legs s)" "l_id x = l_id leg" for x
    using that leg inv by (auto simp: ledger_inv_def distinct_map inj_on_def)
  have gone: "h = g" if "h \<in> set (groups s)" "g_id h = g_id g" for h
    using that g(1) inv by (auto simp: ledger_inv_def distinct_map inj_on_def)
  have ok: "leg_ok s leg" using inv leg by (simp add: ledger_inv_def)
  then have "g_user g = l_user leg" using g gone by (auto simp: leg_ok_def)
  then have "leg_ok t (?f leg)" using ok g q fit by (auto simp: leg_ok_def t intro!: bexI [of _ g])
  moreover have "leg_ok t l" if "l \<in> set (legs s)" for l
    using that inv by (auto simp: ledger_inv_def leg_ok_def t)
  ultimately have "\<forall>l \<in> set (legs t). leg_ok t l"
    using one by (auto simp: t set_update_rows)
  then show "ledger_inv t" using inv by (auto simp: ledger_inv_def t map_key_update_rows)
  have "distinct (map l_id (legs s))" using inv by (simp add: ledger_inv_def)
  from sum_update_rows [OF this leg, of "\<lambda>l. if l_user l = u \<and> l_symbol l = y then signed_remaining l else 0" ?f]
  show "net_qty t u y = net_qty s u y + (if u = l_user leg \<and> y = l_symbol leg then signed_qty action qty else 0)"
    by (auto simp: net_qty_def t bump_signed_remaining)
qed

lemma book_fill_effect:
  assumes b: "bookable s g leg action qty"
    and run: "book_fill now user (g_id g) leg te broker action qty price fee ts src mult
                (is_opening_fill (l_side leg) action) key s = (r, t)"
  shows "ledger_inv t"
    and "r = Inr x \<Longrightarrow> net_qty t u y = net_qty s u y
           + (if u = l_user leg \<and> y = l_symbol leg then signed_qty action qty else 0)"
    and "r = Inr x \<Longrightarrow> cash_total t u = cash_total s u
           + (if u = user then compute_cash_impact action qty price fee mult else 0)"
proof -
  let ?o = "is_opening_fill (l_side leg) action"
  let ?cash = "compute_cash_impact action qty price fee mult"
  obtain r1 s1 where 1: "insert_fill user (g_id g) (l_id leg) te broker action (l_side leg) qty price fee ts src s = (r1, s1)"
    by fastforce
  from insert_fill_frame [OF 1] have f1: "legs s1 = legs s" "groups s1 = groups s" "events s1 = events s"
    "next_id s \<le> next_id s1" by auto
  have inv: "ledger_inv s" using b by (simp add: bookable_def)
  have inv1: "ledger_inv s1" by (rule ledger_inv_frame [OF inv f1(1) _ f1(4)]) (simp add: f1)
  have b1: "bookable s1 g leg action qty" using b f1 inv1 by (simp add: bookable_def)
  define s2 where "s2 = s1\<lparr>legs := update_rows (\<lambda>x. l_id x = l_id leg) (bump_leg qty price ?o) (legs s1)\<rparr>"
  have 2: "update_leg_quantities (l_id leg) qty price ?o s1 = (Inr (), s2)"
    using b1 by (auto simp: s2_def bookable_def ledger_inv_def intro!: update_leg_found)
  note inv2 = bump_inv [OF b1 s2_def]
  have all: "ledger_inv t \<and> (\<forall>x. r = Inr x \<longrightarrow>
      net_qty t u y = net_qty s u y + (if u = l_user leg \<and> y = l_symbol leg then signed_qty action qty else 0) \<and>
      cash_total t u = cash_total s u + (if u = user then ?cash else 0))"
  proof (cases r1)
    case (Inl e)
    with run 1 inv1 show ?thesis by (auto simp: book_fill_def abind_def)
  next
    case (Inr fid)
    obtain r3 s3 where 3: "insert_event user (g_id g) fid (l_id leg) ''FILL'' ?cash (signed_qty action qty) key s2 = (r3, s3)"
      by fastforce
    note f3 = insert_event_frame [OF 3]
    have inv3: "ledger_inv s3" by (rule ledger_inv_frame [OF inv2(1)]) (use f3 in auto)
    have g3: "g \<in> set (groups s3)" using b1 f3 by (simp add: bookable_def s2_def)
    obtain s4 where 4: "update_group_stats (g_id g) fee (if ?o then None else Some ?cash) s3 = (Inr (), s4)"
      and f4: "legs s4 = legs s3" "events s4 = events s3" "map gview (groups s4) = map gview (groups s3)" "next_id s4 = next_id s3"
      using update_group_stats_frame [OF g3] by blast
    have inv4: "ledger_inv s4" by (rule ledger_inv_frame [OF inv3 f4(1,3)]) (simp add: f4)
    obtain r5 s5 where 5: "check_and_close_group now (g_id g) s4 = (r5, s5)" by fastforce
    note f5 = check_and_close_inv [OF inv4 5]
    have r5: "\<not> isl r5" using 5 by (auto simp: check_and_close_group_def split: if_splits)
    have run': "(case r3 of Inl e \<Rightarrow> (Inl e, s3) | Inr eid \<Rightarrow> (Inr (fid, eid, projr r5), s5)) = (r, t)"
      using run 1 2 3 4 5 r5 Inr
      by (auto simp: book_fill_def abind_def Let_def signed_qty_def [symmetric] split: sum.splits)
    have net5: "net_qty s5 u y = net_qty s u y + (if u = l_user leg \<and> y = l_symbol leg then signed_qty action qty else 0)"
      using inv2(2) [of u y] f5 f4 f3 f1 net_qty_frame [of s5 s2] net_qty_frame [of s1 s] by simp
    have "cash_total s5 u = cash_total s u + (if u = user then ?cash else 0)" if "r3 = Inr i" for i
      using f3 that f5 f4 f1 cash_total_frame [of s5 s3] cash_total_frame [of s2 s] by (auto simp: s2_def)
    with run' inv3 f5 net5 show ?thesis by (auto split: sum.splits)
  qed
  then show "ledger_inv t"
    and "r = Inr x \<Longrightarrow> net_qty t u y = net_qty s u y
           + (if u = l_user leg \<and> y = l_symbol leg then signed_qty action qty else 0)"
    and "r = Inr x \<Longrightarrow> cash_total t u = cash_total s u + (if u = user then ?cash else 0)"
    by blast+
qed

subsection \<open>Finding or creating the group and the leg\<close>

lemma find_or_create_group_props:
  assumes inv: "ledger_inv s" and run: "find_or_create_group user und fp sk s = (r, t)"
  shows "\<exists>g. r = Inr g \<and> g \<in> set (groups t) \<and> g_status g = OPEN \<and> g_user g = user \<and> ledger_inv t
    \<and> legs t = legs s \<and> events t = events s"
proof -
  have found: "h \<in> set (groups s) \<and> g_status h = OPEN \<and> g_user h = user"
    if "find_open_group P user s = Some h" for P h
    using find_Some_props that by (fastforce simp: find_open_group_def)
  have created: "\<exists>g. r = Inr g \<and> g \<in> set (groups t) \<and> g_status g = OPEN \<and> g_user g = user \<and> ledger_inv t
      \<and> legs t = legs s \<and> events t = events s" if "create_group user und fp sk s = (r, t)"
  proof -
    have "next_id s \<notin> set (map g_id (groups s))" using inv by (auto simp: ledger_inv_def)
    moreover have "\<forall>l \<in> set (legs s). leg_ok t l" using that inv
      by (fastforce simp: create_group_def ledger_inv_def leg_ok_def Let_def)
    ultimately show ?thesis using that inv
      by (auto simp: create_group_def ledger_inv_def Let_def less_Suc_eq)
  qed
  show ?thesis
    using run inv found created
    by (auto simp: find_or_create_group_def split: option.splits if_splits)
qed

lemma create_group_when_no_keys:
  "find_or_create_group user und None None s = create_group user und None None s"
  by (simp add: find_or_create_group_def some_text_def)

lemma find_or_create_leg_props:
  assumes inv: "ledger_inv s" and g: "g \<in> set (groups s)" "g_status g = OPEN" "g_user g = user"
    and run: "find_or_create_leg (g_id g) user symbol und right strike expiry mult action s = (r, t)"
  shows "\<exists>l n. r = Inr (l, n) \<and> l \<in> set (legs t) \<and> l_group l = g_id g \<and> l_symbol l = symbol \<and> l_user l = user
    \<and> ledger_inv t \<and> groups t = groups s \<and> events t = events s \<and> net_qty t = net_qty s
    \<and> (n \<longrightarrow> l_opened l = 0 \<and> l_closed l = 0 \<and> l_side l = side_of_first action)"
proof (cases "find (\<lambda>l. l_group l = g_id g \<and> l_symbol l = symbol) (legs s)")
  case (Some l)
  from find_Some_props [OF Some] have l: "l \<in> set (legs s)" "l_group l = g_id g" "l_symbol l = symbol" by auto
  then obtain h where "h \<in> set (groups s)" "g_id h = g_id g" "g_user h = l_user l"
    using inv by (fastforce simp: ledger_inv_def leg_ok_def)
  then have "l_user l = user" using g inv by (auto simp: ledger_inv_def distinct_map inj_on_def)
  with Some run l inv show ?thesis by (auto simp: find_or_create_leg_def)
next
  case None
  then obtain l where t: "t = s\<lparr>legs := legs s @ [l], next_id := Suc (next_id s)\<rparr>" and r: "r = Inr (l, True)"
    and l: "l_id l = next_id s" "l_group l = g_id g" "l_user l = user" "l_symbol l = symbol"
      "l_opened l = 0" "l_closed l = 0" "l_side l = side_of_first action"
    using run by (auto simp: find_or_create_leg_def Let_def)
  have "leg_ok t l" using g l by (auto simp: leg_ok_def t)
  moreover have "\<forall>x \<in> set (legs s). leg_ok t x" using inv by (fastforce simp: ledger_inv_def leg_ok_def t)
  moreover have "next_id s \<notin> set (map l_id (legs s))" using inv by (auto simp: ledger_inv_def leg_ok_def)
  ultimately have "ledger_inv t" using inv l by (auto simp: ledger_inv_def t less_Suc_eq)
  moreover have "net_qty t = net_qty s" using l by (auto simp: net_qty_def t fun_eq_iff signed_remaining_def)
  ultimately show ?thesis using t r l by auto
qed

lemma fresh_group_leg:
  assumes inv: "ledger_inv s" and run: "create_group user und fp sk s = (Inr g, t)"
    and leg: "find_or_create_leg (g_id g) user symbol und' right strike expiry mult action t = (Inr (l, n), u)"
  shows "n \<and> is_opening_fill (l_side l) action"
proof -
  have "find (\<lambda>l. l_group l = g_id g \<and> l_symbol l = symbol) (legs t) = None"
    using inv run by (fastforce simp: find_None_iff create_group_def Let_def ledger_inv_def leg_ok_def)
  with leg show ?thesis by (cases action) (auto simp: find_or_create_leg_def Let_def side_of_first_def)
qed

subsection \<open>One level of recursion is enough\<close>

lemma process_fill_no_keys:
  assumes inv: "ledger_inv s" and ctx: "c_fingerprint ctx = None" "c_strategy_key ctx = None"
  shows "process_fill rec1 now user te action ts key fd ctx s = process_fill rec2 now user te action ts key fd ctx s"
proof -
  let ?und = "text_or (fd_underlying fd) (extract_underlying (fd_symbol fd))"
  obtain g t where 1: "create_group user ?und None None s = (Inr g, t)"
    by (simp add: create_group_def Let_def)
  obtain r u where 2: "find_or_create_leg (g_id g) user (text_or (fd_symbol fd) []) ?und
     (case fd_right fd of None \<Rightarrow> ''S'' | Some r \<Rightarrow> str_upper r) (fd_strike fd) (fd_expiry fd)
     (case fd_mult fd of None \<Rightarrow> 100 | Some m \<Rightarrow> m) action t = (r, u)" by fastforce
  show ?thesis
  proof (cases r)
    case (Inl e)
    with 1 2 ctx show ?thesis by (simp add: process_fill_def create_group_when_no_keys Let_def)
  next
    case (Inr x)
    then obtain l n where r: "r = Inr (l, n)" by (cases x) auto
    with fresh_group_leg [OF inv 1] 2 have "is_opening_fill (l_side l) action" by blast
    with 1 2 r ctx show ?thesis by (simp add: process_fill_def create_group_when_no_keys Let_def)
  qed
qed

lemma record_fill_body_no_keys:
  assumes "ledger_inv s" and "c_fingerprint ctx = None" "c_strategy_key ctx = None"
  shows "record_fill_body rec1 now user te fd ctx s = record_fill_body rec2 now user te fd ctx s"
  by (simp add: record_fill_body_def Let_def process_fill_no_keys [OF assms, of rec1 _ _ _ _ _ _ _ rec2]
      split: option.split)

text \<open>What the over-close path does with its closing part.\<close>

lemma close_part_effect:
  assumes inv: "ledger_inv s" and l: "leg \<in> set (legs s)" "l_group leg = g_id g" "l_user leg = user"
    and g: "g \<in> set (groups s)" "g_status g = OPEN"
    and closing: "\<not> is_opening_fill (l_side leg) action"
    and run: "(if 0 < close_qty then abind (book_fill now user (g_id g) leg te broker action close_qty price
          close_fee ts src mult False key) (\<lambda>(fid, eid, st). areturn (Some (g_id g, l_id leg, fid, eid, st, close_qty))) s
        else areturn None s) = (r, t)"
    and cq: "close_qty = l_opened leg - l_closed leg"
  shows "ledger_inv t"
    and "r = Inr c \<Longrightarrow> net_qty t u y = net_qty s u y
      + (if u = user \<and> y = l_symbol leg then signed_qty action close_qty else 0)"
    and "r = Inr c \<Longrightarrow> 0 \<le> close_qty \<and> cash_total t u = cash_total s u
      + (if u = user \<and> 0 < close_qty then compute_cash_impact action close_qty price close_fee mult else 0)"
    and "r = Inr c \<Longrightarrow> c = None \<longleftrightarrow> close_qty \<le> 0"
proof -
  have nn: "0 \<le> close_qty" using inv l by (auto simp: cq ledger_inv_def leg_ok_def)
  have "ledger_inv t \<and> (\<forall>c. r = Inr c \<longrightarrow>
      net_qty t u y = net_qty s u y + (if u = user \<and> y = l_symbol leg then signed_qty action close_qty else 0) \<and>
      cash_total t u = cash_total s u
      + (if u = user \<and> 0 < close_qty then compute_cash_impact action close_qty price close_fee mult else 0)
      \<and> (c = None \<longleftrightarrow> close_qty \<le> 0))"
  proof (cases "0 < close_qty")
    case False
    with nn have "close_qty = 0" by simp
    with run inv show ?thesis by (auto simp: signed_qty_def)
  next
    case True
    then have b: "bookable s g leg action close_qty"
      using inv l g by (auto simp: bookable_def cq)
    obtain r1 t1 where bf: "book_fill now user (g_id g) leg te broker action close_qty price close_fee ts src mult False key s = (r1, t1)"
      by fastforce
    have op: "is_opening_fill (l_side leg) action = False" using closing by simp
    note e = book_fill_effect [OF b, unfolded op, OF bf]
    have "t = t1" "\<And>c. r = Inr c \<Longrightarrow> c \<noteq> None \<and> (\<exists>x. r1 = Inr x)"
      using run True bf by (auto simp: abind_def split: sum.splits)
    with e True l(3) show ?thesis by auto
  qed
  with nn show "ledger_inv t"
    and "r = Inr c \<Longrightarrow> net_qty t u y = net_qty s u y
      + (if u = user \<and> y = l_symbol leg then signed_qty action close_qty else 0)"
    and "r = Inr c \<Longrightarrow> 0 \<le> close_qty \<and> cash_total t u = cash_total s u
      + (if u = user \<and> 0 < close_qty then compute_cash_impact action close_qty price close_fee mult else 0)"
    and "r = Inr c \<Longrightarrow> c = None \<longleftrightarrow> close_qty \<le> 0"
    by auto
qed

subsection \<open>The effect of a recorded fill\<close>

definition action_of :: "fill_data \<Rightarrow> fill_action" where
  "action_of fd = (if fill_action_of fd = ''BUY'' then BUY else SELL)"

definition mult_of :: "fill_data \<Rightarrow> int" where
  "mult_of fd = (case fd_mult fd of None \<Rightarrow> 100 | Some m \<Rightarrow> m)"

definition fill_effect :: "string \<Rightarrow> fill_data \<Rightarrow> ledger \<Rightarrow> ledger \<Rightarrow> bool" where
  "fill_effect user fd s t \<longleftrightarrow>
     (\<forall>u y. net_qty t u y = net_qty s u y
        + (if u = user \<and> y = text_or (fd_symbol fd) [] then signed_qty (action_of fd) (fd_qty fd) else 0)) \<and>
     (\<forall>u. cash_total t u = cash_total s u
        + (if u = user then compute_cash_impact (action_of fd) (fd_qty fd) (fd_price fd) (fd_fee fd) (mult_of fd) else 0))"

fun booked :: "fill_outcome \<Rightarrow> bool" where
  "booked (Recorded _ _ _ _ _) = True"
| "booked (OverClosed _ (Some r)) = booked r"
| "booked _ = False"

definition good_recorder :: "string \<Rightarrow> recorder \<Rightarrow> bool" where
  "good_recorder user rec \<longleftrightarrow> (\<forall>fd ctx s r t. ledger_inv s \<longrightarrow> rec fd ctx s = (r, t) \<longrightarrow>
     ledger_inv t \<and> (booked r \<longrightarrow> fill_effect user fd s t))"

definition remainder_data :: "fill_data \<Rightarrow> fill_action \<Rightarrow> int \<Rightarrow> int \<Rightarrow> fill_data" where
  "remainder_data fd action tot close_qty = fd\<lparr>fd_qty := tot - close_qty,
     fd_fee := (if 0 < tot then fd_fee fd / of_int tot else 0) * of_int (tot - close_qty),
     fd_action := Some (case action of BUY \<Rightarrow> ''BUY'' | SELL \<Rightarrow> ''SELL''), fd_broker := None\<rparr>"

lemma str_upper_actions: "str_upper ''BUY'' = ''BUY''" "str_upper ''SELL'' = ''SELL''"
  by (simp_all add: str_upper_def to_upper_def is_lower_def)

lemma remainder_data_simps [simp]:
  "action_of (remainder_data fd action tot close_qty) = action"
  "mult_of (remainder_data fd action tot close_qty) = mult_of fd"
  "fd_symbol (remainder_data fd action tot close_qty) = fd_symbol fd"
  "fd_qty (remainder_data fd action tot close_qty) = tot - close_qty"
  "fd_price (remainder_data fd action tot close_qty) = fd_price fd"
  by (cases action; simp add: remainder_data_def action_of_def mult_of_def fill_action_of_def str_upper_actions)+

lemma split_cash:
  assumes "0 < tot"
  shows "compute_cash_impact a c price (fee / of_int tot * of_int c) m
       + compute_cash_impact a (tot - c) price (fee / of_int tot * of_int (tot - c)) m
     = compute_cash_impact a tot price fee m"
proof -
  have "fee / of_int tot * of_int c + fee / of_int tot * of_int (tot - c) = fee"
    using assms by (simp add: field_simps)
  then show ?thesis by (auto simp: compute_cash_impact_def Let_def algebra_simps)
qed

lemma handle_over_close_effect:
  assumes rec: "good_recorder user rec"
    and inv: "ledger_inv s" and l: "leg \<in> set (legs s)" "l_group leg = g_id g" "l_user leg = user"
      "l_symbol leg = text_or (fd_symbol fd) []"
    and g: "g \<in> set (groups s)" "g_status g = OPEN"
    and closing: "\<not> is_opening_fill (l_side leg) (action_of fd)"
    and cq: "cq = l_opened leg - l_closed leg" and q: "0 < fd_qty fd" "cq < fd_qty fd"
    and run: "handle_over_close rec now user te (g_id g) leg (action_of fd) (fd_qty fd) cq ts fd ctx s = (r, t)"
  shows "ledger_inv t \<and> (booked r \<longrightarrow> fill_effect user fd s t)"
proof -
  let ?a = "action_of fd"
  let ?rd = "remainder_data fd ?a (fd_qty fd) cq"
  let ?cfee = "fd_fee fd / of_int (fd_qty fd) * of_int cq"
  let ?ctx = "ctx\<lparr>c_strategy_key := None, c_fingerprint := None\<rparr>"
  let ?key = "build_event_key te (text_or (fd_symbol fd) []) ?a ts cq (fd_price_text fd)"
  obtain rc s1 where part: "(if 0 < cq then abind (book_fill now user (g_id g) leg te (fd_broker fd) ?a cq (fd_price fd)
          ?cfee ts (text_or (c_source ctx) ''LIVE'') (mult_of fd) False ?key)
          (\<lambda>(fid, eid, st). areturn (Some (g_id g, l_id leg, fid, eid, st, cq))) s
        else areturn None s) = (rc, s1)" by fastforce
  note e1 = close_part_effect [OF inv l(1-3) g closing part cq]
  obtain r2 s2 where rr: "rec ?rd ?ctx s1 = (r2, s2)" by fastforce
  from rec rr e1(1) have inv2: "ledger_inv s2" and e2: "booked r2 \<Longrightarrow> fill_effect user ?rd s1 s2"
    by (auto simp: good_recorder_def)
  have run': "(case rc of Inl e \<Rightarrow> (Failed e, s1)
      | Inr c \<Rightarrow> if c = None \<and> \<not> has_all_ids r2 then (Failed MissingKey, s2) else (OverClosed c (Some r2), s2)) = (r, t)"
    using run q part rr
    by (simp add: handle_over_close_def Let_def mult_of_def [symmetric] remainder_data_def [symmetric])
       (auto simp: remainder_data_def split: sum.splits)
  have "fill_effect user fd s s2" if b: "booked r2" and c: "rc = Inr c" for c
  proof -
    have n: "net_qty s2 u y = net_qty s u y
        + (if u = user \<and> y = text_or (fd_symbol fd) [] then signed_qty ?a (fd_qty fd) else 0)" for u y
      using e2 [OF b] e1(2) [OF c, of u y] l(4) by (auto simp: fill_effect_def signed_qty_def)
    have "cash_total s2 u = cash_total s u
        + (if u = user then compute_cash_impact ?a (fd_qty fd) (fd_price fd) (fd_fee fd) (mult_of fd) else 0)" for u
    proof -
      have zero: "cq = 0 \<Longrightarrow> compute_cash_impact ?a cq (fd_price fd) ?cfee (mult_of fd) = 0"
        by (simp add: compute_cash_impact_def)
      have fee: "fd_fee ?rd = fd_fee fd / of_int (fd_qty fd) * of_int (fd_qty fd - cq)"
        using q(1) by (simp add: remainder_data_def)
      show ?thesis
        using e2 [OF b] e1(3) [OF c, of u] zero split_cash [OF q(1), of ?a cq "fd_price fd" "fd_fee fd" "mult_of fd"] fee
        by (auto simp: fill_effect_def)
    qed
    with n show ?thesis by (simp add: fill_effect_def)
  qed
  with run' inv2 e1(1) show ?thesis by (auto split: sum.splits if_splits)
qed

lemma process_fill_effect:
  assumes rec: "good_recorder user rec" and inv: "ledger_inv s" and q: "0 < fd_qty fd"
    and run: "process_fill rec now user te (action_of fd) ts key fd ctx s = (r, t)"
  shows "ledger_inv t \<and> (booked r \<longrightarrow> fill_effect user fd s t)"
proof -
  let ?a = "action_of fd"
  let ?und = "text_or (fd_underlying fd) (extract_underlying (fd_symbol fd))"
  obtain r1 s1 where 1: "find_or_create_group user ?und (c_fingerprint ctx) (c_strategy_key ctx) s = (r1, s1)" by fastforce
  from find_or_create_group_props [OF inv 1] obtain g where r1: "r1 = Inr g"
    and g: "g \<in> set (groups s1)" "g_status g = OPEN" "g_user g = user" and inv1: "ledger_inv s1"
    and f1: "legs s1 = legs s" "events s1 = events s" by blast
  obtain r2 s2 where 2: "find_or_create_leg (g_id g) user (text_or (fd_symbol fd) []) ?und
      (case fd_right fd of None \<Rightarrow> ''S'' | Some r \<Rightarrow> str_upper r) (fd_strike fd) (fd_expiry fd) (mult_of fd) ?a s1 = (r2, s2)"
    by fastforce
  from find_or_create_leg_props [OF inv1 g 2] obtain l n where r2: "r2 = Inr (l, n)"
    and l: "l \<in> set (legs s2)" "l_group l = g_id g" "l_symbol l = text_or (fd_symbol fd) []" "l_user l = user"
    and inv2: "ledger_inv s2" and f2: "groups s2 = groups s1" "events s2 = events s1" "net_qty s2 = net_qty s1"
    by blast
  have g2: "g \<in> set (groups s2)" using g(1) f2 by simp
  have same: "net_qty s2 = net_qty s" "cash_total s2 = cash_total s"
    using f1 f2 net_qty_frame cash_total_frame by metis+
  have eff: "fill_effect user fd s2 t \<Longrightarrow> fill_effect user fd s t" by (simp add: fill_effect_def same)
  note unf = process_fill_def Let_def 1 r1 mult_of_def [symmetric] 2 r2
  show ?thesis
  proof (cases "\<not> is_opening_fill (l_side l) ?a \<and> l_opened l - l_closed l < fd_qty fd")
    case True
    then have "handle_over_close rec now user te (g_id g) l ?a (fd_qty fd) (l_opened l - l_closed l) ts fd ctx s2 = (r, t)"
      using run by (simp add: unf)
    from handle_over_close_effect [OF rec inv2 l(1,2,4,3) g2 g(2) _ refl q _ this] True eff show ?thesis by blast
  next
    case False
    then have b: "bookable s2 g l ?a (fd_qty fd)" using inv2 l g g2 q by (auto simp: bookable_def)
    obtain r3 s3 where 3: "book_fill now user (g_id g) l te (fd_broker fd) ?a (fd_qty fd) (fd_price fd) (fd_fee fd) ts
        (text_or (c_source ctx) ''LIVE'') (mult_of fd) (is_opening_fill (l_side l) ?a) key s2 = (r3, s3)" by fastforce
    note e = book_fill_effect [OF b 3]
    have out: "(case r3 of Inl e \<Rightarrow> (Failed e, s3) | Inr (fid, eid, st) \<Rightarrow> (Recorded (g_id g) (l_id l) fid eid st, s3)) = (r, t)"
      using run False 3 by (auto simp: unf split: sum.splits)
    then have t: "t = s3" by (cases r3) auto
    show ?thesis
    proof (cases r3)
      case (Inl err)
      with out t e(1) show ?thesis by auto
    next
      case (Inr x)
      have "fill_effect user fd s2 s3"
        unfolding fill_effect_def using e(2,3) [OF Inr, unfolded l(3,4)] by (intro conjI allI)
      with t e(1) eff show ?thesis by blast
    qed
  qed
qed

lemma record_fill_body_good:
  assumes "good_recorder user rec"
  shows "good_recorder user (record_fill_body rec now user te)"
  unfolding good_recorder_def
proof (intro allI impI)
  fix fd ctx s r t
  assume inv: "ledger_inv s" and run: "record_fill_body rec now user te fd ctx s = (r, t)"
  show "ledger_inv t \<and> (booked r \<longrightarrow> fill_effect user fd s t)"
    using run inv process_fill_effect [OF assms inv, of fd now te _ _ ctx r t]
    by (auto simp: record_fill_body_def Let_def action_of_def [symmetric] split: if_splits option.splits)
qed

lemma record_fill_good: "good_recorder user (record_fill now user te)"
  unfolding record_fill_def
  by (intro record_fill_body_good) (simp add: good_recorder_def)

lemma record_fill_keeps_invariant_aux:
  "ledger_inv s \<Longrightarrow> record_fill now user te fd ctx s = (r, t) \<Longrightarrow> ledger_inv t"
  using record_fill_good unfolding good_recorder_def by blast

definition empty_ledger :: ledger where
  "empty_ledger = \<lparr>groups = [], legs = [], fills = [], events = [], next_id = 0\<rparr>"

definition sample_fill :: "string \<Rightarrow> int \<Rightarrow> string \<Rightarrow> fill_data" where
  "sample_fill act qty ts = \<lparr>fd_symbol = Some ''SPY'', fd_underlying = None, fd_action = Some act,
     fd_side = None, fd_qty = qty, fd_price = 2, fd_price_text = ''2'', fd_fee = 1,
     fd_filled_at = Some ts, fd_broker = None, fd_right = None, fd_strike = None,
     fd_expiry = None, fd_mult = Some 1\<rparr>"

definition sample_ctx :: fill_context where
  "sample_ctx = \<lparr>c_fingerprint = Some ''fp'', c_strategy_key = None, c_source = None\<rparr>"

definition long5 :: ledger where
  "long5 = snd (record_fill ''now'' ''u'' (Some ''x1'') (sample_fill ''buy'' 5 ''t1'') sample_ctx empty_ledger)"

lemma empty_ledger_inv: "ledger_inv empty_ledger"
  by (simp add: empty_ledger_def ledger_inv_def)

text \<open>
  C3 (invariant). Recording a fill keeps the ledger well formed on every path, failures
  included: ids stay unique, no leg is closed beyond what was opened, every leg belongs to a
  group of its user, and a closed group's legs are flat.
\<close>

theorem record_fill_keeps_invariant:
  assumes "ledger_inv s" and "record_fill now user te fd ctx s = (r, t)"
  shows "ledger_inv t"
  using assms by (rule record_fill_keeps_invariant_aux)

theorem record_fill_keeps_invariant_witness:
  "ledger_inv long5"
  unfolding long5_def
  by (rule record_fill_keeps_invariant [OF empty_ledger_inv])
     (rule prod.collapse [symmetric])

text \<open>
  C1 (refinement). A recorded fill changes the abstract ledger by exactly the fill: the user's
  net quantity of the symbol moves by the signed quantity, the user's cash by the signed
  notional less the whole fee, and nothing else moves. This holds on the direct path and on the
  over-close path, where quantity and fee are split over two bookings.
\<close>

theorem record_fill_refines:
  assumes "ledger_inv s" and "record_fill now user te fd ctx s = (r, t)" and "booked r"
  shows "(\<forall>u y. net_qty t u y = net_qty s u y
      + (if u = user \<and> y = text_or (fd_symbol fd) [] then signed_qty (action_of fd) (fd_qty fd) else 0)) \<and>
    (\<forall>u. cash_total t u = cash_total s u
      + (if u = user then (case action_of fd of BUY \<Rightarrow> - 1 | SELL \<Rightarrow> 1) * (fd_price fd * of_int (fd_qty fd) * of_int (mult_of fd)) - fd_fee fd
         else 0))"
proof -
  have "compute_cash_impact a q p f m = (case a of BUY \<Rightarrow> - 1 | SELL \<Rightarrow> 1) * (p * of_int q * of_int m) - f" for a q p f m
    by (cases a) (simp_all add: compute_cash_impact_def)
  with record_fill_good assms show ?thesis unfolding good_recorder_def fill_effect_def by metis
qed

lemma long5_run:
  "record_fill ''now'' ''u'' (Some ''x1'') (sample_fill ''buy'' 5 ''t1'') sample_ctx empty_ledger
     = (Recorded 0 1 2 3 OPEN, long5)"
  unfolding long5_def by code_simp

theorem record_fill_refines_witness:
  "net_qty long5 ''u'' ''SPY'' = 5 \<and> cash_total long5 ''u'' = - 11"
proof -
  have q: "text_or (fd_symbol (sample_fill ''buy'' 5 ''t1'')) [] = ''SPY''"
    "signed_qty (action_of (sample_fill ''buy'' 5 ''t1'')) (fd_qty (sample_fill ''buy'' 5 ''t1'')) = 5"
    by code_simp+
  have c: "(case action_of (sample_fill ''buy'' 5 ''t1'') of BUY \<Rightarrow> - 1 | SELL \<Rightarrow> 1) *
      (fd_price (sample_fill ''buy'' 5 ''t1'') * of_int (fd_qty (sample_fill ''buy'' 5 ''t1'')) *
       of_int (mult_of (sample_fill ''buy'' 5 ''t1''))) - fd_fee (sample_fill ''buy'' 5 ''t1'') = - 11" by code_simp
  have z: "net_qty empty_ledger u y = 0" "cash_total empty_ledger u = 0" for u y
    by (simp_all add: net_qty_def cash_total_def empty_ledger_def)
  show ?thesis using record_fill_refines [OF empty_ledger_inv long5_run] unfolding q c z by simp
qed

lemma handle_over_close_cong:
  assumes inv: "ledger_inv s" and l: "leg \<in> set (legs s)" "l_group leg = g_id g" "l_user leg = user"
    and g: "g \<in> set (groups s)" "g_status g = OPEN"
    and closing: "\<not> is_opening_fill (l_side leg) action" and cq: "cq = l_opened leg - l_closed leg"
    and same: "\<And>fd ctx s. ledger_inv s \<Longrightarrow> c_fingerprint ctx = None \<Longrightarrow> c_strategy_key ctx = None
      \<Longrightarrow> rec1 fd ctx s = rec2 fd ctx s"
  shows "handle_over_close rec1 now user te (g_id g) leg action tot cq ts fd ctx s
       = handle_over_close rec2 now user te (g_id g) leg action tot cq ts fd ctx s"
proof -
  let ?cfee = "(if 0 < tot then fd_fee fd / of_int tot else 0) * of_int cq"
  let ?key = "build_event_key te (text_or (fd_symbol fd) []) action ts cq (fd_price_text fd)"
  obtain rc s1 where part: "(if 0 < cq then abind (book_fill now user (g_id g) leg te (fd_broker fd) action cq (fd_price fd)
          ?cfee ts (text_or (c_source ctx) ''LIVE'') (case fd_mult fd of None \<Rightarrow> 100 | Some m \<Rightarrow> m) False ?key)
          (\<lambda>(fid, eid, st). areturn (Some (g_id g, l_id leg, fid, eid, st, cq))) s
        else areturn None s) = (rc, s1)" by fastforce
  have "ledger_inv s1" by (rule close_part_effect(1) [OF inv l g closing part cq])
  then show ?thesis unfolding handle_over_close_def Let_def part
    by (cases rc) (simp_all add: same)
qed

lemma process_fill_cong:
  assumes inv: "ledger_inv s"
    and same: "\<And>fd ctx s. ledger_inv s \<Longrightarrow> c_fingerprint ctx = None \<Longrightarrow> c_strategy_key ctx = None
      \<Longrightarrow> rec1 fd ctx s = rec2 fd ctx s"
  shows "process_fill rec1 now user te action ts key fd ctx s = process_fill rec2 now user te action ts key fd ctx s"
proof -
  let ?und = "text_or (fd_underlying fd) (extract_underlying (fd_symbol fd))"
  obtain r1 s1 where 1: "find_or_create_group user ?und (c_fingerprint ctx) (c_strategy_key ctx) s = (r1, s1)" by fastforce
  from find_or_create_group_props [OF inv 1] obtain g where r1: "r1 = Inr g"
    and g: "g \<in> set (groups s1)" "g_status g = OPEN" "g_user g = user" and inv1: "ledger_inv s1" by blast
  obtain r2 s2 where 2: "find_or_create_leg (g_id g) user (text_or (fd_symbol fd) []) ?und
      (case fd_right fd of None \<Rightarrow> ''S'' | Some r \<Rightarrow> str_upper r) (fd_strike fd) (fd_expiry fd)
      (case fd_mult fd of None \<Rightarrow> 100 | Some m \<Rightarrow> m) action s1 = (r2, s2)" by fastforce
  from find_or_create_leg_props [OF inv1 g 2] obtain l n where r2: "r2 = Inr (l, n)"
    and l: "l \<in> set (legs s2)" "l_group l = g_id g" "l_user l = user" and inv2: "ledger_inv s2" and gs: "groups s2 = groups s1"
    by blast
  show ?thesis unfolding process_fill_def Let_def 1 r1
    using handle_over_close_cong [OF inv2 l _ g(2) _ refl same] g(1) gs by (simp add: 2 r2)
qed

text \<open>
  The unrolled \<open>record_fill\<close> satisfies the recursive equation of the source,
  in which the over-close path calls \<open>record_fill\<close> itself, so the recursion always stops after
  one level.
\<close>

theorem record_fill_fixpoint:
  assumes "ledger_inv s"
  shows "record_fill now user te fd ctx s
    = record_fill_body (record_fill now user te) now user te fd ctx s"
proof -
  have "process_fill (record_fill_body (\<lambda>fd ctx s. (Failed DbError, s)) now user te) now user te action ts key fd ctx s
      = process_fill (record_fill now user te) now user te action ts key fd ctx s" for action ts key
    unfolding record_fill_def
    by (rule process_fill_cong [OF assms]) (rule record_fill_body_no_keys)
  then show ?thesis
    by (subst record_fill_def) (simp add: record_fill_body_def [where ?rec = "record_fill now user te"]
      record_fill_body_def [where ?rec = "record_fill_body (\<lambda>fd ctx s. (Failed DbError, s)) now user te"] Let_def
      split: option.split)
qed

theorem record_fill_fixpoint_witness:
  "record_fill ''now'' ''u'' None (sample_fill ''sell'' 7 ''t2'') sample_ctx empty_ledger
    = record_fill_body (record_fill ''now'' ''u'' None) ''now'' ''u'' None (sample_fill ''sell'' 7 ''t2'') sample_ctx empty_ledger"
  by (rule record_fill_fixpoint [OF empty_ledger_inv])

subsection \<open>Idempotency\<close>

lemma create_events [simp]:
  "find_or_create_group user und fp sk s = (r, t) \<Longrightarrow> events t = events s"
  "find_or_create_leg gid user symb und right strike expiry mult action s = (r', t) \<Longrightarrow> events t = events s"
  by (auto simp: find_or_create_group_def create_group_def find_or_create_leg_def Let_def split: option.splits)

lemma book_fill_events:
  assumes "book_fill now user gid leg te broker action qty price fee ts src mult opening key s = (r, t)"
  shows "case r of Inl _ \<Rightarrow> prefix (events s) (events t)
    | Inr (fid, eid, st) \<Rightarrow> (\<exists>e. events t = events s @ [e] \<and> e_user e = user \<and> e_key e = key
        \<and> e_group e = gid \<and> e_fill e = fid)"
  using assms
  by (auto simp: book_fill_def abind_def Let_def insert_fill_def update_leg_quantities_def insert_event_def
      update_group_stats_def check_and_close_group_def areturn_def split: if_splits option.splits)

definition keeps_events :: "recorder \<Rightarrow> bool" where
  "keeps_events rec \<longleftrightarrow> (\<forall>fd ctx s r t. rec fd ctx s = (r, t) \<longrightarrow> prefix (events s) (events t))"

lemma close_part_events:
  "(if 0 < cq then abind (book_fill now user gid leg te broker action cq price fee ts src mult False key)
      (\<lambda>(fid, eid, st). areturn (Some (gid, l_id leg, fid, eid, st, cq))) s else areturn None s) = (r, t)
    \<Longrightarrow> prefix (events s) (events t)"
  by (fastforce simp: abind_def split: if_splits prod.splits sum.splits dest!: book_fill_events)

lemma handle_over_close_events:
  assumes "keeps_events rec" and "handle_over_close rec now user te gid leg action tot cq ts fd ctx s = (r, t)"
  shows "prefix (events s) (events t)"
proof -
  let ?part = "if 0 < cq then abind (book_fill now user gid leg te (fd_broker fd) action cq (fd_price fd)
          ((if 0 < tot then fd_fee fd / of_int tot else 0) * of_int cq) ts (text_or (c_source ctx) ''LIVE'')
          (case fd_mult fd of None \<Rightarrow> 100 | Some m \<Rightarrow> m) False
          (build_event_key te (text_or (fd_symbol fd) []) action ts cq (fd_price_text fd)))
          (\<lambda>(fid, eid, st). areturn (Some (gid, l_id leg, fid, eid, st, cq))) s else areturn None s"
  obtain rc s1 where part: "?part = (rc, s1)" by fastforce
  note e1 = close_part_events [OF part]
  have e2: "prefix (events s1) (events u)" if "rec x y s1 = (z, u)" for x y z u
    using assms(1) that unfolding keeps_events_def by blast
  show ?thesis using assms(2) e1 e2 unfolding handle_over_close_def Let_def part
    by (fastforce split: sum.splits if_splits prod.splits)
qed

lemma process_fill_events:
  assumes "keeps_events rec" and "process_fill rec now user te action ts key fd ctx s = (r, t)"
  shows "prefix (events s) (events t)"
    and "r = Recorded g l f e st \<Longrightarrow> \<exists>ev. events t = events s @ [ev] \<and> e_user ev = user \<and> e_key ev = key
       \<and> e_group ev = g \<and> e_fill ev = f"
proof -
  let ?und = "text_or (fd_underlying fd) (extract_underlying (fd_symbol fd))"
  obtain r1 s1 where 1: "find_or_create_group user ?und (c_fingerprint ctx) (c_strategy_key ctx) s = (r1, s1)" by fastforce
  have "prefix (events s) (events t) \<and> (r = Recorded g l f e st \<longrightarrow> (\<exists>ev. events t = events s @ [ev]
      \<and> e_user ev = user \<and> e_key ev = key \<and> e_group ev = g \<and> e_fill ev = f))"
  proof (cases r1)
    case (Inl err)
    with assms(2) 1 show ?thesis by (auto simp: process_fill_def Let_def)
  next
    case (Inr gr)
    obtain r2 s2 where 2: "find_or_create_leg (g_id gr) user (text_or (fd_symbol fd) []) ?und
      (case fd_right fd of None \<Rightarrow> ''S'' | Some r \<Rightarrow> str_upper r) (fd_strike fd) (fd_expiry fd)
      (case fd_mult fd of None \<Rightarrow> 100 | Some m \<Rightarrow> m) action s1 = (r2, s2)" by fastforce
    have ev: "events s2 = events s" using create_events(1) [OF 1] create_events(2) [OF 2] by simp
    show ?thesis
    proof (cases r2)
      case (Inl err)
      with assms(2) 1 2 Inr ev show ?thesis by (auto simp: process_fill_def Let_def)
    next
      case r2: (Inr ln)
      obtain lg n where ln: "ln = (lg, n)" by fastforce
      let ?o = "is_opening_fill (l_side lg) action"
      show ?thesis
      proof (cases "\<not> ?o \<and> l_opened lg - l_closed lg < fd_qty fd")
        case True
        then have oc: "handle_over_close rec now user te (g_id gr) lg action (fd_qty fd) (l_opened lg - l_closed lg) ts fd ctx s2 = (r, t)"
          using assms(2) by (simp add: process_fill_def Let_def 1 Inr 2 r2 ln)
        have "r \<noteq> Recorded g l f e st"
          using oc by (auto simp: handle_over_close_def Let_def split: prod.splits sum.splits if_splits)
        with handle_over_close_events [OF assms(1) oc] ev show ?thesis by simp
      next
        case False
        obtain r3 s3 where 3: "book_fill now user (g_id gr) lg te (fd_broker fd) action (fd_qty fd) (fd_price fd) (fd_fee fd) ts
          (text_or (c_source ctx) ''LIVE'') (case fd_mult fd of None \<Rightarrow> 100 | Some m \<Rightarrow> m) ?o key s2 = (r3, s3)" by fastforce
        have "(case r3 of Inl e \<Rightarrow> (Failed e, s3) | Inr (fid, eid, st) \<Rightarrow> (Recorded (g_id gr) (l_id lg) fid eid st, s3)) = (r, t)"
          using assms(2) False 3 by (auto simp: process_fill_def Let_def 1 Inr 2 r2 ln split: sum.splits)
        with book_fill_events [OF 3] ev show ?thesis by (auto split: sum.splits)
      qed
    qed
  qed
  then show "prefix (events s) (events t)"
    and "r = Recorded g l f e st \<Longrightarrow> \<exists>ev. events t = events s @ [ev] \<and> e_user ev = user \<and> e_key ev = key
       \<and> e_group ev = g \<and> e_fill ev = f" by blast+
qed

definition key_of :: "string option \<Rightarrow> fill_data \<Rightarrow> string option" where
  "key_of te fd = build_event_key te (the (fd_symbol fd)) (action_of fd) (the (fd_filled_at fd)) (fd_qty fd) (fd_price_text fd)"

lemma record_fill_body_events:
  assumes "keeps_events rec" shows "keeps_events (record_fill_body rec now user te)"
  using process_fill_events(1) [OF assms] unfolding keeps_events_def
  by (auto simp: record_fill_body_def Let_def split: if_splits option.splits)

lemma record_fill_events: "keeps_events (record_fill now user te)"
  unfolding record_fill_def by (intro record_fill_body_events) (simp add: keeps_events_def)

lemma record_fill_Recorded:
  assumes run: "record_fill now user te fd ctx s = (Recorded g l f e st, t)" and ts: "some_text (fd_filled_at fd)"
  shows "existing_event user (key_of te fd) s = None"
    and "\<exists>ev. events t = events s @ [ev] \<and> e_user ev = user \<and> e_key ev = key_of te fd \<and> e_group ev = g \<and> e_fill ev = f"
    and "some_text (fd_symbol fd) \<and> 0 < fd_qty fd \<and> (fill_action_of fd = ''BUY'' \<or> fill_action_of fd = ''SELL'')"
proof -
  have te: "text_or (fd_filled_at fd) now = the (fd_filled_at fd)" using ts by (simp add: text_or_def)
  have k: "keeps_events (record_fill_body (\<lambda>fd ctx s. (Failed DbError, s)) now user te)"
    by (intro record_fill_body_events) (simp add: keeps_events_def)
  from run have "existing_event user (key_of te fd) s = None \<and>
      process_fill (record_fill_body (\<lambda>fd ctx s. (Failed DbError, s)) now user te) now user te (action_of fd)
        (the (fd_filled_at fd)) (key_of te fd) fd ctx s = (Recorded g l f e st, t) \<and>
      some_text (fd_symbol fd) \<and> 0 < fd_qty fd \<and> (fill_action_of fd = ''BUY'' \<or> fill_action_of fd = ''SELL'')"
    unfolding record_fill_def [of now user te] record_fill_body_def [where ?rec = "record_fill_body _ _ _ _"] Let_def te
      action_of_def [symmetric] key_of_def [symmetric]
    by (auto split: if_splits option.splits)
  with process_fill_events(2) [OF k] show "existing_event user (key_of te fd) s = None"
    and "\<exists>ev. events t = events s @ [ev] \<and> e_user ev = user \<and> e_key ev = key_of te fd \<and> e_group ev = g \<and> e_fill ev = f"
    and "some_text (fd_symbol fd) \<and> 0 < fd_qty fd \<and> (fill_action_of fd = ''BUY'' \<or> fill_action_of fd = ''SELL'')"
    by blast+
qed

lemma some_text_key: "some_text te \<Longrightarrow> some_text (key_of te fd)"
  by (simp add: key_of_def build_event_key_def some_text_def)

lemma find_append_Some: "find P xs = Some y \<Longrightarrow> find P (xs @ ys) = Some y"
  by (induction xs) (auto split: if_splits)

text \<open>
  A ledger that only gained events since a fill with an execution id and a fill time was
  recorded answers the fill as a duplicate of the recorded one, and stays as it is.
\<close>

lemma recorded_fill_is_duplicate:
  assumes "record_fill now user te fd ctx s = (Recorded g l f e st, t)"
    and "some_text te" and "some_text (fd_filled_at fd)" and "prefix (events t) (events u)"
  shows "record_fill now' user te fd ctx' u = (DedupEvent g f, u)"
proof -
  note r = record_fill_Recorded [OF assms(1,3)]
  have te: "text_or (fd_filled_at fd) now' = the (fd_filled_at fd)" using assms(3) by (simp add: text_or_def)
  from r(1) some_text_key [OF assms(2)] have none: "find (\<lambda>e. e_user e = user \<and> e_key e = key_of te fd) (events s) = None"
    by (simp add: existing_event_def)
  from r(2) obtain ev where ev: "events t = events s @ [ev]" "e_user ev = user" "e_key ev = key_of te fd"
    "e_group ev = g" "e_fill ev = f" by blast
  from assms(4) obtain es where es: "events u = events t @ es" by (auto elim: prefixE)
  have "find (\<lambda>e. e_user e = user \<and> e_key e = key_of te fd) (events s @ [ev]) = Some ev"
    by (rule find_snoc [OF none]) (simp add: ev)
  then have "find (\<lambda>e. e_user e = user \<and> e_key e = key_of te fd) (events u) = Some ev"
    unfolding es ev(1) by (rule find_append_Some)
  then have found: "existing_event user (key_of te fd) u = Some ev"
    using some_text_key [OF assms(2), of fd] by (simp add: existing_event_def)
  show ?thesis
    unfolding record_fill_def record_fill_body_def [where ?rec = "record_fill_body _ _ _ _"] Let_def te
      action_of_def [symmetric] key_of_def [symmetric] found
    using r(3) ev by auto
qed

text \<open>The calls of \<open>record_fill\<close> that follow, of any users, with any fills, in any order.\<close>

record fill_op =
  op_now :: string
  op_user :: string
  op_exec :: "string option"
  op_fill :: fill_data
  op_ctx :: fill_context

definition apply_fill :: "fill_op \<Rightarrow> ledger \<Rightarrow> ledger" where
  "apply_fill x s = snd (record_fill (op_now x) (op_user x) (op_exec x) (op_fill x) (op_ctx x) s)"

lemma apply_fills_events: "prefix (events s) (events (fold apply_fill xs s))"
proof (induction xs arbitrary: s)
  case (Cons x xs)
  have "prefix (events s) (events (apply_fill x s))"
    using record_fill_events unfolding keeps_events_def apply_fill_def by (metis prod.collapse)
  with Cons.IH [of "apply_fill x s"] show ?case by (auto intro: prefix_order.trans)
qed simp

text \<open>
  C4 (safety). A fill that was recorded whole, with an execution id and a fill time, is never
  booked again: after any further calls of \<open>record_fill\<close>, of any users, with other fills,
  duplicates and failures, a retry of the fill returns the group and the fill that were recorded
  and leaves the ledger as it is. The retry may come at another time and with another context.
  A fill that was split because it closes more than its leg holds is not covered: its two parts
  are booked under keys of their own, see \<open>over_closed_retry_is_booked_again\<close>.
\<close>

theorem recorded_fill_is_never_booked_again:
  assumes "record_fill now user te fd ctx s = (Recorded g l f e st, t)"
    and "some_text te" and "some_text (fd_filled_at fd)"
  shows "record_fill now' user te fd ctx' (fold apply_fill xs t) = (DedupEvent g f, fold apply_fill xs t)"
  using assms apply_fills_events by (rule recorded_fill_is_duplicate)

definition sell_op :: fill_op where
  "sell_op = \<lparr>op_now = ''now'', op_user = ''u'', op_exec = Some ''x2'', op_fill = sample_fill ''sell'' 12 ''t2'', op_ctx = sample_ctx\<rparr>"

theorem recorded_fill_is_never_booked_again_witness:
  "record_fill ''later'' ''u'' (Some ''x1'') (sample_fill ''buy'' 5 ''t1'') sample_ctx (fold apply_fill [sell_op] long5)
     = (DedupEvent 0 2, fold apply_fill [sell_op] long5)"
  by (rule recorded_fill_is_never_booked_again [OF long5_run]) (simp_all add: some_text_def sample_fill_def)

subsection \<open>Defects of the over-close path\<close>

text \<open>
  An over-closing fill is not idempotent: neither of its parts is booked under the key of the
  whole fill, so a retry with the same execution id does not find it. A sale of twelve on a long
  leg of five leaves the account short seven; the retry sells twelve more.
\<close>

lemma over_closed_retry_is_booked_again:
  "net_qty (apply_fill sell_op long5) ''u'' ''SPY'' = - 7"
  "net_qty (apply_fill sell_op (apply_fill sell_op long5)) ''u'' ''SPY'' = - 19"
  by code_simp+

lemma over_close_equal_split:
  assumes run: "handle_over_close (record_fill_body rec now user te) now user te gid leg (action_of fd) (fd_qty fd) cq
        (text_or (fd_filled_at fd) now) fd ctx s = (OverClosed (Some part) r, t)"
    and half: "fd_qty fd = 2 * cq" "0 < cq" and te: "some_text te" and sy: "some_text (fd_symbol fd)"
  shows "(\<exists>g f. r = Some (DedupEvent g f)) \<and> (\<exists>key x. book_fill now user gid leg te (fd_broker fd) (action_of fd) cq (fd_price fd)
      (fd_fee fd / of_int (fd_qty fd) * of_int cq) (text_or (fd_filled_at fd) now) (text_or (c_source ctx) ''LIVE'')
      (mult_of fd) False key s = (Inr x, t))"
proof -
  let ?ts = "text_or (fd_filled_at fd) now"
  let ?rd = "remainder_data fd (action_of fd) (fd_qty fd) cq"
  let ?key = "build_event_key te (text_or (fd_symbol fd) []) (action_of fd) ?ts cq (fd_price_text fd)"
  have part: "some_text ?key" using te by (simp add: build_event_key_def some_text_def)
  have rd: "fill_action_of ?rd = (case action_of fd of BUY \<Rightarrow> ''BUY'' | SELL \<Rightarrow> ''SELL'')" "fd_qty ?rd = cq"
    "fd_filled_at ?rd = fd_filled_at fd" "fd_symbol ?rd = fd_symbol fd" "fd_price_text ?rd = fd_price_text fd"
    using half by (cases "action_of fd"; simp add: remainder_data_def fill_action_of_def str_upper_actions)+
  have key: "build_event_key te (the (fd_symbol fd)) (if fill_action_of ?rd = ''BUY'' then BUY else SELL) ?ts cq (fd_price_text fd) = ?key"
    using sy rd(1) by (cases "action_of fd") (auto simp: text_or_def)
  obtain fid eid st s1 where bf: "book_fill now user gid leg te (fd_broker fd) (action_of fd) cq (fd_price fd)
      (fd_fee fd / of_int (fd_qty fd) * of_int cq) ?ts (text_or (c_source ctx) ''LIVE'') (mult_of fd) False ?key s = (Inr (fid, eid, st), s1)"
    and rest: "(case record_fill_body rec now user te ?rd (ctx\<lparr>c_strategy_key := None, c_fingerprint := None\<rparr>) s1
       of (q, u) \<Rightarrow> (Some q, u)) = (r, t)"
    using run half
    by (auto simp: handle_over_close_def Let_def mult_of_def [symmetric] abind_def remainder_data_def
        split: sum.splits prod.splits if_splits)
  from book_fill_events [OF bf] have "\<exists>e \<in> set (events s1). e_user e = user \<and> e_key e = ?key" by auto
  then obtain ev where ev: "existing_event user ?key s1 = Some ev"
    using part by (fastforce simp: existing_event_def find_None_iff)
  have "record_fill_body rec now user te ?rd (ctx\<lparr>c_strategy_key := None, c_fingerprint := None\<rparr>) s1
      = (DedupEvent (e_group ev) (e_fill ev), s1)"
    using sy half rd(1) unfolding record_fill_body_def Let_def rd(2-5) key ev
    by (cases "action_of fd") auto
  with rest bf show ?thesis by auto
qed

text \<open>
  When an over-closing fill with an execution id closes exactly half of its
  quantity, the remainder's event key equals the closing part's, so the remainder is taken for
  a duplicate: the result still reports success, but only half of the fill is booked.
\<close>

theorem over_close_equal_split_drops_remainder:
  assumes inv: "ledger_inv s" and te: "some_text te"
    and run: "record_fill now user te fd ctx s = (OverClosed (Some (gid, lid, fid, eid, st, cq)) r, t)"
    and half: "fd_qty fd = 2 * cq"
  shows "(\<exists>g f. r = Some (DedupEvent g f)) \<and>
    net_qty t user (the (fd_symbol fd)) = net_qty s user (the (fd_symbol fd)) + signed_qty (action_of fd) cq"
proof -
  let ?rec = "record_fill_body (\<lambda>fd ctx s. (Failed DbError, s)) now user te"
  let ?ts = "text_or (fd_filled_at fd) now"
  let ?und = "text_or (fd_underlying fd) (extract_underlying (fd_symbol fd))"
  obtain key where pf: "process_fill ?rec now user te (action_of fd) ?ts key fd ctx s = (OverClosed (Some (gid, lid, fid, eid, st, cq)) r, t)"
    and sy: "some_text (fd_symbol fd)" and q: "0 < fd_qty fd"
    using run unfolding record_fill_def [of now user te] record_fill_body_def [where ?rec = ?rec] Let_def
      action_of_def [symmetric]
    by (auto split: if_splits option.splits)
  obtain r1 s1 where 1: "find_or_create_group user ?und (c_fingerprint ctx) (c_strategy_key ctx) s = (r1, s1)" by fastforce
  from find_or_create_group_props [OF inv 1] obtain g where r1: "r1 = Inr g"
    and g: "g \<in> set (groups s1)" "g_status g = OPEN" "g_user g = user" and inv1: "ledger_inv s1"
    and f1: "legs s1 = legs s" by blast
  obtain r2 s2 where 2: "find_or_create_leg (g_id g) user (text_or (fd_symbol fd) []) ?und
      (case fd_right fd of None \<Rightarrow> ''S'' | Some r \<Rightarrow> str_upper r) (fd_strike fd) (fd_expiry fd) (mult_of fd) (action_of fd) s1 = (r2, s2)"
    by fastforce
  from find_or_create_leg_props [OF inv1 g 2] obtain l n where r2: "r2 = Inr (l, n)"
    and l: "l \<in> set (legs s2)" "l_group l = g_id g" "l_symbol l = text_or (fd_symbol fd) []" "l_user l = user"
    and inv2: "ledger_inv s2" and f2: "groups s2 = groups s1" "net_qty s2 = net_qty s1" by blast
  have closing: "\<not> is_opening_fill (l_side l) (action_of fd)"
    and oc: "handle_over_close ?rec now user te (g_id g) l (action_of fd) (fd_qty fd) (l_opened l - l_closed l) ?ts fd ctx s2
        = (OverClosed (Some (gid, lid, fid, eid, st, cq)) r, t)"
    using pf by (auto simp: process_fill_def Let_def 1 r1 mult_of_def [symmetric] 2 r2 split: if_splits sum.splits prod.splits)
  have cq: "cq = l_opened l - l_closed l"
    using oc by (auto simp: handle_over_close_def Let_def abind_def split: if_splits sum.splits prod.splits)
  have pos: "0 < cq" using half q by simp
  from over_close_equal_split [OF oc [folded cq] half pos te sy] obtain k x where
    dd: "\<exists>g f. r = Some (DedupEvent g f)" and bf: "book_fill now user (g_id g) l te (fd_broker fd) (action_of fd) cq (fd_price fd)
      (fd_fee fd / of_int (fd_qty fd) * of_int cq) ?ts (text_or (c_source ctx) ''LIVE'') (mult_of fd) False k s2 = (Inr x, t)" by blast
  have b: "bookable s2 g l (action_of fd) cq" using inv2 l g f2 pos cq by (simp add: bookable_def)
  have op: "is_opening_fill (l_side l) (action_of fd) = False" using closing by simp
  from book_fill_effect(2) [OF b, unfolded op, OF bf refl, of user "the (fd_symbol fd)"] dd l sy
  show ?thesis using f1 f2 net_qty_frame [of s1 s] by (simp add: text_or_def)
qed

definition after_flip :: "fill_outcome \<times> ledger" where
  "after_flip = record_fill ''now'' ''u'' (Some ''x2'') (sample_fill ''sell'' 10 ''t2'') sample_ctx long5"

text \<open>A long 5, sold 10: the ledger ends flat, not short 5, and reports no failure.\<close>

theorem over_close_equal_split_drops_remainder_witness:
  "net_qty (snd after_flip) ''u'' ''SPY'' = 0"
proof -
  have run: "record_fill ''now'' ''u'' (Some ''x2'') (sample_fill ''sell'' 10 ''t2'') sample_ctx long5
      = (OverClosed (Some (0, 1, 4, 5, CLOSED, 5)) (Some (DedupEvent 0 4)), snd after_flip)"
    unfolding after_flip_def by code_simp
  have inv: "ledger_inv long5"
    unfolding long5_def by (rule record_fill_keeps_invariant_aux [OF empty_ledger_inv]) (rule prod.collapse [symmetric])
  have a: "the (fd_symbol (sample_fill ''sell'' 10 ''t2'')) = ''SPY''"
    "signed_qty (action_of (sample_fill ''sell'' 10 ''t2'')) 5 = - 5" "net_qty long5 ''u'' ''SPY'' = 5"
    by code_simp+
  have "some_text (Some ''x2'')" "fd_qty (sample_fill ''sell'' 10 ''t2'') = 2 * 5"
    by (simp_all add: some_text_def sample_fill_def)
  from over_close_equal_split_drops_remainder [OF inv this(1) run this(2)] show ?thesis unfolding a by simp
qed

subsection \<open>Reconciliation\<close>

text \<open>Closed groups are flat, so summing the open groups' legs gives the abstract net quantity.\<close>

lemma ledger_qty_net: "ledger_inv s \<Longrightarrow> ledger_qty s user symbol = net_qty s user symbol"
proof -
  assume inv: "ledger_inv s"
  have "(if l_user l = user \<and> l_symbol l = symbol
         \<and> (\<exists>g \<in> set (groups s). g_user g = user \<and> g_status g = OPEN \<and> g_id g = l_group l)
       then signed_remaining l else 0) = (if l_user l = user \<and> l_symbol l = symbol then signed_remaining l else 0)"
    if "l \<in> set (legs s)" for l
  proof -
    from that inv obtain g where "g \<in> set (groups s)" "g_id g = l_group l" "g_user g = l_user l"
      "g_status g = CLOSED \<longrightarrow> l_opened l = l_closed l" by (auto simp: ledger_inv_def leg_ok_def)
    then show ?thesis by (cases "g_status g") (auto simp: signed_remaining_def)
  qed
  then show ?thesis by (simp add: ledger_qty_def net_qty_def cong: map_cong)
qed

lemma ledger_qty_outside: "symbol \<notin> set (ledger_symbols s user) \<Longrightarrow> ledger_qty s user symbol = 0"
  unfolding ledger_qty_def by (rule sum_list_zero) (auto simp: ledger_symbols_def)

lemma broker_qty_outside:
  "symbol \<notin> set (List.map_filter (\<lambda>(sym, q). if some_text sym then sym else None) rows) \<Longrightarrow> broker_qty rows symbol = 0"
  unfolding broker_qty_def by (rule sum_list_zero) (auto simp: set_map_filter split: if_splits)

lemma reconcile_symbol_symbol: "reconcile_symbol s user rows y = Some b \<Longrightarrow> b_symbol b = y"
  by (auto simp: reconcile_symbol_def Let_def split: if_splits)

text \<open>
  Reconciliation reports exactly the symbols on which the ledger's net
  quantity and the broker snapshot differ, each once, with the signed difference and the type
  that says on which side the position is missing.
\<close>

theorem reconcile_snapshot_exact:
  assumes "ledger_inv s"
  shows "length (filter (\<lambda>b. b_symbol b = y) (reconcile_snapshot s user rows))
      = (if net_qty s user y = broker_qty rows y then 0 else 1) \<and>
    (\<forall>b \<in> set (reconcile_snapshot s user rows).
       b_diff b = net_qty s user (b_symbol b) - broker_qty rows (b_symbol b) \<and> b_diff b \<noteq> 0 \<and>
       (b_type b = MISSING_IN_BROKER \<longleftrightarrow> broker_qty rows (b_symbol b) = 0) \<and>
       (b_type b = MISSING_IN_LEDGER \<longleftrightarrow> net_qty s user (b_symbol b) = 0))"
proof -
  let ?syms = "remdups (ledger_symbols s user @ List.map_filter (\<lambda>(sym, q). if some_text sym then sym else None) rows)"
  have "y \<notin> set ?syms \<Longrightarrow> net_qty s user y = broker_qty rows y"
    using ledger_qty_outside [of y s user] broker_qty_outside [of y rows] ledger_qty_net [OF assms, of user y] by simp
  moreover have "reconcile_symbol s user rows y \<noteq> None \<longleftrightarrow> net_qty s user y \<noteq> broker_qty rows y"
    by (simp add: reconcile_symbol_def Let_def ledger_qty_net [OF assms])
  ultimately have "length (filter (\<lambda>b. b_symbol b = y) (reconcile_snapshot s user rows))
      = (if net_qty s user y = broker_qty rows y then 0 else 1)"
    unfolding reconcile_snapshot_def
    by (subst count_map_filter_key) (auto dest: reconcile_symbol_symbol)
  moreover have "b_diff b = net_qty s user (b_symbol b) - broker_qty rows (b_symbol b) \<and> b_diff b \<noteq> 0 \<and>
       (b_type b = MISSING_IN_BROKER \<longleftrightarrow> broker_qty rows (b_symbol b) = 0) \<and>
       (b_type b = MISSING_IN_LEDGER \<longleftrightarrow> net_qty s user (b_symbol b) = 0)"
    if "b \<in> set (reconcile_snapshot s user rows)" for b
    using that by (auto simp: reconcile_snapshot_def set_map_filter reconcile_symbol_def Let_def
        ledger_qty_net [OF assms] split: if_splits)
  ultimately show ?thesis by blast
qed

theorem reconcile_snapshot_exact_witness:
  "length (filter (\<lambda>b. b_symbol b = ''SPY'') (reconcile_snapshot long5 ''u'' [(Some ''SPY'', 4)])) = 1"
proof -
  have inv: "ledger_inv long5"
    unfolding long5_def by (rule record_fill_keeps_invariant_aux [OF empty_ledger_inv]) (rule prod.collapse [symmetric])
  have "net_qty long5 ''u'' ''SPY'' \<noteq> broker_qty [(Some ''SPY'', 4)] ''SPY''" by code_simp
  with reconcile_snapshot_exact [OF inv, of "''SPY''" "''u''" "[(Some ''SPY'', 4)]"] show ?thesis by simp
qed

end
