(* ===== verification/Position_Model.thy ===== *)
theory Position_Model
  imports Occ_Symbols "HOL-Library.AList"
begin

section \<open>The canonical position (risk/position_model.py)\<close>

text \<open>
  A persisted position row is dynamically typed; the risk layer only works on the canonical
  form built here, where every rejected input has a typed reason: exact-integer quantities,
  one underlying, one expiry, one multiplier, legs with distinct symbols, and a signed entry
  cash flow. This theory models the coercions, the constructors' checks and the normalization
  of legs and positions, in the order of the source, and what a normalized position promises.
\<close>

subsection \<open>Types\<close>

datatype reject_reason =
    NOT_A_MAPPING | NO_LEGS | MISSING_FIELD | BOOL_NOT_ALLOWED | NOT_A_NUMBER | NON_FINITE
  | ZERO_QUANTITY | FRACTIONAL_QUANTITY | NON_POSITIVE_STRUCTURE_QUANTITY | UNKNOWN_SIDE
  | UNKNOWN_OPTION_TYPE | MALFORMED_STRIKE | NON_POSITIVE_MULTIPLIER | UNPARSEABLE_OCC
  | INCONSISTENT_UNDERLYING | INCONSISTENT_EXPIRY | MIXED_MULTIPLIER | DUPLICATE_LEG

datatype incompleteness =
    GREEKS_NOT_PERSISTED | MULTIPLIER_ASSUMED_STANDARD_OCC | CURRENCY_ASSUMED_USD

definition incompleteness_value :: "incompleteness \<Rightarrow> string" where
  "incompleteness_value r = (case r of
       GREEKS_NOT_PERSISTED \<Rightarrow> ''greeks_not_persisted''
     | MULTIPLIER_ASSUMED_STANDARD_OCC \<Rightarrow> ''multiplier_assumed_standard_occ''
     | CURRENCY_ASSUMED_USD \<Rightarrow> ''currency_assumed_usd'')"

datatype option_type = CALL | PUT

record leg_greeks =
  gk_delta :: "rat option"
  gk_gamma :: "rat option"
  gk_vega :: "rat option"
  gk_theta :: "rat option"
  gk_source :: "string option"
  gk_as_of :: "string option"
  gk_status :: "string option"

record cleg =
  cl_symbol :: string
  cl_underlying :: string
  cl_expiry :: pydate
  cl_type :: option_type
  cl_strike :: rat
  cl_ratio :: int
  cl_mult :: rat
  cl_greeks :: "leg_greeks option"

record completeness =
  cm_incomplete :: bool
  cm_reasons :: "incompleteness list"
  cm_missing_legs :: "string list"
  cm_detail :: "string list"

record provenance =
  pv_source :: string
  pv_position_id :: "string option"
  pv_from :: string

record cpos =
  cp_underlying :: string
  cp_expiry :: pydate
  cp_currency :: string
  cp_qty :: int
  cp_legs :: "cleg list"
  cp_cashflow :: rat
  cp_provenance :: provenance
  cp_completeness :: completeness

subsection \<open>Coercions\<close>

fun is_bool :: "pyval \<Rightarrow> bool" where
  "is_bool (PBool _) = True"
| "is_bool _ = False"

fun finite_float :: "pyval \<Rightarrow> reject_reason + rat" where
  "finite_float (PBool _) = Inl BOOL_NOT_ALLOWED"
| "finite_float PNone = Inl MISSING_FIELD"
| "finite_float v = (case py_float v of
      Inl _ \<Rightarrow> Inl NOT_A_NUMBER
    | Inr (Fin q) \<Rightarrow> Inr q
    | Inr _ \<Rightarrow> Inl NON_FINITE)"

definition finite_or_none :: "pyval \<Rightarrow> rat option" where
  "finite_or_none v =
     (if v = PNone \<or> is_bool v then None
      else (case py_float v of Inr (Fin q) \<Rightarrow> Some q | _ \<Rightarrow> None))"

definition exact_int :: "pyval \<Rightarrow> reject_reason + int" where
  "exact_int v = rbind (finite_float v)
     (\<lambda>q. if q \<noteq> of_int (rat_trunc q) then Inl FRACTIONAL_QUANTITY else Inr (rat_trunc q))"

text \<open>\<open>str(raw or "").strip()\<close>; \<open>None\<close> is a text that no token, date or symbol equals.\<close>

definition stripped_text :: "pyval \<Rightarrow> string option" where
  "stripped_text v = (if truthy v then map_option str_strip (py_text v) else Some [])"

definition short_position_tokens :: "string list" where
  "short_position_tokens = [''sell'', ''short'', ''sell_to_open'', ''buy_to_close'', ''sto'', ''btc'']"

definition long_position_tokens :: "string list" where
  "long_position_tokens = [''buy'', ''long'', ''buy_to_open'', ''sell_to_close'', ''bto'', ''stc'']"

definition direction_sign :: "pyval \<Rightarrow> reject_reason + int" where
  "direction_sign v =
     (let t = map_option str_lower (stripped_text v)
      in if is_bool v then Inl BOOL_NOT_ALLOWED
         else if token_in t long_position_tokens then Inr 1
         else if token_in t short_position_tokens then Inr (- 1)
         else Inl UNKNOWN_SIDE)"

definition option_type_of :: "pyval \<Rightarrow> reject_reason + option_type" where
  "option_type_of v =
     (let t = map_option str_lower (stripped_text v)
      in if is_bool v then Inl BOOL_NOT_ALLOWED
         else if token_in t [''call'', ''c''] then Inr CALL
         else if token_in t [''put'', ''p''] then Inr PUT
         else Inl UNKNOWN_OPTION_TYPE)"

definition coerce_expiry :: "pyval \<Rightarrow> reject_reason + pydate" where
  "coerce_expiry v =
     (if is_bool v then Inl BOOL_NOT_ALLOWED
      else (case stripped_text v of
              None \<Rightarrow> Inl INCONSISTENT_EXPIRY
            | Some t \<Rightarrow> if t = [] then Inl MISSING_FIELD
                       else (case parse_ymd (take 10 t) of
                               None \<Rightarrow> Inl INCONSISTENT_EXPIRY | Some d \<Rightarrow> Inr d)))"

lemmas coercion_defs = finite_or_none_def exact_int_def stripped_text_def direction_sign_def
  option_type_of_def coerce_expiry_def short_position_tokens_def long_position_tokens_def

declare coercion_defs [py_defs]

subsection \<open>Constructors\<close>

definition optional_float :: "pyval \<Rightarrow> reject_reason + rat option" where
  "optional_float v = (if v = PNone then Inr None else rbind (finite_float v) (\<lambda>q. Inr (Some q)))"

definition make_greeks ::
    "pyval \<Rightarrow> pyval \<Rightarrow> pyval \<Rightarrow> pyval \<Rightarrow> string option \<Rightarrow> string option \<Rightarrow> string option
     \<Rightarrow> reject_reason + leg_greeks" where
  "make_greeks d g v t src as_of status =
     rbind (optional_float d) (\<lambda>d. rbind (optional_float g) (\<lambda>g.
     rbind (optional_float v) (\<lambda>v. rbind (optional_float t) (\<lambda>t.
       Inr \<lparr>gk_delta = d, gk_gamma = g, gk_vega = v, gk_theta = t,
            gk_source = src, gk_as_of = as_of, gk_status = status\<rparr>))))"

definition missing_fields :: "leg_greeks \<Rightarrow> string list" where
  "missing_fields g = map fst (filter (\<lambda>p. snd p = None)
     [(''delta'', gk_delta g), (''gamma'', gk_gamma g), (''vega'', gk_vega g), (''theta'', gk_theta g)])"

fun equals_zero :: "pyval \<Rightarrow> bool" where
  "equals_zero (PBool b) = (\<not> b)"
| "equals_zero (PInt n) = (n = 0)"
| "equals_zero (PFloat x) = num_eq x (Fin 0)"
| "equals_zero (PDec x) = num_eq x (Fin 0)"
| "equals_zero _ = False"

text \<open>\<open>CanonicalLeg.__post_init__\<close>.\<close>

definition make_leg ::
    "string \<Rightarrow> string \<Rightarrow> pydate \<Rightarrow> option_type \<Rightarrow> pyval \<Rightarrow> pyval \<Rightarrow> pyval \<Rightarrow> leg_greeks option
     \<Rightarrow> reject_reason + cleg" where
  "make_leg occ und expiry ty strike ratio multi greeks =
     rbind (case finite_float strike of
              Inr k \<Rightarrow> Inr k
            | Inl r \<Rightarrow> Inl (if r \<in> set [MISSING_FIELD, NOT_A_NUMBER, NON_FINITE] then MALFORMED_STRIKE else r))
       (\<lambda>k. rbind (finite_float multi) (\<lambda>m.
         if equals_zero ratio then Inl ZERO_QUANTITY
         else (case ratio of
                 PInt n \<Rightarrow>
                   if k \<le> 0 then Inl MALFORMED_STRIKE
                   else if m \<le> 0 then Inl NON_POSITIVE_MULTIPLIER
                   else Inr \<lparr>cl_symbol = occ, cl_underlying = und, cl_expiry = expiry, cl_type = ty,
                             cl_strike = k, cl_ratio = n, cl_mult = m, cl_greeks = greeks\<rparr>
               | _ \<Rightarrow> Inl NOT_A_NUMBER)))"

definition check_leg_of :: "string \<Rightarrow> pydate \<Rightarrow> cleg \<Rightarrow> reject_reason + unit" where
  "check_leg_of und expiry l =
     (if cl_underlying l \<noteq> und then Inl INCONSISTENT_UNDERLYING
      else if cl_expiry l \<noteq> expiry then Inl INCONSISTENT_EXPIRY else Inr ())"

text \<open>\<open>CanonicalPosition.__post_init__\<close>.\<close>

definition make_position ::
    "string \<Rightarrow> pydate \<Rightarrow> string \<Rightarrow> pyval \<Rightarrow> cleg list \<Rightarrow> pyval \<Rightarrow> provenance \<Rightarrow> completeness
     \<Rightarrow> reject_reason + cpos" where
  "make_position und expiry cur qty ls cash prov cmp =
     (if ls = [] then Inl NO_LEGS
      else (case qty of
              PInt n \<Rightarrow>
                if n \<le> 0 then Inl NON_POSITIVE_STRUCTURE_QUANTITY
                else rbind (finite_float cash) (\<lambda>c.
                  if \<not> distinct (map cl_symbol ls) then Inl DUPLICATE_LEG
                  else rbind (rmap (check_leg_of und expiry) ls) (\<lambda>_.
                    Inr \<lparr>cp_underlying = und, cp_expiry = expiry, cp_currency = cur, cp_qty = n,
                         cp_legs = ls, cp_cashflow = c, cp_provenance = prov, cp_completeness = cmp\<rparr>))
            | _ \<Rightarrow> Inl NOT_A_NUMBER))"

definition total_contracts :: "cleg \<Rightarrow> int \<Rightarrow> int" where
  "total_contracts l n = cl_ratio l * n"

definition common_multiplier :: "cpos \<Rightarrow> reject_reason + rat" where
  "common_multiplier p = (case remdups (map cl_mult (cp_legs p)) of [m] \<Rightarrow> Inr m | _ \<Rightarrow> Inl MIXED_MULTIPLIER)"

subsection \<open>Normalization\<close>

definition entry_cashflow_from_net_premium ::
    "pyval \<Rightarrow> bool \<Rightarrow> pyval \<Rightarrow> pyval \<Rightarrow> reject_reason + rat" where
  "entry_cashflow_from_net_premium premium is_credit qty multi =
     rbind (finite_float premium) (\<lambda>a.
       if a < 0 then Inl NOT_A_NUMBER
       else rbind (exact_int qty) (\<lambda>n.
         if n \<le> 0 then Inl NON_POSITIVE_STRUCTURE_QUANTITY
         else rbind (finite_float multi) (\<lambda>m.
           if m \<le> 0 then Inl NON_POSITIVE_MULTIPLIER
           else (let total = a * of_int n * m in Inr (if is_credit then total else - total)))))"

definition leg_symbol :: "pydict \<Rightarrow> string option" where
  "leg_symbol d = stripped_text (py_or (dget d ''occ_symbol'') (dget d ''symbol''))"

definition greeks_label :: "(pyval \<Rightarrow> string) \<Rightarrow> pydict \<Rightarrow> string \<Rightarrow> string option" where
  "greeks_label show d k = (if truthy (dget d k) then Some (show (dget d k)) else None)"

definition leg_greeks_from_persisted :: "(pyval \<Rightarrow> string) \<Rightarrow> pyval \<Rightarrow> leg_greeks option" where
  "leg_greeks_from_persisted show raw =
     (case raw of
        PDict d \<Rightarrow>
          (case dget d ''greeks'' of
             PDict b \<Rightarrow>
               (case (finite_or_none (dget b ''delta''), finite_or_none (dget b ''gamma''),
                      finite_or_none (dget b ''vega''), finite_or_none (dget b ''theta'')) of
                  (Some de, Some ga, Some ve, Some th) \<Rightarrow>
                    Some \<lparr>gk_delta = Some de, gk_gamma = Some ga, gk_vega = Some ve, gk_theta = Some th,
                          gk_source = greeks_label show d ''greeks_source'',
                          gk_as_of = greeks_label show d ''greeks_as_of'',
                          gk_status = greeks_label show d ''greeks_status''\<rparr>
                | _ \<Rightarrow> None)
           | _ \<Rightarrow> None)
      | _ \<Rightarrow> None)"

definition full_count_ratio :: "int \<Rightarrow> int \<Rightarrow> int option" where
  "full_count_ratio leg_contracts n =
     (if n \<le> 0 \<or> leg_contracts mod n \<noteq> 0 then None else Some (leg_contracts div n))"

definition leg_full_contract_count :: "pyval \<Rightarrow> pyval \<Rightarrow> int option" where
  "leg_full_contract_count raw_leg position_quantity =
     (let raw = (case raw_leg of PDict d \<Rightarrow> dget d ''quantity'' | _ \<Rightarrow> PNone);
          source = (if raw \<noteq> PNone then raw else position_quantity)
      in case (exact_int source, exact_int position_quantity) of
           (Inr c, Inr n) \<Rightarrow>
             if \<bar>c\<bar> = 0 \<or> full_count_ratio \<bar>c\<bar> \<bar>n\<bar> = None then None else Some \<bar>c\<bar>
         | _ \<Rightarrow> None)"

text \<open>The leg's own strike, type and expiry fields, where present, must agree with its symbol.\<close>

definition check_leg_fields :: "pydict \<Rightarrow> rat \<Rightarrow> option_type \<Rightarrow> pydate \<Rightarrow> reject_reason + unit" where
  "check_leg_fields d strike ty expiry =
     (let raw_type = py_or (py_or (dget d ''type'') (dget d ''option_type'')) (dget d ''right'');
          raw_expiry = py_or (dget d ''expiry'') (dget d ''expiration'')
      in rbind (if dget d ''strike'' = PNone then Inr ()
                else rbind (finite_float (dget d ''strike''))
                       (\<lambda>k. if 1 / 1000000 < \<bar>k - strike\<bar> then Inl MALFORMED_STRIKE else Inr ()))
           (\<lambda>_. rbind (if \<not> truthy raw_type then Inr ()
                else rbind (option_type_of raw_type) (\<lambda>t. if t \<noteq> ty then Inl UNKNOWN_OPTION_TYPE else Inr ()))
           (\<lambda>_. if \<not> truthy raw_expiry then Inr ()
                else rbind (coerce_expiry raw_expiry) (\<lambda>e. if e \<noteq> expiry then Inl INCONSISTENT_EXPIRY else Inr ()))))"

definition leg_contracts :: "pydict \<Rightarrow> reject_reason + int" where
  "leg_contracts d =
     (if dget d ''quantity'' = PNone then Inl MISSING_FIELD
      else rbind (exact_int (dget d ''quantity''))
             (\<lambda>c. if c = 0 then Inl ZERO_QUANTITY else Inr \<bar>c\<bar>))"

definition leg_side_value :: "pydict \<Rightarrow> pyval" where
  "leg_side_value d = (if dget d ''action'' \<noteq> PNone then dget d ''action'' else dget d ''side'')"

definition leg_multiplier :: "pydict \<Rightarrow> reject_reason + rat \<times> incompleteness list" where
  "leg_multiplier d =
     (if dget d ''multiplier'' = PNone then Inr (100, [MULTIPLIER_ASSUMED_STANDARD_OCC])
      else rbind (finite_float (dget d ''multiplier''))
             (\<lambda>m. if m \<le> 0 then Inl NON_POSITIVE_MULTIPLIER else Inr (m, [])))"

definition normalize_leg ::
    "(pyval \<Rightarrow> string) \<Rightarrow> pyval \<Rightarrow> int \<Rightarrow> leg_greeks option \<Rightarrow> reject_reason + cleg \<times> incompleteness list" where
  "normalize_leg show raw n greeks =
     (case raw of
        PDict d \<Rightarrow>
          (case leg_symbol d of
             None \<Rightarrow> Inl UNPARSEABLE_OCC
           | Some occ \<Rightarrow>
               if occ = [] then Inl MISSING_FIELD
               else (case parse_option_symbol occ of
                 None \<Rightarrow> Inl UNPARSEABLE_OCC
               | Some parsed \<Rightarrow>
                   rbind (coerce_expiry (PStr (op_expiry parsed))) (\<lambda>expiry.
                   rbind (option_type_of (PStr [op_type parsed])) (\<lambda>ty.
                   rbind (finite_float (PFloat (Fin (op_strike parsed)))) (\<lambda>strike.
                   rbind (check_leg_fields d strike ty expiry) (\<lambda>_.
                   rbind (direction_sign (leg_side_value d)) (\<lambda>sign.
                   rbind (leg_contracts d) (\<lambda>c.
                   case full_count_ratio c n of
                     None \<Rightarrow> Inl FRACTIONAL_QUANTITY
                   | Some ratio \<Rightarrow>
                       rbind (leg_multiplier d) (\<lambda>(m, notes).
                         let gk = (case greeks of Some g \<Rightarrow> Some g | None \<Rightarrow> leg_greeks_from_persisted show raw)
                         in rbind (make_leg occ (op_underlying parsed) expiry ty (PFloat (Fin strike))
                                     (PInt (sign * ratio)) (PFloat (Fin m)) gk)
                              (\<lambda>l. Inr (l, notes @ (if gk = None then [GREEKS_NOT_PERSISTED] else []))))))))))))
      | _ \<Rightarrow> Inl NOT_A_MAPPING)"

text \<open>The legs' loop of \<open>normalize_position\<close>.\<close>

definition normalize_legs ::
    "(pyval \<Rightarrow> string) \<Rightarrow> (string \<times> leg_greeks) list \<Rightarrow> int \<Rightarrow> pyval list
     \<Rightarrow> reject_reason + (cleg \<times> incompleteness list) list" where
  "normalize_legs show greeks_by_symbol n raws =
     rmap (\<lambda>raw. normalize_leg show raw n
             (case raw of PDict d \<Rightarrow> Option.bind (leg_symbol d) (map_of greeks_by_symbol)
              | _ \<Rightarrow> map_of greeks_by_symbol [])) raws"

text \<open>\<open>dict.fromkeys\<close>: the first occurrence of each element, in order.\<close>

definition fromkeys :: "'a list \<Rightarrow> 'a list" where
  "fromkeys xs = rev (remdups (rev xs))"

definition completeness_of :: "cleg list \<Rightarrow> incompleteness list \<Rightarrow> completeness" where
  "completeness_of ls reasons =
     (let rs = fromkeys (reasons @ [CURRENCY_ASSUMED_USD])
      in \<lparr>cm_incomplete = (rs \<noteq> []), cm_reasons = rs,
          cm_missing_legs = map cl_symbol (filter (\<lambda>l. cl_greeks l = None) ls),
          cm_detail = map incompleteness_value rs\<rparr>)"

definition normalize_position ::
    "(pyval \<Rightarrow> string) \<Rightarrow> (string \<times> leg_greeks) list \<Rightarrow> string \<Rightarrow> string \<Rightarrow> pyval \<Rightarrow> reject_reason + cpos" where
  "normalize_position show greeks_by_symbol currency source raw =
     (case raw of
        PDict d \<Rightarrow>
          if dget d ''quantity'' = PNone then Inl MISSING_FIELD
          else rbind (exact_int (dget d ''quantity'')) (\<lambda>signed.
            if signed = 0 then Inl ZERO_QUANTITY
            else (case dget d ''legs'' of
              PList raws \<Rightarrow>
                if raws = [] then Inl NO_LEGS
                else rbind (normalize_legs show greeks_by_symbol \<bar>signed\<bar> raws) (\<lambda>lrs.
                  let ls = map fst lrs;
                      premium = (if dget d ''avg_entry_price'' \<noteq> PNone then dget d ''avg_entry_price''
                                 else dget d ''max_credit'')
                  in if length (remdups (map cl_underlying ls)) \<noteq> 1 then Inl INCONSISTENT_UNDERLYING
                     else if length (remdups (map cl_expiry ls)) \<noteq> 1 then Inl INCONSISTENT_EXPIRY
                     else if premium = PNone then Inl MISSING_FIELD
                     else if length (remdups (map cl_mult ls)) \<noteq> 1 then Inl MIXED_MULTIPLIER
                     else rbind (entry_cashflow_from_net_premium premium (signed < 0) (PInt \<bar>signed\<bar>)
                                   (PFloat (Fin (cl_mult (hd ls)))))
                            (\<lambda>cash. make_position (cl_underlying (hd ls)) (cl_expiry (hd ls)) currency
                                (PInt \<bar>signed\<bar>) ls (PFloat (Fin cash))
                                \<lparr>pv_source = source,
                                 pv_position_id = (if dget d ''id'' \<noteq> PNone then Some (show (dget d ''id'')) else None),
                                 pv_from = ''persisted_legs_full_count_convention''\<rparr>
                                (completeness_of ls (concat (map snd lrs)))))
            | _ \<Rightarrow> Inl NO_LEGS))
      | _ \<Rightarrow> Inl NOT_A_MAPPING)"

end
