(* ===== verification/Position_Correct.thy ===== *)
theory Position_Correct
  imports Position_Model
begin

section \<open>What a normalized position promises\<close>

text \<open>
  The well-formedness of canonical positions, that normalization establishes it, and that the
  full-count convention survives normalization: every leg's ratio times the structure quantity
  is again the persisted contract count with the sign of the leg's action, which is also the
  count the sizing helpers read off the raw row.
\<close>

definition leg_ok :: "cpos \<Rightarrow> cleg \<Rightarrow> bool" where
  "leg_ok p l \<longleftrightarrow> cl_underlying l = cp_underlying p \<and> cl_expiry l = cp_expiry p
     \<and> cl_ratio l \<noteq> 0 \<and> 0 < cl_strike l \<and> 0 < cl_mult l \<and> cl_mult l = cl_mult (hd (cp_legs p))"

definition position_ok :: "cpos \<Rightarrow> bool" where
  "position_ok p \<longleftrightarrow> cp_legs p \<noteq> [] \<and> 0 < cp_qty p \<and> distinct (map cl_symbol (cp_legs p))
     \<and> list_all (leg_ok p) (cp_legs p)"


lemma leg_contracts_Inr:
  "leg_contracts d = Inr c \<longleftrightarrow> dget d ''quantity'' \<noteq> PNone
     \<and> (\<exists>k. exact_int (dget d ''quantity'') = Inr k \<and> k \<noteq> 0 \<and> c = \<bar>k\<bar>)"
  by (auto simp: leg_contracts_def rbind_Inr_iff)

lemma full_count_ratio_Some:
  "full_count_ratio c n = Some r \<longleftrightarrow> 0 < n \<and> c = r * n"
  by (auto simp: full_count_ratio_def)

lemma make_leg_Inr:
  "make_leg occ und e ty strike ratio m gk = Inr l \<Longrightarrow>
     cl_symbol l = occ \<and> cl_underlying l = und \<and> cl_expiry l = e \<and> cl_type l = ty
     \<and> finite_float strike = Inr (cl_strike l) \<and> finite_float m = Inr (cl_mult l)
     \<and> ratio = PInt (cl_ratio l) \<and> cl_ratio l \<noteq> 0 \<and> 0 < cl_strike l \<and> 0 < cl_mult l \<and> cl_greeks l = gk"
  by (cases ratio) (auto simp: make_leg_def rbind_Inr_iff split: sum.splits if_splits)

text \<open>What one normalized leg says about the raw leg it came from.\<close>

definition leg_from_raw :: "int \<Rightarrow> pyval \<Rightarrow> cleg \<Rightarrow> bool" where
  "leg_from_raw n raw l \<longleftrightarrow>
     (case raw of
        PDict d \<Rightarrow>
          leg_symbol d = Some (cl_symbol l)
          \<and> (case parse_option_symbol (cl_symbol l) of None \<Rightarrow> False
             | Some q \<Rightarrow> cl_underlying l = op_underlying q \<and> cl_strike l = op_strike q
                 \<and> (cl_type l = CALL \<longleftrightarrow> op_type q = CHR ''C''))
          \<and> (case (exact_int (dget d ''quantity''), direction_sign (leg_side_value d)) of
                (Inr c, Inr sn) \<Rightarrow> c \<noteq> 0 \<and> total_contracts l n = sn * \<bar>c\<bar>
              | _ \<Rightarrow> False)
      | _ \<Rightarrow> False)"

lemma take1_hd: "take (Suc 0) xs = [c] \<Longrightarrow> hd xs = c"
  by (cases xs) auto

lemma option_type_char:
  assumes "parse_option_symbol occ = Some q" and "option_type_of (PStr [op_type q]) = Inr ty"
  shows "ty = CALL \<longleftrightarrow> op_type q = CHR ''C''"
proof -
  from assms(1) have "op_type q = CHR ''C'' \<or> op_type q = CHR ''P''"
    by (auto simp: parse_option_symbol_def Let_def dest: take1_hd split: if_splits)
  moreover have "option_type_of (PStr ''C'') = Inr CALL" "option_type_of (PStr ''P'') = Inr PUT"
    by code_simp+
  ultimately show ?thesis using assms(2) by auto
qed

lemma normalize_leg_Inr:
  assumes "normalize_leg show raw n gk = Inr (l, notes)"
  shows "leg_from_raw n raw l \<and> cl_ratio l \<noteq> 0 \<and> 0 < cl_strike l \<and> 0 < cl_mult l
    \<and> (\<exists>d. raw = PDict d \<and> cl_greeks l = (case gk of Some g \<Rightarrow> Some g | None \<Rightarrow> leg_greeks_from_persisted show raw))"
proof -
  from assms obtain d occ q e ty sn c r m ns gk' where raw: "raw = PDict d"
    and occ: "leg_symbol d = Some occ" and q: "parse_option_symbol occ = Some q"
    and ty: "option_type_of (PStr [op_type q]) = Inr ty"
    and sn: "direction_sign (leg_side_value d) = Inr sn" and c: "leg_contracts d = Inr c"
    and r: "full_count_ratio c n = Some r"
    and gk': "gk' = (case gk of Some g \<Rightarrow> Some g | None \<Rightarrow> leg_greeks_from_persisted show raw)"
    and mk: "make_leg occ (op_underlying q) e ty (PFloat (Fin (op_strike q))) (PInt (sn * r)) (PFloat (Fin m)) gk' = Inr l"
    by (auto simp: normalize_leg_def rbind_Inr_iff Let_def split: pyval.splits option.splits if_splits prod.splits)
  from make_leg_Inr [OF mk] have l: "cl_symbol l = occ" "cl_underlying l = op_underlying q" "cl_type l = ty"
    "cl_strike l = op_strike q" "cl_ratio l = sn * r" "cl_ratio l \<noteq> 0" "0 < cl_strike l" "0 < cl_mult l"
    "cl_greeks l = gk'" by auto
  from c r obtain k where k: "exact_int (dget d ''quantity'') = Inr k" "k \<noteq> 0" "\<bar>k\<bar> = r * n"
    by (auto simp: leg_contracts_Inr full_count_ratio_Some)
  have "leg_from_raw n raw l"
    using k sn occ q option_type_char [OF q ty] l by (simp add: leg_from_raw_def raw total_contracts_def ac_simps)
  with l raw gk' show ?thesis by simp
qed

lemma check_legs_Inr:
  "rmap (check_leg_of und e) ls = Inr us \<Longrightarrow> l \<in> set ls \<Longrightarrow> cl_underlying l = und \<and> cl_expiry l = e"
  by (drule (1) rmap_Inr_preD) (auto simp: check_leg_of_def split: if_splits)

lemma make_position_Inr:
  assumes "make_position und e cur qty ls cash prov cmp = Inr p"
  shows "cp_legs p = ls \<and> ls \<noteq> [] \<and> qty = PInt (cp_qty p) \<and> 0 < cp_qty p \<and> cp_underlying p = und \<and> cp_expiry p = e
    \<and> finite_float cash = Inr (cp_cashflow p) \<and> distinct (map cl_symbol ls)
    \<and> cp_completeness p = cmp \<and> (\<forall>l \<in> set ls. cl_underlying l = und \<and> cl_expiry l = e)"
  using assms check_legs_Inr
  by (cases qty) (fastforce simp: make_position_def rbind_Inr_iff split: if_splits)+

lemma remdups_single: "length (remdups xs) = 1 \<Longrightarrow> x \<in> set xs \<Longrightarrow> x = hd xs"
  by (metis length_remdups_card_conv card_1_singletonE singletonD hd_in_set length_pos_if_in_set length_greater_0_conv)

lemma normalize_legs_Inr:
  assumes "normalize_legs show gks n raws = Inr lrs"
  shows "list_all2 (leg_from_raw n) raws (map fst lrs)"
    and "x \<in> set lrs \<Longrightarrow> cl_ratio (fst x) \<noteq> 0 \<and> 0 < cl_strike (fst x) \<and> 0 < cl_mult (fst x)"
proof -
  from assms have all: "list_all2 (\<lambda>raw lr. \<exists>gk. normalize_leg show raw n gk = Inr lr) raws lrs"
    unfolding normalize_legs_def rmap_Inr_iff by (rule list_all2_mono) blast
  have step: "leg_from_raw n raw (fst x) \<and> cl_ratio (fst x) \<noteq> 0 \<and> 0 < cl_strike (fst x) \<and> 0 < cl_mult (fst x)"
    if "normalize_leg show raw n gk = Inr x" for raw x gk
    using normalize_leg_Inr [of "show" raw n gk "fst x" "snd x"] that by simp
  show "list_all2 (leg_from_raw n) raws (map fst lrs)"
    unfolding list.rel_map(2) using all by (rule list_all2_mono) (use step in blast)
  from all have "\<forall>x \<in> set lrs. \<exists>raw gk. normalize_leg show raw n gk = Inr x"
    by (induction rule: list_all2_induct) auto
  then show "x \<in> set lrs \<Longrightarrow> cl_ratio (fst x) \<noteq> 0 \<and> 0 < cl_strike (fst x) \<and> 0 < cl_mult (fst x)"
    using step by blast
qed

lemma exact_int_PInt [simp]: "exact_int (PInt n) = Inr n"
  by (simp add: exact_int_def)

lemma entry_cashflow_Inr:
  assumes "entry_cashflow_from_net_premium premium cr qty m = Inr c"
  shows "\<exists>a n k. finite_float premium = Inr a \<and> 0 \<le> a \<and> exact_int qty = Inr n \<and> 0 < n
    \<and> finite_float m = Inr k \<and> 0 < k \<and> c = (if cr then 1 else - 1) * (a * of_int n * k)"
  using assms by (auto simp: entry_cashflow_from_net_premium_def rbind_Inr_iff Let_def split: if_splits)

lemma normalize_position_parts:
  assumes "normalize_position show gks cur src raw = Inr p"
  shows "\<exists>d raws lrs sg pr a. raw = PDict d \<and> exact_int (dget d ''quantity'') = Inr sg \<and> sg \<noteq> 0
    \<and> cp_qty p = \<bar>sg\<bar> \<and> dget d ''legs'' = PList raws \<and> raws \<noteq> []
    \<and> normalize_legs show gks \<bar>sg\<bar> raws = Inr lrs \<and> cp_legs p = map fst lrs
    \<and> pr = (if dget d ''avg_entry_price'' \<noteq> PNone then dget d ''avg_entry_price'' else dget d ''max_credit'')
    \<and> finite_float pr = Inr a \<and> 0 \<le> a
    \<and> cp_cashflow p = (if sg < 0 then 1 else - 1) * (a * of_int \<bar>sg\<bar> * cl_mult (hd (cp_legs p)))
    \<and> (\<forall>l \<in> set (cp_legs p). cl_mult l = cl_mult (hd (cp_legs p)))
    \<and> (\<forall>l \<in> set (cp_legs p). cl_underlying l = cp_underlying p \<and> cl_expiry l = cp_expiry p)
    \<and> distinct (map cl_symbol (cp_legs p))"
proof -
  let ?pr = "\<lambda>d. if dget d ''avg_entry_price'' \<noteq> PNone then dget d ''avg_entry_price'' else dget d ''max_credit''"
  from assms obtain d where raw: "raw = PDict d" by (cases raw) (auto simp: normalize_position_def)
  with assms obtain raws where raws: "dget d ''legs'' = PList raws" "raws \<noteq> []"
    by (cases "dget d ''legs''") (auto simp: normalize_position_def rbind_Inr_iff split: if_splits)
  with assms raw obtain sg lrs cash prov where sg: "exact_int (dget d ''quantity'') = Inr sg" "sg \<noteq> 0"
    and lrs: "normalize_legs show gks \<bar>sg\<bar> raws = Inr lrs"
    and one: "length (remdups (map cl_mult (map fst lrs))) = 1"
    and cash: "entry_cashflow_from_net_premium (?pr d) (sg < 0) (PInt \<bar>sg\<bar>) (PFloat (Fin (cl_mult (hd (map fst lrs))))) = Inr cash"
    and mk: "make_position (cl_underlying (hd (map fst lrs))) (cl_expiry (hd (map fst lrs))) cur (PInt \<bar>sg\<bar>)
        (map fst lrs) (PFloat (Fin cash)) prov (completeness_of (map fst lrs) (concat (map snd lrs))) = Inr p"
    unfolding normalize_position_def Let_def by (simp add: rbind_Inr_iff del: map_map split: if_splits) blast+
  note mp = make_position_Inr [OF mk]
  then have legs: "cp_legs p = map fst lrs" and qty: "cp_qty p = \<bar>sg\<bar>" and c: "cp_cashflow p = cash" by auto
  have m: "cl_mult l = cl_mult (hd (map fst lrs))" if "l \<in> set (map fst lrs)" for l
    using remdups_single [OF one, of "cl_mult l"] that by (cases lrs) auto
  from entry_cashflow_Inr [OF cash] obtain a where a: "finite_float (?pr d) = Inr a" "0 \<le> a"
    "cash = (if sg < 0 then 1 else - 1) * (a * of_int \<bar>sg\<bar> * cl_mult (hd (map fst lrs)))"
    by auto
  have "distinct (map cl_symbol (cp_legs p))"
    and "\<forall>l \<in> set (cp_legs p). cl_underlying l = cp_underlying p \<and> cl_expiry l = cp_expiry p"
    using mp legs by auto
  moreover have "\<forall>l \<in> set (cp_legs p). cl_mult l = cl_mult (hd (cp_legs p))" using m legs by metis
  ultimately show ?thesis
    by (intro exI [of _ d] exI [of _ raws] exI [of _ lrs] exI [of _ sg] exI [of _ "?pr d"] exI [of _ a] conjI)
      (use raw sg raws lrs legs qty c a in simp_all)
qed

lemma normalize_position_ok_aux:
  assumes "normalize_position show gks cur src raw = Inr p"
  shows "position_ok p"
proof -
  from normalize_position_parts [OF assms] obtain raws lrs sg where sg: "sg \<noteq> 0" "cp_qty p = \<bar>sg\<bar>"
    and raws: "raws \<noteq> []" and lrs: "normalize_legs show gks \<bar>sg\<bar> raws = Inr lrs" and legs: "cp_legs p = map fst lrs"
    and rest: "\<forall>l \<in> set (cp_legs p). cl_mult l = cl_mult (hd (cp_legs p))"
      "\<forall>l \<in> set (cp_legs p). cl_underlying l = cp_underlying p \<and> cl_expiry l = cp_expiry p"
      "distinct (map cl_symbol (cp_legs p))" by blast
  from normalize_legs_Inr(1) [OF lrs] raws have "lrs \<noteq> []" by auto
  moreover have "\<forall>l \<in> set (cp_legs p). cl_ratio l \<noteq> 0 \<and> 0 < cl_strike l \<and> 0 < cl_mult l"
    using normalize_legs_Inr(2) [OF lrs] legs by auto
  ultimately show ?thesis using sg legs rest by (simp add: position_ok_def list_all_iff leg_ok_def)
qed


subsection \<open>The properties\<close>

definition put_row :: "string \<Rightarrow> string \<Rightarrow> pyval" where
  "put_row occ side = PDict [(''symbol'', PStr occ), (''action'', PStr side), (''quantity'', PInt 2)]"

definition put_leg :: "string \<Rightarrow> rat \<Rightarrow> int \<Rightarrow> cleg" where
  "put_leg occ strike ratio = \<lparr>cl_symbol = occ, cl_underlying = ''SPY'',
     cl_expiry = \<lparr>d_year = 2026, d_month = 1, d_day = 16\<rparr>, cl_type = PUT, cl_strike = strike,
     cl_ratio = ratio, cl_mult = 100, cl_greeks = None\<rparr>"

definition spread_row :: pydict where
  "spread_row = [(''quantity'', PInt (- 2)), (''max_credit'', PFloat (Fin (3/2))),
     (''legs'', PList [put_row ''SPY260116P00500000'' ''sell'', put_row ''SPY260116P00495000'' ''buy''])]"

definition spread_pos :: cpos where
  "spread_pos = \<lparr>cp_underlying = ''SPY'', cp_expiry = \<lparr>d_year = 2026, d_month = 1, d_day = 16\<rparr>,
     cp_currency = ''USD'', cp_qty = 2,
     cp_legs = [put_leg ''SPY260116P00500000'' 500 (- 1), put_leg ''SPY260116P00495000'' 495 1],
     cp_cashflow = 300,
     cp_provenance = \<lparr>pv_source = ''paper_positions'', pv_position_id = None,
        pv_from = ''persisted_legs_full_count_convention''\<rparr>,
     cp_completeness = \<lparr>cm_incomplete = True,
        cm_reasons = [MULTIPLIER_ASSUMED_STANDARD_OCC, GREEKS_NOT_PERSISTED, CURRENCY_ASSUMED_USD],
        cm_missing_legs = [''SPY260116P00500000'', ''SPY260116P00495000''],
        cm_detail = [''multiplier_assumed_standard_occ'', ''greeks_not_persisted'', ''currency_assumed_usd'']\<rparr>\<rparr>"

lemmas normalize_eval = normalize_position_def normalize_legs_def normalize_leg_def leg_symbol_def
  check_leg_fields_def leg_contracts_def leg_side_value_def leg_multiplier_def leg_greeks_from_persisted_def
  full_count_ratio_def make_leg_def make_position_def check_leg_of_def entry_cashflow_from_net_premium_def
  completeness_of_def fromkeys_def incompleteness_value_def

lemma put_rows_norm:
  "normalize_leg f (put_row ''SPY260116P00500000'' ''sell'') 2 None
     = Inr (put_leg ''SPY260116P00500000'' 500 (- 1), [MULTIPLIER_ASSUMED_STANDARD_OCC, GREEKS_NOT_PERSISTED])"
  "normalize_leg f (put_row ''SPY260116P00495000'' ''buy'') 2 None
     = Inr (put_leg ''SPY260116P00495000'' 495 1, [MULTIPLIER_ASSUMED_STANDARD_OCC, GREEKS_NOT_PERSISTED])"
  by (simp_all add: normalize_eval py_defs put_row_def put_leg_def char_of_def bit_Suc_0_iff)

lemma spread_pos_norm: "normalize_position (\<lambda>_. []) [] ''USD'' ''paper_positions'' (PDict spread_row) = Inr spread_pos"
proof -
  have "normalize_legs (\<lambda>_. []) [] 2 [put_row ''SPY260116P00500000'' ''sell'', put_row ''SPY260116P00495000'' ''buy'']
      = Inr [(put_leg ''SPY260116P00500000'' 500 (- 1), [MULTIPLIER_ASSUMED_STANDARD_OCC, GREEKS_NOT_PERSISTED]),
             (put_leg ''SPY260116P00495000'' 495 1, [MULTIPLIER_ASSUMED_STANDARD_OCC, GREEKS_NOT_PERSISTED])]"
    using put_rows_norm by (simp add: normalize_legs_def put_row_def bind_eq_None_conv)
  then show ?thesis
    by (simp add: normalize_eval(1) make_position_def check_leg_of_def entry_cashflow_from_net_premium_def
        completeness_of_def fromkeys_def incompleteness_value_def spread_row_def spread_pos_def put_leg_def py_defs)
qed

text \<open>
  Every position that normalization accepts is well formed: it has legs with
  distinct symbols, all of the position's underlying and expiry and of one multiplier, a
  positive structure quantity, and on every leg a non-zero signed ratio and a positive strike.
\<close>

theorem normalize_position_ok:
  assumes "normalize_position show greeks_by_symbol currency source raw = Inr p"
  shows "position_ok p"
  using assms by (rule normalize_position_ok_aux)

theorem normalize_position_ok_witness: "position_ok spread_pos"
  by (rule normalize_position_ok [OF spread_pos_norm])



end
