(* ===== verification/Payoff.thy ===== *)
theory Payoff
  imports Position_Correct
begin

section \<open>Payoff, stress floor and Greeks of a position (risk/position_model.py)\<close>

text \<open>
  The expiration payoff of a single-expiry structure is piecewise linear in the underlying
  price with kinks at the strikes. The code therefore evaluates it only at zero and at the
  strikes and reads unboundedness off the slope above the last strike. The locale \<open>kinked\<close>
  states what makes this exact, and the analysis is proved to be the true minimum and maximum
  over every non-negative price.
\<close>

subsection \<open>Operations\<close>

definition intrinsic_value :: "option_type \<Rightarrow> rat \<Rightarrow> rat \<Rightarrow> reject_reason + rat" where
  "intrinsic_value ty strike price =
     (if price < 0 then Inl NOT_A_NUMBER
      else Inr (case ty of CALL \<Rightarrow> max 0 (price - strike) | PUT \<Rightarrow> max 0 (strike - price)))"

definition expiration_pnl :: "cpos \<Rightarrow> rat \<Rightarrow> reject_reason + rat" where
  "expiration_pnl p price =
     rfold (\<lambda>l total. rbind (intrinsic_value (cl_type l) (cl_strike l) price)
              (\<lambda>v. Inr (total + of_int (cl_ratio l) * of_int (cp_qty p) * cl_mult l * v)))
       (cp_legs p) (cp_cashflow p)"

definition upside_slope :: "cpos \<Rightarrow> rat" where
  "upside_slope p =
     (\<Sum>l\<leftarrow>filter (\<lambda>l. cl_type l = CALL) (cp_legs p). of_int (cl_ratio l) * of_int (cp_qty p) * cl_mult l)"

definition strikes :: "cpos \<Rightarrow> rat list" where
  "strikes p = sort (remdups (map cl_strike (cp_legs p)))"

datatype risk_class = DEFINED_RISK | NOT_DEFINED_RISK

record payoff_profile =
  pp_class :: risk_class
  pp_max_loss :: "rat option"
  pp_max_profit :: "rat option"
  pp_min_pnl :: "rat option"
  pp_breakpoints :: "rat list"
  pp_slope :: rat
  pp_loss_unbounded :: bool
  pp_profit_unbounded :: bool

definition analyze_payoff :: "cpos \<Rightarrow> reject_reason + payoff_profile" where
  "analyze_payoff p =
     (let bs = 0 # strikes p
      in rbind (rmap (expiration_pnl p) bs) (\<lambda>values.
           let slope = upside_slope p; lo = Min (set values); hi = Max (set values)
           in Inr \<lparr>pp_class = (if slope < 0 then NOT_DEFINED_RISK else DEFINED_RISK),
                   pp_max_loss = (if slope < 0 then None else Some (max 0 (- lo))),
                   pp_max_profit = (if 0 < slope then None else Some hi),
                   pp_min_pnl = (if slope < 0 then None else Some lo),
                   pp_breakpoints = bs, pp_slope = slope,
                   pp_loss_unbounded = (slope < 0), pp_profit_unbounded = (0 < slope)\<rparr>))"

record stress_clamp =
  sc_raw :: rat
  sc_clamped :: rat
  sc_floor :: "rat option"
  sc_violated :: bool
  sc_applicable :: bool

definition clamp_stress_to_payoff :: "cpos \<Rightarrow> rat \<Rightarrow> reject_reason + stress_clamp" where
  "clamp_stress_to_payoff p raw =
     rbind (analyze_payoff p) (\<lambda>prof.
       Inr (case pp_max_loss prof of
              None \<Rightarrow> \<lparr>sc_raw = raw, sc_clamped = raw, sc_floor = None, sc_violated = False, sc_applicable = False\<rparr>
            | Some ml \<Rightarrow> \<lparr>sc_raw = raw, sc_clamped = max raw (- ml), sc_floor = Some (- ml),
                         sc_violated = (raw < - ml), sc_applicable = True\<rparr>))"

record greek_exposure =
  ge_delta :: "rat option"
  ge_gamma :: "rat option"
  ge_vega :: "rat option"
  ge_theta :: "rat option"
  ge_complete :: bool
  ge_missing_legs :: "string list"
  ge_missing_detail :: "string list"
  ge_legs_total :: nat
  ge_legs_with_greeks :: nat
  ge_sources :: "string list"
  ge_as_of :: "string list"

definition greek_value :: "leg_greeks \<Rightarrow> string \<Rightarrow> rat option" where
  "greek_value g name =
     (if name = ''delta'' then gk_delta g else if name = ''gamma'' then gk_gamma g
      else if name = ''vega'' then gk_vega g else if name = ''theta'' then gk_theta g else None)"

definition greek_names :: "string list" where
  "greek_names = [''delta'', ''gamma'', ''vega'', ''theta'']"

fun join_comma :: "string list \<Rightarrow> string" where
  "join_comma [] = []"
| "join_comma [s] = s"
| "join_comma (s # t # ts) = s @ '', '' @ join_comma (t # ts)"

text \<open>The accumulators of the loop over the legs.\<close>

record greek_state =
  gs_sums :: "string \<Rightarrow> rat"
  gs_legs :: "string list"
  gs_detail :: "string list"
  gs_names :: "string list"
  gs_with :: nat
  gs_sources :: "string list"
  gs_as_of :: "string list"

definition some_label :: "string option \<Rightarrow> string list" where
  "some_label t = (case t of None \<Rightarrow> [] | Some s \<Rightarrow> if s = [] then [] else [s])"

definition greek_step :: "int \<Rightarrow> greek_state \<Rightarrow> cleg \<Rightarrow> greek_state" where
  "greek_step n st l =
     (let scale = of_int (cl_ratio l) * of_int n * cl_mult l
      in case cl_greeks l of
           None \<Rightarrow> st\<lparr>gs_legs := gs_legs st @ [cl_symbol l],
                     gs_detail := gs_detail st @ [cl_symbol l @ '': no greeks''],
                     gs_names := gs_names st @ greek_names\<rparr>
         | Some g \<Rightarrow>
             (let absent = missing_fields g;
                  st1 = (if absent \<noteq> []
                         then st\<lparr>gs_legs := gs_legs st @ [cl_symbol l],
                                 gs_detail := gs_detail st @ [cl_symbol l @ '': missing '' @ join_comma absent],
                                 gs_names := gs_names st @ absent\<rparr>
                         else st\<lparr>gs_with := gs_with st + 1\<rparr>)
              in st1\<lparr>gs_sources := gs_sources st1 @ some_label (gk_source g),
                     gs_as_of := gs_as_of st1 @ some_label (gk_as_of g),
                     gs_sums := (\<lambda>name. gs_sums st1 name
                        + (case greek_value g name of None \<Rightarrow> 0 | Some v \<Rightarrow> scale * v))\<rparr>))"

definition aggregate_greeks :: "cpos \<Rightarrow> greek_exposure" where
  "aggregate_greeks p =
     (let st = foldl (greek_step (cp_qty p))
                 \<lparr>gs_sums = (\<lambda>_. 0), gs_legs = [], gs_detail = [], gs_names = [], gs_with = 0,
                  gs_sources = [], gs_as_of = []\<rparr> (cp_legs p);
          resolve = (\<lambda>name. if name \<in> set (gs_names st) then None else Some (gs_sums st name))
      in \<lparr>ge_delta = resolve ''delta'', ge_gamma = resolve ''gamma'', ge_vega = resolve ''vega'',
          ge_theta = resolve ''theta'', ge_complete = (gs_legs st = []),
          ge_missing_legs = fromkeys (gs_legs st), ge_missing_detail = gs_detail st,
          ge_legs_total = length (cp_legs p), ge_legs_with_greeks = gs_with st,
          ge_sources = fromkeys (gs_sources st), ge_as_of = fromkeys (gs_as_of st)\<rparr>)"

subsection \<open>Functions with finitely many kinks\<close>

text \<open>
  \<open>f\<close> is affine between neighbouring breakpoints and affine with slope \<open>m\<close> above the last one;
  zero is a breakpoint. Then on the non-negative prices \<open>f\<close> is bounded below (above) by its
  values at the breakpoints exactly when \<open>m\<close> is not negative (positive).
\<close>

locale kinked =
  fixes f :: "rat \<Rightarrow> rat" and bs :: "rat set" and m :: rat
  assumes finite_bs: "finite bs" and zero_bs: "0 \<in> bs"
    and affine: "\<lbrakk>a \<in> bs; b \<in> bs; a < b; \<forall>k \<in> bs. k \<le> a \<or> b \<le> k; a \<le> x; x \<le> b\<rbrakk>
          \<Longrightarrow> (b - a) * f x = (b - x) * f a + (x - a) * f b"
    and tail: "\<lbrakk>a \<in> bs; \<forall>k \<in> bs. k \<le> a; a \<le> x\<rbrakk> \<Longrightarrow> f x = f a + m * (x - a)"
begin

text \<open>Every price lies in a segment.\<close>

lemma segment:
  assumes "0 \<le> x"
  obtains (inner) a b where "a \<in> bs" "b \<in> bs" "a < b" "a \<le> x" "x \<le> b"
      "(b - a) * f x = (b - x) * f a + (x - a) * f b"
    | (upper) a where "a \<in> bs" "a \<le> x" "f x = f a + m * (x - a)"
proof -
  let ?L = "{k \<in> bs. k \<le> x}" and ?U = "{k \<in> bs. x < k}"
  have fin: "finite ?L" "finite ?U" using finite_bs by auto
  have ne: "?L \<noteq> {}" using assms zero_bs by auto
  define a where "a = Max ?L"
  have a: "a \<in> ?L" "\<And>k. k \<in> ?L \<Longrightarrow> k \<le> a" unfolding a_def using Max_in [OF fin(1) ne] fin by auto
  show thesis
  proof (cases "?U = {}")
    case True
    then have "\<forall>k \<in> bs. k \<le> a" using a(2) by (auto simp: not_less)
    then show thesis using upper a(1) tail by auto
  next
    case False
    define b where "b = Min ?U"
    have b: "b \<in> ?U" "\<And>k. k \<in> ?U \<Longrightarrow> b \<le> k" unfolding b_def using Min_in [OF fin(2) False] fin by auto
    have "\<forall>k \<in> bs. k \<le> a \<or> b \<le> k" using a(2) b(2) by (metis (mono_tags, lifting) mem_Collect_eq not_less)
    then show thesis using inner [of a b] affine [of a b x] a(1) b(1) by auto
  qed
qed

lemma between:
  assumes "a < b" "a \<le> x" "x \<le> b" "(b - a) * y = (b - x) * u + (x - a) * (v :: rat)"
  shows "min u v \<le> y" and "y \<le> max u v"
proof -
  let ?lo = "min u v" and ?hi = "max u v"
  have "(b - x) * ?lo \<le> (b - x) * u" "(x - a) * ?lo \<le> (x - a) * v"
    "(b - x) * u \<le> (b - x) * ?hi" "(x - a) * v \<le> (x - a) * ?hi"
    using assms(2,3) by (auto intro!: mult_left_mono)
  then have "(b - a) * ?lo \<le> (b - a) * y" and "(b - a) * y \<le> (b - a) * ?hi"
    unfolding assms(4) by (simp_all add: algebra_simps)
  then show "?lo \<le> y" and "y \<le> ?hi" using assms(1) by (simp_all add: mult_le_cancel_left)
qed

lemma lower_bound:
  assumes "0 \<le> m" and "0 \<le> x"
  shows "\<exists>k \<in> bs. f k \<le> f x"
  using assms(2)
proof (cases rule: segment)
  case (inner a b)
  from between(1) [OF inner(3-6)] have "f a \<le> f x \<or> f b \<le> f x" by linarith
  then show ?thesis using inner(1,2) by blast
next
  case (upper a)
  then show ?thesis using assms(1) by (intro bexI [of _ a]) auto
qed

lemma upper_bound:
  assumes "m \<le> 0" and "0 \<le> x"
  shows "\<exists>k \<in> bs. f x \<le> f k"
  using assms(2)
proof (cases rule: segment)
  case (inner a b)
  from between(2) [OF inner(3-6)] have "f x \<le> f a \<or> f x \<le> f b" by linarith
  then show ?thesis using inner(1,2) by blast
next
  case (upper a)
  then show ?thesis using assms(1) by (intro bexI [of _ a]) (auto intro: mult_nonpos_nonneg)
qed

lemma tail_reaches:
  assumes "m \<noteq> 0"
  shows "\<exists>x \<ge> 0. (0 < m \<longrightarrow> y \<le> f x) \<and> (m < 0 \<longrightarrow> f x \<le> y)"
proof -
  let ?a = "Max bs"
  from zero_bs have ne: "bs \<noteq> {}" by auto
  have a: "?a \<in> bs" "\<forall>k \<in> bs. k \<le> ?a" "0 \<le> ?a"
    using finite_bs zero_bs Max_in [OF finite_bs ne] by auto
  let ?x = "?a + \<bar>y - f ?a\<bar> / \<bar>m\<bar>"
  have "f ?x = f ?a + m * (\<bar>y - f ?a\<bar> / \<bar>m\<bar>)" using tail [OF a(1,2), of ?x] by simp
  moreover have "m * (\<bar>y - f ?a\<bar> / \<bar>m\<bar>) = (if 0 < m then \<bar>y - f ?a\<bar> else - \<bar>y - f ?a\<bar>)"
    using assms by (auto simp: abs_if field_simps)
  ultimately have "(0 < m \<longrightarrow> y \<le> f ?x) \<and> (m < 0 \<longrightarrow> f ?x \<le> y)" by auto
  then show ?thesis using a(3) by (intro exI [of _ ?x]) auto
qed

end

subsection \<open>The payoff is kinked at the strikes\<close>

definition payoff :: "option_type \<Rightarrow> rat \<Rightarrow> rat \<Rightarrow> rat" where
  "payoff ty k x = (case ty of CALL \<Rightarrow> max 0 (x - k) | PUT \<Rightarrow> max 0 (k - x))"

definition leg_weight :: "cpos \<Rightarrow> cleg \<Rightarrow> rat" where
  "leg_weight p l = of_int (cl_ratio l) * of_int (cp_qty p) * cl_mult l"

definition pnl :: "cpos \<Rightarrow> rat \<Rightarrow> rat" where
  "pnl p x = cp_cashflow p + (\<Sum>l\<leftarrow>cp_legs p. leg_weight p l * payoff (cl_type l) (cl_strike l) x)"

lemma expiration_pnl_value: "0 \<le> x \<Longrightarrow> expiration_pnl p x = Inr (pnl p x)"
proof -
  assume x: "0 \<le> x"
  have "rfold (\<lambda>l total. rbind (intrinsic_value (cl_type l) (cl_strike l) x)
              (\<lambda>v. Inr (total + of_int (cl_ratio l) * of_int (cp_qty p) * cl_mult l * v))) ls c
      = Inr (c + (\<Sum>l\<leftarrow>ls. leg_weight p l * payoff (cl_type l) (cl_strike l) x))" for ls c
    using x by (induction ls arbitrary: c)
      (simp_all add: intrinsic_value_def payoff_def leg_weight_def not_less [symmetric])
  then show ?thesis by (simp add: expiration_pnl_def pnl_def)
qed

lemma expiration_pnl_Inr: "expiration_pnl p x = Inr v \<Longrightarrow> cp_legs p \<noteq> [] \<Longrightarrow> 0 \<le> x \<and> v = pnl p x"
  using expiration_pnl_value [of x p]
  by (cases "0 \<le> x"; cases "cp_legs p") (auto simp: expiration_pnl_def intrinsic_value_def)

lemma payoff_above: "k \<le> x \<Longrightarrow> payoff ty k x = (if ty = CALL then x - k else 0)"
  by (cases ty) (auto simp: payoff_def max_def)

lemma payoff_below: "x \<le> k \<Longrightarrow> payoff ty k x = (if ty = CALL then 0 else k - x)"
  by (cases ty) (auto simp: payoff_def max_def)

lemma payoff_affine:
  assumes "k \<le> a \<or> b \<le> k" "a \<le> x" "x \<le> b"
  shows "(b - a) * payoff ty k x = (b - x) * payoff ty k a + (x - a) * payoff ty k b"
  using assms(1)
proof
  assume "k \<le> a"
  with assms(2,3) show ?thesis by (simp add: payoff_above algebra_simps)
next
  assume "b \<le> k"
  with assms(2,3) show ?thesis by (simp add: payoff_below algebra_simps)
qed

lemma pnl_affine:
  assumes "\<forall>l \<in> set (cp_legs p). cl_strike l \<le> a \<or> b \<le> cl_strike l" "a \<le> x" "x \<le> b"
  shows "(b - a) * pnl p x = (b - x) * pnl p a + (x - a) * pnl p b"
proof -
  let ?S = "\<lambda>ls x. \<Sum>l\<leftarrow>ls. leg_weight p l * payoff (cl_type l) (cl_strike l) x"
  have "(b - a) * ?S ls x = (b - x) * ?S ls a + (x - a) * ?S ls b"
    if "\<forall>l \<in> set ls. cl_strike l \<le> a \<or> b \<le> cl_strike l" for ls
    using that
  proof (induction ls)
    case (Cons l ls)
    have "(b - a) * (leg_weight p l * payoff (cl_type l) (cl_strike l) x)
        = leg_weight p l * ((b - x) * payoff (cl_type l) (cl_strike l) a + (x - a) * payoff (cl_type l) (cl_strike l) b)"
      using payoff_affine [of "cl_strike l" a b x "cl_type l"] Cons.prems assms(2,3) by (simp add: mult.left_commute)
    with Cons show ?case by (simp add: algebra_simps)
  qed simp
  from this [OF assms(1)] show ?thesis by (simp add: pnl_def algebra_simps)
qed

lemma pnl_tail:
  assumes "\<forall>l \<in> set (cp_legs p). cl_strike l \<le> a" "a \<le> x"
  shows "pnl p x = pnl p a + upside_slope p * (x - a)"
proof -
  let ?S = "\<lambda>ls x. \<Sum>l\<leftarrow>ls. leg_weight p l * payoff (cl_type l) (cl_strike l) x"
  have "?S ls x = ?S ls a + (\<Sum>l\<leftarrow>filter (\<lambda>l. cl_type l = CALL) ls. leg_weight p l) * (x - a)"
    if "\<forall>l \<in> set ls. cl_strike l \<le> a" for ls
    using that
  proof (induction ls)
    case (Cons l ls)
    have "payoff (cl_type l) (cl_strike l) x = payoff (cl_type l) (cl_strike l) a + (if cl_type l = CALL then x - a else 0)"
      using Cons.prems assms(2) by (simp add: payoff_above)
    with Cons show ?case by (simp add: distrib_left distrib_right)
  qed simp
  from this [OF assms(1)] show ?thesis by (simp add: pnl_def upside_slope_def leg_weight_def)
qed

interpretation pay: kinked "pnl p" "set (0 # strikes p)" "upside_slope p" for p
proof
  show "finite (set (0 # strikes p))" and "0 \<in> set (0 # strikes p)" by simp_all
next
  fix a b x assume "\<forall>k \<in> set (0 # strikes p). k \<le> a \<or> b \<le> k" "a \<le> x" "x \<le> b"
  then show "(b - a) * pnl p x = (b - x) * pnl p a + (x - a) * pnl p b"
    by (intro pnl_affine) (auto simp: strikes_def)
next
  fix a x assume "\<forall>k \<in> set (0 # strikes p). k \<le> a" "a \<le> x"
  then show "pnl p x = pnl p a + upside_slope p * (x - a)"
    by (intro pnl_tail) (auto simp: strikes_def)
qed

subsection \<open>Properties of the analysis\<close>

lemma strikes_nonneg: "position_ok p \<Longrightarrow> k \<in> set (0 # strikes p) \<Longrightarrow> 0 \<le> k"
  by (auto simp: position_ok_def leg_ok_def list_all_iff strikes_def)

lemma breakpoint_values: "position_ok p \<Longrightarrow> rmap (expiration_pnl p) (0 # strikes p) = Inr (map (pnl p) (0 # strikes p))"
  unfolding rmap_Inr_iff list_all2_map2
  by (rule list.rel_refl_strong, rule expiration_pnl_value) (rule strikes_nonneg)

lemma least_value: "\<exists>k \<in> set (0 # strikes p). Min (set (map (pnl p) (0 # strikes p))) = pnl p k"
  using Min_in [of "set (map (pnl p) (0 # strikes p))"] by (auto simp del: Min_insert)

lemma greatest_value: "\<exists>k \<in> set (0 # strikes p). Max (set (map (pnl p) (0 # strikes p))) = pnl p k"
  using Max_in [of "set (map (pnl p) (0 # strikes p))"] by (auto simp del: Max_insert)

lemma Min_le_pnl:
  assumes "0 \<le> upside_slope p" "0 \<le> x"
  shows "Min (set (map (pnl p) (0 # strikes p))) \<le> pnl p x"
proof -
  from pay.lower_bound [OF assms] obtain k where k: "k \<in> set (0 # strikes p)" "pnl p k \<le> pnl p x" by blast
  have "Min (set (map (pnl p) (0 # strikes p))) \<le> pnl p k" by (rule Min_le) (use k(1) in auto)
  with k(2) show ?thesis by simp
qed

lemma pnl_le_Max:
  assumes "upside_slope p \<le> 0" "0 \<le> x"
  shows "pnl p x \<le> Max (set (map (pnl p) (0 # strikes p)))"
proof -
  from pay.upper_bound [OF assms] obtain k where k: "k \<in> set (0 # strikes p)" "pnl p x \<le> pnl p k" by blast
  have "pnl p k \<le> Max (set (map (pnl p) (0 # strikes p)))" by (rule Max_ge) (use k(1) in auto)
  with k(2) show ?thesis by simp
qed

lemma analyze_payoff_value:
  assumes "position_ok p"
  defines "lo \<equiv> Min (set (map (pnl p) (0 # strikes p)))" and "hi \<equiv> Max (set (map (pnl p) (0 # strikes p)))"
  shows "analyze_payoff p = Inr \<lparr>pp_class = (if upside_slope p < 0 then NOT_DEFINED_RISK else DEFINED_RISK),
      pp_max_loss = (if upside_slope p < 0 then None else Some (max 0 (- lo))),
      pp_max_profit = (if 0 < upside_slope p then None else Some hi),
      pp_min_pnl = (if upside_slope p < 0 then None else Some lo),
      pp_breakpoints = 0 # strikes p, pp_slope = upside_slope p,
      pp_loss_unbounded = (upside_slope p < 0), pp_profit_unbounded = (0 < upside_slope p)\<rparr>"
  unfolding analyze_payoff_def Let_def breakpoint_values [OF assms(1)] lo_def hi_def by simp

text \<open>
  C2 (functional). The payoff analysis of a well-formed position always succeeds and is exact
  over all non-negative prices. A defined-risk position never loses more than its maximum loss
  and, when that is positive, loses it at some price; a position that is not defined-risk loses
  any amount at some price. The maximum profit is attained and never exceeded, or else the
  profit is unbounded.
\<close>

theorem analyze_payoff_exact:
  assumes "position_ok p"
  shows "\<exists>prof. analyze_payoff p = Inr prof \<and>
    (case pp_max_loss prof of
       Some ml \<Rightarrow> pp_class prof = DEFINED_RISK \<and> 0 \<le> ml \<and>
         (\<forall>x \<ge> 0. \<exists>v. expiration_pnl p x = Inr v \<and> - ml \<le> v) \<and>
         (0 < ml \<longrightarrow> (\<exists>x \<ge> 0. expiration_pnl p x = Inr (- ml)))
     | None \<Rightarrow> pp_class prof = NOT_DEFINED_RISK \<and>
         (\<forall>y. \<exists>x \<ge> 0. \<exists>v. expiration_pnl p x = Inr v \<and> v \<le> y)) \<and>
    (case pp_max_profit prof of
       Some mp \<Rightarrow> (\<forall>x \<ge> 0. \<exists>v. expiration_pnl p x = Inr v \<and> v \<le> mp) \<and>
         (\<exists>x \<ge> 0. expiration_pnl p x = Inr mp)
     | None \<Rightarrow> \<forall>y. \<exists>x \<ge> 0. \<exists>v. expiration_pnl p x = Inr v \<and> y \<le> v)"
proof -
  let ?lo = "Min (set (map (pnl p) (0 # strikes p)))" and ?hi = "Max (set (map (pnl p) (0 # strikes p)))"
  from least_value obtain a where a: "0 \<le> a" "?lo = pnl p a" using strikes_nonneg [OF assms] by metis
  from greatest_value obtain b where b: "0 \<le> b" "?hi = pnl p b" using strikes_nonneg [OF assms] by metis
  have loss: "\<forall>x \<ge> 0. \<exists>v. expiration_pnl p x = Inr v \<and> - max 0 (- ?lo) \<le> v"
    "0 < max 0 (- ?lo) \<longrightarrow> (\<exists>x \<ge> 0. expiration_pnl p x = Inr (- max 0 (- ?lo)))" if "0 \<le> upside_slope p"
    using Min_le_pnl [OF that] a expiration_pnl_value by (force simp: max_def, force simp: max_def)
  have no_loss: "\<exists>x \<ge> 0. \<exists>v. expiration_pnl p x = Inr v \<and> v \<le> y" if "upside_slope p < 0" for y
    using pay.tail_reaches [of p y] that expiration_pnl_value by force
  have gain: "\<forall>x \<ge> 0. \<exists>v. expiration_pnl p x = Inr v \<and> v \<le> ?hi" "\<exists>x \<ge> 0. expiration_pnl p x = Inr ?hi"
    if "upside_slope p \<le> 0" using pnl_le_Max [OF that] b expiration_pnl_value by (force, metis)
  have no_gain: "\<exists>x \<ge> 0. \<exists>v. expiration_pnl p x = Inr v \<and> y \<le> v" if "0 < upside_slope p" for y
    using pay.tail_reaches [of p y] that expiration_pnl_value by force
  show ?thesis
    unfolding analyze_payoff_value [OF assms]
    using loss no_loss gain no_gain by (cases "upside_slope p" "0 :: rat" rule: linorder_cases) simp_all
qed

lemma spread_pos_ok: "position_ok spread_pos"
  by (rule normalize_position_ok_aux [OF spread_pos_norm])

lemma spread_analysis:
  "analyze_payoff spread_pos = Inr prof \<Longrightarrow> pp_max_loss prof = Some 700 \<and> pp_max_profit prof = Some 300"
proof -
  have "(case analyze_payoff spread_pos of Inr q \<Rightarrow> pp_max_loss q = Some 700 \<and> pp_max_profit q = Some 300 | _ \<Rightarrow> False)"
    by code_simp
  then show "analyze_payoff spread_pos = Inr prof \<Longrightarrow> pp_max_loss prof = Some 700 \<and> pp_max_profit prof = Some 300"
    by simp
qed

theorem analyze_payoff_exact_witness:
  "\<exists>x \<ge> 0. expiration_pnl spread_pos x = Inr (- 700)"
  using analyze_payoff_exact [OF spread_pos_ok] spread_analysis by force

text \<open>
  The stress floor never invents a loss beyond the structure's payoff and never
  moves an attainable P\&L: for a defined-risk position the clamped figure is at least the
  worst payoff over all prices, it is the raw figure unless that is impossible, and a figure
  that some price attains is left alone. A position without a floor is passed through.
\<close>

theorem clamp_stress_sound:
  assumes "position_ok p"
  shows "\<exists>c. clamp_stress_to_payoff p raw = Inr c \<and> raw \<le> sc_clamped c \<and>
    (sc_violated c \<longleftrightarrow> sc_clamped c \<noteq> raw) \<and>
    (sc_applicable c \<longrightarrow> (\<exists>fl. sc_floor c = Some fl \<and> fl \<le> sc_clamped c \<and> sc_clamped c \<le> max raw 0 \<and>
        (\<forall>x \<ge> 0. \<exists>v. expiration_pnl p x = Inr v \<and> fl \<le> v))) \<and>
    (\<not> sc_applicable c \<longrightarrow> sc_clamped c = raw \<and> (\<forall>y. \<exists>x \<ge> 0. \<exists>v. expiration_pnl p x = Inr v \<and> v \<le> y)) \<and>
    ((\<exists>x \<ge> 0. expiration_pnl p x = Inr raw) \<longrightarrow> sc_clamped c = raw \<and> \<not> sc_violated c)"
proof -
  define ml where "ml = max 0 (- Min (set (map (pnl p) (0 # strikes p))))"
  have pos: "0 \<le> ml" by (simp add: ml_def)
  have fl: "- ml \<le> pnl p x" if "0 \<le> upside_slope p" "0 \<le> x" for x
    using Min_le_pnl [OF that] unfolding ml_def by linarith
  have att: "x \<ge> 0 \<Longrightarrow> expiration_pnl p x = Inr raw \<Longrightarrow> raw = pnl p x" for x
    using expiration_pnl_value [of x p] by simp
  show ?thesis
  proof (cases "upside_slope p < 0")
    case True
    then have "\<exists>x \<ge> 0. \<exists>v. expiration_pnl p x = Inr v \<and> v \<le> y" for y
      using pay.tail_reaches [of p y] expiration_pnl_value by force
    with True show ?thesis by (simp add: clamp_stress_to_payoff_def analyze_payoff_value [OF assms])
  next
    case False
    let ?c = "\<lparr>sc_raw = raw, sc_clamped = max raw (- ml), sc_floor = Some (- ml),
                  sc_violated = (raw < - ml), sc_applicable = True\<rparr>"
    have c: "clamp_stress_to_payoff p raw = Inr ?c"
      using False unfolding clamp_stress_to_payoff_def analyze_payoff_value [OF assms] ml_def by simp
    have "\<forall>x \<ge> 0. \<exists>v. expiration_pnl p x = Inr v \<and> - ml \<le> v" using fl False expiration_pnl_value by force
    moreover have "(\<exists>x \<ge> 0. expiration_pnl p x = Inr raw) \<longrightarrow> - ml \<le> raw" using att fl False by force
    ultimately show ?thesis
      by (intro exI [of _ ?c] conjI) (use c pos in \<open>auto simp: max_def\<close>)
  qed
qed

theorem clamp_stress_sound_witness:
  "\<exists>c. clamp_stress_to_payoff spread_pos (- 5000) = Inr c \<and> - 5000 \<le> sc_clamped c"
  using clamp_stress_sound [OF spread_pos_ok, of "- 5000"] by blast

subsection \<open>Greeks\<close>

definition greek_of :: "string \<Rightarrow> cleg \<Rightarrow> rat option" where
  "greek_of name l = Option.bind (cl_greeks l) (\<lambda>g. greek_value g name)"

definition has_greeks :: "cleg \<Rightarrow> bool" where
  "has_greeks l \<longleftrightarrow> list_all (\<lambda>name. greek_of name l \<noteq> None) greek_names"

definition greek_total :: "cpos \<Rightarrow> string \<Rightarrow> rat option" where
  "greek_total p name =
     (if list_all (\<lambda>l. greek_of name l \<noteq> None) (cp_legs p)
      then Some (\<Sum>l\<leftarrow>cp_legs p. leg_weight p l * the (greek_of name l)) else None)"

lemma missing_fields_iff: "name \<in> set greek_names \<Longrightarrow> name \<in> set (missing_fields g) \<longleftrightarrow> greek_value g name = None"
  by (auto simp: greek_names_def missing_fields_def greek_value_def)

lemma missing_fields_empty: "missing_fields g = [] \<longleftrightarrow> list_all (\<lambda>name. greek_value g name \<noteq> None) greek_names"
  by (auto simp: greek_names_def missing_fields_def greek_value_def)

lemma greek_step_effect:
  assumes "name \<in> set greek_names"
  shows "gs_sums (greek_step n st l) name
      = gs_sums st name + (case greek_of name l of None \<Rightarrow> 0 | Some v \<Rightarrow> of_int (cl_ratio l) * of_int n * cl_mult l * v)"
    and "name \<in> set (gs_names (greek_step n st l)) \<longleftrightarrow> name \<in> set (gs_names st) \<or> greek_of name l = None"
    and "gs_legs (greek_step n st l) = gs_legs st @ (if has_greeks l then [] else [cl_symbol l])"
    and "gs_with (greek_step n st l) = gs_with st + (if has_greeks l then 1 else 0)"
proof -
  show "gs_sums (greek_step n st l) name
      = gs_sums st name + (case greek_of name l of None \<Rightarrow> 0 | Some v \<Rightarrow> of_int (cl_ratio l) * of_int n * cl_mult l * v)"
    by (simp add: greek_step_def Let_def greek_of_def split: option.split)
  show "name \<in> set (gs_names (greek_step n st l)) \<longleftrightarrow> name \<in> set (gs_names st) \<or> greek_of name l = None"
  proof (cases "cl_greeks l")
    case (Some g)
    with missing_fields_iff [OF assms, of g] show ?thesis
      by (cases "missing_fields g = []") (auto simp: greek_step_def Let_def greek_of_def)
  qed (simp add: greek_step_def Let_def greek_of_def assms)
  have has: "has_greeks l \<longleftrightarrow> (\<exists>g. cl_greeks l = Some g \<and> missing_fields g = [])"
    by (cases "cl_greeks l") (simp_all add: has_greeks_def greek_of_def missing_fields_empty, simp add: greek_names_def)
  show "gs_legs (greek_step n st l) = gs_legs st @ (if has_greeks l then [] else [cl_symbol l])"
    and "gs_with (greek_step n st l) = gs_with st + (if has_greeks l then 1 else 0)"
    by (cases "cl_greeks l"; simp add: greek_step_def Let_def has)+
qed

lemma greek_fold_effect:
  assumes "name \<in> set greek_names"
  shows "gs_sums (foldl (greek_step n) st ls) name
      = gs_sums st name + (\<Sum>l\<leftarrow>ls. case greek_of name l of None \<Rightarrow> 0 | Some v \<Rightarrow> of_int (cl_ratio l) * of_int n * cl_mult l * v)"
    and "name \<in> set (gs_names (foldl (greek_step n) st ls)) \<longleftrightarrow> name \<in> set (gs_names st) \<or> (\<exists>l \<in> set ls. greek_of name l = None)"
    and "gs_legs (foldl (greek_step n) st ls) = gs_legs st @ map cl_symbol (filter (\<lambda>l. \<not> has_greeks l) ls)"
    and "gs_with (foldl (greek_step n) st ls) = gs_with st + length (filter has_greeks ls)"
  by (induction ls arbitrary: st) (auto simp: greek_step_effect [OF assms])

lemma resolved:
  assumes "name \<in> set greek_names"
  shows "(if name \<in> set (gs_names (foldl (greek_step (cp_qty p)) st (cp_legs p))) then None
      else Some (gs_sums (foldl (greek_step (cp_qty p)) st (cp_legs p)) name))
    = (if name \<in> set (gs_names st) then None else map_option ((+) (gs_sums st name)) (greek_total p name))"
proof -
  have "(\<Sum>l\<leftarrow>cp_legs p. case greek_of name l of None \<Rightarrow> 0 | Some v \<Rightarrow> of_int (cl_ratio l) * of_int (cp_qty p) * cl_mult l * v)
      = (\<Sum>l\<leftarrow>cp_legs p. leg_weight p l * the (greek_of name l))" if "list_all (\<lambda>l. greek_of name l \<noteq> None) (cp_legs p)"
    by (rule arg_cong [of _ _ sum_list], rule map_cong [OF refl])
       (use that in \<open>auto simp: list_all_iff leg_weight_def\<close>)
  then show ?thesis by (auto simp: greek_fold_effect [OF assms] greek_total_def list_all_iff)
qed

text \<open>
  Each Greek is reported exactly when every leg carries it, and then it is
  the sum of the legs' values weighted by signed ratio, structure quantity and multiplier; a
  missing value never counts as zero. The exposure is complete exactly when no leg lacks any
  Greek, and the legs that lack one are the ones listed.
\<close>

theorem aggregate_greeks_exact:
  "ge_delta (aggregate_greeks p) = greek_total p ''delta'' \<and>
   ge_gamma (aggregate_greeks p) = greek_total p ''gamma'' \<and>
   ge_vega (aggregate_greeks p) = greek_total p ''vega'' \<and>
   ge_theta (aggregate_greeks p) = greek_total p ''theta'' \<and>
   (ge_complete (aggregate_greeks p) \<longleftrightarrow> list_all has_greeks (cp_legs p)) \<and>
   set (ge_missing_legs (aggregate_greeks p)) = cl_symbol ` {l \<in> set (cp_legs p). \<not> has_greeks l} \<and>
   ge_legs_with_greeks (aggregate_greeks p) = length (filter has_greeks (cp_legs p))"
proof -
  let ?st = "\<lparr>gs_sums = (\<lambda>_. 0), gs_legs = [], gs_detail = [], gs_names = [], gs_with = 0, gs_sources = [], gs_as_of = []\<rparr>"
  have d: "''delta'' \<in> set greek_names" "''gamma'' \<in> set greek_names" "''vega'' \<in> set greek_names"
    "''theta'' \<in> set greek_names" by (simp_all add: greek_names_def)
  note r = d [THEN resolved [where p = p and st = ?st]] and e = greek_fold_effect(3,4) [OF d(1)]
  show ?thesis
    unfolding aggregate_greeks_def Let_def using r
    by (auto simp: e fromkeys_def list_all_iff filter_empty_conv map_option_case split: option.splits)
qed

end
