(* ===== verification/Leg_Reconcile.thy ===== *)
theory Leg_Reconcile
  imports Position_Correct
begin

section \<open>Leg reconciliation against an observed book (risk/position_model.py)\<close>

text \<open>
  Comparison of a canonical position with the legs a broker or a table reports. Python
  dictionaries are association lists in insertion order. The result lists every discrepancy;
  the theorem shows that an empty list means that the two books are the same.
\<close>

record observed_leg =
  ob_symbol :: string
  ob_contracts :: int
  ob_mult :: "rat option"
  ob_expiry :: "pydate option"
  ob_strike :: "rat option"
  ob_type :: "option_type option"

datatype disc_kind = MISSING | EXTRA | DUPLICATE | DIRECTION_MISMATCH | QUANTITY_MISMATCH | ATTRIBUTE_MISMATCH

datatype disc_value = VNone | VInt int | VNum rat | VDate pydate | VType option_type

record discrepancy =
  di_symbol :: string
  di_kind :: disc_kind
  di_expected :: disc_value
  di_observed :: disc_value
  di_detail :: string

record reconciliation =
  re_matched :: bool
  re_discrepancies :: "discrepancy list"

definition disc :: "string \<Rightarrow> disc_kind \<Rightarrow> disc_value \<Rightarrow> disc_value \<Rightarrow> string \<Rightarrow> discrepancy" where
  "disc occ k want got text =
     \<lparr>di_symbol = occ, di_kind = k, di_expected = want, di_observed = got, di_detail = text\<rparr>"

lemma disc_simps [simp]:
  "di_symbol (disc occ k want got text) = occ" "di_kind (disc occ k want got text) = k"
  by (simp_all add: disc_def)

definition duplicate_of :: "observed_leg list \<Rightarrow> observed_leg \<Rightarrow> discrepancy" where
  "duplicate_of observed o' = disc (ob_symbol o') DUPLICATE (VInt 1)
     (VInt (int (length (filter (\<lambda>c. ob_symbol c = ob_symbol o') observed))))
     ''observed source returned duplicate OCC symbol''"

definition observe_step ::
    "observed_leg list \<Rightarrow> (string \<times> observed_leg) list \<times> discrepancy list \<Rightarrow> observed_leg
     \<Rightarrow> (string \<times> observed_leg) list \<times> discrepancy list" where
  "observe_step observed st o' =
     (let (m, ds) = st
      in if map_of m (ob_symbol o') \<noteq> None then (m, ds @ [duplicate_of observed o'])
         else (AList.update (ob_symbol o') o' m, ds))"

definition attribute_mismatch :: "string \<Rightarrow> string \<Rightarrow> disc_value \<Rightarrow> disc_value option \<Rightarrow> discrepancy list" where
  "attribute_mismatch occ name want got =
     (case got of None \<Rightarrow> []
      | Some v \<Rightarrow> if v \<noteq> want then [disc occ ATTRIBUTE_MISMATCH want v (name @ '' differs'')] else [])"

definition compare_leg :: "int \<Rightarrow> string \<Rightarrow> cleg \<Rightarrow> observed_leg \<Rightarrow> discrepancy list" where
  "compare_leg n occ l got =
     (let want = total_contracts l n
      in (if (0 < want) \<noteq> (0 < ob_contracts got)
          then [disc occ DIRECTION_MISMATCH (VInt want) (VInt (ob_contracts got)) ''signed direction differs'']
          else if want \<noteq> ob_contracts got
          then [disc occ QUANTITY_MISMATCH (VInt want) (VInt (ob_contracts got)) ''same direction, different magnitude'']
          else [])
         @ attribute_mismatch occ ''multiplier'' (VNum (cl_mult l)) (map_option VNum (ob_mult got))
         @ attribute_mismatch occ ''expiry'' (VDate (cl_expiry l)) (map_option VDate (ob_expiry got))
         @ attribute_mismatch occ ''strike'' (VNum (cl_strike l)) (map_option VNum (ob_strike got))
         @ attribute_mismatch occ ''option_type'' (VType (cl_type l)) (map_option VType (ob_type got)))"

definition expected_step ::
    "int \<Rightarrow> (string \<times> observed_leg) list \<Rightarrow> string \<times> cleg \<Rightarrow> discrepancy list" where
  "expected_step n observed_map e =
     (case map_of observed_map (fst e) of
        None \<Rightarrow> [disc (fst e) MISSING (VInt (total_contracts (snd e) n)) VNone ''expected leg not present in observed'']
      | Some got \<Rightarrow> compare_leg n (fst e) (snd e) got)"

definition extra_step :: "(string \<times> cleg) list \<Rightarrow> string \<times> observed_leg \<Rightarrow> discrepancy list" where
  "extra_step expected_map e =
     (if map_of expected_map (fst e) = None
      then [disc (fst e) EXTRA VNone (VInt (ob_contracts (snd e))) ''observed leg not in expected structure'']
      else [])"

definition reconcile_legs :: "cpos \<Rightarrow> observed_leg list \<Rightarrow> reconciliation" where
  "reconcile_legs p observed =
     (let expected_map = foldl (\<lambda>m l. AList.update (cl_symbol l) l m) [] (cp_legs p);
          (observed_map, dups) = foldl (observe_step observed) ([], []) observed;
          ds = dups @ concat (map (expected_step (cp_qty p) observed_map) expected_map)
                @ concat (map (extra_step expected_map) observed_map)
      in \<lparr>re_matched = (ds = []), re_discrepancies = ds\<rparr>)"

subsection \<open>The two dictionaries\<close>

lemma update_fresh: "k \<notin> fst ` set m \<Longrightarrow> AList.update k v m = m @ [(k, v)]"
  by (induction m) auto

lemma dict_of_distinct:
  "distinct (map key xs) \<Longrightarrow> key ` set xs \<inter> fst ` set m = {} \<Longrightarrow>
     foldl (\<lambda>m x. AList.update (key x) x m) m xs = m @ map (\<lambda>x. (key x, x)) xs"
  by (induction xs arbitrary: m) (auto simp: update_fresh image_iff)

lemma map_of_None_fst: "map_of m k = None \<longleftrightarrow> k \<notin> fst ` set m"
  by (rule map_of_eq_None_iff)

lemma observe_step_cases:
  "observe_step obs (m, ds) x =
     (if ob_symbol x \<in> fst ` set m then (m, ds @ [duplicate_of obs x]) else (m @ [(ob_symbol x, x)], ds))"
  by (simp add: observe_step_def map_of_None_fst update_fresh)

lemma observe_fold_dom:
  "foldl (observe_step obs) (m, ds) xs = (m', ds') \<Longrightarrow> fst ` set m' = fst ` set m \<union> ob_symbol ` set xs"
proof (induction xs arbitrary: m ds)
  case (Cons x xs)
  then show ?case by (cases "ob_symbol x \<in> fst ` set m") (auto simp: observe_step_cases)
qed simp

lemma observe_fold_distinct:
  "\<lbrakk>distinct (map ob_symbol xs); ob_symbol ` set xs \<inter> fst ` set m = {}\<rbrakk> \<Longrightarrow>
     foldl (observe_step obs) (m, ds) xs = (m @ map (\<lambda>x. (ob_symbol x, x)) xs, ds)"
proof (induction xs arbitrary: m)
  case (Cons x xs)
  then have "ob_symbol x \<notin> fst ` set m" and "ob_symbol ` set xs \<inter> fst ` set (m @ [(ob_symbol x, x)]) = {}" by auto
  with Cons show ?case by (simp add: observe_step_cases)
qed simp

lemma observe_fold_dups:
  "foldl (observe_step obs) (m, ds) xs = (m', ds') \<Longrightarrow>
     \<exists>new. ds' = ds @ new \<and> (\<forall>d \<in> set new. di_kind d = DUPLICATE) \<and>
       (new = [] \<longrightarrow> distinct (map ob_symbol xs) \<and> ob_symbol ` set xs \<inter> fst ` set m = {})"
proof (induction xs arbitrary: m ds)
  case (Cons x xs)
  show ?case
  proof (cases "ob_symbol x \<in> fst ` set m")
    case True
    with Cons.prems have "foldl (observe_step obs) (m, ds @ [duplicate_of obs x]) xs = (m', ds')"
      by (simp add: observe_step_cases)
    from Cons.IH [OF this] obtain new where "ds' = (ds @ [duplicate_of obs x]) @ new"
      "\<forall>d \<in> set new. di_kind d = DUPLICATE" by blast
    then show ?thesis by (intro exI [of _ "duplicate_of obs x # new"]) (simp add: duplicate_of_def)
  next
    case False
    with Cons.prems have "foldl (observe_step obs) (m @ [(ob_symbol x, x)], ds) xs = (m', ds')"
      by (simp add: observe_step_cases)
    from Cons.IH [OF this] obtain new where "ds' = ds @ new" "\<forall>d \<in> set new. di_kind d = DUPLICATE"
      "new = [] \<longrightarrow> distinct (map ob_symbol xs) \<and> ob_symbol ` set xs \<inter> fst ` set (m @ [(ob_symbol x, x)]) = {}" by blast
    with False show ?thesis by (intro exI [of _ new]) auto
  qed
qed simp

definition agrees :: "int \<Rightarrow> cleg \<Rightarrow> observed_leg \<Rightarrow> bool" where
  "agrees n l got \<longleftrightarrow> ob_contracts got = total_contracts l n
     \<and> ob_mult got \<in> {None, Some (cl_mult l)} \<and> ob_expiry got \<in> {None, Some (cl_expiry l)}
     \<and> ob_strike got \<in> {None, Some (cl_strike l)} \<and> ob_type got \<in> {None, Some (cl_type l)}"

lemma attribute_mismatch_Nil: "attribute_mismatch occ name want got = [] \<longleftrightarrow> got \<in> {None, Some want}"
  by (auto simp: attribute_mismatch_def split: option.split)

lemma compare_leg_Nil: "compare_leg n occ l got = [] \<longleftrightarrow> agrees n l got"
  by (auto simp: compare_leg_def Let_def attribute_mismatch_Nil agrees_def)

lemma compare_leg_kinds: "d \<in> set (compare_leg n occ l got) \<Longrightarrow> di_kind d \<noteq> MISSING \<and> di_kind d \<noteq> EXTRA"
  by (auto simp: compare_leg_def Let_def attribute_mismatch_def split: option.splits if_splits)

lemma expected_map_ok:
  "position_ok p \<Longrightarrow> foldl (\<lambda>m l. AList.update (cl_symbol l) l m) [] (cp_legs p) = map (\<lambda>l. (cl_symbol l, l)) (cp_legs p)"
  using dict_of_distinct [of cl_symbol "cp_legs p" "[]"] by (simp add: position_ok_def)

lemma map_of_pairs: "map_of (map (\<lambda>x. (key x, x)) xs) k = None \<longleftrightarrow> k \<notin> key ` set xs"
  by (induction xs) auto

lemma map_of_pairs_Some:
  "distinct (map key xs) \<Longrightarrow> map_of (map (\<lambda>x. (key x, x)) xs) k = Some x \<longleftrightarrow> x \<in> set xs \<and> key x = k"
  by (induction xs) (auto simp: image_iff)

lemma split_kinds:
  assumes "\<And>d. d \<in> A \<Longrightarrow> kind d = DUPLICATE" "\<And>d. d \<in> B \<Longrightarrow> kind d \<noteq> EXTRA" "\<And>d. d \<in> C \<Longrightarrow> kind d = EXTRA"
  shows "{d \<in> A \<union> (B \<union> C). kind d = MISSING} = {d \<in> B. kind d = MISSING}"
    and "{d \<in> A \<union> (B \<union> C). kind d = EXTRA} = C"
  using assms by force+

lemma expected_step_missing:
  "{d \<in> set (expected_step n m e). di_kind d = MISSING} =
     (if fst e \<in> fst ` set m then {}
      else {disc (fst e) MISSING (VInt (total_contracts (snd e) n)) VNone ''expected leg not present in observed''})"
proof (cases "map_of m (fst e)")
  case None
  then have "expected_step n m e = [disc (fst e) MISSING (VInt (total_contracts (snd e) n)) VNone ''expected leg not present in observed'']"
    by (simp only: expected_step_def option.case)
  with None show ?thesis by (auto simp: map_of_None_fst)
next
  case (Some got)
  then have "fst e \<in> fst ` set m" by (metis map_of_None_fst option.distinct(1))
  with Some show ?thesis using compare_leg_kinds by (auto simp: expected_step_def)
qed

lemma expected_step_not_extra: "d \<in> set (expected_step n m e) \<Longrightarrow> di_kind d \<noteq> EXTRA"
  using compare_leg_kinds by (auto simp: expected_step_def split: option.splits)

lemma extra_step_kind: "d \<in> set (extra_step em e) \<longleftrightarrow>
    fst e \<notin> fst ` set em \<and> d = disc (fst e) EXTRA VNone (VInt (ob_contracts (snd e))) ''observed leg not in expected structure''"
  by (auto simp: extra_step_def map_of_None_fst)

lemma expected_step_Nil:
  assumes "distinct (map ob_symbol obs)"
  shows "expected_step n (map (\<lambda>x. (ob_symbol x, x)) obs) (k, l) = [] \<longleftrightarrow>
    k \<in> ob_symbol ` set obs \<and> (\<forall>got \<in> set obs. ob_symbol got = k \<longrightarrow> agrees n l got)"
proof (cases "map_of (map (\<lambda>x. (ob_symbol x, x)) obs) k")
  case None
  then have "expected_step n (map (\<lambda>x. (ob_symbol x, x)) obs) (k, l) \<noteq> []"
    by (simp only: expected_step_def option.case fst_conv) simp
  with None show ?thesis using map_of_pairs [of ob_symbol obs k] by blast
next
  case (Some got)
  then have "got \<in> set obs" "ob_symbol got = k" by (simp_all add: map_of_pairs_Some [OF assms])
  moreover have "other = got" if "other \<in> set obs" "ob_symbol other = k" for other
    using that calculation assms by (metis distinct_map inj_on_eq_iff)
  moreover have "expected_step n (map (\<lambda>x. (ob_symbol x, x)) obs) (k, l) = [] \<longleftrightarrow> agrees n l got"
    using Some by (simp add: expected_step_def compare_leg_Nil)
  ultimately show ?thesis by blast
qed

text \<open>
  Reconciliation reports a match exactly when the observed book has the same
  symbols as the position, each once, with the expected signed contract count and no
  contradicting attribute; the legs reported missing are the expected symbols that were not
  observed, and the extra ones the observed symbols that were not expected.
\<close>

theorem reconcile_legs_exact:
  assumes "position_ok p"
  shows "(re_matched (reconcile_legs p obs) \<longleftrightarrow>
      distinct (map ob_symbol obs) \<and> ob_symbol ` set obs = cl_symbol ` set (cp_legs p) \<and>
      (\<forall>l \<in> set (cp_legs p). \<forall>got \<in> set obs. ob_symbol got = cl_symbol l \<longrightarrow> agrees (cp_qty p) l got)) \<and>
    di_symbol ` {d \<in> set (re_discrepancies (reconcile_legs p obs)). di_kind d = MISSING}
      = cl_symbol ` set (cp_legs p) - ob_symbol ` set obs \<and>
    di_symbol ` {d \<in> set (re_discrepancies (reconcile_legs p obs)). di_kind d = EXTRA}
      = ob_symbol ` set obs - cl_symbol ` set (cp_legs p)"
proof -
  obtain m dups where fold: "foldl (observe_step obs) ([], []) obs = (m, dups)" by fastforce
  from observe_fold_dom [OF fold] have dom: "fst ` set m = ob_symbol ` set obs" by simp
  have m: "m = map (\<lambda>x. (ob_symbol x, x)) obs \<and> dups = []" if "distinct (map ob_symbol obs)"
    using observe_fold_distinct [OF that, of "[]" obs "[]"] fold by simp
  with observe_fold_dups [OF fold]
  have dups: "dups = [] \<longleftrightarrow> distinct (map ob_symbol obs)" "\<And>d. d \<in> set dups \<Longrightarrow> di_kind d = DUPLICATE" by auto
  let ?em = "map (\<lambda>l. (cl_symbol l, l)) (cp_legs p)"
  let ?per = "concat (map (expected_step (cp_qty p) m) ?em)" and ?extra = "concat (map (extra_step ?em) m)"
  have em: "fst ` set ?em = cl_symbol ` set (cp_legs p)" by force
  have val: "reconcile_legs p obs = \<lparr>re_matched = (dups @ ?per @ ?extra = []), re_discrepancies = dups @ ?per @ ?extra\<rparr>"
    unfolding reconcile_legs_def Let_def fold expected_map_ok [OF assms] prod.case by (rule refl)
  have "?extra = [] \<longleftrightarrow> (\<forall>e \<in> set m. extra_step ?em e = [])" by auto
  then have extra: "?extra = [] \<longleftrightarrow> ob_symbol ` set obs \<subseteq> cl_symbol ` set (cp_legs p)"
    unfolding dom [symmetric] em [symmetric] by (auto simp: extra_step_def map_of_None_fst)
  have per: "?per = [] \<longleftrightarrow> cl_symbol ` set (cp_legs p) \<subseteq> ob_symbol ` set obs \<and>
      (\<forall>l \<in> set (cp_legs p). \<forall>got \<in> set obs. ob_symbol got = cl_symbol l \<longrightarrow> agrees (cp_qty p) l got)"
    if d: "distinct (map ob_symbol obs)"
    using m [OF d] expected_step_Nil [OF d] by auto
  have "re_matched (reconcile_legs p obs) \<longleftrightarrow>
      distinct (map ob_symbol obs) \<and> ob_symbol ` set obs = cl_symbol ` set (cp_legs p) \<and>
      (\<forall>l \<in> set (cp_legs p). \<forall>got \<in> set obs. ob_symbol got = cl_symbol l \<longrightarrow> agrees (cp_qty p) l got)"
    unfolding val by (simp only: reconciliation.simps append_is_Nil_conv dups(1) extra) (use per in blast)
  moreover have kinds: "d \<in> set ?per \<Longrightarrow> di_kind d \<noteq> EXTRA" "d \<in> set ?extra \<Longrightarrow> di_kind d = EXTRA" for d
    using expected_step_not_extra by (auto simp: extra_step_kind)
  have "{d \<in> set (dups @ ?per @ ?extra). di_kind d = MISSING} = {d \<in> set ?per. di_kind d = MISSING}"
    and "{d \<in> set (dups @ ?per @ ?extra). di_kind d = EXTRA} = set ?extra"
    unfolding set_append by (rule split_kinds [OF dups(2) kinds], assumption+)+
  moreover have "{d \<in> set ?per. di_kind d = MISSING} = (\<Union>e \<in> set ?em. {d \<in> set (expected_step (cp_qty p) m e). di_kind d = MISSING})"
    by auto
  moreover have "di_symbol ` (\<Union>e \<in> set ?em. {d \<in> set (expected_step (cp_qty p) m e). di_kind d = MISSING}) = fst ` set ?em - fst ` set m"
    unfolding expected_step_missing by (auto simp: image_UN)
  moreover have "di_symbol ` set ?extra = fst ` set m - fst ` set ?em"
    by (auto simp: extra_step_def map_of_None_fst image_UN)
  ultimately show ?thesis unfolding val dom [symmetric] em [symmetric] by simp
qed

definition spread_book :: "observed_leg list" where
  "spread_book =
     [\<lparr>ob_symbol = ''SPY260116P00495000'', ob_contracts = 2, ob_mult = Some 100, ob_expiry = None, ob_strike = None, ob_type = None\<rparr>,
      \<lparr>ob_symbol = ''SPY260116P00500000'', ob_contracts = - 2, ob_mult = None, ob_expiry = None, ob_strike = Some 500, ob_type = Some PUT\<rparr>]"

theorem reconcile_legs_exact_witness:
  "re_matched (reconcile_legs spread_pos spread_book)"
proof -
  have "distinct (map ob_symbol spread_book) \<and> ob_symbol ` set spread_book = cl_symbol ` set (cp_legs spread_pos) \<and>
      (\<forall>l \<in> set (cp_legs spread_pos). \<forall>got \<in> set spread_book. ob_symbol got = cl_symbol l \<longrightarrow> agrees (cp_qty spread_pos) l got)"
    by (auto simp: spread_book_def spread_pos_def put_leg_def agrees_def total_contracts_def)
  with reconcile_legs_exact [OF normalize_position_ok_aux [OF spread_pos_norm], of spread_book] show ?thesis by blast
qed

end
