(* ===== verification/Py_Float.thy ===== *)
theory Py_Float
  imports Py_Prelude
begin

section \<open>Floating-point arithmetic with its special values\<close>

text \<open>
  Operations on floats as Python performs them: infinities and NaN propagate, a comparison with
  NaN is false, and only a division by zero raises. \<open>max\<close> and \<open>min\<close> keep the earlier argument
  unless the later one compares strictly better, so they depend on the argument order when a
  NaN is involved. Finite results are exact.
\<close>

fun fneg :: "pynum \<Rightarrow> pynum" where
  "fneg (Fin a) = Fin (- a)"
| "fneg PInf = NInf"
| "fneg NInf = PInf"
| "fneg NaN = NaN"

fun fadd :: "pynum \<Rightarrow> pynum \<Rightarrow> pynum" where
  "fadd (Fin a) (Fin b) = Fin (a + b)"
| "fadd NaN _ = NaN"
| "fadd _ NaN = NaN"
| "fadd PInf NInf = NaN"
| "fadd NInf PInf = NaN"
| "fadd PInf _ = PInf"
| "fadd _ PInf = PInf"
| "fadd NInf _ = NInf"
| "fadd _ NInf = NInf"

definition fsub :: "pynum \<Rightarrow> pynum \<Rightarrow> pynum" where
  "fsub a b = fadd a (fneg b)"

text \<open>The infinity of a given sign; NaN for sign zero, as in zero times infinity.\<close>

definition signed_inf :: "rat \<Rightarrow> pynum" where
  "signed_inf s = (if 0 < s then PInf else if s < 0 then NInf else NaN)"

fun fmul :: "pynum \<Rightarrow> pynum \<Rightarrow> pynum" where
  "fmul (Fin a) (Fin b) = Fin (a * b)"
| "fmul NaN _ = NaN"
| "fmul _ NaN = NaN"
| "fmul (Fin a) PInf = signed_inf a"
| "fmul (Fin a) NInf = signed_inf (- a)"
| "fmul PInf (Fin a) = signed_inf a"
| "fmul NInf (Fin a) = signed_inf (- a)"
| "fmul PInf PInf = PInf"
| "fmul PInf NInf = NInf"
| "fmul NInf PInf = NInf"
| "fmul NInf NInf = PInf"

fun fdiv :: "pynum \<Rightarrow> pynum \<Rightarrow> pyexn + pynum" where
  "fdiv x (Fin b) = (if b = 0 then Inl ZeroDivisionError else Inr (fmul x (Fin (1 / b))))"
| "fdiv (Fin a) PInf = Inr (Fin 0)"
| "fdiv (Fin a) NInf = Inr (Fin 0)"
| "fdiv _ _ = Inr NaN"

fun flt :: "pynum \<Rightarrow> pynum \<Rightarrow> bool" where
  "flt (Fin a) (Fin b) = (a < b)"
| "flt NaN _ = False"
| "flt _ NaN = False"
| "flt NInf x = (x \<noteq> NInf)"
| "flt x NInf = False"
| "flt x PInf = (x \<noteq> PInf)"
| "flt PInf _ = False"

definition fle :: "pynum \<Rightarrow> pynum \<Rightarrow> bool" where
  "fle a b \<longleftrightarrow> flt a b \<or> num_eq a b"

definition fmax :: "pynum \<Rightarrow> pynum \<Rightarrow> pynum" where
  "fmax a b = (if flt a b then b else a)"

definition fmin :: "pynum \<Rightarrow> pynum \<Rightarrow> pynum" where
  "fmin a b = (if flt b a then b else a)"

definition fabs :: "pynum \<Rightarrow> pynum" where
  "fabs a = (case a of Fin x \<Rightarrow> Fin \<bar>x\<bar> | NaN \<Rightarrow> NaN | _ \<Rightarrow> PInf)"

lemma fle_Fin [simp]: "fle (Fin a) (Fin b) \<longleftrightarrow> a \<le> b"
  by (auto simp: fle_def)

lemma fle_special [simp]: "\<not> fle NaN x" "\<not> fle x NaN" "fle (Fin a) PInf" "\<not> fle PInf (Fin a)" "fle NInf (Fin a)" "\<not> fle (Fin a) NInf"
  by (cases x, simp_all add: fle_def)+

lemma fmax_Fin [simp]: "fmax (Fin a) (Fin b) = Fin (max a b)"
  by (simp add: fmax_def)

lemma fmin_Fin [simp]: "fmin (Fin a) (Fin b) = Fin (min a b)"
  by (simp add: fmin_def)

lemma fsub_Fin [simp]: "fsub (Fin a) (Fin b) = Fin (a - b)"
  by (simp add: fsub_def)

lemma fabs_Fin [simp]: "fabs (Fin a) = Fin \<bar>a\<bar>"
  by (simp add: fabs_def)

declare fsub_def [py_defs] fle_def [py_defs] fmax_def [py_defs] fmin_def [py_defs]
  fabs_def [py_defs] signed_inf_def [py_defs]

text \<open>A float that is not below zero: NaN counts, since no guard \<open>x < 0\<close> fires on it.\<close>

definition not_neg :: "pynum \<Rightarrow> bool" where
  "not_neg x \<longleftrightarrow> \<not> flt x (Fin 0)"

lemma not_neg_cases: "not_neg x \<longleftrightarrow> x = NaN \<or> x = PInf \<or> (\<exists>q \<ge> 0. x = Fin q)"
  by (cases x) (auto simp: not_neg_def)

lemma not_neg_Fin [simp]: "not_neg (Fin q) \<longleftrightarrow> 0 \<le> q"
  by (auto simp: not_neg_def)

lemma not_neg_fadd: "not_neg x \<Longrightarrow> not_neg y \<Longrightarrow> not_neg (fadd x y)"
  by (auto simp: not_neg_cases)

lemma not_neg_fmax: "not_neg x \<Longrightarrow> not_neg y \<Longrightarrow> not_neg (fmax x y)"
  by (simp add: fmax_def)

lemma not_neg_fmin: "not_neg x \<Longrightarrow> not_neg y \<Longrightarrow> not_neg (fmin x y)"
  by (simp add: fmin_def)

lemma not_neg_fabs [simp]: "not_neg (fabs x)"
  by (cases x) (auto simp: fabs_def not_neg_def)

lemma not_neg_fmul: "not_neg x \<Longrightarrow> not_neg y \<Longrightarrow> not_neg (fmul x y)"
  by (auto simp: not_neg_cases signed_inf_def)

text \<open>A finite sum of such floats bounds both of its terms.\<close>

lemma fadd_FinD: "fadd x y = Fin q \<Longrightarrow> \<exists>a b. x = Fin a \<and> y = Fin b \<and> q = a + b"
  by (cases x; cases y) auto

text \<open>\<open>round(x, 2)\<close>.\<close>

definition round2 :: "pynum \<Rightarrow> pynum" where
  "round2 x = (case x of Fin q \<Rightarrow> Fin (to_cents q) | _ \<Rightarrow> x)"

end
