(* ===== verification/Utilization_Gate.thy ===== *)
theory Utilization_Gate
  imports Py_Float Occ_Symbols Interfaces "HOL-Library.Product_Lexorder"
begin

section \<open>The pre-trade utilization gate (risk/utilization_gate.py)\<close>

text \<open>
  The gate admits an entry when the capital committed by open broker positions plus the
  candidate's cost stays within a configured share of committed capital plus buying power.
  Everything it cannot read is an error of type \<open>UtilizationGateError\<close>, kept here as a value
  with the site that raised it; the exceeded cap is its own exception. The environment
  variables, the broker's position list, the buying power and the flag of the risk basis are
  arguments. The evidence the gate records for analysis does not affect its result and is left out.
\<close>

subsection \<open>Errors and rows\<close>

datatype gate_site =
    ThresholdUnset | ThresholdNotFloat | ThresholdOutOfRange | UnparseableCreditLeg | QtyMissing
  | NakedShortWing | UnrecognizedWing | DegenerateWing | NoShortWing | ClientUnavailable
  | PositionsReadFailed | CostBasisMissing | BuyingPowerUnavailable | CandidateInvalid
  | PoolNotPositive | CostUnderivable

datatype gate_error =
    UtilizationGateError gate_site
  | EntryUtilizationBlocked
  | GateCrash pyexn

definition gate_lift :: "pyexn + 'a \<Rightarrow> gate_error + 'a" where
  "gate_lift m = (case m of Inl e \<Rightarrow> Inl (GateCrash e) | Inr x \<Rightarrow> Inr x)"

record opt_leg =
  ol_symbol :: pyval
  ol_cost :: pynum
  ol_qty :: pyval

datatype right_type = CallWing | PutWing

record parsed_leg =
  gl_leg :: opt_leg
  gl_type :: right_type
  gl_strike :: rat

subsection \<open>Configuration\<close>

definition gate_enabled :: "string option \<Rightarrow> bool" where
  "gate_enabled flag = (str_strip (case flag of None \<Rightarrow> [] | Some s \<Rightarrow> s) = ''1'')"

definition max_utilization_pct :: "string option \<Rightarrow> gate_error + rat" where
  "max_utilization_pct env =
     (let raw = str_strip (case env of None \<Rightarrow> [] | Some s \<Rightarrow> s)
      in if raw = [] then Inl (UtilizationGateError ThresholdUnset)
         else (case float_of_str raw of
                 None \<Rightarrow> Inl (UtilizationGateError ThresholdNotFloat)
               | Some (Fin q) \<Rightarrow> if 0 < q \<and> q \<le> 1 then Inr q else Inl (UtilizationGateError ThresholdOutOfRange)
               | Some _ \<Rightarrow> Inl (UtilizationGateError ThresholdOutOfRange)))"

subsection \<open>Committed capital\<close>

text \<open>
  The pattern \<^verbatim>\<open>^(?:O:)?([A-Z.]{1,6})(\d{6})([CP])(\d{8})$\<close> on the stripped upper-case text;
  after stripping no newline is left for the final \<open>$\<close>.
\<close>

definition is_gate_root_char :: "char \<Rightarrow> bool" where
  "is_gate_root_char c \<longleftrightarrow> is_upper c \<or> c = CHR ''.''"

definition match_occ :: "string \<Rightarrow> (string \<times> string \<times> right_type \<times> rat) option" where
  "match_occ s =
     (let t = (if take 2 s = ''O:'' then drop 2 s else s);
          und = takeWhile is_gate_root_char t; rest = dropWhile is_gate_root_char t;
          date = take 6 rest; typ = take 1 (drop 6 rest); strike = drop 7 rest
      in if 1 \<le> length und \<and> length und \<le> 6 \<and> length date = 6 \<and> list_all is_digit date
            \<and> (typ = ''C'' \<or> typ = ''P'') \<and> length strike = 8 \<and> list_all is_digit strike
         then Some (und, date, if typ = ''C'' then CallWing else PutWing, of_nat (digits_val strike) / 1000)
         else None)"

definition parse_occ :: "pyval \<Rightarrow> (string \<times> string \<times> right_type \<times> rat) option" where
  "parse_occ v =
     (case (if truthy v then py_text v else Some []) of
        None \<Rightarrow> None | Some s \<Rightarrow> match_occ (str_upper (str_strip s)))"

text \<open>The first loop: legs without an OCC symbol commit their cost basis, which must not be negative.\<close>

definition unparsed_step :: "opt_leg \<Rightarrow> pynum \<Rightarrow> gate_error + pynum" where
  "unparsed_step l committed =
     (case parse_occ (ol_symbol l) of
        Some _ \<Rightarrow> Inr committed
      | None \<Rightarrow> if flt (ol_cost l) (Fin 0) then Inl (UtilizationGateError UnparseableCreditLeg)
               else Inr (fadd committed (ol_cost l)))"

definition group_key :: "opt_leg \<Rightarrow> (string \<times> string) option" where
  "group_key l = map_option (\<lambda>(u, e, _). (u, e)) (parse_occ (ol_symbol l))"

definition parsed_of :: "opt_leg \<Rightarrow> parsed_leg option" where
  "parsed_of l = map_option (\<lambda>(_, _, t, k). \<lparr>gl_leg = l, gl_type = t, gl_strike = k\<rparr>) (parse_occ (ol_symbol l))"

definition structure_groups :: "opt_leg list \<Rightarrow> ((string \<times> string) \<times> parsed_leg list) list" where
  "structure_groups ls =
     map (\<lambda>k. (k, List.map_filter parsed_of (filter (\<lambda>l. group_key l = Some k) ls)))
       (sort (remdups (List.map_filter group_key ls)))"

definition net_cost :: "parsed_leg list \<Rightarrow> pynum" where
  "net_cost ls = foldl (\<lambda>s l. fadd s (ol_cost (gl_leg l))) (Fin 0) ls"

definition leg_qty :: "parsed_leg \<Rightarrow> gate_error + pynum" where
  "leg_qty l = (if ol_qty (gl_leg l) = PNone then Inl (UtilizationGateError QtyMissing)
     else gate_lift (py_float (ol_qty (gl_leg l))))"

text \<open>One wing of a net-credit group: nothing when it has no short leg, else width times 100 times quantity.\<close>

definition wing_margin :: "right_type \<Rightarrow> parsed_leg list \<Rightarrow> gate_error + pynum option" where
  "wing_margin ty ls =
     (let wing = filter (\<lambda>l. gl_type l = ty) ls
      in rbind (rmap (\<lambda>l. rbind (leg_qty l) (\<lambda>q. Inr (l, q))) wing) (\<lambda>qs.
           let shorts = filter (\<lambda>(l, q). flt q (Fin 0)) qs; longs = filter (\<lambda>(l, q). \<not> flt q (Fin 0)) qs
           in if shorts = [] then Inr None
              else if longs = [] then Inl (UtilizationGateError NakedShortWing)
              else (case (shorts, longs) of
                 ([(s, sq)], [(l, lq)]) \<Rightarrow>
                   (let width = \<bar>gl_strike s - gl_strike l\<bar>; qty = fmin (fabs sq) (fabs lq)
                    in if width \<le> 0 \<or> fle qty (Fin 0) then Inl (UtilizationGateError DegenerateWing)
                       else Inr (Some (fmul (Fin (width * 100)) qty)))
               | _ \<Rightarrow> Inl (UtilizationGateError UnrecognizedWing))))"

definition group_commitment :: "parsed_leg list \<Rightarrow> gate_error + pynum" where
  "group_commitment ls =
     (let net = net_cost ls
      in if fle (Fin 0) net then Inr net
         else rbind (rmap (\<lambda>ty. wing_margin ty ls) [PutWing, CallWing]) (\<lambda>ms.
           case List.map_filter id ms of
             [] \<Rightarrow> Inl (UtilizationGateError NoShortWing)
           | m # rest \<Rightarrow> Inr (foldl fmax m rest)))"

definition structure_commitment_usd :: "opt_leg list \<Rightarrow> gate_error + pynum" where
  "structure_commitment_usd ls =
     rbind (rfold unparsed_step ls (Fin 0)) (\<lambda>c0.
       rfold (\<lambda>g c. rbind (group_commitment (snd g)) (\<lambda>m. Inr (fadd c m))) (structure_groups ls) c0)"

datatype broker_read = NoClient | ReadFailed | BrokerPositions "pydict list"

definition option_leg_of :: "pydict \<Rightarrow> gate_error + opt_leg option" where
  "option_leg_of p =
     (if py_or (dget p ''asset_class'') (PStr []) \<noteq> PStr ''us_option'' then Inr None
      else if dget p ''cost_basis'' = PNone then Inl (UtilizationGateError CostBasisMissing)
      else rbind (gate_lift (py_float (dget p ''cost_basis''))) (\<lambda>cb.
        Inr (Some \<lparr>ol_symbol = py_or (py_or (dget p ''symbol_alpaca'') (dget p ''symbol'')) (PStr []),
                   ol_cost = cb, ol_qty = dget p ''qty''\<rparr>)))"

definition fetch_committed_capital :: "broker_read \<Rightarrow> gate_error + pynum" where
  "fetch_committed_capital br =
     (case br of
        NoClient \<Rightarrow> Inl (UtilizationGateError ClientUnavailable)
      | ReadFailed \<Rightarrow> Inl (UtilizationGateError PositionsReadFailed)
      | BrokerPositions ps \<Rightarrow>
          rbind (rmap option_leg_of ps) (\<lambda>ls. structure_commitment_usd (List.map_filter id ls)))"

subsection \<open>The candidate\<close>

definition dict_or_empty :: "pyval \<Rightarrow> gate_error + pydict" where
  "dict_or_empty v = (if truthy v then (case v of PDict d \<Rightarrow> Inr d | _ \<Rightarrow> Inl (GateCrash AttributeError)) else Inr [])"

definition is_parse_failure :: "pyexn \<Rightarrow> bool" where
  "is_parse_failure e \<longleftrightarrow> e = TypeError \<or> e = ValueError"

definition candidate_bases :: "pydict \<Rightarrow> gate_error + pynum \<times> pynum option" where
  "candidate_bases sug =
     rbind (dict_or_empty (dget sug ''order_json'')) (\<lambda>oj.
     rbind (case (py_float (py_or (dget oj ''limit_price'') (PInt 0)), py_float (py_or (dget oj ''contracts'') (PInt 0))) of
              (Inr lp, Inr cs) \<Rightarrow> Inr (lp, cs)
            | (Inl e, _) \<Rightarrow> if is_parse_failure e then Inr (Fin 0, Fin 0) else Inl (GateCrash e)
            | (_, Inl e) \<Rightarrow> if is_parse_failure e then Inr (Fin 0, Fin 0) else Inl (GateCrash e))
       (\<lambda>(lp, cs).
     rbind (if dget sug ''max_loss_total'' \<noteq> PNone then Inr (dget sug ''max_loss_total'')
            else rbind (dict_or_empty (dget sug ''sizing_metadata'')) (\<lambda>sm. Inr (dget sm ''max_loss_total'')))
       (\<lambda>h. Inr (fmul (fmul lp cs) (Fin 100),
                 if h = PNone then None else (case py_float h of Inr x \<Rightarrow> Some x | Inl _ \<Rightarrow> None)))))"

definition choose_basis :: "bool \<Rightarrow> pynum \<Rightarrow> pynum option \<Rightarrow> pynum" where
  "choose_basis basis_on current honest =
     (case honest of Some h \<Rightarrow> if basis_on \<and> flt (Fin 0) h then h else current | None \<Rightarrow> current)"

definition candidate_cost_usd :: "bool \<Rightarrow> pydict \<Rightarrow> gate_error + pynum" where
  "candidate_cost_usd basis_on sug =
     rbind (candidate_bases sug) (\<lambda>(cost, honest).
       let c = choose_basis basis_on cost honest
       in if fle c (Fin 0) then Inl (UtilizationGateError CostUnderivable) else Inr c)"

subsection \<open>The decision\<close>

record gate_result =
  gr_committed :: pynum
  gr_obp :: pynum
  gr_cost :: pynum
  gr_pool :: pynum
  gr_utilization :: pynum
  gr_cap :: rat

definition evaluate_entry :: "string option \<Rightarrow> broker_read \<Rightarrow> pynum option \<Rightarrow> pynum option \<Rightarrow> gate_error + gate_result" where
  "evaluate_entry env br obp cost =
     rbind (max_utilization_pct env) (\<lambda>cap.
     rbind (fetch_committed_capital br) (\<lambda>committed.
     case obp of
       None \<Rightarrow> Inl (UtilizationGateError BuyingPowerUnavailable)
     | Some o' \<Rightarrow>
         (case cost of
            None \<Rightarrow> Inl (UtilizationGateError CandidateInvalid)
          | Some c \<Rightarrow>
              if fle c (Fin 0) then Inl (UtilizationGateError CandidateInvalid)
              else (let pool = fadd committed o'
                    in if fle pool (Fin 0) then Inl (UtilizationGateError PoolNotPositive)
                       else rbind (gate_lift (fdiv (fadd committed c) pool)) (\<lambda>u.
                         if \<not> fle u (Fin cap) then Inl EntryUtilizationBlocked
                         else Inr \<lparr>gr_committed = committed, gr_obp = o', gr_cost = c, gr_pool = pool,
                                   gr_utilization = u, gr_cap = cap\<rparr>)))))"

end
