(* ===== verification/Gate_Correct.thy ===== *)
theory Gate_Correct
  imports Utilization_Gate
begin

section \<open>What the utilization gate guarantees\<close>

text \<open>
  A closed form of the committed capital (unparsed cost plus one commitment per structure), the
  fact that no structure's commitment is reduced by another's credit, and exactly when an entry is
  admitted. Each evaluation is judged on the positions and the buying power it is given. The code
  takes the buying power from a cache of sixty seconds that can lag behind the orders a run has just
  placed (the module documents this), so a bound on the book over several entries of one run is not
  a property of the gate and is not stated.
\<close>

subsection \<open>Committed capital in closed form\<close>

definition add_each :: "('a \<Rightarrow> 'e + pynum) \<Rightarrow> 'a \<Rightarrow> pynum \<Rightarrow> 'e + pynum" where
  "add_each g x c = rbind (g x) (\<lambda>m. Inr (fadd c m))"

lemma add_each_Fin: "rfold (add_each g) xs c = Inr (Fin b) \<Longrightarrow> \<exists>q. c = Fin q"
  by (induction xs arbitrary: c) (auto simp: add_each_def rbind_Inr_iff dest!: fadd_FinD)

definition fin_of :: "'e + pynum \<Rightarrow> rat" where
  "fin_of m = (case m of Inr (Fin q) \<Rightarrow> q | _ \<Rightarrow> 0)"

lemma fin_of_Fin [simp]: "fin_of (Inr (Fin q)) = q"
  by (simp add: fin_of_def)

definition finite_result :: "'e + pynum \<Rightarrow> bool" where
  "finite_result m \<longleftrightarrow> (\<exists>q. m = Inr (Fin q))"

lemma rfold_add_each:
  "rfold (add_each g) xs (Fin a) = Inr (Fin b)
     \<longleftrightarrow> (\<forall>x \<in> set xs. finite_result (g x)) \<and> b = a + (\<Sum>x\<leftarrow>xs. fin_of (g x))"
proof (induction xs arbitrary: a)
  case (Cons x xs)
  show ?case
  proof (cases "finite_result (g x)")
    case True
    then obtain q where q: "g x = Inr (Fin q)" by (auto simp: finite_result_def)
    then have "rfold (add_each g) (x # xs) (Fin a) = rfold (add_each g) xs (Fin (a + q))" by (simp add: add_each_def)
    with Cons show ?thesis using q True by (simp add: add.assoc)
  next
    case False
    then have "rfold (add_each g) (x # xs) (Fin a) \<noteq> Inr (Fin b)"
      by (auto simp: rbind_Inr_iff add_each_def finite_result_def dest!: add_each_Fin fadd_FinD)
    with False show ?thesis by auto
  qed
qed auto

lemma rfold_map: "rfold f (map h xs) s = rfold (\<lambda>x. f (h x)) xs s"
  by (induction xs arbitrary: s) (auto intro: rbind_cong)

definition unparsed_cost :: "opt_leg \<Rightarrow> gate_error + pynum" where
  "unparsed_cost l = (if parse_occ (ol_symbol l) \<noteq> None then Inr (Fin 0)
     else if flt (ol_cost l) (Fin 0) then Inl (UtilizationGateError UnparseableCreditLeg) else Inr (ol_cost l))"

lemma fadd_Fin_0 [simp]: "fadd x (Fin 0) = x"
  by (cases x) auto

lemma unparsed_step_cost: "unparsed_step = add_each unparsed_cost"
  by (intro ext) (auto simp: unparsed_step_def unparsed_cost_def add_each_def split: option.split)

definition group_legs :: "opt_leg list \<Rightarrow> string \<times> string \<Rightarrow> parsed_leg list" where
  "group_legs ls k = List.map_filter parsed_of (filter (\<lambda>l. group_key l = Some k) ls)"

definition group_keys :: "opt_leg list \<Rightarrow> (string \<times> string) set" where
  "group_keys ls = {k. \<exists>l \<in> set ls. group_key l = Some k}"

lemma group_keys_set: "set (List.map_filter group_key ls) = group_keys ls"
  by (auto simp: group_keys_def set_map_filter)

lemma finite_group_keys [simp]: "finite (group_keys ls)"
  by (simp flip: group_keys_set)

lemma commitment_closed_form:
  "structure_commitment_usd ls = Inr (Fin c) \<longleftrightarrow>
     (\<forall>l \<in> set ls. finite_result (unparsed_cost l))
     \<and> (\<forall>k \<in> group_keys ls. finite_result (group_commitment (group_legs ls k)))
     \<and> c = (\<Sum>l\<leftarrow>ls. fin_of (unparsed_cost l)) + (\<Sum>k\<in>group_keys ls. fin_of (group_commitment (group_legs ls k)))"
proof -
  let ?ks = "sort (remdups (List.map_filter group_key ls))"
  have ks: "set ?ks = group_keys ls" "distinct ?ks" by (simp_all add: group_keys_set)
  have "structure_commitment_usd ls = rbind (rfold (add_each unparsed_cost) ls (Fin 0))
      (rfold (add_each (\<lambda>k. group_commitment (group_legs ls k))) ?ks)"
    by (simp add: structure_commitment_usd_def structure_groups_def rfold_map unparsed_step_cost group_legs_def
        add_each_def [abs_def])
  also have "\<dots> = Inr (Fin c) \<longleftrightarrow> (\<exists>a. rfold (add_each unparsed_cost) ls (Fin 0) = Inr (Fin a) \<and>
      rfold (add_each (\<lambda>k. group_commitment (group_legs ls k))) ?ks (Fin a) = Inr (Fin c))"
    by (auto simp: rbind_Inr_iff dest: add_each_Fin)
  finally show ?thesis
    unfolding rfold_add_each ks(1)
      sum_list_distinct_conv_sum_set [OF ks(2), of "\<lambda>k. fin_of (group_commitment (group_legs ls k))", unfolded ks(1)]
    by auto
qed

text \<open>The commitment of a group is never negative and covers its net debit.\<close>

lemma wing_margin_not_neg: "wing_margin ty ls = Inr (Some m) \<Longrightarrow> not_neg m"
  by (auto simp: wing_margin_def Let_def rbind_Inr_iff not_neg_fmul not_neg_fmin split: if_splits list.splits prod.splits)

lemma foldl_fmax_not_neg: "not_neg m \<Longrightarrow> (\<And>x. x \<in> set xs \<Longrightarrow> not_neg x) \<Longrightarrow> not_neg (foldl fmax m xs)"
  by (induction xs arbitrary: m) (auto intro: not_neg_fmax)

lemma group_commitment_covers:
  assumes "group_commitment ls = Inr m"
  shows "not_neg m" and "m = Fin c \<Longrightarrow> net_cost ls = Fin n \<Longrightarrow> n \<le> c"
proof -
  have *: "not_neg m" if "\<not> fle (Fin 0) (net_cost ls)"
  proof -
    from assms that obtain ms where ms: "rmap (\<lambda>ty. wing_margin ty ls) [PutWing, CallWing] = Inr ms"
      and m: "(case List.map_filter id ms of [] \<Rightarrow> Inl (UtilizationGateError NoShortWing)
         | m # rest \<Rightarrow> Inr (foldl fmax m rest)) = Inr m"
      by (auto simp: group_commitment_def Let_def rbind_Inr_iff simp del: rmap.simps)
    have "not_neg x" if "x \<in> set (List.map_filter id ms)" for x
      using that rmap_Inr_setD [OF ms] by (force simp: set_map_filter dest: wing_margin_not_neg)
    with m show ?thesis by (cases "List.map_filter id ms") (auto intro!: foldl_fmax_not_neg)
  qed
  have **: "m = net_cost ls" if "fle (Fin 0) (net_cost ls)" using assms that by (simp add: group_commitment_def Let_def)
  have "fle (Fin 0) x \<Longrightarrow> not_neg x" for x by (cases x) (simp_all add: not_neg_def)
  then show "not_neg m" using * ** by metis
  show "m = Fin c \<Longrightarrow> net_cost ls = Fin n \<Longrightarrow> n \<le> c" using * ** by (cases "0 \<le> n") auto
qed

lemma unparsed_cost_nonneg: "0 \<le> fin_of (unparsed_cost l)"
  by (cases "ol_cost l") (auto simp: unparsed_cost_def fin_of_def)

lemma commitment_nonneg: "0 \<le> fin_of (group_commitment ls)"
  using group_commitment_covers(1) [of ls] by (auto simp: fin_of_def split: sum.split pynum.split)

text \<open>
  Committed capital is never negative and no structure's net debit is offset by
  the premium another structure received: the total is at least every structure's own net cost.
\<close>

theorem commitment_covers_each_structure:
  assumes "structure_commitment_usd ls = Inr (Fin c)"
  shows "0 \<le> c \<and> (\<forall>k n. net_cost (group_legs ls k) = Fin n \<longrightarrow> n \<le> c)"
proof -
  from assms have fin: "\<forall>k \<in> group_keys ls. finite_result (group_commitment (group_legs ls k))"
    and c: "c = (\<Sum>l\<leftarrow>ls. fin_of (unparsed_cost l)) + (\<Sum>k\<in>group_keys ls. fin_of (group_commitment (group_legs ls k)))"
    unfolding commitment_closed_form by auto
  have u: "0 \<le> (\<Sum>l\<leftarrow>ls. fin_of (unparsed_cost l))" by (rule sum_list_nonneg) (auto simp: unparsed_cost_nonneg)
  have g: "0 \<le> (\<Sum>k\<in>group_keys ls. fin_of (group_commitment (group_legs ls k)))"
    by (rule sum_nonneg) (rule commitment_nonneg)
  have "n \<le> c" if n: "net_cost (group_legs ls k) = Fin n" for k n
  proof (cases "k \<in> group_keys ls")
    case True
    with fin obtain q where q: "group_commitment (group_legs ls k) = Inr (Fin q)" by (auto simp: finite_result_def)
    have "n \<le> q" by (rule group_commitment_covers(2) [OF q refl n])
    also have "q \<le> (\<Sum>k\<in>group_keys ls. fin_of (group_commitment (group_legs ls k)))"
      using member_le_sum [OF True, of "\<lambda>k. fin_of (group_commitment (group_legs ls k))"] commitment_nonneg q by simp
    finally show ?thesis using u c by simp
  next
    case False
    then have "filter (\<lambda>l. group_key l = Some k) ls = []" by (auto simp: group_keys_def filter_empty_conv)
    then have "net_cost (group_legs ls k) = Fin 0" by (simp add: group_legs_def net_cost_def List.map_filter_simps)
    with n u g c show ?thesis by simp
  qed
  with u g c show ?thesis by simp
qed

definition debit_leg :: "string \<Rightarrow> rat \<Rightarrow> opt_leg" where
  "debit_leg occ cost = \<lparr>ol_symbol = PStr occ, ol_cost = Fin cost, ol_qty = PFloat (Fin 1)\<rparr>"

definition condor_put_legs :: "opt_leg list" where
  "condor_put_legs =
     [\<lparr>ol_symbol = PStr ''XLF260116P00040000'', ol_cost = Fin (- 90), ol_qty = PFloat (Fin (- 1))\<rparr>,
      \<lparr>ol_symbol = PStr ''XLF260116P00035000'', ol_cost = Fin 30, ol_qty = PFloat (Fin 1)\<rparr>,
      debit_leg ''NFLX260116C00090000'' 365]"

lemma condor_parse:
  "parse_occ (PStr ''XLF260116P00040000'') = Some (''XLF'', ''260116'', PutWing, 40)"
  "parse_occ (PStr ''XLF260116P00035000'') = Some (''XLF'', ''260116'', PutWing, 35)"
  "parse_occ (PStr ''NFLX260116C00090000'') = Some (''NFLX'', ''260116'', CallWing, 90)"
  by (simp_all add: parse_occ_def match_occ_def is_gate_root_char_def py_defs)

lemma condor_commitment: "structure_commitment_usd condor_put_legs = Inr (Fin 865)"
proof -
  have keys: "group_keys condor_put_legs = {(''XLF'', ''260116''), (''NFLX'', ''260116'')}"
    by (auto simp: group_keys_def condor_put_legs_def debit_leg_def group_key_def condor_parse)
  have g1: "group_commitment (group_legs condor_put_legs (''XLF'', ''260116'')) = Inr (Fin 500)"
    by (simp add: condor_put_legs_def debit_leg_def group_legs_def group_key_def parsed_of_def condor_parse
        List.map_filter_simps group_commitment_def net_cost_def wing_margin_def leg_qty_def gate_lift_def)
  have g2: "group_commitment (group_legs condor_put_legs (''NFLX'', ''260116'')) = Inr (Fin 365)"
    by (simp add: condor_put_legs_def debit_leg_def group_legs_def group_key_def parsed_of_def condor_parse
        List.map_filter_simps group_commitment_def net_cost_def)
  show ?thesis
    unfolding commitment_closed_form keys using g1 g2
    by (simp add: finite_result_def condor_put_legs_def debit_leg_def unparsed_cost_def condor_parse)
qed

text \<open>A put credit spread of width 5 beside a debit of 365: 500 of margin plus 365, not 365 less the credit.\<close>

theorem commitment_covers_each_structure_witness:
  "structure_commitment_usd condor_put_legs = Inr (Fin 865) \<and> (0 :: rat) \<le> 865"
  using commitment_covers_each_structure [OF condor_commitment] condor_commitment by blast

subsection \<open>An admitted entry fits\<close>

lemma admitted_entry_aux:
  assumes "evaluate_entry env br (Some (Fin p)) cost = Inr r"
  shows "\<exists>cap com c. max_utilization_pct env = Inr cap \<and> 0 < cap \<and> cap \<le> 1 \<and>
    fetch_committed_capital br = Inr (Fin com) \<and> cost = Some (Fin c) \<and> 0 < c \<and> 0 < com + p \<and>
    com + c \<le> cap * (com + p) \<and> gr_utilization r = Fin ((com + c) / (com + p))"
proof -
  from assms obtain c where c1: "cost = Some c"
    by (cases cost) (auto simp: evaluate_entry_def rbind_Inr_iff)
  from assms [unfolded c1] obtain cap com u where cap: "max_utilization_pct env = Inr cap"
    and com: "fetch_committed_capital br = Inr com" and c2: "\<not> fle c (Fin 0)"
    and pool: "\<not> fle (fadd com (Fin p)) (Fin 0)" and u: "fdiv (fadd com c) (fadd com (Fin p)) = Inr u" "fle u (Fin cap)"
      "gr_utilization r = u"
    by (auto simp: evaluate_entry_def rbind_Inr_iff gate_lift_def Let_def split: if_splits sum.splits)
  note c = c1 c2
  from cap have cap': "0 < cap" "cap \<le> 1"
    by (auto simp: max_utilization_pct_def Let_def split: if_splits option.splits pynum.splits)
  obtain x where x: "com = Fin x" using pool u by (cases com; cases c) auto
  with pool u c obtain y where y: "c = Fin y" by (cases c) (auto simp: signed_inf_def)
  have "0 < x + p" "0 < y" using pool c x y by simp_all
  moreover from this u x y have "u = Fin ((x + y) / (x + p))" "(x + y) / (x + p) \<le> cap" by auto
  ultimately show ?thesis using cap cap' com c u x y by (auto simp: pos_divide_le_eq)
qed

text \<open>
  The gate fails closed: when it admits an entry against a finite buying power,
  the cap was configured in (0, 1], the committed capital was read and is finite, the candidate
  has a positive finite cost, and commitment plus cost is within the cap's share of the pool.
\<close>

theorem admitted_entry_within_cap:
  assumes "evaluate_entry env br (Some (Fin p)) cost = Inr r"
  shows "\<exists>cap com c. max_utilization_pct env = Inr cap \<and> 0 < cap \<and> cap \<le> 1 \<and>
    fetch_committed_capital br = Inr (Fin com) \<and> cost = Some (Fin c) \<and> 0 < c \<and> 0 < com + p \<and>
    com + c \<le> cap * (com + p) \<and> gr_utilization r = Fin ((com + c) / (com + p))"
  using assms by (rule admitted_entry_aux)

definition condor_rows :: "pydict list" where
  "condor_rows = [[(''asset_class'', PStr ''us_option''), (''symbol_alpaca'', PStr ''NFLX260116C00090000''),
     (''cost_basis'', PFloat (Fin 365)), (''qty'', PFloat (Fin 1))]]"

lemma condor_rows_commitment: "fetch_committed_capital (BrokerPositions condor_rows) = Inr (Fin 365)"
proof -
  have "structure_commitment_usd [debit_leg ''NFLX260116C00090000'' 365] = Inr (Fin 365)"
  proof -
    have keys: "group_keys [debit_leg ''NFLX260116C00090000'' 365] = {(''NFLX'', ''260116'')}"
      by (auto simp: group_keys_def debit_leg_def group_key_def condor_parse)
    show ?thesis unfolding commitment_closed_form keys
      by (simp add: finite_result_def debit_leg_def unparsed_cost_def condor_parse group_legs_def group_key_def
          parsed_of_def List.map_filter_simps group_commitment_def net_cost_def)
  qed
  then show ?thesis
    by (simp add: fetch_committed_capital_def condor_rows_def option_leg_of_def gate_lift_def py_defs
        List.map_filter_simps debit_leg_def)
qed

lemma admitted_example:
  "\<exists>r. evaluate_entry (Some ''0.85'') (BrokerPositions condor_rows) (Some (Fin 635)) (Some (Fin 485)) = Inr r"
proof -
  have "max_utilization_pct (Some ''0.85'') = Inr (85/100)" by (simp add: max_utilization_pct_def py_defs)
  then show ?thesis by (simp add: evaluate_entry_def condor_rows_commitment gate_lift_def)
qed

theorem admitted_entry_within_cap_witness:
  "\<exists>cap com. max_utilization_pct (Some ''0.85'') = Inr cap \<and>
     fetch_committed_capital (BrokerPositions condor_rows) = Inr (Fin com) \<and> com + 485 \<le> cap * (com + 635)"
  using admitted_example admitted_entry_within_cap by fastforce

subsection \<open>Exactly the entries that fit\<close>

text \<open>The capital that a list of legs commits, when every part of it has a finite figure.\<close>

definition all_priced :: "opt_leg list \<Rightarrow> bool" where
  "all_priced ls \<longleftrightarrow> list_all (\<lambda>l. finite_result (unparsed_cost l)) ls
     \<and> list_all (\<lambda>k. finite_result (group_commitment (group_legs ls k))) (remdups (List.map_filter group_key ls))"

definition committed_of :: "opt_leg list \<Rightarrow> rat" where
  "committed_of ls = (\<Sum>l\<leftarrow>ls. fin_of (unparsed_cost l))
     + (\<Sum>k\<leftarrow>remdups (List.map_filter group_key ls). fin_of (group_commitment (group_legs ls k)))"

lemma structure_commitment_iff:
  "structure_commitment_usd ls = Inr (Fin c) \<longleftrightarrow> all_priced ls \<and> c = committed_of ls"
  unfolding commitment_closed_form all_priced_def committed_of_def list_all_iff
  by (simp add: sum_list_distinct_conv_sum_set group_keys_set)

lemma admits_iff:
  "(\<exists>r. evaluate_entry env br (Some (Fin p)) cost = Inr r) \<longleftrightarrow>
     (\<exists>cap com c. max_utilization_pct env = Inr cap \<and> fetch_committed_capital br = Inr (Fin com) \<and> cost = Some (Fin c)
        \<and> 0 < c \<and> 0 < com + p \<and> com + c \<le> cap * (com + p))" (is "?admits \<longleftrightarrow> ?fits")
proof
  assume ?admits
  then show ?fits using admitted_entry_aux by fast
next
  assume ?fits
  then obtain cap com c where "max_utilization_pct env = Inr cap" "fetch_committed_capital br = Inr (Fin com)" "cost = Some (Fin c)"
    "0 < c" "0 < com + p" "com + c \<le> cap * (com + p)" by blast
  then show ?admits by (simp add: evaluate_entry_def gate_lift_def Let_def pos_divide_le_eq)
qed

text \<open>
  C36 (equivalence). The gate admits an entry exactly when it fits. With a finite buying power an
  entry is admitted if and only if the cap is configured, the broker's positions were read and each
  of their option legs has a cost, the candidate's cost is finite and positive, and the committed
  capital plus this cost is at most the cap's share of the committed capital plus the buying power,
  which is positive. The committed capital is the sum, over the structures by underlying and expiry,
  of each structure's own commitment, its net debit or its margin, plus the costs of the legs whose
  symbols cannot be parsed; where one of these cannot be determined nothing is admitted.
\<close>

theorem gate_admits_exactly:
  "(\<exists>r. evaluate_entry env br (Some (Fin p)) cost = Inr r) \<longleftrightarrow>
     (\<exists>cap ps rows c. max_utilization_pct env = Inr cap \<and> br = BrokerPositions ps \<and> rmap option_leg_of ps = Inr rows
        \<and> cost = Some (Fin c) \<and> all_priced (List.map_filter id rows) \<and> 0 < c \<and> 0 < committed_of (List.map_filter id rows) + p
        \<and> committed_of (List.map_filter id rows) + c \<le> cap * (committed_of (List.map_filter id rows) + p))"
proof -
  have "fetch_committed_capital br = Inr (Fin com) \<longleftrightarrow> (\<exists>ps rows. br = BrokerPositions ps \<and> rmap option_leg_of ps = Inr rows
      \<and> all_priced (List.map_filter id rows) \<and> com = committed_of (List.map_filter id rows))" for com
    by (cases br) (auto simp: fetch_committed_capital_def rbind_Inr_iff structure_commitment_iff)
  then show ?thesis unfolding admits_iff by (auto simp del: split_paired_Ex)
qed

text \<open>The debit of 365 leaves room for 485 under the cap of 85 percent, and not for a dollar more.\<close>

theorem gate_admits_exactly_witness:
  "(\<exists>r. evaluate_entry (Some ''0.85'') (BrokerPositions condor_rows) (Some (Fin 635)) (Some (Fin 485)) = Inr r)
   \<and> \<not> (\<exists>r. evaluate_entry (Some ''0.85'') (BrokerPositions condor_rows) (Some (Fin 635)) (Some (Fin 486)) = Inr r)"
proof -
  let ?rows = "[Some (debit_leg ''NFLX260116C00090000'' 365)]"
  have cap: "max_utilization_pct (Some ''0.85'') = Inr (85/100)" by (simp add: max_utilization_pct_def py_defs)
  have rows: "rmap option_leg_of condor_rows = Inr ?rows"
    by (simp add: condor_rows_def option_leg_of_def gate_lift_def py_defs debit_leg_def)
  have "structure_commitment_usd (List.map_filter id ?rows) = Inr (Fin 365)"
    using condor_rows_commitment by (simp add: fetch_committed_capital_def rows)
  then have "all_priced (List.map_filter id ?rows)" "committed_of (List.map_filter id ?rows) = 365"
    unfolding structure_commitment_iff by simp_all
  moreover define m :: rat where "m = 85/100"
  moreover have "max_utilization_pct (Some ''0.85'') = Inr m" unfolding m_def by (rule cap)
  ultimately have "(\<exists>r. evaluate_entry (Some ''0.85'') (BrokerPositions condor_rows) (Some (Fin 635)) (Some (Fin c)) = Inr r)
      \<longleftrightarrow> 0 < c \<and> 365 + c \<le> m * 1000" for c
    unfolding gate_admits_exactly by (simp add: rows)
  then show ?thesis by (simp add: m_def)
qed

end
