(* ===== verification/Capital_Tiers.thy ===== *)
theory Capital_Tiers
  imports Py_Prelude
begin

section \<open>Capital tiers: sizing and the tier taper (services/analytics)\<close>

text \<open>
  \<open>small_account_compounder.py\<close> maps account capital to a tier and a tier to a risk budget per
  trade, and selects candidates until the cycle's budget is used. \<open>tier_taper.py\<close> observes what
  a linear taper across the cliff between the micro and the small tier would do, with a
  hysteresis on the tier state. Scores, equities and budgets are finite; the alert that
  \<open>calculate_variable_sizing\<close> raises when an allocation hint was dropped is left out.
\<close>

subsection \<open>Tiers and sizing\<close>

datatype tier_name = Micro | Small | Standard

record capital_tier =
  ct_name :: tier_name
  ct_min :: rat
  ct_max :: "rat option"
  ct_risk :: rat
  ct_max_trades :: nat
  ct_selection :: string

definition tiers :: "capital_tier list" where
  "tiers =
     [\<lparr>ct_name = Micro, ct_min = 0, ct_max = Some 1000, ct_risk = 90/100, ct_max_trades = 1,
       ct_selection = ''rank_select_compound''\<rparr>,
      \<lparr>ct_name = Small, ct_min = 1000, ct_max = Some 5000, ct_risk = 3/100, ct_max_trades = 4,
       ct_selection = ''rank_select_compound''\<rparr>,
      \<lparr>ct_name = Standard, ct_min = 5000, ct_max = None, ct_risk = 2/100, ct_max_trades = 5,
       ct_selection = ''rank_top_n''\<rparr>]"

definition in_tier :: "rat \<Rightarrow> capital_tier \<Rightarrow> bool" where
  "in_tier capital t \<longleftrightarrow> ct_min t \<le> capital \<and> (case ct_max t of None \<Rightarrow> True | Some m \<Rightarrow> capital < m)"

definition get_tier :: "rat \<Rightarrow> capital_tier" where
  "get_tier capital = (case find (in_tier capital) tiers of Some t \<Rightarrow> t | None \<Rightarrow> last tiers)"

record sizing =
  sz_risk_pct :: rat
  sz_budget :: rat
  sz_tier :: tier_name
  sz_score_mult :: rat
  sz_regime_mult :: rat
  sz_comp_mult :: rat
  sz_hint_applied :: bool

definition sizing_regime_mult :: "string \<Rightarrow> rat" where
  "sizing_regime_mult regime =
     (if regime = ''suppressed'' then 9/10 else if regime = ''elevated'' then 8/10
      else if regime = ''shock'' then 1/2 else 1)"

definition score_mult :: "rat \<Rightarrow> rat" where
  "score_mult score = max (8/10) (min (12/10) (8/10 + ((score - 50) / 50) * (4/10)))"

definition calculate_variable_sizing ::
    "rat option \<Rightarrow> rat \<Rightarrow> capital_tier \<Rightarrow> string \<Rightarrow> bool \<Rightarrow> rat option \<Rightarrow> sizing" where
  "calculate_variable_sizing score_field capital tier regime compounding hint =
     (let score = (case score_field of None \<Rightarrow> 50 | Some x \<Rightarrow> x); rm = sizing_regime_mult regime
      in if ct_name tier = Micro then
           (let pct = ct_risk tier * rm
            in \<lparr>sz_risk_pct = pct, sz_budget = capital * pct, sz_tier = ct_name tier, sz_score_mult = 1,
                sz_regime_mult = rm, sz_comp_mult = 1, sz_hint_applied = False\<rparr>)
         else if ct_name tier = Small \<and> hint \<noteq> None then
           \<lparr>sz_risk_pct = (if 0 < capital then the hint / capital else 0), sz_budget = the hint,
            sz_tier = ct_name tier, sz_score_mult = 1, sz_regime_mult = rm, sz_comp_mult = 1, sz_hint_applied = True\<rparr>
         else
           (let sm = score_mult score;
                cm = (if compounding \<and> ct_name tier = Small \<and> 80 \<le> score then 12/10 else 1);
                base = (if \<not> compounding \<and> ct_name tier = Small then 2/100 else ct_risk tier);
                pct = base * sm * rm * cm
            in \<lparr>sz_risk_pct = pct, sz_budget = capital * pct, sz_tier = ct_name tier, sz_score_mult = sm,
                sz_regime_mult = rm, sz_comp_mult = cm, sz_hint_applied = False\<rparr>))"

text \<open>A candidate of the ranking: whatever the caller passes, with its optional score.\<close>

record candidate =
  ca_id :: nat
  ca_score :: "rat option"

definition score_or_zero :: "candidate \<Rightarrow> rat" where
  "score_or_zero c = (case ca_score c of None \<Rightarrow> 0 | Some x \<Rightarrow> x)"

fun select_loop ::
    "rat \<Rightarrow> capital_tier \<Rightarrow> string \<Rightarrow> bool \<Rightarrow> rat \<Rightarrow> candidate list \<Rightarrow> candidate list \<Rightarrow> rat \<Rightarrow> candidate list" where
  "select_loop capital tier regime compounding budget [] sel used = sel"
| "select_loop capital tier regime compounding budget (c # cs) sel used =
     (if ct_max_trades tier \<le> length sel then sel
      else if budget \<le> used then sel
      else if score_or_zero c < 40 then select_loop capital tier regime compounding budget cs sel used
      else (let est = sz_budget (calculate_variable_sizing (ca_score c) capital tier regime compounding None)
            in if budget < used + est then sel
               else select_loop capital tier regime compounding budget cs (sel @ [c]) (used + est)))"

definition rank_and_select :: "candidate list \<Rightarrow> rat \<Rightarrow> rat \<Rightarrow> bool \<Rightarrow> string \<Rightarrow> candidate list" where
  "rank_and_select cs capital budget compounding regime =
     select_loop capital (get_tier capital) regime compounding budget (sort_key (\<lambda>c. - score_or_zero c) cs) [] 0"

subsection \<open>The tier taper\<close>

definition BOUNDARY :: rat where "BOUNDARY = 1000"
definition BAND_LO :: rat where "BAND_LO = BOUNDARY * (1 - 20/100)"
definition BAND_HI :: rat where "BAND_HI = BOUNDARY"
definition STANDARD_BOUNDARY :: rat where "STANDARD_BOUNDARY = 5000"
definition HYST_LO :: rat where "HYST_LO = BOUNDARY * (1 - 5/100)"
definition HYST_HI :: rat where "HYST_HI = BOUNDARY"
definition MICRO_ENVELOPE_PCT :: rat where "MICRO_ENVELOPE_PCT = 90/100"
definition MICRO_CEILING_PCT :: rat where "MICRO_CEILING_PCT = 90/100"
definition MICRO_MAX_CONCURRENT :: int where "MICRO_MAX_CONCURRENT = 1"
definition SMALL_ENVELOPE_PCT :: rat where "SMALL_ENVELOPE_PCT = 85/100"
definition SMALL_CEILING_PCT :: rat where "SMALL_CEILING_PCT = 36/100"
definition SMALL_MAX_CONCURRENT :: int where "SMALL_MAX_CONCURRENT = 4"

lemmas taper_constants = BOUNDARY_def BAND_LO_def BAND_HI_def STANDARD_BOUNDARY_def HYST_LO_def HYST_HI_def
  MICRO_ENVELOPE_PCT_def MICRO_CEILING_PCT_def MICRO_MAX_CONCURRENT_def SMALL_ENVELOPE_PCT_def
  SMALL_CEILING_PCT_def SMALL_MAX_CONCURRENT_def

text \<open>A regime is absent, an object with a string name, one with a state, or anything printed as text.\<close>

datatype regime_input = NoRegime | RegimeName string | RegimeState string | RegimeText string

definition normalize_regime :: "regime_input \<Rightarrow> string" where
  "normalize_regime r = (case r of NoRegime \<Rightarrow> ''normal'' | RegimeName s \<Rightarrow> str_lower s
     | RegimeState s \<Rightarrow> str_lower s | RegimeText s \<Rightarrow> str_lower s)"

definition taper_regime_mult :: "regime_input \<Rightarrow> rat" where
  "taper_regime_mult r =
     (case map_of [(''normal'', 1), (''suppressed'', 9/10), (''elevated'', 8/10), (''shock'', 1/2),
                   (''chop'', 1), (''rebound'', 1)] (normalize_regime r) of Some m \<Rightarrow> m | None \<Rightarrow> 1)"

definition taper_fraction :: "rat \<Rightarrow> rat" where
  "taper_fraction e = (if e \<le> BAND_LO then 0 else if BAND_HI \<le> e then 1 else (e - BAND_LO) / (BAND_HI - BAND_LO))"

definition interp :: "rat \<Rightarrow> rat \<Rightarrow> rat \<Rightarrow> rat" where
  "interp lo hi t = lo + t * (hi - lo)"

definition raw_tier_name :: "rat \<Rightarrow> tier_name" where
  "raw_tier_name e = (if e < BOUNDARY then Micro else if e < STANDARD_BOUNDARY then Small else Standard)"

record tier_params =
  tp_tier :: tier_name
  tp_envelope :: rat
  tp_ceiling :: rat
  tp_concurrent :: int

definition raw_params :: "rat \<Rightarrow> tier_params option" where
  "raw_params e =
     (case raw_tier_name e of
        Micro \<Rightarrow> Some \<lparr>tp_tier = Micro, tp_envelope = MICRO_ENVELOPE_PCT, tp_ceiling = MICRO_CEILING_PCT,
                        tp_concurrent = MICRO_MAX_CONCURRENT\<rparr>
      | Small \<Rightarrow> Some \<lparr>tp_tier = Small, tp_envelope = SMALL_ENVELOPE_PCT, tp_ceiling = SMALL_CEILING_PCT,
                        tp_concurrent = SMALL_MAX_CONCURRENT\<rparr>
      | Standard \<Rightarrow> None)"

datatype hysteresis_decision = ColdStartRawSeed | FlipToSmall | HoldMicro | FlipToMicro | HoldSmall

text \<open>A previous state that is no tier state counts as absent.\<close>

definition resolve_tier_state :: "rat \<Rightarrow> tier_name option \<Rightarrow> tier_name \<times> hysteresis_decision" where
  "resolve_tier_state e prev =
     (case prev of
        Some Micro \<Rightarrow> if HYST_HI \<le> e then (Small, FlipToSmall) else (Micro, HoldMicro)
      | Some Small \<Rightarrow> if e \<le> HYST_LO then (Micro, FlipToMicro) else (Small, HoldSmall)
      | _ \<Rightarrow> (if BOUNDARY \<le> e then Small else Micro, ColdStartRawSeed))"

definition proposed_params :: "rat \<Rightarrow> tier_name \<Rightarrow> tier_params option" where
  "proposed_params e state =
     (case raw_params e of
        None \<Rightarrow> None
      | Some raw \<Rightarrow>
          if e \<le> BAND_LO \<or> BAND_HI \<le> e then Some raw
          else (let t = taper_fraction e
                in Some \<lparr>tp_tier = tp_tier raw,
                         tp_envelope = interp MICRO_ENVELOPE_PCT SMALL_ENVELOPE_PCT t,
                         tp_ceiling = interp MICRO_CEILING_PCT SMALL_CEILING_PCT t,
                         tp_concurrent = (if state = Small then SMALL_MAX_CONCURRENT else MICRO_MAX_CONCURRENT)\<rparr>))"

datatype verdict = NotApplicable | Identical | WouldTighten | WouldLoosen

record taper_decision =
  td_equity :: rat
  td_regime :: string
  td_mult :: rat
  td_in_band :: bool
  td_applied :: bool
  td_fraction :: rat
  td_raw :: tier_name
  td_state :: tier_name
  td_previous :: "tier_name option"
  td_hysteresis :: hysteresis_decision
  td_current :: "tier_params option"
  td_proposed :: "tier_params option"
  td_current_env :: "rat option"
  td_proposed_env :: "rat option"
  td_current_ceiling :: "rat option"
  td_proposed_ceiling :: "rat option"
  td_verdict :: verdict

definition decide :: "rat \<Rightarrow> regime_input \<Rightarrow> tier_name option \<Rightarrow> taper_decision" where
  "decide e regime prev =
     (let m = taper_regime_mult regime; (state, hyst) = resolve_tier_state e prev;
          cur = raw_params e; prop = proposed_params e state;
          in_band = (BAND_LO < e \<and> e < BAND_HI \<and> raw_tier_name e \<noteq> Standard);
          env = map_option (\<lambda>p. e * tp_envelope p * m); ceil = map_option (\<lambda>p. e * tp_ceiling p * m)
      in \<lparr>td_equity = e, td_regime = normalize_regime regime, td_mult = m, td_in_band = in_band,
          td_applied = in_band, td_fraction = taper_fraction e, td_raw = raw_tier_name e, td_state = state,
          td_previous = prev, td_hysteresis = hyst, td_current = cur, td_proposed = prop,
          td_current_env = env cur, td_proposed_env = env prop,
          td_current_ceiling = ceil cur, td_proposed_ceiling = ceil prop,
          td_verdict = (case (env cur, env prop) of
             (Some c, Some p) \<Rightarrow> if \<bar>p - c\<bar> < 1 / 1000000000 then Identical
                                else if p < c then WouldTighten else WouldLoosen
           | _ \<Rightarrow> NotApplicable)\<rparr>)"

text \<open>The previous state as the last cycle's job result carries it.\<close>

definition tier_state_of :: "pyval \<Rightarrow> tier_name option" where
  "tier_state_of v = (if v = PStr ''micro'' then Some Micro else if v = PStr ''small'' then Some Small else None)"

definition extract_previous_tier_state :: "pyval \<Rightarrow> tier_name option" where
  "extract_previous_tier_state result =
     (case py_or result (PDict []) of
        PDict r \<Rightarrow>
          (case dget_default r ''cycle_metadata'' (PDict []) of
             PDict m \<Rightarrow> (case dget m ''tier_taper'' of PDict tt \<Rightarrow> tier_state_of (dget tt ''effective_tier_state'') | _ \<Rightarrow> None)
           | _ \<Rightarrow> None)
      | _ \<Rightarrow> None)"

end
