(* ===== verification/Tier_Correct.thy ===== *)
theory Tier_Correct
  imports Capital_Tiers "HOL-Library.Sublist"
begin

section \<open>What tier sizing and the taper guarantee\<close>

subsection \<open>Sizing\<close>

lemma sizing_regime_mult_bounds: "1/2 \<le> sizing_regime_mult r \<and> sizing_regime_mult r \<le> 1"
  by (simp add: sizing_regime_mult_def)

lemma get_tier_cases:
  assumes "0 \<le> capital"
  shows "capital < 1000 \<and> get_tier capital = tiers ! 0
    \<or> 1000 \<le> capital \<and> capital < 5000 \<and> get_tier capital = tiers ! 1
    \<or> 5000 \<le> capital \<and> get_tier capital = tiers ! 2"
  using assms by (auto simp: get_tier_def tiers_def in_tier_def)

text \<open>
  For non-negative capital exactly one tier's range contains it and that tier
  is chosen.
\<close>

theorem get_tier_unique:
  assumes "0 \<le> capital"
  shows "filter (in_tier capital) tiers = [get_tier capital]"
  using assms by (auto simp: get_tier_def tiers_def in_tier_def)

theorem get_tier_unique_witness: "filter (in_tier 999) tiers = [get_tier 999]"
  by (rule get_tier_unique) simp

lemma score_mult_bounds: "0 \<le> score_mult x" "score_mult x \<le> 12/10"
  by (simp_all add: score_mult_def min_def max_def)

lemma mult_le_bounds: "0 \<le> (a::rat) \<Longrightarrow> a \<le> A \<Longrightarrow> 0 \<le> b \<Longrightarrow> b \<le> B \<Longrightarrow> 0 \<le> a * b \<and> a * b \<le> A * B"
  by (auto intro: mult_mono order_trans)

text \<open>
  The risk budget of a trade is bounded whatever the score: at the micro tier it is
  exactly 90 percent of capital times the regime factor; above it, without an allocation hint,
  it lies between zero and 4.32 percent of capital; an allocation hint at the small tier is
  taken as it is. No regime ever raises a budget.
\<close>

theorem sizing_budget_bounds:
  assumes "0 \<le> capital" and t_def: "t = get_tier capital"
    and z_def: "z = calculate_variable_sizing score capital t regime compounding hint"
  shows "(ct_name t = Micro \<longrightarrow> sz_budget z = capital * (90/100 * sizing_regime_mult regime)
            \<and> 45/100 * capital \<le> sz_budget z \<and> sz_budget z \<le> 90/100 * capital) \<and>
    (ct_name t = Small \<and> hint \<noteq> None \<longrightarrow> sz_budget z = the hint) \<and>
    (ct_name t \<noteq> Micro \<and> (ct_name t = Standard \<or> hint = None) \<longrightarrow>
       0 \<le> sz_budget z \<and> sz_budget z \<le> 432/10000 * capital)"
proof -
  note rm = sizing_regime_mult_bounds [of regime]
  have micro: "45/100 * capital \<le> capital * (90/100 * sizing_regime_mult regime)"
    "capital * (90/100 * sizing_regime_mult regime) \<le> 90/100 * capital"
    using mult_left_mono [of "1/2" "sizing_regime_mult regime" capital]
      mult_left_mono [of "sizing_regime_mult regime" 1 capital] rm assms(1) by (simp_all add: field_simps)
  have var: "0 \<le> capital * (base * sm * sizing_regime_mult regime * cm)
      \<and> capital * (base * sm * sizing_regime_mult regime * cm) \<le> 432/10000 * capital"
    if "0 \<le> base" "base \<le> 3/100" "0 \<le> cm" "cm \<le> 12/10" "0 \<le> sm" "sm \<le> 12/10" for base sm cm :: rat
  proof -
    have 1: "0 \<le> base * sm \<and> base * sm \<le> 3/100 * (12/10)" using that by (intro mult_le_bounds) auto
    have 2: "0 \<le> base * sm * sizing_regime_mult regime \<and> base * sm * sizing_regime_mult regime \<le> 3/100 * (12/10) * 1"
      using 1 rm by (intro mult_le_bounds) auto
    have "0 \<le> base * sm * sizing_regime_mult regime * cm \<and> base * sm * sizing_regime_mult regime * cm \<le> 3/100 * (12/10) * 1 * (12/10)"
      using 2 that by (intro mult_le_bounds) auto
    then show ?thesis using assms(1) mult_left_mono [of "base * sm * sizing_regime_mult regime * cm" "432/10000" capital]
      by (simp add: mult.commute)
  qed
  note sm = score_mult_bounds
  consider "t = tiers ! 0" | "t = tiers ! 1" | "t = tiers ! 2" using get_tier_cases [OF assms(1)] t_def by blast
  then show ?thesis
  proof cases
    case 1
    with micro show ?thesis by (simp add: z_def calculate_variable_sizing_def tiers_def Let_def)
  next
    case 2
    then show ?thesis using var sm
      by (cases "hint = None") (simp_all add: z_def calculate_variable_sizing_def tiers_def Let_def)
  next
    case 3
    then show ?thesis using var [of "2/100" 1 "score_mult (case score of None \<Rightarrow> 50 | Some x \<Rightarrow> x)"] sm
      by (simp add: z_def calculate_variable_sizing_def tiers_def Let_def)
  qed
qed

theorem sizing_budget_bounds_witness:
  "sz_budget (calculate_variable_sizing (Some 100) 4000 (get_tier 4000) ''normal'' True None) \<le> 432/10000 * 4000"
proof -
  have "ct_name (get_tier 4000) = Small" by (simp add: get_tier_def tiers_def in_tier_def)
  with sizing_budget_bounds [of 4000, OF _ refl refl, of "Some 100" "''normal''" True None] show ?thesis by simp
qed

subsection \<open>Selection\<close>

definition candidate_budget :: "rat \<Rightarrow> string \<Rightarrow> bool \<Rightarrow> candidate \<Rightarrow> rat" where
  "candidate_budget capital regime compounding c =
     sz_budget (calculate_variable_sizing (ca_score c) capital (get_tier capital) regime compounding None)"

lemma select_loop_spec:
  assumes "used = (\<Sum>c\<leftarrow>sel. candidate_budget capital regime compounding c)" "used \<le> max 0 budget"
    and "length sel \<le> ct_max_trades (get_tier capital)"
  shows "\<exists>new. select_loop capital (get_tier capital) regime compounding budget cs sel used = sel @ new
    \<and> subseq new cs \<and> (\<forall>c \<in> set new. 40 \<le> score_or_zero c)
    \<and> length (sel @ new) \<le> ct_max_trades (get_tier capital)
    \<and> (\<Sum>c\<leftarrow>sel @ new. candidate_budget capital regime compounding c) \<le> max 0 budget"
  using assms
proof (induction cs arbitrary: sel used)
  case (Cons c cs)
  let ?stop = "ct_max_trades (get_tier capital) \<le> length sel \<or> budget \<le> used
    \<or> \<not> score_or_zero c < 40 \<and> budget < used + candidate_budget capital regime compounding c"
  consider "?stop" | "\<not> ?stop" "score_or_zero c < 40" | "\<not> ?stop" "\<not> score_or_zero c < 40" by blast
  then show ?case
  proof cases
    case 1
    then have "select_loop capital (get_tier capital) regime compounding budget (c # cs) sel used = sel
      \<or> score_or_zero c < 40 \<and> (ct_max_trades (get_tier capital) \<le> length sel \<or> budget \<le> used)"
      by (auto simp: candidate_budget_def Let_def)
    then have "select_loop capital (get_tier capital) regime compounding budget (c # cs) sel used = sel" by auto
    with Cons.prems show ?thesis by (intro exI [of _ "[]"]) auto
  next
    case 2
    then have "select_loop capital (get_tier capital) regime compounding budget (c # cs) sel used
      = select_loop capital (get_tier capital) regime compounding budget cs sel used" by simp
    with Cons.IH [OF Cons.prems] show ?thesis by (metis list_emb_Cons)
  next
    case 3
    let ?u = "used + candidate_budget capital regime compounding c"
    have "select_loop capital (get_tier capital) regime compounding budget (c # cs) sel used
      = select_loop capital (get_tier capital) regime compounding budget cs (sel @ [c]) ?u"
      using 3 by (simp add: candidate_budget_def)
    moreover have "?u = (\<Sum>c\<leftarrow>sel @ [c]. candidate_budget capital regime compounding c)" "?u \<le> max 0 budget"
      "length (sel @ [c]) \<le> ct_max_trades (get_tier capital)" using Cons.prems 3 by auto
    from Cons.IH [OF this] obtain new where new:
      "select_loop capital (get_tier capital) regime compounding budget cs (sel @ [c]) ?u = (sel @ [c]) @ new"
      "subseq new cs" "\<forall>c \<in> set new. 40 \<le> score_or_zero c" "length ((sel @ [c]) @ new) \<le> ct_max_trades (get_tier capital)"
      "(\<Sum>c\<leftarrow>(sel @ [c]) @ new. candidate_budget capital regime compounding c) \<le> max 0 budget" by blast
    ultimately show ?thesis using 3(2) by (intro exI [of _ "c # new"]) auto
  qed
qed auto

text \<open>
  A cycle's selection respects every limit of the tier: at most \<open>max_trades\<close>
  candidates, none scored below 40, taken in descending score order from the candidates, and
  their risk budgets together never exceed the cycle's budget.
\<close>

theorem rank_and_select_limits:
  assumes "0 \<le> budget" and sel_def: "sel = rank_and_select cs capital budget compounding regime"
  shows "length sel \<le> ct_max_trades (get_tier capital) \<and>
    (\<Sum>c\<leftarrow>sel. candidate_budget capital regime compounding c) \<le> budget \<and>
    subseq sel (sort_key (\<lambda>c. - score_or_zero c) cs) \<and>
    sorted_wrt (\<lambda>c d. score_or_zero d \<le> score_or_zero c) sel \<and> list_all (\<lambda>c. 40 \<le> score_or_zero c) sel"
proof -
  from select_loop_spec [of 0 capital regime compounding "[]" budget "sort_key (\<lambda>c. - score_or_zero c) cs"]
  have *: "subseq sel (sort_key (\<lambda>c. - score_or_zero c) cs)" "\<forall>c \<in> set sel. 40 \<le> score_or_zero c"
    "length sel \<le> ct_max_trades (get_tier capital)"
    "(\<Sum>c\<leftarrow>sel. candidate_budget capital regime compounding c) \<le> budget"
    using assms(1) by (auto simp: sel_def rank_and_select_def)
  have "sorted_wrt (\<lambda>c d. score_or_zero d \<le> score_or_zero c) (sort_key (\<lambda>c. - score_or_zero c) cs)"
    using sorted_sort_key [of "\<lambda>c. - score_or_zero c" cs] by (simp add: sorted_wrt_map)
  moreover have "sorted_wrt P ys \<Longrightarrow> subseq xs ys \<Longrightarrow> sorted_wrt P xs" for P :: "candidate \<Rightarrow> candidate \<Rightarrow> bool" and xs ys
    by (rotate_tac, induction rule: list_emb.induct) (auto dest: list_emb_set)
  ultimately show ?thesis using * by (auto simp: list_all_iff)
qed

theorem rank_and_select_limits_witness:
  "length (rank_and_select [\<lparr>ca_id = 1, ca_score = Some 70\<rparr>, \<lparr>ca_id = 2, ca_score = Some 90\<rparr>] 4000 100 False ''normal'') \<le> 4"
  using rank_and_select_limits [of 100, OF _ refl, of "[\<lparr>ca_id = 1, ca_score = Some 70\<rparr>, \<lparr>ca_id = 2, ca_score = Some 90\<rparr>]" 4000 False "''normal''"]
  by (simp add: get_tier_def tiers_def in_tier_def)

subsection \<open>The taper\<close>

definition proposed_ceiling :: "rat \<Rightarrow> tier_name \<Rightarrow> rat" where
  "proposed_ceiling e state = (case proposed_params e state of Some p \<Rightarrow> tp_ceiling p | None \<Rightarrow> 0)"

definition proposed_envelope :: "rat \<Rightarrow> tier_name \<Rightarrow> rat" where
  "proposed_envelope e state = (case proposed_params e state of Some p \<Rightarrow> tp_envelope p | None \<Rightarrow> 0)"

lemma proposed_closed_form:
  assumes "e < 5000"
  shows "proposed_ceiling e state = 90/100 - 54/100 * taper_fraction e"
    and "proposed_envelope e state = 90/100 - 5/100 * taper_fraction e"
  using assms
  by (auto simp: proposed_ceiling_def proposed_envelope_def proposed_params_def raw_params_def raw_tier_name_def
      interp_def taper_fraction_def taper_constants Let_def field_simps)

lemma taper_fraction_mono:
  "x \<le> y \<Longrightarrow> taper_fraction x \<le> taper_fraction y \<and> taper_fraction y - taper_fraction x \<le> (y - x) / 200"
  by (auto simp: taper_fraction_def taper_constants field_simps)

text \<open>
  Below the standard tier the tapered limits have no cliff: as equity grows the
  per-trade ceiling and the envelope never rise, and each falls by at most its slope times the
  change in equity, across both band edges.
\<close>

theorem taper_has_no_cliff:
  assumes "x \<le> y" "y < 5000"
  shows "0 \<le> proposed_ceiling x s - proposed_ceiling y s' \<and>
    proposed_ceiling x s - proposed_ceiling y s' \<le> 54/20000 * (y - x) \<and>
    0 \<le> proposed_envelope x s - proposed_envelope y s' \<and>
    proposed_envelope x s - proposed_envelope y s' \<le> 5/20000 * (y - x)"
proof -
  from assms have "x < 5000" by simp
  with assms taper_fraction_mono [OF assms(1)] show ?thesis by (simp add: proposed_closed_form field_simps)
qed

theorem taper_has_no_cliff_witness:
  "0 \<le> proposed_ceiling 999 Micro - proposed_ceiling 1001 Small \<and>
   proposed_ceiling 999 Micro - proposed_ceiling 1001 Small \<le> 54/20000 * (1001 - 999)"
  using taper_has_no_cliff [of 999 1001 Micro Small] by simp

definition run_states :: "tier_name option \<Rightarrow> rat list \<Rightarrow> tier_name option" where
  "run_states prev es = foldl (\<lambda>s e. Some (fst (resolve_tier_state e s))) prev es"

text \<open>
  The tier state does not flap: while equity stays inside the hysteresis gap an
  established state never changes, and any two opposite flips are at least 50 dollars of equity
  apart.
\<close>

theorem hysteresis_no_flapping:
  assumes "s = Micro \<or> s = Small"
  shows "(list_all (\<lambda>e. 950 < e \<and> e < 1000) es \<longrightarrow> run_states (Some s) es = Some s) \<and>
    (\<forall>p q e1 e2. snd (resolve_tier_state e1 p) = FlipToSmall \<longrightarrow> snd (resolve_tier_state e2 q) = FlipToMicro \<longrightarrow> 50 \<le> e1 - e2)"
proof -
  have "run_states (Some s) es = Some s" if "list_all (\<lambda>e. 950 < e \<and> e < 1000) es"
    using that
  proof (induction es)
    case (Cons e es)
    then have "fst (resolve_tier_state e (Some s)) = s"
      using assms by (auto simp: resolve_tier_state_def taper_constants)
    with Cons show ?case by (simp add: run_states_def)
  qed (simp add: run_states_def)
  moreover have "50 \<le> e1 - e2" if "snd (resolve_tier_state e1 p) = FlipToSmall" "snd (resolve_tier_state e2 q) = FlipToMicro"
    for p q e1 e2
    using that by (auto simp: resolve_tier_state_def taper_constants split: option.splits tier_name.splits if_splits)
  ultimately show ?thesis by blast
qed

theorem hysteresis_no_flapping_witness: "run_states (Some Small) [999, 951, 970] = Some Small"
  using hysteresis_no_flapping [of Small "[999, 951, 970]"] by simp

end
