(* ===== verification/Job_Runs.thy ===== *)
theory Job_Runs
  imports Py_Prelude
begin

section \<open>The job queue (jobs/job_runs.py, jobs/runner.py, public_tasks.py)\<close>

text \<open>
  Jobs are rows of the \<open>job_runs\<close> table, unique per job name and idempotency key. They are
  created through \<open>create_or_get\<close>, pushed to the task queue, executed by \<open>run_job_run\<close>, and
  re-queued by the scheduler's retry scan or by an administrator. Rows carry the columns these
  operations read or write; times are integers in milliseconds and ids are counted. The handler,
  the clock, the worker name, the code version and \<open>str()\<close> of arbitrary values are arguments.
  In a run every write may fail, with or without its effect; the writes of the other operations
  succeed. While a handler runs nobody else writes its job's row.
\<close>

subsection \<open>Origin stamps (jobs/origin.py)\<close>

definition valid_origins :: "string list" where
  "valid_origins = [''scheduler'', ''operator_signed_endpoint'', ''internal_retry'', ''manual_cli'',
     ''replay'', ''event'', ''unknown_legacy'']"

definition clip :: "string option \<Rightarrow> pyval" where
  "clip v = (case v of None \<Rightarrow> PNone
     | Some s \<Rightarrow> (let t = str_strip s in if t = [] then PNone else PStr (take 128 t)))"

record stamp_env =
  se_sha :: pyval
  se_time :: string

definition build_origin ::
    "stamp_env \<Rightarrow> string \<Rightarrow> string option \<Rightarrow> string option \<Rightarrow> string option \<Rightarrow> string option \<Rightarrow> string option
     \<Rightarrow> pyexn + pydict" where
  "build_origin se origin actor request parent schedule slot =
     (if origin \<notin> set valid_origins then Inl ValueError
      else Inr [(''origin'', PStr origin), (''trigger_actor_class'', clip actor), (''trigger_request_id'', clip request),
                (''parent_job_run_id'', clip parent), (''schedule_id'', clip schedule), (''schedule_slot'', clip slot),
                (''code_sha'', se_sha se), (''created_at'', PStr (se_time se)), (''v'', PInt 1)])"

text \<open>Membership in a frozenset hashes the value, which raises for lists and dictionaries.\<close>

definition coerce_origin :: "stamp_env \<Rightarrow> pyval \<Rightarrow> pyexn + pydict" where
  "coerce_origin se origin =
     (let bad = build_origin se ''unknown_legacy'' (Some ''malformed_origin_object'') None None None None
      in case origin of
           PNone \<Rightarrow> build_origin se ''unknown_legacy'' (Some ''unthreaded_enqueue_caller'') None None None None
         | PDict d \<Rightarrow>
             (case dget d ''origin'' of
                PStr s \<Rightarrow> if s \<in> set valid_origins then Inr d else bad
              | PList _ \<Rightarrow> Inl TypeError
              | PDict _ \<Rightarrow> Inl TypeError
              | _ \<Rightarrow> bad)
         | _ \<Rightarrow> bad)"

fun py_list :: "pyval \<Rightarrow> pyexn + pyval list" where
  "py_list (PList xs) = Inr xs"
| "py_list (PStr s) = Inr (map (\<lambda>c. PStr [c]) s)"
| "py_list (PDict d) = Inr (map (\<lambda>p. PStr (fst p)) d)"
| "py_list _ = Inl TypeError"

definition append_retry_origin :: "stamp_env \<Rightarrow> pyval \<Rightarrow> string \<Rightarrow> string \<Rightarrow> string \<Rightarrow> pyexn + pydict" where
  "append_retry_origin se payload origin actor parent =
     (let base = (case payload of PDict d \<Rightarrow> d | _ \<Rightarrow> [])
      in rbind (py_list (py_or (dget base ''origin_retries'') (PList []))) (\<lambda>retries.
         rbind (build_origin se origin (Some actor) None (Some parent) None None) (\<lambda>o'.
           Inr (dset base ''origin_retries'' (PList (retries @ [PDict o']))))))"

subsection \<open>The table\<close>

datatype job_status = Queued | Running | Succeeded | FailedRetryable | DeadLettered | Cancelled | Partial

record job_row =
  jb_id :: nat
  jb_name :: string
  jb_key :: string
  jb_status :: job_status
  jb_attempt :: int
  jb_max :: int
  jb_run_after :: "int option"
  jb_started :: "int option"
  jb_finished :: "int option"
  jb_completed :: "int option"
  jb_duration :: "int option"
  jb_payload :: pydict
  jb_result :: "pyval option"
  jb_error :: "pyval option"
  jb_locked_by :: "string option"
  jb_locked_at :: "int option"
  jb_cancel_reason :: "string option"
  jb_cancel_detail :: "string option"

record jobs_db =
  jd_rows :: "job_row list"
  jd_next :: nat
  jd_pushed :: "nat list"

definition find_job :: "string \<Rightarrow> string \<Rightarrow> jobs_db \<Rightarrow> job_row option" where
  "find_job name key db = find (\<lambda>r. jb_name r = name \<and> jb_key r = key) (jd_rows db)"

definition get_job :: "nat \<Rightarrow> jobs_db \<Rightarrow> job_row option" where
  "get_job i db = find (\<lambda>r. jb_id r = i) (jd_rows db)"

definition update_job :: "nat \<Rightarrow> (job_row \<Rightarrow> job_row) \<Rightarrow> jobs_db \<Rightarrow> jobs_db" where
  "update_job i f db = db\<lparr>jd_rows := update_rows (\<lambda>r. jb_id r = i) f (jd_rows db)\<rparr>"

definition new_job :: "nat \<Rightarrow> string \<Rightarrow> string \<Rightarrow> pydict \<Rightarrow> job_status \<Rightarrow> job_row" where
  "new_job i name key payload st =
     \<lparr>jb_id = i, jb_name = name, jb_key = key, jb_status = st, jb_attempt = 0, jb_max = 5, jb_run_after = None,
      jb_started = None, jb_finished = None, jb_completed = None, jb_duration = None, jb_payload = payload,
      jb_result = None, jb_error = None, jb_locked_by = None, jb_locked_at = None,
      jb_cancel_reason = None, jb_cancel_detail = None\<rparr>"

text \<open>An upsert on the unique key with \<open>ignore_duplicates\<close> returns the row only when it inserted it.\<close>

definition upsert_ignore :: "string \<Rightarrow> string \<Rightarrow> (nat \<Rightarrow> job_row) \<Rightarrow> jobs_db \<Rightarrow> job_row option \<times> jobs_db" where
  "upsert_ignore name key mk db =
     (if find_job name key db \<noteq> None then (None, db)
      else (let r = mk (jd_next db)
            in (Some r, db\<lparr>jd_rows := jd_rows db @ [r], jd_next := jd_next db + 1\<rparr>)))"

text \<open>
  \<open>create_or_get\<close> reads, then inserts, then reads again when the insert met a row. Other clients
  may run between the two statements: \<open>between\<close> is whatever they do to the table there.
\<close>

definition create_or_get_row ::
    "string \<Rightarrow> string \<Rightarrow> (pyexn + (nat \<Rightarrow> job_row)) \<Rightarrow> (jobs_db \<Rightarrow> jobs_db) \<Rightarrow> jobs_db \<Rightarrow> (pyexn + job_row) \<times> jobs_db" where
  "create_or_get_row name key mk between db =
     (case find_job name key db of
        Some r \<Rightarrow> (Inr r, db)
      | None \<Rightarrow>
          (let db1 = between db
           in case mk of
                Inl e \<Rightarrow> (Inl e, db1)
              | Inr f \<Rightarrow>
                  (case upsert_ignore name key f db1 of
                     (Some r, db2) \<Rightarrow> (Inr r, db2)
                   | (None, db2) \<Rightarrow> (case find_job name key db2 of Some r \<Rightarrow> (Inr r, db2) | None \<Rightarrow> (Inl RuntimeError, db2)))))"

definition create_or_get ::
    "stamp_env \<Rightarrow> string \<Rightarrow> string \<Rightarrow> pydict \<Rightarrow> pyval \<Rightarrow> (jobs_db \<Rightarrow> jobs_db) \<Rightarrow> jobs_db \<Rightarrow> (pyexn + job_row) \<times> jobs_db" where
  "create_or_get se name key payload origin =
     create_or_get_row name key
       (rbind (coerce_origin se origin) (\<lambda>o'. Inr (\<lambda>i. new_job i name key (dset payload ''origin'' (PDict o')) Queued)))"

definition text_value :: "string option \<Rightarrow> pyval" where
  "text_value t = (case t of None \<Rightarrow> PNone | Some s \<Rightarrow> PStr s)"

definition create_or_get_cancelled ::
    "stamp_env \<Rightarrow> int \<Rightarrow> string \<Rightarrow> string \<Rightarrow> pydict \<Rightarrow> string \<Rightarrow> string option \<Rightarrow> pyval \<Rightarrow> (jobs_db \<Rightarrow> jobs_db) \<Rightarrow> jobs_db
     \<Rightarrow> (pyexn + job_row) \<times> jobs_db" where
  "create_or_get_cancelled se now name key payload reason detail origin =
     create_or_get_row name key
       (rbind (coerce_origin se origin) (\<lambda>o'. Inr (\<lambda>i.
          (new_job i name key
             (dset (dset (dset payload ''cancelled_reason'' (PStr reason)) ''cancelled_detail'' (text_value detail))
                ''origin'' (PDict o')) Cancelled)
            \<lparr>jb_completed := Some now, jb_cancel_reason := Some reason, jb_cancel_detail := detail\<rparr>)))"

definition mark_running :: "int \<Rightarrow> string \<Rightarrow> nat \<Rightarrow> jobs_db \<Rightarrow> jobs_db" where
  "mark_running now worker i db =
     (case get_job i db of
        None \<Rightarrow> db
      | Some job \<Rightarrow> update_job i (\<lambda>r. r\<lparr>jb_status := Running, jb_locked_by := Some worker, jb_locked_at := Some now,
                     jb_started := Some now, jb_attempt := jb_attempt job + 1\<rparr>) db)"

definition duration_of :: "int \<Rightarrow> nat \<Rightarrow> jobs_db \<Rightarrow> int option" where
  "duration_of now i db = (case get_job i db of None \<Rightarrow> None | Some job \<Rightarrow> map_option (\<lambda>t. now - t) (jb_started job))"

definition finish_job :: "int \<Rightarrow> job_status \<Rightarrow> nat \<Rightarrow> (job_row \<Rightarrow> job_row) \<Rightarrow> jobs_db \<Rightarrow> jobs_db" where
  "finish_job now st i f db =
     update_job i (\<lambda>r. (f r)\<lparr>jb_status := st, jb_finished := Some now, jb_completed := Some now,
        jb_duration := duration_of now i db, jb_locked_by := None, jb_locked_at := None\<rparr>) db"

definition mark_succeeded :: "int \<Rightarrow> nat \<Rightarrow> pyval \<Rightarrow> jobs_db \<Rightarrow> jobs_db" where
  "mark_succeeded now i result = finish_job now Succeeded i (\<lambda>r. r\<lparr>jb_result := Some result\<rparr>)"

definition mark_partial_failure :: "int \<Rightarrow> nat \<Rightarrow> pyval \<Rightarrow> jobs_db \<Rightarrow> jobs_db" where
  "mark_partial_failure now i result = finish_job now Partial i (\<lambda>r. r\<lparr>jb_result := Some result\<rparr>)"

definition mark_dead_letter :: "int \<Rightarrow> nat \<Rightarrow> pyval \<Rightarrow> jobs_db \<Rightarrow> jobs_db" where
  "mark_dead_letter now i err = finish_job now DeadLettered i (\<lambda>r. r\<lparr>jb_error := Some err\<rparr>)"

text \<open>The stored procedure \<open>requeue_job_run\<close>: it does not set a finish time.\<close>

definition mark_retryable :: "nat \<Rightarrow> pyval \<Rightarrow> int \<Rightarrow> jobs_db \<Rightarrow> jobs_db" where
  "mark_retryable i err run_after =
     update_job i (\<lambda>r. r\<lparr>jb_status := FailedRetryable, jb_run_after := Some run_after, jb_error := Some err,
        jb_locked_by := None, jb_locked_at := None\<rparr>)"

subsection \<open>The runner\<close>

definition int_or_zero :: "pyval \<Rightarrow> pyexn + int" where
  "int_or_zero v = py_int (py_or v (PInt 0))"

definition positive_count :: "pyval \<Rightarrow> pyexn + bool" where
  "positive_count v = (case int_or_zero v of
       Inr n \<Rightarrow> Inr (0 < n)
     | Inl e \<Rightarrow> if e = TypeError \<or> e = ValueError then Inr False else Inl e)"

definition classify_handler_return :: "pydict \<Rightarrow> pyexn + job_status" where
  "classify_handler_return d =
     rbind (positive_count (dget d ''users_failed'')) (\<lambda>u.
       if u then Inr Partial
       else rbind (case dget d ''counts'' of PDict c \<Rightarrow> positive_count (dget c ''errors'') | _ \<Rightarrow> Inr False) (\<lambda>e.
         if e then Inr Partial else if truthy (dget d ''error'') then Inr Partial else Inr Succeeded))"

definition setdefault :: "pydict \<Rightarrow> string \<Rightarrow> pyval \<Rightarrow> pydict" where
  "setdefault d k v = (if map_of d k = None then d @ [(k, v)] else d)"

text \<open>Folding the number of lost alert writes into the result; a failure keeps what was done so far.\<close>

definition fold_alert_write_failures :: "int \<Rightarrow> pydict \<Rightarrow> pydict" where
  "fold_alert_write_failures delta d =
     (if delta \<le> 0 then d
      else (let d1 = setdefault d ''counts'' (PDict [])
            in case dget d1 ''counts'' of
                 PDict c \<Rightarrow>
                   (case int_or_zero (dget c ''alert_write_failures'') of
                      Inl _ \<Rightarrow> d1
                    | Inr n \<Rightarrow>
                        (let c1 = dset c ''alert_write_failures'' (PInt (n + delta))
                         in case int_or_zero (dget c1 ''errors'') of
                              Inl _ \<Rightarrow> dset d1 ''counts'' (PDict c1)
                            | Inr k \<Rightarrow> dset d1 ''counts'' (PDict (dset c1 ''errors'' (PInt (k + delta))))))
               | _ \<Rightarrow> d1))"

definition build_handler_payload :: "job_row \<Rightarrow> string \<Rightarrow> pydict" where
  "build_handler_payload job run_id =
     (if jb_name job = ''suggestions_open''
      then setdefault (setdefault (jb_payload job) ''_job_run_id'' (PStr run_id)) ''_job_name'' (PStr ''suggestions_open'')
      else jb_payload job)"

datatype handler_outcome =
    Returned pyval
  | RaisedRetryable string
  | RaisedPermanent string
  | RaisedOther string string

text \<open>
  How a write ends: a failed one raises an error, with its text and its traceback, and leaves the
  table as it was, or as it should be when only the reply was lost.
\<close>

datatype write_outcome = Written | NotWritten string string | ReplyLost string string

text \<open>
  The finishing writes of a run are counted: 0 is the first, 1 the one of the generic exception
  path after the first write of a returned result has failed.
\<close>

record run_env =
  re_now :: int
  re_worker :: string
  re_mark :: write_outcome
  re_finish :: "nat \<Rightarrow> write_outcome"
  re_handlers :: "string \<Rightarrow> (pydict \<Rightarrow> handler_outcome) option"
  re_alert_delta :: "int option"
  re_show :: "pyval \<Rightarrow> string"
  re_id_text :: "nat \<Rightarrow> string"

datatype run_report =
    ReportError string
  | ReportSkipped job_status
  | ReportDone job_status
  | ReportRetry int
  | ReportDead
  | ReportRaised string

definition terminal_status :: "job_status \<Rightarrow> bool" where
  "terminal_status st \<longleftrightarrow> st = Succeeded \<or> st = Partial \<or> st = Cancelled \<or> st = DeadLettered"

definition error_payload :: "string \<Rightarrow> (string \<times> pyval) list \<Rightarrow> pyval" where
  "error_payload msg rest = PDict ((''error'', PStr msg) # rest)"

definition max_exceeded :: "(string \<times> pyval) list" where
  "max_exceeded = [(''detail'', PStr ''Max attempts exceeded'')]"

text \<open>
  The two retry rules. \<open>job\<close> is the row as read before \<open>mark_running\<close>, so its attempt counter
  is the one before this run; zero and a missing counter read as the same value in \<open>x or 1\<close>.
\<close>

definition retry_or_dead :: "int \<Rightarrow> int \<Rightarrow> int \<Rightarrow> int \<Rightarrow> nat \<Rightarrow> pyval \<Rightarrow> pyval \<Rightarrow> jobs_db \<Rightarrow> run_report \<times> jobs_db" where
  "retry_or_dead now attempt max_attempts unit i retry_err dead_err db =
     (if attempt < max_attempts
      then (let run_after = now + 1000 * (2 ^ nat attempt * unit) in (ReportRetry run_after, mark_retryable i retry_err run_after db))
      else (ReportDead, mark_dead_letter now i dead_err db))"

definition max_attempts_of :: "job_row \<Rightarrow> int" where
  "max_attempts_of job = (if jb_max job = 0 then 5 else jb_max job)"

text \<open>A finishing write whose failure nobody catches: the exception leaves the run.\<close>

definition finish_write :: "run_env \<Rightarrow> nat \<Rightarrow> jobs_db \<Rightarrow> run_report \<times> jobs_db \<Rightarrow> run_report \<times> jobs_db" where
  "finish_write env k db out =
     (case re_finish env k of
        Written \<Rightarrow> out
      | NotWritten e _ \<Rightarrow> (ReportRaised e, db)
      | ReplyLost e _ \<Rightarrow> (ReportRaised e, snd out))"

definition on_retryable :: "run_env \<Rightarrow> nat \<Rightarrow> job_row \<Rightarrow> string \<Rightarrow> jobs_db \<Rightarrow> run_report \<times> jobs_db" where
  "on_retryable env i job msg db =
     finish_write env 0 db
       (retry_or_dead (re_now env) ((if jb_attempt job = 0 then 1 else jb_attempt job) + 1) (max_attempts_of job) 10 i
          (error_payload msg []) (error_payload msg max_exceeded) db)"

definition on_permanent :: "run_env \<Rightarrow> nat \<Rightarrow> string \<Rightarrow> jobs_db \<Rightarrow> run_report \<times> jobs_db" where
  "on_permanent env i msg db = finish_write env 0 db (ReportDead, mark_dead_letter (re_now env) i (error_payload msg []) db)"

definition on_other :: "run_env \<Rightarrow> nat \<Rightarrow> nat \<Rightarrow> job_row \<Rightarrow> string \<Rightarrow> string \<Rightarrow> jobs_db \<Rightarrow> run_report \<times> jobs_db" where
  "on_other env k i job msg tb db =
     finish_write env k db
       (retry_or_dead (re_now env) (jb_attempt job + 1) (max_attempts_of job) 30 i
          (error_payload msg [(''traceback'', PStr tb)]) (error_payload msg ((''traceback'', PStr tb) # max_exceeded)) db)"

text \<open>The write of a returned result is inside the \<open>try\<close>: its failure goes the way of an unexpected error.\<close>

definition return_write ::
  "run_env \<Rightarrow> nat \<Rightarrow> job_row \<Rightarrow> job_status \<Rightarrow> jobs_db \<Rightarrow> jobs_db \<Rightarrow> run_report \<times> jobs_db" where
  "return_write env i job st db db' =
     (case re_finish env 0 of
        Written \<Rightarrow> (ReportDone st, db')
      | NotWritten e tb \<Rightarrow> on_other env 1 i job e tb db
      | ReplyLost e tb \<Rightarrow> on_other env 1 i job e tb db')"

definition on_return :: "run_env \<Rightarrow> nat \<Rightarrow> job_row \<Rightarrow> pyval \<Rightarrow> jobs_db \<Rightarrow> run_report \<times> jobs_db" where
  "on_return env i job result db =
     (let fr = (case result of PDict d \<Rightarrow> d | v \<Rightarrow> [(''result'', PStr (re_show env v))]);
          fr2 = (case re_alert_delta env of None \<Rightarrow> fr | Some delta \<Rightarrow> fold_alert_write_failures delta fr)
      in case classify_handler_return fr2 of
           Inr Partial \<Rightarrow> return_write env i job Partial db (mark_partial_failure (re_now env) i (PDict fr2) db)
         | Inr _ \<Rightarrow> return_write env i job Succeeded db (mark_succeeded (re_now env) i (PDict fr2) db)
         | Inl _ \<Rightarrow> on_other env 0 i job ''cannot convert float infinity to integer'' [] db)"

definition run_job_run :: "run_env \<Rightarrow> nat \<Rightarrow> jobs_db \<Rightarrow> run_report \<times> jobs_db" where
  "run_job_run env i db =
     (case get_job i db of
        None \<Rightarrow> (ReportError ''job_not_found'', db)
      | Some job \<Rightarrow>
          if terminal_status (jb_status job) then (ReportSkipped (jb_status job), db)
          else
            (let db1 = mark_running (re_now env) (re_worker env) i db
             in case re_mark env of
                  NotWritten e _ \<Rightarrow> (ReportError (''mark_running_failed: '' @ e), db)
                | ReplyLost e _ \<Rightarrow> (ReportError (''mark_running_failed: '' @ e), db1)
                | Written \<Rightarrow>
                    (case re_handlers env (jb_name job) of
                       None \<Rightarrow> on_permanent env i (''No handler found for job_name: '' @ jb_name job) db1
                     | Some handler \<Rightarrow>
                         (case handler (build_handler_payload job (re_id_text env i)) of
                            Returned v \<Rightarrow> on_return env i job v db1
                          | RaisedRetryable msg \<Rightarrow> on_retryable env i job msg db1
                          | RaisedPermanent msg \<Rightarrow> on_permanent env i msg db1
                          | RaisedOther msg tb \<Rightarrow> on_other env 0 i job msg tb db1))))"

subsection \<open>Re-queueing: the scheduler's retry scan and the administrator's retry\<close>

text \<open>
  \<open>_retry_failed_jobs\<close> (scheduler.py). A filter on \<open>finished_at\<close> does not select a row without
  one, as SQL comparison with NULL does not hold. A stamp that fails leaves the payload alone.
\<close>

definition stamped_payload :: "stamp_env \<Rightarrow> string \<Rightarrow> string \<Rightarrow> string \<Rightarrow> job_row \<Rightarrow> pydict" where
  "stamped_payload se origin actor parent r =
     (case append_retry_origin se (PDict (jb_payload r)) origin actor parent of Inr p \<Rightarrow> p | Inl _ \<Rightarrow> jb_payload r)"

definition retry_eligible :: "int \<Rightarrow> job_row \<Rightarrow> bool" where
  "retry_eligible cutoff r \<longleftrightarrow> jb_status r = FailedRetryable \<and>
     (case jb_finished r of None \<Rightarrow> False | Some t \<Rightarrow> cutoff \<le> t) \<and> jb_attempt r < 2"

definition retry_exhausted :: "job_row \<Rightarrow> bool" where
  "retry_exhausted r \<longleftrightarrow> jb_status r = FailedRetryable \<and> 2 \<le> jb_attempt r"

definition requeue_by_scan :: "stamp_env \<Rightarrow> (nat \<Rightarrow> string) \<Rightarrow> jobs_db \<Rightarrow> job_row \<Rightarrow> jobs_db" where
  "requeue_by_scan se id_text db r =
     update_job (jb_id r) (\<lambda>x. x\<lparr>jb_status := Queued, jb_attempt := jb_attempt r + 1, jb_locked_by := None,
        jb_locked_at := None, jb_payload := stamped_payload se ''internal_retry'' ''scheduler_auto_retry'' (id_text (jb_id r)) r\<rparr>) db"

text \<open>The alert written for each dead letter is returned as the list of ids it concerns.\<close>

definition retry_failed_jobs :: "stamp_env \<Rightarrow> (nat \<Rightarrow> string) \<Rightarrow> int \<Rightarrow> jobs_db \<Rightarrow> nat list \<times> jobs_db" where
  "retry_failed_jobs se id_text now db =
     (let cutoff = now - 4 * 3600 * 1000;
          rows = take 5 (filter (retry_eligible cutoff) (jd_rows db));
          db1 = foldl (requeue_by_scan se id_text) db rows;
          exhausted = take 10 (filter retry_exhausted (jd_rows db1));
          db2 = foldl (\<lambda>d r. update_job (jb_id r) (\<lambda>x. x\<lparr>jb_status := DeadLettered\<rparr>) d) db1 exhausted
      in (map jb_id exhausted, db2))"

text \<open>\<open>retry_job_run\<close> (jobs/endpoints.py), without the HTTP layer and the audit log.\<close>

datatype retry_answer = RetryNotFound | RetryOk | RetryIgnored job_status

definition admin_retry :: "stamp_env \<Rightarrow> (nat \<Rightarrow> string) \<Rightarrow> int \<Rightarrow> nat \<Rightarrow> jobs_db \<Rightarrow> retry_answer \<times> jobs_db" where
  "admin_retry se id_text now i db =
     (case get_job i db of
        None \<Rightarrow> (RetryNotFound, db)
      | Some job \<Rightarrow>
          if jb_status job \<in> set [DeadLettered, FailedRetryable, Cancelled, Succeeded]
          then (let db1 = update_job i (\<lambda>x. x\<lparr>jb_status := Queued, jb_locked_at := None, jb_locked_by := None,
                      jb_run_after := Some now, jb_error := None, jb_attempt := 0,
                      jb_payload := stamped_payload se ''operator_signed_endpoint'' ''admin_jobs_api_retry'' (id_text i) job\<rparr>) db
                in (RetryOk, db1\<lparr>jd_pushed := jd_pushed db1 @ [i]\<rparr>))
          else (RetryIgnored (jb_status job), db))"

subsection \<open>Enqueueing and its gates (public_tasks.py, policies/go_live_policy.py)\<close>

record gate_decision =
  gd_allowed :: bool
  gd_manual :: bool
  gd_reason :: string
  gd_context :: pydict

definition evaluate_go_live_gate :: "pydict \<Rightarrow> pydict \<Rightarrow> gate_decision" where
  "evaluate_go_live_gate ops user =
     (let paused = dget_default ops ''paused'' (PBool True);
          mode = dget_default ops ''mode'' (PStr ''paper'');
          paper_ready = dget_default user ''paper_ready'' (PBool False);
          overall_ready = dget_default user ''overall_ready'' (PBool False);
          ctx = [(''mode'', mode), (''paused'', paused), (''pause_reason'', dget ops ''pause_reason''),
                 (''paper_ready'', paper_ready), (''overall_ready'', overall_ready)];
          deny = (\<lambda>r. \<lparr>gd_allowed = False, gd_manual = False, gd_reason = r, gd_context = ctx\<rparr>)
      in if truthy paused then deny ''paused_globally''
         else if mode = PStr ''paper'' then deny ''mode_is_paper_only''
         else if mode = PStr ''micro_live'' then
           (if \<not> truthy paper_ready then deny ''paper_milestones_incomplete''
            else \<lparr>gd_allowed = True, gd_manual = True, gd_reason = ''micro_live_restricted'', gd_context = ctx\<rparr>)
         else if mode = PStr ''live'' then
           (if \<not> truthy overall_ready then deny ''historical_validation_failed''
            else \<lparr>gd_allowed = True, gd_manual = False, gd_reason = ''fully_authorized'', gd_context = ctx\<rparr>)
         else deny ''unknown_mode'')"

definition job_requires_live_privileges :: "string \<Rightarrow> bool" where
  "job_requires_live_privileges name \<longleftrightarrow> take 5 name = ''live_'' \<or>
     name \<in> set [''live_order_submit'', ''live_order_cancel'', ''live_order_retry'']"

definition extract_user_id :: "pydict \<Rightarrow> pyval option" where
  "extract_user_id payload =
     (let u = dget payload ''user_id'' in if \<not> truthy u \<or> u = PStr ''all'' then None else Some u)"

text \<open>
  What \<open>enqueue_job_run\<close> reads: the ops control row (used by the pause gate and by the go-live
  gate), the readiness row of a user, a fresh nonce, the clock, and whether the task queue takes
  the push.
\<close>

record enqueue_env =
  ee_ops :: pydict
  ee_readiness :: "pyval \<Rightarrow> pydict"
  ee_nonce :: string
  ee_now :: int
  ee_queue_up :: bool
  ee_show :: "pyval \<Rightarrow> string"

datatype enqueue_report =
    EnqueueCancelled nat job_status string "string option"
  | EnqueueSkipped nat job_status
  | Enqueued nat job_status
  | QueueUnavailable
  | EnqueueRaised pyexn

definition pause_detail :: "enqueue_env \<Rightarrow> string option" where
  "pause_detail ee = (case dget (ee_ops ee) ''pause_reason'' of PNone \<Rightarrow> None | v \<Rightarrow> Some (ee_show ee v))"

definition cancel_job ::
    "stamp_env \<Rightarrow> enqueue_env \<Rightarrow> string \<Rightarrow> string \<Rightarrow> pydict \<Rightarrow> pyval \<Rightarrow> (jobs_db \<Rightarrow> jobs_db) \<Rightarrow> string \<Rightarrow> string option \<Rightarrow> jobs_db
     \<Rightarrow> enqueue_report \<times> jobs_db" where
  "cancel_job se ee name key payload origin between reason detail db =
     (case create_or_get_cancelled se (ee_now ee) name key payload reason detail origin between db of
        (Inl e, db1) \<Rightarrow> (EnqueueRaised e, db1)
      | (Inr r, db1) \<Rightarrow> (EnqueueCancelled (jb_id r) (jb_status r) reason detail, db1))"

definition live_refusal :: "enqueue_env \<Rightarrow> string \<Rightarrow> pydict \<Rightarrow> (string \<times> string) option" where
  "live_refusal ee name payload =
     (if \<not> job_requires_live_privileges name then None
      else (case extract_user_id payload of
              None \<Rightarrow> Some (''go_live_gate'', ''missing_user_id_for_gate'')
            | Some u \<Rightarrow>
                (let d = evaluate_go_live_gate (ee_ops ee) (ee_readiness ee u)
                 in if \<not> gd_allowed d then Some (''go_live_gate'', gd_reason d)
                    else if gd_manual d then Some (''manual_approval_required'', gd_reason d) else None)))"

definition enqueue_job_run ::
    "stamp_env \<Rightarrow> enqueue_env \<Rightarrow> string \<Rightarrow> string \<Rightarrow> pydict \<Rightarrow> bool \<Rightarrow> pyval \<Rightarrow> (jobs_db \<Rightarrow> jobs_db) \<Rightarrow> jobs_db
     \<Rightarrow> enqueue_report \<times> jobs_db" where
  "enqueue_job_run se ee name key payload force origin between db =
     (if truthy (dget_default (ee_ops ee) ''paused'' (PBool True))
      then cancel_job se ee name key payload origin between ''global_ops_pause'' (pause_detail ee) db
      else (case live_refusal ee name payload of
        Some (reason, detail) \<Rightarrow> cancel_job se ee name key payload origin between reason (Some detail) db
      | None \<Rightarrow>
          (let forced = (force \<or> truthy (dget payload ''force_rerun''));
               nonce = py_or (py_or (dget payload ''_force_nonce'') (dget payload ''force_nonce'')) (PStr (ee_nonce ee));
               key2 = (if forced then key @ ''-force-'' @ ee_show ee nonce else key)
           in case create_or_get se name key2 payload origin between db of
                (Inl e, db1) \<Rightarrow> (EnqueueRaised e, db1)
              | (Inr r, db1) \<Rightarrow>
                  if terminal_status (jb_status r) \<or> jb_status r = FailedRetryable
                  then (EnqueueSkipped (jb_id r) (jb_status r), db1)
                  else if \<not> ee_queue_up ee then (QueueUnavailable, db1)
                  else (Enqueued (jb_id r) (jb_status r), db1\<lparr>jd_pushed := jd_pushed db1 @ [jb_id r]\<rparr>))))"

end
