(* ===== verification/Job_Correct.thy ===== *)
theory Job_Correct
  imports Job_Runs Interfaces
begin

section \<open>What the job queue guarantees\<close>

subsection \<open>The table invariant and its operations\<close>

definition jobs_ok :: "jobs_db \<Rightarrow> bool" where
  "jobs_ok db \<longleftrightarrow> distinct (map jb_id (jd_rows db)) \<and> list_all (\<lambda>r. jb_id r < jd_next db) (jd_rows db)
     \<and> distinct (map (\<lambda>r. (jb_name r, jb_key r)) (jd_rows db))"

lemma find_job_Some: "find_job name key db = Some r \<Longrightarrow> r \<in> set (jd_rows db) \<and> jb_name r = name \<and> jb_key r = key"
  by (auto simp: find_job_def dest: find_Some_props)

lemma find_job_None: "find_job name key db = None \<longleftrightarrow> (name, key) \<notin> (\<lambda>r. (jb_name r, jb_key r)) ` set (jd_rows db)"
  by (auto simp: find_job_def find_None_iff)

lemma get_job_Some: "get_job i db = Some r \<Longrightarrow> r \<in> set (jd_rows db) \<and> jb_id r = i"
  by (auto simp: get_job_def dest: find_Some_props)

lemma find_update_key:
  assumes "\<And>r. key (f r) = key r"
  shows "find (\<lambda>r. key r = k) (update_rows (\<lambda>r. key r = i) f rs)
    = map_option (\<lambda>r. if k = i then f r else r) (find (\<lambda>r. key r = k) rs)"
  by (induction rs) (auto simp: assms)

lemma get_job_update: "(\<And>r. jb_id (f r) = jb_id r) \<Longrightarrow>
    get_job k (update_job i f db) = map_option (\<lambda>r. if k = i then f r else r) (get_job k db)"
  unfolding get_job_def update_job_def by (simp add: find_update_key)

lemma update_job_ok:
  assumes "\<And>r. jb_id (f r) = jb_id r" "\<And>r. jb_name (f r) = jb_name r" "\<And>r. jb_key (f r) = jb_key r" "jobs_ok db"
  shows "jobs_ok (update_job i f db)"
proof -
  have "map (\<lambda>r. (jb_name r, jb_key r)) (update_rows (\<lambda>r. jb_id r = i) f (jd_rows db)) = map (\<lambda>r. (jb_name r, jb_key r)) (jd_rows db)"
    by (rule map_key_update_rows) (simp add: assms)
  moreover have "map jb_id (update_rows (\<lambda>r. jb_id r = i) f (jd_rows db)) = map jb_id (jd_rows db)"
    by (rule map_key_update_rows) (simp add: assms)
  moreover have "list_all (\<lambda>r. jb_id r < n) rs = list_all (\<lambda>x. x < n) (map jb_id rs)" for n and rs :: "job_row list"
    by (simp add: list.pred_map comp_def)
  ultimately show ?thesis using assms(4) by (simp add: jobs_ok_def update_job_def)
qed

lemma upsert_ignore_ok:
  assumes "jobs_ok db" "\<And>i. jb_id (mk i) = i \<and> jb_name (mk i) = name \<and> jb_key (mk i) = key"
  shows "jobs_ok (snd (upsert_ignore name key mk db))"
  using assms unfolding upsert_ignore_def
  by (auto simp: jobs_ok_def Let_def find_job_None list_all_iff dest: less_SucI)

lemma create_or_get_row_spec:
  assumes "jobs_ok db" "jobs_ok (between db)"
    and "\<And>f i. mk = Inr f \<Longrightarrow> jb_id (f i) = i \<and> jb_name (f i) = name \<and> jb_key (f i) = key"
    and "create_or_get_row name key mk between db = (res, db')"
  shows "jobs_ok db' \<and>
    (\<forall>r. res = Inr r \<longrightarrow> r \<in> set (jd_rows db') \<and> jb_name r = name \<and> jb_key r = key) \<and>
    set (jd_rows (if find_job name key db = None then between db else db)) \<subseteq> set (jd_rows db') \<and>
    jd_pushed db' = jd_pushed (if find_job name key db = None then between db else db)"
proof (cases "find_job name key db")
  case (Some r)
  with assms find_job_Some [OF Some] show ?thesis by (auto simp: create_or_get_row_def)
next
  case None
  show ?thesis
  proof (cases mk)
    case (Inl e)
    with None assms show ?thesis by (auto simp: create_or_get_row_def Let_def)
  next
    case (Inr f)
    show ?thesis
    proof (cases "find_job name key (between db)")
      case None2: None
      let ?r = "f (jd_next (between db))"
      have up: "upsert_ignore name key f (between db) = (Some ?r, between db\<lparr>jd_rows := jd_rows (between db) @ [?r],
          jd_next := jd_next (between db) + 1\<rparr>)" using None2 by (simp add: upsert_ignore_def Let_def)
      have "jobs_ok (snd (upsert_ignore name key f (between db)))"
        by (rule upsert_ignore_ok [OF assms(2)]) (rule assms(3) [OF Inr])
      with None up assms(3) [OF Inr] assms(4) Inr show ?thesis by (auto simp: create_or_get_row_def Let_def)
    next
      case (Some r)
      with None Inr assms find_job_Some [OF Some] show ?thesis
        by (auto simp: create_or_get_row_def Let_def upsert_ignore_def)
    qed
  qed
qed

lemma new_job_simps [simp]:
  "jb_id (new_job i name key p st) = i" "jb_name (new_job i name key p st) = name" "jb_key (new_job i name key p st) = key"
  "jb_status (new_job i name key p st) = st" "jb_attempt (new_job i name key p st) = 0"
  by (simp_all add: new_job_def)

lemma create_mk:
  "rbind (coerce_origin se origin) (\<lambda>o'. Inr (\<lambda>i. new_job i name key (dset payload ''origin'' (PDict o')) Queued)) = Inr f \<Longrightarrow>
     jb_id (f i) = i \<and> jb_name (f i) = name \<and> jb_key (f i) = key"
  by (auto simp: rbind_Inr_iff)

lemma create_or_get_spec:
  assumes "jobs_ok db" "jobs_ok (between db)" "create_or_get se name key payload origin between db = (res, db')"
  shows "jobs_ok db' \<and>
    (\<forall>r. res = Inr r \<longrightarrow> r \<in> set (jd_rows db') \<and> jb_name r = name \<and> jb_key r = key) \<and>
    set (jd_rows (if find_job name key db = None then between db else db)) \<subseteq> set (jd_rows db') \<and>
    jd_pushed db' = jd_pushed (if find_job name key db = None then between db else db)"
  by (rule create_or_get_row_spec [OF assms(1,2) _ assms(3) [unfolded create_or_get_def]]) (rule create_mk)

lemma rbind_mk:
  "rbind c (\<lambda>x. Inr (\<lambda>i. row x i)) = Inr f \<Longrightarrow> (\<And>x i. P i (row x i)) \<Longrightarrow> P i (f i)"
  by (auto simp: rbind_Inr_iff)

lemma create_or_get_cancelled_spec:
  assumes "jobs_ok db" "jobs_ok (between db)"
    and "create_or_get_cancelled se now name key payload reason detail origin between db = (res, db')"
  shows "jd_pushed db' = jd_pushed (if find_job name key db = None then between db else db)"
  by (rule create_or_get_row_spec [OF assms(1,2) _ assms(3) [unfolded create_or_get_cancelled_def], THEN conjunct2, THEN conjunct2, THEN conjunct2])
    (erule rbind_mk [where P = "\<lambda>i r. jb_id r = i \<and> jb_name r = name \<and> jb_key r = key"], simp)

text \<open>
  Whatever other clients do between its two statements, \<open>create_or_get\<close> keeps
  job names and keys unique, never overwrites a row that is there, and returns a stored row
  with the requested name and key.
\<close>

theorem create_or_get_unique:
  assumes "jobs_ok db" and "jobs_ok (between db)" and "create_or_get se name key payload origin between db = (res, db')"
  shows "jobs_ok db' \<and>
    (\<forall>r. res = Inr r \<longrightarrow> r \<in> set (jd_rows db') \<and> jb_name r = name \<and> jb_key r = key) \<and>
    set (jd_rows (if find_job name key db = None then between db else db)) \<subseteq> set (jd_rows db')"
  using create_or_get_spec [OF assms] by blast

definition empty_jobs :: jobs_db where
  "empty_jobs = \<lparr>jd_rows = [], jd_next = 0, jd_pushed = []\<rparr>"

definition no_stamp :: stamp_env where
  "no_stamp = \<lparr>se_sha = PNone, se_time = ''2026-07-20''\<rparr>"

lemma empty_jobs_ok [simp]: "jobs_ok empty_jobs"
  by (simp add: jobs_ok_def empty_jobs_def)

theorem create_or_get_unique_witness:
  "jobs_ok (snd (create_or_get no_stamp ''paper_mark'' ''2026-07-20'' [] PNone id empty_jobs))"
  using create_or_get_unique [OF empty_jobs_ok, of id] by (metis empty_jobs_ok id_apply prod.collapse)

subsection \<open>Each key is created once\<close>

record create_op =
  co_stamp :: stamp_env
  co_name :: string
  co_key :: string
  co_payload :: pydict
  co_origin :: pyval

definition create_act :: "create_op \<Rightarrow> jobs_db \<Rightarrow> bool \<times> jobs_db" where
  "create_act x db =
     (let db' = snd (create_or_get (co_stamp x) (co_name x) (co_key x) (co_payload x) (co_origin x) id db)
      in (length (jd_rows db) < length (jd_rows db'), db'))"

definition create_key :: "create_op \<Rightarrow> string \<times> string" where
  "create_key x = (co_name x, co_key x)"

definition key_taken :: "jobs_db \<Rightarrow> string \<times> string \<Rightarrow> bool" where
  "key_taken db k \<longleftrightarrow> k \<in> (\<lambda>r. (jb_name r, jb_key r)) ` set (jd_rows db)"

interpretation cj: one_shot create_act create_key key_taken jobs_ok
proof
  fix x s b t assume ok: "jobs_ok s" and act: "create_act x s = (b, t)"
  then have t: "t = snd (create_or_get (co_stamp x) (co_name x) (co_key x) (co_payload x) (co_origin x) id s)"
    by (auto simp: create_act_def Let_def)
  obtain res where run: "create_or_get (co_stamp x) (co_name x) (co_key x) (co_payload x) (co_origin x) id s = (res, t)"
    using t by (metis prod.collapse)
  have spec: "jobs_ok t \<and> set (jd_rows s) \<subseteq> set (jd_rows t)"
    using create_or_get_spec [OF ok _ run] ok by (auto split: if_splits)
  then show "jobs_ok t" by blast
  show "key_taken t k" if "key_taken s k" for k using spec that by (auto simp: key_taken_def)
next
  fix x s t assume ok: "jobs_ok s" and act: "create_act x s = (True, t)"
  let ?n = "co_name x" and ?k = "co_key x"
  from act have t: "t = snd (create_or_get (co_stamp x) ?n ?k (co_payload x) (co_origin x) id s)"
    and grew: "length (jd_rows s) < length (jd_rows t)" by (auto simp: create_act_def Let_def)
  have none: "find_job ?n ?k s = None"
    using grew unfolding t create_or_get_def create_or_get_row_def by (auto split: option.splits)
  with grew have "(?n, ?k) \<in> (\<lambda>r. (jb_name r, jb_key r)) ` set (jd_rows t)"
    unfolding t create_or_get_def create_or_get_row_def upsert_ignore_def
    by (cases "coerce_origin (co_stamp x) (co_origin x)") (auto simp: Let_def)
  then show "\<not> key_taken s (create_key x) \<and> key_taken t (create_key x)"
    using none by (auto simp: key_taken_def create_key_def find_job_None)
qed

text \<open>
  Over any sequence of requests, with any repetitions in any order, at most one
  job is created per name and idempotency key.
\<close>

theorem one_job_per_key:
  assumes "jobs_ok db"
  shows "distinct (effective_keys create_act create_key xs db)"
  using assms by (rule cj.at_most_once)

definition mark_request :: create_op where
  "mark_request = \<lparr>co_stamp = no_stamp, co_name = ''paper_mark'', co_key = ''2026-07-20'', co_payload = [], co_origin = PNone\<rparr>"

theorem one_job_per_key_witness:
  "distinct (effective_keys create_act create_key [mark_request, mark_request] empty_jobs) \<and>
   fst (run_ops create_act [mark_request, mark_request] empty_jobs) = [True, False]"
proof -
  have "fst (run_ops create_act [mark_request, mark_request] empty_jobs) = [True, False]" by code_simp
  with one_job_per_key [OF empty_jobs_ok] show ?thesis by blast
qed

subsection \<open>One run of a job\<close>

definition finished_status :: "run_report \<Rightarrow> job_status" where
  "finished_status rep = (case rep of ReportDone st \<Rightarrow> st | ReportRetry _ \<Rightarrow> FailedRetryable | ReportDead \<Rightarrow> DeadLettered
     | ReportSkipped st \<Rightarrow> st | _ \<Rightarrow> Running)"

text \<open>How a finishing write leaves a row: unlocked, with the attempt, name, key and payload as they were.\<close>

definition settled :: "job_status \<Rightarrow> job_row \<Rightarrow> job_row \<Rightarrow> bool" where
  "settled st r r' \<longleftrightarrow> jb_status r' = st \<and> jb_locked_by r' = None \<and> jb_locked_at r' = None
     \<and> jb_attempt r' = jb_attempt r \<and> jb_payload r' = jb_payload r \<and> jb_max r' = jb_max r
     \<and> jb_id r' = jb_id r \<and> jb_name r' = jb_name r \<and> jb_key r' = jb_key r"

definition settles :: "nat \<Rightarrow> run_report \<Rightarrow> jobs_db \<Rightarrow> jobs_db \<Rightarrow> bool" where
  "settles i rep db db' \<longleftrightarrow> (\<exists>f. db' = update_job i f db \<and> (\<forall>r. settled (finished_status rep) r (f r)))
     \<and> finished_status rep \<in> {Succeeded, Partial, FailedRetryable, DeadLettered}"

lemma settles_finish:
  assumes "\<And>r. f r \<in> {r\<lparr>jb_result := x\<rparr>, r\<lparr>jb_error := x\<rparr>}" "finished_status rep = st" "st \<in> {Succeeded, Partial, DeadLettered}"
  shows "settles i rep db (finish_job now st i f db)"
  unfolding settles_def finish_job_def
proof (intro conjI exI [of _ "\<lambda>r. (f r)\<lparr>jb_status := st, jb_finished := Some now, jb_completed := Some now,
        jb_duration := duration_of now i db, jb_locked_by := None, jb_locked_at := None\<rparr>"] refl allI)
  fix r
  show "settled (finished_status rep) r ((f r)\<lparr>jb_status := st, jb_finished := Some now, jb_completed := Some now,
        jb_duration := duration_of now i db, jb_locked_by := None, jb_locked_at := None\<rparr>)"
    using assms(1) [of r] assms(2,3) by (auto simp: settled_def)
qed (use assms(2,3) in auto)

lemma settles_retry: "settles i (ReportRetry t) db (mark_retryable i err t db)"
  unfolding settles_def mark_retryable_def by (auto simp: finished_status_def settled_def)

lemma settles_dead: "settles i ReportDead db (mark_dead_letter now i err db)"
  unfolding mark_dead_letter_def by (rule settles_finish) (auto simp: finished_status_def)

lemma settles_retry_or_dead:
  "retry_or_dead now a m u i re de db = (rep, db') \<Longrightarrow> settles i rep db db' \<and> (rep = ReportDead \<longleftrightarrow> m \<le> a)"
  by (auto simp: retry_or_dead_def Let_def settles_retry settles_dead split: if_splits)

lemma update_job_twice:
  "(\<And>r. jb_id (f r) = i \<longleftrightarrow> jb_id r = i) \<Longrightarrow> update_job i g (update_job i f db) = update_job i (g \<circ> f) db"
  by (simp add: update_job_def update_rows_def)

lemma settles_after:
  assumes "settles i rep1 db db1" and "settles i rep db1 db2"
  shows "settles i rep db db2"
proof -
  from assms obtain f g where f: "db1 = update_job i f db" "\<And>r. settled (finished_status rep1) r (f r)"
    and g: "db2 = update_job i g db1" "\<And>r. settled (finished_status rep) r (g r)" by (auto simp: settles_def)
  then have "jb_id (f r) = i \<longleftrightarrow> jb_id r = i" for r by (simp add: settled_def)
  then have "db2 = update_job i (g \<circ> f) db" by (simp add: f(1) g(1) update_job_twice)
  moreover have "settled (finished_status rep) r ((g \<circ> f) r)" for r
    using f(2) [of r] g(2) [of "f r"] by (simp add: settled_def)
  ultimately show ?thesis using assms(2) unfolding settles_def by blast
qed

text \<open>
  How the attempt of a finishing write ends: the row is settled as the report says, or the run raises
  and the row is as it was or settled.
\<close>

definition ends :: "nat \<Rightarrow> run_report \<Rightarrow> jobs_db \<Rightarrow> jobs_db \<Rightarrow> bool" where
  "ends i rep db db' \<longleftrightarrow> settles i rep db db' \<or> (\<exists>e. rep = ReportRaised e) \<and> (db' = db \<or> (\<exists>rep0. settles i rep0 db db'))"

lemma finish_write_ends:
  assumes "settles i (fst out) db (snd out)" and "finish_write env k db out = (rep, db')"
  shows "ends i rep db db'" and "re_finish env k = Written \<Longrightarrow> settles i rep db db'"
    and "re_finish env k = NotWritten e tb \<Longrightarrow> db' = db"
  using assms by (auto simp: finish_write_def ends_def split: write_outcome.splits)

lemma permanent_ends:
  assumes "on_permanent env i msg db = (rep, db')"
  shows "ends i rep db db'" and "re_finish env 0 = Written \<Longrightarrow> settles i rep db db'" and "re_finish env 0 = NotWritten e tb \<Longrightarrow> db' = db"
  using finish_write_ends [where i = i, OF _ assms [unfolded on_permanent_def]] by (simp_all add: settles_dead)

lemma retry_or_dead_settles: "settles i (fst (retry_or_dead now a m u i re de db)) db (snd (retry_or_dead now a m u i re de db))"
  using settles_retry_or_dead [OF prod.collapse [symmetric]] by blast

lemma other_ends:
  assumes "on_other env k i job msg tb db = (rep, db')"
  shows "ends i rep db db'" and "re_finish env k = Written \<Longrightarrow> settles i rep db db'" and "re_finish env k = NotWritten e tb' \<Longrightarrow> db' = db"
  using finish_write_ends [OF retry_or_dead_settles assms [unfolded on_other_def]] by simp_all

lemma retryable_ends:
  assumes "on_retryable env i job msg db = (rep, db')"
  shows "ends i rep db db'" and "re_finish env 0 = Written \<Longrightarrow> settles i rep db db'" and "re_finish env 0 = NotWritten e tb' \<Longrightarrow> db' = db"
  using finish_write_ends [OF retry_or_dead_settles assms [unfolded on_retryable_def]] by simp_all

lemma ends_after: "settles i rep1 db db1 \<Longrightarrow> ends i rep db1 db2 \<Longrightarrow> ends i rep db db2"
  unfolding ends_def using settles_after by blast

lemma return_write_ends:
  assumes st: "settles i (ReportDone st) db db1" and run: "return_write env i job st db db1 = (rep, db')"
  shows "ends i rep db db'" and "re_finish env 0 = Written \<Longrightarrow> settles i rep db db'"
    and "re_finish env 0 = NotWritten e0 tb0 \<Longrightarrow> re_finish env 1 = NotWritten e1 tb1 \<Longrightarrow> db' = db"
proof -
  show "ends i rep db db'"
  proof (cases "re_finish env 0")
    case Written
    with st run show ?thesis by (simp add: return_write_def ends_def)
  next
    case (NotWritten e tb)
    with run show ?thesis by (auto simp: return_write_def intro: other_ends(1))
  next
    case (ReplyLost e tb)
    with run have "on_other env 1 i job e tb db1 = (rep, db')" by (simp add: return_write_def)
    from ends_after [OF st other_ends(1) [OF this]] show ?thesis .
  qed
  show "settles i rep db db'" if "re_finish env 0 = Written" using that st run by (simp add: return_write_def)
  show "db' = db" if "re_finish env 0 = NotWritten e0 tb0" "re_finish env 1 = NotWritten e1 tb1"
    using that run by (auto simp: return_write_def dest: other_ends(3))
qed

lemma return_ends:
  assumes "on_return env i job v db = (rep, db')"
  shows "ends i rep db db'" and "re_finish env 0 = Written \<Longrightarrow> settles i rep db db'"
    and "re_finish env 0 = NotWritten e0 tb0 \<Longrightarrow> re_finish env 1 = NotWritten e1 tb1 \<Longrightarrow> db' = db"
proof -
  have fin: "settles i (ReportDone st) db (finish_job (re_now env) st i (\<lambda>r. r\<lparr>jb_result := Some x\<rparr>) db)"
    if "st \<in> {Partial, Succeeded}" for st x
    by (rule settles_finish) (use that in \<open>auto simp: finished_status_def\<close>)
  obtain x st msg where "(st = Partial \<or> st = Succeeded) \<and> return_write env i job st db (finish_job (re_now env) st i (\<lambda>r. r\<lparr>jb_result := Some x\<rparr>) db) = (rep, db')
      \<or> on_other env 0 i job msg [] db = (rep, db')"
    using assms unfolding on_return_def Let_def mark_partial_failure_def mark_succeeded_def
    by (auto split: sum.splits job_status.splits)
  then consider "st \<in> {Partial, Succeeded}" "return_write env i job st db (finish_job (re_now env) st i (\<lambda>r. r\<lparr>jb_result := Some x\<rparr>) db) = (rep, db')"
    | "on_other env 0 i job msg [] db = (rep, db')" by blast
  note cases = this
  show "ends i rep db db'"
    by (rule cases) (rule return_write_ends(1) [OF fin], assumption+, rule other_ends(1), assumption)
  show "settles i rep db db'" if "re_finish env 0 = Written"
    by (rule cases) (rule return_write_ends(2) [OF fin _ that], assumption+, rule other_ends(2) [OF _ that], assumption)
  show "db' = db" if "re_finish env 0 = NotWritten e0 tb0" "re_finish env 1 = NotWritten e1 tb1"
    by (rule cases) (rule return_write_ends(3) [OF fin _ that], assumption+, rule other_ends(3) [OF _ that(1)], assumption)
qed

lemma run_job_run_ends:
  assumes "get_job i db = Some job" "\<not> terminal_status (jb_status job)" "re_mark env = Written"
    and "run_job_run env i db = (rep, db')"
  shows "ends i rep (mark_running (re_now env) (re_worker env) i db) db'"
    and "re_finish env 0 = Written \<Longrightarrow> settles i rep (mark_running (re_now env) (re_worker env) i db) db'"
    and "re_finish env 0 = NotWritten e0 tb0 \<Longrightarrow> re_finish env 1 = NotWritten e1 tb1 \<Longrightarrow> db' = mark_running (re_now env) (re_worker env) i db"
proof -
  let ?db1 = "mark_running (re_now env) (re_worker env) i db"
  have "(\<exists>msg. on_permanent env i msg ?db1 = (rep, db')) \<or> (\<exists>v. on_return env i job v ?db1 = (rep, db'))
      \<or> (\<exists>msg. on_retryable env i job msg ?db1 = (rep, db')) \<or> (\<exists>msg tb. on_other env 0 i job msg tb ?db1 = (rep, db'))"
    using assms unfolding run_job_run_def Let_def by (auto split: option.splits handler_outcome.splits)
  then consider msg where "on_permanent env i msg ?db1 = (rep, db')" | v where "on_return env i job v ?db1 = (rep, db')"
    | msg where "on_retryable env i job msg ?db1 = (rep, db')" | msg tb where "on_other env 0 i job msg tb ?db1 = (rep, db')" by blast
  note cases = this
  show "ends i rep ?db1 db'"
    by (rule cases) (rule permanent_ends(1) return_ends(1) retryable_ends(1) other_ends(1), assumption)+
  show "settles i rep ?db1 db'" if "re_finish env 0 = Written"
    by (rule cases) (rule permanent_ends(2) [OF _ that] return_ends(2) [OF _ that] retryable_ends(2) [OF _ that] other_ends(2) [OF _ that], assumption)+
  show "db' = ?db1" if "re_finish env 0 = NotWritten e0 tb0" "re_finish env 1 = NotWritten e1 tb1"
    by (rule cases) (rule permanent_ends(3) [OF _ that(1)] return_ends(3) [OF _ that] retryable_ends(3) [OF _ that(1)] other_ends(3) [OF _ that(1)], assumption)+
qed

lemma get_mark_running:
  "get_job i db = Some job \<Longrightarrow> get_job k (mark_running now w i db) =
     (if k = i then Some (job\<lparr>jb_status := Running, jb_locked_by := Some w, jb_locked_at := Some now,
        jb_started := Some now, jb_attempt := jb_attempt job + 1\<rparr>) else get_job k db)"
  by (auto simp: mark_running_def get_job_update map_option_case split: option.split)

lemma settles_get:
  assumes "settles i rep db db'" "get_job i db = Some job"
  shows "\<exists>job'. get_job i db' = Some job' \<and> settled (finished_status rep) job job'"
    and "k \<noteq> i \<Longrightarrow> get_job k db' = get_job k db"
proof -
  from assms(1) obtain f where f: "db' = update_job i f db" "\<And>r. settled (finished_status rep) r (f r)"
    by (auto simp: settles_def)
  then have "jb_id (f r) = jb_id r" for r by (auto simp: settled_def)
  note u = get_job_update [of f _ i db, OF this]
  show "\<exists>job'. get_job i db' = Some job' \<and> settled (finished_status rep) job job'" using f u assms(2) by simp
  show "k \<noteq> i \<Longrightarrow> get_job k db' = get_job k db" using f(1) u by (cases "get_job k db") simp_all
qed

lemma ends_get:
  assumes "ends i rep db db'" "get_job i db = Some job"
  shows "\<exists>job'. get_job i db' = Some job' \<and> (settled (finished_status rep) job job' \<and> settles i rep db db'
      \<or> (\<exists>e. rep = ReportRaised e) \<and> (job' = job \<or> (\<exists>st \<in> {Succeeded, Partial, FailedRetryable, DeadLettered}. settled st job job')))"
    and "k \<noteq> i \<Longrightarrow> get_job k db' = get_job k db"
proof -
  consider "settles i rep db db'" | "\<exists>e. rep = ReportRaised e" "db' = db" | rep0 where "\<exists>e. rep = ReportRaised e" "settles i rep0 db db'"
    using assms(1) by (auto simp: ends_def)
  note cases = this
  show "\<exists>job'. get_job i db' = Some job' \<and> (settled (finished_status rep) job job' \<and> settles i rep db db'
      \<or> (\<exists>e. rep = ReportRaised e) \<and> (job' = job \<or> (\<exists>st \<in> {Succeeded, Partial, FailedRetryable, DeadLettered}. settled st job job')))"
  proof (rule cases)
    assume "settles i rep db db'"
    then show ?thesis using settles_get(1) [OF _ assms(2)] by blast
  next
    assume "\<exists>e. rep = ReportRaised e" "db' = db"
    then show ?thesis using assms(2) by blast
  next
    fix rep0 assume "\<exists>e. rep = ReportRaised e" "settles i rep0 db db'"
    moreover have "finished_status rep0 \<in> {Succeeded, Partial, FailedRetryable, DeadLettered}" using calculation(2) by (simp add: settles_def)
    ultimately show ?thesis using settles_get(1) [OF _ assms(2)] by blast
  qed
  show "get_job k db' = get_job k db" if "k \<noteq> i" by (rule cases) (auto dest: settles_get(2) [OF _ assms(2) that])
qed

text \<open>The states that a row can have when its run has ended: none while a worker holds its lock.\<close>

definition run_ended :: "job_row \<Rightarrow> job_status set" where
  "run_ended job = (if jb_locked_by job = None then {Succeeded, Partial, FailedRetryable, DeadLettered} else {})"

text \<open>
  C37 (functional). What a run does to the table, with any of its writes failing, with or without
  effect. It touches no other job and never re-executes a finished one. The job it is for keeps its
  name, key and payload, and its attempt counter grows by one unless the write that starts it had no
  effect. When the run reports an end, the row is unlocked and in the reported state. When the start
  is reported as failed, the row is as it was or running; when an exception leaves the run, the row
  is unlocked in one of the four states of an end or still running under the worker's lock. It is
  certainly left running when its start was written and both finishing writes of the run have no
  effect, and a run with no failing write always reports an end.
\<close>

theorem run_job_run_outcome:
  assumes "get_job i db = Some job" and "run_job_run env i db = (rep, db')"
  shows "(terminal_status (jb_status job) \<longrightarrow> db' = db \<and> rep = ReportSkipped (jb_status job))
   \<and> (\<forall>k. k \<noteq> i \<longrightarrow> get_job k db' = get_job k db)
   \<and> (\<not> terminal_status (jb_status job) \<longrightarrow> (\<exists>job'. get_job i db' = Some job'
       \<and> jb_payload job' = jb_payload job \<and> jb_name job' = jb_name job \<and> jb_key job' = jb_key job
       \<and> jb_attempt job' = jb_attempt job + (case re_mark env of NotWritten _ _ \<Rightarrow> 0 | _ \<Rightarrow> 1)
       \<and> (case rep of
            ReportError _ \<Rightarrow> re_mark env \<noteq> Written \<and> (job' = job \<or> jb_status job' = Running)
          | ReportRaised _ \<Rightarrow> re_mark env = Written \<and> re_finish env 0 \<noteq> Written
              \<and> (jb_status job' = Running \<and> jb_locked_by job' = Some (re_worker env) \<or> jb_status job' \<in> run_ended job')
          | _ \<Rightarrow> re_mark env = Written \<and> jb_status job' = finished_status rep \<and> jb_status job' \<in> run_ended job')
       \<and> (re_mark env = Written \<and> (\<exists>e tb e' tb'. re_finish env 0 = NotWritten e tb \<and> re_finish env 1 = NotWritten e' tb')
            \<longrightarrow> jb_status job' = Running \<and> jb_locked_by job' = Some (re_worker env))))"
proof (cases "terminal_status (jb_status job)")
  case True
  with assms show ?thesis by (simp add: run_job_run_def)
next
  case False
  let ?db1 = "mark_running (re_now env) (re_worker env) i db"
  let ?started = "job\<lparr>jb_status := Running, jb_locked_by := Some (re_worker env), jb_locked_at := Some (re_now env),
        jb_started := Some (re_now env), jb_attempt := jb_attempt job + 1\<rparr>"
  note g = get_mark_running [OF assms(1), of _ "re_now env" "re_worker env"]
  show ?thesis
  proof (cases "re_mark env")
    case (NotWritten e tb)
    then have "rep = ReportError (''mark_running_failed: '' @ e)" "db' = db" using assms False by (simp_all add: run_job_run_def Let_def)
    then show ?thesis using False NotWritten assms(1) by simp
  next
    case (ReplyLost e tb)
    then have "rep = ReportError (''mark_running_failed: '' @ e)" "db' = ?db1" using assms False by (simp_all add: run_job_run_def Let_def)
    then show ?thesis using False ReplyLost g by simp
  next
    case Written
    note r = run_job_run_ends [OF assms(1) False Written assms(2)]
    from ends_get(1) [OF r(1)] g [of i] obtain job' where job': "get_job i db' = Some job'"
      and how: "settled (finished_status rep) ?started job' \<and> settles i rep ?db1 db'
        \<or> (\<exists>e. rep = ReportRaised e) \<and> (job' = ?started \<or> (\<exists>st \<in> {Succeeded, Partial, FailedRetryable, DeadLettered}. settled st ?started job'))"
      by auto
    have others: "\<forall>k. k \<noteq> i \<longrightarrow> get_job k db' = get_job k db" using ends_get(2) [OF r(1)] g by simp
    have failed: "re_finish env 0 \<noteq> Written" if "rep = ReportRaised e" for e
      using r(2) that by (auto simp: settles_def finished_status_def)
    have stuck: "job' = ?started" if "re_finish env 0 = NotWritten e tb" "re_finish env 1 = NotWritten e' tb'" for e tb e' tb'
      using r(3) [OF that] job' g [of i] by simp
    from how show ?thesis
    proof
      assume s: "settled (finished_status rep) ?started job' \<and> settles i rep ?db1 db'"
      then have "finished_status rep \<in> {Succeeded, Partial, FailedRetryable, DeadLettered}" by (simp add: settles_def)
      moreover have "jb_status job' \<noteq> Running" using s calculation by (auto simp: settled_def)
      ultimately show ?thesis using s job' others stuck False Written
        by (cases rep) (auto simp: settled_def run_ended_def finished_status_def)
    next
      assume "(\<exists>e. rep = ReportRaised e) \<and> (job' = ?started \<or> (\<exists>st \<in> {Succeeded, Partial, FailedRetryable, DeadLettered}. settled st ?started job'))"
      then show ?thesis using job' others stuck failed False Written by (auto simp: settled_def run_ended_def)
    qed
  qed
qed

definition one_job :: jobs_db where
  "one_job = \<lparr>jd_rows = [new_job 0 ''paper_mark'' ''2026-07-20'' [] Queued], jd_next = 1, jd_pushed = []\<rparr>"

definition env_with :: "handler_outcome \<Rightarrow> run_env" where
  "env_with out = \<lparr>re_now = 1000, re_worker = ''w1'', re_mark = Written, re_finish = (\<lambda>_. Written), re_handlers = (\<lambda>_. Some (\<lambda>_. out)),
     re_alert_delta = None, re_show = (\<lambda>_. []), re_id_text = (\<lambda>_. [])\<rparr>"

lemma one_job_ok [simp]: "jobs_ok one_job"
  by (simp add: jobs_ok_def one_job_def)

lemma one_job_get: "get_job 0 one_job = Some (new_job 0 ''paper_mark'' ''2026-07-20'' [] Queued)"
  by (simp add: get_job_def one_job_def)

text \<open>A success whose writes both fail: the job stays running, although its handler returned.\<close>

definition cut_off :: run_env where
  "cut_off = (env_with (Returned (PDict [])))\<lparr>re_finish := \<lambda>_. NotWritten ''timeout'' []\<rparr>"

theorem run_job_run_outcome_witness:
  "(\<exists>job'. get_job 0 (snd (run_job_run (env_with (Returned (PDict [(''users_failed'', PInt 1)]))) 0 one_job)) = Some job'
     \<and> jb_status job' = Partial \<and> jb_attempt job' = 1)
   \<and> (\<exists>job'. get_job 0 (snd (run_job_run cut_off 0 one_job)) = Some job' \<and> jb_status job' = Running \<and> jb_attempt job' = 1)"
proof
  let ?e = "env_with (Returned (PDict [(''users_failed'', PInt 1)]))"
  have "fst (run_job_run ?e 0 one_job) = ReportDone Partial" by code_simp
  then obtain db' where run: "run_job_run ?e 0 one_job = (ReportDone Partial, db')" by (metis prod.collapse)
  have "re_mark ?e = Written" by (simp add: env_with_def)
  with run_job_run_outcome [OF one_job_get run]
  show "\<exists>job'. get_job 0 (snd (run_job_run ?e 0 one_job)) = Some job' \<and> jb_status job' = Partial \<and> jb_attempt job' = 1"
    by (auto simp: run terminal_status_def finished_status_def)
  have "re_mark cut_off = Written" "re_finish cut_off k = NotWritten ''timeout'' []" for k by (simp_all add: cut_off_def env_with_def)
  with run_job_run_outcome [OF one_job_get prod.collapse [symmetric], of cut_off]
  show "\<exists>job'. get_job 0 (snd (run_job_run cut_off 0 one_job)) = Some job' \<and> jb_status job' = Running \<and> jb_attempt job' = 1"
    by (auto simp: terminal_status_def)
qed

subsection \<open>Two defects of the retry path\<close>

lemma update_other: "i \<noteq> k \<Longrightarrow> (\<And>r. jb_id (f r) = jb_id r) \<Longrightarrow> get_job k (update_job i f db) = get_job k db"
  by (simp add: get_job_update map_option_case split: option.split)

lemma fold_update_other:
  assumes "\<And>r. r \<in> set rows \<Longrightarrow> jb_id r \<noteq> k" "\<And>r x. jb_id (f r x) = jb_id x"
  shows "get_job k (foldl (\<lambda>d r. update_job (jb_id r) (f r) d) db rows) = get_job k db"
  using assms by (induction rows arbitrary: db) (simp_all add: update_other)

lemma scan_skips:
  assumes "jobs_ok db" "get_job i db = Some job" "\<not> retry_eligible c job" "\<And>x. x \<in> set (jd_rows db) \<Longrightarrow> jb_id x = i \<Longrightarrow> x = job"
  shows "get_job i (foldl (requeue_by_scan se f) db (take 5 (filter (retry_eligible c) (jd_rows db)))) = Some job"
proof -
  let ?rows = "take 5 (filter (retry_eligible c) (jd_rows db))"
  have "jb_id r \<noteq> i" if "r \<in> set ?rows" for r
    using that assms(3,4) by (auto dest!: in_set_takeD)
  then show ?thesis using assms(2) fold_update_other [of ?rows i "\<lambda>r x. x\<lparr>jb_status := Queued, jb_attempt := jb_attempt r + 1,
      jb_locked_by := None, jb_locked_at := None,
      jb_payload := stamped_payload se ''internal_retry'' ''scheduler_auto_retry'' (f (jb_id r)) r\<rparr>" db]
    unfolding requeue_by_scan_def [abs_def] by simp
qed

lemma get_job_unique:
  assumes "jobs_ok db" "get_job i db = Some job" "x \<in> set (jd_rows db)" "jb_id x = i"
  shows "x = job"
proof -
  from assms(1) have "inj_on jb_id (set (jd_rows db))" by (simp add: jobs_ok_def distinct_map)
  from inj_onD [OF this _ assms(3)] get_job_Some [OF assms(2)] assms(4) show ?thesis by simp
qed

lemma requeue_step_ok: "jobs_ok db \<Longrightarrow> jobs_ok (requeue_by_scan se f db r)"
  unfolding requeue_by_scan_def by (rule update_job_ok) simp_all

lemma requeue_ok: "jobs_ok db \<Longrightarrow> jobs_ok (foldl (requeue_by_scan se f) db rows)"
  by (induction rows arbitrary: db) (simp_all add: requeue_step_ok)

lemma dead_ok: "jobs_ok db \<Longrightarrow> jobs_ok (foldl (\<lambda>d r. update_job (jb_id r) (\<lambda>x. x\<lparr>jb_status := DeadLettered\<rparr>) d) db rows)"
  by (induction rows arbitrary: db) (simp_all add: update_job_ok)

lemma retry_failed_jobs_ok: "jobs_ok db \<Longrightarrow> jobs_ok (snd (retry_failed_jobs se f now db))"
  by (simp add: retry_failed_jobs_def Let_def requeue_ok dead_ok)

lemma retry_scan_ignores:
  assumes "jobs_ok db" "get_job i db = Some job" "jb_finished job = None" "jb_attempt job < 2"
  shows "get_job i (snd (retry_failed_jobs se f now db)) = Some job"
proof -
  let ?db1 = "foldl (requeue_by_scan se f) db (take 5 (filter (retry_eligible (now - 4 * 3600 * 1000)) (jd_rows db)))"
  have 1: "get_job i ?db1 = Some job"
    by (rule scan_skips [OF assms(1,2)]) (use assms get_job_unique in \<open>auto simp: retry_eligible_def\<close>)
  have "jb_id r \<noteq> i" if "r \<in> set (take 10 (filter retry_exhausted (jd_rows ?db1)))" for r
    using that get_job_unique [OF requeue_ok [OF assms(1)] 1] assms(4)
    by (auto simp: retry_exhausted_def dest!: in_set_takeD)
  then show ?thesis using 1 fold_update_other [of "take 10 (filter retry_exhausted (jd_rows ?db1))" i "\<lambda>r x. x\<lparr>jb_status := DeadLettered\<rparr>" ?db1]
    by (simp add: retry_failed_jobs_def Let_def)
qed

lemma retry_scans_ignore:
  assumes "jobs_ok db" "get_job i db = Some job" "jb_finished job = None" "jb_attempt job < 2"
  shows "get_job i (foldl (\<lambda>d now. snd (retry_failed_jobs se f now d)) db nows) = Some job"
  using assms(1,2)
  by (induction nows arbitrary: db) (simp_all add: retry_scan_ignores [OF _ _ assms(3,4)] retry_failed_jobs_ok)

text \<open>
  C38 (liveness). A defect: a fresh queued job with more than two attempts, whose first run writes what
  it should but ends in an unexpected error of the handler, is stranded, although the run reports a
  retry: the failed run sets no finish time, so the scheduler's retry scan never selects the job, at
  whatever times and however often it runs, and its attempt is too low for the scan's dead-letter
  branch. The scan alone never re-queues it, nor ends it.
\<close>

theorem first_failure_is_stranded:
  assumes "jobs_ok db" and "get_job i db = Some job" and "jb_status job = Queued" and "jb_attempt job = 0"
    and "jb_finished job = None" and "2 < max_attempts_of job" and "re_mark env = Written" and "re_finish env 0 = Written"
    and "re_handlers env (jb_name job) = Some h" and "h (build_handler_payload job (re_id_text env i)) = RaisedOther msg tb"
  shows "(\<exists>t. fst (run_job_run env i db) = ReportRetry t) \<and> (\<exists>job'. get_job i (snd (run_job_run env i db)) = Some job'
    \<and> jb_status job' = FailedRetryable
    \<and> get_job i (foldl (\<lambda>d now. snd (retry_failed_jobs se f now d)) (snd (run_job_run env i db)) nows) = Some job')"
proof -
  let ?dbr = "mark_running (re_now env) (re_worker env) i db"
  have nt: "\<not> terminal_status (jb_status job)" using assms(3) by (simp add: terminal_status_def)
  obtain t err where run: "run_job_run env i db = (ReportRetry t, mark_retryable i err t ?dbr)"
    using assms(2-4,6-10) nt by (simp add: run_job_run_def Let_def on_other_def retry_or_dead_def finish_write_def)
  let ?db1 = "mark_retryable i err t ?dbr"
  obtain j where j: "get_job i ?db1 = Some j" "jb_status j = FailedRetryable" "jb_attempt j = 1" "jb_finished j = None"
    using get_mark_running [OF assms(2), of i "re_now env" "re_worker env"] assms(4,5)
    by (simp add: mark_retryable_def get_job_update)
  have "jobs_ok ?dbr"
    unfolding mark_running_def assms(2) option.case by (rule update_job_ok) (simp_all add: assms(1))
  then have "jobs_ok ?db1" unfolding mark_retryable_def by (rule update_job_ok [rotated 3]) simp_all
  from retry_scans_ignore [OF this j(1,4)] j run show ?thesis by auto
qed

theorem first_failure_is_stranded_witness:
  "\<exists>job'. jb_status job' = FailedRetryable \<and>
    get_job 0 (snd (retry_failed_jobs no_stamp (\<lambda>_. []) 99999999 (snd (run_job_run (env_with (RaisedOther ''boom'' [])) 0 one_job)))) = Some job'"
proof -
  have j: "max_attempts_of (new_job 0 ''paper_mark'' ''2026-07-20'' [] Queued) = 5"
    "jb_finished (new_job 0 ''paper_mark'' ''2026-07-20'' [] Queued) = None" by (simp_all add: max_attempts_of_def new_job_def)
  have e: "re_mark (env_with (RaisedOther ''boom'' [])) = Written" "re_finish (env_with (RaisedOther ''boom'' [])) 0 = Written"
    "re_handlers (env_with (RaisedOther ''boom'' [])) x = Some (\<lambda>_. RaisedOther ''boom'' [])" for x
    by (simp_all add: env_with_def)
  from first_failure_is_stranded [OF one_job_ok one_job_get _ _ _ _ e refl, of no_stamp "\<lambda>_. []" "[99999999]"]
  show ?thesis by (auto simp: j)
qed

text \<open>
  A retryable error costs one attempt more than any other error: with a limit of two
  attempts, a fresh job that raises a retryable error is dead-lettered on its first run, while the
  same job raising an unexpected error is retried.
\<close>

theorem retryable_error_loses_an_attempt:
  assumes "get_job i db = Some job" and "jb_status job = Queued" and "jb_attempt job = 0" and "max_attempts_of job = 2"
    and "re_mark env = Written \<and> re_finish env 0 = Written" and "re_handlers env (jb_name job) = Some h"
  shows "(h (build_handler_payload job (re_id_text env i)) = RaisedRetryable msg \<longrightarrow> fst (run_job_run env i db) = ReportDead) \<and>
    (h (build_handler_payload job (re_id_text env i)) = RaisedOther msg tb \<longrightarrow> (\<exists>t. fst (run_job_run env i db) = ReportRetry t))"
  using assms by (simp add: run_job_run_def terminal_status_def on_retryable_def on_other_def retry_or_dead_def finish_write_def Let_def)

definition two_attempts :: jobs_db where
  "two_attempts = one_job\<lparr>jd_rows := map (\<lambda>r. r\<lparr>jb_max := 2\<rparr>) (jd_rows one_job)\<rparr>"

theorem retryable_error_loses_an_attempt_witness:
  "fst (run_job_run (env_with (RaisedRetryable ''busy'')) 0 two_attempts) = ReportDead"
proof -
  have "get_job 0 two_attempts = Some ((new_job 0 ''paper_mark'' ''2026-07-20'' [] Queued)\<lparr>jb_max := 2\<rparr>)"
    by (simp add: get_job_def two_attempts_def one_job_def)
  from retryable_error_loses_an_attempt [OF this, of "env_with (RaisedRetryable ''busy'')" "\<lambda>_. RaisedRetryable ''busy''" "''busy''"]
  show ?thesis by (simp add: max_attempts_of_def env_with_def new_job_def)
qed

subsection \<open>What reaches the task queue\<close>

text \<open>
  Nothing is pushed to the task queue while trading is paused or its state unknown;
  a job with live privileges is pushed only for a named user in live mode whose readiness is
  complete; and a job that already ran to an end is never pushed again by a request.
\<close>

theorem enqueue_gate_sound:
  assumes "jobs_ok db" and "jobs_ok (between db)" and "jd_pushed (between db) = jd_pushed db"
    and "enqueue_job_run se ee name key payload force origin between db = (rep, db')"
    and "jd_pushed db' \<noteq> jd_pushed db"
  shows "\<exists>i st. rep = Enqueued i st \<and> jd_pushed db' = jd_pushed db @ [i] \<and> \<not> terminal_status st \<and>
    (\<exists>r \<in> set (jd_rows db'). jb_id r = i \<and> jb_name r = name \<and> jb_status r = st) \<and>
    map_of (ee_ops ee) ''paused'' \<noteq> None \<and> \<not> truthy (dget (ee_ops ee) ''paused'') \<and>
    (job_requires_live_privileges name \<longrightarrow>
       (\<exists>u. extract_user_id payload = Some u \<and> dget (ee_ops ee) ''mode'' = PStr ''live'' \<and>
          truthy (dget (ee_readiness ee u) ''overall_ready'')))"
proof -
  have cancelled: "jd_pushed (snd (cancel_job se ee name key payload origin between reason detail db)) = jd_pushed db" for reason detail
  proof -
    obtain res d where run: "create_or_get_cancelled se (ee_now ee) name key payload reason detail origin between db = (res, d)" by fastforce
    have "jd_pushed d = jd_pushed db"
      using create_or_get_cancelled_spec [OF assms(1,2) run] assms(3) by (simp split: if_splits)
    with run show ?thesis by (cases res) (simp_all add: cancel_job_def)
  qed
  have not_cancelled: "(rep, db') \<noteq> cancel_job se ee name key payload origin between reason detail db" for reason detail
  proof
    assume "(rep, db') = cancel_job se ee name key payload origin between reason detail db"
    then have "db' = snd (cancel_job se ee name key payload origin between reason detail db)" by (metis snd_conv)
    with cancelled assms(5) show False by simp
  qed
  have paused: "\<not> truthy (dget_default (ee_ops ee) ''paused'' (PBool True))"
  proof
    assume "truthy (dget_default (ee_ops ee) ''paused'' (PBool True))"
    with assms(4) have "cancel_job se ee name key payload origin between ''global_ops_pause'' (pause_detail ee) db = (rep, db')"
      by (simp add: enqueue_job_run_def)
    with not_cancelled [of "''global_ops_pause''" "pause_detail ee"] show False by simp
  qed
  have live: "live_refusal ee name payload = None"
  proof (cases "live_refusal ee name payload")
    case (Some a)
    then show ?thesis using assms(4) not_cancelled [of "fst a" "Some (snd a)"] paused
      by (simp add: enqueue_job_run_def case_prod_beta)
  qed simp
  let ?key = "if force \<or> truthy (dget payload ''force_rerun'')
     then key @ ''-force-'' @ ee_show ee (py_or (py_or (dget payload ''_force_nonce'') (dget payload ''force_nonce'')) (PStr (ee_nonce ee)))
     else key"
  obtain res d where run: "create_or_get se name ?key payload origin between db = (res, d)" by fastforce
  note spec = create_or_get_spec [OF assms(1,2) run]
  have pushed: "jd_pushed d = jd_pushed db" using spec assms(3) by auto
  from assms(4) paused live run have eq: "(rep, db') = (case res of Inl e \<Rightarrow> (EnqueueRaised e, d) | Inr r \<Rightarrow>
      if terminal_status (jb_status r) \<or> jb_status r = FailedRetryable then (EnqueueSkipped (jb_id r) (jb_status r), d)
      else if \<not> ee_queue_up ee then (QueueUnavailable, d)
      else (Enqueued (jb_id r) (jb_status r), d\<lparr>jd_pushed := jd_pushed d @ [jb_id r]\<rparr>))"
    by (simp add: enqueue_job_run_def Let_def)
  with assms(5) pushed obtain r where r: "res = Inr r" "\<not> terminal_status (jb_status r)" "rep = Enqueued (jb_id r) (jb_status r)"
    "db' = d\<lparr>jd_pushed := jd_pushed d @ [jb_id r]\<rparr>" by (auto split: sum.splits if_splits)
  have "job_requires_live_privileges name \<longrightarrow>
       (\<exists>u. extract_user_id payload = Some u \<and> dget (ee_ops ee) ''mode'' = PStr ''live'' \<and> truthy (dget (ee_readiness ee u) ''overall_ready''))"
    using live by (auto simp: live_refusal_def Let_def evaluate_go_live_gate_def dget_def dget_default_def split: if_splits option.splits)
  moreover have "map_of (ee_ops ee) ''paused'' \<noteq> None \<and> \<not> truthy (dget (ee_ops ee) ''paused'')"
    using paused by (auto simp: dget_def dget_default_def split: option.splits)
  ultimately show ?thesis using r pushed spec by auto
qed

definition open_ops :: enqueue_env where
  "open_ops = \<lparr>ee_ops = [(''paused'', PBool False), (''mode'', PStr ''live'')],
     ee_readiness = (\<lambda>_. [(''overall_ready'', PBool True)]), ee_nonce = ''n'', ee_now = 0, ee_queue_up = True, ee_show = (\<lambda>_. [])\<rparr>"

theorem enqueue_gate_sound_witness:
  "\<exists>u. extract_user_id [(''user_id'', PStr ''u1'')] = Some u \<and> dget (ee_ops open_ops) ''mode'' = PStr ''live'' \<and>
     truthy (dget (ee_readiness open_ops u) ''overall_ready'')"
proof -
  let ?run = "enqueue_job_run no_stamp open_ops ''live_order_submit'' ''k'' [(''user_id'', PStr ''u1'')] False PNone id empty_jobs"
  have p: "jd_pushed (snd ?run) \<noteq> jd_pushed empty_jobs" by code_simp
  have l: "job_requires_live_privileges ''live_order_submit''" by code_simp
  from enqueue_gate_sound [OF empty_jobs_ok _ _ prod.collapse [symmetric] p] l show ?thesis by (auto simp del: ex_simps)
qed

end
