(* ===== verification/Risk_Envelope.thy ===== *)
theory Risk_Envelope
  imports Payoff Py_Float
begin

section \<open>Portfolio risk envelopes (risk/risk_envelope.py)\<close>

text \<open>
  The envelope check runs over the whole open book before entries and in the risk monitor. It
  yields violations with a severity, the positions to force close, and a multiplier for new
  sizes. Risk per position is the exact maximum loss of the canonical payoff, and a position
  whose risk cannot be established raises. Positions are persisted rows; equity, profit and the
  configuration are floats with their special values. A symbol or expiry used as a dictionary
  key is compared structurally, and a list or dictionary there is not hashable. Messages and
  logging are left out: a violation carries the symbol, sector or expiry its message names. The
  counterfactual report on Greek caps changes no result and is left out.
\<close>

subsection \<open>Sectors (risk/sector_mapping.py)\<close>

definition sector_map :: "(string \<times> string list) list" where
  "sector_map =
    [(''Technology'', [''SEMICONDUCTOR'', ''SOFTWARE'', ''PREPACKAGED'', ''COMPUTER'', ''DATA PROCESSING'',
        ''ELECTRONIC COMP'', ''INSTRUMENTS'', ''OPTICAL'']),
     (''Communication Services'', [''TELEPHONE'', ''TELECOMMUN'', ''RADIO'', ''TELEVISION'', ''PUBLISHING'',
        ''VIDEO TAPE'', ''CABLE'', ''ADVERTISING'', ''SERVICES-COMPUTER PROGRAMMING'']),
     (''Consumer Discretionary'', [''RETAIL'', ''MAIL-ORDER'', ''CATALOG'', ''AUTO'', ''APPAREL'', ''RESTAURANT'',
        ''HOTEL'', ''LEISURE'', ''FOOTWEAR'', ''TOYS'']),
     (''Consumer Staples'', [''FOOD'', ''BEVERAGE'', ''TOBACCO'', ''HOUSEHOLD'', ''PERSONAL CARE'', ''GROCERY'', ''DRUG STORE'']),
     (''Healthcare'', [''PHARMACEUT'', ''MEDICAL'', ''BIOLOGICAL'', ''HOSPITAL'', ''HEALTH'', ''DENTAL'', ''SURGICAL'']),
     (''Financials'', [''BANK'', ''INSURANCE'', ''FINANCIAL'', ''INVESTMENT'', ''BROKER'', ''CREDIT'', ''LOAN'', ''SAVINGS'']),
     (''Energy'', [''PETROLEUM'', ''OIL'', ''NATURAL GAS'', ''COAL'', ''MINING'']),
     (''Industrials'', [''AIRCRAFT'', ''AIRLINE'', ''MACHINERY'', ''MOTOR VEHICLE'', ''INDUSTRIAL'', ''TRANSPORT'',
        ''RAILROAD'', ''CONSTRUCTION'', ''DEFENSE'', ''AEROSPACE'']),
     (''Materials'', [''CHEMICAL'', ''STEEL'', ''METAL'', ''PAPER'', ''PLASTIC'', ''GLASS'', ''CEMENT'', ''FOREST'']),
     (''Real Estate'', [''REAL ESTATE'', ''REIT'']),
     (''Utilities'', [''ELECTRIC SERV'', ''UTILIT'', ''WATER SUPP'', ''GAS DISTRIB''])]"

fun occurs_in :: "string \<Rightarrow> string \<Rightarrow> bool" where
  "occurs_in k [] = (k = [])"
| "occurs_in k (c # s) = (take (length k) (c # s) = k \<or> occurs_in k s)"

definition canonical_sector :: "pyval \<Rightarrow> pyexn + string" where
  "canonical_sector raw =
     (if \<not> truthy raw then Inr ''Unclassified''
      else (case raw of
              PStr s \<Rightarrow> Inr (case find (\<lambda>(name, kws). list_ex (\<lambda>k. occurs_in k (str_upper s)) kws) sector_map of
                              None \<Rightarrow> ''Unclassified'' | Some (name, _) \<Rightarrow> name)
            | _ \<Rightarrow> Inl AttributeError))"

subsection \<open>Configuration and results\<close>

datatype severity = WARN | BLOCK | FORCE_CLOSE

record envelope_config =
  ec_delta :: pynum
  ec_gamma :: pynum
  ec_vega :: pynum
  ec_theta :: pynum
  ec_symbol :: pynum
  ec_sector :: pynum
  ec_expiry :: pynum
  ec_cluster :: pynum
  ec_event :: pynum
  ec_earnings :: int
  ec_daily :: pynum
  ec_weekly :: pynum
  ec_per_symbol :: pynum
  ec_spy :: pynum
  ec_vix :: pynum
  ec_stress :: pynum
  ec_symbol_severity :: severity

definition env_float :: "(string \<Rightarrow> string option) \<Rightarrow> string \<Rightarrow> rat \<Rightarrow> pynum" where
  "env_float env key d =
     (case env key of None \<Rightarrow> Fin d | Some s \<Rightarrow> (case float_of_str s of None \<Rightarrow> Fin d | Some x \<Rightarrow> x))"

definition env_int :: "(string \<Rightarrow> string option) \<Rightarrow> string \<Rightarrow> int \<Rightarrow> int" where
  "env_int env key d =
     (case env key of None \<Rightarrow> d | Some s \<Rightarrow> (case int_of_str s of None \<Rightarrow> d | Some n \<Rightarrow> n))"

definition config_from_env :: "(string \<Rightarrow> string option) \<Rightarrow> envelope_config" where
  "config_from_env env =
     \<lparr>ec_delta = env_float env ''RISK_MAX_DELTA'' 0, ec_gamma = env_float env ''RISK_MAX_GAMMA'' 0,
      ec_vega = env_float env ''RISK_MAX_VEGA'' 0, ec_theta = env_float env ''RISK_MAX_THETA'' 0,
      ec_symbol = env_float env ''RISK_MAX_SYMBOL_PCT'' (25/100), ec_sector = env_float env ''RISK_MAX_SECTOR_PCT'' (40/100),
      ec_expiry = env_float env ''RISK_MAX_EXPIRY_PCT'' (50/100), ec_cluster = Fin (60/100),
      ec_event = env_float env ''RISK_MAX_EVENT_PCT'' (30/100), ec_earnings = env_int env ''RISK_MAX_EARNINGS_POS'' 3,
      ec_daily = env_float env ''RISK_MAX_DAILY_LOSS'' (5/100), ec_weekly = env_float env ''RISK_MAX_WEEKLY_LOSS'' (10/100),
      ec_per_symbol = env_float env ''RISK_MAX_SYMBOL_LOSS'' (3/100),
      ec_spy = env_float env ''RISK_STRESS_SPY_DOWN'' (5/100), ec_vix = env_float env ''RISK_STRESS_VIX_SPIKE'' (50/100),
      ec_stress = env_float env ''RISK_MAX_STRESS_LOSS'' (15/100), ec_symbol_severity = BLOCK\<rparr>"

record violation =
  vi_envelope :: string
  vi_limit :: pynum
  vi_actual :: pynum
  vi_severity :: severity
  vi_subject :: pyval

datatype envelope_error = PositionRiskUnavailable | EnvelopeExn pyexn

definition env_lift :: "pyexn + 'a \<Rightarrow> envelope_error + 'a" where
  "env_lift m = (case m of Inl e \<Rightarrow> Inl (EnvelopeExn e) | Inr x \<Rightarrow> Inr x)"

subsection \<open>Fields and risk of a position\<close>

definition pos_field :: "pydict \<Rightarrow> string \<Rightarrow> pyval \<Rightarrow> pyval" where
  "pos_field pos key d = py_or (dget pos key) d"

definition pos_float :: "pydict \<Rightarrow> string \<Rightarrow> envelope_error + pynum" where
  "pos_float pos key = env_lift (py_float (pos_field pos key (PInt 0)))"

definition pos_risk :: "(pyval \<Rightarrow> string) \<Rightarrow> pydict \<Rightarrow> envelope_error + rat" where
  "pos_risk str pos =
     (case rbind (normalize_position str [] ''USD'' ''risk_envelope'' (PDict pos)) analyze_payoff of
        Inl _ \<Rightarrow> Inl PositionRiskUnavailable
      | Inr prof \<Rightarrow>
          (case pp_max_loss prof of
             Some ml \<Rightarrow> if pp_class prof = DEFINED_RISK then Inr ml else Inl PositionRiskUnavailable
           | None \<Rightarrow> Inl PositionRiskUnavailable))"

text \<open>\<open>for leg in pos.get("legs") or []\<close>: iterating a text or a dictionary yields text.\<close>

definition iter_legs :: "pyval \<Rightarrow> envelope_error + pyval list" where
  "iter_legs v =
     (if \<not> truthy v then Inr []
      else (case v of
              PList xs \<Rightarrow> Inr xs
            | PStr s \<Rightarrow> Inr (map (\<lambda>c. PStr [c]) s)
            | PDict d \<Rightarrow> Inr (map (\<lambda>kv. PStr (fst kv)) d)
            | _ \<Rightarrow> Inl (EnvelopeExn TypeError)))"

definition finite_greek_value :: "pyval \<Rightarrow> string \<Rightarrow> rat option" where
  "finite_greek_value greeks key = (case greeks of PDict d \<Rightarrow> finite_or_none (dget d key) | _ \<Rightarrow> None)"

definition leg_sign_of :: "pydict \<Rightarrow> reject_reason + int" where
  "leg_sign_of leg = direction_sign (leg_side_value leg)"

subsection \<open>Greeks\<close>

record greek_book =
  gb_delta :: rat
  gb_gamma :: rat
  gb_vega :: rat
  gb_theta :: rat
  gb_total :: nat
  gb_with :: nat

definition full_dict :: "pyval \<Rightarrow> bool" where
  "full_dict v \<longleftrightarrow> (case v of PDict d \<Rightarrow> d \<noteq> [] | _ \<Rightarrow> False)"

definition add_leg_greeks :: "pydict \<Rightarrow> pyval \<Rightarrow> pyval \<Rightarrow> greek_book \<Rightarrow> greek_book" where
  "add_leg_greeks pos qty leg gb =
     (case leg of
        PDict l \<Rightarrow>
          (let gb1 = gb\<lparr>gb_total := gb_total gb + 1\<rparr>;
               src = (if full_dict (dget l ''greeks'') then dget l ''greeks'' else dget pos ''greeks'')
           in if \<not> full_dict src then gb1
              else (case (finite_greek_value src ''delta'', finite_greek_value src ''gamma'',
                          finite_greek_value src ''vega'', finite_greek_value src ''theta'') of
                 (Some d, Some g, Some v, Some t) \<Rightarrow>
                   (case (leg_sign_of l, leg_full_contract_count leg qty) of
                      (Inr sg, Some cnt) \<Rightarrow>
                        (let w = of_int sg * of_int cnt * 100
                         in gb1\<lparr>gb_delta := gb_delta gb + w * d, gb_gamma := gb_gamma gb + w * g,
                                gb_vega := gb_vega gb + w * v, gb_theta := gb_theta gb + w * t,
                                gb_with := gb_with gb + 1\<rparr>)
                    | _ \<Rightarrow> gb1)
               | _ \<Rightarrow> gb1))
      | _ \<Rightarrow> gb)"

definition add_pos_greeks :: "pydict \<Rightarrow> greek_book \<Rightarrow> envelope_error + greek_book" where
  "add_pos_greeks pos gb =
     rbind (pos_float pos ''quantity'') (\<lambda>qty.
     rbind (iter_legs (dget pos ''legs'')) (\<lambda>legs.
       Inr (fold (add_leg_greeks pos (PFloat qty)) legs gb)))"

definition greek_violation :: "string \<Rightarrow> pynum \<Rightarrow> rat \<Rightarrow> violation list" where
  "greek_violation name limit value =
     (if flt (Fin 0) limit \<and> flt limit (Fin \<bar>value\<bar>)
      then [\<lparr>vi_envelope = name, vi_limit = limit, vi_actual = Fin \<bar>value\<bar>, vi_severity = WARN, vi_subject = PNone\<rparr>]
      else [])"

definition check_greeks :: "pydict list \<Rightarrow> envelope_config \<Rightarrow> envelope_error + violation list \<times> greek_book" where
  "check_greeks positions cfg =
     rbind (rfold add_pos_greeks positions
              \<lparr>gb_delta = 0, gb_gamma = 0, gb_vega = 0, gb_theta = 0, gb_total = 0, gb_with = 0\<rparr>)
       (\<lambda>gb. Inr (greek_violation ''greeks_delta'' (ec_delta cfg) (gb_delta gb) @
                  greek_violation ''greeks_gamma'' (ec_gamma cfg) (gb_gamma gb) @
                  greek_violation ''greeks_vega'' (ec_vega cfg) (gb_vega gb) @
                  greek_violation ''greeks_theta'' (ec_theta cfg) (gb_theta gb), gb))"

text \<open>
  The canonical aggregate: a Greek is known only when every position could be normalized and
  every leg carries it.
\<close>

record canonical_greeks =
  cg_delta :: "rat option"
  cg_gamma :: "rat option"
  cg_vega :: "rat option"
  cg_theta :: "rat option"
  cg_total :: nat
  cg_with :: nat
  cg_unrepresentable :: nat
  cg_missing_legs :: "string list"
  cg_sources :: "string list"
  cg_as_of :: "string list"

definition plus_known :: "rat option \<Rightarrow> rat option \<Rightarrow> rat option" where
  "plus_known a b = (case (a, b) of (Some x, Some y) \<Rightarrow> Some (x + y) | _ \<Rightarrow> None)"

definition add_canonical :: "(pyval \<Rightarrow> string) \<Rightarrow> pydict \<Rightarrow> canonical_greeks \<Rightarrow> canonical_greeks" where
  "add_canonical str pos cg =
     (case normalize_position str [] ''USD'' ''risk_envelope_observe'' (PDict pos) of
        Inl _ \<Rightarrow> cg\<lparr>cg_delta := None, cg_gamma := None, cg_vega := None, cg_theta := None,
                   cg_unrepresentable := cg_unrepresentable cg + 1\<rparr>
      | Inr p \<Rightarrow>
          (let e = aggregate_greeks p
           in cg\<lparr>cg_delta := plus_known (cg_delta cg) (ge_delta e), cg_gamma := plus_known (cg_gamma cg) (ge_gamma e),
                 cg_vega := plus_known (cg_vega cg) (ge_vega e), cg_theta := plus_known (cg_theta cg) (ge_theta e),
                 cg_total := cg_total cg + ge_legs_total e, cg_with := cg_with cg + ge_legs_with_greeks e,
                 cg_missing_legs := cg_missing_legs cg @ ge_missing_legs e,
                 cg_sources := cg_sources cg @ ge_sources e, cg_as_of := cg_as_of cg @ ge_as_of e\<rparr>))"

definition sorted_set :: "string list \<Rightarrow> string list" where
  "sorted_set xs = sort (remdups xs)"

definition aggregate_canonical_greeks :: "(pyval \<Rightarrow> string) \<Rightarrow> pydict list \<Rightarrow> canonical_greeks \<times> bool" where
  "aggregate_canonical_greeks str positions =
     (let cg = fold (add_canonical str) positions
                 \<lparr>cg_delta = Some 0, cg_gamma = Some 0, cg_vega = Some 0, cg_theta = Some 0, cg_total = 0, cg_with = 0,
                  cg_unrepresentable = 0, cg_missing_legs = [], cg_sources = [], cg_as_of = []\<rparr>
      in (cg\<lparr>cg_missing_legs := sorted_set (cg_missing_legs cg), cg_sources := sorted_set (cg_sources cg),
             cg_as_of := sorted_set (cg_as_of cg)\<rparr>,
          cg_unrepresentable cg = 0 \<and> cg_delta cg \<noteq> None \<and> cg_gamma cg \<noteq> None \<and> cg_vega cg \<noteq> None
                \<and> cg_theta cg \<noteq> None))"

subsection \<open>Concentration\<close>

record concentration =
  cn_symbol :: rat
  cn_sector :: rat
  cn_expiry :: rat
  cn_earnings :: nat

record risk_maps =
  rm_symbol :: "(pyval \<times> rat) list"
  rm_sector :: "(pyval \<times> rat) list"
  rm_expiry :: "(pyval \<times> rat) list"
  rm_earnings :: nat

definition add_risk :: "pyval \<Rightarrow> rat \<Rightarrow> (pyval \<times> rat) list \<Rightarrow> (pyval \<times> rat) list" where
  "add_risk k r m = AList.update k ((case map_of m k of None \<Rightarrow> 0 | Some x \<Rightarrow> x) + r) m"

definition hashable :: "pyval \<Rightarrow> bool" where
  "hashable v \<longleftrightarrow> (case v of PList _ \<Rightarrow> False | PDict _ \<Rightarrow> False | _ \<Rightarrow> True)"

text \<open>\<open>earnings\<close> tells whether the event signal of a symbol marks an earnings week.\<close>

definition add_concentration ::
    "(pyval \<Rightarrow> string) \<Rightarrow> (pyval \<Rightarrow> bool) \<Rightarrow> pydict \<Rightarrow> risk_maps \<Rightarrow> envelope_error + risk_maps" where
  "add_concentration str earnings pos m =
     rbind (pos_risk str pos) (\<lambda>r.
       let symbol = pos_field pos ''symbol'' (PStr ''UNKNOWN''); expiry = pos_field pos ''nearest_expiry'' (PStr [])
       in rbind (env_lift (canonical_sector (pos_field pos ''sector'' PNone))) (\<lambda>sector.
            if \<not> hashable symbol \<or> truthy expiry \<and> \<not> hashable expiry then Inl (EnvelopeExn TypeError)
            else Inr \<lparr>rm_symbol = add_risk symbol r (rm_symbol m), rm_sector = add_risk (PStr sector) r (rm_sector m),
                      rm_expiry = (if truthy expiry then add_risk expiry r (rm_expiry m) else rm_expiry m),
                      rm_earnings = rm_earnings m + (if earnings symbol then 1 else 0)\<rparr>))"

definition share_violations :: "string \<Rightarrow> pynum \<Rightarrow> severity \<Rightarrow> rat \<Rightarrow> (pyval \<times> rat) list \<Rightarrow> violation list" where
  "share_violations name limit sev tot m =
     map (\<lambda>(k, r). \<lparr>vi_envelope = name, vi_limit = limit, vi_actual = Fin (r / tot), vi_severity = sev, vi_subject = k\<rparr>)
       (filter (\<lambda>(k, r). flt limit (Fin (r / tot))) m)"

definition max_share :: "rat \<Rightarrow> (pyval \<times> rat) list \<Rightarrow> rat" where
  "max_share tot m = (if m = [] then 0 else Max (set (map (\<lambda>(_, r). r / tot) m)))"

definition check_concentration ::
    "(pyval \<Rightarrow> string) \<Rightarrow> (pyval \<Rightarrow> bool) \<Rightarrow> pydict list \<Rightarrow> rat \<Rightarrow> envelope_config
     \<Rightarrow> envelope_error + violation list \<times> concentration option" where
  "check_concentration str earnings positions tot cfg =
     (if tot \<le> 0 then Inr ([], None)
      else rbind (rfold (add_concentration str earnings) positions
                    \<lparr>rm_symbol = [], rm_sector = [], rm_expiry = [], rm_earnings = 0\<rparr>)
        (\<lambda>m. Inr (share_violations ''concentration_symbol'' (ec_symbol cfg) (ec_symbol_severity cfg) tot (rm_symbol m) @
                  share_violations ''concentration_sector'' (ec_sector cfg) WARN tot (rm_sector m) @
                  share_violations ''concentration_expiry'' (ec_expiry cfg) WARN tot (rm_expiry m) @
                  (if ec_earnings cfg < int (rm_earnings m)
                   then [\<lparr>vi_envelope = ''event_earnings_count'', vi_limit = Fin (of_int (ec_earnings cfg)),
                          vi_actual = Fin (of_nat (rm_earnings m)), vi_severity = BLOCK, vi_subject = PNone\<rparr>] else []),
                  Some \<lparr>cn_symbol = max_share tot (rm_symbol m), cn_sector = max_share tot (rm_sector m),
                        cn_expiry = max_share tot (rm_expiry m), cn_earnings = rm_earnings m\<rparr>)))"

subsection \<open>Loss envelopes\<close>

record loss_stop =
  lo_cohort :: pyval
  lo_symbol :: pyval
  lo_id :: pyval
  lo_loss :: pynum

record degraded_mark =
  dm_id :: pyval
  dm_symbol :: pyval
  dm_stale :: pynum

record loss_check =
  lc_violations :: "violation list"
  lc_close :: "pyval list"
  lc_status :: "(pynum \<times> pynum) option"
  lc_degraded :: "degraded_mark list"
  lc_stops :: "loss_stop list"

text \<open>\<open>_mark_all_positions_for_close\<close>.\<close>

definition mark_for_close :: "pydict list \<Rightarrow> pyval list \<Rightarrow> pyval list" where
  "mark_for_close positions ids =
     fold (\<lambda>pos ids. let pid = pos_field pos ''id'' PNone
                     in if truthy pid \<and> pid \<notin> set ids then ids @ [pid] else ids) positions ids"

definition account_stop :: "string \<Rightarrow> pynum \<Rightarrow> pynum \<Rightarrow> pydict list \<Rightarrow> loss_check \<Rightarrow> loss_check" where
  "account_stop name limit pct positions lc =
     (if flt pct (fneg limit)
      then lc\<lparr>lc_violations := lc_violations lc @
               [\<lparr>vi_envelope = name, vi_limit = limit, vi_actual = fabs pct, vi_severity = FORCE_CLOSE, vi_subject = PNone\<rparr>],
              lc_close := mark_for_close positions (lc_close lc)\<rparr>
      else lc)"

definition position_stop :: "pynum \<Rightarrow> pydict \<Rightarrow> loss_check \<Rightarrow> envelope_error + loss_check" where
  "position_stop limit pos lc =
     rbind (pos_float pos ''unrealized_pl'') (\<lambda>u. Inr
       (let symbol = pos_field pos ''symbol'' (PStr ''?''); pid = pos_field pos ''id'' (PStr ''unknown'')
        in if truthy (pos_field pos ''_mark_unpriceable'' (PBool False))
           then lc\<lparr>lc_degraded := lc_degraded lc @ [\<lparr>dm_id = pid, dm_symbol = symbol, dm_stale = u\<rparr>]\<rparr>
           else if flt u (fneg limit)
           then lc\<lparr>lc_close := lc_close lc @ [pid],
                   lc_violations := lc_violations lc @ [\<lparr>vi_envelope = ''loss_per_symbol'', vi_limit = limit,
                      vi_actual = fabs u, vi_severity = FORCE_CLOSE, vi_subject = symbol\<rparr>],
                   lc_stops := lc_stops lc @ [\<lparr>lo_cohort = dget pos ''cohort_id'', lo_symbol = symbol, lo_id = pid, lo_loss = u\<rparr>]\<rparr>
           else lc))"

definition no_losses :: loss_check where
  "no_losses = \<lparr>lc_violations = [], lc_close = [], lc_status = None, lc_degraded = [], lc_stops = []\<rparr>"

definition check_loss_envelopes ::
    "pynum \<Rightarrow> pynum \<Rightarrow> pynum \<Rightarrow> pydict list \<Rightarrow> envelope_config \<Rightarrow> envelope_error + loss_check" where
  "check_loss_envelopes equity daily weekly positions cfg =
     (if fle equity (Fin 0) then Inr no_losses
      else rbind (env_lift (fdiv daily equity)) (\<lambda>daily_pct.
           rbind (env_lift (fdiv weekly equity)) (\<lambda>weekly_pct.
             rfold (position_stop (fmul equity (ec_per_symbol cfg))) positions
               (account_stop ''loss_weekly'' (ec_weekly cfg) weekly_pct positions
                 (account_stop ''loss_daily'' (ec_daily cfg) daily_pct positions
                   (no_losses\<lparr>lc_status := Some (daily_pct, weekly_pct)\<rparr>))))))"

subsection \<open>Stress scenarios\<close>

record stress_book =
  sb_delta :: rat
  sb_vega :: rat
  sb_risk :: rat
  sb_delta_missing :: nat
  sb_vega_missing :: nat

record stress =
  ss_spy_raw :: "pynum option"
  ss_spy :: "pynum option"
  ss_vix_raw :: "pynum option"
  ss_vix :: "pynum option"
  ss_corr :: pynum
  ss_worst :: pynum
  ss_delta_missing :: nat
  ss_vega_missing :: nat

definition miss_both :: "stress_book \<Rightarrow> stress_book" where
  "miss_both sb = sb\<lparr>sb_delta_missing := sb_delta_missing sb + 1, sb_vega_missing := sb_vega_missing sb + 1\<rparr>"

definition add_leg_stress :: "pydict \<Rightarrow> pyval \<Rightarrow> pyval \<Rightarrow> stress_book \<Rightarrow> stress_book" where
  "add_leg_stress pos qty leg sb =
     (case leg of
        PDict l \<Rightarrow>
          (case (leg_sign_of l, leg_full_contract_count leg qty) of
             (Inr sg, Some cnt) \<Rightarrow>
               (let greeks = py_or (dget l ''greeks'') (dget pos ''greeks''); w = of_int sg * of_int cnt * 100;
                    sb1 = (case finite_greek_value greeks ''delta'' of
                             None \<Rightarrow> sb\<lparr>sb_delta_missing := sb_delta_missing sb + 1\<rparr>
                           | Some d \<Rightarrow> sb\<lparr>sb_delta := sb_delta sb + w * d\<rparr>)
                in case finite_greek_value greeks ''vega'' of
                     None \<Rightarrow> sb1\<lparr>sb_vega_missing := sb_vega_missing sb1 + 1\<rparr>
                   | Some v \<Rightarrow> sb1\<lparr>sb_vega := sb_vega sb1 + w * v\<rparr>)
           | _ \<Rightarrow> miss_both sb)
      | _ \<Rightarrow> miss_both sb)"

definition add_pos_stress :: "(pyval \<Rightarrow> string) \<Rightarrow> pydict \<Rightarrow> stress_book \<Rightarrow> envelope_error + stress_book" where
  "add_pos_stress str pos sb =
     rbind (pos_float pos ''quantity'') (\<lambda>qty.
     rbind (pos_risk str pos) (\<lambda>r.
     rbind (iter_legs (dget pos ''legs'')) (\<lambda>legs.
       Inr (fold (add_leg_stress pos (PFloat qty)) legs (sb\<lparr>sb_risk := sb_risk sb + r\<rparr>)))))"

text \<open>A scenario's loss, floored at the loss of the whole book; the raw figure is kept when it was below.\<close>

definition floored :: "pynum \<Rightarrow> rat \<Rightarrow> pynum \<Rightarrow> envelope_error + pynum option \<times> pynum option" where
  "floored loss bottom equity =
     (if flt loss (Fin bottom)
      then rbind (env_lift (fdiv loss equity)) (\<lambda>raw. rbind (env_lift (fdiv (Fin bottom) equity)) (\<lambda>x. Inr (Some raw, Some x)))
      else rbind (env_lift (fdiv loss equity)) (\<lambda>x. Inr (None, Some x)))"

definition worst_of :: "pynum option \<Rightarrow> pynum option \<Rightarrow> pynum \<Rightarrow> pynum" where
  "worst_of spy vix corr =
     (case (case spy of None \<Rightarrow> [] | Some x \<Rightarrow> [x]) @ (case vix of None \<Rightarrow> [] | Some x \<Rightarrow> [x]) @ [corr] of
        x # xs \<Rightarrow> foldl fmin x xs | [] \<Rightarrow> corr)"

definition stress_results :: "stress_book \<Rightarrow> pynum \<Rightarrow> envelope_config \<Rightarrow> envelope_error + stress" where
  "stress_results sb equity cfg =
     (let bottom = - sb_risk sb
      in rbind (if sb_delta_missing sb = 0
                then floored (fmul (fmul (Fin (sb_delta sb)) (ec_spy cfg)) (Fin (- 1))) bottom equity
                else Inr (None, None)) (\<lambda>(spy_raw, spy).
         rbind (if sb_vega_missing sb = 0
                then floored (fmul (fmul (Fin (sb_vega sb)) (ec_vix cfg)) (Fin 100)) bottom equity
                else Inr (None, None)) (\<lambda>(vix_raw, vix).
         rbind (env_lift (fdiv (Fin bottom) equity)) (\<lambda>corr.
           Inr \<lparr>ss_spy_raw = spy_raw, ss_spy = spy, ss_vix_raw = vix_raw, ss_vix = vix, ss_corr = corr,
                ss_worst = worst_of spy vix corr, ss_delta_missing = sb_delta_missing sb,
                ss_vega_missing = sb_vega_missing sb\<rparr>))))"

definition compute_stress_scenarios ::
    "(pyval \<Rightarrow> string) \<Rightarrow> pydict list \<Rightarrow> pynum \<Rightarrow> envelope_config \<Rightarrow> envelope_error + violation list \<times> stress option" where
  "compute_stress_scenarios str positions equity cfg =
     (if positions = [] \<or> fle equity (Fin 0) then Inr ([], None)
      else rbind (rfold (add_pos_stress str) positions
                    \<lparr>sb_delta = 0, sb_vega = 0, sb_risk = 0, sb_delta_missing = 0, sb_vega_missing = 0\<rparr>) (\<lambda>sb.
           rbind (stress_results sb equity cfg) (\<lambda>ss.
             Inr (if flt (ec_stress cfg) (fabs (ss_worst ss))
                  then [\<lparr>vi_envelope = ''stress_scenario'', vi_limit = ec_stress cfg, vi_actual = fabs (ss_worst ss),
                         vi_severity = WARN, vi_subject = PNone\<rparr>] else [], Some ss))))"

subsection \<open>All envelopes\<close>

record envelope_result =
  er_passed :: bool
  er_violations :: "violation list"
  er_sizing :: pynum
  er_close :: "pyval list"
  er_greeks :: greek_book
  er_canonical :: "canonical_greeks \<times> bool"
  er_concentration :: "concentration option"
  er_stress :: "stress option"
  er_loss :: "(pynum \<times> pynum) option"
  er_degraded :: "degraded_mark list"
  er_stops :: "loss_stop list"

definition add_violation :: "violation \<Rightarrow> envelope_result \<Rightarrow> envelope_result" where
  "add_violation v r = r\<lparr>er_violations := er_violations r @ [v],
     er_passed := (if vi_severity v \<in> set [BLOCK, FORCE_CLOSE] then False else er_passed r)\<rparr>"

definition sizing_multiplier :: "pynum \<Rightarrow> pynum \<Rightarrow> envelope_config \<Rightarrow> envelope_error + pynum" where
  "sizing_multiplier equity weekly cfg =
     (if flt (Fin 0) equity \<and> flt weekly (Fin 0)
      then rbind (env_lift (fdiv (fabs weekly) equity)) (\<lambda>pct.
        if flt (fmul (ec_weekly cfg) (Fin (1/2))) pct
        then rbind (env_lift (fdiv pct (ec_weekly cfg))) (\<lambda>ratio.
               Inr (fmax (Fin (3/10)) (fsub (Fin 1) (fmul ratio (Fin (7/10))))))
        else Inr (Fin 1))
      else Inr (Fin 1))"

definition check_all_envelopes ::
    "(pyval \<Rightarrow> string) \<Rightarrow> (pyval \<Rightarrow> bool) \<Rightarrow> pydict list \<Rightarrow> pynum \<Rightarrow> pynum \<Rightarrow> pynum \<Rightarrow> envelope_config
     \<Rightarrow> envelope_error + envelope_result" where
  "check_all_envelopes str earnings positions equity daily weekly cfg =
     rbind (rfold (\<lambda>p t. rbind (pos_risk str p) (\<lambda>r. Inr (t + r))) positions 0) (\<lambda>tot.
     rbind (check_greeks positions cfg) (\<lambda>(greek_vs, greeks).
     rbind (check_concentration str earnings positions tot cfg) (\<lambda>(conc_vs, conc).
     rbind (check_loss_envelopes equity daily weekly positions cfg) (\<lambda>lc.
     rbind (compute_stress_scenarios str positions equity cfg) (\<lambda>(stress_vs, stress).
     rbind (sizing_multiplier equity weekly cfg) (\<lambda>sizing.
       Inr (fold add_violation (greek_vs @ conc_vs @ lc_violations lc @ stress_vs)
              \<lparr>er_passed = True, er_violations = [], er_sizing = sizing, er_close = lc_close lc, er_greeks = greeks,
               er_canonical = aggregate_canonical_greeks str positions, er_concentration = conc, er_stress = stress,
               er_loss = lc_status lc, er_degraded = lc_degraded lc, er_stops = lc_stops lc\<rparr>)))))))"

text \<open>The pre-entry variant appends a candidate row to the book.\<close>

definition candidate_row :: "pyval \<Rightarrow> pynum \<Rightarrow> pydict" where
  "candidate_row symbol risk =
     [(''id'', PStr ''candidate''), (''symbol'', symbol), (''quantity'', PInt 1),
      (''max_credit'', PFloat (fmul risk (Fin (1/100)))), (''unrealized_pl'', PInt 0), (''status'', PStr ''open'')]"

definition check_new_position ::
    "(pyval \<Rightarrow> string) \<Rightarrow> (pyval \<Rightarrow> bool) \<Rightarrow> pyval \<Rightarrow> pynum \<Rightarrow> pydict list \<Rightarrow> pynum \<Rightarrow> envelope_config
     \<Rightarrow> envelope_error + envelope_result" where
  "check_new_position str earnings symbol risk existing equity cfg =
     check_all_envelopes str earnings (existing @ [candidate_row symbol risk]) equity (Fin 0) (Fin 0) cfg"

end
