(* ===== verification/Envelope_Correct.thy ===== *)
theory Envelope_Correct
  imports Risk_Envelope
begin

section \<open>What the risk envelopes guarantee\<close>

text \<open>
  The envelope check is compared with plain sums over the book: which books pass, which
  positions are force closed, what the stress figure means, and how sizes are scaled down.
\<close>

subsection \<open>Risk of a position and of the book\<close>

lemma env_lift_simps [simp]: "env_lift (Inr x) = Inr x" "env_lift (Inl e) = Inl (EnvelopeExn e)"
  by (simp_all add: env_lift_def)

lemma env_lift_Inr_iff [simp]: "env_lift m = Inr x \<longleftrightarrow> m = Inr x"
  by (cases m) (simp_all add: env_lift_def)

definition risk_of :: "(pyval \<Rightarrow> string) \<Rightarrow> pydict \<Rightarrow> rat" where
  "risk_of str p = (case pos_risk str p of Inr r \<Rightarrow> r | Inl _ \<Rightarrow> 0)"

definition book_risk :: "(pyval \<Rightarrow> string) \<Rightarrow> pydict list \<Rightarrow> rat" where
  "book_risk str ps = (\<Sum>p\<leftarrow>ps. risk_of str p)"

definition pnl_at :: "(pyval \<Rightarrow> string) \<Rightarrow> pydict \<Rightarrow> rat \<Rightarrow> rat" where
  "pnl_at str p x =
     (case rbind (normalize_position str [] ''USD'' ''risk_envelope'' (PDict p)) (\<lambda>c. expiration_pnl c x) of
        Inr v \<Rightarrow> v | Inl _ \<Rightarrow> 0)"

text \<open>The risk is the exact worst payoff of the position.\<close>

lemma pos_risk_spec:
  assumes "pos_risk str p = Inr r"
  shows "0 \<le> r" and "0 \<le> x \<Longrightarrow> - r \<le> pnl_at str p x" and "0 < r \<Longrightarrow> \<exists>x \<ge> 0. pnl_at str p x = - r"
proof -
  from assms obtain c prof where n: "normalize_position str [] ''USD'' ''risk_envelope'' (PDict p) = Inr c"
    and a: "analyze_payoff c = Inr prof" and ml: "pp_max_loss prof = Some r"
    by (auto simp: pos_risk_def rbind_Inr_iff split: sum.splits option.splits if_splits)
  have ok: "position_ok c" by (rule normalize_position_ok_aux [OF n])
  have slope: "0 \<le> upside_slope c" and r: "r = max 0 (- Min (set (map (pnl c) (0 # strikes c))))"
    using a ml unfolding analyze_payoff_value [OF ok] by (auto simp del: Min_insert split: if_splits)
  have at: "pnl_at str p x = pnl c x" if "0 \<le> x" for x
    using n that by (simp add: pnl_at_def expiration_pnl_value)
  show "0 \<le> r" by (simp add: r)
  show "- r \<le> pnl_at str p x" if "0 \<le> x"
    using Min_le_pnl [OF slope that] unfolding at [OF that] r by linarith
  show "\<exists>x \<ge> 0. pnl_at str p x = - r" if "0 < r"
  proof -
    from least_value obtain k where k: "k \<in> set (0 # strikes c)" "Min (set (map (pnl c) (0 # strikes c))) = pnl c k" by blast
    have "0 \<le> k" by (rule strikes_nonneg [OF ok k(1)])
    moreover have "pnl c k = - r" using that k(2) r by linarith
    ultimately show ?thesis using at by auto
  qed
qed

lemma book_total:
  "rfold (\<lambda>p t. rbind (pos_risk str p) (\<lambda>r. Inr (t + r))) ps t0 = Inr t \<Longrightarrow>
     t = t0 + book_risk str ps \<and> (\<forall>p \<in> set ps. pos_risk str p = Inr (risk_of str p))"
proof (induction ps arbitrary: t0)
  case (Cons p ps)
  then obtain r where r: "pos_risk str p = Inr r"
    "rfold (\<lambda>p t. rbind (pos_risk str p) (\<lambda>r. Inr (t + r))) ps (t0 + r) = Inr t" by (auto simp: rbind_Inr_iff)
  have "risk_of str p = r" using r(1) by (simp add: risk_of_def)
  with Cons.IH [OF r(2)] r(1) show ?case by (simp add: book_risk_def)
qed (simp add: book_risk_def)

lemma risk_of_nonneg: "0 \<le> risk_of str p"
  by (auto simp: risk_of_def dest: pos_risk_spec(1) split: sum.splits)

lemma sum_list_bound:
  fixes f g :: "'a \<Rightarrow> rat"
  shows "(\<And>x. x \<in> set xs \<Longrightarrow> f x \<le> g x) \<Longrightarrow> (\<Sum>x\<leftarrow>xs. f x) \<le> (\<Sum>x\<leftarrow>xs. g x)"
  by (induction xs) (auto intro: add_mono)

text \<open>A book and one terminal price for each of its positions.\<close>

definition at_prices :: "pydict list \<Rightarrow> (pydict \<times> rat) list \<Rightarrow> bool" where
  "at_prices ps qs \<longleftrightarrow> map fst qs = ps \<and> list_all (\<lambda>q. 0 \<le> snd q) qs"

definition book_pnl :: "(pyval \<Rightarrow> string) \<Rightarrow> (pydict \<times> rat) list \<Rightarrow> rat" where
  "book_pnl str qs = (\<Sum>q\<leftarrow>qs. pnl_at str (fst q) (snd q))"

lemma book_pnl_bound:
  assumes "\<forall>p \<in> set ps. pos_risk str p = Inr (risk_of str p)" "at_prices ps qs"
  shows "- book_risk str ps \<le> book_pnl str qs"
proof -
  have "(\<Sum>q\<leftarrow>qs. - risk_of str (fst q)) \<le> book_pnl str qs"
    unfolding book_pnl_def using assms pos_risk_spec(2)
    by (intro sum_list_bound) (fastforce simp: at_prices_def list_all_iff)
  moreover have "(\<Sum>q\<leftarrow>qs. - risk_of str (fst q)) = - book_risk str ps"
    using assms(2) by (auto simp: at_prices_def book_risk_def uminus_sum_list_map o_def)
  ultimately show ?thesis by simp
qed

lemma book_pnl_attained:
  assumes "\<forall>p \<in> set ps. pos_risk str p = Inr (risk_of str p) \<and> 0 < risk_of str p"
  shows "\<exists>qs. at_prices ps qs \<and> book_pnl str qs = - book_risk str ps"
  using assms
proof (induction ps)
  case Nil
  show ?case by (intro exI [of _ "[]"]) (simp add: at_prices_def book_pnl_def book_risk_def)
next
  case (Cons p ps)
  then obtain qs where "at_prices ps qs" "book_pnl str qs = - book_risk str ps" by auto
  moreover from Cons.prems obtain x where "0 \<le> x" "pnl_at str p x = - risk_of str p"
    using pos_risk_spec(3) [of str p "risk_of str p"] by auto
  ultimately show ?case
    by (intro exI [of _ "(p, x) # qs"]) (simp add: at_prices_def book_pnl_def book_risk_def)
qed

subsection \<open>Adding violations\<close>

lemma add_violations:
  "fold add_violation vs r = r\<lparr>er_violations := er_violations r @ vs,
     er_passed := (er_passed r \<and> list_all (\<lambda>v. vi_severity v = WARN) vs)\<rparr>"
proof (induction vs arbitrary: r)
  case (Cons v vs)
  show ?case unfolding fold_simps Cons.IH by (cases "vi_severity v") (simp_all add: add_violation_def)
qed simp

lemma check_all_parts:
  assumes "check_all_envelopes str earnings ps equity daily weekly cfg = Inr r"
  shows "\<exists>gvs gb cvs conc lc svs ss m. check_greeks ps cfg = Inr (gvs, gb) \<and>
    check_concentration str earnings ps (book_risk str ps) cfg = Inr (cvs, conc) \<and>
    check_loss_envelopes equity daily weekly ps cfg = Inr lc \<and>
    compute_stress_scenarios str ps equity cfg = Inr (svs, ss) \<and> sizing_multiplier equity weekly cfg = Inr m \<and>
    (\<forall>p \<in> set ps. pos_risk str p = Inr (risk_of str p)) \<and>
    er_passed r = list_all (\<lambda>v. vi_severity v = WARN) (gvs @ cvs @ lc_violations lc @ svs) \<and>
    er_violations r = gvs @ cvs @ lc_violations lc @ svs \<and> er_sizing r = m \<and> er_close r = lc_close lc \<and>
    er_concentration r = conc \<and> er_stress r = ss \<and> er_loss r = lc_status lc"
proof -
  from assms obtain t where t: "rfold (\<lambda>p t. rbind (pos_risk str p) (\<lambda>r. Inr (t + r))) ps 0 = Inr t"
    by (auto simp: check_all_envelopes_def rbind_Inr_iff)
  from book_total [OF t] have "t = book_risk str ps" "\<forall>p \<in> set ps. pos_risk str p = Inr (risk_of str p)" by simp_all
  with assms t show ?thesis
    by (auto simp: check_all_envelopes_def rbind_Inr_iff add_violations)
qed

text \<open>
  A defect: the pre-entry check can never admit anything. The candidate row it
  appends to the book has no legs, so its risk cannot be established and the check raises
  \<open>PositionRiskUnavailable\<close> for every candidate, book and configuration.
\<close>

theorem check_new_position_always_raises:
  "check_new_position str earnings symbol risk existing equity cfg = Inl PositionRiskUnavailable"
proof -
  have n: "exact_int (PInt 1) = Inr 1" using rat_trunc_of_int [of 1] by (simp add: exact_int_def)
  have c: "pos_risk str (candidate_row symbol risk) = Inl PositionRiskUnavailable"
    by (simp add: pos_risk_def normalize_position_def candidate_row_def dget_def n)
  have e: "pos_risk str p = Inl x \<Longrightarrow> x = PositionRiskUnavailable" for p x
    by (auto simp: pos_risk_def split: sum.splits option.splits if_splits)
  have "rfold (\<lambda>p t. rbind (pos_risk str p) (\<lambda>r. Inr (t + r))) (existing @ [candidate_row symbol risk]) t0
      = Inl PositionRiskUnavailable" for t0
  proof (induction existing arbitrary: t0)
    case (Cons p ps)
    then show ?case by (cases "pos_risk str p") (simp_all add: e)
  qed (simp add: c)
  then show ?thesis by (simp add: check_new_position_def check_all_envelopes_def)
qed

text \<open>
  The size multiplier is one until the week's loss passes half of its limit, then
  below 65 percent and falling with the loss, and never below 30 percent.
\<close>

theorem sizing_multiplier_bounds:
  assumes "sizing_multiplier (Fin e) (Fin wk) cfg = Inr m" and "ec_weekly cfg = Fin w" and "0 < w" and "0 < e"
  shows "\<exists>x. m = Fin x \<and> 3/10 \<le> x \<and> x \<le> 1 \<and>
    (- (wk / e) \<le> w / 2 \<longrightarrow> x = 1) \<and> (w / 2 < - (wk / e) \<longrightarrow> x < 65/100 \<and> x = max (3/10) (1 + 7/10 * (wk / e) / w)) \<and>
    (w \<le> - (wk / e) \<longrightarrow> x = 3/10)"
proof (cases "w / 2 < - (wk / e)")
  case True
  with assms(3) have "wk / e < 0" by linarith
  with assms(4) have wk: "wk < 0" by (simp add: divide_less_0_iff)
  then have pct: "\<bar>wk\<bar> / e = - (wk / e)" by simp
  have m: "m = Fin (max (3/10) (1 + 7/10 * (wk / e) / w))"
    using assms True wk pct by (auto simp: sizing_multiplier_def algebra_simps)
  define y where "y = wk / e"
  have b: "7/10 * y / w < - (35/100)" "w \<le> - y \<Longrightarrow> 7/10 * y / w \<le> - (7/10)"
    using True assms(3) unfolding y_def [symmetric] pos_divide_less_eq [OF assms(3)] pos_divide_le_eq [OF assms(3)] by simp_all
  have "m = Fin (max (3/10) (1 + 7/10 * y / w))" using m unfolding y_def .
  with b True show ?thesis unfolding y_def [symmetric]
    by (intro exI [of _ "max (3/10) (1 + 7/10 * y / w)"]) (auto simp: max_def)
next
  case False
  have "m = Fin 1"
    using assms False by (cases "wk < 0") (auto simp: sizing_multiplier_def algebra_simps)
  moreover have "\<not> w \<le> - (wk / e)" using False assms(3) by linarith
  ultimately show ?thesis using False by auto
qed

theorem sizing_multiplier_bounds_witness:
  "sizing_multiplier (Fin 1000) (Fin (- 80)) (config_from_env (\<lambda>_. None)) = Inr (Fin (44/100))"
proof -
  have c: "ec_weekly (config_from_env (\<lambda>_. None)) = Fin (1/10)" by (simp add: config_from_env_def env_float_def)
  obtain m where m: "sizing_multiplier (Fin 1000) (Fin (- 80)) (config_from_env (\<lambda>_. None)) = Inr m"
    by (simp add: sizing_multiplier_def c)
  from sizing_multiplier_bounds [OF m c] m show ?thesis by (auto simp: max_def)
qed

subsection \<open>Concentration sums\<close>

definition symbol_of :: "pydict \<Rightarrow> pyval" where
  "symbol_of p = pos_field p ''symbol'' (PStr ''UNKNOWN'')"

definition symbol_risk :: "(pyval \<Rightarrow> string) \<Rightarrow> pydict list \<Rightarrow> pyval \<Rightarrow> rat" where
  "symbol_risk str ps y = (\<Sum>p\<leftarrow>ps. if symbol_of p = y then risk_of str p else 0)"

definition earnings_plays :: "(pyval \<Rightarrow> bool) \<Rightarrow> pydict list \<Rightarrow> nat" where
  "earnings_plays earnings ps = length (filter (\<lambda>p. earnings (symbol_of p)) ps)"

definition risk_in :: "(pyval \<times> rat) list \<Rightarrow> pyval \<Rightarrow> rat" where
  "risk_in m k = (case map_of m k of None \<Rightarrow> 0 | Some x \<Rightarrow> x)"

lemma add_risk_props [simp]:
  "distinct (map fst m) \<Longrightarrow> distinct (map fst (add_risk k r m))"
  "fst ` set (add_risk k r m) = insert k (fst ` set m)"
  "risk_in (add_risk k r m) y = risk_in m y + (if k = y then r else 0)"
  by (auto simp: add_risk_def risk_in_def distinct_update dom_update update_conv')

lemma concentration_fold:
  assumes "rfold (add_concentration str earnings) ps m0 = Inr m" and "distinct (map fst (rm_symbol m0))"
  shows "distinct (map fst (rm_symbol m)) \<and> fst ` set (rm_symbol m) = fst ` set (rm_symbol m0) \<union> symbol_of ` set ps \<and>
    (\<forall>y. risk_in (rm_symbol m) y = risk_in (rm_symbol m0) y + symbol_risk str ps y) \<and>
    rm_earnings m = rm_earnings m0 + earnings_plays earnings ps"
  using assms
proof (induction ps arbitrary: m0)
  case (Cons p ps)
  then obtain m1 where m1: "add_concentration str earnings p m0 = Inr m1"
    "rfold (add_concentration str earnings) ps m1 = Inr m" by (auto simp: rbind_Inr_iff)
  then obtain r where r: "pos_risk str p = Inr r" and s1: "rm_symbol m1 = add_risk (symbol_of p) r (rm_symbol m0)"
    "rm_earnings m1 = rm_earnings m0 + (if earnings (symbol_of p) then 1 else 0)"
    by (auto simp: add_concentration_def rbind_Inr_iff Let_def symbol_of_def split: if_splits)
  have "risk_of str p = r" using r by (simp add: risk_of_def)
  with Cons.IH [OF m1(2)] Cons.prems(2) s1 show ?case by (auto simp: symbol_risk_def earnings_plays_def)
qed (simp add: symbol_risk_def earnings_plays_def)

lemma share_violations_quiet:
  assumes "distinct (map fst m)"
  shows "list_all (\<lambda>v. vi_severity v = WARN) (share_violations name limit sev t m) \<longleftrightarrow>
    sev = WARN \<or> (\<forall>k \<in> fst ` set m. \<not> flt limit (Fin (risk_in m k / t)))"
  using assms by (auto simp: share_violations_def list_all_iff risk_in_def)

lemma concentration_quiet:
  assumes "check_concentration str earnings ps t cfg = Inr (vs, conc)"
  shows "list_all (\<lambda>v. vi_severity v = WARN) vs \<longleftrightarrow> (0 < t \<longrightarrow>
    (ec_symbol_severity cfg = WARN \<or> (\<forall>p \<in> set ps. \<not> flt (ec_symbol cfg) (Fin (symbol_risk str ps (symbol_of p) / t)))) \<and>
    int (earnings_plays earnings ps) \<le> ec_earnings cfg)"
proof (cases "0 < t")
  case True
  with assms obtain m where m: "rfold (add_concentration str earnings) ps
      \<lparr>rm_symbol = [], rm_sector = [], rm_expiry = [], rm_earnings = 0\<rparr> = Inr m"
    and vs: "vs = share_violations ''concentration_symbol'' (ec_symbol cfg) (ec_symbol_severity cfg) t (rm_symbol m) @
        share_violations ''concentration_sector'' (ec_sector cfg) WARN t (rm_sector m) @
        share_violations ''concentration_expiry'' (ec_expiry cfg) WARN t (rm_expiry m) @
        (if ec_earnings cfg < int (rm_earnings m)
         then [\<lparr>vi_envelope = ''event_earnings_count'', vi_limit = Fin (of_int (ec_earnings cfg)),
                vi_actual = Fin (of_nat (rm_earnings m)), vi_severity = BLOCK, vi_subject = PNone\<rparr>] else [])"
    by (auto simp: check_concentration_def rbind_Inr_iff)
  from concentration_fold [OF m] have f: "distinct (map fst (rm_symbol m))" "fst ` set (rm_symbol m) = symbol_of ` set ps"
    "\<And>y. risk_in (rm_symbol m) y = symbol_risk str ps y" "rm_earnings m = earnings_plays earnings ps"
    by (simp_all add: risk_in_def)
  have w: "list_all (\<lambda>v. vi_severity v = WARN) (share_violations name limit WARN t xs)" for name limit xs
    by (simp add: share_violations_def list_all_iff split: prod.splits)
  show ?thesis using True w by (simp add: vs share_violations_quiet [OF f(1)] f(2-4) not_less)
next
  case False
  with assms show ?thesis by (simp add: check_concentration_def)
qed

subsection \<open>Loss stops\<close>

text \<open>A position with a usable mark whose loss is beyond the limit.\<close>

definition stopped_out :: "pynum \<Rightarrow> pydict \<Rightarrow> bool" where
  "stopped_out limit p \<longleftrightarrow> \<not> truthy (dget p ''_mark_unpriceable'') \<and>
     (case pos_float p ''unrealized_pl'' of Inr u \<Rightarrow> flt u (fneg limit) | Inl _ \<Rightarrow> False)"

lemma position_stops:
  assumes "rfold (position_stop limit) ps lc0 = Inr lc"
  shows "(list_all (\<lambda>v. vi_severity v = WARN) (lc_violations lc) \<longleftrightarrow>
      list_all (\<lambda>v. vi_severity v = WARN) (lc_violations lc0) \<and> (\<forall>p \<in> set ps. \<not> stopped_out limit p)) \<and>
    set (lc_close lc) = set (lc_close lc0) \<union> (\<lambda>p. pos_field p ''id'' (PStr ''unknown'')) ` {p \<in> set ps. stopped_out limit p} \<and>
    lc_status lc = lc_status lc0"
  using assms
proof (induction ps arbitrary: lc0)
  case (Cons p ps)
  then obtain lc1 where lc1: "position_stop limit p lc0 = Inr lc1" "rfold (position_stop limit) ps lc1 = Inr lc"
    by (auto simp: rbind_Inr_iff)
  then obtain u where u: "pos_float p ''unrealized_pl'' = Inr u" by (auto simp: position_stop_def rbind_Inr_iff)
  have t: "truthy (pos_field p ''_mark_unpriceable'' (PBool False)) \<longleftrightarrow> truthy (dget p ''_mark_unpriceable'')"
    by (simp add: pos_field_def py_or_def)
  show ?case
  proof (cases "stopped_out limit p")
    case True
    with lc1(1) u t have "set (lc_close lc1) = insert (pos_field p ''id'' (PStr ''unknown'')) (set (lc_close lc0))"
      "lc_status lc1 = lc_status lc0" "\<not> list_all (\<lambda>v. vi_severity v = WARN) (lc_violations lc1)"
      by (auto simp: position_stop_def stopped_out_def Let_def)
    with Cons.IH [OF lc1(2)] True show ?thesis by auto
  next
    case False
    with lc1(1) u t have "lc_close lc1 = lc_close lc0" "lc_status lc1 = lc_status lc0" "lc_violations lc1 = lc_violations lc0"
      by (auto simp: position_stop_def stopped_out_def Let_def split: if_splits)
    with Cons.IH [OF lc1(2)] False show ?thesis by auto
  qed
qed simp

lemma mark_for_close_set:
  "set (mark_for_close ps ids) = set ids \<union> {v. truthy v \<and> (\<exists>p \<in> set ps. v = dget p ''id'')}"
proof -
  have t: "pos_field p ''id'' PNone = (if truthy (dget p ''id'') then dget p ''id'' else PNone)" for p
    by (simp add: pos_field_def py_or_def)
  show ?thesis unfolding mark_for_close_def
    by (induction ps arbitrary: ids) (auto simp: t Let_def)
qed

lemma loss_envelopes:
  assumes "check_loss_envelopes (Fin e) (Fin dp) (Fin wp) ps cfg = Inr lc" and "0 < e"
    and "ec_daily cfg = Fin d" "ec_weekly cfg = Fin w" "ec_per_symbol cfg = Fin s"
  shows "(list_all (\<lambda>v. vi_severity v = WARN) (lc_violations lc) \<longleftrightarrow>
      - d \<le> dp / e \<and> - w \<le> wp / e \<and> (\<forall>p \<in> set ps. \<not> stopped_out (Fin (e * s)) p)) \<and>
    set (lc_close lc) = (if dp / e < - d \<or> wp / e < - w then {v. truthy v \<and> (\<exists>p \<in> set ps. v = dget p ''id'')} else {}) \<union>
      (\<lambda>p. pos_field p ''id'' (PStr ''unknown'')) ` {p \<in> set ps. stopped_out (Fin (e * s)) p}"
proof -
  let ?st = "no_losses\<lparr>lc_status := Some (Fin (dp / e), Fin (wp / e))\<rparr>"
  let ?lc1 = "account_stop ''loss_weekly'' (Fin w) (Fin (wp / e)) ps (account_stop ''loss_daily'' (Fin d) (Fin (dp / e)) ps ?st)"
  from assms have "rfold (position_stop (Fin (e * s))) ps ?lc1 = Inr lc"
    by (auto simp: check_loss_envelopes_def rbind_Inr_iff)
  from position_stops [OF this] show ?thesis
    by (auto simp: account_stop_def no_losses_def mark_for_close_set)
qed

subsection \<open>The theorems on the whole check\<close>

lemma greeks_quiet: "check_greeks ps cfg = Inr (vs, gb) \<Longrightarrow> list_all (\<lambda>v. vi_severity v = WARN) vs"
  by (auto simp: check_greeks_def rbind_Inr_iff greek_violation_def)

lemma stress_quiet: "compute_stress_scenarios str ps e cfg = Inr (vs, ss) \<Longrightarrow> list_all (\<lambda>v. vi_severity v = WARN) vs"
  by (auto simp: compute_stress_scenarios_def rbind_Inr_iff split: if_splits)

text \<open>
  C7 (safety). What passing means, exactly: with finite figures and the default severity, a book
  passes if and only if the day's and the week's loss are within their limits, no position with
  a usable mark has lost more than its share of equity, and, when any risk is held, no symbol
  holds more than its share of the book's exact worst-case risk and the earnings plays are
  within their count. Greeks, sectors, expiries and stress only warn.
\<close>

theorem envelopes_pass_exactly:
  assumes "check_all_envelopes str earnings ps (Fin e) (Fin dp) (Fin wp) cfg = Inr r" and "0 < e"
    and "ec_daily cfg = Fin d" and "ec_weekly cfg = Fin w" and "ec_per_symbol cfg = Fin s" and "ec_symbol cfg = Fin c"
    and "ec_symbol_severity cfg = BLOCK"
  shows "er_passed r \<longleftrightarrow> - d \<le> dp / e \<and> - w \<le> wp / e \<and> (\<forall>p \<in> set ps. \<not> stopped_out (Fin (e * s)) p) \<and>
    (0 < book_risk str ps \<longrightarrow>
       (\<forall>p \<in> set ps. symbol_risk str ps (symbol_of p) / book_risk str ps \<le> c) \<and>
       int (earnings_plays earnings ps) \<le> ec_earnings cfg)"
proof -
  from check_all_parts [OF assms(1)] obtain gvs gb cvs conc lc svs ss where
    parts: "check_greeks ps cfg = Inr (gvs, gb)" "check_concentration str earnings ps (book_risk str ps) cfg = Inr (cvs, conc)"
      "check_loss_envelopes (Fin e) (Fin dp) (Fin wp) ps cfg = Inr lc" "compute_stress_scenarios str ps (Fin e) cfg = Inr (svs, ss)"
    and passed: "er_passed r = list_all (\<lambda>v. vi_severity v = WARN) (gvs @ cvs @ lc_violations lc @ svs)" by blast
  show ?thesis unfolding passed
    using greeks_quiet [OF parts(1)] stress_quiet [OF parts(4)] concentration_quiet [OF parts(2)]
      loss_envelopes [OF parts(3) assms(2-5)] assms(6,7)
    by (auto simp: not_less)
qed

text \<open>
  Force closing is exact: an account-level breach closes every position that has an
  id, and otherwise exactly the positions beyond their own limit are closed. A position whose
  mark is unusable is never stopped out by its own figure.
\<close>

theorem force_close_exact:
  assumes "check_all_envelopes str earnings ps (Fin e) (Fin dp) (Fin wp) cfg = Inr r" and "0 < e"
    and "ec_daily cfg = Fin d" and "ec_weekly cfg = Fin w" and "ec_per_symbol cfg = Fin s"
  shows "set (er_close r) =
    (if dp / e < - d \<or> wp / e < - w then {v. truthy v \<and> (\<exists>p \<in> set ps. v = dget p ''id'')} else {}) \<union>
    (\<lambda>p. pos_field p ''id'' (PStr ''unknown'')) ` {p \<in> set ps. stopped_out (Fin (e * s)) p}"
proof -
  from check_all_parts [OF assms(1)] obtain lc where
    "check_loss_envelopes (Fin e) (Fin dp) (Fin wp) ps cfg = Inr lc" "er_close r = lc_close lc" by blast
  with loss_envelopes [OF _ assms(2-5)] show ?thesis by simp
qed

subsection \<open>Stress\<close>

lemma leg_stress_risk: "sb_risk (add_leg_stress pos qty leg sb) = sb_risk sb"
  by (simp add: add_leg_stress_def miss_both_def Let_def split: pyval.split sum.split option.split)

lemma legs_stress_risk: "sb_risk (fold (add_leg_stress pos qty) legs sb) = sb_risk sb"
  by (induction legs arbitrary: sb) (simp_all add: leg_stress_risk)

lemma pos_stress_risk: "add_pos_stress str p sb = Inr sb1 \<Longrightarrow> sb_risk sb1 = sb_risk sb + risk_of str p"
  by (auto simp: rbind_Inr_iff add_pos_stress_def legs_stress_risk risk_of_def)

lemma stress_fold_risk:
  "rfold (add_pos_stress str) ps sb0 = Inr sb \<Longrightarrow> sb_risk sb = sb_risk sb0 + book_risk str ps"
proof (induction ps arbitrary: sb0)
  case (Cons p ps)
  then obtain sb1 where "add_pos_stress str p sb0 = Inr sb1" "rfold (add_pos_stress str) ps sb1 = Inr sb"
    by (auto simp: rbind_Inr_iff)
  with Cons.IH pos_stress_risk show ?case by (fastforce simp: book_risk_def)
qed (simp add: book_risk_def)

lemma floored_Fin:
  assumes "0 < e" and "floored (Fin l) b (Fin e) = Inr (raw, x)"
  shows "x = Some (Fin (max l b / e))"
  using assms by (auto simp: floored_def rbind_Inr_iff max_def split: if_splits)

lemma worst_of_corr:
  assumes "\<And>x. spy = Some x \<Longrightarrow> \<exists>a. x = Fin a \<and> c \<le> a" "\<And>x. vix = Some x \<Longrightarrow> \<exists>a. x = Fin a \<and> c \<le> a"
  shows "worst_of spy vix (Fin c) = Fin c"
  using assms by (cases spy; cases vix) (force simp: worst_of_def)+

lemma stress_results_worst:
  assumes "stress_results sb (Fin e) cfg = Inr ss" and "0 < e" and "ec_spy cfg = Fin a" and "ec_vix cfg = Fin v"
  shows "ss_worst ss = Fin (- sb_risk sb / e) \<and> ss_corr ss = Fin (- sb_risk sb / e) \<and>
    (\<forall>x. ss_spy ss = Some x \<or> ss_vix ss = Some x \<longrightarrow> (\<exists>q. x = Fin q \<and> - sb_risk sb / e \<le> q))"
proof -
  from assms obtain sr sp vr vi where
    sp: "(if sb_delta_missing sb = 0 then floored (fmul (fmul (Fin (sb_delta sb)) (ec_spy cfg)) (Fin (- 1))) (- sb_risk sb) (Fin e) else Inr (None, None)) = Inr (sr, sp)"
    and vi: "(if sb_vega_missing sb = 0 then floored (fmul (fmul (Fin (sb_vega sb)) (ec_vix cfg)) (Fin 100)) (- sb_risk sb) (Fin e) else Inr (None, None)) = Inr (vr, vi)"
    and ss: "ss_spy ss = sp" "ss_vix ss = vi" "ss_corr ss = Fin (- sb_risk sb / e)" "ss_worst ss = worst_of sp vi (Fin (- sb_risk sb / e))"
    by (auto simp: stress_results_def rbind_Inr_iff Let_def)
  have ge: "- sb_risk sb / e \<le> max l (- sb_risk sb) / e" for l
    using assms(2) by (intro divide_right_mono) auto
  have s: "\<exists>q. x = Fin q \<and> - sb_risk sb / e \<le> q" if "sp = Some x" for x
    using sp that floored_Fin [OF assms(2)] ge assms(3) by (fastforce split: if_splits)
  have t: "\<exists>q. x = Fin q \<and> - sb_risk sb / e \<le> q" if "vi = Some x" for x
    using vi that floored_Fin [OF assms(2)] ge assms(4) by (fastforce split: if_splits)
  from worst_of_corr [OF s t] s t show ?thesis by (auto simp: ss)
qed

text \<open>
  What the stress figure is: the worst case is always the loss of the whole
  book's exact worst-case risk, whatever the index and volatility scenarios say, since both are
  floored there. At any prices at expiry, one per position, the book's profit is at least that
  figure times equity, and if every position is at risk some prices realise it.
\<close>

theorem stress_worst_is_book_risk:
  assumes "check_all_envelopes str earnings ps (Fin e) daily weekly cfg = Inr r" and "0 < e" and "ps \<noteq> []"
    and "ec_spy cfg = Fin a" and "ec_vix cfg = Fin v"
  shows "\<exists>ss w. er_stress r = Some ss \<and> ss_worst ss = Fin w \<and> w * e = - book_risk str ps \<and>
    (\<forall>qs. at_prices ps qs \<longrightarrow> w * e \<le> book_pnl str qs) \<and>
    ((\<forall>p \<in> set ps. 0 < risk_of str p) \<longrightarrow> (\<exists>qs. at_prices ps qs \<and> book_pnl str qs = w * e))"
proof -
  from check_all_parts [OF assms(1)] obtain svs so where
    st: "compute_stress_scenarios str ps (Fin e) cfg = Inr (svs, so)" "er_stress r = so"
    and ok: "\<forall>p \<in> set ps. pos_risk str p = Inr (risk_of str p)" by blast
  from st(1) assms(2,3) obtain sb ss where sb: "rfold (add_pos_stress str) ps
      \<lparr>sb_delta = 0, sb_vega = 0, sb_risk = 0, sb_delta_missing = 0, sb_vega_missing = 0\<rparr> = Inr sb"
    and ss: "stress_results sb (Fin e) cfg = Inr ss" "so = Some ss"
    by (auto simp: compute_stress_scenarios_def rbind_Inr_iff)
  have w: "ss_worst ss = Fin (- book_risk str ps / e)"
    using stress_results_worst [OF ss(1) assms(2,4,5)] stress_fold_risk [OF sb] by simp
  have m: "- book_risk str ps / e * e = - book_risk str ps" using assms(2) by simp
  show ?thesis
    by (intro exI [of _ ss] exI [of _ "- book_risk str ps / e"])
      (use w m ok st(2) ss(2) book_pnl_bound [OF ok] book_pnl_attained [of ps str] in auto)
qed

subsection \<open>A concrete book\<close>

text \<open>Two short put spreads, worth 700 dollars of risk, marked 400 dollars down on an equity of 10000.\<close>

definition held_row :: pydict where
  "held_row = [(''id'', PStr ''p1''), (''symbol'', PStr ''SPY''), (''unrealized_pl'', PInt (- 400))] @ spread_row"

lemma held_norm: "normalize_position (\<lambda>_. []) [] ''USD'' ''risk_envelope'' (PDict held_row) = Inr (spread_pos\<lparr>cp_provenance :=
    \<lparr>pv_source = ''risk_envelope'', pv_position_id = Some [], pv_from = ''persisted_legs_full_count_convention''\<rparr>\<rparr>)"
proof -
  have "normalize_legs (\<lambda>_. []) [] 2 [put_row ''SPY260116P00500000'' ''sell'', put_row ''SPY260116P00495000'' ''buy'']
      = Inr [(put_leg ''SPY260116P00500000'' 500 (- 1), [MULTIPLIER_ASSUMED_STANDARD_OCC, GREEKS_NOT_PERSISTED]),
             (put_leg ''SPY260116P00495000'' 495 1, [MULTIPLIER_ASSUMED_STANDARD_OCC, GREEKS_NOT_PERSISTED])]"
    using put_rows_norm by (simp add: normalize_legs_def put_row_def bind_eq_None_conv)
  then show ?thesis
    by (simp add: normalize_eval(1) make_position_def check_leg_of_def entry_cashflow_from_net_premium_def
        completeness_of_def fromkeys_def incompleteness_value_def held_row_def spread_row_def spread_pos_def put_leg_def py_defs)
qed

lemma held_risk: "pos_risk (\<lambda>_. []) held_row = Inr 700"
proof -
  have a: "(case analyze_payoff (spread_pos\<lparr>cp_provenance := pv\<rparr>) of
      Inr q \<Rightarrow> pp_max_loss q = Some 700 \<and> pp_class q = DEFINED_RISK | _ \<Rightarrow> False)" for pv
    by code_simp
  show ?thesis
    using a [of "\<lparr>pv_source = ''risk_envelope'', pv_position_id = Some [], pv_from = ''persisted_legs_full_count_convention''\<rparr>"]
    unfolding pos_risk_def held_norm by (auto split: sum.splits)
qed

lemma held_fields [simp]:
  "dget held_row ''id'' = PStr ''p1''" "dget held_row ''symbol'' = PStr ''SPY''" "dget held_row ''unrealized_pl'' = PInt (- 400)"
  "dget held_row ''quantity'' = PInt (- 2)" "dget held_row ''sector'' = PNone" "dget held_row ''nearest_expiry'' = PNone"
  "dget held_row ''_mark_unpriceable'' = PNone" "dget held_row ''greeks'' = PNone" "dget held_row ''cohort_id'' = PNone"
  "dget held_row ''legs'' = PList [put_row ''SPY260116P00500000'' ''sell'', put_row ''SPY260116P00495000'' ''buy'']"
  by (simp_all add: held_row_def spread_row_def dget_def)

definition default_config :: envelope_config where
  "default_config = config_from_env (\<lambda>_. None)"

lemma default_config_fields [simp]:
  "ec_daily default_config = Fin (5/100)" "ec_weekly default_config = Fin (10/100)" "ec_per_symbol default_config = Fin (3/100)"
  "ec_symbol default_config = Fin (25/100)" "ec_symbol_severity default_config = BLOCK"
  "ec_spy default_config = Fin (5/100)" "ec_vix default_config = Fin (50/100)" "ec_delta default_config = Fin 0"
  "ec_gamma default_config = Fin 0" "ec_vega default_config = Fin 0" "ec_theta default_config = Fin 0"
  by (simp_all add: default_config_def config_from_env_def env_float_def)

lemma put_row_greeks [simp]: "put_row s a = PDict l \<Longrightarrow> dget l ''greeks'' = PNone"
  by (auto simp: put_row_def dget_def)

lemma held_check:
  "\<exists>r. check_all_envelopes (\<lambda>_. []) (\<lambda>_. False) [held_row] (Fin 10000) (Fin (- 400)) (Fin (- 800)) default_config = Inr r"
proof -
  have f: "pos_float held_row ''quantity'' = Inr (Fin (- 2))" "pos_float held_row ''unrealized_pl'' = Inr (Fin (- 400))"
    by (simp_all add: pos_float_def pos_field_def)
  have "\<exists>vs gb. check_greeks [held_row] default_config = Inr (vs, gb)"
    by (simp add: check_greeks_def add_pos_greeks_def iter_legs_def f)
  moreover have "\<exists>vs c. check_concentration (\<lambda>_. []) (\<lambda>_. False) [held_row] 700 default_config = Inr (vs, c)"
    by (simp add: check_concentration_def add_concentration_def held_risk pos_field_def canonical_sector_def hashable_def)
  moreover have "\<exists>lc. check_loss_envelopes (Fin 10000) (Fin (- 400)) (Fin (- 800)) [held_row] default_config = Inr lc"
    by (simp add: check_loss_envelopes_def position_stop_def f)
  moreover have "\<exists>vs ss. compute_stress_scenarios (\<lambda>_. []) [held_row] (Fin 10000) default_config = Inr (vs, ss)"
    by (simp add: compute_stress_scenarios_def add_pos_stress_def held_risk iter_legs_def f stress_results_def Let_def floored_def rbind_Inr_iff)
  moreover have "\<exists>m. sizing_multiplier (Fin 10000) (Fin (- 800)) default_config = Inr m" by (simp add: sizing_multiplier_def)
  ultimately show ?thesis by (auto simp: check_all_envelopes_def held_risk)
qed

theorem envelopes_pass_exactly_witness:
  "\<exists>r. check_all_envelopes (\<lambda>_. []) (\<lambda>_. False) [held_row] (Fin 10000) (Fin (- 400)) (Fin (- 800)) default_config = Inr r
     \<and> \<not> er_passed r"
proof -
  obtain r where r: "check_all_envelopes (\<lambda>_. []) (\<lambda>_. False) [held_row] (Fin 10000) (Fin (- 400)) (Fin (- 800)) default_config = Inr r"
    using held_check by blast
  have k: "risk_of (\<lambda>_. []) held_row = 700" by (simp add: risk_of_def held_risk)
  from envelopes_pass_exactly [OF r _ default_config_fields(1-5)] r show ?thesis by (simp add: book_risk_def symbol_risk_def k)
qed

theorem force_close_exact_witness:
  "\<exists>r. check_all_envelopes (\<lambda>_. []) (\<lambda>_. False) [held_row] (Fin 10000) (Fin (- 400)) (Fin (- 800)) default_config = Inr r
     \<and> set (er_close r) = {PStr ''p1''}"
proof -
  obtain r where r: "check_all_envelopes (\<lambda>_. []) (\<lambda>_. False) [held_row] (Fin 10000) (Fin (- 400)) (Fin (- 800)) default_config = Inr r"
    using held_check by blast
  have "stopped_out (Fin 300) held_row" by (simp add: stopped_out_def pos_float_def pos_field_def)
  with force_close_exact [OF r _ default_config_fields(1-3)] r show ?thesis by (auto simp: pos_field_def)
qed

theorem stress_worst_is_book_risk_witness:
  "\<exists>r ss. check_all_envelopes (\<lambda>_. []) (\<lambda>_. False) [held_row] (Fin 10000) (Fin (- 400)) (Fin (- 800)) default_config = Inr r
     \<and> er_stress r = Some ss \<and> ss_worst ss = Fin (- 7/100)"
proof -
  obtain r where r: "check_all_envelopes (\<lambda>_. []) (\<lambda>_. False) [held_row] (Fin 10000) (Fin (- 400)) (Fin (- 800)) default_config = Inr r"
    using held_check by blast
  have "book_risk (\<lambda>_. []) [held_row] = 700" by (simp add: book_risk_def risk_of_def held_risk)
  with stress_worst_is_book_risk [OF r _ _ default_config_fields(6,7)] obtain ss w where
    "er_stress r = Some ss" "ss_worst ss = Fin w" "w * 10000 = - 700" by auto
  moreover from this(3) have "w = - 7/100" by simp
  ultimately show ?thesis using r by auto
qed

end
