(* ===== verification/Progression.thy ===== *)
theory Progression
  imports Py_Float
begin

section \<open>The go-live state machine\<close>

text \<open>
  Model of \<open>services/progression_service.py\<close> and of its two jobs
  \<open>jobs/handlers/promotion_check.py\<close> and \<open>jobs/handlers/daily_progression_eval.py\<close>: an account
  goes from \<open>alpaca_paper\<close> over \<open>micro_live\<close> to \<open>full_auto\<close>, a strategy graduates from
  \<open>experimental\<close> to \<open>live_full\<close>.

  The state is \<open>prog_db\<close>: the tables the code reads and writes. An operation that may raise
  after it has written returns the exception beside the database as it then is. What the
  environment decides in a call is the record \<open>prog_env\<close>: the clock, which database calls fail,
  the broker's account. Instants are seconds since the epoch, dates are day numbers.

  The class. The module-level function \<open>_build_full_auto_reason\<close> is declared in the middle of the
  class body, at column 0, which ends the class. The functions after it, \<open>get_execution_mode\<close> and
  \<open>_log_event\<close>, are nested in that function behind its \<open>return\<close>. Every operation takes the names
  of the class's methods, so that an attribute lookup can fail; \<open>progression_methods\<close> are the
  methods the class has.
\<close>

subsection \<open>Tables\<close>

datatype phase = AlpacaPaper | MicroLive | FullAuto

fun phase_name :: "phase \<Rightarrow> string" where
  "phase_name AlpacaPaper = ''alpaca_paper''"
| "phase_name MicroLive = ''micro_live''"
| "phase_name FullAuto = ''full_auto''"

lemma phase_name_inject [simp]: "phase_name p = phase_name q \<longleftrightarrow> p = q"
  by (cases p; cases q) simp_all

record prog_row =
  pg_user :: string
  pg_phase :: phase
  pg_green :: int
  pg_required :: int
  pg_last_green :: "int option"
  pg_paper_started :: "int option"
  pg_paper_completed :: "int option"
  pg_micro_started :: "int option"
  pg_micro_completed :: "int option"
  pg_full_started :: "int option"
  pg_updated :: "int option"

record log_row =
  lg_user :: string
  lg_event :: string
  lg_from :: "phase option"
  lg_to :: "phase option"

text \<open>A position and the orders that opened or closed it.\<close>

record trade_row =
  tr_id :: string
  tr_user :: string
  tr_status :: string
  tr_realized :: pyval
  tr_closed_at :: "int option"
  tr_strategy :: "string option"

record order_row =
  or_position :: string
  or_created :: int
  or_alpaca_id :: "string option"

datatype lifecycle = Designed | Experimental | LiveFull | Deprecated

fun lifecycle_name :: "lifecycle \<Rightarrow> string" where
  "lifecycle_name Designed = ''designed''"
| "lifecycle_name Experimental = ''experimental''"
| "lifecycle_name LiveFull = ''live_full''"
| "lifecycle_name Deprecated = ''deprecated''"

record strategy_row =
  st_name :: string
  st_state :: lifecycle
  st_transitioned :: "int option"
  st_trades :: "nat option"
  st_pl :: "pynum option"

datatype alert_row =
    LifecycleReadFailed
  | EligibilityFailed string
  | PromotionWriteFailed string
  | StrategyGraduated string pynum nat
  | PhaseAutoPromoted string pynum pynum nat

record prog_db =
  pd_rows :: "prog_row list"
  pd_log :: "log_row list"
  pd_baseline :: "(string \<times> pyval) list"
  pd_trades :: "trade_row list"
  pd_orders :: "order_row list"
  pd_strategies :: "strategy_row list"
  pd_alerts :: "alert_row list"

text \<open>
  One call's environment: the account is what \<open>get_alpaca_client\<close> and \<open>get_account\<close> give (an
  exception, no client, or the account's dictionary); a failing call of the database raises.
\<close>

record prog_env =
  pe_now :: int
  pe_state_ok :: bool
  pe_write_ok :: bool
  pe_log_ok :: bool
  pe_trades_ok :: bool
  pe_order_ok :: "string \<Rightarrow> bool"
  pe_account :: "pyexn + pydict option"
  pe_lifecycle_ok :: bool
  pe_strategy_ok :: "string \<Rightarrow> bool"
  pe_alert_ok :: bool

subsection \<open>Real trades\<close>

definition equity_threshold :: pynum where
  "equity_threshold = Fin 1500"

definition min_trades_full_auto :: nat where
  "min_trades_full_auto = 3"

definition min_trades_graduation :: nat where
  "min_trades_graduation = 3"

text \<open>The entry order of a position is its earliest order.\<close>

fun earliest :: "order_row list \<Rightarrow> order_row option" where
  "earliest [] = None"
| "earliest (x # xs) = (case earliest xs of None \<Rightarrow> Some x
     | Some y \<Rightarrow> if or_created x \<le> or_created y then Some x else Some y)"

definition alpaca_entry :: "prog_env \<Rightarrow> prog_db \<Rightarrow> string \<Rightarrow> bool" where
  "alpaca_entry env db i \<longleftrightarrow> pe_order_ok env i \<and>
     (case earliest (filter (\<lambda>q. or_position q = i) (pd_orders db)) of
        None \<Rightarrow> False
      | Some q \<Rightarrow> or_alpaca_id q \<noteq> None \<and> or_alpaca_id q \<noteq> Some [])"

definition within_window :: "int option \<Rightarrow> int option \<Rightarrow> int option \<Rightarrow> bool" where
  "within_window since until t \<longleftrightarrow>
     (case since of None \<Rightarrow> True | Some a \<Rightarrow> (case t of None \<Rightarrow> False | Some x \<Rightarrow> a \<le> x)) \<and>
     (case until of None \<Rightarrow> True | Some b \<Rightarrow> (case t of None \<Rightarrow> False | Some x \<Rightarrow> x \<le> b))"

definition get_alpaca_real_closed_trades ::
  "prog_env \<Rightarrow> string \<Rightarrow> int option \<Rightarrow> int option \<Rightarrow> string option \<Rightarrow> prog_db \<Rightarrow> pyexn + trade_row list" where
  "get_alpaca_real_closed_trades env user since until strategy db =
     (if \<not> pe_trades_ok env then Inl RuntimeError
      else Inr (filter (\<lambda>t. alpaca_entry env db (tr_id t))
                 (filter (\<lambda>t. tr_user t = user \<and> tr_status t = ''closed''
                    \<and> within_window since until (tr_closed_at t)
                    \<and> (strategy = None \<or> tr_strategy t = strategy)) (pd_trades db))))"

definition cumulative_realized_pl :: "trade_row list \<Rightarrow> pyexn + pynum" where
  "cumulative_realized_pl ts =
     rbind (rmap (\<lambda>t. py_float (py_or (tr_realized t) (PInt 0))) ts)
       (\<lambda>xs. Inr (foldl fadd (Fin 0) xs))"

subsection \<open>Reading and logging the state of an account\<close>

definition progression_methods :: "string list" where
  "progression_methods = [''__init__'', ''get_state'', ''record_trading_day'', ''promote'',
     ''is_eligible_for_full_auto'']"

definition find_prog :: "string \<Rightarrow> prog_db \<Rightarrow> prog_row option" where
  "find_prog user db = find (\<lambda>r. pg_user r = user) (pd_rows db)"

text \<open>A row as the table's defaults make it, and what \<open>get_state\<close> answers when the database fails.\<close>

definition new_prog_row :: "string \<Rightarrow> int \<Rightarrow> prog_row" where
  "new_prog_row user now =
     \<lparr>pg_user = user, pg_phase = AlpacaPaper, pg_green = 0, pg_required = 4, pg_last_green = None,
      pg_paper_started = Some now, pg_paper_completed = None, pg_micro_started = None,
      pg_micro_completed = None, pg_full_started = None, pg_updated = Some now\<rparr>"

definition fallback_row :: "string \<Rightarrow> prog_row" where
  "fallback_row user =
     \<lparr>pg_user = user, pg_phase = AlpacaPaper, pg_green = 0, pg_required = 4, pg_last_green = None,
      pg_paper_started = None, pg_paper_completed = None, pg_micro_started = None,
      pg_micro_completed = None, pg_full_started = None, pg_updated = None\<rparr>"

definition get_state :: "prog_env \<Rightarrow> string \<Rightarrow> prog_db \<Rightarrow> prog_row \<times> prog_db" where
  "get_state env user db =
     (if \<not> pe_state_ok env then (fallback_row user, db)
      else case find_prog user db of
          Some r \<Rightarrow> (r, db)
        | None \<Rightarrow> (let r = new_prog_row user (pe_now env)
                  in (r, db\<lparr>pd_rows := pd_rows db @ [r]\<rparr>)))"

text \<open>\<open>self._log_event(...)\<close>: the lookup of the method, then its body, which never raises.\<close>

definition log_event ::
  "string list \<Rightarrow> prog_env \<Rightarrow> string \<Rightarrow> string \<Rightarrow> phase option \<Rightarrow> phase option \<Rightarrow> prog_db \<Rightarrow> (pyexn + unit) \<times> prog_db" where
  "log_event ms env user event p q db =
     (if ''_log_event'' \<notin> set ms then (Inl AttributeError, db)
      else (Inr (), if pe_log_ok env
              then db\<lparr>pd_log := pd_log db @ [\<lparr>lg_user = user, lg_event = event, lg_from = p, lg_to = q\<rparr>]\<rparr>
              else db))"

definition write_row :: "string \<Rightarrow> (prog_row \<Rightarrow> prog_row) \<Rightarrow> prog_db \<Rightarrow> prog_db" where
  "write_row user f db = db\<lparr>pd_rows := update_rows (\<lambda>r. pg_user r = user) f (pd_rows db)\<rparr>"

subsection \<open>The end of a trading day\<close>

record day_report =
  dr_state :: prog_row
  dr_promoted :: bool
  dr_reason :: "string option"

text \<open>The paper account's baseline capital becomes the broker's equity; no failure escapes.\<close>

definition sync_baseline :: "prog_env \<Rightarrow> string \<Rightarrow> prog_db \<Rightarrow> prog_db" where
  "sync_baseline env user db =
     (case pe_account env of
        Inl e \<Rightarrow> db
      | Inr acct \<Rightarrow>
          (if \<not> pe_write_ok env then db
           else db\<lparr>pd_baseline := update_rows (\<lambda>x. fst x = user)
                (\<lambda>x. (fst x, case acct of None \<Rightarrow> PFloat (Fin 500)
                       | Some d \<Rightarrow> dget_default d ''equity'' (PFloat (Fin 500)))) (pd_baseline db)\<rparr>))"

definition day_update :: "int \<Rightarrow> bool \<Rightarrow> int \<Rightarrow> int option \<Rightarrow> bool \<Rightarrow> int \<Rightarrow> prog_row \<Rightarrow> prog_row" where
  "day_update date green n prev promoted now r =
     (let s = r\<lparr>pg_green := n, pg_last_green := (if green then Some date else prev), pg_updated := Some now\<rparr>
      in if promoted then s\<lparr>pg_paper_completed := Some now, pg_phase := MicroLive, pg_micro_started := Some now\<rparr>
         else s)"

definition record_trading_day ::
  "string list \<Rightarrow> prog_env \<Rightarrow> string \<Rightarrow> int \<Rightarrow> pynum \<Rightarrow> prog_db \<Rightarrow> (pyexn + day_report) \<times> prog_db" where
  "record_trading_day ms env user date pnl db =
     (case get_state env user db of (state, db1) \<Rightarrow>
       if pg_phase state \<noteq> AlpacaPaper
       then (Inr \<lparr>dr_state = state, dr_promoted = False, dr_reason = Some ''not_in_alpaca_paper''\<rparr>, db1)
       else
         (let green = flt (Fin 0) pnl;
              n = (if green then pg_green state + 1 else pg_green state);
              event = (if green then ''green_day'' else ''red_day'')
          in case log_event ms env user event None None db1 of
               (Inl e, db2) \<Rightarrow> (Inl e, db2)
             | (Inr _, db2) \<Rightarrow>
                 (let promoted = pg_required state \<le> n;
                      upd = day_update date green n (pg_last_green state) promoted (pe_now env)
                  in case (if promoted
                           then log_event ms env user ''promotion'' (Some AlpacaPaper) (Some MicroLive) db2
                           else (Inr (), db2)) of
                       (Inl e, db3) \<Rightarrow> (Inl e, db3)
                     | (Inr _, db3) \<Rightarrow>
                         (let db4 = (if promoted then sync_baseline env user db3 else db3)
                          in if \<not> pe_write_ok env then (Inl RuntimeError, db4)
                             else (Inr \<lparr>dr_state = upd state, dr_promoted = promoted, dr_reason = None\<rparr>,
                                   write_row user upd db4)))))"

subsection \<open>Promotion\<close>

fun valid_transition :: "phase \<Rightarrow> phase option" where
  "valid_transition AlpacaPaper = Some MicroLive"
| "valid_transition MicroLive = Some FullAuto"
| "valid_transition FullAuto = None"

datatype promote_result = Refused phase string | Promoted prog_row

definition promote_update :: "phase \<Rightarrow> int \<Rightarrow> prog_row \<Rightarrow> prog_row" where
  "promote_update target now r =
     (let s = r\<lparr>pg_phase := target, pg_updated := Some now\<rparr>
      in case target of
           MicroLive \<Rightarrow> s\<lparr>pg_paper_completed := Some now, pg_micro_started := Some now\<rparr>
         | FullAuto \<Rightarrow> s\<lparr>pg_micro_completed := Some now, pg_full_started := Some now\<rparr>
         | AlpacaPaper \<Rightarrow> s)"

definition promote ::
  "string list \<Rightarrow> prog_env \<Rightarrow> string \<Rightarrow> string \<Rightarrow> prog_db \<Rightarrow> (pyexn + promote_result) \<times> prog_db" where
  "promote ms env user target db =
     (case get_state env user db of (state, db1) \<Rightarrow>
       (case valid_transition (pg_phase state) of
          None \<Rightarrow> (Inr (Refused (pg_phase state) target), db1)
        | Some next \<Rightarrow>
            if phase_name next \<noteq> target then (Inr (Refused (pg_phase state) target), db1)
            else if \<not> pe_write_ok env then (Inl RuntimeError, db1)
            else
              (let upd = promote_update next (pe_now env);
                   db2 = write_row user upd db1
               in case log_event ms env user ''promotion'' (Some (pg_phase state)) (Some next) db2 of
                    (Inl e, db3) \<Rightarrow> (Inl e, db3)
                  | (Inr _, db3) \<Rightarrow> (Inr (Promoted (upd state)), db3))))"

subsection \<open>Eligibility\<close>

datatype full_auto_reason =
    EquityBelowThreshold pynum
  | PlNotPositive pynum
  | InsufficientTrades nat
  | AllGatesPassed

definition build_full_auto_reason :: "pynum \<Rightarrow> pynum \<Rightarrow> nat \<Rightarrow> full_auto_reason" where
  "build_full_auto_reason equity pl n =
     (if flt equity equity_threshold then EquityBelowThreshold equity
      else if fle pl (Fin 0) then PlNotPositive pl
      else if n < min_trades_full_auto then InsufficientTrades n
      else AllGatesPassed)"

record eligibility =
  el_eligible :: bool
  el_equity :: pynum
  el_pl :: pynum
  el_trades :: nat
  el_reason :: full_auto_reason

definition account_equity :: "prog_env \<Rightarrow> pynum" where
  "account_equity env =
     (case pe_account env of
        Inl _ \<Rightarrow> Fin 0
      | Inr None \<Rightarrow> Fin 0
      | Inr (Some d) \<Rightarrow> (case py_float (py_or (dget d ''equity'') (PInt 0)) of Inl _ \<Rightarrow> Fin 0 | Inr x \<Rightarrow> x))"

definition is_eligible_for_full_auto :: "prog_env \<Rightarrow> string \<Rightarrow> prog_db \<Rightarrow> pyexn + eligibility" where
  "is_eligible_for_full_auto env user db =
     rbind (get_alpaca_real_closed_trades env user None None None db) (\<lambda>ts.
     rbind (cumulative_realized_pl ts) (\<lambda>pl.
       let equity = account_equity env
       in Inr \<lparr>el_eligible = fle equity_threshold equity \<and> flt (Fin 0) pl \<and> min_trades_full_auto \<le> length ts,
               el_equity = equity, el_pl = pl, el_trades = length ts,
               el_reason = build_full_auto_reason equity pl (length ts)\<rparr>))"

definition get_strategy_eligibility :: "prog_env \<Rightarrow> string \<Rightarrow> string \<Rightarrow> prog_db \<Rightarrow> pyexn + bool \<times> pynum \<times> nat" where
  "get_strategy_eligibility env name user db =
     rbind (get_alpaca_real_closed_trades env user None None (Some name) db) (\<lambda>ts.
     rbind (cumulative_realized_pl ts) (\<lambda>pl.
       Inr (flt (Fin 0) pl \<and> min_trades_graduation \<le> length ts, pl, length ts)))"

subsection \<open>The strategy lifecycle\<close>

definition malformed_sentinel :: string where
  "malformed_sentinel = ''__malformed__''"

definition recognized_states :: "string list" where
  "recognized_states = [''designed'', ''experimental'', ''live_full'', ''deprecated'']"

datatype read_status = ReadOk | ReadEmpty | ReadFailed

record lifecycle_read =
  lr_states :: "string \<rightharpoonup> string"
  lr_status :: read_status
  lr_malformed :: nat

datatype lifecycle_rejection =
    LifecycleUnavailable | LifecycleEmpty | LifecycleMissing | LifecycleInvalidState

definition classify_for_entry :: "lifecycle_read \<Rightarrow> string \<Rightarrow> lifecycle_rejection + string" where
  "classify_for_entry res name =
     (if lr_status res = ReadFailed then Inl LifecycleUnavailable
      else if lr_status res = ReadEmpty then Inl LifecycleEmpty
      else case lr_states res name of
          None \<Rightarrow> Inl LifecycleMissing
        | Some s \<Rightarrow> if s \<notin> set recognized_states then Inl LifecycleInvalidState else Inr s)"

text \<open>One row of the payload: a name and a state are non-empty texts, or the row is malformed.\<close>

definition read_row :: "pyval \<Rightarrow> (string \<rightharpoonup> string) \<times> nat \<Rightarrow> (string \<rightharpoonup> string) \<times> nat" where
  "read_row v acc =
     (case acc of (states, bad) \<Rightarrow>
       (case v of
          PDict d \<Rightarrow>
            (case dget d ''strategy_name'' of
               PStr (c # cs) \<Rightarrow>
                 (case dget d ''current_state'' of
                    PStr (s # ss) \<Rightarrow> (states(c # cs \<mapsto> s # ss), bad)
                  | _ \<Rightarrow> (states(c # cs \<mapsto> malformed_sentinel), bad + 1))
             | _ \<Rightarrow> (states, bad + 1))
        | _ \<Rightarrow> (states, bad + 1)))"

definition load_strategy_lifecycle_states :: "pyexn + pyval \<Rightarrow> lifecycle_read" where
  "load_strategy_lifecycle_states res =
     (case res of
        Inl e \<Rightarrow> \<lparr>lr_states = Map.empty, lr_status = ReadFailed, lr_malformed = 0\<rparr>
      | Inr data \<Rightarrow>
          (case py_or data (PList []) of
             PList rows \<Rightarrow>
               (if rows = [] then \<lparr>lr_states = Map.empty, lr_status = ReadEmpty, lr_malformed = 0\<rparr>
                else case fold read_row rows (Map.empty, 0) of
                  (states, bad) \<Rightarrow> \<lparr>lr_states = states, lr_status = ReadOk, lr_malformed = bad\<rparr>)
           | _ \<Rightarrow> \<lparr>lr_states = Map.empty, lr_status = ReadFailed, lr_malformed = 0\<rparr>))"

text \<open>The rows of the table as the query returns them.\<close>

definition strategies_payload :: "prog_db \<Rightarrow> pyval" where
  "strategies_payload db =
     PList (map (\<lambda>r. PDict [(''strategy_name'', PStr (st_name r)),
                            (''current_state'', PStr (lifecycle_name (st_state r)))]) (pd_strategies db))"

text \<open>A failing alert is swallowed.\<close>

definition emit_alert :: "prog_env \<Rightarrow> alert_row \<Rightarrow> prog_db \<Rightarrow> prog_db" where
  "emit_alert env a db = (if pe_alert_ok env then db\<lparr>pd_alerts := pd_alerts db @ [a]\<rparr> else db)"

definition promote_strategy_to_full ::
  "prog_env \<Rightarrow> string \<Rightarrow> pynum \<Rightarrow> nat \<Rightarrow> prog_db \<Rightarrow> (pyexn + string \<times> pynum \<times> nat) \<times> prog_db" where
  "promote_strategy_to_full env name pl n db =
     (if \<not> pe_strategy_ok env name then (Inl RuntimeError, db)
      else (Inr (name, pl, n),
            emit_alert env (StrategyGraduated name pl n)
              (db\<lparr>pd_strategies := update_rows (\<lambda>r. st_name r = name)
                   (\<lambda>r. r\<lparr>st_state := LiveFull, st_transitioned := Some (pe_now env),
                          st_trades := Some n, st_pl := Some pl\<rparr>) (pd_strategies db)\<rparr>)))"

definition strategy_owner :: "string option \<Rightarrow> string" where
  "strategy_owner var = (case var of
       Some (c # cs) \<Rightarrow> c # cs
     | _ \<Rightarrow> ''75ee12ad-b119-4f32-aeea-19b4ef55d587'')"

definition evaluate_strategy ::
  "prog_env \<Rightarrow> string \<Rightarrow> string \<Rightarrow> (string \<times> pynum \<times> nat) list \<times> prog_db \<Rightarrow> (string \<times> pynum \<times> nat) list \<times> prog_db" where
  "evaluate_strategy env owner name acc =
     (case acc of (done, db) \<Rightarrow>
       (case get_strategy_eligibility env name owner db of
          Inl e \<Rightarrow> (done, emit_alert env (EligibilityFailed name) db)
        | Inr (eligible, pl, n) \<Rightarrow>
            if \<not> eligible then (done, db)
            else case promote_strategy_to_full env name pl n db of
                (Inl e, db1) \<Rightarrow> (done, emit_alert env (PromotionWriteFailed name) db1)
              | (Inr t, db1) \<Rightarrow> (done @ [t], db1)))"

definition experimental_names :: "prog_db \<Rightarrow> string list" where
  "experimental_names db = map st_name (filter (\<lambda>r. st_state r = Experimental) (pd_strategies db))"

definition evaluate_strategy_lifecycle ::
  "prog_env \<Rightarrow> string \<Rightarrow> prog_db \<Rightarrow> (string \<times> pynum \<times> nat) list \<times> prog_db" where
  "evaluate_strategy_lifecycle env owner db =
     (if \<not> pe_lifecycle_ok env then ([], emit_alert env LifecycleReadFailed db)
      else fold (evaluate_strategy env owner) (experimental_names db) ([], db))"

subsection \<open>The promotion job\<close>

definition execute_auto_promotion ::
  "string list \<Rightarrow> prog_env \<Rightarrow> string \<Rightarrow> eligibility \<Rightarrow> prog_db \<Rightarrow> (pyexn + unit) \<times> prog_db" where
  "execute_auto_promotion ms env user el db =
     (case promote ms env user ''full_auto'' db of
        (Inl e, db1) \<Rightarrow> (Inl e, db1)
      | (Inr (Refused _ _), db1) \<Rightarrow> (Inr (), db1)
      | (Inr (Promoted _), db1) \<Rightarrow>
          (Inr (), emit_alert env (PhaseAutoPromoted user (el_equity el) (el_pl el) (el_trades el)) db1))"

record check_report =
  cr_promoted :: "string list"
  cr_blocked :: "(string \<times> full_auto_reason) list"

text \<open>One user of the job's loop; every exception is logged and the loop goes on.\<close>

definition check_user ::
  "string list \<Rightarrow> prog_env \<Rightarrow> string \<Rightarrow> check_report \<times> prog_db \<Rightarrow> check_report \<times> prog_db" where
  "check_user ms env user acc =
     (case acc of (rep, db) \<Rightarrow>
       (case get_state env user db of (state, db1) \<Rightarrow>
         if pg_phase state \<noteq> MicroLive then (rep, db1)
         else case is_eligible_for_full_auto env user db1 of
             Inl e \<Rightarrow> (rep, db1)
           | Inr el \<Rightarrow>
               if el_eligible el then
                 (case execute_auto_promotion ms env user el db1 of
                    (Inl e, db2) \<Rightarrow> (rep, db2)
                  | (Inr _, db2) \<Rightarrow> (rep\<lparr>cr_promoted := cr_promoted rep @ [take 8 user]\<rparr>, db2))
               else (rep\<lparr>cr_blocked := cr_blocked rep @ [(take 8 user, el_reason el)]\<rparr>, db1)))"

datatype job_error = RetryableJobError | PermanentJobError

text \<open>The environment may differ from user to user: it is a function of the user.\<close>

definition promotion_check ::
  "string list \<Rightarrow> (string \<Rightarrow> prog_env) \<Rightarrow> pyexn + string list \<Rightarrow> prog_db \<Rightarrow> (job_error + check_report) \<times> prog_db" where
  "promotion_check ms env users db =
     (case users of
        Inl e \<Rightarrow> (Inl RetryableJobError, db)
      | Inr us \<Rightarrow>
          (case fold (\<lambda>u. check_user ms (env u) u) us (\<lparr>cr_promoted = [], cr_blocked = []\<rparr>, db) of
             (rep, db1) \<Rightarrow> (Inr rep, db1)))"

subsection \<open>The daily evaluation job\<close>

text \<open>The window of a day: midnight to 23:59:59 at the fixed offset of minus five hours.\<close>

definition day_start :: "int \<Rightarrow> int" where
  "day_start d = 86400 * d + 5 * 3600"

definition day_end :: "int \<Rightarrow> int" where
  "day_end d = 86400 * d + 23 * 3600 + 59 * 60 + 59 + 5 * 3600"

datatype user_result =
    NoCloses string
  | Evaluated string bool pynum nat bool int
  | EvalError string pyexn

definition eval_user ::
  "string list \<Rightarrow> prog_env \<Rightarrow> int \<Rightarrow> string \<Rightarrow> user_result list \<times> nat \<times> prog_db \<Rightarrow> user_result list \<times> nat \<times> prog_db" where
  "eval_user ms env today user acc =
     (case acc of (res, n, db) \<Rightarrow>
       (case get_alpaca_real_closed_trades env user (Some (day_start today)) (Some (day_end today)) None db of
          Inl e \<Rightarrow> (res @ [EvalError (take 8 user) e], n, db)
        | Inr ts \<Rightarrow>
            if ts = [] then (res @ [NoCloses (take 8 user)], n, db)
            else case cumulative_realized_pl ts of
                Inl e \<Rightarrow> (res @ [EvalError (take 8 user) e], n, db)
              | Inr pl \<Rightarrow>
                  (case record_trading_day ms env user today pl db of
                     (Inl e, db1) \<Rightarrow> (res @ [EvalError (take 8 user) e], n, db1)
                   | (Inr r, db1) \<Rightarrow>
                       (res @ [Evaluated (take 8 user) (flt (Fin 0) pl) (round2 pl) (length ts) (dr_promoted r) (pg_green (dr_state r))],
                        if dr_promoted r then n + 1 else n, db1))))"

record daily_report =
  dy_evaluated :: nat
  dy_promotions :: nat
  dy_transitions :: "(string \<times> pynum \<times> nat) list"
  dy_results :: "user_result list"

text \<open>The users are the one the payload names, or all active ones.\<close>

definition daily_progression_eval ::
  "string list \<Rightarrow> (string \<Rightarrow> prog_env) \<Rightarrow> prog_env \<Rightarrow> string \<Rightarrow> int \<Rightarrow> pyexn + string list \<Rightarrow> prog_db \<Rightarrow> (job_error + daily_report) \<times> prog_db" where
  "daily_progression_eval ms env lenv owner today users db =
     (case users of
        Inl e \<Rightarrow> (Inl (if e = ValueError then PermanentJobError else RetryableJobError), db)
      | Inr us \<Rightarrow>
          (case fold (\<lambda>u. eval_user ms (env u) today u) us ([], 0, db) of (res, n, db1) \<Rightarrow>
            (case evaluate_strategy_lifecycle lenv owner db1 of (ts, db2) \<Rightarrow>
              (Inr \<lparr>dy_evaluated = length res, dy_promotions = n, dy_transitions = ts,
                    dy_results = take 20 res\<rparr>, db2))))"

end
