(* ===== verification/Progression_Correct.thy ===== *)
theory Progression_Correct
  imports Progression
begin

section \<open>Correctness of the go-live state machine\<close>

text \<open>
  A step relation over all operations on the progression table, with the invariant every
  reachable table satisfies and the monotonicity of the phases; what the two jobs do with the
  class as it is; the graduation of strategies and the entry gate that reads their state.
\<close>

named_theorems prog_defs \<open>operations of the progression service\<close>

declare get_state_def [prog_defs] log_event_def [prog_defs] write_row_def [prog_defs]
  find_prog_def [prog_defs]

subsection \<open>The progression table\<close>

fun phase_rank :: "phase \<Rightarrow> nat" where
  "phase_rank AlpacaPaper = 0"
| "phase_rank MicroLive = 1"
| "phase_rank FullAuto = 2"

text \<open>The phases an account has been through carry their dates.\<close>

definition row_wf :: "prog_row \<Rightarrow> bool" where
  "row_wf r \<longleftrightarrow>
     (pg_phase r \<noteq> AlpacaPaper \<longrightarrow> pg_paper_completed r \<noteq> None \<and> pg_micro_started r \<noteq> None) \<and>
     (pg_phase r = FullAuto \<longrightarrow> pg_micro_completed r \<noteq> None \<and> pg_full_started r \<noteq> None)"

definition prog_inv :: "prog_db \<Rightarrow> bool" where
  "prog_inv db \<longleftrightarrow> distinct (map pg_user (pd_rows db)) \<and> (\<forall>r \<in> set (pd_rows db). row_wf r)"

definition advances :: "prog_db \<Rightarrow> prog_db \<Rightarrow> bool" where
  "advances db db' \<longleftrightarrow> (prog_inv db \<longrightarrow> prog_inv db' \<and>
     (\<forall>u r. find_prog u db = Some r \<longrightarrow>
        (\<exists>r'. find_prog u db' = Some r' \<and> phase_rank (pg_phase r) \<le> phase_rank (pg_phase r'))))"

lemma advances_refl [simp, intro]: "advances db db"
  by (simp add: advances_def)

lemma advances_same_rows: "pd_rows db' = pd_rows db \<Longrightarrow> advances db db'"
  by (simp add: advances_def prog_inv_def find_prog_def)

lemma advances_trans [trans]:
  assumes "advances a b" and "advances b c" shows "advances a c"
  unfolding advances_def
proof (intro impI conjI allI)
  assume a: "prog_inv a"
  then have b: "prog_inv b" using assms(1) by (simp add: advances_def)
  then show "prog_inv c" using assms(2) by (simp add: advances_def)
  fix u r assume "find_prog u a = Some r"
  then obtain r' where r': "find_prog u b = Some r'" "phase_rank (pg_phase r) \<le> phase_rank (pg_phase r')"
    using assms(1) a unfolding advances_def by blast
  then obtain r'' where "find_prog u c = Some r''" "phase_rank (pg_phase r') \<le> phase_rank (pg_phase r'')"
    using assms(2) b unfolding advances_def by blast
  with r' show "\<exists>r''. find_prog u c = Some r'' \<and> phase_rank (pg_phase r) \<le> phase_rank (pg_phase r'')"
    using le_trans by blast
qed

lemma find_append_None: "find P (xs @ ys) = (case find P xs of None \<Rightarrow> find P ys | Some x \<Rightarrow> Some x)"
  by (induction xs) auto

lemma find_Some_unique:
  "distinct (map key xs) \<Longrightarrow> x \<in> set xs \<Longrightarrow> find (\<lambda>y. key y = key x) xs = Some x"
  by (induction xs) auto

lemma find_update_rows_key:
  assumes "\<And>x. key (f x) = key x"
  shows "find (\<lambda>x. key x = u) (update_rows (\<lambda>x. key x = v) f xs)
           = map_option (\<lambda>x. if u = v then f x else x) (find (\<lambda>x. key x = u) xs)"
  using assms by (induction xs) auto

lemma find_prog_user: "find_prog u db = Some r \<Longrightarrow> pg_user r = u \<and> r \<in> set (pd_rows db)"
  unfolding find_prog_def by (drule find_Some_props) simp

lemma find_prog_same_rows: "pd_rows db' = pd_rows db \<Longrightarrow> find_prog u db' = find_prog u db"
  by (simp add: find_prog_def)

lemma find_prog_write:
  assumes "\<And>r. pg_user (f r) = pg_user r"
  shows "find_prog u (write_row v f db) = map_option (\<lambda>r. if u = v then f r else r) (find_prog u db)"
  using find_update_rows_key [of pg_user f, OF assms] by (simp add: find_prog_def write_row_def)

lemma new_prog_row_wf [simp]: "row_wf (new_prog_row u t)"
  by (simp add: row_wf_def new_prog_row_def)

lemma get_state_advances: "advances db (snd (get_state env u db))"
proof -
  have "u \<notin> pg_user ` set (pd_rows db)" if "find_prog u db = None"
    using that by (auto simp: find_prog_def find_None_iff)
  then show ?thesis
    by (auto simp: advances_def get_state_def prog_inv_def find_append_None find_prog_def new_prog_row_def row_wf_def Let_def
        split: option.splits)
qed

lemma get_state_found:
  assumes "pe_state_ok env" and "get_state env u db = (state, db1)"
  shows "find_prog u db1 = Some state"
  using assms by (auto simp: get_state_def find_prog_def find_append_None new_prog_row_def Let_def split: option.splits if_splits)

lemma write_row_advances:
  assumes f: "find_prog u db = Some s" and user: "\<And>r. pg_user (upd r) = pg_user r"
    and wf: "row_wf s \<Longrightarrow> row_wf (upd s)" and rank: "phase_rank (pg_phase s) \<le> phase_rank (pg_phase (upd s))"
  shows "advances db (write_row u upd db)"
  unfolding advances_def
proof (intro impI conjI allI)
  assume inv: "prog_inv db"
  have only: "r = s" if "r \<in> set (pd_rows db)" "pg_user r = u" for r
    using find_Some_unique [of pg_user "pd_rows db" r] that f inv by (simp add: prog_inv_def find_prog_def)
  show "prog_inv (write_row u upd db)"
    using inv wf only by (auto simp: prog_inv_def write_row_def set_update_rows map_key_update_rows user)
  fix v r assume "find_prog v db = Some r"
  then show "\<exists>r'. find_prog v (write_row u upd db) = Some r' \<and> phase_rank (pg_phase r) \<le> phase_rank (pg_phase r')"
    using f rank by (auto simp: find_prog_write user)
qed

lemma write_row_frame [simp]:
  "pd_log (write_row u f db) = pd_log db" "pd_alerts (write_row u f db) = pd_alerts db"
  "pd_trades (write_row u f db) = pd_trades db" "pd_orders (write_row u f db) = pd_orders db"
  by (simp_all add: write_row_def)

lemma log_event_rows: "pd_rows (snd (log_event ms env u e p q db)) = pd_rows db"
  by (simp add: log_event_def)

lemma sync_baseline_rows [simp]: "pd_rows (sync_baseline env u db) = pd_rows db"
  by (simp add: sync_baseline_def split: sum.splits)

lemma emit_alert_rows [simp]: "pd_rows (emit_alert env a db) = pd_rows db"
  by (simp add: emit_alert_def)

lemma day_update_user [simp]: "pg_user (day_update d g n prev p t r) = pg_user r"
  by (simp add: day_update_def Let_def)

lemma promote_update_user [simp]: "pg_user (promote_update p t r) = pg_user r"
  by (simp add: promote_update_def Let_def split: phase.splits)

lemma promote_update_phase [simp]: "pg_phase (promote_update p t r) = p"
  by (simp add: promote_update_def Let_def split: phase.splits)

lemma promote_advances:
  assumes ok: "pe_state_ok env"
  shows "advances db (snd (promote ms env u target db))"
proof -
  obtain state db1 where gs: "get_state env u db = (state, db1)" by fastforce
  have a1: "advances db db1" using get_state_advances [of db env u] gs by simp
  have found: "find_prog u db1 = Some state" by (rule get_state_found [OF ok gs])
  have a2: "advances db1 (write_row u (promote_update nx t) db1)" if "valid_transition (pg_phase state) = Some nx" for nx t
    by (rule write_row_advances [OF found]; use that in \<open>cases "pg_phase state"\<close>)
       (auto simp: row_wf_def promote_update_def Let_def)
  have a3: "advances db (snd (log_event ms env u e p q (write_row u (promote_update nx t) db1)))"
    if "valid_transition (pg_phase state) = Some nx" for nx t e p q
    using advances_trans [OF a1 advances_trans [OF a2 [OF that] advances_same_rows [OF log_event_rows]]] .
  show ?thesis
    unfolding promote_def gs using a1 a3 by (auto simp: Let_def split: option.splits prod.splits sum.splits) (metis snd_conv)+
qed

lemma record_trading_day_advances:
  assumes ok: "pe_state_ok env"
  shows "advances db (snd (record_trading_day ms env u d pnl db))"
proof -
  obtain state db1 where gs: "get_state env u db = (state, db1)" by fastforce
  have a1: "advances db db1" using get_state_advances [of db env u] gs by simp
  have found: "find_prog u db1 = Some state" by (rule get_state_found [OF ok gs])
  have same: "advances db db'" if "pd_rows db' = pd_rows db1" for db'
    using advances_trans [OF a1 advances_same_rows [OF that]] .
  have a2: "advances db (write_row u (day_update d g n prev p t) db')"
    if "pg_phase state = AlpacaPaper" "pd_rows db' = pd_rows db1" for g n prev p t db'
    by (rule advances_trans [OF same [OF that(2)]], rule write_row_advances [of _ _ state])
       (use found that in \<open>auto simp: find_prog_def row_wf_def day_update_def Let_def\<close>)
  show ?thesis
    unfolding record_trading_day_def gs
    using a1 same a2 by (auto simp: Let_def log_event_def split: prod.splits sum.splits)
qed


lemma execute_auto_promotion_advances:
  assumes "pe_state_ok env" shows "advances db (snd (execute_auto_promotion ms env u el db))"
proof -
  obtain res db1 where p: "promote ms env u ''full_auto'' db = (res, db1)" by fastforce
  have "advances db db1" using promote_advances [OF assms, of db ms u "''full_auto''"] p by simp
  then show ?thesis
    using advances_trans [OF _ advances_same_rows [OF emit_alert_rows]]
    by (auto simp: execute_auto_promotion_def p split: sum.splits promote_result.splits)
qed

lemma check_user_advances:
  assumes "pe_state_ok env" shows "advances (snd acc) (snd (check_user ms env u acc))"
proof -
  obtain rep db where acc: "acc = (rep, db)" by fastforce
  obtain state db1 where gs: "get_state env u db = (state, db1)" by fastforce
  have a1: "advances db db1" using get_state_advances [of db env u] gs by simp
  have a2: "advances db (snd (execute_auto_promotion ms env u el db1))" for el
    using advances_trans [OF a1 execute_auto_promotion_advances [OF assms]] .
  show ?thesis
    unfolding check_user_def acc using a1 a2
    by (auto simp: gs split: prod.splits sum.splits) (metis snd_conv)+
qed

lemma fold_advances:
  assumes "\<And>x acc. x \<in> set xs \<Longrightarrow> advances (g acc) (g (f x acc))"
  shows "advances (g acc) (g (fold f xs acc))"
  using assms by (induction xs arbitrary: acc) (auto intro: advances_trans)

lemma promotion_check_advances:
  assumes "\<And>u. pe_state_ok (env u)" shows "advances db (snd (promotion_check ms env users db))"
proof -
  have "advances db (snd (fold (\<lambda>u. check_user ms (env u) u) us (\<lparr>cr_promoted = [], cr_blocked = []\<rparr>, db)))" for us
    using fold_advances [of us snd "\<lambda>u. check_user ms (env u) u" "(\<lparr>cr_promoted = [], cr_blocked = []\<rparr>, db)"]
      check_user_advances assms by fastforce
  then show ?thesis
    by (auto simp: promotion_check_def split: sum.splits prod.splits) (metis snd_conv)
qed

lemma promote_strategy_rows [simp]: "pd_rows (snd (promote_strategy_to_full env name pl n db)) = pd_rows db"
  by (simp add: promote_strategy_to_full_def)

lemma evaluate_strategy_rows [simp]: "pd_rows (snd (evaluate_strategy env owner name acc)) = pd_rows (snd acc)"
  by (auto simp: evaluate_strategy_def promote_strategy_to_full_def split: prod.splits sum.splits)

lemma evaluate_strategy_lifecycle_rows [simp]:
  "pd_rows (snd (evaluate_strategy_lifecycle env owner db)) = pd_rows db"
proof -
  have "pd_rows (snd (fold (evaluate_strategy env owner) ns acc)) = pd_rows (snd acc)" for ns acc
    by (induction ns arbitrary: acc) auto
  then show ?thesis by (simp add: evaluate_strategy_lifecycle_def)
qed

lemma eval_user_advances:
  assumes "pe_state_ok env" shows "advances (snd (snd acc)) (snd (snd (eval_user ms env today u acc)))"
proof -
  obtain res n db where acc: "acc = (res, n, db)" by (cases acc)
  have a: "advances db (snd (record_trading_day ms env u today pl db))" for pl
    by (rule record_trading_day_advances [OF assms])
  show ?thesis
    unfolding eval_user_def acc using a by (auto split: prod.splits sum.splits) (metis snd_conv)+
qed

lemma daily_progression_eval_advances:
  assumes "\<And>u. pe_state_ok (env u)"
  shows "advances db (snd (daily_progression_eval ms env lenv owner today users db))"
proof -
  have a: "advances db (snd (snd (fold (\<lambda>u. eval_user ms (env u) today u) us ([], 0, db))))" for us
    using fold_advances [of us "\<lambda>x. snd (snd x)" "\<lambda>u. eval_user ms (env u) today u" "([], 0, db)"]
      eval_user_advances assms by fastforce
  show ?thesis
  proof (cases users)
    case (Inr us)
    obtain r n db1 where f: "fold (\<lambda>u. eval_user ms (env u) today u) us ([], 0, db) = (r, n, db1)"
      by (rule prod_cases3)
    obtain ts db2 where l: "evaluate_strategy_lifecycle lenv owner db1 = (ts, db2)" by fastforce
    have "advances db db1" using a [of us] f by simp
    moreover have "advances db1 db2"
      by (rule advances_same_rows) (use evaluate_strategy_lifecycle_rows [of lenv owner db1] l in simp)
    ultimately show ?thesis by (auto simp: daily_progression_eval_def Inr f l intro: advances_trans)
  qed (simp add: daily_progression_eval_def)
qed

text \<open>Any operation of the service or of its jobs, with a database that answers \<open>get_state\<close>.\<close>

inductive prog_step :: "string list \<Rightarrow> prog_db \<Rightarrow> prog_db \<Rightarrow> bool" for ms where
  read_state: "db' = snd (get_state env u db) \<Longrightarrow> prog_step ms db db'"
| trading_day: "pe_state_ok env \<Longrightarrow> db' = snd (record_trading_day ms env u d pnl db) \<Longrightarrow> prog_step ms db db'"
| promotion: "pe_state_ok env \<Longrightarrow> db' = snd (promote ms env u target db) \<Longrightarrow> prog_step ms db db'"
| promotion_job: "(\<And>u. pe_state_ok (env u)) \<Longrightarrow> db' = snd (promotion_check ms env users db) \<Longrightarrow> prog_step ms db db'"
| daily_job: "(\<And>u. pe_state_ok (env u)) \<Longrightarrow>
    db' = snd (daily_progression_eval ms env lenv owner today users db) \<Longrightarrow> prog_step ms db db'"

lemma prog_step_advances: "prog_step ms db db' \<Longrightarrow> advances db db'"
  by (induction rule: prog_step.induct)
     (simp_all add: get_state_advances record_trading_day_advances promote_advances
        promotion_check_advances daily_progression_eval_advances)

lemma prog_steps_advances: "(prog_step ms)\<^sup>*\<^sup>* db db' \<Longrightarrow> advances db db'"
  by (induction rule: rtranclp_induct) (auto intro: advances_trans prog_step_advances)

text \<open>
  However the service's operations and its two jobs interleave, while the database
  answers \<open>get_state\<close>: the table keeps one row per user, an account past a phase carries the
  dates of that phase's end and the next one's start, and no account ever goes back a phase.
\<close>

theorem phases_never_go_back:
  assumes "(prog_step ms)\<^sup>*\<^sup>* db db'" and "prog_inv db"
  shows "prog_inv db' \<and>
    (\<forall>u r. find_prog u db = Some r \<longrightarrow>
       (\<exists>r'. find_prog u db' = Some r' \<and> phase_rank (pg_phase r) \<le> phase_rank (pg_phase r')))"
  using prog_steps_advances [OF assms(1)] assms(2) by (simp add: advances_def)

subsection \<open>A failed read\<close>

text \<open>
  A defect: the invariant needs the database to answer. When the read of an account's
  state fails, \<open>get_state\<close> answers with the paper phase, and a request to promote the account to
  micro live then passes the transition check and overwrites the stored phase, whatever it was: a
  full-auto account goes back to micro live, and its other columns stay as they were.
\<close>

theorem promote_after_failed_read_demotes:
  assumes "\<not> pe_state_ok env" and "pe_write_ok env" and "find_prog u db = Some r"
  shows "\<exists>r'. find_prog u (snd (promote ms env u ''micro_live'' db)) = Some r' \<and> pg_phase r' = MicroLive
    \<and> pg_full_started r' = pg_full_started r \<and> pg_micro_completed r' = pg_micro_completed r"
proof -
  have "find_prog u (write_row u (promote_update MicroLive t) db) = Some (promote_update MicroLive t r)" for t
    using assms(3) by (simp add: find_prog_write)
  moreover have same: "pd_rows (snd (promote ms env u ''micro_live'' db)) = pd_rows (write_row u (promote_update MicroLive (pe_now env)) db)"
    using assms(1,2) by (simp add: promote_def get_state_def fallback_row_def Let_def log_event_def)
  ultimately have "find_prog u (snd (promote ms env u ''micro_live'' db)) = Some (promote_update MicroLive (pe_now env) r)"
    using find_prog_same_rows [OF same] by simp
  then show ?thesis by (simp add: promote_update_def Let_def)
qed


subsection \<open>The jobs with the class as it is\<close>

text \<open>Reading the state neither changes a stored row nor writes anything else.\<close>

lemma get_state_keeps:
  "find_prog v db = Some r \<Longrightarrow> find_prog v (snd (get_state env u db)) = Some r"
  by (auto simp: get_state_def find_prog_def find_append_None Let_def split: option.splits)

lemma get_state_frame [simp]:
  "pd_log (snd (get_state env u db)) = pd_log db"
  "pd_trades (snd (get_state env u db)) = pd_trades db"
  "pd_orders (snd (get_state env u db)) = pd_orders db"
  "pd_alerts (snd (get_state env u db)) = pd_alerts db"
  by (simp_all add: get_state_def Let_def split: option.splits)

lemma no_log_event [simp]: "log_event progression_methods env u e p q db = (Inl AttributeError, db)"
  by (simp add: log_event_def progression_methods_def)

lemma record_trading_day_class:
  "record_trading_day progression_methods env u d pnl db =
     (let (state, db1) = get_state env u db
      in (if pg_phase state \<noteq> AlpacaPaper
          then Inr \<lparr>dr_state = state, dr_promoted = False, dr_reason = Some ''not_in_alpaca_paper''\<rparr>
          else Inl AttributeError, db1))"
  by (simp add: record_trading_day_def Let_def split: prod.splits)

lemma eval_user_class:
  assumes "eval_user progression_methods env today u (res, n, db) = (res', n', db')"
  shows "n' = n \<and> pd_log db' = pd_log db \<and> (find_prog v db = Some r \<longrightarrow> find_prog v db' = Some r)"
proof -
  obtain state db1 where gs: "get_state env u db = (state, db1)" by fastforce
  have "pd_log db1 = pd_log db" using get_state_frame(1) [of env u db] gs by simp
  moreover have "find_prog v db = Some r \<Longrightarrow> find_prog v db1 = Some r"
    using get_state_keeps [of v db r env u] gs by simp
  ultimately show ?thesis
    using assms by (auto simp: eval_user_def record_trading_day_class gs split: sum.splits prod.splits if_splits)
qed

lemma fold_eval_user_class:
  assumes "fold (\<lambda>u. eval_user progression_methods (env u) today u) us (res, n, db) = (res', n', db')"
  shows "n' = n \<and> pd_log db' = pd_log db \<and> (find_prog v db = Some r \<longrightarrow> find_prog v db' = Some r)"
  using assms
proof (induction us arbitrary: res n db)
  case (Cons u us)
  obtain a b c where e: "eval_user progression_methods (env u) today u (res, n, db) = (a, b, c)"
    by (rule prod_cases3)
  show ?case using Cons.IH [of a b c] Cons.prems eval_user_class [OF e, of v r] by (simp add: e)
qed simp

lemma evaluate_strategy_log [simp]: "pd_log (snd (evaluate_strategy env owner name acc)) = pd_log (snd acc)"
  by (auto simp: evaluate_strategy_def promote_strategy_to_full_def emit_alert_def split: prod.splits sum.splits)

lemma evaluate_strategy_lifecycle_log [simp]:
  "pd_log (snd (evaluate_strategy_lifecycle env owner db)) = pd_log db"
proof -
  have "pd_log (snd (fold (evaluate_strategy env owner) ns acc)) = pd_log (snd acc)" for ns acc
    by (induction ns arbitrary: acc) auto
  then show ?thesis by (simp add: evaluate_strategy_lifecycle_def emit_alert_def)
qed

type_synonym day_run = "(string \<Rightarrow> prog_env) \<times> prog_env \<times> string \<times> int \<times> (pyexn + string list)"

fun eval_days :: "string list \<Rightarrow> day_run list \<Rightarrow> prog_db \<Rightarrow> (job_error + daily_report) list \<times> prog_db" where
  "eval_days ms [] db = ([], db)"
| "eval_days ms ((env, lenv, owner, today, users) # ds) db =
     (case daily_progression_eval ms env lenv owner today users db of (res, db1) \<Rightarrow>
       (case eval_days ms ds db1 of (rs, db2) \<Rightarrow> (res # rs, db2)))"

definition promotes_nobody :: "job_error + daily_report \<Rightarrow> bool" where
  "promotes_nobody res = (case res of Inl _ \<Rightarrow> True | Inr x \<Rightarrow> dy_promotions x = 0)"

lemma daily_eval_class:
  assumes "daily_progression_eval progression_methods env lenv owner today users db = (res, db')"
  shows "promotes_nobody res \<and> pd_log db' = pd_log db \<and> (find_prog v db = Some r \<longrightarrow> find_prog v db' = Some r)"
proof (cases users)
  case (Inr us)
  obtain x n db1 where f: "fold (\<lambda>u. eval_user progression_methods (env u) today u) us ([], 0, db) = (x, n, db1)"
    by (rule prod_cases3)
  obtain ts db2 where l: "evaluate_strategy_lifecycle lenv owner db1 = (ts, db2)" by fastforce
  have "pd_rows db2 = pd_rows db1" and "pd_log db2 = pd_log db1"
    using evaluate_strategy_lifecycle_rows [of lenv owner db1] evaluate_strategy_lifecycle_log [of lenv owner db1] l
    by simp_all
  moreover have "find_prog v db2 = find_prog v db1" by (rule find_prog_same_rows) fact
  ultimately show ?thesis
    using assms fold_eval_user_class [OF f, of v r]
    by (auto simp: daily_progression_eval_def Inr f l promotes_nobody_def)
qed (use assms in \<open>auto simp: daily_progression_eval_def promotes_nobody_def\<close>)

text \<open>
  C9 (liveness). A defect: the paper phase cannot be left. Whatever the daily evaluation runs
  over, for any days, users, trades and broker answers, no account's row ever changes (its green
  days are not counted), nothing is logged and no report names a promotion: recording a day raises
  before its update, because the class has no \<open>_log_event\<close>.
\<close>

theorem paper_phase_is_stuck:
  assumes "find_prog u db = Some r"
  shows "find_prog u (snd (eval_days progression_methods ds db)) = Some r
    \<and> pd_log (snd (eval_days progression_methods ds db)) = pd_log db
    \<and> list_all promotes_nobody (fst (eval_days progression_methods ds db))"
  using assms
proof (induction ds arbitrary: db)
  case (Cons d ds)
  obtain env lenv owner today users where d: "d = (env, lenv, owner, today, users)" by (rule prod_cases5)
  obtain res db1 where e: "daily_progression_eval progression_methods env lenv owner today users db = (res, db1)"
    by fastforce
  obtain rs db2 where es: "eval_days progression_methods ds db1 = (rs, db2)" by fastforce
  show ?case using Cons.IH [of db1] Cons.prems daily_eval_class [OF e, of u r] by (simp add: d e es)
qed simp

subsection \<open>The promotion job\<close>

text \<open>The three gates of full auto: the broker's equity, the realized profit and the trade count.\<close>

definition full_auto_gates :: "prog_env \<Rightarrow> string \<Rightarrow> prog_db \<Rightarrow> bool" where
  "full_auto_gates env u db \<longleftrightarrow>
     (\<exists>ts pl. get_alpaca_real_closed_trades env u None None None db = Inr ts
        \<and> cumulative_realized_pl ts = Inr pl
        \<and> fle (Fin 1500) (account_equity env) \<and> flt (Fin 0) pl \<and> 3 \<le> length ts)"

lemma trades_same:
  "pd_trades db' = pd_trades db \<Longrightarrow> pd_orders db' = pd_orders db \<Longrightarrow>
     get_alpaca_real_closed_trades env u a b st db' = get_alpaca_real_closed_trades env u a b st db"
  by (simp add: get_alpaca_real_closed_trades_def alpaca_entry_def)

lemma gates_same:
  "pd_trades db' = pd_trades db \<Longrightarrow> pd_orders db' = pd_orders db \<Longrightarrow>
     full_auto_gates env u db' = full_auto_gates env u db"
  by (simp add: full_auto_gates_def trades_same [of db' db])

lemma gates_iff_eligible:
  "full_auto_gates env u db \<longleftrightarrow>
     (case is_eligible_for_full_auto env u db of Inl _ \<Rightarrow> False | Inr el \<Rightarrow> el_eligible el)"
proof (cases "get_alpaca_real_closed_trades env u None None None db")
  case (Inr ts)
  then show ?thesis
    by (cases "cumulative_realized_pl ts")
       (simp_all add: full_auto_gates_def is_eligible_for_full_auto_def equity_threshold_def
          min_trades_full_auto_def Let_def)
qed (simp add: full_auto_gates_def is_eligible_for_full_auto_def)

lemma eligible_iff_gates:
  "is_eligible_for_full_auto env u db = Inr el \<Longrightarrow> el_eligible el \<longleftrightarrow> full_auto_gates env u db"
  by (simp add: gates_iff_eligible)

lemma ineligible_no_gates: "is_eligible_for_full_auto env u db = Inl e \<Longrightarrow> \<not> full_auto_gates env u db"
  by (simp add: gates_iff_eligible)

text \<open>The promotion itself: the update is written, then the log entry raises.\<close>

lemma auto_promotion_class:
  assumes "pe_state_ok env" and "pe_write_ok env" and "find_prog u db = Some r" and "pg_phase r = MicroLive"
  shows "execute_auto_promotion progression_methods env u el db
    = (Inl AttributeError, write_row u (promote_update FullAuto (pe_now env)) db)"
  using assms by (simp add: execute_auto_promotion_def promote_def get_state_def Let_def)

definition same_but_rows :: "prog_db \<Rightarrow> prog_db \<Rightarrow> bool" where
  "same_but_rows db db' \<longleftrightarrow> pd_log db' = pd_log db \<and> pd_alerts db' = pd_alerts db
     \<and> pd_trades db' = pd_trades db \<and> pd_orders db' = pd_orders db"

lemma check_user_class:
  assumes ok: "pe_state_ok env" "pe_write_ok env"
    and c: "check_user progression_methods env u (rep, db) = (rep', db')"
  shows "cr_promoted rep' = cr_promoted rep \<and> same_but_rows db db'
    \<and> (find_prog v db = Some r \<longrightarrow> (\<exists>r'. find_prog v db' = Some r' \<and> pg_phase r' =
        (if v = u \<and> pg_phase r = MicroLive \<and> full_auto_gates env u db then FullAuto else pg_phase r)))"
proof -
  obtain state db1 where gs: "get_state env u db = (state, db1)" by fastforce
  have s: "find_prog u db1 = Some state" by (rule get_state_found [OF ok(1) gs])
  have frame: "same_but_rows db db1" using get_state_frame [of env u db] gs by (simp add: same_but_rows_def)
  have g: "full_auto_gates env u db1 = full_auto_gates env u db"
    using frame by (intro gates_same) (simp_all add: same_but_rows_def)
  have keep: "find_prog v db1 = Some r" if "find_prog v db = Some r" for r
    using get_state_keeps [OF that, of env u] gs by simp
  have at_u: "state = r" if "find_prog u db = Some r" for r
    using get_state_keeps [OF that, of env u] gs s by simp
  show ?thesis
  proof (cases "pg_phase state = MicroLive \<and> full_auto_gates env u db")
    case True
    then obtain el where el: "is_eligible_for_full_auto env u db1 = Inr el" "el_eligible el"
      using g eligible_iff_gates ineligible_no_gates by (cases "is_eligible_for_full_auto env u db1") blast+
    have "rep' = rep \<and> db' = write_row u (promote_update FullAuto (pe_now env)) db1"
      using c True el auto_promotion_class [OF ok s, of el] by (simp add: check_user_def gs)
    then show ?thesis
      using True frame keep at_u by (auto simp: find_prog_write same_but_rows_def)
  next
    case False
    then have "cr_promoted rep' = cr_promoted rep \<and> db' = db1"
      using c g eligible_iff_gates [of env u db1]
      by (auto simp: check_user_def gs split: if_splits sum.splits)
    then show ?thesis using False frame keep at_u by auto
  qed
qed

lemma fold_check_user_class:
  assumes ok: "\<And>u. pe_state_ok (env u)" "\<And>u. pe_write_ok (env u)"
    and c: "fold (\<lambda>u. check_user progression_methods (env u) u) us (rep, db) = (rep', db')"
  shows "cr_promoted rep' = cr_promoted rep \<and> same_but_rows db db'
    \<and> (find_prog v db = Some r \<longrightarrow> (\<exists>r'. find_prog v db' = Some r' \<and> pg_phase r' =
        (if v \<in> set us \<and> pg_phase r = MicroLive \<and> full_auto_gates (env v) v db then FullAuto else pg_phase r)))"
  using c
proof (induction us arbitrary: rep db r)
  case Nil
  then show ?case by (auto simp: same_but_rows_def)
next
  case (Cons u us)
  obtain rep1 db1 where e: "check_user progression_methods (env u) u (rep, db) = (rep1, db1)" by fastforce
  note head = check_user_class [OF ok e]
  have f: "fold (\<lambda>u. check_user progression_methods (env u) u) us (rep1, db1) = (rep', db')"
    using Cons.prems by (simp add: e)
  have g: "full_auto_gates (env v) v db1 = full_auto_gates (env v) v db"
    using head by (intro gates_same) (simp_all add: same_but_rows_def)
  show ?case
  proof (intro conjI impI)
    show "cr_promoted rep' = cr_promoted rep" and "same_but_rows db db'"
      using head Cons.IH [OF f] by (simp_all add: same_but_rows_def)
    assume "find_prog v db = Some r"
    then obtain r1 where r1: "find_prog v db1 = Some r1" "pg_phase r1 =
        (if v = u \<and> pg_phase r = MicroLive \<and> full_auto_gates (env u) u db then FullAuto else pg_phase r)"
      using head by blast
    then obtain r' where "find_prog v db' = Some r'" "pg_phase r' =
        (if v \<in> set us \<and> pg_phase r1 = MicroLive \<and> full_auto_gates (env v) v db1 then FullAuto else pg_phase r1)"
      using Cons.IH [OF f, of r1] by blast
    with r1 show "\<exists>r'. find_prog v db' = Some r' \<and> pg_phase r' =
        (if v \<in> set (u # us) \<and> pg_phase r = MicroLive \<and> full_auto_gates (env v) v db then FullAuto else pg_phase r)"
      by (auto simp: g split: if_splits)
  qed
qed

text \<open>
  The promotion job puts into full auto exactly the users it examines that are in
  micro live and pass all three gates, and changes no other phase. Its report is wrong: the users
  it promotes are not in the promoted list, and neither the audit log nor the alerts get a row,
  because the promotion raises after its update.
\<close>

theorem promotion_check_promotes_silently:
  assumes "\<And>u. pe_state_ok (env u)" and "\<And>u. pe_write_ok (env u)"
    and "promotion_check progression_methods env (Inr us) db = (res, db')"
  shows "(\<exists>rep. res = Inr rep \<and> cr_promoted rep = [])
    \<and> pd_log db' = pd_log db \<and> pd_alerts db' = pd_alerts db
    \<and> (find_prog v db = Some r \<longrightarrow> (\<exists>r'. find_prog v db' = Some r' \<and> pg_phase r' =
        (if v \<in> set us \<and> pg_phase r = MicroLive \<and> full_auto_gates (env v) v db then FullAuto else pg_phase r)))"
proof -
  obtain rep db1 where f: "fold (\<lambda>u. check_user progression_methods (env u) u) us
      (\<lparr>cr_promoted = [], cr_blocked = []\<rparr>, db) = (rep, db1)" by fastforce
  show ?thesis
    using assms(3) fold_check_user_class [OF assms(1,2) f, of v r]
    by (auto simp: promotion_check_def f same_but_rows_def)
qed


subsection \<open>Graduation of strategies\<close>

text \<open>A strategy passes with at least three real trades that made money together.\<close>

definition strategy_gate :: "prog_env \<Rightarrow> string \<Rightarrow> prog_db \<Rightarrow> string \<Rightarrow> (pynum \<times> nat) option" where
  "strategy_gate env owner db name =
     (case get_alpaca_real_closed_trades env owner None None (Some name) db of
        Inl _ \<Rightarrow> None
      | Inr ts \<Rightarrow>
          (case cumulative_realized_pl ts of
             Inl _ \<Rightarrow> None
           | Inr pl \<Rightarrow> if flt (Fin 0) pl \<and> 3 \<le> length ts then Some (pl, length ts) else None))"

definition graduate :: "prog_env \<Rightarrow> string \<Rightarrow> prog_db \<Rightarrow> strategy_row \<Rightarrow> strategy_row" where
  "graduate env owner db r =
     (case strategy_gate env owner db (st_name r) of
        None \<Rightarrow> r
      | Some (pl, n) \<Rightarrow>
          if st_state r = Experimental
          then r\<lparr>st_state := LiveFull, st_transitioned := Some (pe_now env), st_trades := Some n, st_pl := Some pl\<rparr>
          else r)"

definition graduates :: "prog_env \<Rightarrow> string \<Rightarrow> prog_db \<Rightarrow> strategy_row \<Rightarrow> bool" where
  "graduates env owner db r \<longleftrightarrow> st_state r = Experimental \<and> strategy_gate env owner db (st_name r) \<noteq> None"

lemma gate_of_eligibility:
  "strategy_gate env owner db name =
     (case get_strategy_eligibility env name owner db of
        Inl _ \<Rightarrow> None | Inr (b, pl, n) \<Rightarrow> if b then Some (pl, n) else None)"
proof (cases "get_alpaca_real_closed_trades env owner None None (Some name) db")
  case (Inr ts)
  then show ?thesis
    by (cases "cumulative_realized_pl ts")
       (simp_all add: strategy_gate_def get_strategy_eligibility_def min_trades_graduation_def)
qed (simp add: strategy_gate_def get_strategy_eligibility_def)

lemma strategy_gate_same:
  "pd_trades db' = pd_trades db \<Longrightarrow> pd_orders db' = pd_orders db \<Longrightarrow>
     strategy_gate env owner db' name = strategy_gate env owner db name"
  by (simp add: strategy_gate_def trades_same [of db' db])

definition mark_live :: "prog_env \<Rightarrow> pynum \<times> nat \<Rightarrow> strategy_row \<Rightarrow> strategy_row" where
  "mark_live env g r = r\<lparr>st_state := LiveFull, st_transitioned := Some (pe_now env),
     st_trades := Some (snd g), st_pl := Some (fst g)\<rparr>"

lemma mark_live_simps [simp]:
  "st_name (mark_live env g r) = st_name r" "st_state (mark_live env g r) = LiveFull"
  "mark_live env g (mark_live env h r) = mark_live env g r"
  by (simp_all add: mark_live_def)

text \<open>One strategy of the sweep, on the strategies' table.\<close>

lemma evaluate_strategy_step:
  assumes ok: "\<And>n. pe_strategy_ok env n"
    and e: "evaluate_strategy env owner name (done', db) = (done1, db1)"
  shows "pd_trades db1 = pd_trades db \<and> pd_orders db1 = pd_orders db \<and>
    (case strategy_gate env owner db name of
       None \<Rightarrow> done1 = done' \<and> pd_strategies db1 = pd_strategies db
     | Some g \<Rightarrow> done1 = done' @ [(name, g)]
         \<and> pd_strategies db1 = update_rows (\<lambda>r. st_name r = name) (mark_live env g) (pd_strategies db))"
proof (cases "get_strategy_eligibility env name owner db")
  case (Inl a)
  then show ?thesis
    using e by (auto simp: evaluate_strategy_def gate_of_eligibility emit_alert_def)
next
  case (Inr x)
  obtain b pl n where x: "x = (b, pl, n)" by (rule prod_cases3)
  show ?thesis
    using e ok
    by (auto simp: evaluate_strategy_def gate_of_eligibility Inr x promote_strategy_to_full_def emit_alert_def
        mark_live_def update_rows_def split: if_splits)
qed

lemma evaluate_strategy_fold:
  assumes ok: "\<And>n. pe_strategy_ok env n"
    and same: "pd_trades db = pd_trades db0" "pd_orders db = pd_orders db0"
    and f: "fold (evaluate_strategy env owner) ns (done', db) = (done1, db1)"
  shows "pd_trades db1 = pd_trades db0 \<and> pd_orders db1 = pd_orders db0 \<and>
    map fst done1 = map fst done' @ filter (\<lambda>n. strategy_gate env owner db0 n \<noteq> None) ns \<and>
    pd_strategies db1 = map (\<lambda>r. case strategy_gate env owner db0 (st_name r) of
        None \<Rightarrow> r | Some g \<Rightarrow> if st_name r \<in> set ns then mark_live env g r else r) (pd_strategies db)"
  using same f
proof (induction ns arbitrary: done' db)
  case Nil
  then show ?case by (auto simp: map_idI split: option.splits)
next
  case (Cons n ns)
  obtain d db' where e: "evaluate_strategy env owner n (done', db) = (d, db')" by fastforce
  note step = evaluate_strategy_step [OF ok e]
  have g: "strategy_gate env owner db n = strategy_gate env owner db0 n"
    using Cons.prems by (intro strategy_gate_same)
  have f: "fold (evaluate_strategy env owner) ns (d, db') = (done1, db1)" using Cons.prems(3) by (simp add: e)
  have IH: "pd_trades db1 = pd_trades db0 \<and> pd_orders db1 = pd_orders db0 \<and>
    map fst done1 = map fst d @ filter (\<lambda>n. strategy_gate env owner db0 n \<noteq> None) ns \<and>
    pd_strategies db1 = map (\<lambda>r. case strategy_gate env owner db0 (st_name r) of
        None \<Rightarrow> r | Some g \<Rightarrow> if st_name r \<in> set ns then mark_live env g r else r) (pd_strategies db')"
    by (rule Cons.IH [OF _ _ f]) (use step Cons.prems in auto)
  show ?case
  proof (cases "strategy_gate env owner db0 n")
    case None
    then have "d = done'" "pd_strategies db' = pd_strategies db" using step g by auto
    with IH None show ?thesis by (auto split: option.splits)
  next
    case (Some x)
    then have "d = done' @ [(n, x)]"
      "pd_strategies db' = update_rows (\<lambda>r. st_name r = n) (mark_live env x) (pd_strategies db)"
      using step g by auto
    with IH Some show ?thesis by (auto simp: update_rows_def split: option.splits)
  qed
qed

lemma experimental_name_iff:
  assumes "distinct (map st_name (pd_strategies db))" and "r \<in> set (pd_strategies db)"
  shows "st_name r \<in> set (experimental_names db) \<longleftrightarrow> st_state r = Experimental"
proof -
  have "r' = r" if "r' \<in> set (pd_strategies db)" "st_name r' = st_name r" for r'
    using assms that by (simp add: distinct_map inj_on_def)
  then show ?thesis using assms(2) by (auto simp: experimental_names_def)
qed

lemma lifecycle_result:
  assumes d: "distinct (map st_name (pd_strategies db))"
    and ok: "pe_lifecycle_ok env" "\<And>n. pe_strategy_ok env n"
    and e: "evaluate_strategy_lifecycle env owner db = (ts, db')"
  shows "map fst ts = map st_name (filter (graduates env owner db) (pd_strategies db))
    \<and> pd_strategies db' = map (graduate env owner db) (pd_strategies db)
    \<and> pd_trades db' = pd_trades db \<and> pd_orders db' = pd_orders db"
proof -
  have f: "fold (evaluate_strategy env owner) (experimental_names db) ([], db) = (ts, db')"
    using e ok by (simp add: evaluate_strategy_lifecycle_def)
  note r = evaluate_strategy_fold [OF ok(2) refl refl f]
  have "filter (\<lambda>n. strategy_gate env owner db n \<noteq> None) (experimental_names db)
      = map st_name (filter (graduates env owner db) (pd_strategies db))"
    by (simp add: experimental_names_def filter_map o_def graduates_def [abs_def] conj_commute)
  moreover have "(case strategy_gate env owner db (st_name r) of None \<Rightarrow> r
        | Some g \<Rightarrow> if st_name r \<in> set (experimental_names db) then mark_live env g r else r) = graduate env owner db r"
    if "r \<in> set (pd_strategies db)" for r
    using experimental_name_iff [OF d that] by (auto simp: graduate_def mark_live_def split: option.splits)
  ultimately show ?thesis using r by (simp cong: map_cong)
qed

lemma graduate_name [simp]: "st_name (graduate env owner db r) = st_name r"
  by (auto simp: graduate_def split: option.splits)

lemma graduate_settled:
  assumes "\<And>n. strategy_gate env owner db' n = strategy_gate env owner db n"
  shows "\<not> graduates env owner db' (graduate env owner db r)"
    and "graduate env owner db' (graduate env owner db r) = graduate env owner db r"
  by (auto simp: graduates_def graduate_def assms split: option.splits)

text \<open>
  When the database answers, the lifecycle evaluation graduates exactly the
  experimental strategies with at least three real closed trades and a positive profit over them:
  their rows become live-full with the figures of that moment, every other row is untouched, and the
  report lists their names in table order. It is idempotent: a second evaluation over the same
  trades graduates nothing and changes no strategy.
\<close>

theorem lifecycle_graduates_exactly:
  assumes d: "distinct (map st_name (pd_strategies db))"
    and ok: "pe_lifecycle_ok env" "\<And>n. pe_strategy_ok env n"
    and e: "evaluate_strategy_lifecycle env owner db = (ts, db')"
    and e2: "evaluate_strategy_lifecycle env owner db' = (ts', db'')"
  shows "map fst ts = map st_name (filter (graduates env owner db) (pd_strategies db))
    \<and> pd_strategies db' = map (graduate env owner db) (pd_strategies db)
    \<and> ts' = [] \<and> pd_strategies db'' = pd_strategies db'"
proof -
  note r = lifecycle_result [OF d ok e]
  have "distinct (map st_name (pd_strategies db'))" using d r by (simp add: o_def)
  note r2 = lifecycle_result [OF this ok e2]
  have g: "strategy_gate env owner db' n = strategy_gate env owner db n" for n
    using r by (intro strategy_gate_same) simp_all
  have "filter (graduates env owner db') (pd_strategies db') = []"
    and "map (graduate env owner db') (pd_strategies db') = pd_strategies db'"
    using r graduate_settled [OF g] by (auto simp: filter_empty_conv)
  then show ?thesis using r r2 by simp
qed


subsection \<open>The entry gate on the lifecycle\<close>

lemma read_row_other:
  "fst (read_row v acc) name = Some s \<Longrightarrow> fst acc name \<noteq> Some s \<Longrightarrow> s \<noteq> malformed_sentinel \<Longrightarrow>
     \<exists>d. v = PDict d \<and> dget d ''strategy_name'' = PStr name \<and> dget d ''current_state'' = PStr s"
  by (cases acc) (auto simp: read_row_def split: pyval.splits list.splits if_splits)

lemma fold_read_row_source:
  assumes "fst (fold read_row rows acc) name = Some s" and "fst acc name \<noteq> Some s" and "s \<noteq> malformed_sentinel"
  shows "\<exists>d. PDict d \<in> set rows \<and> dget d ''strategy_name'' = PStr name \<and> dget d ''current_state'' = PStr s"
  using assms
proof (induction rows arbitrary: acc)
  case (Cons v rows)
  show ?case
  proof (cases "fst (read_row v acc) name = Some s")
    case True
    then show ?thesis using read_row_other [OF True Cons.prems(2,3)] by auto
  next
    case False
    then show ?thesis using Cons.IH [of "read_row v acc"] Cons.prems by auto
  qed
qed simp

lemma sentinel_not_recognized [simp]: "malformed_sentinel \<notin> set recognized_states"
  by (simp add: malformed_sentinel_def recognized_states_def)

lemma lifecycle_name_recognized [simp]: "lifecycle_name st \<in> set recognized_states"
  by (cases st) (simp_all add: recognized_states_def)

lemma lifecycle_name_nonempty [simp]: "lifecycle_name st \<noteq> []" "[] \<noteq> lifecycle_name st"
  by (cases st; simp)+

lemma classified_source:
  assumes "classify_for_entry (load_strategy_lifecycle_states res) name = Inr s"
  obtains rows where "res = Inr (PList rows)" and "rows \<noteq> []"
    and "fst (fold read_row rows (Map.empty, 0)) name = Some s" and "s \<in> set recognized_states"
proof (cases res)
  case (Inr v)
  show thesis
  proof (cases "py_or v (PList [])")
    case (PList rows)
    obtain m b where f: "fold read_row rows (Map.empty, 0) = (m, b)" by fastforce
    have ne: "rows \<noteq> []" and m: "m name = Some s" and rec: "s \<in> set recognized_states"
      using assms
      by (auto simp: Inr PList f load_strategy_lifecycle_states_def classify_for_entry_def split: if_splits option.splits)
    have "v = PList rows" using PList ne by (cases "truthy v") auto
    with that ne m rec f show thesis by (simp add: Inr)
  qed (use assms in \<open>simp_all add: Inr load_strategy_lifecycle_states_def classify_for_entry_def\<close>)
qed (use assms in \<open>simp add: load_strategy_lifecycle_states_def classify_for_entry_def\<close>)

lemma fold_read_payload:
  "fold read_row (map (\<lambda>r. PDict [(''strategy_name'', PStr (st_name r)),
       (''current_state'', PStr (lifecycle_name (st_state r)))]) rs) (m, b)
     = (m ++ map_of (rev (map (\<lambda>r. (st_name r, lifecycle_name (st_state r))) (filter (\<lambda>r. st_name r \<noteq> []) rs))),
        b + length (filter (\<lambda>r. st_name r = []) rs))"
proof (induction rs arbitrary: m b)
  case (Cons r rs)
  obtain c cs where st: "lifecycle_name (st_state r) = c # cs"
    using lifecycle_name_nonempty(1) by (cases "lifecycle_name (st_state r)") auto
  have "read_row (PDict [(''strategy_name'', PStr (st_name r)), (''current_state'', PStr (lifecycle_name (st_state r)))]) (m, b)
      = (if st_name r = [] then (m, b + 1) else (m(st_name r \<mapsto> lifecycle_name (st_state r)), b))"
    by (cases "st_name r") (simp_all add: read_row_def dget_def st)
  then show ?case by (auto simp: Cons.IH map_add_def fun_eq_iff split: option.splits)
qed simp

lemma map_of_rev_distinct:
  "distinct (map fst xs) \<Longrightarrow> map_of (rev xs) k = Some v \<longleftrightarrow> (k, v) \<in> set xs"
  by (subst map_of_eq_Some_iff) (simp_all flip: rev_map)

text \<open>
  C8 (safety). The entry gate fails closed: it lets a strategy through only after a successful read
  whose payload is a list holding a row with that strategy's name and, as its state, the recognized
  state the gate answers. On the payload of the stored table it is exact: a strategy passes with a
  state exactly when its row is in that state.
\<close>

theorem lifecycle_gate_fails_closed:
  assumes "distinct (map st_name (pd_strategies db))"
  shows "(classify_for_entry (load_strategy_lifecycle_states res) name = Inr s \<longrightarrow>
       s \<in> set recognized_states \<and>
       (\<exists>rows d. res = Inr (PList rows) \<and> PDict d \<in> set rows \<and>
          dget d ''strategy_name'' = PStr name \<and> dget d ''current_state'' = PStr s))
    \<and> (classify_for_entry (load_strategy_lifecycle_states (Inr (strategies_payload db))) name = Inr s \<longleftrightarrow>
       (\<exists>r \<in> set (pd_strategies db). st_name r = name \<and> name \<noteq> [] \<and> s = lifecycle_name (st_state r)))"
proof (intro conjI impI)
  assume "classify_for_entry (load_strategy_lifecycle_states res) name = Inr s"
  then obtain rows where r: "res = Inr (PList rows)" "fst (fold read_row rows (Map.empty, 0)) name = Some s"
      "s \<in> set recognized_states"
    by (rule classified_source)
  show "s \<in> set recognized_states" by fact
  have "s \<noteq> malformed_sentinel" using r(3) sentinel_not_recognized by blast
  then show "\<exists>rows d. res = Inr (PList rows) \<and> PDict d \<in> set rows \<and>
      dget d ''strategy_name'' = PStr name \<and> dget d ''current_state'' = PStr s"
    using fold_read_row_source [OF r(2)] r(1) by auto
next
  let ?ps = "map (\<lambda>r. (st_name r, lifecycle_name (st_state r))) (filter (\<lambda>r. st_name r \<noteq> []) (pd_strategies db))"
  have "distinct (map fst ?ps)" using assms by (simp add: o_def distinct_map_filter)
  then have m: "map_of (rev ?ps) name = Some s \<longleftrightarrow> (name, s) \<in> set ?ps" by (rule map_of_rev_distinct)
  have "classify_for_entry (load_strategy_lifecycle_states (Inr (strategies_payload db))) name = Inr s
      \<longleftrightarrow> map_of (rev ?ps) name = Some s \<and> s \<in> set recognized_states"
    by (cases "pd_strategies db = []")
       (auto simp: load_strategy_lifecycle_states_def strategies_payload_def classify_for_entry_def
          py_or_def fold_read_payload split: option.splits)
  then show "classify_for_entry (load_strategy_lifecycle_states (Inr (strategies_payload db))) name = Inr s \<longleftrightarrow>
       (\<exists>r \<in> set (pd_strategies db). st_name r = name \<and> name \<noteq> [] \<and> s = lifecycle_name (st_state r))"
    using m by auto
qed


subsection \<open>Instances\<close>

definition sample_env :: prog_env where
  "sample_env = \<lparr>pe_now = 9, pe_state_ok = True, pe_write_ok = True, pe_log_ok = True, pe_trades_ok = True,
     pe_order_ok = (\<lambda>_. True), pe_account = Inr (Some [(''equity'', PStr ''2000'')]),
     pe_lifecycle_ok = True, pe_strategy_ok = (\<lambda>_. True), pe_alert_ok = True\<rparr>"

definition sample_trade :: "string \<Rightarrow> rat \<Rightarrow> trade_row" where
  "sample_trade i pl = \<lparr>tr_id = i, tr_user = ''u'', tr_status = ''closed'', tr_realized = PFloat (Fin pl),
     tr_closed_at = Some 5, tr_strategy = Some ''IC''\<rparr>"

definition sample_db :: prog_db where
  "sample_db = \<lparr>
     pd_rows = [promote_update MicroLive 3 (new_prog_row ''u'' 1), new_prog_row ''v'' 2],
     pd_log = [], pd_baseline = [],
     pd_trades = [sample_trade ''a'' 80, sample_trade ''b'' (- 30), sample_trade ''c'' 15],
     pd_orders = map (\<lambda>i. \<lparr>or_position = i, or_created = 4, or_alpaca_id = Some ''x''\<rparr>) [''a'', ''b'', ''c''],
     pd_strategies = [
       \<lparr>st_name = ''IC'', st_state = Experimental, st_transitioned = None, st_trades = None, st_pl = None\<rparr>,
       \<lparr>st_name = ''CSP'', st_state = Experimental, st_transitioned = None, st_trades = None, st_pl = None\<rparr>],
     pd_alerts = []\<rparr>"

lemmas sample_defs = sample_env_def sample_db_def sample_trade_def find_prog_def promote_update_def new_prog_row_def

lemma sample_inv: "prog_inv sample_db"
  by (simp add: prog_inv_def row_wf_def sample_defs Let_def)

lemma sample_gates: "full_auto_gates sample_env ''u'' sample_db"
  by (simp add: gates_iff_eligible is_eligible_for_full_auto_def get_alpaca_real_closed_trades_def
      within_window_def alpaca_entry_def cumulative_realized_pl_def account_equity_def equity_threshold_def
      min_trades_full_auto_def sample_defs py_defs)

theorem phases_never_go_back_witness:
  "prog_inv (snd (promotion_check progression_methods (\<lambda>_. sample_env) (Inr [''u'']) sample_db))"
proof -
  have "prog_step progression_methods sample_db
      (snd (promotion_check progression_methods (\<lambda>_. sample_env) (Inr [''u'']) sample_db))"
    by (rule promotion_job [OF _ refl]) (simp add: sample_env_def)
  from phases_never_go_back [OF r_into_rtranclp [of "prog_step progression_methods", OF this] sample_inv]
  show ?thesis by simp
qed

theorem promote_after_failed_read_demotes_witness:
  "\<exists>r'. find_prog ''u'' (snd (promote progression_methods (sample_env\<lparr>pe_state_ok := False\<rparr>) ''u'' ''micro_live''
       (write_row ''u'' (promote_update FullAuto 7) sample_db))) = Some r' \<and> pg_phase r' = MicroLive"
  using promote_after_failed_read_demotes [of "sample_env\<lparr>pe_state_ok := False\<rparr>" "''u''"
      "write_row ''u'' (promote_update FullAuto 7) sample_db"
      "promote_update FullAuto 7 (promote_update MicroLive 3 (new_prog_row ''u'' 1))" progression_methods]
  by (auto simp: find_prog_write sample_env_def) (auto simp: sample_defs Let_def)

theorem paper_phase_is_stuck_witness:
  "find_prog ''v'' (snd (eval_days progression_methods
     [((\<lambda>_. sample_env), sample_env, ''u'', 0, Inr [''u'', ''v'']),
      ((\<lambda>_. sample_env), sample_env, ''u'', 1, Inr [''v''])] sample_db)) = Some (new_prog_row ''v'' 2)"
  by (rule conjunct1 [OF paper_phase_is_stuck]) (simp add: sample_defs Let_def)

theorem promotion_check_promotes_silently_witness:
  "\<exists>r'. find_prog ''u'' (snd (promotion_check progression_methods (\<lambda>_. sample_env) (Inr [''u'', ''v'']) sample_db)) = Some r'
     \<and> pg_phase r' = FullAuto"
proof -
  obtain res db' where c: "promotion_check progression_methods (\<lambda>_. sample_env) (Inr [''u'', ''v'']) sample_db = (res, db')"
    by fastforce
  have f: "find_prog ''u'' sample_db = Some (promote_update MicroLive 3 (new_prog_row ''u'' 1))"
    by (simp add: sample_defs Let_def)
  show ?thesis
    using promotion_check_promotes_silently [OF _ _ c, of "''u''" "promote_update MicroLive 3 (new_prog_row ''u'' 1)"]
      f sample_gates c by (simp add: sample_env_def)
qed

theorem lifecycle_graduates_exactly_witness:
  "map fst (fst (evaluate_strategy_lifecycle sample_env ''u'' sample_db)) = [''IC'']"
proof -
  obtain ts db' where e: "evaluate_strategy_lifecycle sample_env ''u'' sample_db = (ts, db')" by fastforce
  obtain ts' db'' where e2: "evaluate_strategy_lifecycle sample_env ''u'' db' = (ts', db'')" by fastforce
  have g: "map st_name (filter (graduates sample_env ''u'' sample_db) (pd_strategies sample_db)) = [''IC'']"
    by (simp add: graduates_def strategy_gate_def get_alpaca_real_closed_trades_def within_window_def
        alpaca_entry_def cumulative_realized_pl_def sample_defs py_defs)
  have "distinct (map st_name (pd_strategies sample_db))" by (simp add: sample_defs)
  from lifecycle_graduates_exactly [OF this _ _ e e2] g e show ?thesis by (simp add: sample_env_def)
qed

theorem lifecycle_gate_fails_closed_witness:
  "classify_for_entry (load_strategy_lifecycle_states (Inr (strategies_payload sample_db))) ''IC'' = Inr ''experimental''"
proof -
  have "distinct (map st_name (pd_strategies sample_db))" by (simp add: sample_defs)
  from lifecycle_gate_fails_closed [OF this] show ?thesis by (simp add: sample_defs)
qed

end
