(* ===== verification/Position_Close.thy ===== *)
theory Position_Close
  imports Close_Math Py_Float Interfaces
begin

section \<open>Closing a position\<close>

text \<open>
  Model of \<open>services/close_helper.py\<close>, the one writer of closed positions, of
  \<open>services/close_fill_gap.py\<close>, and of \<open>_close_position_on_fill\<close> in
  \<open>brokers/alpaca_order_handler.py\<close>, which takes a filled close order through the extraction of
  its legs, the realized profit (theory \<open>Close_Math\<close>) and the writer.

  A row of a table is the dictionary the client library returns. The writer's conditional update
  is one statement of the database: \<open>neq\<close> compares with SQL's \<open><>\<close>, so a row whose status is
  null is not selected. Instants are the texts the code stores. The environment says which
  instant is now, how the library reads a timestamp, and whether the database takes the write.
\<close>

subsection \<open>The writer\<close>

definition valid_close_reasons :: "string list" where
  "valid_close_reasons =
     [''target_profit_hit'', ''stop_loss_hit'', ''dte_threshold'', ''expiration_day'',
      ''manual_close_user_initiated'', ''alpaca_fill_reconciler_sign_corrected'',
      ''alpaca_fill_reconciler_standard'', ''envelope_force_close'', ''orphan_fill_repair'']"

definition valid_fill_sources :: "string list" where
  "valid_fill_sources =
     [''alpaca_fill_reconciler'', ''orphan_fill_repair'', ''exit_evaluator'', ''manual_endpoint'']"

datatype writer_error = PositionAlreadyClosed pyval pyval pyval | PositionNotFound | WriterExn pyexn

record desk_env =
  de_now :: int
  de_now_text :: string
  de_parse :: "string \<Rightarrow> string option"
  de_parse_ts :: "string \<Rightarrow> int option"
  de_db_ok :: bool
  de_alert_ok :: bool

definition row_id :: "pydict \<Rightarrow> pyval" where
  "row_id r = dget r ''id''"

text \<open>SQL's \<open>status <> 'closed'\<close>: a null status is neither equal nor different.\<close>

definition closable :: "pydict \<Rightarrow> bool" where
  "closable r = (case dget r ''status'' of PStr s \<Rightarrow> s \<noteq> ''closed'' | _ \<Rightarrow> False)"

definition is_closed :: "pydict \<Rightarrow> bool" where
  "is_closed r \<longleftrightarrow> dget r ''status'' = PStr ''closed''"

definition dset_all :: "(string \<times> pyval) list \<Rightarrow> pydict \<Rightarrow> pydict" where
  "dset_all kvs d = fold (\<lambda>(k, v) e. dset e k v) kvs d"

definition close_row :: "pynum \<Rightarrow> string \<Rightarrow> string \<Rightarrow> string \<Rightarrow> string \<Rightarrow> pydict \<Rightarrow> pydict" where
  "close_row pl reason source closed_at now =
     dset_all [(''status'', PStr ''closed''), (''quantity'', PInt 0), (''realized_pl'', PDec pl),
       (''close_reason'', PStr reason), (''fill_source'', PStr source),
       (''closed_at'', PStr closed_at), (''updated_at'', PStr now)]"

definition close_position_shared ::
  "desk_env \<Rightarrow> string \<Rightarrow> pyval \<Rightarrow> string \<Rightarrow> string \<Rightarrow> string option \<Rightarrow> pydict list \<Rightarrow> (writer_error + unit) \<times> pydict list" where
  "close_position_shared env pid realized reason source closed_at rows =
     (if realized = PNone then (Inl (WriterExn ValueError), rows)
      else case (case realized of PDec x \<Rightarrow> Inr x | _ \<Rightarrow> py_dec realized) of
          Inl e \<Rightarrow> (Inl (WriterExn e), rows)
        | Inr pl \<Rightarrow>
            if reason \<notin> set valid_close_reasons then (Inl (WriterExn ValueError), rows)
            else if source \<notin> set valid_fill_sources then (Inl (WriterExn ValueError), rows)
            else if \<not> de_db_ok env then (Inl (WriterExn RuntimeError), rows)
            else
              (let stamp = (case closed_at of Some t \<Rightarrow> t | None \<Rightarrow> de_now_text env);
                   sel = (\<lambda>r. row_id r = PStr pid \<and> closable r);
                   rows' = update_rows sel (close_row pl reason source stamp (de_now_text env)) rows
               in if length (filter sel rows) = 1 then (Inr (), rows')
                  else case find (\<lambda>r. row_id r = PStr pid) rows' of
                      None \<Rightarrow> (Inl PositionNotFound, rows')
                    | Some r \<Rightarrow>
                        if is_closed r
                        then (Inl (PositionAlreadyClosed (dget r ''close_reason'') (dget r ''fill_source'') (dget r ''closed_at'')), rows')
                        else (Inl (WriterExn RuntimeError), rows')))"

subsection \<open>The gap between the estimate and the fill\<close>

definition coerce_float :: "pyval \<Rightarrow> pynum option" where
  "coerce_float v = (case py_float v of Inl _ \<Rightarrow> None | Inr x \<Rightarrow> Some x)"

definition compute_gap_fraction :: "pynum option \<Rightarrow> pynum option \<Rightarrow> pynum option \<Rightarrow> pynum option" where
  "compute_gap_fraction cross mid fill =
     (case (cross, mid, fill) of
        (Some c, Some m, Some f) \<Rightarrow>
          (let denom = fsub m c
           in if num_eq denom (Fin 0) then None
              else case fdiv (fsub f c) denom of Inl _ \<Rightarrow> None | Inr x \<Rightarrow> Some x)
      | _ \<Rightarrow> None)"

definition broker_fill_to_mark_basis :: "pyval \<Rightarrow> pynum option" where
  "broker_fill_to_mark_basis v = map_option fneg (coerce_float v)"

definition read_stamp :: "pyval \<Rightarrow> pynum option \<times> pynum option" where
  "read_stamp oj = (case oj of
       PDict d \<Rightarrow> (coerce_float (dget d ''close_fill_gap_cross''), coerce_float (dget d ''close_fill_gap_mid''))
     | _ \<Rightarrow> (None, None))"

definition opt_float :: "pynum option \<Rightarrow> pyval" where
  "opt_float x = (case x of None \<Rightarrow> PNone | Some y \<Rightarrow> PFloat y)"

definition stamp_payload :: "pynum option \<Rightarrow> pynum option \<Rightarrow> pynum option \<Rightarrow> (string \<times> pyval) list" where
  "stamp_payload cross mid fill =
     [(''close_fill_gap_cross'', opt_float cross), (''close_fill_gap_mid'', opt_float mid),
      (''close_fill_gap_fill'', opt_float fill),
      (''close_fill_gap_fraction'', opt_float (compute_gap_fraction cross mid fill))]"

subsection \<open>A filled close order\<close>

datatype desk_alert =
    ClosePathAnomaly pyval string
  | RejectedByBroker int string pyval
  | ManualReview pyval nat
  | GhostPosition pyval
  | StaleReview int pyval pyval

record desk =
  dk_orders :: "pydict list"
  dk_positions :: "pydict list"
  dk_alerts :: "desk_alert list"

definition add_alert :: "desk_env \<Rightarrow> desk_alert \<Rightarrow> desk \<Rightarrow> desk" where
  "add_alert env a dk = (if de_alert_ok env then dk\<lparr>dk_alerts := dk_alerts dk @ [a]\<rparr> else dk)"

definition update_order :: "pyval \<Rightarrow> (string \<times> pyval) list \<Rightarrow> desk \<Rightarrow> desk" where
  "update_order oid kvs dk = dk\<lparr>dk_orders := update_rows (\<lambda>r. row_id r = oid) (dset_all kvs) (dk_orders dk)\<rparr>"

text \<open>\<open>(order.get("order_json") or {})\<close>, on which the code calls \<open>get\<close>.\<close>

definition order_json_of :: "pydict \<Rightarrow> pyexn + pydict" where
  "order_json_of order = (case py_or (dget order ''order_json'') (PDict []) of
       PDict d \<Rightarrow> Inr d | _ \<Rightarrow> Inl AttributeError)"

text \<open>A list or a dictionary is not hashable, so testing it against the set of reasons raises.\<close>

definition resolved_reason :: "pydict \<Rightarrow> pyexn + string" where
  "resolved_reason order =
     rbind (order_json_of order) (\<lambda>oj.
       (case dget oj ''close_reason'' of
          PStr s \<Rightarrow> Inr (if s \<in> set valid_close_reasons then s else ''alpaca_fill_reconciler_standard'')
        | PList _ \<Rightarrow> Inl TypeError
        | PDict _ \<Rightarrow> Inl TypeError
        | _ \<Rightarrow> Inr ''alpaca_fill_reconciler_standard''))"

definition parse_iso_timestamp :: "desk_env \<Rightarrow> pyval \<Rightarrow> string" where
  "parse_iso_timestamp env ts = (case ts of
       PStr s \<Rightarrow> (case de_parse env s of Some t \<Rightarrow> t | None \<Rightarrow> de_now_text env)
     | _ \<Rightarrow> de_now_text env)"

text \<open>Recording the gap on the order: any failure is swallowed.\<close>

definition record_gap :: "desk_env \<Rightarrow> pydict \<Rightarrow> pydict \<Rightarrow> desk \<Rightarrow> desk" where
  "record_gap env order ao dk =
     (case (read_stamp (dget order ''order_json''), broker_fill_to_mark_basis (dget ao ''filled_avg_price'')) of
        ((cross, mid), fill) \<Rightarrow>
          (case py_or (dget order ''order_json'') (PDict []) of
             PDict oj \<Rightarrow>
               if de_db_ok env
               then update_order (dget order ''id'')
                      [(''order_json'', PDict (dset_all (stamp_payload cross mid fill) oj))] dk
               else dk
           | _ \<Rightarrow> dk))"

text \<open>
  The inputs of the profit: the size, the side the structure was opened on, and the entry price.
\<close>

definition close_inputs :: "pynum \<Rightarrow> pydict \<Rightarrow> pyexn + int \<times> string \<times> pynum" where
  "close_inputs raw position =
     rbind (py_int_of_num raw) (\<lambda>q.
     rbind (py_dec (py_or (dget position ''avg_entry_price'') (PInt 0))) (\<lambda>entry.
       Inr (\<bar>q\<bar>, if flt (Fin 0) raw then ''debit'' else ''credit'', entry)))"

definition close_position_on_fill ::
  "desk_env \<Rightarrow> string \<Rightarrow> pydict \<Rightarrow> pydict \<Rightarrow> desk \<Rightarrow> (close_error + unit) \<times> desk" where
  "close_position_on_fill env pid order ao dk =
     (case find (\<lambda>r. row_id r = PStr pid) (dk_positions dk) of
        None \<Rightarrow> (Inl (CloseExn RuntimeError), dk)
      | Some position \<Rightarrow>
          if is_closed position then (Inr (), dk)
          else case py_float (py_or (dget position ''quantity'') (PInt 0)) of
              Inl e \<Rightarrow> (Inl (CloseExn e), dk)
            | Inr raw \<Rightarrow>
                if num_eq raw (Fin 0) then (Inr (), add_alert env (ClosePathAnomaly (row_id position) ''derive_inputs'') dk)
                else case close_inputs raw position of
                    Inl e \<Rightarrow> (Inl (CloseExn e), dk)
                  | Inr (qty, spread_type, entry) \<Rightarrow>
                      (case extract_close_legs (PDict ao) of
                         Inl (CloseExn e) \<Rightarrow> (Inl (CloseExn e), dk)
                       | Inl _ \<Rightarrow> (Inr (), add_alert env (ClosePathAnomaly (row_id position) ''extract_close_legs'') dk)
                       | Inr legs \<Rightarrow>
                           (case compute_realized_pl legs (PDec entry) qty spread_type 100 of
                              Inl PartialFillDetected \<Rightarrow>
                                (Inr (), add_alert env (ClosePathAnomaly (row_id position) ''compute_realized_pl'') dk)
                            | Inl MalformedFillData \<Rightarrow> (Inl MalformedFillData, dk)
                            | Inl (CloseExn e) \<Rightarrow> (Inl (CloseExn e), dk)
                            | Inr pl \<Rightarrow>
                                (case resolved_reason order of
                                   Inl e \<Rightarrow> (Inl (CloseExn e), dk)
                                 | Inr reason \<Rightarrow>
                                     (case close_position_shared env pid (PDec pl) reason ''alpaca_fill_reconciler''
                                             (Some (parse_iso_timestamp env (py_or (dget ao ''filled_at'') (PStr (de_now_text env)))))
                                             (dk_positions dk) of
                                        (Inl (PositionAlreadyClosed _ _ _), rows) \<Rightarrow>
                                          (Inr (), add_alert env (ClosePathAnomaly (row_id position) ''close_position_shared'')
                                                     (dk\<lparr>dk_positions := rows\<rparr>))
                                      | (Inl PositionNotFound, rows) \<Rightarrow> (Inl (CloseExn RuntimeError), dk\<lparr>dk_positions := rows\<rparr>)
                                      | (Inl (WriterExn e), rows) \<Rightarrow> (Inl (CloseExn e), dk\<lparr>dk_positions := rows\<rparr>)
                                      | (Inr _, rows) \<Rightarrow> (Inr (), record_gap env order ao (dk\<lparr>dk_positions := rows\<rparr>)))))))"

end
