(* ===== verification/Close_Correct.thy ===== *)
theory Close_Correct
  imports Position_Close
begin

section \<open>Correctness of closing a position\<close>

text \<open>
  The writer closes a position at most once and never touches a closed row; a filled close order
  books the canonical profit of a complete fill, and an incomplete one books nothing.
\<close>

named_theorems close_defs \<open>steps of the close path\<close>

declare row_id_def [close_defs] closable_def [close_defs] is_closed_def [close_defs]

lemma dget_dset_all:
  "dget (dset_all kvs d) k = (case map_of (rev kvs) k of Some v \<Rightarrow> v | None \<Rightarrow> dget d k)"
proof (induction kvs arbitrary: d)
  case (Cons p kvs)
  obtain k' v where "p = (k', v)" by (cases p)
  with Cons show ?case by (auto simp: dset_all_def map_add_def split: option.splits)
qed (simp add: dset_all_def)

lemma dget_dset_all_other: "k \<notin> fst ` set kvs \<Longrightarrow> dget (dset_all kvs d) k = dget d k"
proof -
  assume "k \<notin> fst ` set kvs"
  then have "map_of (rev kvs) k = None" by (simp add: map_of_eq_None_iff)
  then show ?thesis by (simp add: dget_dset_all)
qed

lemma close_row_fields [simp]:
  "row_id (close_row pl reason source t now r) = row_id r"
  "is_closed (close_row pl reason source t now r)"
  "dget (close_row pl reason source t now r) ''quantity'' = PInt 0"
  "dget (close_row pl reason source t now r) ''realized_pl'' = PDec pl"
  by (simp_all add: close_row_def dget_dset_all close_defs)

lemma closable_not_closed: "closable r \<Longrightarrow> \<not> is_closed r"
  by (auto simp: close_defs)

subsection \<open>The writer\<close>

definition ids_unique :: "pydict list \<Rightarrow> bool" where
  "ids_unique rows \<longleftrightarrow> distinct (map row_id rows)"

lemma ids_uniqueD: "ids_unique rows \<Longrightarrow> r \<in> set rows \<Longrightarrow> r' \<in> set rows \<Longrightarrow> row_id r = row_id r' \<Longrightarrow> r = r'"
  by (auto simp: ids_unique_def distinct_map inj_on_def)

lemma find_by_id: "ids_unique rows \<Longrightarrow> r \<in> set rows \<Longrightarrow> find (\<lambda>x. row_id x = row_id r) rows = Some r"
  unfolding ids_unique_def by (induction rows) auto

lemma filter_on:
  "(\<And>x. x \<in> set rows \<Longrightarrow> Q x \<longleftrightarrow> x = r) \<Longrightarrow> filter Q rows = filter (\<lambda>x. x = r) rows"
  by (induction rows) auto

lemma filter_eq_one: "distinct xs \<Longrightarrow> x \<in> set xs \<Longrightarrow> filter (\<lambda>y. y = x) xs = [x]"
  by (induction xs) (auto simp: filter_empty_conv)

lemma selected_one:
  assumes u: "ids_unique rows" and r: "r \<in> set rows" "P r" "row_id r = k"
  shows "filter (\<lambda>x. row_id x = k \<and> P x) rows = [r]"
proof -
  have "distinct rows" using u by (auto simp: ids_unique_def distinct_map)
  moreover have "x = r" if "x \<in> set rows" "row_id x = k" for x
    using ids_uniqueD [OF u that(1) r(1)] that(2) r(3) by simp
  then have "filter (\<lambda>x. row_id x = k \<and> P x) rows = filter (\<lambda>x. x = r) rows"
    using r by (intro filter_on) blast
  ultimately show ?thesis using r(1) by (simp add: filter_eq_one)
qed

lemma selected_update:
  assumes u: "ids_unique rows" and r: "r \<in> set rows" "P r" "row_id r = k"
  shows "update_rows (\<lambda>x. row_id x = k \<and> P x) f rows = update_rows (\<lambda>x. row_id x = k) f rows"
proof -
  have "x = r" if "x \<in> set rows" "row_id x = k" for x
    using ids_uniqueD [OF u that(1) r(1)] that(2) r(3) by simp
  then show ?thesis using r(2) unfolding update_rows_def by (intro map_cong) auto
qed

text \<open>A write that reports success rewrote one open row; any other leaves the table as it was.\<close>

lemma writer_cases:
  assumes u: "ids_unique rows" and w: "close_position_shared env pid realized reason source at' rows = (res, rows')"
  shows "(isl res \<and> rows' = rows) \<or>
    (res = Inr () \<and> (\<exists>r pl t. r \<in> set rows \<and> row_id r = PStr pid \<and> closable r
       \<and> reason \<in> set valid_close_reasons
       \<and> rows' = update_rows (\<lambda>x. row_id x = PStr pid) (close_row pl reason source t (de_now_text env)) rows))"
proof (cases "\<exists>r \<in> set rows. row_id r = PStr pid \<and> closable r")
  case True
  then obtain r where r: "r \<in> set rows" "row_id r = PStr pid" "closable r" by blast
  have one: "filter (\<lambda>x. row_id x = PStr pid \<and> closable x) rows = [r]"
    using selected_one [of rows r closable "PStr pid"] u r by simp
  note upd = selected_update [of rows r closable "PStr pid", OF u r(1) r(3) r(2)]
  then show ?thesis
    using w r one upd by (auto simp: close_position_shared_def Let_def split: if_splits sum.splits)
next
  case False
  then have none: "filter (\<lambda>x. row_id x = PStr pid \<and> closable x) rows = []"
    and same: "update_rows (\<lambda>x. row_id x = PStr pid \<and> closable x) f rows = rows" for f
    by (auto simp: filter_empty_conv intro: update_rows_none)
  then show ?thesis
    using w by (auto simp: close_position_shared_def Let_def split: if_splits sum.splits option.splits)
qed

text \<open>A valid request for an open row succeeds.\<close>

lemma writer_closes:
  assumes u: "ids_unique rows" and r: "r \<in> set rows" "row_id r = PStr pid" "closable r"
    and ok: "de_db_ok env" "reason \<in> set valid_close_reasons" "source \<in> set valid_fill_sources"
  shows "close_position_shared env pid (PDec pl) reason source (Some t) rows
    = (Inr (), update_rows (\<lambda>x. row_id x = PStr pid) (close_row pl reason source t (de_now_text env)) rows)"
proof -
  have one: "filter (\<lambda>x. row_id x = PStr pid \<and> closable x) rows = [r]"
    using selected_one [of rows r closable "PStr pid"] u r by simp
  note upd = selected_update [of rows r closable "PStr pid", OF u r(1) r(3) r(2)]
  then show ?thesis using ok one upd by (simp add: close_position_shared_def Let_def)
qed

record close_request =
  cq_env :: desk_env
  cq_id :: string
  cq_realized :: pyval
  cq_reason :: string
  cq_source :: string
  cq_closed_at :: "string option"

definition close_act :: "close_request \<Rightarrow> pydict list \<Rightarrow> bool \<times> pydict list" where
  "close_act q rows =
     (case close_position_shared (cq_env q) (cq_id q) (cq_realized q) (cq_reason q) (cq_source q) (cq_closed_at q) rows of
        (res, rows') \<Rightarrow> (\<not> isl res, rows'))"

definition closed_id :: "pydict list \<Rightarrow> string \<Rightarrow> bool" where
  "closed_id rows k \<longleftrightarrow> (\<exists>r \<in> set rows. row_id r = PStr k \<and> is_closed r)"

lemma ids_unique_update:
  assumes "\<And>r. row_id (f r) = row_id r"
  shows "ids_unique (update_rows P f rows) = ids_unique rows"
  by (simp add: ids_unique_def map_key_update_rows assms)

lemma close_act_cases:
  assumes "ids_unique rows" and "close_act q rows = (b, rows')"
  shows "(\<not> b \<and> rows' = rows) \<or>
    (b \<and> (\<exists>r pl t now. r \<in> set rows \<and> row_id r = PStr (cq_id q) \<and> closable r
       \<and> rows' = update_rows (\<lambda>x. row_id x = PStr (cq_id q)) (close_row pl (cq_reason q) (cq_source q) t now) rows))"
proof -
  obtain res where w: "close_position_shared (cq_env q) (cq_id q) (cq_realized q) (cq_reason q) (cq_source q) (cq_closed_at q) rows
      = (res, rows')" and b: "b = (\<not> isl res)"
    using assms(2) by (auto simp: close_act_def split: prod.splits)
  from writer_cases [OF assms(1) w] show ?thesis
  proof
    assume "isl res \<and> rows' = rows" then show ?thesis using b by simp
  qed (use b in auto)
qed

interpretation cw: one_shot close_act cq_id closed_id ids_unique
proof
  fix x s b t assume ok: "ids_unique s" and act: "close_act x s = (b, t)"
  from close_act_cases [OF this] show "ids_unique t"
    using ok by (auto simp: ids_unique_update)
  show "closed_id t k" if sp: "closed_id s k" for k
  proof -
    obtain r where r: "r \<in> set s" "row_id r = PStr k" "is_closed r" using sp by (auto simp: closed_id_def)
    from close_act_cases [OF ok act] show ?thesis
    proof
      assume "b \<and> (\<exists>r pl u now. r \<in> set s \<and> row_id r = PStr (cq_id x) \<and> closable r
        \<and> t = update_rows (\<lambda>y. row_id y = PStr (cq_id x)) (close_row pl (cq_reason x) (cq_source x) u now) s)"
      then obtain pl u now where t: "t = update_rows (\<lambda>y. row_id y = PStr (cq_id x)) (close_row pl (cq_reason x) (cq_source x) u now) s"
        by blast
      let ?f = "\<lambda>y. if row_id y = PStr (cq_id x) then close_row pl (cq_reason x) (cq_source x) u now y else y"
      have "?f r \<in> set t" using r(1) by (auto simp: t update_rows_def)
      moreover have "row_id (?f r) = PStr k" and "is_closed (?f r)" using r by auto
      ultimately show ?thesis by (auto simp: closed_id_def)
    qed (use sp in simp)
  qed
next
  fix x s t assume ok: "ids_unique s" and act: "close_act x s = (True, t)"
  then obtain r pl u now where r: "r \<in> set s" "row_id r = PStr (cq_id x)" "closable r"
    and t: "t = update_rows (\<lambda>y. row_id y = PStr (cq_id x)) (close_row pl (cq_reason x) (cq_source x) u now) s"
    using close_act_cases by blast
  have "\<not> closed_id s (cq_id x)"
  proof
    assume "closed_id s (cq_id x)"
    then obtain y where y: "y \<in> set s" "row_id y = PStr (cq_id x)" "is_closed y" unfolding closed_id_def by blast
    have "y = r" by (rule ids_uniqueD [OF ok y(1) r(1)]) (simp add: y(2) r(2))
    then show False using y(3) closable_not_closed [OF r(3)] by simp
  qed
  moreover have "closed_id t (cq_id x)"
  proof -
    have "close_row pl (cq_reason x) (cq_source x) u now r \<in> set t" using r by (auto simp: t set_update_rows)
    moreover have "row_id (close_row pl (cq_reason x) (cq_source x) u now r) = PStr (cq_id x)" using r by simp
    ultimately show ?thesis unfolding closed_id_def by (metis close_row_fields(2))
  qed
  ultimately show "\<not> closed_id s (cq_id x) \<and> closed_id t (cq_id x)" ..
qed

lemma closed_row_kept:
  assumes "ids_unique rows" and "r \<in> set rows" and "is_closed r"
  shows "r \<in> set (snd (run_ops close_act qs rows))"
  using assms
proof (induction qs arbitrary: rows)
  case (Cons q qs)
  obtain b t where act: "close_act q rows = (b, t)" by fastforce
  have "ids_unique t" using cw.ok_step [OF Cons.prems(1) act] .
  moreover have "r \<in> set t"
    using close_act_cases [OF Cons.prems(1) act]
  proof
    assume "b \<and> (\<exists>r' pl u now. r' \<in> set rows \<and> row_id r' = PStr (cq_id q) \<and> closable r'
       \<and> t = update_rows (\<lambda>x. row_id x = PStr (cq_id q)) (close_row pl (cq_reason q) (cq_source q) u now) rows)"
    then obtain r' pl u now where r': "r' \<in> set rows" "row_id r' = PStr (cq_id q)" "closable r'"
      and t: "t = update_rows (\<lambda>x. row_id x = PStr (cq_id q)) (close_row pl (cq_reason q) (cq_source q) u now) rows" by blast
    have "row_id r \<noteq> PStr (cq_id q)"
      using ids_uniqueD [OF Cons.prems(1,2) r'(1)] r' Cons.prems(3) closable_not_closed by auto
    then show ?thesis using Cons.prems(2) by (auto simp: t set_update_rows)
  qed (use Cons.prems in simp)
  ultimately have "r \<in> set (snd (run_ops close_act qs t))" using Cons.IH Cons.prems(3) by blast
  then show ?case by (cases "run_ops close_act qs t") (simp add: act)
qed simp

text \<open>
  C10 (safety). Closing is one-way: in any sequence of close requests, from whatever handlers and in
  whatever order, each position is closed by at most one of them, and a row that is closed
  keeps its profit, reason, source and date for ever.
\<close>

theorem position_closed_at_most_once:
  assumes "ids_unique rows"
  shows "distinct (effective_keys close_act cq_id qs rows)
    \<and> (\<forall>r. r \<in> set rows \<and> is_closed r \<longrightarrow> r \<in> set (snd (run_ops close_act qs rows)))"
  using cw.at_most_once [OF assms] closed_row_kept [OF assms] by blast


subsection \<open>A filled close order\<close>

lemma update_order_positions [simp]: "dk_positions (update_order oid kvs dk) = dk_positions dk"
  "dk_alerts (update_order oid kvs dk) = dk_alerts dk"
  by (simp_all add: update_order_def)

lemma add_alert_positions [simp]: "dk_positions (add_alert env a dk) = dk_positions dk"
  "dk_orders (add_alert env a dk) = dk_orders dk"
  by (simp_all add: add_alert_def)

lemma record_gap_frame [simp]: "dk_positions (record_gap env order ao dk) = dk_positions dk"
  "dk_alerts (record_gap env order ao dk) = dk_alerts dk"
  by (simp_all add: record_gap_def split: prod.splits pyval.splits)

lemma resolved_reason_known:
  assumes "resolved_reason order = Inr reason" shows "reason \<in> set valid_close_reasons"
proof -
  have std: "''alpaca_fill_reconciler_standard'' \<in> set valid_close_reasons" by (simp add: valid_close_reasons_def)
  obtain oj where "order_json_of order = Inr oj" using assms by (auto simp: resolved_reason_def rbind_Inr_iff)
  with assms std show ?thesis
    by (cases "dget oj ''close_reason''") (auto simp: resolved_reason_def split: if_splits)
qed

text \<open>The database's identifiers are texts.\<close>

lemma find_position:
  assumes "ids_unique rows" and "r \<in> set rows" and "row_id r = PStr pid"
  shows "find (\<lambda>x. row_id x = PStr pid) rows = Some r"
  using find_by_id [OF assms(1,2)] assms(3) by simp

lemma close_on_fill_booked:
  assumes u: "ids_unique (dk_positions dk)" and r: "r \<in> set (dk_positions dk)" "row_id r = PStr pid" "closable r"
    and q: "dget r ''quantity'' = PInt q" "q \<noteq> 0" and e: "dget r ''avg_entry_price'' = PFloat (Fin e)"
    and legs: "extract_close_legs (PDict ao) = Inr legs" "legs \<noteq> []" "\<forall>l \<in> set legs. leg_fill_ok \<bar>q\<bar> l"
    and size: "\<bar>round_half_even (100 * realized_total legs e \<bar>q\<bar> (if 0 < q then ''debit'' else ''credit'') 100)\<bar> < 10 ^ 28"
    and reason: "resolved_reason order = Inr reason" and db: "de_db_ok env"
  shows "\<exists>t. fst (close_position_on_fill env pid order ao dk) = Inr ()
    \<and> dk_positions (snd (close_position_on_fill env pid order ao dk))
      = update_rows (\<lambda>x. row_id x = PStr pid)
          (close_row (Fin (to_cents (realized_total legs e \<bar>q\<bar> (if 0 < q then ''debit'' else ''credit'') 100)))
             reason ''alpaca_fill_reconciler'' t (de_now_text env)) (dk_positions dk)
    \<and> dk_alerts (snd (close_position_on_fill env pid order ao dk)) = dk_alerts dk"
proof -
  let ?side = "if 0 < q then ''debit'' else ''credit''"
  note find = find_position [OF u r(1,2)]
  have open': "\<not> is_closed r" using closable_not_closed [OF r(3)] .
  have pl: "compute_realized_pl legs (PDec (Fin e)) \<bar>q\<bar> ?side 100 = Inr (Fin (to_cents (realized_total legs e \<bar>q\<bar> ?side 100)))"
    by (rule realized_pl_formula) (use legs size q in \<open>auto simp: as_decimal_def\<close>)
  have raw: "py_float (py_or (dget r ''quantity'') (PInt 0)) = Inr (Fin (of_int q))"
    using q by (simp add: py_or_def)
  have inputs: "close_inputs (Fin (of_int q)) r = Inr (\<bar>q\<bar>, ?side, Fin e)"
    using e by (simp add: close_inputs_def py_or_def num_truthy_def)
  have known: "reason \<in> set valid_close_reasons"
    using reason by (rule resolved_reason_known)
  have source: "''alpaca_fill_reconciler'' \<in> set valid_fill_sources" by (simp add: valid_fill_sources_def)
  show ?thesis
    using pl inputs open' q(2) legs(1) reason
      writer_closes [OF u r db known source, of "Fin (to_cents (realized_total legs e \<bar>q\<bar> ?side 100))"]
    by (auto simp: close_position_on_fill_def find raw)
qed

text \<open>
  C11 (functional). A filled close order books the canonical profit: when every leg of the payload
  is a complete fill of the position's size, the open row becomes closed with the
  canonical realized total of theory Close_Math, rounded to cents, as its profit, the stamped
  reason and the broker's fill time; no other row changes and no alert is written.
\<close>

theorem close_on_fill_books_canonical:
  assumes u: "ids_unique (dk_positions dk)" and r: "r \<in> set (dk_positions dk)" "row_id r = PStr pid" "closable r"
    and q: "dget r ''quantity'' = PInt q" "q \<noteq> 0" and e: "dget r ''avg_entry_price'' = PFloat (Fin e)"
    and legs: "extract_close_legs (PDict ao) = Inr legs" "legs \<noteq> []" "\<forall>l \<in> set legs. leg_fill_ok \<bar>q\<bar> l"
    and size: "\<bar>round_half_even (100 * realized_total legs e \<bar>q\<bar> (if 0 < q then ''debit'' else ''credit'') 100)\<bar> < 10 ^ 28"
    and reason: "resolved_reason order = Inr reason" and db: "de_db_ok env"
  shows "\<exists>t. fst (close_position_on_fill env pid order ao dk) = Inr ()
    \<and> dk_positions (snd (close_position_on_fill env pid order ao dk))
      = update_rows (\<lambda>x. row_id x = PStr pid)
          (close_row (Fin (to_cents (realized_total legs e \<bar>q\<bar> (if 0 < q then ''debit'' else ''credit'') 100)))
             reason ''alpaca_fill_reconciler'' t (de_now_text env)) (dk_positions dk)
    \<and> dk_alerts (snd (close_position_on_fill env pid order ao dk)) = dk_alerts dk"
  using assms by (rule close_on_fill_booked)

lemma close_on_fill_change:
  assumes u: "ids_unique (dk_positions dk)"
    and run: "close_position_on_fill env pid order ao dk = (res, dk')"
    and changed: "dk_positions dk' \<noteq> dk_positions dk"
  shows "res = Inr () \<and> dk_alerts dk' = dk_alerts dk \<and>
    (\<exists>r legs q side entry pl reason t. r \<in> set (dk_positions dk) \<and> row_id r = PStr pid \<and> closable r
       \<and> reason \<in> set valid_close_reasons
       \<and> extract_close_legs (PDict ao) = Inr legs
       \<and> (\<forall>l \<in> set legs. as_decimal (dget l ''filled_qty'') = Inr (Fin (of_int q)) \<and> \<not> isl (leg_sign l))
       \<and> compute_realized_pl legs (PDec entry) q side 100 = Inr pl
       \<and> dk_positions dk' = update_rows (\<lambda>x. row_id x = PStr pid)
            (close_row pl reason ''alpaca_fill_reconciler'' t (de_now_text env)) (dk_positions dk))"
proof -
  obtain p where p: "find (\<lambda>r. row_id r = PStr pid) (dk_positions dk) = Some p"
    using run changed by (cases "find (\<lambda>r. row_id r = PStr pid) (dk_positions dk)") (auto simp: close_position_on_fill_def)
  have "\<not> is_closed p" using run changed p by (auto simp: close_position_on_fill_def)
  moreover obtain raw where raw: "py_float (py_or (dget p ''quantity'') (PInt 0)) = Inr raw"
    using run changed p by (cases "py_float (py_or (dget p ''quantity'') (PInt 0))")
      (auto simp: close_position_on_fill_def split: if_splits)
  moreover have "\<not> num_eq raw (Fin 0)"
    using run changed p raw by (auto simp: close_position_on_fill_def split: if_splits)
  moreover obtain q side entry where inp: "close_inputs raw p = Inr (q, side, entry)"
    using run changed p raw by (cases "close_inputs raw p") (auto simp: close_position_on_fill_def split: if_splits)
  moreover obtain legs where legs: "extract_close_legs (PDict ao) = Inr legs"
    using run changed p raw inp
    by (cases "extract_close_legs (PDict ao)") (auto simp: close_position_on_fill_def split: if_splits close_error.splits)
  moreover obtain pl where pl: "compute_realized_pl legs (PDec entry) q side 100 = Inr pl"
    using run changed p raw inp legs
    by (cases "compute_realized_pl legs (PDec entry) q side 100")
       (auto simp: close_position_on_fill_def split: if_splits close_error.splits)
  moreover obtain reason where reason: "resolved_reason order = Inr reason"
    using run changed p raw inp legs pl
    by (cases "resolved_reason order") (auto simp: close_position_on_fill_def split: if_splits)
  moreover obtain w rows where w: "close_position_shared env pid (PDec pl) reason ''alpaca_fill_reconciler''
      (Some (parse_iso_timestamp env (py_or (dget ao ''filled_at'') (PStr (de_now_text env))))) (dk_positions dk) = (w, rows)"
    by fastforce
  ultimately have run': "(res, dk') = (case (w, rows) of
        (Inl (PositionAlreadyClosed _ _ _), rows) \<Rightarrow>
          (Inr (), add_alert env (ClosePathAnomaly (row_id p) ''close_position_shared'') (dk\<lparr>dk_positions := rows\<rparr>))
      | (Inl PositionNotFound, rows) \<Rightarrow> (Inl (CloseExn RuntimeError), dk\<lparr>dk_positions := rows\<rparr>)
      | (Inl (WriterExn e), rows) \<Rightarrow> (Inl (CloseExn e), dk\<lparr>dk_positions := rows\<rparr>)
      | (Inr _, rows) \<Rightarrow> (Inr (), record_gap env order ao (dk\<lparr>dk_positions := rows\<rparr>)))"
    using run p by (simp add: close_position_on_fill_def)
  have ne: "rows \<noteq> dk_positions dk" using run' changed by (auto split: sum.splits writer_error.splits)
  with writer_cases [OF u w] obtain r pl' t where r: "w = Inr ()" "r \<in> set (dk_positions dk)" "row_id r = PStr pid"
    "closable r" "reason \<in> set valid_close_reasons" by blast
  have rows: "rows = update_rows (\<lambda>x. row_id x = PStr pid) (close_row pl reason ''alpaca_fill_reconciler''
      (parse_iso_timestamp env (py_or (dget ao ''filled_at'') (PStr (de_now_text env)))) (de_now_text env)) (dk_positions dk)"
    using w r(1,5) writer_closes [OF u r(2-4) _ r(5), of env "''alpaca_fill_reconciler''" pl]
    by (cases "de_db_ok env") (auto simp: close_position_shared_def valid_fill_sources_def)
  have out: "res = Inr ()" "dk_positions dk' = rows" "dk_alerts dk' = dk_alerts dk" using run' r(1) by auto
  have "\<forall>l \<in> set legs. as_decimal (dget l ''filled_qty'') = Inr (Fin (of_int q)) \<and> \<not> isl (leg_sign l)"
    using realized_pl_complete [OF pl] by blast
  then show ?thesis using out r legs pl rows by blast
qed

text \<open>
  Whatever the payload, a close order changes the positions only if its position was
  open and every leg of the payload filled exactly the position's whole size with a
  recognised action; then exactly that row is closed, with the profit of those legs, a
  reason of the canonical set, and no alert. In every other case all positions are as before.
\<close>

theorem close_on_fill_all_or_nothing:
  assumes u: "ids_unique (dk_positions dk)"
    and run: "close_position_on_fill env pid order ao dk = (res, dk')"
    and changed: "dk_positions dk' \<noteq> dk_positions dk"
  shows "res = Inr () \<and> dk_alerts dk' = dk_alerts dk \<and>
    (\<exists>r legs q side entry pl reason t. r \<in> set (dk_positions dk) \<and> row_id r = PStr pid \<and> closable r
       \<and> reason \<in> set valid_close_reasons
       \<and> extract_close_legs (PDict ao) = Inr legs
       \<and> (\<forall>l \<in> set legs. as_decimal (dget l ''filled_qty'') = Inr (Fin (of_int q)) \<and> \<not> isl (leg_sign l))
       \<and> compute_realized_pl legs (PDec entry) q side 100 = Inr pl
       \<and> dk_positions dk' = update_rows (\<lambda>x. row_id x = PStr pid)
            (close_row pl reason ''alpaca_fill_reconciler'' t (de_now_text env)) (dk_positions dk))"
  using assms by (rule close_on_fill_change)

subsection \<open>Instances\<close>

definition sample_desk_env :: desk_env where
  "sample_desk_env = \<lparr>de_now = 1000, de_now_text = ''now'', de_parse = (\<lambda>s. Some s), de_parse_ts = (\<lambda>_. Some 0),
     de_db_ok = True, de_alert_ok = True\<rparr>"

definition sample_position :: pydict where
  "sample_position = [(''id'', PStr ''p1''), (''status'', PStr ''open''), (''quantity'', PInt 6),
     (''avg_entry_price'', PFloat (Fin (294/100)))]"

definition sample_desk :: desk where
  "sample_desk = \<lparr>dk_orders = [], dk_positions = [sample_position], dk_alerts = []\<rparr>"

definition sample_fill :: pydict where
  "sample_fill = [(''id'', PStr ''a1''), (''filled_at'', PStr ''t1''), (''legs'', PList [
     PDict [(''symbol'', PStr ''O:PYPL1''), (''side'', PStr ''sell''), (''filled_qty'', PInt 6), (''filled_avg_price'', PFloat (Fin (505/100)))],
     PDict [(''symbol'', PStr ''O:PYPL2''), (''side'', PStr ''buy''), (''filled_qty'', PInt 6), (''filled_avg_price'', PFloat (Fin (245/100)))]])]"

lemma sample_rows: "ids_unique (dk_positions sample_desk)" "sample_position \<in> set (dk_positions sample_desk)"
  "row_id sample_position = PStr ''p1''" "closable sample_position"
  by (simp_all add: ids_unique_def sample_desk_def sample_position_def close_defs dget_def)

definition sample_legs :: "pydict list" where
  "sample_legs =
     [leg_fill (PStr ''O:PYPL1'') (PStr ''sell'') (PInt 6) (PFloat (Fin (505/100))),
      leg_fill (PStr ''O:PYPL2'') (PStr ''buy'') (PInt 6) (PFloat (Fin (245/100)))]"

lemma sample_extract: "extract_close_legs (PDict sample_fill) = Inr sample_legs"
  by (simp add: sample_fill_def sample_legs_def extract_defs py_defs)

lemma sample_legs_ok: "\<forall>l \<in> set sample_legs. leg_fill_ok 6 l"
  by (simp add: sample_legs_def leg_fill_def leg_fill_ok_def as_decimal_def close_math_defs py_defs)

lemma sample_total: "realized_total sample_legs (147/50) 6 ''debit'' 100 = - 204"
  by (simp add: sample_legs_def leg_fill_def realized_total_def entry_sign_def signed_price_def as_decimal_def
      close_math_defs py_defs)

definition sample_act :: "close_request" where
  "sample_act = \<lparr>cq_env = sample_desk_env, cq_id = ''p1'', cq_realized = PDec (Fin 7),
     cq_reason = ''stop_loss_hit'', cq_source = ''manual_endpoint'', cq_closed_at = None\<rparr>"

theorem position_closed_at_most_once_witness:
  "distinct (effective_keys close_act cq_id [sample_act, sample_act\<lparr>cq_reason := ''dte_threshold''\<rparr>] [sample_position])"
  by (rule conjunct1 [OF position_closed_at_most_once]) (simp add: ids_unique_def)

lemma sample_simps: "dk_positions sample_desk = [sample_position]" "de_now_text sample_desk_env = ''now''"
  by (simp_all add: sample_desk_def sample_desk_env_def)

lemma sample_inputs:
  "dget sample_position ''quantity'' = PInt 6" "dget sample_position ''avg_entry_price'' = PFloat (Fin (294/100))"
  "sample_legs \<noteq> []" "\<forall>l \<in> set sample_legs. leg_fill_ok \<bar>6\<bar> l"
  "\<bar>round_half_even (100 * realized_total sample_legs (294/100) \<bar>6\<bar> (if 0 < (6::int) then ''debit'' else ''credit'') 100)\<bar> < 10 ^ 28"
  "resolved_reason [] = Inr ''alpaca_fill_reconciler_standard''" "de_db_ok sample_desk_env"
proof -
  have r: "round_half_even (100 * (- 204)) = - 20400" using round_half_even_of_int [of "- 20400"] by simp
  show "\<bar>round_half_even (100 * realized_total sample_legs (294/100) \<bar>6\<bar> (if 0 < (6::int) then ''debit'' else ''credit'') 100)\<bar> < 10 ^ 28"
    using r by (simp add: sample_total)
qed (use sample_legs_ok in \<open>simp_all add: sample_position_def sample_legs_def sample_desk_env_def resolved_reason_def
    order_json_of_def dget_def py_or_def\<close>)

lemma cents_204: "to_cents (- 204) = - 204"
  using to_cents_exact [of "- 204" "- 20400"] by simp

theorem close_on_fill_books_canonical_witness:
  "\<exists>t. dk_positions (snd (close_position_on_fill sample_desk_env ''p1'' [] sample_fill sample_desk))
     = [close_row (Fin (- 204)) ''alpaca_fill_reconciler_standard'' ''alpaca_fill_reconciler'' t ''now'' sample_position]"
proof -
  obtain t where "dk_positions (snd (close_position_on_fill sample_desk_env ''p1'' [] sample_fill sample_desk))
      = update_rows (\<lambda>x. row_id x = PStr ''p1'')
          (close_row (Fin (to_cents (realized_total sample_legs (294/100) \<bar>6\<bar> (if 0 < (6::int) then ''debit'' else ''credit'') 100)))
             ''alpaca_fill_reconciler_standard'' ''alpaca_fill_reconciler'' t (de_now_text sample_desk_env)) (dk_positions sample_desk)"
    using close_on_fill_books_canonical [OF sample_rows sample_inputs(1) _ sample_inputs(2) sample_extract sample_inputs(3-7)] by auto
  then show ?thesis using sample_rows(3) by (auto simp: sample_total cents_204 sample_simps)
qed

theorem close_on_fill_all_or_nothing_witness:
  "fst (close_position_on_fill sample_desk_env ''p1'' [] sample_fill sample_desk) = Inr ()"
proof -
  obtain t where t: "dk_positions (snd (close_position_on_fill sample_desk_env ''p1'' [] sample_fill sample_desk))
      = update_rows (\<lambda>x. row_id x = PStr ''p1'')
          (close_row (Fin (to_cents (realized_total sample_legs (294/100) \<bar>6\<bar> (if 0 < (6::int) then ''debit'' else ''credit'') 100)))
             ''alpaca_fill_reconciler_standard'' ''alpaca_fill_reconciler'' t (de_now_text sample_desk_env)) (dk_positions sample_desk)"
    using close_on_fill_booked [OF sample_rows sample_inputs(1) _ sample_inputs(2) sample_extract sample_inputs(3-7)] by auto
  have "dk_positions (snd (close_position_on_fill sample_desk_env ''p1'' [] sample_fill sample_desk)) \<noteq> dk_positions sample_desk"
  proof
    assume "dk_positions (snd (close_position_on_fill sample_desk_env ''p1'' [] sample_fill sample_desk)) = dk_positions sample_desk"
    then have "is_closed sample_position" using t sample_rows(3) by (auto simp: sample_simps) (metis close_row_fields(2))
    then show False using closable_not_closed [OF sample_rows(4)] by simp
  qed
  from close_on_fill_all_or_nothing [OF sample_rows(1) surjective_pairing this] show ?thesis by simp
qed

end
