(* ===== verification/Broker_Orders.thy ===== *)
theory Broker_Orders
  imports Position_Close
begin

section \<open>Orders at the broker\<close>

text \<open>
  Model of \<open>brokers/alpaca_order_handler.py\<close>: the request an order row becomes, its submission
  with retries, and the poll that brings the broker's answers back to the tables. The row of an
  order is its dictionary; an identifier is a text or an integer.

  The broker (with its client in \<open>brokers/alpaca_client.py\<close>) is the record \<open>broker\<close>: what each
  call answers, and how it changes the broker's state, of any type. An error carries its text,
  because the code classifies errors by the markers they contain. Waiting and logging are left
  out.
\<close>

subsection \<open>The request\<close>

fun contains :: "string \<Rightarrow> string \<Rightarrow> bool" where
  "contains p [] \<longleftrightarrow> p = []"
| "contains p (c # cs) \<longleftrightarrow> take (length p) (c # cs) = p \<or> contains p cs"

definition max_submit_attempts :: nat where
  "max_submit_attempts = 3"

definition terminal_reject_markers :: "string list" where
  "terminal_reject_markers =
     [''42210000'', ''position intent mismatch'', ''sign-incoherent'', ''insufficient'', ''extra_forbidden'',
      ''not permitted'', ''options trading level'', ''options level'', ''not approved for'']"

definition duplicate_close_markers :: "string list" where
  "duplicate_close_markers = [''42210000'', ''position intent mismatch'']"

definition duplicate_order_id_markers :: "string list" where
  "duplicate_order_id_markers = [''client_order_id must be unique'', ''client_order_id already exists'']"

definition marked :: "string list \<Rightarrow> string \<Rightarrow> bool" where
  "marked ms err \<longleftrightarrow> list_ex (\<lambda>m. contains m (str_lower err)) ms"

definition id_text :: "pyval \<Rightarrow> string" where
  "id_text v = (case v of PStr s \<Rightarrow> s | PInt n \<Rightarrow> str_of_int n | _ \<Rightarrow> [])"

definition deterministic_client_order_id :: "pydict \<Rightarrow> pyexn + string option" where
  "deterministic_client_order_id order =
     (if \<not> truthy (dget order ''id'') then Inr None
      else case py_or (dget order ''execution_mode'') (PStr []) of
          PStr m \<Rightarrow> Inr (Some (''otc1-'' @ (if contains ''paper'' (str_lower m) then ''p'' else ''l'') @ ''-''
                           @ id_text (dget order ''id'')))
        | _ \<Rightarrow> Inl AttributeError)"

definition client_id_of :: "pydict \<Rightarrow> pyexn + pyval" where
  "client_id_of order =
     (if truthy (dget order ''client_order_id'') then Inr (dget order ''client_order_id'')
      else rbind (deterministic_client_order_id order) (\<lambda>c. Inr (case c of None \<Rightarrow> PNone | Some s \<Rightarrow> PStr s)))"

text \<open>\<open>str.replace("O:", "")\<close> on a symbol that starts with the prefix.\<close>

fun remove_prefixes :: "string \<Rightarrow> string" where
  "remove_prefixes (a # b # cs) =
     (if a = CHR ''O'' \<and> b = CHR '':'' then remove_prefixes cs else a # remove_prefixes (b # cs))"
| "remove_prefixes s = s"

definition polygon_to_alpaca :: "pyval \<Rightarrow> pyexn + string" where
  "polygon_to_alpaca v = (case v of
       PStr s \<Rightarrow> Inr (if take 2 s = ''O:'' then remove_prefixes s else s)
     | _ \<Rightarrow> Inl AttributeError)"

record request_leg =
  rl_symbol :: string
  rl_side :: pyval
  rl_intent :: "string option"

record order_request =
  rq_symbol :: pyval
  rq_legs :: "request_leg list"
  rq_qty :: int
  rq_limit :: pynum
  rq_tif :: string
  rq_client :: pyval

datatype build_error = SignIncoherent | NoLimitPrice | BuildExn pyexn

definition build_lift :: "pyexn + 'a \<Rightarrow> build_error + 'a" where
  "build_lift m = (case m of Inl e \<Rightarrow> Inl (BuildExn e) | Inr x \<Rightarrow> Inr x)"

text \<open>The items of a list of legs; anything else that is iterated has no \<open>get\<close>.\<close>

definition leg_items :: "pyval \<Rightarrow> pyexn + pydict list" where
  "leg_items v = (case v of
       PList xs \<Rightarrow> rmap (\<lambda>x. case as_dict x of None \<Rightarrow> Inl AttributeError | Some d \<Rightarrow> Inr d) xs
     | PStr _ \<Rightarrow> Inl AttributeError
     | PDict _ \<Rightarrow> Inl AttributeError
     | _ \<Rightarrow> Inl TypeError)"

definition leg_symbol_of :: "pydict \<Rightarrow> pyval" where
  "leg_symbol_of leg = py_or (dget leg ''symbol'') (py_or (dget leg ''occ_symbol'') (PStr []))"

definition request_leg_of :: "bool \<Rightarrow> pyval \<Rightarrow> pydict \<Rightarrow> pyexn + request_leg" where
  "request_leg_of is_close side leg =
     (let s = py_or (dget leg ''side'') (py_or (dget leg ''action'') side)
      in rbind (polygon_to_alpaca (leg_symbol_of leg)) (\<lambda>sym.
         Inr \<lparr>rl_symbol = sym, rl_side = s,
              rl_intent = (if is_close then Some (if s = PStr ''buy'' then ''buy_to_close'' else ''sell_to_close'')
                           else None)\<rparr>))"

definition time_in_force_of :: "pydict \<Rightarrow> string" where
  "time_in_force_of oj =
     (case py_text (py_or (dget oj ''time_in_force'') (PStr ''day'')) of
        Some t \<Rightarrow> (let l = str_lower t in if l = ''day'' \<or> l = ''gtc'' then l else ''day'')
      | None \<Rightarrow> ''day'')"

definition penny :: pynum where
  "penny = Fin (1/100)"

text \<open>The sign convention of a limit: a credit is negative; then the clamp of a worthless close.\<close>

definition signed_limit :: "bool \<Rightarrow> bool \<Rightarrow> pynum \<Rightarrow> pynum" where
  "signed_limit is_close credit limit =
     (let l = (if credit \<and> flt (Fin 0) limit then fneg limit else limit)
      in if is_close \<and> flt (Fin 0) (fabs l) \<and> flt (fabs l) penny
         then (if flt l (Fin 0) then fneg penny else penny) else l)"

definition build_alpaca_order_request :: "pydict \<Rightarrow> build_error + order_request" where
  "build_alpaca_order_request order =
     rbind (build_lift (order_json_of order)) (\<lambda>oj.
     let side = py_or (dget order ''side'') (py_or (dget oj ''side'') (PStr ''buy''))
     in rbind (build_lift (py_float (py_or (dget order ''requested_price'') (py_or (dget oj ''limit_price'') (PInt 0))))) (\<lambda>price.
        rbind (build_lift (py_int (py_or (dget order ''requested_qty'') (py_or (dget oj ''contracts'') (PInt 1))))) (\<lambda>qty.
        let is_close = truthy (dget order ''position_id'');
            credit_close = is_close \<and> truthy (dget oj ''is_credit_close'');
            credit_open = truthy (dget oj ''is_credit_open'') \<and> \<not> is_close
        in rbind (build_lift (leg_items (py_or (dget oj ''legs'') (PList [])))) (\<lambda>items.
           rbind (build_lift (rmap (request_leg_of is_close side) items)) (\<lambda>legs.
           let credit = credit_close \<or> credit_open;
               limit = signed_limit is_close credit (round2 price)
           in if credit \<and> flt (Fin 0) limit then Inl SignIncoherent
              else if is_close \<and> \<not> credit_close \<and> flt limit (Fin 0) then Inl SignIncoherent
              else if \<not> num_truthy limit \<or> flt (fabs limit) penny then Inl NoLimitPrice
              else rbind (build_lift (client_id_of order)) (\<lambda>cid.
                Inr \<lparr>rq_symbol = py_or (dget oj ''symbol'') (dget order ''symbol''), rq_legs = legs, rq_qty = qty,
                     rq_limit = limit, rq_tif = time_in_force_of oj, rq_client = cid\<rparr>))))))"

subsection \<open>Submission\<close>

datatype submit_answer = Ack pydict | AuthFailure string | SubmitError string

record 'b broker =
  br_submit :: "'b \<Rightarrow> order_request \<Rightarrow> submit_answer \<times> 'b"
  br_lookup :: "'b \<Rightarrow> pyval \<Rightarrow> pyexn + pydict option"
  br_cancel_for :: "'b \<Rightarrow> string list \<Rightarrow> 'b"
  br_paper :: bool

text \<open>
  The database in a submission: whether the write of an attempt is taken (0 is the final mark),
  and the text of its error.
\<close>

record submit_db =
  sd_ok :: "nat \<Rightarrow> bool"
  sd_error :: string

datatype submit_result =
    Submitted pydict
  | ResolvedByClientId pydict
  | DuplicateClosePriorFill nat
  | NeedsManualReview nat

text \<open>The texts of the builder's own errors, as far as a marker looks at them.\<close>

definition build_error_text :: "build_error \<Rightarrow> string" where
  "build_error_text e = (case e of
       SignIncoherent \<Rightarrow> ''Sign-incoherent''
     | NoLimitPrice \<Rightarrow> ''Cannot submit options order without limit_price''
     | BuildExn _ \<Rightarrow> [])"

text \<open>
  What an acknowledged order's row says. The final mark \<open>needs_manual_review\<close> below leaves out its
  diagnostic \<open>broker_response\<close> (the last error's text and the counts).
\<close>

definition submitted_fields :: "'b broker \<Rightarrow> string \<Rightarrow> pydict \<Rightarrow> (string \<times> pyval) list" where
  "submitted_fields br now d =
     [(''alpaca_order_id'', dget d ''alpaca_order_id''),
      (''execution_mode'', PStr (if br_paper br then ''alpaca_paper'' else ''alpaca_live'')),
      (''broker_status'', dget d ''status''), (''broker_response'', PDict d),
      (''status'', PStr ''submitted''), (''submitted_at'', PStr now)]"

text \<open>What the handler of an error decides: return, stop trying, or try again.\<close>

datatype error_step = Return submit_result | Escape pyexn | Stop | Again

definition on_submit_error ::
  "desk_env \<Rightarrow> 'b broker \<Rightarrow> submit_db \<Rightarrow> pydict \<Rightarrow> nat \<Rightarrow> string \<Rightarrow> 'b \<Rightarrow> desk \<Rightarrow> error_step \<times> desk" where
  "on_submit_error env br sdb order k err b dk =
     (if marked duplicate_close_markers err then (Return (DuplicateClosePriorFill k), dk)
      else case client_id_of order of
          Inl e \<Rightarrow> (Escape e, dk)
        | Inr cid \<Rightarrow>
            (let found = (if truthy cid \<and> marked duplicate_order_id_markers err
                          then (case br_lookup br b cid of Inl _ \<Rightarrow> None | Inr d \<Rightarrow> d) else None)
             in case found of
                  Some d \<Rightarrow>
                    if truthy (dget d ''alpaca_order_id'') then
                      (if sd_ok sdb k
                       then (Return (ResolvedByClientId d),
                             update_order (dget order ''id'') (submitted_fields br (de_now_text env) d) dk)
                       else (Escape RuntimeError, dk))
                    else (if marked terminal_reject_markers err then Stop else Again, dk)
                | None \<Rightarrow> (if marked terminal_reject_markers err then Stop else Again, dk)))"

fun submit_attempts ::
  "desk_env \<Rightarrow> 'b broker \<Rightarrow> submit_db \<Rightarrow> pydict \<Rightarrow> nat \<Rightarrow> nat \<Rightarrow> nat \<Rightarrow> 'b \<Rightarrow> desk \<Rightarrow>
     (pyexn + submit_result option) \<times> nat \<times> 'b \<times> desk" where
  "submit_attempts env br sdb order 0 k made b dk = (Inr None, made, b, dk)"
| "submit_attempts env br sdb order (Suc n) k made b dk =
     (case build_alpaca_order_request order of
        Inl e \<Rightarrow>
          (case on_submit_error env br sdb order k (build_error_text e) b dk of
             (Return r, dk1) \<Rightarrow> (Inr (Some r), k, b, dk1)
           | (Escape x, dk1) \<Rightarrow> (Inl x, k, b, dk1)
           | (Stop, dk1) \<Rightarrow> (Inr None, k, b, dk1)
           | (Again, dk1) \<Rightarrow> submit_attempts env br sdb order n (k + 1) k b dk1)
      | Inr req \<Rightarrow>
          (case br_submit br b req of
             (AuthFailure t, b1) \<Rightarrow> (Inr None, made, b1, dk)
           | (Ack d, b1) \<Rightarrow>
               if \<not> truthy (dget d ''alpaca_order_id'') then submit_attempts env br sdb order n (k + 1) k b1 dk
               else if sd_ok sdb k
               then (Inr (Some (Submitted d)), made, b1,
                     update_order (dget order ''id'') (submitted_fields br (de_now_text env) d) dk)
               else
                 (case on_submit_error env br sdb order k (sd_error sdb) b1 dk of
                    (Return r, dk1) \<Rightarrow> (Inr (Some r), k, b1, dk1)
                  | (Escape x, dk1) \<Rightarrow> (Inl x, k, b1, dk1)
                  | (Stop, dk1) \<Rightarrow> (Inr None, k, b1, dk1)
                  | (Again, dk1) \<Rightarrow> submit_attempts env br sdb order n (k + 1) k b1 dk1)
           | (SubmitError t, b1) \<Rightarrow>
               (case on_submit_error env br sdb order k t b1 dk of
                  (Return r, dk1) \<Rightarrow> (Inr (Some r), k, b1, dk1)
                | (Escape x, dk1) \<Rightarrow> (Inl x, k, b1, dk1)
                | (Stop, dk1) \<Rightarrow> (Inr None, k, b1, dk1)
                | (Again, dk1) \<Rightarrow> submit_attempts env br sdb order n (k + 1) k b1 dk1)))"

text \<open>The symbols of a close order, whose competing orders are cancelled first.\<close>

definition close_leg_symbols :: "pydict \<Rightarrow> pyexn + string list" where
  "close_leg_symbols oj =
     rbind (leg_items (py_or (dget oj ''legs'') (PList []))) (\<lambda>items.
       rmap polygon_to_alpaca
         (map leg_symbol_of (filter (\<lambda>l. truthy (dget l ''symbol'') \<or> truthy (dget l ''occ_symbol'')) items)))"

definition py_len_ok :: "pyval \<Rightarrow> bool" where
  "py_len_ok v = (case v of PStr _ \<Rightarrow> True | PList _ \<Rightarrow> True | PDict _ \<Rightarrow> True | _ \<Rightarrow> False)"

definition cancel_competing :: "'b broker \<Rightarrow> pydict \<Rightarrow> 'b \<Rightarrow> pyexn + 'b" where
  "cancel_competing br order b =
     rbind (order_json_of order) (\<lambda>oj.
       if \<not> py_len_ok (dget_default oj ''legs'' (PList [])) then Inl TypeError
       else if \<not> truthy (dget order ''position_id'') then Inr b
       else rbind (close_leg_symbols oj) (\<lambda>syms. Inr (if syms = [] then b else br_cancel_for br b syms)))"

definition submit_and_track ::
  "desk_env \<Rightarrow> 'b broker \<Rightarrow> submit_db \<Rightarrow> pydict \<Rightarrow> 'b \<Rightarrow> desk \<Rightarrow> (pyexn + submit_result) \<times> 'b \<times> desk" where
  "submit_and_track env br sdb order b dk =
     (case cancel_competing br order b of
        Inl e \<Rightarrow> (Inl e, b, dk)
      | Inr b0 \<Rightarrow>
          (case submit_attempts env br sdb order max_submit_attempts 1 0 b0 dk of
             (Inl e, made, b1, dk1) \<Rightarrow> (Inl e, b1, dk1)
           | (Inr (Some r), made, b1, dk1) \<Rightarrow> (Inr r, b1, dk1)
           | (Inr None, made, b1, dk1) \<Rightarrow>
               if \<not> sd_ok sdb 0 then (Inl RuntimeError, b1, dk1)
               else (Inr (NeedsManualReview made), b1,
                     add_alert env (ManualReview (dget order ''id'') made)
                       (update_order (dget order ''id'')
                          [(''broker_status'', PStr ''needs_manual_review''), (''status'', PStr ''needs_manual_review'')] dk1))))"

subsection \<open>Polling\<close>

text \<open>
  The broker's side of a poll: what each of the two possible reads of an order answers. The fill of
  an entry order (order repair in \<open>paper_endpoints.py\<close> and the resting profit exit) is the
  parameter \<open>open_fill\<close>.
\<close>

record poll_broker =
  pb_get :: "pyval \<Rightarrow> pyexn + pydict"
  pb_refetch :: "pyval \<Rightarrow> pyexn + pydict"

definition idle_watchdog_seconds :: int where
  "idle_watchdog_seconds = 90"

definition status_map :: "(string \<times> string) list" where
  "status_map =
     [(''new'', ''working''), (''accepted'', ''working''), (''pending_new'', ''working''),
      (''partially_filled'', ''partial''), (''filled'', ''filled''), (''canceled'', ''cancelled''),
      (''expired'', ''cancelled''), (''rejected'', ''cancelled''), (''replaced'', ''working''),
      (''pending_replace'', ''working'')]"

definition internal_status :: "pyval \<Rightarrow> string" where
  "internal_status st = (case st of
       PStr s \<Rightarrow> (case map_of status_map s of Some t \<Rightarrow> t | None \<Rightarrow> ''working'')
     | _ \<Rightarrow> ''working'')"

definition broker_status_of :: "pydict \<Rightarrow> pyval" where
  "broker_status_of ao = dget_default ao ''status'' (PStr [])"

definition filled_qty_of :: "pydict \<Rightarrow> pyexn + pynum" where
  "filled_qty_of ao = py_float (py_or (dget ao ''filled_qty'') (PInt 0))"

text \<open>Since when a working order has been idle; orders meant to rest are exempt.\<close>

definition watched_since :: "desk_env \<Rightarrow> pydict \<Rightarrow> pydict \<Rightarrow> pyexn + int option" where
  "watched_since env order ao =
     rbind (order_json_of order) (\<lambda>oj.
       let tif = map_option str_lower (py_text (py_or (dget oj ''time_in_force'') (PStr ''day'')));
           cls = py_text (py_or (dget oj ''order_class'') (PStr []))
       in if internal_status (broker_status_of ao) = ''working'' \<and> truthy (dget order ''submitted_at'')
             \<and> tif \<noteq> Some ''gtc'' \<and> cls \<noteq> Some ''intentional_resting_exit''
          then (case dget order ''submitted_at'' of PStr s \<Rightarrow> Inr (de_parse_ts env s) | _ \<Rightarrow> Inl AttributeError)
          else Inr None)"

datatype watchdog_step = NotIdle | Refetched pydict | CleanCancel int pydict

definition watchdog :: "desk_env \<Rightarrow> poll_broker \<Rightarrow> pydict \<Rightarrow> pydict \<Rightarrow> pyexn + watchdog_step" where
  "watchdog env pb order ao =
     rbind (watched_since env order ao) (\<lambda>since.
       case since of
         None \<Rightarrow> Inr NotIdle
       | Some t \<Rightarrow>
           rbind (filled_qty_of ao) (\<lambda>filled.
             if idle_watchdog_seconds < de_now env - t \<and> num_eq filled (Fin 0) then
               (case pb_refetch pb (dget order ''alpaca_order_id'') of
                  Inl e \<Rightarrow> Inl RuntimeError
                | Inr ao2 \<Rightarrow>
                    (case filled_qty_of ao2 of
                       Inl e \<Rightarrow> Inl RuntimeError
                     | Inr f2 \<Rightarrow> Inr (if broker_status_of ao2 = PStr ''canceled'' \<and> num_eq f2 (Fin 0)
                                      then CleanCancel (de_now env - t) ao2 else Refetched ao2)))
             else Inr NotIdle))"

definition watchdog_fields :: "desk_env \<Rightarrow> int \<Rightarrow> pydict \<Rightarrow> (string \<times> pyval) list" where
  "watchdog_fields env idle ao =
     [(''broker_status'', PStr ''watchdog_cancelled''), (''status'', PStr ''watchdog_cancelled''),
      (''cancelled_at'', PStr (de_now_text env)),
      (''cancelled_reason'', PStr (''watchdog_idle_timeout idle='' @ str_of_int idle @ ''s threshold=''
          @ str_of_int idle_watchdog_seconds @ ''s'')),
      (''broker_response'', PDict (dset ao ''watchdog'' (PDict
          [(''reason'', PStr ''idle_timeout''), (''idle_seconds'', PInt idle),
           (''threshold'', PInt idle_watchdog_seconds), (''cancelled_at'', PStr (de_now_text env))])))]"

text \<open>Why the broker ended an order: the first leg that says so, the order, or the status.\<close>

fun first_leg_reason :: "pyval list \<Rightarrow> pyexn + pyval option" where
  "first_leg_reason [] = Inr None"
| "first_leg_reason (v # vs) =
     (case as_dict v of
        None \<Rightarrow> Inl AttributeError
      | Some leg \<Rightarrow>
          (let t = py_or (dget leg ''status_text'') (dget leg ''reject_reason'')
           in if truthy t then Inr (Some t) else first_leg_reason vs))"

definition rejection_reason :: "pydict \<Rightarrow> pyexn + pyval" where
  "rejection_reason ao =
     rbind (case py_or (dget ao ''legs'') (PList []) of
              PList vs \<Rightarrow> first_leg_reason vs | PInt _ \<Rightarrow> Inl TypeError | PFloat _ \<Rightarrow> Inl TypeError
            | PBool _ \<Rightarrow> Inl TypeError | _ \<Rightarrow> Inl AttributeError)
       (\<lambda>r. Inr (case r of
          Some t \<Rightarrow> t
        | None \<Rightarrow> py_or (dget ao ''status_text'') (py_or (dget ao ''reject_reason'')
                    (PStr (''alpaca_status='' @ id_text (broker_status_of ao))))))"

definition is_broker_rejection :: "pydict \<Rightarrow> bool" where
  "is_broker_rejection ao \<longleftrightarrow>
     broker_status_of ao = PStr ''rejected'' \<or> broker_status_of ao = PStr ''expired''
     \<or> (broker_status_of ao = PStr ''canceled'' \<and> dget ao ''failed_at'' \<noteq> PNone)"

definition synced_status :: "pydict \<Rightarrow> pynum \<Rightarrow> string" where
  "synced_status ao filled =
     (if flt (Fin 0) filled \<and> (broker_status_of ao = PStr ''canceled'' \<or> broker_status_of ao = PStr ''expired''
           \<or> broker_status_of ao = PStr ''rejected'')
      then ''needs_manual_review'' else internal_status (broker_status_of ao))"

definition fill_fields :: "pydict \<Rightarrow> pynum \<Rightarrow> pyexn + (string \<times> pyval) list" where
  "fill_fields ao filled =
     (if \<not> flt (Fin 0) filled then Inr []
      else rbind (if truthy (dget ao ''filled_avg_price'')
                  then rbind (py_float (dget ao ''filled_avg_price'')) (\<lambda>p. Inr [(''avg_fill_price'', PFloat p)])
                  else Inr []) (\<lambda>price.
        Inr ([(''filled_qty'', PFloat filled)] @ price @
             (if truthy (dget ao ''filled_at'') then [(''filled_at'', dget ao ''filled_at'')] else []))))"

definition cancel_fields :: "desk_env \<Rightarrow> pydict \<Rightarrow> pyexn + (string \<times> pyval) list" where
  "cancel_fields env ao =
     (if is_broker_rejection ao \<or> broker_status_of ao = PStr ''canceled'' \<or> broker_status_of ao = PStr ''expired''
      then rbind (rejection_reason ao) (\<lambda>r.
        Inr [(''cancelled_reason'', PStr (take 500 (id_text r))),
             (''cancelled_at'', py_or (dget ao ''failed_at'') (py_or (dget ao ''canceled_at'') (PStr (de_now_text env))))])
      else Inr [])"

definition sync_fields :: "desk_env \<Rightarrow> pydict \<Rightarrow> pynum \<Rightarrow> pyexn + (string \<times> pyval) list" where
  "sync_fields env ao filled =
     rbind (fill_fields ao filled) (\<lambda>ff.
     rbind (cancel_fields env ao) (\<lambda>cf.
       Inr ([(''broker_status'', broker_status_of ao), (''broker_response'', PDict ao),
             (''status'', PStr (synced_status ao filled))] @ ff @ cf)))"

text \<open>
  The rejection alert, at most one an hour per position (or per user when there is no position);
  building its message may fail, which is swallowed.
\<close>

definition recently_alerted :: "desk_env \<Rightarrow> string \<Rightarrow> pyval \<Rightarrow> desk_alert \<Rightarrow> bool" where
  "recently_alerted env user pos a = (case a of
       RejectedByBroker t u p \<Rightarrow> de_now env - 3600 \<le> t \<and> (if truthy pos then p = pos else u = user)
     | _ \<Rightarrow> False)"

definition alert_renders :: "pydict \<Rightarrow> pydict \<Rightarrow> bool" where
  "alert_renders order ao \<longleftrightarrow>
     as_dict (dget_default order ''order_json'' (PDict [])) \<noteq> None \<and>
     (case py_or (dget ao ''legs'') (PList []) of PList vs \<Rightarrow> list_all (\<lambda>v. as_dict v \<noteq> None) vs | _ \<Rightarrow> False)"

definition alert_rejection :: "desk_env \<Rightarrow> string \<Rightarrow> pydict \<Rightarrow> pydict \<Rightarrow> desk \<Rightarrow> desk" where
  "alert_rejection env user order ao dk =
     (if is_broker_rejection ao \<and> \<not> list_ex (recently_alerted env user (dget order ''position_id'')) (dk_alerts dk)
         \<and> alert_renders order ao
      then add_alert env (RejectedByBroker (de_now env) user (dget order ''position_id'')) dk else dk)"

datatype poll_outcome =
    FillDone | FillFailed | PartialSeen | CancelSeen | UnchangedSeen | WatchdogCancelled | PollError

definition settle_order ::
  "desk_env \<Rightarrow> (pydict \<Rightarrow> desk \<Rightarrow> (pyexn + unit) \<times> desk) \<Rightarrow> string \<Rightarrow> pydict \<Rightarrow> pydict \<Rightarrow> desk \<Rightarrow> poll_outcome \<times> desk" where
  "settle_order env open_fill user order ao dk =
     (case filled_qty_of ao of
        Inl e \<Rightarrow> (PollError, dk)
      | Inr filled \<Rightarrow>
          (case sync_fields env ao filled of
             Inl e \<Rightarrow> (PollError, dk)
           | Inr kvs \<Rightarrow>
               if \<not> de_db_ok env then (PollError, dk)
               else
                 (let dk1 = alert_rejection env user order ao (update_order (dget order ''id'') kvs dk);
                      st = synced_status ao filled
                  in if st = ''filled'' \<and> flt (Fin 0) filled then
                       (if truthy (dget order ''position_id'')
                        then (case close_position_on_fill env (id_text (dget order ''position_id'')) order ao dk1 of
                                (Inl e, dk2) \<Rightarrow> (FillFailed, dk2) | (Inr _, dk2) \<Rightarrow> (FillDone, dk2))
                        else (case open_fill order dk1 of
                                (Inl e, dk2) \<Rightarrow> (FillFailed, dk2) | (Inr _, dk2) \<Rightarrow> (FillDone, dk2)))
                     else if st = ''partial'' \<or> st = ''needs_manual_review'' then (PartialSeen, dk1)
                     else if st = ''cancelled'' then (CancelSeen, dk1)
                     else (UnchangedSeen, dk1))))"

definition poll_order ::
  "desk_env \<Rightarrow> poll_broker \<Rightarrow> (pydict \<Rightarrow> desk \<Rightarrow> (pyexn + unit) \<times> desk) \<Rightarrow> string \<Rightarrow> pydict \<Rightarrow> desk \<Rightarrow> poll_outcome \<times> desk" where
  "poll_order env pb open_fill user order dk =
     (case pb_get pb (dget order ''alpaca_order_id'') of
        Inl e \<Rightarrow> (PollError, dk)
      | Inr ao \<Rightarrow>
          (case watchdog env pb order ao of
             Inl e \<Rightarrow> (PollError, dk)
           | Inr (CleanCancel idle ao2) \<Rightarrow>
               if \<not> de_db_ok env then (PollError, dk)
               else (WatchdogCancelled, update_order (dget order ''id'') (watchdog_fields env idle ao2) dk)
           | Inr NotIdle \<Rightarrow> settle_order env open_fill user order ao dk
           | Inr (Refetched ao2) \<Rightarrow> settle_order env open_fill user order ao2 dk))"

definition pollable_statuses :: "string list" where
  "pollable_statuses = [''submitted'', ''working'', ''partial'', ''needs_manual_review'']"

definition pollable :: "pyval list \<Rightarrow> pydict \<Rightarrow> bool" where
  "pollable portfolios r \<longleftrightarrow>
     (case dget r ''status'' of PStr s \<Rightarrow> s \<in> set pollable_statuses | _ \<Rightarrow> False)
     \<and> dget r ''portfolio_id'' \<in> set portfolios \<and> dget r ''alpaca_order_id'' \<noteq> PNone"

fun poll_orders ::
  "desk_env \<Rightarrow> poll_broker \<Rightarrow> (pydict \<Rightarrow> desk \<Rightarrow> (pyexn + unit) \<times> desk) \<Rightarrow> string \<Rightarrow> pydict list \<Rightarrow> desk \<Rightarrow> poll_outcome list \<times> desk" where
  "poll_orders env pb open_fill user [] dk = ([], dk)"
| "poll_orders env pb open_fill user (r # rs) dk =
     (case poll_order env pb open_fill user r dk of (x, dk1) \<Rightarrow>
       (case poll_orders env pb open_fill user rs dk1 of (xs, dk2) \<Rightarrow> (x # xs, dk2)))"

definition poll_pending_orders ::
  "desk_env \<Rightarrow> poll_broker \<Rightarrow> (pydict \<Rightarrow> desk \<Rightarrow> (pyexn + unit) \<times> desk) \<Rightarrow> string \<Rightarrow> pyval list \<Rightarrow> desk \<Rightarrow> poll_outcome list \<times> desk" where
  "poll_pending_orders env pb open_fill user portfolios dk =
     (if portfolios = [] then ([], dk)
      else poll_orders env pb open_fill user (filter (pollable portfolios) (dk_orders dk)) dk)"

subsection \<open>Comparing the book with the broker\<close>

text \<open>\<open>lstrip("O:")\<close>: every leading letter O and colon goes, not only the prefix.\<close>

definition lstrip_o :: "string \<Rightarrow> string" where
  "lstrip_o s = dropWhile (\<lambda>c. c = CHR ''O'' \<or> c = CHR '':'') s"

definition leg_symbols :: "pydict list \<Rightarrow> string list" where
  "leg_symbols legs = List.map_filter (\<lambda>l. case dget l ''symbol'' of
       PStr (c # cs) \<Rightarrow> Some (lstrip_o (c # cs)) | _ \<Rightarrow> None) legs"

text \<open>A position none of whose legs the broker holds is a ghost; its legs are dictionaries.\<close>

definition is_ghost :: "pydict list \<Rightarrow> pydict list \<Rightarrow> bool" where
  "is_ghost alpaca legs \<longleftrightarrow>
     leg_symbols legs \<noteq> [] \<and> list_all (\<lambda>s. s \<notin> set (leg_symbols alpaca)) (leg_symbols legs)"

definition older_than :: "desk_env \<Rightarrow> int \<Rightarrow> pydict \<Rightarrow> bool" where
  "older_than env secs r = (case dget r ''created_at'' of
       PStr s \<Rightarrow> (case de_parse_ts env s of Some t \<Rightarrow> t < de_now env - secs | None \<Rightarrow> False) | _ \<Rightarrow> False)"

definition open_in :: "pyval list \<Rightarrow> pydict \<Rightarrow> bool" where
  "open_in portfolios r \<longleftrightarrow> dget r ''portfolio_id'' \<in> set portfolios \<and> dget r ''status'' = PStr ''open''
     \<and> dget r ''quantity'' \<noteq> PNone \<and> truthy (dget r ''quantity'')"

definition position_legs :: "pydict \<Rightarrow> pydict list" where
  "position_legs r = (case dget r ''legs'' of PList vs \<Rightarrow> List.map_filter as_dict vs | _ \<Rightarrow> [])"

definition stale_reviews :: "desk_env \<Rightarrow> int \<Rightarrow> pyval list \<Rightarrow> pydict list \<Rightarrow> desk \<Rightarrow> pydict list" where
  "stale_reviews env secs portfolios opens dk =
     filter (\<lambda>q. dget q ''portfolio_id'' \<in> set portfolios \<and> dget q ''status'' = PStr ''needs_manual_review''
               \<and> older_than env secs q
               \<and> truthy (dget q ''position_id'') \<and> dget q ''position_id'' \<in> set (map row_id opens)
               \<and> \<not> list_ex (\<lambda>a. case a of StaleReview t oid _ \<Rightarrow> oid = row_id q \<and> de_now env - 3600 \<le> t | _ \<Rightarrow> False)
                    (dk_alerts dk))
       (dk_orders dk)"

definition ghost_position_sweep ::
  "desk_env \<Rightarrow> pyexn + pydict list \<Rightarrow> pyval list \<Rightarrow> int \<Rightarrow> int \<Rightarrow> desk \<Rightarrow> (pyval list \<times> pyval list) option \<times> desk" where
  "ghost_position_sweep env alpaca portfolios min_age stale_age dk =
     (case alpaca of
        Inl e \<Rightarrow> (None, dk)
      | Inr held \<Rightarrow>
          if portfolios = [] then (None, dk)
          else
            (let opens = filter (\<lambda>r. open_in portfolios r \<and> older_than env min_age r) (dk_positions dk);
                 ghosts = filter (\<lambda>r. is_ghost held (position_legs r)) opens;
                 dk1 = fold (\<lambda>r. add_alert env (GhostPosition (row_id r))) ghosts dk;
                 stale = stale_reviews env stale_age portfolios opens dk1;
                 dk2 = fold (\<lambda>q. add_alert env (StaleReview (de_now env) (row_id q) (dget q ''position_id''))) stale dk1
             in (Some (map row_id ghosts, map row_id stale), dk2)))"

datatype discrepancy_row = AlpacaOnly string pynum | QtyMismatch string pynum pynum | InternalOnly string pynum

text \<open>Two maps from symbol to quantity, in insertion order.\<close>

definition compare_books :: "(string \<times> pynum) list \<Rightarrow> (string \<times> pynum) list \<Rightarrow> discrepancy_row list" where
  "compare_books alpaca internal =
     List.map_filter (\<lambda>(s, q). case map_of internal s of
         None \<Rightarrow> Some (AlpacaOnly s q)
       | Some p \<Rightarrow> if flt (Fin (1/100)) (fabs (fsub p q)) then Some (QtyMismatch s q p) else None) alpaca
     @ List.map_filter (\<lambda>(s, q). if map_of alpaca s = None then Some (InternalOnly s q) else None) internal"

end
