(* ===== verification/Broker_Correct.thy ===== *)
theory Broker_Correct
  imports Broker_Orders Close_Correct
begin

section \<open>Correctness of the order handling\<close>

text \<open>
  What every request says of its order's row; how a submission ends; what a poll may change.
\<close>

subsection \<open>The request\<close>

definition closes_position :: "pydict \<Rightarrow> bool" where
  "closes_position order \<longleftrightarrow> truthy (dget order ''position_id'')"

definition credit_order :: "pydict \<Rightarrow> pydict \<Rightarrow> bool" where
  "credit_order order oj \<longleftrightarrow>
     (if closes_position order then truthy (dget oj ''is_credit_close'') else truthy (dget oj ''is_credit_open''))"

definition price_of :: "pydict \<Rightarrow> pydict \<Rightarrow> pyexn + pynum" where
  "price_of order oj = py_float (py_or (dget order ''requested_price'') (py_or (dget oj ''limit_price'') (PInt 0)))"

definition quantity_of :: "pydict \<Rightarrow> pydict \<Rightarrow> pyexn + int" where
  "quantity_of order oj = py_int (py_or (dget order ''requested_qty'') (py_or (dget oj ''contracts'') (PInt 1)))"

definition side_of :: "pydict \<Rightarrow> pydict \<Rightarrow> pyval" where
  "side_of order oj = py_or (dget order ''side'') (py_or (dget oj ''side'') (PStr ''buy''))"

lemma build_lift_Inr [simp]: "build_lift m = Inr x \<longleftrightarrow> m = Inr x"
  by (cases m) (auto simp: build_lift_def)

lemma build_Inr:
  assumes "build_alpaca_order_request order = Inr req"
  obtains oj price qty items legs cid where "order_json_of order = Inr oj" and "price_of order oj = Inr price"
    and "quantity_of order oj = Inr qty" and "leg_items (py_or (dget oj ''legs'') (PList [])) = Inr items"
    and "rmap (request_leg_of (closes_position order) (side_of order oj)) items = Inr legs"
    and "\<not> (credit_order order oj \<and> flt (Fin 0) (signed_limit (closes_position order) (credit_order order oj) (round2 price)))"
    and "\<not> (closes_position order \<and> \<not> credit_order order oj
            \<and> flt (signed_limit (closes_position order) (credit_order order oj) (round2 price)) (Fin 0))"
    and "num_truthy (signed_limit (closes_position order) (credit_order order oj) (round2 price))"
    and "\<not> flt (fabs (signed_limit (closes_position order) (credit_order order oj) (round2 price))) penny"
    and "client_id_of order = Inr cid"
    and "req = \<lparr>rq_symbol = py_or (dget oj ''symbol'') (dget order ''symbol''), rq_legs = legs, rq_qty = qty,
        rq_limit = signed_limit (closes_position order) (credit_order order oj) (round2 price),
        rq_tif = time_in_force_of oj, rq_client = cid\<rparr>"
proof -
  have credit: "(truthy (dget order ''position_id'') \<and> truthy (dget oj ''is_credit_close'')
      \<or> truthy (dget oj ''is_credit_open'') \<and> \<not> truthy (dget order ''position_id'')) = credit_order order oj" for oj
    by (auto simp: credit_order_def closes_position_def)
  have close: "truthy (dget order ''position_id'') = closes_position order" by (simp add: closes_position_def)
  have cc: "closes_position order \<and> \<not> (closes_position order \<and> truthy (dget oj ''is_credit_close''))
      \<longleftrightarrow> closes_position order \<and> \<not> credit_order order oj" for oj
    by (auto simp: credit_order_def)
  show thesis
    using assms that
    by (auto simp: build_alpaca_order_request_def rbind_Inr_iff Let_def price_of_def [symmetric] quantity_of_def [symmetric] side_of_def [symmetric]
          credit [unfolded close] close
        split: if_splits) (auto simp: credit_order_def)
qed


lemma round2_Fin [simp]: "round2 (Fin p) = Fin (to_cents p)"
  by (simp add: round2_def)

lemma signed_limit_Fin:
  "\<exists>l. signed_limit c k (Fin x) = Fin l"
proof -
  have "is_finite (signed_limit c k (Fin x))" by (auto simp: signed_limit_def penny_def Let_def)
  then show ?thesis by (simp add: is_finite_iff)
qed

lemma time_in_force_cases: "time_in_force_of oj = ''day'' \<or> time_in_force_of oj = ''gtc''"
  by (auto simp: time_in_force_of_def Let_def split: option.splits)

text \<open>The leg of the request that stands for a leg of the row.\<close>

definition leg_matches :: "bool \<Rightarrow> pyval \<Rightarrow> pydict \<Rightarrow> request_leg \<Rightarrow> bool" where
  "leg_matches is_close side leg r \<longleftrightarrow>
     polygon_to_alpaca (py_or (dget leg ''symbol'') (py_or (dget leg ''occ_symbol'') (PStr []))) = Inr (rl_symbol r)
     \<and> rl_side r = py_or (dget leg ''side'') (py_or (dget leg ''action'') side)
     \<and> rl_intent r = (if is_close then Some (if rl_side r = PStr ''buy'' then ''buy_to_close'' else ''sell_to_close'') else None)"

lemma request_leg_matches: "request_leg_of is_close side leg = Inr r \<Longrightarrow> leg_matches is_close side leg r"
  by (auto simp: request_leg_of_def leg_matches_def leg_symbol_of_def rbind_Inr_iff Let_def)

lemma whole_cents: "\<bar>to_cents p\<bar> < 1/100 \<Longrightarrow> to_cents p = 0"
proof -
  assume "\<bar>to_cents p\<bar> < 1/100"
  then have "\<bar>of_int (round_half_even (100 * p)) :: rat\<bar> < 1" by (simp add: to_cents_def)
  then show ?thesis by (simp add: to_cents_def)
qed

lemma signed_limit_cents:
  "signed_limit is_close credit (Fin (to_cents p)) = Fin (if credit then - \<bar>to_cents p\<bar> else to_cents p)"
proof -
  define x where "x = to_cents p"
  have "x = 0" if "\<bar>x\<bar> < 1/100" using whole_cents that unfolding x_def .
  then consider "x = 0" | "1/100 \<le> x" | "x \<le> - (1/100)" by fastforce
  then have "signed_limit is_close credit (Fin x) = Fin (if credit then - \<bar>x\<bar> else x)"
    by cases (simp_all add: signed_limit_def penny_def Let_def)
  then show ?thesis unfolding x_def .
qed

text \<open>
  C12 (functional). The broker's request says what the order's row says. It has one leg for each
  leg of the row, in their order, with the leg's symbol without its prefix and the leg's own side,
  or the order's when it has none; legs of a close carry the closing intent of their side and legs
  of an opening order none. The quantity is the row's. For a finite price the limit is this price
  in cents, at least one: for a structure marked as a credit it is made negative, a close for a
  debit is positive, and an opening order for a debit keeps the sign of its price, which the code
  does not check. The order is good for the day or until cancelled and bears the row's client
  identifier.
\<close>

theorem request_well_formed:
  assumes build: "build_alpaca_order_request order = Inr req" and oj: "order_json_of order = Inr oj"
    and price: "price_of order oj = Inr (Fin p)"
  shows "(\<exists>items. leg_items (py_or (dget oj ''legs'') (PList [])) = Inr items
        \<and> list_all2 (leg_matches (closes_position order) (side_of order oj)) items (rq_legs req))
    \<and> quantity_of order oj = Inr (rq_qty req) \<and> rq_symbol req = py_or (dget oj ''symbol'') (dget order ''symbol'')
    \<and> rq_limit req = Fin (if credit_order order oj then - \<bar>to_cents p\<bar> else to_cents p) \<and> 1/100 \<le> \<bar>to_cents p\<bar>
    \<and> (closes_position order \<and> \<not> credit_order order oj \<longrightarrow> 0 < to_cents p)
    \<and> (rq_tif req = ''day'' \<or> rq_tif req = ''gtc'') \<and> client_id_of order = Inr (rq_client req)"
proof -
  obtain price qty items legs cid where b: "price_of order oj = Inr price" "quantity_of order oj = Inr qty"
      "leg_items (py_or (dget oj ''legs'') (PList [])) = Inr items"
      "rmap (request_leg_of (closes_position order) (side_of order oj)) items = Inr legs"
      "\<not> (closes_position order \<and> \<not> credit_order order oj
            \<and> flt (signed_limit (closes_position order) (credit_order order oj) (round2 price)) (Fin 0))"
      "num_truthy (signed_limit (closes_position order) (credit_order order oj) (round2 price))"
      "\<not> flt (fabs (signed_limit (closes_position order) (credit_order order oj) (round2 price))) penny"
      "client_id_of order = Inr cid"
      "req = \<lparr>rq_symbol = py_or (dget oj ''symbol'') (dget order ''symbol''), rq_legs = legs, rq_qty = qty,
        rq_limit = signed_limit (closes_position order) (credit_order order oj) (round2 price),
        rq_tif = time_in_force_of oj, rq_client = cid\<rparr>"
    using build oj by (elim build_Inr) auto
  have pr: "price = Fin p" using b(1) price by simp
  have limit: "signed_limit (closes_position order) (credit_order order oj) (round2 price)
      = Fin (if credit_order order oj then - \<bar>to_cents p\<bar> else to_cents p)" unfolding pr round2_Fin by (rule signed_limit_cents)
  have "list_all2 (leg_matches (closes_position order) (side_of order oj)) items legs"
    using b(4) unfolding rmap_Inr_iff by (rule list_all2_mono) (rule request_leg_matches)
  moreover have "1/100 \<le> \<bar>to_cents p\<bar>" using b(7) unfolding limit by (auto simp: penny_def split: if_splits)
  moreover have "closes_position order \<and> \<not> credit_order order oj \<longrightarrow> 0 < to_cents p"
    using b(5,6) unfolding limit by (auto simp: num_truthy_def)
  ultimately show ?thesis using b(2,3,8) limit time_in_force_cases [of oj] by (simp add: b(9))
qed

text \<open>The clamp of a worthless close never acts: the price was rounded to cents before it.\<close>

lemma round_half_even_small: "\<bar>x\<bar> < 1/2 \<Longrightarrow> round_half_even x = 0"
proof -
  assume "\<bar>x\<bar> < 1/2"
  then have "\<bar>of_int (round_half_even x) :: rat\<bar> < 1" using round_half_even_error [of x] by linarith
  then show ?thesis by simp
qed

lemma to_cents_small: "\<bar>p\<bar> < 1/200 \<Longrightarrow> to_cents p = 0"
  using round_half_even_small [of "100 * p"] by (simp add: to_cents_def abs_mult)

lemma worthless_not_built:
  assumes "order_json_of order = Inr oj" and "price_of order oj = Inr (Fin p)" and "\<bar>p\<bar> < 1/200"
  shows "\<not> (\<exists>req. build_alpaca_order_request order = Inr req)"
proof
  assume "\<exists>req. build_alpaca_order_request order = Inr req"
  then obtain req where "build_alpaca_order_request order = Inr req" ..
  then show False
    using assms to_cents_small [of p]
    by (elim build_Inr) (auto simp: signed_limit_def num_truthy_def Let_def)
qed

subsection \<open>The end of a submission\<close>

lemma on_submit_error_cases:
  assumes "on_submit_error env br sdb order k err b dk = (st, dk')"
  shows "(\<forall>r. st \<noteq> Return r) \<and> dk' = dk \<or> st = Return (DuplicateClosePriorFill k) \<and> dk' = dk
    \<or> (\<exists>d. st = Return (ResolvedByClientId d) \<and> truthy (dget d ''alpaca_order_id'')
         \<and> dk' = update_order (dget order ''id'') (submitted_fields br (de_now_text env) d) dk)"
  using assms
  by (auto simp: on_submit_error_def Let_def split: if_splits sum.splits option.splits prod.splits)

text \<open>What a run of attempts did to the tables, by its result.\<close>

definition result_effect :: "desk_env \<Rightarrow> 'b broker \<Rightarrow> pydict \<Rightarrow> submit_result option \<Rightarrow> desk \<Rightarrow> desk" where
  "result_effect env br order r dk = (case r of
       Some (Submitted d) \<Rightarrow> update_order (dget order ''id'') (submitted_fields br (de_now_text env) d) dk
     | Some (ResolvedByClientId d) \<Rightarrow> update_order (dget order ''id'') (submitted_fields br (de_now_text env) d) dk
     | _ \<Rightarrow> dk)"

definition honest_count :: "nat \<Rightarrow> submit_result option \<Rightarrow> nat \<Rightarrow> bool" where
  "honest_count bound r made \<longleftrightarrow> made \<le> bound \<and>
     (case r of Some (DuplicateClosePriorFill m) \<Rightarrow> m \<le> bound | Some (NeedsManualReview m) \<Rightarrow> False
      | Some (Submitted d) \<Rightarrow> truthy (dget d ''alpaca_order_id'') | Some (ResolvedByClientId d) \<Rightarrow> truthy (dget d ''alpaca_order_id'') | None \<Rightarrow> True)"

lemma submit_attempts_effect:
  assumes "submit_attempts env br sdb order n k made b dk = (res, made', b', dk')" and "made < k" and "k + n \<le> Suc m"
  shows "case res of Inl _ \<Rightarrow> dk' = dk | Inr r \<Rightarrow> dk' = result_effect env br order r dk \<and> honest_count m r made'"
  using assms
proof (induction n arbitrary: k made b dk)
  case 0
  then show ?case by (auto simp: result_effect_def honest_count_def)
next
  case (Suc n)
  have step: "case res of Inl _ \<Rightarrow> dk' = dk | Inr r \<Rightarrow> dk' = result_effect env br order r dk \<and> honest_count m r made'"
    if run: "(case on_submit_error env br sdb order k err bb dk of
             (Return r, dk1) \<Rightarrow> (Inr (Some r), k, bb, dk1)
           | (Escape x, dk1) \<Rightarrow> (Inl x, k, bb, dk1)
           | (Stop, dk1) \<Rightarrow> (Inr None, k, bb, dk1)
           | (Again, dk1) \<Rightarrow> submit_attempts env br sdb order n (k + 1) k bb dk1) = (res, made', b', dk')"
    for err :: string and bb
  proof -
    obtain st dk1 where e: "on_submit_error env br sdb order k err bb dk = (st, dk1)" by fastforce
    show ?thesis
    proof (cases st)
      case (Return r)
      then show ?thesis using run e on_submit_error_cases [OF e] Suc.prems(3) by (auto simp: result_effect_def honest_count_def)
    next
      case Again
      then have "dk1 = dk" using on_submit_error_cases [OF e] by auto
      then show ?thesis using run e Again Suc.IH [of "k + 1" k bb dk] Suc.prems(3) by simp
    qed (use run e on_submit_error_cases [OF e] Suc.prems(3) in \<open>auto simp: result_effect_def honest_count_def\<close>)
  qed
  show ?case
  proof (cases "build_alpaca_order_request order")
    case (Inl e)
    then show ?thesis using Suc.prems(1) step [where err = "build_error_text e" and bb = b] by simp
  next
    case (Inr req)
    obtain a b1 where sub: "br_submit br b req = (a, b1)" by fastforce
    show ?thesis
    proof (cases a)
      case (Ack d)
      show ?thesis
      proof (cases "truthy (dget d ''alpaca_order_id'')")
        case False
        then show ?thesis using Suc.prems(1,3) Inr sub Ack Suc.IH [of "k + 1" k b1 dk] by simp
      next
        case True
        then show ?thesis using Suc.prems Inr sub Ack step [where err = "sd_error sdb" and bb = b1]
          by (auto simp: result_effect_def honest_count_def split: if_splits)
      qed
    next
      case (AuthFailure t)
      then show ?thesis using Suc.prems Inr sub by (auto simp: result_effect_def honest_count_def)
    next
      case (SubmitError t)
      then show ?thesis using Suc.prems(1) Inr sub step [where err = t and bb = b1] by simp
    qed
  qed
qed


text \<open>The broker sees one request only, some number of times.\<close>

definition resubmit :: "'b broker \<Rightarrow> order_request \<Rightarrow> 'b \<Rightarrow> 'b" where
  "resubmit br req b = snd (br_submit br b req)"

lemma submit_attempts_broker:
  assumes "submit_attempts env br sdb order n k made b dk = (res, made', b', dk')"
  shows "case build_alpaca_order_request order of Inl _ \<Rightarrow> b' = b
    | Inr req \<Rightarrow> \<exists>m \<le> n. b' = (resubmit br req ^^ m) b"
  using assms
proof (induction n arbitrary: k made b dk)
  case 0
  then show ?case by (auto split: sum.splits intro: exI [of _ 0])
next
  case (Suc n)
  show ?case
  proof (cases "build_alpaca_order_request order")
    case (Inl e)
    obtain st dk1 where "on_submit_error env br sdb order k (build_error_text e) b dk = (st, dk1)" by fastforce
    then show ?thesis using Suc.prems Inl Suc.IH [of "k + 1" k b dk1] by (cases st) auto
  next
    case (Inr req)
    obtain a b1 where sub: "br_submit br b req = (a, b1)" by fastforce
    then have b1: "b1 = resubmit br req b" by (simp add: resubmit_def)
    have more': "\<exists>m \<le> Suc n. b' = (resubmit br req ^^ m) b" if ex: "\<exists>m \<le> n. b' = (resubmit br req ^^ m) b1"
    proof -
      from ex obtain m where "m \<le> n" "b' = (resubmit br req ^^ m) b1" by blast
      then have "b' = (resubmit br req ^^ Suc m) b" by (simp only: b1 funpow_Suc_right o_apply)
      with \<open>m \<le> n\<close> show ?thesis by (intro exI [of _ "Suc m"] conjI) simp_all
    qed
    have stop: "\<exists>m \<le> Suc n. b' = (resubmit br req ^^ m) b" if "b' = b1"
      using that b1 by (intro exI [of _ 1] conjI) simp_all
    have step: "\<exists>m \<le> Suc n. b' = (resubmit br req ^^ m) b"
      if run: "(case on_submit_error env br sdb order k err b1 dk of
             (Return r, dk1) \<Rightarrow> (Inr (Some r), k, b1, dk1)
           | (Escape x, dk1) \<Rightarrow> (Inl x, k, b1, dk1)
           | (Stop, dk1) \<Rightarrow> (Inr None, k, b1, dk1)
           | (Again, dk1) \<Rightarrow> submit_attempts env br sdb order n (k + 1) k b1 dk1) = (res, made', b', dk')"
      for err
    proof -
      obtain st dk1 where e: "on_submit_error env br sdb order k err b1 dk = (st, dk1)" by fastforce
      show ?thesis
        using run e Suc.IH [of "k + 1" k b1 dk1] Inr more' stop by (cases st) auto
    qed
    show ?thesis
    proof (cases a)
      case (Ack d)
      then show ?thesis
        using Suc.prems Inr sub Suc.IH [of "k + 1" k b1 dk] more' stop step [where err = "sd_error sdb"]
        by (auto split: if_splits)
    next
      case (AuthFailure t)
      then show ?thesis using Suc.prems Inr sub stop by auto
    next
      case (SubmitError t)
      then show ?thesis using Suc.prems Inr sub step [where err = t] by auto
    qed
  qed
qed

definition review_fields :: "(string \<times> pyval) list" where
  "review_fields = [(''broker_status'', PStr ''needs_manual_review''), (''status'', PStr ''needs_manual_review'')]"

lemma submission_result:
  assumes "submit_and_track env br sdb order b dk = (res, b', dk')"
  shows "(case cancel_competing br order b of
       Inl e \<Rightarrow> res = Inl e \<and> b' = b
     | Inr b0 \<Rightarrow> (case build_alpaca_order_request order of
           Inl _ \<Rightarrow> b' = b0 | Inr req \<Rightarrow> \<exists>m \<le> 3. b' = (resubmit br req ^^ m) b0))
   \<and> (case res of
       Inl _ \<Rightarrow> dk' = dk
     | Inr (Submitted d) \<Rightarrow> truthy (dget d ''alpaca_order_id'') \<and> dk' = update_order (dget order ''id'') (submitted_fields br (de_now_text env) d) dk
     | Inr (ResolvedByClientId d) \<Rightarrow>
         truthy (dget d ''alpaca_order_id'') \<and> dk' = update_order (dget order ''id'') (submitted_fields br (de_now_text env) d) dk
     | Inr (DuplicateClosePriorFill m) \<Rightarrow> m \<le> 3 \<and> dk' = dk
     | Inr (NeedsManualReview m) \<Rightarrow> m \<le> 3 \<and>
         dk' = add_alert env (ManualReview (dget order ''id'') m) (update_order (dget order ''id'') review_fields dk))"
proof (cases "cancel_competing br order b")
  case (Inl e)
  then show ?thesis using assms by (auto simp: submit_and_track_def)
next
  case (Inr b0)
  obtain r made b1 dk1 where a: "submit_attempts env br sdb order max_submit_attempts 1 0 b0 dk = (r, made, b1, dk1)"
    by (rule prod_cases4)
  note broker = submit_attempts_broker [OF a]
  note a' = a [unfolded One_nat_def]
  have eff: "case r of Inl _ \<Rightarrow> dk1 = dk | Inr x \<Rightarrow> dk1 = result_effect env br order x dk \<and> honest_count 3 x made"
    by (rule submit_attempts_effect [OF a]) (simp_all add: max_submit_attempts_def)
  have b': "b' = b1" using assms by (auto simp: submit_and_track_def Inr a' split: sum.splits option.splits if_splits)
  have res: "case res of
       Inl _ \<Rightarrow> dk' = dk
     | Inr (Submitted d) \<Rightarrow> truthy (dget d ''alpaca_order_id'') \<and> dk' = update_order (dget order ''id'') (submitted_fields br (de_now_text env) d) dk
     | Inr (ResolvedByClientId d) \<Rightarrow>
         truthy (dget d ''alpaca_order_id'') \<and> dk' = update_order (dget order ''id'') (submitted_fields br (de_now_text env) d) dk
     | Inr (DuplicateClosePriorFill m) \<Rightarrow> m \<le> 3 \<and> dk' = dk
     | Inr (NeedsManualReview m) \<Rightarrow> m \<le> 3 \<and>
         dk' = add_alert env (ManualReview (dget order ''id'') m) (update_order (dget order ''id'') review_fields dk)"
  proof (cases r)
    case (Inl e)
    then show ?thesis using assms eff by (auto simp: submit_and_track_def Inr a')
  next
    case R: (Inr x)
    show ?thesis
    proof (cases x)
      case None
      then show ?thesis using assms eff R
        by (auto simp: submit_and_track_def Inr a' result_effect_def honest_count_def review_fields_def split: if_splits)
    next
      case (Some y)
      then have "res = Inr y" "dk' = dk1" using assms R by (auto simp: submit_and_track_def Inr a')
      then show ?thesis using eff R Some by (cases y) (auto simp: result_effect_def honest_count_def)
    qed
  qed
  show ?thesis
    using broker res by (cases "build_alpaca_order_request order") (simp_all add: Inr b' max_submit_attempts_def)
qed

text \<open>
  A submission ends in one of five ways. The broker sees at most three requests, all
  equal, after the competing orders of a close were cancelled. If an exception escapes or a
  duplicate close is recognised, no row changes. If the broker acknowledged the order, or an
  earlier attempt is found by its client identifier, the order's row holds that identifier and
  status submitted. Otherwise the row is marked for manual review and an alert names the true
  number of attempts.
\<close>

theorem submission_outcome:
  assumes "submit_and_track env br sdb order b dk = (res, b', dk')"
  shows "(case cancel_competing br order b of
       Inl e \<Rightarrow> res = Inl e \<and> b' = b
     | Inr b0 \<Rightarrow> (case build_alpaca_order_request order of
           Inl _ \<Rightarrow> b' = b0 | Inr req \<Rightarrow> \<exists>m \<le> 3. b' = (resubmit br req ^^ m) b0))
   \<and> (case res of
       Inl _ \<Rightarrow> dk' = dk
     | Inr (Submitted d) \<Rightarrow> truthy (dget d ''alpaca_order_id'') \<and> dk' = update_order (dget order ''id'') (submitted_fields br (de_now_text env) d) dk
     | Inr (ResolvedByClientId d) \<Rightarrow>
         truthy (dget d ''alpaca_order_id'') \<and> dk' = update_order (dget order ''id'') (submitted_fields br (de_now_text env) d) dk
     | Inr (DuplicateClosePriorFill m) \<Rightarrow> m \<le> 3 \<and> dk' = dk
     | Inr (NeedsManualReview m) \<Rightarrow> m \<le> 3 \<and>
         dk' = add_alert env (ManualReview (dget order ''id'') m) (update_order (dget order ''id'') review_fields dk))"
  using assms by (rule submission_result)

subsection \<open>A worthless close\<close>

lemma build_error_retried:
  assumes "e \<noteq> SignIncoherent" and "client_id_of order = Inr c"
  shows "on_submit_error env br sdb order k (build_error_text e) b dk = (Again, dk)"
proof -
  have "\<not> marked duplicate_close_markers (build_error_text e)"
    and "\<not> marked duplicate_order_id_markers (build_error_text e)"
    and "\<not> marked terminal_reject_markers (build_error_text e)"
    using assms(1)
    by (cases e; simp add: marked_def build_error_text_def duplicate_close_markers_def duplicate_order_id_markers_def
          terminal_reject_markers_def str_lower_def char_defs)+
  then show ?thesis using assms(2) by (simp add: on_submit_error_def)
qed

lemma worthless_error:
  assumes "order_json_of order = Inr oj" and "price_of order oj = Inr (Fin p)" and "\<bar>p\<bar> < 1/200"
  shows "\<exists>e. build_alpaca_order_request order = Inl e \<and> e \<noteq> SignIncoherent"
proof (cases "build_alpaca_order_request order")
  case (Inr req)
  then show ?thesis using worthless_not_built [OF assms] by blast
next
  case (Inl e)
  have "signed_limit c k (Fin 0) = Fin 0" for c k by (simp add: signed_limit_def Let_def)
  then have "e \<noteq> SignIncoherent"
    using Inl assms to_cents_small [OF assms(3)]
    by (auto simp: build_alpaca_order_request_def price_of_def rbind_Inl_iff build_lift_def Let_def
        split: if_splits sum.splits)
  with Inl show ?thesis by blast
qed

text \<open>
  A defect: a structure worth less than half a cent cannot be closed. The clamp that should
  raise its limit to a penny is applied after rounding to cents and never acts, so the request
  is refused; the code retries the refusal as if it were transient and then marks the order for
  manual review after three attempts, none of which reached the broker.
\<close>

theorem worthless_close_never_sent:
  assumes "closes_position order" and "order_json_of order = Inr oj"
    and "price_of order oj = Inr (Fin p)" and "\<bar>p\<bar> < 1/200"
    and "client_id_of order = Inr c" and "cancel_competing br order b = Inr b0" and "sd_ok sdb 0"
  shows "\<exists>dk'. submit_and_track env br sdb order b dk = (Inr (NeedsManualReview 3), b0, dk')"
proof -
  obtain e where e: "build_alpaca_order_request order = Inl e" "e \<noteq> SignIncoherent"
    using worthless_error [OF assms(2-4)] by blast
  have "submit_attempts env br sdb order (Suc (Suc (Suc 0))) (Suc 0) 0 b0 dk = (Inr None, 3, b0, dk)"
    using e(1) by (simp add: build_error_retried [OF e(2) assms(5)])
  then show ?thesis
    using assms(6,7) by (simp add: submit_and_track_def max_submit_attempts_def numeral_3_eq_3)
qed

subsection \<open>The poll\<close>

lemma alert_rejection_frame [simp]:
  "dk_positions (alert_rejection env user order ao dk) = dk_positions dk"
  "dk_orders (alert_rejection env user order ao dk) = dk_orders dk"
  by (simp_all add: alert_rejection_def)

lemma synced_filled: "synced_status ao filled = ''filled'' \<Longrightarrow> broker_status_of ao = PStr ''filled''"
  by (auto simp: synced_status_def internal_status_def status_map_def split: pyval.splits if_splits)

lemma settle_change:
  assumes u: "ids_unique (dk_positions dk)" and c: "closes_position order"
    and run: "settle_order env open_fill user order ao dk = (x, dk')"
    and changed: "dk_positions dk' \<noteq> dk_positions dk"
  shows "x = FillDone \<and> broker_status_of ao = PStr ''filled''
    \<and> (\<exists>filled. filled_qty_of ao = Inr filled \<and> flt (Fin 0) filled)
    \<and> (\<exists>r pl reason t. r \<in> set (dk_positions dk) \<and> row_id r = PStr (id_text (dget order ''position_id'')) \<and> closable r
         \<and> dk_positions dk' = update_rows (\<lambda>y. row_id y = PStr (id_text (dget order ''position_id'')))
              (close_row pl reason ''alpaca_fill_reconciler'' t (de_now_text env)) (dk_positions dk))"
proof -
  let ?pid = "id_text (dget order ''position_id'')"
  obtain filled where f: "filled_qty_of ao = Inr filled"
    using run changed by (cases "filled_qty_of ao") (auto simp: settle_order_def)
  obtain kvs where kvs: "sync_fields env ao filled = Inr kvs"
    using run changed f by (cases "sync_fields env ao filled") (auto simp: settle_order_def)
  define dk1 where "dk1 = alert_rejection env user order ao (update_order (dget order ''id'') kvs dk)"
  have same: "dk_positions dk1 = dk_positions dk" by (simp add: dk1_def)
  obtain res dk2 where cl: "close_position_on_fill env ?pid order ao dk1 = (res, dk2)" by fastforce
  have st: "synced_status ao filled = ''filled''" "flt (Fin 0) filled" "dk' = dk2"
    and x: "x = (case res of Inl _ \<Rightarrow> FillFailed | Inr _ \<Rightarrow> FillDone)"
    using run changed f kvs c same cl
    by (auto simp: settle_order_def closes_position_def Let_def dk1_def [symmetric] split: if_splits sum.splits)
  from close_on_fill_change [OF _ cl] u changed st(3) same
  have "res = Inr ()" and "\<exists>r pl reason t. r \<in> set (dk_positions dk) \<and> row_id r = PStr ?pid \<and> closable r
         \<and> dk_positions dk' = update_rows (\<lambda>y. row_id y = PStr ?pid)
              (close_row pl reason ''alpaca_fill_reconciler'' t (de_now_text env)) (dk_positions dk)"
    by (simp_all, blast)
  then show ?thesis using f st x synced_filled by auto
qed

text \<open>
  The poll of an order that closes a position changes the positions only on the broker's word
  that the order is filled with a positive quantity; then it closes exactly that position, which
  was open, and counts a fill. Working, partial, cancelled, rejected and unknown answers, failed
  reads and watchdog cancellations leave every position as it was.
\<close>

theorem poll_closes_only_filled:
  assumes u: "ids_unique (dk_positions dk)" and c: "closes_position order"
    and run: "poll_order env pb open_fill user order dk = (x, dk')"
    and changed: "dk_positions dk' \<noteq> dk_positions dk"
  shows "x = FillDone \<and>
    (\<exists>ao filled. (pb_get pb (dget order ''alpaca_order_id'') = Inr ao \<or> pb_refetch pb (dget order ''alpaca_order_id'') = Inr ao)
       \<and> broker_status_of ao = PStr ''filled'' \<and> filled_qty_of ao = Inr filled \<and> flt (Fin 0) filled)
    \<and> (\<exists>r pl reason t. r \<in> set (dk_positions dk) \<and> row_id r = PStr (id_text (dget order ''position_id'')) \<and> closable r
         \<and> dk_positions dk' = update_rows (\<lambda>y. row_id y = PStr (id_text (dget order ''position_id'')))
              (close_row pl reason ''alpaca_fill_reconciler'' t (de_now_text env)) (dk_positions dk))"
proof -
  obtain ao where g: "pb_get pb (dget order ''alpaca_order_id'') = Inr ao"
    using run changed by (cases "pb_get pb (dget order ''alpaca_order_id'')") (auto simp: poll_order_def)
  obtain w where w: "watchdog env pb order ao = Inr w"
    using run changed g by (cases "watchdog env pb order ao") (auto simp: poll_order_def)
  show ?thesis
  proof (cases w)
    case NotIdle
    then have "settle_order env open_fill user order ao dk = (x, dk')" using run g w by (simp add: poll_order_def)
    from settle_change [OF u c this changed] show ?thesis using g by blast
  next
    case (Refetched ao2)
    have r: "pb_refetch pb (dget order ''alpaca_order_id'') = Inr ao2"
      using w Refetched by (auto simp: watchdog_def rbind_Inr_iff split: option.splits if_splits sum.splits)
    have "settle_order env open_fill user order ao2 dk = (x, dk')" using run g w Refetched by (simp add: poll_order_def)
    from settle_change [OF u c this changed] show ?thesis using r by blast
  next
    case (CleanCancel idle ao2)
    then show ?thesis using run changed g w by (auto simp: poll_order_def split: if_splits)
  qed
qed

text \<open>
  The idle watchdog ends an order only when it may: the broker reported it working with
  nothing filled, it was submitted more than 90 seconds ago, it is neither good-till-cancelled nor
  a resting exit, and a second read after the cancellation confirms it cancelled with nothing
  filled. Then only the status fields of that order's row change.
\<close>

theorem watchdog_cancels_only_idle:
  assumes "poll_order env pb open_fill user order dk = (WatchdogCancelled, dk')"
  shows "\<exists>ao oj s t ao2. pb_get pb (dget order ''alpaca_order_id'') = Inr ao \<and> order_json_of order = Inr oj
      \<and> internal_status (broker_status_of ao) = ''working''
      \<and> map_option str_lower (py_text (py_or (dget oj ''time_in_force'') (PStr ''day''))) \<noteq> Some ''gtc''
      \<and> dget oj ''order_class'' \<noteq> PStr ''intentional_resting_exit''
      \<and> dget order ''submitted_at'' = PStr s \<and> de_parse_ts env s = Some t \<and> t + 90 < de_now env
      \<and> (\<exists>q. filled_qty_of ao = Inr q \<and> num_eq q (Fin 0))
      \<and> pb_refetch pb (dget order ''alpaca_order_id'') = Inr ao2 \<and> broker_status_of ao2 = PStr ''canceled''
      \<and> (\<exists>q. filled_qty_of ao2 = Inr q \<and> num_eq q (Fin 0))
      \<and> dk' = update_order (dget order ''id'') (watchdog_fields env (de_now env - t) ao2) dk"
proof -
  obtain ao where g: "pb_get pb (dget order ''alpaca_order_id'') = Inr ao"
    using assms by (cases "pb_get pb (dget order ''alpaca_order_id'')") (auto simp: poll_order_def)
  have no_settle: "settle_order env open_fill user order a dk \<noteq> (WatchdogCancelled, d)" for a d
    by (auto simp: settle_order_def Let_def split: sum.splits prod.splits if_splits)
  obtain ao2 idle where w: "watchdog env pb order ao = Inr (CleanCancel idle ao2)"
    using assms g no_settle
    by (cases "watchdog env pb order ao") (auto simp: poll_order_def split: watchdog_step.splits)
  then have dk': "dk' = update_order (dget order ''id'') (watchdog_fields env idle ao2) dk"
    using assms g by (auto simp: poll_order_def split: if_splits)
  obtain t q where ws: "watched_since env order ao = Inr (Some t)" "filled_qty_of ao = Inr q" "num_eq q (Fin 0)"
      "90 < de_now env - t" and idle: "idle = de_now env - t" and rf: "pb_refetch pb (dget order ''alpaca_order_id'') = Inr ao2"
      "broker_status_of ao2 = PStr ''canceled''" "\<exists>q. filled_qty_of ao2 = Inr q \<and> num_eq q (Fin 0)"
    using w by (auto simp: watchdog_def rbind_Inr_iff idle_watchdog_seconds_def split: option.splits if_splits sum.splits)
  obtain oj where oj: "order_json_of order = Inr oj" using ws(1) by (auto simp: watched_since_def rbind_Inr_iff)
  have since: "internal_status (broker_status_of ao) = ''working''"
      "map_option str_lower (py_text (py_or (dget oj ''time_in_force'') (PStr ''day''))) \<noteq> Some ''gtc''"
      "py_text (py_or (dget oj ''order_class'') (PStr [])) \<noteq> Some ''intentional_resting_exit''"
      "\<exists>s. dget order ''submitted_at'' = PStr s \<and> de_parse_ts env s = Some t"
    using ws(1) oj by (auto simp: watched_since_def rbind_Inr_iff Let_def split: if_splits pyval.splits)
  have "dget oj ''order_class'' \<noteq> PStr ''intentional_resting_exit''" using since(3) by (auto simp: py_or_def)
  moreover have "t + 90 < de_now env" using ws(4) by simp
  ultimately show ?thesis using g oj since(1,2,4) ws(2,3) rf dk' [unfolded idle] by blast
qed


subsection \<open>Instances\<close>

definition sample_broker :: "pyval list broker" where
  "sample_broker = \<lparr>
     br_submit = (\<lambda>live req. if rq_client req \<in> set live then (SubmitError ''client_order_id must be unique'', live)
                             else (Ack [(''alpaca_order_id'', PStr ''a1''), (''status'', PStr ''new'')], rq_client req # live)),
     br_lookup = (\<lambda>live c. Inr (if c \<in> set live then Some [(''alpaca_order_id'', PStr ''a1'')] else None)),
     br_cancel_for = (\<lambda>live _. live), br_paper = True\<rparr>"

definition sample_sdb :: submit_db where
  "sample_sdb = \<lparr>sd_ok = (\<lambda>k. k \<noteq> 1), sd_error = ''timeout''\<rparr>"

text \<open>A close for a credit, and a worthless close.\<close>

definition sample_order :: "rat \<Rightarrow> pydict" where
  "sample_order p = [(''id'', PStr ''o1''), (''position_id'', PStr ''p1''), (''side'', PStr ''sell''),
     (''requested_price'', PFloat (Fin p)), (''alpaca_order_id'', PStr ''a1''), (''submitted_at'', PStr ''t0''),
     (''order_json'', PDict [(''is_credit_close'', PBool True), (''symbol'', PStr ''SPY''),
        (''legs'', PList [PDict [(''symbol'', PStr ''O:SPY1''), (''action'', PStr ''sell'')],
                          PDict [(''symbol'', PStr ''O:SPY2''), (''action'', PStr ''buy'')]])])]"

definition sample_json :: pydict where
  "sample_json = projr (order_json_of (sample_order 0))"

lemma sample_json_eq: "order_json_of (sample_order p) = Inr sample_json"
  by (simp add: sample_json_def sample_order_def order_json_of_def py_or_def dget_def)

lemma sample_price: "p \<noteq> 0 \<Longrightarrow> price_of (sample_order p) oj = Inr (Fin p)"
  by (simp add: price_of_def sample_order_def py_or_def num_truthy_def dget_def)

lemma sample_closes: "closes_position (sample_order p)"
  by (simp add: closes_position_def sample_order_def dget_def)

lemma sample_client: "client_id_of (sample_order p) = Inr (PStr ''otc1-l-o1'')"
  by (simp add: client_id_of_def deterministic_client_order_id_def sample_order_def py_or_def dget_def
      id_text_def str_lower_def)

lemma sample_order_legs:
  "leg_items (py_or (dget sample_json ''legs'') (PList [])) = Inr
     [[(''symbol'', PStr ''O:SPY1''), (''action'', PStr ''sell'')], [(''symbol'', PStr ''O:SPY2''), (''action'', PStr ''buy'')]]"
  by (simp add: sample_json_def sample_order_def order_json_of_def py_or_def dget_def leg_items_def)

lemma sample_credit: "credit_order (sample_order p) sample_json"
  by (simp add: credit_order_def sample_json_def sample_order_def order_json_of_def py_or_def dget_def closes_position_def)

lemma sample_build:
  "\<exists>req. build_alpaca_order_request (sample_order (93/50)) = Inr req"
proof -
  have "\<not> isl (build_alpaca_order_request (sample_order (93/50)))" by code_simp
  then show ?thesis by (cases "build_alpaca_order_request (sample_order (93/50))") auto
qed

theorem request_well_formed_witness:
  "\<exists>req. build_alpaca_order_request (sample_order (93/50)) = Inr req
     \<and> map rl_symbol (rq_legs req) = [''SPY1'', ''SPY2''] \<and> map rl_intent (rq_legs req) = [Some ''sell_to_close'', Some ''buy_to_close'']
     \<and> rq_limit req = Fin (- (93/50)) \<and> rq_qty req = 1"
proof -
  obtain req where b: "build_alpaca_order_request (sample_order (93/50)) = Inr req" using sample_build ..
  have p: "price_of (sample_order (93/50)) sample_json = Inr (Fin (93/50))" by (rule sample_price) simp
  have c: "to_cents (93/50) = 93/50" by code_simp
  have q: "quantity_of (sample_order (93/50)) sample_json = Inr 1"
    by (simp add: quantity_of_def sample_json_def sample_order_def order_json_of_def py_or_def dget_def)
  note w = request_well_formed [OF b sample_json_eq p, unfolded sample_order_legs q c]
  then obtain items where "list_all2 (leg_matches True (side_of (sample_order (93/50)) sample_json)) items (rq_legs req)"
    and "items = [[(''symbol'', PStr ''O:SPY1''), (''action'', PStr ''sell'')], [(''symbol'', PStr ''O:SPY2''), (''action'', PStr ''buy'')]]"
    using sample_closes [of "93/50"] by auto
  then have "map rl_symbol (rq_legs req) = [''SPY1'', ''SPY2'']" "map rl_intent (rq_legs req) = [Some ''sell_to_close'', Some ''buy_to_close'']"
    by (auto simp: list_all2_Cons1 leg_matches_def py_or_def dget_def polygon_to_alpaca_def)
  then show ?thesis using w b sample_credit [of "93/50"] by simp
qed

lemma sample_cancel: "cancel_competing sample_broker (sample_order p) b = Inr b"
  using sample_order_legs
  by (simp add: cancel_competing_def sample_json_eq close_leg_symbols_def polygon_to_alpaca_def leg_symbol_of_def py_or_def
      sample_broker_def)
     (simp add: sample_json_def sample_order_def order_json_of_def dget_def dget_default_def py_or_def py_len_ok_def)

theorem submission_outcome_witness:
  "\<exists>res b' dk'. submit_and_track sample_desk_env sample_broker sample_sdb (sample_order (93/50)) [] sample_desk = (res, b', dk')
     \<and> (\<exists>req m. m \<le> 3 \<and> b' = (resubmit sample_broker req ^^ m) [])"
proof -
  obtain req where b: "build_alpaca_order_request (sample_order (93/50)) = Inr req" using sample_build ..
  obtain res b' dk' where run: "submit_and_track sample_desk_env sample_broker sample_sdb (sample_order (93/50)) [] sample_desk
      = (res, b', dk')" by (rule prod_cases3)
  from submission_outcome [OF run] b run show ?thesis by (auto simp: sample_cancel)
qed

theorem worthless_close_never_sent_witness:
  "\<exists>dk'. submit_and_track sample_desk_env sample_broker sample_sdb (sample_order (1/400)) [] sample_desk
     = (Inr (NeedsManualReview 3), [], dk')"
proof -
  have p: "price_of (sample_order (1/400)) sample_json = Inr (Fin (1/400))" by (rule sample_price) simp
  show ?thesis
    by (rule worthless_close_never_sent [OF sample_closes sample_json_eq p _ sample_client sample_cancel])
       (simp_all add: sample_sdb_def)
qed

definition sample_poll_broker :: "pydict \<Rightarrow> poll_broker" where
  "sample_poll_broker ao = \<lparr>pb_get = (\<lambda>_. Inr ao), pb_refetch = (\<lambda>_. Inr [(''status'', PStr ''canceled'')])\<rparr>"

definition no_open_fill :: "pydict \<Rightarrow> desk \<Rightarrow> (pyexn + unit) \<times> desk" where
  "no_open_fill order dk = (Inr (), dk)"

definition sample_filled :: pydict where
  "sample_filled = [(''status'', PStr ''filled''), (''filled_qty'', PInt 6)] @ sample_fill"

lemma sample_run_closes:
  "dk_positions (snd (poll_order sample_desk_env (sample_poll_broker sample_filled) no_open_fill ''u''
      (sample_order 1) sample_desk)) \<noteq> dk_positions sample_desk" (is "?l \<noteq> _")
proof -
  have "list_all is_closed ?l" by code_simp
  then show ?thesis using closable_not_closed [OF sample_rows(4)] by (auto simp: sample_simps)
qed

theorem poll_closes_only_filled_witness:
  "fst (poll_order sample_desk_env (sample_poll_broker sample_filled) no_open_fill ''u'' (sample_order 1) sample_desk) = FillDone"
  using poll_closes_only_filled [OF sample_rows(1) sample_closes surjective_pairing sample_run_closes] by simp

theorem watchdog_cancels_only_idle_witness:
  "\<exists>dk'. poll_order (sample_desk_env\<lparr>de_parse_ts := (\<lambda>_. Some 0)\<rparr>)
      (sample_poll_broker [(''status'', PStr ''new'')]) no_open_fill ''u'' (sample_order 1) sample_desk = (WatchdogCancelled, dk')
     \<and> dk_positions dk' = dk_positions sample_desk"
proof -
  let ?run = "poll_order (sample_desk_env\<lparr>de_parse_ts := (\<lambda>_. Some 0)\<rparr>)
      (sample_poll_broker [(''status'', PStr ''new'')]) no_open_fill ''u'' (sample_order 1) sample_desk"
  have "fst ?run = WatchdogCancelled" by code_simp
  then obtain dk' where run: "?run = (WatchdogCancelled, dk')" by (cases ?run) auto
  then show ?thesis using watchdog_cancels_only_idle [OF run] by auto
qed

end
