(* ===== verification/Py_Sort.thy ===== *)
theory Py_Sort
  imports Py_Float "HOL-Library.Multiset"
begin

section \<open>Python's stable sort\<close>

text \<open>
  \<open>sorted\<close> and \<open>list.sort\<close> keep the order of elements that compare equal, also with
  \<open>reverse=True\<close>. The order is a strict comparison, so that a key with a NaN, which Python compares
  with everything as not smaller, has a defined place here (after the elements before it).
\<close>

definition insert_by :: "('a \<Rightarrow> 'a \<Rightarrow> bool) \<Rightarrow> 'a \<Rightarrow> 'a list \<Rightarrow> 'a list" where
  "insert_by lt x ys = takeWhile (\<lambda>y. \<not> lt x y) ys @ x # dropWhile (\<lambda>y. \<not> lt x y) ys"

definition sort_by :: "('a \<Rightarrow> 'a \<Rightarrow> bool) \<Rightarrow> 'a list \<Rightarrow> 'a list" where
  "sort_by lt xs = foldl (\<lambda>ys x. insert_by lt x ys) [] xs"

text \<open>The order of texts.\<close>

fun text_before :: "string \<Rightarrow> string \<Rightarrow> bool" where
  "text_before _ [] = False"
| "text_before [] (_ # _) = True"
| "text_before (a # s) (b # t) =
     (if a = b then text_before s t else (of_char a :: nat) < of_char b)"

lemma mset_insert_by [simp]: "mset (insert_by lt x ys) = add_mset x (mset ys)"
proof -
  have "mset (takeWhile p ys) + mset (dropWhile p ys) = mset ys" for p
    by (simp only: mset_append [symmetric] takeWhile_dropWhile_id)
  then show ?thesis by (simp add: insert_by_def)
qed

lemma set_insert_by [simp]: "set (insert_by lt x ys) = insert x (set ys)"
  by (metis mset_insert_by set_mset_add_mset_insert set_mset_mset)

lemma insert_by_simps [simp]:
  "insert_by lt x [] = [x]"
  "insert_by lt x (y # ys) = (if lt x y then x # y # ys else y # insert_by lt x ys)"
  by (simp_all add: insert_by_def)

lemma mset_sort_by [simp]: "mset (sort_by lt xs) = mset xs"
proof -
  have "mset (foldl (\<lambda>ys x. insert_by lt x ys) ys xs) = mset ys + mset xs" for ys
    by (induction xs arbitrary: ys) simp_all
  then show ?thesis by (simp add: sort_by_def)
qed

lemma set_sort_by [simp]: "set (sort_by lt xs) = set xs"
  by (rule mset_eq_setD) simp

lemma length_sort_by [simp]: "length (sort_by lt xs) = length xs"
  by (rule mset_eq_length) simp

text \<open>On a set where \<open>lt\<close> is a strict weak order the result is sorted.\<close>

definition weak_order_on :: "'a set \<Rightarrow> ('a \<Rightarrow> 'a \<Rightarrow> bool) \<Rightarrow> bool" where
  "weak_order_on A lt \<longleftrightarrow> (\<forall>x \<in> A. \<forall>y \<in> A. lt x y \<longrightarrow> \<not> lt y x)
     \<and> (\<forall>x \<in> A. \<forall>y \<in> A. \<forall>z \<in> A. \<not> lt y x \<longrightarrow> \<not> lt z y \<longrightarrow> \<not> lt z x)"

lemma insert_by_sorted:
  assumes "weak_order_on A lt" and "insert x (set ys) \<subseteq> A" and "sorted_wrt (\<lambda>x y. \<not> lt y x) ys"
  shows "sorted_wrt (\<lambda>x y. \<not> lt y x) (insert_by lt x ys)"
  using assms(2,3)
proof (induction ys)
  case (Cons y ys)
  show ?case
  proof (cases "lt x y")
    case True
    then have "\<not> lt y x" using assms(1) Cons.prems(1) by (simp add: weak_order_on_def)
    then have "\<forall>z \<in> set (y # ys). \<not> lt z x"
      using assms(1) Cons.prems unfolding weak_order_on_def by (metis insert_subset list.simps(15) set_ConsD sorted_wrt.simps(2) subsetD)
    then show ?thesis using True Cons.prems(2) by simp
  next
    case False
    then show ?thesis using Cons by auto
  qed
qed simp

lemma sort_by_sorted:
  assumes "weak_order_on (set xs) lt"
  shows "sorted_wrt (\<lambda>x y. \<not> lt y x) (sort_by lt xs)"
proof -
  have "sorted_wrt (\<lambda>x y. \<not> lt y x) (foldl (\<lambda>ys x. insert_by lt x ys) ys zs)"
    if "sorted_wrt (\<lambda>x y. \<not> lt y x) ys" and "set ys \<union> set zs \<subseteq> set xs" for ys zs
    using that
  proof (induction zs arbitrary: ys)
    case (Cons z zs)
    then show ?case using insert_by_sorted [OF assms, of z ys] by simp
  qed simp
  then show ?thesis by (simp add: sort_by_def)
qed

lemma weak_order_on_keys:
  assumes "\<forall>x \<in> A. is_finite (f x)"
  shows "weak_order_on A (\<lambda>x y. flt (f x) (f y))" and "weak_order_on A (\<lambda>x y. flt (f y) (f x))"
proof -
  have "\<forall>x \<in> A. \<exists>q. f x = Fin q" using assms by (simp add: is_finite_iff)
  then obtain g where g: "\<And>x. x \<in> A \<Longrightarrow> f x = Fin (g x)" using bchoice by metis
  show "weak_order_on A (\<lambda>x y. flt (f x) (f y))" and "weak_order_on A (\<lambda>x y. flt (f y) (f x))"
    by (auto simp: weak_order_on_def g)
qed

end
