(* ===== verification/Portfolio_Allocator.thy ===== *)
theory Portfolio_Allocator
  imports Utilization_Gate Capital_Tiers Py_Sort
begin

section \<open>Allocating the envelope to candidates\<close>

text \<open>
  Model of \<open>services/portfolio_allocator.py\<close>: the dollars a cycle may still commit are
  distributed over the best candidates by score. Candidates and open positions are dictionaries;
  scores, budgets and the equity are floats with their special values. The regime and its
  normalization are those of theory \<open>Capital_Tiers\<close>, \<open>choose_basis\<close> that of \<open>Utilization_Gate\<close>.
  Python leaves the order of a sort with a NaN key unspecified; here such a key compares as
  equal to every other.
\<close>

definition GLOBAL_ENVELOPE_PCT :: pynum where "GLOBAL_ENVELOPE_PCT = Fin (85/100)"
definition PER_TRADE_CEILING_PCT :: pynum where "PER_TRADE_CEILING_PCT = Fin (36/100)"
definition MAX_CONCURRENT_POSITIONS :: nat where "MAX_CONCURRENT_POSITIONS = 4"
definition SCORE_SKEW_MIN :: pynum where "SCORE_SKEW_MIN = Fin (8/10)"
definition SCORE_SKEW_MAX :: pynum where "SCORE_SKEW_MAX = Fin (12/10)"

lemmas allocator_constants = GLOBAL_ENVELOPE_PCT_def PER_TRADE_CEILING_PCT_def MAX_CONCURRENT_POSITIONS_def
  SCORE_SKEW_MIN_def SCORE_SKEW_MAX_def

record alloc_policy =
  ap_envelope :: pynum
  ap_ceiling :: pynum
  ap_max :: nat

definition default_policy :: alloc_policy where
  "default_policy = \<lparr>ap_envelope = GLOBAL_ENVELOPE_PCT, ap_ceiling = PER_TRADE_CEILING_PCT,
     ap_max = MAX_CONCURRENT_POSITIONS\<rparr>"

record allocation =
  al_candidate :: pydict
  al_budget :: pynum
  al_pct :: pynum
  al_skew :: pynum
  al_binding :: bool

definition regime_mult_of :: "regime_input \<Rightarrow> pynum" where
  "regime_mult_of r =
     (case map_of [(''normal'', Fin 1), (''suppressed'', Fin (9/10)), (''elevated'', Fin (8/10)), (''shock'', Fin (1/2)),
                   (''chop'', Fin 1), (''rebound'', Fin 1)] (normalize_regime r) of Some m \<Rightarrow> m | None \<Rightarrow> Fin 1)"

text \<open>
  One open position: its cost basis (or current value) and, when it has one, its maximal loss. A
  value that is no number is skipped.
\<close>

definition add_open_position :: "pydict \<Rightarrow> pynum \<times> pynum \<times> bool \<Rightarrow> pynum \<times> pynum \<times> bool" where
  "add_open_position pos acc =
     (case acc of (sum0, honest, any) \<Rightarrow>
       (let cb = (if dget pos ''cost_basis'' = PNone then dget_default pos ''current_value'' (PFloat (Fin 0))
                  else dget pos ''cost_basis'');
            cost = py_float (py_or cb (PFloat (Fin 0)));
            sum' = (case cost of Inl _ \<Rightarrow> sum0 | Inr x \<Rightarrow> fadd sum0 (fabs x))
        in if dget pos ''max_loss_total'' \<noteq> PNone
           then (case py_float (dget pos ''max_loss_total'') of
                   Inl _ \<Rightarrow> (sum', honest, any) | Inr x \<Rightarrow> (sum', fadd honest (fabs x), True))
           else (case cost of Inl _ \<Rightarrow> (sum', honest, any) | Inr x \<Rightarrow> (sum', fadd honest (fabs x), any))))"

definition sum_open_cost_basis :: "bool \<Rightarrow> pydict list \<Rightarrow> pynum" where
  "sum_open_cost_basis basis_on opens =
     (case fold add_open_position opens (Fin 0, Fin 0, False) of
        (sum0, honest, any) \<Rightarrow> choose_basis basis_on sum0 (if any then Some honest else None))"

text \<open>Candidates by descending score, values in ascending order.\<close>

definition sort_desc :: "(pynum \<times> 'a) list \<Rightarrow> (pynum \<times> 'a) list" where
  "sort_desc xs = sort_by (\<lambda>x y. flt (fst y) (fst x)) xs"

definition median :: "pynum list \<Rightarrow> pynum" where
  "median values =
     (if values = [] then Fin 0
      else (let s = sort_by flt values; n = length s; mid = n div 2
            in if n mod 2 = 1 then s ! mid
               else (case fdiv (fadd (s ! (mid - 1)) (s ! mid)) (Fin 2) of Inr x \<Rightarrow> x | Inl _ \<Rightarrow> Fin 0)))"

definition score_skew :: "pynum \<Rightarrow> pynum \<Rightarrow> pynum" where
  "score_skew score med =
     fmax SCORE_SKEW_MIN (fmin SCORE_SKEW_MAX (fadd (Fin (8/10)) (fmul (fmul (fsub score med) (Fin (1/50))) (Fin (4/10)))))"

definition score_of :: "pydict \<Rightarrow> pyexn + pynum" where
  "score_of c = py_float (py_or (dget c ''score'') (PFloat (Fin 0)))"

fun allocate_loop ::
  "alloc_policy \<Rightarrow> pynum \<Rightarrow> pynum \<Rightarrow> pynum \<Rightarrow> (pynum \<times> pydict) list \<Rightarrow> pynum \<Rightarrow> pyexn + allocation list" where
  "allocate_loop pol equity base med [] remaining = Inr []"
| "allocate_loop pol equity base med ((score, cand) # cs) remaining =
     (let skew = score_skew score med;
          raw_pct = fmul base skew;
          final_pct = fmin raw_pct (ap_ceiling pol);
          budget = fmin (fmul equity final_pct) remaining
      in if fle budget (Fin 0) then Inr []
         else rbind (fdiv budget equity) (\<lambda>pct.
              rbind (allocate_loop pol equity base med cs (fsub remaining budget)) (\<lambda>rest.
                Inr (\<lparr>al_candidate = cand, al_budget = budget, al_pct = pct, al_skew = skew,
                      al_binding = fle (ap_ceiling pol) raw_pct\<rparr> # rest))))"

definition keyed_candidates :: "pydict list \<Rightarrow> pyexn + (pynum \<times> pydict) list" where
  "keyed_candidates cs = rmap (\<lambda>c. rbind (score_of c) (\<lambda>s. Inr (s, c))) cs"

definition allocate ::
  "bool \<Rightarrow> alloc_policy \<Rightarrow> pydict list \<Rightarrow> pynum \<Rightarrow> regime_input \<Rightarrow> pydict list \<Rightarrow> pyexn + allocation list" where
  "allocate basis_on pol candidates equity regime opens =
     (if candidates = [] \<or> fle equity (Fin 0) then Inr []
      else
        (let envelope = fmul (fmul equity (ap_envelope pol)) (regime_mult_of regime);
             available = fmax (Fin 0) (fsub envelope (sum_open_cost_basis basis_on opens))
         in if fle available (Fin 0) then Inr []
            else rbind (keyed_candidates candidates) (\<lambda>keyed.
              let n = min (length keyed) (ap_max pol)
              in if n = 0 then Inr []
                 else (let selected = take n (sort_desc keyed)
                       in rbind (fdiv (ap_envelope pol) (Fin (of_nat n))) (\<lambda>base.
                            allocate_loop pol equity base (median (map fst selected)) selected available)))))"

subsection \<open>What an allocation satisfies\<close>

definition between :: "rat \<Rightarrow> rat \<Rightarrow> pynum \<Rightarrow> bool" where
  "between a b x = (case x of Fin k \<Rightarrow> a \<le> k \<and> k \<le> b | _ \<Rightarrow> False)"

lemma betweenE: "between a b x \<Longrightarrow> (\<And>k. x = Fin k \<Longrightarrow> a \<le> k \<Longrightarrow> k \<le> b \<Longrightarrow> P) \<Longrightarrow> P"
  by (cases x) (auto simp: between_def)

lemma score_skew_bounds: "between (8/10) (12/10) (score_skew s m)"
proof -
  have "between (8/10) (12/10) (fmax (Fin (8/10)) (fmin (Fin (12/10)) x))" for x
    by (cases x) (auto simp: fmax_def fmin_def between_def)
  then show ?thesis by (simp only: score_skew_def allocator_constants)
qed

lemma score_skew_Fin:
  "score_skew (Fin s) (Fin m) = Fin (max (8/10) (min (12/10) (8/10 + (s - m) * (1/50) * (4/10))))"
  by (simp add: score_skew_def allocator_constants)

lemma score_skew_mono:
  assumes "s \<le> s'" and "score_skew (Fin s) (Fin m) = Fin k" and "score_skew (Fin s') (Fin m) = Fin k'"
  shows "k \<le> k'"
proof -
  have "8/10 + (s - m) * (1/50) * (4/10) \<le> 8/10 + (s' - m) * (1/50) * (4/10)" using assms(1) by simp
  then have "max (8/10) (min (12/10) (8/10 + (s - m) * (1/50) * (4/10)))
      \<le> max (8/10) (min (12/10) (8/10 + (s' - m) * (1/50) * (4/10)))"
    by (intro max.mono min.mono order_refl)
  then show ?thesis using assms(2,3) by (simp only: score_skew_Fin pynum.inject)
qed

lemma regime_mult_range: "between (1/2) 1 (regime_mult_of r)"
  by (simp add: regime_mult_of_def between_def)

text \<open>Budgets of the loop for a finite equity: positive, under the ceiling, within what remains.\<close>

definition fin_budget :: "allocation \<Rightarrow> rat" where
  "fin_budget a = (case al_budget a of Fin q \<Rightarrow> q | _ \<Rightarrow> 0)"

lemma allocate_loop_Cons:
  assumes run: "allocate_loop pol (Fin e) (Fin b) med ((score, cand) # cs) (Fin m) = Inr rs" and e: "0 < e"
    and c: "ap_ceiling pol = Fin c" and k: "score_skew score med = Fin k"
  obtains "rs = []"
  | rest where "allocate_loop pol (Fin e) (Fin b) med cs (Fin (m - min (e * min (b * k) c) m)) = Inr rest"
      and "0 < min (e * min (b * k) c) m"
      and "rs = \<lparr>al_candidate = cand, al_budget = Fin (min (e * min (b * k) c) m),
          al_pct = Fin (min (e * min (b * k) c) m / e), al_skew = Fin k,
          al_binding = fle (ap_ceiling pol) (Fin (b * k))\<rparr> # rest"
proof (cases "min (e * min (b * k) c) m \<le> 0")
  case True
  then show ?thesis using run that(1) by (simp add: k c Let_def)
next
  case False
  have "e \<noteq> 0" using e by simp
  obtain rest where "allocate_loop pol (Fin e) (Fin b) med cs (Fin (m - min (e * min (b * k) c) m)) = Inr rest"
    and "rs = \<lparr>al_candidate = cand, al_budget = Fin (min (e * min (b * k) c) m),
          al_pct = Fin (min (e * min (b * k) c) m / e), al_skew = Fin k,
          al_binding = fle (ap_ceiling pol) (Fin (b * k))\<rparr> # rest"
    using run False \<open>e \<noteq> 0\<close> by (simp add: k c Let_def rbind_Inr_iff del: min_le_iff_disj) blast
  then show ?thesis using False that(2) by (simp only: not_le)
qed

lemma allocate_loop_bounds:
  assumes "allocate_loop pol (Fin e) (Fin b) med cs (Fin m) = Inr rs" and "0 < e" and "ap_ceiling pol = Fin c"
    and "0 \<le> m"
  shows "(\<forall>a \<in> set rs. al_budget a = Fin (fin_budget a) \<and> 0 < fin_budget a \<and> fin_budget a \<le> e * c \<and> fin_budget a \<le> m
       \<and> al_pct a = Fin (fin_budget a / e))
     \<and> (\<Sum>a\<leftarrow>rs. fin_budget a) \<le> m \<and> map al_candidate rs = map snd (take (length rs) cs)"
  using assms
proof (induction cs arbitrary: m rs)
  case (Cons x cs)
  obtain score cand where x: "x = (score, cand)" by (cases x)
  obtain k where k: "score_skew score med = Fin k" using score_skew_bounds [of score med] by (auto elim: betweenE)
  from Cons.prems(1) [unfolded x] Cons.prems(2,3) k show ?case
  proof (cases rule: allocate_loop_Cons)
    case (2 rest)
    define q where "q = min (e * min (b * k) c) m"
    have q: "0 < q" "q \<le> m" using 2(2) by (simp_all add: q_def)
    have "q \<le> e * c" using Cons.prems(2) unfolding q_def by (intro min.coboundedI1) simp
    moreover have "\<forall>a \<in> set rest. al_budget a = Fin (fin_budget a) \<and> 0 < fin_budget a \<and> fin_budget a \<le> e * c
       \<and> fin_budget a \<le> m - q \<and> al_pct a = Fin (fin_budget a / e)"
      and "(\<Sum>a\<leftarrow>rest. fin_budget a) \<le> m - q" and "map al_candidate rest = map snd (take (length rest) cs)"
      using Cons.IH [OF 2(1) [folded q_def] Cons.prems(2,3)] q by simp_all
    moreover have "rs = \<lparr>al_candidate = cand, al_budget = Fin q, al_pct = Fin (q / e), al_skew = Fin k,
          al_binding = fle (ap_ceiling pol) (Fin (b * k))\<rparr> # rest" using 2(3) by (simp add: q_def)
    ultimately show ?thesis using q by (force simp: fin_budget_def x)
  qed (use Cons.prems in simp)
qed auto

lemma allocate_loop_sorted:
  assumes "allocate_loop pol (Fin e) (Fin b) (Fin med) cs (Fin m) = Inr rs" and "0 < e" and "0 \<le> b"
    and "ap_ceiling pol = Fin c" and "0 \<le> m"
    and "sorted_wrt (\<lambda>x y. fle (fst y) (fst x)) cs" and "\<forall>x \<in> set cs. is_finite (fst x)"
  shows "sorted_wrt (\<lambda>x y. fin_budget y \<le> fin_budget x) rs \<and>
    (\<forall>s k. (\<forall>x \<in> set cs. fle (fst x) (Fin s)) \<longrightarrow> score_skew (Fin s) (Fin med) = Fin k \<longrightarrow>
       (\<forall>a \<in> set rs. fin_budget a \<le> e * min (b * k) c))"
  using assms
proof (induction cs arbitrary: m rs)
  case (Cons x cs)
  obtain s0 cand where x: "x = (Fin s0, cand)" using Cons.prems(7) by (cases x) (auto simp: is_finite_iff)
  obtain k where k: "score_skew (Fin s0) (Fin med) = Fin k" using score_skew_bounds [of "Fin s0" "Fin med"] by (auto elim: betweenE)
  have mono: "e * min (b * k) c \<le> e * min (b * k') c"
    if "s0 \<le> s'" "score_skew (Fin s') (Fin med) = Fin k'" for s' k'
    using score_skew_mono [OF that(1) k that(2)] Cons.prems(2,3) by (intro mult_left_mono min.mono) auto
  from Cons.prems(1) [unfolded x] Cons.prems(2,4) k show ?case
  proof (cases rule: allocate_loop_Cons)
    case (2 rest)
    define q where "q = min (e * min (b * k) c) m"
    have q: "0 < q" "q \<le> m" "q \<le> e * min (b * k) c" using 2(2) by (simp_all add: q_def)
    note IH = Cons.IH [OF 2(1) [folded q_def] Cons.prems(2-4)]
    have tl: "sorted_wrt (\<lambda>x y. fin_budget y \<le> fin_budget x) rest"
      and le: "\<forall>a \<in> set rest. fin_budget a \<le> e * min (b * k) c"
      using IH Cons.prems(6,7) q k by (auto simp: x)
    have le_m: "\<forall>a \<in> set rest. fin_budget a \<le> m"
      using allocate_loop_bounds [OF 2(1) [folded q_def] Cons.prems(2,4)] q by fastforce
    have rs: "rs = \<lparr>al_candidate = cand, al_budget = Fin q, al_pct = Fin (q / e), al_skew = Fin k,
          al_binding = fle (ap_ceiling pol) (Fin (b * k))\<rparr> # rest" using 2(3) by (simp add: q_def)
    have "fin_budget a \<le> q" if "a \<in> set rest" for a using le le_m that by (simp add: q_def)
    then have one: "sorted_wrt (\<lambda>x y. fin_budget y \<le> fin_budget x) rs" using tl by (simp add: rs fin_budget_def)
    have two: "\<forall>a \<in> set rs. fin_budget a \<le> e * min (b * k') c"
      if "\<forall>y \<in> set (x # cs). fle (fst y) (Fin s')" "score_skew (Fin s') (Fin med) = Fin k'" for s' k'
    proof -
      have "e * min (b * k) c \<le> e * min (b * k') c" using mono [OF _ that(2)] that(1) by (simp add: x)
      then show ?thesis using le q(3) by (auto simp: rs fin_budget_def intro: order_trans)
    qed
    show ?thesis using one two by blast
  qed (use Cons.prems in simp)
qed simp

lemma sort_desc_simps [simp]: "mset (sort_desc xs) = mset xs" "set (sort_desc xs) = set xs"
  by (simp_all add: sort_desc_def)

lemma fle_finite_linear: "is_finite x \<Longrightarrow> is_finite y \<Longrightarrow> \<not> flt x y \<Longrightarrow> fle y x"
  by (auto simp: is_finite_iff)

lemma sort_desc_sorted:
  assumes "\<forall>y \<in> set xs. is_finite (fst y)"
  shows "sorted_wrt (\<lambda>x y. fle (fst y) (fst x)) (sort_desc xs)"
proof -
  have "sorted_wrt (\<lambda>x y. \<not> flt (fst x) (fst y)) (sort_desc xs)"
    unfolding sort_desc_def by (rule sort_by_sorted [OF weak_order_on_keys(2)]) (rule assms)
  then show ?thesis
    by (rule sorted_wrt_mono_rel [rotated]) (use assms in \<open>auto intro: fle_finite_linear\<close>)
qed

lemma median_finite:
  assumes "\<forall>x \<in> set xs. is_finite x"
  shows "is_finite (median xs)"
proof (cases "xs = []")
  case False
  then have "length xs div 2 < length xs" by (cases xs) auto
  moreover from this have "length xs div 2 - 1 < length xs" by linarith
  ultimately have "sort_by flt xs ! (length xs div 2) \<in> set xs" "sort_by flt xs ! (length xs div 2 - 1) \<in> set xs"
    by (metis length_sort_by nth_mem set_sort_by)+
  then have "is_finite (sort_by flt xs ! (length xs div 2))" "is_finite (sort_by flt xs ! (length xs div 2 - 1))"
    using assms by simp_all
  then obtain a b where "sort_by flt xs ! (length xs div 2) = Fin a" "sort_by flt xs ! (length xs div 2 - 1) = Fin b"
    unfolding is_finite_iff by blast
  then show ?thesis using False by (simp add: median_def Let_def)
qed (simp add: median_def)

lemma open_basis_not_neg: "not_neg (sum_open_cost_basis basis_on opens)"
proof -
  have "not_neg (fst (fold add_open_position opens acc)) \<and> not_neg (fst (snd (fold add_open_position opens acc)))"
    if "not_neg (fst acc)" and "not_neg (fst (snd acc))" for acc
    using that
  proof (induction opens arbitrary: acc)
    case (Cons pos opens)
    have "not_neg (fst (add_open_position pos acc)) \<and> not_neg (fst (snd (add_open_position pos acc)))"
      using Cons.prems by (cases acc) (auto simp: add_open_position_def Let_def not_neg_fadd split: sum.split)
    then show ?case using Cons.IH by simp
  qed simp
  from this [of "(Fin 0, Fin 0, False)"] show ?thesis
    by (cases "fold add_open_position opens (Fin 0, Fin 0, False)")
       (auto simp: sum_open_cost_basis_def choose_basis_def)
qed

lemma prefix_length: "map f xs = map g (take (length xs) ys) \<Longrightarrow> length xs \<le> length ys"
  by (drule arg_cong [of _ _ length]) simp

text \<open>What a non-empty allocation went through.\<close>

lemma allocate_elim:
  assumes run: "allocate basis_on default_policy cs (Fin e) regime opens = Inr rs" and ne: "rs \<noteq> []"
  obtains u r keyed where "0 < e" and "sum_open_cost_basis basis_on opens = Fin u" and "regime_mult_of regime = Fin r"
    and "0 < 85/100 * e * r - u" and "keyed_candidates cs = Inr keyed" and "keyed \<noteq> []"
    and "allocate_loop default_policy (Fin e) (Fin (85/100 / of_nat (min (length keyed) 4)))
           (median (map fst (take (min (length keyed) 4) (sort_desc keyed)))) (take (min (length keyed) 4) (sort_desc keyed))
           (Fin (85/100 * e * r - u)) = Inr rs"
proof -
  obtain r where r: "regime_mult_of regime = Fin r" using regime_mult_range [of regime] by (auto elim: betweenE)
  have e: "0 < e"
  proof (rule ccontr)
    assume "\<not> 0 < e"
    then show False using run ne by (simp add: allocate_def)
  qed
  have "\<exists>u. sum_open_cost_basis basis_on opens = Fin u \<and> 0 < 85/100 * e * r - u"
    using run ne e open_basis_not_neg [of basis_on opens]
    by (auto simp: not_neg_cases allocate_def default_policy_def GLOBAL_ENVELOPE_PCT_def r Let_def fsub_def fmax_def mult.commute
        split: if_splits)
  then obtain u where u: "sum_open_cost_basis basis_on opens = Fin u" and av: "0 < 85/100 * e * r - u" by blast
  have eq: "fmax (Fin 0) (fsub (fmul (fmul (Fin e) (ap_envelope default_policy)) (regime_mult_of regime))
      (sum_open_cost_basis basis_on opens)) = Fin (85/100 * e * r - u)"
    using av by (simp add: r u default_policy_def GLOBAL_ENVELOPE_PCT_def max_def mult.commute)
  have mx: "ap_max default_policy = 4" "ap_envelope default_policy = Fin (85/100)"
    by (simp_all add: default_policy_def allocator_constants)
  from run ne e av obtain keyed where k: "keyed_candidates cs = Inr keyed"
    by (auto simp: allocate_def eq Let_def rbind_Inr_iff split: if_splits)
  have "keyed \<noteq> []" using run ne e av by (auto simp: allocate_def eq Let_def k split: if_splits)
  moreover from this have "allocate_loop default_policy (Fin e) (Fin (85/100 / of_nat (min (length keyed) 4)))
           (median (map fst (take (min (length keyed) 4) (sort_desc keyed)))) (take (min (length keyed) 4) (sort_desc keyed))
           (Fin (85/100 * e * r - u)) = Inr rs"
    using run [unfolded allocate_def Let_def eq, unfolded mx] ne e av by (simp add: k split: if_splits)
  ultimately show ?thesis using that e u r av k by blast
qed

text \<open>
  C13 (bounds). For an equity e, an allocation has at most four slots, each with a positive finite
  budget of at most 36 % of e; its budgets and what the open positions already use together never
  exceed 85 % of e times the regime's multiplier.
\<close>

theorem allocation_limits:
  assumes "allocate basis_on default_policy cs (Fin e) regime opens = Inr rs" and "rs \<noteq> []"
  shows "length rs \<le> 4 \<and>
    (\<forall>a \<in> set rs. \<exists>b. al_budget a = Fin b \<and> 0 < b \<and> b \<le> 36/100 * e \<and> al_pct a = Fin (b / e)) \<and>
    (\<exists>u r. sum_open_cost_basis basis_on opens = Fin u \<and> regime_mult_of regime = Fin r
       \<and> (\<Sum>a\<leftarrow>rs. fin_budget a) + u \<le> 85/100 * e * r)"
  using assms
proof (rule allocate_elim)
  fix u r and keyed :: "(pynum \<times> pydict) list"
  let ?cs = "take (min (length keyed) 4) (sort_desc keyed)"
  assume e: "0 < e" and u: "sum_open_cost_basis basis_on opens = Fin u" and r: "regime_mult_of regime = Fin r"
    and av: "0 < 85/100 * e * r - u"
    and loop: "allocate_loop default_policy (Fin e) (Fin (85/100 / of_nat (min (length keyed) 4))) (median (map fst ?cs)) ?cs
           (Fin (85/100 * e * r - u)) = Inr rs"
  have "ap_ceiling default_policy = Fin (36/100)" by (simp add: default_policy_def allocator_constants)
  note b = allocate_loop_bounds [OF loop e this less_imp_le [OF av]]
  have "length rs \<le> 4"
    using b prefix_length [of al_candidate rs snd ?cs] by simp
  moreover have "\<forall>a \<in> set rs. \<exists>b. al_budget a = Fin b \<and> 0 < b \<and> b \<le> 36/100 * e \<and> al_pct a = Fin (b / e)"
    using b by (metis mult.commute)
  ultimately show ?thesis using b u r by auto
qed

text \<open>
  When every score is finite, the slots go to the best candidates: they are a
  prefix of the candidates ranked by descending score, and a better score never gets a smaller
  budget.
\<close>

theorem allocation_prefers_scores:
  assumes "allocate basis_on default_policy cs (Fin e) regime opens = Inr rs" and "keyed_candidates cs = Inr keyed"
    and "\<forall>x \<in> set keyed. is_finite (fst x)"
  shows "\<exists>ranked. mset ranked = mset keyed \<and> sorted_wrt (\<lambda>x y. fle (fst y) (fst x)) ranked
    \<and> map al_candidate rs = map snd (take (length rs) ranked) \<and> sorted_wrt (\<lambda>x y. fin_budget y \<le> fin_budget x) rs"
proof (cases "rs = []")
  case True
  then show ?thesis using sort_desc_sorted [OF assms(3)] by (intro exI [of _ "sort_desc keyed"]) simp
next
  case False
  let ?cs = "take (min (length keyed) 4) (sort_desc keyed)"
  from assms(1) False obtain u r where e: "0 < e" and av: "0 < 85/100 * e * r - u"
    and loop: "allocate_loop default_policy (Fin e) (Fin (85/100 / of_nat (min (length keyed) 4))) (median (map fst ?cs)) ?cs
           (Fin (85/100 * e * r - u)) = Inr rs"
    using assms(2) by (elim allocate_elim) auto
  have c: "ap_ceiling default_policy = Fin (36/100)" by (simp add: default_policy_def allocator_constants)
  have fin: "\<forall>x \<in> set ?cs. is_finite (fst x)" using assms(3) by (metis in_set_takeD sort_desc_simps(2))
  then obtain m where m: "median (map fst ?cs) = Fin m" using median_finite [of "map fst ?cs"] by (auto simp: is_finite_iff)
  have "sorted_wrt (\<lambda>x y. fin_budget y \<le> fin_budget x) rs"
    using allocate_loop_sorted [OF loop [unfolded m] e _ c less_imp_le [OF av] sorted_wrt_take [OF sort_desc_sorted [OF assms(3)]] fin]
    by simp
  moreover have "map al_candidate rs = map snd (take (length rs) ?cs)" and "length rs \<le> min (length keyed) 4"
    using allocate_loop_bounds [OF loop e c less_imp_le [OF av]] prefix_length [of al_candidate rs snd ?cs] by simp_all
  ultimately show ?thesis using sort_desc_sorted [OF assms(3)]
    by (intro exI [of _ "sort_desc keyed"]) (simp add: take_take min.absorb1)
qed

subsection \<open>A concrete cycle\<close>

text \<open>Three candidates, 1500 dollars, 500 already in use: the third slot gets what is left.\<close>

definition sample_pool :: "pydict list" where
  "sample_pool = [[(''score'', PInt 60)], [(''score'', PInt 90)], [(''score'', PInt 75)]]"

definition sample_open :: "pydict list" where
  "sample_open = [[(''cost_basis'', PInt 500)], [(''cost_basis'', PStr ''n/a'')]]"

definition sample_slots :: "allocation list" where
  "sample_slots =
     [\<lparr>al_candidate = [(''score'', PInt 90)], al_budget = Fin 391, al_pct = Fin (391/1500), al_skew = Fin (23/25), al_binding = False\<rparr>,
      \<lparr>al_candidate = [(''score'', PInt 75)], al_budget = Fin 340, al_pct = Fin (17/75), al_skew = Fin (4/5), al_binding = False\<rparr>,
      \<lparr>al_candidate = [(''score'', PInt 60)], al_budget = Fin 44, al_pct = Fin (11/375), al_skew = Fin (4/5), al_binding = False\<rparr>]"

lemma sample_allocation:
  "allocate False default_policy sample_pool (Fin 1500) NoRegime sample_open = Inr sample_slots"
  by code_simp

theorem allocation_limits_witness:
  "length sample_slots \<le> 4 \<and> (\<exists>b. al_budget (hd sample_slots) = Fin b \<and> 0 < b \<and> b \<le> 540)"
  using allocation_limits [OF sample_allocation] by (fastforce simp: sample_slots_def)

theorem allocation_prefers_scores_witness:
  "sorted_wrt (\<lambda>x y. fin_budget y \<le> fin_budget x) sample_slots"
proof -
  have k: "keyed_candidates sample_pool = Inr (map (\<lambda>n. (Fin (of_int n), [(''score'', PInt n)])) [60, 90, 75])" by code_simp
  show ?thesis using allocation_prefers_scores [OF sample_allocation k] by auto
qed

end
