(* ===== verification/Marks.thy ===== *)
theory Marks
  imports Payoff Py_Float
begin

section \<open>Marks of open positions\<close>

text \<open>
  Model of the mark arithmetic every reader of open positions shares: \<open>risk/mark_math.py\<close> (the mid
  of a quote, the value of a structure, its mark and unrealized profit), the two guards on the
  result, \<open>risk/mark_validity.py\<close> and \<open>risk/payoff_bounds.py\<close>, and \<open>risk/legs_convention.py\<close>, which
  keeps the leg counts that the arithmetic relies on. Then what they guarantee.

  The process environment is a map from names to texts. The diagnostic details the guards
  return beside their verdict are left out, as are the alert texts.
\<close>

subsection \<open>Quotes and structure values\<close>

type_synonym environ = "string \<Rightarrow> string option"

text \<open>The two thresholds are read together: one that is unreadable resets both.\<close>

definition degenerate_limits :: "environ \<Rightarrow> pynum \<times> pynum" where
  "degenerate_limits env =
     (let read = (\<lambda>k. case env k of None \<Rightarrow> Some (Fin 1) | Some s \<Rightarrow> float_of_str s)
      in case (read ''MARK_DEGENERATE_ABS_WIDTH'', read ''MARK_DEGENERATE_REL_SPREAD'') of
           (Some a, Some r) \<Rightarrow> (a, r) | _ \<Rightarrow> (Fin 1, Fin 1))"

definition usable_mid :: "environ \<Rightarrow> pyval \<Rightarrow> pyval \<Rightarrow> pyval \<Rightarrow> pyexn + pynum option" where
  "usable_mid env bid ask fallback =
     (let legacy = rbind (py_float (py_or fallback (PInt 0))) (\<lambda>x. Inr (Some x))
      in case (py_float (py_or bid (PInt 0)), py_float (py_or ask (PInt 0))) of
           (Inr b, Inr a) \<Rightarrow>
             if flt (Fin 0) b \<and> flt (Fin 0) a then
               (let width = fsub a b
                in rbind (fdiv (fadd a b) (Fin 2)) (\<lambda>mid.
                   case degenerate_limits env of (floor_, rel) \<Rightarrow>
                     if flt (Fin 0) mid \<and> flt floor_ width
                        \<and> (case fdiv width mid of Inr x \<Rightarrow> flt rel x | Inl _ \<Rightarrow> False)
                     then Inr None else Inr (Some mid)))
             else legacy
         | _ \<Rightarrow> legacy)"

datatype leg_mark = NotPriceable | FailedLeg pyval | LegValue pynum

definition leg_occ :: "pydict \<Rightarrow> pyval" where
  "leg_occ d = py_or (dget d ''occ_symbol'') (py_or (dget d ''symbol'') (PStr []))"

definition leg_side_mult :: "pydict \<Rightarrow> rat" where
  "leg_side_mult d =
     (case map_option str_lower (py_text (py_or (dget d ''action'') (py_or (dget d ''side'') (PStr ''buy'')))) of
        Some t \<Rightarrow> if t = ''buy'' \<or> t = ''long'' then 1 else - 1 | None \<Rightarrow> - 1)"

definition mark_leg :: "(pyval \<Rightarrow> pynum option) \<Rightarrow> pyval \<Rightarrow> pynum \<Rightarrow> pyval \<Rightarrow> pyexn + leg_mark" where
  "mark_leg mid_for pos_quantity mul v =
     (case as_dict v of
        None \<Rightarrow> Inr NotPriceable
      | Some d \<Rightarrow>
          if \<not> truthy (leg_occ d) then Inr NotPriceable
          else (case mid_for (leg_occ d) of
              None \<Rightarrow> Inr (FailedLeg (leg_occ d))
            | Some mid \<Rightarrow>
                if fle mid (Fin 0) then Inr (FailedLeg (leg_occ d))
                else rbind (py_float (py_or (dget d ''quantity'') (py_or pos_quantity (PInt 1)))) (\<lambda>q.
                  Inr (LegValue (fmul (fmul (fmul mid mul) (fabs q)) (Fin (leg_side_mult d)))))))"

definition failed_legs :: "leg_mark list \<Rightarrow> pyval list" where
  "failed_legs ms = List.map_filter (\<lambda>m. case m of FailedLeg s \<Rightarrow> Some s | _ \<Rightarrow> None) ms"

definition leg_values :: "leg_mark list \<Rightarrow> pynum list" where
  "leg_values ms = List.map_filter (\<lambda>m. case m of LegValue x \<Rightarrow> Some x | _ \<Rightarrow> None) ms"

definition compute_current_value ::
  "(pyval \<Rightarrow> pynum option) \<Rightarrow> pyval \<Rightarrow> pynum \<Rightarrow> bool \<Rightarrow> pyval list \<Rightarrow> pyexn + pynum option \<times> pyval list" where
  "compute_current_value mid_for pos_quantity mul allow_partial legs =
     rbind (rmap (mark_leg mid_for pos_quantity mul) legs) (\<lambda>ms.
       Inr (if list_all (\<lambda>m. m = NotPriceable) ms then None
            else if failed_legs ms \<noteq> [] \<and> \<not> allow_partial then None
            else Some (foldl fadd (Fin 0) (leg_values ms)), failed_legs ms))"

definition finalize_mark :: "pyval \<Rightarrow> pyval \<Rightarrow> pynum \<Rightarrow> pynum \<Rightarrow> pyexn + pynum \<times> pynum" where
  "finalize_mark quantity avg_entry_price current_value mul =
     rbind (py_float (py_or quantity (PInt 0))) (\<lambda>qty.
       let q = fabs qty
       in if num_eq q (Fin 0) then Inr (Fin 0, Fin 0)
          else rbind (py_float (py_or avg_entry_price (PInt 0))) (\<lambda>avg.
            let entry = fmul (fmul avg q) mul;
                unrealized = (if flt qty (Fin 0) then fsub entry (fabs current_value) else fsub current_value entry)
            in rbind (if flt (Fin 0) q then fdiv current_value (fmul q mul) else Inr (Fin 0)) (\<lambda>mark.
                 Inr (mark, unrealized))))"

subsection \<open>The structural clamp\<close>

definition opt_num :: "pyval \<Rightarrow> pynum option" where
  "opt_num v = (case py_float v of Inl _ \<Rightarrow> None | Inr x \<Rightarrow> Some x)"

definition clamp_type :: "pydict \<Rightarrow> string" where
  "clamp_type d =
     (case map_option str_lower (py_text (py_or (dget d ''type'') (py_or (dget d ''option_type'') (PStr [])))) of
        Some t \<Rightarrow> if t = ''c'' \<or> t = ''call'' then ''call'' else if t = ''p'' \<or> t = ''put'' then ''put'' else ''?''
      | None \<Rightarrow> ''?'')"

definition typed_strikes :: "pyval list \<Rightarrow> (string \<times> pynum) list" where
  "typed_strikes legs =
     List.map_filter (\<lambda>v. case as_dict v of
         None \<Rightarrow> None
       | Some d \<Rightarrow> map_option (\<lambda>k. (clamp_type d, k)) (opt_num (dget d ''strike''))) legs"

text \<open>The width of a group: the largest strike minus the smallest, when two of them differ.\<close>

definition group_width :: "pynum list \<Rightarrow> pynum option" where
  "group_width ks =
     (case ks of
        [] \<Rightarrow> None
      | k # rest \<Rightarrow>
          (let hi = foldl fmax k rest; lo = foldl fmin k rest
           in if list_ex (\<lambda>x. \<not> num_eq x k) rest then Some (fsub hi lo) else None))"

definition structure_wing_width :: "pyval \<Rightarrow> pynum option" where
  "structure_wing_width v =
     (case v of
        PList legs \<Rightarrow>
          (let ts = typed_strikes legs;
               widths = List.map_filter (\<lambda>ty. group_width (map snd (filter (\<lambda>x. fst x = ty) ts))) (remdups (map fst ts))
           in case widths of [] \<Rightarrow> None | w # ws \<Rightarrow> Some (foldl fmax w ws))
      | _ \<Rightarrow> None)"

datatype clamp_reason = ClampOk | NotDefinedRisk | Unvalidatable | MarkExceedsWing | LossExceedsMax

definition clamp_slack :: pynum where "clamp_slack = Fin (102/100)"

definition validate_structure_mark :: "pydict \<Rightarrow> bool \<times> clamp_reason" where
  "validate_structure_mark p =
     (case structure_wing_width (py_or (dget p ''legs'') (PList [])) of
        None \<Rightarrow> (True, NotDefinedRisk)
      | Some wing \<Rightarrow>
          if fle wing (Fin 0) then (True, NotDefinedRisk)
          else (case (opt_num (dget p ''current_mark''), opt_num (dget p ''quantity''), opt_num (dget p ''avg_entry_price'')) of
              (Some mark, Some qty, Some entry) \<Rightarrow>
                (let max_pc = (if flt qty (Fin 0) then fsub wing (fabs entry) else fabs entry)
                 in if fle max_pc (Fin 0) then (True, Unvalidatable)
                    else
                      (let max_loss = fmul (fmul max_pc (fabs qty)) (Fin 100)
                       in if flt (fmul wing clamp_slack) (fabs mark) then (False, MarkExceedsWing)
                          else (case opt_num (dget p ''unrealized_pl'') of
                              None \<Rightarrow> (True, ClampOk)
                            | Some upl \<Rightarrow>
                                if flt upl (Fin 0) \<and> flt (fmul max_loss clamp_slack) (fneg upl)
                                then (False, LossExceedsMax) else (True, ClampOk))))
            | _ \<Rightarrow> (True, Unvalidatable)))"

subsection \<open>The payoff bound of a debit vertical\<close>

record bound_result =
  br_applicable :: bool
  br_in_bounds :: bool
  br_clamped :: pynum
  br_max_loss :: "pynum option"
  br_max_profit :: "pynum option"

text \<open>Iterating a field that may be any value: text and dictionaries give their items.\<close>

definition iter_items :: "pyval \<Rightarrow> pyexn + pyval list" where
  "iter_items v =
     (if \<not> truthy v then Inr []
      else (case v of PList xs \<Rightarrow> Inr xs | PStr s \<Rightarrow> Inr (map (\<lambda>c. PStr [c]) s)
            | PDict d \<Rightarrow> Inr (map (\<lambda>kv. PStr (fst kv)) d) | _ \<Rightarrow> Inl TypeError))"

definition leg_action_text :: "pydict \<Rightarrow> string option" where
  "leg_action_text d = map_option str_lower (py_text (dget_default d ''action'' (PStr [])))"

definition debit_vertical_strikes :: "pyval list \<Rightarrow> (pynum \<times> pynum) option" where
  "debit_vertical_strikes legs =
     (case List.map_filter as_dict legs of
        [a, b] \<Rightarrow>
          if (leg_action_text a = Some ''buy'' \<and> leg_action_text b = Some ''sell'')
             \<or> (leg_action_text a = Some ''sell'' \<and> leg_action_text b = Some ''buy'')
          then (case (opt_num (dget a ''strike''), opt_num (dget b ''strike'')) of
                  (Some x, Some y) \<Rightarrow> Some (x, y) | _ \<Rightarrow> None)
          else None
      | _ \<Rightarrow> None)"

definition not_applicable :: "pynum \<Rightarrow> bound_result" where
  "not_applicable upl = \<lparr>br_applicable = False, br_in_bounds = True, br_clamped = upl, br_max_loss = None, br_max_profit = None\<rparr>"

definition bounded_by :: "pynum \<Rightarrow> pynum \<Rightarrow> pynum \<Rightarrow> bound_result" where
  "bounded_by lo hi upl =
     \<lparr>br_applicable = True, br_in_bounds = \<not> flt upl lo \<and> \<not> flt hi upl,
      br_clamped = (if flt upl lo then lo else if flt hi upl then hi else upl),
      br_max_loss = Some lo, br_max_profit = Some hi\<rparr>"

definition evaluate_payoff_bound :: "pydict \<Rightarrow> pynum \<Rightarrow> pyexn + bound_result" where
  "evaluate_payoff_bound p upl =
     (case py_float (py_or (dget p ''quantity'') (PInt 0)) of
        Inl _ \<Rightarrow> Inr (not_applicable upl)
      | Inr qty \<Rightarrow>
          if fle qty (Fin 0) then Inr (not_applicable upl)
          else rbind (iter_items (dget p ''legs'')) (\<lambda>legs.
            case debit_vertical_strikes legs of
              None \<Rightarrow> Inr (not_applicable upl)
            | Some (a, b) \<Rightarrow>
                (let width = fabs (fsub a b)
                 in if fle width (Fin 0) then Inr (not_applicable upl)
                    else (case py_float (py_or (dget p ''avg_entry_price'') (PInt 0)) of
                        Inl _ \<Rightarrow> Inr (not_applicable upl)
                      | Inr avg \<Rightarrow>
                          (let n = fabs qty; entry = fmul (fmul avg n) (Fin 100)
                           in if fle entry (Fin 0) then Inr (not_applicable upl)
                              else Inr (bounded_by (fneg entry) (fsub (fmul (fmul width n) (Fin 100)) entry) upl))))))"

subsection \<open>Leg counts\<close>

text \<open>\<open>abs(int(round(float(v))))\<close>: an infinity cannot be rounded, and that error is not caught.\<close>

definition abs_int :: "pyval \<Rightarrow> pyexn + int" where
  "abs_int v = (case py_float v of
       Inl _ \<Rightarrow> Inr 0
     | Inr (Fin x) \<Rightarrow> Inr \<bar>round_half_even x\<bar>
     | Inr NaN \<Rightarrow> Inr 0
     | Inr _ \<Rightarrow> Inl OverflowError)"

record count_violation =
  cv_symbol :: pyval
  cv_stored :: pyval
  cv_expected :: int

definition coerce_leg :: "int \<Rightarrow> pyval \<Rightarrow> pyexn + pyval \<times> count_violation option" where
  "coerce_leg full v =
     (case as_dict v of
        None \<Rightarrow> Inr (v, None)
      | Some d \<Rightarrow>
          rbind (abs_int (dget d ''quantity'')) (\<lambda>n.
            if n \<noteq> full
            then Inr (PDict (dset d ''quantity'' (PInt full)),
                      Some \<lparr>cv_symbol = py_or (dget d ''symbol'') (dget d ''occ_symbol''),
                            cv_stored = dget d ''quantity'', cv_expected = full\<rparr>)
            else Inr (v, None)))"

definition coerce_legs_to_full_count :: "pyval list \<Rightarrow> pyval \<Rightarrow> pyexn + pyval list \<times> count_violation list" where
  "coerce_legs_to_full_count legs pos_quantity =
     rbind (abs_int pos_quantity) (\<lambda>full.
       if full \<le> 0 then Inr (legs, [])
       else rbind (rmap (coerce_leg full) legs) (\<lambda>rs. Inr (map fst rs, List.map_filter snd rs)))"

end
