(* ===== verification/Marks_Correct.thy ===== *)
theory Marks_Correct
  imports Marks
begin

section \<open>What a mark and its guards guarantee\<close>

text \<open>
  The value of a structure counts every contract once and is all or nothing; the two guards never
  touch a profit that the structure can have; the coercion of leg counts gives the convention that
  the value relies on.
\<close>

subsection \<open>Values\<close>

text \<open>A leg with a full contract count and a positive mid; x is its signed price.\<close>

definition priced_leg :: "(pyval \<Rightarrow> pynum option) \<Rightarrow> int \<Rightarrow> pyval \<Rightarrow> rat \<Rightarrow> bool" where
  "priced_leg mid_for n v x \<longleftrightarrow> (\<exists>d m. v = PDict d \<and> truthy (leg_occ d) \<and> mid_for (leg_occ d) = Some (Fin m) \<and> 0 < m
     \<and> dget d ''quantity'' = PInt n \<and> x = leg_side_mult d * m)"

lemma priced_leg_marks:
  assumes "priced_leg mid_for n v x" and "n \<noteq> 0"
  shows "mark_leg mid_for q (Fin c) v = Inr (LegValue (Fin (c * of_int \<bar>n\<bar> * x)))"
  using assms by (auto simp: priced_leg_def mark_leg_def)

lemma priced_legs_value:
  assumes "list_all2 (priced_leg mid_for n) legs xs" and "n \<noteq> 0"
  shows "rmap (mark_leg mid_for q (Fin c)) legs = Inr (map (\<lambda>x. LegValue (Fin (c * of_int \<bar>n\<bar> * x))) xs)"
  using assms(1) by (induction rule: list_all2_induct) (simp_all add: priced_leg_marks [OF _ assms(2)])

lemma foldl_fadd_Fin: "foldl fadd (Fin a) (map (\<lambda>x. Fin (c * x)) xs) = Fin (a + c * sum_list xs)"
  by (induction xs arbitrary: a) (simp_all add: algebra_simps)

lemma leg_values_map: "leg_values (map (\<lambda>x. LegValue (f x)) xs) = map f xs"
  by (induction xs) (simp_all add: leg_values_def List.map_filter_simps)

lemma failed_legs_map: "failed_legs (map (\<lambda>x. LegValue (f x)) xs) = []"
  by (induction xs) (simp_all add: failed_legs_def List.map_filter_simps)

lemma priced_current_value:
  assumes legs: "list_all2 (priced_leg mid_for \<bar>n\<bar>) legs xs" and "legs \<noteq> []" and n: "n \<noteq> 0"
  shows "compute_current_value mid_for (PInt q) (Fin 100) partial_ok legs = Inr (Some (Fin (100 * of_int \<bar>n\<bar> * sum_list xs)), [])"
proof -
  have "xs \<noteq> []" using assms(1,2) by auto
  then show ?thesis
    using n by (simp add: compute_current_value_def priced_legs_value [OF legs] failed_legs_map leg_values_map
        foldl_fadd_Fin [where a = 0, simplified] list_all_iff)
qed

lemma finalized_mark:
  assumes n: "n \<noteq> 0"
  shows "finalize_mark (PInt n) (PFloat (Fin e)) (Fin (100 * of_int \<bar>n\<bar> * x)) (Fin 100) =
        Inr (Fin x, Fin (if 0 < n then 100 * of_int n * (x - e) else 100 * of_int \<bar>n\<bar> * (e - \<bar>x\<bar>)))"
proof -
  have e: "py_float (py_or (PFloat (Fin e)) (PInt 0)) = Inr (Fin e)" by (cases "e = 0") (simp_all add: num_truthy_def py_or_def)
  show ?thesis using n by (auto simp: finalize_mark_def e Let_def abs_mult algebra_simps)
qed

text \<open>
  On legs with the full contract count and a price each, the value of a position
  of n contracts is 100 times n times the signed sum of the leg prices, its mark per contract is
  that sum, and the profit is scaled once: value minus entry cost for a debit, entry credit minus
  the cost of buying back for a credit.
\<close>

theorem mark_scaled_once:
  assumes legs: "list_all2 (priced_leg mid_for \<bar>n\<bar>) legs xs" and "legs \<noteq> []" and n: "n \<noteq> 0"
  shows "compute_current_value mid_for (PInt n) (Fin 100) False legs = Inr (Some (Fin (100 * of_int \<bar>n\<bar> * sum_list xs)), [])
    \<and> finalize_mark (PInt n) (PFloat (Fin e)) (Fin (100 * of_int \<bar>n\<bar> * sum_list xs)) (Fin 100) =
        Inr (Fin (sum_list xs),
             Fin (if 0 < n then 100 * of_int n * (sum_list xs - e) else 100 * of_int \<bar>n\<bar> * (e - \<bar>sum_list xs\<bar>)))"
  using priced_current_value [OF assms] finalized_mark [OF n] by simp

text \<open>
  The value is all or nothing: it is reported only when every leg that names a
  contract has a mid that is not below or at zero, so a missing quote never drops a leg silently.
\<close>

theorem value_all_or_nothing:
  assumes "compute_current_value mid_for q c False legs = Inr (Some v, fs)"
  shows "fs = [] \<and> (\<forall>d. PDict d \<in> set legs \<longrightarrow> truthy (leg_occ d) \<longrightarrow>
    (\<exists>m. mid_for (leg_occ d) = Some m \<and> \<not> fle m (Fin 0)))"
proof -
  obtain ms where ms: "rmap (mark_leg mid_for q c) legs = Inr ms" and none: "failed_legs ms = []" and fs: "fs = failed_legs ms"
    using assms by (auto simp: compute_current_value_def rbind_Inr_iff split: if_splits)
  have "\<exists>m. mid_for (leg_occ d) = Some m \<and> \<not> fle m (Fin 0)" if d: "PDict d \<in> set legs" and occ: "truthy (leg_occ d)" for d
  proof (rule ccontr)
    assume no: "\<nexists>m. mid_for (leg_occ d) = Some m \<and> \<not> fle m (Fin 0)"
    have "mark_leg mid_for q c (PDict d) = Inr (FailedLeg (leg_occ d))"
      using occ no by (auto simp: mark_leg_def split: option.splits)
    moreover obtain y where "y \<in> set ms" "mark_leg mid_for q c (PDict d) = Inr y" using rmap_Inr_preD [OF ms d] by blast
    ultimately have "leg_occ d \<in> set (failed_legs ms)" by (auto simp: failed_legs_def set_map_filter intro!: bexI)
    then show False using none by simp
  qed
  then show ?thesis using none fs by simp
qed

subsection \<open>The structural clamp\<close>

text \<open>Verticals and iron condors, as (type, strike, sign) per contract; s is the direction.\<close>

type_synonym spread_leg = "option_type \<times> rat \<times> rat"

definition spread_value :: "spread_leg list \<Rightarrow> rat \<Rightarrow> rat" where
  "spread_value ls x = (\<Sum>(ty, k, s)\<leftarrow>ls. s * payoff ty k x)"

inductive spread_shape :: "rat \<Rightarrow> rat \<Rightarrow> spread_leg list \<Rightarrow> bool" where
  call_vertical: "lo < hi \<Longrightarrow> spread_shape s (hi - lo) [(CALL, lo, s), (CALL, hi, - s)]"
| put_vertical: "lo < hi \<Longrightarrow> spread_shape s (hi - lo) [(PUT, lo, - s), (PUT, hi, s)]"
| condor: "k1 < k2 \<Longrightarrow> k2 \<le> k3 \<Longrightarrow> k3 < k4 \<Longrightarrow>
    spread_shape s (max (k2 - k1) (k4 - k3)) [(PUT, k1, - s), (PUT, k2, s), (CALL, k3, s), (CALL, k4, - s)]"

lemma spread_value_bounds:
  assumes "spread_shape s w ls" and "s = 1 \<or> s = - 1"
  shows "0 \<le> s * spread_value ls x" and "s * spread_value ls x \<le> w"
  using assms by (induction rule: spread_shape.induct) (auto simp: spread_value_def payoff_def max_def)

text \<open>A row's leg has the type and the strike of a leg of the structure.\<close>

definition shows_leg :: "pyval \<Rightarrow> spread_leg \<Rightarrow> bool" where
  "shows_leg v l \<longleftrightarrow> (case l of (ty, k, s) \<Rightarrow>
     \<exists>d. v = PDict d \<and> clamp_type d = (if ty = CALL then ''call'' else ''put'') \<and> opt_num (dget d ''strike'') = Some (Fin k))"

lemma typed_strikes_shown:
  assumes "list_all2 shows_leg legs ls"
  shows "typed_strikes legs = map (\<lambda>(ty, k, s). (if ty = CALL then ''call'' else ''put'', Fin k)) ls"
  using assms
  by (induction rule: list_all2_induct) (auto simp: typed_strikes_def shows_leg_def List.map_filter_simps)

lemma wing_width_shown:
  assumes "spread_shape s w ls" and "list_all2 shows_leg legs ls"
  shows "structure_wing_width (PList legs) = Some (Fin w)"
  using assms(1) typed_strikes_shown [OF assms(2)]
  by (induction rule: spread_shape.induct)
    (auto simp: structure_wing_width_def group_width_def List.map_filter_simps Let_def max_def min_def)

text \<open>
  The clamp never suppresses a real exit: for a vertical or an iron condor, bought for a
  debit or sold for a credit within its wing, the mark and the profit the structure has at any
  price of the underlying pass it.
\<close>

theorem clamp_passes_attainable_marks:
  assumes shape: "spread_shape s w ls" and legs: "dget p ''legs'' = PList legs" "list_all2 shows_leg legs ls"
    and s: "s = 1 \<or> s = - 1" and n: "dget p ''quantity'' = PInt n" "sgn n = (if s = 1 then 1 else - 1)"
    and e: "dget p ''avg_entry_price'' = PFloat (Fin e)" "0 < e" "s = - 1 \<longrightarrow> e < w"
    and mark: "dget p ''current_mark'' = PFloat (Fin (spread_value ls x))"
    and upl: "dget p ''unrealized_pl'' = PFloat (Fin (100 * of_int \<bar>n\<bar> * (spread_value ls x - s * e)))"
  shows "validate_structure_mark p = (True, ClampOk)"
proof -
  define v where "v = spread_value ls x"
  have v: "0 \<le> s * v" "s * v \<le> w" using spread_value_bounds [OF shape s] by (simp_all add: v_def)
  have "legs \<noteq> []" using legs(2) shape by (auto elim: spread_shape.cases)
  then have wing: "structure_wing_width (py_or (dget p ''legs'') (PList [])) = Some (Fin w)"
    using wing_width_shown [OF shape legs(2)] by (simp add: legs(1))
  have w: "0 < w" using shape by (induction rule: spread_shape.induct) auto
  have absn: "0 < (of_int \<bar>n\<bar> :: rat)" using n(2) s by (auto split: if_splits)
  define N where "N = (of_int \<bar>n\<bar> :: rat)"
  have N: "0 < N" and Nn: "\<bar>of_int n\<bar> = N" using absn by (simp_all add: N_def)
  show ?thesis
  proof (cases "s = 1")
    case True
    then have pos: "0 < n" using n(2) by (simp add: sgn_if split: if_splits)
    have nN: "of_int n = N" using pos by (simp add: N_def)
    have "- (100 * N * (v - e)) \<le> e * N * 100" using v(1) True N by (simp add: algebra_simps)
    moreover have "e * N * 100 \<le> e * N * 100 * (102/100)" using e(2) N by simp
    ultimately have ok: "- (100 * N * (v - e)) \<le> e * N * 100 * (102/100)" by linarith
    have m: "\<bar>v\<bar> \<le> w * (102/100)" using v True w by simp
    show ?thesis
      using pos e(2) w ok m True N by (simp add: validate_structure_mark_def wing n(1) e(1) mark upl opt_num_def
          v_def [symmetric] N_def [symmetric] Nn nN clamp_slack_def Let_def not_less)
  next
    case False
    then have sm: "s = - 1" using s by simp
    then have neg: "n < 0" using n(2) by (simp add: sgn_if split: if_splits)
    have nN: "of_int n = - N" using neg by (simp add: N_def)
    have ew: "e < w" using e(3) sm by simp
    have "- (v + e) \<le> w - e" using v sm by simp
    then have "100 * N * (- (v + e)) \<le> 100 * N * (w - e)" using N by (intro mult_left_mono) simp_all
    moreover have "(w - e) * N * 100 \<le> (w - e) * N * 100 * (102/100)" using ew N by simp
    ultimately have ok: "- (100 * N * (v + e)) \<le> (w - e) * N * 100 * (102/100)" by (simp add: algebra_simps)
    have m: "\<bar>v\<bar> \<le> w * (102/100)" using v sm w by simp
    show ?thesis
      using neg e(2) w ew ok m sm N by (simp add: validate_structure_mark_def wing n(1) e(1) mark upl opt_num_def
          v_def [symmetric] N_def [symmetric] Nn nN clamp_slack_def Let_def not_less)
  qed
qed

subsection \<open>The payoff bound\<close>

definition num_between :: "pynum \<Rightarrow> pynum option \<Rightarrow> pynum option \<Rightarrow> bool" where
  "num_between x lo hi = (case (x, lo, hi) of (Fin a, Some (Fin l), Some (Fin h)) \<Rightarrow> l \<le> a \<and> a \<le> h | _ \<Rightarrow> False)"

lemma bounded_by_between: "l \<le> h \<Longrightarrow> num_between (br_clamped (bounded_by (Fin l) (Fin h) (Fin u))) (Some (Fin l)) (Some (Fin h))"
  by (simp add: bounded_by_def num_between_def not_less)

text \<open>A row that is a long vertical: one bought and one sold leg with the given strikes.\<close>

definition long_vertical_row :: "pydict \<Rightarrow> int \<Rightarrow> rat \<Rightarrow> rat \<Rightarrow> rat \<Rightarrow> bool" where
  "long_vertical_row p n e bought sold \<longleftrightarrow>
     dget p ''quantity'' = PInt n \<and> 0 < n \<and> dget p ''avg_entry_price'' = PFloat (Fin e) \<and> 0 < e \<and>
     (\<exists>a b. dget p ''legs'' = PList [PDict a, PDict b]
       \<and> (leg_action_text a = Some ''buy'' \<and> opt_num (dget a ''strike'') = Some (Fin bought)
          \<and> leg_action_text b = Some ''sell'' \<and> opt_num (dget b ''strike'') = Some (Fin sold)
        \<or> leg_action_text a = Some ''sell'' \<and> opt_num (dget a ''strike'') = Some (Fin sold)
          \<and> leg_action_text b = Some ''buy'' \<and> opt_num (dget b ''strike'') = Some (Fin bought)))"

lemma payoff_bound_vertical:
  assumes "long_vertical_row p n e k1 k2" and "k1 \<noteq> k2"
  shows "evaluate_payoff_bound p upl =
    Inr (bounded_by (Fin (- (100 * of_int n * e))) (Fin (100 * of_int n * (\<bar>k1 - k2\<bar> - e))) upl)"
proof -
  obtain a b where row: "dget p ''quantity'' = PInt n" "0 < n" "dget p ''avg_entry_price'' = PFloat (Fin e)" "0 < e"
      "dget p ''legs'' = PList [PDict a, PDict b]"
    and strikes: "debit_vertical_strikes [PDict a, PDict b] = Some (Fin k1, Fin k2)
      \<or> debit_vertical_strikes [PDict a, PDict b] = Some (Fin k2, Fin k1)"
    using assms(1) by (auto simp: long_vertical_row_def debit_vertical_strikes_def List.map_filter_simps)
  have it: "iter_items (PList [PDict a, PDict b]) = Inr [PDict a, PDict b]" by (simp add: iter_items_def)
  have w: "0 < \<bar>k1 - k2\<bar>" "0 < \<bar>k2 - k1\<bar>" and sym: "\<bar>k2 - k1\<bar> = \<bar>k1 - k2\<bar>" using assms(2) by simp_all
  have entry: "\<not> e * of_int n \<le> 0" using row(2,4) by (simp add: not_le)
  from strikes show ?thesis
  proof
    assume "debit_vertical_strikes [PDict a, PDict b] = Some (Fin k1, Fin k2)"
    then show ?thesis using row w entry
      by (simp add: evaluate_payoff_bound_def it Let_def num_truthy_def py_or_def algebra_simps)
  next
    assume "debit_vertical_strikes [PDict a, PDict b] = Some (Fin k2, Fin k1)"
    then show ?thesis using row w entry sym
      by (simp add: evaluate_payoff_bound_def it Let_def num_truthy_def py_or_def algebra_simps)
  qed
qed

text \<open>
  On a long vertical the guard's bounds are the entry cost and the width less the entry
  cost over all contracts. A vertical that is a debit by its strikes has a profit within them at
  every price, and the guard returns it unchanged; any other finite profit is moved to a
  value within them.
\<close>

theorem payoff_bound_sound:
  assumes row: "long_vertical_row p n e k1 k2" and debit: "if ty = CALL then k1 < k2 else k2 < k1" and e: "e \<le> \<bar>k1 - k2\<bar>"
  shows "\<exists>r. evaluate_payoff_bound p (Fin u) = Inr r \<and> br_applicable r
      \<and> num_between (br_clamped r) (Some (Fin (- (100 * of_int n * e)))) (Some (Fin (100 * of_int n * (\<bar>k1 - k2\<bar> - e))))
      \<and> (u = 100 * of_int n * (payoff ty k1 x - payoff ty k2 x - e) \<longrightarrow> br_in_bounds r \<and> br_clamped r = Fin u)"
proof -
  have ne: "k1 \<noteq> k2" using debit by (auto split: if_splits)
  have n: "0 < (of_int n :: rat)" and e0: "0 < e" using row by (auto simp: long_vertical_row_def)
  let ?l = "- (100 * of_int n * e)" and ?h = "100 * of_int n * (\<bar>k1 - k2\<bar> - e)"
  have "?l \<le> 0" "0 \<le> ?h" using n e0 e by simp_all
  then have lh: "?l \<le> ?h" by linarith
  have "0 \<le> payoff ty k1 x - payoff ty k2 x" "payoff ty k1 x - payoff ty k2 x \<le> \<bar>k1 - k2\<bar>"
    using debit by (cases ty; auto simp: payoff_def max_def)+
  then have "100 * of_int n * (- e) \<le> 100 * of_int n * (payoff ty k1 x - payoff ty k2 x - e)"
    and "100 * of_int n * (payoff ty k1 x - payoff ty k2 x - e) \<le> ?h"
    using n by (intro mult_left_mono; simp)+
  then have "u = 100 * of_int n * (payoff ty k1 x - payoff ty k2 x - e) \<longrightarrow> ?l \<le> u \<and> u \<le> ?h" by simp
  then show ?thesis using payoff_bound_vertical [OF row ne, of "Fin u"] bounded_by_between [OF lh]
    by (auto simp: bounded_by_def)
qed

subsection \<open>Leg counts\<close>

lemma coerce_leg_again:
  assumes "coerce_leg full v = Inr (v', viol)" and "0 < full"
  shows "coerce_leg full v' = Inr (v', None)"
  using assms by (cases "as_dict v") (auto simp: coerce_leg_def rbind_Inr_iff abs_int_def split: if_splits)

lemma rmap_fixed:
  assumes "rmap f xs = Inr ys" and "\<And>x y. f x = Inr y \<Longrightarrow> g (h y) = Inr (h y, None)"
  shows "rmap g (map h ys) = Inr (map (\<lambda>y. (h y, None)) ys)"
  using assms(1)
proof (induction xs arbitrary: ys)
  case (Cons x xs)
  then obtain y ys' where "f x = Inr y" "rmap f xs = Inr ys'" "ys = y # ys'" by (auto simp: rbind_Inr_iff)
  then show ?case using Cons.IH [of ys'] assms(2) [of x y] by simp
qed simp

lemma map_filter_None: "List.map_filter (\<lambda>x. None) xs = []"
  by (induction xs) (simp_all add: List.map_filter_simps)

text \<open>
  After the coercion every leg holds the position's contract count and the canonical
  model's ratio is one; coercing again changes nothing and reports nothing, and nothing is changed
  when nothing was reported.
\<close>

theorem coerced_legs_full_count:
  assumes "coerce_legs_to_full_count legs (PInt n) = Inr (legs', vs)" and "n \<noteq> 0"
  shows "length legs' = length legs \<and> (vs = [] \<longrightarrow> legs' = legs)
    \<and> (\<forall>d. PDict d \<in> set legs' \<longrightarrow> abs_int (dget d ''quantity'') = Inr \<bar>n\<bar>)
    \<and> full_count_ratio \<bar>n\<bar> \<bar>n\<bar> = Some 1
    \<and> coerce_legs_to_full_count legs' (PInt n) = Inr (legs', [])"
proof -
  have full: "abs_int (PInt n) = Inr \<bar>n\<bar>" by (simp add: abs_int_def)
  obtain rs where rs: "rmap (coerce_leg \<bar>n\<bar>) legs = Inr rs" and out: "legs' = map fst rs" "vs = List.map_filter snd rs"
    using assms by (auto simp: coerce_legs_to_full_count_def full rbind_Inr_iff)
  have again: "rmap (coerce_leg \<bar>n\<bar>) (map fst rs) = Inr (map (\<lambda>r. (fst r, None)) rs)"
    by (rule rmap_fixed [OF rs]) (use assms(2) in \<open>metis coerce_leg_again prod.collapse zero_less_abs_iff\<close>)
  have same: "fst r = v" if "coerce_leg \<bar>n\<bar> v = Inr r" "snd r = None" for v r
    using that by (cases "as_dict v") (auto simp: coerce_leg_def rbind_Inr_iff split: if_splits)
  have "vs = [] \<Longrightarrow> map fst rs = legs"
    using rs out(2)
  proof (induction legs arbitrary: rs vs)
    case (Cons v legs)
    obtain r rs' where r: "coerce_leg \<bar>n\<bar> v = Inr r" and rs': "rmap (coerce_leg \<bar>n\<bar>) legs = Inr rs'" and "rs = r # rs'"
      using Cons.prems(2) by (auto simp: rbind_Inr_iff)
    then have "snd r = None" and "List.map_filter snd rs' = []"
      using Cons.prems(1,3) by (auto simp: List.map_filter_simps split: option.splits)
    then show ?case using Cons.IH [OF _ rs', of "[]"] same [OF r] \<open>rs = r # rs'\<close> by simp
  qed simp
  moreover have "abs_int (dget d ''quantity'') = Inr \<bar>n\<bar>" if "PDict d \<in> set legs'" for d
  proof -
    obtain r where "r \<in> set rs" "fst r = PDict d" using \<open>PDict d \<in> set legs'\<close> out(1) by auto
    then obtain v where "coerce_leg \<bar>n\<bar> v = Inr r" using rmap_Inr_setD [OF rs] by blast
    then have "coerce_leg \<bar>n\<bar> v = Inr (PDict d, snd r)" using \<open>fst r = PDict d\<close> by (metis prod.collapse)
    from coerce_leg_again [OF this] have "coerce_leg \<bar>n\<bar> (PDict d) = Inr (PDict d, None)" using assms(2) by simp
    then show ?thesis by (auto simp: coerce_leg_def rbind_Inr_iff split: if_splits)
  qed
  moreover have "coerce_legs_to_full_count legs' (PInt n) = Inr (legs', [])"
    using again assms(2) by (simp add: coerce_legs_to_full_count_def full out(1) comp_def List.map_filter_def)
  moreover have "full_count_ratio \<bar>n\<bar> \<bar>n\<bar> = Some 1" using assms(2) by (simp add: full_count_ratio_def)
  ultimately show ?thesis using rmap_Inr_length [OF rs] out(1) by simp
qed

subsection \<open>Concrete rows\<close>

definition leg_dict :: "string \<Rightarrow> string \<Rightarrow> rat \<Rightarrow> int \<Rightarrow> pydict" where
  "leg_dict ty action k n = [(''occ_symbol'', PStr (ty @ action)), (''type'', PStr ty), (''action'', PStr action),
     (''strike'', PFloat (Fin k)), (''quantity'', PInt n)]"

definition sample_leg :: "string \<Rightarrow> string \<Rightarrow> rat \<Rightarrow> int \<Rightarrow> pyval" where
  "sample_leg ty action k n = PDict (leg_dict ty action k n)"

definition sample_mid :: "pyval \<Rightarrow> pynum option" where
  "sample_mid occ = (if occ = PStr ''callbuy'' then Some (Fin 3) else if occ = PStr ''callsell'' then Some (Fin (5/4)) else None)"

definition debit_legs :: "pyval list" where
  "debit_legs = [sample_leg ''call'' ''buy'' 100 5, sample_leg ''call'' ''sell'' 105 5]"

definition condor_legs :: "pyval list" where
  "condor_legs = [sample_leg ''put'' ''buy'' 90 2, sample_leg ''put'' ''sell'' 95 2,
     sample_leg ''call'' ''sell'' 105 2, sample_leg ''call'' ''buy'' 110 2]"

lemma leg_dict_occ:
  "leg_occ (leg_dict ''call'' ''buy'' 100 5) = PStr ''callbuy''" "leg_occ (leg_dict ''call'' ''sell'' 105 5) = PStr ''callsell''"
  "leg_side_mult (leg_dict ''call'' ''buy'' 100 5) = 1" "leg_side_mult (leg_dict ''call'' ''sell'' 105 5) = - 1"
  "dget (leg_dict ty action k n) ''quantity'' = PInt n"
  by (code_simp, code_simp, code_simp, code_simp, simp add: leg_dict_def dget_def)

lemma debit_legs_priced: "list_all2 (priced_leg sample_mid \<bar>5\<bar>) debit_legs [3, - (5/4)]"
proof -
  have "priced_leg sample_mid \<bar>5\<bar> (PDict (leg_dict ''call'' ''buy'' 100 5)) 3"
    unfolding priced_leg_def
    by (intro exI [of _ "leg_dict ''call'' ''buy'' 100 5"] exI [of _ 3]) (simp add: leg_dict_occ sample_mid_def)
  moreover have "priced_leg sample_mid \<bar>5\<bar> (PDict (leg_dict ''call'' ''sell'' 105 5)) (- (5/4))"
    unfolding priced_leg_def
    by (intro exI [of _ "leg_dict ''call'' ''sell'' 105 5"] exI [of _ "5/4"]) (simp add: leg_dict_occ sample_mid_def)
  ultimately show ?thesis by (simp add: debit_legs_def sample_leg_def)
qed

theorem mark_scaled_once_witness:
  "finalize_mark (PInt 5) (PFloat (Fin 2)) (Fin 875) (Fin 100) = Inr (Fin (7/4), Fin (- 125))"
  using mark_scaled_once [OF debit_legs_priced, of 2] by (simp add: debit_legs_def)

theorem value_all_or_nothing_witness:
  "\<exists>m. sample_mid (PStr ''callbuy'') = Some m \<and> \<not> fle m (Fin 0)"
proof -
  have "compute_current_value sample_mid (PInt 5) (Fin 100) False debit_legs = Inr (Some (Fin 875), [])" by code_simp
  from conjunct2 [OF value_all_or_nothing [OF this]] show ?thesis
    by (force simp: debit_legs_def sample_leg_def leg_dict_occ)
qed

definition condor_row :: "rat \<Rightarrow> rat \<Rightarrow> pydict" where
  "condor_row mark upl = [(''legs'', PList condor_legs), (''quantity'', PInt (- 2)), (''avg_entry_price'', PFloat (Fin (8/5))),
     (''current_mark'', PFloat (Fin mark)), (''unrealized_pl'', PFloat (Fin upl))]"

definition condor_spread :: "spread_leg list" where
  "condor_spread = [(PUT, 90, 1), (PUT, 95, - 1), (CALL, 105, - 1), (CALL, 110, 1)]"

lemma condor_shape: "spread_shape (- 1) 5 condor_spread"
  using condor [of 90 95 105 110 "- 1"] by (simp add: condor_spread_def)

lemma shows_leg_PDict:
  "shows_leg (PDict d) (ty, k, s) \<longleftrightarrow> clamp_type d = (if ty = CALL then ''call'' else ''put'') \<and> opt_num (dget d ''strike'') = Some (Fin k)"
  by (auto simp: shows_leg_def)

lemma condor_shown: "list_all2 shows_leg condor_legs condor_spread"
proof -
  have "clamp_type (leg_dict ''put'' a k n) = ''put''" "clamp_type (leg_dict ''call'' a k n) = ''call''"
    "opt_num (dget (leg_dict ty a k n) ''strike'') = Some (Fin k)" for ty a k n
    by (simp_all add: leg_dict_def clamp_type_def opt_num_def dget_def str_lower_def char_defs)
  then show ?thesis by (simp add: condor_legs_def condor_spread_def sample_leg_def shows_leg_PDict)
qed

lemma condor_at_the_worst: "spread_value condor_spread 120 = - 5"
  by (simp add: condor_spread_def spread_value_def payoff_def)

theorem clamp_passes_attainable_marks_witness: "validate_structure_mark (condor_row (- 5) (- 680)) = (True, ClampOk)"
  by (rule clamp_passes_attainable_marks [OF condor_shape _ condor_shown, where n = "- 2" and e = "8/5" and x = 120])
    (simp_all add: condor_row_def dget_def condor_at_the_worst)

text \<open>The mark of the incident the clamp was written for is refused.\<close>

lemma impossible_mark_refused: "validate_structure_mark (condor_row (- 7305/1000) (- 5695/10)) = (False, MarkExceedsWing)"
  by code_simp

definition debit_row :: pydict where
  "debit_row = [(''legs'', PList debit_legs), (''quantity'', PInt 5), (''avg_entry_price'', PFloat (Fin 2))]"

lemma debit_row_vertical: "long_vertical_row debit_row 5 2 100 105"
proof -
  have "leg_action_text (leg_dict ''call'' ''buy'' 100 5) = Some ''buy''" "leg_action_text (leg_dict ''call'' ''sell'' 105 5) = Some ''sell''"
    "opt_num (dget (leg_dict ty a k n) ''strike'') = Some (Fin k)" for ty a k n
    by (code_simp, code_simp, simp add: leg_dict_def opt_num_def dget_def)
  then show ?thesis by (simp add: long_vertical_row_def debit_row_def debit_legs_def sample_leg_def dget_def [of "_ # _"])
qed

theorem payoff_bound_sound_witness:
  "\<exists>r. evaluate_payoff_bound debit_row (Fin 500) = Inr r \<and> br_in_bounds r \<and> br_clamped r = Fin 500"
  using payoff_bound_sound [OF debit_row_vertical, where ty = CALL and u = 500 and x = 103] by (force simp: payoff_def)

theorem coerced_legs_full_count_witness:
  "coerce_legs_to_full_count debit_legs (PInt (- 4)) =
     Inr ([sample_leg ''call'' ''buy'' 100 4, sample_leg ''call'' ''sell'' 105 4],
          [\<lparr>cv_symbol = PStr ''callbuy'', cv_stored = PInt 5, cv_expected = 4\<rparr>,
           \<lparr>cv_symbol = PStr ''callsell'', cv_stored = PInt 5, cv_expected = 4\<rparr>])
   \<and> full_count_ratio 4 4 = Some 1"
proof -
  have run: "coerce_legs_to_full_count debit_legs (PInt (- 4)) =
     Inr ([sample_leg ''call'' ''buy'' 100 4, sample_leg ''call'' ''sell'' 105 4],
          [\<lparr>cv_symbol = PStr ''callbuy'', cv_stored = PInt 5, cv_expected = 4\<rparr>,
           \<lparr>cv_symbol = PStr ''callsell'', cv_stored = PInt 5, cv_expected = 4\<rparr>])" by code_simp
  then show ?thesis using coerced_legs_full_count [OF run] by simp
qed

end
