(* ===== verification/Exit_Rules.thy ===== *)
theory Exit_Rules
  imports Broker_Orders Marks Py_Sort
begin

section \<open>When a position is closed\<close>

text \<open>
  Model of the decisions of \<open>services/paper_exit_evaluator.py\<close>: the exit conditions, the first one
  that triggers, the ranking of the triggered exits and, with \<open>services/pdt_guard_service.py\<close>, the
  limit on day trades; \<open>evaluate_exits\<close> composes them with the structural clamp of theory \<open>Marks\<close>.

  The environment holds today's date, the settings read when the module is loaded, the ISO date
  reader and the square root of the library. Refreshing the marks, their corroboration by the
  quotes, the cohorts' thresholds and the close itself are arguments of \<open>evaluate_exits\<close>. The
  debug lines, the shadow geometry log and the text of the alerts are left out.
\<close>

subsection \<open>Dates\<close>

definition days_before_year :: "nat \<Rightarrow> nat" where
  "days_before_year y = (let z = y - 1 in 365 * z + z div 4 - z div 100 + z div 400)"

definition to_ordinal :: "pydate \<Rightarrow> int" where
  "to_ordinal d = int (days_before_year (d_year d) + (\<Sum>m\<leftarrow>[1..<d_month d]. days_in_month (d_year d) m) + d_day d)"

text \<open>Monday is 0.\<close>

definition weekday :: "int \<Rightarrow> int" where
  "weekday n = (n + 6) mod 7"

record exit_env =
  xe_today :: pydate
  xe_iso :: "string \<Rightarrow> pydate option"
  xe_root :: "rat \<Rightarrow> rat"
  xe_scaling :: bool
  xe_floor :: pynum
  xe_tp :: pynum
  xe_sl :: pynum
  xe_min_dte :: int

definition leg_expiry :: "exit_env \<Rightarrow> pyval \<Rightarrow> pydate option" where
  "leg_expiry env v =
     (case as_dict v of
        None \<Rightarrow> None
      | Some d \<Rightarrow>
          (let e = py_or (dget d ''expiry'') (dget d ''expiration'')
           in if truthy e then (case py_text e of Some t \<Rightarrow> xe_iso env (take 10 t) | None \<Rightarrow> None) else None))"

definition nearest_expiry :: "exit_env \<Rightarrow> pydict \<Rightarrow> pydate option" where
  "nearest_expiry env pos =
     (case dget pos ''nearest_expiry'' of PStr s \<Rightarrow> if s = [] then None else xe_iso env (take 10 s) | _ \<Rightarrow> None)"

definition days_to_expiry :: "exit_env \<Rightarrow> pydict \<Rightarrow> pyexn + int" where
  "days_to_expiry env pos =
     (case nearest_expiry env pos of
        Some d \<Rightarrow> Inr (to_ordinal d - to_ordinal (xe_today env))
      | None \<Rightarrow>
          rbind (iter_items (dget pos ''legs'')) (\<lambda>legs.
            Inr (case map to_ordinal (List.map_filter (leg_expiry env) legs) of
                   [] \<Rightarrow> 999 | n # ns \<Rightarrow> foldl min n ns - to_ordinal (xe_today env))))"

subsection \<open>Conditions\<close>

definition strategy_text :: "pydict \<Rightarrow> pyexn + string" where
  "strategy_text pos =
     (case py_or (dget pos ''strategy_key'') (py_or (dget pos ''strategy'') (PStr [])) of
        PStr s \<Rightarrow> Inr (str_upper s) | _ \<Rightarrow> Inl AttributeError)"

definition is_debit_spread :: "pydict \<Rightarrow> pyexn + bool" where
  "is_debit_spread pos =
     rbind (strategy_text pos) (\<lambda>s.
       if contains ''LONG_'' s \<or> contains ''DEBIT'' s then Inr True
       else rbind (py_float (py_or (dget pos ''quantity'') (PInt 0))) (\<lambda>q. Inr (flt (Fin 0) q)))"

definition is_iron_condor :: "pydict \<Rightarrow> pyexn + bool" where
  "is_iron_condor pos = rbind (strategy_text pos) (\<lambda>s. Inr (contains ''IRON_CONDOR'' s))"

text \<open>An operand of arithmetic: text and containers raise, as does a decimal in a power.\<close>

definition number_operand :: "pyval \<Rightarrow> pyexn + pynum" where
  "number_operand v = (case v of
       PBool b \<Rightarrow> Inr (Fin (if b then 1 else 0)) | PInt n \<Rightarrow> Inr (Fin (of_int n)) | PFloat x \<Rightarrow> Inr x | _ \<Rightarrow> Inl TypeError)"

definition froot :: "exit_env \<Rightarrow> pynum \<Rightarrow> pynum" where
  "froot env x = (case x of Fin q \<Rightarrow> Fin (xe_root env q) | PInf \<Rightarrow> PInf | _ \<Rightarrow> NaN)"

text \<open>The square root of the share of the trade's time that is left; none when it is unknown.\<close>

definition time_root :: "exit_env \<Rightarrow> pydict \<Rightarrow> pyval \<Rightarrow> pyexn + pynum option" where
  "time_root env pos entry_dte =
     rbind (days_to_expiry env pos) (\<lambda>dte.
     rbind (number_operand entry_dte) (\<lambda>e.
       if fle e (Fin 0) \<or> dte \<le> 0 then Inr None
       else rbind (fdiv (Fin (of_int dte)) e) (\<lambda>r. Inr (Some (froot env (fmax r (Fin 0)))))))"

definition time_scaled_target :: "exit_env \<Rightarrow> pydict \<Rightarrow> pynum \<Rightarrow> pyexn + pynum" where
  "time_scaled_target env pos base =
     rbind (time_root env pos (py_or (dget pos ''entry_dte'') (PInt 35))) (\<lambda>root.
       Inr (case root of None \<Rightarrow> base
            | Some s \<Rightarrow> fmax (fmul base (Fin (7/10))) (fmin (Fin (55/100)) (fmul (Fin (1/2)) s))))"

definition time_scaled_stop :: "exit_env \<Rightarrow> pydict \<Rightarrow> pynum \<Rightarrow> pyexn + pynum" where
  "time_scaled_stop env pos base =
     rbind (is_iron_condor pos) (\<lambda>condor.
       if condor then Inr base
       else rbind (time_root env pos (if dget pos ''entry_dte'' = PNone then PInt 35 else dget pos ''entry_dte'')) (\<lambda>root.
         Inr (case root of None \<Rightarrow> base | Some s \<Rightarrow> fmax (xe_floor env) (fmin base (fmul base s)))))"

text \<open>The entry cost of the whole position, from a per-contract basis.\<close>

definition position_cost :: "pydict \<Rightarrow> pynum \<Rightarrow> pyexn + pynum" where
  "position_cost pos basis =
     rbind (py_float (py_or (dget pos ''quantity'') (PInt 1))) (\<lambda>q.
       Inr (fmul (fmul (fabs basis) (Fin 100)) (fabs q)))"

definition unrealized :: "pydict \<Rightarrow> pyexn + pynum" where
  "unrealized pos = py_float (py_or (dget pos ''unrealized_pl'') (PInt 0))"

definition check_target_profit :: "pydict \<Rightarrow> pynum \<Rightarrow> pyexn + bool" where
  "check_target_profit pos tp =
     (if dget pos ''max_credit'' = PNone then Inr False
      else rbind (py_float (dget pos ''max_credit'')) (\<lambda>mc.
        if num_eq mc (Fin 0) then Inr False
        else rbind (unrealized pos) (\<lambda>upl.
             rbind (position_cost pos mc) (\<lambda>cost.
             rbind (is_debit_spread pos) (\<lambda>debit.
               Inr ((debit \<or> flt (Fin 0) mc) \<and> fle (fmul cost tp) upl))))))"

text \<open>The stop without a usable credit: a basis from the entry price, or any confirmed loss.\<close>

definition fallback_stop :: "pydict \<Rightarrow> pynum \<Rightarrow> pyexn + bool" where
  "fallback_stop pos sl =
     rbind (unrealized pos) (\<lambda>upl.
     rbind (py_float (py_or (dget pos ''quantity'') (PInt 1))) (\<lambda>q.
     rbind (py_float (py_or (dget pos ''avg_entry_price'') (PInt 0))) (\<lambda>avg.
       let basis = fmul (fmul (fabs avg) (Fin 100)) (fabs q)
       in if flt (Fin 0) basis
          then rbind (is_debit_spread pos) (\<lambda>debit.
            let eff = (if debit \<and> flt (Fin 1) sl then fmin sl (Fin 1) else sl)
            in Inr (fle upl (fneg (fmul basis eff))))
          else Inr (flt upl (Fin 0)))))"

definition effective_stop :: "exit_env \<Rightarrow> pydict \<Rightarrow> pynum \<Rightarrow> pyexn + pynum" where
  "effective_stop env pos sl =
     (let eff = (if flt (Fin 1) sl then fmin sl (Fin 1) else sl)
      in if xe_scaling env
         then rbind (is_iron_condor pos) (\<lambda>condor. if condor then Inr eff else time_scaled_stop env pos eff)
         else Inr eff)"

definition check_stop_loss :: "exit_env \<Rightarrow> pydict \<Rightarrow> pynum \<Rightarrow> pyexn + bool" where
  "check_stop_loss env pos sl =
     (if dget pos ''max_credit'' = PNone then fallback_stop pos sl
      else rbind (py_float (dget pos ''max_credit'')) (\<lambda>mc.
        if num_eq mc (Fin 0) then fallback_stop pos sl
        else rbind (unrealized pos) (\<lambda>upl.
             rbind (position_cost pos mc) (\<lambda>cost.
             rbind (is_debit_spread pos) (\<lambda>debit.
               if debit
               then rbind (effective_stop env pos sl) (\<lambda>eff. Inr (fle upl (fneg (fmul cost eff))))
               else Inr (flt (Fin 0) mc \<and> fle upl (fneg (fmul cost sl))))))))"

type_synonym exit_condition = "string \<times> (pydict \<Rightarrow> pyexn + bool)"

definition expiry_conditions :: "exit_env \<Rightarrow> int \<Rightarrow> exit_condition list" where
  "expiry_conditions env min_dte =
     [(''dte_threshold'', \<lambda>pos. rbind (days_to_expiry env pos) (\<lambda>d. Inr (0 < d \<and> d \<le> min_dte))),
      (''expiration_day'', \<lambda>pos. rbind (days_to_expiry env pos) (\<lambda>d. Inr (d \<le> 0)))]"

definition default_conditions :: "exit_env \<Rightarrow> exit_condition list" where
  "default_conditions env =
     [(''target_profit'', \<lambda>pos. rbind (time_scaled_target env pos (xe_tp env)) (check_target_profit pos)),
      (''stop_loss'', \<lambda>pos. check_stop_loss env pos (xe_sl env))]
     @ expiry_conditions env (xe_min_dte env)"

definition build_exit_conditions :: "exit_env \<Rightarrow> pynum \<Rightarrow> pynum \<Rightarrow> int \<Rightarrow> exit_condition list" where
  "build_exit_conditions env tp sl min_dte =
     [(''target_profit'', \<lambda>pos. check_target_profit pos tp), (''stop_loss'', \<lambda>pos. check_stop_loss env pos sl)]
     @ expiry_conditions env min_dte"

text \<open>A condition that raises is skipped, and reported when none triggers.\<close>

fun first_triggered :: "exit_condition list \<Rightarrow> pydict \<Rightarrow> string option \<times> string list" where
  "first_triggered [] pos = (None, [])"
| "first_triggered ((name, check) # cs) pos =
     (case check pos of
        Inr b \<Rightarrow> if b then (Some name, []) else first_triggered cs pos
      | Inl e \<Rightarrow> (case first_triggered cs pos of (r, fs) \<Rightarrow> (r, if r = None then name # fs else [])))"

definition evaluate_position_exit :: "exit_env \<Rightarrow> pydict \<Rightarrow> exit_condition list \<Rightarrow> pyexn + string option \<times> string list" where
  "evaluate_position_exit env pos conditions =
     rbind (days_to_expiry env pos) (\<lambda>_.
     rbind (is_debit_spread pos) (\<lambda>_. Inr (first_triggered conditions pos)))"

subsection \<open>Ranking\<close>

record close_item =
  ci_id :: pyval
  ci_symbol :: pyval
  ci_reason :: string
  ci_upl :: pynum
  ci_credit :: pynum
  ci_qty :: pynum
  ci_dte :: int

definition num_or :: "pynum \<Rightarrow> pynum \<Rightarrow> pynum" where
  "num_or x d = (if num_truthy x then x else d)"

definition entry_value :: "close_item \<Rightarrow> pynum" where
  "entry_value c = fmul (fmul (fabs (ci_credit c)) (fabs (num_or (ci_qty c) (Fin 1)))) (Fin 100)"

definition round4 :: "pynum \<Rightarrow> pynum" where
  "round4 x = (case x of Fin q \<Rightarrow> Fin (of_int (round_half_even (10000 * q)) / 10000) | _ \<Rightarrow> x)"

definition marginal_value :: "close_item \<Rightarrow> pynum" where
  "marginal_value c =
     (let remaining = max (of_int (ci_dte c) / 30) (1/100)
      in case fdiv (ci_upl c) (fmax (fmul (entry_value c) (Fin remaining)) (Fin 1)) of Inr x \<Rightarrow> round4 x | Inl _ \<Rightarrow> NaN)"

datatype exit_class = Emergency | Stop_exit | Dte_exit | Target_exit

definition exit_class_of :: "close_item \<Rightarrow> exit_class" where
  "exit_class_of c =
     (if flt (Fin 0) (entry_value c) \<and> fle (ci_upl c) (fneg (fmul (entry_value c) (Fin (80/100)))) then Emergency
      else if ci_reason c = ''stop_loss'' then Stop_exit
      else if ci_reason c = ''target_profit'' then Target_exit
      else Dte_exit)"

definition class_items :: "exit_class \<Rightarrow> close_item list \<Rightarrow> close_item list" where
  "class_items k cs = filter (\<lambda>c. exit_class_of c = k) cs"

definition rank_triggered_exits :: "close_item list \<Rightarrow> close_item list" where
  "rank_triggered_exits cs =
     sort_by (\<lambda>x y. flt (marginal_value x) (marginal_value y)) (class_items Emergency cs)
     @ sort_by (\<lambda>x y. flt (marginal_value x) (marginal_value y)) (class_items Stop_exit cs)
     @ sort_by (\<lambda>x y. ci_dte x < ci_dte y) (class_items Dte_exit cs)
     @ sort_by (\<lambda>x y. flt (marginal_value y) (marginal_value x)) (class_items Target_exit cs)"

subsection \<open>Day trades\<close>

text \<open>Chicago calendar dates are ordinals; \<open>pe_opened\<close> reads a stored timestamp as such a date.\<close>

record pdt_row =
  pr_user :: string
  pr_position :: pyval
  pr_date :: int

record pdt_env =
  pe_enabled :: bool
  pe_max :: int
  pe_stop_pct :: pynum
  pe_today :: int
  pe_opened :: "pyval \<Rightarrow> int option"
  pe_read_ok :: bool
  pe_write_ok :: "pyval \<Rightarrow> bool"

function rolling_days :: "nat \<Rightarrow> int \<Rightarrow> int list" where
  "rolling_days 0 cur = []"
| "rolling_days (Suc n) cur =
     (if weekday cur < 5 then rolling_days n (cur - 1) @ [cur] else rolling_days (Suc n) (cur - 1))"
  by pat_completeness auto
termination
  by (relation "measure (\<lambda>(n, cur). 3 * n + (if weekday cur = 6 then 2 else if weekday cur = 5 then 1 else 0))")
    (auto simp: weekday_def; presburger)+

declare rolling_days.simps(2) [simp del]

definition get_pdt_status :: "pdt_env \<Rightarrow> string \<Rightarrow> pdt_row list \<Rightarrow> int \<times> int" where
  "get_pdt_status pe user lg =
     (let window = rolling_days 5 (pe_today pe);
          trades = (if pe_read_ok pe
                    then filter (\<lambda>t. pr_user t = user \<and> hd window \<le> pr_date t \<and> pr_date t \<le> pe_today pe) lg else []);
          used = int (length (filter (\<lambda>t. pr_date t \<in> set window) trades))
      in (used, max 0 (pe_max pe - used)))"

definition is_same_day_close :: "pdt_env \<Rightarrow> pydict \<Rightarrow> bool" where
  "is_same_day_close pe pos = (pe_opened pe (dget pos ''created_at'') = Some (pe_today pe))"

definition is_emergency_stop :: "pdt_env \<Rightarrow> pydict \<Rightarrow> pyexn + bool" where
  "is_emergency_stop pe pos =
     rbind (unrealized pos) (\<lambda>upl.
     rbind (py_float (py_or (dget pos ''max_credit'') (PInt 0))) (\<lambda>mc.
       if fle mc (Fin 0) then Inr False
       else (let max_risk = fmul mc (Fin 100)
             in if fle max_risk (Fin 0) then Inr False
                else rbind (fdiv upl max_risk) (\<lambda>r. Inr (fle (fmul r (Fin 100)) (pe_stop_pct pe))))))"

text \<open>The log keeps one row per position: a second record of it replaces the first.\<close>

definition record_day_trade :: "pdt_env \<Rightarrow> string \<Rightarrow> pyval \<Rightarrow> pdt_row list \<Rightarrow> pdt_row list" where
  "record_day_trade pe user pid lg =
     (let row = \<lparr>pr_user = user, pr_position = pid, pr_date = pe_today pe\<rparr>
      in if \<not> pe_write_ok pe pid then lg
         else if pid \<in> pr_position ` set lg then update_rows (\<lambda>r. pr_position r = pid) (\<lambda>_. row) lg
         else lg @ [row])"

definition position_of :: "pydict list \<Rightarrow> pyval \<Rightarrow> pydict" where
  "position_of positions pid =
     (case find (\<lambda>p. dget p ''id'' = pid) (rev positions) of Some p \<Rightarrow> p | None \<Rightarrow> [])"

text \<open>The same-day exits in ranked order: emergencies pass, the others use up what is left.\<close>

fun admit_same_day ::
  "pdt_env \<Rightarrow> pydict list \<Rightarrow> close_item list \<Rightarrow> int \<Rightarrow> pyexn + close_item list \<times> close_item list" where
  "admit_same_day pe positions [] remaining = Inr ([], [])"
| "admit_same_day pe positions (c # cs) remaining =
     rbind (is_emergency_stop pe (position_of positions (ci_id c))) (\<lambda>emergency.
       if emergency then rbind (admit_same_day pe positions cs remaining) (\<lambda>(ok, held). Inr (c # ok, held))
       else if 0 < remaining then rbind (admit_same_day pe positions cs (remaining - 1)) (\<lambda>(ok, held). Inr (c # ok, held))
       else rbind (admit_same_day pe positions cs remaining) (\<lambda>(ok, held). Inr (ok, c # held)))"

definition pdt_filter :: "pdt_env \<Rightarrow> string \<Rightarrow> pdt_row list \<Rightarrow> pydict list \<Rightarrow> close_item list \<Rightarrow> pyexn + close_item list \<times> close_item list" where
  "pdt_filter pe user lg positions cs =
     (if \<not> pe_enabled pe then Inr (cs, [])
      else
        (let same = (\<lambda>c. is_same_day_close pe (position_of positions (ci_id c)))
         in rbind (admit_same_day pe positions (filter same cs) (snd (get_pdt_status pe user lg))) (\<lambda>(ok, held).
              Inr (filter (\<lambda>c. \<not> same c) cs @ ok, held))))"

subsection \<open>A pass over the open positions\<close>

definition close_item_of :: "exit_env \<Rightarrow> pydict \<Rightarrow> string \<Rightarrow> pyexn + close_item" where
  "close_item_of env pos reason =
     rbind (unrealized pos) (\<lambda>upl.
     rbind (py_float (py_or (dget pos ''max_credit'') (PInt 0))) (\<lambda>mc.
     rbind (py_float (py_or (dget pos ''quantity'') (PInt 1))) (\<lambda>q.
     rbind (days_to_expiry env pos) (\<lambda>dte.
       Inr \<lparr>ci_id = dget pos ''id'', ci_symbol = dget pos ''symbol'', ci_reason = reason, ci_upl = upl, ci_credit = mc,
            ci_qty = q, ci_dte = dte\<rparr>))))"

fun partition_exits ::
  "exit_env \<Rightarrow> (pydict \<Rightarrow> exit_condition list) \<Rightarrow> pydict list \<Rightarrow> pyexn + close_item list \<times> pydict list" where
  "partition_exits env conds_of [] = Inr ([], [])"
| "partition_exits env conds_of (p # ps) =
     (if \<not> fst (validate_structure_mark p)
      then rbind (partition_exits env conds_of ps) (\<lambda>(cs, hs). Inr (cs, p # hs))
      else rbind (evaluate_position_exit env p (conds_of p)) (\<lambda>(r, _).
        case r of
          None \<Rightarrow> rbind (partition_exits env conds_of ps) (\<lambda>(cs, hs). Inr (cs, p # hs))
        | Some reason \<Rightarrow>
            rbind (close_item_of env p reason) (\<lambda>c.
            rbind (partition_exits env conds_of ps) (\<lambda>(cs, hs). Inr (c # cs, hs)))))"

text \<open>The closes themselves: an exception is recorded and the loop goes on.\<close>

fun close_loop ::
  "(close_item \<Rightarrow> 's \<Rightarrow> (pyexn + 'r) \<times> 's) \<Rightarrow> pdt_env \<Rightarrow> string \<Rightarrow> pydict list \<Rightarrow> close_item list \<Rightarrow> 's \<Rightarrow> pdt_row list
     \<Rightarrow> (close_item \<times> (pyexn + 'r)) list \<times> 's \<times> pdt_row list" where
  "close_loop closer pe user positions [] s lg = ([], s, lg)"
| "close_loop closer pe user positions (c # cs) s lg =
     (case closer c s of (res, s1) \<Rightarrow>
       (let lg1 = (case res of
              Inl _ \<Rightarrow> lg
            | Inr _ \<Rightarrow> if pe_enabled pe \<and> is_same_day_close pe (position_of positions (ci_id c))
                       then record_day_trade pe user (ci_id c) lg else lg)
        in case close_loop closer pe user positions cs s1 lg1 of (rs, s2, lg2) \<Rightarrow> ((c, res) # rs, s2, lg2)))"

record 'r exits_report =
  er_closes :: "(close_item \<times> (pyexn + 'r)) list"
  er_held :: "pydict list"

definition evaluate_exits ::
  "exit_env \<Rightarrow> pdt_env \<Rightarrow> bool \<Rightarrow> bool \<Rightarrow> (pydict \<Rightarrow> exit_condition list) \<Rightarrow> (close_item \<Rightarrow> 's \<Rightarrow> (pyexn + 'r) \<times> 's) \<Rightarrow> string
     \<Rightarrow> pydict list \<Rightarrow> 's \<Rightarrow> pdt_row list \<Rightarrow> (pyexn + 'r exits_report) \<times> 's \<times> pdt_row list" where
  "evaluate_exits env pe paused ranking conds_of closer user positions s lg =
     (if paused then (Inr \<lparr>er_closes = [], er_held = []\<rparr>, s, lg)
      else case partition_exits env conds_of positions of
          Inl e \<Rightarrow> (Inl e, s, lg)
        | Inr (cs, hs) \<Rightarrow>
            (case pdt_filter pe user lg positions (if ranking then rank_triggered_exits cs else cs) of
               Inl e \<Rightarrow> (Inl e, s, lg)
             | Inr (ok, held) \<Rightarrow>
                 (case close_loop closer pe user positions ok s lg of (rs, s1, lg1) \<Rightarrow>
                    (Inr \<lparr>er_closes = rs, er_held = hs @ map (\<lambda>c. position_of positions (ci_id c)) held\<rparr>, s1, lg1))))"

end
