(* ===== verification/Exit_Rules_Correct.thy ===== *)
theory Exit_Rules_Correct
  imports Exit_Rules
begin

section \<open>What the exit rules guarantee\<close>

text \<open>
  The stop loss fires exactly at its threshold, also when the entry credit is missing, and time
  scaling only tightens it; the exit decision is the first condition that holds, and a position
  that has expired always gets one; the ranking orders the exits by urgency and loses none; the
  limit on day trades holds back no overnight exit and no emergency and is never exceeded by
  the others, also across the passes that the log of day trades records.
\<close>

subsection \<open>Stops\<close>

text \<open>The field k of the row is a number x, in any of the forms \<open>float\<close> reads.\<close>

definition reads :: "pydict \<Rightarrow> string \<Rightarrow> rat \<Rightarrow> bool" where
  "reads pos k x \<longleftrightarrow> py_float (dget pos k) = Inr (Fin x)"

lemma reads_or:
  assumes "reads pos k x" and "x \<noteq> 0 \<or> d = PInt 0"
  shows "py_float (py_or (dget pos k) d) = Inr (Fin x)"
proof (cases "truthy (dget pos k)")
  case False
  have "float_of_str [] = None" by code_simp
  then have "x = 0" using False assms(1)
    by (cases "dget pos k") (auto simp: reads_def num_truthy_def)
  then show ?thesis using False assms(2) by simp
qed (use assms(1) in \<open>simp add: reads_def\<close>)

lemma reads_unrealized: "reads pos ''unrealized_pl'' u \<Longrightarrow> unrealized pos = Inr (Fin u)"
  by (simp add: unrealized_def reads_or)

lemma reads_cost: "reads pos ''quantity'' q \<Longrightarrow> q \<noteq> 0 \<Longrightarrow> position_cost pos (Fin b) = Inr (Fin (\<bar>b\<bar> * 100 * \<bar>q\<bar>))"
  by (simp add: position_cost_def reads_or)

lemma reads_PNone: "reads pos k x \<Longrightarrow> dget pos k \<noteq> PNone"
  by (auto simp: reads_def)

definition debit_capped :: "bool \<Rightarrow> rat \<Rightarrow> rat" where
  "debit_capped debit sl = (if debit then min sl 1 else sl)"

lemma fallback_stop_exact:
  assumes "reads pos ''unrealized_pl'' u" and "reads pos ''quantity'' q" and "q \<noteq> 0"
    and "reads pos ''avg_entry_price'' a" and "is_debit_spread pos = Inr debit"
  shows "fallback_stop pos (Fin sl) = Inr (if a = 0 then u < 0 else u \<le> - (\<bar>a\<bar> * 100 * \<bar>q\<bar> * debit_capped debit sl))"
proof -
  have "0 < \<bar>a\<bar> * 100 * \<bar>q\<bar> \<longleftrightarrow> a \<noteq> 0" using assms(3) by (simp add: zero_less_mult_iff)
  then show ?thesis using assms
    by (auto simp: fallback_stop_def reads_unrealized reads_or Let_def debit_capped_def min_def)
qed

text \<open>
  C14 (functional). Without time scaling the stop fires exactly when the loss of the whole position
  reaches its threshold: the entry credit times 100 times the number of contracts times the stop
  fraction, which for a debit position is capped at the whole cost. When the credit is missing or
  zero the entry price takes its place, and when that is zero too any loss fires. A position that
  is not a debit fires on the first basis only when its credit is positive.
\<close>

theorem stop_loss_exact:
  assumes u: "reads pos ''unrealized_pl'' u" and q: "reads pos ''quantity'' q" "q \<noteq> 0"
    and a: "reads pos ''avg_entry_price'' a" and d: "is_debit_spread pos = Inr debit"
    and scaling: "\<not> xe_scaling env"
    and credit: "reads pos ''max_credit'' mc \<or> dget pos ''max_credit'' = PNone \<and> mc = 0"
  shows "check_stop_loss env pos (Fin sl) = Inr (
     if mc \<noteq> 0 then (debit \<or> 0 < mc) \<and> u \<le> - (\<bar>mc\<bar> * 100 * \<bar>q\<bar> * debit_capped debit sl)
     else if a \<noteq> 0 then u \<le> - (\<bar>a\<bar> * 100 * \<bar>q\<bar> * debit_capped debit sl)
     else u < 0)"
proof (cases "mc = 0")
  case True
  then have "check_stop_loss env pos (Fin sl) = fallback_stop pos (Fin sl)"
    using credit by (auto simp: check_stop_loss_def reads_def)
  then show ?thesis using fallback_stop_exact [OF u q a d, of sl] True by simp
next
  case False
  then have mc: "reads pos ''max_credit'' mc" using credit by simp
  have "(if flt (Fin 1) (Fin sl) then fmin (Fin sl) (Fin 1) else Fin sl) = Fin (min sl 1)" by auto
  then have "effective_stop env pos (Fin sl) = Inr (Fin (min sl 1))" by (simp add: effective_stop_def scaling)
  then show ?thesis
    using False mc d by (auto simp: check_stop_loss_def reads_PNone reads_def reads_unrealized [OF u] reads_cost [OF q] debit_capped_def)
qed

text \<open>A credit position recorded with a negative credit has no stop: no loss fires it.\<close>

lemma negative_credit_never_stops:
  assumes "reads pos ''unrealized_pl'' u" and "reads pos ''quantity'' q" "q \<noteq> 0"
    and "is_debit_spread pos = Inr False" and "reads pos ''max_credit'' mc" and "mc < 0"
  shows "check_stop_loss env pos sl = Inr False"
  using assms by (auto simp: check_stop_loss_def reads_PNone reads_def reads_unrealized [OF assms(1)] reads_cost [OF assms(2,3)])

lemma fmax_fmin_between: "f \<le> b \<Longrightarrow> \<exists>y. fmax (Fin f) (fmin (Fin b) z) = Fin y \<and> f \<le> y \<and> y \<le> b"
  by (cases z) (auto simp: fmax_def fmin_def)

lemma time_scaled_stop_between:
  assumes "time_scaled_stop env pos (Fin b) = Inr x" and "xe_floor env = Fin f" and "f \<le> b"
  shows "\<exists>y. x = Fin y \<and> f \<le> y \<and> y \<le> b"
proof -
  define entry where "entry = (if dget pos ''entry_dte'' = PNone then PInt 35 else dget pos ''entry_dte'')"
  obtain condor where condor: "is_iron_condor pos = Inr condor"
    using assms(1) by (auto simp: time_scaled_stop_def rbind_Inr_iff)
  have "x = Fin b \<or> (\<exists>z. x = fmax (Fin f) (fmin (Fin b) z))"
  proof (cases condor)
    case False
    then obtain root where "x = (case root of None \<Rightarrow> Fin b | Some s \<Rightarrow> fmax (xe_floor env) (fmin (Fin b) (fmul (Fin b) s)))"
      using assms(1) condor unfolding time_scaled_stop_def entry_def [symmetric]
      by (cases "time_root env pos entry") auto
    then show ?thesis using assms(2) by (cases root) auto
  qed (use assms(1) condor in \<open>simp add: time_scaled_stop_def\<close>)
  then show ?thesis using fmax_fmin_between [OF assms(3)] assms(3) by blast
qed

lemma effective_stop_between:
  assumes "effective_stop env pos (Fin sl) = Inr x" and "xe_floor env = Fin f" and "f \<le> min sl 1"
  shows "\<exists>y. x = Fin y \<and> f \<le> y \<and> y \<le> min sl 1"
proof -
  have "(if flt (Fin 1) (Fin sl) then fmin (Fin sl) (Fin 1) else Fin sl) = Fin (min sl 1)" by auto
  then have eff: "effective_stop env pos (Fin sl) = (if xe_scaling env
      then rbind (is_iron_condor pos) (\<lambda>condor. if condor then Inr (Fin (min sl 1)) else time_scaled_stop env pos (Fin (min sl 1)))
      else Inr (Fin (min sl 1)))"
    by (simp add: effective_stop_def Let_def del: flt.simps)
  have "x = Fin (min sl 1) \<or> time_scaled_stop env pos (Fin (min sl 1)) = Inr x"
    using assms(1) unfolding eff
    by (cases "xe_scaling env"; cases "is_iron_condor pos"; cases "is_iron_condor pos = Inr True") simp_all
  then show ?thesis using time_scaled_stop_between [OF _ assms(2,3)] assms(3) by blast
qed

text \<open>
  Time scaling only tightens the stop: when its floor is not above the capped stop
  fraction, every loss that fires the flat stop fires the scaled one.
\<close>

theorem scaling_only_tightens:
  assumes u: "reads pos ''unrealized_pl'' u" and q: "reads pos ''quantity'' q" "q \<noteq> 0" and mc: "reads pos ''max_credit'' mc"
    and floor: "xe_floor env = Fin f" "f \<le> min sl 1"
    and flat: "check_stop_loss (env\<lparr>xe_scaling := False\<rparr>) pos (Fin sl) = Inr True"
    and scaled: "check_stop_loss env pos (Fin sl) = Inr b"
  shows "b"
proof (cases "mc = 0 \<or> is_debit_spread pos \<noteq> Inr True")
  case True
  have "check_stop_loss env pos (Fin sl) = check_stop_loss (env\<lparr>xe_scaling := False\<rparr>) pos (Fin sl)"
    using True mc by (cases "is_debit_spread pos")
      (auto simp: check_stop_loss_def reads_PNone reads_def reads_unrealized [OF u] reads_cost [OF q])
  then show ?thesis using flat scaled by simp
next
  case False
  then have debit: "is_debit_spread pos = Inr True" and mc0: "mc \<noteq> 0" by auto
  define cost where "cost = \<bar>mc\<bar> * 100 * \<bar>q\<bar>"
  have c: "0 \<le> cost" by (simp add: cost_def)
  have run: "check_stop_loss e pos (Fin sl) = rbind (effective_stop e pos (Fin sl)) (\<lambda>eff. Inr (fle (Fin u) (fneg (fmul (Fin cost) eff))))" for e
    using mc mc0 debit by (simp add: check_stop_loss_def reads_PNone reads_def reads_unrealized [OF u] reads_cost [OF q] cost_def)
  have "effective_stop (env\<lparr>xe_scaling := False\<rparr>) pos (Fin sl) = Inr (Fin (min sl 1))" by (auto simp: effective_stop_def)
  then have le: "u \<le> - (cost * min sl 1)" using flat run [of "env\<lparr>xe_scaling := False\<rparr>"] by simp
  obtain eff where eff: "effective_stop env pos (Fin sl) = Inr eff" and b: "b = fle (Fin u) (fneg (fmul (Fin cost) eff))"
    using scaled run [of env] by (auto simp: rbind_Inr_iff)
  obtain y where y: "eff = Fin y" "y \<le> min sl 1" using effective_stop_between [OF eff floor] by blast
  have "cost * y \<le> cost * min sl 1" using mult_left_mono [OF y(2) c] .
  then show ?thesis using le by (simp add: b y(1))
qed

subsection \<open>The decision\<close>

lemma first_triggered_Some:
  "first_triggered cs pos = (Some r, fs) \<Longrightarrow>
     fs = [] \<and> (\<exists>pre check post. cs = pre @ (r, check) # post \<and> check pos = Inr True \<and> (\<forall>c \<in> set pre. snd c pos \<noteq> Inr True))"
proof (induction cs arbitrary: fs)
  case (Cons c cs)
  obtain name check where c: "c = (name, check)" by fastforce
  show ?case
  proof (cases "check pos = Inr True")
    case True
    then show ?thesis using Cons.prems c by (auto intro!: exI [of _ "[]"])
  next
    case False
    then have "\<exists>gs. first_triggered cs pos = (Some r, gs)" "fs = []"
      using Cons.prems Cons.IH c by (auto split: sum.splits prod.splits if_splits)
    then obtain pre check' post where *: "cs = pre @ (r, check') # post" "check' pos = Inr True" "\<forall>c \<in> set pre. snd c pos \<noteq> Inr True"
      using Cons.IH by blast
    then have "c # cs = (c # pre) @ (r, check') # post" and "\<forall>x \<in> set (c # pre). snd x pos \<noteq> Inr True"
      using False c by auto
    then show ?thesis using *(2) \<open>fs = []\<close> by blast
  qed
qed simp

lemma first_triggered_None:
  "first_triggered cs pos = (None, fs) \<Longrightarrow>
     (\<forall>c \<in> set cs. snd c pos \<noteq> Inr True) \<and> fs = map fst (filter (\<lambda>c. \<exists>e. snd c pos = Inl e) cs)"
proof (induction cs arbitrary: fs)
  case (Cons c cs)
  obtain name check where c: "c = (name, check)" by fastforce
  show ?case
  proof (cases "check pos")
    case (Inl e)
    then show ?thesis using Cons c by (auto split: prod.splits if_splits)
  next
    case (Inr b)
    then show ?thesis using Cons c by (auto split: if_splits)
  qed
qed simp

text \<open>
  The exit decision is the first condition, in the order target, stop, days to
  expiry, expiration, that holds; conditions that raise are passed over. Without an exit no
  condition holds, and exactly those that raised are reported.
\<close>

theorem exit_is_first_condition:
  assumes "evaluate_position_exit env pos conditions = Inr (r, fs)"
  shows "case r of
      Some name \<Rightarrow> fs = [] \<and> (\<exists>pre check post. conditions = pre @ (name, check) # post \<and> check pos = Inr True
        \<and> (\<forall>c \<in> set pre. snd c pos \<noteq> Inr True))
    | None \<Rightarrow> (\<forall>c \<in> set conditions. snd c pos \<noteq> Inr True) \<and> fs = map fst (filter (\<lambda>c. \<exists>e. snd c pos = Inl e) conditions)"
proof -
  have "first_triggered conditions pos = (r, fs)" using assms by (auto simp: evaluate_position_exit_def rbind_Inr_iff)
  then show ?thesis by (cases r) (use first_triggered_None first_triggered_Some in fastforce)+
qed

lemma first_triggered_exists:
  assumes "(name, check) \<in> set cs" and "check pos = Inr True"
  shows "\<exists>r. first_triggered cs pos = (Some r, [])"
proof -
  obtain r fs where r: "first_triggered cs pos = (r, fs)" by fastforce
  show ?thesis
  proof (cases r)
    case None
    then have "\<forall>c \<in> set cs. snd c pos \<noteq> Inr True" using first_triggered_None r by blast
    then show ?thesis using assms by force
  next
    case (Some n)
    then show ?thesis using first_triggered_Some [of cs pos n fs] r by simp
  qed
qed

text \<open>
  A position at or past its expiration day always gets an exit reason, under the
  default conditions and under any cohort's thresholds, whatever its profit, its credit and the
  errors of the other conditions.
\<close>

theorem expired_position_exits:
  assumes "days_to_expiry env pos = Inr d" and "d \<le> 0" and "is_debit_spread pos = Inr debit"
  shows "(\<exists>r. evaluate_position_exit env pos (default_conditions env) = Inr (Some r, []))
    \<and> (\<exists>r. evaluate_position_exit env pos (build_exit_conditions env tp sl min_dte) = Inr (Some r, []))"
proof -
  have exits: "\<exists>r. evaluate_position_exit env pos cs = Inr (Some r, [])"
    if "set (expiry_conditions env m) \<subseteq> set cs" for cs m
  proof -
    let ?check = "\<lambda>pos. rbind (days_to_expiry env pos) (\<lambda>d. Inr (d \<le> 0))"
    have "(''expiration_day'', ?check) \<in> set cs" using that by (auto simp: expiry_conditions_def)
    from first_triggered_exists [OF this, of pos] show ?thesis using assms by (auto simp: evaluate_position_exit_def)
  qed
  show ?thesis
  proof
    show "\<exists>r. evaluate_position_exit env pos (default_conditions env) = Inr (Some r, [])"
      by (rule exits [of "xe_min_dte env"]) (auto simp: default_conditions_def)
    show "\<exists>r. evaluate_position_exit env pos (build_exit_conditions env tp sl min_dte) = Inr (Some r, [])"
      by (rule exits [of min_dte]) (auto simp: build_exit_conditions_def)
  qed
qed

subsection \<open>The ranking\<close>

fun class_rank :: "exit_class \<Rightarrow> nat" where
  "class_rank Emergency = 0" | "class_rank Stop_exit = 1" | "class_rank Dte_exit = 2" | "class_rank Target_exit = 3"

definition at_least_as_urgent :: "close_item \<Rightarrow> close_item \<Rightarrow> bool" where
  "at_least_as_urgent c d \<longleftrightarrow>
     class_rank (exit_class_of c) < class_rank (exit_class_of d)
     \<or> exit_class_of c = exit_class_of d \<and> (case exit_class_of c of
          Dte_exit \<Rightarrow> ci_dte c \<le> ci_dte d
        | Target_exit \<Rightarrow> \<not> flt (marginal_value c) (marginal_value d)
        | _ \<Rightarrow> \<not> flt (marginal_value d) (marginal_value c))"

definition finite_item :: "close_item \<Rightarrow> bool" where
  "finite_item c \<longleftrightarrow> is_finite (ci_upl c) \<and> is_finite (ci_credit c) \<and> is_finite (ci_qty c)"

lemma marginal_value_finite: "finite_item c \<Longrightarrow> is_finite (marginal_value c)"
proof -
  assume "finite_item c"
  then obtain u m q where c: "ci_upl c = Fin u" "ci_credit c = Fin m" "ci_qty c = Fin q" by (auto simp: finite_item_def is_finite_iff)
  obtain v where v: "entry_value c = Fin v" by (cases "q = 0") (auto simp: entry_value_def c num_or_def num_truthy_def)
  have "max (v * max (of_int (ci_dte c) / 30) (1/100)) 1 \<noteq> 0" by linarith
  then show ?thesis unfolding marginal_value_def Let_def v c by (simp add: round4_def del: max.absorb1 max.absorb2)
qed

lemma class_items_class: "c \<in> set (class_items k cs) \<Longrightarrow> exit_class_of c = k"
  by (simp add: class_items_def)

lemma class_items_split:
  "mset (class_items Emergency cs) + mset (class_items Stop_exit cs) + mset (class_items Dte_exit cs)
     + mset (class_items Target_exit cs) = mset cs"
proof (induction cs)
  case (Cons c cs)
  then show ?case by (cases "exit_class_of c") (simp_all add: class_items_def)
qed (simp add: class_items_def)

lemma weak_order_on_int: "weak_order_on A (\<lambda>x y. (f x :: int) < f y)"
  by (auto simp: weak_order_on_def)

lemma sorted_class:
  assumes "sorted_wrt (\<lambda>x y. \<not> lt y x) xs" and "\<forall>c \<in> set xs. exit_class_of c = k"
    and "\<And>c d. exit_class_of c = k \<Longrightarrow> exit_class_of d = k \<Longrightarrow> \<not> lt d c \<Longrightarrow> at_least_as_urgent c d"
  shows "sorted_wrt at_least_as_urgent xs"
  by (rule sorted_wrt_mono_rel [OF _ assms(1)]) (use assms(2,3) in auto)

text \<open>
  The ranking loses and repeats no triggered exit and orders them by urgency:
  emergencies, then stops, then expiries, then profit targets; within emergencies and stops the
  worst value per day and dollar comes first, within expiries the nearest, within targets the best.
\<close>

theorem ranking_orders_exits:
  assumes "\<forall>c \<in> set cs. finite_item c"
  shows "mset (rank_triggered_exits cs) = mset cs \<and> sorted_wrt at_least_as_urgent (rank_triggered_exits cs)"
proof
  show "mset (rank_triggered_exits cs) = mset cs"
    using class_items_split [of cs] by (simp add: rank_triggered_exits_def ac_simps)
  have fin: "\<forall>c \<in> set (class_items k cs). is_finite (marginal_value c)" for k
    using assms marginal_value_finite by (auto simp: class_items_def)
  let ?up = "\<lambda>x y. flt (marginal_value x) (marginal_value y)" and ?down = "\<lambda>x y. flt (marginal_value y) (marginal_value x)"
  have 1: "sorted_wrt at_least_as_urgent (sort_by ?up (class_items Emergency cs))"
    by (rule sorted_class [OF sort_by_sorted [OF weak_order_on_keys(1) [OF fin]], where k = Emergency])
      (auto simp: at_least_as_urgent_def dest: class_items_class)
  have 2: "sorted_wrt at_least_as_urgent (sort_by ?up (class_items Stop_exit cs))"
    by (rule sorted_class [OF sort_by_sorted [OF weak_order_on_keys(1) [OF fin]], where k = Stop_exit])
      (auto simp: at_least_as_urgent_def dest: class_items_class)
  have 3: "sorted_wrt at_least_as_urgent (sort_by (\<lambda>x y. ci_dte x < ci_dte y) (class_items Dte_exit cs))"
    by (rule sorted_class [OF sort_by_sorted [OF weak_order_on_int], where k = Dte_exit])
      (auto simp: at_least_as_urgent_def dest: class_items_class)
  have 4: "sorted_wrt at_least_as_urgent (sort_by ?down (class_items Target_exit cs))"
    by (rule sorted_class [OF sort_by_sorted [OF weak_order_on_keys(2) [OF fin]], where k = Target_exit])
      (auto simp: at_least_as_urgent_def dest: class_items_class)
  show "sorted_wrt at_least_as_urgent (rank_triggered_exits cs)"
    unfolding rank_triggered_exits_def sorted_wrt_append
    by (intro conjI 1 2 3 4) (auto simp: at_least_as_urgent_def dest!: class_items_class)
qed

subsection \<open>Day trades\<close>

text \<open>The window: the latest business days up to today.\<close>

lemma rolling_days_window:
  "length (rolling_days n cur) = n
   \<and> (\<forall>d \<in> set (rolling_days n cur). weekday d < 5 \<and> d \<le> cur \<and> (\<forall>e. d \<le> e \<and> e \<le> cur \<and> weekday e < 5 \<longrightarrow> e \<in> set (rolling_days n cur)))"
proof (induction n cur rule: rolling_days.induct)
  case (2 n cur)
  have step: "e \<le> cur \<Longrightarrow> e \<noteq> cur \<Longrightarrow> e \<le> cur - 1" for e by simp
  show ?case
  proof (cases "weekday cur < 5")
    case True
    then have run: "rolling_days (Suc n) cur = rolling_days n (cur - 1) @ [cur]" by (simp add: rolling_days.simps(2))
    show ?thesis unfolding run using "2.IH"(1) [OF True] True step by fastforce
  next
    case False
    then have run: "rolling_days (Suc n) cur = rolling_days (Suc n) (cur - 1)"
      by (subst rolling_days.simps(2)) simp
    show ?thesis unfolding run using "2.IH"(2) [OF False] False step by fastforce
  qed
qed simp

abbreviation day_trades_used :: "pdt_env \<Rightarrow> string \<Rightarrow> pdt_row list \<Rightarrow> int" where
  "day_trades_used pe user lg \<equiv> fst (get_pdt_status pe user lg)"

abbreviation same_day :: "pdt_env \<Rightarrow> pydict list \<Rightarrow> close_item \<Rightarrow> bool" where
  "same_day pe positions c \<equiv> is_same_day_close pe (position_of positions (ci_id c))"

abbreviation emergency_of :: "pdt_env \<Rightarrow> pydict list \<Rightarrow> close_item \<Rightarrow> pyexn + bool" where
  "emergency_of pe positions c \<equiv> is_emergency_stop pe (position_of positions (ci_id c))"

lemma remaining_eq: "snd (get_pdt_status pe user lg) = max 0 (pe_max pe - day_trades_used pe user lg)"
  by (simp add: get_pdt_status_def Let_def)

lemma admit_same_day_exact:
  assumes "admit_same_day pe positions cs n = Inr (ok, held)" and "0 \<le> n"
  shows "mset ok + mset held = mset cs \<and> (\<forall>c \<in> set held. emergency_of pe positions c = Inr False)
    \<and> int (length (filter (\<lambda>c. emergency_of pe positions c \<noteq> Inr True) ok)) \<le> n
    \<and> (held \<noteq> [] \<longrightarrow> int (length (filter (\<lambda>c. emergency_of pe positions c \<noteq> Inr True) ok)) = n)"
  using assms
proof (induction cs arbitrary: n ok held)
  case (Cons c cs)
  obtain e where e: "emergency_of pe positions c = Inr e" using Cons.prems(1) by (auto simp: rbind_Inr_iff)
  show ?case
  proof (cases e)
    case True
    then obtain ok' where "ok = c # ok'" "admit_same_day pe positions cs n = Inr (ok', held)"
      using Cons.prems(1) e by (auto simp: rbind_Inr_iff)
    with Cons.IH [of n ok' held] Cons.prems(2) e True show ?thesis by auto
  next
    case False
    show ?thesis
    proof (cases "0 < n")
      case True
      then obtain ok' where "ok = c # ok'" "admit_same_day pe positions cs (n - 1) = Inr (ok', held)"
        using Cons.prems(1) e False by (auto simp: rbind_Inr_iff)
      with Cons.IH [of "n - 1" ok' held] e False True show ?thesis by auto
    next
      case full: False
      then obtain held' where "held = c # held'" "admit_same_day pe positions cs n = Inr (ok, held')"
        using Cons.prems(1) e False by (auto simp: rbind_Inr_iff)
      with Cons.IH [of n ok held'] Cons.prems(2) e False full show ?thesis by auto
    qed
  qed
qed simp

lemma pdt_filter_parts:
  assumes "pdt_filter pe user lg positions cs = Inr (ok, held)" and "pe_enabled pe"
  obtains ok' where "ok = filter (\<lambda>c. \<not> same_day pe positions c) cs @ ok'"
    and "admit_same_day pe positions (filter (same_day pe positions) cs) (max 0 (pe_max pe - day_trades_used pe user lg)) = Inr (ok', held)"
  using assms by (auto simp: pdt_filter_def remaining_eq rbind_Inr_iff)

lemma pdt_filter_exact:
  assumes run: "pdt_filter pe user lg positions cs = Inr (ok, held)" and "pe_enabled pe"
  shows "mset ok + mset held = mset cs
    \<and> (\<forall>c \<in> set held. same_day pe positions c \<and> emergency_of pe positions c = Inr False)
    \<and> int (length (filter (\<lambda>c. same_day pe positions c \<and> emergency_of pe positions c \<noteq> Inr True) ok)) \<le> max 0 (pe_max pe - day_trades_used pe user lg)
    \<and> (held \<noteq> [] \<longrightarrow>
        int (length (filter (\<lambda>c. same_day pe positions c \<and> emergency_of pe positions c \<noteq> Inr True) ok)) = max 0 (pe_max pe - day_trades_used pe user lg))"
proof -
  let ?same = "same_day pe positions" and ?n = "max 0 (pe_max pe - day_trades_used pe user lg)"
  obtain ok' where ok: "ok = filter (\<lambda>c. \<not> ?same c) cs @ ok'" and admit: "admit_same_day pe positions (filter ?same cs) ?n = Inr (ok', held)"
    using pdt_filter_parts [OF assms] .
  from admit_same_day_exact [OF admit]
  have parts: "mset ok' + mset held = mset (filter ?same cs)" "\<forall>c \<in> set held. emergency_of pe positions c = Inr False"
    "int (length (filter (\<lambda>c. emergency_of pe positions c \<noteq> Inr True) ok')) \<le> ?n"
    "held \<noteq> [] \<longrightarrow> int (length (filter (\<lambda>c. emergency_of pe positions c \<noteq> Inr True) ok')) = ?n"
    by simp_all
  have "set ok' \<union> set held = set (filter ?same cs)" using parts(1) by (metis set_mset_mset set_mset_union)
  then have all: "c \<in> set ok' \<union> set held \<Longrightarrow> ?same c" for c by auto
  have "filter (\<lambda>c. ?same c \<and> emergency_of pe positions c \<noteq> Inr True) ok = filter (\<lambda>c. emergency_of pe positions c \<noteq> Inr True) ok'"
    unfolding ok by (auto simp: filter_empty_conv intro!: filter_cong all)
  moreover have "mset ok + mset held = mset cs"
    by (simp add: ok add.assoc parts(1))
  ultimately show ?thesis using parts all by simp
qed

text \<open>
  The limit on day trades loses no exit, holds back only exits of positions opened
  today that are not emergencies, lets at most the remaining day trades through besides the
  emergencies, and holds nothing back before all of them are used.
\<close>

theorem day_trade_limit:
  assumes "pdt_filter pe user lg positions cs = Inr (ok, held)" and "pe_enabled pe"
  shows "mset ok + mset held = mset cs
    \<and> (\<forall>c \<in> set held. same_day pe positions c \<and> emergency_of pe positions c = Inr False)
    \<and> (let limited = int (length (filter (\<lambda>c. same_day pe positions c \<and> emergency_of pe positions c \<noteq> Inr True) ok));
           remaining = max 0 (pe_max pe - day_trades_used pe user lg)
       in limited \<le> remaining \<and> (held \<noteq> [] \<longrightarrow> limited = remaining))"
  using pdt_filter_exact [OF assms] by (simp add: Let_def)

text \<open>The log keeps one row per position, so recording a close uses at most one more day trade.\<close>

definition log_ok :: "pdt_row list \<Rightarrow> bool" where
  "log_ok lg \<longleftrightarrow> distinct (map pr_position lg)"

lemma map_position_update_rows:
  "pr_position row = pid \<Longrightarrow> map pr_position (update_rows (\<lambda>r. pr_position r = pid) (\<lambda>_. row) lg) = map pr_position lg"
  by (induction lg) auto

lemma record_day_trade_ok: "log_ok lg \<Longrightarrow> log_ok (record_day_trade pe user pid lg)"
  by (simp add: log_ok_def record_day_trade_def Let_def map_position_update_rows)

lemma filter_update_rows_le:
  assumes "distinct (map pr_position lg)"
  shows "length (filter P (update_rows (\<lambda>r. pr_position r = pid) (\<lambda>_. row) lg)) \<le> length (filter P lg) + 1"
  using assms
proof (induction lg)
  case (Cons r lg)
  show ?case
  proof (cases "pr_position r = pid")
    case True
    then have "pid \<notin> set (map pr_position lg)" using Cons.prems by simp
    then have "update_rows (\<lambda>r. pr_position r = pid) (\<lambda>_. row) lg = lg" by (intro update_rows_none) (metis imageI list.set_map)
    then show ?thesis by simp
  qed (use Cons in simp)
qed simp

text \<open>The day trades of the window that the log holds, whether or not they can be read.\<close>

definition counted_day_trade :: "pdt_env \<Rightarrow> string \<Rightarrow> pdt_row \<Rightarrow> bool" where
  "counted_day_trade pe user t \<longleftrightarrow> pr_user t = user \<and> hd (rolling_days 5 (pe_today pe)) \<le> pr_date t \<and> pr_date t \<le> pe_today pe
     \<and> pr_date t \<in> set (rolling_days 5 (pe_today pe))"

definition logged_day_trades :: "pdt_env \<Rightarrow> string \<Rightarrow> pdt_row list \<Rightarrow> int" where
  "logged_day_trades pe user lg = int (length (filter (counted_day_trade pe user) lg))"

text \<open>A failed read of the log counts nothing: the guard fails open.\<close>

lemma used_logged: "day_trades_used pe user lg = (if pe_read_ok pe then logged_day_trades pe user lg else 0)"
  by (simp add: get_pdt_status_def Let_def logged_day_trades_def counted_day_trade_def [abs_def] conj_ac)

lemma record_day_trade_logged:
  assumes "log_ok lg"
  shows "logged_day_trades pe user (record_day_trade pe user pid lg) \<le> logged_day_trades pe user lg + 1"
proof -
  have "length (filter (counted_day_trade pe user) (record_day_trade pe user pid lg)) \<le> length (filter (counted_day_trade pe user) lg) + 1"
    using assms by (simp add: record_day_trade_def Let_def log_ok_def filter_update_rows_le [simplified])
  then show ?thesis by (simp add: logged_day_trades_def)
qed

lemma close_loop_logged:
  assumes "close_loop closer pe user positions cs s lg = (rs, s', lg')" and "log_ok lg"
  shows "map fst rs = cs \<and> log_ok lg'
    \<and> logged_day_trades pe user lg' \<le> logged_day_trades pe user lg + int (length (filter (same_day pe positions) cs))"
  using assms
proof (induction cs arbitrary: s lg rs)
  case (Cons c cs)
  obtain res s1 where c: "closer c s = (res, s1)" by fastforce
  define lg1 where "lg1 = (case res of Inl _ \<Rightarrow> lg
    | Inr _ \<Rightarrow> if pe_enabled pe \<and> same_day pe positions c then record_day_trade pe user (ci_id c) lg else lg)"
  obtain rs' where rs: "rs = (c, res) # rs'" and rest: "close_loop closer pe user positions cs s1 lg1 = (rs', s', lg')"
    using Cons.prems(1) by (auto simp: c lg1_def Let_def split: prod.splits)
  have ok1: "log_ok lg1" using Cons.prems(2) by (auto simp: lg1_def record_day_trade_ok split: sum.splits)
  have "logged_day_trades pe user lg1 \<le> logged_day_trades pe user lg + (if same_day pe positions c then 1 else 0)"
    using record_day_trade_logged [OF Cons.prems(2)] by (auto simp: lg1_def split: sum.splits)
  with Cons.IH [OF rest ok1] rs show ?case by (auto split: if_splits)
qed simp

lemma filter_split_length: "length (filter P xs) = length (filter (\<lambda>x. P x \<and> \<not> Q x) xs) + length (filter (\<lambda>x. P x \<and> Q x) xs)"
  by (induction xs) auto

text \<open>
  C15 (invariant). Over a whole pass, whatever the closes do to the state and whichever of them or of
  the log's writes fail: the same-day closes that are no emergency are at most what the log leaves
  of the limit, and the day trades in the log exceed the limit by at most the emergencies of the
  pass (or by what they did before it); the log keeps one row per position. When the log cannot be
  read, the guard fails open: then a pass has the whole limit anew, whatever the log holds.
\<close>

theorem day_trades_stay_within_limit:
  assumes run: "evaluate_exits env pe paused ranking conds_of closer user positions s lg = (Inr rep, s', lg')"
    and "log_ok lg" and on: "pe_enabled pe"
  shows "log_ok lg'
    \<and> int (length (filter (\<lambda>c. same_day pe positions c \<and> emergency_of pe positions c \<noteq> Inr True) (map fst (er_closes rep))))
        \<le> max 0 (if pe_read_ok pe then pe_max pe - logged_day_trades pe user lg else pe_max pe)
    \<and> logged_day_trades pe user lg'
        \<le> (if pe_read_ok pe then max (pe_max pe) (logged_day_trades pe user lg) else logged_day_trades pe user lg + max 0 (pe_max pe))
          + int (length (filter (\<lambda>c. same_day pe positions c \<and> emergency_of pe positions c = Inr True) (map fst (er_closes rep))))"
proof (cases paused)
  case False
  obtain cs hs where parts: "partition_exits env conds_of positions = Inr (cs, hs)"
    using run False by (auto simp: evaluate_exits_def split: sum.splits)
  obtain ok held where filter: "pdt_filter pe user lg positions (if ranking then rank_triggered_exits cs else cs) = Inr (ok, held)"
    using run False parts by (auto simp: evaluate_exits_def split: sum.splits)
  obtain rs where loop: "close_loop closer pe user positions ok s lg = (rs, s', lg')" and rep: "er_closes rep = rs"
    using run False parts filter by (auto simp: evaluate_exits_def split: prod.splits)
  note logged = close_loop_logged [OF loop \<open>log_ok lg\<close>]
  have "int (length (filter (\<lambda>c. same_day pe positions c \<and> emergency_of pe positions c \<noteq> Inr True) ok)) \<le> max 0 (pe_max pe - day_trades_used pe user lg)"
    using pdt_filter_exact [OF filter on] by blast
  moreover have "length (filter (same_day pe positions) ok) = length (filter (\<lambda>c. same_day pe positions c \<and> emergency_of pe positions c \<noteq> Inr True) ok)
      + length (filter (\<lambda>c. same_day pe positions c \<and> emergency_of pe positions c = Inr True) ok)"
    by (rule filter_split_length)
  ultimately show ?thesis using logged rep by (simp add: used_logged max_def split: if_splits)
qed (use run \<open>log_ok lg\<close> in \<open>auto simp: evaluate_exits_def\<close>)

text \<open>
  The emergency of the day-trade limit divides the profit of the whole position by the credit of
  one contract, where the ranking uses the entry value of the whole position.
\<close>

lemma emergency_scales_differ:
  assumes "reads pos ''unrealized_pl'' u" and "reads pos ''max_credit'' mc" and "0 < mc" and "pe_stop_pct pe = Fin (- 80)"
    and "ci_upl c = Fin u" and "ci_credit c = Fin mc" and "ci_qty c = Fin q" and "0 < q"
  shows "is_emergency_stop pe pos = Inr (u \<le> - (80 * mc))" and "exit_class_of c = Emergency \<longleftrightarrow> u \<le> - (80 * mc * q)"
proof -
  show "is_emergency_stop pe pos = Inr (u \<le> - (80 * mc))"
    using assms(3,4) by (simp add: is_emergency_stop_def reads_unrealized [OF assms(1)] reads_or [OF assms(2)] field_simps)
  have "entry_value c = Fin (mc * q * 100)" using assms(3,6-8) by (simp add: entry_value_def num_or_def num_truthy_def)
  then show "exit_class_of c = Emergency \<longleftrightarrow> u \<le> - (80 * mc * q)"
    using assms(3,5,8) by (auto simp: exit_class_of_def algebra_simps)
qed

text \<open>A close that only reports a deferral spends a day trade like a fill does.\<close>

lemma deferred_close_spends_day_trade:
  assumes "closer c s = (Inr deferred, s)" and "pe_enabled pe" and "same_day pe positions c"
  shows "close_loop closer pe user positions [c] s lg = ([(c, Inr deferred)], s, record_day_trade pe user (ci_id c) lg)"
  using assms by simp

subsection \<open>Concrete positions\<close>

definition sample_day :: pydate where
  "sample_day = \<lparr>d_year = 2026, d_month = 7, d_day = 20\<rparr>"

definition sample_xenv :: "bool \<Rightarrow> exit_env" where
  "sample_xenv scaling = \<lparr>xe_today = sample_day,
     xe_iso = (\<lambda>t. if t = ''2026-07-20'' then Some sample_day else None), xe_root = (\<lambda>r. r), xe_scaling = scaling,
     xe_floor = Fin (3/10), xe_tp = Fin (35/100), xe_sl = Fin (1/2), xe_min_dte = 10\<rparr>"

definition sample_row :: "string \<Rightarrow> rat \<Rightarrow> pydict" where
  "sample_row pid upl = [(''id'', PStr pid), (''symbol'', PStr ''F''), (''strategy_key'', PStr ''LONG_CALL_DEBIT_SPREAD''), (''quantity'', PInt 5),
     (''max_credit'', PFloat (Fin 2)), (''avg_entry_price'', PFloat (Fin 2)), (''unrealized_pl'', PFloat (Fin upl)),
     (''nearest_expiry'', PStr ''2026-07-20''), (''created_at'', PStr ''today'')]"

lemma sample_row_reads:
  "reads (sample_row pid u) ''unrealized_pl'' u" "reads (sample_row pid u) ''quantity'' 5"
  "reads (sample_row pid u) ''avg_entry_price'' 2" "reads (sample_row pid u) ''max_credit'' 2"
  by (simp_all add: reads_def sample_row_def dget_def)

lemma sample_row_debit: "is_debit_spread (sample_row ''p'' u) = Inr True"
proof -
  have "strategy_text (sample_row ''p'' u) = Inr ''LONG_CALL_DEBIT_SPREAD''"
    by (simp add: sample_row_def strategy_text_def dget_def str_upper_def char_defs)
  moreover have "contains ''LONG_'' ''LONG_CALL_DEBIT_SPREAD''" by code_simp
  ultimately show ?thesis by (simp add: is_debit_spread_def)
qed

theorem stop_loss_exact_witness: "check_stop_loss (sample_xenv False) (sample_row ''p'' (- 500)) (Fin (1/2)) = Inr True"
proof -
  have "check_stop_loss (sample_xenv False) (sample_row ''p'' (- 500)) (Fin (1/2)) =
    Inr (if (2::rat) \<noteq> 0 then (True \<or> (0::rat) < 2) \<and> (- 500 :: rat) \<le> - (\<bar>2\<bar> * 100 * \<bar>5\<bar> * debit_capped True (1/2))
       else if (2::rat) \<noteq> 0 then (- 500 :: rat) \<le> - (\<bar>2\<bar> * 100 * \<bar>5\<bar> * debit_capped True (1/2)) else (- 500 :: rat) < 0)"
    by (rule stop_loss_exact [OF sample_row_reads(1,2) _ sample_row_reads(3) sample_row_debit]) (simp_all add: sample_xenv_def sample_row_reads)
  then show ?thesis by (simp add: debit_capped_def min_def)
qed

lemma sample_days: "days_to_expiry (sample_xenv b) (sample_row pid u) = Inr 0"
  by (simp add: days_to_expiry_def nearest_expiry_def sample_row_def sample_xenv_def dget_def)

lemma sample_time_root: "\<exists>r. number_operand v = Inr r \<Longrightarrow> time_root (sample_xenv b) (sample_row pid u) v = Inr None"
  by (auto simp: time_root_def sample_days)

lemma sample_not_condor: "is_iron_condor (sample_row pid u) = Inr False"
proof -
  have "strategy_text (sample_row pid u) = Inr ''LONG_CALL_DEBIT_SPREAD''"
    by (simp add: sample_row_def strategy_text_def dget_def str_upper_def char_defs)
  moreover have "\<not> contains ''IRON_CONDOR'' ''LONG_CALL_DEBIT_SPREAD''" by code_simp
  ultimately show ?thesis by (simp add: is_iron_condor_def)
qed

lemma sample_entry_dte: "dget (sample_row pid u) ''entry_dte'' = PNone"
  by (simp add: sample_row_def dget_def)

lemma sample_effective: "effective_stop (sample_xenv b) (sample_row pid u) (Fin (1/2)) = Inr (Fin (1/2))"
  by (simp add: effective_stop_def Let_def sample_not_condor time_scaled_stop_def sample_time_root sample_entry_dte number_operand_def)

lemma sample_stop: "check_stop_loss (sample_xenv b) (sample_row ''p'' u) (Fin (1/2)) = Inr (u \<le> - 500)"
  using sample_row_reads [of "''p''" u]
  by (simp add: check_stop_loss_def reads_PNone reads_unrealized reads_cost sample_row_debit sample_effective reads_def [of _ "''max_credit''"])

theorem scaling_only_tightens_witness: "check_stop_loss (sample_xenv True) (sample_row ''p'' (- 500)) (Fin (1/2)) = Inr True"
proof -
  have flat: "check_stop_loss ((sample_xenv True)\<lparr>xe_scaling := False\<rparr>) (sample_row ''p'' (- 500)) (Fin (1/2)) = Inr True"
    using sample_stop [of False "- 500"] by (simp add: sample_xenv_def)
  from sample_stop [of True "- 500"] have b: "check_stop_loss (sample_xenv True) (sample_row ''p'' (- 500)) (Fin (1/2)) = Inr True" by simp
  have True by (rule scaling_only_tightens [OF sample_row_reads(1,2) _ sample_row_reads(4) _ _ flat b, where f = "3/10"]) (simp_all add: sample_xenv_def)
  with b show ?thesis by simp
qed

theorem expired_position_exits_witness:
  "\<exists>r. evaluate_position_exit (sample_xenv False) (sample_row ''p'' 3) (default_conditions (sample_xenv False)) = Inr (Some r, [])"
  using expired_position_exits [OF sample_days _ sample_row_debit] by blast

lemma sample_target:
  "rbind (time_scaled_target (sample_xenv b) (sample_row ''p'' u) (Fin x)) (check_target_profit (sample_row ''p'' u)) = Inr (1000 * x \<le> u)"
  using sample_row_reads [of "''p''" u]
  by (simp add: time_scaled_target_def sample_time_root sample_entry_dte number_operand_def check_target_profit_def reads_PNone
      reads_unrealized reads_cost sample_row_debit reads_def [of _ "''max_credit''"])

theorem exit_is_first_condition_witness:
  "\<exists>pre check post. default_conditions (sample_xenv False) = pre @ (''stop_loss'', check) # post \<and> check (sample_row ''p'' (- 500)) = Inr True"
proof -
  have "xe_tp (sample_xenv False) = Fin (35/100)" "xe_sl (sample_xenv False) = Fin (1/2)" by (simp_all add: sample_xenv_def)
  then have "evaluate_position_exit (sample_xenv False) (sample_row ''p'' (- 500)) (default_conditions (sample_xenv False)) = Inr (Some ''stop_loss'', [])"
    by (simp add: evaluate_position_exit_def sample_days sample_row_debit default_conditions_def sample_target sample_stop)
  from exit_is_first_condition [OF this] show ?thesis by auto
qed

definition sample_item :: "string \<Rightarrow> string \<Rightarrow> rat \<Rightarrow> int \<Rightarrow> close_item" where
  "sample_item pid reason upl dte = \<lparr>ci_id = PStr pid, ci_symbol = PStr ''F'', ci_reason = reason, ci_upl = Fin upl, ci_credit = Fin 2,
     ci_qty = Fin 5, ci_dte = dte\<rparr>"

definition sample_items :: "close_item list" where
  "sample_items = [sample_item ''a'' ''target_profit'' 400 20, sample_item ''b'' ''dte_threshold'' 10 3,
     sample_item ''c'' ''stop_loss'' (- 500) 20, sample_item ''d'' ''stop_loss'' (- 900) 20]"

theorem ranking_orders_exits_witness:
  "map ci_id (rank_triggered_exits sample_items) = [PStr ''d'', PStr ''c'', PStr ''b'', PStr ''a'']
   \<and> sorted_wrt at_least_as_urgent (rank_triggered_exits sample_items)"
proof
  show "map ci_id (rank_triggered_exits sample_items) = [PStr ''d'', PStr ''c'', PStr ''b'', PStr ''a'']" by code_simp
  have "\<forall>c \<in> set sample_items. finite_item c" by (simp add: sample_items_def sample_item_def finite_item_def)
  from ranking_orders_exits [OF this] show "sorted_wrt at_least_as_urgent (rank_triggered_exits sample_items)" ..
qed

definition sample_pdt :: "pdt_env" where
  "sample_pdt = \<lparr>pe_enabled = True, pe_max = 3, pe_stop_pct = Fin (- 80), pe_today = 15,
     pe_opened = (\<lambda>v. if v = PStr ''today'' then Some 15 else None), pe_read_ok = True, pe_write_ok = (\<lambda>_. True)\<rparr>"

text \<open>Two day trades of the Friday before and one of the Sunday before that, which the window leaves out.\<close>

definition sample_log :: "pdt_row list" where
  "sample_log = [\<lparr>pr_user = ''u'', pr_position = PStr ''x'', pr_date = 12\<rparr>,
     \<lparr>pr_user = ''u'', pr_position = PStr ''y'', pr_date = 12\<rparr>,
     \<lparr>pr_user = ''u'', pr_position = PStr ''z'', pr_date = 7\<rparr>]"

definition sample_positions :: "pydict list" where
  "sample_positions = [sample_row ''a'' 400, sample_row ''b'' 350]"

lemma sample_window: "rolling_days 5 15 = [9, 10, 11, 12, 15]"
  by code_simp

lemma sample_used: "day_trades_used sample_pdt ''u'' sample_log = 2"
  using sample_window by (simp add: get_pdt_status_def sample_pdt_def sample_log_def)

lemma sample_same_day: "same_day sample_pdt sample_positions (sample_item pid reason upl dte) \<longleftrightarrow> pid = ''a'' \<or> pid = ''b''"
  by (simp add: is_same_day_close_def position_of_def sample_positions_def sample_item_def sample_row_def dget_def sample_pdt_def)

lemma sample_emergency: "pid = ''a'' \<or> pid = ''b'' \<Longrightarrow> emergency_of sample_pdt sample_positions (sample_item pid reason upl dte) = Inr False"
  by (auto simp: is_emergency_stop_def unrealized_def position_of_def sample_positions_def sample_item_def sample_row_def dget_def sample_pdt_def
      num_truthy_def)

lemma sample_filter:
  "pdt_filter sample_pdt ''u'' sample_log sample_positions [sample_item ''a'' ''target_profit'' 400 0, sample_item ''b'' ''target_profit'' 350 0]
     = Inr ([sample_item ''a'' ''target_profit'' 400 0], [sample_item ''b'' ''target_profit'' 350 0])"
proof -
  have "pe_enabled sample_pdt" "pe_max sample_pdt = 3" by (simp_all add: sample_pdt_def)
  then show ?thesis by (simp add: pdt_filter_def sample_same_day sample_emergency remaining_eq sample_used)
qed

theorem day_trade_limit_witness:
  "same_day sample_pdt sample_positions (sample_item ''b'' ''target_profit'' 350 0)
   \<and> emergency_of sample_pdt sample_positions (sample_item ''b'' ''target_profit'' 350 0) = Inr False"
  using day_trade_limit [OF sample_filter] by (simp add: sample_pdt_def)

text \<open>A pass over the two positions, with closes that all succeed.\<close>

definition sample_pass :: "(pyexn + unit exits_report) \<times> nat \<times> pdt_row list" where
  "sample_pass = evaluate_exits (sample_xenv False) sample_pdt False True
     (\<lambda>_. [(''target_profit'', \<lambda>pos. check_target_profit pos (Fin (1/4)))]) (\<lambda>_ n. (Inr (), n + 1)) ''u'' sample_positions 0 sample_log"

lemma sample_clamp: "fst (validate_structure_mark (sample_row pid u))"
proof -
  have "structure_wing_width (PList []) = None" by code_simp
  then show ?thesis by (simp add: validate_structure_mark_def sample_row_def dget_def)
qed

lemma sample_strategy_debit: "is_debit_spread (sample_row pid u) = Inr True"
  using sample_row_debit by (simp add: is_debit_spread_def strategy_text_def sample_row_def dget_def)

lemma sample_quarter: "check_target_profit (sample_row pid u) (Fin (1/4)) = Inr (250 \<le> u)"
  using sample_row_reads [of pid u]
  by (simp add: check_target_profit_def reads_PNone reads_unrealized reads_cost sample_strategy_debit reads_def [of _ "''max_credit''"])

lemma sample_close_item: "close_item_of (sample_xenv False) (sample_row pid u) reason = Inr (sample_item pid reason u 0)"
  using sample_row_reads [of pid u]
  by (simp add: close_item_of_def reads_unrealized reads_or sample_days) (simp add: sample_item_def sample_row_def dget_def)

lemma sample_partition:
  "partition_exits (sample_xenv False) (\<lambda>_. [(''target_profit'', \<lambda>pos. check_target_profit pos (Fin (1/4)))]) sample_positions
     = Inr ([sample_item ''a'' ''target_profit'' 400 0, sample_item ''b'' ''target_profit'' 350 0], [])"
  by (simp add: sample_positions_def sample_clamp evaluate_position_exit_def sample_days sample_strategy_debit sample_quarter sample_close_item)

lemma sample_ranked:
  "rank_triggered_exits [sample_item ''a'' ''target_profit'' 400 0, sample_item ''b'' ''target_profit'' 350 0]
     = [sample_item ''a'' ''target_profit'' 400 0, sample_item ''b'' ''target_profit'' 350 0]"
  by code_simp

lemma sample_pass_result:
  "sample_pass = (Inr \<lparr>er_closes = [(sample_item ''a'' ''target_profit'' 400 0, Inr ())], er_held = [sample_row ''b'' 350]\<rparr>, 1,
     sample_log @ [\<lparr>pr_user = ''u'', pr_position = PStr ''a'', pr_date = 15\<rparr>])"
proof -
  have item: "ci_id (sample_item pid reason u d) = PStr pid" for pid reason u d by (simp add: sample_item_def)
  have "position_of sample_positions (PStr ''b'') = sample_row ''b'' 350"
    by (simp add: position_of_def sample_positions_def sample_row_def dget_def)
  moreover have "record_day_trade sample_pdt ''u'' (PStr ''a'') sample_log = sample_log @ [\<lparr>pr_user = ''u'', pr_position = PStr ''a'', pr_date = 15\<rparr>]"
    by (simp add: record_day_trade_def sample_log_def sample_pdt_def)
  moreover have "pe_enabled sample_pdt" by (simp add: sample_pdt_def)
  moreover have "same_day sample_pdt sample_positions (sample_item ''a'' ''target_profit'' 400 0)" using sample_same_day by simp
  ultimately show ?thesis
    by (simp add: sample_pass_def evaluate_exits_def sample_partition sample_ranked sample_filter item)
qed

lemma sample_logged: "logged_day_trades sample_pdt ''u'' sample_log = 2"
  using sample_used used_logged [of sample_pdt "''u''" sample_log] by (simp add: sample_pdt_def)

theorem day_trades_stay_within_limit_witness:
  "logged_day_trades sample_pdt ''u'' (sample_log @ [\<lparr>pr_user = ''u'', pr_position = PStr ''a'', pr_date = 15\<rparr>]) \<le> 3"
proof -
  have "log_ok sample_log" "pe_enabled sample_pdt" "pe_max sample_pdt = 3" "pe_read_ok sample_pdt"
    by (simp_all add: log_ok_def sample_log_def sample_pdt_def)
  from day_trades_stay_within_limit [OF sample_pass_result [unfolded sample_pass_def] this(1,2)] this(3,4) show ?thesis
    by (simp add: sample_logged sample_emergency)
qed

end
