(* ===== verification/Corroboration.thy ===== *)
theory Corroboration
  imports Marks
begin

section \<open>Corroboration of a mark by executable quotes\<close>

text \<open>
  Model of \<open>analytics/exit_mark_corroboration.py\<close>: the value at which a structure could be closed
  now (a long leg sells at the bid, a short one buys at the ask), the verdict on a mark that
  triggers an exit, the cost of a round trip, and the fields persisted beside a mark.

  The quotes come from the truth layer, a parameter: it either raises or answers, for each symbol
  asked, with any value. Timestamps and the identity of the written row are left out.
\<close>

type_synonym quote_book = "pyval \<Rightarrow> pydict option"
type_synonym snapshot_fn = "pyval list \<Rightarrow> pyexn + (pyval \<Rightarrow> pyval)"

definition flag_on :: "string option \<Rightarrow> bool" where
  "flag_on raw = (str_lower (str_strip (case raw of None \<Rightarrow> ''0'' | Some s \<Rightarrow> s)) \<in> {''1'', ''true'', ''yes'', ''on''})"

definition is_observe_enabled :: "environ \<Rightarrow> bool" where
  "is_observe_enabled env = flag_on (env ''EXIT_MARK_SANITY_OBSERVE_ENABLED'')"

definition is_enforce_enabled :: "environ \<Rightarrow> bool" where
  "is_enforce_enabled env = flag_on (env ''EXIT_MARK_SANITY_ENFORCE_ENABLED'')"

definition gated_exit_types :: "string list" where
  "gated_exit_types = [''target_profit'', ''stop_loss'']"

definition leg_is_long :: "pydict \<Rightarrow> bool" where
  "leg_is_long d = (leg_side_mult d = 1)"

definition spread_width :: "pydict list \<Rightarrow> pynum option" where
  "spread_width legs =
     (case List.map_filter (\<lambda>d. opt_num (dget d ''strike'')) legs of
        k # l # ks \<Rightarrow> Some (fsub (foldl fmax k (l # ks)) (foldl fmin k (l # ks)))
      | _ \<Rightarrow> None)"

definition quote_num :: "pyval \<Rightarrow> pynum" where
  "quote_num v = (case py_float v of Inl _ \<Rightarrow> Fin 0 | Inr x \<Rightarrow> x)"

definition positive_only :: "pynum \<Rightarrow> pynum option" where
  "positive_only x = (if flt (Fin 0) x then Some x else None)"

record quoted_leg =
  ql_occ :: pyval
  ql_long :: bool
  ql_bid :: "pynum option"
  ql_ask :: "pynum option"
  ql_last :: pyval
  ql_exec :: "pynum option"
  ql_missing :: "string list"

definition quote_of :: "quote_book \<Rightarrow> pyval \<Rightarrow> pydict" where
  "quote_of quotes occ = (case quotes occ of None \<Rightarrow> [] | Some q \<Rightarrow> q)"

definition quoted_leg_of :: "quote_book \<Rightarrow> pydict \<Rightarrow> quoted_leg" where
  "quoted_leg_of quotes d =
     (let q = quote_of quotes (leg_occ d);
          bid = quote_num (dget q ''bid'');
          ask = quote_num (dget q ''ask'');
          long = leg_is_long d
      in \<lparr>ql_occ = leg_occ d, ql_long = long, ql_bid = positive_only bid, ql_ask = positive_only ask,
          ql_last = dget q ''last'', ql_exec = positive_only (if long then bid else ask),
          ql_missing = (if fle bid (Fin 0) then [''bid''] else []) @ (if fle ask (Fin 0) then [''ask''] else [])\<rparr>)"

text \<open>The side is kept per symbol: of two legs on one symbol the later one decides.\<close>

definition executable_for :: "quote_book \<Rightarrow> pydict list \<Rightarrow> pyval \<Rightarrow> pynum option" where
  "executable_for quotes legs occ =
     (let long = (case find (\<lambda>d. leg_occ d = occ) (rev legs) of None \<Rightarrow> True | Some d \<Rightarrow> leg_is_long d)
      in positive_only (quote_num (dget (quote_of quotes occ) (if long then ''bid'' else ''ask''))))"

datatype suppress_reason =
  QuoteIncomplete | DivergenceExceeded | CorroboratedAllow | StopLossNever | CorroborationError

record corroboration =
  co_quotes :: "quoted_leg list"
  co_complete :: bool
  co_achievable :: "pynum option"
  co_implied :: "pynum option"
  co_divergence_abs :: "pynum option"
  co_divergence_frac :: "pynum option"
  co_width :: "pynum option"
  co_suppress :: bool
  co_reason :: suppress_reason

definition achievable ::
  "quote_book \<Rightarrow> pyval \<Rightarrow> pyval \<Rightarrow> pydict list \<Rightarrow> pyexn + (pynum \<times> pynum) option" where
  "achievable quotes quantity avg legs =
     rbind (compute_current_value (executable_for quotes legs) quantity (Fin 100) False (map PDict legs)) (\<lambda>(v, _).
       case v of None \<Rightarrow> Inr None
       | Some x \<Rightarrow> rbind (finalize_mark quantity avg x (Fin 100)) (\<lambda>m. Inr (Some m)))"

definition denom_floor :: "environ \<Rightarrow> pynum" where
  "denom_floor env = (case env ''MARK_DIVERGENCE_DENOM_FLOOR'' of None \<Rightarrow> Fin (1/10)
     | Some s \<Rightarrow> (case float_of_str s of None \<Rightarrow> Fin (1/10) | Some x \<Rightarrow> x))"

definition divergence_frac :: "environ \<Rightarrow> pynum option \<Rightarrow> pynum option \<Rightarrow> pyexn + pynum option" where
  "divergence_frac env mark close =
     (case (mark, close) of
        (Some m, Some c) \<Rightarrow> rbind (fdiv (fsub m c) (fmax (fabs c) (denom_floor env))) (\<lambda>x. Inr (Some x))
      | _ \<Rightarrow> Inr None)"

definition verdict :: "string \<Rightarrow> bool \<Rightarrow> pynum option \<Rightarrow> pynum \<Rightarrow> bool \<times> suppress_reason" where
  "verdict exit_type full dfrac tolerance =
     (if exit_type = ''stop_loss'' then (False, StopLossNever)
      else if exit_type = ''target_profit'' then
        (if \<not> full then (True, QuoteIncomplete)
         else if (case dfrac of None \<Rightarrow> False | Some x \<Rightarrow> flt tolerance (fabs x)) then (True, DivergenceExceeded)
         else (False, CorroboratedAllow))
      else (False, CorroboratedAllow))"

definition default_tolerance :: pynum where
  "default_tolerance = Fin (1/10)"

definition compute_corroboration ::
  "environ \<Rightarrow> string \<Rightarrow> pynum option \<Rightarrow> pynum option \<Rightarrow> pyval \<Rightarrow> pyval \<Rightarrow> pyval list \<Rightarrow> quote_book \<Rightarrow> pynum \<Rightarrow> pyexn + corroboration" where
  "compute_corroboration env exit_type mark implied quantity avg items quotes tolerance =
     (let legs = List.map_filter as_dict items;
          qls = map (quoted_leg_of quotes) legs;
          full = (legs \<noteq> [] \<and> list_all (\<lambda>q. ql_missing q = []) qls)
      in rbind (if legs = [] then Inr None else achievable quotes quantity avg legs) (\<lambda>ach.
         let close = map_option fst ach; pl = map_option snd ach
         in rbind (divergence_frac env mark close) (\<lambda>dfrac.
            case verdict exit_type full dfrac tolerance of (suppress, reason) \<Rightarrow>
            Inr \<lparr>co_quotes = qls, co_complete = full, co_achievable = close, co_implied = pl,
                 co_divergence_abs = (case (implied, pl) of (Some x, Some y) \<Rightarrow> Some (fsub x y) | _ \<Rightarrow> None),
                 co_divergence_frac = dfrac, co_width = spread_width legs,
                 co_suppress = suppress, co_reason = reason\<rparr>)))"

subsection \<open>Reading the quotes\<close>

text \<open>
  A snapshot is a dictionary with the quote under \<open>quote\<close>, or the quote itself; one that is no
  dictionary counts as empty, but a \<open>quote\<close> that is not one raises.
\<close>

definition snapshot_quote :: "pyval \<Rightarrow> pyexn + pydict" where
  "snapshot_quote snap =
     (if \<not> truthy snap then Inr []
      else case snap of
        PDict d \<Rightarrow> (case dget_default d ''quote'' (PDict d) of PDict q \<Rightarrow> Inr q | _ \<Rightarrow> Inl AttributeError)
      | _ \<Rightarrow> Inr [])"

definition fetch_leg_quotes :: "snapshot_fn \<Rightarrow> pyval list \<Rightarrow> pyexn + quote_book" where
  "fetch_leg_quotes snapshot items =
     (let occs = filter truthy (map leg_occ (List.map_filter as_dict items))
      in if occs = [] then Inr (\<lambda>_. None)
         else rbind (snapshot occs) (\<lambda>snaps.
              rbind (rmap (\<lambda>occ. rbind (snapshot_quote (snaps occ)) (\<lambda>q.
                Inr (occ, [(''bid'', dget q ''bid''), (''ask'', dget q ''ask''), (''last'', dget q ''last'')]))) occs)
              (\<lambda>rows. Inr (map_of rows))))"

definition executable_close_estimate :: "environ \<Rightarrow> snapshot_fn \<Rightarrow> pydict \<Rightarrow> pyexn + corroboration" where
  "executable_close_estimate env snapshot pos =
     rbind (iter_items (dget pos ''legs'')) (\<lambda>items.
     rbind (fetch_leg_quotes snapshot items) (\<lambda>quotes.
       compute_corroboration env ''target_profit'' None None (dget pos ''quantity'') (dget pos ''avg_entry_price'')
         items quotes default_tolerance))"

datatype upl_basis = Corroborated | RawFallback | RawFallbackError

definition corroborated_exit_upl :: "environ \<Rightarrow> snapshot_fn \<Rightarrow> pydict \<Rightarrow> pynum \<times> upl_basis" where
  "corroborated_exit_upl env snapshot pos =
     (let raw = (case py_float (py_or (dget pos ''unrealized_pl'') (PFloat (Fin 0))) of Inl _ \<Rightarrow> Fin 0 | Inr x \<Rightarrow> x)
      in case executable_close_estimate env snapshot pos of
           Inl _ \<Rightarrow> (raw, RawFallbackError)
         | Inr est \<Rightarrow>
             (case co_implied est of
                Some pl \<Rightarrow> if co_complete est then (pl, Corroborated) else (raw, RawFallback)
              | None \<Rightarrow> (raw, RawFallback)))"

definition corroborate_positions_for_exit :: "environ \<Rightarrow> snapshot_fn \<Rightarrow> pydict list \<Rightarrow> pydict list" where
  "corroborate_positions_for_exit env snapshot positions =
     map (\<lambda>p. dset p ''unrealized_pl'' (PFloat (fst (corroborated_exit_upl env snapshot p)))) positions"

record mark_fields =
  mf_mark :: "pynum option"
  mf_upl :: "pynum option"
  mf_corroborated :: bool
  mf_complete :: "bool option"
  mf_divergence :: "pynum option"

definition round6 :: "pynum \<Rightarrow> pynum" where
  "round6 x = (case x of Fin q \<Rightarrow> Fin (of_int (round_half_even (1000000 * q)) / 1000000) | _ \<Rightarrow> x)"

definition corroborated_mark_fields :: "environ \<Rightarrow> snapshot_fn \<Rightarrow> pyval \<Rightarrow> pydict \<Rightarrow> mark_fields" where
  "corroborated_mark_fields env snapshot raw_mark pos =
     (case executable_close_estimate env snapshot pos of
        Inl _ \<Rightarrow> \<lparr>mf_mark = None, mf_upl = None, mf_corroborated = False, mf_complete = None, mf_divergence = None\<rparr>
      | Inr est \<Rightarrow>
          \<lparr>mf_mark = co_achievable est, mf_upl = co_implied est, mf_corroborated = (co_achievable est \<noteq> None),
           mf_complete = Some (co_complete est),
           mf_divergence =
             (case (co_achievable est, opt_num raw_mark) of
                (Some c, Some raw) \<Rightarrow>
                  if flt (Fin 0) (fabs c)
                  then (case fdiv (fabs (fsub raw c)) (fabs c) of Inl _ \<Rightarrow> None | Inr x \<Rightarrow> Some (round6 x)) else None
              | _ \<Rightarrow> None)\<rparr>)"

subsection \<open>The cost of a round trip\<close>

definition cross_contracts :: "pyval \<Rightarrow> pydict \<Rightarrow> pyexn + pynum" where
  "cross_contracts quantity d =
     rbind (py_float (py_or (dget d ''quantity'') (py_or quantity (PInt 1)))) (\<lambda>q. Inr (fabs q))"

record cross_leg =
  cl_occ :: pyval
  cl_contracts :: pynum
  cl_spread :: "pynum option"
  cl_cost :: "pynum option"

definition cross_leg_of :: "(pyval \<times> pynum) list \<Rightarrow> pynum \<Rightarrow> quoted_leg \<Rightarrow> cross_leg" where
  "cross_leg_of contracts dflt q =
     (let n = (case map_of (rev contracts) (ql_occ q) of None \<Rightarrow> dflt | Some n \<Rightarrow> n)
      in case (ql_bid q, ql_ask q) of
           (Some b, Some a) \<Rightarrow>
             (let s = fmul (fsub a b) (Fin 100)
              in \<lparr>cl_occ = ql_occ q, cl_contracts = n, cl_spread = Some s, cl_cost = Some (fmul s n)\<rparr>)
         | _ \<Rightarrow> \<lparr>cl_occ = ql_occ q, cl_contracts = n, cl_spread = None, cl_cost = None\<rparr>)"

record roundtrip =
  rt_total :: "pynum option"
  rt_per_contract :: "pynum option"
  rt_legs :: "cross_leg list"
  rt_complete :: bool

definition executable_roundtrip_cost :: "environ \<Rightarrow> pyval list \<Rightarrow> quote_book \<Rightarrow> pyval \<Rightarrow> pyexn + roundtrip" where
  "executable_roundtrip_cost env items quotes quantity =
     (let legs = List.map_filter as_dict items
      in rbind (compute_corroboration env ''target_profit'' None None quantity PNone (map PDict legs) quotes default_tolerance) (\<lambda>v.
         let dflt = (case py_float quantity of Inl _ \<Rightarrow> Fin 1 | Inr x \<Rightarrow> fabs x)
         in rbind (rmap (\<lambda>d. rbind (cross_contracts quantity d) (\<lambda>n. Inr (leg_occ d, n))) legs) (\<lambda>contracts.
            let cls = map (cross_leg_of contracts dflt) (co_quotes v);
                full = (cls \<noteq> [] \<and> list_all (\<lambda>c. cl_cost c \<noteq> None) cls)
            in Inr \<lparr>rt_total = (if full then Some (foldl fadd (Fin 0) (List.map_filter cl_cost cls)) else None),
                    rt_per_contract = (if full then Some (foldl fadd (Fin 0) (List.map_filter cl_spread cls)) else None),
                    rt_legs = cls, rt_complete = (co_complete v \<and> full)\<rparr>)))"

subsection \<open>Observing an exit\<close>

text \<open>
  The row that is written: a verdict, or the note of an error, which never suppresses. The write
  may fail; then nothing is returned and the exit proceeds.
\<close>

definition observed_suppression :: "pyexn + corroboration \<Rightarrow> bool \<times> suppress_reason" where
  "observed_suppression r = (case r of Inl _ \<Rightarrow> (False, CorroborationError) | Inr v \<Rightarrow> (co_suppress v, co_reason v))"

definition observe_exit_mark ::
  "environ \<Rightarrow> snapshot_fn \<Rightarrow> bool \<Rightarrow> pydict \<Rightarrow> string \<Rightarrow> pynum option \<Rightarrow> pynum option \<Rightarrow> (bool \<times> suppress_reason) option" where
  "observe_exit_mark env snapshot write_ok pos exit_type mark implied =
     (if exit_type \<notin> set gated_exit_types then None
      else
        (let r = rbind (iter_items (dget pos ''legs'')) (\<lambda>items.
                 rbind (fetch_leg_quotes snapshot items) (\<lambda>quotes.
                   compute_corroboration env exit_type mark implied (dget pos ''quantity'') (dget pos ''avg_entry_price'')
                     items quotes default_tolerance))
         in if write_ok then Some (observed_suppression r) else None))"

end
