(* ===== verification/Corroboration_Correct.thy ===== *)
theory Corroboration_Correct
  imports Corroboration Marks_Correct Exit_Rules
begin

section \<open>What corroboration guarantees\<close>

text \<open>
  The executable value never exceeds the mid value, and a round trip costs exactly twice their
  difference; a stop is never suppressed, neither by a verdict nor by missing quotes.
\<close>

text \<open>A leg of n contracts with a two-sided quote (b, a), and its prices at the mid and to close.\<close>

definition two_sided :: "quote_book \<Rightarrow> int \<Rightarrow> pydict \<Rightarrow> rat \<times> rat \<Rightarrow> bool" where
  "two_sided quotes n d ba \<longleftrightarrow> (case ba of (b, a) \<Rightarrow>
     truthy (leg_occ d) \<and> dget d ''quantity'' = PInt n \<and> 0 < b \<and> b \<le> a
     \<and> dget (quote_of quotes (leg_occ d)) ''bid'' = PFloat (Fin b) \<and> dget (quote_of quotes (leg_occ d)) ''ask'' = PFloat (Fin a))"

definition mid_price :: "pydict \<Rightarrow> rat \<times> rat \<Rightarrow> rat" where
  "mid_price d ba = leg_side_mult d * ((fst ba + snd ba) / 2)"

definition close_price :: "pydict \<Rightarrow> rat \<times> rat \<Rightarrow> rat" where
  "close_price d ba = leg_side_mult d * (if leg_is_long d then fst ba else snd ba)"

lemma leg_side_mult_cases: "leg_side_mult d = 1 \<or> leg_side_mult d = - 1"
  by (auto simp: leg_side_mult_def split: option.splits)

lemma mid_minus_close: "mid_price d (b, a) - close_price d (b, a) = (a - b) / 2"
  using leg_side_mult_cases [of d] by (auto simp: mid_price_def close_price_def leg_is_long_def field_simps)

lemma find_rev_distinct:
  assumes "distinct (map f xs)" and "x \<in> set xs"
  shows "find (\<lambda>y. f y = f x) (rev xs) = Some x"
proof -
  have "\<exists>y. find (\<lambda>y. f y = f x) (rev xs) = Some y" using assms(2) by (cases "find (\<lambda>y. f y = f x) (rev xs)") (auto simp: find_None_iff)
  then obtain y where y: "find (\<lambda>y. f y = f x) (rev xs) = Some y" ..
  then have "f y = f x" and "y \<in> set xs" using find_Some_props [OF y] by auto
  then have "y = x" using assms by (metis inj_on_eq_iff distinct_map)
  then show ?thesis using y by simp
qed

lemma executable_priced:
  assumes "distinct (map leg_occ legs)" and "d \<in> set legs" and "two_sided quotes n d ba"
  shows "priced_leg (executable_for quotes legs) n (PDict d) (close_price d ba)"
proof -
  obtain b a where ba: "ba = (b, a)" by fastforce
  have "executable_for quotes legs (leg_occ d) = Some (Fin (if leg_is_long d then b else a))"
    using assms(3) find_rev_distinct [OF assms(1,2)]
    by (auto simp: executable_for_def two_sided_def ba quote_num_def positive_only_def)
  then show ?thesis using assms(3) by (auto simp: priced_leg_def two_sided_def ba close_price_def)
qed

lemma mid_priced:
  assumes "mid_for (leg_occ d) = Some (Fin ((b + a) / 2))" and "two_sided quotes n d (b, a)"
  shows "priced_leg mid_for n (PDict d) (mid_price d (b, a))"
  using assms by (auto simp: priced_leg_def two_sided_def mid_price_def intro!: exI [of _ "(b + a) / 2"])

lemma list_all2_map_indexed:
  assumes "list_all2 P xs ys" and "\<And>x y. x \<in> set xs \<Longrightarrow> P x y \<Longrightarrow> Q (f x) (g x y)"
  shows "list_all2 Q (map f xs) (map2 g xs ys)"
  using assms by (induction rule: list_all2_induct) auto

lemma achievable_exact:
  assumes "list_all2 (two_sided quotes \<bar>n\<bar>) legs bas" and "distinct (map leg_occ legs)" and "legs \<noteq> []" and "n \<noteq> 0"
  shows "achievable quotes (PInt n) (PFloat (Fin e)) legs = Inr (Some (
      Fin (sum_list (map2 close_price legs bas)),
      Fin (if 0 < n then 100 * of_int n * (sum_list (map2 close_price legs bas) - e)
           else 100 * of_int \<bar>n\<bar> * (e - \<bar>sum_list (map2 close_price legs bas)\<bar>))))"
proof -
  have "list_all2 (priced_leg (executable_for quotes legs) \<bar>n\<bar>) (map PDict legs) (map2 close_price legs bas)"
    using assms(1) executable_priced [OF assms(2)] by (rule list_all2_map_indexed)
  then show ?thesis
    using priced_current_value [of "executable_for quotes legs" n "map PDict legs" "map2 close_price legs bas" n False]
      finalized_mark [OF assms(4)] assms(3,4)
    by (simp add: achievable_def)
qed

text \<open>The estimates of one structure: the value at the mids, the value to close, the round trip.\<close>

lemma quoted_leg_two_sided:
  assumes "two_sided quotes n d (b, a)"
  shows "quoted_leg_of quotes d = \<lparr>ql_occ = leg_occ d, ql_long = leg_is_long d, ql_bid = Some (Fin b), ql_ask = Some (Fin a),
     ql_last = dget (quote_of quotes (leg_occ d)) ''last'', ql_exec = Some (Fin (if leg_is_long d then b else a)), ql_missing = []\<rparr>"
  using assms by (auto simp: quoted_leg_of_def two_sided_def Let_def quote_num_def positive_only_def)

lemma map_of_constant: "x \<in> set xs \<Longrightarrow> map_of (map (\<lambda>y. (f y, c)) xs) (f x) = Some c"
  by (induction xs) auto

lemma cross_legs_two_sided:
  assumes "list_all2 (two_sided quotes n) legs bas" and "\<forall>d \<in> set legs. map_of (rev contracts) (leg_occ d) = Some (Fin (of_int \<bar>n\<bar>))"
  shows "List.map_filter cl_cost (map (cross_leg_of contracts dflt) (map (quoted_leg_of quotes) legs)) = map (\<lambda>(b, a). Fin ((a - b) * 100 * of_int \<bar>n\<bar>)) bas"
    and "List.map_filter cl_spread (map (cross_leg_of contracts dflt) (map (quoted_leg_of quotes) legs)) = map (\<lambda>(b, a). Fin ((a - b) * 100)) bas"
    and "list_all (\<lambda>c. cl_cost c \<noteq> None) (map (cross_leg_of contracts dflt) (map (quoted_leg_of quotes) legs))"
  using assms
  by (induction rule: list_all2_induct) (auto simp: List.map_filter_simps quoted_leg_two_sided cross_leg_of_def Let_def)

lemma two_sided_not_missing: "list_all2 (two_sided quotes n) legs bas \<Longrightarrow> list_all (\<lambda>q. ql_missing q = []) (map (quoted_leg_of quotes) legs)"
  by (induction rule: list_all2_induct) (auto simp: quoted_leg_two_sided)

lemma map2_diff_sum:
  assumes "list_all2 P legs bas"
  shows "sum_list (map2 mid_price legs bas) - sum_list (map2 close_price legs bas) = (\<Sum>(b, a)\<leftarrow>bas. (a - b) / 2)"
  using assms
proof (induction rule: list_all2_induct)
  case (Cons d ds ba bas)
  then show ?case using mid_minus_close [of d "fst ba" "snd ba"] by (cases ba) (simp add: field_simps)
qed simp

lemma foldl_fadd_list: "foldl fadd (Fin a) (map (\<lambda>x. Fin (g x)) xs) = Fin (a + (\<Sum>x\<leftarrow>xs. g x))"
  by (induction xs arbitrary: a) (simp_all add: algebra_simps)

lemma cross_contracts_two_sided:
  assumes "list_all2 (two_sided quotes n) legs bas" and "n \<noteq> 0"
  shows "rmap (\<lambda>d. rbind (cross_contracts quantity d) (\<lambda>k. Inr (leg_occ d, k))) legs = Inr (map (\<lambda>d. (leg_occ d, Fin (of_int \<bar>n\<bar>))) legs)"
  using assms by (induction rule: list_all2_induct) (auto simp: two_sided_def cross_contracts_def)

lemma finite_corroboration:
  assumes "list_all2 (two_sided quotes \<bar>n\<bar>) legs bas" and "distinct (map leg_occ legs)" and "legs \<noteq> []" and "n \<noteq> 0"
  shows "\<exists>v. compute_corroboration env ''target_profit'' None None (PInt n) PNone (map PDict legs) quotes tol = Inr v
    \<and> co_quotes v = map (quoted_leg_of quotes) legs \<and> co_complete v
    \<and> co_achievable v = Some (Fin (sum_list (map2 close_price legs bas)))"
proof -
  have dicts: "List.map_filter as_dict (map PDict ds) = ds" for ds by (induction ds) (simp_all add: List.map_filter_simps)
  have none: "finalize_mark (PInt n) PNone x c = finalize_mark (PInt n) (PFloat (Fin 0)) x c" for x c
    by (simp add: finalize_mark_def py_or_def num_truthy_def)
  obtain p where ach: "achievable quotes (PInt n) PNone legs = Inr (Some (Fin (sum_list (map2 close_price legs bas)), p))"
    using achievable_exact [OF assms, of 0] unfolding achievable_def none by blast
  show ?thesis
    using assms(3) two_sided_not_missing [OF assms(1)]
    by (auto simp: compute_corroboration_def dicts ach divergence_frac_def Let_def verdict_def)
qed

text \<open>
  On a structure whose legs all have a two-sided quote, the cost of a round trip
  is exactly twice the difference between its value at the mids, as the mark readers compute it,
  and its executable closing value; the latter is never above the former.
\<close>

theorem roundtrip_pays_the_spread_twice:
  assumes quotes: "list_all2 (two_sided quotes \<bar>n\<bar>) legs bas" and distinct: "distinct (map leg_occ legs)" and "legs \<noteq> []" and n: "n \<noteq> 0"
    and mids: "list_all2 (\<lambda>d (b, a). mid_for (leg_occ d) = Some (Fin ((b + a) / 2))) legs bas"
  shows "\<exists>mid exec v rt. compute_current_value mid_for (PInt n) (Fin 100) False (map PDict legs) = Inr (Some (Fin (100 * of_int \<bar>n\<bar> * mid)), [])
    \<and> compute_corroboration env ''target_profit'' None None (PInt n) PNone (map PDict legs) quotes default_tolerance = Inr v
    \<and> co_achievable v = Some (Fin exec) \<and> exec \<le> mid
    \<and> executable_roundtrip_cost env (map PDict legs) quotes (PInt n) = Inr rt
    \<and> rt_complete rt \<and> rt_total rt = Some (Fin (2 * (100 * of_int \<bar>n\<bar> * mid - 100 * of_int \<bar>n\<bar> * exec)))
    \<and> rt_per_contract rt = Some (Fin (2 * (100 * mid - 100 * exec)))"
proof -
  define mid exec where "mid = sum_list (map2 mid_price legs bas)" and "exec = sum_list (map2 close_price legs bas)"
  define gap :: rat where "gap = (\<Sum>(b, a)\<leftarrow>bas. (a - b) / 2)"
  have dicts: "List.map_filter as_dict (map PDict ds) = ds" for ds by (induction ds) (simp_all add: List.map_filter_simps)
  have gap: "mid - exec = gap" unfolding mid_def exec_def gap_def by (rule map2_diff_sum [OF quotes])
  have nonneg: "0 \<le> gap" unfolding gap_def using quotes
    by (induction rule: list_all2_induct) (auto simp: two_sided_def)
  have "list_all2 (\<lambda>d ba. two_sided quotes \<bar>n\<bar> d ba \<and> (case ba of (b, a) \<Rightarrow> mid_for (leg_occ d) = Some (Fin ((b + a) / 2)))) legs bas"
    using quotes mids by (simp add: list_all2_conv_all_nth)
  then have "list_all2 (priced_leg mid_for \<bar>n\<bar>) (map PDict legs) (map2 mid_price legs bas)"
    by (rule list_all2_map_indexed) (auto intro: mid_priced)
  then have value_mid: "compute_current_value mid_for (PInt n) (Fin 100) False (map PDict legs) = Inr (Some (Fin (100 * of_int \<bar>n\<bar> * mid)), [])"
    using priced_current_value [of mid_for n "map PDict legs"] \<open>legs \<noteq> []\<close> n by (simp add: mid_def)
  obtain v where v: "compute_corroboration env ''target_profit'' None None (PInt n) PNone (map PDict legs) quotes default_tolerance = Inr v"
    "co_quotes v = map (quoted_leg_of quotes) legs" "co_complete v" "co_achievable v = Some (Fin exec)"
    using finite_corroboration [OF quotes distinct \<open>legs \<noteq> []\<close> n] unfolding exec_def by blast
  define contracts where "contracts = map (\<lambda>d. (leg_occ d, Fin (of_int \<bar>\<bar>n\<bar>\<bar> :: rat))) legs"
  have known: "\<forall>d \<in> set legs. map_of (rev contracts) (leg_occ d) = Some (Fin (of_int \<bar>\<bar>n\<bar>\<bar>))"
    by (simp add: contracts_def rev_map map_of_constant)
  note cross = cross_legs_two_sided [OF quotes known]
  have sums: "(\<Sum>(b, a)\<leftarrow>bas. (a - b) * 100 * of_int \<bar>n\<bar>) = 2 * (100 * of_int \<bar>n\<bar> * mid - 100 * of_int \<bar>n\<bar> * exec)"
    "(\<Sum>(b, a)\<leftarrow>bas. (a - b) * 100) = 2 * (100 * mid - 100 * exec)"
    unfolding right_diff_distrib [symmetric] gap gap_def by (induction bas) (auto simp: algebra_simps)
  define cls where "cls = map (cross_leg_of contracts (Fin \<bar>of_int n\<bar>)) (map (quoted_leg_of quotes) legs)"
  have "rmap (\<lambda>d. rbind (cross_contracts (PInt n) d) (\<lambda>k. Inr (leg_occ d, k))) legs = Inr contracts"
    using cross_contracts_two_sided [OF quotes, of "PInt n"] n by (simp add: contracts_def)
  then have run: "executable_roundtrip_cost env (map PDict legs) quotes (PInt n) =
    (let ok = (cls \<noteq> [] \<and> list_all (\<lambda>c. cl_cost c \<noteq> None) cls)
     in Inr \<lparr>rt_total = (if ok then Some (foldl fadd (Fin 0) (List.map_filter cl_cost cls)) else None),
             rt_per_contract = (if ok then Some (foldl fadd (Fin 0) (List.map_filter cl_spread cls)) else None),
             rt_legs = cls, rt_complete = (co_complete v \<and> ok)\<rparr>)"
    by (simp only: executable_roundtrip_cost_def Let_def dicts v(1,2) rbind_simps py_float.simps sum.case fabs_Fin cls_def)
  have ok: "cls \<noteq> [] \<and> list_all (\<lambda>c. cl_cost c \<noteq> None) cls" using cross(3) \<open>legs \<noteq> []\<close> unfolding cls_def by simp
  have totals: "foldl fadd (Fin 0) (List.map_filter cl_cost cls) = Fin (2 * (100 * of_int \<bar>n\<bar> * mid - 100 * of_int \<bar>n\<bar> * exec))"
    "foldl fadd (Fin 0) (List.map_filter cl_spread cls) = Fin (2 * (100 * mid - 100 * exec))"
    unfolding cls_def cross(1,2) case_prod_beta foldl_fadd_list by (simp_all only: sums [unfolded case_prod_beta] add_0 abs_idempotent)
  define rt where "rt = \<lparr>rt_total = Some (Fin (2 * (100 * of_int \<bar>n\<bar> * mid - 100 * of_int \<bar>n\<bar> * exec))),
     rt_per_contract = Some (Fin (2 * (100 * mid - 100 * exec))), rt_legs = cls, rt_complete = True\<rparr>"
  have rt: "executable_roundtrip_cost env (map PDict legs) quotes (PInt n) = Inr rt" "rt_complete rt"
    "rt_total rt = Some (Fin (2 * (100 * of_int \<bar>n\<bar> * mid - 100 * of_int \<bar>n\<bar> * exec)))"
    "rt_per_contract rt = Some (Fin (2 * (100 * mid - 100 * exec)))"
    unfolding run Let_def totals rt_def using ok v(3) by simp_all
  show ?thesis using value_mid v rt gap nonneg by (intro exI conjI) auto
qed

subsection \<open>Suppression\<close>

lemma compute_corroboration_verdict:
  assumes "compute_corroboration env exit_type mark implied quantity avg items quotes tol = Inr v"
  shows "(co_suppress v, co_reason v) = verdict exit_type (co_complete v) (co_divergence_frac v) tol
    \<and> co_quotes v = map (quoted_leg_of quotes) (List.map_filter as_dict items)
    \<and> (co_complete v \<longleftrightarrow> co_quotes v \<noteq> [] \<and> (\<forall>q \<in> set (co_quotes v). ql_missing q = []))"
proof -
  let ?legs = "List.map_filter as_dict items"
  let ?full = "?legs \<noteq> [] \<and> list_all (\<lambda>q. ql_missing q = []) (map (quoted_leg_of quotes) ?legs)"
  obtain ach dfrac where "(if ?legs = [] then Inr None else achievable quotes quantity avg ?legs) = Inr ach"
    and dfrac: "divergence_frac env mark (map_option fst ach) = Inr dfrac"
    using assms unfolding compute_corroboration_def Let_def rbind_Inr_iff by blast
  obtain s r where sr: "verdict exit_type ?full dfrac tol = (s, r)" by fastforce
  have "co_suppress v = s \<and> co_reason v = r \<and> co_complete v = ?full \<and> co_divergence_frac v = dfrac \<and> co_quotes v = map (quoted_leg_of quotes) ?legs"
    using assms unfolding compute_corroboration_def Let_def \<open>_ = Inr ach\<close> rbind_simps dfrac sr prod.case by auto
  then show ?thesis using sr by (auto simp: list_all_iff)
qed

text \<open>
  A verdict suppresses exactly a profit target whose quotes are incomplete or whose mark
  diverges beyond the tolerance: never a stop. An error, of the quotes or of the arithmetic,
  suppresses nothing either.
\<close>

theorem only_targets_suppressed:
  assumes "observe_exit_mark env snapshot True pos exit_type mark implied = Some (suppressed, reason)"
  shows "suppressed \<longleftrightarrow> exit_type = ''target_profit''
    \<and> (\<exists>items quotes v. iter_items (dget pos ''legs'') = Inr items \<and> fetch_leg_quotes snapshot items = Inr quotes
         \<and> compute_corroboration env exit_type mark implied (dget pos ''quantity'') (dget pos ''avg_entry_price'') items quotes default_tolerance = Inr v
         \<and> (\<not> co_complete v \<or> (\<exists>x. co_divergence_frac v = Some x \<and> flt default_tolerance (fabs x))))"
proof -
  define r where "r = rbind (iter_items (dget pos ''legs'')) (\<lambda>items.
                 rbind (fetch_leg_quotes snapshot items) (\<lambda>quotes.
                   compute_corroboration env exit_type mark implied (dget pos ''quantity'') (dget pos ''avg_entry_price'')
                     items quotes default_tolerance))"
  have obs: "(suppressed, reason) = observed_suppression r" and gated: "exit_type \<in> set gated_exit_types"
    using assms by (auto simp: observe_exit_mark_def r_def Let_def split: if_splits)
  show ?thesis
  proof (cases r)
    case (Inl e)
    then have "\<not> suppressed" using obs by (simp add: observed_suppression_def)
    then show ?thesis using Inl by (fastforce simp: r_def)
  next
    case (Inr v)
    obtain items quotes where run: "iter_items (dget pos ''legs'') = Inr items" "fetch_leg_quotes snapshot items = Inr quotes"
      and v: "compute_corroboration env exit_type mark implied (dget pos ''quantity'') (dget pos ''avg_entry_price'') items quotes default_tolerance = Inr v"
      using Inr by (auto simp: r_def rbind_Inr_iff)
    have "suppressed = fst (verdict exit_type (co_complete v) (co_divergence_frac v) default_tolerance)"
      using obs compute_corroboration_verdict [OF v] unfolding Inr observed_suppression_def by (metis fst_conv prod.inject sum.case(2))
    then have "suppressed \<longleftrightarrow> exit_type = ''target_profit'' \<and> (\<not> co_complete v \<or> (\<exists>x. co_divergence_frac v = Some x \<and> flt default_tolerance (fabs x)))"
      by (auto simp: verdict_def split: option.splits)
    then show ?thesis using run v by simp
  qed
qed

text \<open>
  The profit that the exit conditions see: the executable one only when every leg is quoted on
  both sides, otherwise the stored one.
\<close>

lemma corroborated_exit_upl_cases:
  assumes "corroborated_exit_upl env snapshot pos = (x, basis)"
  shows "(basis = Corroborated \<longrightarrow> (\<exists>est. executable_close_estimate env snapshot pos = Inr est \<and> co_complete est \<and> co_implied est = Some x))
     \<and> (basis \<noteq> Corroborated \<longrightarrow> x = (case py_float (py_or (dget pos ''unrealized_pl'') (PFloat (Fin 0))) of Inl _ \<Rightarrow> Fin 0 | Inr x \<Rightarrow> x))"
proof (cases "executable_close_estimate env snapshot pos")
  case (Inl e)
  then show ?thesis using assms by (auto simp: corroborated_exit_upl_def)
next
  case (Inr est)
  then show ?thesis using assms unfolding corroborated_exit_upl_def
    by (cases "co_implied est"; cases "co_complete est"; simp; blast?)
qed

lemma unrealized_default: "py_float (py_or (dget pos ''unrealized_pl'') (PFloat (Fin 0))) = unrealized pos"
  by (cases "truthy (dget pos ''unrealized_pl'')") (simp_all add: unrealized_def)

text \<open>Only the profit changes, so the rest of what the stop reads stays.\<close>

lemma stop_reads_profit:
  assumes "unrealized pos = Inr x"
  shows "check_stop_loss xenv (dset pos ''unrealized_pl'' (PFloat x)) sl = check_stop_loss xenv pos sl"
proof -
  let ?p = "dset pos ''unrealized_pl'' (PFloat x)"
  have u: "unrealized ?p = Inr x" by (cases "x = Fin 0") (simp_all add: unrealized_def num_truthy_def)
  have same: "strategy_text ?p = strategy_text pos" "is_debit_spread ?p = is_debit_spread pos" "is_iron_condor ?p = is_iron_condor pos"
    "position_cost ?p = position_cost pos" "days_to_expiry xenv ?p = days_to_expiry xenv pos"
    by (simp_all add: strategy_text_def is_debit_spread_def is_iron_condor_def position_cost_def fun_eq_iff days_to_expiry_def nearest_expiry_def cong: if_cong option.case_cong)
  show ?thesis
    by (simp add: check_stop_loss_def fallback_stop_def effective_stop_def time_scaled_stop_def time_root_def u assms same Let_def cong: if_cong)
qed

text \<open>
  Missing quotes never clear a stop: when the quotes cannot be read, or a leg is not
  quoted on both sides, the stop fires on the corroborated position exactly when it fires on the
  stored profit.
\<close>

theorem missing_quotes_keep_the_stop:
  assumes "unrealized pos = Inr x"
    and "\<forall>est. executable_close_estimate env snapshot pos = Inr est \<longrightarrow> \<not> co_complete est"
    and "p \<in> set (corroborate_positions_for_exit env snapshot [pos])"
  shows "check_stop_loss xenv p sl = check_stop_loss xenv pos sl"
proof -
  obtain y basis where y: "corroborated_exit_upl env snapshot pos = (y, basis)" by fastforce
  have "basis \<noteq> Corroborated" using corroborated_exit_upl_cases [OF y] assms(2) by auto
  then have "y = x" using corroborated_exit_upl_cases [OF y] assms(1) by (simp add: unrealized_default)
  moreover have "p = dset pos ''unrealized_pl'' (PFloat y)" using assms(3) y by (simp add: corroborate_positions_for_exit_def)
  ultimately show ?thesis using stop_reads_profit [OF assms(1)] by simp
qed

subsection \<open>Concrete quotes\<close>

text \<open>The structure of a debit spread of five contracts, one leg of which may not be quoted.\<close>

definition sample_quote :: "rat \<Rightarrow> rat \<Rightarrow> pydict" where
  "sample_quote b a = [(''bid'', PFloat (Fin b)), (''ask'', PFloat (Fin a)), (''last'', PNone)]"

definition sample_book :: "quote_book" where
  "sample_book = map_of [(PStr ''callbuy'', sample_quote (29/10) (31/10)), (PStr ''callsell'', sample_quote 1 (3/2))]"

definition spread_legs :: "pydict list" where
  "spread_legs = [leg_dict ''call'' ''buy'' 100 5, leg_dict ''call'' ''sell'' 105 5]"

lemma sample_quotes:
  "dget (quote_of sample_book (PStr ''callbuy'')) ''bid'' = PFloat (Fin (29/10))" "dget (quote_of sample_book (PStr ''callbuy'')) ''ask'' = PFloat (Fin (31/10))"
  "dget (quote_of sample_book (PStr ''callsell'')) ''bid'' = PFloat (Fin 1)" "dget (quote_of sample_book (PStr ''callsell'')) ''ask'' = PFloat (Fin (3/2))"
  by (simp_all add: quote_of_def sample_book_def sample_quote_def dget_def)

lemma spread_legs_quoted: "list_all2 (two_sided sample_book \<bar>5\<bar>) spread_legs [(29/10, 31/10), (1, 3/2)]"
  by (simp add: spread_legs_def two_sided_def leg_dict_occ sample_quotes)

theorem roundtrip_pays_the_spread_twice_witness:
  "\<exists>mid exec rt. exec \<le> mid \<and> executable_roundtrip_cost (\<lambda>_. None) (map PDict spread_legs) sample_book (PInt 5) = Inr rt
     \<and> rt_total rt = Some (Fin (2 * (500 * mid - 500 * exec)))"
proof -
  have mids: "list_all2 (\<lambda>d (b, a). sample_mid (leg_occ d) = Some (Fin ((b + a) / 2))) spread_legs [(29/10, 31/10), (1, 3/2)]"
    by (simp add: spread_legs_def leg_dict_occ sample_mid_def)
  have "distinct (map leg_occ spread_legs)" "spread_legs \<noteq> []" by (simp_all add: spread_legs_def leg_dict_occ)
  from roundtrip_pays_the_spread_twice [OF spread_legs_quoted this _ mids, of "\<lambda>_. None"] show ?thesis by auto
qed

definition sample_pos :: pydict where
  "sample_pos = [(''legs'', PList (map PDict spread_legs)), (''quantity'', PInt 5), (''avg_entry_price'', PFloat (Fin 2)),
     (''unrealized_pl'', PFloat (Fin (- 600)))]"

definition dark_snapshot :: snapshot_fn where
  "dark_snapshot occs = Inr (\<lambda>_. PNone)"

definition dark_book :: quote_book where
  "dark_book = (\<lambda>occ. if occ = PStr ''callbuy'' \<or> occ = PStr ''callsell'' then Some [(''bid'', PNone), (''ask'', PNone), (''last'', PNone)] else None)"

lemma dark_quotes: "iter_items (dget sample_pos ''legs'') = Inr (map PDict spread_legs)"
  "fetch_leg_quotes dark_snapshot (map PDict spread_legs) = Inr dark_book"
proof -
  show "iter_items (dget sample_pos ''legs'') = Inr (map PDict spread_legs)"
    by (simp add: sample_pos_def dget_def iter_items_def spread_legs_def)
  have "map_of [(PStr ''callbuy'', none), (PStr ''callsell'', none)] = (\<lambda>occ. if occ = PStr ''callbuy'' \<or> occ = PStr ''callsell'' then Some none else None)"
    for none :: pydict by (auto simp: fun_eq_iff)
  moreover have "dget [] k = PNone" for k by (simp add: dget_def)
  ultimately show "fetch_leg_quotes dark_snapshot (map PDict spread_legs) = Inr dark_book"
    by (simp add: fetch_leg_quotes_def spread_legs_def List.map_filter_simps leg_dict_occ dark_snapshot_def snapshot_quote_def
        dark_book_def del: map_of.simps)
qed

lemma dark_corroboration:
  "compute_corroboration env exit_type m p (PInt n) avg (map PDict spread_legs) dark_book tol =
     Inr \<lparr>co_quotes = map (quoted_leg_of dark_book) spread_legs, co_complete = False, co_achievable = None, co_implied = None,
          co_divergence_abs = None, co_divergence_frac = None, co_width = spread_width spread_legs,
          co_suppress = fst (verdict exit_type False None tol), co_reason = snd (verdict exit_type False None tol)\<rparr>"
proof -
  have dark: "executable_for dark_book spread_legs (PStr ''callbuy'') = None" "executable_for dark_book spread_legs (PStr ''callsell'') = None"
    by (cases "find (\<lambda>d. leg_occ d = PStr ''callbuy'') (rev spread_legs)";
        simp add: executable_for_def quote_of_def dark_book_def dget_def quote_num_def positive_only_def Let_def)
      (cases "find (\<lambda>d. leg_occ d = PStr ''callsell'') (rev spread_legs)";
        simp add: executable_for_def quote_of_def dark_book_def dget_def quote_num_def positive_only_def Let_def)
  have "mark_leg (executable_for dark_book spread_legs) q c (PDict (leg_dict ''call'' ''buy'' 100 5)) = Inr (FailedLeg (PStr ''callbuy''))"
    "mark_leg (executable_for dark_book spread_legs) q c (PDict (leg_dict ''call'' ''sell'' 105 5)) = Inr (FailedLeg (PStr ''callsell''))" for q c
    using dark by (simp_all add: mark_leg_def leg_dict_occ)
  then have "achievable dark_book (PInt n) avg spread_legs = Inr None"
    by (simp add: achievable_def compute_current_value_def failed_legs_def List.map_filter_simps) (simp add: spread_legs_def failed_legs_def List.map_filter_simps)
  moreover have "ql_missing (quoted_leg_of dark_book (leg_dict ''call'' ''buy'' 100 5)) \<noteq> []"
    by (simp add: quoted_leg_of_def Let_def leg_dict_occ quote_of_def dark_book_def dget_def quote_num_def)
  moreover have "List.map_filter as_dict (map PDict spread_legs) = spread_legs" by (simp add: spread_legs_def List.map_filter_simps)
  ultimately show ?thesis
    by (cases m; cases p; simp add: compute_corroboration_def divergence_frac_def Let_def case_prod_beta) (simp_all add: spread_legs_def)
qed

theorem only_targets_suppressed_witness:
  "observe_exit_mark (\<lambda>_. None) dark_snapshot True sample_pos ''target_profit'' (Some (Fin 3)) (Some (Fin 500)) = Some (True, QuoteIncomplete)
   \<and> observe_exit_mark (\<lambda>_. None) dark_snapshot True sample_pos ''stop_loss'' (Some (Fin 3)) (Some (Fin 500)) = Some (False, StopLossNever)"
proof -
  have qty: "dget sample_pos ''quantity'' = PInt 5" by (simp add: sample_pos_def dget_def)
  have run: "observe_exit_mark (\<lambda>_. None) dark_snapshot True sample_pos ''target_profit'' (Some (Fin 3)) (Some (Fin 500)) = Some (True, QuoteIncomplete)"
    "observe_exit_mark (\<lambda>_. None) dark_snapshot True sample_pos ''stop_loss'' (Some (Fin 3)) (Some (Fin 500)) = Some (False, StopLossNever)"
    using dark_quotes by (simp_all add: observe_exit_mark_def gated_exit_types_def dark_corroboration qty verdict_def observed_suppression_def)
  show ?thesis using only_targets_suppressed [OF run(1)] only_targets_suppressed [OF run(2)] run by simp
qed

definition quiet_xenv :: exit_env where
  "quiet_xenv = \<lparr>xe_today = \<lparr>d_year = 2026, d_month = 7, d_day = 20\<rparr>, xe_iso = (\<lambda>_. None), xe_root = (\<lambda>r. r), xe_scaling = False,
     xe_floor = Fin (3/10), xe_tp = Fin (35/100), xe_sl = Fin (1/2), xe_min_dte = 10\<rparr>"

theorem missing_quotes_keep_the_stop_witness:
  "check_stop_loss quiet_xenv (dset sample_pos ''unrealized_pl'' (PFloat (fst (corroborated_exit_upl (\<lambda>_. None) dark_snapshot sample_pos)))) (Fin (1/2))
     = check_stop_loss quiet_xenv sample_pos (Fin (1/2))"
proof (rule missing_quotes_keep_the_stop)
  show "unrealized sample_pos = Inr (Fin (- 600))" by code_simp
  have "dget sample_pos ''quantity'' = PInt 5" by (simp add: sample_pos_def dget_def)
  then have "\<exists>est. executable_close_estimate (\<lambda>_. None) dark_snapshot sample_pos = Inr est \<and> \<not> co_complete est"
    using dark_quotes by (auto simp: executable_close_estimate_def dark_corroboration)
  then show "\<forall>est. executable_close_estimate (\<lambda>_. None) dark_snapshot sample_pos = Inr est \<longrightarrow> \<not> co_complete est" by auto
qed (simp add: corroborate_positions_for_exit_def)

end
