(* ===== verification/Close_Guard.thy ===== *)
theory Close_Guard
  imports Broker_Orders Corroboration
begin

section \<open>What may block, defer or route a close\<close>

text \<open>
  Model of the guards around a close in \<open>services/paper_exit_evaluator.py\<close> (which existing orders
  block a new close, the close reason, the limit and its direction, the corroboration of the
  limit) and of the routing decisions in \<open>brokers/execution_router.py\<close>.

  Instants are rational seconds; the reader of timestamps is a parameter that includes the
  normalization of the text. The process environment is a map. A period from the environment is
  exact, where the library rounds it to microseconds and has an upper limit.
\<close>

subsection \<open>Settings\<close>

text \<open>A switch that is on unless it is set to an explicit off value.\<close>

definition default_on :: "string option \<Rightarrow> bool" where
  "default_on raw =
     (let t = str_strip (case raw of None \<Rightarrow> [] | Some s \<Rightarrow> s)
      in t = [] \<or> str_lower t \<notin> {''0'', ''false'', ''no'', ''off''})"

definition env_num :: "environ \<Rightarrow> string \<Rightarrow> rat \<Rightarrow> pynum" where
  "env_num env k d = (case env k of None \<Rightarrow> Fin d | Some s \<Rightarrow> (case float_of_str s of None \<Rightarrow> Fin d | Some x \<Rightarrow> x))"

definition env_count :: "environ \<Rightarrow> string \<Rightarrow> int \<Rightarrow> int" where
  "env_count env k d = (case env k of None \<Rightarrow> d | Some s \<Rightarrow> (case int_of_str s of None \<Rightarrow> d | Some n \<Rightarrow> n))"

definition close_rearm_enabled :: "environ \<Rightarrow> bool" where
  "close_rearm_enabled env = default_on (env ''CLOSE_REARM_ENABLED'')"

definition close_rearm_window_minutes :: "environ \<Rightarrow> pynum" where
  "close_rearm_window_minutes env = env_num env ''CLOSE_REARM_WINDOW_MINUTES'' 30"

definition close_rearm_retry_budget :: "environ \<Rightarrow> int" where
  "close_rearm_retry_budget env = env_count env ''CLOSE_REARM_RETRY_BUDGET'' 3"

definition close_rearm_budget_window_hours :: "environ \<Rightarrow> pynum" where
  "close_rearm_budget_window_hours env = env_num env ''CLOSE_REARM_BUDGET_WINDOW_HOURS'' 4"

text \<open>\<open>timedelta\<close> of a number of units.\<close>

definition period :: "rat \<Rightarrow> pynum \<Rightarrow> pyexn + rat" where
  "period unit x = (case x of Fin q \<Rightarrow> Inr (unit * q) | NaN \<Rightarrow> Inl ValueError | _ \<Rightarrow> Inl OverflowError)"

subsection \<open>Orders that block a close\<close>

definition is_gtc_profit_exit_order :: "pydict \<Rightarrow> pyexn + bool" where
  "is_gtc_profit_exit_order row =
     rbind (order_json_of row) (\<lambda>oj.
       Inr (dget oj ''source_engine'' = PStr ''gtc_profit_exit'' \<or> dget oj ''order_class'' = PStr ''intentional_resting_exit''))"

definition stamp_time :: "(string \<Rightarrow> rat option) \<Rightarrow> pyval \<Rightarrow> rat option" where
  "stamp_time parse v = (if truthy v then Option.bind (py_text v) parse else None)"

definition terminal_failed_time :: "(string \<Rightarrow> rat option) \<Rightarrow> pydict \<Rightarrow> rat option" where
  "terminal_failed_time parse row =
     (case stamp_time parse (dget row ''cancelled_at'') of
        Some t \<Rightarrow> Some t | None \<Rightarrow> stamp_time parse (dget row ''created_at''))"

definition terminal_failed :: "pydict \<Rightarrow> bool" where
  "terminal_failed row = (dget row ''status'' = PStr ''cancelled'')"

text \<open>A row whose time cannot be read counts as fresh.\<close>

definition is_recent :: "(string \<Rightarrow> rat option) \<Rightarrow> rat \<Rightarrow> rat \<Rightarrow> pydict \<Rightarrow> bool" where
  "is_recent parse now w row = (case terminal_failed_time parse row of None \<Rightarrow> True | Some t \<Rightarrow> now - t \<le> w)"

definition blocking_candidates :: "pydict list \<Rightarrow> pyexn + pydict list" where
  "blocking_candidates rows =
     rbind (rmap (\<lambda>r. rbind (is_gtc_profit_exit_order r) (\<lambda>g. Inr (r, g))) rows) (\<lambda>ps.
       Inr (map fst (filter (\<lambda>p. \<not> snd p) ps)))"

definition filter_blocking_close_orders :: "environ \<Rightarrow> (string \<Rightarrow> rat option) \<Rightarrow> rat \<Rightarrow> pydict list \<Rightarrow> pyexn + pydict list" where
  "filter_blocking_close_orders env parse now rows =
     rbind (blocking_candidates rows) (\<lambda>candidates.
       if \<not> close_rearm_enabled env then Inr candidates
       else
         (let failed = filter terminal_failed candidates;
              blocking = filter (\<lambda>r. \<not> terminal_failed r) candidates
          in if failed = [] then Inr blocking
             else rbind (period 60 (close_rearm_window_minutes env)) (\<lambda>w.
                  rbind (period 3600 (close_rearm_budget_window_hours env)) (\<lambda>bw.
                    let fresh = filter (is_recent parse now w) failed;
                        recent = filter (is_recent parse now bw) failed
                    in Inr (blocking @ (if close_rearm_retry_budget env \<le> int (length recent) then failed else fresh))))))"

datatype rearm_alert = BlockedByReview pyval | ProtectionDisarmed nat

definition rearm_alerts :: "environ \<Rightarrow> (string \<Rightarrow> rat option) \<Rightarrow> rat \<Rightarrow> pydict list \<Rightarrow> rearm_alert list" where
  "rearm_alerts env parse now rows =
     (case blocking_candidates rows of
        Inl _ \<Rightarrow> []
      | Inr candidates \<Rightarrow>
          if \<not> close_rearm_enabled env then []
          else map (\<lambda>r. BlockedByReview (dget r ''id'')) (filter (\<lambda>r. dget r ''status'' = PStr ''needs_manual_review'') candidates)
            @ (case rbind (period 60 (close_rearm_window_minutes env)) (\<lambda>_. period 3600 (close_rearm_budget_window_hours env)) of
                 Inl _ \<Rightarrow> []
               | Inr bw \<Rightarrow>
                   (let failed = filter terminal_failed candidates; n = length (filter (is_recent parse now bw) failed)
                    in if failed \<noteq> [] \<and> close_rearm_retry_budget env \<le> int n then [ProtectionDisarmed n] else [])))"

text \<open>The throttle of these alerts: one per key and hour in a process.\<close>

definition throttle_alert :: "rat \<Rightarrow> string \<Rightarrow> (string \<times> rat) list \<Rightarrow> bool \<times> (string \<times> rat) list" where
  "throttle_alert now key seen =
     (case map_of seen key of
        Some t \<Rightarrow> if now - t < 3600 then (False, seen) else (True, (key, now) # seen)
      | None \<Rightarrow> (True, (key, now) # seen))"

subsection \<open>Reasons\<close>

definition reason_map :: "(string \<times> string) list" where
  "reason_map =
     [(''target_profit'', ''target_profit_hit''), (''target_profit_hit'', ''target_profit_hit''),
      (''stop_loss'', ''stop_loss_hit''), (''stop_loss_hit'', ''stop_loss_hit''),
      (''dte_threshold'', ''dte_threshold''), (''expiration_day'', ''expiration_day'')]"

definition starts_with :: "string \<Rightarrow> string \<Rightarrow> bool" where
  "starts_with p s = (take (length p) s = p)"

definition map_close_reason :: "string option \<Rightarrow> string option" where
  "map_close_reason raw =
     (case raw of
        None \<Rightarrow> None
      | Some r \<Rightarrow>
          (let s = str_strip r
           in if s = [] then None
              else if starts_with ''risk_envelope:'' s then Some ''envelope_force_close''
              else map_of reason_map s))"

definition detail_rules :: "(string \<times> string) list" where
  "detail_rules =
     [(''target_profit'', ''take_profit''), (''per_symbol'', ''symbol_envelope''), (''concentration'', ''concentration''),
      (''stress'', ''stress''), (''daily'', ''daily_brake''), (''weekly'', ''weekly_brake''), (''stop_loss'', ''stop_loss''),
      (''expiration'', ''expiration_day''), (''dte'', ''dte_threshold''), (''manual'', ''manual''), (''orphan'', ''orphan_repair'')]"

definition close_reason_detail :: "string option \<Rightarrow> string" where
  "close_reason_detail raw =
     (let s = str_lower (str_strip (case raw of None \<Rightarrow> [] | Some r \<Rightarrow> r))
      in if s = [] then ''reconciler_unknown''
         else (case find (\<lambda>rule. contains (fst rule) s) detail_rules of
             Some rule \<Rightarrow> snd rule | None \<Rightarrow> ''reconciler_unknown''))"

subsection \<open>The price of a close\<close>

definition close_limit_and_direction :: "pynum \<Rightarrow> pynum \<Rightarrow> nat \<Rightarrow> pynum \<times> bool" where
  "close_limit_and_direction exit_price qty n_legs = (fabs exit_price, flt (Fin 0) qty \<and> 2 \<le> n_legs)"

datatype fill_quality = Executable | PartialQuote | MidQuoteMissing | MidError

definition select_internal_fill_price :: "environ \<Rightarrow> snapshot_fn \<Rightarrow> pydict \<Rightarrow> pynum \<Rightarrow> pynum \<times> fill_quality" where
  "select_internal_fill_price env snapshot pos mid =
     (case executable_close_estimate env snapshot pos of
        Inl _ \<Rightarrow> (mid, MidError)
      | Inr est \<Rightarrow>
          (case co_achievable est of
             Some x \<Rightarrow> (x, if co_complete est then Executable else PartialQuote)
           | None \<Rightarrow> (mid, MidQuoteMissing)))"

definition close_quote_validation_enabled :: "environ \<Rightarrow> bool" where
  "close_quote_validation_enabled env = default_on (env ''CLOSE_QUOTE_VALIDATION_ENABLED'')"

datatype close_stage = StageExecutable pynum fill_quality | Defer | StageMark

definition corroborate_close_stage :: "environ \<Rightarrow> snapshot_fn \<Rightarrow> pydict \<Rightarrow> close_stage" where
  "corroborate_close_stage env snapshot pos =
     (case executable_close_estimate env snapshot pos of
        Inl _ \<Rightarrow> StageMark
      | Inr est \<Rightarrow>
          (case co_achievable est of
             Some x \<Rightarrow> StageExecutable x (if co_complete est then Executable else PartialQuote)
           | None \<Rightarrow> Defer))"

definition close_stuck_escalate_cycles :: "environ \<Rightarrow> bool \<Rightarrow> int" where
  "close_stuck_escalate_cycles env is_stop =
     (if is_stop then env_count env ''CLOSE_STUCK_ESCALATE_STOP_CYCLES'' 2
      else env_count env ''CLOSE_STUCK_ESCALATE_TP_CYCLES'' 4)"

text \<open>A deferred close escalates when it and the earlier deferrals in the window reach the threshold.\<close>

definition defer_escalates :: "environ \<Rightarrow> string \<Rightarrow> nat option \<Rightarrow> bool" where
  "defer_escalates env reason prior =
     (close_stuck_escalate_cycles env (\<not> contains ''target_profit'' (str_lower reason))
        \<le> int (case prior of None \<Rightarrow> 0 | Some n \<Rightarrow> n) + 1)"

subsection \<open>Routing\<close>

datatype execution_mode = Internal_Paper | Alpaca_Paper | Alpaca_Live | Shadow

definition execution_modes :: "(string \<times> execution_mode) list" where
  "execution_modes = [(''internal_paper'', Internal_Paper), (''alpaca_paper'', Alpaca_Paper), (''alpaca_live'', Alpaca_Live), (''shadow'', Shadow)]"

definition live_enabled :: "environ \<Rightarrow> bool" where
  "live_enabled env = (str_lower (case env ''LIVE_ENABLED'' of None \<Rightarrow> [] | Some s \<Rightarrow> s) \<in> {''true'', ''1''})"

definition get_execution_mode :: "environ \<Rightarrow> execution_mode" where
  "get_execution_mode env =
     (case map_of execution_modes (str_strip (str_lower (case env ''EXECUTION_MODE'' of None \<Rightarrow> ''internal_paper'' | Some s \<Rightarrow> s))) of
        None \<Rightarrow> Internal_Paper
      | Some m \<Rightarrow> if m = Alpaca_Live \<and> \<not> live_enabled env then Alpaca_Paper else m)"

definition is_single_leg_experiment :: "pydict \<Rightarrow> bool" where
  "is_single_leg_experiment d =
     (token_of (py_or (py_or (dget d ''experiment'') (dget d ''strategy_experiment'')) (PStr [])) = Some ''single_leg'')"

definition single_leg_strategy :: "pydict \<Rightarrow> bool" where
  "single_leg_strategy d =
     list_ex (\<lambda>k. case dget d k of PStr s \<Rightarrow> str_lower (str_strip s) \<in> {''long_call'', ''long_put''} | _ \<Rightarrow> False)
       [''strategy'', ''strategy_key'', ''strategy_type'']"

definition is_single_leg_experiment_row :: "pydict \<Rightarrow> bool" where
  "is_single_leg_experiment_row d =
     (let oj = (case dget d ''order_json'' of PDict j \<Rightarrow> j | _ \<Rightarrow> [])
      in d \<noteq> [] \<and> (is_single_leg_experiment d \<or> (oj \<noteq> [] \<and> is_single_leg_experiment oj) \<or> single_leg_strategy d \<or> (oj \<noteq> [] \<and> single_leg_strategy oj)))"

text \<open>The routing mode of the portfolio, if it has a row, and whether reading it succeeds.\<close>

definition should_submit_to_broker :: "bool \<Rightarrow> string option \<Rightarrow> pydict option \<Rightarrow> bool" where
  "should_submit_to_broker read_ok routing order =
     (if (case order of None \<Rightarrow> False | Some d \<Rightarrow> is_single_leg_experiment_row d) then False
      else read_ok \<and> routing = Some ''live_eligible'')"

text \<open>The older guard of the same experiment, which raises instead.\<close>

definition assert_single_leg_shadow_only :: "pydict \<Rightarrow> string option \<Rightarrow> string option \<Rightarrow> pyexn + unit" where
  "assert_single_leg_shadow_only d mode routing =
     (let norm = (\<lambda>x. str_lower (str_strip (case x of None \<Rightarrow> [] | Some s \<Rightarrow> s)))
      in if \<not> is_single_leg_experiment d then Inr ()
         else if token_of (py_or (dget d ''routing'') (PStr [])) \<noteq> Some ''shadow_only'' then Inl RuntimeError
         else if norm mode \<in> {''alpaca_paper'', ''alpaca_live''} \<or> norm routing = ''live_eligible'' then Inl RuntimeError
         else Inr ())"

end
