(* ===== verification/Internal_Commit.thy ===== *)
theory Internal_Commit
  imports Position_Close
begin

section \<open>The atomic commit of an internal close\<close>

text \<open>
  Model of the database function \<open>rpc_commit_internal_close_v1\<close> (migration
  \<open>20260720120000\<close>), which books a close that no broker fills: it marks the close order filled,
  moves the portfolio's cash, writes one ledger event and closes the position, or raises and
  changes nothing.

  Rows are dictionaries, as the client library shows them; an id is a text and unique. SQL's
  \<open>a <> b\<close> is not true when a side is null, and \<open>IS DISTINCT FROM\<close> is. The row locks make the
  function one step. The event's description and trace id are left out.
\<close>

record cash_event =
  ce_id :: nat
  ce_user :: string
  ce_portfolio :: string
  ce_order :: string
  ce_position :: string
  ce_kind :: string
  ce_amount :: pynum
  ce_balance :: pynum
  ce_side :: string
  ce_qty :: pynum
  ce_price :: rat
  ce_symbol :: pyval
  ce_source :: string
  ce_reason :: string
  ce_key :: string
  ce_quality :: "string option"
  ce_mid :: "rat option"

record close_book =
  cb_desk :: desk
  cb_portfolios :: "pydict list"
  cb_ledger :: "cash_event list"

abbreviation cb_positions :: "close_book \<Rightarrow> pydict list" where
  "cb_positions bk \<equiv> dk_positions (cb_desk bk)"

abbreviation cb_orders :: "close_book \<Rightarrow> pydict list" where
  "cb_orders bk \<equiv> dk_orders (cb_desk bk)"

datatype commit_error =
    IdentifyingIdsRequired | IdempotencyKeyRequired | ReasonSourceSideRequired | FillInputsRequired
  | RealizedPlRequired | NonFiniteInput | InvalidCloseReason | InvalidFillSource | InvalidCloseSide
  | NonpositiveMagnitude | NonpositiveQty | NonpositiveMultiplier
  | PositionMissing | OrderMissing | PortfolioMissing
  | PositionOwnership | OrderOwnership | LinkageMismatch | PortfolioOwnership | LiveOrderForbidden
  | IdempotencyConflict | CommitAlreadyClosed | PositionNotOpen | ZeroQuantity | SideMismatch | FillQtyMismatch
  | DuplicateFill | NotNullViolation | CommitKeyTaken | CloseCasFailed

subsection \<open>The arguments\<close>

record close_commit =
  cc_user :: "string option"
  cc_portfolio :: "string option"
  cc_position :: "string option"
  cc_order :: "string option"
  cc_key :: "string option"
  cc_reason :: "string option"
  cc_source :: "string option"
  cc_side :: "string option"
  cc_qty :: "pynum option"
  cc_price :: "pynum option"
  cc_realized :: "pynum option"
  cc_multiplier :: "pynum option"
  cc_quality :: "string option"
  cc_mid :: "pynum option"

record commit_input =
  cx_user :: string
  cx_portfolio :: string
  cx_position :: string
  cx_order :: string
  cx_key :: string
  cx_reason :: string
  cx_source :: string
  cx_side :: string
  cx_qty :: rat
  cx_price :: rat
  cx_realized :: rat
  cx_multiplier :: rat
  cx_quality :: "string option"
  cx_mid :: "rat option"

definition required :: "'e \<Rightarrow> 'a option \<Rightarrow> 'e + 'a" where
  "required e x = (case x of None \<Rightarrow> Inl e | Some y \<Rightarrow> Inr y)"

definition require :: "bool \<Rightarrow> 'e \<Rightarrow> 'e + unit" where
  "require b e = (if b then Inr () else Inl e)"

definition finite_arg :: "pynum \<Rightarrow> commit_error + rat" where
  "finite_arg x = (case x of Fin q \<Rightarrow> Inr q | _ \<Rightarrow> Inl NonFiniteInput)"

text \<open>\<open>btrim(s) = ''\<close> removes blanks only.\<close>

definition only_blanks :: "string \<Rightarrow> bool" where
  "only_blanks s = list_all (\<lambda>c. c = CHR '' '') s"

definition commit_inputs :: "close_commit \<Rightarrow> commit_error + commit_input" where
  "commit_inputs c =
     rbind (required IdentifyingIdsRequired (cc_user c)) (\<lambda>u.
     rbind (required IdentifyingIdsRequired (cc_portfolio c)) (\<lambda>f.
     rbind (required IdentifyingIdsRequired (cc_position c)) (\<lambda>p.
     rbind (required IdentifyingIdsRequired (cc_order c)) (\<lambda>r.
     rbind (required IdempotencyKeyRequired (cc_key c)) (\<lambda>key.
     rbind (require (\<not> only_blanks key) IdempotencyKeyRequired) (\<lambda>_.
     rbind (required ReasonSourceSideRequired (cc_reason c)) (\<lambda>reason.
     rbind (required ReasonSourceSideRequired (cc_source c)) (\<lambda>source.
     rbind (required ReasonSourceSideRequired (cc_side c)) (\<lambda>side.
     rbind (required FillInputsRequired (cc_qty c)) (\<lambda>qty0.
     rbind (required FillInputsRequired (cc_price c)) (\<lambda>price0.
     rbind (required FillInputsRequired (cc_multiplier c)) (\<lambda>mult0.
     rbind (required RealizedPlRequired (cc_realized c)) (\<lambda>pl0.
     rbind (finite_arg price0) (\<lambda>price.
     rbind (finite_arg mult0) (\<lambda>mult1.
     rbind (finite_arg qty0) (\<lambda>qty.
     rbind (finite_arg pl0) (\<lambda>pl.
     rbind (case cc_mid c of None \<Rightarrow> Inr None | Some x \<Rightarrow> rbind (finite_arg x) (\<lambda>m. Inr (Some m))) (\<lambda>mid.
     rbind (require (reason \<in> set valid_close_reasons) InvalidCloseReason) (\<lambda>_.
     rbind (require (source \<in> set valid_fill_sources) InvalidFillSource) (\<lambda>_.
     rbind (require (side \<in> {''buy'', ''sell''}) InvalidCloseSide) (\<lambda>_.
     rbind (require (0 < price) NonpositiveMagnitude) (\<lambda>_.
     rbind (require (0 < qty) NonpositiveQty) (\<lambda>_.
     rbind (require (0 < mult1) NonpositiveMultiplier) (\<lambda>_.
       Inr \<lparr>cx_user = u, cx_portfolio = f, cx_position = p, cx_order = r, cx_key = key, cx_reason = reason,
            cx_source = source, cx_side = side, cx_qty = qty, cx_price = price, cx_realized = pl, cx_multiplier = mult1,
            cx_quality = cc_quality c, cx_mid = mid\<rparr>))))))))))))))))))))))))"

subsection \<open>Reading the locked rows\<close>

definition sql_num :: "pyval \<Rightarrow> pynum option" where
  "sql_num v = (case v of PInt n \<Rightarrow> Some (Fin (of_int n)) | PFloat x \<Rightarrow> Some x | PDec x \<Rightarrow> Some x | _ \<Rightarrow> None)"

definition sql_ne :: "pyval \<Rightarrow> string \<Rightarrow> bool" where
  "sql_ne v s = (v \<noteq> PNone \<and> v \<noteq> PStr s)"

definition find_row :: "string \<Rightarrow> pydict list \<Rightarrow> pydict option" where
  "find_row i rows = find (\<lambda>r. row_id r = PStr i) rows"

definition commit_linked :: "commit_input \<Rightarrow> pydict \<Rightarrow> pydict \<Rightarrow> pydict \<Rightarrow> commit_error + unit" where
  "commit_linked i p r f =
     rbind (require (\<not> (sql_ne (dget p ''user_id'') (cx_user i) \<or> sql_ne (dget p ''portfolio_id'') (cx_portfolio i))) PositionOwnership) (\<lambda>_.
     rbind (require (\<not> (sql_ne (dget r ''user_id'') (cx_user i) \<or> sql_ne (dget r ''portfolio_id'') (cx_portfolio i))) OrderOwnership) (\<lambda>_.
     rbind (require (dget r ''position_id'' = PStr (cx_position i)) LinkageMismatch) (\<lambda>_.
     rbind (require (\<not> sql_ne (dget f ''user_id'') (cx_user i)) PortfolioOwnership) (\<lambda>_.
     rbind (require (dget r ''execution_mode'' \<noteq> PStr ''alpaca_live'') LiveOrderForbidden) (\<lambda>_.
       require (dget f ''routing_mode'' = PStr ''shadow_only'') LiveOrderForbidden)))))"

definition committed_row :: "pydict \<Rightarrow> bool" where
  "committed_row r \<longleftrightarrow> dget r ''internal_close_committed_at'' \<noteq> PNone"

definition fill_of :: "string \<Rightarrow> cash_event \<Rightarrow> bool" where
  "fill_of order_id e \<longleftrightarrow> ce_order e = order_id \<and> ce_kind e = ''fill''"

text \<open>PostgreSQL orders NaN above every number.\<close>

definition sql_positive :: "pynum \<Rightarrow> bool" where
  "sql_positive x \<longleftrightarrow> x = NaN \<or> flt (Fin 0) x"

text \<open>The quantity, the movement of cash and the new balance, all from the locked rows.\<close>

definition commit_amounts ::
  "commit_input \<Rightarrow> pydict \<Rightarrow> pydict \<Rightarrow> pydict list \<Rightarrow> cash_event list \<Rightarrow> commit_error + pynum \<times> pynum \<times> pynum" where
  "commit_amounts i p f orders events =
     rbind (require (dget p ''status'' \<noteq> PStr ''closed'') CommitAlreadyClosed) (\<lambda>_.
     rbind (require (dget p ''status'' = PStr ''open'') PositionNotOpen) (\<lambda>_.
     rbind (required NotNullViolation (sql_num (dget p ''quantity''))) (\<lambda>q.
     rbind (require (q \<noteq> Fin 0) ZeroQuantity) (\<lambda>_.
     rbind (require (cx_side i = (if sql_positive q then ''sell'' else ''buy'')) SideMismatch) (\<lambda>_.
     rbind (require (Fin (cx_qty i) = fabs q) FillQtyMismatch) (\<lambda>_.
     rbind (required NotNullViolation (sql_num (dget f ''cash_balance''))) (\<lambda>cash.
     rbind (require (\<not> list_ex (fill_of (cx_order i)) events) DuplicateFill) (\<lambda>_.
     rbind (require (\<not> list_ex (\<lambda>r. row_id r \<noteq> PStr (cx_order i) \<and> dget r ''internal_close_commit_key'' = PStr (cx_key i)) orders)
       CommitKeyTaken) (\<lambda>_.
       let delta = fmul (fmul (fmul (Fin (if sql_positive q then 1 else - 1)) (Fin (cx_price i))) (fabs q)) (Fin (cx_multiplier i))
       in Inr (fabs q, delta, fadd cash delta))))))))))"

subsection \<open>The writes\<close>

text \<open>\<open>round(x, 2)\<close> of a positive numeric: ties go up.\<close>

definition sql_round2 :: "rat \<Rightarrow> rat" where
  "sql_round2 x = of_int \<lfloor>100 * x + 1/2\<rfloor> / 100"

text \<open>\<open>a || b\<close> where b is an object.\<close>

definition jsonb_concat :: "pyval \<Rightarrow> (string \<times> pyval) list \<Rightarrow> pyval" where
  "jsonb_concat a b = (case a of PDict d \<Rightarrow> PDict (dset_all b d) | PList xs \<Rightarrow> PList (xs @ [PDict b]) | v \<Rightarrow> PList [v, PDict b])"

definition provenance :: "commit_input \<Rightarrow> pyval \<Rightarrow> pyval" where
  "provenance i oj =
     jsonb_concat
       (jsonb_concat (if oj = PNone then PDict [] else oj)
         (case cx_quality i of None \<Rightarrow> [] | Some t \<Rightarrow> [(''fill_quality'', PStr t)]))
       (case cx_mid i of None \<Rightarrow> [] | Some m \<Rightarrow> [(''fill_mid_reference'', PFloat (Fin m))])"

definition commit_order :: "string \<Rightarrow> commit_input \<Rightarrow> pynum \<Rightarrow> pydict \<Rightarrow> pydict" where
  "commit_order now i qty r =
     dset_all [(''status'', PStr ''filled''), (''filled_qty'', PDec qty), (''avg_fill_price'', PDec (Fin (sql_round2 (cx_price i)))),
       (''fees_usd'', PInt 0), (''side'', PStr (cx_side i)),
       (''submitted_at'', if dget r ''submitted_at'' = PNone then PStr now else dget r ''submitted_at''),
       (''filled_at'', PStr now), (''internal_close_committed_at'', PStr now), (''internal_close_commit_key'', PStr (cx_key i)),
       (''order_json'', provenance i (dget r ''order_json''))] r"

definition commit_event :: "commit_input \<Rightarrow> pydict \<Rightarrow> nat \<Rightarrow> pynum \<Rightarrow> pynum \<Rightarrow> pynum \<Rightarrow> cash_event" where
  "commit_event i p n qty delta cash =
     \<lparr>ce_id = n, ce_user = cx_user i, ce_portfolio = cx_portfolio i, ce_order = cx_order i, ce_position = cx_position i,
      ce_kind = ''fill'', ce_amount = delta, ce_balance = cash, ce_side = cx_side i, ce_qty = qty, ce_price = cx_price i,
      ce_symbol = dget p ''symbol'', ce_source = cx_source i, ce_reason = cx_reason i, ce_key = cx_key i,
      ce_quality = cx_quality i, ce_mid = cx_mid i\<rparr>"

definition commit_writes ::
  "string \<Rightarrow> commit_input \<Rightarrow> pydict \<Rightarrow> pynum \<Rightarrow> pynum \<Rightarrow> pynum \<Rightarrow> close_book \<Rightarrow> close_book" where
  "commit_writes now i p qty delta cash bk =
     bk\<lparr>cb_desk := (cb_desk bk)\<lparr>
          dk_orders := update_rows (\<lambda>r. row_id r = PStr (cx_order i)) (commit_order now i qty) (cb_orders bk),
          dk_positions := update_rows (\<lambda>r. row_id r = PStr (cx_position i) \<and> dget r ''status'' = PStr ''open'')
            (close_row (Fin (cx_realized i)) (cx_reason i) (cx_source i) now now) (cb_positions bk)\<rparr>,
        cb_portfolios := update_rows (\<lambda>r. row_id r = PStr (cx_portfolio i)) (\<lambda>r. dset r ''cash_balance'' (PDec cash)) (cb_portfolios bk),
        cb_ledger := cb_ledger bk @ [commit_event i p (length (cb_ledger bk)) qty delta cash]\<rparr>"

record commit_receipt =
  cr_replay :: bool
  cr_order :: string
  cr_position :: string
  cr_cash :: pyval
  cr_event :: "nat option"
  cr_realized :: pyval

definition replay_receipt :: "commit_input \<Rightarrow> pydict \<Rightarrow> pydict \<Rightarrow> cash_event list \<Rightarrow> commit_receipt" where
  "replay_receipt i p f events =
     \<lparr>cr_replay = True, cr_order = cx_order i, cr_position = cx_position i, cr_cash = dget f ''cash_balance'',
      cr_event = map_option ce_id (find (fill_of (cx_order i)) events), cr_realized = dget p ''realized_pl''\<rparr>"

definition rpc_commit_internal_close ::
  "string \<Rightarrow> close_commit \<Rightarrow> close_book \<Rightarrow> (commit_error + commit_receipt) \<times> close_book" where
  "rpc_commit_internal_close now c bk =
     (case commit_inputs c of
        Inl e \<Rightarrow> (Inl e, bk)
      | Inr i \<Rightarrow>
          (case find_row (cx_position i) (cb_positions bk) of
             None \<Rightarrow> (Inl PositionMissing, bk)
           | Some p \<Rightarrow>
          (case find_row (cx_order i) (cb_orders bk) of
             None \<Rightarrow> (Inl OrderMissing, bk)
           | Some r \<Rightarrow>
          (case find_row (cx_portfolio i) (cb_portfolios bk) of
             None \<Rightarrow> (Inl PortfolioMissing, bk)
           | Some f \<Rightarrow>
          (case commit_linked i p r f of
             Inl e \<Rightarrow> (Inl e, bk)
           | Inr _ \<Rightarrow>
               if committed_row r
               then (if dget r ''internal_close_commit_key'' = PStr (cx_key i)
                     then (Inr (replay_receipt i p f (cb_ledger bk)), bk) else (Inl IdempotencyConflict, bk))
               else
                 (case commit_amounts i p f (cb_orders bk) (cb_ledger bk) of
                    Inl e \<Rightarrow> (Inl e, bk)
                  | Inr (qty, delta, cash) \<Rightarrow>
                      if length (filter (\<lambda>r. row_id r = PStr (cx_position i) \<and> dget r ''status'' = PStr ''open'') (cb_positions bk)) \<noteq> 1
                      then (Inl CloseCasFailed, bk)
                      else
                        (Inr \<lparr>cr_replay = False, cr_order = cx_order i, cr_position = cx_position i, cr_cash = PDec cash,
                              cr_event = Some (length (cb_ledger bk)), cr_realized = PDec (Fin (cx_realized i))\<rparr>,
                         commit_writes now i p qty delta cash bk)))))))"

end
