(* ===== verification/Close_Route.thy ===== *)
theory Close_Route
  imports Close_Guard Internal_Commit
begin

section \<open>The route of a close\<close>

text \<open>
  Model of \<open>_close_position\<close> in \<open>services/paper_exit_evaluator.py\<close>: how the position was opened,
  the guards, the price, the staged close order (\<open>_stage_order_internal\<close> of
  \<open>paper_endpoints.py\<close> as the close calls it), the submission to the broker, and the internal
  fill through \<open>rpc_commit_internal_close_v1\<close>.

  The record \<open>route_env\<close> says which reads and writes of the run succeed, what the quotes are when
  the price and the fill are decided, and what becomes of the call of the database function. The
  process environment is state, since the route writes to it. Alerts, log lines, telemetry and
  the columns of the staged row that hold them are left out. A table lists its rows in the order
  of their creation; a position's portfolio is never null, as the schema says.
\<close>

datatype rpc_channel = Delivered | Unsent | ReplyLost

record route_env =
  re_desk :: desk_env
  re_parse :: "string \<Rightarrow> rat option"
  re_now :: rat
  re_entry_ok :: bool
  re_closes_ok :: bool
  re_price_gate_ok :: bool
  re_stage_quotes :: snapshot_fn
  re_opening_ok :: bool
  re_insert_ok :: bool
  re_new_id :: string
  re_stamp_ok :: bool
  re_submit_gate_ok :: bool
  re_block_ok :: bool
  re_client_ok :: bool
  re_submit :: submit_db
  re_guard_ok :: bool
  re_mark_ok :: bool
  re_fill_quotes :: snapshot_fn
  re_channel :: rpc_channel

datatype routed =
    AlreadyClosed
  | SkippedDuplicate pyval
  | RestingOwnsProfit pyval
  | DeferredUncorroborated
  | HeldDryRun string
  | RoutedAlpaca string
  | RoutedReview string
  | UnknownReconciling string
  | InternalAborted string
  | CommitFailed string "commit_error option"
  | InternalClosed string bool

subsection \<open>Reading the position\<close>

definition orders_of :: "string \<Rightarrow> close_book \<Rightarrow> pydict list" where
  "orders_of pid bk = filter (\<lambda>r. dget r ''position_id'' = PStr pid) (cb_orders bk)"

text \<open>A failed read counts as a broker entry.\<close>

definition opened_at_broker :: "route_env \<Rightarrow> string \<Rightarrow> close_book \<Rightarrow> bool" where
  "opened_at_broker re pid bk =
     (if re_entry_ok re
      then (case orders_of pid bk of [] \<Rightarrow> False | r # _ \<Rightarrow> dget r ''alpaca_order_id'' \<noteq> PNone)
      else True)"

definition close_side :: "pynum \<Rightarrow> string" where
  "close_side qty = (if flt (Fin 0) qty then ''sell'' else ''buy'')"

definition status_closed :: "pydict \<Rightarrow> pyexn + bool" where
  "status_closed p =
     (case py_or (dget p ''status'') (PStr []) of PStr s \<Rightarrow> Inr (str_lower s = ''closed'') | _ \<Rightarrow> Inl AttributeError)"

definition close_statuses :: "string list" where
  "close_statuses = [''staged'', ''submitted'', ''working'', ''partial'', ''pending'', ''needs_manual_review'', ''filled'', ''cancelled'']"

definition live_statuses :: "string list" where
  "live_statuses = [''staged'', ''submitted'', ''working'', ''partial'', ''pending'']"

definition in_status :: "string list \<Rightarrow> pydict \<Rightarrow> bool" where
  "in_status sts r = (case dget r ''status'' of PStr s \<Rightarrow> s \<in> set sts | _ \<Rightarrow> False)"

definition existing_closes :: "string \<Rightarrow> string \<Rightarrow> close_book \<Rightarrow> pydict list" where
  "existing_closes pid side bk =
     take 10 (rev (filter (\<lambda>r. dget r ''side'' = PStr side \<and> in_status close_statuses r) (orders_of pid bk)))"

text \<open>What an existing order does to a new close; an exception in this step lets the close proceed.\<close>

definition blocked_by :: "environ \<Rightarrow> route_env \<Rightarrow> string \<Rightarrow> pydict list \<Rightarrow> pyexn + routed option" where
  "blocked_by env re reason rows =
     rbind (filter_blocking_close_orders env (re_parse re) (re_now re) rows) (\<lambda>blocking.
       case blocking of
         r # _ \<Rightarrow> Inr (Some (SkippedDuplicate (dget r ''id'')))
       | [] \<Rightarrow>
           if map_close_reason (Some reason) = Some ''target_profit_hit'' then
             rbind (rmap (\<lambda>r. rbind (is_gtc_profit_exit_order r) (\<lambda>g. Inr (r, g))) rows) (\<lambda>ps.
               Inr (case filter (\<lambda>(r, g). g \<and> in_status live_statuses r) ps of
                      [] \<Rightarrow> None | (r, _) # _ \<Rightarrow> Some (RestingOwnsProfit (dget r ''id''))))
           else Inr None)"

definition idempotency_check :: "environ \<Rightarrow> route_env \<Rightarrow> string \<Rightarrow> string \<Rightarrow> string \<Rightarrow> close_book \<Rightarrow> routed option" where
  "idempotency_check env re pid side reason bk =
     (if \<not> re_closes_ok re then None
      else case blocked_by env re reason (existing_closes pid side bk) of Inl _ \<Rightarrow> None | Inr r \<Rightarrow> r)"

subsection \<open>The price\<close>

definition decision_price :: "pynum option \<Rightarrow> pydict \<Rightarrow> pyexn + pynum" where
  "decision_price override p =
     (case override of
        Some x \<Rightarrow> Inr x
      | None \<Rightarrow> py_float (py_or (dget p ''current_mark'') (py_or (dget p ''avg_entry_price'') (PInt 0))))"

definition portfolio_routing :: "pydict \<Rightarrow> close_book \<Rightarrow> string option" where
  "portfolio_routing p bk =
     (case dget p ''portfolio_id'' of
        PStr pf \<Rightarrow> (case find_row pf (cb_portfolios bk) of
            Some f \<Rightarrow> (case dget f ''routing_mode'' of PStr m \<Rightarrow> Some m | _ \<Rightarrow> None) | None \<Rightarrow> None)
      | _ \<Rightarrow> None)"

definition dry_run :: "environ \<Rightarrow> bool" where
  "dry_run env = (env ''ALPACA_DRY_RUN'' = Some ''1'')"

text \<open>The executable price, if the limit is validated, with the value stamped as the estimate.\<close>

datatype stage_price = HoldClose | StageAt pynum "pynum option" "pynum option"

definition validated_price :: "environ \<Rightarrow> route_env \<Rightarrow> bool \<Rightarrow> pydict \<Rightarrow> pynum \<Rightarrow> close_book \<Rightarrow> stage_price" where
  "validated_price env re at_broker p price bk =
     (if at_broker \<and> close_quote_validation_enabled env \<and> \<not> dry_run env
         \<and> should_submit_to_broker (re_price_gate_ok re) (portfolio_routing p bk) (Some p)
      then (case corroborate_close_stage env (re_stage_quotes re) p of
              Defer \<Rightarrow> HoldClose
            | StageExecutable x _ \<Rightarrow> StageAt x (Some x) (Some price)
            | StageMark \<Rightarrow> StageAt price None (Some price))
      else StageAt price None None)"

subsection \<open>The ticket\<close>

record ticket_leg =
  tl_symbol :: pyval
  tl_action :: string
  tl_type :: pyval
  tl_strike :: pyval
  tl_expiry :: pyval

definition inverted_action :: "pydict \<Rightarrow> string" where
  "inverted_action d =
     (if py_or (py_or (dget d ''action'') (dget d ''side'')) (PStr ''buy'') = PStr ''buy'' then ''sell'' else ''buy'')"

definition close_leg_of :: "pydict \<Rightarrow> ticket_leg" where
  "close_leg_of d =
     \<lparr>tl_symbol = py_or (py_or (dget d ''symbol'') (dget d ''occ_symbol'')) (PStr []), tl_action = inverted_action d,
      tl_type = dget_default d ''type'' (PStr ''call''), tl_strike = dget d ''strike'', tl_expiry = dget d ''expiry''\<rparr>"

definition occ_like :: "string \<Rightarrow> bool" where
  "occ_like s = (starts_with ''O:'' s \<or> 10 < length s)"

text \<open>\<open>_resolve_occ_symbol\<close>: the position's first leg, its opening order's, or the underlying.\<close>

definition opening_symbol :: "route_env \<Rightarrow> string \<Rightarrow> close_book \<Rightarrow> string option" where
  "opening_symbol re pid bk =
     (if \<not> re_opening_ok re then None
      else case orders_of pid bk of
          [] \<Rightarrow> None
        | r # _ \<Rightarrow>
            (case dget_default r ''order_json'' (PDict []) of
               PDict oj \<Rightarrow>
                 (case dget oj ''legs'' of
                    PList (PDict d # _) \<Rightarrow> (case dget_default d ''symbol'' (PStr []) of PStr s \<Rightarrow> if occ_like s then Some s else None | _ \<Rightarrow> None)
                  | _ \<Rightarrow> None)
             | _ \<Rightarrow> None))"

definition resolve_occ_symbol :: "route_env \<Rightarrow> string \<Rightarrow> pydict \<Rightarrow> pyval list \<Rightarrow> close_book \<Rightarrow> pyexn + pyval" where
  "resolve_occ_symbol re pid p legs bk =
     (let fallback = (case opening_symbol re pid bk of Some s \<Rightarrow> PStr s | None \<Rightarrow> dget p ''symbol'')
      in case legs of
           PDict d # _ \<Rightarrow>
             (case dget_default d ''symbol'' (PStr []) of
                PStr s \<Rightarrow> Inr (if occ_like s then PStr s else fallback) | _ \<Rightarrow> Inl AttributeError)
         | _ \<Rightarrow> Inr fallback)"

definition close_legs_of :: "route_env \<Rightarrow> string \<Rightarrow> pydict \<Rightarrow> string \<Rightarrow> close_book \<Rightarrow> pyexn + ticket_leg list" where
  "close_legs_of re pid p side bk =
     rbind (iter_items (dget p ''legs'')) (\<lambda>legs.
       if 2 \<le> length legs
       then rmap (\<lambda>v. case as_dict v of None \<Rightarrow> Inl AttributeError | Some d \<Rightarrow> Inr (close_leg_of d)) legs
       else rbind (resolve_occ_symbol re pid p legs bk) (\<lambda>occ.
            rbind (case legs of [] \<Rightarrow> Inr [] | v # _ \<Rightarrow> (case as_dict v of None \<Rightarrow> Inl AttributeError | Some d \<Rightarrow> Inr d)) (\<lambda>d.
              Inr [\<lparr>tl_symbol = occ, tl_action = side, tl_type = dget_default d ''type'' (PStr ''call''),
                    tl_strike = dget d ''strike'', tl_expiry = dget d ''expiry''\<rparr>])))"

text \<open>Validation by the ticket's model, and by \<open>_validate_order_legs\<close> for a custom strategy.\<close>

definition leg_model_ok :: "ticket_leg \<Rightarrow> bool" where
  "leg_model_ok l \<longleftrightarrow>
     (\<exists>s \<in> {''call'', ''put'', ''stock'', ''other''}. tl_type l = PStr s) \<and> (case tl_symbol l of PStr _ \<Rightarrow> True | _ \<Rightarrow> False)
     \<and> (tl_strike l = PNone \<or> \<not> isl (py_float (tl_strike l))) \<and> (case tl_expiry l of PNone \<Rightarrow> True | PStr _ \<Rightarrow> True | _ \<Rightarrow> False)"

definition leg_order_ok :: "ticket_leg \<Rightarrow> bool" where
  "leg_order_ok l \<longleftrightarrow>
     (tl_type l \<in> {PStr ''call'', PStr ''put''} \<longrightarrow>
        tl_strike l \<noteq> PNone \<and> tl_expiry l \<noteq> PNone \<and> (case tl_symbol l of PStr s \<Rightarrow> occ_like s | _ \<Rightarrow> False))"

record close_ticket =
  tk_symbol :: string
  tk_qty :: int
  tk_limit :: pynum
  tk_credit :: bool
  tk_ref :: pyval
  tk_legs :: "ticket_leg list"

definition round_price :: "pynum \<Rightarrow> pynum" where
  "round_price x = (case x of Fin q \<Rightarrow> Fin (to_cents q) | _ \<Rightarrow> x)"

definition close_ticket_of :: "pydict \<Rightarrow> pynum \<Rightarrow> pynum \<Rightarrow> ticket_leg list \<Rightarrow> pyexn + close_ticket" where
  "close_ticket_of p qty price legs =
     (case close_limit_and_direction price qty (length legs) of (limit, credit) \<Rightarrow>
      case (dget p ''symbol'', fabs qty) of
        (PStr s, Fin q) \<Rightarrow>
          if q = of_int \<lfloor>q\<rfloor> \<and> list_all leg_model_ok legs
          then Inr \<lparr>tk_symbol = s, tk_qty = \<lfloor>q\<rfloor>, tk_limit = round_price limit, tk_credit = credit,
                    tk_ref = (if truthy (dget p ''suggestion_id'') then dget p ''suggestion_id'' else PNone), tk_legs = legs\<rparr>
          else Inl ValueError
      | _ \<Rightarrow> Inl ValueError)"

definition leg_json :: "int \<Rightarrow> ticket_leg \<Rightarrow> pyval" where
  "leg_json qty l =
     PDict [(''symbol'', tl_symbol l), (''action'', PStr (tl_action l)), (''type'', tl_type l),
            (''strike'', case py_float (tl_strike l) of Inr x \<Rightarrow> PFloat x | Inl _ \<Rightarrow> PNone),
            (''expiry'', tl_expiry l), (''quantity'', PInt qty)]"

definition ticket_json :: "close_ticket \<Rightarrow> pydict" where
  "ticket_json t =
     [(''ticket_id'', PNone), (''source_engine'', PStr ''paper_exit_evaluator''), (''source_ref_id'', tk_ref t),
      (''strategy_type'', PStr ''custom''), (''symbol'', PStr (tk_symbol t)), (''legs'', PList (map (leg_json (tk_qty t)) (tk_legs t))),
      (''order_type'', PStr ''limit''), (''limit_price'', PFloat (tk_limit t)), (''quantity'', PInt (tk_qty t)),
      (''time_in_force'', PStr ''day''), (''catalyst_window'', PNone), (''conviction_score'', PNone), (''expected_value'', PNone),
      (''risk_bracket'', PNone), (''regime_context'', PDict []), (''is_credit_close'', PBool (tk_credit t))]"

subsection \<open>Staging\<close>

definition mode_text :: "execution_mode \<Rightarrow> string" where
  "mode_text m = (case m of Internal_Paper \<Rightarrow> ''internal_paper'' | Alpaca_Paper \<Rightarrow> ''alpaca_paper'' | Alpaca_Live \<Rightarrow> ''alpaca_live'' | Shadow \<Rightarrow> ''shadow'')"

text \<open>
  The estimate of quotes and costs is a parameter: it may raise, or propose a price, which is used
  in the broker modes when the limit is not positive.
\<close>

definition staged_limit :: "execution_mode \<Rightarrow> pynum option \<Rightarrow> pynum \<Rightarrow> pynum" where
  "staged_limit m proposed limit =
     (if m \<in> {Alpaca_Paper, Alpaca_Live} \<and> (limit = Fin 0 \<or> fle limit (Fin 0))
      then (case proposed of Some x \<Rightarrow> x | None \<Rightarrow> limit) else limit)"

definition staged_row :: "route_env \<Rightarrow> execution_mode \<Rightarrow> string \<Rightarrow> string \<Rightarrow> string \<Rightarrow> close_ticket \<Rightarrow> pydict" where
  "staged_row re m uid pf pid t =
     [(''id'', PStr (re_new_id re)), (''user_id'', PStr uid), (''portfolio_id'', PStr pf), (''status'', PStr ''staged''),
      (''execution_mode'', PStr (mode_text m)), (''suggestion_id'', tk_ref t), (''order_json'', PDict (ticket_json t)),
      (''requested_qty'', PInt (tk_qty t)),
      (''requested_price'', if tk_limit t = Fin 0 then PNone else PFloat (round_price (tk_limit t))),
      (''side'', PStr (case tk_legs t of [] \<Rightarrow> ''buy'' | l # _ \<Rightarrow> tl_action l)), (''order_type'', PStr ''limit''),
      (''position_id'', PStr pid), (''created_at'', PStr (de_now_text (re_desk re)))]"

definition insert_order :: "pydict \<Rightarrow> close_book \<Rightarrow> close_book" where
  "insert_order row bk = bk\<lparr>cb_desk := (cb_desk bk)\<lparr>dk_orders := cb_orders bk @ [row]\<rparr>\<rparr>"

definition set_order :: "string \<Rightarrow> (string \<times> pyval) list \<Rightarrow> close_book \<Rightarrow> close_book" where
  "set_order oid kvs bk = bk\<lparr>cb_desk := update_order (PStr oid) kvs (cb_desk bk)\<rparr>"

definition owns_portfolio :: "string \<Rightarrow> string \<Rightarrow> close_book \<Rightarrow> bool" where
  "owns_portfolio uid pf bk =
     (case find_row pf (cb_portfolios bk) of None \<Rightarrow> False | Some f \<Rightarrow> dget f ''user_id'' = PStr uid)"

definition stage_close_order ::
  "environ \<Rightarrow> route_env \<Rightarrow> (close_ticket \<Rightarrow> pyexn + pynum option) \<Rightarrow> string \<Rightarrow> string \<Rightarrow> string \<Rightarrow> close_ticket \<Rightarrow> close_book \<Rightarrow> pyexn + close_book" where
  "stage_close_order env re estimate uid pf pid t bk =
     (if \<not> owns_portfolio uid pf bk then Inl RuntimeError
      else if \<not> list_all leg_order_ok (tk_legs t) then Inl ValueError
      else rbind (estimate t) (\<lambda>proposed.
        let m = get_execution_mode env; t' = t\<lparr>tk_limit := staged_limit m proposed (tk_limit t)\<rparr>;
            row = staged_row re m uid pf pid t'
        in if \<not> re_insert_ok re then Inl RuntimeError
           else rbind (deterministic_client_order_id row) (\<lambda>cid.
             Inr (case cid of
                    Some c \<Rightarrow> if re_stamp_ok re then set_order (re_new_id re) [(''client_order_id'', PStr c)] (insert_order row bk) else insert_order row bk
                  | None \<Rightarrow> insert_order row bk))))"

text \<open>The stamps on the staged order's \<open>order_json\<close>: the estimate, and the reason.\<close>

definition stamp_order :: "route_env \<Rightarrow> (string \<times> pyval) list \<Rightarrow> close_book \<Rightarrow> close_book" where
  "stamp_order re kvs bk =
     (if \<not> re_stamp_ok re then bk
      else case find_row (re_new_id re) (cb_orders bk) of
          None \<Rightarrow> bk
        | Some r \<Rightarrow> (case py_or (dget r ''order_json'') (PDict []) of
              PDict oj \<Rightarrow> set_order (re_new_id re) [(''order_json'', PDict (dset_all kvs oj))] bk | _ \<Rightarrow> bk))"

definition stamp_gap :: "route_env \<Rightarrow> pynum option \<Rightarrow> pynum option \<Rightarrow> close_book \<Rightarrow> close_book" where
  "stamp_gap re cross mid bk =
     (if cross = None \<and> mid = None then bk
      else stamp_order re [(''close_fill_gap_cross'', opt_float cross), (''close_fill_gap_mid'', opt_float mid)] bk)"

definition stamp_reason :: "route_env \<Rightarrow> string \<Rightarrow> string option \<Rightarrow> close_book \<Rightarrow> close_book" where
  "stamp_reason re reason detail bk =
     (let d = (case detail of Some t \<Rightarrow> if t = [] then reason else t | None \<Rightarrow> reason)
      in stamp_order re
           ((''close_reason_detail'', PStr (close_reason_detail (Some d)))
             # (case map_close_reason (Some reason) of None \<Rightarrow> [] | Some c \<Rightarrow> [(''close_reason'', PStr c)])) bk)"

subsection \<open>The broker's part\<close>

definition mark_review :: "route_env \<Rightarrow> close_book \<Rightarrow> close_book" where
  "mark_review re bk = (if re_mark_ok re then set_order (re_new_id re) [(''status'', PStr ''needs_manual_review'')] bk else bk)"

text \<open>The submission of a close that the gate lets through: it ends the route in every case.\<close>

definition submit_close ::
  "'b broker \<Rightarrow> route_env \<Rightarrow> 'b \<Rightarrow> close_book \<Rightarrow> routed \<times> 'b \<times> close_book" where
  "submit_close br re b bk =
     (let oid = re_new_id re; failed = (\<lambda>b' bk'. (UnknownReconciling oid, b', mark_review re bk'))
      in if \<not> re_client_ok re then failed b bk
         else case find_row oid (cb_orders bk) of
             None \<Rightarrow> failed b bk
           | Some row \<Rightarrow>
               (case submit_and_track (re_desk re) br (re_submit re) row b (cb_desk bk) of
                  (Inl e, b', dk) \<Rightarrow> failed b' (bk\<lparr>cb_desk := dk\<rparr>)
                | (Inr (NeedsManualReview n), b', dk) \<Rightarrow> (RoutedReview oid, b', bk\<lparr>cb_desk := dk\<rparr>)
                | (Inr r, b', dk) \<Rightarrow> (RoutedAlpaca oid, b', bk\<lparr>cb_desk := dk\<rparr>)))"

text \<open>
  What becomes of a position that was opened at the broker: a result, or none when the close goes on
  to the internal fill.
\<close>

definition broker_part ::
  "environ \<Rightarrow> 'b broker \<Rightarrow> route_env \<Rightarrow> pydict \<Rightarrow> 'b \<Rightarrow> close_book \<Rightarrow> (pyexn + routed option) \<times> 'b \<times> close_book" where
  "broker_part env br re p b bk =
     (if dry_run env then (Inr (Some (HeldDryRun (re_new_id re))), b, bk)
      else if \<not> should_submit_to_broker (re_submit_gate_ok re) (portfolio_routing p bk) (Some p)
      then (if re_block_ok re
            then (Inr None, b, set_order (re_new_id re) [(''execution_mode'', PStr ''shadow_blocked'')] bk)
            else (Inl RuntimeError, b, bk))
      else case submit_close br re b bk of (r, b', bk') \<Rightarrow> (Inr (Some r), b', bk'))"

subsection \<open>The internal fill\<close>

definition commit_key :: "string \<Rightarrow> string" where
  "commit_key oid = ''internal_close::'' @ oid"

definition finite_only :: "pynum \<Rightarrow> pynum option" where
  "finite_only x = (if is_finite x then Some x else None)"

definition quality_text :: "fill_quality \<Rightarrow> string" where
  "quality_text q = (case q of Executable \<Rightarrow> ''executable'' | PartialQuote \<Rightarrow> ''executable_partial_quote''
     | MidQuoteMissing \<Rightarrow> ''mid_fallback_quote_missing'' | MidError \<Rightarrow> ''mid_fallback_error'')"

definition synth_legs :: "pydict \<Rightarrow> pynum \<Rightarrow> pynum \<Rightarrow> pydict list" where
  "synth_legs p qty price =
     [leg_fill (dget p ''symbol'') (PStr (close_side qty)) (PFloat (fabs qty)) (PFloat price)]"

definition spread_of :: "pynum \<Rightarrow> string" where
  "spread_of qty = (if flt (Fin 0) qty then ''debit'' else ''credit'')"

definition commit_args ::
  "string \<Rightarrow> string \<Rightarrow> pydict \<Rightarrow> string \<Rightarrow> string \<Rightarrow> pynum \<Rightarrow> pynum \<Rightarrow> pynum \<Rightarrow> pynum \<Rightarrow> fill_quality \<Rightarrow> close_commit" where
  "commit_args uid pid p oid reason qty price pl mid quality =
     \<lparr>cc_user = (if uid = [] then (case dget p ''user_id'' of PStr u \<Rightarrow> Some u | _ \<Rightarrow> None) else Some uid), cc_portfolio = (case dget p ''portfolio_id'' of PStr f \<Rightarrow> Some f | _ \<Rightarrow> None),
      cc_position = Some pid, cc_order = Some oid, cc_key = Some (commit_key oid), cc_reason = Some reason,
      cc_source = Some ''exit_evaluator'', cc_side = Some (close_side qty), cc_qty = Some (fabs qty), cc_price = Some price,
      cc_realized = Some pl, cc_multiplier = Some (Fin 100), cc_quality = Some (quality_text quality), cc_mid = finite_only mid\<rparr>"

definition call_commit :: "route_env \<Rightarrow> close_commit \<Rightarrow> close_book \<Rightarrow> (commit_error option + commit_receipt) \<times> close_book" where
  "call_commit re c bk =
     (case re_channel re of
        Unsent \<Rightarrow> (Inl None, bk)
      | ch \<Rightarrow>
          (case rpc_commit_internal_close (de_now_text (re_desk re)) c bk of
             (Inl e, bk') \<Rightarrow> (Inl (Some e), bk')
           | (Inr rc, bk') \<Rightarrow> (if ch = Delivered then Inr rc else Inl None, bk')))"

definition internal_fill ::
  "environ \<Rightarrow> route_env \<Rightarrow> string \<Rightarrow> string \<Rightarrow> pydict \<Rightarrow> string \<Rightarrow> pynum \<Rightarrow> pynum \<Rightarrow> nat \<Rightarrow> pynum \<Rightarrow> close_book \<Rightarrow> (pyexn + routed) \<times> close_book" where
  "internal_fill env re uid pid p reason qty price n_legs entry bk =
     (let oid = re_new_id re;
          (signed, quality) = select_internal_fill_price env (re_fill_quotes re) p price;
          magnitude = fst (close_limit_and_direction signed qty n_legs)
      in case map_close_reason (Some reason) of
           None \<Rightarrow> (Inr (InternalAborted oid), bk)
         | Some mapped \<Rightarrow>
             (case py_int_of_num (fabs qty) of
                Inl e \<Rightarrow> (Inl e, bk)
              | Inr n \<Rightarrow>
                  (case compute_realized_pl (synth_legs p qty magnitude) (PDec entry) n (spread_of qty) 100 of
                     Inl PartialFillDetected \<Rightarrow> (Inr (InternalAborted oid), bk)
                   | Inl (CloseExn e) \<Rightarrow> (Inl e, bk)
                   | Inl MalformedFillData \<Rightarrow> (Inl ValueError, bk)
                   | Inr pl \<Rightarrow>
                       (case call_commit re (commit_args uid pid p oid mapped qty magnitude pl price quality) bk of
                          (Inl e, bk') \<Rightarrow> (Inr (CommitFailed oid e), bk')
                        | (Inr rc, bk') \<Rightarrow> (Inr (InternalClosed oid (cr_replay rc)), bk')))))"

subsection \<open>The whole route\<close>

text \<open>The guard before the internal fill: it asks for the routing again, without the position.\<close>

definition guarded_fill ::
  "environ \<Rightarrow> route_env \<Rightarrow> string \<Rightarrow> string \<Rightarrow> pydict \<Rightarrow> string \<Rightarrow> pynum \<Rightarrow> pynum \<Rightarrow> nat \<Rightarrow> pynum \<Rightarrow> close_book \<Rightarrow> (pyexn + routed) \<times> close_book" where
  "guarded_fill env re uid pid p reason qty price n_legs entry bk =
     (if should_submit_to_broker (re_guard_ok re) (portfolio_routing p bk) None
      then (Inr (UnknownReconciling (re_new_id re)), mark_review re bk)
      else internal_fill env re uid pid p reason qty price n_legs entry bk)"

definition after_staging ::
  "environ \<Rightarrow> 'b broker \<Rightarrow> route_env \<Rightarrow> bool \<Rightarrow> string \<Rightarrow> string \<Rightarrow> pydict \<Rightarrow> string \<Rightarrow> pynum \<Rightarrow> pynum \<Rightarrow> nat \<Rightarrow> pynum \<Rightarrow> 'b \<Rightarrow> close_book
     \<Rightarrow> (pyexn + routed) \<times> 'b \<times> close_book" where
  "after_staging env br re at_broker uid pid p reason qty price n_legs entry b bk =
     (case (if at_broker then broker_part env br re p b bk else (Inr None, b, bk)) of
        (Inl e, b', bk') \<Rightarrow> (Inl e, b', bk')
      | (Inr (Some r), b', bk') \<Rightarrow> (Inr r, b', bk')
      | (Inr None, b', bk') \<Rightarrow>
          (case guarded_fill env re uid pid p reason qty price n_legs entry bk' of (res, bk'') \<Rightarrow> (res, b', bk'')))"

definition restored_mode :: "environ \<Rightarrow> string" where
  "restored_mode env = (case env ''EXECUTION_MODE'' of Some s \<Rightarrow> s | None \<Rightarrow> [])"

text \<open>
  Staging, then the rest. While a position that was not opened at the broker is staged, the mode in
  the environment is forced to \<open>internal_paper\<close>; afterwards the saved text is written back.
\<close>

definition stage_and_route ::
  "environ \<Rightarrow> 'b broker \<Rightarrow> (close_ticket \<Rightarrow> pyexn + pynum option) \<Rightarrow> route_env \<Rightarrow> bool \<Rightarrow> string \<Rightarrow> string \<Rightarrow> pydict \<Rightarrow> string \<Rightarrow> string option
     \<Rightarrow> pynum \<Rightarrow> pynum \<Rightarrow> pynum option \<Rightarrow> pynum option \<Rightarrow> pynum \<Rightarrow> 'b \<Rightarrow> close_book \<Rightarrow> (pyexn + routed) \<times> environ \<times> 'b \<times> close_book" where
  "stage_and_route env br estimate re at_broker uid pid p reason detail qty price cross mid entry b bk =
     (case rbind (close_legs_of re pid p (close_side qty) bk) (\<lambda>legs.
           rbind (close_ticket_of p qty price legs) (\<lambda>t. Inr (length legs, t))) of
        Inl e \<Rightarrow> (Inl e, env, b, bk)
      | Inr (n_legs, t) \<Rightarrow>
          (let forced = (if at_broker then env else env(''EXECUTION_MODE'' \<mapsto> ''internal_paper''));
               env' = env(''EXECUTION_MODE'' \<mapsto> restored_mode env)
           in case dget p ''portfolio_id'' of
                PStr pf \<Rightarrow>
                  (case stage_close_order forced re estimate uid pf pid t bk of
                     Inl e \<Rightarrow> (Inl e, env', b, bk)
                   | Inr bk1 \<Rightarrow>
                       (case after_staging env br re at_broker uid pid p reason qty price n_legs entry b
                               (stamp_reason re reason detail (stamp_gap re cross mid bk1)) of
                          (res, b', bk') \<Rightarrow> (res, env', b', bk')))
              | _ \<Rightarrow> (Inl KeyError, env', b, bk)))"

definition close_position ::
  "environ \<Rightarrow> 'b broker \<Rightarrow> (close_ticket \<Rightarrow> pyexn + pynum option) \<Rightarrow> route_env \<Rightarrow> string \<Rightarrow> string \<Rightarrow> string \<Rightarrow> pynum option \<Rightarrow> string option
     \<Rightarrow> 'b \<Rightarrow> close_book \<Rightarrow> (pyexn + routed) \<times> environ \<times> 'b \<times> close_book" where
  "close_position env br estimate re uid pid reason override detail b bk =
     (let at_broker = opened_at_broker re pid bk
      in case find_row pid (cb_positions bk) of
           None \<Rightarrow> (Inl RuntimeError, env, b, bk)
         | Some p \<Rightarrow>
             (case rbind (py_float (dget p ''quantity'')) (\<lambda>qty. rbind (status_closed p) (\<lambda>c. Inr (qty, c))) of
                Inl e \<Rightarrow> (Inl e, env, b, bk)
              | Inr (qty, shut) \<Rightarrow>
                  if shut \<or> num_eq qty (Fin 0) then (Inr AlreadyClosed, env, b, bk)
                  else case idempotency_check env re pid (close_side qty) reason bk of
                      Some r \<Rightarrow> (Inr r, env, b, bk)
                    | None \<Rightarrow>
                        (case rbind (decision_price override p) (\<lambda>x. rbind (py_float (py_or (dget p ''avg_entry_price'') (PInt 0))) (\<lambda>e. Inr (x, e))) of
                           Inl e \<Rightarrow> (Inl e, env, b, bk)
                         | Inr (price, entry) \<Rightarrow>
                             (case validated_price env re at_broker p price bk of
                                HoldClose \<Rightarrow> (Inr DeferredUncorroborated, env, b, bk)
                              | StageAt price' cross mid \<Rightarrow>
                                  stage_and_route env br estimate re at_broker uid pid p reason detail qty price' cross mid entry b bk))))"

end
