(* ===== verification/Internal_Commit_Correct.thy ===== *)
theory Internal_Commit_Correct
  imports Internal_Commit Close_Correct
begin

section \<open>What the atomic commit guarantees\<close>

text \<open>
  A commit that is no replay closes exactly one open position and moves the cash of its portfolio
  by the value of the position; everything else leaves the book unchanged. An order and a position
  are committed at most once, cash and ledger stay in step, and a retry changes nothing.
\<close>

lemma required_Inr [simp]: "required e x = Inr y \<longleftrightarrow> x = Some y"
  by (simp add: required_def split: option.splits)

lemma require_Inr [simp]: "require b e = Inr u \<longleftrightarrow> b"
  by (simp add: require_def)

lemma finite_arg_Inr [simp]: "finite_arg x = Inr q \<longleftrightarrow> x = Fin q"
  by (simp add: finite_arg_def split: pynum.splits)

text \<open>The state a commit finds: the rows it locks, and what its checks have established.\<close>

definition commit_ready :: "commit_input \<Rightarrow> pydict \<Rightarrow> pydict \<Rightarrow> pydict \<Rightarrow> rat \<Rightarrow> pynum \<Rightarrow> close_book \<Rightarrow> bool" where
  "commit_ready i p r f q cash bk \<longleftrightarrow>
     find_row (cx_position i) (cb_positions bk) = Some p \<and> find_row (cx_order i) (cb_orders bk) = Some r
     \<and> find_row (cx_portfolio i) (cb_portfolios bk) = Some f \<and> commit_linked i p r f = Inr ()
     \<and> \<not> committed_row r \<and> dget p ''status'' = PStr ''open''
     \<and> sql_num (dget p ''quantity'') = Some (Fin q) \<and> q \<noteq> 0 \<and> cx_qty i = \<bar>q\<bar>
     \<and> cx_side i = (if 0 < q then ''sell'' else ''buy'') \<and> sql_num (dget f ''cash_balance'') = Some cash
     \<and> \<not> list_ex (fill_of (cx_order i)) (cb_ledger bk)
     \<and> length (filter (\<lambda>r. row_id r = PStr (cx_position i) \<and> dget r ''status'' = PStr ''open'') (cb_positions bk)) = 1"

definition close_value :: "commit_input \<Rightarrow> rat \<Rightarrow> rat" where
  "close_value i q = q * cx_price i * cx_multiplier i"

definition booked_receipt :: "commit_input \<Rightarrow> pynum \<Rightarrow> nat \<Rightarrow> commit_receipt" where
  "booked_receipt i balance n =
     \<lparr>cr_replay = False, cr_order = cx_order i, cr_position = cx_position i, cr_cash = PDec balance, cr_event = Some n,
      cr_realized = PDec (Fin (cx_realized i))\<rparr>"

lemma commit_amountsD:
  assumes "commit_amounts i p f orders events = Inr (qty, delta, balance)"
  obtains q cash where "dget p ''status'' = PStr ''open''" and "sql_num (dget p ''quantity'') = Some (Fin q)" and "q \<noteq> 0"
    and "cx_qty i = \<bar>q\<bar>" and "cx_side i = (if 0 < q then ''sell'' else ''buy'')"
    and "sql_num (dget f ''cash_balance'') = Some cash" and "\<not> list_ex (fill_of (cx_order i)) events"
    and "qty = Fin \<bar>q\<bar>" and "delta = Fin (close_value i q)" and "balance = fadd cash (Fin (close_value i q))"
proof -
  from assms obtain x cash where *: "dget p ''status'' = PStr ''open''" "sql_num (dget p ''quantity'') = Some x" "x \<noteq> Fin 0"
    "Fin (cx_qty i) = fabs x" "cx_side i = (if sql_positive x then ''sell'' else ''buy'')"
    "sql_num (dget f ''cash_balance'') = Some cash" "\<not> list_ex (fill_of (cx_order i)) events" "qty = fabs x"
    "delta = fmul (fmul (fmul (Fin (if sql_positive x then 1 else - 1)) (Fin (cx_price i))) (fabs x)) (Fin (cx_multiplier i))"
    "balance = fadd cash delta"
    unfolding commit_amounts_def by (simp add: rbind_Inr_iff Let_def) blast
  then obtain q where q: "x = Fin q" by (cases x) (simp_all add: fabs_def)
  show ?thesis
    by (rule that [of q cash]) (use * q in \<open>auto simp: sql_positive_def close_value_def abs_if mult_ac split: if_splits\<close>)
qed

lemma commit_cases:
  assumes "rpc_commit_internal_close now c bk = (res, bk')"
  obtains (refused) e where "res = Inl e" and "bk' = bk"
  | (replayed) rc where "res = Inr rc" and "cr_replay rc" and "bk' = bk"
  | (booked) i p r f q cash rc where "commit_inputs c = Inr i" and "commit_ready i p r f q cash bk"
      and "res = Inr rc" and "\<not> cr_replay rc" and "rc = booked_receipt i (fadd cash (Fin (close_value i q))) (length (cb_ledger bk))"
      and "bk' = commit_writes now i p (Fin \<bar>q\<bar>) (Fin (close_value i q)) (fadd cash (Fin (close_value i q))) bk"
proof (cases "commit_inputs c")
  case (Inl e)
  then show ?thesis using assms refused by (auto simp: rpc_commit_internal_close_def)
next
  case (Inr i)
  note inputs = this
  show ?thesis
  proof (cases "\<exists>p r f. find_row (cx_position i) (cb_positions bk) = Some p \<and> find_row (cx_order i) (cb_orders bk) = Some r
      \<and> find_row (cx_portfolio i) (cb_portfolios bk) = Some f \<and> commit_linked i p r f = Inr ()")
    case False
    then show ?thesis using assms refused inputs
      by (auto simp: rpc_commit_internal_close_def split: option.splits sum.splits)
  next
    case True
    then obtain p r f where rows: "find_row (cx_position i) (cb_positions bk) = Some p" "find_row (cx_order i) (cb_orders bk) = Some r"
      "find_row (cx_portfolio i) (cb_portfolios bk) = Some f" "commit_linked i p r f = Inr ()" by blast
    show ?thesis
    proof (cases "committed_row r")
      case True
      then show ?thesis using assms refused replayed inputs rows
        by (auto simp: rpc_commit_internal_close_def replay_receipt_def split: if_splits)
    next
      case fresh: False
      show ?thesis
      proof (cases "commit_amounts i p f (cb_orders bk) (cb_ledger bk)")
        case (Inl e)
        then show ?thesis using assms refused inputs rows fresh by (auto simp: rpc_commit_internal_close_def)
      next
        case (Inr t)
        then obtain qty delta balance where amounts: "commit_amounts i p f (cb_orders bk) (cb_ledger bk) = Inr (qty, delta, balance)"
          by (cases t) auto
        then obtain q cash where found: "dget p ''status'' = PStr ''open''" "sql_num (dget p ''quantity'') = Some (Fin q)" "q \<noteq> 0"
          "cx_qty i = \<bar>q\<bar>" "cx_side i = (if 0 < q then ''sell'' else ''buy'')" "sql_num (dget f ''cash_balance'') = Some cash"
          "\<not> list_ex (fill_of (cx_order i)) (cb_ledger bk)"
          and eqs: "qty = Fin \<bar>q\<bar>" "delta = Fin (close_value i q)" "balance = fadd cash (Fin (close_value i q))"
          by (rule commit_amountsD)
        show ?thesis
        proof (cases "length (filter (\<lambda>r. row_id r = PStr (cx_position i) \<and> dget r ''status'' = PStr ''open'') (cb_positions bk)) = 1")
          case True
          have "commit_ready i p r f q cash bk" using True found rows fresh by (simp add: commit_ready_def)
          then show ?thesis using assms inputs rows fresh amounts eqs True
            by (intro booked [of i p r f q cash]) (auto simp: rpc_commit_internal_close_def booked_receipt_def)
        next
          case False
          then show ?thesis using assms refused inputs rows fresh amounts by (auto simp: rpc_commit_internal_close_def)
        qed
      qed
    qed
  qed
qed

subsection \<open>Rows after a commit\<close>

lemma find_row_update:
  assumes "\<And>r. row_id (g r) = row_id r"
  shows "find_row k (update_rows (\<lambda>r. row_id r = PStr j \<and> P r) g rows) = map_option (\<lambda>r. if k = j \<and> P r then g r else r) (find_row k rows)"
  by (induction rows) (auto simp: find_row_def assms)

lemma find_row_update_id:
  assumes "\<And>r. row_id (g r) = row_id r"
  shows "find_row k (update_rows (\<lambda>r. row_id r = PStr j) g rows) = map_option (\<lambda>r. if k = j then g r else r) (find_row k rows)"
  using find_row_update [of g k j "\<lambda>_. True"] assms by simp

lemma commit_order_fields [simp]:
  "row_id (commit_order now i qty r) = row_id r"
  "committed_row (commit_order now i qty r)"
  "dget (commit_order now i qty r) ''internal_close_commit_key'' = PStr (cx_key i)"
  "dget (commit_order now i qty r) ''user_id'' = dget r ''user_id''"
  "dget (commit_order now i qty r) ''portfolio_id'' = dget r ''portfolio_id''"
  "dget (commit_order now i qty r) ''position_id'' = dget r ''position_id''"
  "dget (commit_order now i qty r) ''execution_mode'' = dget r ''execution_mode''"
  by (simp_all add: commit_order_def dget_dset_all row_id_def committed_row_def)

lemma close_row_keeps:
  "dget (close_row pl reason source t now r) ''user_id'' = dget r ''user_id''"
  "dget (close_row pl reason source t now r) ''portfolio_id'' = dget r ''portfolio_id''"
  by (simp_all add: close_row_def dget_dset_all)

lemma dset_cash_id [simp]: "row_id (dset r ''cash_balance'' v) = row_id r"
  by (simp add: row_id_def)

lemma commit_writes_rows:
  "find_row k (cb_positions (commit_writes now i p qty delta cash bk)) =
     map_option (\<lambda>r. if k = cx_position i \<and> dget r ''status'' = PStr ''open''
                 then close_row (Fin (cx_realized i)) (cx_reason i) (cx_source i) now now r else r) (find_row k (cb_positions bk))"
  "find_row k (cb_orders (commit_writes now i p qty delta cash bk)) =
     map_option (\<lambda>r. if k = cx_order i then commit_order now i qty r else r) (find_row k (cb_orders bk))"
  "find_row k (cb_portfolios (commit_writes now i p qty delta cash bk)) =
     map_option (\<lambda>r. if k = cx_portfolio i then dset r ''cash_balance'' (PDec cash) else r) (find_row k (cb_portfolios bk))"
  "cb_ledger (commit_writes now i p qty delta cash bk) = cb_ledger bk @ [commit_event i p (length (cb_ledger bk)) qty delta cash]"
  by (simp_all add: commit_writes_def find_row_update find_row_update_id)

definition cash_of :: "string \<Rightarrow> close_book \<Rightarrow> pynum option" where
  "cash_of pf bk = Option.bind (find_row pf (cb_portfolios bk)) (\<lambda>f. sql_num (dget f ''cash_balance''))"

lemma cash_of_writes:
  assumes "commit_ready i p r f q cash bk"
  shows "cash_of pf (commit_writes now i p qty delta balance bk) = (if pf = cx_portfolio i then Some balance else cash_of pf bk)"
  using assms by (auto simp: cash_of_def commit_writes_rows sql_num_def commit_ready_def split: bind_splits)

text \<open>
  A commit that is no replay finds an open position of quantity q whose portfolio
  is shadow-only and whose order is not a live one and was never committed. It closes that
  position with the given profit, marks that order, moves the portfolio's cash by q times price
  times multiplier (in for a long position, out for a short one), and appends one ledger event
  of that amount. No other row changes.
\<close>

theorem commit_books_value:
  assumes "rpc_commit_internal_close now c bk = (Inr rc, bk')" and "\<not> cr_replay rc"
  shows "\<exists>i p r f q cash. commit_inputs c = Inr i \<and> commit_ready i p r f q cash bk
     \<and> dget f ''routing_mode'' = PStr ''shadow_only'' \<and> dget r ''execution_mode'' \<noteq> PStr ''alpaca_live''
     \<and> find_row (cx_position i) (cb_positions bk') = Some (close_row (Fin (cx_realized i)) (cx_reason i) (cx_source i) now now p)
     \<and> find_row (cx_order i) (cb_orders bk') = Some (commit_order now i (Fin \<bar>q\<bar>) r)
     \<and> cash_of (cx_portfolio i) bk' = Some (fadd cash (Fin (q * cx_price i * cx_multiplier i)))
     \<and> (\<exists>e. cb_ledger bk' = cb_ledger bk @ [e] \<and> fill_of (cx_order i) e \<and> ce_amount e = Fin (q * cx_price i * cx_multiplier i)
          \<and> Some (ce_balance e) = cash_of (cx_portfolio i) bk')
     \<and> (\<forall>k. k \<noteq> cx_position i \<longrightarrow> find_row k (cb_positions bk') = find_row k (cb_positions bk))
     \<and> (\<forall>k. k \<noteq> cx_order i \<longrightarrow> find_row k (cb_orders bk') = find_row k (cb_orders bk))
     \<and> (\<forall>k. k \<noteq> cx_portfolio i \<longrightarrow> find_row k (cb_portfolios bk') = find_row k (cb_portfolios bk))"
  using assms(1)
proof (cases rule: commit_cases)
  case (booked i p r f q cash rc')
  have linked: "dget f ''routing_mode'' = PStr ''shadow_only''" "dget r ''execution_mode'' \<noteq> PStr ''alpaca_live''"
    using booked(2) by (auto simp: commit_ready_def commit_linked_def rbind_Inr_iff)
  have found: "find_row (cx_position i) (cb_positions bk) = Some p" "dget p ''status'' = PStr ''open''"
    "find_row (cx_order i) (cb_orders bk) = Some r" using booked(2) by (simp_all add: commit_ready_def)
  show ?thesis
    by (rule exI [of _ i], rule exI [of _ p], rule exI [of _ r], rule exI [of _ f], rule exI [of _ q], rule exI [of _ cash])
      (use booked linked found in \<open>auto simp: commit_writes_rows cash_of_writes [OF booked(2)] close_value_def commit_event_def
        fill_of_def option.map_ident\<close>)
qed (use assms(2) in auto)

subsection \<open>Sequences of commits\<close>

type_synonym commit_call = "string \<times> close_commit"

definition commit_act :: "commit_call \<Rightarrow> close_book \<Rightarrow> bool \<times> close_book" where
  "commit_act x bk =
     (case rpc_commit_internal_close (fst x) (snd x) bk of (res, bk') \<Rightarrow>
        ((case res of Inl _ \<Rightarrow> False | Inr rc \<Rightarrow> \<not> cr_replay rc), bk'))"

definition order_spent :: "close_book \<Rightarrow> string option \<Rightarrow> bool" where
  "order_spent bk k = (case Option.bind k (\<lambda>j. find_row j (cb_orders bk)) of None \<Rightarrow> False | Some r \<Rightarrow> committed_row r)"

definition position_spent :: "close_book \<Rightarrow> string option \<Rightarrow> bool" where
  "position_spent bk k = (case Option.bind k (\<lambda>j. find_row j (cb_positions bk)) of None \<Rightarrow> False | Some r \<Rightarrow> is_closed r)"

lemma commit_inputs_ids:
  "commit_inputs c = Inr i \<Longrightarrow> cc_order c = Some (cx_order i) \<and> cc_position c = Some (cx_position i)"
  unfolding commit_inputs_def by (auto simp: rbind_Inr_iff)

lemma commit_act_cases:
  assumes "commit_act x bk = (b, bk')"
  obtains (idle) "\<not> b" and "bk' = bk"
  | (booked) i p r f q cash where "b" and "commit_inputs (snd x) = Inr i" and "commit_ready i p r f q cash bk"
      and "bk' = commit_writes (fst x) i p (Fin \<bar>q\<bar>) (Fin (close_value i q)) (fadd cash (Fin (close_value i q))) bk"
proof -
  obtain res where run: "rpc_commit_internal_close (fst x) (snd x) bk = (res, bk')"
    and b: "b = (case res of Inl _ \<Rightarrow> False | Inr rc \<Rightarrow> \<not> cr_replay rc)"
    using assms by (auto simp: commit_act_def split: prod.splits)
  from run show ?thesis
    by (cases rule: commit_cases) (use b idle booked in auto)
qed

interpretation oc: one_shot commit_act "\<lambda>x. cc_order (snd x)" order_spent "\<lambda>_. True"
proof
  fix s x b t k
  show "\<not> order_spent s (cc_order (snd x)) \<and> order_spent t (cc_order (snd x))" if "commit_act x s = (True, t)"
    using that by (cases rule: commit_act_cases)
      (auto dest!: commit_inputs_ids simp: order_spent_def commit_ready_def commit_writes_rows)
  show "order_spent t k" if "commit_act x s = (b, t)" "order_spent s k"
    using that by (cases rule: commit_act_cases) (auto simp: order_spent_def commit_writes_rows split: bind_splits option.splits)
qed simp

interpretation pc: one_shot commit_act "\<lambda>x. cc_position (snd x)" position_spent "\<lambda>_. True"
proof
  fix s x b t k
  show "\<not> position_spent s (cc_position (snd x)) \<and> position_spent t (cc_position (snd x))" if "commit_act x s = (True, t)"
    using that by (cases rule: commit_act_cases)
      (auto dest!: commit_inputs_ids simp: position_spent_def commit_ready_def commit_writes_rows is_closed_def close_row_def dget_dset_all)
  show "position_spent t k" if "commit_act x s = (b, t)" "position_spent s k"
    using that by (cases rule: commit_act_cases)
      (auto simp: position_spent_def commit_writes_rows is_closed_def split: bind_splits option.splits)
qed simp

text \<open>
  In any sequence of commits, with retries, conflicting keys and several orders for
  one position, every close order and every position is committed at most once.
\<close>

theorem internal_close_at_most_once:
  "distinct (effective_keys commit_act (\<lambda>x. cc_order (snd x)) calls bk)
   \<and> distinct (effective_keys commit_act (\<lambda>x. cc_position (snd x)) calls bk)"
  using oc.at_most_once pc.at_most_once by blast

definition run_commits :: "commit_call list \<Rightarrow> close_book \<Rightarrow> close_book" where
  "run_commits calls bk = fold (\<lambda>x bk. snd (commit_act x bk)) calls bk"

lemma run_commits_invariant:
  assumes "I bk" and "\<And>x bk. I bk \<Longrightarrow> I (snd (commit_act x bk))"
  shows "I (run_commits calls bk)"
  using assms(1) unfolding run_commits_def by (induction calls arbitrary: bk) (auto intro: assms(2))

definition event_cash :: "string \<Rightarrow> cash_event \<Rightarrow> rat" where
  "event_cash pf e = (if ce_portfolio e = pf then (case ce_amount e of Fin x \<Rightarrow> x | _ \<Rightarrow> 0) else 0)"

definition in_step :: "string \<Rightarrow> close_book \<Rightarrow> close_book \<Rightarrow> bool" where
  "in_step pf start bk \<longleftrightarrow> (\<exists>es a. cb_ledger bk = cb_ledger start @ es \<and> cash_of pf start = Some (Fin a)
     \<and> cash_of pf bk = Some (Fin (a + (\<Sum>e\<leftarrow>es. event_cash pf e))) \<and> (\<forall>e \<in> set es. is_finite (ce_amount e)))"

lemma commit_keeps_in_step:
  assumes "in_step pf start bk" shows "in_step pf start (snd (commit_act x bk))"
proof -
  obtain b bk' where act: "commit_act x bk = (b, bk')" by fastforce
  then show ?thesis
  proof (cases rule: commit_act_cases)
    case (booked i p r f q cash)
    obtain es a where *: "cb_ledger bk = cb_ledger start @ es" "cash_of pf start = Some (Fin a)"
      "cash_of pf bk = Some (Fin (a + (\<Sum>e\<leftarrow>es. event_cash pf e)))" "\<forall>e \<in> set es. is_finite (ce_amount e)"
      using assms by (auto simp: in_step_def)
    have "cash_of (cx_portfolio i) bk = Some cash" using booked(3) by (auto simp: cash_of_def commit_ready_def)
    then show ?thesis using * act booked(4)
      by (auto simp: in_step_def cash_of_writes [OF booked(3)] commit_writes_rows commit_event_def event_cash_def)
  qed (use act assms in simp)
qed

text \<open>
  C19 (invariant). Cash and ledger never drift apart: after any sequence of commits the cash of a
  portfolio is what it was plus the amounts of the ledger events that were added for it, and no
  event is ever removed or has an amount that is not finite.
\<close>

theorem cash_matches_ledger:
  assumes "cash_of pf bk = Some (Fin a)"
  shows "\<exists>es. cb_ledger (run_commits calls bk) = cb_ledger bk @ es \<and> (\<forall>e \<in> set es. is_finite (ce_amount e))
     \<and> cash_of pf (run_commits calls bk) = Some (Fin (a + (\<Sum>e\<leftarrow>es. event_cash pf e)))"
proof -
  have "in_step pf bk bk" using assms by (simp add: in_step_def)
  then have "in_step pf bk (run_commits calls bk)" by (rule run_commits_invariant) (rule commit_keeps_in_step)
  then show ?thesis using assms by (auto simp: in_step_def)
qed

text \<open>What internal commits must leave alone.\<close>

definition live_row :: "close_book \<Rightarrow> pydict \<Rightarrow> bool" where
  "live_row bk p \<longleftrightarrow> (\<exists>pf f. dget p ''portfolio_id'' = PStr pf \<and> find_row pf (cb_portfolios bk) = Some f
     \<and> dget f ''routing_mode'' \<noteq> PStr ''shadow_only'')"

definition live_kept :: "close_book \<Rightarrow> close_book \<Rightarrow> bool" where
  "live_kept start bk \<longleftrightarrow>
     (\<forall>k f. find_row k (cb_portfolios start) = Some f \<longrightarrow> dget f ''routing_mode'' \<noteq> PStr ''shadow_only'' \<longrightarrow> find_row k (cb_portfolios bk) = Some f)
     \<and> (\<forall>k r. find_row k (cb_orders start) = Some r \<longrightarrow> dget r ''execution_mode'' = PStr ''alpaca_live'' \<longrightarrow> find_row k (cb_orders bk) = Some r)
     \<and> (\<forall>k p. find_row k (cb_positions start) = Some p \<longrightarrow> live_row start p \<longrightarrow> find_row k (cb_positions bk) = Some p)"

lemma commit_keeps_live:
  assumes "live_kept start bk" shows "live_kept start (snd (commit_act x bk))"
proof -
  obtain b bk' where act: "commit_act x bk = (b, bk')" by fastforce
  then show ?thesis
  proof (cases rule: commit_act_cases)
    case (booked i p r f q cash)
    have ready: "find_row (cx_position i) (cb_positions bk) = Some p" "find_row (cx_order i) (cb_orders bk) = Some r"
      "find_row (cx_portfolio i) (cb_portfolios bk) = Some f" "dget f ''routing_mode'' = PStr ''shadow_only''"
      "dget r ''execution_mode'' \<noteq> PStr ''alpaca_live''" "\<not> sql_ne (dget p ''portfolio_id'') (cx_portfolio i)"
      using booked(3) by (auto simp: commit_ready_def commit_linked_def rbind_Inr_iff)
    have "\<not> live_row start p"
    proof
      assume "live_row start p"
      then obtain pf f' where f': "dget p ''portfolio_id'' = PStr pf" "find_row pf (cb_portfolios start) = Some f'"
        "dget f' ''routing_mode'' \<noteq> PStr ''shadow_only''" by (auto simp: live_row_def)
      then have "find_row pf (cb_portfolios bk) = Some f'" using assms by (simp add: live_kept_def)
      then show False using ready f' by (simp add: sql_ne_def)
    qed
    then show ?thesis using assms act booked(4) ready
      by (auto simp: live_kept_def commit_writes_rows)
  qed (use act assms in simp)
qed

text \<open>
  Whatever calls arrive, a portfolio that is not shadow-only keeps its cash, a live
  order is never marked filled, and a position of such a portfolio is never closed by an
  internal commit.
\<close>

theorem internal_commit_spares_live_books:
  "live_kept bk (run_commits calls bk)"
proof -
  have "live_kept bk bk" by (simp add: live_kept_def)
  then show ?thesis by (rule run_commits_invariant) (rule commit_keeps_live)
qed

text \<open>
  C20 (equivalence). A retry is harmless: repeating a call that has succeeded changes nothing, at
  whatever time, and returns the receipt of the first call, marked as a replay.
\<close>

theorem commit_retry_is_harmless:
  assumes "rpc_commit_internal_close now c bk = (Inr rc, bk')"
  shows "rpc_commit_internal_close now' c bk' = (Inr (rc\<lparr>cr_replay := True\<rparr>), bk')"
  using assms
proof (cases rule: commit_cases)
  case (replayed rc')
  then show ?thesis using assms unfolding rpc_commit_internal_close_def
    by (auto simp: replay_receipt_def Let_def split: sum.splits option.splits if_splits prod.splits)
next
  case (booked i p r f q cash rc')
  let ?amount = "Fin (close_value i q)"
  let ?bk = "commit_writes now i p (Fin \<bar>q\<bar>) ?amount (fadd cash ?amount) bk"
  let ?p = "close_row (Fin (cx_realized i)) (cx_reason i) (cx_source i) now now p"
  let ?r = "commit_order now i (Fin \<bar>q\<bar>) r" and ?f = "dset f ''cash_balance'' (PDec (fadd cash ?amount))"
  have ready: "find_row (cx_position i) (cb_positions bk) = Some p" "find_row (cx_order i) (cb_orders bk) = Some r"
      "find_row (cx_portfolio i) (cb_portfolios bk) = Some f" "commit_linked i p r f = Inr ()" "dget p ''status'' = PStr ''open''"
      "\<not> list_ex (fill_of (cx_order i)) (cb_ledger bk)"
    using booked(2) by (simp_all add: commit_ready_def)
  have rows: "find_row (cx_position i) (cb_positions ?bk) = Some ?p" "find_row (cx_order i) (cb_orders ?bk) = Some ?r"
      "find_row (cx_portfolio i) (cb_portfolios ?bk) = Some ?f"
    using ready by (simp_all add: commit_writes_rows)
  have "commit_linked i ?p ?r ?f = Inr ()"
    using ready(4) by (simp add: commit_linked_def close_row_keeps rbind_Inr_iff)
  moreover have found: "find (fill_of (cx_order i)) (cb_ledger ?bk) = Some (commit_event i p (length (cb_ledger bk)) (Fin \<bar>q\<bar>) ?amount (fadd cash ?amount))"
    using ready(6) by (simp add: commit_writes_rows find_snoc find_None_iff list_ex_iff commit_event_def fill_of_def)
  ultimately have "rpc_commit_internal_close now' c ?bk = (Inr (replay_receipt i ?p ?f (cb_ledger ?bk)), ?bk)"
    using booked(1) rows by (simp add: rpc_commit_internal_close_def)
  moreover have "replay_receipt i ?p ?f (cb_ledger ?bk) = rc\<lparr>cr_replay := True\<rparr>"
    using booked(3,5) found by (simp add: replay_receipt_def booked_receipt_def commit_event_def)
  ultimately show ?thesis using booked by simp
qed simp

subsection \<open>A concrete book\<close>

definition book_position :: pydict where
  "book_position = [(''id'', PStr ''p1''), (''user_id'', PStr ''u1''), (''portfolio_id'', PStr ''f1''), (''symbol'', PStr ''F''),
     (''status'', PStr ''open''), (''quantity'', PInt 2), (''avg_entry_price'', PFloat (Fin 1)), (''current_mark'', PFloat (Fin (3/2))),
     (''legs'', PList [PDict [(''symbol'', PStr ''O:F260717C00010000''), (''action'', PStr ''buy''), (''strike'', PInt 10), (''expiry'', PStr ''2026-07-17'')],
                      PDict [(''symbol'', PStr ''O:F260717C00012000''), (''action'', PStr ''sell''), (''strike'', PInt 12), (''expiry'', PStr ''2026-07-17'')]])]"

definition book_order :: pydict where
  "book_order = [(''id'', PStr ''o1''), (''user_id'', PStr ''u1''), (''portfolio_id'', PStr ''f1''), (''position_id'', PStr ''p1''),
     (''status'', PStr ''staged''), (''execution_mode'', PStr ''internal_paper''), (''side'', PStr ''sell''), (''order_json'', PDict [])]"

definition book_portfolio :: "string \<Rightarrow> pydict" where
  "book_portfolio routing = [(''id'', PStr ''f1''), (''user_id'', PStr ''u1''), (''routing_mode'', PStr routing), (''cash_balance'', PFloat (Fin 1000))]"

definition sample_book :: "string \<Rightarrow> close_book" where
  "sample_book routing = \<lparr>cb_desk = \<lparr>dk_orders = [book_order], dk_positions = [book_position], dk_alerts = []\<rparr>,
     cb_portfolios = [book_portfolio routing], cb_ledger = []\<rparr>"

definition sample_commit :: close_commit where
  "sample_commit = \<lparr>cc_user = Some ''u1'', cc_portfolio = Some ''f1'', cc_position = Some ''p1'', cc_order = Some ''o1'',
     cc_key = Some ''k1'', cc_reason = Some ''stop_loss_hit'', cc_source = Some ''exit_evaluator'', cc_side = Some ''sell'',
     cc_qty = Some (Fin 2), cc_price = Some (Fin (3/2)), cc_realized = Some (Fin 100), cc_multiplier = Some (Fin 100),
     cc_quality = None, cc_mid = None\<rparr>"

lemma sample_book_rows [simp]:
  "find_row ''p1'' (cb_positions (sample_book m)) = Some book_position" "find_row ''o1'' (cb_orders (sample_book m)) = Some book_order"
  "find_row ''f1'' (cb_portfolios (sample_book m)) = Some (book_portfolio m)" "cb_ledger (sample_book m) = []"
  "cash_of ''f1'' (sample_book m) = Some (Fin 1000)"
  by (simp_all add: sample_book_def find_row_def row_id_def dget_def book_position_def book_order_def book_portfolio_def cash_of_def sql_num_def)

lemma book_position_fields [simp]:
  "dget book_position ''status'' = PStr ''open''" "dget book_position ''quantity'' = PInt 2" "dget book_position ''user_id'' = PStr ''u1''"
  "dget book_position ''portfolio_id'' = PStr ''f1''" "dget book_position ''symbol'' = PStr ''F''"
  "dget book_position ''avg_entry_price'' = PFloat (Fin 1)" "dget book_position ''current_mark'' = PFloat (Fin (3/2))"
  "dget book_position ''suggestion_id'' = PNone"
  by (simp_all add: book_position_def dget_def)

lemma book_order_fields [simp]:
  "dget book_order ''id'' = PStr ''o1''" "dget book_order ''user_id'' = PStr ''u1''" "dget book_order ''portfolio_id'' = PStr ''f1''"
  "dget book_order ''position_id'' = PStr ''p1''" "dget book_order ''execution_mode'' = PStr ''internal_paper''"
  "dget book_order ''internal_close_committed_at'' = PNone" "dget book_order ''internal_close_commit_key'' = PNone"
  "dget book_order ''alpaca_order_id'' = PNone" "dget book_order ''side'' = PStr ''sell''" "dget book_order ''status'' = PStr ''staged''"
  by (simp_all add: book_order_def dget_def)

lemma book_portfolio_fields [simp]:
  "dget (book_portfolio m) ''user_id'' = PStr ''u1''" "dget (book_portfolio m) ''routing_mode'' = PStr m"
  "dget (book_portfolio m) ''cash_balance'' = PFloat (Fin 1000)"
  by (simp_all add: book_portfolio_def dget_def)

lemma sample_commit_books:
  "\<exists>rc bk'. rpc_commit_internal_close t sample_commit (sample_book ''shadow_only'') = (Inr rc, bk') \<and> \<not> cr_replay rc"
proof -
  have i: "commit_inputs sample_commit = Inr \<lparr>cx_user = ''u1'', cx_portfolio = ''f1'', cx_position = ''p1'', cx_order = ''o1'', cx_key = ''k1'',
      cx_reason = ''stop_loss_hit'', cx_source = ''exit_evaluator'', cx_side = ''sell'', cx_qty = 2, cx_price = 3/2, cx_realized = 100,
      cx_multiplier = 100, cx_quality = None, cx_mid = None\<rparr>" (is "_ = Inr ?i")
    by (simp add: commit_inputs_def sample_commit_def required_def require_def finite_arg_def only_blanks_def valid_close_reasons_def
        valid_fill_sources_def)
  have linked: "commit_linked ?i book_position book_order (book_portfolio ''shadow_only'') = Inr ()"
    by (simp add: commit_linked_def require_def sql_ne_def)
  have "\<exists>x. commit_amounts ?i book_position (book_portfolio ''shadow_only'') (cb_orders (sample_book ''shadow_only'')) [] = Inr x"
    by (simp add: commit_amounts_def require_def required_def sql_num_def sql_positive_def sample_book_def Let_def)
  then obtain qty delta cash where a: "commit_amounts ?i book_position (book_portfolio ''shadow_only'') (cb_orders (sample_book ''shadow_only'')) []
      = Inr (qty, delta, cash)" by (auto simp: prod_eq_iff)
  have "\<not> committed_row book_order" by (simp add: committed_row_def)
  moreover have "length (filter (\<lambda>r. row_id r = PStr ''p1'' \<and> dget r ''status'' = PStr ''open'') (cb_positions (sample_book ''shadow_only''))) = 1"
    by (simp add: sample_book_def row_id_def book_position_def dget_def)
  ultimately show ?thesis using i linked a by (simp add: rpc_commit_internal_close_def)
qed

theorem commit_books_value_witness:
  "\<exists>rc bk'. rpc_commit_internal_close ''t'' sample_commit (sample_book ''shadow_only'') = (Inr rc, bk') \<and> length (cb_ledger bk') = 1"
proof -
  obtain rc bk' where run: "rpc_commit_internal_close ''t'' sample_commit (sample_book ''shadow_only'') = (Inr rc, bk')" "\<not> cr_replay rc"
    using sample_commit_books by blast
  from commit_books_value [OF this] show ?thesis using run(1) by auto
qed

theorem cash_matches_ledger_witness:
  "\<exists>es. cb_ledger (run_commits [(''t'', sample_commit)] (sample_book ''shadow_only'')) = es
     \<and> cash_of ''f1'' (run_commits [(''t'', sample_commit)] (sample_book ''shadow_only'')) = Some (Fin (1000 + (\<Sum>e\<leftarrow>es. event_cash ''f1'' e)))"
  using cash_matches_ledger [of "''f1''" "sample_book ''shadow_only''" 1000 "[(''t'', sample_commit)]"] by auto

theorem commit_retry_is_harmless_witness:
  "\<exists>rc bk'. rpc_commit_internal_close ''t'' sample_commit (sample_book ''shadow_only'') = (Inr rc, bk')
     \<and> rpc_commit_internal_close ''t2'' sample_commit bk' = (Inr (rc\<lparr>cr_replay := True\<rparr>), bk')"
  using sample_commit_books commit_retry_is_harmless by blast

end
