(* ===== verification/Close_Guard_Correct.thy ===== *)
theory Close_Guard_Correct
  imports Close_Guard
begin

section \<open>What the guard of closes guarantees\<close>

text \<open>
  Exactly when the guard lets a close through, and that a position whose close orders were all
  cancelled can be closed again after the window. The caller closes without the guard when its read
  fails, and resting profit exits live beside a close: the guard bounds no number of orders.
\<close>

definition plain_row :: "pydict \<Rightarrow> bool" where
  "plain_row r \<longleftrightarrow> is_gtc_profit_exit_order r = Inr False"

lemma blocking_candidates_plain: "\<forall>r \<in> set rows. plain_row r \<Longrightarrow> blocking_candidates rows = Inr rows"
proof -
  assume plain: "\<forall>r \<in> set rows. plain_row r"
  have "rmap (\<lambda>r. rbind (is_gtc_profit_exit_order r) (\<lambda>g. Inr (r, g))) rows = Inr (map (\<lambda>r. (r, False)) rows)"
    using plain by (induction rows) (simp_all add: plain_row_def)
  then show ?thesis by (simp add: blocking_candidates_def comp_def filter_map)
qed

text \<open>The settings read as a policy: window and budget window in seconds, and the budget.\<close>

definition rearm_policy :: "environ \<Rightarrow> rat \<Rightarrow> rat \<Rightarrow> int \<Rightarrow> bool" where
  "rearm_policy env w bw budget \<longleftrightarrow> close_rearm_enabled env
     \<and> period 60 (close_rearm_window_minutes env) = Inr w \<and> period 3600 (close_rearm_budget_window_hours env) = Inr bw
     \<and> close_rearm_retry_budget env = budget"

definition recent_failures :: "(string \<Rightarrow> rat option) \<Rightarrow> rat \<Rightarrow> rat \<Rightarrow> pydict list \<Rightarrow> nat" where
  "recent_failures parse now bw rows = length (filter (\<lambda>r. terminal_failed r \<and> is_recent parse now bw r) rows)"

lemma guard_empty_iff:
  assumes "rearm_policy env w bw budget" and "\<forall>r \<in> set rows. plain_row r"
  shows "filter_blocking_close_orders env parse now rows = Inr [] \<longleftrightarrow>
     (\<forall>r \<in> set rows. terminal_failed r) \<and> (rows = [] \<or>
       int (recent_failures parse now bw rows) < budget \<and> (\<forall>r \<in> set rows. \<not> is_recent parse now w r))"
proof (cases "filter terminal_failed rows = []")
  case True
  then have "\<forall>r \<in> set rows. \<not> terminal_failed r" by (simp add: filter_empty_conv)
  then show ?thesis using assms True
    by (auto simp: filter_blocking_close_orders_def blocking_candidates_plain rearm_policy_def filter_empty_conv)
next
  case False
  then have "rows \<noteq> []" by auto
  with False assms show ?thesis
    by (auto simp: filter_blocking_close_orders_def blocking_candidates_plain rearm_policy_def Let_def recent_failures_def
        filter_empty_conv conj_commute)
qed

text \<open>
  C16 (liveness). When every close order of a position has ended cancelled at a known time, the
  position can be closed again: at once when the retry budget is not used up and the last failure
  is older than the window, and in any case once both windows have passed.
\<close>

theorem close_protection_rearms:
  assumes "rearm_policy env w bw budget" and "0 < budget"
    and "\<forall>r \<in> set rows. plain_row r \<and> terminal_failed r \<and> (\<exists>t \<le> last_failure. terminal_failed_time parse r = Some t)"
    and "last_failure + w < now"
    and "int (recent_failures parse now bw rows) < budget \<or> last_failure + bw < now"
  shows "filter_blocking_close_orders env parse now rows = Inr []"
proof -
  have "\<not> is_recent parse now v r" if "r \<in> set rows" "last_failure + v < now" for v r
    using assms(3) that by (force simp: is_recent_def)
  then have "\<forall>r \<in> set rows. \<not> is_recent parse now w r" and "last_failure + bw < now \<Longrightarrow> recent_failures parse now bw rows = 0"
    using assms(4) by (auto simp: recent_failures_def filter_empty_conv)
  then show ?thesis using assms(2,3,5) guard_empty_iff [OF assms(1), of rows parse now] by auto
qed

subsection \<open>A concrete history\<close>

text \<open>Times are written in tallies; three cancelled closes, one an hour, with the default settings.\<close>

definition tally :: "string \<Rightarrow> rat option" where
  "tally s = Some (3600 * of_nat (length s))"

definition close_attempt :: "string \<Rightarrow> string \<Rightarrow> pydict" where
  "close_attempt status stamp = [(''id'', PStr ''o1''), (''status'', PStr status), (''cancelled_at'', PStr stamp), (''created_at'', PStr ''x''), (''order_json'', PDict [])]"

lemma close_attempt_simps [simp]:
  "plain_row (close_attempt status stamp)" "terminal_failed (close_attempt status stamp) \<longleftrightarrow> status = ''cancelled''"
  "stamp \<noteq> [] \<Longrightarrow> terminal_failed_time tally (close_attempt status stamp) = Some (3600 * of_nat (length stamp))"
  by (simp_all add: close_attempt_def plain_row_def is_gtc_profit_exit_order_def order_json_of_def terminal_failed_def
      terminal_failed_time_def stamp_time_def tally_def dget_def)

definition no_settings :: environ where
  "no_settings k = None"

lemma default_policy: "rearm_policy no_settings 1800 14400 3"
  by (simp add: rearm_policy_def close_rearm_enabled_def default_on_def no_settings_def close_rearm_window_minutes_def env_num_def period_def
      close_rearm_budget_window_hours_def close_rearm_retry_budget_def env_count_def str_strip_def)

definition failed_history :: "pydict list" where
  "failed_history = [close_attempt ''cancelled'' ''iii'', close_attempt ''cancelled'' ''ii'', close_attempt ''cancelled'' ''i'']"

theorem close_protection_rearms_witness:
  "filter_blocking_close_orders no_settings tally 30000 failed_history = Inr []
   \<and> filter_blocking_close_orders no_settings tally 14000 failed_history = Inr failed_history"
proof
  show "filter_blocking_close_orders no_settings tally 30000 failed_history = Inr []"
    by (rule close_protection_rearms [OF default_policy, where last_failure = 10800]) (auto simp: failed_history_def)
  have "is_recent tally 14000 14400 r" if "r \<in> set failed_history" for r
    using that by (auto simp: failed_history_def is_recent_def)
  then show "filter_blocking_close_orders no_settings tally 14000 failed_history = Inr failed_history"
    using default_policy blocking_candidates_plain [of failed_history]
    by (auto simp: filter_blocking_close_orders_def rearm_policy_def failed_history_def)
qed

end
