(* ===== verification/Close_Route_Correct.thy ===== *)
theory Close_Route_Correct
  imports Close_Route Internal_Commit_Correct Broker_Correct Close_Guard_Correct
begin

section \<open>What the route of a close guarantees\<close>

text \<open>
  The route moves money only through the atomic commit: a run leaves positions, portfolios and
  ledger as they were, or is one commit of the position it was called for. From this follow the
  isolation of live books, the agreement of profit and cash, and at most one internal close per
  position over any sequence of runs.
\<close>

text \<open>The part of the book that holds money.\<close>

definition money :: "close_book \<Rightarrow> pydict list \<times> pydict list \<times> cash_event list" where
  "money bk = (cb_positions bk, cb_portfolios bk, cb_ledger bk)"

named_theorems money_kept \<open>steps that leave the money alone\<close>

lemma money_set_order [money_kept]: "money (set_order oid kvs bk) = money bk"
  by (simp add: money_def set_order_def)

lemma money_insert_order [money_kept]: "money (insert_order row bk) = money bk"
  by (simp add: money_def insert_order_def)

lemma money_mark_review [money_kept]: "money (mark_review re bk) = money bk"
  by (simp add: mark_review_def money_kept)

lemma money_stamp_order [money_kept]: "money (stamp_order re kvs bk) = money bk"
  by (simp add: stamp_order_def money_kept split: option.splits pyval.splits)

lemma money_stamp_gap [money_kept]: "money (stamp_gap re cross mid bk) = money bk"
  by (simp add: stamp_gap_def money_kept)

lemma money_stamp_reason [money_kept]: "money (stamp_reason re reason detail bk) = money bk"
  by (simp add: stamp_reason_def money_kept Let_def)

lemma money_stage:
  assumes "stage_close_order env re estimate uid pf pid t bk = Inr bk'" shows "money bk' = money bk"
  using assms by (auto simp: stage_close_order_def Let_def rbind_Inr_iff money_kept split: if_splits option.splits)

lemma submit_positions:
  assumes "submit_and_track env br sdb order b dk = (res, b', dk')"
  shows "dk_positions dk' = dk_positions dk"
  using conjunct2 [OF submission_result [OF assms]] by (auto split: sum.splits submit_result.splits)

lemma money_submit:
  assumes "submit_close br re b bk = (r, b', bk')" shows "money bk' = money bk"
proof -
  have "money (bk\<lparr>cb_desk := dk'\<rparr>) = money bk" if "submit_and_track env br sdb order b (cb_desk bk) = (res, b'', dk')"
    for env sdb order res b'' dk'
    using submit_positions [OF that] by (simp add: money_def)
  then show ?thesis using assms
    by (auto simp: submit_close_def Let_def money_kept split: if_splits option.splits prod.splits sum.splits submit_result.splits)
qed

lemma money_broker_part:
  assumes "broker_part env br re p b bk = (r, b', bk')" shows "money bk' = money bk"
  using assms money_submit by (auto simp: broker_part_def money_kept split: if_splits prod.splits)

lemma money_eqD:
  assumes "money bk' = money bk"
  shows "cb_positions bk' = cb_positions bk" "cb_portfolios bk' = cb_portfolios bk" "cb_ledger bk' = cb_ledger bk"
    "portfolio_routing p bk' = portfolio_routing p bk" "cash_of pf bk' = cash_of pf bk"
  using assms by (auto simp: money_def portfolio_routing_def cash_of_def cong: pyval.case_cong option.case_cong)

subsection \<open>The internal fill\<close>

lemma commit_inputsD:
  assumes "commit_inputs c = Inr i"
  shows "cc_portfolio c = Some (cx_portfolio i)" "cc_position c = Some (cx_position i)" "cc_order c = Some (cx_order i)"
    "cc_qty c = Some (Fin (cx_qty i))" "cc_price c = Some (Fin (cx_price i))" "cc_realized c = Some (Fin (cx_realized i))"
    "cc_multiplier c = Some (Fin (cx_multiplier i))" "0 < cx_price i" "cc_user c = Some (cx_user i)"
  using assms unfolding commit_inputs_def by (auto simp: rbind_Inr_iff)

text \<open>A fill is one commit with the profit that was computed, or changes nothing.\<close>

definition fill_commits ::
  "route_env \<Rightarrow> string \<Rightarrow> string \<Rightarrow> pydict \<Rightarrow> pynum \<Rightarrow> pynum \<Rightarrow> close_book \<Rightarrow> close_book \<Rightarrow> bool" where
  "fill_commits re uid pid p qty entry bk bk' \<longleftrightarrow>
     (\<exists>i row r f q cash n mapped price quality.
        commit_inputs (commit_args uid pid p (re_new_id re) mapped qty (Fin (cx_price i)) (Fin (cx_realized i)) price quality) = Inr i
        \<and> commit_ready i row r f q cash bk
        \<and> py_int_of_num (fabs qty) = Inr n
        \<and> compute_realized_pl (synth_legs p qty (Fin (cx_price i))) (PDec entry) n (spread_of qty) 100 = Inr (Fin (cx_realized i))
        \<and> bk' = commit_writes (de_now_text (re_desk re)) i row (Fin \<bar>q\<bar>) (Fin (close_value i q)) (fadd cash (Fin (close_value i q))) bk)"

lemma call_commit_cases:
  assumes "call_commit re c bk = (res, bk')"
  shows "(bk' = bk \<and> (\<forall>rc. res = Inr rc \<longrightarrow> cr_replay rc)) \<or>
     ((res = Inl None \<or> (\<exists>rc. res = Inr rc \<and> \<not> cr_replay rc)) \<and>
      (\<exists>i row r f q cash. commit_inputs c = Inr i \<and> commit_ready i row r f q cash bk
        \<and> bk' = commit_writes (de_now_text (re_desk re)) i row (Fin \<bar>q\<bar>) (Fin (close_value i q)) (fadd cash (Fin (close_value i q))) bk))"
proof (cases "re_channel re = Unsent")
  case True
  then show ?thesis using assms by (auto simp: call_commit_def)
next
  case False
  obtain res0 bk0 where run: "rpc_commit_internal_close (de_now_text (re_desk re)) c bk = (res0, bk0)" by fastforce
  have call: "call_commit re c bk = (case res0 of Inl e \<Rightarrow> (Inl (Some e), bk0)
      | Inr rc \<Rightarrow> (if re_channel re = Delivered then Inr rc else Inl None, bk0))"
    using False by (cases "re_channel re") (auto simp: call_commit_def run split: sum.splits)
  from run show ?thesis
  proof (cases rule: commit_cases)
    case (refused e)
    then show ?thesis using assms call by auto
  next
    case (replayed rc)
    then show ?thesis using assms call by (auto split: if_splits)
  next
    case (booked i p r f q cash rc)
    then have "res = Inl None \<or> (\<exists>rc. res = Inr rc \<and> \<not> cr_replay rc)" and "bk' = bk0" using assms call by (auto split: if_splits)
    then show ?thesis using booked(1,2,6) by blast
  qed
qed

lemma internal_fill_cases:
  assumes "internal_fill env re uid pid p reason qty price n_legs entry bk = (res, bk')"
  shows "(bk' = bk \<and> res \<noteq> Inr (InternalClosed (re_new_id re) False)) \<or>
     (fill_commits re uid pid p qty entry bk bk' \<and>
       (res = Inr (InternalClosed (re_new_id re) False) \<or> res = Inr (CommitFailed (re_new_id re) None)))"
proof -
  obtain signed quality where sel: "select_internal_fill_price env (re_fill_quotes re) p price = (signed, quality)" by fastforce
  let ?m = "fst (close_limit_and_direction signed qty n_legs)"
  show ?thesis
  proof (cases "\<exists>mapped n pl. map_close_reason (Some reason) = Some mapped \<and> py_int_of_num (fabs qty) = Inr n
      \<and> compute_realized_pl (synth_legs p qty ?m) (PDec entry) n (spread_of qty) 100 = Inr pl")
    case False
    then show ?thesis using assms sel
      by (auto simp: internal_fill_def Let_def split: option.splits sum.splits close_error.splits)
  next
    case True
    then obtain mapped n pl where ok: "map_close_reason (Some reason) = Some mapped" "py_int_of_num (fabs qty) = Inr n"
      "compute_realized_pl (synth_legs p qty ?m) (PDec entry) n (spread_of qty) 100 = Inr pl" by blast
    let ?c = "commit_args uid pid p (re_new_id re) mapped qty ?m pl price quality"
    obtain res0 bk0 where call: "call_commit re ?c bk = (res0, bk0)" by fastforce
    have res: "res = (case res0 of Inl e \<Rightarrow> Inr (CommitFailed (re_new_id re) e) | Inr rc \<Rightarrow> Inr (InternalClosed (re_new_id re) (cr_replay rc)))"
      and bk': "bk' = bk0"
      using assms sel ok call by (auto simp: internal_fill_def Let_def split: sum.splits)
    from call_commit_cases [OF call] show ?thesis
    proof
      assume "bk0 = bk \<and> (\<forall>rc. res0 = Inr rc \<longrightarrow> cr_replay rc)"
      then show ?thesis using res bk' by (auto split: sum.splits)
    next
      assume r: "(res0 = Inl None \<or> (\<exists>rc. res0 = Inr rc \<and> \<not> cr_replay rc)) \<and>
        (\<exists>i row r f q cash. commit_inputs ?c = Inr i \<and> commit_ready i row r f q cash bk
          \<and> bk0 = commit_writes (de_now_text (re_desk re)) i row (Fin \<bar>q\<bar>) (Fin (close_value i q)) (fadd cash (Fin (close_value i q))) bk)"
      then obtain i row r f q cash where i: "commit_inputs ?c = Inr i" "commit_ready i row r f q cash bk"
        "bk0 = commit_writes (de_now_text (re_desk re)) i row (Fin \<bar>q\<bar>) (Fin (close_value i q)) (fadd cash (Fin (close_value i q))) bk"
        by blast
      have m: "?m = Fin (cx_price i)" and pl: "pl = Fin (cx_realized i)"
        using commit_inputsD(5,6) [OF i(1)] by (simp_all add: commit_args_def)
      have "fill_commits re uid pid p qty entry bk bk'"
        unfolding fill_commits_def using i ok(2,3) bk' unfolding m pl by blast
      then show ?thesis using r res by auto
    qed
  qed
qed

lemma money_eq_trans: "money b = money a \<Longrightarrow> money c = money b \<Longrightarrow> money c = money a"
  by simp

lemma guarded_fill_cases:
  assumes "guarded_fill env re uid pid p reason qty price n_legs entry bk = (res, bk')"
  shows "(money bk' = money bk \<and> res \<noteq> Inr (InternalClosed (re_new_id re) False)) \<or>
     (fill_commits re uid pid p qty entry bk bk' \<and>
       (res = Inr (InternalClosed (re_new_id re) False) \<or> res = Inr (CommitFailed (re_new_id re) None)))"
  using assms internal_fill_cases [of env re uid pid p reason qty price n_legs entry bk res bk']
  by (auto simp: guarded_fill_def money_kept split: if_splits)

lemma broker_part_result:
  assumes "broker_part env br re p b bk = (Inr (Some r), b', bk')" shows "r \<noteq> InternalClosed oid rep"
  using assms by (auto simp: broker_part_def submit_close_def Let_def split: if_splits prod.splits option.splits sum.splits submit_result.splits)

lemma after_staging_cases:
  assumes "after_staging env br re at_broker uid pid p reason qty price n_legs entry b bk = (res, b', bk')"
  shows "(money bk' = money bk \<and> res \<noteq> Inr (InternalClosed (re_new_id re) False)) \<or>
     (\<exists>bk1. money bk1 = money bk \<and> fill_commits re uid pid p qty entry bk1 bk' \<and>
       (res = Inr (InternalClosed (re_new_id re) False) \<or> res = Inr (CommitFailed (re_new_id re) None)))"
proof -
  obtain r b1 bk1 where first: "(if at_broker then broker_part env br re p b bk else (Inr None, b, bk)) = (r, b1, bk1)"
    by (rule prod_cases3)
  then have m: "money bk1 = money bk" using money_broker_part by (auto split: if_splits)
  have not_closed: "x \<noteq> InternalClosed oid rep" if "r = Inr (Some x)" for x oid rep
    using first that by (auto dest: broker_part_result split: if_splits)
  obtain res2 bk2 where fill: "guarded_fill env re uid pid p reason qty price n_legs entry bk1 = (res2, bk2)" by fastforce
  show ?thesis
  proof (cases "r = Inr None")
    case True
    then have "res = res2" "bk' = bk2" using assms first fill by (auto simp: after_staging_def)
    then show ?thesis using guarded_fill_cases [OF fill] m by auto
  next
    case False
    then have "bk' = bk1 \<and> (\<forall>oid rep. res \<noteq> Inr (InternalClosed oid rep))"
      using assms first not_closed by (cases r) (auto simp: after_staging_def split: option.splits)
    then show ?thesis using m by simp
  qed
qed

lemma stage_and_route_cases:
  assumes "stage_and_route env br estimate re at_broker uid pid p reason detail qty price cross mid entry b bk = (res, env', b', bk')"
  shows "(money bk' = money bk \<and> res \<noteq> Inr (InternalClosed (re_new_id re) False)) \<or>
     (\<exists>bk1. money bk1 = money bk \<and> fill_commits re uid pid p qty entry bk1 bk' \<and>
       (res = Inr (InternalClosed (re_new_id re) False) \<or> res = Inr (CommitFailed (re_new_id re) None)))"
proof (cases "\<exists>n t pf bk1. rbind (close_legs_of re pid p (close_side qty) bk) (\<lambda>legs.
           rbind (close_ticket_of p qty price legs) (\<lambda>t. Inr (length legs, t))) = Inr (n, t) \<and> dget p ''portfolio_id'' = PStr pf
    \<and> stage_close_order (if at_broker then env else env(''EXECUTION_MODE'' \<mapsto> ''internal_paper'')) re estimate uid pf pid t bk = Inr bk1")
  case False
  then show ?thesis using assms by (auto simp: stage_and_route_def Let_def split: sum.splits pyval.splits)
next
  case True
  then obtain n t pf bk1 where st: "rbind (close_legs_of re pid p (close_side qty) bk) (\<lambda>legs.
           rbind (close_ticket_of p qty price legs) (\<lambda>t. Inr (length legs, t))) = Inr (n, t)" "dget p ''portfolio_id'' = PStr pf"
    "stage_close_order (if at_broker then env else env(''EXECUTION_MODE'' \<mapsto> ''internal_paper'')) re estimate uid pf pid t bk = Inr bk1"
    by blast
  let ?bk2 = "stamp_reason re reason detail (stamp_gap re cross mid bk1)"
  obtain r b1 bk3 where after: "after_staging env br re at_broker uid pid p reason qty price n entry b ?bk2 = (r, b1, bk3)"
    by (rule prod_cases3)
  have "res = r" "bk' = bk3" using assms st after by (simp_all add: stage_and_route_def Let_def)
  moreover have "money ?bk2 = money bk" using money_stage [OF st(3)] by (simp add: money_kept)
  ultimately show ?thesis using after_staging_cases [OF after] by auto
qed

lemma blocked_result:
  assumes "idempotency_check env re pid side reason bk = Some r" shows "(\<exists>v. r = SkippedDuplicate v) \<or> (\<exists>v. r = RestingOwnsProfit v)"
proof -
  obtain blocking where run: "blocked_by env re reason (existing_closes pid side bk) = Inr (Some r)"
    and blocking: "filter_blocking_close_orders env (re_parse re) (re_now re) (existing_closes pid side bk) = Inr blocking"
    using assms by (auto simp: idempotency_check_def blocked_by_def rbind_Inr_iff split: if_splits sum.splits)
  then show ?thesis
    by (cases blocking) (auto simp: blocked_by_def rbind_Inr_iff neq_Nil_conv split: if_splits list.splits)
qed

text \<open>A run changes nothing of the money, or is one commit for the position it was called for.\<close>

lemma close_position_cases:
  assumes "close_position env br estimate re uid pid reason override detail b bk = (res, env', b', bk')"
  shows "(money bk' = money bk \<and> res \<noteq> Inr (InternalClosed (re_new_id re) False)) \<or>
     (\<exists>p qty entry bk1. find_row pid (cb_positions bk) = Some p \<and> py_float (dget p ''quantity'') = Inr qty
       \<and> py_float (py_or (dget p ''avg_entry_price'') (PInt 0)) = Inr entry
       \<and> money bk1 = money bk \<and> fill_commits re uid pid p qty entry bk1 bk' \<and>
       (res = Inr (InternalClosed (re_new_id re) False) \<or> res = Inr (CommitFailed (re_new_id re) None)))"
proof (cases "find_row pid (cb_positions bk)")
  case None
  then show ?thesis using assms by (auto simp: close_position_def)
next
  case (Some p)
  show ?thesis
  proof (cases "rbind (py_float (dget p ''quantity'')) (\<lambda>qty. rbind (status_closed p) (\<lambda>c. Inr (qty, c)))")
    case (Inl e)
    then show ?thesis using assms Some by (auto simp: close_position_def)
  next
    case (Inr qc)
    then obtain qty shut where qc: "rbind (py_float (dget p ''quantity'')) (\<lambda>qty. rbind (status_closed p) (\<lambda>c. Inr (qty, c))) = Inr (qty, shut)"
      "py_float (dget p ''quantity'') = Inr qty" by (cases qc) (auto simp: rbind_Inr_iff)
    show ?thesis
    proof (cases "shut \<or> num_eq qty (Fin 0) \<or> idempotency_check env re pid (close_side qty) reason bk \<noteq> None")
      case True
      then show ?thesis using assms Some qc by (auto simp: close_position_def Let_def dest: blocked_result split: if_splits option.splits)
    next
      case False
      show ?thesis
      proof (cases "\<exists>price entry price' cross mid. decision_price override p = Inr price
          \<and> py_float (py_or (dget p ''avg_entry_price'') (PInt 0)) = Inr entry
          \<and> validated_price env re (opened_at_broker re pid bk) p price bk = StageAt price' cross mid")
        case True
        then obtain price entry price' cross mid where pr: "decision_price override p = Inr price"
          "py_float (py_or (dget p ''avg_entry_price'') (PInt 0)) = Inr entry"
          "validated_price env re (opened_at_broker re pid bk) p price bk = StageAt price' cross mid" by blast
        have "stage_and_route env br estimate re (opened_at_broker re pid bk) uid pid p reason detail qty price' cross mid entry b bk
            = (res, env', b', bk')"
          using assms Some qc False pr by (simp add: close_position_def Let_def)
        from stage_and_route_cases [OF this] show ?thesis using Some qc(2) pr(2) by blast
      next
        case none: False
        then show ?thesis using assms Some qc False
          by (auto simp: close_position_def Let_def rbind_def split: sum.splits stage_price.splits)
      qed
    qed
  qed
qed

subsection \<open>Live books\<close>

lemma fill_commits_shadow:
  assumes "fill_commits re uid pid p qty entry bk bk'" and "dget p ''portfolio_id'' = PStr pf"
  shows "\<exists>f. find_row pf (cb_portfolios bk) = Some f \<and> dget f ''routing_mode'' = PStr ''shadow_only''"
proof -
  obtain i row r f q cash mapped price quality where
    c: "commit_inputs (commit_args uid pid p (re_new_id re) mapped qty (Fin (cx_price i)) (Fin (cx_realized i)) price quality) = Inr i"
    and ready: "commit_ready i row r f q cash bk" using assms(1) unfolding fill_commits_def by blast
  have "cx_portfolio i = pf" using commit_inputsD(1) [OF c] assms(2) by (simp add: commit_args_def)
  then show ?thesis using ready by (auto simp: commit_ready_def commit_linked_def rbind_Inr_iff)
qed

lemma live_book_kept:
  assumes "close_position env br estimate re uid pid reason override detail b bk = (res, env', b', bk')"
    and "find_row pid (cb_positions bk) = Some p" and "dget p ''portfolio_id'' = PStr pf"
    and "find_row pf (cb_portfolios bk) = Some f" and "dget f ''routing_mode'' \<noteq> PStr ''shadow_only''"
  shows "money bk' = money bk"
  using close_position_cases [OF assms(1)]
proof
  assume "\<exists>p qty entry bk1. find_row pid (cb_positions bk) = Some p \<and> py_float (dget p ''quantity'') = Inr qty
       \<and> py_float (py_or (dget p ''avg_entry_price'') (PInt 0)) = Inr entry
       \<and> money bk1 = money bk \<and> fill_commits re uid pid p qty entry bk1 bk' \<and>
       (res = Inr (InternalClosed (re_new_id re) False) \<or> res = Inr (CommitFailed (re_new_id re) None))"
  then obtain qty entry bk1 where "money bk1 = money bk" "fill_commits re uid pid p qty entry bk1 bk'" using assms(2) by auto
  then obtain f' where "find_row pf (cb_portfolios bk1) = Some f'" "dget f' ''routing_mode'' = PStr ''shadow_only''"
    using fill_commits_shadow [OF _ assms(3)] by blast
  then show ?thesis using money_eqD(2) [OF \<open>money bk1 = money bk\<close>] assms(4,5) by simp
qed simp

text \<open>
  C17 (safety). A position of a portfolio that is not shadow-only is never filled internally:
  whichever reads and writes of the run fail, whatever the quotes are and whatever the broker
  does, positions, portfolios and ledger are unchanged when the route returns or raises, and
  the position was not reported as closed internally.
\<close>

theorem live_close_never_filled_internally:
  assumes "close_position env br estimate re uid pid reason override detail b bk = (res, env', b', bk')"
    and "find_row pid (cb_positions bk) = Some p" and "dget p ''portfolio_id'' = PStr pf"
    and "find_row pf (cb_portfolios bk) = Some f" and "dget f ''routing_mode'' \<noteq> PStr ''shadow_only''"
  shows "cb_positions bk' = cb_positions bk \<and> cb_portfolios bk' = cb_portfolios bk \<and> cb_ledger bk' = cb_ledger bk
     \<and> (\<forall>oid. res \<noteq> Inr (InternalClosed oid False) \<or> oid \<noteq> re_new_id re)"
proof -
  have m: "money bk' = money bk" by (rule live_book_kept [OF assms])
  have "\<not> fill_commits re uid pid p qty entry bk1 bk'" if "money bk1 = money bk" for qty entry bk1
    using fill_commits_shadow [OF _ assms(3), of re uid pid qty entry bk1 bk'] money_eqD(2) [OF that] assms(4,5) by auto
  then have "res \<noteq> Inr (InternalClosed (re_new_id re) False)"
    using close_position_cases [OF assms(1)] assms(2) by auto
  then show ?thesis using money_eqD(1-3) [OF m] by blast
qed

text \<open>
  A defect: a single-leg experiment position in a live-eligible portfolio can never be
  closed by this route. The submission to the broker is vetoed, and the internal fill that the
  comment announces instead is refused for the same portfolio, by the guard or by the commit:
  no run sends anything to the broker or changes positions, cash or ledger.
\<close>

theorem live_experiment_never_closes:
  assumes "close_position env br estimate re uid pid reason override detail b bk = (res, env', b', bk')"
    and "find_row pid (cb_positions bk) = Some p" and "is_single_leg_experiment_row p"
    and "dget p ''portfolio_id'' = PStr pf" and "find_row pf (cb_portfolios bk) = Some f"
    and "dget f ''routing_mode'' = PStr ''live_eligible''"
  shows "b' = b \<and> cb_positions bk' = cb_positions bk \<and> cb_portfolios bk' = cb_portfolios bk \<and> cb_ledger bk' = cb_ledger bk"
proof -
  have "\<not> should_submit_to_broker ok routing (Some p)" for ok routing
    using assms(3) by (simp add: should_submit_to_broker_def)
  then have broker: "fst (snd (broker_part env br re p b0 bk0)) = b0" for env br re b0 bk0
    by (simp add: broker_part_def)
  have after: "fst (snd (after_staging env br re at_broker uid pid p reason qty price n entry b bk0)) = b" for at_broker qty price n entry bk0
    using broker [of env br re b bk0]
    by (auto simp: after_staging_def split: prod.splits sum.splits option.splits)
  have "fst (snd (snd (stage_and_route env br estimate re at_broker uid pid p reason detail qty price cross mid entry b bk))) = b"
    for at_broker qty price cross mid entry
    unfolding stage_and_route_def Let_def case_prod_beta by (auto simp: after split: sum.split pyval.split)
  then have "fst (snd (snd (close_position env br estimate re uid pid reason override detail b bk))) = b"
    using assms(2) unfolding close_position_def Let_def case_prod_beta by (auto split: sum.split option.split stage_price.split)
  moreover have "money bk' = money bk" by (rule live_book_kept [OF assms(1,2,4,5)]) (simp add: assms(6))
  ultimately show ?thesis using assms(1) money_eqD(1-3) [of bk' bk] by simp
qed

subsection \<open>Profit and cash\<close>

lemma sql_num_py_float: "sql_num v = Some x \<Longrightarrow> py_float v = Inr x"
  by (cases v) (auto simp: sql_num_def)

lemma py_int_of_int: "py_int_of_num (Fin x) = Inr n \<Longrightarrow> 0 \<le> x \<Longrightarrow> of_int n = x \<Longrightarrow> n = \<lfloor>x\<rfloor>"
  by (simp add: rat_trunc_def)

text \<open>The profit of the single synthesized leg.\<close>

lemma synth_profit:
  assumes "compute_realized_pl (synth_legs p (Fin q) (Fin x)) (PDec (Fin e)) n (spread_of (Fin q)) 100 = Inr (Fin pl)" and "q \<noteq> 0"
  shows "pl = to_cents (q * x * 100 - q * e * 100)"
proof -
  let ?leg = "leg_fill (dget p ''symbol'') (PStr (close_side (Fin q))) (PFloat (Fin \<bar>q\<bar>)) (PFloat (Fin x))"
  have fields: "dget ?leg ''filled_qty'' = PFloat (Fin \<bar>q\<bar>)" "dget ?leg ''filled_avg_price'' = PFloat (Fin x)"
    "dget ?leg ''action'' = PStr (close_side (Fin q))" by (simp_all add: leg_fill_def dget_def)
  have sell: "leg_sign ?leg = Inr (if 0 < q then 1 else - 1)"
    unfolding leg_sign_def leg_action_def close_side_def by (simp add: leg_fill_def sell_actions_def buy_actions_def py_defs)
  have n: "of_int n = \<bar>q\<bar>" and "0 < n"
    using assms(1) by (auto simp: compute_realized_pl_def synth_legs_def rbind_Inr_iff check_leg_qty_def fields as_decimal_def Let_def split: if_splits)
  have "pl = to_cents (entry_sign (spread_of (Fin q)) * e * of_int n * 100 + (if 0 < q then 1 else - 1) * x * \<bar>q\<bar> * 100)"
    using assms(1) \<open>0 < n\<close>
    by (auto simp: compute_realized_pl_def synth_legs_def rbind_Inr_iff leg_close_cash_def fields sell as_decimal_def Let_def entry_sign_def
        spread_of_def split: if_splits)
  then show ?thesis using assms(2) n by (auto simp: entry_sign_def spread_of_def abs_if algebra_simps split: if_splits)
qed

text \<open>
  C18 (functional). When the route reports an internal close, the position it was called for had
  some quantity q and is closed now at a positive price x; the cash of its portfolio has moved
  by q times x times 100, and the profit that was booked is exactly that movement less the entry
  value q times e times 100, rounded to cents. So cash and profit agree for long and for short
  structures, whatever the quotes were and whether the close was staged for the broker before.
\<close>

theorem internal_close_profit_is_cash:
  assumes "close_position env br estimate re uid pid reason override detail b bk = (Inr (InternalClosed (re_new_id re) False), env', b', bk')"
    and "find_row pid (cb_positions bk) = Some p" and "dget p ''portfolio_id'' = PStr pf"
    and "py_float (py_or (dget p ''avg_entry_price'') (PInt 0)) = Inr (Fin e)" and "cash_of pf bk = Some (Fin a)"
  shows "\<exists>q x closed_row. sql_num (dget p ''quantity'') = Some (Fin q) \<and> 0 < x
     \<and> cash_of pf bk' = Some (Fin (a + q * x * 100))
     \<and> find_row pid (cb_positions bk') = Some closed_row \<and> is_closed closed_row
     \<and> dget closed_row ''realized_pl'' = PDec (Fin (to_cents (q * x * 100 - q * e * 100)))"
proof -
  from close_position_cases [OF assms(1)] obtain qty entry bk1 where
    fill: "py_float (dget p ''quantity'') = Inr qty" "py_float (py_or (dget p ''avg_entry_price'') (PInt 0)) = Inr entry"
      "money bk1 = money bk" "fill_commits re uid pid p qty entry bk1 bk'" using assms(2) by auto
  then obtain i row r f q cash n mapped price quality where
    c: "commit_inputs (commit_args uid pid p (re_new_id re) mapped qty (Fin (cx_price i)) (Fin (cx_realized i)) price quality) = Inr i"
    and ready: "commit_ready i row r f q cash bk1"
    and pl: "compute_realized_pl (synth_legs p qty (Fin (cx_price i))) (PDec entry) n (spread_of qty) 100 = Inr (Fin (cx_realized i))"
    and bk': "bk' = commit_writes (de_now_text (re_desk re)) i row (Fin \<bar>q\<bar>) (Fin (close_value i q)) (fadd cash (Fin (close_value i q))) bk1"
    unfolding fill_commits_def by blast
  have ids: "cx_portfolio i = pf" "cx_position i = pid" "cx_multiplier i = 100" "0 < cx_price i"
    using commit_inputsD(1,2,7,8) [OF c] assms(3) by (simp_all add: commit_args_def)
  have row: "row = p" using ready ids(2) assms(2) money_eqD(1) [OF fill(3)] by (auto simp: commit_ready_def)
  have q: "sql_num (dget p ''quantity'') = Some (Fin q)" "q \<noteq> 0" "dget p ''status'' = PStr ''open''" "find_row pid (cb_positions bk1) = Some p"
    using ready row ids(2) by (auto simp: commit_ready_def)
  then have "qty = Fin q" using sql_num_py_float fill(1) by fastforce
  then have profit: "cx_realized i = to_cents (q * cx_price i * 100 - q * e * 100)"
    using synth_profit [of p q "cx_price i" e n] pl fill(2) assms(4) q(2) by simp
  have "cash = Fin a"
    using ready ids(1) assms(5) money_eqD(2) [OF fill(3)] by (auto simp: commit_ready_def cash_of_def)
  then have "cash_of pf bk' = Some (Fin (a + q * cx_price i * 100))"
    using cash_of_writes [OF ready] bk' ids by (simp add: close_value_def)
  moreover have "find_row pid (cb_positions bk') = Some (close_row (Fin (cx_realized i)) (cx_reason i) (cx_source i)
      (de_now_text (re_desk re)) (de_now_text (re_desk re)) p)"
    using bk' q(3,4) ids(2) by (simp add: commit_writes_rows)
  ultimately show ?thesis using q(1) ids(4) profit by (intro exI [of _ q] exI [of _ "cx_price i"] exI) auto
qed

subsection \<open>Sequences of runs\<close>

record route_op =
  ro_env :: route_env
  ro_user :: string
  ro_position :: string
  ro_reason :: string
  ro_override :: "pynum option"
  ro_detail :: "string option"

definition route_act ::
  "'b broker \<Rightarrow> (close_ticket \<Rightarrow> pyexn + pynum option) \<Rightarrow> route_op \<Rightarrow> environ \<times> 'b \<times> close_book \<Rightarrow> bool \<times> environ \<times> 'b \<times> close_book" where
  "route_act br estimate x s =
     (case s of (env, b, bk) \<Rightarrow>
      case close_position env br estimate (ro_env x) (ro_user x) (ro_position x) (ro_reason x) (ro_override x) (ro_detail x) b bk of
        (res, env', b', bk') \<Rightarrow> (cb_ledger bk' \<noteq> cb_ledger bk, env', b', bk'))"

lemma route_act_cases:
  assumes "route_act br estimate x (env, b, bk) = (moved, env', b', bk')"
  shows "(\<not> moved \<and> money bk' = money bk) \<or>
     (moved \<and> (\<exists>bk1 p qty entry. money bk1 = money bk \<and> fill_commits (ro_env x) (ro_user x) (ro_position x) p qty entry bk1 bk'))"
proof -
  obtain res where run: "close_position env br estimate (ro_env x) (ro_user x) (ro_position x) (ro_reason x) (ro_override x) (ro_detail x) b bk
      = (res, env', b', bk')" and moved: "moved = (cb_ledger bk' \<noteq> cb_ledger bk)"
    using assms by (auto simp: route_act_def split: prod.splits)
  from close_position_cases [OF run] show ?thesis
  proof
    assume "money bk' = money bk \<and> res \<noteq> Inr (InternalClosed (re_new_id (ro_env x)) False)"
    then show ?thesis using moved money_eqD(3) by blast
  next
    assume "\<exists>p qty entry bk1. find_row (ro_position x) (cb_positions bk) = Some p \<and> py_float (dget p ''quantity'') = Inr qty
       \<and> py_float (py_or (dget p ''avg_entry_price'') (PInt 0)) = Inr entry
       \<and> money bk1 = money bk \<and> fill_commits (ro_env x) (ro_user x) (ro_position x) p qty entry bk1 bk' \<and>
       (res = Inr (InternalClosed (re_new_id (ro_env x)) False) \<or> res = Inr (CommitFailed (re_new_id (ro_env x)) None))"
    then obtain p qty entry bk1 where f: "money bk1 = money bk" "fill_commits (ro_env x) (ro_user x) (ro_position x) p qty entry bk1 bk'" by blast
    then have "cb_ledger bk' \<noteq> cb_ledger bk" using money_eqD(3) [OF f(1)] by (auto simp: fill_commits_def commit_writes_rows)
    then show ?thesis using f moved by blast
  qed
qed

lemma fill_commits_spends:
  assumes "fill_commits re uid pid p qty entry bk bk'"
  shows "\<not> position_spent bk (Some pid) \<and> position_spent bk' (Some pid) \<and> (position_spent bk (Some k) \<longrightarrow> position_spent bk' (Some k))"
proof -
  obtain i row r f q cash mapped price quality where
    c: "commit_inputs (commit_args uid pid p (re_new_id re) mapped qty (Fin (cx_price i)) (Fin (cx_realized i)) price quality) = Inr i"
    and ready: "commit_ready i row r f q cash bk"
    and bk': "bk' = commit_writes (de_now_text (re_desk re)) i row (Fin \<bar>q\<bar>) (Fin (close_value i q)) (fadd cash (Fin (close_value i q))) bk"
    using assms unfolding fill_commits_def by blast
  have "cx_position i = pid" using commit_inputsD(2) [OF c] by (simp add: commit_args_def)
  moreover have "\<not> is_closed row" using ready by (simp add: commit_ready_def is_closed_def)
  ultimately show ?thesis using ready bk'
    by (auto simp: position_spent_def commit_ready_def commit_writes_rows split: option.splits)
qed

lemma position_spent_money: "money bk' = money bk \<Longrightarrow> position_spent bk' k = position_spent bk k"
  unfolding position_spent_def by (drule money_eqD(1)) (erule ssubst, rule refl)

lemma route_act_spends:
  assumes "route_act br estimate x (env, b, bk) = (moved, env', b', bk')"
  shows "(moved \<longrightarrow> \<not> position_spent bk (Some (ro_position x)) \<and> position_spent bk' (Some (ro_position x)))
     \<and> (position_spent bk (Some k) \<longrightarrow> position_spent bk' (Some k))"
  using route_act_cases [OF assms]
proof
  assume "\<not> moved \<and> money bk' = money bk"
  then show ?thesis using position_spent_money by blast
next
  assume "moved \<and> (\<exists>bk1 p qty entry. money bk1 = money bk \<and> fill_commits (ro_env x) (ro_user x) (ro_position x) p qty entry bk1 bk')"
  then obtain bk1 p qty entry where m: "money bk1 = money bk" and f: "fill_commits (ro_env x) (ro_user x) (ro_position x) p qty entry bk1 bk'"
    by blast
  show ?thesis using fill_commits_spends [OF f, of k] unfolding position_spent_money [OF m] by blast
qed

interpretation cr: one_shot "route_act br estimate" ro_position "\<lambda>s k. position_spent (snd (snd s)) (Some k)" "\<lambda>_. True"
  for br :: "'b broker" and estimate
proof
  fix s t :: "environ \<times> 'b \<times> close_book" and x moved k
  obtain env b bk where s: "s = (env, b, bk)" by (cases s)
  obtain env' b' bk' where t: "t = (env', b', bk')" by (cases t)
  show "\<not> position_spent (snd (snd s)) (Some (ro_position x)) \<and> position_spent (snd (snd t)) (Some (ro_position x))"
    if "route_act br estimate x s = (True, t)"
    using route_act_spends that unfolding s t by fastforce
  show "position_spent (snd (snd t)) (Some k)"
    if "route_act br estimate x s = (moved, t)" "position_spent (snd (snd s)) (Some k)"
    using route_act_spends that unfolding s t by fastforce
qed simp

text \<open>
  C22 (safety). Over any sequence of runs of the route, for any positions and in any order, with
  failed reads and writes, lost replies of the database and any broker, each position moves
  cash at most once.
\<close>

theorem route_books_each_position_once:
  "distinct (effective_keys (route_act br estimate) ro_position runs start)"
  using cr.at_most_once by blast

subsection \<open>The order a failed commit leaves behind\<close>

definition staged_close :: "string \<Rightarrow> string \<Rightarrow> string \<Rightarrow> pydict \<Rightarrow> bool" where
  "staged_close oid pid side row \<longleftrightarrow>
     row_id row = PStr oid \<and> dget row ''position_id'' = PStr pid \<and> dget row ''side'' = PStr side \<and> dget row ''status'' = PStr ''staged''
     \<and> (\<exists>oj. dget row ''order_json'' = PDict oj \<and> oj \<noteq> [] \<and> dget oj ''source_engine'' = PStr ''paper_exit_evaluator'' \<and> dget oj ''order_class'' = PNone)"

definition staged_last :: "string \<Rightarrow> string \<Rightarrow> string \<Rightarrow> close_book \<Rightarrow> close_book \<Rightarrow> bool" where
  "staged_last oid pid side bk bk' \<longleftrightarrow> (\<exists>row. cb_orders bk' = cb_orders bk @ [row] \<and> staged_close oid pid side row)"

lemma set_order_last:
  assumes "staged_last oid pid side bk bk'" and "PStr oid \<notin> row_id ` set (cb_orders bk)"
    and "\<And>row. staged_close oid pid side row \<Longrightarrow> staged_close oid pid side (dset_all kvs row)"
  shows "staged_last oid pid side bk (set_order oid kvs bk')"
proof -
  obtain row where row: "cb_orders bk' = cb_orders bk @ [row]" "staged_close oid pid side row" using assms(1) by (auto simp: staged_last_def)
  have "update_rows (\<lambda>r. row_id r = PStr oid) (dset_all kvs) (cb_orders bk @ [row]) = cb_orders bk @ [dset_all kvs row]"
  proof -
    have "update_rows (\<lambda>r. row_id r = PStr oid) (dset_all kvs) (cb_orders bk) = cb_orders bk"
      using assms(2) by (intro update_rows_none) force
    then show ?thesis using row(2) by (simp add: update_rows_def staged_close_def)
  qed
  then show ?thesis using row assms(3) by (auto simp: staged_last_def set_order_def update_order_def)
qed

text \<open>Columns that do not decide whether the order blocks.\<close>

lemma staged_close_other:
  assumes "set (map fst kvs) \<inter> {''id'', ''position_id'', ''side'', ''status'', ''order_json''} = {}" and "staged_close oid pid side row"
  shows "staged_close oid pid side (dset_all kvs row)"
proof -
  have "dget (dset_all kvs row) k = dget row k" if "k \<in> {''id'', ''position_id'', ''side'', ''status'', ''order_json''}" for k
    by (rule dget_dset_all_other) (use assms(1) that in \<open>simp only: set_map, blast\<close>)
  then show ?thesis using assms(2) by (simp add: staged_close_def row_id_def)
qed

lemma dset_all_nonempty: "d \<noteq> [] \<Longrightarrow> dset_all kvs d \<noteq> []"
proof (induction kvs arbitrary: d)
  case (Cons kv kvs)
  have "dset d (fst kv) (snd kv) \<noteq> []" by (cases "(d, fst kv, snd kv)" rule: dset.cases) auto
  then show ?case using Cons.IH by (simp add: dset_all_def split_beta)
qed (simp add: dset_all_def)

lemma stamp_order_last:
  assumes "staged_last (re_new_id re) pid side bk bk'" and "PStr (re_new_id re) \<notin> row_id ` set (cb_orders bk)"
    and "''source_engine'' \<notin> fst ` set kvs" and "''order_class'' \<notin> fst ` set kvs"
  shows "staged_last (re_new_id re) pid side bk (stamp_order re kvs bk')"
proof (cases "re_stamp_ok re")
  case True
  obtain row oj where row: "cb_orders bk' = cb_orders bk @ [row]" "staged_close (re_new_id re) pid side row"
    "dget row ''order_json'' = PDict oj" "oj \<noteq> []" "dget oj ''source_engine'' = PStr ''paper_exit_evaluator''" "dget oj ''order_class'' = PNone"
    using assms(1) by (auto simp: staged_last_def staged_close_def)
  have "find_row (re_new_id re) (cb_orders bk) = None"
    using assms(2) by (force simp: find_row_def find_None_iff)
  then have "find_row (re_new_id re) (cb_orders bk') = Some row"
    using row(1,2) by (simp add: find_row_def find_snoc staged_close_def)
  moreover have "py_or (PDict oj) (PDict []) = PDict oj" using row(4) by simp
  ultimately have stamp: "stamp_order re kvs bk' = set_order (re_new_id re) [(''order_json'', PDict (dset_all kvs oj))] bk'"
    using True row(3) by (simp add: stamp_order_def)
  have "dget (dset_all kvs oj) k = dget oj k" if "k \<in> {''source_engine'', ''order_class''}" for k
    by (rule dget_dset_all_other) (use that assms(3,4) in \<open>elim insertE emptyE, simp_all only:\<close>)
  then have "staged_close (re_new_id re) pid side (dset_all [(''order_json'', PDict (dset_all kvs oj))] r)"
    if "staged_close (re_new_id re) pid side r" for r
    using that row(4-6) dset_all_nonempty by (simp add: staged_close_def dget_dset_all row_id_def)
  then show ?thesis unfolding stamp by (rule set_order_last [OF assms(1,2)])
qed (use assms(1) in \<open>simp add: stamp_order_def\<close>)

lemma stage_close_last:
  assumes "stage_close_order env re estimate uid pf pid t bk = Inr bk'" and "PStr (re_new_id re) \<notin> row_id ` set (cb_orders bk)"
    and "tk_legs t = l # ls"
  shows "staged_last (re_new_id re) pid (tl_action l) bk bk'"
proof -
  obtain t' m cid where t': "tk_legs t' = tk_legs t" and bk': "bk' = (case cid of
      Some c \<Rightarrow> if re_stamp_ok re then set_order (re_new_id re) [(''client_order_id'', PStr c)] (insert_order (staged_row re m uid pf pid t') bk)
                else insert_order (staged_row re m uid pf pid t') bk
    | None \<Rightarrow> insert_order (staged_row re m uid pf pid t') bk)"
  proof -
    obtain proposed cid where "bk' = (case cid of
      Some c \<Rightarrow> if re_stamp_ok re then set_order (re_new_id re) [(''client_order_id'', PStr c)]
          (insert_order (staged_row re (get_execution_mode env) uid pf pid (t\<lparr>tk_limit := staged_limit (get_execution_mode env) proposed (tk_limit t)\<rparr>)) bk)
                else insert_order (staged_row re (get_execution_mode env) uid pf pid (t\<lparr>tk_limit := staged_limit (get_execution_mode env) proposed (tk_limit t)\<rparr>)) bk
    | None \<Rightarrow> insert_order (staged_row re (get_execution_mode env) uid pf pid (t\<lparr>tk_limit := staged_limit (get_execution_mode env) proposed (tk_limit t)\<rparr>)) bk)"
      using assms(1) by (auto simp: stage_close_order_def Let_def rbind_Inr_iff split: if_splits)
    then show thesis by (rule that [rotated]) simp
  qed
  have "staged_close (re_new_id re) pid (tl_action l) (staged_row re m uid pf pid t')"
    using assms(3) t' by (simp add: staged_close_def staged_row_def row_id_def dget_def ticket_json_def)
  then have last: "staged_last (re_new_id re) pid (tl_action l) bk (insert_order (staged_row re m uid pf pid t') bk)"
    by (auto simp: staged_last_def insert_order_def)
  then show ?thesis using set_order_last [OF last assms(2) staged_close_other] unfolding bk' by (auto split: option.splits)
qed

lemma staged_close_plain:
  assumes "staged_close oid pid side row"
  shows "is_gtc_profit_exit_order row = Inr False" and "\<not> terminal_failed row"
proof -
  obtain oj where oj: "dget row ''order_json'' = PDict oj" "oj \<noteq> []" "dget oj ''source_engine'' = PStr ''paper_exit_evaluator''" "dget oj ''order_class'' = PNone"
    using assms by (auto simp: staged_close_def)
  then have "order_json_of row = Inr oj" by (simp add: order_json_of_def)
  then show "is_gtc_profit_exit_order row = Inr False" using oj by (simp add: is_gtc_profit_exit_order_def)
  show "\<not> terminal_failed row" using assms by (simp add: terminal_failed_def staged_close_def)
qed

lemma blocking_candidates_first:
  assumes "is_gtc_profit_exit_order row = Inr False" and "\<forall>r \<in> set rest. \<exists>g. is_gtc_profit_exit_order r = Inr g"
  shows "\<exists>xs. blocking_candidates (row # rest) = Inr (row # xs)"
proof -
  have "\<exists>ps. rmap (\<lambda>r. rbind (is_gtc_profit_exit_order r) (\<lambda>g. Inr (r, g))) rest = Inr ps"
  proof (rule rmap_Inr_total)
    fix r assume "r \<in> set rest"
    then obtain g where "is_gtc_profit_exit_order r = Inr g" using assms(2) by blast
    then show "\<exists>y. rbind (is_gtc_profit_exit_order r) (\<lambda>g. Inr (r, g)) = Inr y" by simp
  qed
  then show ?thesis using assms(1) by (auto simp: blocking_candidates_def)
qed

definition readable_windows :: "environ \<Rightarrow> bool" where
  "readable_windows env \<longleftrightarrow> \<not> isl (period 60 (close_rearm_window_minutes env)) \<and> \<not> isl (period 3600 (close_rearm_budget_window_hours env))"

lemma staged_order_blocks:
  assumes "blocking_candidates rows = Inr (row # xs)" and "\<not> terminal_failed row" and "readable_windows env"
  shows "\<exists>ys. filter_blocking_close_orders env parse now rows = Inr (row # ys)"
proof -
  obtain w bw where "period 60 (close_rearm_window_minutes env) = Inr w" "period 3600 (close_rearm_budget_window_hours env) = Inr bw"
    using assms(3) by (auto simp: readable_windows_def isl_def split: sum.splits) (metis sum.exhaust)
  then show ?thesis using assms(1,2) by (simp add: filter_blocking_close_orders_def Let_def)
qed

lemma after_staging_last:
  assumes "after_staging env br re at_broker uid pid p reason qty price n_legs entry b bk = (Inr (CommitFailed oid err), b', bk')"
    and "staged_last (re_new_id re) pid side bk0 bk" and "PStr (re_new_id re) \<notin> row_id ` set (cb_orders bk0)"
    and "cb_ledger bk' = cb_ledger bk"
  shows "oid = re_new_id re \<and> staged_last (re_new_id re) pid side bk0 bk'"
proof -
  obtain r b1 bk1 where first: "(if at_broker then broker_part env br re p b bk else (Inr None, b, bk)) = (r, b1, bk1)" by (rule prod_cases3)
  then have m: "money bk1 = money bk" using money_broker_part by (auto split: if_splits)
  have r: "r = Inr None"
  proof (rule ccontr)
    assume "r \<noteq> Inr None"
    then have "r = Inr (Some (CommitFailed oid err))" using assms(1) first by (cases r) (auto simp: after_staging_def split: option.splits)
    then show False using first
      by (auto simp: broker_part_def submit_close_def Let_def split: if_splits prod.splits option.splits sum.splits submit_result.splits)
  qed
  have last: "staged_last (re_new_id re) pid side bk0 bk1"
  proof (cases at_broker)
    case True
    then have "bk1 = set_order (re_new_id re) [(''execution_mode'', PStr ''shadow_blocked'')] bk"
      using first r by (auto simp: broker_part_def split: if_splits prod.splits)
    then show ?thesis using set_order_last [OF assms(2,3) staged_close_other] by simp
  qed (use first assms(2) in simp)
  have fill: "guarded_fill env re uid pid p reason qty price n_legs entry bk1 = (Inr (CommitFailed oid err), bk')"
    using assms(1) first r by (auto simp: after_staging_def split: prod.splits)
  then have "internal_fill env re uid pid p reason qty price n_legs entry bk1 = (Inr (CommitFailed oid err), bk')"
    by (auto simp: guarded_fill_def split: if_splits)
  moreover from this have "oid = re_new_id re"
    by (auto simp: internal_fill_def Let_def split: prod.splits option.splits sum.splits close_error.splits)
  moreover have "\<not> fill_commits re uid pid p qty entry bk1 bk'"
    using assms(4) money_eqD(3) [OF m] by (auto simp: fill_commits_def commit_writes_rows)
  ultimately show ?thesis using internal_fill_cases last by blast
qed

text \<open>
  C21 (error). A defect: after an internal close whose commit failed, the comment promises that the
  position is held and closed in a later cycle, but the order that the failed run staged keeps
  its status and counts as an existing close. Every later call for the position, with
  whatever settings, quotes, reason and broker, is skipped as a duplicate of that order.
\<close>

theorem failed_commit_blocks_retries:
  assumes "close_position env br estimate re uid pid reason override detail b bk = (Inr (CommitFailed oid err), env', b', bk')"
    and "cb_ledger bk' = cb_ledger bk" and "PStr (re_new_id re) \<notin> row_id ` set (cb_orders bk)"
    and "find_row pid (cb_positions bk) = Some p" and "py_float (dget p ''quantity'') = Inr qty"
    and "close_legs_of re pid p (close_side qty) bk = Inr (l # ls)" and "tl_action l = close_side qty"
    and "\<forall>r \<in> set (orders_of pid bk). \<exists>g. is_gtc_profit_exit_order r = Inr g"
    and "readable_windows env2" and "re_closes_ok re2"
  shows "close_position env2 br2 estimate2 re2 uid2 pid reason2 override2 detail2 b2 bk' = (Inr (SkippedDuplicate (PStr oid)), env2, b2, bk')"
proof -
  have not_filled: "\<not> fill_commits re uid pid p' qty' entry' bk1 bk'" if "money bk1 = money bk" for p' qty' entry' bk1
    using assms(2) money_eqD(3) [OF that] by (auto simp: fill_commits_def commit_writes_rows)
  then have m: "money bk' = money bk" using close_position_cases [OF assms(1)] by blast
  obtain shut where sc: "status_closed p = Inr shut" "\<not> shut" "\<not> num_eq qty (Fin 0)"
    and none: "idempotency_check env re pid (close_side qty) reason bk = None"
  proof -
    have "\<exists>shut. status_closed p = Inr shut \<and> \<not> shut \<and> \<not> num_eq qty (Fin 0) \<and> idempotency_check env re pid (close_side qty) reason bk = None"
      using assms(1,4,5) by (auto simp: close_position_def Let_def rbind_def dest: blocked_result split: if_splits option.splits sum.splits)
    then show thesis using that by blast
  qed
  obtain price' cross mid entry where
    run: "stage_and_route env br estimate re (opened_at_broker re pid bk) uid pid p reason detail qty price' cross mid entry b bk
        = (Inr (CommitFailed oid err), env', b', bk')"
  proof -
    have "\<exists>price' cross mid entry. stage_and_route env br estimate re (opened_at_broker re pid bk) uid pid p reason detail qty price' cross mid entry b bk
        = (Inr (CommitFailed oid err), env', b', bk')"
      using assms(1,4,5) sc none by (auto simp: close_position_def Let_def rbind_def split: sum.splits stage_price.splits) blast
    then show thesis using that by blast
  qed
  obtain t pf bk1 where t: "close_ticket_of p qty price' (l # ls) = Inr t" and
    st: "stage_close_order (if opened_at_broker re pid bk then env else env(''EXECUTION_MODE'' \<mapsto> ''internal_paper'')) re estimate uid pf pid t bk = Inr bk1"
    and after: "after_staging env br re (opened_at_broker re pid bk) uid pid p reason qty price' (Suc (length ls)) entry b
        (stamp_reason re reason detail (stamp_gap re cross mid bk1)) = (Inr (CommitFailed oid err), b', bk')"
    using run assms(6) by (auto simp: stage_and_route_def Let_def rbind_def split: sum.splits pyval.splits prod.splits)
  let ?bk2 = "stamp_reason re reason detail (stamp_gap re cross mid bk1)"
  have "tk_legs t = l # ls" using t by (auto simp: close_ticket_of_def split: pyval.splits pynum.splits if_splits prod.splits)
  then have "staged_last (re_new_id re) pid (close_side qty) bk bk1"
    using stage_close_last [OF st assms(3)] assms(7) by simp
  then have "staged_last (re_new_id re) pid (close_side qty) bk (stamp_gap re cross mid bk1)"
    unfolding stamp_gap_def using stamp_order_last [OF _ assms(3)] by simp
  then have last2: "staged_last (re_new_id re) pid (close_side qty) bk ?bk2"
    unfolding stamp_reason_def Let_def by (rule stamp_order_last [OF _ assms(3)]) (auto split: option.splits)
  have "cb_ledger bk' = cb_ledger ?bk2"
    using assms(2) money_stage [OF st] by (metis money_eqD(3) money_stamp_gap money_stamp_reason)
  from after_staging_last [OF after last2 assms(3) this] obtain row where
    oid: "oid = re_new_id re" and row: "cb_orders bk' = cb_orders bk @ [row]" "staged_close oid pid (close_side qty) row"
    by (auto simp: staged_last_def)
  define rest where "rest = take 9 (rev (filter (\<lambda>r. dget r ''side'' = PStr (close_side qty) \<and> in_status close_statuses r) (orders_of pid bk)))"
  have rows: "existing_closes pid (close_side qty) bk' = row # rest"
    using row by (simp add: existing_closes_def orders_of_def rest_def staged_close_def in_status_def close_statuses_def)
  have "set rest \<subseteq> set (orders_of pid bk)" unfolding rest_def by (auto dest: in_set_takeD)
  then have "\<forall>r \<in> set rest. \<exists>g. is_gtc_profit_exit_order r = Inr g" using assms(8) by blast
  then obtain xs where "blocking_candidates (row # rest) = Inr (row # xs)"
    using blocking_candidates_first staged_close_plain(1) [OF row(2)] by blast
  then obtain ys where "filter_blocking_close_orders env2 (re_parse re2) (re_now re2) (row # rest) = Inr (row # ys)"
    using staged_order_blocks staged_close_plain(2) [OF row(2)] assms(9) by blast
  moreover have "dget row ''id'' = PStr oid" using row(2) by (simp add: staged_close_def row_id_def)
  ultimately have "idempotency_check env2 re2 pid (close_side qty) reason2 bk' = Some (SkippedDuplicate (PStr oid))"
    using assms(10) by (simp add: idempotency_check_def blocked_by_def rows)
  then show ?thesis using assms(4,5) sc money_eqD(1) [OF m] by (simp add: close_position_def Let_def)
qed

subsection \<open>A concrete run\<close>

definition entry_order :: pydict where
  "entry_order = [(''id'', PStr ''o0''), (''position_id'', PStr ''p1''), (''side'', PStr ''buy''), (''status'', PStr ''filled''), (''order_json'', PDict [])]"

definition route_book :: "string \<Rightarrow> close_book" where
  "route_book m = (sample_book m)\<lparr>cb_desk := \<lparr>dk_orders = [entry_order], dk_positions = [book_position], dk_alerts = []\<rparr>\<rparr>"

definition route_run :: "rpc_channel \<Rightarrow> route_env" where
  "route_run ch = \<lparr>re_desk = \<lparr>de_now = 0, de_now_text = ''now'', de_parse = (\<lambda>_. None), de_parse_ts = (\<lambda>_. None), de_db_ok = True, de_alert_ok = True\<rparr>,
     re_parse = (\<lambda>_. None), re_now = 0, re_entry_ok = True, re_closes_ok = True, re_price_gate_ok = True,
     re_stage_quotes = (\<lambda>_. Inl RuntimeError), re_opening_ok = True, re_insert_ok = True, re_new_id = ''o1'', re_stamp_ok = False,
     re_submit_gate_ok = True, re_block_ok = True, re_client_ok = True, re_submit = \<lparr>sd_ok = (\<lambda>_. True), sd_error = []\<rparr>,
     re_guard_ok = True, re_mark_ok = True, re_fill_quotes = (\<lambda>_. Inl RuntimeError), re_channel = ch\<rparr>"

lemma route_run_fields [simp]:
  "re_new_id (route_run ch) = ''o1''" "re_stamp_ok (route_run ch) = False" "re_insert_ok (route_run ch)" "re_closes_ok (route_run ch)"
  "re_entry_ok (route_run ch)" "re_guard_ok (route_run ch)" "re_channel (route_run ch) = ch" "re_fill_quotes (route_run ch) = (\<lambda>_. Inl RuntimeError)"
  by (simp_all add: route_run_def)

lemma route_book_rows [simp]:
  "cb_positions (route_book m) = [book_position]" "cb_orders (route_book m) = [entry_order]" "cb_ledger (route_book m) = []"
  "find_row ''p1'' [book_position] = Some book_position" "find_row ''f1'' (cb_portfolios (route_book m)) = Some (book_portfolio m)"
  "cash_of ''f1'' (route_book m) = Some (Fin 1000)"
  using sample_book_rows [of m] by (simp_all add: route_book_def sample_book_def cash_of_def)

lemma entry_order_fields [simp]:
  "dget entry_order ''position_id'' = PStr ''p1''" "dget entry_order ''side'' = PStr ''buy''" "dget entry_order ''alpaca_order_id'' = PNone"
  "row_id entry_order = PStr ''o0''" "is_gtc_profit_exit_order entry_order = Inr False" "dget entry_order ''internal_close_commit_key'' = PNone"
  by (simp_all add: entry_order_def dget_def row_id_def is_gtc_profit_exit_order_def order_json_of_def)

definition book_legs :: "ticket_leg list" where
  "book_legs = [\<lparr>tl_symbol = PStr ''O:F260717C00010000'', tl_action = ''sell'', tl_type = PStr ''call'', tl_strike = PInt 10, tl_expiry = PStr ''2026-07-17''\<rparr>,
                \<lparr>tl_symbol = PStr ''O:F260717C00012000'', tl_action = ''buy'', tl_type = PStr ''call'', tl_strike = PInt 12, tl_expiry = PStr ''2026-07-17''\<rparr>]"

definition book_ticket :: close_ticket where
  "book_ticket = \<lparr>tk_symbol = ''F'', tk_qty = 2, tk_limit = Fin (3/2), tk_credit = True, tk_ref = PNone, tk_legs = book_legs\<rparr>"

lemma route_legs: "close_legs_of re ''p1'' book_position ''sell'' bk = Inr book_legs"
  by (simp add: close_legs_of_def iter_items_def book_position_def dget_def dget_default_def close_leg_of_def inverted_action_def book_legs_def)

lemma route_ticket: "close_ticket_of book_position (Fin 2) (Fin (3/2)) book_legs = Inr book_ticket"
proof -
  have "to_cents (3/2) = 3/2" using to_cents_exact [of "3/2" 150] by simp
  then show ?thesis
    by (simp add: close_ticket_of_def close_limit_and_direction_def book_legs_def leg_model_ok_def book_ticket_def round_price_def)
qed

definition route_row :: "rpc_channel \<Rightarrow> pydict" where
  "route_row ch = staged_row (route_run ch) Internal_Paper ''u1'' ''f1'' ''p1'' book_ticket"

lemma route_row_fields [simp]:
  "dget (route_row ch) ''user_id'' = PStr ''u1''" "dget (route_row ch) ''portfolio_id'' = PStr ''f1''" "dget (route_row ch) ''position_id'' = PStr ''p1''"
  "dget (route_row ch) ''execution_mode'' = PStr ''internal_paper''" "dget (route_row ch) ''internal_close_committed_at'' = PNone"
  "row_id (route_row ch) = PStr ''o1''" "dget (route_row ch) ''id'' = PStr ''o1''"
  by (simp_all add: route_row_def staged_row_def mode_text_def dget_def row_id_def)

lemma forced_mode: "get_execution_mode (env(''EXECUTION_MODE'' \<mapsto> ''internal_paper'')) = Internal_Paper"
proof -
  have "str_strip (str_lower ''internal_paper'') = ''internal_paper''" by code_simp
  then show ?thesis by (simp add: get_execution_mode_def execution_modes_def)
qed

lemma route_stage:
  "stage_close_order (env(''EXECUTION_MODE'' \<mapsto> ''internal_paper'')) (route_run ch) (\<lambda>_. Inr None) ''u1'' ''f1'' ''p1'' book_ticket (route_book m)
     = Inr (insert_order (route_row ch) (route_book m))"
proof -
  have "list_all leg_order_ok (tk_legs book_ticket)"
    by (simp add: book_ticket_def book_legs_def leg_order_ok_def occ_like_def starts_with_def)
  moreover have "book_ticket\<lparr>tk_limit := staged_limit Internal_Paper None (tk_limit book_ticket)\<rparr> = book_ticket"
    by (simp add: staged_limit_def)
  moreover have "\<exists>c. deterministic_client_order_id (route_row ch) = Inr (Some c)"
    by (simp add: deterministic_client_order_id_def)
  ultimately show ?thesis
    by (auto simp: stage_close_order_def owns_portfolio_def forced_mode Let_def route_row_def)
qed

text \<open>The last part of a run on the concrete book.\<close>

definition route_args :: "fill_quality \<Rightarrow> close_commit" where
  "route_args quality = commit_args ''u1'' ''p1'' book_position ''o1'' ''stop_loss_hit'' (Fin 2) (Fin (3/2)) (Fin 100) (Fin (3/2)) quality"

definition staged_book :: "rpc_channel \<Rightarrow> close_book" where
  "staged_book ch = insert_order (route_row ch) (route_book ''shadow_only'')"

lemma route_fill:
  "\<exists>quality. internal_fill no_settings (route_run ch) ''u1'' ''p1'' book_position ''stop_loss'' (Fin 2) (Fin (3/2)) 2 (Fin 1) bk =
     (case call_commit (route_run ch) (route_args quality) bk of
        (Inl e, bk') \<Rightarrow> (Inr (CommitFailed ''o1'' e), bk')
      | (Inr rc, bk') \<Rightarrow> (Inr (InternalClosed ''o1'' (cr_replay rc)), bk'))"
proof -
  have "\<exists>quality. select_internal_fill_price no_settings (\<lambda>_. Inl RuntimeError) book_position (Fin (3/2)) = (Fin (3/2), quality)"
    by (simp add: select_internal_fill_price_def executable_close_estimate_def book_position_def dget_def iter_items_def fetch_leg_quotes_def leg_occ_def List.map_filter_def Let_def)
  then obtain quality where sel: "select_internal_fill_price no_settings (\<lambda>_. Inl RuntimeError) book_position (Fin (3/2)) = (Fin (3/2), quality)" ..
  have reason: "map_close_reason (Some ''stop_loss'') = Some ''stop_loss_hit''" by code_simp
  have pl: "compute_realized_pl (synth_legs book_position (Fin 2) (Fin (3/2))) (PDec (Fin 1)) 2 (spread_of (Fin 2)) 100 = Inr (Fin 100)"
  proof -
    have "to_cents 100 = 100" using to_cents_exact [of 100 10000] by simp
    then show ?thesis
      using realized_pl_formula [of "synth_legs book_position (Fin 2) (Fin (3/2))" 2 "PDec (Fin 1)" 1 "spread_of (Fin 2)" 100]
      by (simp add: synth_legs_def spread_of_def close_side_def leg_fill_ok_def close_math_defs py_defs leg_fill_def realized_total_def entry_sign_def
          signed_price_def round_half_even_def)
  qed
  show ?thesis
    by (rule exI [of _ quality])
      (simp add: internal_fill_def Let_def sel reason pl close_limit_and_direction_def route_args_def rat_trunc_def)
qed

lemma route_none: "idempotency_check no_settings (route_run ch) ''p1'' ''sell'' ''stop_loss'' (route_book m) = None"
proof -
  have "existing_closes ''p1'' ''sell'' (route_book m) = []" by (simp add: existing_closes_def orders_of_def)
  moreover have "map_close_reason (Some ''stop_loss'') = Some ''stop_loss_hit''" by code_simp
  moreover have "filter_blocking_close_orders no_settings p now [] = Inr []" for p now
    using default_policy by (auto simp: filter_blocking_close_orders_def rearm_policy_def blocking_candidates_def)
  ultimately show ?thesis by (simp add: idempotency_check_def blocked_by_def)
qed

lemma route_result:
  "\<exists>quality. close_position no_settings br (\<lambda>_. Inr None) (route_run ch) ''u1'' ''p1'' ''stop_loss'' None None b (route_book ''shadow_only'') =
     (case call_commit (route_run ch) (route_args quality) (staged_book ch) of
        (Inl e, bk') \<Rightarrow> (Inr (CommitFailed ''o1'' e), no_settings(''EXECUTION_MODE'' \<mapsto> []), b, bk')
      | (Inr rc, bk') \<Rightarrow> (Inr (InternalClosed ''o1'' (cr_replay rc)), no_settings(''EXECUTION_MODE'' \<mapsto> []), b, bk'))"
proof -
  obtain quality where fill: "internal_fill no_settings (route_run ch) ''u1'' ''p1'' book_position ''stop_loss'' (Fin 2) (Fin (3/2)) 2 (Fin 1) (staged_book ch) =
     (case call_commit (route_run ch) (route_args quality) (staged_book ch) of
        (Inl e, bk') \<Rightarrow> (Inr (CommitFailed ''o1'' e), bk')
      | (Inr rc, bk') \<Rightarrow> (Inr (InternalClosed ''o1'' (cr_replay rc)), bk'))" using route_fill by blast
  have entry: "opened_at_broker (route_run ch) ''p1'' (route_book ''shadow_only'') = False"
    by (simp add: opened_at_broker_def orders_of_def)
  have side: "close_side (Fin 2) = ''sell''" by (simp add: close_side_def)
  have status: "status_closed book_position = Inr False" 
  proof -
    have "str_lower ''open'' \<noteq> ''closed''" by code_simp
    then show ?thesis by (simp add: status_closed_def py_or_def)
  qed
  have two_legs: "length book_legs = 2" by (simp add: book_legs_def)
  have guard: "\<not> should_submit_to_broker ok (portfolio_routing p (staged_book ch)) None" if "p = book_position" for ok p
    using that by (simp add: should_submit_to_broker_def portfolio_routing_def staged_book_def insert_order_def)
  have "stage_and_route no_settings br (\<lambda>_. Inr None) (route_run ch) False ''u1'' ''p1'' book_position ''stop_loss'' None (Fin 2) (Fin (3/2)) None None (Fin 1) b (route_book ''shadow_only'') =
     (case call_commit (route_run ch) (route_args quality) (staged_book ch) of
        (Inl e, bk') \<Rightarrow> (Inr (CommitFailed ''o1'' e), no_settings(''EXECUTION_MODE'' \<mapsto> []), b, bk')
      | (Inr rc, bk') \<Rightarrow> (Inr (InternalClosed ''o1'' (cr_replay rc)), no_settings(''EXECUTION_MODE'' \<mapsto> []), b, bk'))"
    using guard fill
    by (simp add: stage_and_route_def side route_legs route_ticket route_stage two_legs
        stamp_gap_def stamp_reason_def stamp_order_def after_staging_def guarded_fill_def restored_mode_def no_settings_def
        staged_book_def [symmetric] split: prod.splits sum.splits)
  then show ?thesis
    by (intro exI [of _ quality])
      (simp add: close_position_def entry side status route_none decision_price_def py_or_def num_truthy_def validated_price_def)
qed

lemma route_commit:
  "\<exists>rc bk'. rpc_commit_internal_close ''now'' (route_args quality) (staged_book ch) = (Inr rc, bk') \<and> \<not> cr_replay rc"
proof -
  have i: "commit_inputs (route_args quality) = Inr \<lparr>cx_user = ''u1'', cx_portfolio = ''f1'', cx_position = ''p1'', cx_order = ''o1'',
      cx_key = commit_key ''o1'', cx_reason = ''stop_loss_hit'', cx_source = ''exit_evaluator'', cx_side = ''sell'', cx_qty = 2, cx_price = 3/2,
      cx_realized = 100, cx_multiplier = 100, cx_quality = Some (quality_text quality), cx_mid = Some (3/2)\<rparr>" (is "_ = Inr ?i")
    by (simp add: commit_inputs_def route_args_def commit_args_def finite_only_def commit_key_def close_side_def required_def require_def
        finite_arg_def only_blanks_def valid_close_reasons_def valid_fill_sources_def)
  have rows: "cb_orders (staged_book ch) = [entry_order, route_row ch]" "cb_positions (staged_book ch) = [book_position]"
    "cb_ledger (staged_book ch) = []" "find_row ''f1'' (cb_portfolios (staged_book ch)) = Some (book_portfolio ''shadow_only'')"
    by (simp_all add: staged_book_def insert_order_def)
  have found: "find_row ''o1'' [entry_order, route_row ch] = Some (route_row ch)" by (simp add: find_row_def)
  have linked: "commit_linked ?i book_position (route_row ch) (book_portfolio ''shadow_only'') = Inr ()"
    by (simp add: commit_linked_def require_def sql_ne_def)
  have "\<exists>x. commit_amounts ?i book_position (book_portfolio ''shadow_only'') [entry_order, route_row ch] [] = Inr x"
    by (simp add: commit_amounts_def require_def required_def sql_num_def sql_positive_def Let_def)
  then obtain qty delta cash where a: "commit_amounts ?i book_position (book_portfolio ''shadow_only'') [entry_order, route_row ch] []
      = Inr (qty, delta, cash)" by (auto simp: prod_eq_iff)
  have "\<not> committed_row (route_row ch)" by (simp add: committed_row_def)
  moreover have "length (filter (\<lambda>r. row_id r = PStr ''p1'' \<and> dget r ''status'' = PStr ''open'') [book_position]) = 1"
    by (simp add: row_id_def book_position_def dget_def)
  ultimately show ?thesis using i linked a rows found by (simp add: rpc_commit_internal_close_def)
qed

lemma route_closes:
  "\<exists>bk'. close_position no_settings br (\<lambda>_. Inr None) (route_run Delivered) ''u1'' ''p1'' ''stop_loss'' None None b (route_book ''shadow_only'') =
     (Inr (InternalClosed (re_new_id (route_run Delivered)) False), no_settings(''EXECUTION_MODE'' \<mapsto> []), b, bk')"
proof -
  have "de_now_text (re_desk (route_run Delivered)) = ''now''" by (simp add: route_run_def)
  then have call: "\<exists>rc bk'. call_commit (route_run Delivered) (route_args quality) (staged_book Delivered) = (Inr rc, bk') \<and> \<not> cr_replay rc" for quality
    using route_commit [of quality Delivered] by (auto simp: call_commit_def)
  obtain quality where result: "close_position no_settings br (\<lambda>_. Inr None) (route_run Delivered) ''u1'' ''p1'' ''stop_loss'' None None b (route_book ''shadow_only'') =
     (case call_commit (route_run Delivered) (route_args quality) (staged_book Delivered) of
        (Inl e, bk') \<Rightarrow> (Inr (CommitFailed ''o1'' e), no_settings(''EXECUTION_MODE'' \<mapsto> []), b, bk')
      | (Inr rc, bk') \<Rightarrow> (Inr (InternalClosed ''o1'' (cr_replay rc)), no_settings(''EXECUTION_MODE'' \<mapsto> []), b, bk'))"
    using route_result [of br Delivered b] ..
  obtain rc bk' where "call_commit (route_run Delivered) (route_args quality) (staged_book Delivered) = (Inr rc, bk')" "\<not> cr_replay rc"
    using call [of quality] by blast
  then show ?thesis using result by simp
qed

lemma route_fails:
  "close_position no_settings br (\<lambda>_. Inr None) (route_run Unsent) ''u1'' ''p1'' ''stop_loss'' None None b (route_book ''shadow_only'') =
     (Inr (CommitFailed ''o1'' None), no_settings(''EXECUTION_MODE'' \<mapsto> []), b, staged_book Unsent)"
  using route_result [of br Unsent b] by (auto simp: call_commit_def)

theorem internal_close_profit_is_cash_witness:
  "\<exists>res env' b' bk' x. close_position no_settings sample_broker (\<lambda>_. Inr None) (route_run Delivered) ''u1'' ''p1'' ''stop_loss'' None None [] (route_book ''shadow_only'') =
     (res, env', b', bk') \<and> cash_of ''f1'' bk' = Some (Fin (1000 + 2 * x * 100))"
proof -
  obtain bk' where run: "close_position no_settings sample_broker (\<lambda>_. Inr None) (route_run Delivered) ''u1'' ''p1'' ''stop_loss'' None None [] (route_book ''shadow_only'') =
     (Inr (InternalClosed (re_new_id (route_run Delivered)) False), no_settings(''EXECUTION_MODE'' \<mapsto> []), [], bk')" using route_closes [of sample_broker "[]"] ..
  have "\<exists>q x closed_row. sql_num (dget book_position ''quantity'') = Some (Fin q) \<and> 0 < x
     \<and> cash_of ''f1'' bk' = Some (Fin (1000 + q * x * 100))
     \<and> find_row ''p1'' (cb_positions bk') = Some closed_row \<and> is_closed closed_row
     \<and> dget closed_row ''realized_pl'' = PDec (Fin (to_cents (q * x * 100 - q * 1 * 100)))"
    by (rule internal_close_profit_is_cash [OF run]) (simp_all add: py_or_def num_truthy_def)
  then show ?thesis using run by (auto simp: sql_num_def)
qed

theorem failed_commit_blocks_retries_witness:
  "close_position no_settings sample_broker (\<lambda>_. Inr None) (route_run Delivered) ''u1'' ''p1'' ''target_profit'' None None [] (staged_book Unsent) =
     (Inr (SkippedDuplicate (PStr ''o1'')), no_settings, [], staged_book Unsent)"
proof (rule failed_commit_blocks_retries [OF route_fails])
  show "cb_ledger (staged_book Unsent) = cb_ledger (route_book ''shadow_only'')" by (simp add: staged_book_def insert_order_def)
  show "PStr (re_new_id (route_run Unsent)) \<notin> row_id ` set (cb_orders (route_book ''shadow_only''))" by simp
  show "find_row ''p1'' (cb_positions (route_book ''shadow_only'')) = Some book_position" by simp
  show "py_float (dget book_position ''quantity'') = Inr (Fin 2)" by simp
  show "close_legs_of (route_run Unsent) ''p1'' book_position (close_side (Fin 2)) (route_book ''shadow_only'') = Inr (hd book_legs # tl book_legs)"
    using route_legs by (simp add: close_side_def) (simp add: book_legs_def)
  show "tl_action (hd book_legs) = close_side (Fin 2)" by (simp add: book_legs_def close_side_def)
  show "\<forall>r \<in> set (orders_of ''p1'' (route_book ''shadow_only'')). \<exists>g. is_gtc_profit_exit_order r = Inr g" by (auto simp: orders_of_def)
  show "readable_windows no_settings" using default_policy by (simp add: readable_windows_def rearm_policy_def)
qed simp

text \<open>An experiment position in a live book.\<close>

definition experiment_position :: pydict where
  "experiment_position = (''strategy_key'', PStr ''long_call'') # book_position"

definition experiment_book :: close_book where
  "experiment_book = (sample_book ''live_eligible'')\<lparr>cb_desk := \<lparr>dk_orders = [entry_order], dk_positions = [experiment_position], dk_alerts = []\<rparr>\<rparr>"

theorem live_close_never_filled_internally_witness:
  "\<exists>res env' b' bk'. close_position no_settings sample_broker (\<lambda>_. Inr None) (route_run Delivered) ''u1'' ''p1'' ''stop_loss'' None None []
      (route_book ''live_eligible'') = (res, env', b', bk') \<and> cb_ledger bk' = [] \<and> cb_positions bk' = [book_position]"
proof -
  obtain res env' b' bk' where run: "close_position no_settings sample_broker (\<lambda>_. Inr None) (route_run Delivered) ''u1'' ''p1'' ''stop_loss'' None None []
      (route_book ''live_eligible'') = (res, env', b', bk')" by (rule prod_cases4)
  have "cb_positions bk' = [book_position] \<and> cb_ledger bk' = []"
    using live_close_never_filled_internally [OF run, of book_position "''f1''" "book_portfolio ''live_eligible''"] by simp
  then show ?thesis using run by blast
qed

theorem live_experiment_never_closes_witness:
  "\<exists>res env' bk'. close_position no_settings sample_broker (\<lambda>_. Inr None) (route_run Delivered) ''u1'' ''p1'' ''stop_loss'' None None []
      experiment_book = (res, env', [], bk') \<and> cb_positions bk' = [experiment_position]"
proof -
  obtain res env' b' bk' where run: "close_position no_settings sample_broker (\<lambda>_. Inr None) (route_run Delivered) ''u1'' ''p1'' ''stop_loss'' None None []
      experiment_book = (res, env', b', bk')" by (rule prod_cases4)
  have exp_row: "is_single_leg_experiment_row experiment_position" by code_simp
  have rows: "find_row ''p1'' (cb_positions experiment_book) = Some experiment_position" "cb_positions experiment_book = [experiment_position]"
    "dget experiment_position ''portfolio_id'' = PStr ''f1''" "find_row ''f1'' (cb_portfolios experiment_book) = Some (book_portfolio ''live_eligible'')"
    by (simp_all add: experiment_book_def experiment_position_def sample_book_def find_row_def row_id_def dget_def book_position_def book_portfolio_def)
  from live_experiment_never_closes [OF run rows(1) exp_row rows(3,4)] show ?thesis using run rows(2) by auto
qed

end
