(* ===== verification/Fill_Simulation.thy ===== *)
theory Fill_Simulation
  imports Exit_Rules
begin

section \<open>Simulated fills of paper orders\<close>

text \<open>
  Model of \<open>execution/transaction_cost_model.py\<close>: the estimate stored with a staged order and the
  simulation that fills a paper order against a quote, or without one from the stored estimate.

  A ticket is given by what the estimate reads of it. The draws of the random generator are
  arguments. An index error counts as \<open>RuntimeError\<close>.
\<close>

record cost_config =
  cf_commission :: pynum
  cf_min_fee :: pynum
  cf_slippage_bps :: rat
  cf_model :: string

definition default_costs :: cost_config where
  "default_costs = \<lparr>cf_commission = Fin (65/100), cf_min_fee = Fin 0, cf_slippage_bps = 5, cf_model = ''neutral''\<rparr>"

record priced_ticket =
  pt_qty :: int
  pt_order_type :: string
  pt_limit :: "pynum option"
  pt_actions :: "string list"

definition known_limit :: "pynum option \<Rightarrow> pynum option" where
  "known_limit l = (case l of Some x \<Rightarrow> if num_truthy x then Some x else None | None \<Rightarrow> None)"

definition quote_missing :: "pydict option \<Rightarrow> bool" where
  "quote_missing q = (case q of None \<Rightarrow> True | Some d \<Rightarrow> d = [] \<or> dget d ''status'' = PStr ''error'')"

subsection \<open>The estimate\<close>

text \<open>Bid, ask, mid and spread, and whether the quote was missing.\<close>

definition band :: "pynum \<Rightarrow> pynum \<times> pynum" where
  "band x = (fmul x (Fin (99/100)), fmul x (Fin (101/100)))"

definition estimate_market :: "priced_ticket \<Rightarrow> pydict option \<Rightarrow> pyexn + pynum \<times> pynum \<times> pynum \<times> pynum \<times> bool" where
  "estimate_market t quote =
     (if quote_missing quote
      then (let price = (case known_limit (pt_limit t) of Some x \<Rightarrow> x | None \<Rightarrow> Fin 0); (bid, ask) = band price
            in Inr (bid, ask, price, fsub ask bid, True))
      else
        (let d = the quote in
         rbind (number_operand (dget_default d ''bid_price'' (PFloat (Fin 0)))) (\<lambda>b.
         rbind (if fle b (Fin 0) then Inr None
                else rbind (number_operand (dget_default d ''ask_price'' (PFloat (Fin 0)))) (\<lambda>a.
                  Inr (if fle a (Fin 0) then None else Some a))) (\<lambda>good.
           let (bid, ask, missing) =
                 (case good of
                    Some a \<Rightarrow> (b, a, False)
                  | None \<Rightarrow> (case known_limit (pt_limit t) of
                        Some x \<Rightarrow> (fst (band x), snd (band x), True) | None \<Rightarrow> (Fin 0, Fin 0, True)))
           in Inr (bid, ask, fmul (fadd bid ask) (Fin (1/2)), fmax (Fin 0) (fsub ask bid), missing)))))"

definition likelihood :: "bool \<Rightarrow> bool \<Rightarrow> bool \<Rightarrow> rat" where
  "likelihood crosses inside touches = (if crosses then 95/100 else if inside then 1/2 else if touches then 1/10 else 1/100)"

text \<open>The probability of a fill and the expected price.\<close>

definition estimate_fill :: "priced_ticket \<Rightarrow> pynum \<Rightarrow> pynum \<Rightarrow> pynum \<Rightarrow> pyexn + rat \<times> pynum" where
  "estimate_fill t bid ask mid =
     (if pt_order_type t = ''market''
      then (case pt_actions t of [] \<Rightarrow> Inl RuntimeError | a # _ \<Rightarrow> Inr (1, if a = ''buy'' then ask else bid))
      else case known_limit (pt_limit t) of
          None \<Rightarrow> Inr (0, mid)
        | Some l \<Rightarrow>
            Inr (case pt_actions t of
                   a # _ \<Rightarrow> if a = ''buy'' then (likelihood (fle ask l) (fle mid l) (fle bid l), fmin l ask)
                            else (likelihood (fle l bid) (fle l mid) (fle l ask), fmax l bid)
                 | [] \<Rightarrow> (likelihood (fle l bid) (fle l mid) (fle l ask), fmax l bid)))"

definition adjusted_probability :: "cost_config \<Rightarrow> rat \<Rightarrow> rat" where
  "adjusted_probability c p =
     (if cf_model c = ''conservative'' then p * (8/10) else if cf_model c = ''optimistic'' then min 1 (p * (12/10)) else p)"

definition estimate :: "cost_config \<Rightarrow> priced_ticket \<Rightarrow> pydict option \<Rightarrow> pyexn + pydict" where
  "estimate c t quote =
     rbind (estimate_market t quote) (\<lambda>(bid, ask, mid, spread, missing).
     rbind (estimate_fill t bid ask mid) (\<lambda>(p, price).
       let qty = Fin (of_int \<bar>pt_qty t\<bar>)
       in Inr [(''expected_spread_cost_usd'', PFloat (round2 (fmul (fmul (fmul spread (Fin (1/2))) qty) (Fin 100)))),
            (''expected_slippage_usd'', PFloat (round2 (fmul (fmul (fmul mid qty) (Fin 100)) (Fin (cf_slippage_bps c / 10000))))),
            (''fill_probability'', PFloat (round2 (Fin (adjusted_probability c p)))),
            (''expected_fill_price'', PFloat (round2 price)),
            (''fees_usd'', PFloat (round2 (fmax (fmul qty (cf_commission c)) (cf_min_fee c)))),
            (''tcm_version'', PStr ''1.1.0''), (''missing_quote'', PBool missing), (''used_fallback'', PBool missing)]))"

subsection \<open>The simulation\<close>

record sim_fill =
  sf_status :: string
  sf_filled :: pynum
  sf_avg :: pynum
  sf_last_qty :: "pynum option"
  sf_last_price :: "pynum option"
  sf_fallback :: "string option"
  sf_realism :: pydict

definition float_or :: "pyval \<Rightarrow> rat \<Rightarrow> pyexn + pynum" where
  "float_or v d = py_float (py_or v (PFloat (Fin d)))"

definition order_qty :: "pydict \<Rightarrow> pyexn + pynum" where
  "order_qty order = py_float (py_or (dget order ''requested_qty'') (py_or (dget order ''quantity'') (PFloat (Fin 0))))"

definition sub_dict :: "pydict \<Rightarrow> string \<Rightarrow> pyexn + pydict" where
  "sub_dict order k = (case py_or (dget order k) (PDict []) of PDict d \<Rightarrow> Inr d | _ \<Rightarrow> Inl AttributeError)"

text \<open>A missing key \<open>side\<close> means a buy.\<close>

definition is_buy :: "pydict \<Rightarrow> bool" where
  "is_buy order \<longleftrightarrow> dget_default order ''side'' (PStr ''buy'') = PStr ''buy''"

definition half_width_bound :: rat where
  "half_width_bound = 5/100"

definition fallback_price :: "pydict \<Rightarrow> pydict \<Rightarrow> pyexn + pynum" where
  "fallback_price order tcm =
     rbind (float_or (dget tcm ''expected_fill_price'') 0) (\<lambda>x.
     rbind (if fle x (Fin 0) then float_or (dget order ''requested_price'') 0 else Inr x) (\<lambda>y.
       Inr (if fle y (Fin 0) then Fin 1 else y)))"

definition missing_quote_fill :: "pydict \<Rightarrow> pynum \<Rightarrow> pynum \<Rightarrow> string \<Rightarrow> pyexn + sim_fill" where
  "missing_quote_fill order requested remaining reason =
     rbind (sub_dict order ''tcm'') (\<lambda>tcm.
     rbind (float_or (dget tcm ''fill_probability'') (1/2)) (\<lambda>probability.
     rbind (fallback_price order tcm) (\<lambda>expected.
     rbind (float_or (dget tcm ''expected_spread_cost_usd'') 0) (\<lambda>cross_cost.
     rbind (if flt (Fin 0) cross_cost \<and> flt (Fin 0) requested then fdiv cross_cost (fmul requested (Fin 100))
            else Inr (fmul expected (Fin half_width_bound))) (\<lambda>cross.
       let adjusted = (if is_buy order then fadd expected cross else fmax (Fin (1/100)) (fsub expected cross))
       in Inr \<lparr>sf_status = ''filled'', sf_filled = requested, sf_avg = round4 adjusted, sf_last_qty = Some remaining,
               sf_last_price = Some (round4 adjusted), sf_fallback = Some reason,
               sf_realism = [(''fill_model'', PStr ''natural_v1''), (''would_be_live_marketable'', PNone),
                 (''marketability_basis'', PStr ''quote_missing''), (''mid_price_basis'', PFloat (round4 expected)),
                 (''simulated_cross_per_share'', PFloat (round4 cross)),
                 (''simulated_cross_source'', PStr (if flt (Fin 0) cross_cost \<and> flt (Fin 0) requested
                    then ''tcm_expected_spread_cost'' else ''half_width_bound_estimate''))]\<rparr>)))))"

definition marketability :: "pydict \<Rightarrow> pynum \<Rightarrow> pynum \<Rightarrow> pynum option \<Rightarrow> pyval \<Rightarrow> pyexn + bool option \<times> string" where
  "marketability order bid ask limit order_type =
     (if fle bid (Fin 0) \<or> fle ask (Fin 0) then Inr (None, ''quote_missing'')
      else
        rbind (sub_dict order ''order_json'') (\<lambda>oj.
        let legs = py_or (dget oj ''legs'') (PList []) in
        if \<not> py_len_ok legs then Inl TypeError
        else if 1 < (case legs of PList vs \<Rightarrow> length vs | PDict d \<Rightarrow> length d | PStr s \<Rightarrow> length s | _ \<Rightarrow> 0)
        then Inr (None, ''multi_leg_combo_nbbo_unavailable'')
        else if order_type = PStr ''market'' then Inr (Some True, ''market_order'')
        else case known_limit limit of
            None \<Rightarrow> Inr (None, ''no_limit_price'')
          | Some l \<Rightarrow> Inr (Some (if is_buy order then fle ask l else fle l bid), ''single_leg_nbbo'')))"

text \<open>The price at which the order fills on this quote, if it does: \<open>u\<close> is the first draw.\<close>

definition lucky :: "rat \<Rightarrow> pynum \<Rightarrow> pynum \<Rightarrow> pynum \<Rightarrow> pyexn + bool" where
  "lucky u gap bid ask =
     (let spread = fsub ask bid
      in if flt (Fin 0) spread then rbind (fdiv gap spread) (\<lambda>r. Inr (flt (Fin u) (fmul r (Fin (1/2))))) else Inr False)"

definition fill_price_on :: "cost_config \<Rightarrow> rat \<Rightarrow> bool \<Rightarrow> pyval \<Rightarrow> pynum option \<Rightarrow> pynum \<Rightarrow> pynum \<Rightarrow> pyexn + pynum option" where
  "fill_price_on c u buy order_type limit bid ask =
     (if order_type = PStr ''market''
      then (let p = (if buy then ask else bid); impact = fmul p (Fin (cf_slippage_bps c / 10000))
            in Inr (Some (if buy then fadd p impact else fsub p impact)))
      else case limit of
          None \<Rightarrow> Inl TypeError
        | Some l \<Rightarrow>
            if buy
            then (if fle ask l then Inr (Some ask)
                  else if fle bid l then rbind (lucky u (fsub l bid) bid ask) (\<lambda>b. Inr (if b then Some l else None))
                  else Inr None)
            else (if fle l bid then Inr (Some bid)
                  else if fle l ask then rbind (lucky u (fsub ask l) bid ask) (\<lambda>b. Inr (if b then Some l else None))
                  else Inr None))"

text \<open>A tenth of the large orders fill only half: \<open>w\<close> is the second draw.\<close>

definition tick_qty :: "rat \<Rightarrow> pynum \<Rightarrow> pyexn + pynum" where
  "tick_qty w remaining =
     (if flt (Fin 10) remaining \<and> w < 1/10
      then (case fmul remaining (Fin (1/2)) of Fin h \<Rightarrow> Inr (Fin (of_int \<lfloor>h\<rfloor>)) | NaN \<Rightarrow> Inl ValueError | _ \<Rightarrow> Inl OverflowError)
      else Inr remaining)"

definition quoted_fill ::
  "cost_config \<Rightarrow> rat \<times> rat \<Rightarrow> pydict \<Rightarrow> pynum \<Rightarrow> pynum \<Rightarrow> pynum option \<Rightarrow> pynum \<Rightarrow> pynum \<Rightarrow> pyexn + sim_fill" where
  "quoted_fill c draws order requested filled limit bid ask =
     (let order_type = dget_default order ''order_type'' (PStr ''limit'') in
      rbind (fill_price_on c (fst draws) (is_buy order) order_type limit bid ask) (\<lambda>price.
      rbind (float_or (dget order ''avg_fill_price'') 0) (\<lambda>avg.
        case price of
          None \<Rightarrow> Inr \<lparr>sf_status = ''working'', sf_filled = filled, sf_avg = avg, sf_last_qty = Some (Fin 0), sf_last_price = None,
                       sf_fallback = None, sf_realism = []\<rparr>
        | Some p \<Rightarrow>
            rbind (tick_qty (snd draws) (fsub requested filled)) (\<lambda>tick.
            let new_total = fadd filled tick in
            rbind (fdiv (fadd (fmul filled avg) (fmul tick p)) new_total) (\<lambda>new_avg.
            rbind (marketability order bid ask limit order_type) (\<lambda>(live, basis).
              Inr \<lparr>sf_status = (if fle requested new_total then ''filled'' else ''partial''), sf_filled = new_total,
                   sf_avg = round4 new_avg, sf_last_qty = Some tick, sf_last_price = Some (round4 p), sf_fallback = None,
                   sf_realism = [(''fill_model'', PStr ''natural_v1''),
                     (''would_be_live_marketable'', case live of None \<Rightarrow> PNone | Some b \<Rightarrow> PBool b),
                     (''marketability_basis'', PStr basis)]\<rparr>))))))"

definition quote_side :: "pydict \<Rightarrow> string \<Rightarrow> string \<Rightarrow> pyexn + pynum" where
  "quote_side d k1 k2 = number_operand (py_or (dget d k1) (py_or (dget d k2) (PFloat (Fin 0))))"

definition requested_limit :: "pydict \<Rightarrow> pyexn + pynum option" where
  "requested_limit order =
     (if truthy (dget order ''requested_price'') then rbind (py_float (dget order ''requested_price'')) (\<lambda>x. Inr (Some x)) else Inr None)"

definition simulate_fill :: "cost_config \<Rightarrow> rat \<times> rat \<Rightarrow> pydict \<Rightarrow> pydict option \<Rightarrow> pyexn + sim_fill" where
  "simulate_fill c draws order quote =
     rbind (order_qty order) (\<lambda>requested.
     rbind (float_or (dget order ''filled_qty'') 0) (\<lambda>filled.
       let remaining = fsub requested filled in
       if fle remaining (Fin 0)
       then rbind (float_or (dget order ''avg_fill_price'') 0) (\<lambda>avg.
              Inr \<lparr>sf_status = ''filled'', sf_filled = requested, sf_avg = avg, sf_last_qty = None, sf_last_price = None,
                   sf_fallback = None, sf_realism = []\<rparr>)
       else
         rbind (requested_limit order) (\<lambda>limit.
         if quote_missing quote then missing_quote_fill order requested remaining ''missing_quote''
         else
           (let d = the quote in
            rbind (quote_side d ''bid_price'' ''bid'') (\<lambda>bid.
              if fle bid (Fin 0) then missing_quote_fill order requested remaining ''invalid_quote''
              else rbind (quote_side d ''ask_price'' ''ask'') (\<lambda>ask.
                if fle ask (Fin 0) then missing_quote_fill order requested remaining ''invalid_quote''
                else quoted_fill c draws order requested filled limit bid ask))))))"

end
