(* ===== verification/Paper_Fills.thy ===== *)
theory Paper_Fills
  imports Fill_Simulation Close_Route
begin

section \<open>Fills of paper orders\<close>

text \<open>
  Model of the fill processor in \<open>paper_endpoints.py\<close>: \<open>_commit_fill\<close>, which books one simulated
  fill on the order, the portfolio's cash, the ledger and the position;
  \<open>_repair_filled_order_commit\<close>, which gives a filled order without a position its position; and
  \<open>_process_orders_for_user\<close>, which runs both over a user's orders. The ledger row is the one that
  \<open>services/paper_ledger_service.py\<close> writes.

  The record \<open>fill_env\<close> says which statements of the database succeed, whether the attribution of
  a close does, and what is read from tables outside the model (the cohort, the suggestion). The
  validation of a stored ticket by its model class and \<open>str\<close> of values that are not text are
  parameters. Descriptions, telemetry, the violations of the leg convention and the status of the
  suggestion are left out.
\<close>

subsection \<open>State\<close>

record paper_event =
  pe_kind :: string
  pe_user :: string
  pe_portfolio :: pyval
  pe_amount :: pynum
  pe_balance :: pynum
  pe_order :: pyval
  pe_position :: pyval
  pe_meta :: pydict

record paper_book =
  pb_desk :: desk
  pb_portfolios :: "pydict list"
  pb_ledger :: "paper_event list"

abbreviation pb_orders :: "paper_book \<Rightarrow> pydict list" where
  "pb_orders bk \<equiv> dk_orders (pb_desk bk)"

abbreviation pb_positions :: "paper_book \<Rightarrow> pydict list" where
  "pb_positions bk \<equiv> dk_positions (pb_desk bk)"

record fill_env =
  fe_desk :: desk_env
  fe_today :: pydate
  fe_date :: "string \<Rightarrow> pydate option"
  fe_order_ok :: bool
  fe_cash_ok :: bool
  fe_emit_ok :: bool
  fe_find_ok :: bool
  fe_write_ok :: bool
  fe_link_ok :: bool
  fe_rollback_ok :: bool
  fe_final_ok :: bool
  fe_ledger_ok :: bool
  fe_move_ok :: bool
  fe_attribution_ok :: bool
  fe_ticket_ok :: "pydict \<Rightarrow> bool"
  fe_str :: "pyval \<Rightarrow> string"
  fe_cohort :: pyval
  fe_suggestion :: "pyval \<Rightarrow> pydict option"
  fe_new_id :: string

definition write_order :: "pyval \<Rightarrow> (string \<times> pyval) list \<Rightarrow> paper_book \<Rightarrow> paper_book" where
  "write_order oid kvs bk = bk\<lparr>pb_desk := update_order oid kvs (pb_desk bk)\<rparr>"

definition write_position :: "pyval \<Rightarrow> (string \<times> pyval) list \<Rightarrow> paper_book \<Rightarrow> paper_book" where
  "write_position pid kvs bk =
     bk\<lparr>pb_desk := (pb_desk bk)\<lparr>dk_positions := update_rows (\<lambda>r. row_id r = pid) (dset_all kvs) (pb_positions bk)\<rparr>\<rparr>"

definition insert_position :: "pydict \<Rightarrow> paper_book \<Rightarrow> paper_book" where
  "insert_position p bk = bk\<lparr>pb_desk := (pb_desk bk)\<lparr>dk_positions := pb_positions bk @ [p]\<rparr>\<rparr>"

definition write_cash :: "pyval \<Rightarrow> pynum \<Rightarrow> paper_book \<Rightarrow> paper_book" where
  "write_cash pf cash bk =
     bk\<lparr>pb_portfolios := update_rows (\<lambda>r. row_id r = pf) (\<lambda>r. dset r ''cash_balance'' (PFloat cash)) (pb_portfolios bk)\<rparr>"

definition anomaly :: "fill_env \<Rightarrow> pyval \<Rightarrow> string \<Rightarrow> paper_book \<Rightarrow> paper_book" where
  "anomaly env pid stage bk = bk\<lparr>pb_desk := add_alert (fe_desk env) (ClosePathAnomaly pid stage) (pb_desk bk)\<rparr>"

text \<open>The emission of a ledger event swallows its errors.\<close>

definition emit_event :: "fill_env \<Rightarrow> paper_event \<Rightarrow> paper_book \<Rightarrow> paper_book" where
  "emit_event env e bk = (if fe_emit_ok env then bk\<lparr>pb_ledger := pb_ledger bk @ [e]\<rparr> else bk)"

subsection \<open>The arithmetic of a fill\<close>

record fill_delta =
  fd_qty :: pynum
  fd_price :: pynum
  fd_total :: pynum
  fd_avg :: pynum
  fd_fees :: pynum
  fd_fees_delta :: pynum

definition or_zero :: "pynum option \<Rightarrow> pynum" where
  "or_zero x = (case x of Some y \<Rightarrow> y | None \<Rightarrow> Fin 0)"

definition compute_fill_deltas :: "pydict \<Rightarrow> sim_fill \<Rightarrow> pyexn + fill_delta" where
  "compute_fill_deltas order f =
     rbind (order_qty order) (\<lambda>req.
     rbind (float_or (dget order ''filled_qty'') 0) (\<lambda>prev.
     rbind (float_or (dget order ''fees_usd'') 0) (\<lambda>prev_fees.
     rbind (sub_dict order ''tcm'') (\<lambda>tcm.
     rbind (float_or (dget tcm ''fees_usd'') 0) (\<lambda>est_fees.
     rbind (if flt (Fin 0) req then rbind (fdiv (sf_filled f) req) (\<lambda>r. Inr (fmul r est_fees)) else Inr (Fin 0)) (\<lambda>fees.
       Inr \<lparr>fd_qty = (if fle (or_zero (sf_last_qty f)) (Fin 0) then fmax (Fin 0) (fsub (sf_filled f) prev) else or_zero (sf_last_qty f)),
            fd_price = (if fle (or_zero (sf_last_price f)) (Fin 0) then sf_avg f else or_zero (sf_last_price f)),
            fd_total = sf_filled f, fd_avg = sf_avg f, fd_fees = fees, fd_fees_delta = fmax (Fin 0) (fsub fees prev_fees)\<rparr>))))))"

definition is_valid_quote :: "pydict \<Rightarrow> bool" where
  "is_valid_quote q =
     (q \<noteq> [] \<and>
      ((case (py_float (py_or (dget q ''bid'') (py_or (dget q ''bid_price'') (PInt 0))),
              py_float (py_or (dget q ''ask'') (py_or (dget q ''ask_price'') (PInt 0)))) of
          (Inr b, Inr a) \<Rightarrow> flt (Fin 0) b \<and> flt (Fin 0) a | _ \<Rightarrow> False)
       \<or> (case py_float (py_or (dget q ''price'') (py_or (dget q ''last'') (PInt 0))) of Inr x \<Rightarrow> flt (Fin 0) x | Inl _ \<Rightarrow> False)))"

definition abs_entry_premium :: "pynum \<Rightarrow> pynum" where
  "abs_entry_premium x = fabs x"

definition weighted_abs_entry_avg :: "pynum \<Rightarrow> pynum \<Rightarrow> pynum \<Rightarrow> pynum \<Rightarrow> pynum" where
  "weighted_abs_entry_avg cur avg inc price =
     (let prior = fabs avg; added = abs_entry_premium price; denom = fadd (fabs cur) (fabs inc)
      in if fle denom (Fin 0) then prior
         else case fdiv (fadd (fmul (fabs cur) prior) (fmul (fabs inc) added)) denom of Inr x \<Rightarrow> x | Inl _ \<Rightarrow> NaN)"

text \<open>The entry price after a fill: averaged when the exposure grows, replaced when it crosses zero.\<close>

definition entry_after :: "pynum \<Rightarrow> pynum \<Rightarrow> pynum \<Rightarrow> pynum \<Rightarrow> pynum" where
  "entry_after cur avg inc price =
     (let new = fadd cur inc;
          grown = (if (fle (Fin 0) cur \<and> flt (Fin 0) inc) \<or> (fle cur (Fin 0) \<and> flt inc (Fin 0))
                   then (if flt (Fin 0) (fabs new) then weighted_abs_entry_avg cur avg inc price else avg) else avg)
      in if (flt (Fin 0) cur \<and> flt new (Fin 0)) \<or> (flt cur (Fin 0) \<and> flt (Fin 0) new) then abs_entry_premium price else grown)"

definition signed_qty :: "pydict \<Rightarrow> pynum \<Rightarrow> pynum" where
  "signed_qty order q = fmul q (Fin (if is_buy order then 1 else - 1))"

definition cash_delta :: "pydict \<Rightarrow> pynum \<Rightarrow> pynum \<Rightarrow> pynum \<Rightarrow> pynum" where
  "cash_delta order qty price fees =
     (let value = fmul (fmul qty price) (Fin 100)
      in if is_buy order then fneg (fadd value fees) else fsub value fees)"

text \<open>\<open>compute_position_risk_basis\<close> of \<open>services/risk_basis_shadow.py\<close>.\<close>

definition position_risk_basis :: "pynum \<Rightarrow> pynum \<Rightarrow> pyval \<Rightarrow> pyval \<Rightarrow> pyexn + pynum option \<times> pynum option" where
  "position_risk_basis premium qty max_loss contracts =
     rbind (py_int_of_num qty) (\<lambda>n.
     let q = \<bar>n\<bar>; cost = round2 (fmul (fmul (fabs premium) (Fin 100)) (Fin (of_int q)));
         basis = (if flt (Fin 0) cost then Some cost else None)
     in if max_loss = PNone then Inr (basis, None)
        else (case py_int (py_or contracts (PInt 0)) of
            Inl OverflowError \<Rightarrow> Inl OverflowError
          | Inl _ \<Rightarrow> Inr (basis, None)
          | Inr sc \<Rightarrow>
              if 0 < sc \<and> 0 < q
              then (case py_float max_loss of
                      Inl _ \<Rightarrow> Inr (basis, None)
                    | Inr x \<Rightarrow> Inr (basis, Some (round2 (fmul x (Fin (of_int q / of_int sc))))))
              else Inr (basis, None)))"

subsection \<open>The position of an order\<close>

definition text_of :: "fill_env \<Rightarrow> pyval \<Rightarrow> string" where
  "text_of env v = (case py_text v of Some s \<Rightarrow> s | None \<Rightarrow> fe_str env v)"

definition underscored :: "string \<Rightarrow> string" where
  "underscored s = map (\<lambda>c. if c = CHR '' '' \<or> c = CHR ''-'' then CHR ''_'' else c) (str_strip (str_lower s))"

definition derive_strategy_key :: "fill_env \<Rightarrow> pydict \<Rightarrow> string" where
  "derive_strategy_key env ticket =
     text_of env (dget ticket ''symbol'') @ ''_'' @
     (if \<not> fe_ticket_ok env ticket then ''custom''
      else case dget ticket ''strategy_type'' of
          PStr s \<Rightarrow> if s = [] \<or> underscored s = ''unknown'' then ''custom'' else underscored s
        | _ \<Rightarrow> ''custom'')"

text \<open>The earliest expiry as text; an item that has none or is no dictionary is passed over.\<close>

definition expiry_text :: "fill_env \<Rightarrow> pyval \<Rightarrow> string option" where
  "expiry_text env v =
     (case as_dict v of
        None \<Rightarrow> None
      | Some d \<Rightarrow> (let e = py_or (dget d ''expiry'') (dget d ''expiration'') in if truthy e then Some (take 10 (text_of env e)) else None))"

definition earliest_expiry :: "fill_env \<Rightarrow> pyval list \<Rightarrow> string option" where
  "earliest_expiry env legs =
     (case List.map_filter (expiry_text env) legs of
        [] \<Rightarrow> None | t # ts \<Rightarrow> Some (foldl (\<lambda>m s. if text_before s m then s else m) t ts))"

definition entry_dte :: "fill_env \<Rightarrow> string option \<Rightarrow> pyval" where
  "entry_dte env nearest =
     (case nearest of
        None \<Rightarrow> PNone
      | Some s \<Rightarrow> if s = [] then PNone
          else (case fe_date env (take 10 s) of None \<Rightarrow> PNone | Some d \<Rightarrow> PInt (to_ordinal d - to_ordinal (fe_today env))))"

definition suggestion_columns :: "string list" where
  "suggestion_columns = [''model_version'', ''features_hash'', ''strategy'', ''window'', ''regime'', ''sector'']"

definition enrich_position :: "fill_env \<Rightarrow> pydict \<Rightarrow> pynum \<Rightarrow> pynum \<Rightarrow> pydict \<Rightarrow> pydict" where
  "enrich_position env order price signed p =
     (if \<not> truthy (dget order ''suggestion_id'') then p
      else case fe_suggestion env (dget order ''suggestion_id'') of
          None \<Rightarrow> p
        | Some s \<Rightarrow>
            if s = [] then p
            else
              (let p' = dset_all (filter (\<lambda>kv. fst kv \<in> set suggestion_columns) s) p
               in case py_or (dget s ''sizing_metadata'') (PDict []) of
                    PDict meta \<Rightarrow>
                      (case position_risk_basis (abs_entry_premium price) signed (dget s ''max_loss_total'') (dget meta ''contracts'') of
                         Inr (_, worst) \<Rightarrow> dset p' ''max_loss_total'' (opt_float worst) | Inl _ \<Rightarrow> p')
                  | _ \<Rightarrow> p'))"

definition new_position ::
  "fill_env \<Rightarrow> string \<Rightarrow> pydict \<Rightarrow> pydict \<Rightarrow> pydict \<Rightarrow> string \<Rightarrow> pynum \<Rightarrow> pynum \<Rightarrow> pyexn + pydict" where
  "new_position env user order ticket pf key signed price =
     rbind (iter_items (dget_default ticket ''legs'' (PList []))) (\<lambda>items.
     rbind (coerce_legs_to_full_count items (PFloat signed)) (\<lambda>(legs, _).
     rbind (position_risk_basis (abs_entry_premium price) signed PNone PNone) (\<lambda>(basis, _).
       let nearest = earliest_expiry env legs
       in Inr (enrich_position env order price signed
            [(''id'', PStr (fe_new_id env)), (''portfolio_id'', row_id pf), (''user_id'', PStr user), (''strategy_key'', PStr key),
             (''symbol'', dget ticket ''symbol''), (''quantity'', PFloat signed), (''avg_entry_price'', PFloat (abs_entry_premium price)),
             (''current_mark'', PFloat price), (''unrealized_pl'', PFloat (Fin 0)), (''legs'', PList legs),
             (''max_credit'', PFloat (abs_entry_premium price)),
             (''nearest_expiry'', case nearest of None \<Rightarrow> PNone | Some s \<Rightarrow> PStr s), (''entry_dte'', entry_dte env nearest),
             (''status'', PStr ''open''), (''trace_id'', dget order ''trace_id''), (''suggestion_id'', dget order ''suggestion_id''),
             (''cohort_id'', fe_cohort env), (''cost_basis_total'', opt_float basis)]))))"

definition open_with_key :: "pydict \<Rightarrow> string \<Rightarrow> pydict \<Rightarrow> bool" where
  "open_with_key pf key r \<longleftrightarrow>
     dget r ''portfolio_id'' = row_id pf \<and> dget r ''strategy_key'' = PStr key \<and> dget r ''status'' = PStr ''open''"

subsection \<open>Committing a fill\<close>

text \<open>How the position's part of a commit ends; only \<open>Aborted\<close> skips the last write to the order.\<close>

datatype position_step = Applied | Retained | Aborted string

definition close_sources :: "string list" where
  "close_sources = [''manual_close'', ''paper_autopilot'']"

definition source_engine :: "fill_env \<Rightarrow> pydict \<Rightarrow> string" where
  "source_engine env ticket = str_strip (text_of env (py_or (dget ticket ''source_engine'') (PStr [])))"

definition close_leg :: "pydict \<Rightarrow> pynum \<Rightarrow> pynum \<Rightarrow> pydict" where
  "close_leg p cur price =
     leg_fill (dget p ''symbol'') (PStr (if flt (Fin 0) cur then ''sell'' else ''buy'')) (PFloat (fabs cur)) (PFloat price)"

text \<open>The realized profit of a close less the fees of this fill.\<close>

definition close_profit :: "pydict \<Rightarrow> pynum \<Rightarrow> pynum \<Rightarrow> pynum \<Rightarrow> close_error + pynum" where
  "close_profit p cur price fees =
     rbind (lift_exn (py_dec (py_or (dget p ''avg_entry_price'') (PInt 0)))) (\<lambda>entry.
     rbind (lift_exn (py_int_of_num cur)) (\<lambda>n.
     rbind (compute_realized_pl [close_leg p cur price] (PDec entry) \<bar>n\<bar> (spread_of cur) 100) (\<lambda>pl.
     rbind (lift_exn (dec_add pl (dec_neg fees))) (\<lambda>net. lift_exn (quantize_cents net)))))"

text \<open>The shared writer; a position that is closed already is reported, other errors raise.\<close>

definition write_close ::
  "fill_env \<Rightarrow> pydict \<Rightarrow> pynum \<Rightarrow> string \<Rightarrow> string \<Rightarrow> paper_book \<Rightarrow> (pyexn + position_step) \<times> paper_book" where
  "write_close env p pl reason source bk =
     (case row_id p of
        PStr pid \<Rightarrow>
          (case close_position_shared (fe_desk env) pid (PDec pl) reason source (Some (de_now_text (fe_desk env))) (pb_positions bk) of
             (res, rows) \<Rightarrow>
               (let bk' = bk\<lparr>pb_desk := (pb_desk bk)\<lparr>dk_positions := rows\<rparr>\<rparr>
                in case res of
                     Inr _ \<Rightarrow> (Inr Applied, bk')
                   | Inl (PositionAlreadyClosed _ _ _) \<Rightarrow> (Inr (Aborted ''close_position_shared''), anomaly env (PStr pid) ''close_position_shared'' bk')
                   | Inl PositionNotFound \<Rightarrow> (Inl RuntimeError, bk')
                   | Inl (WriterExn e) \<Rightarrow> (Inl e, bk')))
      | _ \<Rightarrow> (Inl RuntimeError, bk))"

definition close_by_fill ::
  "fill_env \<Rightarrow> pydict \<Rightarrow> fill_delta \<Rightarrow> pydict \<Rightarrow> pynum \<Rightarrow> bool \<Rightarrow> paper_book \<Rightarrow> (pyexn + position_step) \<times> paper_book" where
  "close_by_fill env ticket d p cur explicit bk =
     (if explicit \<and> \<not> fe_attribution_ok env then (Inr Retained, bk)
      else if source_engine env ticket \<notin> set close_sources
      then (Inr (Aborted ''map_close_reason''), anomaly env (row_id p) ''map_close_reason'' bk)
      else case close_profit p cur (fd_price d) (fd_fees_delta d) of
          Inl PartialFillDetected \<Rightarrow> (Inr (Aborted ''compute_realized_pl''), anomaly env (row_id p) ''compute_realized_pl'' bk)
        | Inl (CloseExn e) \<Rightarrow> (Inl e, bk)
        | Inl MalformedFillData \<Rightarrow> (Inl ValueError, bk)
        | Inr pl \<Rightarrow> write_close env p pl ''manual_close_user_initiated'' ''manual_endpoint'' bk)"

text \<open>The position an order is for: the one it names, or the open one with the ticket's key.\<close>

definition locate_position :: "pydict \<Rightarrow> pydict \<Rightarrow> string \<Rightarrow> paper_book \<Rightarrow> pyexn + pydict option" where
  "locate_position order pf key bk =
     (if truthy (dget order ''position_id'')
      then (case find (\<lambda>r. row_id r = dget order ''position_id'') (pb_positions bk) of None \<Rightarrow> Inl RuntimeError | Some p \<Rightarrow> Inr (Some p))
      else Inr (find (open_with_key pf key) (pb_positions bk)))"

definition position_numbers :: "pydict \<Rightarrow> pyexn + pynum \<times> pynum" where
  "position_numbers p =
     rbind (py_float (dget p ''quantity'')) (\<lambda>cur. rbind (py_float (dget p ''avg_entry_price'')) (\<lambda>avg. Inr (cur, avg)))"

definition adjusted_columns :: "fill_env \<Rightarrow> pynum \<Rightarrow> pynum \<Rightarrow> (string \<times> pyval) list" where
  "adjusted_columns env qty avg =
     [(''quantity'', PFloat qty), (''avg_entry_price'', PFloat avg), (''updated_at'', PStr (de_now_text (fe_desk env)))]"

definition link_order :: "fill_env \<Rightarrow> pydict \<Rightarrow> pyval \<Rightarrow> paper_book \<Rightarrow> (pyexn + position_step) \<times> paper_book" where
  "link_order env order pid bk =
     (if fe_link_ok env then (Inr Applied, write_order (row_id order) [(''position_id'', pid)] bk) else (Inl RuntimeError, bk))"

definition open_by_fill ::
  "fill_env \<Rightarrow> string \<Rightarrow> pydict \<Rightarrow> pydict \<Rightarrow> pydict \<Rightarrow> string \<Rightarrow> pynum \<Rightarrow> pynum \<Rightarrow> paper_book \<Rightarrow> (pyexn + position_step) \<times> paper_book" where
  "open_by_fill env user order ticket pf key signed price bk =
     (case new_position env user order ticket pf key signed price of
        Inl e \<Rightarrow> (Inl e, bk)
      | Inr p \<Rightarrow>
          if \<not> fe_write_ok env then (Inl RuntimeError, bk)
          else link_order env order (PStr (fe_new_id env)) (insert_position p bk))"

definition fill_position ::
  "fill_env \<Rightarrow> string \<Rightarrow> pydict \<Rightarrow> pydict \<Rightarrow> fill_delta \<Rightarrow> pydict \<Rightarrow> paper_book \<Rightarrow> (pyexn + position_step) \<times> paper_book" where
  "fill_position env user order ticket d pf bk =
     (let key = derive_strategy_key env ticket; signed = signed_qty order (fd_qty d)
      in if \<not> fe_find_ok env then (Inl RuntimeError, bk)
         else case locate_position order pf key bk of
             Inl e \<Rightarrow> (Inl e, bk)
           | Inr None \<Rightarrow> open_by_fill env user order ticket pf key signed (fd_price d) bk
           | Inr (Some p) \<Rightarrow>
               (case position_numbers p of
                  Inl e \<Rightarrow> (Inl e, bk)
                | Inr (cur, avg) \<Rightarrow>
                    (let new = fadd cur signed
                     in if num_eq new (Fin 0) then close_by_fill env ticket d p cur (truthy (dget order ''position_id'')) bk
                        else if \<not> fe_write_ok env then (Inl RuntimeError, bk)
                        else (Inr Applied, write_position (row_id p) (adjusted_columns env new (entry_after cur avg signed (fd_price d))) bk))))"

definition fill_columns :: "fill_env \<Rightarrow> pydict \<Rightarrow> sim_fill \<Rightarrow> fill_delta \<Rightarrow> pydict option \<Rightarrow> (string \<times> pyval) list" where
  "fill_columns env order f d quote =
     [(''status'', PStr (sf_status f)), (''filled_qty'', PFloat (fd_total d)), (''avg_fill_price'', PFloat (round2 (fd_avg d))),
      (''fees_usd'', PFloat (round2 (fd_fees d))), (''filled_at'', PStr (de_now_text (fe_desk env))),
      (''quote_at_fill'', case quote of None \<Rightarrow> PNone | Some q \<Rightarrow> PDict q)]
     @ (if sf_realism f = [] then []
        else [(''tcm'', PDict (dset_all (sf_realism f) (case py_or (dget order ''tcm'') (PDict []) of PDict t \<Rightarrow> t | _ \<Rightarrow> [])))])"

definition fill_event :: "string \<Rightarrow> pydict \<Rightarrow> pydict \<Rightarrow> sim_fill \<Rightarrow> fill_delta \<Rightarrow> pyval \<Rightarrow> pynum \<Rightarrow> pynum \<Rightarrow> paper_event" where
  "fill_event user order ticket f d pf amount balance =
     \<lparr>pe_kind = (if sf_status f = ''partial'' then ''partial_fill'' else ''fill''), pe_user = user, pe_portfolio = pf,
      pe_amount = amount, pe_balance = balance, pe_order = row_id order, pe_position = dget order ''position_id'',
      pe_meta = [(''side'', dget_default order ''side'' (PStr ''buy'')), (''qty'', PFloat (fd_qty d)), (''price'', PFloat (fd_price d)),
        (''symbol'', dget_default ticket ''symbol'' (PStr ''UNKNOWN'')), (''fees'', PFloat (fd_fees_delta d)),
        (''filled_so_far'', PFloat (fd_total d)),
        (''total_qty'', case float_or (dget order ''requested_qty'') 0 of Inr x \<Rightarrow> PFloat x | Inl _ \<Rightarrow> PNone),
        (''order_status'', PStr (sf_status f))]\<rparr>"

datatype commit_end = FillCommitted position_step | FillRolledBack pyexn

text \<open>The last part: roll the order back, or mark it filled.\<close>

definition settle_fill ::
  "fill_env \<Rightarrow> pydict \<Rightarrow> fill_delta \<Rightarrow> pyexn + position_step \<Rightarrow> paper_book \<Rightarrow> commit_end \<times> paper_book" where
  "settle_fill env order d res bk =
     (case res of
        Inl e \<Rightarrow>
          (FillRolledBack e,
           if fe_rollback_ok env
           then write_order (row_id order) [(''status'', PStr ''working''), (''filled_qty'', PInt 0), (''avg_fill_price'', PInt 0)] bk else bk)
      | Inr (Aborted s) \<Rightarrow> (FillCommitted (Aborted s), bk)
      | Inr r \<Rightarrow>
          (FillCommitted r,
           if fe_final_ok env
           then write_order (row_id order)
                  [(''status'', PStr ''filled''), (''avg_fill_price'', PFloat (fd_avg d)), (''filled_qty'', PFloat (fd_total d)),
                   (''filled_at'', PStr (de_now_text (fe_desk env)))] bk
           else bk))"

text \<open>
  The commit: the order, the cash (from the balance of the portfolio that was read before, which is
  updated too), the ledger, and then the position. An error in the first two steps leaves the
  function.
\<close>

definition commit_fill ::
  "fill_env \<Rightarrow> string \<Rightarrow> pydict \<Rightarrow> sim_fill \<Rightarrow> pydict option \<Rightarrow> pydict \<Rightarrow> paper_book \<Rightarrow> (pyexn + commit_end) \<times> pydict \<times> paper_book" where
  "commit_fill env user order f quote pf bk =
     (case compute_fill_deltas order f of
        Inl e \<Rightarrow> (Inl e, pf, bk)
      | Inr d \<Rightarrow>
          if \<not> fe_order_ok env then (Inl RuntimeError, pf, bk)
          else
            (let bk1 = write_order (row_id order) (fill_columns env order f d quote) bk
             in case py_float (dget pf ''cash_balance'') of
                  Inl e \<Rightarrow> (Inl e, pf, bk1)
                | Inr cash \<Rightarrow>
                    (let amount = cash_delta order (fd_qty d) (fd_price d) (fd_fees_delta d); balance = fadd cash amount
                     in if \<not> fe_cash_ok env then (Inl RuntimeError, pf, bk1)
                        else
                          (let pf' = dset pf ''cash_balance'' (PFloat balance); bk2 = write_cash (row_id pf) balance bk1
                           in case dget_default order ''order_json'' (PDict []) of
                                PDict ticket \<Rightarrow>
                                  (let bk3 = emit_event env (fill_event user order ticket f d (row_id pf) amount balance) bk2
                                   in case fill_position env user order ticket d pf bk3 of
                                        (res, bk4) \<Rightarrow> (case settle_fill env order d res bk4 of (fin, bk5) \<Rightarrow> (Inr fin, pf', bk5)))
                              | _ \<Rightarrow> (Inl AttributeError, pf', bk2)))))"

subsection \<open>Repairing a filled order without a position\<close>

datatype repair_end = Repaired bool | NotRepaired | RepairRaised pyexn

text \<open>The legs of the fill that closed a position: from the broker's answer, or one made up.\<close>

definition repair_legs :: "fill_env \<Rightarrow> pydict \<Rightarrow> pyval \<Rightarrow> pynum \<Rightarrow> pynum \<Rightarrow> close_error + pydict list" where
  "repair_legs env order symbol filled price =
     (case py_or (dget order ''broker_response'') (PDict []) of
        PDict br \<Rightarrow>
          (if str_lower (text_of env (py_or (dget br ''order_class'') (PStr []))) = ''mleg'' \<and> \<not> truthy (dget br ''legs'')
           then Inl MalformedFillData
           else if truthy (dget br ''legs'') then extract_close_legs (PDict br)
           else extract_close_legs (PDict [(''symbol'', symbol), (''side'', dget_default order ''side'' (PStr ''buy'')),
                  (''filled_qty'', PFloat filled), (''filled_avg_price'', PFloat price), (''qty'', PFloat filled)]))
      | _ \<Rightarrow> Inl (CloseExn AttributeError))"

definition close_by_repair ::
  "fill_env \<Rightarrow> pydict \<Rightarrow> pyval \<Rightarrow> pynum \<Rightarrow> pynum \<Rightarrow> pydict \<Rightarrow> pynum \<Rightarrow> paper_book \<Rightarrow> (pyexn + position_step) \<times> paper_book" where
  "close_by_repair env order symbol filled price p cur bk =
     (case repair_legs env order symbol filled price of
        Inl (CloseExn e) \<Rightarrow> (Inl e, bk)
      | Inl _ \<Rightarrow> (Inr (Aborted ''extract_close_legs''), anomaly env (row_id p) ''extract_close_legs'' bk)
      | Inr legs \<Rightarrow>
          (case rbind (lift_exn (py_dec (py_or (dget p ''avg_entry_price'') (PInt 0)))) (\<lambda>entry.
                rbind (lift_exn (py_int_of_num cur)) (\<lambda>n. compute_realized_pl legs (PDec entry) \<bar>n\<bar> (spread_of cur) 100)) of
             Inl PartialFillDetected \<Rightarrow> (Inr (Aborted ''compute_realized_pl''), anomaly env (row_id p) ''compute_realized_pl'' bk)
           | Inl (CloseExn e) \<Rightarrow> (Inl e, bk)
           | Inl MalformedFillData \<Rightarrow> (Inl ValueError, bk)
           | Inr pl \<Rightarrow> write_close env p pl ''orphan_fill_repair'' ''orphan_fill_repair'' bk))"

definition repair_position ::
  "fill_env \<Rightarrow> string \<Rightarrow> pydict \<Rightarrow> pydict \<Rightarrow> pydict \<Rightarrow> pynum \<Rightarrow> pynum \<Rightarrow> paper_book \<Rightarrow> (pyexn + position_step \<times> pyval) \<times> paper_book" where
  "repair_position env user order ticket pf filled price bk =
     (let key = derive_strategy_key env ticket; signed = signed_qty order filled
      in if \<not> fe_find_ok env then (Inl RuntimeError, bk)
         else case find (open_with_key pf key) (pb_positions bk) of
             None \<Rightarrow>
               (case open_by_fill env user order ticket pf key signed price bk of
                  (Inl e, bk') \<Rightarrow> (Inl e, bk') | (Inr r, bk') \<Rightarrow> (Inr (r, PStr (fe_new_id env)), bk'))
           | Some p \<Rightarrow>
               (case position_numbers p of
                  Inl e \<Rightarrow> (Inl e, bk)
                | Inr (cur, avg) \<Rightarrow>
                    (let new = fadd cur signed
                     in case (if num_eq new (Fin 0) then close_by_repair env order (dget ticket ''symbol'') filled price p cur bk
                              else if \<not> fe_write_ok env then (Inl RuntimeError, bk)
                              else (Inr Applied, write_position (row_id p) (adjusted_columns env new (entry_after cur avg signed price)) bk)) of
                          (Inl e, bk') \<Rightarrow> (Inl e, bk')
                        | (Inr (Aborted s), bk') \<Rightarrow> (Inr (Aborted s, row_id p), bk')
                        | (Inr _, bk') \<Rightarrow>
                            (case link_order env order (row_id p) bk' of
                               (Inl e, bk'') \<Rightarrow> (Inl e, bk'') | (Inr r, bk'') \<Rightarrow> (Inr (r, row_id p), bk'')))))"

definition repair_event :: "string \<Rightarrow> pydict \<Rightarrow> pydict \<Rightarrow> pyval \<Rightarrow> pyval \<Rightarrow> pynum \<Rightarrow> pynum \<Rightarrow> pynum \<Rightarrow> pynum \<Rightarrow> paper_event" where
  "repair_event user order ticket pf pid filled price fees cash =
     \<lparr>pe_kind = ''fill'', pe_user = user, pe_portfolio = pf, pe_amount = cash_delta order filled price fees, pe_balance = cash,
      pe_order = row_id order, pe_position = pid,
      pe_meta = [(''side'', dget_default order ''side'' (PStr ''buy'')), (''qty'', PFloat filled), (''price'', PFloat price),
        (''symbol'', dget ticket ''symbol''), (''fees'', PFloat fees), (''repair'', PBool True)]\<rparr>"

definition repair_filled_order :: "fill_env \<Rightarrow> string \<Rightarrow> pydict \<Rightarrow> pydict \<Rightarrow> paper_book \<Rightarrow> repair_end \<times> paper_book" where
  "repair_filled_order env user order pf bk =
     (case dget_default order ''order_json'' (PDict []) of
        PDict ticket \<Rightarrow>
          (case rbind (float_or (dget order ''filled_qty'') 0) (\<lambda>q. rbind (float_or (dget order ''avg_fill_price'') 0) (\<lambda>x.
                rbind (float_or (dget order ''fees_usd'') 0) (\<lambda>fees. Inr (q, x, fees)))) of
             Inl e \<Rightarrow> (RepairRaised e, bk)
           | Inr (filled, price, fees) \<Rightarrow>
               if fle filled (Fin 0) \<or> num_eq price (Fin 0) then (NotRepaired, bk)
               else
                 (case repair_position env user order ticket pf filled price bk of
                    (Inl e, bk') \<Rightarrow> (RepairRaised e, bk')
                  | (Inr (Aborted _, _), bk') \<Rightarrow> (NotRepaired, bk')
                  | (Inr (_, pid), bk') \<Rightarrow>
                      if \<not> fe_ledger_ok env then (RepairRaised RuntimeError, bk')
                      else if list_ex (\<lambda>e. pe_order e = row_id order) (pb_ledger bk') then (Repaired False, bk')
                      else (case py_float (py_or (dget pf ''cash_balance'') (PInt 0)) of
                          Inl e \<Rightarrow> (RepairRaised e, bk')
                        | Inr cash \<Rightarrow> (Repaired True, emit_event env (repair_event user order ticket (row_id pf) pid filled price fees cash) bk'))))
      | _ \<Rightarrow> (RepairRaised AttributeError, bk))"

end
