(* ===== verification/Paper_Processing.thy ===== *)
theory Paper_Processing
  imports Paper_Fills
begin

section \<open>Processing the paper orders of a user\<close>

text \<open>
  Model of \<open>_process_orders_for_user\<close> in \<open>paper_endpoints.py\<close>: filled orders without a position are
  repaired, orders that worked for two hours unfilled are cancelled, and every other order in
  flight is priced and simulated, and its fill committed. The orders and the portfolios are read
  once, at the start; the cash of the portfolios that were read is kept up to date in memory.

  The answers of the quote service (after its retries), the draws, and what becomes of the writes
  of an order are parameters. The counts of the report are derived from the outcomes; diagnostics
  and log lines are left out.
\<close>

record process_env =
  pr_read_ok :: bool
  pr_fill :: "pyval \<Rightarrow> fill_env"
  pr_quote :: "string \<Rightarrow> pydict option"
  pr_draws :: "pyval \<Rightarrow> rat \<times> rat"
  pr_now :: rat
  pr_parse :: "string \<Rightarrow> rat option"

datatype order_outcome =
    RepairOutcome repair_end
  | StaleCancelled
  | OrderRaised pyexn
  | SkippedNoQuote
  | FillOutcome commit_end
  | StillWorking
  | UnexpectedStatus string

subsection \<open>One order\<close>

definition resolve_quote_symbol :: "pydict \<Rightarrow> pyexn + pyval" where
  "resolve_quote_symbol ticket =
     (let underlying = dget_default ticket ''symbol'' (PStr ''UNKNOWN''); legs = dget_default ticket ''legs'' (PList [])
      in if \<not> truthy legs then Inr underlying
         else case legs of
             PList (PDict d # _) \<Rightarrow>
               (let s = dget_default d ''symbol'' (PStr [])
                in if \<not> truthy s then Inr underlying
                   else case s of PStr t \<Rightarrow> Inr (if occ_like t then s else underlying) | _ \<Rightarrow> Inl AttributeError)
           | PList _ \<Rightarrow> Inr underlying
           | PStr _ \<Rightarrow> Inr underlying
           | PDict _ \<Rightarrow> Inl KeyError
           | _ \<Rightarrow> Inl TypeError)"

text \<open>The quote that is used: an answer without a positive price counts as none.\<close>

definition usable_quote :: "process_env \<Rightarrow> pyval \<Rightarrow> pydict option" where
  "usable_quote env symbol =
     (case symbol of
        PStr s \<Rightarrow> if s = [] then None else (case pr_quote env s of Some q \<Rightarrow> if is_valid_quote q then Some q else None | None \<Rightarrow> None)
      | _ \<Rightarrow> None)"

definition new_fill :: "sim_fill \<Rightarrow> bool" where
  "new_fill f \<longleftrightarrow> sf_status f \<in> {''partial'', ''filled''} \<and> flt (Fin 0) (or_zero (sf_last_qty f))"

text \<open>The guard for fills without a quote.\<close>

definition fallback_acceptable :: "sim_fill \<Rightarrow> bool" where
  "fallback_acceptable f \<longleftrightarrow> sf_fallback f \<noteq> None \<and> flt (Fin (101/100)) (or_zero (sf_last_price f))"

definition start_working :: "fill_env \<Rightarrow> pydict \<Rightarrow> order_outcome \<Rightarrow> paper_book \<Rightarrow> order_outcome \<times> paper_book" where
  "start_working env order fin bk =
     (if dget order ''status'' \<noteq> PStr ''staged'' then (fin, bk)
      else if \<not> fe_move_ok env then (OrderRaised RuntimeError, bk)
      else (fin, write_order (row_id order)
                   [(''status'', PStr ''working''), (''submitted_at'', PStr (de_now_text (fe_desk env)))] bk))"

definition process_fill ::
  "fill_env \<Rightarrow> string \<Rightarrow> pydict \<Rightarrow> pydict option \<Rightarrow> sim_fill \<Rightarrow> pydict \<Rightarrow> paper_book \<Rightarrow> order_outcome \<times> pydict \<times> paper_book" where
  "process_fill env user order quote f pf bk =
     (if quote = None \<and> new_fill f \<and> \<not> fallback_acceptable f
      then (case start_working env order SkippedNoQuote bk of (fin, bk') \<Rightarrow> (fin, pf, bk'))
      else if new_fill f
      then (case commit_fill env user order f quote pf bk of
              (Inl e, pf', bk') \<Rightarrow> (OrderRaised e, pf', bk') | (Inr fin, pf', bk') \<Rightarrow> (FillOutcome fin, pf', bk'))
      else (case start_working env order (if sf_status f = ''working'' then StillWorking else UnexpectedStatus (sf_status f)) bk of
              (fin, bk') \<Rightarrow> (fin, pf, bk')))"

definition process_one ::
  "process_env \<Rightarrow> string \<Rightarrow> pydict \<Rightarrow> pydict \<Rightarrow> paper_book \<Rightarrow> order_outcome \<times> pydict \<times> paper_book" where
  "process_one env user order pf bk =
     (case dget_default order ''order_json'' (PDict []) of
        PDict ticket \<Rightarrow>
          (case rbind (resolve_quote_symbol ticket) (\<lambda>symbol.
                let quote = usable_quote env symbol in
                rbind (simulate_fill default_costs (pr_draws env (row_id order)) order quote) (\<lambda>f. Inr (quote, f))) of
             Inl e \<Rightarrow> (OrderRaised e, pf, bk)
           | Inr (quote, f) \<Rightarrow> process_fill (pr_fill env (row_id order)) user order quote f pf bk)
      | _ \<Rightarrow> (OrderRaised AttributeError, pf, bk))"

subsection \<open>All orders\<close>

text \<open>The portfolios that were read, looked up and replaced by their id.\<close>

definition portfolio_of :: "pydict list \<Rightarrow> pydict \<Rightarrow> pydict option" where
  "portfolio_of pfs order = find (\<lambda>r. row_id r = dget order ''portfolio_id'') pfs"

definition put_portfolio :: "pydict \<Rightarrow> pydict list \<Rightarrow> pydict list" where
  "put_portfolio pf pfs = map (\<lambda>r. if row_id r = row_id pf then pf else r) pfs"

fun process_all ::
  "process_env \<Rightarrow> string \<Rightarrow> pydict list \<Rightarrow> pydict list \<Rightarrow> paper_book \<Rightarrow> (pyval \<times> order_outcome) list \<times> paper_book" where
  "process_all env user [] pfs bk = ([], bk)"
| "process_all env user (order # rest) pfs bk =
     (case portfolio_of pfs order of
        None \<Rightarrow> (case process_all env user rest pfs bk of (outs, bk') \<Rightarrow> ((row_id order, OrderRaised KeyError) # outs, bk'))
      | Some pf \<Rightarrow>
          (case process_one env user order pf bk of
             (fin, pf', bk1) \<Rightarrow>
               (case process_all env user rest (put_portfolio pf' pfs) bk1 of (outs, bk2) \<Rightarrow> ((row_id order, fin) # outs, bk2))))"

fun repair_all ::
  "process_env \<Rightarrow> string \<Rightarrow> pydict list \<Rightarrow> pydict list \<Rightarrow> paper_book \<Rightarrow> (pyval \<times> order_outcome) list \<times> paper_book" where
  "repair_all env user [] pfs bk = ([], bk)"
| "repair_all env user (order # rest) pfs bk =
     (case portfolio_of pfs order of
        None \<Rightarrow> (case repair_all env user rest pfs bk of (outs, bk') \<Rightarrow> ((row_id order, OrderRaised KeyError) # outs, bk'))
      | Some pf \<Rightarrow>
          (case repair_filled_order (pr_fill env (row_id order)) user order pf bk of
             (fin, bk1) \<Rightarrow>
               (case repair_all env user rest pfs bk1 of (outs, bk2) \<Rightarrow> ((row_id order, RepairOutcome fin) # outs, bk2))))"

text \<open>The minutes of a stale order; a timestamp that cannot be read leaves it in flight.\<close>

definition stale_age :: "process_env \<Rightarrow> pydict \<Rightarrow> pyexn + rat option" where
  "stale_age env order =
     rbind (float_or (dget order ''filled_qty'') 0) (\<lambda>filled.
       let since = py_or (dget order ''submitted_at'') (dget order ''created_at'')
       in if dget order ''status'' = PStr ''working'' \<and> num_eq filled (Fin 0) \<and> truthy since
          then (case since of
                  PStr s \<Rightarrow>
                    Inr (case pr_parse env s of
                           None \<Rightarrow> None
                         | Some t \<Rightarrow> let age = (pr_now env - t) / 60 in if 120 < age then Some age else None)
                | _ \<Rightarrow> Inl AttributeError)
          else Inr None)"

definition cancel_columns :: "rat \<Rightarrow> (string \<times> pyval) list" where
  "cancel_columns age =
     [(''status'', PStr ''cancelled''), (''cancelled_reason'', PStr (''stale_working_'' @ str_of_int (rat_trunc age) @ ''m''))]"

fun sweep_stale ::
  "process_env \<Rightarrow> pydict list \<Rightarrow> paper_book \<Rightarrow> (pyexn + (pyval \<times> order_outcome) list \<times> pydict list) \<times> paper_book" where
  "sweep_stale env [] bk = (Inr ([], []), bk)"
| "sweep_stale env (order # rest) bk =
     (case stale_age env order of
        Inl e \<Rightarrow> (Inl e, bk)
      | Inr None \<Rightarrow>
          (case sweep_stale env rest bk of
             (Inl e, bk') \<Rightarrow> (Inl e, bk') | (Inr (outs, live), bk') \<Rightarrow> (Inr (outs, order # live), bk'))
      | Inr (Some age) \<Rightarrow>
          if \<not> fe_move_ok (pr_fill env (row_id order)) then (Inl RuntimeError, bk)
          else
            (case sweep_stale env rest (write_order (row_id order) (cancel_columns age) bk) of
               (Inl e, bk') \<Rightarrow> (Inl e, bk') | (Inr (outs, live), bk') \<Rightarrow> (Inr ((row_id order, StaleCancelled) # outs, live), bk')))"

definition own_portfolio :: "string \<Rightarrow> pydict \<Rightarrow> bool" where
  "own_portfolio user r \<longleftrightarrow>
     dget r ''user_id'' = PStr user \<and> (case dget r ''routing_mode'' of PStr m \<Rightarrow> m \<noteq> ''paper_shadow'' | _ \<Rightarrow> False)"

definition flight_statuses :: "string list" where
  "flight_statuses = [''staged'', ''working'', ''partial'']"

definition orders_in :: "pydict list \<Rightarrow> paper_book \<Rightarrow> pydict list" where
  "orders_in pfs bk = filter (\<lambda>r. dget r ''portfolio_id'' \<in> row_id ` set pfs) (pb_orders bk)"

definition unlinked_fills :: "pydict list \<Rightarrow> pydict list" where
  "unlinked_fills rows = filter (\<lambda>r. dget r ''status'' = PStr ''filled'' \<and> dget r ''position_id'' = PNone) rows"

definition orphan_orders :: "pydict list \<Rightarrow> pyexn + pydict list" where
  "orphan_orders rows =
     rbind (rmap (\<lambda>r. rbind (float_or (dget r ''filled_qty'') 0) (\<lambda>q. Inr (r, flt (Fin 0) q))) (unlinked_fills rows)) (\<lambda>ps.
       Inr (map fst (filter snd ps)))"

definition process_orders ::
  "process_env \<Rightarrow> string \<Rightarrow> pyval \<Rightarrow> paper_book \<Rightarrow> (pyexn + (pyval \<times> order_outcome) list) \<times> paper_book" where
  "process_orders env user target bk =
     (let pfs = filter (own_portfolio user) (pb_portfolios bk); rows = orders_in pfs bk
      in if \<not> pr_read_ok env then (Inl RuntimeError, bk)
         else if pfs = [] then (Inr [], bk)
         else case orphan_orders rows of
             Inl e \<Rightarrow> (Inl e, bk)
           | Inr orphans \<Rightarrow>
               (case repair_all env user orphans pfs bk of
                  (repaired, bk1) \<Rightarrow>
                    (case sweep_stale env (filter (in_status flight_statuses) rows) bk1 of
                       (Inl e, bk2) \<Rightarrow> (Inl e, bk2)
                     | (Inr (stale, live), bk2) \<Rightarrow>
                         (case process_all env user (filter (\<lambda>r. truthy target \<longrightarrow> row_id r = target) live) pfs bk2 of
                            (outs, bk3) \<Rightarrow> (Inr (repaired @ stale @ outs), bk3)))))"

end
