(* ===== verification/Paper_Correct.thy ===== *)
theory Paper_Correct
  imports Paper_Processing Close_Route_Correct
begin

section \<open>What the fill processor guarantees\<close>

subsection \<open>What each write leaves alone\<close>

lemma write_order_fields [simp]:
  "pb_portfolios (write_order oid kvs bk) = pb_portfolios bk" "pb_ledger (write_order oid kvs bk) = pb_ledger bk"
  "pb_positions (write_order oid kvs bk) = pb_positions bk"
  "pb_orders (write_order oid kvs bk) = update_rows (\<lambda>r. row_id r = oid) (dset_all kvs) (pb_orders bk)"
  by (simp_all add: write_order_def update_order_def)

lemma write_position_fields [simp]:
  "pb_portfolios (write_position pid kvs bk) = pb_portfolios bk" "pb_ledger (write_position pid kvs bk) = pb_ledger bk"
  "pb_orders (write_position pid kvs bk) = pb_orders bk"
  "pb_positions (write_position pid kvs bk) = update_rows (\<lambda>r. row_id r = pid) (dset_all kvs) (pb_positions bk)"
  by (simp_all add: write_position_def)

lemma insert_position_fields [simp]:
  "pb_portfolios (insert_position p bk) = pb_portfolios bk" "pb_ledger (insert_position p bk) = pb_ledger bk"
  "pb_orders (insert_position p bk) = pb_orders bk" "pb_positions (insert_position p bk) = pb_positions bk @ [p]"
  by (simp_all add: insert_position_def)

lemma write_cash_fields [simp]:
  "pb_desk (write_cash pf cash bk) = pb_desk bk" "pb_ledger (write_cash pf cash bk) = pb_ledger bk"
  by (simp_all add: write_cash_def)

lemma anomaly_fields [simp]:
  "pb_portfolios (anomaly env pid stage bk) = pb_portfolios bk" "pb_ledger (anomaly env pid stage bk) = pb_ledger bk"
  "pb_orders (anomaly env pid stage bk) = pb_orders bk" "pb_positions (anomaly env pid stage bk) = pb_positions bk"
  by (simp_all add: anomaly_def)

lemma emit_event_fields [simp]:
  "pb_desk (emit_event env e bk) = pb_desk bk" "pb_portfolios (emit_event env e bk) = pb_portfolios bk"
  "pb_ledger (emit_event env e bk) = pb_ledger bk @ (if fe_emit_ok env then [e] else [])"
  by (simp_all add: emit_event_def)

text \<open>The portfolios and the ledger.\<close>

definition funds :: "paper_book \<Rightarrow> pydict list \<times> paper_event list" where
  "funds bk = (pb_portfolios bk, pb_ledger bk)"

lemma funds_simps [simp]:
  "funds (write_order oid kvs bk) = funds bk" "funds (write_position pid kvs bk) = funds bk"
  "funds (insert_position p bk) = funds bk" "funds (anomaly env pid stage bk) = funds bk"
  by (simp_all add: funds_def)

lemma funds_desk [simp]: "funds (bk\<lparr>pb_desk := dk\<rparr>) = funds bk"
  by (simp add: funds_def)

lemma write_close_funds: "write_close env p pl reason source bk = (res, bk') \<Longrightarrow> funds bk' = funds bk"
  by (auto simp: write_close_def Let_def split: pyval.splits prod.splits sum.splits writer_error.splits)

lemma close_by_fill_funds: "close_by_fill env ticket d p cur explicit bk = (res, bk') \<Longrightarrow> funds bk' = funds bk"
  by (auto simp: close_by_fill_def dest: write_close_funds split: if_splits sum.splits close_error.splits)

lemma open_by_fill_funds: "open_by_fill env user order ticket pf key signed price bk = (res, bk') \<Longrightarrow> funds bk' = funds bk"
  by (auto simp: open_by_fill_def link_order_def split: if_splits sum.splits)

lemma fill_position_funds: "fill_position env user order ticket d pf bk = (res, bk') \<Longrightarrow> funds bk' = funds bk"
  by (auto simp: fill_position_def Let_def dest: close_by_fill_funds open_by_fill_funds split: if_splits sum.splits option.splits)

lemma settle_fill_funds: "settle_fill env order d res bk = (fin, bk') \<Longrightarrow> funds bk' = funds bk"
  by (auto simp: settle_fill_def split: if_splits sum.splits position_step.splits)

subsection \<open>Commits\<close>

text \<open>A commit that does not raise has paid before it touched the position.\<close>

lemma commit_fill_paid:
  assumes "commit_fill env user order f quote pf bk = (Inr fin, pf', bk')"
  obtains d cash ticket res bk1 where "compute_fill_deltas order f = Inr d" and "py_float (dget pf ''cash_balance'') = Inr cash"
    and "dget_default order ''order_json'' (PDict []) = PDict ticket"
    and "pf' = dset pf ''cash_balance'' (PFloat (fadd cash (cash_delta order (fd_qty d) (fd_price d) (fd_fees_delta d))))"
    and "fill_position env user order ticket d pf
           (emit_event env (fill_event user order ticket f d (row_id pf) (cash_delta order (fd_qty d) (fd_price d) (fd_fees_delta d))
              (fadd cash (cash_delta order (fd_qty d) (fd_price d) (fd_fees_delta d))))
             (write_cash (row_id pf) (fadd cash (cash_delta order (fd_qty d) (fd_price d) (fd_fees_delta d)))
               (write_order (row_id order) (fill_columns env order f d quote) bk))) = (res, bk1)"
    and "settle_fill env order d res bk1 = (fin, bk')"
proof -
  obtain d where d: "compute_fill_deltas order f = Inr d" using assms by (auto simp: commit_fill_def split: sum.splits)
  obtain cash where cash: "py_float (dget pf ''cash_balance'') = Inr cash"
    using assms d by (auto simp: commit_fill_def Let_def split: sum.splits if_splits)
  have ok: "fe_order_ok env" "fe_cash_ok env" using assms d cash by (auto simp: commit_fill_def Let_def split: if_splits)
  obtain ticket where ticket: "dget_default order ''order_json'' (PDict []) = PDict ticket"
    using assms d cash ok by (auto simp: commit_fill_def Let_def split: pyval.splits)
  let ?amount = "cash_delta order (fd_qty d) (fd_price d) (fd_fees_delta d)"
  let ?paid = "emit_event env (fill_event user order ticket f d (row_id pf) ?amount (fadd cash ?amount))
      (write_cash (row_id pf) (fadd cash ?amount) (write_order (row_id order) (fill_columns env order f d quote) bk))"
  obtain res bk1 where step: "fill_position env user order ticket d pf ?paid = (res, bk1)" by fastforce
  obtain fin' bk2 where settle: "settle_fill env order d res bk1 = (fin', bk2)" by fastforce
  have run: "commit_fill env user order f quote pf bk = (Inr fin', dset pf ''cash_balance'' (PFloat (fadd cash ?amount)), bk2)"
    using d cash ok ticket step settle by (simp add: commit_fill_def Let_def)
  show thesis by (rule that [OF d cash ticket _ step]) (use run assms settle in simp_all)
qed

lemma commit_fill_raised:
  assumes "commit_fill env user order f quote pf bk = (Inl e, pf', bk')" and "dget_default order ''order_json'' (PDict []) = PDict ticket"
  shows "pf' = pf \<and> funds bk' = funds bk"
  using assms by (auto simp: commit_fill_def Let_def split: sum.splits if_splits prod.splits)

subsection \<open>Cash and ledger\<close>

definition balance_of :: "pyval \<Rightarrow> paper_book \<Rightarrow> pynum option" where
  "balance_of pf bk =
     (case find (\<lambda>r. row_id r = pf) (pb_portfolios bk) of
        None \<Rightarrow> None
      | Some r \<Rightarrow> (case py_float (dget r ''cash_balance'') of Inr x \<Rightarrow> Some x | Inl _ \<Rightarrow> None))"

definition balance_after :: "pynum \<Rightarrow> pyval \<Rightarrow> paper_event list \<Rightarrow> pynum" where
  "balance_after b pf es = foldl fadd b (map pe_amount (filter (\<lambda>e. pe_portfolio e = pf) es))"

lemma balance_after_simps [simp]:
  "balance_after b pf [] = b"
  "balance_after b pf (es @ fs) = balance_after (balance_after b pf es) pf fs"
  "balance_after b pf [e] = (if pe_portfolio e = pf then fadd b (pe_amount e) else b)"
  by (simp_all add: balance_after_def)

lemma balance_of_funds: "funds bk' = funds bk \<Longrightarrow> balance_of k bk' = balance_of k bk"
  by (simp add: funds_def balance_of_def)

lemma find_update_keeps:
  assumes "\<And>r. r \<in> set rows \<Longrightarrow> P (if Q r then f r else r) = P r"
  shows "find P (update_rows Q f rows) = map_option (\<lambda>r. if Q r then f r else r) (find P rows)"
  using assms by (induction rows) (auto simp: update_rows_def)

lemma row_id_dset [simp]: "k \<noteq> ''id'' \<Longrightarrow> row_id (dset d k v) = row_id d"
  by (simp add: row_id_def)

lemma balance_of_write_cash:
  "balance_of k (write_cash pf cash bk) =
     (if k = pf \<and> find (\<lambda>r. row_id r = k) (pb_portfolios bk) \<noteq> None then Some cash else balance_of k bk)"
proof -
  have "find (\<lambda>r. row_id r = k) (pb_portfolios (write_cash pf cash bk))
      = map_option (\<lambda>r. if row_id r = pf then dset r ''cash_balance'' (PFloat cash) else r) (find (\<lambda>r. row_id r = k) (pb_portfolios bk))"
    unfolding write_cash_def by (simp add: find_update_keeps)
  moreover have "row_id r = k" if "find (\<lambda>r. row_id r = k) (pb_portfolios bk) = Some r" for r
    using that by (auto dest: find_Some_props)
  ultimately show ?thesis by (cases "find (\<lambda>r. row_id r = k) (pb_portfolios bk)") (auto simp: balance_of_def)
qed

lemma balance_of_found: "balance_of k bk = Some b \<Longrightarrow> find (\<lambda>r. row_id r = k) (pb_portfolios bk) \<noteq> None"
  by (auto simp: balance_of_def split: option.splits)

text \<open>
  Whatever happens to an order, the cash in memory and in the table moves by its events, of which the
  ledger gets those whose insertion works (\<open>PaperLedgerService.emit\<close> swallows a failed one).
\<close>

definition moves_with :: "(paper_event \<Rightarrow> bool) \<Rightarrow> pydict \<Rightarrow> pynum \<Rightarrow> paper_book \<Rightarrow> pydict \<Rightarrow> paper_book \<Rightarrow> bool" where
  "moves_with kept pf b bk pf' bk' \<longleftrightarrow>
     row_id pf' = row_id pf \<and>
     (\<exists>es. pb_ledger bk' = pb_ledger bk @ filter kept es \<and> (\<forall>e \<in> set es. pe_portfolio e = row_id pf)
        \<and> py_float (dget pf' ''cash_balance'') = Inr (balance_after b (row_id pf) es)
        \<and> balance_of (row_id pf) bk' = Some (balance_after b (row_id pf) es)
        \<and> (\<forall>k. k \<noteq> row_id pf \<longrightarrow> balance_of k bk' = balance_of k bk))"

lemma moves_with_none:
  assumes "funds bk' = funds bk" and "py_float (dget pf ''cash_balance'') = Inr b" and "balance_of (row_id pf) bk = Some b"
  shows "moves_with kept pf b bk pf bk'"
  using assms balance_of_funds [OF assms(1)] by (auto simp: moves_with_def funds_def intro!: exI [of _ "[]"])

lemma commit_moves:
  assumes "commit_fill env user order f quote pf bk = (res, pf', bk')" and "\<And>e. pe_order e = row_id order \<Longrightarrow> kept e = fe_emit_ok env"
    and "dget_default order ''order_json'' (PDict []) = PDict ticket"
    and "py_float (dget pf ''cash_balance'') = Inr b" and "balance_of (row_id pf) bk = Some b"
  shows "moves_with kept pf b bk pf' bk'"
proof (cases res)
  case (Inl e)
  then have "pf' = pf \<and> funds bk' = funds bk" using commit_fill_raised assms(1,3) by blast
  then show ?thesis using moves_with_none assms(4,5) by blast
next
  case (Inr fin)
  from commit_fill_paid [OF assms(1) [unfolded Inr]] obtain d cash ticket res1 bk1 where
    d: "py_float (dget pf ''cash_balance'') = Inr cash"
      "pf' = dset pf ''cash_balance'' (PFloat (fadd cash (cash_delta order (fd_qty d) (fd_price d) (fd_fees_delta d))))"
    and step: "fill_position env user order ticket d pf
           (emit_event env (fill_event user order ticket f d (row_id pf) (cash_delta order (fd_qty d) (fd_price d) (fd_fees_delta d))
              (fadd cash (cash_delta order (fd_qty d) (fd_price d) (fd_fees_delta d))))
             (write_cash (row_id pf) (fadd cash (cash_delta order (fd_qty d) (fd_price d) (fd_fees_delta d)))
               (write_order (row_id order) (fill_columns env order f d quote) bk))) = (res1, bk1)"
    and settle: "settle_fill env order d res1 bk1 = (fin, bk')" .
  let ?amount = "cash_delta order (fd_qty d) (fd_price d) (fd_fees_delta d)"
  let ?e = "fill_event user order ticket f d (row_id pf) ?amount (fadd cash ?amount)"
  let ?paid = "emit_event env ?e (write_cash (row_id pf) (fadd cash ?amount) (write_order (row_id order) (fill_columns env order f d quote) bk))"
  have b: "cash = b" using d(1) assms(4) by simp
  have funds: "funds bk' = funds ?paid" using settle_fill_funds [OF settle] fill_position_funds [OF step] by simp
  have same: "balance_of k ?paid = balance_of k (write_cash (row_id pf) (fadd cash ?amount) bk)" for k
    by (simp add: balance_of_def write_cash_def)
  have event: "pe_portfolio ?e = row_id pf" "pe_amount ?e = ?amount" "pe_order ?e = row_id order" by (simp_all add: fill_event_def)
  have "pb_ledger bk' = pb_ledger bk @ filter kept [?e]" using funds assms(2) [OF event(3)] by (simp add: funds_def)
  moreover have "balance_of k bk' = (if k = row_id pf then Some (fadd b ?amount) else balance_of k bk)" for k
    using balance_of_funds [OF funds] same balance_of_found [OF assms(5)] b by (simp add: balance_of_write_cash)
  ultimately show ?thesis unfolding moves_with_def using d(2) b event(1,2) by (intro conjI exI [of _ "[?e]"]) simp_all
qed

text \<open>The events whose insertion works, in the order's own run.\<close>

definition event_kept :: "process_env \<Rightarrow> paper_event \<Rightarrow> bool" where
  "event_kept env e = fe_emit_ok (pr_fill env (pe_order e))"


lemma start_working_funds: "start_working env order fin bk = (fin', bk') \<Longrightarrow> funds bk' = funds bk"
  by (auto simp: start_working_def split: if_splits)

lemma process_one_moves:
  assumes "process_one env user order pf bk = (fin, pf', bk')"
    and "py_float (dget pf ''cash_balance'') = Inr b" and "balance_of (row_id pf) bk = Some b"
  shows "moves_with (event_kept env) pf b bk pf' bk'"
proof -
  have none: "moves_with (event_kept env) pf b bk pf bk" using moves_with_none [OF refl assms(2,3)] .
  have kept: "pe_order e = row_id order \<Longrightarrow> event_kept env e = fe_emit_ok (pr_fill env (row_id order))" for e
    by (simp add: event_kept_def)
  have moved: "moves_with (event_kept env) pf b bk pf1 bk1"
    if "process_fill (pr_fill env (row_id order)) user order quote f pf bk = (fin1, pf1, bk1)"
      and "dget_default order ''order_json'' (PDict []) = PDict ticket" for quote f fin1 pf1 bk1 ticket
    using that commit_moves [OF _ kept that(2) assms(2,3)] moves_with_none [OF start_working_funds assms(2,3)]
    by (auto simp: process_fill_def split: if_splits prod.splits sum.splits)
  show ?thesis using assms(1) none moved
    by (auto simp: process_one_def split: pyval.splits sum.splits)
qed

definition known_balances :: "pydict list \<Rightarrow> paper_book \<Rightarrow> bool" where
  "known_balances pfs bk \<longleftrightarrow> distinct (map row_id pfs)
     \<and> (\<forall>pf \<in> set pfs. \<exists>b. py_float (dget pf ''cash_balance'') = Inr b \<and> balance_of (row_id pf) bk = Some b)"

definition in_step_with :: "(paper_event \<Rightarrow> bool) \<Rightarrow> pydict list \<Rightarrow> paper_book \<Rightarrow> paper_book \<Rightarrow> bool" where
  "in_step_with kept pfs bk bk' \<longleftrightarrow>
     (\<exists>es. pb_ledger bk' = pb_ledger bk @ filter kept es \<and> (\<forall>e \<in> set es. pe_portfolio e \<in> row_id ` set pfs)
        \<and> (\<forall>k b. balance_of k bk = Some b \<longrightarrow> balance_of k bk' = Some (balance_after b k es)))"

lemma process_all_in_step:
  assumes "process_all env user orders pfs bk = (outs, bk')" and "known_balances pfs bk"
  shows "in_step_with (event_kept env) pfs bk bk'"
  using assms
proof (induction orders arbitrary: pfs bk outs)
  case Nil
  then show ?case by (auto simp: in_step_with_def intro!: exI [of _ "[]"])
next
  case (Cons order rest)
  show ?case
  proof (cases "portfolio_of pfs order")
    case None
    then obtain outs' where "process_all env user rest pfs bk = (outs', bk')" using Cons.prems(1) by (auto split: prod.splits)
    then show ?thesis using Cons.IH Cons.prems(2) by blast
  next
    case (Some pf)
    obtain fin pf' bk1 where one: "process_one env user order pf bk = (fin, pf', bk1)" by (rule prod_cases3)
    obtain outs' where rest: "process_all env user rest (put_portfolio pf' pfs) bk1 = (outs', bk')"
      using Cons.prems(1) Some one by (auto split: prod.splits)
    have pf: "pf \<in> set pfs" using Some by (auto simp: portfolio_of_def dest: find_Some_props)
    obtain b where b: "py_float (dget pf ''cash_balance'') = Inr b" "balance_of (row_id pf) bk = Some b"
      using Cons.prems(2) pf by (auto simp: known_balances_def)
    obtain es where es: "row_id pf' = row_id pf" "pb_ledger bk1 = pb_ledger bk @ filter (event_kept env) es" "\<forall>e \<in> set es. pe_portfolio e = row_id pf"
      "py_float (dget pf' ''cash_balance'') = Inr (balance_after b (row_id pf) es)"
      "balance_of (row_id pf) bk1 = Some (balance_after b (row_id pf) es)"
      "\<forall>k. k \<noteq> row_id pf \<longrightarrow> balance_of k bk1 = balance_of k bk"
      using process_one_moves [OF one b] by (auto simp: moves_with_def)
    have ids: "map row_id (put_portfolio pf' pfs) = map row_id pfs"
      using es(1) by (auto simp: put_portfolio_def)
    have "\<exists>b. py_float (dget r ''cash_balance'') = Inr b \<and> balance_of (row_id r) bk1 = Some b" if r: "r \<in> set (put_portfolio pf' pfs)" for r
    proof (cases "row_id r = row_id pf")
      case True
      then have "r = pf'" using r es(1) by (auto simp: put_portfolio_def split: if_splits)
      then show ?thesis using es(1,4,5) by simp
    next
      case False
      then have "r \<in> set pfs" using r es(1) by (auto simp: put_portfolio_def split: if_splits)
      then show ?thesis using Cons.prems(2) es(6) False by (auto simp: known_balances_def)
    qed
    then have "known_balances (put_portfolio pf' pfs) bk1" using Cons.prems(2) ids by (simp add: known_balances_def)
    from Cons.IH [OF rest this] obtain fs where fs: "pb_ledger bk' = pb_ledger bk1 @ filter (event_kept env) fs"
      "\<forall>e \<in> set fs. pe_portfolio e \<in> row_id ` set (put_portfolio pf' pfs)"
      "\<forall>k b. balance_of k bk1 = Some b \<longrightarrow> balance_of k bk' = Some (balance_after b k fs)" by (auto simp: in_step_with_def)
    have "row_id ` set (put_portfolio pf' pfs) = row_id ` set pfs" using ids by (metis set_map)
    moreover have "balance_of k bk1 = Some (balance_after a k es)" if "balance_of k bk = Some a" for k a
    proof (cases "k = row_id pf")
      case False
      then have "filter (\<lambda>e. pe_portfolio e = k) es = []" using es(3) by (auto simp: filter_empty_conv)
      then show ?thesis using that es(6) False by (simp add: balance_after_def)
    qed (use that b es(5) in auto)
    ultimately show ?thesis using es(2,3) fs pf unfolding in_step_with_def by (intro exI [of _ "es @ fs"]) auto
  qed
qed

lemma sweep_stale_funds: "sweep_stale env orders bk = (res, bk') \<Longrightarrow> funds bk' = funds bk"
proof (induction orders arbitrary: bk res)
  case (Cons order rest)
  then show ?case
    by (cases "stale_age env order") (auto split: option.splits sum.splits prod.splits if_splits dest!: Cons.IH)
qed simp

lemma in_step_funds: "funds bk1 = funds bk \<Longrightarrow> in_step_with kept pfs bk1 bk' = in_step_with kept pfs bk bk'"
  using balance_of_funds [of bk1 bk] by (simp add: in_step_with_def funds_def)

text \<open>
  C23 (invariant). The cash moves by fill events, and the ledger lacks exactly the lost ones: in a run
  over the user's orders that has nothing to repair, with portfolios of distinct ids and numeric
  balances, whatever the prices are and whichever writes fail (a failed write has no effect), the
  balance of every portfolio moves by the amounts of a list of events, all for the user's
  own portfolios, and the ledger grows by those of them whose insertion worked. A failed insertion
  is swallowed after the cash was written, so it is the one cause of a drift, and the drift is the
  amount of the lost events.
\<close>

theorem cash_follows_the_ledger:
  assumes "process_orders env user target bk = (res, bk')"
    and "known_balances (filter (own_portfolio user) (pb_portfolios bk)) bk"
    and "orphan_orders (orders_in (filter (own_portfolio user) (pb_portfolios bk)) bk) = Inr []"
  shows "\<exists>es. pb_ledger bk' = pb_ledger bk @ filter (\<lambda>e. fe_emit_ok (pr_fill env (pe_order e))) es
     \<and> (\<forall>e \<in> set es. \<exists>r \<in> set (pb_portfolios bk). own_portfolio user r \<and> pe_portfolio e = row_id r)
     \<and> (\<forall>k b. balance_of k bk = Some b \<longrightarrow> balance_of k bk' = Some (balance_after b k es))"
proof -
  let ?pfs = "filter (own_portfolio user) (pb_portfolios bk)"
  have "in_step_with (event_kept env) ?pfs bk bk'"
  proof (cases "\<not> pr_read_ok env \<or> ?pfs = []")
    case True
    then have "bk' = bk" using assms(1) by (auto simp: process_orders_def Let_def split: if_splits)
    then show ?thesis by (auto simp: in_step_with_def intro!: exI [of _ "[]"])
  next
    case False
    obtain res1 bk2 where sweep: "sweep_stale env (filter (in_status flight_statuses) (orders_in ?pfs bk)) bk = (res1, bk2)" by fastforce
    have funds: "funds bk2 = funds bk" by (rule sweep_stale_funds [OF sweep])
    show ?thesis
    proof (cases res1)
      case (Inl e)
      then have "bk' = bk2" using assms(1,3) False sweep by (simp add: process_orders_def Let_def)
      then show ?thesis using funds by (auto simp: in_step_with_def funds_def balance_of_def intro!: exI [of _ "[]"])
    next
      case (Inr sl)
      obtain stale live where sl: "sl = (stale, live)" by fastforce
      obtain outs where "process_all env user (filter (\<lambda>r. truthy target \<longrightarrow> row_id r = target) live) ?pfs bk2 = (outs, bk')"
        using assms(1,3) False sweep Inr sl by (auto simp: process_orders_def Let_def split: prod.splits)
      moreover have "known_balances ?pfs bk2" using assms(2) balance_of_funds [OF funds] by (simp add: known_balances_def)
      ultimately have "in_step_with (event_kept env) ?pfs bk2 bk'" using process_all_in_step by blast
      then show ?thesis using in_step_funds [OF funds] by simp
    qed
  qed
  then obtain es where es: "pb_ledger bk' = pb_ledger bk @ filter (event_kept env) es" "\<forall>e \<in> set es. pe_portfolio e \<in> row_id ` set ?pfs"
    "\<forall>k b. balance_of k bk = Some b \<longrightarrow> balance_of k bk' = Some (balance_after b k es)" unfolding in_step_with_def by blast
  have "\<exists>r \<in> set (pb_portfolios bk). own_portfolio user r \<and> pe_portfolio e = row_id r" if "e \<in> set es" for e
    using es(2) that by (force simp: image_iff)
  then show ?thesis using es(1,3) unfolding event_kept_def [abs_def] by blast
qed

subsection \<open>An order that adds to a position\<close>

text \<open>The stored row of an order, and a position the key finds, after their updates.\<close>

lemma dset_all_id [simp]: "''id'' \<notin> fst ` set kvs \<Longrightarrow> row_id (dset_all kvs r) = row_id r"
  by (simp add: row_id_def dget_dset_all_other)

lemma update_rows_twice:
  assumes "''id'' \<notin> fst ` set kvs"
  shows "update_rows (\<lambda>r. row_id r = k) (dset_all kvs') (update_rows (\<lambda>r. row_id r = k) (dset_all kvs) rows)
    = update_rows (\<lambda>r. row_id r = k) (\<lambda>r. dset_all kvs' (dset_all kvs r)) rows"
  using assms by (simp add: update_rows_def)

definition growing :: "pydict \<Rightarrow> rat \<Rightarrow> bool" where
  "growing order cur \<longleftrightarrow> (if is_buy order then 0 < cur else cur < 0)"

definition sign_of :: "pydict \<Rightarrow> rat" where
  "sign_of order = (if is_buy order then 1 else - 1)"

lemma growing_pos: "growing order cur \<longleftrightarrow> 0 < sign_of order * cur"
  by (auto simp: growing_def sign_of_def)

lemma find_open_after:
  assumes "find (open_with_key pf key) rows = Some p" and "{''id'', ''portfolio_id'', ''strategy_key'', ''status''} \<inter> fst ` set kvs = {}"
  shows "find (open_with_key pf key) (update_rows (\<lambda>r. row_id r = row_id p) (dset_all kvs) rows) = Some (dset_all kvs p)"
proof -
  have "open_with_key pf key (dset_all kvs r) = open_with_key pf key r" for r
    using assms(2) by (simp add: open_with_key_def dget_dset_all_other)
  then have "find (open_with_key pf key) (update_rows (\<lambda>r. row_id r = row_id p) (dset_all kvs) rows)
      = map_option (\<lambda>r. if row_id r = row_id p then dset_all kvs r else r) (find (open_with_key pf key) rows)"
    by (intro find_update_keeps) simp
  then show ?thesis using assms(1) by simp
qed

lemma adjusted_fields [simp]:
  "dget (dset_all (adjusted_columns env q x) p) ''quantity'' = PFloat q"
  "dget (dset_all (adjusted_columns env q x) p) ''avg_entry_price'' = PFloat x"
  "row_id (dset_all (adjusted_columns env q x) p) = row_id p"
  by (simp_all add: adjusted_columns_def dget_dset_all row_id_def)

text \<open>The row of an order after its fill.\<close>

definition filled_row :: "fill_env \<Rightarrow> pydict \<Rightarrow> sim_fill \<Rightarrow> fill_delta \<Rightarrow> pydict option \<Rightarrow> pydict" where
  "filled_row env order f d quote =
     dset_all [(''status'', PStr ''filled''), (''avg_fill_price'', PFloat (fd_avg d)), (''filled_qty'', PFloat (fd_total d)),
               (''filled_at'', PStr (de_now_text (fe_desk env)))] (dset_all (fill_columns env order f d quote) order)"

lemma fill_columns_keys: "fst ` set (fill_columns env order f d quote) \<subseteq>
    {''status'', ''filled_qty'', ''avg_fill_price'', ''fees_usd'', ''filled_at'', ''quote_at_fill'', ''tcm''}"
  by (auto simp: fill_columns_def)

lemma filled_row_fields:
  "dget (filled_row env order f d quote) ''status'' = PStr ''filled''"
  "dget (filled_row env order f d quote) ''filled_qty'' = PFloat (fd_total d)"
  "dget (filled_row env order f d quote) ''avg_fill_price'' = PFloat (fd_avg d)"
  "dget (filled_row env order f d quote) ''fees_usd'' = PFloat (round2 (fd_fees d))"
  by (simp_all add: filled_row_def dget_dset_all fill_columns_def)

lemma filled_row_other:
  assumes "k \<notin> {''status'', ''filled_qty'', ''avg_fill_price'', ''fees_usd'', ''filled_at'', ''quote_at_fill'', ''tcm''}"
  shows "dget (filled_row env order f d quote) k = dget order k"
    and "dget_default (filled_row env order f d quote) k v = dget_default order k v"
proof -
  have 1: "k \<notin> fst ` set (fill_columns env order f d quote)" using fill_columns_keys assms by fast
  have 2: "k \<notin> fst ` set [(''status'', PStr ''filled''), (''avg_fill_price'', PFloat (fd_avg d)), (''filled_qty'', PFloat (fd_total d)),
      (''filled_at'', PStr (de_now_text (fe_desk env)))]" using assms by auto
  have keep: "map_of (dset_all kvs r) k = map_of r k" if "k \<notin> fst ` set kvs" for kvs r
    using that by (induction kvs arbitrary: r) (auto simp: dset_all_def split_beta)
  show "dget (filled_row env order f d quote) k = dget order k"
    "dget_default (filled_row env order f d quote) k v = dget_default order k v"
    unfolding filled_row_def dget_def dget_default_def keep [OF 2] keep [OF 1] by simp_all
qed

text \<open>A commit that adds to the open position with the order's key.\<close>

lemma commit_adds:
  assumes run: "commit_fill env user order f quote pf bk = (Inr (FillCommitted Applied), pf', bk')" and final: "fe_final_ok env"
    and d: "compute_fill_deltas order f = Inr d" "fd_qty d = Fin q" "0 < q"
    and unlinked: "dget order ''position_id'' = PNone" and ticket: "dget_default order ''order_json'' (PDict []) = PDict ticket"
    and p: "find (open_with_key pf (derive_strategy_key env ticket)) (pb_positions bk) = Some p"
      "py_float (dget p ''quantity'') = Inr (Fin cur)" "growing order cur"
    and stored: "find (\<lambda>r. row_id r = row_id order) (pb_orders bk) = Some order"
  shows "\<exists>x. find (open_with_key pf (derive_strategy_key env ticket)) (pb_positions bk')
        = Some (dset_all (adjusted_columns env (Fin (cur + sign_of order * q)) x) p)"
    and "find (\<lambda>r. row_id r = row_id order) (pb_orders bk') = Some (filled_row env order f d quote)"
proof -
  from commit_fill_paid [OF run] obtain d' cash ticket' res bk1 where
    paid: "compute_fill_deltas order f = Inr d'" "dget_default order ''order_json'' (PDict []) = PDict ticket'"
    and step: "fill_position env user order ticket' d' pf
           (emit_event env (fill_event user order ticket' f d' (row_id pf) (cash_delta order (fd_qty d') (fd_price d') (fd_fees_delta d'))
              (fadd cash (cash_delta order (fd_qty d') (fd_price d') (fd_fees_delta d'))))
             (write_cash (row_id pf) (fadd cash (cash_delta order (fd_qty d') (fd_price d') (fd_fees_delta d')))
               (write_order (row_id order) (fill_columns env order f d' quote) bk))) = (res, bk1)"
    and settle: "settle_fill env order d' res bk1 = (FillCommitted Applied, bk')" .
  have same: "d' = d" "ticket' = ticket" using paid d(1) ticket by simp_all
  have res: "res = Inr Applied" using settle by (auto simp: settle_fill_def split: sum.splits position_step.splits)
  let ?new = "Fin (cur + sign_of order * q)"
  have signed: "signed_qty order (fd_qty d) = Fin (sign_of order * q)" using d(2) by (simp add: signed_qty_def sign_of_def)
  have nonzero: "cur + sign_of order * q \<noteq> 0" using p(3) d(3) by (auto simp: growing_def sign_of_def)
  obtain x where bk1: "bk1 = write_position (row_id p) (adjusted_columns env ?new x)
      (emit_event env (fill_event user order ticket f d (row_id pf) (cash_delta order (fd_qty d) (fd_price d) (fd_fees_delta d))
              (fadd cash (cash_delta order (fd_qty d) (fd_price d) (fd_fees_delta d))))
             (write_cash (row_id pf) (fadd cash (cash_delta order (fd_qty d) (fd_price d) (fd_fees_delta d)))
               (write_order (row_id order) (fill_columns env order f d quote) bk)))"
    using step same res signed nonzero unlinked p(1,2)
    by (auto simp: fill_position_def Let_def locate_position_def position_numbers_def rbind_def split: if_splits sum.splits)
  have bk': "bk' = write_order (row_id order) [(''status'', PStr ''filled''), (''avg_fill_price'', PFloat (fd_avg d)),
      (''filled_qty'', PFloat (fd_total d)), (''filled_at'', PStr (de_now_text (fe_desk env)))] bk1"
    using settle res final same by (simp add: settle_fill_def)
  have "pb_positions bk' = update_rows (\<lambda>r. row_id r = row_id p) (dset_all (adjusted_columns env ?new x)) (pb_positions bk)"
    unfolding bk' bk1 by simp
  moreover have "{''id'', ''portfolio_id'', ''strategy_key'', ''status''} \<inter> fst ` set (adjusted_columns env ?new x) = {}"
    by (simp add: adjusted_columns_def)
  ultimately show "\<exists>x. find (open_with_key pf (derive_strategy_key env ticket)) (pb_positions bk')
        = Some (dset_all (adjusted_columns env ?new x) p)"
    using find_open_after [OF p(1)] by metis
  have no_id: "''id'' \<notin> fst ` set (fill_columns env order f d quote)" using fill_columns_keys by fast
  have orders: "pb_orders bk' = update_rows (\<lambda>r. row_id r = row_id order)
      (\<lambda>r. dset_all [(''status'', PStr ''filled''), (''avg_fill_price'', PFloat (fd_avg d)), (''filled_qty'', PFloat (fd_total d)),
               (''filled_at'', PStr (de_now_text (fe_desk env)))] (dset_all (fill_columns env order f d quote) r)) (pb_orders bk)"
    unfolding bk' bk1 by (simp add: update_rows_twice [OF no_id])
  show "find (\<lambda>r. row_id r = row_id order) (pb_orders bk') = Some (filled_row env order f d quote)"
    unfolding orders using stored no_id by (subst find_update_keeps) (auto simp: filled_row_def)
qed

lemma float_or_num [simp]: "float_or (PFloat x) d = Inr (if num_truthy x then x else Fin d)"
  by (simp add: float_or_def py_or_def)

lemma repair_adds:
  assumes work: "fe_find_ok env" "fe_write_ok env" "fe_link_ok env" "fe_ledger_ok env"
    and row: "dget row ''filled_qty'' = PFloat (Fin t)" "dget row ''avg_fill_price'' = PFloat (Fin x)" "dget row ''fees_usd'' = PFloat fees"
      "0 < t" "x \<noteq> 0" "dget_default row ''order_json'' (PDict []) = PDict ticket"
    and p: "find (open_with_key pf (derive_strategy_key env ticket)) (pb_positions bk) = Some p"
      "py_float (dget p ''quantity'') = Inr (Fin cur)" "py_float (dget p ''avg_entry_price'') = Inr avg" "growing row cur"
    and booked: "list_ex (\<lambda>e. pe_order e = row_id row) (pb_ledger bk)"
  shows "\<exists>bk' p'. repair_filled_order env user row pf bk = (Repaired False, bk') \<and> funds bk' = funds bk
     \<and> find (open_with_key pf (derive_strategy_key env ticket)) (pb_positions bk') = Some p'
     \<and> dget p' ''quantity'' = PFloat (Fin (cur + sign_of row * t))"
proof -
  let ?new = "Fin (cur + sign_of row * t)"
  let ?avg = "entry_after (Fin cur) avg (Fin (sign_of row * t)) (Fin x)"
  have signed: "signed_qty row (Fin t) = Fin (sign_of row * t)" by (simp add: signed_qty_def sign_of_def)
  have nonzero: "cur + sign_of row * t \<noteq> 0" using p(4) row(4) by (auto simp: growing_def sign_of_def)
  let ?bk1 = "write_position (row_id p) (adjusted_columns env ?new ?avg) bk"
  let ?bk' = "write_order (row_id row) [(''position_id'', row_id p)] ?bk1"
  have "repair_position env user row ticket pf (Fin t) (Fin x) bk = (Inr (Applied, row_id p), ?bk')"
    using work p(1-3) nonzero by (simp add: repair_position_def Let_def signed position_numbers_def link_order_def)
  then have "repair_filled_order env user row pf bk = (Repaired False, ?bk')"
    using row work booked by (simp add: repair_filled_order_def num_truthy_def)
  moreover have "find (open_with_key pf (derive_strategy_key env ticket)) (pb_positions ?bk') = Some (dset_all (adjusted_columns env ?new ?avg) p)"
    using find_open_after [OF p(1)] by (simp add: adjusted_columns_def)
  ultimately show ?thesis by fastforce
qed

text \<open>
  C25 (safety). A defect: an order that adds to an open position is counted twice. Its commit adds the
  filled quantity to the position that its key finds but does not link the order to it, so the
  next run takes the filled order for an orphan and its repair adds the whole fill once more,
  while cash and ledger move only the first time.
\<close>

theorem scale_in_counted_twice:
  assumes "commit_fill env user order f quote pf bk = (Inr (FillCommitted Applied), pf', bk')" and "fe_final_ok env" and "fe_emit_ok env"
    and "compute_fill_deltas order f = Inr d" and "fd_qty d = Fin q" and "0 < q" and "fd_total d = Fin t" and "0 < t" and "fd_avg d = Fin x" and "x \<noteq> 0"
    and "dget order ''position_id'' = PNone" and "dget_default order ''order_json'' (PDict []) = PDict ticket"
    and "find (open_with_key pf (derive_strategy_key env ticket)) (pb_positions bk) = Some p"
    and "py_float (dget p ''quantity'') = Inr (Fin cur)" and "growing order cur"
    and "find (\<lambda>r. row_id r = row_id order) (pb_orders bk) = Some order"
    and "fe_find_ok env2" and "fe_write_ok env2" and "fe_link_ok env2" and "fe_ledger_ok env2"
    and "derive_strategy_key env2 ticket = derive_strategy_key env ticket"
  shows "filled_row env order f d quote \<in> set (unlinked_fills (pb_orders bk'))
     \<and> (\<exists>p1. find (open_with_key pf (derive_strategy_key env ticket)) (pb_positions bk') = Some p1
          \<and> dget p1 ''quantity'' = PFloat (Fin (cur + sign_of order * q)))
     \<and> (\<exists>bk'' p2. repair_filled_order env2 user (filled_row env order f d quote) pf bk' = (Repaired False, bk'') \<and> funds bk'' = funds bk'
          \<and> find (open_with_key pf (derive_strategy_key env ticket)) (pb_positions bk'') = Some p2
          \<and> dget p2 ''quantity'' = PFloat (Fin (cur + sign_of order * q + sign_of order * t)))"
proof -
  let ?row = "filled_row env order f d quote"
  note adds = commit_adds [OF assms(1,2,4,5,6,11-16)]
  obtain y where p1: "find (open_with_key pf (derive_strategy_key env ticket)) (pb_positions bk')
      = Some (dset_all (adjusted_columns env (Fin (cur + sign_of order * q)) y) p)" using adds(1) by blast
  have "?row \<in> set (pb_orders bk')" using adds(2) by (auto dest: find_Some_props)
  then have orphan: "?row \<in> set (unlinked_fills (pb_orders bk'))"
    using assms(11) by (simp add: unlinked_fills_def filled_row_fields filled_row_other)
  have buy: "is_buy ?row = is_buy order" by (simp add: is_buy_def filled_row_other)
  have id: "row_id ?row = row_id order" by (simp add: row_id_def filled_row_other)
  from commit_fill_paid [OF assms(1)] obtain d' cash ticket' res bk1 where
    step: "fill_position env user order ticket' d' pf
           (emit_event env (fill_event user order ticket' f d' (row_id pf) (cash_delta order (fd_qty d') (fd_price d') (fd_fees_delta d'))
              (fadd cash (cash_delta order (fd_qty d') (fd_price d') (fd_fees_delta d'))))
             (write_cash (row_id pf) (fadd cash (cash_delta order (fd_qty d') (fd_price d') (fd_fees_delta d')))
               (write_order (row_id order) (fill_columns env order f d' quote) bk))) = (res, bk1)"
    and settle: "settle_fill env order d' res bk1 = (FillCommitted Applied, bk')" .
  have booked: "list_ex (\<lambda>e. pe_order e = row_id ?row) (pb_ledger bk')"
    using settle_fill_funds [OF settle] fill_position_funds [OF step] assms(3) id by (simp add: funds_def fill_event_def)
  have "growing ?row (cur + sign_of order * q)" using assms(6,15) buy by (auto simp: growing_def sign_of_def)
  from repair_adds [OF assms(17-20) _ _ _ assms(8,10) _ _ _ _ this booked, of "round2 (fd_fees d)" ticket pf, unfolded assms(21), OF _ _ _ _ p1]
  show ?thesis using orphan p1 assms(7,9,12) buy by (simp add: filled_row_fields filled_row_other sign_of_def)
qed

subsection \<open>An order, a position and a portfolio\<close>

definition paper_ticket :: pydict where
  "paper_ticket = [(''symbol'', PStr ''SPY''), (''legs'', PList [])]"

definition paper_buy :: pydict where
  "paper_buy = [(''id'', PStr ''o1''), (''portfolio_id'', PStr ''f1''), (''status'', PStr ''staged''), (''requested_qty'', PFloat (Fin 1)),
     (''requested_price'', PFloat (Fin 3)), (''order_json'', PDict paper_ticket)]"

definition paper_call :: pydict where
  "paper_call = [(''id'', PStr ''p1''), (''portfolio_id'', PStr ''f1''), (''strategy_key'', PStr ''SPY_custom''), (''status'', PStr ''open''),
     (''quantity'', PFloat (Fin 2)), (''avg_entry_price'', PFloat (Fin 3))]"

definition paper_account :: pydict where
  "paper_account = [(''id'', PStr ''f1''), (''user_id'', PStr ''u1''), (''routing_mode'', PStr ''internal''), (''cash_balance'', PFloat (Fin 1000))]"

definition paper_sample :: paper_book where
  "paper_sample = \<lparr>pb_desk = \<lparr>dk_orders = [paper_buy], dk_positions = [paper_call], dk_alerts = []\<rparr>,
     pb_portfolios = [paper_account], pb_ledger = []\<rparr>"

definition paper_env :: "bool \<Rightarrow> fill_env" where
  "paper_env up = \<lparr>fe_desk = sample_desk_env, fe_today = \<lparr>d_year = 2026, d_month = 1, d_day = 5\<rparr>, fe_date = (\<lambda>_. None), fe_order_ok = True, fe_cash_ok = True,
     fe_emit_ok = True, fe_find_ok = up, fe_write_ok = True, fe_link_ok = True, fe_rollback_ok = True, fe_final_ok = True, fe_ledger_ok = True,
     fe_move_ok = True, fe_attribution_ok = True, fe_ticket_ok = (\<lambda>_. False), fe_str = (\<lambda>_. []), fe_cohort = PNone,
     fe_suggestion = (\<lambda>_. None), fe_new_id = ''p2''\<rparr>"

definition paper_run :: "bool \<Rightarrow> process_env" where
  "paper_run up = \<lparr>pr_read_ok = True, pr_fill = (\<lambda>_. paper_env up), pr_quote = (\<lambda>_. None), pr_draws = (\<lambda>_. (0, 0)), pr_now = 0, pr_parse = (\<lambda>_. None)\<rparr>"

definition paper_fill :: sim_fill where
  "paper_fill = \<lparr>sf_status = ''filled'', sf_filled = Fin 1, sf_avg = Fin (315/100), sf_last_qty = Some (Fin 1), sf_last_price = Some (Fin (315/100)),
     sf_fallback = Some ''missing_quote'', sf_realism = []\<rparr>"

lemma paper_env_simps [simp]:
  "fe_desk (paper_env up) = sample_desk_env" "fe_order_ok (paper_env up)" "fe_cash_ok (paper_env up)" "fe_emit_ok (paper_env up)"
  "fe_find_ok (paper_env up) = up" "fe_write_ok (paper_env up)" "fe_link_ok (paper_env up)" "fe_rollback_ok (paper_env up)"
  "fe_final_ok (paper_env up)" "fe_ledger_ok (paper_env up)" "fe_move_ok (paper_env up)" "\<not> fe_ticket_ok (paper_env up) t"
  "pr_fill (paper_run up) k = paper_env up" "pr_read_ok (paper_run up)"
  by (simp_all add: paper_env_def paper_run_def)

lemma paper_sample_simps [simp]:
  "pb_orders paper_sample = [paper_buy]" "pb_positions paper_sample = [paper_call]" "pb_portfolios paper_sample = [paper_account]" "pb_ledger paper_sample = []"
  by (simp_all add: paper_sample_def)

lemma paper_rows [simp]:
  "row_id paper_buy = PStr ''o1''" "dget paper_buy ''portfolio_id'' = PStr ''f1''" "dget paper_buy ''status'' = PStr ''staged''"
  "dget paper_buy ''position_id'' = PNone" "dget_default paper_buy ''order_json'' (PDict []) = PDict paper_ticket" "is_buy paper_buy"
  "row_id paper_call = PStr ''p1''" "dget paper_call ''portfolio_id'' = PStr ''f1''" "dget paper_call ''strategy_key'' = PStr ''SPY_custom''"
  "dget paper_call ''status'' = PStr ''open''" "dget paper_call ''quantity'' = PFloat (Fin 2)" "dget paper_call ''avg_entry_price'' = PFloat (Fin 3)"
  "row_id paper_account = PStr ''f1''" "dget paper_account ''user_id'' = PStr ''u1''" "dget paper_account ''routing_mode'' = PStr ''internal''"
  "dget paper_account ''cash_balance'' = PFloat (Fin 1000)" "dget paper_ticket ''symbol'' = PStr ''SPY''"
  by (simp_all add: paper_buy_def paper_call_def paper_account_def paper_ticket_def row_id_def dget_def dget_default_def is_buy_def)

lemma paper_key [simp]: "derive_strategy_key (paper_env up) paper_ticket = ''SPY_custom''"
  by (simp add: derive_strategy_key_def text_of_def)

lemma paper_deltas: "compute_fill_deltas paper_buy paper_fill =
   Inr \<lparr>fd_qty = Fin 1, fd_price = Fin (315/100), fd_total = Fin 1, fd_avg = Fin (315/100), fd_fees = Fin 0, fd_fees_delta = Fin 0\<rparr>"
  by code_simp

lemma paper_key_found [simp]: "open_with_key paper_account ''SPY_custom'' paper_call"
  by (simp add: open_with_key_def)

lemma paper_signed: "signed_qty paper_buy (Fin 1) = Fin 1" by (simp add: signed_qty_def)

lemma paper_commit: "\<exists>pf' bk'. commit_fill (paper_env True) ''u1'' paper_buy paper_fill None paper_account paper_sample
    = (Inr (FillCommitted Applied), pf', bk')"
  by (simp add: commit_fill_def paper_deltas Let_def fill_position_def locate_position_def position_numbers_def paper_signed
      settle_fill_def)

theorem scale_in_counted_twice_witness:
  "\<exists>pf' bk' row bk'' p2. commit_fill (paper_env True) ''u1'' paper_buy paper_fill None paper_account paper_sample = (Inr (FillCommitted Applied), pf', bk')
     \<and> row \<in> set (unlinked_fills (pb_orders bk')) \<and> repair_filled_order (paper_env True) ''u1'' row paper_account bk' = (Repaired False, bk'')
     \<and> find (open_with_key paper_account ''SPY_custom'') (pb_positions bk'') = Some p2 \<and> dget p2 ''quantity'' = PFloat (Fin 4)"
proof -
  obtain pf' bk' where run: "commit_fill (paper_env True) ''u1'' paper_buy paper_fill None paper_account paper_sample
    = (Inr (FillCommitted Applied), pf', bk')" using paper_commit by blast
  have "sign_of paper_buy = 1" "growing paper_buy 2" by (simp_all add: sign_of_def growing_def)
  with scale_in_counted_twice [OF run _ _ paper_deltas, of 1 1 "315/100" paper_ticket paper_call 2 "paper_env True"] run
  show ?thesis by auto
qed

lemma paper_orphans: "orphan_orders (orders_in [paper_account] paper_sample) = Inr []"
  by (simp add: orphan_orders_def unlinked_fills_def orders_in_def)

theorem cash_follows_the_ledger_witness:
  "\<exists>res bk' es. process_orders (paper_run True) ''u1'' PNone paper_sample = (res, bk') \<and> pb_ledger bk' = es
     \<and> balance_of (PStr ''f1'') bk' = Some (balance_after (Fin 1000) (PStr ''f1'') es)"
proof -
  obtain res bk' where run: "process_orders (paper_run True) ''u1'' PNone paper_sample = (res, bk')" by fastforce
  have own: "filter (own_portfolio ''u1'') (pb_portfolios paper_sample) = [paper_account]" by (simp add: own_portfolio_def)
  have bal: "balance_of (PStr ''f1'') paper_sample = Some (Fin 1000)" by (simp add: balance_of_def)
  show ?thesis
    using cash_follows_the_ledger [OF run, unfolded own] run bal paper_orphans by (auto simp: known_balances_def)
qed

end
