(* ===== verification/Fill_Correct.thy ===== *)
theory Fill_Correct
  imports Paper_Processing
begin

section \<open>What the simulation and the averages guarantee\<close>

subsection \<open>Quantities\<close>

lemma tick_qty_bounds:
  assumes "tick_qty w (Fin rem) = Inr tick" and "0 < rem"
  shows "\<exists>q. tick = Fin q \<and> 0 < q \<and> q \<le> rem"
proof (cases "10 < rem \<and> w < 1/10")
  case True
  then have "tick = Fin (of_int \<lfloor>rem / 2\<rfloor>)" using assms(1) by (simp add: tick_qty_def floor_eq_iff)
  moreover have "5 \<le> \<lfloor>rem / 2\<rfloor>" using True by (simp add: le_floor_iff)
  then have "(0 :: rat) < of_int \<lfloor>rem / 2\<rfloor>" by simp
  moreover have "of_int \<lfloor>rem / 2\<rfloor> \<le> rem" using of_int_floor_le [of "rem / 2"] assms(2) by linarith
  ultimately show ?thesis by blast
qed (use assms in \<open>auto simp: tick_qty_def\<close>)

lemma missing_quote_fill_facts:
  assumes "missing_quote_fill order requested rem reason = Inr f"
  shows "sf_status f = ''filled'' \<and> sf_filled f = requested \<and> sf_last_qty f = Some rem \<and> sf_fallback f = Some reason"
  using assms by (auto simp: missing_quote_fill_def rbind_Inr_iff Let_def)

text \<open>
  A simulated fill never exceeds what the order has left: with a requested quantity r of
  which g is filled, a tick that fills anything fills between 0 and r - g, the new total is g plus
  the tick, and the status is \<open>filled\<close> exactly when the total reaches r; a fill without a usable
  quote is always complete.
\<close>

theorem simulated_fill_bounds:
  assumes "simulate_fill c draws order quote = Inr f" and "order_qty order = Inr (Fin r)"
    and "float_or (dget order ''filled_qty'') 0 = Inr (Fin g)" and "new_fill f"
  shows "\<exists>q. sf_last_qty f = Some (Fin q) \<and> 0 < q \<and> q \<le> r - g \<and> sf_filled f = Fin (g + q)
     \<and> (sf_status f = ''filled'' \<longleftrightarrow> g + q = r) \<and> (sf_fallback f \<noteq> None \<longrightarrow> g + q = r)"
proof -
  have open_qty: "g < r" using assms by (auto simp: simulate_fill_def fsub_def new_fill_def or_zero_def rbind_Inr_iff Let_def split: if_splits)
  have missing: ?thesis if "missing_quote_fill order (Fin r) (Fin (r - g)) reason = Inr f" for reason
    using missing_quote_fill_facts [OF that] open_qty by auto
  obtain limit where limit: "requested_limit order = Inr limit"
    using assms(1-3) open_qty by (auto simp: simulate_fill_def fsub_def rbind_Inr_iff Let_def)
  show ?thesis
  proof (cases "\<exists>reason. missing_quote_fill order (Fin r) (Fin (r - g)) reason = Inr f")
    case False
    then obtain bid ask where q: "quoted_fill c draws order (Fin r) (Fin g) limit bid ask = Inr f"
      using assms(1-3) open_qty limit
      by (auto simp: simulate_fill_def fsub_def rbind_Inr_iff Let_def split: if_splits)
    obtain price where price: "fill_price_on c (fst draws) (is_buy order) (dget_default order ''order_type'' (PStr ''limit'')) limit bid ask = Inr price"
      using q by (auto simp: quoted_fill_def Let_def rbind_Inr_iff)
    show ?thesis
    proof (cases price)
      case None
      then show ?thesis using q price assms(4) by (auto simp: quoted_fill_def Let_def rbind_Inr_iff new_fill_def or_zero_def)
    next
      case (Some p)
      obtain tick where tick: "tick_qty (snd draws) (Fin (r - g)) = Inr tick"
        using q price Some by (auto simp: quoted_fill_def Let_def rbind_Inr_iff fsub_def)
      obtain s where s: "tick = Fin s" "0 < s" "s \<le> r - g" using tick_qty_bounds [OF tick] open_qty by auto
      have "sf_last_qty f = Some (Fin s) \<and> sf_filled f = Fin (g + s) \<and> sf_fallback f = None
          \<and> sf_status f = (if r \<le> g + s then ''filled'' else ''partial'')"
        using q price Some tick s(1) by (auto simp: quoted_fill_def Let_def rbind_Inr_iff fsub_def)
      then show ?thesis using s(2,3) by auto
    qed
  qed (use missing in blast)
qed

subsection \<open>Prices\<close>

lemma lucky_spread: "lucky u gap bid ask = Inr True \<Longrightarrow> flt (Fin 0) (fsub ask bid)"
  by (auto simp: lucky_def Let_def split: if_splits)

text \<open>
  A limit order that fills on a quote never fills beyond its limit: a buy at the limit or at
  an ask below it, a sell at the limit or at a bid above it, and at the limit itself only when the
  limit lies inside the spread.
\<close>

theorem limit_is_respected:
  assumes "fill_price_on c u buy order_type (Some (Fin l)) (Fin bid) (Fin ask) = Inr (Some p)" and "order_type \<noteq> PStr ''market''"
  shows "\<exists>x. p = Fin x \<and> (if buy then x \<le> l \<and> x = min l ask \<and> (x < ask \<longrightarrow> bid \<le> l \<and> l < ask)
     else l \<le> x \<and> x = max l bid \<and> (bid < x \<longrightarrow> bid < l \<and> l \<le> ask))"
  using assms by (auto simp: fill_price_on_def rbind_Inr_iff min_def max_def split: if_splits)

subsection \<open>Entry prices\<close>

lemma weighted_average:
  assumes "0 < \<bar>cur\<bar> + \<bar>inc\<bar>"
  shows "weighted_abs_entry_avg (Fin cur) (Fin avg) (Fin inc) (Fin price)
    = Fin ((\<bar>cur\<bar> * \<bar>avg\<bar> + \<bar>inc\<bar> * \<bar>price\<bar>) / (\<bar>cur\<bar> + \<bar>inc\<bar>))"
  using assms by (simp add: weighted_abs_entry_avg_def Let_def fabs_def abs_entry_premium_def)

text \<open>
  The entry price after a fill, for a position of quantity cur at a price that is
  not negative: a fill that grows the exposure averages, so that the entry value of the new
  position is the old one plus that of the fill whatever the sign of its price; one that reduces
  it keeps the price; and one that crosses zero takes the size of the fill's price.
\<close>

theorem entry_price_after_fill:
  assumes "0 \<le> avg" and "inc \<noteq> 0"
  shows "\<exists>x. entry_after (Fin cur) (Fin avg) (Fin inc) (Fin price) = Fin x \<and> 0 \<le> x
     \<and> (if 0 \<le> cur * inc then \<bar>cur + inc\<bar> * x = \<bar>cur\<bar> * avg + \<bar>inc\<bar> * \<bar>price\<bar> \<and> min avg \<bar>price\<bar> \<le> x \<and> (cur \<noteq> 0 \<longrightarrow> x \<le> max avg \<bar>price\<bar>)
        else if \<bar>cur\<bar> < \<bar>inc\<bar> then x = \<bar>price\<bar> else x = avg)"
proof -
  have grows: "(0 \<le> cur \<and> 0 < inc) \<or> (cur \<le> 0 \<and> inc < 0) \<longleftrightarrow> 0 \<le> cur * inc"
    using assms(2) by (auto simp: zero_le_mult_iff)
  show ?thesis
  proof (cases "0 \<le> cur * inc")
    case True
    then have sum: "\<bar>cur + inc\<bar> = \<bar>cur\<bar> + \<bar>inc\<bar>" using grows by auto
    have pos: "0 < \<bar>cur\<bar> + \<bar>inc\<bar>" "cur + inc \<noteq> 0" using assms(2) sum by auto
    have cross: "\<not> ((0 < cur \<and> cur + inc < 0) \<or> (cur < 0 \<and> 0 < cur + inc))" using True grows by auto
    let ?x = "(\<bar>cur\<bar> * avg + \<bar>inc\<bar> * \<bar>price\<bar>) / (\<bar>cur\<bar> + \<bar>inc\<bar>)"
    have x: "entry_after (Fin cur) (Fin avg) (Fin inc) (Fin price) = Fin ?x"
      using True grows cross pos weighted_average [OF pos(1), of avg price] assms(1) by (auto simp: entry_after_def Let_def fabs_def)
    have worth: "\<bar>cur + inc\<bar> * ?x = \<bar>cur\<bar> * avg + \<bar>inc\<bar> * \<bar>price\<bar>" using sum pos(1) by simp
    have "\<bar>cur\<bar> * min avg \<bar>price\<bar> + \<bar>inc\<bar> * min avg \<bar>price\<bar> \<le> \<bar>cur\<bar> * avg + \<bar>inc\<bar> * \<bar>price\<bar>"
      by (intro add_mono mult_left_mono) auto
    then have low: "min avg \<bar>price\<bar> \<le> ?x" using pos(1) by (simp add: pos_le_divide_eq algebra_simps)
    have "\<bar>cur\<bar> * avg + \<bar>inc\<bar> * \<bar>price\<bar> \<le> \<bar>cur\<bar> * max avg \<bar>price\<bar> + \<bar>inc\<bar> * max avg \<bar>price\<bar>"
      by (intro add_mono mult_left_mono) auto
    then have high: "?x \<le> max avg \<bar>price\<bar>" using pos(1) by (simp add: pos_divide_le_eq algebra_simps)
    have "0 \<le> ?x" using assms(1) by simp
    then show ?thesis using True x worth low high by auto
  next
    case False
    then have signs: "(0 < cur \<and> inc < 0) \<or> (cur < 0 \<and> 0 < inc)" by (auto simp: zero_le_mult_iff not_le)
    then show ?thesis using False assms(1) by (auto simp: entry_after_def Let_def fabs_def abs_entry_premium_def)
  qed
qed

subsection \<open>Instances\<close>

definition large_sell :: pydict where
  "large_sell = [(''side'', PStr ''sell''), (''requested_qty'', PInt 25), (''requested_price'', PFloat (Fin (2/1)))]"

definition tight_quote :: pydict where
  "tight_quote = [(''bid'', PFloat (Fin (21/10))), (''ask'', PFloat (Fin (22/10)))]"

theorem simulated_fill_bounds_witness:
  "\<exists>f. simulate_fill default_costs (0, 0) large_sell (Some tight_quote) = Inr f \<and> sf_status f = ''partial'' \<and> sf_filled f = Fin 12"
proof -
  have order: "order_qty large_sell = Inr (Fin 25)" "float_or (dget large_sell ''filled_qty'') 0 = Inr (Fin 0)"
    "float_or (dget large_sell ''avg_fill_price'') 0 = Inr (Fin 0)" "\<not> is_buy large_sell" "requested_limit large_sell = Inr (Some (Fin 2))"
    "dget_default large_sell ''order_type'' (PStr ''limit'') = PStr ''limit''" "dget large_sell ''order_json'' = PNone"
    by (simp_all add: large_sell_def order_qty_def float_or_def dget_def dget_default_def py_or_def is_buy_def requested_limit_def num_truthy_def)
  have sides: "quote_side tight_quote ''bid_price'' ''bid'' = Inr (Fin (21/10))" "quote_side tight_quote ''ask_price'' ''ask'' = Inr (Fin (22/10))"
    "\<not> quote_missing (Some tight_quote)"
    by (simp_all add: tight_quote_def quote_side_def number_operand_def dget_def py_or_def num_truthy_def quote_missing_def)
  have price: "fill_price_on default_costs 0 False (PStr ''limit'') (Some (Fin 2)) (Fin (21/10)) (Fin (22/10)) = Inr (Some (Fin (21/10)))"
    by (simp add: fill_price_on_def)
  have live: "marketability large_sell (Fin (21/10)) (Fin (22/10)) (Some (Fin 2)) (PStr ''limit'') = Inr (Some True, ''single_leg_nbbo'')"
    using order by (simp add: marketability_def sub_dict_def py_or_def dget_def known_limit_def num_truthy_def Let_def py_len_ok_def)
  have tick: "tick_qty 0 (Fin 25) = Inr (Fin 12)" by (simp add: tick_qty_def floor_eq_iff)
  obtain f where f: "simulate_fill default_costs (0, 0) large_sell (Some tight_quote) = Inr f" "sf_last_qty f = Some (Fin 12)" "sf_status f = ''partial''"
    using order sides price live tick by (simp add: simulate_fill_def quoted_fill_def Let_def)
  then show ?thesis using f simulated_fill_bounds [OF f(1) order(1,2)] by (auto simp: new_fill_def or_zero_def)
qed

theorem limit_is_respected_witness:
  "fill_price_on default_costs 0 True (PStr ''limit'') (Some (Fin 2)) (Fin 1) (Fin 3) = Inr (Some (Fin 2))"
proof -
  obtain p where p: "fill_price_on default_costs 0 True (PStr ''limit'') (Some (Fin 2)) (Fin 1) (Fin 3) = Inr (Some p)"
    by (simp add: fill_price_on_def lucky_def)
  then show ?thesis using limit_is_respected [OF p] by auto
qed

theorem entry_price_after_fill_witness:
  "entry_after (Fin 2) (Fin 3) (Fin 1) (Fin (- 6)) = Fin 4 \<and> entry_after (Fin 2) (Fin 3) (Fin (- 3)) (Fin 5) = Fin 5"
  using entry_price_after_fill [of 3 1 2 "- 6"] entry_price_after_fill [of 3 "- 3" 2 5] by auto

end
