(* ===== verification/Paper_Defects.thy ===== *)
theory Paper_Defects
  imports Paper_Correct Fill_Correct
begin

section \<open>What the fill processor gets wrong\<close>

subsection \<open>A fill whose position cannot be written\<close>

definition down_positions :: "process_env \<Rightarrow> bool" where
  "down_positions env \<longleftrightarrow> pr_read_ok env \<and> (\<forall>s. pr_quote env s = None)
     \<and> (\<forall>k. fe_order_ok (pr_fill env k) \<and> fe_cash_ok (pr_fill env k) \<and> fe_emit_ok (pr_fill env k)
          \<and> \<not> fe_find_ok (pr_fill env k) \<and> fe_rollback_ok (pr_fill env k))"

definition recent :: "process_env \<Rightarrow> pydict \<Rightarrow> bool" where
  "recent env row =
     (case py_or (dget row ''submitted_at'') (dget row ''created_at'') of
        PNone \<Rightarrow> True
      | PStr s \<Rightarrow> (case pr_parse env s of None \<Rightarrow> True | Some t \<Rightarrow> (pr_now env - t) / 60 \<le> 120)
      | _ \<Rightarrow> False)"

text \<open>An estimate without prices, costs and fees.\<close>

definition bare_estimate :: "pyval \<Rightarrow> bool" where
  "bare_estimate v =
     (case py_or v (PDict []) of
        PDict t \<Rightarrow> dget t ''expected_fill_price'' = PNone \<and> dget t ''fill_probability'' = PNone
          \<and> dget t ''expected_spread_cost_usd'' = PNone \<and> dget t ''fees_usd'' = PNone
      | _ \<Rightarrow> False)"

text \<open>A buy order of r contracts at limit l, staged or working, of which nothing is filled.\<close>

definition pending_buy :: "process_env \<Rightarrow> pyval \<Rightarrow> pyval \<Rightarrow> pydict \<Rightarrow> rat \<Rightarrow> rat \<Rightarrow> pydict \<Rightarrow> bool" where
  "pending_buy env oid pfid ticket r l row \<longleftrightarrow>
     row_id row = oid \<and> dget row ''portfolio_id'' = pfid \<and> dget row ''position_id'' = PNone
     \<and> dget row ''status'' \<in> {PStr ''staged'', PStr ''working''} \<and> dget row ''filled_qty'' \<in> {PNone, PInt 0}
     \<and> dget row ''fees_usd'' \<in> {PNone, PFloat (Fin 0)} \<and> dget row ''requested_qty'' = PFloat (Fin r)
     \<and> dget row ''requested_price'' = PFloat (Fin l) \<and> is_buy row
     \<and> dget_default row ''order_json'' (PDict []) = PDict ticket \<and> bare_estimate (dget row ''tcm'') \<and> recent env row"

definition lone_order ::
  "process_env \<Rightarrow> string \<Rightarrow> pyval \<Rightarrow> pyval \<Rightarrow> pydict \<Rightarrow> rat \<Rightarrow> rat \<Rightarrow> rat \<Rightarrow> paper_book \<Rightarrow> bool" where
  "lone_order env user oid pfid ticket r l cash bk \<longleftrightarrow>
     (\<exists>row acct. pb_orders bk = [row] \<and> pending_buy env oid pfid ticket r l row \<and> pb_portfolios bk = [acct]
        \<and> own_portfolio user acct \<and> row_id acct = pfid \<and> dget acct ''cash_balance'' = PFloat (Fin cash))"

lemma zero_qty [simp]: "v \<in> {PNone, PInt 0} \<Longrightarrow> float_or v 0 = Inr (Fin 0)"
  by (auto simp: float_or_def py_or_def)

lemma zero_fees [simp]: "v \<in> {PNone, PFloat (Fin 0)} \<Longrightarrow> float_or v 0 = Inr (Fin 0)"
  by (auto simp: float_or_def py_or_def num_truthy_def)

lemma float_or_none [simp]: "float_or PNone d = Inr (Fin d)"
  by (simp add: float_or_def py_or_def)

lemma pending_qty: "pending_buy env oid pfid ticket r l row \<Longrightarrow> 0 < r \<Longrightarrow> order_qty row = Inr (Fin r)"
  by (simp add: pending_buy_def order_qty_def py_or_def num_truthy_def)

lemma pending_tcm:
  assumes "pending_buy env oid pfid ticket r l row"
  obtains t where "sub_dict row ''tcm'' = Inr t" and "dget t ''expected_fill_price'' = PNone" and "dget t ''fill_probability'' = PNone"
    and "dget t ''expected_spread_cost_usd'' = PNone" and "dget t ''fees_usd'' = PNone" and "py_or (dget row ''tcm'') (PDict []) = PDict t"
  using assms by (auto simp: pending_buy_def bare_estimate_def sub_dict_def split: pyval.splits)

lemma pending_fill:
  assumes row: "pending_buy env oid pfid ticket r l row" and r: "0 < r" and l: "0 < l" and p: "round4 (Fin (l + l * half_width_bound)) = Fin p"
  obtains f where "simulate_fill c draws row None = Inr f" and "sf_status f = ''filled''" and "sf_filled f = Fin r" and "sf_last_qty f = Some (Fin r)"
    and "sf_last_price f = Some (Fin p)" and "sf_fallback f = Some ''missing_quote''"
    and "{''expected_fill_price'', ''fill_probability'', ''expected_spread_cost_usd'', ''fees_usd''} \<inter> fst ` set (sf_realism f) = {}"
    and "sf_realism f \<noteq> []"
proof -
  obtain t where t: "sub_dict row ''tcm'' = Inr t" "dget t ''expected_fill_price'' = PNone" "dget t ''fill_probability'' = PNone"
    "dget t ''expected_spread_cost_usd'' = PNone" by (rule pending_tcm [OF row])
  have "fallback_price row t = Inr (Fin l)" using row l t by (simp add: fallback_price_def pending_buy_def num_truthy_def)
  moreover have "requested_limit row = Inr (Some (Fin l))"
    using row l by (simp add: requested_limit_def pending_buy_def num_truthy_def)
  moreover have "float_or (dget row ''filled_qty'') 0 = Inr (Fin 0)" using row by (simp add: pending_buy_def)
  ultimately show thesis
    using that t p r row pending_qty [OF row r]
    by (simp add: simulate_fill_def quote_missing_def missing_quote_fill_def Let_def pending_buy_def)
qed

lemma dset_all_keep: "k \<notin> fst ` set kvs \<Longrightarrow> dget_default (dset_all kvs r) k v = dget_default r k v"
proof -
  assume "k \<notin> fst ` set kvs"
  then have "map_of (dset_all kvs r) k = map_of r k"
    by (induction kvs arbitrary: r) (auto simp: dset_all_def split_beta)
  then show ?thesis by (simp add: dget_default_def)
qed

lemma dset_all_not_empty: "kvs \<noteq> [] \<or> d \<noteq> [] \<Longrightarrow> dset_all kvs d \<noteq> []"
proof (induction kvs arbitrary: d)
  case (Cons kv kvs)
  have "dset d (fst kv) (snd kv) \<noteq> []" by (cases d) (auto split: if_splits)
  then show ?case using Cons.IH by (simp add: dset_all_def split_beta)
qed (simp add: dset_all_def)

text \<open>The row after a commit that was rolled back: in flight again, and nothing filled.\<close>

lemma pending_again:
  assumes row: "pending_buy env oid pfid ticket r l row" and f: "sf_status f = ''filled''" "sf_realism f \<noteq> []"
      "{''expected_fill_price'', ''fill_probability'', ''expected_spread_cost_usd'', ''fees_usd''} \<inter> fst ` set (sf_realism f) = {}"
    and d: "fd_fees d = Fin 0"
  shows "pending_buy env oid pfid ticket r l
    (dset_all [(''status'', PStr ''working''), (''filled_qty'', PInt 0), (''avg_fill_price'', PInt 0)] (dset_all (fill_columns fe row f d quote) row))"
    (is "pending_buy env oid pfid ticket r l ?row")
proof -
  let ?keys = "{''status'', ''filled_qty'', ''avg_fill_price'', ''fees_usd'', ''filled_at'', ''quote_at_fill'', ''tcm''}"
  have keep: "dget ?row k = dget row k" "dget_default ?row k v = dget_default row k v" if "k \<notin> ?keys" for k v
  proof -
    have "k \<notin> fst ` set (fill_columns fe row f d quote)" using fill_columns_keys that by fast
    moreover have "k \<notin> fst ` set [(''status'', PStr ''working''), (''filled_qty'', PInt 0), (''avg_fill_price'', PInt 0)]" using that by simp
    ultimately show "dget ?row k = dget row k" "dget_default ?row k v = dget_default row k v"
      by (simp_all only: dget_dset_all_other dset_all_keep not_False_eq_True)
  qed
  obtain t where t: "dget t ''expected_fill_price'' = PNone" "dget t ''fill_probability'' = PNone"
    "dget t ''expected_spread_cost_usd'' = PNone" "dget t ''fees_usd'' = PNone" "py_or (dget row ''tcm'') (PDict []) = PDict t"
    by (rule pending_tcm [OF row])
  have "dget ?row ''tcm'' = PDict (dset_all (sf_realism f) t)" using f(2) t(5) by (simp add: fill_columns_def dget_dset_all)
  moreover have "dset_all (sf_realism f) t \<noteq> []"
    using f(2) dset_all_not_empty by blast
  ultimately have tcm: "bare_estimate (dget ?row ''tcm'')"
    using t(1-4) f(3) by (simp add: bare_estimate_def py_or_def dget_dset_all_other)
  have new: "dget ?row ''status'' = PStr ''working''" "dget ?row ''filled_qty'' = PInt 0" "dget ?row ''fees_usd'' = PFloat (round2 (Fin 0))"
    using d by (simp_all add: dget_dset_all fill_columns_def)
  have old: "row_id ?row = oid" "dget ?row ''portfolio_id'' = pfid" "dget ?row ''position_id'' = PNone" "dget ?row ''requested_qty'' = PFloat (Fin r)"
    "dget ?row ''requested_price'' = PFloat (Fin l)" "is_buy ?row" "dget_default ?row ''order_json'' (PDict []) = PDict ticket" "recent env ?row"
    using row by (simp_all add: keep pending_buy_def row_id_def is_buy_def recent_def)
  have "round2 (Fin 0) = Fin 0" by code_simp
  then show ?thesis unfolding pending_buy_def using old new tcm by simp
qed

lemma pending_deltas:
  assumes row: "pending_buy env oid pfid ticket r l row" and r: "0 < r"
    and f: "sf_filled f = Fin r" "sf_last_qty f = Some (Fin r)" "sf_last_price f = Some (Fin p)" "0 < p"
  shows "compute_fill_deltas row f =
    Inr \<lparr>fd_qty = Fin r, fd_price = Fin p, fd_total = Fin r, fd_avg = sf_avg f, fd_fees = Fin 0, fd_fees_delta = Fin 0\<rparr>"
proof -
  obtain t where t: "sub_dict row ''tcm'' = Inr t" "dget t ''fees_usd'' = PNone" by (rule pending_tcm [OF row])
  have "float_or (dget row ''filled_qty'') 0 = Inr (Fin 0)" "float_or (dget row ''fees_usd'') 0 = Inr (Fin 0)"
    using row by (simp_all add: pending_buy_def)
  then show ?thesis using t r f pending_qty [OF row r] by (simp add: compute_fill_deltas_def or_zero_def)
qed

text \<open>One run: the cash is paid, and the order is back in flight.\<close>

lemma drain_step:
  assumes env: "down_positions env" and symbol: "resolve_quote_symbol ticket = Inr symbol"
    and r: "0 < r" and l: "0 < l" and p: "round4 (Fin (l + l * half_width_bound)) = Fin p" "101/100 < p"
    and lone: "lone_order env user oid pfid ticket r l a bk"
  shows "lone_order env user oid pfid ticket r l (a - r * p * 100) (snd (process_orders env user PNone bk))
     \<and> pb_positions (snd (process_orders env user PNone bk)) = pb_positions bk
     \<and> length (pb_ledger (snd (process_orders env user PNone bk))) = Suc (length (pb_ledger bk))"
proof -
  obtain row acct where bk: "pb_orders bk = [row]" "pb_portfolios bk = [acct]" and row: "pending_buy env oid pfid ticket r l row"
    and acct: "own_portfolio user acct" "row_id acct = pfid" "dget acct ''cash_balance'' = PFloat (Fin a)"
    using lone by (auto simp: lone_order_def)
  obtain f where f: "simulate_fill default_costs (pr_draws env (row_id row)) row None = Inr f" "sf_status f = ''filled''" "sf_filled f = Fin r"
    "sf_last_qty f = Some (Fin r)" "sf_last_price f = Some (Fin p)" "sf_fallback f = Some ''missing_quote''"
    "{''expected_fill_price'', ''fill_probability'', ''expected_spread_cost_usd'', ''fees_usd''} \<inter> fst ` set (sf_realism f) = {}"
    "sf_realism f \<noteq> []" by (rule pending_fill [OF row r l p(1)])
  let ?fe = "pr_fill env (row_id row)"
  let ?d = "\<lparr>fd_qty = Fin r, fd_price = Fin p, fd_total = Fin r, fd_avg = sf_avg f, fd_fees = Fin 0, fd_fees_delta = Fin 0\<rparr>"
  have d: "compute_fill_deltas row f = Inr ?d" using pending_deltas [OF row r f(3-5)] p(2) by simp
  have fe: "fe_order_ok ?fe" "fe_cash_ok ?fe" "fe_emit_ok ?fe" "\<not> fe_find_ok ?fe" "fe_rollback_ok ?fe" using env by (simp_all add: down_positions_def)
  have amount: "cash_delta row (Fin r) (Fin p) (Fin 0) = Fin (- (r * p * 100))" using row by (simp add: cash_delta_def pending_buy_def)
  have ticket: "dget_default row ''order_json'' (PDict []) = PDict ticket" using row by (simp add: pending_buy_def)
  let ?cash = "Fin (a - r * p * 100)"
  let ?acct = "dset acct ''cash_balance'' (PFloat ?cash)"
  let ?e = "fill_event user row ticket f ?d pfid (Fin (- (r * p * 100))) ?cash"
  let ?bk = "write_order (row_id row) [(''status'', PStr ''working''), (''filled_qty'', PInt 0), (''avg_fill_price'', PInt 0)]
     (emit_event ?fe ?e (write_cash pfid ?cash (write_order (row_id row) (fill_columns ?fe row f ?d None) bk)))"
  have commit: "commit_fill ?fe user row f None acct bk = (Inr (FillRolledBack RuntimeError), ?acct, ?bk)"
    using d fe ticket acct by (simp add: commit_fill_def Let_def amount fill_position_def settle_fill_def)
  have "usable_quote env symbol = None" using env by (cases symbol) (simp_all add: usable_quote_def down_positions_def)
  then have one: "process_one env user row acct bk = (FillOutcome (FillRolledBack RuntimeError), ?acct, ?bk)"
    using ticket symbol f commit p(2) r
    by (simp add: process_one_def process_fill_def new_fill_def fallback_acceptable_def or_zero_def)
  have status: "dget row ''status'' \<noteq> PStr ''filled''" "in_status flight_statuses row"
    using row by (auto simp: pending_buy_def in_status_def flight_statuses_def)
  have rows: "orders_in [acct] bk = [row]" using bk acct row by (simp add: orders_in_def pending_buy_def)
  have stale: "stale_age env row = Inr None"
    using row by (auto simp: stale_age_def pending_buy_def recent_def split: pyval.splits option.splits)
  have known: "portfolio_of [acct] row = Some acct" using acct row by (simp add: portfolio_of_def pending_buy_def)
  have run: "snd (process_orders env user PNone bk) = ?bk"
    using env bk acct status rows stale known one
    by (simp add: process_orders_def Let_def down_positions_def orphan_orders_def unlinked_fills_def)
  have no_id: "''id'' \<notin> fst ` set (fill_columns ?fe row f ?d None)" using fill_columns_keys by fast
  have "pb_orders ?bk = [dset_all [(''status'', PStr ''working''), (''filled_qty'', PInt 0), (''avg_fill_price'', PInt 0)]
      (dset_all (fill_columns ?fe row f ?d None) row)]"
    using bk no_id by (simp add: update_rows_def)
  moreover have "pb_portfolios ?bk = [?acct]" using bk acct by (simp add: write_cash_def update_rows_def)
  moreover have "own_portfolio user ?acct" using acct by (simp add: own_portfolio_def dget_dset)
  moreover note pending_again [OF row f(2,8,7), of ?d ?fe None]
  ultimately have "lone_order env user oid pfid ticket r l (a - r * p * 100) ?bk"
    using acct by (simp add: lone_order_def dget_dset)
  then show ?thesis unfolding run using fe by simp
qed

text \<open>
  C24 (safety). A defect: while the position of a fill cannot be read or written, every run over the user's orders
  pays for the order again. The commit writes cash and ledger first and undoes only the order when
  the position fails, so after n runs the account has paid n times, the ledger has n fills, no
  position has changed and the order is still in flight.
\<close>

theorem failed_positions_drain_cash:
  assumes "down_positions env" and "resolve_quote_symbol ticket = Inr symbol" and "0 < r" and "0 < l"
    and "round4 (Fin (l + l * half_width_bound)) = Fin p" and "101/100 < p" and "lone_order env user oid pfid ticket r l a bk"
  shows "lone_order env user oid pfid ticket r l (a - of_nat n * (r * p * 100)) (((\<lambda>b. snd (process_orders env user PNone b)) ^^ n) bk)
     \<and> pb_positions (((\<lambda>b. snd (process_orders env user PNone b)) ^^ n) bk) = pb_positions bk
     \<and> length (pb_ledger (((\<lambda>b. snd (process_orders env user PNone b)) ^^ n) bk)) = length (pb_ledger bk) + n"
proof (induction n)
  case (Suc n)
  from drain_step [OF assms(1-6) conjunct1 [OF Suc]] Suc show ?case by (simp add: algebra_simps)
qed (use assms(7) in simp)

theorem failed_positions_drain_cash_witness:
  "\<exists>bk. bk = ((\<lambda>b. snd (process_orders (paper_run False) ''u1'' PNone b)) ^^ 3) paper_sample
     \<and> lone_order (paper_run False) ''u1'' (PStr ''o1'') (PStr ''f1'') paper_ticket 1 3 55 bk \<and> pb_positions bk = [paper_call]"
proof -
  have "down_positions (paper_run False)" by (simp add: down_positions_def) (simp add: paper_run_def)
  moreover have "resolve_quote_symbol paper_ticket = Inr (PStr ''SPY'')"
    by (simp add: resolve_quote_symbol_def paper_ticket_def dget_default_def)
  moreover have "round4 (Fin (3 + 3 * half_width_bound)) = Fin (63/20)" by code_simp
  moreover have "lone_order (paper_run False) ''u1'' (PStr ''o1'') (PStr ''f1'') paper_ticket 1 3 1000 paper_sample"
    by (simp add: lone_order_def pending_buy_def own_portfolio_def bare_estimate_def recent_def)
      (simp add: paper_buy_def dget_def py_or_def)
  ultimately show ?thesis using failed_positions_drain_cash [of "paper_run False" paper_ticket _ 1 3 "63/20" "''u1''" "PStr ''o1''" "PStr ''f1''" 1000 paper_sample 3]
    by simp
qed

subsection \<open>Orders without a price\<close>

lemma priceless_fill:
  assumes qty: "order_qty order = Inr (Fin r)" "0 < r" and none: "\<not> truthy (dget order ''requested_price'')" "bare_estimate (dget order ''tcm'')"
  shows "\<exists>f. missing_quote_fill order (Fin r) (Fin rem) reason = Inr f \<and> sf_status f = ''filled'' \<and> sf_last_qty f = Some (Fin rem)
     \<and> sf_last_price f = Some (Fin (if is_buy order then 21/20 else 19/20)) \<and> sf_fallback f = Some reason"
proof -
  obtain t where t: "sub_dict order ''tcm'' = Inr t" "dget t ''expected_fill_price'' = PNone" "dget t ''fill_probability'' = PNone"
    "dget t ''expected_spread_cost_usd'' = PNone" using none(2) by (auto simp: bare_estimate_def sub_dict_def split: pyval.splits)
  have one: "fallback_price order t = Inr (Fin 1)"
    using none(1) t by (simp add: fallback_price_def float_or_def py_or_def)
  have "round4 (Fin (1 + half_width_bound)) = Fin (21/20)" "round4 (Fin (1 - half_width_bound)) = Fin (19/20)" by code_simp+
  moreover have "fmax (Fin (1/100)) (Fin (1 - half_width_bound)) = Fin (1 - half_width_bound)" by code_simp
  ultimately show ?thesis using t one qty(2) by (simp add: missing_quote_fill_def Let_def)
qed

definition booked ::
  "fill_env \<Rightarrow> string \<Rightarrow> pydict \<Rightarrow> sim_fill \<Rightarrow> pydict option \<Rightarrow> pydict \<Rightarrow> paper_book \<Rightarrow> order_outcome \<times> pydict \<times> paper_book" where
  "booked env user order f quote pf bk =
     (case commit_fill env user order f quote pf bk of
        (Inl e, pf', bk') \<Rightarrow> (OrderRaised e, pf', bk') | (Inr fin, pf', bk') \<Rightarrow> (FillOutcome fin, pf', bk'))"

text \<open>
  A defect: the guard against the made-up price of one dollar does not hold. An order for which
  no price is stored is simulated at 1.05 when it buys and 0.95 when it sells; without a quote the guard
  refuses the sale but books the purchase, and with a quote that has a last price but no
  bid and ask it is never asked, so both are booked.
\<close>

theorem last_resort_price_is_booked:
  assumes "order_qty order = Inr (Fin r)" and "float_or (dget order ''filled_qty'') 0 = Inr (Fin g)" and "g < r" and "0 < r"
    and "\<not> truthy (dget order ''requested_price'')" and "bare_estimate (dget order ''tcm'')"
    and "is_valid_quote q" and "dget q ''status'' \<noteq> PStr ''error''" and "quote_side q ''bid_price'' ''bid'' = Inr (Fin 0)"
  shows "\<exists>f f'. simulate_fill c draws order None = Inr f \<and> simulate_fill c draws order (Some q) = Inr f'
     \<and> sf_last_price f = Some (Fin (if is_buy order then 21/20 else 19/20)) \<and> sf_last_price f' = sf_last_price f
     \<and> (is_buy order \<longrightarrow> process_fill env user order None f pf bk = booked env user order f None pf bk)
     \<and> (\<not> is_buy order \<longrightarrow> process_fill env user order None f pf bk
          = (case start_working env order SkippedNoQuote bk of (fin, bk') \<Rightarrow> (fin, pf, bk')))
     \<and> process_fill env user order (Some q) f' pf bk = booked env user order f' (Some q) pf bk"
proof -
  note fill = priceless_fill [OF assms(1,4,5,6), of "r - g"]
  obtain f where f: "missing_quote_fill order (Fin r) (Fin (r - g)) ''missing_quote'' = Inr f" "sf_status f = ''filled''"
    "sf_last_qty f = Some (Fin (r - g))" "sf_last_price f = Some (Fin (if is_buy order then 21/20 else 19/20))"
    "sf_fallback f = Some ''missing_quote''" using fill by blast
  obtain f' where f': "missing_quote_fill order (Fin r) (Fin (r - g)) ''invalid_quote'' = Inr f'" "sf_status f' = ''filled''"
    "sf_last_qty f' = Some (Fin (r - g))" "sf_last_price f' = Some (Fin (if is_buy order then 21/20 else 19/20))" using fill by blast
  have limit: "requested_limit order = Inr None" using assms(5) by (simp add: requested_limit_def)
  have "q \<noteq> []" using assms(7) by (auto simp: is_valid_quote_def)
  then have "simulate_fill c draws order None = Inr f" "simulate_fill c draws order (Some q) = Inr f'"
    using assms(1-3,8,9) f(1) f'(1) limit by (simp_all add: simulate_fill_def Let_def quote_missing_def)
  moreover have "new_fill f" "new_fill f'" using f(2,3) f'(2,3) assms(3) by (simp_all add: new_fill_def or_zero_def)
  moreover have "fallback_acceptable f = is_buy order" using f(4,5) by (simp add: fallback_acceptable_def or_zero_def)
  ultimately show ?thesis using f(4) f'(4) by (auto simp: process_fill_def booked_def)
qed

definition bare_order :: "string \<Rightarrow> pydict" where
  "bare_order side = [(''id'', PStr ''o1''), (''side'', PStr side), (''status'', PStr ''staged''), (''requested_qty'', PFloat (Fin 1)),
     (''order_json'', PDict paper_ticket)]"

definition last_only :: pydict where
  "last_only = [(''symbol'', PStr ''SPY''), (''bid'', PFloat (Fin 0)), (''ask'', PFloat (Fin 0)), (''price'', PFloat (Fin 4))]"

theorem last_resort_price_is_booked_witness:
  "(\<exists>f. simulate_fill default_costs (0, 0) (bare_order ''buy'') None = Inr f \<and> sf_last_price f = Some (Fin (21/20))
      \<and> process_fill (paper_env True) ''u1'' (bare_order ''buy'') None f paper_account paper_sample
        = booked (paper_env True) ''u1'' (bare_order ''buy'') f None paper_account paper_sample)
   \<and> (\<exists>f. simulate_fill default_costs (0, 0) (bare_order ''sell'') (Some last_only) = Inr f \<and> sf_last_price f = Some (Fin (19/20))
      \<and> process_fill (paper_env True) ''u1'' (bare_order ''sell'') (Some last_only) f paper_account paper_sample
        = booked (paper_env True) ''u1'' (bare_order ''sell'') f (Some last_only) paper_account paper_sample)"
proof -
  have order: "order_qty (bare_order s) = Inr (Fin 1)" "float_or (dget (bare_order s) ''filled_qty'') 0 = Inr (Fin 0)"
    "\<not> truthy (dget (bare_order s) ''requested_price'')" "bare_estimate (dget (bare_order s) ''tcm'')" for s
    by (simp_all add: order_qty_def bare_order_def dget_def py_or_def num_truthy_def bare_estimate_def)
  have quote: "is_valid_quote last_only" "dget last_only ''status'' \<noteq> PStr ''error''" "quote_side last_only ''bid_price'' ''bid'' = Inr (Fin 0)"
    by (simp_all add: is_valid_quote_def quote_side_def last_only_def dget_def py_or_def num_truthy_def number_operand_def)
  have side: "is_buy (bare_order ''buy'')" "\<not> is_buy (bare_order ''sell'')" by (simp_all add: is_buy_def bare_order_def dget_default_def)
  note used = last_resort_price_is_booked [OF order(1,2) _ _ order(3,4) quote]
  show ?thesis using used [of default_costs "(0, 0)" "''buy''" "paper_env True" "''u1''" paper_account paper_sample]
      used [of default_costs "(0, 0)" "''sell''" "paper_env True" "''u1''" paper_account paper_sample] side by auto
qed

subsection \<open>A fill that was never paid\<close>

text \<open>The row of an order whose cash could not be written.\<close>

definition unpaid_row :: "fill_env \<Rightarrow> pydict \<Rightarrow> sim_fill \<Rightarrow> fill_delta \<Rightarrow> pydict option \<Rightarrow> pydict" where
  "unpaid_row env order f d quote = dset_all (fill_columns env order f d quote) order"

lemma unpaid_row_fields:
  assumes "sf_status f = ''filled''"
  shows "dget (unpaid_row env order f d quote) ''status'' = PStr ''filled''"
    and "dget (unpaid_row env order f d quote) ''filled_qty'' = PFloat (fd_total d)"
    and "dget (unpaid_row env order f d quote) ''avg_fill_price'' = PFloat (round2 (fd_avg d))"
    and "dget (unpaid_row env order f d quote) ''fees_usd'' = PFloat (round2 (fd_fees d))"
  using assms by (simp_all add: unpaid_row_def dget_dset_all fill_columns_def)

lemma unpaid_row_other:
  assumes "k \<notin> {''status'', ''filled_qty'', ''avg_fill_price'', ''fees_usd'', ''filled_at'', ''quote_at_fill'', ''tcm''}"
  shows "dget (unpaid_row env order f d quote) k = dget order k"
    and "dget_default (unpaid_row env order f d quote) k v = dget_default order k v"
proof -
  have "k \<notin> fst ` set (fill_columns env order f d quote)" using fill_columns_keys assms by fast
  then show "dget (unpaid_row env order f d quote) k = dget order k"
    "dget_default (unpaid_row env order f d quote) k v = dget_default order k v"
    by (simp_all add: unpaid_row_def dget_dset_all_other dset_all_keep)
qed

lemma new_position_unpaid:
  "new_position env2 user (unpaid_row env order f d quote) ticket pf key signed price = new_position env2 user order ticket pf key signed price"
  by (simp add: new_position_def enrich_position_def unpaid_row_other cong: option.case_cong if_cong)

text \<open>
  A defect: when the cash of a complete fill cannot be written, the order stays marked as filled
  although nothing was paid. The next run takes it for an orphan, and its repair opens the
  position and appends a ledger event with the whole amount, yet no portfolio's cash moves.
\<close>

theorem unpaid_position:
  assumes "compute_fill_deltas order f = Inr d" and "fe_order_ok env" and "\<not> fe_cash_ok env"
    and "dget pf ''cash_balance'' = PFloat cash" and "sf_status f = ''filled''"
    and "fd_total d = Fin t" and "0 < t" and "round2 (fd_avg d) = Fin x" and "x \<noteq> 0" and "round2 (fd_fees d) = Fin fees"
    and "dget order ''position_id'' = PNone" and "dget_default order ''order_json'' (PDict []) = PDict ticket"
    and "find (\<lambda>r. row_id r = row_id order) (pb_orders bk) = Some order"
    and "\<not> list_ex (\<lambda>e. pe_order e = row_id order) (pb_ledger bk)"
    and "fe_find_ok env2" and "fe_write_ok env2" and "fe_link_ok env2" and "fe_ledger_ok env2" and "fe_emit_ok env2"
    and "find (open_with_key pf (derive_strategy_key env2 ticket)) (pb_positions bk) = None"
    and "new_position env2 user order ticket pf (derive_strategy_key env2 ticket) (signed_qty order (Fin t)) (Fin x) = Inr p"
  shows "\<exists>bk1. commit_fill env user order f quote pf bk = (Inl RuntimeError, pf, bk1)
     \<and> unpaid_row env order f d quote \<in> set (unlinked_fills (pb_orders bk1))
     \<and> (\<exists>bk2 e. repair_filled_order env2 user (unpaid_row env order f d quote) pf bk1 = (Repaired True, bk2)
          \<and> pb_portfolios bk2 = pb_portfolios bk \<and> pb_positions bk2 = pb_positions bk @ [p]
          \<and> pb_ledger bk2 = pb_ledger bk @ [e] \<and> pe_amount e = cash_delta order (Fin t) (Fin x) (Fin fees))"
proof -
  let ?row = "unpaid_row env order f d quote"
  let ?bk1 = "write_order (row_id order) (fill_columns env order f d quote) bk"
  have commit: "commit_fill env user order f quote pf bk = (Inl RuntimeError, pf, ?bk1)"
    using assms(1-4) by (simp add: commit_fill_def Let_def)
  have no_id: "''id'' \<notin> fst ` set (fill_columns env order f d quote)" using fill_columns_keys by fast
  have "find (\<lambda>r. row_id r = row_id order) (pb_orders ?bk1) = Some ?row"
    using assms(13) no_id by (simp add: find_update_keeps unpaid_row_def)
  then have "?row \<in> set (pb_orders ?bk1)" by (auto dest: find_Some_props)
  then have orphan: "?row \<in> set (unlinked_fills (pb_orders ?bk1))"
    using assms(5,11) by (simp add: unlinked_fills_def unpaid_row_fields unpaid_row_other)
  have same: "is_buy ?row = is_buy order" "row_id ?row = row_id order" by (simp_all add: is_buy_def row_id_def unpaid_row_other)
  have signed: "signed_qty ?row (Fin t) = signed_qty order (Fin t)" "cash_delta ?row (Fin t) (Fin x) y = cash_delta order (Fin t) (Fin x) y" for y
    using same by (simp_all add: signed_qty_def cash_delta_def)
  let ?bk2 = "write_order (row_id order) [(''position_id'', PStr (fe_new_id env2))] (insert_position p ?bk1)"
  have step: "repair_position env2 user ?row ticket pf (Fin t) (Fin x) ?bk1 = (Inr (Applied, PStr (fe_new_id env2)), ?bk2)"
    using assms(15-17,20,21) same
    by (simp add: repair_position_def Let_def signed open_by_fill_def new_position_unpaid link_order_def)
  obtain known where cash: "py_float (py_or (dget pf ''cash_balance'') (PInt 0)) = Inr known"
    using assms(4) by (cases "num_truthy cash") (simp_all add: py_or_def)
  let ?e = "repair_event user ?row ticket (row_id pf) (PStr (fe_new_id env2)) (Fin t) (Fin x) (Fin fees) known"
  have fees: "float_or (PFloat (Fin fees)) 0 = Inr (Fin fees)" by (simp add: num_truthy_def)
  have "repair_filled_order env2 user ?row pf ?bk1 = (Repaired True, emit_event env2 ?e ?bk2)"
    using step cash same assms(5-10,12,14,18)
    by (simp add: repair_filled_order_def unpaid_row_fields unpaid_row_other fees num_truthy_def)
  then have "\<exists>bk2 e. repair_filled_order env2 user ?row pf ?bk1 = (Repaired True, bk2)
          \<and> pb_portfolios bk2 = pb_portfolios bk \<and> pb_positions bk2 = pb_positions bk @ [p]
          \<and> pb_ledger bk2 = pb_ledger bk @ [e] \<and> pe_amount e = cash_delta order (Fin t) (Fin x) (Fin fees)"
    using assms(19) by (intro exI [of _ "emit_event env2 ?e ?bk2"] exI [of _ ?e]) (simp add: repair_event_def signed)
  then show ?thesis using commit orphan by blast
qed

definition empty_sample :: paper_book where
  "empty_sample = paper_sample\<lparr>pb_desk := \<lparr>dk_orders = [paper_buy], dk_positions = [], dk_alerts = []\<rparr>\<rparr>"

definition cash_down :: fill_env where
  "cash_down = (paper_env True)\<lparr>fe_cash_ok := False\<rparr>"

lemma paper_opens: "\<exists>p. new_position (paper_env True) ''u1'' paper_buy paper_ticket paper_account ''SPY_custom'' (Fin 1) (Fin (63/20)) = Inr p"
proof -
  have legs: "rbind (iter_items (dget_default paper_ticket ''legs'' (PList []))) (\<lambda>items. coerce_legs_to_full_count items (PFloat (Fin 1))) = Inr ([], [])"
    by code_simp
  obtain basis where basis: "position_risk_basis (abs_entry_premium (Fin (63/20))) (Fin 1) PNone PNone = Inr (basis, None)"
    by (simp add: position_risk_basis_def round2_def Let_def)
  show ?thesis using legs basis by (auto simp: new_position_def rbind_Inr_iff Let_def)
qed

theorem unpaid_position_witness:
  "\<exists>bk1 bk2 row e p. commit_fill cash_down ''u1'' paper_buy paper_fill None paper_account empty_sample = (Inl RuntimeError, paper_account, bk1)
     \<and> row \<in> set (unlinked_fills (pb_orders bk1)) \<and> repair_filled_order (paper_env True) ''u1'' row paper_account bk1 = (Repaired True, bk2)
     \<and> pb_portfolios bk2 = [paper_account] \<and> pb_positions bk2 = [p] \<and> pb_ledger bk2 = [e] \<and> pe_amount e = Fin (- 315)"
proof -
  obtain p where p: "new_position (paper_env True) ''u1'' paper_buy paper_ticket paper_account ''SPY_custom'' (Fin 1) (Fin (63/20)) = Inr p"
    using paper_opens ..
  have round: "round2 (Fin (315/100)) = Fin (63/20)" "round2 (Fin 0) = Fin 0" by code_simp+
  have book: "pb_orders empty_sample = [paper_buy]" "pb_positions empty_sample = []" "pb_portfolios empty_sample = [paper_account]" "pb_ledger empty_sample = []"
    by (simp_all add: empty_sample_def)
  have down: "fe_order_ok cash_down" "\<not> fe_cash_ok cash_down" by (simp_all add: cash_down_def)
  have amount: "cash_delta paper_buy (Fin 1) (Fin (63/20)) (Fin 0) = Fin (- 315)" by (simp add: cash_delta_def)
  note unpaid_position [OF paper_deltas down, of paper_account "Fin 1000" 1 "63/20" 0 paper_ticket empty_sample "paper_env True" "''u1''" p None]
  then show ?thesis using p round book amount by (auto simp: paper_fill_def paper_signed)
qed

end
