(* ===== verification/Entry_Brakes.thy ===== *)
theory Entry_Brakes
  imports Close_Guard Utilization_Gate Py_Sort
begin

section \<open>Brakes on new entries\<close>

text \<open>
  Model of the guards that stop new positions from being opened: the breaker on consecutive losses
  (\<open>risk/streak_breaker.py\<close>), the cooldown of symbols that were just stopped out
  (\<open>services/reentry_cooldown.py\<close>), the limit on the exposure per correlation bucket
  (\<open>risk/bucket_control.py\<close>) and the gate on stale market data (\<open>risk/staleness_gate.py\<close>).

  Each read and write of the database succeeds or not as a parameter says. Instants are rational
  seconds and their reader is a parameter; the upper limit of a period is not modelled. The text of
  a reason and \<open>str\<close> of a value are parameters.
\<close>

subsection \<open>The breaker on consecutive losses\<close>

datatype streak_reason =
    BreakerDisabled
  | ShortHistory nat
  | BrokenByWin
  | StandingWindow
  | LossStreak int
  | EvaluationError pyexn

datatype brake_alert = StreakTripped "string list" bool bool | PauseWriteFailed streak_reason | StreakError pyexn

text \<open>The row of \<open>ops_control\<close>, the outcomes in the order they were ingested, and the alerts.\<close>

record brake_state =
  bs_ops :: "pydict option"
  bs_outcomes :: "pydict list"
  bs_alerts :: "brake_alert list"

record streak_env =
  sk_outcomes_ok :: bool
  sk_stamp_read_ok :: bool
  sk_pause_read_ok :: bool
  sk_pause_write_ok :: bool
  sk_stamp_ok :: bool
  sk_str :: "pyval \<Rightarrow> string"
  sk_text :: "streak_reason \<Rightarrow> string"
  sk_now_text :: string

record streak_report =
  sr_evaluated :: bool
  sr_tripped :: bool
  sr_paused_written :: bool
  sr_already_paused :: bool
  sr_pause_failed :: bool
  sr_stamped :: bool
  sr_reason :: streak_reason

definition streak_n :: "environ \<Rightarrow> int" where
  "streak_n env = max 1 (env_count env ''STREAK_BREAKER_N'' 3)"

definition write_ops :: "(string \<times> pyval) list \<Rightarrow> brake_state \<Rightarrow> brake_state" where
  "write_ops kvs st = st\<lparr>bs_ops := map_option (dset_all kvs) (bs_ops st)\<rparr>"

definition ops_row :: "brake_state \<Rightarrow> pydict" where
  "ops_row st = (case bs_ops st of None \<Rightarrow> [] | Some r \<Rightarrow> r)"

definition raise_alert :: "brake_alert \<Rightarrow> brake_state \<Rightarrow> brake_state" where
  "raise_alert a st = st\<lparr>bs_alerts := bs_alerts st @ [a]\<rparr>"

text \<open>The last n outcomes of live trades, newest first.\<close>

definition loss_window :: "nat \<Rightarrow> brake_state \<Rightarrow> pydict list" where
  "loss_window n st =
     take n (rev (filter (\<lambda>r. dget r ''outcome_type'' = PStr ''trade_closed'' \<and> dget r ''is_paper'' = PBool False) (bs_outcomes st)))"

text \<open>Whether all are losses; the test stops at the first that is none.\<close>

fun all_losses :: "pydict list \<Rightarrow> pyexn + bool" where
  "all_losses [] = Inr True"
| "all_losses (r # rows) =
     rbind (py_float (py_or (dget r ''pnl_realized'') (PInt 0))) (\<lambda>x. if flt x (Fin 0) then all_losses rows else Inr False)"

definition fingerprint :: "streak_env \<Rightarrow> pydict list \<Rightarrow> string list" where
  "fingerprint sk rows = sort_by text_before (map (\<lambda>r. case dget r ''id'' of PStr s \<Rightarrow> s | v \<Rightarrow> sk_str sk v) rows)"

definition read_fingerprint :: "streak_env \<Rightarrow> brake_state \<Rightarrow> string list option" where
  "read_fingerprint sk st =
     (if \<not> sk_stamp_read_ok sk then None
      else case py_or (dget (ops_row st) ''streak_breaker_state'') (PDict []) of
          PDict d \<Rightarrow>
            (case dget d ''last_tripped_fingerprint'' of
               PList vs \<Rightarrow>
                 (if vs \<noteq> [] \<and> list_all (\<lambda>v. case v of PStr s \<Rightarrow> s \<noteq> [] | _ \<Rightarrow> False) vs
                  then Some (sort_by text_before (map (\<lambda>v. case v of PStr s \<Rightarrow> s | _ \<Rightarrow> []) vs)) else None)
             | _ \<Rightarrow> None)
        | _ \<Rightarrow> None)"

definition fingerprint_stamp :: "streak_env \<Rightarrow> string list \<Rightarrow> (string \<times> pyval) list" where
  "fingerprint_stamp sk fp =
     [(''streak_breaker_state'', PDict [(''last_tripped_fingerprint'', PList (map PStr fp)), (''tripped_at'', PStr (sk_now_text sk))])]"

text \<open>Written, already paused, and failed.\<close>

definition pause_entries :: "streak_env \<Rightarrow> streak_reason \<Rightarrow> brake_state \<Rightarrow> (bool \<times> bool \<times> bool) \<times> brake_state" where
  "pause_entries sk reason st =
     (if \<not> sk_pause_read_ok sk then ((False, False, True), raise_alert (PauseWriteFailed reason) st)
      else if truthy (dget (ops_row st) ''entries_paused'') then ((False, True, False), st)
      else if \<not> sk_pause_write_ok sk then ((False, False, True), raise_alert (PauseWriteFailed reason) st)
      else ((True, False, False),
            write_ops [(''entries_paused'', PBool True), (''entries_pause_reason'', PStr (take 500 (sk_text sk reason)))] st))"

definition trip_breaker :: "streak_env \<Rightarrow> int \<Rightarrow> string list \<Rightarrow> brake_state \<Rightarrow> streak_report \<times> brake_state" where
  "trip_breaker sk n fp st =
     (case pause_entries sk (LossStreak n) st of
        ((written, already, failed), st1) \<Rightarrow>
          (let st2 = raise_alert (StreakTripped fp written already) st1
           in (\<lparr>sr_evaluated = True, sr_tripped = True, sr_paused_written = written, sr_already_paused = already,
                sr_pause_failed = failed, sr_stamped = sk_stamp_ok sk, sr_reason = LossStreak n\<rparr>,
               if sk_stamp_ok sk then write_ops (fingerprint_stamp sk fp) st2 else st2)))"

definition breaker_failed :: "streak_env \<Rightarrow> pyexn \<Rightarrow> bool \<Rightarrow> brake_state \<Rightarrow> streak_report \<times> brake_state" where
  "breaker_failed sk e evaluated st =
     (case pause_entries sk (EvaluationError e) st of
        ((written, already, failed), st1) \<Rightarrow>
          (\<lparr>sr_evaluated = evaluated, sr_tripped = False, sr_paused_written = written, sr_already_paused = already,
            sr_pause_failed = failed, sr_stamped = False, sr_reason = EvaluationError e\<rparr>,
           raise_alert (StreakError e) st1))"

definition quiet_report :: "bool \<Rightarrow> streak_reason \<Rightarrow> streak_report" where
  "quiet_report evaluated reason =
     \<lparr>sr_evaluated = evaluated, sr_tripped = False, sr_paused_written = False, sr_already_paused = False,
      sr_pause_failed = False, sr_stamped = False, sr_reason = reason\<rparr>"

definition evaluate_and_trip :: "environ \<Rightarrow> streak_env \<Rightarrow> brake_state \<Rightarrow> streak_report \<times> brake_state" where
  "evaluate_and_trip env sk st =
     (let n = streak_n env; rows = loss_window (nat n) st in
      if \<not> default_on (env ''STREAK_BREAKER_ENABLED'') then (quiet_report False BreakerDisabled, st)
      else if \<not> sk_outcomes_ok sk then breaker_failed sk RuntimeError False st
      else if int (length rows) < n then (quiet_report True (ShortHistory (length rows)), st)
      else case all_losses rows of
          Inl e \<Rightarrow> breaker_failed sk e True st
        | Inr False \<Rightarrow> (quiet_report True BrokenByWin, st)
        | Inr True \<Rightarrow>
            (let fp = fingerprint sk rows
             in if default_on (env ''STREAK_BREAKER_EDGE_TRIGGER_ENABLED'') \<and> read_fingerprint sk st = Some fp
                then (quiet_report True StandingWindow, st)
                else trip_breaker sk n fp st))"

subsection \<open>The cooldown of stopped symbols\<close>

record cooldown_row =
  cd_cohort :: pyval
  cd_symbol :: pyval
  cd_until :: rat
  cd_reason :: string
  cd_position :: pyval
  cd_loss :: pyval

datatype table_read = TableRead | TableMissing | TableFailed

datatype cooldown_error = CooldownQueryError

definition cooldown_enabled :: "environ \<Rightarrow> bool" where
  "cooldown_enabled env = default_on (env ''REENTRY_COOLDOWN_ENABLED'')"

definition override_minutes :: "environ \<Rightarrow> int option" where
  "override_minutes env =
     (case env ''REENTRY_COOLDOWN_OVERRIDE_MINUTES'' of
        None \<Rightarrow> None
      | Some s \<Rightarrow> (case int_of_str (str_strip s) of Some m \<Rightarrow> if 0 < m then Some m else None | None \<Rightarrow> None))"

text \<open>
  The end of a cooldown that starts now: the configured number of minutes, the next opening of the
  market, or a day when the clock cannot be read.
\<close>

definition compute_cooldown_until ::
  "environ \<Rightarrow> (string \<Rightarrow> rat option) \<Rightarrow> (pyval \<Rightarrow> string) \<Rightarrow> pyexn + pydict \<Rightarrow> rat \<Rightarrow> rat" where
  "compute_cooldown_until env parse to_text clock now =
     (case override_minutes env of
        Some m \<Rightarrow> now + 60 * of_int m
      | None \<Rightarrow>
          (let day = now + 24 * 3600
           in case clock of
                Inl _ \<Rightarrow> day
              | Inr d \<Rightarrow>
                  (let v = dget d ''next_open''
                   in if \<not> truthy v then day
                      else (case parse (case v of PStr s \<Rightarrow> s | _ \<Rightarrow> to_text v) of None \<Rightarrow> day | Some t \<Rightarrow> t))))"

text \<open>A missing cohort, \<open>NULL\<close> in the table, equals nothing.\<close>

definition benched :: "rat \<Rightarrow> pyval \<Rightarrow> pyval \<Rightarrow> cooldown_row \<Rightarrow> bool" where
  "benched now cohort symbol r \<longleftrightarrow> cohort \<noteq> PNone \<and> cd_cohort r = cohort \<and> cd_symbol r = symbol \<and> now < cd_until r"

definition cooldown_active :: "table_read \<Rightarrow> rat \<Rightarrow> pyval \<Rightarrow> pyval \<Rightarrow> cooldown_row list \<Rightarrow> cooldown_error + bool" where
  "cooldown_active rd now cohort symbol rows =
     (case rd of TableMissing \<Rightarrow> Inr False | TableFailed \<Rightarrow> Inl CooldownQueryError
      | TableRead \<Rightarrow> Inr (list_ex (benched now cohort symbol) rows))"

definition active_symbols :: "table_read \<Rightarrow> rat \<Rightarrow> pyval \<Rightarrow> pyval list \<Rightarrow> cooldown_row list \<Rightarrow> cooldown_error + pyval set" where
  "active_symbols rd now cohort symbols rows =
     (if symbols = [] then Inr {}
      else case rd of TableMissing \<Rightarrow> Inr {} | TableFailed \<Rightarrow> Inl CooldownQueryError
        | TableRead \<Rightarrow> Inr (set (map cd_symbol (filter (\<lambda>r. list_ex (\<lambda>s. benched now cohort s r) symbols) rows))))"

record cooldown_io =
  ci_read :: table_read
  ci_insert_ok :: bool

definition write_cooldown :: "cooldown_io \<Rightarrow> rat \<Rightarrow> cooldown_row \<Rightarrow> cooldown_row list \<Rightarrow> bool \<times> cooldown_row list" where
  "write_cooldown io now row rows =
     (if cooldown_active (ci_read io) now (cd_cohort row) (cd_symbol row) rows = Inr True then (False, rows)
      else if ci_insert_ok io then (True, rows @ [row])
      else (False, rows))"

text \<open>\<open>_write_reentry_cooldowns\<close> of the risk monitor: one row per loss stop on a symbol.\<close>

definition stop_row :: "rat \<Rightarrow> pydict \<Rightarrow> cooldown_row" where
  "stop_row until stop =
     \<lparr>cd_cohort = dget stop ''cohort_id'', cd_symbol = dget stop ''symbol'', cd_until = until, cd_reason = ''envelope_force_close'',
      cd_position = dget stop ''position_id'', cd_loss = dget stop ''realized_loss''\<rparr>"

fun write_stops :: "(pydict \<Rightarrow> cooldown_io) \<Rightarrow> rat \<Rightarrow> rat \<Rightarrow> pydict list \<Rightarrow> cooldown_row list \<Rightarrow> nat \<times> cooldown_row list" where
  "write_stops io now until [] rows = (0, rows)"
| "write_stops io now until (stop # stops) rows =
     (case write_cooldown (io stop) now (stop_row until stop) rows of
        (b, rows1) \<Rightarrow> (case write_stops io now until stops rows1 of (n, rows2) \<Rightarrow> ((if b then 1 else 0) + n, rows2)))"

definition write_reentry_cooldowns ::
  "environ \<Rightarrow> (string \<Rightarrow> rat option) \<Rightarrow> (pyval \<Rightarrow> string) \<Rightarrow> pyexn + pydict \<Rightarrow> (pydict \<Rightarrow> cooldown_io) \<Rightarrow> rat \<Rightarrow> pydict list \<Rightarrow>
   cooldown_row list \<Rightarrow> nat \<times> cooldown_row list" where
  "write_reentry_cooldowns env parse to_text clock io now stops rows =
     (if \<not> cooldown_enabled env \<or> stops = [] then (0, rows)
      else write_stops io now (compute_cooldown_until env parse to_text clock now) stops rows)"

subsection \<open>Exposure per bucket\<close>

definition us_equity_beta :: "string list" where
  "us_equity_beta = [''SPY'', ''DIA'', ''QQQ'', ''IWM'']"

definition bucket_for :: "pyval \<Rightarrow> pyexn + string" where
  "bucket_for ticker =
     (case py_or ticker (PStr []) of
        PStr s \<Rightarrow>
          (let t = str_strip (str_upper s)
           in Inr (if t \<in> set us_equity_beta then ''us_equity_beta'' else if t = [] then ''unknown'' else t))
      | _ \<Rightarrow> Inl AttributeError)"

definition bucket_enforced :: "environ \<Rightarrow> bool" where
  "bucket_enforced env = (case env ''BUCKET_CONTROL_ENFORCE'' of None \<Rightarrow> False | Some s \<Rightarrow> str_strip s = ''1'')"

definition bucket_max_pct :: "environ \<Rightarrow> pynum" where
  "bucket_max_pct env =
     (case env ''BUCKET_MAX_PCT'' of
        None \<Rightarrow> Fin (1/4)
      | Some s \<Rightarrow> if s = [] then Fin (1/4)
          else (case float_of_str s of Some v \<Rightarrow> if flt (Fin 0) v then v else Fin (1/4) | None \<Rightarrow> Fin (1/4)))"

text \<open>The amount at risk, whether it is a premium only, and whether it is unknown.\<close>

definition risk_from_fields :: "pyval \<Rightarrow> pyval \<Rightarrow> pyexn + pynum \<times> bool \<times> bool" where
  "risk_from_fields max_loss cost_basis =
     (let number = (\<lambda>v. if v = PNone then Inr None
                       else case py_float v of Inr x \<Rightarrow> Inr (Some (fabs x))
                          | Inl e \<Rightarrow> if is_parse_failure e then Inr None else Inl e)
      in rbind (number max_loss) (\<lambda>m. case m of
           Some x \<Rightarrow> Inr (x, False, False)
         | None \<Rightarrow> rbind (number cost_basis) (\<lambda>c. case c of
               Some x \<Rightarrow> Inr (x, True, False) | None \<Rightarrow> Inr (Fin 0, True, True))))"

definition position_risk_usd :: "pydict \<Rightarrow> pyexn + pynum \<times> bool \<times> bool" where
  "position_risk_usd p = risk_from_fields (dget p ''max_loss_total'') (dget p ''cost_basis_total'')"

definition candidate_risk_usd :: "pydict \<Rightarrow> pyexn + pynum \<times> bool \<times> bool" where
  "candidate_risk_usd s =
     (let field = (\<lambda>k. case py_or (dget s k) (PDict []) of PDict d \<Rightarrow> Inr d | _ \<Rightarrow> Inl AttributeError) in
      rbind (if dget s ''max_loss_total'' \<noteq> PNone then Inr (dget s ''max_loss_total'')
             else rbind (field ''sizing_metadata'') (\<lambda>d. Inr (dget d ''max_loss_total''))) (\<lambda>ml.
        if ml \<noteq> PNone then risk_from_fields ml PNone
        else rbind (field ''order_json'') (\<lambda>oj.
          case rbind (py_float (py_or (dget oj ''limit_price'') (PInt 0))) (\<lambda>l.
               rbind (py_float (py_or (dget oj ''contracts'') (PInt 0))) (\<lambda>c. Inr (fmul (fmul (fabs l) c) (Fin 100)))) of
            Inr prem \<Rightarrow> Inr (if flt (Fin 0) prem then (prem, True, False) else (Fin 0, True, True))
          | Inl e \<Rightarrow> if is_parse_failure e then Inr (Fin 0, True, True) else Inl e)))"

type_synonym reservations = "string \<Rightarrow> pynum option"

definition reserved_in :: "reservations \<Rightarrow> string \<Rightarrow> pynum" where
  "reserved_in res b = (case res b of None \<Rightarrow> Fin 0 | Some x \<Rightarrow> x)"

definition reserve :: "string \<Rightarrow> pynum \<Rightarrow> reservations \<Rightarrow> reservations" where
  "reserve b usd res = res(b \<mapsto> fadd (reserved_in res b) (fmax (Fin 0) usd))"

record bucket_decision =
  bd_bucket :: string
  bd_total :: pynum
  bd_cap :: pynum
  bd_would_block :: bool
  bd_legacy :: bool
  bd_unknown_open :: nat
  bd_not_armable :: bool

text \<open>Sum, premium basis and unknown positions of a bucket.\<close>

fun bucket_open :: "string \<Rightarrow> pydict list \<Rightarrow> pynum \<times> bool \<times> nat \<Rightarrow> pyexn + pynum \<times> bool \<times> nat" where
  "bucket_open b [] acc = Inr acc"
| "bucket_open b (p # ps) (so_far, legacy, unknown) =
     rbind (bucket_for (dget p ''symbol'')) (\<lambda>b'.
       if b' \<noteq> b then bucket_open b ps (so_far, legacy, unknown)
       else rbind (position_risk_usd p) (\<lambda>(v, leg, unk).
         bucket_open b ps (fadd so_far v, legacy \<or> leg \<and> flt (Fin 0) v, if unk then unknown + 1 else unknown)))"

definition evaluate_bucket ::
  "environ \<Rightarrow> pyval \<Rightarrow> pynum \<Rightarrow> bool \<Rightarrow> pydict list \<Rightarrow> reservations \<Rightarrow> pynum \<Rightarrow> pyexn + bucket_decision" where
  "evaluate_bucket env ticker risk unknown positions res equity =
     rbind (bucket_for ticker) (\<lambda>b.
     rbind (bucket_open b positions (Fin 0, False, 0)) (\<lambda>(so_far, legacy, unknown_open).
       let total = fadd (fadd so_far (reserved_in res b)) (fmax (Fin 0) risk);
           cap = fmul (bucket_max_pct env) equity; readable = flt (Fin 0) cap
       in Inr \<lparr>bd_bucket = b, bd_total = total, bd_cap = cap, bd_would_block = (readable \<and> flt cap total),
               bd_legacy = legacy, bd_unknown_open = unknown_open,
               bd_not_armable = (unknown \<or> 0 < unknown_open \<or> \<not> readable)\<rparr>))"

datatype bucket_action = BlockCap | BlockUnknown | BucketAlarm | BucketProceed

definition bucket_enforcement_action :: "bucket_decision \<Rightarrow> bool \<Rightarrow> bucket_action" where
  "bucket_enforcement_action d armed =
     (if armed then (if bd_would_block d then BlockCap else if bd_not_armable d then BlockUnknown else BucketProceed)
      else if bd_would_block d then BucketAlarm else BucketProceed)"

subsection \<open>Stale market data\<close>

record freshness =
  fr_stale :: bool
  fr_age :: "pynum option"
  fr_symbols :: "string list"

datatype stale_reason = StaleGateOff | DataStale "pynum option" "string list" | DataFresh | FreshnessError

record staleness_result =
  sg_blocked :: bool
  sg_reason :: stale_reason
  sg_age :: "pynum option"
  sg_symbols :: "string list"

fun split_commas :: "string \<Rightarrow> string \<Rightarrow> string list" where
  "split_commas acc [] = [rev acc]"
| "split_commas acc (c # s) = (if c = CHR '','' then rev acc # split_commas [] s else split_commas (c # acc) s)"

definition probe_symbols :: "environ \<Rightarrow> string list" where
  "probe_symbols env =
     filter (\<lambda>s. s \<noteq> []) (map str_strip (split_commas [] (case env ''STALENESS_GATE_PROBE_SYMBOLS'' of None \<Rightarrow> ''SPY,QQQ'' | Some s \<Rightarrow> s)))"

text \<open>The freshness of the probe symbols at a threshold in milliseconds is a parameter.\<close>

definition check_staleness_gate ::
  "environ \<Rightarrow> (string list \<Rightarrow> int \<Rightarrow> pyexn + freshness) \<Rightarrow> pyexn + staleness_result" where
  "check_staleness_gate env fresh =
     (if (case env ''STALENESS_GATE_ENABLED'' of None \<Rightarrow> False | Some s \<Rightarrow> s \<noteq> ''1'')
      then Inr \<lparr>sg_blocked = False, sg_reason = StaleGateOff, sg_age = None, sg_symbols = []\<rparr>
      else case (case env ''STALENESS_GATE_MAX_AGE_SEC'' of None \<Rightarrow> Some 600 | Some s \<Rightarrow> int_of_str s) of
          None \<Rightarrow> Inl ValueError
        | Some seconds \<Rightarrow>
            Inr (case fresh (probe_symbols env) (seconds * 1000) of
                   Inl _ \<Rightarrow> \<lparr>sg_blocked = True, sg_reason = FreshnessError, sg_age = None, sg_symbols = []\<rparr>
                 | Inr r \<Rightarrow>
                     if fr_stale r
                     then \<lparr>sg_blocked = True, sg_reason = DataStale (fr_age r) (fr_symbols r), sg_age = fr_age r, sg_symbols = fr_symbols r\<rparr>
                     else \<lparr>sg_blocked = False, sg_reason = DataFresh, sg_age = fr_age r, sg_symbols = []\<rparr>))"

end
