(* ===== verification/Cohort_Entries.thy ===== *)
theory Cohort_Entries
  imports Entry_Brakes
begin

section \<open>Entries per cohort\<close>

text \<open>
  Model of the entry path of \<open>services/paper_autopilot_service.py\<close>: the gates of
  \<open>execute_top_suggestions\<close> that stop all entries, and \<open>_execute_per_cohort\<close>, which takes the pending
  suggestions of each cohort through the cooldown, utilization and bucket gates to the staging of
  an order.

  The state has the suggestions, the cooldowns, the global brake and a world of any type with orders,
  positions and the broker. Reads of the world, the staging of an order (with its ticket and its
  gates on quotes), its processing and the verdict of the risk envelopes are parameters; so is
  which reads and writes succeed. The policy lab is enabled, as the gates lead to the cohorts only
  then. Milestones, alerts, counts and the detail text beside a reason are left out.
\<close>

datatype stage_error = EntryQuoteUnpriceable | EntryRoundtripCostExceedsEV | StageCrash pyexn

datatype breaker_verdict = EnvelopesPass | EnvelopesBlock | LivePositionsUnavailable | BreakerCheckFailed

record cohort_plan =
  cp_name :: string
  cp_max :: int
  cp_portfolio :: pyval

record 'w entry_run =
  er_environ :: environ
  er_user :: string
  er_today :: string
  er_now :: rat
  er_reads_ok :: "string \<Rightarrow> bool"
  er_scope :: "pyval set option"
  er_filter_read :: "string \<Rightarrow> table_read"
  er_cooldown_read :: "pyval \<Rightarrow> table_read"
  er_cohorts :: "pydict list"
  er_cohort_read :: "pyval \<Rightarrow> bool"
  er_stamp_ok :: "pyval \<Rightarrow> bool"
  er_terminal_ok :: "pyval \<Rightarrow> bool"
  er_positions :: "'w \<Rightarrow> pydict list"
  er_executed :: "'w \<Rightarrow> pyval set"
  er_equity :: "'w \<Rightarrow> pynum option"
  er_broker :: "'w \<Rightarrow> broker_read"
  er_buying_power :: "'w \<Rightarrow> pynum option"
  er_stage :: "pydict \<Rightarrow> pyval \<Rightarrow> 'w \<Rightarrow> (stage_error + pyval) \<times> 'w"
  er_process :: "pyval \<Rightarrow> 'w \<Rightarrow> (pyexn + nat) \<times> 'w"
  er_sweep :: "'w \<Rightarrow> (pyexn + nat) \<times> 'w"

record 'w entry_state =
  es_suggestions :: "pydict list"
  es_cooldowns :: "cooldown_row list"
  es_brake :: brake_state
  es_world :: 'w

datatype entry_end =
    AlreadyExecuted
  | AlreadyHeld
  | SymbolCooldown
  | UtilizationBlocked
  | UtilizationUnreadable
  | BucketRefused bucket_action
  | NotStaged
  | Executed pyval nat
  | QuoteRejected
  | RoundtripRejected bool
  | EntryFailed pyexn

subsection \<open>Which suggestions, in which order\<close>

definition column_number :: "pyval \<Rightarrow> pynum option" where
  "column_number v = (case py_float v of Inr x \<Rightarrow> Some x | Inl _ \<Rightarrow> None)"

text \<open>The database orders a descending column with its nulls first.\<close>

definition above :: "pynum option \<Rightarrow> pynum option \<Rightarrow> bool" where
  "above x y = (case (x, y) of (None, Some _) \<Rightarrow> True | (Some a, Some b) \<Rightarrow> flt b a | _ \<Rightarrow> False)"

definition ranked_before :: "pydict \<Rightarrow> pydict \<Rightarrow> bool" where
  "ranked_before r s =
     (let ra = column_number (dget r ''risk_adjusted_ev''); sa = column_number (dget s ''risk_adjusted_ev'')
      in above ra sa \<or> (\<not> above sa ra \<and> above (column_number (dget r ''ev'')) (column_number (dget s ''ev''))))"

definition pending_for :: "'w entry_run \<Rightarrow> string \<Rightarrow> pydict list \<Rightarrow> pydict list" where
  "pending_for run cohort rows =
     sort_by ranked_before
       (filter (\<lambda>r. dget r ''user_id'' = PStr (er_user run) \<and> dget r ''cohort_name'' = PStr cohort \<and> dget r ''status'' = PStr ''pending''
          \<and> dget r ''cycle_date'' = PStr (er_today run)) rows)"

definition viability_tiers :: "(string \<times> rat) list" where
  "viability_tiers =
     [(''SPY'', 130/100), (''QQQ'', 115/100), (''TSLA'', 115/100), (''IWM'', 115/100), (''SLV'', 115/100),
      (''DIA'', 115/100), (''CVX'', 115/100), (''GLD'', 115/100), (''NFLX'', 110/100)]"

definition viability_rank_key :: "pydict \<Rightarrow> pyexn + pynum" where
  "viability_rank_key s =
     (case py_float (dget_default s ''risk_adjusted_ev'' (PInt (- 999))) of
        Inl e \<Rightarrow> if is_parse_failure e then Inr (Fin (- 999)) else Inl e
      | Inr x \<Rightarrow>
          Inr (if flt (Fin 0) x
               then fmul x (Fin (case dget s ''ticker'' of PStr t \<Rightarrow> (case map_of viability_tiers t of Some k \<Rightarrow> k | None \<Rightarrow> 1) | _ \<Rightarrow> 1))
               else x))"

definition viability_rank :: "environ \<Rightarrow> pydict list \<Rightarrow> pyexn + pydict list" where
  "viability_rank env rows =
     (if (case env ''UNIVERSE_VIABILITY_BIAS_ENABLED'' of None \<Rightarrow> False | Some s \<Rightarrow> str_strip s = ''1'')
      then rbind (rmap (\<lambda>s. rbind (viability_rank_key s) (\<lambda>k. Inr (k, s))) rows) (\<lambda>ps.
             Inr (map snd (sort_by (\<lambda>a b. flt (fst b) (fst a)) ps)))
      else Inr rows)"

definition first_rows :: "int \<Rightarrow> 'a list \<Rightarrow> 'a list" where
  "first_rows n xs = (if n < 0 then take (length xs - nat (- n)) xs else take (nat n) xs)"

definition symbol_key :: "pydict \<Rightarrow> pyval" where
  "symbol_key s = py_or (dget s ''ticker'') (dget s ''symbol'')"

definition ticker_of :: "pydict \<Rightarrow> pyval" where
  "ticker_of s = py_or (symbol_key s) (PStr ''?'')"

subsection \<open>The gates of one suggestion\<close>

definition stamp_blocked :: "'w entry_run \<Rightarrow> pyval \<Rightarrow> string \<Rightarrow> 'w entry_state \<Rightarrow> 'w entry_state" where
  "stamp_blocked run sid reason st =
     (if er_stamp_ok run sid
      then st\<lparr>es_suggestions := update_rows (\<lambda>r. row_id r = sid) (\<lambda>r. dset r ''blocked_reason'' (PStr reason)) (es_suggestions st)\<rparr>
      else st)"

definition promotable :: "string list" where
  "promotable = [''pending'', ''staged'', ''queued'']"

definition stamp_not_executable :: "'w entry_run \<Rightarrow> pyval \<Rightarrow> string \<Rightarrow> 'w entry_state \<Rightarrow> bool \<times> 'w entry_state" where
  "stamp_not_executable run sid reason st =
     (if \<not> truthy sid \<or> \<not> default_on (er_environ run ''FUNNEL_STATUS_TRUTHFUL_ENABLED'') then (True, st)
      else if \<not> er_terminal_ok run sid then (False, st)
      else (True, st\<lparr>es_suggestions :=
             update_rows (\<lambda>r. row_id r = sid \<and> (case dget r ''status'' of PStr t \<Rightarrow> t \<in> set promotable | _ \<Rightarrow> False))
               (dset_all [(''status'', PStr ''NOT_EXECUTABLE''), (''blocked_reason'', PStr reason)]) (es_suggestions st)\<rparr>))"

text \<open>
  The cohort of a portfolio, by which cooldowns are kept. A failed lookup is swallowed: it answers
  that there is none, like a portfolio without a cohort.
\<close>

definition resolve_cohort_id :: "bool \<Rightarrow> pydict list \<Rightarrow> pyval \<Rightarrow> pyval" where
  "resolve_cohort_id ok cohorts portfolio =
     (if \<not> truthy portfolio \<or> \<not> ok then PNone
      else case find (\<lambda>r. dget r ''portfolio_id'' = portfolio) cohorts of None \<Rightarrow> PNone | Some r \<Rightarrow> row_id r)"

definition cohort_id_of :: "'w entry_run \<Rightarrow> pyval \<Rightarrow> pyval" where
  "cohort_id_of run portfolio = resolve_cohort_id (er_cohort_read run portfolio) (er_cohorts run) portfolio"

text \<open>Both an active cooldown and a failed read refuse the entry.\<close>

definition cooldown_clear :: "'w entry_run \<Rightarrow> pyval \<Rightarrow> pydict \<Rightarrow> 'w entry_state \<Rightarrow> bool" where
  "cooldown_clear run portfolio s st \<longleftrightarrow>
     \<not> cooldown_enabled (er_environ run)
     \<or> cooldown_active (er_cooldown_read run (row_id s)) (er_now run) (cohort_id_of run portfolio) (ticker_of s) (es_cooldowns st) = Inr False"

definition utilization_applies :: "'w entry_run \<Rightarrow> pyval \<Rightarrow> bool" where
  "utilization_applies run portfolio \<longleftrightarrow>
     gate_enabled (er_environ run ''RISK_UTILIZATION_GATE_ENABLED'') \<and> (case er_scope run of None \<Rightarrow> True | Some ids \<Rightarrow> portfolio \<in> ids)"

definition utilization_check :: "'w entry_run \<Rightarrow> pyval \<Rightarrow> pydict \<Rightarrow> 'w entry_state \<Rightarrow> gate_error + unit" where
  "utilization_check run portfolio s st =
     (if \<not> utilization_applies run portfolio then Inr ()
      else
        rbind (candidate_bases s) (\<lambda>_.
        rbind (candidate_cost_usd (gate_enabled (er_environ run ''RISK_BASIS_MAX_LOSS_ENABLED'')) s) (\<lambda>cost.
        rbind (evaluate_entry (er_environ run ''RISK_MAX_UTILIZATION_PCT'') (er_broker run (es_world st)) (er_buying_power run (es_world st)) (Some cost))
          (\<lambda>_. Inr ()))))"

definition bucket_check ::
  "'w entry_run \<Rightarrow> pydict list \<Rightarrow> pynum option \<Rightarrow> pydict \<Rightarrow> reservations \<Rightarrow> pyexn + bucket_decision \<times> pynum" where
  "bucket_check run positions equity s res =
     rbind (candidate_risk_usd s) (\<lambda>(risk, _, unknown).
     rbind (evaluate_bucket (er_environ run) (ticker_of s) risk unknown positions res (case equity of None \<Rightarrow> Fin 0 | Some e \<Rightarrow> e)) (\<lambda>d.
       Inr (d, risk)))"

text \<open>The order is staged; the exposure is reserved when an order came of it.\<close>

definition stage_entry ::
  "'w entry_run \<Rightarrow> pyval \<Rightarrow> pydict \<Rightarrow> string \<Rightarrow> pynum \<Rightarrow> reservations \<Rightarrow> 'w entry_state \<Rightarrow> entry_end \<times> reservations \<times> 'w entry_state" where
  "stage_entry run portfolio s bucket risk res st =
     (case er_stage run s portfolio (es_world st) of
        (Inl EntryQuoteUnpriceable, w) \<Rightarrow>
          (QuoteRejected, res, stamp_blocked run (row_id s) ''entry_quote_unpriceable'' (st\<lparr>es_world := w\<rparr>))
      | (Inl EntryRoundtripCostExceedsEV, w) \<Rightarrow>
          (case stamp_not_executable run (row_id s) ''ev_below_roundtrip_cost'' (st\<lparr>es_world := w\<rparr>) of
             (ok, st') \<Rightarrow> (RoundtripRejected ok, res, st'))
      | (Inl (StageCrash e), w) \<Rightarrow> (EntryFailed e, res, st\<lparr>es_world := w\<rparr>)
      | (Inr oid, w) \<Rightarrow>
          (if \<not> truthy oid then (NotStaged, res, st\<lparr>es_world := w\<rparr>)
           else
             (let res' = reserve bucket risk res
              in if get_execution_mode (er_environ run) \<noteq> Internal_Paper then (Executed oid 0, res', st\<lparr>es_world := w\<rparr>)
                 else (case er_process run oid w of
                         (Inl e, w') \<Rightarrow> (EntryFailed e, res', st\<lparr>es_world := w'\<rparr>)
                       | (Inr n, w') \<Rightarrow> (Executed oid n, res', st\<lparr>es_world := w'\<rparr>)))))"

definition enter_one ::
  "'w entry_run \<Rightarrow> pyval \<Rightarrow> pydict list \<Rightarrow> pynum option \<Rightarrow> pyval set \<Rightarrow> pyval set \<Rightarrow> pydict \<Rightarrow> reservations \<Rightarrow> 'w entry_state \<Rightarrow>
   entry_end \<times> reservations \<times> 'w entry_state" where
  "enter_one run portfolio positions equity executed held s res st =
     (if row_id s \<in> executed then (AlreadyExecuted, res, st)
      else if ticker_of s \<in> held then (AlreadyHeld, res, stamp_blocked run (row_id s) ''symbol_already_held'' st)
      else if \<not> cooldown_clear run portfolio s st then (SymbolCooldown, res, stamp_blocked run (row_id s) ''symbol_cooldown'' st)
      else case utilization_check run portfolio s st of
          Inl EntryUtilizationBlocked \<Rightarrow> (UtilizationBlocked, res, stamp_blocked run (row_id s) ''entry_utilization_blocked'' st)
        | Inl (UtilizationGateError _) \<Rightarrow> (UtilizationUnreadable, res, stamp_blocked run (row_id s) ''utilization_gate_error'' st)
        | Inl (GateCrash e) \<Rightarrow> (EntryFailed e, res, st)
        | Inr _ \<Rightarrow>
            (case bucket_check run positions equity s res of
               Inl e \<Rightarrow> (EntryFailed e, res, st)
             | Inr (d, risk) \<Rightarrow>
                 (case bucket_enforcement_action d (bucket_enforced (er_environ run)) of
                    BlockCap \<Rightarrow> (BucketRefused BlockCap, res, stamp_blocked run (row_id s) ''bucket_exposure_cap'' st)
                  | BlockUnknown \<Rightarrow> (BucketRefused BlockUnknown, res, stamp_blocked run (row_id s) ''bucket_not_armable_unknown_risk'' st)
                  | _ \<Rightarrow> stage_entry run portfolio s (bd_bucket d) risk res st)))"

fun enter_all ::
  "'w entry_run \<Rightarrow> pyval \<Rightarrow> pydict list \<Rightarrow> pynum option \<Rightarrow> pyval set \<Rightarrow> pyval set \<Rightarrow> pydict list \<Rightarrow> reservations \<Rightarrow> 'w entry_state \<Rightarrow>
   (pyval \<times> entry_end) list \<times> reservations \<times> 'w entry_state" where
  "enter_all run portfolio positions equity executed held [] res st = ([], res, st)"
| "enter_all run portfolio positions equity executed held (s # rest) res st =
     (case enter_one run portfolio positions equity executed held s res st of
        (fin, res1, st1) \<Rightarrow>
          (case enter_all run portfolio positions equity executed held rest res1 st1 of
             (outs, res2, st2) \<Rightarrow> ((row_id s, fin) # outs, res2, st2)))"

subsection \<open>Cohorts\<close>

text \<open>The first gate of the cooldown drops benched symbols before the loop, when it can be read.\<close>

definition filter_benched :: "'w entry_run \<Rightarrow> cohort_plan \<Rightarrow> 'w entry_state \<Rightarrow> pydict list \<Rightarrow> pydict list" where
  "filter_benched run plan st rows =
     (if \<not> cooldown_enabled (er_environ run) \<or> rows = [] then rows
      else case active_symbols (er_filter_read run (cp_name plan)) (er_now run) (cohort_id_of run (cp_portfolio plan)) (map symbol_key rows)
             (es_cooldowns st) of
          Inl _ \<Rightarrow> rows
        | Inr gone \<Rightarrow> filter (\<lambda>s. symbol_key s \<notin> gone) rows)"

definition own_positions :: "pyval \<Rightarrow> pydict list \<Rightarrow> pydict list" where
  "own_positions portfolio rows = filter (\<lambda>p. dget p ''portfolio_id'' = portfolio) rows"

definition held_symbols :: "pydict list \<Rightarrow> pyval set" where
  "held_symbols rows = set (filter truthy (map (\<lambda>p. dget p ''symbol'') rows))"

definition run_cohort :: "'w entry_run \<Rightarrow> cohort_plan \<Rightarrow> 'w entry_state \<Rightarrow> pyexn + (pyval \<times> entry_end) list \<times> 'w entry_state" where
  "run_cohort run plan st =
     (if \<not> truthy (cp_portfolio plan) then Inr ([], st)
      else if \<not> er_reads_ok run (cp_name plan) then Inl RuntimeError
      else
        rbind (viability_rank (er_environ run) (pending_for run (cp_name plan) (es_suggestions st))) (\<lambda>rows.
          let chosen = filter_benched run plan st (first_rows (cp_max plan) rows);
              mine = own_positions (cp_portfolio plan) (er_positions run (es_world st))
          in case enter_all run (cp_portfolio plan) mine (er_equity run (es_world st)) (er_executed run (es_world st)) (held_symbols mine)
                    chosen (\<lambda>_. None) st of
               (outs, _, st') \<Rightarrow> Inr (outs, st')))"

fun run_cohorts :: "'w entry_run \<Rightarrow> cohort_plan list \<Rightarrow> 'w entry_state \<Rightarrow> (pyexn + (string \<times> pyval \<times> entry_end) list) \<times> 'w entry_state" where
  "run_cohorts run [] st = (Inr [], st)"
| "run_cohorts run (plan # plans) st =
     (case run_cohort run plan st of
        Inl e \<Rightarrow> (Inl e, st)
      | Inr (outs, st1) \<Rightarrow>
          (case run_cohorts run plans st1 of
             (Inl e, st2) \<Rightarrow> (Inl e, st2) | (Inr more_outs, st2) \<Rightarrow> (Inr (map (\<lambda>out. (cp_name plan, out)) outs @ more_outs), st2)))"

text \<open>After the cohorts all orders in flight are swept; an error there is swallowed.\<close>

definition execute_per_cohort ::
  "'w entry_run \<Rightarrow> cohort_plan list \<Rightarrow> 'w entry_state \<Rightarrow> (pyexn + (string \<times> pyval \<times> entry_end) list) \<times> 'w entry_state" where
  "execute_per_cohort run plans st =
     (case run_cohorts run plans st of
        (Inl e, st') \<Rightarrow> (Inl e, st')
      | (Inr outs, st') \<Rightarrow>
          (Inr outs,
           if get_execution_mode (er_environ run) = Internal_Paper then st'\<lparr>es_world := snd (er_sweep run (es_world st'))\<rparr> else st'))"

subsection \<open>The gates of all entries\<close>

datatype entries_end =
    TradingPaused
  | EntriesPaused pyval
  | DataBlocked stale_reason
  | EnvelopeBreach
  | EntriesRaised pyexn
  | EntriesRun "(string \<times> pyval \<times> entry_end) list"

text \<open>\<open>are_entries_paused\<close>: a read that fails, or a row without the column, counts as not paused.\<close>

definition are_entries_paused :: "bool \<Rightarrow> brake_state \<Rightarrow> bool \<times> pyval" where
  "are_entries_paused read_ok br =
     (if read_ok \<and> map_of (ops_row br) ''entries_paused'' \<noteq> None
      then (truthy (dget (ops_row br) ''entries_paused''), dget (ops_row br) ''entries_pause_reason'') else (False, PNone))"

record 'w gate_inputs =
  gi_paused :: bool
  gi_ops_read_ok :: bool
  gi_fresh :: "string list \<Rightarrow> int \<Rightarrow> pyexn + freshness"
  gi_envelopes :: "'w \<Rightarrow> breaker_verdict"

definition execute_top_suggestions ::
  "'w entry_run \<Rightarrow> 'w gate_inputs \<Rightarrow> cohort_plan list \<Rightarrow> 'w entry_state \<Rightarrow> entries_end \<times> 'w entry_state" where
  "execute_top_suggestions run gates plans st =
     (if gi_paused gates then (TradingPaused, st)
      else if fst (are_entries_paused (gi_ops_read_ok gates) (es_brake st))
      then (EntriesPaused (snd (are_entries_paused (gi_ops_read_ok gates) (es_brake st))), st)
      else
        (let stale = check_staleness_gate (er_environ run) (gi_fresh gates)
         in case (case stale of Inr g \<Rightarrow> if sg_blocked g then Some (sg_reason g) else None | Inl _ \<Rightarrow> None) of
              Some r \<Rightarrow> (DataBlocked r, st)
            | None \<Rightarrow>
                (case gi_envelopes gates (es_world st) of
                   EnvelopesBlock \<Rightarrow> (EnvelopeBreach, st)
                 | LivePositionsUnavailable \<Rightarrow> (EntriesRaised RuntimeError, st)
                 | _ \<Rightarrow>
                     (case execute_per_cohort run plans st of
                        (Inl e, st') \<Rightarrow> (EntriesRaised e, st') | (Inr outs, st') \<Rightarrow> (EntriesRun outs, st')))))"

end
