(* ===== verification/Entry_Correct.thy ===== *)
theory Entry_Correct
  imports Cohort_Entries Interfaces Close_Correct
begin

section \<open>What the brakes on entries guarantee\<close>

subsection \<open>Sorting texts\<close>

lemma text_before_irrefl [simp]: "\<not> text_before s s"
  by (induction s) simp_all

lemma of_char_eq: "(of_char a :: nat) = of_char b \<longleftrightarrow> a = b"
  by simp

lemma text_before_asym: "text_before s t \<Longrightarrow> \<not> text_before t s"
  by (induction s t rule: text_before.induct) (auto split: if_splits)

lemma text_before_total: "\<not> text_before s t \<Longrightarrow> \<not> text_before t s \<Longrightarrow> s = t"
proof (induction s t rule: text_before.induct)
  case (1 s)
  then show ?case by (cases s) simp_all
next
  case (3 a s b t)
  then have "a = b" by (metis linorder_neqE_nat of_char_eq text_before.simps(3))
  with 3 show ?case by simp
qed simp

lemma text_before_trans: "text_before s t \<Longrightarrow> text_before t u \<Longrightarrow> text_before s u"
proof (induction s t arbitrary: u rule: text_before.induct)
  case (2 b t)
  then show ?case by (cases u) simp_all
next
  case (3 a s b t)
  then show ?case by (cases u) (auto split: if_splits)
qed simp

lemma text_weak_order: "weak_order_on A text_before"
  unfolding weak_order_on_def using text_before_asym text_before_total text_before_trans by metis

lemma sort_by_sorted_id:
  assumes "sorted_wrt (\<lambda>x y. \<not> lt y x) xs"
  shows "sort_by lt xs = xs"
proof -
  have "foldl (\<lambda>ys x. insert_by lt x ys) ys xs = ys @ xs" if "sorted_wrt (\<lambda>x y. \<not> lt y x) (ys @ xs)" for ys
    using that
  proof (induction xs arbitrary: ys)
    case (Cons x xs)
    have "takeWhile (\<lambda>y. \<not> lt x y) ys = ys" using Cons.prems by (auto simp: sorted_wrt_append)
    moreover from this have "dropWhile (\<lambda>y. \<not> lt x y) ys = []" by (metis append_self_conv takeWhile_dropWhile_id)
    ultimately have "insert_by lt x ys = ys @ [x]" by (simp add: insert_by_def)
    then show ?case using Cons.IH [of "ys @ [x]"] Cons.prems by simp
  qed simp
  from this [of "[]"] assms show ?thesis by (simp add: sort_by_def)
qed

lemma sort_texts_twice: "sort_by text_before (sort_by text_before xs) = sort_by text_before xs"
  by (rule sort_by_sorted_id) (rule sort_by_sorted [OF text_weak_order])

subsection \<open>The breaker\<close>

lemma ops_row_write [simp]:
  "bs_ops st = Some row \<Longrightarrow> ops_row (write_ops kvs st) = dset_all kvs row"
  "ops_row (raise_alert a st) = ops_row st" "bs_outcomes (write_ops kvs st) = bs_outcomes st"
  "bs_outcomes (raise_alert a st) = bs_outcomes st" "bs_ops (raise_alert a st) = bs_ops st"
  "bs_ops (write_ops kvs st) = map_option (dset_all kvs) (bs_ops st)"
  by (simp_all add: ops_row_def write_ops_def raise_alert_def)

lemma loss_window_same [simp]:
  "loss_window n (write_ops kvs st) = loss_window n st" "loss_window n (raise_alert a st) = loss_window n st"
  by (simp_all add: loss_window_def)

definition halted :: "brake_state \<Rightarrow> bool" where
  "halted st \<longleftrightarrow> truthy (dget (ops_row st) ''entries_paused'')"

lemma halted_row: "halted st \<Longrightarrow> \<exists>row. bs_ops st = Some row"
  by (cases "bs_ops st") (simp_all add: halted_def ops_row_def dget_def)

lemma pause_keeps:
  assumes "pause_entries sk reason st = (r, st')"
  shows "loss_window n st' = loss_window n st"
    and "halted st \<Longrightarrow> halted st' \<and> dget (ops_row st') ''entries_pause_reason'' = dget (ops_row st) ''entries_pause_reason''"
    and "k \<notin> {''entries_paused'', ''entries_pause_reason''} \<Longrightarrow> dget (ops_row st') k = dget (ops_row st) k"
  using assms
  by (auto simp: pause_entries_def halted_def write_ops_def ops_row_def loss_window_def dget_dset_all_other split: if_splits option.splits)

text \<open>A pause that can be read and written takes hold.\<close>

lemma pause_holds:
  assumes "pause_entries sk reason st = (r, st')" and "sk_pause_read_ok sk" and "sk_pause_write_ok sk" and "bs_ops st = Some row"
  shows "halted st' \<and> (\<exists>row'. bs_ops st' = Some row')"
  using assms by (auto simp: pause_entries_def halted_def write_ops_def ops_row_def dget_dset_all split: if_splits)

lemma stamp_keeps: "dget (ops_row (write_ops (fingerprint_stamp sk fp) st)) k = dget (ops_row st) k" if "k \<noteq> ''streak_breaker_state''"
  using that by (cases "bs_ops st") (simp_all add: ops_row_def write_ops_def fingerprint_stamp_def dget_dset_all_other)

lemma evaluate_halted:
  assumes "evaluate_and_trip env sk st = (rep, st')" and "halted st"
  shows "halted st' \<and> dget (ops_row st') ''entries_pause_reason'' = dget (ops_row st) ''entries_pause_reason''"
proof -
  have trip: "halted st2 \<and> dget (ops_row st2) ''entries_pause_reason'' = dget (ops_row st) ''entries_pause_reason''"
    if "trip_breaker sk n fp st = (rep2, st2)" for n fp rep2 st2
  proof -
    obtain w al f st1 where p: "pause_entries sk (LossStreak n) st = ((w, al, f), st1)" by (metis prod.collapse)
    show ?thesis using that p pause_keeps(2) [OF p assms(2)] by (auto simp: trip_breaker_def Let_def halted_def stamp_keeps)
  qed
  have fail: "halted st2 \<and> dget (ops_row st2) ''entries_pause_reason'' = dget (ops_row st) ''entries_pause_reason''"
    if "breaker_failed sk e b st = (rep2, st2)" for e b rep2 st2
  proof -
    obtain w al f st1 where p: "pause_entries sk (EvaluationError e) st = ((w, al, f), st1)" by (metis prod.collapse)
    show ?thesis using that p pause_keeps(2) [OF p assms(2)] by (auto simp: breaker_failed_def halted_def)
  qed
  show ?thesis using assms trip fail
    by (auto simp: evaluate_and_trip_def Let_def split: if_splits sum.splits bool.splits)
qed

text \<open>
  C27 (safety). The breaker never lifts a pause and never changes its reason: however often it is evaluated,
  with whatever settings and whichever reads and writes fail, entries that are paused stay paused
  for the reason the operator sees.
\<close>

theorem pause_is_never_lifted:
  assumes "truthy (dget (ops_row st) ''entries_paused'')"
  shows "truthy (dget (ops_row (fold (\<lambda>(env, sk) s. snd (evaluate_and_trip env sk s)) runs st)) ''entries_paused'')
     \<and> dget (ops_row (fold (\<lambda>(env, sk) s. snd (evaluate_and_trip env sk s)) runs st)) ''entries_pause_reason''
       = dget (ops_row st) ''entries_pause_reason''"
  using assms
proof (induction runs arbitrary: st)
  case (Cons run runs)
  obtain env sk where run: "run = (env, sk)" by fastforce
  have step: "halted (snd (evaluate_and_trip env sk st))
      \<and> dget (ops_row (snd (evaluate_and_trip env sk st))) ''entries_pause_reason'' = dget (ops_row st) ''entries_pause_reason''"
    using evaluate_halted [of env sk st] Cons.prems by (metis halted_def prod.collapse)
  then show ?case using Cons.IH [of "snd (evaluate_and_trip env sk st)"] run by (simp add: halted_def)
qed simp

text \<open>The cases in which the breaker has to act.\<close>

definition must_trip :: "environ \<Rightarrow> streak_env \<Rightarrow> brake_state \<Rightarrow> bool" where
  "must_trip env sk st \<longleftrightarrow>
     \<not> sk_outcomes_ok sk
     \<or> (streak_n env \<le> int (length (loss_window (nat (streak_n env)) st))
        \<and> (case all_losses (loss_window (nat (streak_n env)) st) of
             Inl _ \<Rightarrow> True
           | Inr b \<Rightarrow> b \<and> read_fingerprint sk st \<noteq> Some (fingerprint sk (loss_window (nat (streak_n env)) st))))"

lemma trip_holds:
  assumes "sk_pause_read_ok sk" and "sk_pause_write_ok sk" and "bs_ops st = Some row"
  shows "halted (snd (trip_breaker sk n fp st))" and "halted (snd (breaker_failed sk e b st))"
proof -
  obtain w al f st1 where p: "pause_entries sk (LossStreak n) st = ((w, al, f), st1)" by (metis prod.collapse)
  show "halted (snd (trip_breaker sk n fp st))"
    using pause_holds [OF p assms] p by (auto simp: trip_breaker_def Let_def halted_def stamp_keeps)
  obtain w al f st1 where q: "pause_entries sk (EvaluationError e) st = ((w, al, f), st1)" by (metis prod.collapse)
  show "halted (snd (breaker_failed sk e b st))" using pause_holds [OF q assms] q by (auto simp: breaker_failed_def halted_def)
qed

lemma must_trip_halts:
  assumes "default_on (env ''STREAK_BREAKER_ENABLED'')" and "must_trip env sk st"
    and "sk_pause_read_ok sk" and "sk_pause_write_ok sk" and "bs_ops st = Some row"
  shows "halted (snd (evaluate_and_trip env sk st))"
  using assms(1,2) trip_holds [OF assms(3-5)]
  by (auto simp: evaluate_and_trip_def must_trip_def Let_def split: sum.splits bool.splits)

text \<open>
  C26 (safety). After enough consecutive losses, or an evaluation that fails, nothing is entered: when the
  window of live outcomes is full of losses that no earlier trip was stamped for, when the
  outcomes cannot be read, or when one of them is no number, the breaker, which is on, pauses the
  entries, and the next entry run leaves suggestions, orders and positions untouched. This needs
  the row of the operations control to exist, and its read and write by the breaker and its read
  by the entry run to work: each of the two fails open, the breaker when the pause cannot be written
  (the theorem on a failed pause), the entry run when the row cannot be read.
\<close>

theorem losing_streak_stops_entries:
  assumes "default_on (env ''STREAK_BREAKER_ENABLED'')" and "must_trip env sk (es_brake st)"
    and "sk_pause_read_ok sk" and "sk_pause_write_ok sk" and "bs_ops (es_brake st) = Some row"
    and "gi_ops_read_ok gates"
  shows "let st1 = st\<lparr>es_brake := snd (evaluate_and_trip env sk (es_brake st))\<rparr>
     in fst (execute_top_suggestions run gates plans st1) \<in> {TradingPaused, EntriesPaused (dget (ops_row (es_brake st1)) ''entries_pause_reason'')}
        \<and> snd (execute_top_suggestions run gates plans st1) = st1"
proof -
  let ?br = "snd (evaluate_and_trip env sk (es_brake st))"
  have halted: "halted ?br" by (rule must_trip_halts [OF assms(1-5)])
  then have "map_of (ops_row ?br) ''entries_paused'' \<noteq> None" by (auto simp: halted_def dget_def split: option.splits)
  then have "are_entries_paused (gi_ops_read_ok gates) ?br = (True, dget (ops_row ?br) ''entries_pause_reason'')"
    using assms(6) halted by (simp add: are_entries_paused_def halted_def)
  then show ?thesis by (simp add: execute_top_suggestions_def Let_def)
qed

text \<open>The text ids of a window, as its rows have them.\<close>

definition text_ids :: "pydict list \<Rightarrow> bool" where
  "text_ids rows \<longleftrightarrow> rows \<noteq> [] \<and> (\<forall>r \<in> set rows. \<exists>s. dget r ''id'' = PStr s \<and> s \<noteq> [])"

lemma fingerprint_of_texts:
  assumes "text_ids rows"
  shows "fingerprint sk rows = sort_by text_before (map (\<lambda>r. case dget r ''id'' of PStr s \<Rightarrow> s | _ \<Rightarrow> []) rows)"
proof -
  have "map (\<lambda>r. case dget r ''id'' of PStr s \<Rightarrow> s | v \<Rightarrow> sk_str sk v) rows = map (\<lambda>r. case dget r ''id'' of PStr s \<Rightarrow> s | _ \<Rightarrow> []) rows"
    using assms by (auto simp: text_ids_def)
  then show ?thesis unfolding fingerprint_def by (rule arg_cong)
qed

lemma fingerprint_texts:
  assumes "text_ids rows"
  shows "fingerprint sk rows \<noteq> [] \<and> (\<forall>s \<in> set (fingerprint sk rows). s \<noteq> []) \<and> fingerprint sk2 rows = fingerprint sk rows"
proof -
  have "length (fingerprint sk rows) = length rows" by (simp add: fingerprint_def)
  then have "fingerprint sk rows \<noteq> []" using assms by (metis length_0_conv text_ids_def)
  moreover have "\<forall>s \<in> set (fingerprint sk rows). s \<noteq> []"
    using assms by (auto simp: fingerprint_of_texts [OF assms] text_ids_def)
  ultimately show ?thesis by (simp add: fingerprint_of_texts [OF assms])
qed

lemma stamp_is_read:
  assumes "text_ids rows" and "sk_stamp_read_ok sk2" and "bs_ops st = Some row"
  shows "read_fingerprint sk2 (write_ops (fingerprint_stamp sk (fingerprint sk rows)) st) = Some (fingerprint sk rows)"
proof -
  let ?fp = "fingerprint sk rows"
  have texts: "?fp \<noteq> []" "\<forall>s \<in> set ?fp. s \<noteq> []" using fingerprint_texts [OF assms(1)] by auto
  have state: "dget (ops_row (write_ops (fingerprint_stamp sk ?fp) st)) ''streak_breaker_state''
      = PDict [(''last_tripped_fingerprint'', PList (map PStr ?fp)), (''tripped_at'', PStr (sk_now_text sk))]"
    using assms(3) by (simp add: fingerprint_stamp_def dget_dset_all)
  have "sort_by text_before ?fp = ?fp" by (simp add: fingerprint_def sort_texts_twice)
  then show ?thesis using assms(2) texts state
    by (simp add: read_fingerprint_def py_or_def dget_def list_all_iff comp_def)
qed

text \<open>
  C28 (safety). A defect: a pause that could not be written is never tried again. A trip stamps the window of
  losses as reviewed even when writing the pause failed, so the entries stay open, and every later
  evaluation of the same window, with a database that works again, takes it for one the operator
  has cleared and does nothing.
\<close>

theorem failed_pause_is_never_retried:
  assumes "evaluate_and_trip env sk st = (rep, st1)" and "sr_tripped rep" and "sr_pause_failed rep" and "sr_stamped rep"
    and "bs_ops st = Some row" and "\<not> truthy (dget row ''entries_paused'')"
    and "text_ids (loss_window (nat (streak_n env)) st)"
    and "default_on (env ''STREAK_BREAKER_EDGE_TRIGGER_ENABLED'')" and "sk_outcomes_ok sk2" and "sk_stamp_read_ok sk2"
  shows "evaluate_and_trip env sk2 st1 = (quiet_report True StandingWindow, st1) \<and> \<not> truthy (dget (ops_row st1) ''entries_paused'')"
proof -
  let ?n = "streak_n env" let ?rows = "loss_window (nat (streak_n env)) st"
  have on: "default_on (env ''STREAK_BREAKER_ENABLED'')" and full: "\<not> int (length ?rows) < ?n" and losses: "all_losses ?rows = Inr True"
    and trip: "trip_breaker sk ?n (fingerprint sk ?rows) st = (rep, st1)"
    using assms(1,2) by (auto simp: evaluate_and_trip_def Let_def quiet_report_def breaker_failed_def split: if_splits sum.splits bool.splits prod.splits)
  obtain w al f st0 where p: "pause_entries sk (LossStreak ?n) st = ((w, al, f), st0)" by (metis prod.collapse)
  have st1: "st1 = write_ops (fingerprint_stamp sk (fingerprint sk ?rows)) (raise_alert (StreakTripped (fingerprint sk ?rows) w al) st0)" and f
    using trip p assms(3,4) by (auto simp: trip_breaker_def Let_def)
  have st0: "bs_ops st0 = Some row" using p \<open>f\<close> assms(5) by (auto simp: pause_entries_def raise_alert_def split: if_splits)
  have window: "loss_window m st1 = loss_window m st" for m using st1 pause_keeps(1) [OF p] by simp
  have "read_fingerprint sk2 st1 = Some (fingerprint sk ?rows)"
    unfolding st1 by (rule stamp_is_read [OF assms(7,10)]) (simp add: st0)
  moreover have "fingerprint sk2 ?rows = fingerprint sk ?rows" using fingerprint_texts [OF assms(7)] by blast
  ultimately have "evaluate_and_trip env sk2 st1 = (quiet_report True StandingWindow, st1)"
    using on full losses assms(8,9) window by (simp add: evaluate_and_trip_def Let_def)
  moreover have "ops_row st0 = row" using st0 by (simp add: ops_row_def)
  then have "\<not> truthy (dget (ops_row st1) ''entries_paused'')" using st1 assms(6) by (simp add: stamp_keeps)
  ultimately show ?thesis by blast
qed

subsection \<open>The cooldown\<close>

lemma stamp_blocked_fields [simp]:
  "es_cooldowns (stamp_blocked run sid reason st) = es_cooldowns st" "es_world (stamp_blocked run sid reason st) = es_world st"
  "es_brake (stamp_blocked run sid reason st) = es_brake st"
  by (simp_all add: stamp_blocked_def)

lemma stamp_not_executable_fields:
  "stamp_not_executable run sid reason st = (ok, st') \<Longrightarrow> es_cooldowns st' = es_cooldowns st \<and> es_world st' = es_world st"
  by (auto simp: stamp_not_executable_def split: if_splits)

text \<open>What is kept by the entry of one suggestion when its staging and processing keep it.\<close>

lemma stage_entry_keeps:
  assumes "stage_entry run pf s b risk res st = (fin, res', st')"
    and "\<And>w. P w \<Longrightarrow> P (snd (er_stage run s pf w))" and "\<And>oid w. P w \<Longrightarrow> P (snd (er_process run oid w))" and "P (es_world st)"
  shows "P (es_world st') \<and> es_cooldowns st' = es_cooldowns st"
proof -
  obtain out w where staged: "er_stage run s pf (es_world st) = (out, w)" by fastforce
  have w: "P w" using assms(2) [OF assms(4)] staged by simp
  show ?thesis
  proof (cases out)
    case (Inl e)
    then show ?thesis using assms(1) staged w
      by (cases e) (auto simp: stage_entry_def dest: stamp_not_executable_fields split: prod.splits)
  next
    case (Inr oid)
    obtain res1 w' where proc: "er_process run oid w = (res1, w')" by fastforce
    then have "P w'" using assms(3) [OF w, of oid] by simp
    then show ?thesis using assms(1) staged w Inr proc
      by (auto simp: stage_entry_def Let_def split: if_splits sum.splits)
  qed
qed

text \<open>A suggestion is refused, or passes all gates and is staged.\<close>

lemma enter_one_cases:
  assumes "enter_one run pf positions equity executed held s res st = (fin, res', st')"
  obtains (Refused) "es_world st' = es_world st" and "es_cooldowns st' = es_cooldowns st" and "res' = res" and "\<forall>oid n. fin \<noteq> Executed oid n"
  | (Staged) d risk where "row_id s \<notin> executed" and "ticker_of s \<notin> held" and "cooldown_clear run pf s st" and "utilization_check run pf s st = Inr ()"
      and "bucket_check run positions equity s res = Inr (d, risk)"
      and "bucket_enforcement_action d (bucket_enforced (er_environ run)) \<in> {BucketAlarm, BucketProceed}"
      and "stage_entry run pf s (bd_bucket d) risk res st = (fin, res', st')"
proof (cases "row_id s \<in> executed \<or> ticker_of s \<in> held \<or> \<not> cooldown_clear run pf s st")
  case True
  then show ?thesis using assms Refused by (auto simp: enter_one_def split: if_splits)
next
  case pass: False
  show ?thesis
  proof (cases "utilization_check run pf s st")
    case (Inl e)
    then show ?thesis using assms pass Refused by (cases e) (auto simp: enter_one_def)
  next
    case util: (Inr u)
    show ?thesis
    proof (cases "bucket_check run positions equity s res")
      case (Inl e)
      then have "enter_one run pf positions equity executed held s res st = (EntryFailed e, res, st)" using pass util by (simp add: enter_one_def)
      then have "fin = EntryFailed e" "res' = res" "st' = st" using assms by simp_all
      then show ?thesis using Refused by simp
    next
      case (Inr x)
      obtain d risk where x: "x = (d, risk)" by fastforce
      show ?thesis
      proof (cases "bucket_enforcement_action d (bucket_enforced (er_environ run)) \<in> {BucketAlarm, BucketProceed}")
        case True
        then have "stage_entry run pf s (bd_bucket d) risk res st = (fin, res', st')"
          using pass util Inr x unfolding assms [symmetric] by (elim insertE emptyE) (simp_all add: enter_one_def)
        then show ?thesis using Staged pass util Inr x True by simp
      next
        case False
        then obtain a reason where "enter_one run pf positions equity executed held s res st = (BucketRefused a, res, stamp_blocked run (row_id s) reason st)"
          using pass util Inr x by (cases "bucket_enforcement_action d (bucket_enforced (er_environ run))") (simp_all add: enter_one_def)
        then have "fin = BucketRefused a" "res' = res" "st' = stamp_blocked run (row_id s) reason st" using assms by simp_all
        then show ?thesis using Refused by simp
      qed
    qed
  qed
qed

lemma enter_one_keeps:
  assumes "enter_one run pf positions equity executed held s res st = (fin, res', st')"
    and "\<And>w. cooldown_clear run pf s st \<Longrightarrow> P w \<Longrightarrow> P (snd (er_stage run s pf w))" and "\<And>oid w. P w \<Longrightarrow> P (snd (er_process run oid w))"
    and "P (es_world st)"
  shows "P (es_world st') \<and> es_cooldowns st' = es_cooldowns st"
  using assms(1)
proof (cases rule: enter_one_cases)
  case Staged
  show ?thesis by (rule stage_entry_keeps [OF Staged(7), where P = P]) (use Staged(3) assms(2-4) in blast)+
qed (use assms(4) in simp)

lemma enter_all_keeps:
  assumes "enter_all run pf positions equity executed held rows res st = (outs, res', st')"
    and "\<And>s st0 w. es_cooldowns st0 = es_cooldowns st \<Longrightarrow> cooldown_clear run pf s st0 \<Longrightarrow> P w \<Longrightarrow> P (snd (er_stage run s pf w))"
    and "\<And>oid w. P w \<Longrightarrow> P (snd (er_process run oid w))" and "P (es_world st)"
  shows "P (es_world st') \<and> es_cooldowns st' = es_cooldowns st"
  using assms
proof (induction rows arbitrary: res st outs)
  case (Cons s rows)
  obtain fin res1 st1 where one: "enter_one run pf positions equity executed held s res st = (fin, res1, st1)" by (rule prod_cases3)
  obtain outs2 where rest: "enter_all run pf positions equity executed held rows res1 st1 = (outs2, res', st')"
    using Cons.prems(1) one by (auto split: prod.splits)
  have "P (es_world st1) \<and> es_cooldowns st1 = es_cooldowns st"
    by (rule enter_one_keeps [OF one, where P = P]) (use Cons.prems(2-4) in blast)+
  then show ?case using Cons.IH [OF rest] Cons.prems(2,3) by auto
qed simp

lemma run_cohort_keeps:
  assumes "run_cohort run plan st = Inr (outs, st')"
    and "\<And>s st0 w. es_cooldowns st0 = es_cooldowns st \<Longrightarrow> cooldown_clear run (cp_portfolio plan) s st0 \<Longrightarrow> P w \<Longrightarrow> P (snd (er_stage run s (cp_portfolio plan) w))"
    and "\<And>oid w. P w \<Longrightarrow> P (snd (er_process run oid w))" and "P (es_world st)"
  shows "P (es_world st') \<and> es_cooldowns st' = es_cooldowns st"
proof (cases "truthy (cp_portfolio plan)")
  case True
  then obtain rows where rows: "viability_rank (er_environ run) (pending_for run (cp_name plan) (es_suggestions st)) = Inr rows"
    using assms(1) by (auto simp: run_cohort_def rbind_Inr_iff split: if_splits)
  let ?mine = "own_positions (cp_portfolio plan) (er_positions run (es_world st))"
  obtain outs1 res1 st1 where all: "enter_all run (cp_portfolio plan) ?mine (er_equity run (es_world st)) (er_executed run (es_world st))
      (held_symbols ?mine) (filter_benched run plan st (first_rows (cp_max plan) rows)) (\<lambda>_. None) st = (outs1, res1, st1)"
    by (rule prod_cases3)
  then have "st1 = st'" using assms(1) True rows by (simp add: run_cohort_def Let_def split: if_splits)
  then show ?thesis using enter_all_keeps [OF all, where P = P] assms(2-4) by blast
qed (use assms in \<open>simp add: run_cohort_def\<close>)

lemma run_cohorts_keeps:
  assumes "run_cohorts run plans st = (res, st')"
    and "\<And>s pf st0 w. es_cooldowns st0 = es_cooldowns st \<Longrightarrow> cooldown_clear run pf s st0 \<Longrightarrow> P w \<Longrightarrow> P (snd (er_stage run s pf w))"
    and "\<And>oid w. P w \<Longrightarrow> P (snd (er_process run oid w))" and "P (es_world st)"
  shows "P (es_world st')"
  using assms
proof (induction plans arbitrary: st res)
  case (Cons plan plans)
  show ?case
  proof (cases "run_cohort run plan st")
    case (Inl e)
    then show ?thesis using Cons.prems(1,4) by simp
  next
    case (Inr r)
    obtain outs st1 where r: "r = (outs, st1)" by fastforce
    have one: "P (es_world st1) \<and> es_cooldowns st1 = es_cooldowns st"
      by (rule run_cohort_keeps [OF Inr [unfolded r], where P = P]) (use Cons.prems(2-4) in blast)+
    obtain res2 where "run_cohorts run plans st1 = (res2, st')"
      using Cons.prems(1) Inr r by (cases "run_cohorts run plans st1") (auto split: sum.splits)
    then show ?thesis using Cons.IH Cons.prems(2,3) one by metis
  qed
qed simp

lemma benched_runs_keep:
  assumes "cooldown_enabled (er_environ run)" and "\<forall>sid. er_cooldown_read run sid \<noteq> TableMissing"
    and "list_ex (benched (er_now run) (cohort_id_of run pf) symbol) (es_cooldowns st)"
    and "\<forall>s p w. P w \<longrightarrow> (p, ticker_of s) \<noteq> (pf, symbol) \<longrightarrow> P (snd (er_stage run s p w))"
    and "\<forall>oid w. P w \<longrightarrow> P (snd (er_process run oid w))" and "\<forall>w. P w \<longrightarrow> P (snd (er_sweep run w))"
    and "P (es_world st)"
  shows "P (es_world (snd (execute_per_cohort run plans st)))"
proof -
  have blocked: "\<not> cooldown_clear run p s st0"
    if "es_cooldowns st0 = es_cooldowns st" and "(p, ticker_of s) = (pf, symbol)" for s p and st0 :: "'a entry_state"
    using that assms(1-3) by (cases "er_cooldown_read run (row_id s)") (auto simp: cooldown_clear_def cooldown_active_def)
  obtain res st1 where run: "run_cohorts run plans st = (res, st1)" by fastforce
  have "P (es_world st1)" by (rule run_cohorts_keeps [OF run, where P = P]) (use assms(4,5,7) blocked in blast)+
  then show ?thesis using run assms(6) by (auto simp: execute_per_cohort_def split: sum.splits)
qed

definition benched_until :: "rat \<Rightarrow> pyval \<Rightarrow> pyval \<Rightarrow> cooldown_row list \<Rightarrow> bool" where
  "benched_until until cohort symbol rows \<longleftrightarrow> (\<exists>r \<in> set rows. cd_cohort r = cohort \<and> cd_symbol r = symbol \<and> cd_until r = until)"

lemma write_cooldown_keeps:
  "write_cooldown io now row rows = (b, rows') \<Longrightarrow> set rows \<subseteq> set rows' \<and> set rows' \<subseteq> insert row (set rows)"
  by (auto simp: write_cooldown_def split: if_splits)

lemma write_stops_keeps:
  "write_stops io now until stops rows = (n, rows') \<Longrightarrow>
     set rows \<subseteq> set rows' \<and> set rows' \<subseteq> set rows \<union> stop_row until ` set stops"
proof (induction stops arbitrary: rows n)
  case (Cons stop stops)
  then show ?case by (auto split: prod.splits dest!: write_cooldown_keeps Cons.IH)
qed simp

text \<open>A stop without an earlier cooldown gets one of its own, or shares that of another stop.\<close>

lemma write_stops_bench:
  assumes "write_stops io now until stops rows = (n, rows')" and "stop \<in> set stops" and "ci_insert_ok (io stop)"
    and "dget stop ''cohort_id'' = cohort" and "dget stop ''symbol'' = symbol"
    and "\<not> list_ex (benched now cohort symbol) rows \<or> benched_until until cohort symbol rows"
  shows "benched_until until cohort symbol rows'"
  using assms
proof (induction stops arbitrary: rows n)
  case (Cons first stops)
  obtain b rows1 where one: "write_cooldown (io first) now (stop_row until first) rows = (b, rows1)" by fastforce
  obtain m where rest: "write_stops io now until stops rows1 = (m, rows')" using Cons.prems(1) one by (auto split: prod.splits)
  have keep: "set rows1 \<subseteq> set rows'" using write_stops_keeps [OF rest] by blast
  have sub: "set rows \<subseteq> set rows1" "set rows1 \<subseteq> insert (stop_row until first) (set rows)" using write_cooldown_keeps [OF one] by blast+
  show ?case
  proof (cases "benched_until until cohort symbol rows1")
    case True
    then show ?thesis using keep by (auto simp: benched_until_def)
  next
    case False
    then have none: "\<not> benched_until until cohort symbol rows" using sub by (auto simp: benched_until_def)
    then have free: "\<not> list_ex (benched now cohort symbol) rows" using Cons.prems(6) by blast
    have "stop \<noteq> first"
    proof
      assume "stop = first"
      then have "rows1 = rows @ [stop_row until first]"
        using one free Cons.prems(3-5) by (cases "ci_read (io first)") (auto simp: write_cooldown_def cooldown_active_def stop_row_def split: if_splits)
      then show False using False \<open>stop = first\<close> Cons.prems(4,5) by (auto simp: benched_until_def stop_row_def)
    qed
    moreover have "\<not> list_ex (benched now cohort symbol) rows1"
    proof
      assume "list_ex (benched now cohort symbol) rows1"
      then obtain r where r: "r \<in> set rows1" "benched now cohort symbol r" by (auto simp: list_ex_iff)
      then have "r = stop_row until first" using sub(2) free by (auto simp: list_ex_iff)
      then show False using r False by (auto simp: benched_def benched_until_def stop_row_def)
    qed
    ultimately show ?thesis using Cons.IH [OF rest] Cons.prems(2-5) by simp
  qed
qed simp

text \<open>
  C29 (safety). A symbol that was just stopped out is not entered again. With the cooldowns on, once the monitor has written the
  cooldown of a loss stop (its insertion worked, and no earlier cooldown of the symbol was active,
  which would have been kept in its place), and while the cohort of the portfolio can be looked up
  and the table exists, no run over the cohorts before the cooldown's end stages an order for the
  symbol in that cohort's portfolio, whatever else the run reads and whichever of its other reads
  fail. Whatever only such an order could break therefore still holds afterwards.
\<close>

theorem stopped_symbols_stay_out:
  assumes "write_reentry_cooldowns (er_environ run) parse to_text clock io now stops rows = (n, es_cooldowns st)"
    and "cooldown_enabled (er_environ run)" and "stop \<in> set stops" and "ci_insert_ok (io stop)"
    and "truthy pf" and "er_cohort_read run pf" and "find (\<lambda>r. dget r ''portfolio_id'' = pf) (er_cohorts run) = Some c"
    and "dget stop ''cohort_id'' = row_id c" and "row_id c \<noteq> PNone" and "dget stop ''symbol'' = symbol"
    and "\<not> list_ex (benched now (row_id c) symbol) rows"
    and "er_now run < compute_cooldown_until (er_environ run) parse to_text clock now" and "\<forall>sid. er_cooldown_read run sid \<noteq> TableMissing"
    and "\<forall>s p w. P w \<longrightarrow> (p, ticker_of s) \<noteq> (pf, symbol) \<longrightarrow> P (snd (er_stage run s p w))"
    and "\<forall>oid w. P w \<longrightarrow> P (snd (er_process run oid w))" and "\<forall>w. P w \<longrightarrow> P (snd (er_sweep run w))" and "P (es_world st)"
  shows "P (es_world (snd (execute_per_cohort run plans st)))"
proof -
  let ?until = "compute_cooldown_until (er_environ run) parse to_text clock now"
  have id: "cohort_id_of run pf = row_id c" using assms(5-7) by (simp add: cohort_id_of_def resolve_cohort_id_def)
  have "write_stops io now ?until stops rows = (n, es_cooldowns st)"
    using assms(1-3) by (auto simp: write_reentry_cooldowns_def split: if_splits)
  from write_stops_bench [OF this assms(3,4,8,10)] assms(11) have "benched_until ?until (row_id c) symbol (es_cooldowns st)" by blast
  then have "list_ex (benched (er_now run) (cohort_id_of run pf) symbol) (es_cooldowns st)"
    using assms(9,12) id by (auto simp: benched_until_def benched_def list_ex_iff)
  from benched_runs_keep [OF assms(2,13) this assms(14-17)] show ?thesis .
qed

text \<open>A failed lookup of the cohort opens the gate that a failed read of the cooldowns closes.\<close>

lemma failed_lookup_opens_the_gate:
  assumes "\<not> er_cohort_read run pf" and "er_cooldown_read run (row_id s) \<noteq> TableFailed"
  shows "cooldown_clear run pf s st"
  using assms by (cases "er_cooldown_read run (row_id s)")
    (auto simp: cooldown_clear_def cooldown_active_def cohort_id_of_def resolve_cohort_id_def benched_def list_ex_iff)

text \<open>When the next opening that the clock reports has passed, the rows that are written bench nothing.\<close>

lemma past_opening_benches_nothing:
  assumes "override_minutes env = None" and "dget d ''next_open'' = PStr t" and "t \<noteq> []" and "parse t = Some u" and "u \<le> now"
    and "\<forall>c s. \<not> list_ex (benched now c s) rows" and "write_reentry_cooldowns env parse to_text (Inr d) io now stops rows = (n, rows')"
  shows "cooldown_active TableRead now c s rows' = Inr False"
proof -
  have until: "compute_cooldown_until env parse to_text (Inr d) now = u" using assms(1-4) by (simp add: compute_cooldown_until_def)
  have "set rows' \<subseteq> set rows \<union> stop_row u ` set stops"
    using assms(7) write_stops_keeps [of io now u stops rows n rows'] until by (auto simp: write_reentry_cooldowns_def split: if_splits)
  moreover have "\<not> benched now c s (stop_row u stop)" for stop using assms(5) by (simp add: benched_def stop_row_def)
  ultimately show ?thesis using assms(6) by (auto simp: cooldown_active_def list_ex_iff)
qed

subsection \<open>Buckets\<close>

text \<open>What is open in the bucket and what was reserved in this run are within the cap, once anything was reserved.\<close>

definition bucket_within :: "string \<Rightarrow> pydict list \<Rightarrow> rat \<Rightarrow> reservations \<Rightarrow> bool" where
  "bucket_within b positions cap res \<longleftrightarrow>
     (\<exists>s leg unk. bucket_open b positions (Fin 0, False, 0) = Inr (Fin s, leg, unk)
        \<and> (\<forall>x. res b = Some x \<longrightarrow> (\<exists>y. x = Fin y \<and> s + y \<le> cap)))"

text \<open>A candidate: its ticker, its risk, and whether that is unknown.\<close>

definition bucket_admits :: "environ \<Rightarrow> pydict list \<Rightarrow> pynum \<Rightarrow> reservations \<Rightarrow> pyval \<times> pynum \<times> bool \<Rightarrow> bool" where
  "bucket_admits env positions equity res c \<longleftrightarrow>
     (case evaluate_bucket env (fst c) (fst (snd c)) (snd (snd c)) positions res equity of
        Inl _ \<Rightarrow> False | Inr d \<Rightarrow> bucket_enforcement_action d True = BucketProceed)"

definition bucket_add :: "reservations \<Rightarrow> pyval \<times> pynum \<times> bool \<Rightarrow> reservations" where
  "bucket_add res c = (case bucket_for (fst c) of Inl _ \<Rightarrow> res | Inr b \<Rightarrow> reserve b (fst (snd c)) res)"

lemma evaluate_bucket_parts:
  assumes "evaluate_bucket env ticker risk unknown positions res equity = Inr d"
  obtains s leg unk where "bucket_for ticker = Inr (bd_bucket d)" and "bucket_open (bd_bucket d) positions (Fin 0, False, 0) = Inr (s, leg, unk)"
    and "bd_cap d = fmul (bucket_max_pct env) equity" and "bd_total d = fadd (fadd s (reserved_in res (bd_bucket d))) (fmax (Fin 0) risk)"
    and "bd_would_block d \<longleftrightarrow> flt (Fin 0) (bd_cap d) \<and> flt (bd_cap d) (bd_total d)" and "\<not> bd_not_armable d \<Longrightarrow> flt (Fin 0) (bd_cap d)"
  using assms by (auto simp: evaluate_bucket_def rbind_Inr_iff Let_def)

text \<open>An admitted candidate of the bucket is reserved in full, within the cap; others leave the bucket alone.\<close>

lemma admitted_in_bucket:
  assumes "fmul (bucket_max_pct env) equity = Fin cap" and "bucket_within b positions cap res" and "bucket_admits env positions equity res c"
    and "bucket_for (fst c) = Inr b"
  shows "bucket_within b positions cap (bucket_add res c)"
    and "\<exists>m y. fmax (Fin 0) (fst (snd c)) = Fin m \<and> 0 \<le> m \<and> reserved_in res b = Fin y \<and> bucket_add res c b = Some (Fin (y + m))"
proof -
  obtain d where d: "evaluate_bucket env (fst c) (fst (snd c)) (snd (snd c)) positions res equity = Inr d"
    and go: "bucket_enforcement_action d True = BucketProceed" using assms(3) by (auto simp: bucket_admits_def split: sum.splits)
  obtain s leg unk where parts: "bd_bucket d = b" "bucket_open b positions (Fin 0, False, 0) = Inr (s, leg, unk)"
    "bd_cap d = Fin cap" "bd_total d = fadd (fadd s (reserved_in res b)) (fmax (Fin 0) (fst (snd c)))"
    "bd_would_block d \<longleftrightarrow> flt (Fin 0) (bd_cap d) \<and> flt (bd_cap d) (bd_total d)" "\<not> bd_not_armable d \<Longrightarrow> flt (Fin 0) (bd_cap d)"
    using evaluate_bucket_parts [OF d] assms(1,4) by (metis sum.inject(2))
  have allowed: "\<not> flt (Fin cap) (bd_total d)" using go parts(3,5,6) by (auto simp: bucket_enforcement_action_def split: if_splits)
  obtain s' where s: "s = Fin s'" and old: "\<forall>x. res b = Some x \<longrightarrow> (\<exists>y. x = Fin y \<and> s' + y \<le> cap)"
    using assms(2) parts(2) by (auto simp: bucket_within_def)
  obtain y where y: "reserved_in res b = Fin y" using old by (cases "res b") (force simp: reserved_in_def)+
  obtain m where m: "fmax (Fin 0) (fst (snd c)) = Fin m" "0 \<le> m" "s' + y + m \<le> cap"
    using allowed parts(4) s y by (cases "fst (snd c)") (auto simp: fmax_def max_def split: if_splits)
  have new: "bucket_add res c = res(b \<mapsto> Fin (y + m))" using assms(4) y m by (simp add: bucket_add_def reserve_def)
  show "bucket_within b positions cap (bucket_add res c)" using parts(2) s m(3) by (simp add: new bucket_within_def algebra_simps)
  show "\<exists>m y. fmax (Fin 0) (fst (snd c)) = Fin m \<and> 0 \<le> m \<and> reserved_in res b = Fin y \<and> bucket_add res c b = Some (Fin (y + m))"
    using m y by (simp add: new)
qed

lemma other_bucket: "bucket_for (fst c) \<noteq> Inr b \<Longrightarrow> bucket_add res c b = res b"
  by (auto simp: bucket_add_def reserve_def split: sum.splits)

interpretation bucket: bounded_gate "bucket_admits env positions equity" bucket_add
  "\<lambda>res. \<exists>cap. fmul (bucket_max_pct env) equity = Fin cap \<and> bucket_within b positions cap res" for env positions equity b
proof unfold_locales
  fix res c
  assume "\<exists>cap. fmul (bucket_max_pct env) equity = Fin cap \<and> bucket_within b positions cap res" and admit: "bucket_admits env positions equity res c"
  then obtain cap where cap: "fmul (bucket_max_pct env) equity = Fin cap" "bucket_within b positions cap res" by blast
  have "bucket_within b positions cap (bucket_add res c)"
    using admitted_in_bucket(1) [OF cap admit] cap(2) other_bucket [of c b res]
    by (cases "bucket_for (fst c) = Inr b") (simp_all add: bucket_within_def)
  then show "\<exists>cap. fmul (bucket_max_pct env) equity = Fin cap \<and> bucket_within b positions cap (bucket_add res c)" using cap(1) by blast
qed

text \<open>What an end adds to a bucket: the risk of a suggestion that was executed.\<close>

definition entered_risk :: "string \<Rightarrow> pydict \<times> pyval \<times> entry_end \<Rightarrow> rat" where
  "entered_risk b z =
     (case snd (snd z) of
        Executed _ _ \<Rightarrow>
          if bucket_for (ticker_of (fst z)) = Inr b
          then (case candidate_risk_usd (fst z) of Inr (x, _) \<Rightarrow> (case fmax (Fin 0) x of Fin m \<Rightarrow> m | _ \<Rightarrow> 0) | Inl _ \<Rightarrow> 0) else 0
      | _ \<Rightarrow> 0)"

definition entered_in :: "string \<Rightarrow> pydict \<times> pyval \<times> entry_end \<Rightarrow> bool" where
  "entered_in b z \<longleftrightarrow> bucket_for (ticker_of (fst z)) = Inr b \<and> (case snd (snd z) of Executed _ _ \<Rightarrow> True | _ \<Rightarrow> False)"

lemma entered_risk_nonneg: "0 \<le> entered_risk b z"
proof -
  have "0 \<le> (case fmax (Fin 0) x of Fin m \<Rightarrow> m | _ \<Rightarrow> 0)" for x by (cases x) (auto simp: fmax_def)
  then show ?thesis by (auto simp: entered_risk_def split: entry_end.splits sum.splits)
qed

lemma entered_risk_none: "\<not> entered_in b z \<Longrightarrow> entered_risk b z = 0"
  by (auto simp: entered_risk_def entered_in_def split: entry_end.splits)

text \<open>Staging reserves the candidate, or nothing and then enters nothing.\<close>

lemma stage_entry_reserves:
  assumes "stage_entry run pf s b risk res st = (fin, res', st')"
  shows "res' = reserve b risk res \<or> (res' = res \<and> (\<forall>oid n. fin \<noteq> Executed oid n))"
proof -
  obtain out w where staged: "er_stage run s pf (es_world st) = (out, w)" by fastforce
  show ?thesis
  proof (cases out)
    case (Inl e)
    then show ?thesis using assms staged by (cases e) (auto simp: stage_entry_def split: prod.splits)
  next
    case (Inr oid)
    then show ?thesis using assms staged by (auto simp: stage_entry_def Let_def split: if_splits sum.splits prod.splits)
  qed
qed

lemma bucket_within_reserved: "bucket_within b positions cap res \<Longrightarrow> \<exists>y. reserved_in res b = Fin y"
  unfolding bucket_within_def reserved_in_def by (cases "res b") force+

text \<open>One suggestion keeps the bucket within its cap, and what it adds is reserved.\<close>

lemma enter_one_bucket:
  assumes "enter_one run pf positions equity executed held s res st = (fin, res', st')" and "bucket_enforced (er_environ run)"
    and "fmul (bucket_max_pct (er_environ run)) (case equity of None \<Rightarrow> Fin 0 | Some e \<Rightarrow> e) = Fin cap" and "bucket_within b positions cap res"
  shows "bucket_within b positions cap res'
      \<and> (\<exists>y y'. reserved_in res b = Fin y \<and> reserved_in res' b = Fin y' \<and> y + entered_risk b (s, row_id s, fin) \<le> y')
      \<and> (res b \<noteq> None \<or> entered_in b (s, row_id s, fin) \<longrightarrow> res' b \<noteq> None)"
proof -
  let ?z = "(s, row_id s, fin)"
  have same: ?thesis if "res' b = res b" and "\<not> entered_in b ?z"
    using that assms(4) bucket_within_reserved [OF assms(4)] entered_risk_none [OF that(2)]
    by (auto simp: bucket_within_def reserved_in_def)
  from assms(1) show ?thesis
  proof (cases rule: enter_one_cases)
    case Refused
    then have "\<not> entered_in b ?z" by (auto simp: entered_in_def split: entry_end.splits)
    then show ?thesis using same Refused(3) by simp
  next
    case (Staged d risk)
    let ?eq = "case equity of None \<Rightarrow> Fin 0 | Some e \<Rightarrow> e"
    obtain l unk where risk: "candidate_risk_usd s = Inr (risk, l, unk)"
      and d: "evaluate_bucket (er_environ run) (ticker_of s) risk unk positions res ?eq = Inr d"
      using Staged(5) by (auto simp: bucket_check_def rbind_Inr_iff)
    let ?c = "(ticker_of s, risk, unk)"
    have "bucket_enforcement_action d True = BucketProceed" using Staged(6) assms(2) by (auto simp: bucket_enforcement_action_def split: if_splits)
    then have admit: "bucket_admits (er_environ run) positions ?eq res ?c" using d by (simp add: bucket_admits_def)
    have bucket_of: "bucket_for (ticker_of s) = Inr (bd_bucket d)" using evaluate_bucket_parts [OF d] by metis
    then have add: "bucket_add res ?c = reserve (bd_bucket d) risk res" by (simp add: bucket_add_def)
    have in_b: "entered_in b ?z \<longrightarrow> bd_bucket d = b" using bucket_of by (simp add: entered_in_def)
    consider "bd_bucket d \<noteq> b" | "res' = res" "\<not> entered_in b ?z" | "bd_bucket d = b" "res' = bucket_add res ?c"
      using stage_entry_reserves [OF Staged(7)] add by (auto simp: entered_in_def split: entry_end.splits)
    then show ?thesis
    proof cases
      case 1
      then have "res' b = res b" using stage_entry_reserves [OF Staged(7)] by (auto simp: reserve_def)
      then show ?thesis using same in_b 1 by blast
    next
      case 2
      then show ?thesis using same by simp
    next
      case 3
      then obtain m y where my: "fmax (Fin 0) risk = Fin m" "0 \<le> m" "reserved_in res b = Fin y" "res' b = Some (Fin (y + m))"
        using admitted_in_bucket(2) [OF assms(3,4) admit] bucket_of by auto
      have "entered_risk b ?z \<le> m" using my(1,2) risk by (auto simp: entered_risk_def split: entry_end.splits)
      moreover have "bucket_within b positions cap res'" using admitted_in_bucket(1) [OF assms(3,4) admit] bucket_of 3 by simp
      ultimately show ?thesis using my by (simp add: reserved_in_def)
    qed
  qed
qed

lemma enter_all_bucket:
  assumes "enter_all run pf positions equity executed held rows res st = (outs, res', st')" and "bucket_enforced (er_environ run)"
    and "fmul (bucket_max_pct (er_environ run)) (case equity of None \<Rightarrow> Fin 0 | Some e \<Rightarrow> e) = Fin cap" and "bucket_within b positions cap res"
  shows "bucket_within b positions cap res'
      \<and> (\<exists>y y'. reserved_in res b = Fin y \<and> reserved_in res' b = Fin y' \<and> y + (\<Sum>z \<leftarrow> zip rows outs. entered_risk b z) \<le> y')
      \<and> (res b \<noteq> None \<or> (\<exists>z \<in> set (zip rows outs). entered_in b z) \<longrightarrow> res' b \<noteq> None)"
  using assms(1,4)
proof (induction rows arbitrary: res st outs)
  case Nil
  then show ?case using bucket_within_reserved [of b positions cap res] by auto
next
  case (Cons s rows)
  obtain fin res1 st1 where one: "enter_one run pf positions equity executed held s res st = (fin, res1, st1)" by (rule prod_cases3)
  obtain outs2 where rest: "enter_all run pf positions equity executed held rows res1 st1 = (outs2, res', st')" and outs: "outs = (row_id s, fin) # outs2"
    using Cons.prems(1) one by (auto split: prod.splits)
  from enter_one_bucket [OF one assms(2,3) Cons.prems(2)]
  have w1: "bucket_within b positions cap res1" and
    s1: "\<exists>y y'. reserved_in res b = Fin y \<and> reserved_in res1 b = Fin y' \<and> y + entered_risk b (s, row_id s, fin) \<le> y'" and
    n1: "res b \<noteq> None \<or> entered_in b (s, row_id s, fin) \<longrightarrow> res1 b \<noteq> None" by auto
  show ?case using Cons.IH [OF rest w1] s1 n1 by (auto simp: outs)
qed

text \<open>
  C30 (invariant). With the bucket caps armed, no run raises a bucket above its cap: when a suggestion of the
  bucket was executed, the exposure of the portfolio's open positions in the bucket and the risk of all
  suggestions of the bucket executed in the run are together within the fraction of the equity that
  a bucket may take, in whatever order the suggestions came.
\<close>

theorem armed_buckets_stay_within_cap:
  assumes "enter_all run pf positions equity executed held rows (\<lambda>_. None) st = (outs, res, st')"
    and "bucket_enforced (er_environ run)"
    and "fmul (bucket_max_pct (er_environ run)) (case equity of None \<Rightarrow> Fin 0 | Some e \<Rightarrow> e) = Fin cap"
    and "bucket_open b positions (Fin 0, False, 0) = Inr (Fin already, leg, unk)"
    and "(s, sid, Executed oid n) \<in> set (zip rows outs)" and "bucket_for (ticker_of s) = Inr b"
  shows "already + (\<Sum>z \<leftarrow> zip rows outs. entered_risk b z) \<le> cap"
proof -
  have "bucket_within b positions cap (\<lambda>_. None)" using assms(4) by (simp add: bucket_within_def)
  from enter_all_bucket [OF assms(1-3) this]
  obtain y where within_cap: "bucket_within b positions cap res" and y: "reserved_in res b = Fin y" "(\<Sum>z \<leftarrow> zip rows outs. entered_risk b z) \<le> y"
    and some: "(\<exists>z \<in> set (zip rows outs). entered_in b z) \<longrightarrow> res b \<noteq> None" by (auto simp: reserved_in_def)
  have "entered_in b (s, sid, Executed oid n)" using assms(6) by (simp add: entered_in_def)
  then have "res b = Some (Fin y)" using some assms(5) y(1) by (auto simp: reserved_in_def)
  then show ?thesis using within_cap assms(4) y(2) by (auto simp: bucket_within_def)
qed

subsection \<open>Examples\<close>

definition loss_row :: "string \<Rightarrow> pydict" where
  "loss_row i = [(''id'', PStr i), (''outcome_type'', PStr ''trade_closed''), (''is_paper'', PBool False), (''pnl_realized'', PInt (- 5))]"

definition losing_brake :: "bool \<Rightarrow> brake_state" where
  "losing_brake paused =
     \<lparr>bs_ops = Some [(''entries_paused'', PBool paused)], bs_outcomes = [loss_row ''c'', loss_row ''a'', loss_row ''b''], bs_alerts = []\<rparr>"

definition breaker_io :: "bool \<Rightarrow> streak_env" where
  "breaker_io write_ok =
     \<lparr>sk_outcomes_ok = True, sk_stamp_read_ok = True, sk_pause_read_ok = True, sk_pause_write_ok = write_ok, sk_stamp_ok = True,
      sk_str = (\<lambda>_. []), sk_text = (\<lambda>_. ''losses''), sk_now_text = ''now''\<rparr>"

definition demo_environ :: environ where
  "demo_environ k = (if k = ''BUCKET_CONTROL_ENFORCE'' then Some ''1'' else None)"

text \<open>The world of the examples is the orders that were staged.\<close>

definition demo_run :: "(pyval \<times> pyval) list entry_run" where
  "demo_run =
     \<lparr>er_environ = demo_environ, er_user = ''u1'', er_today = ''d1'', er_now = 0, er_reads_ok = (\<lambda>_. True), er_scope = None,
      er_filter_read = (\<lambda>_. TableFailed), er_cooldown_read = (\<lambda>_. TableRead), er_cohorts = [[(''id'', PStr ''c1''), (''portfolio_id'', PStr ''p1'')]], er_cohort_read = (\<lambda>_. True),
      er_stamp_ok = (\<lambda>_. True), er_terminal_ok = (\<lambda>_. True), er_positions = (\<lambda>_. []), er_executed = (\<lambda>_. {}),
      er_equity = (\<lambda>_. Some (Fin 10000)), er_broker = (\<lambda>_. NoClient), er_buying_power = (\<lambda>_. None),
      er_stage = (\<lambda>s p w. (Inr (PStr ''o1''), (p, ticker_of s) # w)), er_process = (\<lambda>_ w. (Inr 0, w)), er_sweep = (\<lambda>w. (Inr 0, w))\<rparr>"

definition demo_suggestion :: pydict where
  "demo_suggestion =
     [(''id'', PStr ''s1''), (''user_id'', PStr ''u1''), (''cohort_name'', PStr ''c''), (''status'', PStr ''pending''),
      (''cycle_date'', PStr ''d1''), (''ticker'', PStr ''SPY''), (''max_loss_total'', PInt 300)]"

definition demo_stop :: pydict where
  "demo_stop = [(''cohort_id'', PStr ''c1''), (''symbol'', PStr ''SPY'')]"

definition demo_state :: "cooldown_row list \<Rightarrow> (pyval \<times> pyval) list entry_state" where
  "demo_state rows = \<lparr>es_suggestions = [demo_suggestion], es_cooldowns = rows, es_brake = losing_brake False, es_world = []\<rparr>"

lemma demo_defaults [simp]: "default_on (demo_environ ''STREAK_BREAKER_ENABLED'')" "default_on (demo_environ ''STREAK_BREAKER_EDGE_TRIGGER_ENABLED'')"
  "cooldown_enabled demo_environ" "streak_n demo_environ = 3" "override_minutes demo_environ = None" "bucket_enforced demo_environ"
  "bucket_max_pct demo_environ = Fin (1/4)" "get_execution_mode demo_environ = Internal_Paper"
  "\<not> gate_enabled (demo_environ ''RISK_UTILIZATION_GATE_ENABLED'')"
  by (simp_all add: default_on_def demo_environ_def cooldown_enabled_def streak_n_def env_count_def override_minutes_def bucket_enforced_def
      bucket_max_pct_def get_execution_mode_def gate_enabled_def execution_modes_def) code_simp+

lemma demo_fields [simp]: "er_environ demo_run = demo_environ" "er_cohorts demo_run = [[(''id'', PStr ''c1''), (''portfolio_id'', PStr ''p1'')]]" "er_cohort_read demo_run p" "er_now demo_run = 0"
  "er_cooldown_read demo_run sid = TableRead" "er_stage demo_run s p w = (Inr (PStr ''o1''), (p, ticker_of s) # w)"
  "er_process demo_run oid w = (Inr 0, w)" "er_sweep demo_run w = (Inr 0, w)" "es_cooldowns (demo_state rows) = rows" "es_world (demo_state rows) = []"
  "es_brake (demo_state rows) = losing_brake False" "es_suggestions (demo_state rows) = [demo_suggestion]"
  by (simp_all add: demo_run_def demo_state_def)

lemma demo_window [simp]: "loss_window 3 (losing_brake b) = [loss_row ''b'', loss_row ''a'', loss_row ''c'']"
  by (simp add: loss_window_def losing_brake_def loss_row_def dget_def)

lemma demo_loss [simp]: "py_or (dget (loss_row i) ''pnl_realized'') (PInt 0) = PInt (- 5)"
  by (simp add: loss_row_def dget_def py_or_def)

lemma demo_io [simp]: "sk_outcomes_ok (breaker_io w)" "sk_stamp_read_ok (breaker_io w)" "sk_pause_read_ok (breaker_io w)"
  "sk_pause_write_ok (breaker_io w) = w" "sk_stamp_ok (breaker_io w)"
  by (simp_all add: breaker_io_def)

lemma demo_brake [simp]: "bs_ops (losing_brake b) = Some [(''entries_paused'', PBool b)]" "ops_row (losing_brake b) = [(''entries_paused'', PBool b)]"
  "read_fingerprint (breaker_io w) (losing_brake b) = None" "dget [(''entries_paused'', PBool b)] ''entries_paused'' = PBool b"
  by (simp_all add: losing_brake_def ops_row_def read_fingerprint_def dget_def py_or_def)

lemma demo_must_trip: "must_trip demo_environ (breaker_io w) (losing_brake False)"
  by (simp add: must_trip_def)

theorem pause_is_never_lifted_witness:
  "truthy (dget (ops_row (fold (\<lambda>(env, sk) s. snd (evaluate_and_trip env sk s)) [(demo_environ, breaker_io True)] (losing_brake True))) ''entries_paused'')"
  using pause_is_never_lifted [of "losing_brake True" "[(demo_environ, breaker_io True)]"]
  by (simp add: losing_brake_def ops_row_def dget_def)

theorem failed_pause_is_never_retried_witness:
  "\<exists>st1. snd (evaluate_and_trip demo_environ (breaker_io False) (losing_brake False)) = st1
     \<and> evaluate_and_trip demo_environ (breaker_io True) st1 = (quiet_report True StandingWindow, st1)"
proof -
  obtain rep st1 where run: "evaluate_and_trip demo_environ (breaker_io False) (losing_brake False) = (rep, st1)" by fastforce
  have "sr_tripped rep \<and> sr_pause_failed rep \<and> sr_stamped rep"
    using run by (auto simp: evaluate_and_trip_def Let_def trip_breaker_def pause_entries_def)
  moreover have "text_ids (loss_window (nat (streak_n demo_environ)) (losing_brake False))"
    by (simp add: text_ids_def) (simp add: loss_row_def dget_def)
  ultimately show ?thesis
    using failed_pause_is_never_retried [OF run, of "[(''entries_paused'', PBool False)]" "breaker_io True"] run
    by (simp add: dget_def)
qed

definition demo_gates :: "(pyval \<times> pyval) list gate_inputs" where
  "demo_gates = \<lparr>gi_paused = False, gi_ops_read_ok = True, gi_fresh = (\<lambda>_ _. Inl RuntimeError), gi_envelopes = (\<lambda>_. EnvelopesPass)\<rparr>"

theorem losing_streak_stops_entries_witness:
  "\<exists>st1. es_suggestions st1 = [demo_suggestion] \<and> execute_top_suggestions demo_run demo_gates [] st1 = (EntriesPaused (PStr ''losses''), st1)"
proof -
  let ?st = "demo_state []" let ?br = "snd (evaluate_and_trip demo_environ (breaker_io True) (losing_brake False))"
  let ?st1 = "?st\<lparr>es_brake := ?br\<rparr>"
  have "dget (ops_row ?br) ''entries_pause_reason'' = PStr ''losses''"
    by (simp add: evaluate_and_trip_def Let_def trip_breaker_def pause_entries_def stamp_keeps)
       (simp add: breaker_io_def dget_dset_all fingerprint_stamp_def)
  moreover have "gi_ops_read_ok demo_gates" "\<not> gi_paused demo_gates" by (simp_all add: demo_gates_def)
  ultimately have "fst (execute_top_suggestions demo_run demo_gates [] ?st1) \<in> {TradingPaused, EntriesPaused (PStr ''losses'')}
      \<and> snd (execute_top_suggestions demo_run demo_gates [] ?st1) = ?st1"
    using losing_streak_stops_entries [of demo_environ "breaker_io True" ?st "[(''entries_paused'', PBool False)]" demo_gates demo_run "[]"] demo_must_trip
    by (simp add: Let_def)
  moreover have "fst (execute_top_suggestions demo_run demo_gates [] ?st1) \<noteq> TradingPaused"
    using \<open>\<not> gi_paused demo_gates\<close> by (auto simp: execute_top_suggestions_def Let_def split: option.splits breaker_verdict.splits sum.splits prod.splits)
  ultimately have "execute_top_suggestions demo_run demo_gates [] ?st1 = (EntriesPaused (PStr ''losses''), ?st1)"
    by (metis insertE prod.collapse singletonD)
  then show ?thesis by (intro exI [of _ ?st1]) simp
qed

theorem stopped_symbols_stay_out_witness:
  "\<exists>rows. write_reentry_cooldowns demo_environ (\<lambda>_. None) (\<lambda>_. []) (Inl RuntimeError) (\<lambda>_. \<lparr>ci_read = TableRead, ci_insert_ok = True\<rparr>) 0 [demo_stop] []
        = (1, rows)
     \<and> (PStr ''p1'', PStr ''SPY'') \<notin> set (es_world (snd (execute_per_cohort demo_run [\<lparr>cp_name = ''c'', cp_max = 3, cp_portfolio = PStr ''p1''\<rparr>]
           (demo_state rows))))"
proof -
  let ?io = "\<lambda>_. \<lparr>ci_read = TableRead, ci_insert_ok = True\<rparr>" let ?until = "compute_cooldown_until demo_environ (\<lambda>_. None) (\<lambda>_. []) (Inl RuntimeError) 0"
  let ?rows = "[stop_row ?until demo_stop]" let ?plans = "[\<lparr>cp_name = ''c'', cp_max = 3, cp_portfolio = PStr ''p1''\<rparr>]"
  let ?P = "\<lambda>w. (PStr ''p1'', PStr ''SPY'') \<notin> set w"
  have run: "write_reentry_cooldowns demo_environ (\<lambda>_. None) (\<lambda>_. []) (Inl RuntimeError) ?io 0 [demo_stop] [] = (1, ?rows)"
    by (simp add: write_reentry_cooldowns_def write_cooldown_def cooldown_active_def)
  have "?P (es_world (snd (execute_per_cohort demo_run ?plans (demo_state ?rows))))"
    by (rule stopped_symbols_stay_out [where P = ?P and st = "demo_state ?rows" and rows = "[]" and stop = demo_stop and stops = "[demo_stop]" and io = ?io
          and c = "[(''id'', PStr ''c1''), (''portfolio_id'', PStr ''p1'')]" and run = demo_run and pf = "PStr ''p1''" and symbol = "PStr ''SPY''" and now = 0 and parse = "\<lambda>_. None" and to_text = "\<lambda>_. []" and clock = "Inl RuntimeError" and n = 1])
       (use run in \<open>simp_all add: demo_stop_def dget_def row_id_def compute_cooldown_until_def\<close>)
  then show ?thesis using run by blast
qed

theorem armed_buckets_stay_within_cap_witness:
  "\<exists>oid n. (case enter_all demo_run (PStr ''p1'') [] (Some (Fin 10000)) {} {} [demo_suggestion] (\<lambda>_. None) (demo_state []) of
      (outs, _) \<Rightarrow> outs = [(PStr ''s1'', Executed oid n)] \<and> (\<Sum>z \<leftarrow> zip [demo_suggestion] outs. entered_risk ''us_equity_beta'' z) \<le> 2500)"
proof -
  obtain outs res st' where all: "enter_all demo_run (PStr ''p1'') [] (Some (Fin 10000)) {} {} [demo_suggestion] (\<lambda>_. None) (demo_state []) = (outs, res, st')"
    by (rule prod_cases3)
  have ticker: "ticker_of demo_suggestion = PStr ''SPY''" by (simp add: ticker_of_def symbol_key_def demo_suggestion_def dget_def py_or_def)
  have upper: "str_strip (str_upper ''SPY'') = ''SPY''" by code_simp
  have bucket: "bucket_for (PStr ''SPY'') = Inr ''us_equity_beta''" by (simp add: bucket_for_def py_or_def upper us_equity_beta_def)
  have risk: "candidate_risk_usd demo_suggestion = Inr (Fin 300, False, False)"
    by (simp add: candidate_risk_usd_def risk_from_fields_def demo_suggestion_def dget_def)
  have check: "bucket_check demo_run [] (Some (Fin 10000)) demo_suggestion (\<lambda>_. None)
      = Inr (\<lparr>bd_bucket = ''us_equity_beta'', bd_total = Fin 300, bd_cap = Fin 2500, bd_would_block = False, bd_legacy = False,
          bd_unknown_open = 0, bd_not_armable = False\<rparr>, Fin 300)"
    by (simp add: bucket_check_def risk ticker evaluate_bucket_def bucket reserved_in_def fmax_def Let_def)
  have "utilization_check demo_run (PStr ''p1'') demo_suggestion (demo_state []) = Inr ()"
    by (simp add: utilization_check_def utilization_applies_def)
  moreover have "cooldown_clear demo_run (PStr ''p1'') demo_suggestion (demo_state [])" by (simp add: cooldown_clear_def cooldown_active_def)
  moreover have "row_id demo_suggestion = PStr ''s1''" by (simp add: row_id_def demo_suggestion_def dget_def)
  ultimately have outs: "outs = [(PStr ''s1'', Executed (PStr ''o1'') 0)]"
    using all check by (simp add: enter_one_def bucket_enforcement_action_def stage_entry_def Let_def split: prod.splits)
  show ?thesis
    using armed_buckets_stay_within_cap [OF all, where cap = 2500 and b = "''us_equity_beta''" and already = 0 and s = demo_suggestion and sid = "PStr ''s1''"
        and oid = "PStr ''o1''" and n = 0 and leg = False and unk = 0] all outs ticker bucket by simp
qed

end
