(* ===== verification/Risk_Budget.thy ===== *)
theory Risk_Budget
  imports Capital_Tiers Broker_Orders Utilization_Gate Marks
begin

section \<open>The risk budget\<close>

text \<open>
  Model of \<open>services/risk_budget_engine.py\<close> with the routing of \<open>services/risk_cap_routing.py\<close>, the
  identities of \<open>analytics/strategy_identity.py\<close> and the basis of \<open>services/risk_basis_shadow.py\<close>, chosen
  as in the utilization gate: what the open book uses, the caps of a regime, and the amount the
  next trade may risk.

  A position is a dictionary or a \<open>SpreadPosition\<close>. The deployable capital is finite; the text of a
  value that is no text is a parameter. The evidence that is only logged is left out.
\<close>

subsection \<open>Regimes and caps\<close>

datatype regime_state = Suppressed | Normal | Elevated | Shock | Rebound | Chop

definition regime_of_text :: "string \<Rightarrow> regime_state" where
  "regime_of_text s =
     (let r = str_upper s in
      if contains ''PANIC'' r \<or> contains ''SHOCK'' r then Shock
      else if contains ''ELEVATED'' r \<or> contains ''HIGH_VOL'' r then Elevated
      else if contains ''SUPPRESSED'' r then Suppressed
      else if contains ''NORMAL'' r then Normal
      else if contains ''CHOP'' r then Chop
      else if contains ''REBOUND'' r then Rebound
      else Normal)"

fun regime_caps :: "regime_state \<Rightarrow> (string \<times> rat) list" where
  "regime_caps Suppressed =
     [(''debit_call'', 12/100), (''debit_put'', 12/100), (''credit_call'', 6/100), (''credit_put'', 6/100), (''iron_condor'', 4/100), (''single'', 15/100)]"
| "regime_caps Normal =
     [(''debit_call'', 15/100), (''debit_put'', 15/100), (''credit_call'', 8/100), (''credit_put'', 8/100), (''iron_condor'', 6/100), (''vertical'', 10/100)]"
| "regime_caps Elevated =
     [(''credit_call'', 12/100), (''credit_put'', 12/100), (''debit_call'', 6/100), (''debit_put'', 6/100), (''iron_condor'', 8/100), (''single'', 5/100)]"
| "regime_caps Shock =
     [(''credit_call'', 5/100), (''credit_put'', 2/100), (''debit_put'', 10/100), (''debit_call'', 2/100), (''iron_condor'', 0), (''vertical'', 3/100)]"
| "regime_caps Rebound =
     [(''debit_call'', 12/100), (''credit_put'', 12/100), (''debit_put'', 4/100), (''credit_call'', 5/100), (''single'', 8/100)]"
| "regime_caps Chop =
     [(''iron_condor'', 10/100), (''calendar'', 10/100), (''debit_call'', 5/100), (''debit_put'', 5/100), (''credit_call'', 8/100), (''credit_put'', 8/100)]"

definition normalize_strategy_id :: "string \<Rightarrow> string" where
  "normalize_strategy_id raw = map (\<lambda>c. if c = CHR '' '' \<or> c = CHR ''-'' then CHR ''_'' else c) (str_strip (str_lower raw))"

text \<open>The family of each tradable identity; \<open>hold\<close> and \<open>cash\<close> have none.\<close>

definition family_by_id :: "(string \<times> string) list" where
  "family_by_id =
     [(''long_call_debit_spread'', ''debit_call''), (''long_put_debit_spread'', ''debit_put''), (''short_put_credit_spread'', ''credit_put''),
      (''short_call_credit_spread'', ''credit_call''), (''iron_condor'', ''iron_condor'')]"

definition resolve_risk_cap_family :: "string \<Rightarrow> string option" where
  "resolve_risk_cap_family raw = (if raw = [] then None else map_of family_by_id (normalize_strategy_id raw))"

definition base_cap :: rat where
  "base_cap = 5/100"

text \<open>The cap of a strategy: by its name, by its family, or by the first key its name contains.\<close>

definition calculate_strategy_cap :: "string \<Rightarrow> regime_state \<Rightarrow> rat" where
  "calculate_strategy_cap strategy regime =
     (let caps = regime_caps regime; st = str_lower strategy in
      case map_of caps st of
        Some c \<Rightarrow> c
      | None \<Rightarrow>
          (case (case resolve_risk_cap_family st of None \<Rightarrow> None | Some f \<Rightarrow> map_of caps f) of
             Some c \<Rightarrow> c
           | None \<Rightarrow> (case find (\<lambda>kv. contains (fst kv) st) caps of Some kv \<Rightarrow> snd kv | None \<Rightarrow> base_cap)))"

subsection \<open>What a position uses\<close>

record spread_position =
  sp_type :: string
  sp_underlying :: string
  sp_ticker :: pyval
  sp_net_cost :: pynum
  sp_value :: pynum
  sp_delta :: pynum
  sp_vega :: pynum
  sp_quantity :: pynum

datatype budget_position = DictPos pydict | SpreadPos spread_position

definition dump_spread :: "spread_position \<Rightarrow> pydict" where
  "dump_spread p =
     [(''spread_type'', PStr (sp_type p)), (''underlying'', PStr (sp_underlying p)), (''ticker'', sp_ticker p), (''net_cost'', PFloat (sp_net_cost p)),
      (''current_value'', PFloat (sp_value p)), (''delta'', PFloat (sp_delta p)), (''vega'', PFloat (sp_vega p)), (''quantity'', PFloat (sp_quantity p))]"

definition value_text :: "(pyval \<Rightarrow> string) \<Rightarrow> pyval \<Rightarrow> string" where
  "value_text txt v = (case v of PStr s \<Rightarrow> s | _ \<Rightarrow> txt v)"

definition float_field :: "pydict \<Rightarrow> string \<Rightarrow> string \<Rightarrow> pyexn + pynum" where
  "float_field d k l = py_float (py_or (py_or (dget d k) (dget d l)) (PFloat (Fin 0)))"

definition option_cost_basis_usd :: "pydict \<Rightarrow> pynum \<Rightarrow> pyexn + pynum" where
  "option_cost_basis_usd pos cost =
     (let raw = fabs cost in
      rbind (float_field pos ''current_price'' ''price'') (\<lambda>price.
        let premium = fmul price (Fin 100)
        in if num_eq raw (Fin 0) then Inr premium
           else if flt (Fin 0) premium \<and> flt (fmul premium (Fin 10)) raw then Inr (fmul raw (Fin (1/100)))
           else Inr raw))"

text \<open>A declared amount per contract counts when it is a positive number.\<close>

definition declared_risk :: "pyval \<Rightarrow> pynum \<Rightarrow> pyexn + pynum option" where
  "declared_risk v qty =
     (if v = PNone then Inr None
      else case py_float v of
          Inr x \<Rightarrow> Inr (if flt (Fin 0) x then Some (fmul x qty) else None)
        | Inl e \<Rightarrow> if is_parse_failure e then Inr None else Inl e)"

definition is_option_position :: "(pyval \<Rightarrow> string) \<Rightarrow> pydict \<Rightarrow> bool" where
  "is_option_position txt pos \<longleftrightarrow>
     (let instr = str_lower (value_text txt (py_or (py_or (py_or (dget pos ''instrument_type'') (dget pos ''type'')) (dget pos ''asset_type'')) (PStr [])));
          name = value_text txt (dget_default pos ''symbol'' (PStr []))
      in contains ''option'' instr \<or> take 2 name = ''O:'' \<or> (6 < length name \<and> list_ex (\<lambda>c. c \<in> set ''0123456789'') name)
         \<or> dget pos ''strike'' \<noteq> PNone \<or> py_or (dget pos ''option_type'') (dget pos ''right'') \<noteq> PNone)"

text \<open>A short option with a strike; a strike that is no number falls through.\<close>

definition short_option_risk :: "(pyval \<Rightarrow> string) \<Rightarrow> pydict \<Rightarrow> pynum option \<Rightarrow> pynum \<Rightarrow> pyexn + pynum option" where
  "short_option_risk txt pos underlying qty =
     (if dget pos ''strike'' = PNone then Inr None
      else
        (let kind = str_lower (value_text txt (py_or (py_or (dget pos ''option_type'') (dget pos ''right'')) (PStr []))) in
         case py_float (dget pos ''strike'') of
           Inl e \<Rightarrow> if is_parse_failure e then Inr None else Inl e
         | Inr strike \<Rightarrow>
             Inr (if contains ''put'' kind \<or> kind = ''p'' then Some (fmul (fmul strike (Fin 100)) qty)
                  else if contains ''call'' kind \<or> kind = ''c''
                  then Some (fmul (fmul (fmax (case underlying of Some u \<Rightarrow> u | None \<Rightarrow> strike) strike) (Fin 100)) qty)
                  else None)))"

definition dict_risk_usage :: "(pyval \<Rightarrow> string) \<Rightarrow> pynum option \<Rightarrow> pydict \<Rightarrow> pyexn + pynum" where
  "dict_risk_usage txt underlying pos =
     rbind (float_field pos ''quantity'' ''qty'') (\<lambda>q.
       let qty = fabs q in
       if fle qty (Fin 0) then Inr (Fin 0)
       else
         rbind (declared_risk (py_or (dget pos ''max_loss_per_contract'') (dget pos ''max_loss'')) qty) (\<lambda>loss.
         case loss of
           Some x \<Rightarrow> Inr x
         | None \<Rightarrow>
             rbind (declared_risk (py_or (dget pos ''collateral_required_per_contract'') (dget pos ''collateral_per_contract'')) qty) (\<lambda>coll.
             case coll of
               Some x \<Rightarrow> Inr x
             | None \<Rightarrow>
                 rbind (py_float (py_or (dget pos ''cost_basis'') (PFloat (Fin 0)))) (\<lambda>cost.
                 let side = str_lower (value_text txt (py_or (py_or (dget pos ''side'') (dget pos ''action'')) (PStr [])));
                     short = (side = ''sell'' \<or> side = ''short'');
                     by_cost = rbind (option_cost_basis_usd pos cost) (\<lambda>x. Inr (fmul x qty))
                 in if \<not> is_option_position txt pos
                    then rbind (py_float (py_or (dget pos ''current_value'') (PFloat (Fin 0)))) (\<lambda>v. Inr (fabs v))
                    else if \<not> short then by_cost
                    else rbind (short_option_risk txt pos underlying qty) (\<lambda>r. case r of Some x \<Rightarrow> Inr x | None \<Rightarrow> by_cost)))))"

definition estimate_risk_usage_usd :: "(pyval \<Rightarrow> string) \<Rightarrow> pynum option \<Rightarrow> budget_position \<Rightarrow> pyexn + pynum" where
  "estimate_risk_usage_usd txt underlying p =
     (case p of DictPos d \<Rightarrow> dict_risk_usage txt underlying d | SpreadPos s \<Rightarrow> dict_risk_usage txt underlying (dump_spread s))"

definition position_value :: "budget_position \<Rightarrow> pyexn + pynum" where
  "position_value p =
     (case p of SpreadPos s \<Rightarrow> Inr (sp_value s) | DictPos d \<Rightarrow> py_float (py_or (dget_default d ''current_value'' (PFloat (Fin 0))) (PFloat (Fin 0))))"

definition position_symbol :: "(pyval \<Rightarrow> string) \<Rightarrow> budget_position \<Rightarrow> string" where
  "position_symbol txt p =
     (case p of
        SpreadPos s \<Rightarrow> (case sp_ticker s of PStr t \<Rightarrow> if t = [] then sp_underlying s else t | _ \<Rightarrow> sp_underlying s)
      | DictPos d \<Rightarrow> value_text txt (py_or (py_or (py_or (dget d ''ticker'') (dget d ''symbol'')) (dget d ''underlying'')) (PStr ''unknown'')))"

definition position_strategy :: "(pyval \<Rightarrow> string) \<Rightarrow> budget_position \<Rightarrow> string" where
  "position_strategy txt p =
     str_lower (case p of
        SpreadPos s \<Rightarrow> if sp_type s = [] then ''unknown'' else sp_type s
      | DictPos d \<Rightarrow> value_text txt (py_or (py_or (py_or (dget d ''strategy'') (dget d ''type'')) (dget d ''instrument_type'')) (PStr ''unknown'')))"

definition honest_position_risk :: "budget_position \<Rightarrow> pyexn + pynum option" where
  "honest_position_risk p =
     (case p of
        SpreadPos _ \<Rightarrow> Inr None
      | DictPos d \<Rightarrow>
          (if dget d ''max_loss_total'' = PNone then Inr None
           else case py_float (dget d ''max_loss_total'') of
               Inr x \<Rightarrow> Inr (Some (fabs x)) | Inl e \<Rightarrow> if is_parse_failure e then Inr None else Inl e))"

subsection \<open>The report\<close>

record budget_allocation =
  al_used :: pynum
  al_limit :: pynum
  al_remaining :: pynum
  al_pct :: pynum

datatype budget_note =
    CapitalMismatch pynum rat
  | MicroGlobalAlloc
  | MicroTierActive
  | SmallHintApplied
  | SmallAccountFloor
  | GlobalCapReached

record book_usage =
  bu_value :: pynum
  bu_risk :: pynum
  bu_honest :: pynum
  bu_honest_any :: bool
  bu_strategies :: "(string \<times> pynum) list"
  bu_symbols :: "(string \<times> pynum) list"
  bu_delta :: pynum
  bu_vega :: pynum

record risk_report =
  rr_regime :: regime_state
  rr_equity :: pynum
  rr_global :: budget_allocation
  rr_strategies :: "(string \<times> budget_allocation) list"
  rr_symbols :: "(string \<times> budget_allocation) list"
  rr_delta :: budget_allocation
  rr_vega :: budget_allocation
  rr_max_risk :: pynum
  rr_notes :: "budget_note list"

fun add_usage :: "string \<Rightarrow> pynum \<Rightarrow> (string \<times> pynum) list \<Rightarrow> (string \<times> pynum) list" where
  "add_usage k v [] = [(k, fadd (Fin 0) v)]"
| "add_usage k v ((k', w) # us) = (if k' = k then (k', fadd w v) # us else (k', w) # add_usage k v us)"

definition no_usage :: book_usage where
  "no_usage =
     \<lparr>bu_value = Fin 0, bu_risk = Fin 0, bu_honest = Fin 0, bu_honest_any = False, bu_strategies = [], bu_symbols = [],
      bu_delta = Fin 0, bu_vega = Fin 0\<rparr>"

definition dict_greeks_ok :: "pydict \<Rightarrow> pyexn + unit" where
  "dict_greeks_ok d =
     (let zero = PFloat (Fin 0); num = (\<lambda>k. py_float (py_or (dget_default d k zero) zero))
      in rbind (num ''delta'') (\<lambda>_. rbind (num ''vega'') (\<lambda>_. rbind (num ''quantity'') (\<lambda>_. Inr ()))))"

definition use_position :: "(pyval \<Rightarrow> string) \<Rightarrow> budget_position \<Rightarrow> book_usage \<Rightarrow> pyexn + book_usage" where
  "use_position txt p bu =
     rbind (position_value p) (\<lambda>v.
     rbind (estimate_risk_usage_usd txt None p) (\<lambda>risk.
     rbind (honest_position_risk p) (\<lambda>honest.
     let bu1 = bu\<lparr>bu_value := fadd (bu_value bu) v, bu_risk := fadd (bu_risk bu) risk,
                  bu_honest := fadd (bu_honest bu) (case honest of Some h \<Rightarrow> h | None \<Rightarrow> risk),
                  bu_honest_any := (bu_honest_any bu \<or> honest \<noteq> None),
                  bu_strategies := add_usage (position_strategy txt p) v (bu_strategies bu),
                  bu_symbols := add_usage (position_symbol txt p) v (bu_symbols bu)\<rparr>
     in case p of
          SpreadPos s \<Rightarrow> Inr (bu1\<lparr>bu_delta := fadd (bu_delta bu) (fabs (sp_delta s)), bu_vega := fadd (bu_vega bu) (fabs (sp_vega s))\<rparr>)
        | DictPos d \<Rightarrow> rbind (dict_greeks_ok d) (\<lambda>_. Inr bu1))))"

definition book_usage_of :: "(pyval \<Rightarrow> string) \<Rightarrow> budget_position list \<Rightarrow> pyexn + book_usage" where
  "book_usage_of txt ps = rfold (use_position txt) ps no_usage"

fun global_cap_pct :: "regime_state \<Rightarrow> rat" where
  "global_cap_pct Suppressed = 50/100"
| "global_cap_pct Normal = 40/100"
| "global_cap_pct Elevated = 25/100"
| "global_cap_pct Chop = 35/100"
| "global_cap_pct Rebound = 30/100"
| "global_cap_pct Shock = 5/100"

fun micro_regime_mult :: "regime_state \<Rightarrow> rat" where
  "micro_regime_mult Suppressed = 9/10"
| "micro_regime_mult Elevated = 8/10"
| "micro_regime_mult Shock = 1/2"
| "micro_regime_mult _ = 1"

definition allocation_of :: "pynum \<Rightarrow> pynum \<Rightarrow> budget_allocation" where
  "allocation_of used limit =
     \<lparr>al_used = used, al_limit = limit, al_remaining = fmax (Fin 0) (fsub limit used),
      al_pct = (if flt (Fin 0) limit then (case fdiv used limit of Inr x \<Rightarrow> x | Inl _ \<Rightarrow> Fin 0) else Fin 0)\<rparr>"

definition greek_allocation :: "pynum \<Rightarrow> pynum \<Rightarrow> budget_allocation" where
  "greek_allocation used cap = (allocation_of used cap)\<lparr>al_remaining := fsub cap used\<rparr>"

definition profile_mult :: "string \<Rightarrow> rat" where
  "profile_mult profile = (if profile = ''aggressive'' then 125/100 else if profile = ''conservative'' then 75/100 else 1)"

definition per_trade_pct :: "string \<Rightarrow> rat" where
  "per_trade_pct profile = (if profile = ''aggressive'' then 5/100 else if profile = ''conservative'' then 2/100 else 3/100)"

text \<open>The amount a trade may risk before the global limit, and the note it leaves.\<close>

definition trade_risk :: "tier_name \<Rightarrow> rat \<Rightarrow> regime_state \<Rightarrow> string \<Rightarrow> pynum option \<Rightarrow> pynum \<Rightarrow> pynum \<times> budget_note list" where
  "trade_risk tier deployable regime profile hint equity =
     (if tier = Micro then (Fin (deployable * (90/100) * micro_regime_mult regime), [MicroTierActive])
      else case (tier, hint) of
          (Small, Some h) \<Rightarrow> (h, [SmallHintApplied])
        | _ \<Rightarrow>
            (let risk = fmul equity (Fin (per_trade_pct profile)); least = fmax (fmul equity (Fin (2/100))) (Fin 5)
             in if flt risk least \<and> flt (Fin 0) equity then (least, [SmallAccountFloor]) else (risk, [])))"

definition skips_zero_clamp :: "budget_note list \<Rightarrow> bool" where
  "skips_zero_clamp notes \<longleftrightarrow> SmallAccountFloor \<in> set notes \<or> MicroTierActive \<in> set notes \<or> SmallHintApplied \<in> set notes"

text \<open>The equity behind the caps, the limit of the whole book, and the clamp to what remains of it.\<close>

definition equity_of :: "rat \<Rightarrow> book_usage \<Rightarrow> pynum" where
  "equity_of deployable bu = (let total = fadd (Fin deployable) (bu_value bu) in if fle total (Fin 0) then Fin 1 else total)"

definition global_limit :: "rat \<Rightarrow> regime_state \<Rightarrow> pynum \<Rightarrow> pynum" where
  "global_limit deployable regime equity =
     (if ct_name (get_tier deployable) = Micro then Fin (deployable * (90/100) * micro_regime_mult regime)
      else fmul equity (Fin (global_cap_pct regime)))"

definition clamp_risk :: "pynum \<Rightarrow> pynum \<Rightarrow> budget_note list \<Rightarrow> pynum \<times> budget_note list" where
  "clamp_risk wanted remaining marks =
     (if fle remaining (Fin 10) \<and> \<not> skips_zero_clamp marks then (Fin 0, marks @ [GlobalCapReached]) else (fmin wanted remaining, marks))"

definition report_strategies :: "(string \<times> pynum) list \<Rightarrow> string list" where
  "report_strategies us = remdups (map fst us @ [''vertical'', ''iron_condor'', ''calendar''])"

definition usage_in :: "string \<Rightarrow> (string \<times> pynum) list \<Rightarrow> pynum" where
  "usage_in k us = (case map_of us k of Some v \<Rightarrow> v | None \<Rightarrow> Fin 0)"

definition compute_risk_budget ::
  "environ \<Rightarrow> (pyval \<Rightarrow> string) \<Rightarrow> rat \<Rightarrow> regime_state \<Rightarrow> budget_position list \<Rightarrow> string \<Rightarrow> pynum option \<Rightarrow> pyexn + risk_report" where
  "compute_risk_budget env txt deployable regime positions profile hint =
     rbind (book_usage_of txt positions) (\<lambda>bu.
       let equity = equity_of deployable bu;
           used = choose_basis (gate_enabled (env ''RISK_BASIS_MAX_LOSS_ENABLED'')) (bu_risk bu) (if bu_honest_any bu then Some (bu_honest bu) else None);
           mismatch = (if flt (Fin (deployable * 2)) used \<and> 0 < deployable then [CapitalMismatch used deployable] else []);
           tier = ct_name (get_tier deployable);
           mult = profile_mult profile;
           alloc = allocation_of used (global_limit deployable regime equity);
           wanted = trade_risk tier deployable regime profile hint equity;
           final = clamp_risk (fst wanted) (al_remaining alloc) (mismatch @ (if tier = Micro then [MicroGlobalAlloc] else []) @ snd wanted)
       in Inr \<lparr>rr_regime = regime, rr_equity = equity, rr_global = alloc,
               rr_strategies = map (\<lambda>st. (st, allocation_of (usage_in st (bu_strategies bu)) (fmul equity (Fin (calculate_strategy_cap st regime * mult)))))
                 (report_strategies (bu_strategies bu)),
               rr_symbols = map (\<lambda>(s, u). (s, allocation_of u (fmul equity (Fin (20/100 * mult))))) (bu_symbols bu),
               rr_delta = greek_allocation (bu_delta bu) (fmul (fmul equity (Fin (1/2))) (Fin mult)),
               rr_vega = greek_allocation (bu_vega bu) (fmul (fmul equity (Fin (1/100))) (Fin mult)),
               rr_max_risk = fst final, rr_notes = snd final\<rparr>)"

end
