(* ===== verification/Sizing.thy ===== *)
theory Sizing
  imports Progression
begin

section \<open>Position sizing\<close>

text \<open>
  Model of \<open>services/sizing_engine.py\<close>: the estimate of the buying power a close needs and the number
  of contracts of an entry. Amounts are floats, infinities and NaN included; \<open>None\<close> stands for the
  infinite bound of a limit that does not apply. A reason is a value with the numbers its text shows.
\<close>

record sizing_input =
  si_buying_power :: pynum
  si_max_loss :: pynum
  si_collateral :: pynum
  si_risk_pct :: pynum
  si_multiplier :: pynum
  si_profile :: string
  si_budget :: "pynum option"
  si_max_contracts :: int
  si_strategy :: "string option"
  si_safety :: pynum
  si_lifecycle :: "string option"

datatype size_reason =
    NoBuyingPower
  | SizedByBudget pynum
  | SizedForRisk pynum pynum
  | RoundTripInsufficient pynum pynum pynum pynum
  | RiskBelowContract pynum pynum
  | CollateralInsufficient pynum pynum
  | InvalidMaxLoss
  | LifecycleUnrecognized string

datatype size_cap = CapMaxContracts | CapRoundTrip | CapBuyingPower | CapExperimental

record sizing_result =
  sz_contracts :: int
  sz_reason :: size_reason
  sz_caps :: "size_cap list"
  sz_capital :: pynum
  sz_max_risk :: pynum
  sz_details :: "(pynum \<times> pynum \<times> pynum \<times> pynum) option"
  sz_experimental_capped :: bool
  sz_unrecognized :: bool

definition default_safety_factor :: rat where
  "default_safety_factor = 11/10"

definition debit_spreads :: "string list" where
  "debit_spreads = [''LONG_CALL_DEBIT_SPREAD'', ''LONG_PUT_DEBIT_SPREAD'']"

definition credit_spreads :: "string list" where
  "credit_spreads = [''SHORT_CALL_CREDIT_SPREAD'', ''SHORT_PUT_CREDIT_SPREAD'']"

definition long_singles :: "string list" where
  "long_singles = [''LONG_CALL'', ''LONG_PUT'']"

definition estimate_close_bp :: "string option \<Rightarrow> pynum \<Rightarrow> pynum" where
  "estimate_close_bp strategy loss =
     (if fle loss (Fin 0) then Fin 0
      else
        (let key = str_upper (case strategy of None \<Rightarrow> [] | Some s \<Rightarrow> s)
         in if key \<in> set long_singles then Fin 0
            else if key \<in> set credit_spreads then Fin 0
            else if key \<in> set debit_spreads then loss
            else if key = ''IRON_CONDOR'' then fmul (Fin 2) loss
            else loss))"

text \<open>\<open>math.floor\<close>.\<close>

definition floor_int :: "pynum \<Rightarrow> pyexn + int" where
  "floor_int x = (case x of Fin q \<Rightarrow> Inr \<lfloor>q\<rfloor> | NaN \<Rightarrow> Inl ValueError | _ \<Rightarrow> Inl OverflowError)"

text \<open>The percentage of the account at risk, capped by the profile.\<close>

definition effective_risk_pct :: "sizing_input \<Rightarrow> pyexn + pynum" where
  "effective_risk_pct si =
     (let pct = si_risk_pct si in
      rbind (if flt (Fin 1) pct then fdiv pct (Fin 100) else Inr pct) (\<lambda>p.
        let cap = (if str_lower (si_profile si) = ''aggressive'' then Fin (5/100) else Fin (2/100))
        in Inr (if flt cap p then cap else p)))"

definition dollar_risk :: "sizing_input \<Rightarrow> pyexn + pynum \<times> size_reason" where
  "dollar_risk si =
     (case si_budget si of
        Some b \<Rightarrow> (let risk = fmul (fmax (Fin 0) b) (si_multiplier si) in Inr (risk, SizedByBudget risk))
      | None \<Rightarrow>
          rbind (effective_risk_pct si) (\<lambda>p.
            Inr (fmul (fmul (si_buying_power si) p) (si_multiplier si), SizedForRisk (fmul p (Fin 100)) (si_multiplier si))))"

definition single_contract_tolerance :: pynum where
  "single_contract_tolerance = Fin (95/100)"

definition contracts_by_risk :: "pynum \<Rightarrow> pynum \<Rightarrow> pyexn + int" where
  "contracts_by_risk risk loss =
     (if fle loss (Fin 0) then Inr 0
      else rbind (fdiv risk loss) (\<lambda>ratio.
        if fle single_contract_tolerance ratio \<and> flt ratio (Fin 1) then Inr 1 else floor_int ratio))"

text \<open>How often an amount fits into the buying power; no limit when nothing is needed.\<close>

definition contracts_that_fit :: "pynum \<Rightarrow> pynum \<Rightarrow> pyexn + int option" where
  "contracts_that_fit bp need =
     (if fle need (Fin 0) then Inr None else rbind (fdiv bp need) (\<lambda>q. rbind (floor_int q) (\<lambda>n. Inr (Some n))))"

definition cap_by :: "int \<Rightarrow> int option \<Rightarrow> int" where
  "cap_by n limit = (case limit of None \<Rightarrow> n | Some m \<Rightarrow> min n m)"

definition below_limit :: "int \<Rightarrow> int option \<Rightarrow> bool" where
  "below_limit n limit = (case limit of None \<Rightarrow> True | Some m \<Rightarrow> n < m)"

text \<open>Why nothing was sized, and which limit was reached.\<close>

definition zero_reason :: "sizing_input \<Rightarrow> pynum \<Rightarrow> pynum \<Rightarrow> pynum \<Rightarrow> size_reason \<Rightarrow> size_reason" where
  "zero_reason si close_bp roundtrip risk prefix =
     (if flt (Fin 0) close_bp \<and> flt (si_buying_power si) roundtrip
      then RoundTripInsufficient (si_buying_power si) (si_collateral si) close_bp (si_safety si)
      else if flt (Fin 0) (si_max_loss si) \<and> flt risk (si_max_loss si) then RiskBelowContract risk (si_max_loss si)
      else if flt (Fin 0) (si_collateral si) \<and> flt (si_buying_power si) (si_collateral si)
      then CollateralInsufficient (si_buying_power si) (si_collateral si)
      else if fle (si_max_loss si) (Fin 0) then InvalidMaxLoss
      else prefix)"

definition reached_caps :: "sizing_input \<Rightarrow> int \<Rightarrow> int \<Rightarrow> int option \<Rightarrow> int option \<Rightarrow> size_cap list" where
  "reached_caps si n by_risk by_collateral by_roundtrip =
     (if n = si_max_contracts si then [CapMaxContracts]
      else if by_roundtrip = Some n \<and> below_limit n by_collateral then [CapRoundTrip]
      else if by_collateral = Some n \<and> n < by_risk then [CapBuyingPower]
      else [])"

definition calculate_sizing :: "sizing_input \<Rightarrow> pyexn + sizing_result" where
  "calculate_sizing si =
     (if fle (si_buying_power si) (Fin 0)
      then Inr \<lparr>sz_contracts = 0, sz_reason = NoBuyingPower, sz_caps = [], sz_capital = Fin 0, sz_max_risk = Fin 0, sz_details = None,
                sz_experimental_capped = False, sz_unrecognized = False\<rparr>
      else
        rbind (dollar_risk si) (\<lambda>(risk, prefix).
        rbind (contracts_by_risk risk (si_max_loss si)) (\<lambda>by_risk.
        rbind (contracts_that_fit (si_buying_power si) (si_collateral si)) (\<lambda>by_collateral.
          let close_bp = estimate_close_bp (si_strategy si) (si_max_loss si);
              roundtrip = fadd (si_collateral si) (fmul close_bp (si_safety si))
          in rbind (contracts_that_fit (si_buying_power si) roundtrip) (\<lambda>by_roundtrip.
               let normal = max 0 (min (cap_by (cap_by by_risk by_collateral) by_roundtrip) (si_max_contracts si));
                   experimental_capped = (si_lifecycle si = Some ''experimental'' \<and> 1 < normal);
                   unrecognized = (case si_lifecycle si of None \<Rightarrow> False | Some s \<Rightarrow> s \<notin> set recognized_states);
                   n = (if unrecognized then 0 else if experimental_capped then 1 else normal);
                   total = (\<lambda>x. fmul (Fin (of_int n)) x)
               in Inr \<lparr>sz_contracts = n,
                       sz_reason = (if unrecognized then LifecycleUnrecognized (case si_lifecycle si of None \<Rightarrow> [] | Some s \<Rightarrow> s)
                                    else if n = 0 then zero_reason si close_bp roundtrip risk prefix else prefix),
                       sz_caps = (if unrecognized \<or> n = 0 then [] else reached_caps si n by_risk by_collateral by_roundtrip)
                                 @ (if experimental_capped \<and> \<not> unrecognized then [CapExperimental] else []),
                       sz_capital = total (si_collateral si), sz_max_risk = risk,
                       sz_details = Some (total (si_max_loss si), close_bp, roundtrip, total roundtrip),
                       sz_experimental_capped = experimental_capped, sz_unrecognized = unrecognized\<rparr>)))))"

subsection \<open>The size is the largest admissible one\<close>

lemma floor_limit:
  fixes b x :: rat
  assumes "0 < x"
  shows "k \<le> \<lfloor>b * (1 / x)\<rfloor> \<longleftrightarrow> of_int k * x \<le> b"
  using assms by (simp add: le_floor_iff pos_le_divide_eq)

lemma contracts_that_fit_iff:
  assumes "contracts_that_fit (Fin b) (Fin x) = Inr limit" and "0 \<le> b" and "0 \<le> k"
  shows "(case limit of None \<Rightarrow> True | Some m \<Rightarrow> k \<le> m) \<longleftrightarrow> of_int k * x \<le> b"
proof (cases "x \<le> 0")
  case True
  then have "of_int k * x \<le> 0" using assms(3) by (simp add: mult_nonneg_nonpos)
  then show ?thesis using True assms by (auto simp: contracts_that_fit_def)
next
  case False
  then show ?thesis using assms(1) floor_limit [of x k b] by (auto simp: contracts_that_fit_def floor_int_def)
qed

lemma cap_by_iff: "k \<le> cap_by n limit \<longleftrightarrow> k \<le> n \<and> (case limit of None \<Rightarrow> True | Some m \<Rightarrow> k \<le> m)"
  by (auto simp: cap_by_def split: option.splits)

lemma contracts_by_risk_finite:
  assumes "contracts_by_risk risk (Fin l) = Inr n" and "0 < l"
  obtains q where "risk = Fin q"
  using assms by (cases risk) (auto simp: contracts_by_risk_def single_contract_tolerance_def floor_int_def signed_inf_def)

lemma contracts_by_risk_iff:
  assumes "contracts_by_risk (Fin q) (Fin l) = Inr n" and "0 < k"
  shows "k \<le> n \<longleftrightarrow> 0 < l \<and> (of_int k * l \<le> q \<or> k = 1 \<and> 95/100 * l \<le> q)"
proof (cases "0 < l")
  case True
  let ?r = "q * (1 / l)"
  have near: "95/100 \<le> ?r \<longleftrightarrow> 95/100 * l \<le> q" and under: "?r < 1 \<longleftrightarrow> q < l"
    using True by (simp_all add: pos_le_divide_eq pos_divide_less_eq)
  have n: "n = (if 95/100 * l \<le> q \<and> q < l then 1 else \<lfloor>?r\<rfloor>)"
    using assms(1) True near under by (auto simp: contracts_by_risk_def single_contract_tolerance_def floor_int_def split: if_splits)
  have fits: "k \<le> \<lfloor>?r\<rfloor> \<longleftrightarrow> of_int k * l \<le> q" by (rule floor_limit [OF True])
  show ?thesis
  proof (cases "95/100 * l \<le> q \<and> q < l")
    case tol: True
    have "l \<le> of_int k * l" using assms(2) True by simp
    then have "\<not> of_int k * l \<le> q" using tol by linarith
    then show ?thesis using tol n assms(2) True by auto
  next
    case False
    have "1 = k \<Longrightarrow> 95/100 * l \<le> q \<Longrightarrow> of_int k * l \<le> q" using False by auto
    then show ?thesis using False n fits True by auto
  qed
next
  case False
  then show ?thesis using assms by (auto simp: contracts_by_risk_def)
qed

lemma estimate_close_finite: "\<exists>c. estimate_close_bp strategy (Fin l) = Fin c"
  by (auto simp: estimate_close_bp_def Let_def)

text \<open>What a number of contracts has to respect.\<close>

definition admissible_size :: "sizing_input \<Rightarrow> rat \<Rightarrow> rat \<Rightarrow> rat \<Rightarrow> rat \<Rightarrow> rat \<Rightarrow> int \<Rightarrow> bool" where
  "admissible_size si bp l c roundtrip risk k \<longleftrightarrow>
     k \<le> si_max_contracts si \<and> of_int k * c \<le> bp \<and> of_int k * roundtrip \<le> bp
     \<and> 0 < l \<and> (of_int k * l \<le> risk \<or> k = 1 \<and> 95/100 * l \<le> risk)
     \<and> (case si_lifecycle si of None \<Rightarrow> True | Some s \<Rightarrow> s \<in> set recognized_states \<and> (s = ''experimental'' \<longrightarrow> k = 1))"

lemma calculate_sizing_steps:
  assumes "calculate_sizing si = Inr r" and "\<not> fle (si_buying_power si) (Fin 0)"
  obtains risk prefix by_risk by_collateral by_roundtrip normal where
    "dollar_risk si = Inr (risk, prefix)" and "contracts_by_risk risk (si_max_loss si) = Inr by_risk"
    and "contracts_that_fit (si_buying_power si) (si_collateral si) = Inr by_collateral"
    and "contracts_that_fit (si_buying_power si) (fadd (si_collateral si) (fmul (estimate_close_bp (si_strategy si) (si_max_loss si)) (si_safety si))) = Inr by_roundtrip"
    and "normal = max 0 (min (cap_by (cap_by by_risk by_collateral) by_roundtrip) (si_max_contracts si))"
    and "sz_max_risk r = risk"
    and "sz_contracts r = (if case si_lifecycle si of None \<Rightarrow> False | Some s \<Rightarrow> s \<notin> set recognized_states then 0
           else if si_lifecycle si = Some ''experimental'' \<and> 1 < normal then 1 else normal)"
proof -
  note run = assms(1) [unfolded calculate_sizing_def if_not_P [OF assms(2)]]
  obtain risk prefix where a: "dollar_risk si = Inr (risk, prefix)" using run by (cases "dollar_risk si") auto
  obtain by_risk where b: "contracts_by_risk risk (si_max_loss si) = Inr by_risk"
    using run a by (cases "contracts_by_risk risk (si_max_loss si)") simp_all
  obtain by_collateral where c: "contracts_that_fit (si_buying_power si) (si_collateral si) = Inr by_collateral"
    using run a b by (cases "contracts_that_fit (si_buying_power si) (si_collateral si)") simp_all
  let ?need = "fadd (si_collateral si) (fmul (estimate_close_bp (si_strategy si) (si_max_loss si)) (si_safety si))"
  obtain by_roundtrip where d: "contracts_that_fit (si_buying_power si) ?need = Inr by_roundtrip"
    using run a b c by (cases "contracts_that_fit (si_buying_power si) ?need") (simp_all add: Let_def)
  have r: "sz_max_risk r = risk \<and> sz_contracts r = (if case si_lifecycle si of None \<Rightarrow> False | Some s \<Rightarrow> s \<notin> set recognized_states then 0
      else if si_lifecycle si = Some ''experimental'' \<and> 1 < max 0 (min (cap_by (cap_by by_risk by_collateral) by_roundtrip) (si_max_contracts si))
      then 1 else max 0 (min (cap_by (cap_by by_risk by_collateral) by_roundtrip) (si_max_contracts si)))"
    using run by (simp only: a b c d Let_def rbind_simps prod.case sum.inject) (elim subst, simp)
  show ?thesis by (rule that [OF a b c d refl]) (use r in simp_all)
qed

lemma sizing_admits:
  assumes "calculate_sizing si = Inr r" and "si_buying_power si = Fin bp" and "0 < bp" and "si_max_loss si = Fin l" and "0 < l"
    and "si_collateral si = Fin c" and "si_safety si = Fin sf" and "0 < k"
  shows "\<exists>risk close. sz_max_risk r = Fin risk \<and> estimate_close_bp (si_strategy si) (Fin l) = Fin close
      \<and> (k \<le> sz_contracts r \<longleftrightarrow> admissible_size si bp l c (c + close * sf) risk k)"
proof -
  have "\<not> fle (si_buying_power si) (Fin 0)" using assms(2,3) by simp
  with assms(1) obtain risk prefix by_risk by_collateral by_roundtrip normal where
    parts: "contracts_by_risk risk (si_max_loss si) = Inr by_risk" "contracts_that_fit (si_buying_power si) (si_collateral si) = Inr by_collateral"
      "contracts_that_fit (si_buying_power si) (fadd (si_collateral si) (fmul (estimate_close_bp (si_strategy si) (si_max_loss si)) (si_safety si)))
        = Inr by_roundtrip"
      "normal = max 0 (min (cap_by (cap_by by_risk by_collateral) by_roundtrip) (si_max_contracts si))" "sz_max_risk r = risk"
    and n: "sz_contracts r = (if case si_lifecycle si of None \<Rightarrow> False | Some s \<Rightarrow> s \<notin> set recognized_states then 0
           else if si_lifecycle si = Some ''experimental'' \<and> 1 < normal then 1 else normal)"
    by (rule calculate_sizing_steps) blast
  note steps = parts [unfolded assms(2,4,6,7)]
  obtain q where q: "risk = Fin q" using contracts_by_risk_finite [OF steps(1) assms(5)] .
  obtain close where close: "estimate_close_bp (si_strategy si) (Fin l) = Fin close" using estimate_close_finite by blast
  have limits: "(case by_collateral of None \<Rightarrow> True | Some m \<Rightarrow> k \<le> m) \<longleftrightarrow> of_int k * c \<le> bp"
      "(case by_roundtrip of None \<Rightarrow> True | Some m \<Rightarrow> k \<le> m) \<longleftrightarrow> of_int k * (c + close * sf) \<le> bp"
    using contracts_that_fit_iff [OF steps(2), of k] contracts_that_fit_iff [of bp "c + close * sf" by_roundtrip k] steps(3) close assms(3,8) by simp_all
  have by_risk: "k \<le> by_risk \<longleftrightarrow> 0 < l \<and> (of_int k * l \<le> q \<or> k = 1 \<and> 95/100 * l \<le> q)"
    by (rule contracts_by_risk_iff [OF steps(1) [unfolded q] assms(8)])
  have normal: "k \<le> normal \<longleftrightarrow> k \<le> si_max_contracts si \<and> of_int k * c \<le> bp \<and> of_int k * (c + close * sf) \<le> bp
      \<and> 0 < l \<and> (of_int k * l \<le> q \<or> k = 1 \<and> 95/100 * l \<le> q)"
    using assms(8) unfolding steps(4) le_max_iff_disj min.bounded_iff cap_by_iff limits by_risk by auto
  have "k \<le> sz_contracts r \<longleftrightarrow> admissible_size si bp l c (c + close * sf) q k"
    using n assms(8) normal by (cases "si_lifecycle si") (auto simp: admissible_size_def recognized_states_def split: if_splits)
  then show ?thesis using q close steps(5) by blast
qed

text \<open>
  C31 (functional). The size is the largest admissible number of contracts: a positive number k is at most
  the size exactly when k contracts are within the contract limit, their collateral and the collateral
  plus the cost of closing them fit into the buying power, their loss fits into the risk budget, or
  one contract misses it by at most five percent, and the life cycle state is recognized and not
  experimental for more than one.
\<close>

theorem sizing_is_largest:
  assumes "calculate_sizing si = Inr r" and "si_buying_power si = Fin bp" and "0 < bp" and "si_max_loss si = Fin l" and "0 < l"
    and "si_collateral si = Fin c" and "si_safety si = Fin sf" and "0 < k"
  shows "\<exists>risk close. sz_max_risk r = Fin risk \<and> estimate_close_bp (si_strategy si) (Fin l) = Fin close
      \<and> (k \<le> sz_contracts r \<longleftrightarrow> admissible_size si bp l c (c + close * sf) risk k)"
  using sizing_admits [OF assms] .

lemma percentage_risk_capped:
  assumes "dollar_risk si = Inr (Fin risk, reason)" and "si_budget si = None" and "si_buying_power si = Fin bp" and "0 < bp"
    and "si_multiplier si = Fin m" and "0 \<le> m"
  shows "risk \<le> (if str_lower (si_profile si) = ''aggressive'' then 5/100 else 2/100) * bp * m"
proof -
  let ?cap = "if str_lower (si_profile si) = ''aggressive'' then 5/100 else 2/100 :: rat"
  obtain p where p: "effective_risk_pct si = Inr p" and risk: "fmul (fmul (Fin bp) p) (Fin m) = Fin risk"
    using assms by (auto simp: dollar_risk_def rbind_Inr_iff)
  have "\<not> flt (Fin ?cap) p" using p by (auto simp: effective_risk_pct_def Let_def rbind_Inr_iff split: if_splits)
  then show ?thesis
  proof (cases p)
    case (Fin x)
    then have "x \<le> ?cap" using \<open>\<not> flt (Fin ?cap) p\<close> by simp
    then have "bp * x * m \<le> bp * ?cap * m" using assms(4,6) by (intro mult_right_mono mult_left_mono) simp_all
    then show ?thesis using risk Fin by (simp add: mult.commute)
  qed (use risk assms(4,6) in \<open>auto simp: signed_inf_def split: if_splits\<close>)
qed

definition sample_sizing :: sizing_input where
  "sample_sizing =
     \<lparr>si_buying_power = Fin 2000, si_max_loss = Fin 300, si_collateral = Fin 200, si_risk_pct = Fin (2/100), si_multiplier = Fin 1,
      si_profile = ''balanced'', si_budget = Some (Fin 1000), si_max_contracts = 100, si_strategy = Some ''IRON_CONDOR'',
      si_safety = Fin default_safety_factor, si_lifecycle = Some ''live_full''\<rparr>"

lemma sample_close: "estimate_close_bp (Some ''IRON_CONDOR'') (Fin 300) = Fin 600"
proof -
  have "str_upper ''IRON_CONDOR'' = ''IRON_CONDOR''" by code_simp
  then show ?thesis by (simp add: estimate_close_bp_def long_singles_def credit_spreads_def debit_spreads_def)
qed

theorem sizing_is_largest_witness:
  "\<exists>r. calculate_sizing sample_sizing = Inr r \<and> 2 \<le> sz_contracts r \<and> \<not> 3 \<le> sz_contracts r"
proof -
  obtain r where r: "calculate_sizing sample_sizing = Inr r"
    by (simp add: calculate_sizing_def sample_sizing_def dollar_risk_def contracts_by_risk_def contracts_that_fit_def floor_int_def sample_close
        single_contract_tolerance_def Let_def default_safety_factor_def)
  have fields: "si_buying_power sample_sizing = Fin 2000" "si_max_loss sample_sizing = Fin 300" "si_collateral sample_sizing = Fin 200"
    "si_safety sample_sizing = Fin (11/10)" "si_strategy sample_sizing = Some ''IRON_CONDOR''"
    by (simp_all add: sample_sizing_def default_safety_factor_def)
  have risk: "sz_max_risk r = Fin 1000"
    using r by (auto simp: calculate_sizing_def rbind_Inr_iff Let_def sample_sizing_def dollar_risk_def)
  have "k \<le> sz_contracts r \<longleftrightarrow> admissible_size sample_sizing 2000 300 200 860 1000 k" if "0 < k" for k
    using sizing_is_largest [OF r fields(1) _ fields(2) _ fields(3,4) that] risk sample_close fields(5) by simp
  then show ?thesis using r by (simp add: admissible_size_def sample_sizing_def recognized_states_def)
qed

end
