(* ===== verification/Budget_Correct.thy ===== *)
theory Budget_Correct
  imports Risk_Budget Sizing
begin

section \<open>What the risk budget guarantees\<close>

subsection \<open>Caps\<close>

lemma regime_caps_bounds: "kv \<in> set (regime_caps regime) \<Longrightarrow> 0 \<le> snd kv \<and> snd kv \<le> 15/100"
  by (cases regime) auto

lemma strategy_cap_bounds: "0 \<le> calculate_strategy_cap st regime \<and> calculate_strategy_cap st regime \<le> 15/100"
proof -
  have "map_of (regime_caps regime) k = Some c \<Longrightarrow> 0 \<le> c \<and> c \<le> 15/100" for k c
    using regime_caps_bounds map_of_SomeD by fastforce
  moreover have "find p (regime_caps regime) = Some kv \<Longrightarrow> 0 \<le> snd kv \<and> snd kv \<le> 15/100" for p kv
    using regime_caps_bounds by (metis find_Some_iff nth_mem)
  ultimately show ?thesis by (auto simp: calculate_strategy_cap_def Let_def base_cap_def split: option.splits)
qed

definition cap_keys :: "string list" where
  "cap_keys = [''debit_call'', ''debit_put'', ''credit_call'', ''credit_put'', ''iron_condor'', ''single'', ''vertical'', ''calendar'']"

lemma regime_keys: "map_of (regime_caps regime) k = Some c \<Longrightarrow> k \<in> set cap_keys"
  by (drule map_of_SomeD, cases regime) (auto simp: cap_keys_def)

text \<open>A tradable identity gets the cap of its family wherever the regime has one.\<close>

lemma identity_gets_family_cap:
  assumes "(canonical, family) \<in> set family_by_id" and "map_of (regime_caps regime) family = Some c"
  shows "calculate_strategy_cap canonical regime = c"
proof -
  have lower: "str_lower canonical = canonical \<and> normalize_strategy_id canonical = canonical \<and> canonical \<noteq> []"
    using assms(1) unfolding family_by_id_def by (simp, elim disjE) (simp_all, code_simp+)
  have fam: "map_of family_by_id canonical = Some family" using assms(1) by (auto simp: family_by_id_def)
  have "map_of (regime_caps regime) canonical \<in> {None, Some c}"
  proof (cases "map_of (regime_caps regime) canonical")
    case (Some d)
    then have "canonical \<in> set cap_keys" by (rule regime_keys)
    then have "canonical = family" using assms(1) by (auto simp: family_by_id_def cap_keys_def)
    then show ?thesis using assms(2) by simp
  qed simp
  then show ?thesis using lower fam assms(2) by (auto simp: calculate_strategy_cap_def resolve_risk_cap_family_def Let_def)
qed

subsection \<open>The book\<close>

text \<open>The usage per strategy and per symbol adds up to the value of the book.\<close>

definition usage_total :: "(string \<times> pynum) list \<Rightarrow> pynum" where
  "usage_total us = foldr (\<lambda>u acc. fadd (snd u) acc) us (Fin 0)"

lemma usage_total_add: "usage_total us = Fin a \<Longrightarrow> usage_total (add_usage k (Fin v) us) = Fin (a + v)"
proof (induction us arbitrary: a)
  case (Cons u us)
  obtain k' w where u: "u = (k', w)" by fastforce
  have "fadd w (usage_total us) = Fin a" using Cons.prems u by (simp add: usage_total_def)
  from fadd_FinD [OF this] obtain x y where "w = Fin x" "usage_total us = Fin y" "a = x + y" by blast
  then show ?case using Cons.IH [of y] u by (auto simp: usage_total_def)
qed (simp add: usage_total_def)

subsection \<open>The next trade\<close>

lemma global_cap_bounds: "0 < global_cap_pct regime \<and> global_cap_pct regime \<le> 1/2"
  by (cases regime) simp_all

lemma micro_mult_bounds: "0 < micro_regime_mult regime \<and> micro_regime_mult regime \<le> 1"
  by (cases regime) simp_all

lemma clamp_risk_cases: "fst (clamp_risk wanted remaining marks) \<in> {Fin 0, fmin wanted remaining}"
  by (simp add: clamp_risk_def)

lemma compute_parts:
  assumes "compute_risk_budget env txt deployable regime positions profile hint = Inr rr"
  obtains bu where "book_usage_of txt positions = Inr bu" and "rr_equity rr = equity_of deployable bu"
    and "rr_global rr = allocation_of (al_used (rr_global rr)) (global_limit deployable regime (rr_equity rr))"
    and "rr_max_risk rr \<in> {Fin 0, fmin (fst (trade_risk (ct_name (get_tier deployable)) deployable regime profile hint (rr_equity rr)))
           (al_remaining (rr_global rr))}"
proof -
  obtain bu where bu: "book_usage_of txt positions = Inr bu" using assms by (auto simp: compute_risk_budget_def rbind_Inr_iff)
  note run = assms [unfolded compute_risk_budget_def bu rbind_simps Let_def sum.inject]
  have used: "al_used (allocation_of u l) = u" for u l by (simp add: allocation_of_def)
  show ?thesis
    by (rule that [OF bu]; unfold run [symmetric] risk_report.select_convs used; (rule refl clamp_risk_cases)?)
qed

lemma remaining_after: "al_remaining (allocation_of (Fin u) (Fin limit)) = Fin (max 0 (limit - u))"
  by (simp add: allocation_of_def)

lemma trade_risk_finite:
  assumes "\<forall>h. hint = Some h \<longrightarrow> is_finite h"
  shows "is_finite (fst (trade_risk tier deployable regime profile hint (Fin e)))"
proof (cases "tier = Small \<and> hint \<noteq> None")
  case True
  then show ?thesis using assms by (auto simp: trade_risk_def)
next
  case False
  then show ?thesis by (cases tier; cases hint) (simp_all add: trade_risk_def Let_def)
qed

lemma trade_within_cap:
  assumes "compute_risk_budget env txt deployable regime positions profile hint = Inr rr"
    and "rr_equity rr = Fin e" and "al_used (rr_global rr) = Fin u" and "\<forall>h. hint = Some h \<longrightarrow> is_finite h"
  shows "\<exists>limit r. al_limit (rr_global rr) = Fin limit \<and> rr_max_risk rr = Fin r \<and> r \<le> max 0 (limit - u)
     \<and> limit = (if ct_name (get_tier deployable) = Micro then deployable * (90/100) * micro_regime_mult regime else e * global_cap_pct regime)"
proof -
  let ?wanted = "fst (trade_risk (ct_name (get_tier deployable)) deployable regime profile hint (Fin e))"
  obtain bu where "book_usage_of txt positions = Inr bu"
    and parts: "rr_global rr = allocation_of (al_used (rr_global rr)) (global_limit deployable regime (rr_equity rr))"
      "rr_max_risk rr \<in> {Fin 0, fmin (fst (trade_risk (ct_name (get_tier deployable)) deployable regime profile hint (rr_equity rr)))
         (al_remaining (rr_global rr))}"
    by (rule compute_parts [OF assms(1)])
  let ?limit = "if ct_name (get_tier deployable) = Micro then deployable * (90/100) * micro_regime_mult regime else e * global_cap_pct regime"
  have "global_limit deployable regime (Fin e) = Fin ?limit" by (simp add: global_limit_def)
  then have global: "rr_global rr = allocation_of (Fin u) (Fin ?limit)" using parts(1) unfolding assms(2,3) by simp
  have "is_finite ?wanted" by (rule trade_risk_finite [OF assms(4)])
  then obtain w where w: "?wanted = Fin w" by (auto simp: is_finite_iff)
  have limit: "al_limit (rr_global rr) = Fin ?limit" unfolding global by (simp only: allocation_of_def budget_allocation.select_convs)
  have "rr_max_risk rr \<in> {Fin 0, fmin (Fin w) (Fin (max 0 (?limit - u)))}" using parts(2) by (simp only: assms(2) w global remaining_after)
  then consider "rr_max_risk rr = Fin 0" | "rr_max_risk rr = Fin (min w (max 0 (?limit - u)))" unfolding fmin_Fin by blast
  then obtain r where "rr_max_risk rr = Fin r" "r \<le> max 0 (?limit - u)"
  proof cases
    case 1
    show ?thesis by (rule that [OF 1 max.cobounded1])
  next
    case 2
    show ?thesis by (rule that [OF 2 min.cobounded2])
  qed
  then show ?thesis using limit by blast
qed

lemma get_tier_micro: "ct_name (get_tier d) = Micro \<Longrightarrow> 0 \<le> d \<and> d < 1000"
  by (auto simp: get_tier_def tiers_def in_tier_def split: if_splits)

lemma equity_positive: "equity_of deployable bu = Fin e \<Longrightarrow> 0 < e"
  by (auto simp: equity_of_def Let_def split: if_splits)

definition global_share :: "rat \<Rightarrow> rat \<Rightarrow> rat" where
  "global_share deployable e = (if ct_name (get_tier deployable) = Micro then 90/100 * deployable else 50/100 * e)"

lemma global_limit_share:
  assumes "limit = (if ct_name (get_tier deployable) = Micro then deployable * (90/100) * micro_regime_mult regime else e * global_cap_pct regime)"
    and "0 < e"
  shows "0 \<le> limit \<and> limit \<le> global_share deployable e"
proof (cases "ct_name (get_tier deployable) = Micro")
  case True
  then have d: "0 \<le> deployable * (90/100)" using get_tier_micro by simp
  from micro_mult_bounds [of regime] have "0 \<le> micro_regime_mult regime" "micro_regime_mult regime \<le> 1" by simp_all
  then show ?thesis using True d mult_left_le [OF _ d, of "micro_regime_mult regime"] by (simp add: assms(1) global_share_def)
next
  case False
  from global_cap_bounds [of regime] have "0 \<le> global_cap_pct regime" "global_cap_pct regime \<le> 1/2" by simp_all
  then show ?thesis using False assms(2) mult_left_mono [of "global_cap_pct regime" "1/2" e] by (simp add: assms(1) global_share_def)
qed

text \<open>
  The budget of the next trade keeps the book within its global limit, unless the book is above it
  already and the trade may risk nothing; the limit is at most ninety percent of the capital of a
  micro account and half of the equity otherwise, whatever the regime, the profile and the hint.
\<close>

lemma budget_bounds:
  assumes "compute_risk_budget env txt deployable regime positions profile hint = Inr rr"
    and "rr_equity rr = Fin e" and "al_used (rr_global rr) = Fin u" and "\<forall>h. hint = Some h \<longrightarrow> is_finite h"
  shows "\<exists>limit r. al_limit (rr_global rr) = Fin limit \<and> rr_max_risk rr = Fin r \<and> 0 \<le> limit \<and> limit \<le> global_share deployable e
     \<and> u + max 0 r \<le> max u limit"
proof -
  obtain bu where "rr_equity rr = equity_of deployable bu" by (rule compute_parts [OF assms(1)])
  then have "0 < e" using equity_positive assms(2) by simp
  with trade_within_cap [OF assms] global_limit_share show ?thesis by fastforce
qed

text \<open>
  C32 (safety). Budget and size together: when the risk at stake of the book is \<open>u\<close> and a trade is
  sized with the budget of the risk engine, at a multiplier of at most one and for positive finite
  figures, the book with the trade has at most the larger of \<open>u\<close> and the global limit at stake, up
  to the five percent of one contract's loss that a single contract may miss the budget by. So a
  book within its limit stays within it, and one already above it is given no more. The limit is at
  most ninety percent of the deployable capital in the micro tier and half of the equity in the others.
\<close>

theorem sized_trade_within_global_limit:
  assumes "compute_risk_budget env txt deployable regime positions profile hint = Inr rr"
    and "rr_equity rr = Fin e" and "al_used (rr_global rr) = Fin u" and "\<forall>h. hint = Some h \<longrightarrow> is_finite h"
    and "calculate_sizing si = Inr sz" and "si_budget si = Some (rr_max_risk rr)" and "si_multiplier si = Fin m" and "0 \<le> m" and "m \<le> 1"
    and "si_buying_power si = Fin bp" and "0 < bp" and "si_max_loss si = Fin l" and "0 < l" and "si_collateral si = Fin c" and "si_safety si = Fin sf"
  shows "\<exists>limit. al_limit (rr_global rr) = Fin limit \<and> limit \<le> global_share deployable e
     \<and> u + of_int (sz_contracts sz) * l \<le> max u limit + 5/100 * l"
proof -
  obtain limit r where b: "al_limit (rr_global rr) = Fin limit" "rr_max_risk rr = Fin r" "limit \<le> global_share deployable e" "u + max 0 r \<le> max u limit"
    using budget_bounds [OF assms(1-4)] by blast
  have "\<not> fle (si_buying_power si) (Fin 0)" using assms(10,11) by simp
  with assms(5) obtain risk prefix where risk: "dollar_risk si = Inr (risk, prefix)" "sz_max_risk sz = risk"
    by (rule calculate_sizing_steps) blast
  then have max_risk: "sz_max_risk sz = Fin (max 0 r * m)" using assms(6,7) b(2) by (simp add: dollar_risk_def Let_def)
  have small: "max 0 r * m \<le> max 0 r" using assms(8,9) by (simp add: mult_left_le)
  show ?thesis
  proof (cases "0 < sz_contracts sz")
    case True
    from sizing_admits [OF assms(5,10-15) True] max_risk
    have "of_int (sz_contracts sz) * l \<le> max 0 r * m \<or> sz_contracts sz = 1 \<and> 95/100 * l \<le> max 0 r * m" by (auto simp: admissible_size_def)
    then have "of_int (sz_contracts sz) * l \<le> max 0 r + 5/100 * l" using small assms(13) by (elim disjE conjE) simp_all
    then show ?thesis using b by (intro exI [of _ limit]) linarith
  next
    case False
    then have "of_int (sz_contracts sz) * l \<le> 0" using assms(13) by (simp add: mult_nonpos_nonneg)
    moreover have "u \<le> max u limit" "0 \<le> 5/100 * l" using assms(13) by simp_all
    ultimately have "u + of_int (sz_contracts sz) * l \<le> max u limit + 5/100 * l" by linarith
    then show ?thesis using b by blast
  qed
qed

subsection \<open>Examples\<close>

definition one_spread :: budget_position where
  "one_spread = DictPos [(''symbol'', PStr ''SPY''), (''quantity'', PInt 1), (''max_loss'', PInt 300), (''current_value'', PInt 200)]"

definition no_env :: environ where
  "no_env = (\<lambda>_. None)"

lemma one_spread_budget:
  "\<exists>rr. compute_risk_budget no_env (\<lambda>_. []) 2000 Normal [one_spread] ''balanced'' (Some (Fin 500)) = Inr rr
     \<and> rr_equity rr = Fin 2200 \<and> al_used (rr_global rr) = Fin 300 \<and> rr_max_risk rr = Fin 500"
proof -
  have usage: "\<exists>bu. book_usage_of (\<lambda>_. []) [one_spread] = Inr bu \<and> bu_value bu = Fin 200 \<and> bu_risk bu = Fin 300 \<and> \<not> bu_honest_any bu"
    by (simp add: book_usage_of_def one_spread_def use_position_def position_value_def estimate_risk_usage_usd_def dict_risk_usage_def float_field_def
        declared_risk_def honest_position_risk_def dict_greeks_ok_def no_usage_def dget_def dget_default_def py_or_def Let_def)
  have tier: "ct_name (get_tier 2000) = Small" by (simp add: get_tier_def tiers_def in_tier_def)
  have off: "\<not> gate_enabled None" by (simp add: gate_enabled_def) code_simp
  show ?thesis using usage tier off
    by (auto simp: compute_risk_budget_def Let_def equity_of_def global_limit_def trade_risk_def allocation_of_def clamp_risk_def choose_basis_def
        no_env_def skips_zero_clamp_def)
qed

theorem sized_trade_within_global_limit_witness:
  "\<exists>rr sz limit. compute_risk_budget no_env (\<lambda>_. []) 2000 Normal [one_spread] ''balanced'' (Some (Fin 500)) = Inr rr
     \<and> calculate_sizing (sample_sizing\<lparr>si_budget := Some (Fin 500)\<rparr>) = Inr sz \<and> al_limit (rr_global rr) = Fin limit
     \<and> 300 + of_int (sz_contracts sz) * 300 \<le> max 300 limit + 15"
proof -
  let ?si = "sample_sizing\<lparr>si_budget := Some (Fin 500)\<rparr>"
  obtain rr where rr: "compute_risk_budget no_env (\<lambda>_. []) 2000 Normal [one_spread] ''balanced'' (Some (Fin 500)) = Inr rr"
    "rr_equity rr = Fin 2200" "al_used (rr_global rr) = Fin 300" "rr_max_risk rr = Fin 500" using one_spread_budget by blast
  obtain sz where sz: "calculate_sizing ?si = Inr sz"
    by (simp add: calculate_sizing_def sample_sizing_def dollar_risk_def contracts_by_risk_def contracts_that_fit_def floor_int_def sample_close
        single_contract_tolerance_def Let_def default_safety_factor_def)
  have fields: "si_buying_power ?si = Fin 2000" "si_max_loss ?si = Fin 300" "si_collateral ?si = Fin 200" "si_safety ?si = Fin (11/10)"
    "si_multiplier ?si = Fin 1" by (simp_all add: sample_sizing_def default_safety_factor_def)
  from sized_trade_within_global_limit [OF rr(1-3) _ sz _ fields(5) _ _ fields(1) _ fields(2) _ fields(3,4)] rr(4)
  have "\<exists>limit. al_limit (rr_global rr) = Fin limit \<and> 300 + of_int (sz_contracts sz) * 300 \<le> max 300 limit + 15" by auto
  then show ?thesis using rr(1) sz by blast
qed

end
