(* ===== verification/Dispositions.thy ===== *)
theory Dispositions
  imports Position_Close
begin

section \<open>Fates of candidates\<close>

text \<open>
  Model of \<open>services/candidate_disposition.py\<close> over the table \<open>candidate_terminal_dispositions\<close>: the
  recorder of one cycle, which gives each candidate its final disposition, and the milestones of a
  candidate that was staged, submitted and filled.

  The state is the table together with the recorder. The n-th database call of a recorder is
  answered as its environment says: carried out, carried out with the reply lost, failed, or the
  table is absent. A candidate is an object identity with its dictionary. Hashes, the text of a
  value and the artifact of costs are parameters. The columns that are copied without being read
  (date, user, window, code version, times) and log lines are left out. The primary key is the
  number of the row.
\<close>

record disp_row =
  dr_id :: nat
  dr_cycle :: string
  dr_fingerprint :: string
  dr_attempt :: nat
  dr_symbol :: pyval
  dr_strategy :: pyval
  dr_primary :: bool
  dr_selected :: bool
  dr_disposition :: "string option"
  dr_final :: bool
  dr_suggestion :: pyval
  dr_detail :: "pydict option"

record cand_ident =
  ci_fingerprint :: string
  ci_attempt :: nat
  ci_symbol :: pyval
  ci_strategy :: pyval
  ci_primary :: bool

record disp_counts =
  dc_attempts :: nat
  dc_finals :: nat
  dc_failures :: nat
  dc_noops :: nat
  dc_violations :: nat

record disp_state =
  ds_rows :: "disp_row list"
  ds_registry :: "nat \<Rightarrow> cand_ident option"
  ds_attempts :: "string \<Rightarrow> nat"
  ds_finals :: "string \<Rightarrow> nat option"
  ds_details :: "string \<times> nat \<Rightarrow> pydict option"
  ds_missing :: bool
  ds_counts :: disp_counts
  ds_calls :: nat

datatype db_answer = Answered | AnswerLost | CallFails | TableAbsent

record disp_env =
  de_disabled :: bool
  de_cycle :: string
  de_strict :: bool
  de_answer :: "nat \<Rightarrow> db_answer"
  de_legs_hash :: "pyval \<Rightarrow> string"
  de_hash :: "string \<Rightarrow> string"
  de_text :: "pyval \<Rightarrow> string"
  de_cost :: "pydict \<Rightarrow> pyval option"

datatype disp_error = H7SubreasonViolation

definition dispositions :: "string list" where
  "dispositions =
     [''scanner_rejected'', ''h7_dropped'', ''allocator_dropped'', ''rank_blocked'', ''persisted_blocked'', ''persisted_executable'',
      ''staged'', ''broker_submitted'', ''filled'', ''superseded_retry'']"

definition h7_subreasons :: "string list" where
  "h7_subreasons = [''roundtrip_bp'', ''quality_gate'', ''sizing_zero'', ''risk_budget'', ''account_capacity'']"

subsection \<open>The table\<close>

type_synonym disp_key = "string \<times> string \<times> nat"

definition disp_key_of :: "disp_row \<Rightarrow> disp_key" where
  "disp_key_of r = (dr_cycle r, dr_fingerprint r, dr_attempt r)"

text \<open>The unique index on the final rows.\<close>

definition one_final :: "disp_row list \<Rightarrow> bool" where
  "one_final rows \<longleftrightarrow> distinct (map (\<lambda>r. (dr_cycle r, dr_fingerprint r)) (filter dr_final rows))"

definition upsert_row :: "disp_key \<times> (disp_row \<Rightarrow> disp_row) \<Rightarrow> disp_row list \<Rightarrow> disp_row list" where
  "upsert_row kp rows =
     (case kp of (k, patch) \<Rightarrow>
        if k \<in> set (map disp_key_of rows) then map (\<lambda>r. if disp_key_of r = k then patch r else r) rows
        else rows @ [patch \<lparr>dr_id = length rows, dr_cycle = fst k, dr_fingerprint = fst (snd k), dr_attempt = snd (snd k),
               dr_symbol = PNone, dr_strategy = PNone, dr_primary = True, dr_selected = True, dr_disposition = None, dr_final = False,
               dr_suggestion = PNone, dr_detail = None\<rparr>])"

text \<open>One statement: it must not touch a row twice, and the result has to obey the index.\<close>

definition upsert_rows :: "(disp_key \<times> (disp_row \<Rightarrow> disp_row)) list \<Rightarrow> disp_row list \<Rightarrow> disp_row list option" where
  "upsert_rows kps rows =
     (let rows' = fold upsert_row kps rows
      in if distinct (map fst kps) \<and> one_final rows' then Some rows' else None)"

text \<open>\<open>_execute\<close>: one call, its answer classified.\<close>

definition db_call :: "disp_env \<Rightarrow> (disp_row list \<Rightarrow> disp_row list option) \<Rightarrow> disp_state \<Rightarrow> bool \<times> disp_state" where
  "db_call env f st =
     (if de_disabled env then (False, st)
      else if ds_missing st then (False, st\<lparr>ds_counts := (ds_counts st)\<lparr>dc_noops := dc_noops (ds_counts st) + 1\<rparr>\<rparr>)
      else
        (let st1 = st\<lparr>ds_calls := ds_calls st + 1\<rparr>;
             failed = (\<lambda>s. (False, s\<lparr>ds_counts := (ds_counts s)\<lparr>dc_failures := dc_failures (ds_counts s) + 1\<rparr>\<rparr>))
         in case de_answer env (ds_calls st) of
              Answered \<Rightarrow> (case f (ds_rows st) of Some rows \<Rightarrow> (True, st1\<lparr>ds_rows := rows\<rparr>) | None \<Rightarrow> failed st1)
            | AnswerLost \<Rightarrow> failed (case f (ds_rows st) of Some rows \<Rightarrow> st1\<lparr>ds_rows := rows\<rparr> | None \<Rightarrow> st1)
            | CallFails \<Rightarrow> failed st1
            | TableAbsent \<Rightarrow>
                (False, st1\<lparr>ds_missing := True, ds_counts := (ds_counts st)\<lparr>dc_noops := dc_noops (ds_counts st) + 1\<rparr>\<rparr>)))"

subsection \<open>Identity\<close>

definition candidate_fingerprint :: "disp_env \<Rightarrow> pydict \<Rightarrow> string" where
  "candidate_fingerprint env c =
     (let legs = py_or (dget c ''legs'') (PList [])
      in if truthy legs then de_legs_hash env legs
         else (let name = py_or (py_or (dget c ''ticker'') (dget c ''symbol'')) (PStr []);
                   strat = py_or (py_or (dget c ''strategy'') (dget c ''type'')) (PStr ''unknown'')
               in ''nolegs:'' @ de_hash env (de_text env name @ '':'' @ de_text env strat)))"

definition candidate_is_primary :: "pydict \<Rightarrow> bool" where
  "candidate_is_primary c \<longleftrightarrow> \<not> truthy (py_or (dget c ''is_fallback_strategy'') (dget c ''is_fallback''))"

type_synonym cand = "(nat \<times> pydict) option"

definition cand_dict :: "cand \<Rightarrow> pydict" where
  "cand_dict cd = (case cd of None \<Rightarrow> [] | Some (_, d) \<Rightarrow> d)"

definition new_ident :: "disp_env \<Rightarrow> pydict \<Rightarrow> pyval \<Rightarrow> pyval \<Rightarrow> nat \<Rightarrow> cand_ident" where
  "new_ident env c name strategy attempt =
     \<lparr>ci_fingerprint = candidate_fingerprint env c, ci_attempt = attempt,
      ci_symbol = py_or (py_or (py_or name (dget c ''ticker'')) (dget c ''symbol'')) (PStr ''unknown''),
      ci_strategy = py_or (py_or (py_or strategy (dget c ''strategy'')) (dget c ''type'')) (PStr ''unknown''),
      ci_primary = candidate_is_primary c\<rparr>"

definition register :: "disp_env \<Rightarrow> cand \<Rightarrow> pyval \<Rightarrow> pyval \<Rightarrow> disp_state \<Rightarrow> cand_ident \<times> disp_state" where
  "register env cd name strategy st =
     (let known = (case cd of None \<Rightarrow> None | Some (oid, _) \<Rightarrow> ds_registry st oid) in
      case known of
        Some ident \<Rightarrow> (ident, st)
      | None \<Rightarrow>
          (let c = cand_dict cd; fp = candidate_fingerprint env c; attempt = ds_attempts st fp + 1;
               ident = new_ident env c name strategy attempt;
               st1 = st\<lparr>ds_attempts := (ds_attempts st)(fp := attempt)\<rparr>
           in (ident, case cd of None \<Rightarrow> st1 | Some (oid, _) \<Rightarrow> st1\<lparr>ds_registry := (ds_registry st)(oid \<mapsto> ident)\<rparr>)))"

definition ident_key :: "disp_env \<Rightarrow> cand_ident \<Rightarrow> disp_key" where
  "ident_key env i = (de_cycle env, ci_fingerprint i, ci_attempt i)"

definition base_row :: "cand_ident \<Rightarrow> bool \<Rightarrow> disp_row \<Rightarrow> disp_row" where
  "base_row i selected r =
     r\<lparr>dr_symbol := ci_symbol i, dr_strategy := ci_strategy i, dr_primary := ci_primary i, dr_selected := selected\<rparr>"

subsection \<open>The recorder\<close>

definition new_recorder :: "disp_row list \<Rightarrow> disp_state" where
  "new_recorder rows =
     \<lparr>ds_rows = rows, ds_registry = (\<lambda>_. None), ds_attempts = (\<lambda>_. 0), ds_finals = (\<lambda>_. None), ds_details = (\<lambda>_. None),
      ds_missing = False, ds_counts = \<lparr>dc_attempts = 0, dc_finals = 0, dc_failures = 0, dc_noops = 0, dc_violations = 0\<rparr>, ds_calls = 0\<rparr>"

definition demote_others :: "disp_env \<Rightarrow> string \<Rightarrow> nat \<Rightarrow> disp_row list \<Rightarrow> disp_row list" where
  "demote_others env fp keep rows =
     map (\<lambda>r. if dr_cycle r = de_cycle env \<and> dr_fingerprint r = fp \<and> dr_final r \<and> dr_attempt r \<noteq> keep
              then r\<lparr>dr_final := False, dr_disposition := Some ''superseded_retry''\<rparr> else r) rows"

definition demote_other_finals :: "disp_env \<Rightarrow> string \<Rightarrow> nat \<Rightarrow> disp_state \<Rightarrow> disp_state" where
  "demote_other_finals env fp keep st = snd (db_call env (\<lambda>rows. Some (demote_others env fp keep rows)) st)"

fun register_all :: "disp_env \<Rightarrow> (nat \<times> pydict) list \<Rightarrow> disp_state \<Rightarrow> cand_ident list \<times> disp_state" where
  "register_all env [] st = ([], st)"
| "register_all env (c # cs) st =
     (case register env (Some c) PNone PNone st of
        (i, st1) \<Rightarrow> (case register_all env cs st1 of (idents, st2) \<Rightarrow> (i # idents, st2)))"

definition attempt_patch :: "cand_ident \<Rightarrow> disp_row \<Rightarrow> disp_row" where
  "attempt_patch i r = (base_row i True r)\<lparr>dr_final := False, dr_disposition := None\<rparr>"

definition record_selected :: "disp_env \<Rightarrow> (nat \<times> pydict) list \<Rightarrow> disp_state \<Rightarrow> disp_state" where
  "record_selected env cs st =
     (if cs = [] \<or> de_disabled env then st
      else
        (case register_all env cs st of
           (idents, st1) \<Rightarrow>
             (case db_call env (upsert_rows (map (\<lambda>i. (ident_key env i, attempt_patch i)) idents)) st1 of
                (ok, st2) \<Rightarrow>
                  if ok then st2\<lparr>ds_counts := (ds_counts st2)\<lparr>dc_attempts := dc_attempts (ds_counts st2) + length cs\<rparr>\<rparr> else st2)))"

record final_call =
  fc_cand :: cand
  fc_disposition :: string
  fc_detail :: pydict
  fc_suggestion :: pyval
  fc_symbol :: pyval
  fc_strategy :: pyval
  fc_fingerprint :: string
  fc_selected :: bool

text \<open>The detail of a re-finalized attempt extends the one written before.\<close>

definition merged_detail :: "final_call \<Rightarrow> cand_ident \<Rightarrow> disp_state \<Rightarrow> pydict" where
  "merged_detail fc i st =
     (let old = (case ds_details st (ci_fingerprint i, ci_attempt i) of None \<Rightarrow> [] | Some d \<Rightarrow> d);
          d = dset_all (fc_detail fc) old
      in if fc_fingerprint fc \<noteq> [] \<and> fc_fingerprint fc \<noteq> ci_fingerprint i \<and> map_of d ''persisted_fingerprint_mismatch'' = None
         then dset d ''persisted_fingerprint_mismatch'' (PStr (fc_fingerprint fc)) else d)"

datatype subreason_check = SubreasonOk | SubreasonBad | SubreasonCrash

definition check_subreason :: "final_call \<Rightarrow> pydict \<Rightarrow> subreason_check" where
  "check_subreason fc d =
     (if fc_disposition fc \<noteq> ''h7_dropped'' then SubreasonOk
      else case dget d ''h7_subreason'' of
          PStr s \<Rightarrow> if s \<in> set h7_subreasons then SubreasonOk else SubreasonBad
        | PList _ \<Rightarrow> SubreasonCrash
        | PDict _ \<Rightarrow> SubreasonCrash
        | _ \<Rightarrow> SubreasonBad)"

definition final_patch :: "cand_ident \<Rightarrow> final_call \<Rightarrow> pydict \<Rightarrow> disp_row \<Rightarrow> disp_row" where
  "final_patch i fc d r =
     (let r1 = (base_row i (fc_selected fc) r)\<lparr>dr_final := True, dr_disposition := Some (fc_disposition fc)\<rparr>;
          r2 = (if d \<noteq> [] then r1\<lparr>dr_detail := Some d\<rparr> else r1)
      in if fc_suggestion fc \<noteq> PNone then r2\<lparr>dr_suggestion := fc_suggestion fc\<rparr> else r2)"

text \<open>The writes of a final: supersede, upsert, and once more when the upsert failed.\<close>

definition write_final :: "disp_env \<Rightarrow> cand_ident \<Rightarrow> final_call \<Rightarrow> pydict \<Rightarrow> disp_state \<Rightarrow> disp_state" where
  "write_final env i fc d st =
     (let fp = ci_fingerprint i; attempt = ci_attempt i;
          st1 = (case ds_finals st fp of None \<Rightarrow> st | Some a \<Rightarrow> if a \<noteq> attempt then demote_other_finals env fp attempt st else st);
          upsert = db_call env (upsert_rows [(ident_key env i, final_patch i fc d)])
      in case upsert st1 of
           (ok, st2) \<Rightarrow>
             (case (if \<not> ok \<and> \<not> ds_missing st2 \<and> \<not> de_disabled env then upsert (demote_other_finals env fp attempt st2) else (ok, st2)) of
                (ok', st3) \<Rightarrow>
                  if ok'
                  then st3\<lparr>ds_counts := (ds_counts st3)\<lparr>dc_finals := dc_finals (ds_counts st3) + 1\<rparr>,
                           ds_finals := (ds_finals st3)(fp \<mapsto> attempt), ds_details := (ds_details st3)((fp, attempt) \<mapsto> d)\<rparr>
                  else st3))"

definition add_failure :: "disp_state \<Rightarrow> disp_state" where
  "add_failure st = st\<lparr>ds_counts := (ds_counts st)\<lparr>dc_failures := dc_failures (ds_counts st) + 1\<rparr>\<rparr>"

definition with_cost :: "disp_env \<Rightarrow> cand \<Rightarrow> pydict \<Rightarrow> pydict" where
  "with_cost env cd d =
     (if map_of d ''cost_reconciliation'' \<noteq> None then d
      else case cd of None \<Rightarrow> d
        | Some (_, c) \<Rightarrow> (case de_cost env c of None \<Rightarrow> d | Some a \<Rightarrow> dset d ''cost_reconciliation'' a))"

definition record_final :: "disp_env \<Rightarrow> final_call \<Rightarrow> disp_state \<Rightarrow> (disp_error + unit) \<times> disp_state" where
  "record_final env fc st =
     (if fc_disposition fc \<notin> set dispositions then (Inr (), add_failure st)
      else if de_disabled env then (Inr (), st)
      else
        (case register env (fc_cand fc) (fc_symbol fc) (fc_strategy fc) st of
           (i, st1) \<Rightarrow>
             (let d = merged_detail fc i st1
              in case check_subreason fc d of
                   SubreasonOk \<Rightarrow> (Inr (), write_final env i fc (with_cost env (fc_cand fc) d) st1)
                 | SubreasonCrash \<Rightarrow> (Inr (), add_failure st1)
                 | SubreasonBad \<Rightarrow>
                     (let st2 = st1\<lparr>ds_counts := (ds_counts st1)\<lparr>dc_violations := dc_violations (ds_counts st1) + 1\<rparr>\<rparr>
                      in if de_strict env then (Inl H7SubreasonViolation, st2)
                         else (Inr (), write_final env i fc
                                (with_cost env (fc_cand fc)
                                   (dset_all [(''h7_subreason'', PStr ''unspecified''), (''h7_subreason_violation'', PBool True)] d)) st2)))))"

definition not_selected_call :: "string \<Rightarrow> string \<Rightarrow> nat \<Rightarrow> nat \<Rightarrow> nat \<times> pydict \<Rightarrow> final_call" where
  "not_selected_call stage reason emitted selected cd =
     (let score = dget (snd cd) ''score'';
          rated = (case score of PInt _ \<Rightarrow> True | PFloat _ \<Rightarrow> True | PBool _ \<Rightarrow> True | _ \<Rightarrow> False)
      in \<lparr>fc_cand = Some cd, fc_disposition = ''rank_blocked'',
          fc_detail =
            [(''reason'', PStr reason), (''selection_stage'', PStr stage), (''emitted_count'', PInt (int emitted)),
             (''selected_count'', PInt (int selected)), if rated then (''score'', score) else (''score_unavailable'', PBool True)],
          fc_suggestion = PNone, fc_symbol = PNone, fc_strategy = PNone, fc_fingerprint = [], fc_selected = False\<rparr>)"

definition record_not_selected :: "disp_env \<Rightarrow> string \<Rightarrow> string \<Rightarrow> (nat \<times> pydict) list \<Rightarrow> (nat \<times> pydict) list \<Rightarrow> disp_state \<Rightarrow> disp_state" where
  "record_not_selected env stage reason emitted selected st =
     (if emitted = [] \<or> de_disabled env then st
      else
        (let chosen = fst ` set selected
         in fold (\<lambda>c s. snd (record_final env (not_selected_call stage reason (length emitted) (card chosen) c) s))
              (filter (\<lambda>c. fst c \<notin> chosen) emitted) st))"

subsection \<open>Milestones\<close>

definition live_chain :: "string list" where
  "live_chain = [''persisted_executable'', ''staged'', ''broker_submitted'', ''filled'']"

definition milestones :: "string list" where
  "milestones = tl live_chain"

fun position_in :: "string \<Rightarrow> string list \<Rightarrow> nat option" where
  "position_in x [] = None"
| "position_in x (y # ys) = (if x = y then Some 0 else map_option Suc (position_in x ys))"

definition chain_index :: "string \<Rightarrow> nat option" where
  "chain_index d = position_in d live_chain"

datatype milestone_status =
    InvalidMilestone
  | MilestoneDisabled
  | MilestoneTableMissing
  | MilestoneReadFailed
  | OrphanNoRow
  | AlreadyAtOrPast
  | NotAdvanceable
  | MilestoneWriteFailed
  | MilestoneError
  | Advanced string

text \<open>What the first half of an advance hands to the second: the row, what it held, and the new detail.\<close>

record milestone_plan =
  mp_row :: nat
  mp_from :: string
  mp_to :: string
  mp_detail :: pydict

definition milestone_entry :: "string \<Rightarrow> string \<Rightarrow> pydict \<Rightarrow> pydict \<Rightarrow> pydict" where
  "milestone_entry now current ids extra =
     dset_all (filter (\<lambda>kv. snd kv \<noteq> PNone) (ids @ extra)) [(''at'', PStr now), (''from'', PStr current)]"

definition milestone_read ::
  "bool \<Rightarrow> db_answer \<Rightarrow> string \<Rightarrow> pyval \<Rightarrow> string \<Rightarrow> pydict \<Rightarrow> pydict \<Rightarrow> disp_row list \<Rightarrow> milestone_status + milestone_plan" where
  "milestone_read client answer now suggestion milestone ids extra rows =
     (if milestone \<notin> set milestones then Inl InvalidMilestone
      else if \<not> client \<or> \<not> truthy suggestion then Inl MilestoneDisabled
      else if answer = TableAbsent then Inl MilestoneTableMissing
      else if answer \<noteq> Answered then Inl MilestoneReadFailed
      else case find (\<lambda>r. dr_suggestion r = suggestion \<and> dr_final r) rows of
          None \<Rightarrow> Inl OrphanNoRow
        | Some r \<Rightarrow>
            (case map_option (\<lambda>c. (c, chain_index c)) (dr_disposition r) of
               Some (current, Some k) \<Rightarrow>
                 if (case chain_index milestone of Some m \<Rightarrow> m \<le> k | None \<Rightarrow> False) then Inl AlreadyAtOrPast
                 else
                   (let detail = (case dr_detail r of None \<Rightarrow> [] | Some d \<Rightarrow> d)
                    in case py_or (dget detail ''lifecycle'') (PDict []) of
                         PDict life \<Rightarrow>
                           Inr \<lparr>mp_row = dr_id r, mp_from = current, mp_to = milestone,
                                mp_detail = dset detail ''lifecycle'' (PDict (dset life milestone (PDict (milestone_entry now current ids extra))))\<rparr>
                       | _ \<Rightarrow> Inl MilestoneError)
             | _ \<Rightarrow> Inl NotAdvanceable))"

text \<open>The update is guarded by the disposition that was read; the count of updated rows is not looked at.\<close>

definition milestone_update :: "milestone_plan \<Rightarrow> disp_row list \<Rightarrow> disp_row list" where
  "milestone_update mp rows =
     map (\<lambda>r. if dr_id r = mp_row mp \<and> dr_disposition r = Some (mp_from mp)
              then r\<lparr>dr_disposition := Some (mp_to mp), dr_detail := Some (mp_detail mp)\<rparr> else r) rows"

definition milestone_write :: "db_answer \<Rightarrow> milestone_plan \<Rightarrow> disp_row list \<Rightarrow> milestone_status \<times> disp_row list" where
  "milestone_write answer mp rows =
     (case answer of
        Answered \<Rightarrow> (Advanced (mp_from mp), milestone_update mp rows)
      | AnswerLost \<Rightarrow> (MilestoneWriteFailed, milestone_update mp rows)
      | CallFails \<Rightarrow> (MilestoneWriteFailed, rows)
      | TableAbsent \<Rightarrow> (MilestoneTableMissing, rows))"

definition advance_candidate_milestone ::
  "bool \<Rightarrow> db_answer \<Rightarrow> db_answer \<Rightarrow> string \<Rightarrow> pyval \<Rightarrow> string \<Rightarrow> pydict \<Rightarrow> pydict \<Rightarrow> disp_row list \<Rightarrow> milestone_status \<times> disp_row list" where
  "advance_candidate_milestone client rd wr now suggestion milestone ids extra rows =
     (case milestone_read client rd now suggestion milestone ids extra rows of
        Inl s \<Rightarrow> (s, rows) | Inr mp \<Rightarrow> milestone_write wr mp rows)"

end
