(* ===== verification/Disposition_Correct.thy ===== *)
theory Disposition_Correct
  imports Dispositions
begin

section \<open>What the record of fates guarantees\<close>

subsection \<open>Rows and their keys\<close>

lemma disp_key_patches [simp]:
  "disp_key_of (base_row i b r) = disp_key_of r" "disp_key_of (attempt_patch i r) = disp_key_of r" "disp_key_of (final_patch i fc d r) = disp_key_of r"
  "dr_final (final_patch i fc d r)" "dr_disposition (final_patch i fc d r) = Some (fc_disposition fc)" "\<not> dr_final (attempt_patch i r)"
  by (simp_all add: disp_key_of_def base_row_def attempt_patch_def final_patch_def Let_def)

lemma same_identity: "disp_key_of r = (c, fp, n) \<longleftrightarrow> dr_cycle r = c \<and> dr_fingerprint r = fp \<and> dr_attempt r = n"
  by (simp add: disp_key_of_def)

text \<open>Rows whose keys differ: the index says that final rows of one identity are equal.\<close>

lemma one_final_iff:
  assumes "distinct (map disp_key_of rows)"
  shows "one_final rows \<longleftrightarrow>
    (\<forall>r \<in> set rows. \<forall>s \<in> set rows. dr_final r \<and> dr_final s \<and> dr_cycle r = dr_cycle s \<and> dr_fingerprint r = dr_fingerprint s \<longrightarrow> r = s)"
  using assms unfolding one_final_def distinct_map by (auto simp: inj_on_def)

lemma upsert_row_result:
  assumes "distinct (map disp_key_of rows)" and "\<And>r. disp_key_of (patch r) = disp_key_of r"
  obtains r where "disp_key_of r = k" and "distinct (map disp_key_of (upsert_row (k, patch) rows))"
    and "set (upsert_row (k, patch) rows) = insert (patch r) {s \<in> set rows. disp_key_of s \<noteq> k}"
    and "r \<in> set rows \<or> k \<notin> disp_key_of ` set rows"
proof (cases "k \<in> disp_key_of ` set rows")
  case True
  then obtain r where r: "r \<in> set rows" "disp_key_of r = k" by blast
  have only: "s = r" if "s \<in> set rows" "disp_key_of s = k" for s
    using that r assms(1) by (auto simp: distinct_map inj_on_def)
  have rows': "upsert_row (k, patch) rows = map (\<lambda>r. if disp_key_of r = k then patch r else r) rows" using True by (simp add: upsert_row_def)
  have "map disp_key_of (upsert_row (k, patch) rows) = map disp_key_of rows" unfolding rows' by (simp add: assms(2))
  moreover have "set (upsert_row (k, patch) rows) = insert (patch r) {s \<in> set rows. disp_key_of s \<noteq> k}"
  proof -
    let ?rest = "{s \<in> set rows. disp_key_of s \<noteq> k}" let ?f = "\<lambda>s. if disp_key_of s = k then patch s else s"
    have "set rows \<subseteq> insert r ?rest"
    proof
      fix s
      assume "s \<in> set rows"
      then show "s \<in> insert r ?rest" using only [of s] by (cases "disp_key_of s = k") simp_all
    qed
    then have "set rows = insert r ?rest" using r(1) by blast
    then have "?f ` set rows = ?f ` insert r ?rest" by (rule arg_cong)
    also have "\<dots> = insert (?f r) (?f ` ?rest)" by (rule image_insert)
    also have "?f ` ?rest = ?rest" by force
    finally show ?thesis unfolding rows' using r(2) by simp
  qed
  ultimately show ?thesis using that [OF r(2)] assms(1) r(1) by simp
next
  case False
  let ?new = "\<lparr>dr_id = length rows, dr_cycle = fst k, dr_fingerprint = fst (snd k), dr_attempt = snd (snd k), dr_symbol = PNone, dr_strategy = PNone,
    dr_primary = True, dr_selected = True, dr_disposition = None, dr_final = False, dr_suggestion = PNone, dr_detail = None\<rparr>"
  have key: "disp_key_of ?new = k" by (simp add: disp_key_of_def)
  have rows': "upsert_row (k, patch) rows = rows @ [patch ?new]" using False by (simp add: upsert_row_def)
  have "distinct (map disp_key_of (upsert_row (k, patch) rows))" unfolding rows' using assms False key by simp
  moreover have "set (upsert_row (k, patch) rows) = insert (patch ?new) {s \<in> set rows. disp_key_of s \<noteq> k}" unfolding rows' using False by auto
  ultimately show ?thesis using that [OF key] False by simp
qed

lemma demote_keys [simp]: "map disp_key_of (demote_others env fp n rows) = map disp_key_of rows"
  by (simp add: demote_others_def disp_key_of_def)

lemma demoted_finals:
  "r \<in> set (demote_others env fp n rows) \<Longrightarrow> dr_final r \<Longrightarrow>
     r \<in> set rows \<and> (dr_cycle r = de_cycle env \<longrightarrow> dr_fingerprint r = fp \<longrightarrow> dr_attempt r = n)"
  by (auto simp: demote_others_def split: if_splits)

subsection \<open>The recorder keeps one final for each identity\<close>

definition answers_all :: "disp_env \<Rightarrow> bool" where
  "answers_all env \<longleftrightarrow> \<not> de_disabled env \<and> (\<forall>n. de_answer env n = Answered)"

definition finals_of :: "string \<Rightarrow> string \<Rightarrow> disp_row list \<Rightarrow> disp_row list" where
  "finals_of cycle fp rows = filter (\<lambda>r. dr_cycle r = cycle \<and> dr_fingerprint r = fp \<and> dr_final r) rows"

definition recorder_inv :: "disp_env \<Rightarrow> disp_state \<Rightarrow> bool" where
  "recorder_inv env st \<longleftrightarrow>
     \<not> ds_missing st \<and> one_final (ds_rows st) \<and> distinct (map disp_key_of (ds_rows st))
     \<and> (\<forall>r \<in> set (ds_rows st). dr_cycle r = de_cycle env \<longrightarrow> dr_final r \<longrightarrow> ds_finals st (dr_fingerprint r) = Some (dr_attempt r))"

lemma db_call_answered:
  assumes "answers_all env" and "\<not> ds_missing st" and "f (ds_rows st) = Some rows"
  shows "db_call env f st = (True, st\<lparr>ds_calls := ds_calls st + 1, ds_rows := rows\<rparr>)"
  using assms by (simp add: db_call_def answers_all_def Let_def)

text \<open>A final of an identity whose other finals are gone replaces or extends them.\<close>

lemma upsert_final:
  assumes "distinct (map disp_key_of rows)" and "one_final rows"
    and "\<And>r. r \<in> set rows \<Longrightarrow> dr_final r \<Longrightarrow> dr_cycle r = c \<Longrightarrow> dr_fingerprint r = fp \<Longrightarrow> dr_attempt r = n"
  obtains rows' r where "upsert_rows [((c, fp, n), final_patch i fc d)] rows = Some rows'" and "one_final rows'" and "distinct (map disp_key_of rows')"
    and "set rows' = insert r {s \<in> set rows. disp_key_of s \<noteq> (c, fp, n)}" and "disp_key_of r = (c, fp, n)" and "dr_final r"
    and "dr_disposition r = Some (fc_disposition fc)"
proof -
  let ?k = "(c, fp, n)" let ?rows = "upsert_row (?k, final_patch i fc d) rows"
  obtain r0 where r0: "disp_key_of r0 = ?k" "distinct (map disp_key_of ?rows)"
    "set ?rows = insert (final_patch i fc d r0) {s \<in> set rows. disp_key_of s \<noteq> ?k}"
    by (rule upsert_row_result [OF assms(1), where patch = "final_patch i fc d" and k = ?k]) (simp, blast)
  let ?r = "final_patch i fc d r0"
  have key: "disp_key_of ?r = ?k" using r0(1) by simp
  then have ids: "dr_cycle ?r = c" "dr_fingerprint ?r = fp" by (simp_all only: same_identity)
  have old: "\<forall>r \<in> set rows. \<forall>s \<in> set rows. dr_final r \<and> dr_final s \<and> dr_cycle r = dr_cycle s \<and> dr_fingerprint r = dr_fingerprint s \<longrightarrow> r = s"
    using assms(2) one_final_iff [OF assms(1)] by blast
  have apart: False if "s \<in> set rows" "disp_key_of s \<noteq> ?k" "dr_final s" "dr_cycle s = dr_cycle ?r" "dr_fingerprint s = dr_fingerprint ?r" for s
    using that(1,2,3) that(4,5) [unfolded ids] assms(3) [of s] same_identity [of s c fp n] by simp
  have "one_final ?rows" unfolding one_final_iff [OF r0(2)] r0(3)
  proof (intro ballI impI)
    fix a b
    assume a: "a \<in> insert ?r {s \<in> set rows. disp_key_of s \<noteq> ?k}" and b: "b \<in> insert ?r {s \<in> set rows. disp_key_of s \<noteq> ?k}"
      and ab: "dr_final a \<and> dr_final b \<and> dr_cycle a = dr_cycle b \<and> dr_fingerprint a = dr_fingerprint b"
    show "a = b"
    proof (cases "a = ?r")
      case True
      then show ?thesis using b ab apart [of b] by auto
    next
      case False
      then have a': "a \<in> set rows" "disp_key_of a \<noteq> ?k" using a by auto
      then have "b \<noteq> ?r" using ab apart [of a] by auto
      then show ?thesis using a' b ab old by auto
    qed
  qed
  moreover from this have "upsert_rows [(?k, final_patch i fc d)] rows = Some ?rows" by (simp add: upsert_rows_def)
  ultimately show ?thesis using that r0(2,3) key by simp
qed

lemma finals_of_unique:
  assumes "one_final rows" and "distinct (map disp_key_of rows)" and "r \<in> set rows" and "dr_final r"
  shows "finals_of (dr_cycle r) (dr_fingerprint r) rows = [r]"
proof -
  let ?xs = "finals_of (dr_cycle r) (dr_fingerprint r) rows"
  have "set ?xs = {r}" using assms(3,4) assms(1) [unfolded one_final_iff [OF assms(2)]] by (auto simp: finals_of_def)
  moreover have "distinct ?xs" using assms(2) by (simp add: finals_of_def distinct_map)
  ultimately show ?thesis by (metis distinct_card card.empty card_insert_disjoint empty_iff finite.emptyI length_0_conv length_Suc_conv list.set(1)
        list.set(2) singleton_insert_inj_eq' One_nat_def)
qed

text \<open>With a database that answers, the write of a final takes effect and keeps the invariant.\<close>

lemma write_final_step:
  assumes "answers_all env" and "recorder_inv env st"
  obtains st' r where "write_final env i fc d st = st'" and "recorder_inv env st'" and "ds_registry st' = ds_registry st" and "ds_attempts st' = ds_attempts st"
    and "r \<in> set (ds_rows st')" and "disp_key_of r = ident_key env i" and "dr_final r" and "dr_disposition r = Some (fc_disposition fc)"
    and "\<And>s. s \<in> set (ds_rows st') \<Longrightarrow> dr_cycle s = de_cycle env \<Longrightarrow> dr_fingerprint s \<noteq> ci_fingerprint i \<Longrightarrow> s \<in> set (ds_rows st)"
    and "\<And>s. s \<in> set (ds_rows st) \<Longrightarrow> dr_cycle s = de_cycle env \<Longrightarrow> dr_fingerprint s \<noteq> ci_fingerprint i \<Longrightarrow> s \<in> set (ds_rows st')"
proof -
  let ?c = "de_cycle env" and ?fp = "ci_fingerprint i" and ?n = "ci_attempt i" let ?k = "(?c, ?fp, ?n)"
  note inv = assms(2) [unfolded recorder_inv_def]
  define st1 where "st1 = (case ds_finals st ?fp of None \<Rightarrow> st | Some a \<Rightarrow> if a \<noteq> ?n then demote_other_finals env ?fp ?n st else st)"
  have ready: "\<not> ds_missing st1 \<and> one_final (ds_rows st1) \<and> distinct (map disp_key_of (ds_rows st1)) \<and> ds_registry st1 = ds_registry st
      \<and> ds_attempts st1 = ds_attempts st \<and> ds_finals st1 = ds_finals st
      \<and> (\<forall>s \<in> set (ds_rows st1). dr_final s \<longrightarrow> s \<in> set (ds_rows st) \<and> (dr_cycle s = ?c \<longrightarrow> dr_fingerprint s = ?fp \<longrightarrow> dr_attempt s = ?n))
      \<and> {s \<in> set (ds_rows st1). dr_fingerprint s \<noteq> ?fp} = {s \<in> set (ds_rows st). dr_fingerprint s \<noteq> ?fp}"
  proof (cases "\<exists>a. ds_finals st ?fp = Some a \<and> a \<noteq> ?n")
    case True
    then obtain a where a: "ds_finals st ?fp = Some a" "a \<noteq> ?n" by blast
    let ?rows = "demote_others env ?fp ?n (ds_rows st)"
    have st1: "st1 = st\<lparr>ds_calls := ds_calls st + 1, ds_rows := ?rows\<rparr>"
      using a db_call_answered [OF assms(1), of st "\<lambda>rows. Some (demote_others env ?fp ?n rows)" ?rows] inv
      by (simp add: st1_def demote_other_finals_def)
    have keys: "distinct (map disp_key_of ?rows)" using inv by simp
    have "one_final ?rows" unfolding one_final_iff [OF keys]
      using inv one_final_iff [of "ds_rows st"] by (blast dest: demoted_finals)
    moreover have "{s \<in> set ?rows. dr_fingerprint s \<noteq> ?fp} = {s \<in> set (ds_rows st). dr_fingerprint s \<noteq> ?fp}"
      by (auto simp: demote_others_def split: if_splits)
    ultimately show ?thesis using st1 inv keys demoted_finals [of _ env ?fp ?n "ds_rows st"] by simp
  next
    case False
    then have st1: "st1 = st" by (auto simp: st1_def split: option.splits)
    have "dr_attempt s = ?n" if "s \<in> set (ds_rows st)" "dr_final s" "dr_cycle s = ?c" "dr_fingerprint s = ?fp" for s
      using inv that False by auto
    then show ?thesis using inv st1 by blast
  qed
  then obtain rows' r where up: "upsert_rows [(?k, final_patch i fc d)] (ds_rows st1) = Some rows'" "one_final rows'" "distinct (map disp_key_of rows')"
      "set rows' = insert r {s \<in> set (ds_rows st1). disp_key_of s \<noteq> ?k}" "disp_key_of r = ?k" "dr_final r" "dr_disposition r = Some (fc_disposition fc)"
    using upsert_final [of "ds_rows st1" ?c ?fp ?n i fc d] by blast
  have call: "db_call env (upsert_rows [(ident_key env i, final_patch i fc d)]) st1 = (True, st1\<lparr>ds_calls := ds_calls st1 + 1, ds_rows := rows'\<rparr>)"
    using db_call_answered [OF assms(1)] ready up(1) by (simp add: ident_key_def)
  define st' where "st' = write_final env i fc d st"
  have st': "ds_rows st' = rows'" "ds_missing st' = ds_missing st1" "ds_finals st' = (ds_finals st)(?fp \<mapsto> ?n)" "ds_registry st' = ds_registry st"
    "ds_attempts st' = ds_attempts st"
    using call ready by (simp_all add: st'_def write_final_def Let_def flip: st1_def)
  have parts: "dr_cycle r = ?c" "dr_fingerprint r = ?fp" "dr_attempt r = ?n" using up(5) by (simp_all add: same_identity)
  have "recorder_inv env st'" unfolding recorder_inv_def st'
  proof (intro conjI ballI impI)
    fix s
    assume s: "s \<in> set rows'" "dr_cycle s = ?c" "dr_final s"
    show "((ds_finals st)(?fp \<mapsto> ?n)) (dr_fingerprint s) = Some (dr_attempt s)"
    proof (cases "s = r")
      case False
      then have "s \<in> set (ds_rows st1)" "disp_key_of s \<noteq> ?k" using s(1) up(4) by auto
      then show ?thesis using ready s(2,3) inv by (auto simp: same_identity)
    qed (use parts in simp)
  qed (use ready up in auto)
  moreover have "s \<in> set rows' \<longleftrightarrow> s \<in> set (ds_rows st)" if "dr_fingerprint s \<noteq> ?fp" for s
    using that up(4) ready parts(2) by (auto simp: same_identity)
  moreover have "r \<in> set rows'" using up(4) by simp
  ultimately show ?thesis
    by (intro that [of st' r]) (use up(5-7) st' in \<open>simp_all add: ident_key_def flip: st'_def\<close>)
qed

lemma register_keeps:
  "register env cd name strategy st = (i, st1) \<Longrightarrow>
     ds_rows st1 = ds_rows st \<and> ds_missing st1 = ds_missing st \<and> ds_finals st1 = ds_finals st \<and> ds_calls st1 = ds_calls st \<and> ds_details st1 = ds_details st"
  by (auto simp: register_def Let_def split: option.splits)

lemma register_all_keeps:
  "register_all env cs st = (idents, st1) \<Longrightarrow>
     ds_rows st1 = ds_rows st \<and> ds_missing st1 = ds_missing st \<and> ds_finals st1 = ds_finals st \<and> length idents = length cs"
proof (induction cs arbitrary: st idents)
  case (Cons c cs)
  obtain i st2 where one: "register env (Some c) PNone PNone st = (i, st2)" by fastforce
  obtain rest where "register_all env cs st2 = (rest, st1)" "idents = i # rest" using Cons.prems one by (auto split: prod.splits)
  then show ?case using Cons.IH [of st2 rest] register_keeps [OF one] by simp
qed simp

text \<open>The attempts of the selected candidates are no finals.\<close>

lemma attempts_no_finals:
  assumes "distinct (map disp_key_of rows)" and "\<forall>r \<in> set rows. dr_final r \<longrightarrow> dr_cycle r \<noteq> c"
  shows "distinct (map disp_key_of (fold upsert_row (map (\<lambda>i. (ident_key env i, attempt_patch i)) idents) rows))
     \<and> (\<forall>r \<in> set (fold upsert_row (map (\<lambda>i. (ident_key env i, attempt_patch i)) idents) rows). dr_final r \<longrightarrow> dr_cycle r \<noteq> c)"
  using assms
proof (induction idents arbitrary: rows)
  case (Cons i idents)
  let ?rows = "upsert_row (ident_key env i, attempt_patch i) rows"
  obtain r0 where r0: "distinct (map disp_key_of ?rows)" "set ?rows = insert (attempt_patch i r0) {s \<in> set rows. disp_key_of s \<noteq> ident_key env i}"
    by (rule upsert_row_result [OF Cons.prems(1), where patch = "attempt_patch i" and k = "ident_key env i"]) (simp, blast)
  have "\<forall>r \<in> set ?rows. dr_final r \<longrightarrow> dr_cycle r \<noteq> c" unfolding r0(2) using Cons.prems(2) by auto
  then show ?case using Cons.IH [OF r0(1)] by simp
qed simp

lemma record_selected_inv:
  assumes "answers_all env" and "one_final rows" and "distinct (map disp_key_of rows)" and "\<forall>r \<in> set rows. dr_cycle r \<noteq> de_cycle env"
  shows "recorder_inv env (record_selected env cs (new_recorder rows))"
proof -
  obtain idents st1 where reg: "register_all env cs (new_recorder rows) = (idents, st1)" by fastforce
  have st1: "ds_rows st1 = rows" "\<not> ds_missing st1" "ds_finals st1 = (\<lambda>_. None)" using register_all_keeps [OF reg] by (simp_all add: new_recorder_def)
  let ?kps = "map (\<lambda>i. (ident_key env i, attempt_patch i)) idents"
  have start: "recorder_inv env (new_recorder rows)" "recorder_inv env st1" using assms st1 by (auto simp: recorder_inv_def new_recorder_def)
  show ?thesis
  proof (cases "upsert_rows ?kps rows")
    case None
    then have "db_call env (upsert_rows ?kps) st1 = (False, st1\<lparr>ds_calls := ds_calls st1 + 1, ds_counts := (ds_counts st1)\<lparr>dc_failures := dc_failures (ds_counts st1) + 1\<rparr>\<rparr>)"
      using assms(1) st1 by (simp add: db_call_def answers_all_def Let_def)
    then show ?thesis using start reg by (simp add: record_selected_def recorder_inv_def)
  next
    case (Some rows')
    then have call: "db_call env (upsert_rows ?kps) st1 = (True, st1\<lparr>ds_calls := ds_calls st1 + 1, ds_rows := rows'\<rparr>)"
      using db_call_answered [OF assms(1) st1(2)] st1(1) by simp
    have rows': "rows' = fold upsert_row ?kps rows" "one_final rows'" using Some by (auto simp: upsert_rows_def Let_def split: if_splits)
    have "distinct (map disp_key_of rows') \<and> (\<forall>r \<in> set rows'. dr_final r \<longrightarrow> dr_cycle r \<noteq> de_cycle env)"
      unfolding rows'(1) by (rule attempts_no_finals [OF assms(3)]) (use assms(4) in blast)
    then have "recorder_inv env (st1\<lparr>ds_calls := ds_calls st1 + 1, ds_rows := rows'\<rparr>)" using rows'(2) st1(2) by (auto simp: recorder_inv_def)
    then show ?thesis using start(1) reg call by (simp add: record_selected_def recorder_inv_def)
  qed
qed

lemma recorder_inv_counts [simp]: "recorder_inv env (st\<lparr>ds_counts := cs\<rparr>) = recorder_inv env st"
  by (simp add: recorder_inv_def)

lemma recorder_inv_register:
  "register env cd name strategy st = (i, st1) \<Longrightarrow> recorder_inv env st \<Longrightarrow> recorder_inv env st1"
  using register_keeps [of env cd name strategy st i st1] by (simp add: recorder_inv_def)

lemma record_final_inv:
  assumes "answers_all env" and "recorder_inv env st"
  shows "recorder_inv env (snd (record_final env fc st))"
proof -
  obtain i st1 where reg: "register env (fc_cand fc) (fc_symbol fc) (fc_strategy fc) st = (i, st1)" by fastforce
  have inv1: "recorder_inv env st1" by (rule recorder_inv_register [OF reg assms(2)])
  have kept: "recorder_inv env (write_final env i fc d s)" if "recorder_inv env s" for d s
    by (rule write_final_step [OF assms(1) that, of i fc d]) simp
  show ?thesis
    using assms(2) inv1 kept [OF inv1] kept [of "st1\<lparr>ds_counts := c\<rparr>" for c] reg
    by (auto simp: record_final_def add_failure_def Let_def split: subreason_check.splits)
qed

lemma record_finals_inv:
  "answers_all env \<Longrightarrow> recorder_inv env st \<Longrightarrow> recorder_inv env (fold (\<lambda>fc s. snd (record_final env fc s)) calls st)"
  by (induction calls arbitrary: st) (auto intro: record_final_inv)

text \<open>
  The finals that are written at all: a drop by the H7 filter must carry a subreason of the list, or,
  outside strict mode, some text, number or nothing in its place, for which a mark is written.
\<close>

definition takes_subreason :: "disp_env \<Rightarrow> final_call \<Rightarrow> pydict \<Rightarrow> bool" where
  "takes_subreason env fc d \<longleftrightarrow>
     (case check_subreason fc d of SubreasonOk \<Rightarrow> True | SubreasonBad \<Rightarrow> \<not> de_strict env | SubreasonCrash \<Rightarrow> False)"

lemma record_final_writes:
  assumes "answers_all env" and "fc_disposition fc \<in> set dispositions" and "takes_subreason env fc (merged_detail fc i st)"
    and reg: "register env (fc_cand fc) (fc_symbol fc) (fc_strategy fc) st = (i, st1)"
  obtains d cs where "record_final env fc st = (Inr (), write_final env i fc d (st1\<lparr>ds_counts := cs\<rparr>))"
proof -
  have d: "merged_detail fc i st1 = merged_detail fc i st" using register_keeps [OF reg] by (simp add: merged_detail_def)
  have same: "st1 = st1\<lparr>ds_counts := ds_counts st1\<rparr>" by simp
  show thesis
  proof (cases "check_subreason fc (merged_detail fc i st)")
    case SubreasonOk
    then have "record_final env fc st = (Inr (), write_final env i fc (with_cost env (fc_cand fc) (merged_detail fc i st)) (st1\<lparr>ds_counts := ds_counts st1\<rparr>))"
      using assms(1,2) reg d by (simp add: record_final_def answers_all_def Let_def)
    then show thesis by (rule that)
  next
    case SubreasonBad
    then have "\<not> de_strict env" using assms(3) by (simp add: takes_subreason_def)
    then show thesis using SubreasonBad assms(1,2) reg d that by (simp add: record_final_def answers_all_def Let_def)
  next
    case SubreasonCrash
    then show thesis using assms(3) by (simp add: takes_subreason_def)
  qed
qed

lemma finals_stand:
  assumes "answers_all env" and "one_final rows" and "distinct (map disp_key_of rows)" and "\<forall>r \<in> set rows. dr_cycle r \<noteq> de_cycle env"
    and "st = fold (\<lambda>fc s. snd (record_final env fc s)) calls (record_selected env cs (new_recorder rows))"
    and "fc_disposition fc \<in> set dispositions" and "takes_subreason env fc (merged_detail fc i st)"
    and "i = fst (register env (fc_cand fc) (fc_symbol fc) (fc_strategy fc) st)" and "rows2 = ds_rows (snd (record_final env fc st))"
  shows "\<exists>r. finals_of (de_cycle env) (ci_fingerprint i) rows2 = [r] \<and> dr_attempt r = ci_attempt i \<and> dr_disposition r = Some (fc_disposition fc)"
    and "length (finals_of (de_cycle env) fp rows2) \<le> 1"
    and "fp \<noteq> ci_fingerprint i \<Longrightarrow> set (finals_of (de_cycle env) fp rows2) = set (finals_of (de_cycle env) fp (ds_rows st))"
proof -
  have inv: "recorder_inv env st" unfolding assms(5) by (rule record_finals_inv [OF assms(1) record_selected_inv [OF assms(1-4)]])
  obtain st1 where reg: "register env (fc_cand fc) (fc_symbol fc) (fc_strategy fc) st = (i, st1)" using assms(8) by (metis prod.collapse)
  obtain d cs where final: "record_final env fc st = (Inr (), write_final env i fc d (st1\<lparr>ds_counts := cs\<rparr>))"
    by (rule record_final_writes [OF assms(1,6,7) reg])
  let ?st1 = "st1\<lparr>ds_counts := cs\<rparr>"
  have inv1: "recorder_inv env ?st1" using recorder_inv_register [OF reg inv] by simp
  obtain st' r where st': "write_final env i fc d ?st1 = st'" "recorder_inv env st'" "r \<in> set (ds_rows st')" "disp_key_of r = ident_key env i" "dr_final r"
      "dr_disposition r = Some (fc_disposition fc)"
    and same: "\<And>s. s \<in> set (ds_rows st') \<Longrightarrow> dr_cycle s = de_cycle env \<Longrightarrow> dr_fingerprint s \<noteq> ci_fingerprint i \<Longrightarrow> s \<in> set (ds_rows ?st1)"
      "\<And>s. s \<in> set (ds_rows ?st1) \<Longrightarrow> dr_cycle s = de_cycle env \<Longrightarrow> dr_fingerprint s \<noteq> ci_fingerprint i \<Longrightarrow> s \<in> set (ds_rows st')"
    by (rule write_final_step [OF assms(1) inv1, of i fc d]) blast
  have rows2: "rows2 = ds_rows st'" using assms(9) final st'(1) by simp
  have parts: "dr_cycle r = de_cycle env" "dr_fingerprint r = ci_fingerprint i" "dr_attempt r = ci_attempt i"
    using st'(4) by (simp_all add: ident_key_def same_identity)
  note inv2 = st'(2) [unfolded recorder_inv_def]
  show "\<exists>r. finals_of (de_cycle env) (ci_fingerprint i) rows2 = [r] \<and> dr_attempt r = ci_attempt i \<and> dr_disposition r = Some (fc_disposition fc)"
    using finals_of_unique [of "ds_rows st'" r] inv2 st'(3,5,6) parts rows2 by simp
  show "length (finals_of (de_cycle env) fp rows2) \<le> 1"
  proof (cases "finals_of (de_cycle env) fp rows2")
    case (Cons s ss)
    then have "s \<in> set (finals_of (de_cycle env) fp rows2)" by simp
    then have "s \<in> set (ds_rows st')" "dr_final s" "dr_cycle s = de_cycle env" "dr_fingerprint s = fp" using rows2 by (auto simp: finals_of_def)
    then show ?thesis using finals_of_unique [of "ds_rows st'" s] inv2 rows2 by simp
  qed simp
  show "set (finals_of (de_cycle env) fp rows2) = set (finals_of (de_cycle env) fp (ds_rows st))" if "fp \<noteq> ci_fingerprint i"
    using same that rows2 register_keeps [OF reg] by (auto simp: finals_of_def)
qed

text \<open>
  C33 (invariant). In a new cycle whose database answers, every candidate has exactly one fate: after
  any sequence of finals, of whatever kind, the final that is recorded next is the only final row of
  the candidate's identity, with the disposition given; no identity has more than one, and those of
  all others stand as they were. A final that drops the candidate in the H7 filter is recorded too,
  with a subreason of the list, and outside strict mode without one; it is refused only in strict
  mode without a valid subreason, or when the subreason is a list or a dictionary.
\<close>

theorem last_final_is_the_only_one:
  assumes "answers_all env" and "one_final rows" and "distinct (map disp_key_of rows)" and "\<forall>r \<in> set rows. dr_cycle r \<noteq> de_cycle env"
    and "st = fold (\<lambda>fc s. snd (record_final env fc s)) calls (record_selected env cs (new_recorder rows))"
    and "fc_disposition fc \<in> set dispositions" and "takes_subreason env fc (merged_detail fc i st)"
    and "i = fst (register env (fc_cand fc) (fc_symbol fc) (fc_strategy fc) st)" and "rows2 = ds_rows (snd (record_final env fc st))"
  shows "(\<exists>r. finals_of (de_cycle env) (ci_fingerprint i) rows2 = [r] \<and> dr_attempt r = ci_attempt i \<and> dr_disposition r = Some (fc_disposition fc))
     \<and> length (finals_of (de_cycle env) fp rows2) \<le> 1
     \<and> (fp \<noteq> ci_fingerprint i \<longrightarrow> set (finals_of (de_cycle env) fp rows2) = set (finals_of (de_cycle env) fp (ds_rows st)))"
  using finals_stand [OF assms] by blast

text \<open>
  C34 (error). A defect: a candidate can lose its fate. When another attempt of a structure is finalized, the
  old final is superseded in a statement of its own; if the insert of the new one then fails, and
  fails again in the one retry, the structure is left with no final row at all, while the recorder
  still takes the old attempt for the final.
\<close>

theorem failed_upsert_leaves_no_fate:
  assumes "register env (fc_cand fc) (fc_symbol fc) (fc_strategy fc) st = (i, st1)" and "ds_finals st (ci_fingerprint i) = Some a" and "a \<noteq> ci_attempt i"
    and "\<not> de_disabled env" and "\<not> ds_missing st" and "fc_disposition fc \<in> set dispositions" and "fc_disposition fc \<noteq> ''h7_dropped''"
    and "\<forall>r \<in> set (finals_of (de_cycle env) (ci_fingerprint i) (ds_rows st)). dr_attempt r = a"
    and "map (de_answer env) [ds_calls st, ds_calls st + 1, ds_calls st + 2, ds_calls st + 3] = [Answered, CallFails, Answered, CallFails]"
    and "st2 = snd (record_final env fc st)"
  shows "finals_of (de_cycle env) (ci_fingerprint i) (ds_rows st2) = [] \<and> ds_finals st2 (ci_fingerprint i) = Some a"
proof -
  let ?fp = "ci_fingerprint i" and ?n = "ci_attempt i" let ?gone = "\<lambda>rows. demote_others env ?fp ?n rows"
  have st1: "ds_rows st1 = ds_rows st" "\<not> ds_missing st1" "ds_finals st1 = ds_finals st" "ds_calls st1 = ds_calls st"
    using register_keeps [OF assms(1)] assms(5) by simp_all
  obtain d where final: "st2 = write_final env i fc d st1"
    using assms(1,4,6,7,10) by (auto simp: record_final_def check_subreason_def Let_def)
  have "ds_rows st2 = ?gone (?gone (ds_rows st)) \<and> ds_finals st2 = ds_finals st"
    using assms(2-4,9) st1 by (simp add: final write_final_def demote_other_finals_def db_call_def Let_def eval_nat_numeral)
  moreover have "\<not> dr_final r" if "r \<in> set (?gone (?gone (ds_rows st)))" "dr_cycle r = de_cycle env" "dr_fingerprint r = ?fp" for r
  proof
    assume final_r: "dr_final r"
    then have "r \<in> set (?gone (ds_rows st))" "dr_attempt r = ?n" using demoted_finals [OF that(1)] that(2,3) by auto
    moreover from this have "r \<in> set (ds_rows st)" using demoted_finals final_r by blast
    ultimately show False using assms(3,8) that(2,3) final_r by (auto simp: finals_of_def)
  qed
  ultimately show ?thesis using assms(2) by (auto simp: finals_of_def filter_empty_conv)
qed

subsection \<open>Milestones only advance\<close>

text \<open>
  Any number of executors advance milestones at the same time: each reads, and writes later what it
  planned; between the two anything may happen, a supersede by the recorder included.
\<close>

inductive milestone_step :: "disp_row list \<times> milestone_plan list \<Rightarrow> disp_row list \<times> milestone_plan list \<Rightarrow> bool" where
  plan: "milestone_read client answer now suggestion milestone ids extra rows = Inr mp \<Longrightarrow> milestone_step (rows, plans) (rows, mp # plans)"
| update: "mp \<in> set plans \<Longrightarrow> milestone_write answer mp rows = (status, rows') \<Longrightarrow> milestone_step (rows, plans) (rows', remove1 mp plans)"
| supersede: "milestone_step (rows, plans) (demote_others env fp n rows, plans)"

text \<open>A later fate: the same, superseded, or further along the chain.\<close>

definition fate_le :: "string option \<Rightarrow> string option \<Rightarrow> bool" where
  "fate_le d e \<longleftrightarrow>
     e = d \<or> e = Some ''superseded_retry''
     \<or> (\<exists>x y j k. d = Some x \<and> e = Some y \<and> chain_index x = Some j \<and> chain_index y = Some k \<and> j \<le> k)"

lemma superseded_off_chain [simp]: "chain_index ''superseded_retry'' = None"
  by (simp add: chain_index_def live_chain_def)

lemma fate_le_refl [simp]: "fate_le d d"
  by (simp add: fate_le_def)

lemma fate_le_trans: "fate_le a b \<Longrightarrow> fate_le b c \<Longrightarrow> fate_le a c"
  unfolding fate_le_def by (elim disjE exE conjE) (auto intro: order_trans)

definition plan_ok :: "milestone_plan \<Rightarrow> bool" where
  "plan_ok mp \<longleftrightarrow> (\<exists>j k. chain_index (mp_from mp) = Some j \<and> chain_index (mp_to mp) = Some k \<and> j < k)"

lemma milestone_index: "m \<in> set milestones \<Longrightarrow> \<exists>k. chain_index m = Some k"
  by (auto simp: milestones_def live_chain_def chain_index_def)

lemma milestone_read_plan:
  assumes "milestone_read client answer now suggestion milestone ids extra rows = Inr mp"
  shows "plan_ok mp"
proof -
  have known: "milestone \<in> set milestones" "client" "truthy suggestion" "answer = Answered"
    using assms by (auto simp: milestone_read_def split: if_splits)
  obtain r where r: "find (\<lambda>r. dr_suggestion r = suggestion \<and> dr_final r) rows = Some r"
    using assms known by (cases "find (\<lambda>r. dr_suggestion r = suggestion \<and> dr_final r) rows") (simp_all add: milestone_read_def)
  obtain m where m: "chain_index milestone = Some m" using milestone_index [OF known(1)] by blast
  obtain current j where current: "dr_disposition r = Some current" "chain_index current = Some j" "j < m" "mp_from mp = current" "mp_to mp = milestone"
    using assms known r m
    by (auto simp: milestone_read_def Let_def split: option.splits if_splits pyval.splits)
  then show ?thesis using m by (auto simp: plan_ok_def)
qed

definition rows_le :: "disp_row list \<Rightarrow> disp_row list \<Rightarrow> bool" where
  "rows_le rows rows' \<longleftrightarrow> list_all2 (\<lambda>r s. dr_id r = dr_id s \<and> fate_le (dr_disposition r) (dr_disposition s)) rows rows'"

lemma rows_le_refl [simp]: "rows_le rows rows"
  by (simp add: rows_le_def list_all2_refl)

lemma rows_le_trans: "rows_le a b \<Longrightarrow> rows_le b c \<Longrightarrow> rows_le a c"
  unfolding rows_le_def by (rule list_all2_trans) (auto intro: fate_le_trans)

lemma rows_le_map: "(\<And>r. dr_id (f r) = dr_id r \<and> fate_le (dr_disposition r) (dr_disposition (f r))) \<Longrightarrow> rows_le rows (map f rows)"
  by (simp add: rows_le_def list_all2_conv_all_nth)

lemma milestone_step_advances:
  assumes "milestone_step (rows, plans) (rows', plans')" and "list_all plan_ok plans"
  shows "rows_le rows rows' \<and> list_all plan_ok plans'"
  using assms(1)
proof (cases rule: milestone_step.cases)
  case (plan client answer now suggestion milestone ids extra mp)
  then show ?thesis using assms(2) milestone_read_plan by simp
next
  case (update mp answer status)
  then have "plan_ok mp" using assms(2) by (auto simp: list_all_iff)
  then have "rows_le rows (milestone_update mp rows)"
    unfolding milestone_update_def by (intro rows_le_map) (auto simp: plan_ok_def fate_le_def)
  then have "rows_le rows rows'" using update by (cases answer) (auto simp: milestone_write_def)
  then show ?thesis using assms(2) update by (auto simp: list_all_iff dest: notin_set_remove1)
next
  case (supersede env fp n)
  have "rows_le rows (demote_others env fp n rows)" unfolding demote_others_def by (intro rows_le_map) (simp add: fate_le_def)
  then show ?thesis using assms(2) supersede by simp
qed

text \<open>
  C35 (safety). A recorded fate never goes back: under any interleaving of executors, with plans made on
  stale reads, lost replies and supersedes in between, every row keeps its place in the chain from
  executable over staged and submitted to filled or moves forward, unless it is superseded; and a
  candidate that died before, or was superseded, is never brought back.
\<close>

theorem milestones_only_advance:
  assumes "milestone_step\<^sup>*\<^sup>* (rows, []) (rows', plans)"
  shows "list_all2 (\<lambda>r s. dr_id r = dr_id s \<and> fate_le (dr_disposition r) (dr_disposition s)) rows rows'"
proof -
  have "rows_le rows (fst x) \<and> list_all plan_ok (snd x)" if "milestone_step\<^sup>*\<^sup>* (rows, []) x" for x
    using that
  proof (induction rule: rtranclp_induct)
    case (step y z)
    then show ?case using milestone_step_advances [of "fst y" "snd y" "fst z" "snd z"] rows_le_trans by simp blast
  qed simp
  from this [OF assms] show ?thesis by (simp add: rows_le_def)
qed

subsection \<open>Examples\<close>

definition demo_disp_env :: "(nat \<Rightarrow> db_answer) \<Rightarrow> disp_env" where
  "demo_disp_env answer =
     \<lparr>de_disabled = False, de_cycle = ''c1'', de_strict = False, de_answer = answer, de_legs_hash = (\<lambda>_. ''f1''), de_hash = id,
      de_text = (\<lambda>_. ''t''), de_cost = (\<lambda>_. None)\<rparr>"

definition demo_dict :: pydict where
  "demo_dict = [(''ticker'', PStr ''SPY''), (''legs'', PList [PInt 1])]"

definition demo_final :: "nat \<Rightarrow> string \<Rightarrow> final_call" where
  "demo_final n d =
     \<lparr>fc_cand = Some (n, demo_dict), fc_disposition = d, fc_detail = [], fc_suggestion = PStr ''s1'', fc_symbol = PNone, fc_strategy = PNone,
      fc_fingerprint = [], fc_selected = True\<rparr>"

lemma demo_disp_simps [simp]:
  "\<not> de_disabled (demo_disp_env f)" "de_cycle (demo_disp_env f) = ''c1''" "de_answer (demo_disp_env f) = f"
  "candidate_fingerprint (demo_disp_env f) demo_dict = ''f1''"
  "fc_cand (demo_final n d) = Some (n, demo_dict)" "fc_disposition (demo_final n d) = d" "fc_symbol (demo_final n d) = PNone"
  "fc_strategy (demo_final n d) = PNone"
  by (simp_all add: demo_disp_env_def candidate_fingerprint_def demo_dict_def dget_def py_or_def demo_final_def Let_def)

lemma demo_register:
  assumes "ds_registry st n = None" and "ds_attempts st ''f1'' = k" and "register (demo_disp_env f) (Some (n, demo_dict)) PNone PNone st = (i, st1)"
  shows "ci_fingerprint i = ''f1'' \<and> ci_attempt i = k + 1"
  using assms by (auto simp: register_def new_ident_def cand_dict_def Let_def)

text \<open>A drop by the H7 filter for which the caller gave no subreason.\<close>

theorem last_final_is_the_only_one_witness:
  "\<exists>r. finals_of ''c1'' ''f1'' (ds_rows (snd (record_final (demo_disp_env (\<lambda>_. Answered)) (demo_final 1 ''h7_dropped'') (new_recorder [])))) = [r]
     \<and> dr_attempt r = 1 \<and> dr_disposition r = Some ''h7_dropped''"
proof -
  let ?env = "demo_disp_env (\<lambda>_. Answered)" let ?fc = "demo_final 1 ''h7_dropped''"
  obtain i st1 where reg: "register ?env (Some (1, demo_dict)) PNone PNone (new_recorder []) = (i, st1)" by fastforce
  then have i: "ci_fingerprint i = ''f1''" "ci_attempt i = 1" using demo_register [OF _ _ reg] by (simp_all add: new_recorder_def)
  have "merged_detail ?fc i (new_recorder []) = []"
    by (simp add: merged_detail_def new_recorder_def demo_final_def dset_all_def)
  then have taken: "takes_subreason ?env ?fc (merged_detail ?fc i (new_recorder []))"
    by (simp add: takes_subreason_def check_subreason_def dget_def demo_disp_env_def)
  have start: "answers_all ?env" "one_final []" "new_recorder [] = fold (\<lambda>fc s. snd (record_final ?env fc s)) [] (record_selected ?env [] (new_recorder []))"
    "fc_disposition ?fc \<in> set dispositions" by (simp_all add: answers_all_def one_final_def record_selected_def dispositions_def)
  have ident: "i = fst (register ?env (fc_cand ?fc) (fc_symbol ?fc) (fc_strategy ?fc) (new_recorder []))" using reg by simp
  have "\<exists>r. finals_of (de_cycle ?env) (ci_fingerprint i) (ds_rows (snd (record_final ?env ?fc (new_recorder [])))) = [r]
      \<and> dr_attempt r = ci_attempt i \<and> dr_disposition r = Some (fc_disposition ?fc)"
    by (rule conjunct1 [OF last_final_is_the_only_one [OF start(1,2) _ _ start(3,4) taken ident refl]]) simp_all
  then show ?thesis unfolding i demo_disp_simps .
qed

text \<open>Two attempts of one structure; the second final cannot be written.\<close>

definition attempt_pair :: disp_state where
  "attempt_pair =
     (new_recorder [\<lparr>dr_id = 0, dr_cycle = ''c1'', dr_fingerprint = ''f1'', dr_attempt = 1, dr_symbol = PStr ''SPY'', dr_strategy = PNone, dr_primary = True,
        dr_selected = False, dr_disposition = Some ''rank_blocked'', dr_final = True, dr_suggestion = PNone, dr_detail = None\<rparr>])
     \<lparr>ds_attempts := (\<lambda>_. 1), ds_finals := (\<lambda>_. Some 1)\<rparr>"

definition failing_upserts :: "nat \<Rightarrow> db_answer" where
  "failing_upserts n = (if n = 1 \<or> n = 3 then CallFails else Answered)"

theorem failed_upsert_leaves_no_fate_witness:
  "finals_of ''c1'' ''f1'' (ds_rows (snd (record_final (demo_disp_env failing_upserts) (demo_final 2 ''persisted_executable'') attempt_pair))) = []"
proof -
  let ?env = "demo_disp_env failing_upserts"
  have fields: "ds_registry attempt_pair 2 = None" "ds_attempts attempt_pair ''f1'' = 1" "ds_finals attempt_pair ''f1'' = Some 1" "\<not> ds_missing attempt_pair"
    "ds_calls attempt_pair = 0" by (simp_all add: attempt_pair_def new_recorder_def)
  obtain i st1 where reg: "register ?env (fc_cand (demo_final 2 ''persisted_executable'')) (fc_symbol (demo_final 2 ''persisted_executable''))
      (fc_strategy (demo_final 2 ''persisted_executable'')) attempt_pair = (i, st1)" by fastforce
  then have i: "ci_fingerprint i = ''f1''" "ci_attempt i = 2" using demo_register [of attempt_pair 2 1 failing_upserts i st1] fields(1,2) by simp_all
  have finals: "\<forall>r \<in> set (finals_of ''c1'' ''f1'' (ds_rows attempt_pair)). dr_attempt r = 1" by (simp add: attempt_pair_def new_recorder_def finals_of_def)
  show ?thesis
    using failed_upsert_leaves_no_fate [OF reg, of 1] i fields finals by (simp add: dispositions_def failing_upserts_def)
qed

definition executable_row :: disp_row where
  "executable_row =
     \<lparr>dr_id = 0, dr_cycle = ''c1'', dr_fingerprint = ''f1'', dr_attempt = 1, dr_symbol = PStr ''SPY'', dr_strategy = PNone, dr_primary = True,
      dr_selected = True, dr_disposition = Some ''persisted_executable'', dr_final = True, dr_suggestion = PStr ''s1'', dr_detail = None\<rparr>"

definition staging_plan :: milestone_plan where
  "staging_plan =
     \<lparr>mp_row = 0, mp_from = ''persisted_executable'', mp_to = ''staged'',
      mp_detail = [(''lifecycle'', PDict [(''staged'', PDict [(''at'', PStr ''t''), (''from'', PStr ''persisted_executable'')])])]\<rparr>"

theorem milestones_only_advance_witness:
  "\<exists>rows'. milestone_step\<^sup>*\<^sup>* ([executable_row], []) (rows', []) \<and> map dr_disposition rows' = [Some ''staged'']
     \<and> list_all2 (\<lambda>r s. dr_id r = dr_id s \<and> fate_le (dr_disposition r) (dr_disposition s)) [executable_row] rows'"
proof -
  let ?rows = "milestone_update staging_plan [executable_row]"
  have "milestone_read True Answered ''t'' (PStr ''s1'') ''staged'' [] [] [executable_row] = Inr staging_plan"
    by (simp add: milestone_read_def milestones_def live_chain_def executable_row_def chain_index_def staging_plan_def milestone_entry_def dget_def py_or_def
        dset_all_def Let_def)
  then have one: "milestone_step ([executable_row], []) ([executable_row], [staging_plan])" by (rule milestone_step.plan)
  have "milestone_step ([executable_row], [staging_plan]) (?rows, remove1 staging_plan [staging_plan])"
    by (rule milestone_step.update [where answer = Answered]) (simp_all add: milestone_write_def)
  with one have run: "milestone_step\<^sup>*\<^sup>* ([executable_row], []) (?rows, [])" by (auto intro: rtranclp.rtrancl_into_rtrancl)
  moreover have "map dr_disposition ?rows = [Some ''staged'']" by (simp add: milestone_update_def executable_row_def staging_plan_def)
  ultimately show ?thesis by (intro exI [of _ ?rows] conjI) (assumption, assumption, rule milestones_only_advance [OF run])
qed

end
