(* ===== verification/Entry_Tickets.thy ===== *)
theory Entry_Tickets
  imports Paper_Fills
begin

section \<open>Tickets of entries\<close>

text \<open>
  Model of the ticket in \<open>models.py\<close> and of its way from a suggestion in \<open>paper_endpoints.py\<close>:
  \<open>_suggestion_to_ticket\<close>, the check of the legs \<open>_validate_order_legs\<close>, and the dictionary the
  ticket becomes in an order.

  The validation of a field by the ticket's model class is written out; how a text is read as a UUID
  is a parameter. The identifier of a ticket, its windows, bracket and context keep their defaults.
\<close>

subsection \<open>Fields of a model class\<close>

definition model_text :: "pyval \<Rightarrow> pyexn + string option" where
  "model_text v = (case v of PNone \<Rightarrow> Inr None | PStr s \<Rightarrow> Inr (Some s) | _ \<Rightarrow> Inl ValueError)"

definition model_float :: "pyval \<Rightarrow> pyexn + pynum option" where
  "model_float v = (if v = PNone then Inr None else case py_float v of Inr x \<Rightarrow> Inr (Some x) | Inl _ \<Rightarrow> Inl ValueError)"

definition model_uuid :: "(string \<Rightarrow> string option) \<Rightarrow> pyval \<Rightarrow> pyexn + string option" where
  "model_uuid uuid v =
     (case v of PNone \<Rightarrow> Inr None
      | PStr s \<Rightarrow> (case uuid s of None \<Rightarrow> Inl ValueError | Some u \<Rightarrow> Inr (Some u)) | _ \<Rightarrow> Inl ValueError)"

definition required_text :: "pyval \<Rightarrow> pyexn + string" where
  "required_text v = (case v of PStr s \<Rightarrow> Inr s | _ \<Rightarrow> Inl ValueError)"

record option_leg =
  en_symbol :: string
  en_action :: string
  en_type :: string
  en_strike :: "pynum option"
  en_expiry :: "string option"
  en_qty :: int

record trade_ticket =
  tt_source :: "string option"
  tt_ref :: "string option"
  tt_strategy :: "string option"
  tt_symbol :: string
  tt_legs :: "option_leg list"
  tt_order_type :: string
  tt_limit :: "pynum option"
  tt_qty :: int
  tt_conviction :: "pynum option"
  tt_ev :: "pynum option"

subsection \<open>From a suggestion\<close>

text \<open>An OCC symbol that is taken apart; the parser calls a method of text.\<close>

definition parsed_symbol :: "pyval \<Rightarrow> pyexn + occ_parts option" where
  "parsed_symbol v = (case v of PStr s \<Rightarrow> Inr (parse_option_symbol s) | _ \<Rightarrow> Inl AttributeError)"

text \<open>\<open>legs_data[0]\<close>, on which \<open>get\<close> is called.\<close>

definition first_leg :: "pyval \<Rightarrow> pyexn + pydict" where
  "first_leg v = (case v of
       PList (PDict d # _) \<Rightarrow> Inr d
     | PList (_ # _) \<Rightarrow> Inl AttributeError
     | PStr (_ # _) \<Rightarrow> Inl AttributeError
     | PDict _ \<Rightarrow> Inl KeyError
     | _ \<Rightarrow> Inl TypeError)"

text \<open>The items of the legs; the empty text and dictionary have none.\<close>

definition leg_dicts :: "pyval \<Rightarrow> pyexn + pydict list" where
  "leg_dicts v = (if v = PStr [] \<or> v = PDict [] then Inr [] else leg_items v)"

definition ticket_symbol :: "pydict \<Rightarrow> pydict \<Rightarrow> pyval \<Rightarrow> pyexn + pyval" where
  "ticket_symbol s oj legs =
     (let direct = py_or (dget s ''ticker'') (dget oj ''underlying'') in
      rbind (if truthy direct then Inr direct
             else if truthy legs
             then rbind (first_leg legs) (\<lambda>d. rbind (parsed_symbol (dget d ''symbol'')) (\<lambda>parsed.
                    Inr (case parsed of Some p \<Rightarrow> PStr (op_underlying p) | None \<Rightarrow> dget d ''symbol'')))
             else Inr direct) (\<lambda>v.
        Inr (if truthy v then v else PStr ''UNKNOWN'')))"

definition ticket_quantity :: "pydict \<Rightarrow> pyval \<Rightarrow> pyexn + int" where
  "ticket_quantity oj legs =
     rbind (py_int (dget_default oj ''contracts'' (PInt 1))) (\<lambda>n.
       if 0 < n then Inr n
       else if truthy legs then rbind (first_leg legs) (\<lambda>d. py_int (dget_default d ''quantity'' (PInt 1)))
       else Inr 1)"

definition leg_side_text :: "pydict \<Rightarrow> pyexn + string" where
  "leg_side_text d = (case dget_default d ''side'' (PStr ''buy'') of PStr s \<Rightarrow> Inr (str_lower s) | _ \<Rightarrow> Inl AttributeError)"

text \<open>The action on a leg: a closing spread turns the held side around.\<close>

definition entry_action :: "bool \<Rightarrow> string \<Rightarrow> string" where
  "entry_action closing side =
     (if closing then (if side \<in> {''long'', ''buy''} then ''sell'' else if side \<in> {''short'', ''sell''} then ''buy'' else ''sell'')
      else if side \<in> {''buy'', ''sell''} then side else ''buy'')"

definition entry_leg_of :: "bool \<Rightarrow> pydict \<Rightarrow> pyexn + option_leg" where
  "entry_leg_of closing d =
     rbind (py_int (dget_default d ''quantity'' (PInt 1))) (\<lambda>qty.
     rbind (leg_side_text d) (\<lambda>side.
     rbind (parsed_symbol (dget d ''symbol'')) (\<lambda>parsed.
     rbind (required_text (dget d ''symbol'')) (\<lambda>sym.
       Inr \<lparr>en_symbol = sym, en_action = entry_action closing side,
            en_type = (case parsed of Some p \<Rightarrow> if op_type p = CHR ''C'' then ''call'' else ''put'' | None \<Rightarrow> ''stock''),
            en_strike = map_option (\<lambda>p. Fin (op_strike p)) parsed, en_expiry = map_option op_expiry parsed, en_qty = qty\<rparr>))))"

definition is_closing_spread :: "pydict \<Rightarrow> pydict \<Rightarrow> bool" where
  "is_closing_spread s oj \<longleftrightarrow>
     dget_default oj ''side'' (PStr []) = PStr ''close_spread'' \<or> dget s ''direction'' = PStr ''close''"

definition ticket_limit :: "pydict \<Rightarrow> pyexn + string \<times> pynum option" where
  "ticket_limit oj =
     (let v = dget oj ''limit_price'' in
      if truthy v then rbind (py_float v) (\<lambda>x. Inr (''limit'', Some (round2 x)))
      else rbind (model_float v) (\<lambda>x. Inr (''market'', x)))"

definition suggestion_to_ticket :: "(string \<Rightarrow> string option) \<Rightarrow> pydict \<Rightarrow> pyexn + trade_ticket" where
  "suggestion_to_ticket uuid s =
     (case dget_default s ''order_json'' (PDict []) of
        PDict oj \<Rightarrow>
          (let legs_data = dget_default oj ''legs'' (PList []) in
           rbind (ticket_symbol s oj legs_data) (\<lambda>symbol.
           rbind (ticket_quantity oj legs_data) (\<lambda>qty.
           rbind (leg_dicts legs_data) (\<lambda>ds.
           rbind (rmap (entry_leg_of (is_closing_spread s oj)) ds) (\<lambda>legs.
           rbind (ticket_limit oj) (\<lambda>(order_type, limit).
           rbind (model_text (dget_default s ''window'' (PStr ''manual''))) (\<lambda>source.
           rbind (model_uuid uuid (dget s ''id'')) (\<lambda>ref.
           rbind (model_text (py_or (dget s ''strategy'') (py_or (dget s ''strategy_type'') (PStr ''custom'')))) (\<lambda>strategy.
           rbind (required_text symbol) (\<lambda>sym.
           rbind (model_float (dget s ''probability_of_profit'')) (\<lambda>conviction.
           rbind (model_float (dget s ''ev'')) (\<lambda>ev.
             Inr \<lparr>tt_source = source, tt_ref = ref, tt_strategy = strategy, tt_symbol = sym, tt_legs = legs, tt_order_type = order_type,
                  tt_limit = limit, tt_qty = qty, tt_conviction = conviction, tt_ev = ev\<rparr>))))))))))))
      | _ \<Rightarrow> Inl AttributeError)"

subsection \<open>The legs of an order\<close>

definition strategy_leg_counts :: "(string \<times> nat) list" where
  "strategy_leg_counts =
     [(''long_call'', 1), (''long_put'', 1), (''naked_call'', 1), (''naked_put'', 1),
      (''vertical_spread'', 2), (''credit_spread'', 2), (''debit_spread'', 2), (''vertical_call'', 2), (''vertical_put'', 2),
      (''credit_call_spread'', 2), (''credit_put_spread'', 2), (''debit_call_spread'', 2), (''debit_put_spread'', 2),
      (''call_spread'', 2), (''put_spread'', 2), (''butterfly'', 3),
      (''condor'', 4), (''iron_condor'', 4), (''iron_butterfly'', 4)]"

definition option_leg_ok :: "option_leg \<Rightarrow> bool" where
  "option_leg_ok l \<longleftrightarrow>
     (en_type l \<in> {''call'', ''put''} \<longrightarrow> en_strike l \<noteq> None \<and> en_expiry l \<noteq> None \<and> occ_like (en_symbol l))"

definition leg_count_ok :: "trade_ticket \<Rightarrow> bool" where
  "leg_count_ok t \<longleftrightarrow>
     (case tt_strategy t of None \<Rightarrow> True
      | Some s \<Rightarrow> (case map_of strategy_leg_counts s of None \<Rightarrow> True | Some n \<Rightarrow> length (tt_legs t) = n))"

definition validate_order_legs :: "trade_ticket \<Rightarrow> pyexn + unit" where
  "validate_order_legs t = (if leg_count_ok t \<and> list_all option_leg_ok (tt_legs t) then Inr () else Inl ValueError)"

subsection \<open>The ticket in an order\<close>

definition text_json :: "string option \<Rightarrow> pyval" where
  "text_json x = (case x of None \<Rightarrow> PNone | Some s \<Rightarrow> PStr s)"

definition option_leg_json :: "option_leg \<Rightarrow> pydict" where
  "option_leg_json l =
     [(''symbol'', PStr (en_symbol l)), (''action'', PStr (en_action l)), (''type'', PStr (en_type l)),
      (''strike'', opt_float (en_strike l)), (''expiry'', text_json (en_expiry l)), (''quantity'', PInt (en_qty l))]"

definition trade_ticket_json :: "trade_ticket \<Rightarrow> pydict" where
  "trade_ticket_json t =
     [(''ticket_id'', PNone), (''source_engine'', text_json (tt_source t)), (''source_ref_id'', text_json (tt_ref t)),
      (''strategy_type'', text_json (tt_strategy t)), (''symbol'', PStr (tt_symbol t)),
      (''legs'', PList (map (\<lambda>l. PDict (option_leg_json l)) (tt_legs t))),
      (''order_type'', PStr (tt_order_type t)), (''limit_price'', opt_float (tt_limit t)), (''quantity'', PInt (tt_qty t)),
      (''time_in_force'', PStr ''day''), (''catalyst_window'', PNone), (''conviction_score'', opt_float (tt_conviction t)),
      (''expected_value'', opt_float (tt_ev t)), (''risk_bracket'', PNone), (''regime_context'', PDict []), (''is_credit_close'', PNone)]"

definition priced_ticket_of :: "trade_ticket \<Rightarrow> priced_ticket" where
  "priced_ticket_of t = \<lparr>pt_qty = tt_qty t, pt_order_type = tt_order_type t, pt_limit = tt_limit t, pt_actions = map en_action (tt_legs t)\<rparr>"

end
