(* ===== verification/Option_Levels.thy ===== *)
theory Option_Levels
  imports Risk_Budget Close_Guard
begin

section \<open>Strategy identities and the broker's permission levels\<close>

text \<open>
  Model of \<open>analytics/strategy_identity.py\<close>, the table of the strategy identifiers with their payoff
  structures, and of \<open>services/options_level_preflight.py\<close>: the level an entry needs, the reads of the
  broker's account through a cache of 60 seconds, and the check of the level.

  The broker's client is its name in the cache; what its account read answers, and the clock, are
  arguments. Log lines and the texts of the errors are left out.
\<close>

subsection \<open>Identities\<close>

datatype structure_class = DebitSpread | CreditSpread | IronCondor | NoTrade

record strategy_identity =
  si_id :: string
  si_type :: string
  si_structure :: structure_class
  si_spread :: bool
  si_defined_risk :: bool
  si_basis :: "string option"

definition identity :: "string \<Rightarrow> string \<Rightarrow> structure_class \<Rightarrow> string option \<Rightarrow> strategy_identity" where
  "identity i t s b = \<lparr>si_id = i, si_type = t, si_structure = s, si_spread = (s \<noteq> NoTrade), si_defined_risk = True, si_basis = b\<rparr>"

definition crosswalk :: "strategy_identity list" where
  "crosswalk =
     [identity ''long_call_debit_spread'' ''long_call_debit_spread'' DebitSpread (Some ''net_debit''),
      identity ''long_put_debit_spread'' ''long_put_debit_spread'' DebitSpread (Some ''net_debit''),
      identity ''short_put_credit_spread'' ''short_put_credit_spread'' CreditSpread (Some ''width_minus_credit''),
      identity ''short_call_credit_spread'' ''short_call_credit_spread'' CreditSpread (Some ''width_minus_credit''),
      identity ''iron_condor'' ''iron_condor'' IronCondor (Some ''width_minus_credit''),
      identity ''hold'' ''unknown'' NoTrade None,
      identity ''cash'' ''unknown'' NoTrade None]"

definition tradable_ids :: "string list" where
  "tradable_ids = map si_id (filter (\<lambda>s. si_structure s \<noteq> NoTrade) crosswalk)"

definition no_trade_ids :: "string list" where
  "no_trade_ids = map si_id (filter (\<lambda>s. si_structure s = NoTrade) crosswalk)"

definition resolve_strategy_identity :: "string \<Rightarrow> strategy_identity option" where
  "resolve_strategy_identity raw =
     (if raw = [] then None else find (\<lambda>s. si_id s = normalize_strategy_id raw) crosswalk)"

subsection \<open>The level an entry needs\<close>

definition strategy_min_level :: "(string \<times> int) list" where
  "strategy_min_level =
     [(''long_call_debit_spread'', 3), (''long_put_debit_spread'', 3), (''short_put_credit_spread'', 3),
      (''short_call_credit_spread'', 3), (''iron_condor'', 3), (''long_call'', 2), (''long_put'', 2),
      (''covered_call'', 1), (''cash_secured_put'', 1)]"

definition future_capability_ids :: "string list" where
  "future_capability_ids = [''long_call'', ''long_put'', ''covered_call'', ''cash_secured_put'']"

definition unknown_strategy_min_level :: int where
  "unknown_strategy_min_level = 3"

text \<open>Tradable identifiers without a level, and levels of identifiers nothing explains.\<close>

definition permission_map_drift :: "string list \<Rightarrow> (string \<times> int) list \<Rightarrow> string list \<Rightarrow> string list \<times> string list" where
  "permission_map_drift tids pmap fids =
     (filter (\<lambda>t. t \<notin> fst ` set pmap) tids, filter (\<lambda>k. k \<notin> set tids \<and> k \<notin> set fids) (map fst pmap))"

definition assert_permission_map_locked :: "string list \<Rightarrow> (string \<times> int) list \<Rightarrow> string list \<Rightarrow> pyexn + unit" where
  "assert_permission_map_locked tids pmap fids =
     (if permission_map_drift tids pmap fids = ([], []) then Inr () else Inl RuntimeError)"

text \<open>The strategy of a ticket may be missing.\<close>

definition strategy_name :: "string option \<Rightarrow> string" where
  "strategy_name s = (case s of None \<Rightarrow> [] | Some t \<Rightarrow> t)"

definition is_no_trade_verdict :: "string option \<Rightarrow> bool" where
  "is_no_trade_verdict strategy =
     (case resolve_strategy_identity (strategy_name strategy) of None \<Rightarrow> False | Some i \<Rightarrow> si_structure i = NoTrade)"

definition required_options_level :: "string option \<Rightarrow> int option" where
  "required_options_level strategy =
     (if is_no_trade_verdict strategy then None
      else Some (case map_of strategy_min_level (normalize_strategy_id (strategy_name strategy)) of
                   Some n \<Rightarrow> n | None \<Rightarrow> unknown_strategy_min_level))"

subsection \<open>The account through the cache\<close>

type_synonym account_cache = "string \<Rightarrow> (rat \<times> pydict) option"

definition account_level_ttl :: rat where
  "account_level_ttl = 60"

definition get_account_with_ttl ::
  "rat \<Rightarrow> (pyexn + pyval) \<Rightarrow> string \<Rightarrow> account_cache \<Rightarrow> (pyexn + pyval) \<times> account_cache" where
  "get_account_with_ttl now answer client cache =
     (case (case cache client of None \<Rightarrow> None | Some (ts, a) \<Rightarrow> if now - ts < account_level_ttl then Some a else None) of
        Some a \<Rightarrow> (Inr (PDict a), cache)
      | None \<Rightarrow>
          (case answer of
             Inr (PDict a) \<Rightarrow> (Inr (PDict a), cache(client \<mapsto> (now, a)))
           | _ \<Rightarrow> (answer, cache)))"

subsection \<open>The check\<close>

datatype level_error =
    LevelUnavailable
  | LevelInsufficient int int
  | LevelCrash pyexn

definition level_as_int :: "pyval \<Rightarrow> level_error + int" where
  "level_as_int v =
     (case py_int v of
        Inr n \<Rightarrow> Inr n
      | Inl e \<Rightarrow> Inl (if e = TypeError \<or> e = ValueError then LevelUnavailable else LevelCrash e))"

text \<open>The level at which the entry passed, with the level it needs; none for an order that is exempt.\<close>

definition check_options_level :: "string option \<Rightarrow> bool \<Rightarrow> pyval \<Rightarrow> level_error + (int \<times> int) option" where
  "check_options_level strategy is_open account =
     (if \<not> is_open then Inr None
      else case required_options_level strategy of
          None \<Rightarrow> Inr None
        | Some required \<Rightarrow>
            (case py_or account (PDict []) of
               PDict acct \<Rightarrow>
                 (let effective = dget acct ''options_trading_level'' in
                  if effective = PNone then Inl LevelUnavailable
                  else rbind (level_as_int effective) (\<lambda>n.
                    if n < required then Inl (LevelInsufficient required n) else Inr (Some (n, required))))
             | _ \<Rightarrow> Inl (LevelCrash AttributeError)))"

subsection \<open>What the tables and the check guarantee\<close>

text \<open>The lock that is asserted when the module is imported holds.\<close>

lemma permission_map_locked: "assert_permission_map_locked tradable_ids strategy_min_level future_capability_ids = Inr ()"
  by code_simp

lemma no_trade_identifiers: "no_trade_ids = [''hold'', ''cash'']"
  by code_simp

lemma levels_range:
  assumes "required_options_level strategy = Some n" shows "1 \<le> n \<and> n \<le> 3"
proof (cases "map_of strategy_min_level (normalize_strategy_id (strategy_name strategy))")
  case None
  then show ?thesis using assms by (simp add: required_options_level_def unknown_strategy_min_level_def split: if_splits)
next
  case (Some m)
  then have "m \<in> set (map snd strategy_min_level)" by (auto dest!: map_of_SomeD intro: rev_image_eqI)
  then have "1 \<le> m \<and> m \<le> 3" by (auto simp: strategy_min_level_def)
  with Some show ?thesis using assms by (simp add: required_options_level_def split: if_splits)
qed

text \<open>A tradable spread needs the third level; an identifier that is not in the table, too.\<close>

lemma spread_needs_level_three:
  assumes "resolve_strategy_identity s = Some i" and "si_structure i \<noteq> NoTrade"
  shows "required_options_level (Some s) = Some 3"
proof -
  have "i \<in> set crosswalk" and key: "normalize_strategy_id s = si_id i"
    using assms(1) by (auto simp: resolve_strategy_identity_def find_Some_iff split: if_splits)
  then have "map_of strategy_min_level (si_id i) = Some 3"
    using assms(2) by (auto simp: crosswalk_def identity_def strategy_min_level_def)
  then show ?thesis
    using assms key by (simp add: required_options_level_def is_no_trade_verdict_def strategy_name_def)
qed

lemma check_passes:
  assumes "check_options_level strategy True account = Inr r"
  shows "is_no_trade_verdict strategy
     \<or> (\<exists>acct n required. account = PDict acct \<and> required_options_level strategy = Some required
          \<and> py_int (dget acct ''options_trading_level'') = Inr n \<and> required \<le> n)"
proof (cases "required_options_level strategy")
  case None
  then show ?thesis by (simp add: required_options_level_def split: if_splits)
next
  case (Some required)
  have empty: "py_or account (PDict []) \<noteq> PDict []" using assms Some by (auto simp: check_options_level_def dget_def)
  then obtain acct where acct: "account = PDict acct"
    using assms Some by (auto simp: check_options_level_def py_or_def split: if_splits pyval.splits)
  then have or: "py_or account (PDict []) = PDict acct" using empty by (auto simp: py_or_def split: if_splits)
  then obtain n where n: "py_int (dget acct ''options_trading_level'') = Inr n" "\<not> n < required"
    using assms Some by (auto simp: check_options_level_def rbind_Inr_iff level_as_int_def Let_def split: if_splits sum.splits)
  then show ?thesis using acct Some by auto
qed

subsection \<open>Runs of the cache\<close>

text \<open>
  The calls of one process: each with its client, the time on the monotonic clock and what the broker
  would answer to a read. The log keeps what each call returned.
\<close>

record account_call =
  ac_client :: string
  ac_now :: rat
  ac_answer :: "pyexn + pyval"

definition account_step ::
  "account_call \<Rightarrow> (pyexn + pyval) list \<times> account_cache \<Rightarrow> (pyexn + pyval) list \<times> account_cache" where
  "account_step c st =
     (case get_account_with_ttl (ac_now c) (ac_answer c) (ac_client c) (snd st) of (r, cache) \<Rightarrow> (fst st @ [r], cache))"

definition account_run :: "account_call list \<Rightarrow> (pyexn + pyval) list \<times> account_cache" where
  "account_run cs = foldl (\<lambda>st c. account_step c st) ([], Map.empty) cs"

lemma account_run_snoc: "account_run (cs @ [c]) = account_step c (account_run cs)"
  by (simp add: account_run_def)

lemma account_run_Nil: "account_run [] = ([], Map.empty)"
  by (simp add: account_run_def)

lemma account_step_cases:
  obtains (hit) ts a where "snd st (ac_client c) = Some (ts, a)" "ac_now c - ts < account_level_ttl"
      "account_step c st = (fst st @ [Inr (PDict a)], snd st)"
  | (read) a where "ac_answer c = Inr (PDict a)"
      "account_step c st = (fst st @ [ac_answer c], (snd st)(ac_client c \<mapsto> (ac_now c, a)))"
  | (failure) "\<forall>a. ac_answer c \<noteq> Inr (PDict a)" "account_step c st = (fst st @ [ac_answer c], snd st)"
proof -
  let ?hit = "case snd st (ac_client c) of None \<Rightarrow> None | Some (ts, a) \<Rightarrow> if ac_now c - ts < account_level_ttl then Some a else None"
  show thesis
  proof (cases ?hit)
    case (Some a)
    then obtain ts where "snd st (ac_client c) = Some (ts, a)" "ac_now c - ts < account_level_ttl"
      by (auto split: option.splits if_splits)
    with Some show thesis by (intro hit) (auto simp: account_step_def get_account_with_ttl_def)
  next
    case None
    show thesis
    proof (cases "\<exists>a. ac_answer c = Inr (PDict a)")
      case True
      then obtain a where "ac_answer c = Inr (PDict a)" by blast
      with None show thesis by (intro read) (simp_all add: account_step_def get_account_with_ttl_def)
    next
      case False
      with None show thesis
        by (intro failure) (auto simp: account_step_def get_account_with_ttl_def split: sum.splits pyval.splits)
    qed
  qed
qed

text \<open>An entry of the cache is an answer to a call of its client, with the call's time.\<close>

definition cached_from :: "account_call list \<Rightarrow> account_cache \<Rightarrow> bool" where
  "cached_from cs cache \<longleftrightarrow>
     (\<forall>cl ts a. cache cl = Some (ts, a) \<longrightarrow> (\<exists>c \<in> set cs. ac_client c = cl \<and> ac_now c = ts \<and> ac_answer c = Inr (PDict a)))"

lemma cached_from_run: "cached_from cs (snd (account_run cs))"
proof (induction cs rule: rev_induct)
  case Nil
  then show ?case by (simp add: cached_from_def account_run_Nil)
next
  case (snoc c cs)
  show ?case
    by (rule account_step_cases [of "account_run cs" c]; use snoc in \<open>auto simp: cached_from_def account_run_snoc\<close>)
qed

text \<open>
  Whatever a call returns, the broker answered it to a call of the same client at most 60 seconds
  earlier, or to this one; a failed read is never served again, because only accounts are kept.
\<close>

lemma served_answer_is_recent:
  assumes "fst (account_run (cs @ [c])) = rs @ [r]"
  shows "\<exists>d \<in> set (cs @ [c]). ac_client d = ac_client c \<and> ac_answer d = r
     \<and> (d = c \<or> (\<exists>a. r = Inr (PDict a)) \<and> ac_now c - ac_now d < account_level_ttl)"
proof (rule account_step_cases [of "account_run cs" c])
  fix ts a
  assume hit: "snd (account_run cs) (ac_client c) = Some (ts, a)" "ac_now c - ts < account_level_ttl"
    "account_step c (account_run cs) = (fst (account_run cs) @ [Inr (PDict a)], snd (account_run cs))"
  then obtain d where "d \<in> set cs" "ac_client d = ac_client c" "ac_now d = ts" "ac_answer d = Inr (PDict a)"
    using cached_from_run [of cs] unfolding cached_from_def by blast
  moreover have "r = Inr (PDict a)" using assms hit(3) by (simp add: account_run_snoc)
  ultimately show ?thesis using hit(2) by (intro bexI [of _ d]) simp_all
next
  fix a
  assume "ac_answer c = Inr (PDict a)"
    "account_step c (account_run cs) = (fst (account_run cs) @ [ac_answer c], (snd (account_run cs))(ac_client c \<mapsto> (ac_now c, a)))"
  then have "r = ac_answer c" using assms by (simp add: account_run_snoc)
  then show ?thesis by (intro bexI [of _ c]) simp_all
next
  assume "account_step c (account_run cs) = (fst (account_run cs) @ [ac_answer c], snd (account_run cs))"
  then have "r = ac_answer c" using assms by (simp add: account_run_snoc)
  then show ?thesis by (intro bexI [of _ c]) simp_all
qed

end
