(* ===== verification/Entry_Gates.thy ===== *)
theory Entry_Gates
  imports Entry_Tickets Option_Levels Cohort_Entries
begin

section \<open>The gates of an entry before its order\<close>

text \<open>
  Model of the checks that \<open>_stage_order_internal\<close> in \<open>paper_endpoints.py\<close> runs before an order row
  exists: the quote with its retries, the validation of a quote per leg, the sign of the structure,
  the cost of a round trip against the expected value, and the options level of the account.

  What the quote services, the truth layer, the database and the broker answer are parameters; the
  quotes of the legs are read one after the other, so each read has its own answers. The minimum edge
  is read when its module is loaded, which fails when the variable is no number. The detail text that
  accompanies a blocked reason and the log lines are left out.
\<close>

datatype stage_failure =
    LegUnpriceable string
  | CostExceedsEV pynum pynum
  | LevelRejected level_error
  | StageRaised pyexn

definition stage_lift :: "pyexn + 'a \<Rightarrow> stage_failure + 'a" where
  "stage_lift m = (case m of Inl e \<Rightarrow> Inl (StageRaised e) | Inr x \<Rightarrow> Inr x)"

subsection \<open>Quotes\<close>

fun first_answer :: "nat \<Rightarrow> nat \<Rightarrow> (nat \<Rightarrow> pyexn + pydict option) \<Rightarrow> pydict option" where
  "first_answer 0 k get = None"
| "first_answer (Suc n) k get = (case get k of Inr q \<Rightarrow> q | Inl _ \<Rightarrow> first_answer n (Suc k) get)"

definition quote_retries :: nat where
  "quote_retries = 3"

definition fetch_quote_with_retry :: "(nat \<Rightarrow> pyexn + pydict option) \<Rightarrow> pydict option" where
  "fetch_quote_with_retry get = first_answer quote_retries 0 get"

definition valid_quote :: "pydict option \<Rightarrow> bool" where
  "valid_quote q = (case q of None \<Rightarrow> False | Some d \<Rightarrow> is_valid_quote d)"

text \<open>The quote in the answer of the truth layer; every error counts as no quote.\<close>

definition snapshot_of :: "string \<Rightarrow> pydict \<Rightarrow> pyval" where
  "snapshot_of symbol snaps =
     py_or (dget snaps symbol) (case snaps of [] \<Rightarrow> PDict [] | (_, v) # _ \<Rightarrow> v)"

definition truth_quote :: "string \<Rightarrow> (pyexn + pydict) \<Rightarrow> pydict option" where
  "truth_quote symbol answer =
     (case answer of
        Inl _ \<Rightarrow> None
      | Inr snaps \<Rightarrow>
          (case py_or (snapshot_of symbol snaps) (PDict []) of
             PDict snap \<Rightarrow>
               (case py_or (dget snap ''quote'') (PDict []) of
                  PDict q \<Rightarrow>
                    if q = [] then None
                    else Some [(''bid'', dget q ''bid''), (''ask'', dget q ''ask''), (''bid_price'', dget q ''bid''),
                               (''ask_price'', dget q ''ask''), (''price'', py_or (dget q ''last'') (dget q ''mid''))]
                | _ \<Rightarrow> None)
           | _ \<Rightarrow> None))"

record quote_source =
  qs_poly :: "nat \<Rightarrow> string \<Rightarrow> nat \<Rightarrow> pyexn + pydict option"
  qs_truth :: "nat \<Rightarrow> string \<Rightarrow> pyexn + pydict"

definition aligned_leg_quote :: "quote_source \<Rightarrow> nat \<Rightarrow> string \<Rightarrow> pydict option" where
  "aligned_leg_quote qs k symbol =
     (let truth = truth_quote symbol (qs_truth qs k symbol); poly = fetch_quote_with_retry (qs_poly qs k symbol)
      in if valid_quote truth then truth else poly)"

definition entry_leg_quote :: "environ \<Rightarrow> quote_source \<Rightarrow> nat \<Rightarrow> string \<Rightarrow> pydict option" where
  "entry_leg_quote env qs k symbol =
     (if default_on (env ''ENTRY_QUOTE_SOURCE_ALIGNED'') then aligned_leg_quote qs k symbol
      else fetch_quote_with_retry (qs_poly qs k symbol))"

subsection \<open>A quote for every leg\<close>

text \<open>The validated quotes by symbol: of two legs on one symbol the later quote is kept.\<close>

fun quote_legs :: "(nat \<Rightarrow> string \<Rightarrow> pydict option) \<Rightarrow> nat \<Rightarrow> option_leg list \<Rightarrow> pydict \<Rightarrow> stage_failure + pydict" where
  "quote_legs get k [] acc = Inr acc"
| "quote_legs get k (l # ls) acc =
     (if en_symbol l = [] then quote_legs get (Suc k) ls acc
      else (case get k (en_symbol l) of
              None \<Rightarrow> Inl (LegUnpriceable (en_symbol l))
            | Some q \<Rightarrow>
                if is_valid_quote q then quote_legs get (Suc k) ls (dset acc (en_symbol l) (PDict q))
                else Inl (LegUnpriceable (en_symbol l))))"

definition validate_entry_quotes :: "environ \<Rightarrow> quote_source \<Rightarrow> bool \<Rightarrow> trade_ticket \<Rightarrow> stage_failure + pydict" where
  "validate_entry_quotes env qs is_open t =
     (if \<not> is_open \<or> \<not> default_on (env ''ENTRY_QUOTE_VALIDATION_ENABLED'') then Inr []
      else quote_legs (entry_leg_quote env qs) 1 (tt_legs t) [])"

subsection \<open>The sign of the structure\<close>

definition quote_of_leg :: "pydict \<Rightarrow> option_leg \<Rightarrow> pydict" where
  "quote_of_leg quotes l = (case dget quotes (en_symbol l) of PDict q \<Rightarrow> q | _ \<Rightarrow> [])"

definition leg_mid :: "pydict \<Rightarrow> pynum option" where
  "leg_mid q =
     (case (py_float (py_or (dget q ''bid'') (py_or (dget q ''bid_price'') (PInt 0))),
            py_float (py_or (dget q ''ask'') (py_or (dget q ''ask_price'') (PInt 0)))) of
        (Inr b, Inr a) \<Rightarrow>
          if flt (Fin 0) b \<and> flt (Fin 0) a then Some (fmul (fadd b a) (Fin (1/2)))
          else (case py_float (py_or (dget q ''price'') (PInt 0)) of
                  Inr m \<Rightarrow> if fle m (Fin 0) then None else Some m
                | Inl _ \<Rightarrow> None)
      | _ \<Rightarrow> None)"

fun net_mid_from :: "pydict \<Rightarrow> option_leg list \<Rightarrow> pynum \<Rightarrow> pynum option" where
  "net_mid_from quotes [] net = Some net"
| "net_mid_from quotes (l # ls) net =
     (if en_symbol l = [] then None
      else (case leg_mid (quote_of_leg quotes l) of
              None \<Rightarrow> None
            | Some m \<Rightarrow> net_mid_from quotes ls (if str_lower (en_action l) = ''sell'' then fsub net m else fadd net m)))"

definition net_mid_cost :: "trade_ticket \<Rightarrow> pydict \<Rightarrow> pynum option" where
  "net_mid_cost t quotes = net_mid_from quotes (tt_legs t) (Fin 0)"

definition entry_is_net_credit :: "bool \<Rightarrow> trade_ticket \<Rightarrow> pydict \<Rightarrow> bool" where
  "entry_is_net_credit is_open t quotes \<longleftrightarrow>
     is_open \<and> quotes \<noteq> [] \<and> (case net_mid_cost t quotes of None \<Rightarrow> False | Some x \<Rightarrow> flt x (Fin (- 5 / 1000)))"

subsection \<open>The cost of a round trip\<close>

definition is_shadow_routing :: "pyval \<Rightarrow> bool" where
  "is_shadow_routing routing \<longleftrightarrow> token_of (py_or routing (PStr [])) = Some ''shadow_only''"

definition opt_in :: "string option \<Rightarrow> bool" where
  "opt_in raw \<longleftrightarrow> str_lower (str_strip (case raw of None \<Rightarrow> [] | Some s \<Rightarrow> s)) \<in> {''1'', ''true'', ''yes'', ''on''}"

definition min_edge_after_costs :: "environ \<Rightarrow> pynum" where
  "min_edge_after_costs env = env_num env ''MIN_EDGE_AFTER_COSTS'' 15"

definition cost_leg :: "option_leg \<Rightarrow> pyval" where
  "cost_leg l =
     PDict [(''occ_symbol'', if en_symbol l = [] then PNone else PStr (en_symbol l)), (''action'', PStr (en_action l)),
            (''quantity'', PInt (en_qty l)), (''strike'', opt_float (en_strike l))]"

definition either_key :: "pydict \<Rightarrow> string \<Rightarrow> string \<Rightarrow> pyval" where
  "either_key q k1 k2 = (if dget q k1 \<noteq> PNone then dget q k1 else dget q k2)"

definition priced_both_ways :: "pydict \<Rightarrow> quote_book" where
  "priced_both_ways quotes occ =
     (case occ of
        PStr s \<Rightarrow> (case dget quotes s of
            PDict q \<Rightarrow> Some [(''bid'', either_key q ''bid'' ''bid_price''), (''ask'', either_key q ''ask'' ''ask_price'')]
          | _ \<Rightarrow> None)
      | _ \<Rightarrow> None)"

datatype cost_verdict = NotPriced | CostAllows pynum | CostRejects pynum pynum

text \<open>
  The decision: shadow books, and live books with the flag, compare with the cost of one structure;
  other books with the cost of all.
\<close>

definition cost_decision :: "environ \<Rightarrow> bool \<Rightarrow> pynum \<Rightarrow> pynum \<Rightarrow> pynum \<Rightarrow> cost_verdict" where
  "cost_decision env shadow ev total_cost per_contract =
     (let cost = (if shadow \<or> opt_in (env ''GATE_QTY_FIX_LIVE_ENABLED'') then per_contract else total_cost); net = fsub ev cost
      in if flt net (min_edge_after_costs env) then CostRejects cost net else CostAllows net)"

definition roundtrip_verdict :: "environ \<Rightarrow> bool \<Rightarrow> bool \<Rightarrow> trade_ticket \<Rightarrow> pydict \<Rightarrow> pyexn + cost_verdict" where
  "roundtrip_verdict env is_open shadow t quotes =
     (if \<not> is_open \<or> quotes = [] \<or> \<not> default_on (env ''ENTRY_ROUNDTRIP_COST_GATE_ENABLED'') then Inr NotPriced
      else case tt_ev t of
          None \<Rightarrow> Inr NotPriced
        | Some ev \<Rightarrow>
            rbind (executable_roundtrip_cost env (map cost_leg (tt_legs t)) (priced_both_ways quotes) (PInt (tt_qty t))) (\<lambda>rt.
              Inr (case (rt_total rt, rt_per_contract rt) of
                     (Some c, Some pc) \<Rightarrow> cost_decision env shadow ev c pc
                   | _ \<Rightarrow> NotPriced)))"

subsection \<open>What is stamped on the suggestion\<close>

type_synonym suggestion_rows = "pydict list"

definition stamp_reason_on :: "bool \<Rightarrow> pyval \<Rightarrow> string \<Rightarrow> suggestion_rows \<Rightarrow> suggestion_rows" where
  "stamp_reason_on ok sid reason rows =
     (if truthy sid \<and> ok then update_rows (\<lambda>r. row_id r = sid) (\<lambda>r. dset r ''blocked_reason'' (PStr reason)) rows else rows)"

definition apply_roundtrip_gate ::
  "environ \<Rightarrow> bool \<Rightarrow> bool \<Rightarrow> bool \<Rightarrow> trade_ticket \<Rightarrow> pydict \<Rightarrow> pyval \<Rightarrow> suggestion_rows \<Rightarrow> (stage_failure + unit) \<times> suggestion_rows" where
  "apply_roundtrip_gate env stamp_ok is_open shadow t quotes sid rows =
     (case roundtrip_verdict env is_open shadow t quotes of
        Inl e \<Rightarrow> (Inl (StageRaised e), rows)
      | Inr (CostRejects cost net) \<Rightarrow> (Inl (CostExceedsEV cost net), stamp_reason_on stamp_ok sid ''ev_below_roundtrip_cost'' rows)
      | Inr _ \<Rightarrow> (Inr (), rows))"

subsection \<open>The options level\<close>

text \<open>
  The account is read only when this call would submit to the broker. The client may be missing, or
  its creation may raise.
\<close>

record account_source =
  as_client :: "pyexn + string option"
  as_now :: rat
  as_answer :: "pyexn + pyval"

definition preflight_applies :: "environ \<Rightarrow> bool \<Rightarrow> bool \<Rightarrow> pyval \<Rightarrow> bool" where
  "preflight_applies env is_open submit routing \<longleftrightarrow>
     is_open \<and> get_execution_mode env \<in> {Alpaca_Paper, Alpaca_Live} \<and> submit \<and> \<not> dry_run env
     \<and> token_of (py_or routing (PStr [])) = Some ''live_eligible''"

definition level_check :: "string option \<Rightarrow> account_source \<Rightarrow> account_cache \<Rightarrow> (level_error + unit) \<times> account_cache" where
  "level_check strategy src cache =
     (case as_client src of
        Inl e \<Rightarrow> (Inl (LevelCrash e), cache)
      | Inr None \<Rightarrow> (Inl LevelUnavailable, cache)
      | Inr (Some client) \<Rightarrow>
          (case get_account_with_ttl (as_now src) (as_answer src) client cache of
             (Inl e, cache') \<Rightarrow> (Inl LevelUnavailable, cache')
           | (Inr account, cache') \<Rightarrow> (rbind (check_options_level strategy True account) (\<lambda>_. Inr ()), cache')))"

definition level_reason :: "level_error \<Rightarrow> string option" where
  "level_reason e = (case e of LevelUnavailable \<Rightarrow> Some ''entry_options_level_unavailable''
     | LevelInsufficient _ _ \<Rightarrow> Some ''entry_options_level_insufficient'' | LevelCrash _ \<Rightarrow> None)"

definition apply_options_level_preflight ::
  "environ \<Rightarrow> bool \<Rightarrow> bool \<Rightarrow> bool \<Rightarrow> pyval \<Rightarrow> trade_ticket \<Rightarrow> account_source \<Rightarrow> pyval \<Rightarrow> account_cache \<Rightarrow> suggestion_rows \<Rightarrow>
     (stage_failure + unit) \<times> account_cache \<times> suggestion_rows" where
  "apply_options_level_preflight env stamp_ok is_open submit routing t src sid cache rows =
     (if \<not> preflight_applies env is_open submit routing \<or> is_no_trade_verdict (tt_strategy t) then (Inr (), cache, rows)
      else case level_check (tt_strategy t) src cache of
          (Inr _, cache') \<Rightarrow> (Inr (), cache', rows)
        | (Inl e, cache') \<Rightarrow>
            (Inl (LevelRejected e), cache',
             case level_reason e of None \<Rightarrow> rows | Some reason \<Rightarrow> stamp_reason_on stamp_ok sid reason rows))"

end
