(* ===== verification/Entry_Pricing.thy ===== *)
theory Entry_Pricing
  imports Entry_Gates
begin

section \<open>What is computed beside a staged order\<close>

text \<open>
  Model of the computations that accompany the staging of an order: the greeks, the volatility and
  the spot that are stamped on its legs (\<open>paper_endpoints.py\<close>), the routing-aware proposal of its costs
  (\<open>services/tcm_v2_proposal.py\<close>), and the price of a live entry that crosses to the natural when the
  expected value covers it (\<open>execution/marketable_entry.py\<close>).

  A snapshot is the dictionary that the truth layer gives, or none. Prose fields of the records (the
  evidence, the notes), the fields of a crossing that repeat its inputs, and log lines are left out.
\<close>

subsection \<open>Greeks and volatility of the legs\<close>

definition finite_float_or_none :: "pyval \<Rightarrow> pynum option" where
  "finite_float_or_none v =
     (case v of PNone \<Rightarrow> None | PBool _ \<Rightarrow> None
      | _ \<Rightarrow> (case py_float v of Inr x \<Rightarrow> if is_finite x then Some x else None | Inl _ \<Rightarrow> None))"

definition finite_pos_float_or_none :: "pyval \<Rightarrow> pynum option" where
  "finite_pos_float_or_none v = (case finite_float_or_none v of Some x \<Rightarrow> if flt (Fin 0) x then Some x else None | None \<Rightarrow> None)"

definition stage_populated :: string where "stage_populated = ''populated_at_stage''"
definition stage_unavailable :: string where "stage_unavailable = ''unavailable_at_stage''"

definition snap_dict :: "pyval \<Rightarrow> pydict" where
  "snap_dict snap = (case snap of PDict d \<Rightarrow> d | _ \<Rightarrow> [])"

definition source_mark :: "string \<Rightarrow> pyval \<Rightarrow> pydict \<Rightarrow> pydict" where
  "source_mark key source leg = (if truthy source then dset leg key source else leg)"

definition apply_leg_iv :: "pyval \<Rightarrow> pydict \<Rightarrow> pydict" where
  "apply_leg_iv snap leg =
     (let d = snap_dict snap; source = dget d ''source'' in
      case finite_pos_float_or_none (dget d ''iv'') of
        Some iv \<Rightarrow>
          dset_all [(''iv'', PFloat iv), (''iv_status'', PStr stage_populated), (''iv_source'', py_or source (PStr ''unknown'')),
                    (''iv_as_of'', dget d ''retrieved_ts'')] leg
      | None \<Rightarrow> source_mark ''iv_source'' source (dset_all [(''iv'', PNone), (''iv_status'', PStr stage_unavailable)] leg))"

definition stage_greeks :: "string list" where
  "stage_greeks = [''delta'', ''gamma'', ''theta'', ''vega'']"

text \<open>All four greeks, or none.\<close>

fun all_greeks :: "pydict \<Rightarrow> string list \<Rightarrow> pydict option" where
  "all_greeks raw [] = Some []"
| "all_greeks raw (n # ns) =
     (case finite_float_or_none (dget raw n) of
        None \<Rightarrow> None
      | Some x \<Rightarrow> map_option (\<lambda>r. (n, PFloat x) # r) (all_greeks raw ns))"

definition snapshot_greeks :: "pydict \<Rightarrow> pydict option" where
  "snapshot_greeks d = (case dget d ''greeks'' of PDict raw \<Rightarrow> all_greeks raw stage_greeks | _ \<Rightarrow> None)"

definition apply_leg_greeks :: "pyval \<Rightarrow> pydict \<Rightarrow> pydict" where
  "apply_leg_greeks snap leg =
     (let d = snap_dict snap; source = dget d ''source'' in
      apply_leg_iv snap
        (case snapshot_greeks d of
           Some values \<Rightarrow>
             dset_all [(''greeks'', PDict values), (''greeks_status'', PStr stage_populated), (''greeks_source'', py_or source (PStr ''unknown'')),
                       (''greeks_multiplier'', PInt 100), (''greeks_as_of'', dget d ''retrieved_ts'')] leg
         | None \<Rightarrow>
             source_mark ''greeks_source'' source (dset_all [(''greeks'', PNone), (''greeks_status'', PStr stage_unavailable)] leg)))"

text \<open>The symbol looks like an option's; text is tested as it is, other values by their text.\<close>

definition is_occ_value :: "pyval \<Rightarrow> bool" where
  "is_occ_value v \<longleftrightarrow> truthy v \<and> (case py_text v of Some s \<Rightarrow> occ_like s | None \<Rightarrow> False)"

definition leg_snapshot :: "(string \<Rightarrow> pyexn + pydict) \<Rightarrow> pyval \<Rightarrow> pyval" where
  "leg_snapshot fetch symbol =
     (case symbol of
        PStr s \<Rightarrow>
          (case fetch s of
             Inr snaps \<Rightarrow> py_or (dget snaps s) (case snaps of [] \<Rightarrow> PNone | (_, v) # _ \<Rightarrow> v)
           | Inl _ \<Rightarrow> PNone)
      | _ \<Rightarrow> PNone)"

definition stamp_leg :: "(string \<Rightarrow> pyexn + pydict) \<Rightarrow> pyval \<Rightarrow> pyval" where
  "stamp_leg fetch leg =
     (case leg of
        PDict d \<Rightarrow>
          (let symbol = py_or (dget d ''symbol'') (dget d ''occ_symbol'') in
           PDict (if is_occ_value symbol then apply_leg_greeks (leg_snapshot fetch symbol) d
                  else dset_all [(''greeks'', PNone), (''greeks_status'', PStr stage_unavailable), (''iv'', PNone),
                                 (''iv_status'', PStr stage_unavailable)] d))
      | _ \<Rightarrow> leg)"

definition populate_stage_leg_greeks :: "(string \<Rightarrow> pyexn + pydict) \<Rightarrow> bool \<Rightarrow> pyval list \<Rightarrow> pyval list" where
  "populate_stage_leg_greeks fetch is_open legs = (if is_open then map (stamp_leg fetch) legs else legs)"

subsection \<open>The spot of the underlying\<close>

definition keeps_spot :: "pydict \<Rightarrow> bool" where
  "keeps_spot oj \<longleftrightarrow>
     (case dget oj ''entry_underlying_spot'' of
        PDict m \<Rightarrow> dget m ''status'' = PStr stage_populated \<and> dget m ''source'' \<notin> {PNone, PStr ''scan_time''}
      | _ \<Rightarrow> False)"

definition spot_marker :: "pyval \<Rightarrow> pydict" where
  "spot_marker scan =
     (let unavailable = (\<lambda>reason. [(''value'', PNone), (''source'', PNone), (''as_of'', PNone), (''status'', PStr stage_unavailable),
            (''reason'', PStr reason)]) in
      case scan of
        PDict d \<Rightarrow>
          (case finite_pos_float_or_none (dget d ''value'') of
             Some x \<Rightarrow> [(''value'', PFloat x), (''source'', PStr ''scan_time''), (''as_of'', dget d ''as_of''),
                        (''as_of_source'', dget d ''as_of_source''), (''status'', PStr stage_populated)]
           | None \<Rightarrow> unavailable ''scan_spot_nonpositive'')
      | _ \<Rightarrow> unavailable ''no_same_fetch_spot_source'')"

definition populate_stage_entry_spot :: "bool \<Rightarrow> pyval \<Rightarrow> pydict \<Rightarrow> pydict" where
  "populate_stage_entry_spot is_open scan oj =
     (if \<not> is_open \<or> keeps_spot oj then oj else dset oj ''entry_underlying_spot'' (PDict (spot_marker scan)))"

subsection \<open>The proposal of the costs\<close>

datatype venue = BrokerVenue | ShadowVenue | InternalVenue

definition token_text :: "pyval \<Rightarrow> string" where
  "token_text v = (case token_of (py_or v (PStr [])) of Some s \<Rightarrow> s | None \<Rightarrow> [])"

definition classify_routing :: "pyval \<Rightarrow> pyval \<Rightarrow> venue" where
  "classify_routing execution_mode routing_mode =
     (if token_text execution_mode \<in> {''alpaca_paper'', ''alpaca_live''} \<and> token_text routing_mode = ''live_eligible'' then BrokerVenue
      else if token_text routing_mode = ''shadow_only'' then ShadowVenue else InternalVenue)"

definition finite_usd :: "pyval \<Rightarrow> pynum option" where
  "finite_usd v = (if v = PNone then None else case py_float v of Inr x \<Rightarrow> if is_finite x then Some x else None | Inl _ \<Rightarrow> None)"

text \<open>A component of the costs: an amount, or the reason why there is none.\<close>

type_synonym component = "string + pynum"

record cost_proposal =
  cpr_venue :: venue
  cpr_current :: "component"
  cpr_commission :: "component"
  cpr_spread :: "component"
  cpr_slippage :: "component"
  cpr_delta :: "component"

definition component_of :: "string \<Rightarrow> pynum option \<Rightarrow> component" where
  "component_of reason x = (case x of Some y \<Rightarrow> Inr y | None \<Rightarrow> Inl reason)"

definition proposed_commission :: "venue \<Rightarrow> pynum option \<Rightarrow> component" where
  "proposed_commission v cur =
     (if v = BrokerVenue then Inr (Fin 0) else component_of ''current_commission_unavailable'' cur)"

definition carried :: "bool \<Rightarrow> pynum option \<Rightarrow> component" where
  "carried missing x = (if missing then Inl ''quote_missing_carried_from_current'' else component_of ''not_persisted_in_current'' x)"

definition build_proposal :: "pydict \<Rightarrow> venue \<Rightarrow> cost_proposal" where
  "build_proposal tcm v =
     (let cur = finite_usd (dget tcm ''fees_usd''); missing = truthy (dget tcm ''missing_quote'') in
      \<lparr>cpr_venue = v, cpr_current = component_of ''not_persisted_in_current'' cur, cpr_commission = proposed_commission v cur,
       cpr_spread = carried missing (finite_usd (dget tcm ''expected_spread_cost_usd'')),
       cpr_slippage = carried missing (finite_usd (dget tcm ''expected_slippage_usd'')),
       cpr_delta = (case (proposed_commission v cur, cur) of
          (Inr p, Some c) \<Rightarrow> Inr (fsub p c) | _ \<Rightarrow> Inl ''current_commission_unavailable'')\<rparr>)"

definition component_json :: "component \<Rightarrow> pyval" where
  "component_json x =
     PDict (case x of Inr y \<Rightarrow> [(''usd'', PFloat y), (''available'', PBool True)]
            | Inl r \<Rightarrow> [(''usd'', PNone), (''available'', PBool False), (''reason'', PStr r)])"

definition venue_text :: "venue \<Rightarrow> string" where
  "venue_text v = (case v of BrokerVenue \<Rightarrow> ''broker_alpaca_options'' | ShadowVenue \<Rightarrow> ''shadow'' | InternalVenue \<Rightarrow> ''internal'')"

definition proposal_json :: "cost_proposal \<Rightarrow> pydict" where
  "proposal_json p =
     [(''routing'', PStr (venue_text (cpr_venue p))),
      (''current_model'', PDict [(''commission_usd'', component_json (cpr_current p))]),
      (''proposed_model'', PDict [(''commission_usd'', component_json (cpr_commission p)),
         (''spread_cost_usd'', component_json (cpr_spread p)), (''slippage_usd'', component_json (cpr_slippage p))]),
      (''delta'', component_json (cpr_delta p)), (''observe_only'', PBool True)]"

definition realized_commission_when_available :: "pyval \<Rightarrow> bool \<Rightarrow> pyval \<Rightarrow> pyval \<Rightarrow> component" where
  "realized_commission_when_available execution_mode has_order_id broker_status fees =
     (if \<not> (token_text execution_mode \<in> {''alpaca_paper'', ''alpaca_live''} \<and> has_order_id \<and> token_text broker_status = ''filled'')
      then Inl ''internal_fill_commission_not_broker_stamped''
      else (case finite_usd fees of None \<Rightarrow> Inl ''broker_routed_but_fees_missing'' | Some x \<Rightarrow> Inr (fabs x)))"


subsection \<open>A live entry that crosses\<close>

definition maybe_float :: "pyval \<Rightarrow> pynum option" where
  "maybe_float v = (case py_float v of Inr x \<Rightarrow> Some x | Inl _ \<Rightarrow> None)"

definition ev_cross_k :: "environ \<Rightarrow> pynum" where
  "ev_cross_k env = env_num env ''MARKETABLE_ENTRY_EV_CROSS_K'' 3"

definition lower_text :: "pyval \<Rightarrow> string" where
  "lower_text v = (case py_text v of Some s \<Rightarrow> str_lower s | None \<Rightarrow> [])"

definition natural_action :: "pydict \<Rightarrow> string" where
  "natural_action leg = lower_text (py_or (dget leg ''action'') (py_or (dget leg ''side'') (PStr ''buy'')))"

text \<open>A two-sided quote that is not crossed.\<close>

definition leg_nbbo :: "pydict option \<Rightarrow> (pynum \<times> pynum) option" where
  "leg_nbbo quote =
     (case quote of None \<Rightarrow> None
      | Some q \<Rightarrow>
          (case (maybe_float (py_or (dget q ''bid_price'') (dget q ''bid'')), maybe_float (py_or (dget q ''ask_price'') (dget q ''ask''))) of
             (Some b, Some a) \<Rightarrow>
               if q = [] \<or> \<not> num_truthy b \<or> \<not> num_truthy a \<or> fle b (Fin 0) \<or> fle a (Fin 0) \<or> flt a b then None else Some (b, a)
           | _ \<Rightarrow> None))"

definition credit_width :: "pydict list \<Rightarrow> pynum option" where
  "credit_width legs =
     (case map (\<lambda>d. maybe_float (dget d ''strike'')) legs of
        [Some x, Some y] \<Rightarrow> (let w = fabs (fsub x y) in if flt (Fin 0) w then Some w else None)
      | _ \<Rightarrow> None)"

definition leg_key_of :: "pydict \<Rightarrow> pyval" where
  "leg_key_of d = py_or (dget d ''symbol'') (PStr [])"

fun natural_net :: "(pyval \<Rightarrow> (pynum \<times> pynum) option) \<Rightarrow> pydict list \<Rightarrow> pynum \<Rightarrow> pynum option" where
  "natural_net nbbo [] net = Some net"
| "natural_net nbbo (d # ds) net =
     (case nbbo (leg_key_of d) of
        None \<Rightarrow> None
      | Some (b, a) \<Rightarrow> natural_net nbbo ds (if natural_action d = ''buy'' then fadd net a else fsub net b))"

record crossing =
  cx_upgrade :: bool
  cx_reason :: string
  cx_natural :: "pynum option"
  cx_price :: "pynum option"
  cx_cross :: "pynum option"
  cx_cost :: "pynum option"
  cx_ev :: "pynum option"
  cx_max_loss :: "pynum option"

definition not_crossing :: "string \<Rightarrow> crossing" where
  "not_crossing reason =
     \<lparr>cx_upgrade = False, cx_reason = reason, cx_natural = None, cx_price = None, cx_cross = None, cx_cost = None, cx_ev = None, cx_max_loss = None\<rparr>"

definition positive_price :: "pynum option \<Rightarrow> pynum option" where
  "positive_price x = (case x of Some y \<Rightarrow> if num_truthy y \<and> \<not> fle y (Fin 0) then Some y else None | None \<Rightarrow> None)"

text \<open>The natural price, the crossing per share and the price that would be submitted.\<close>

definition natural_of :: "bool \<Rightarrow> pynum \<Rightarrow> pynum \<Rightarrow> pynum \<times> pynum \<times> pynum" where
  "natural_of buy mid net =
     (if buy then (net, fsub net mid, round2 net)
      else (let natural = fneg net in (natural, fsub mid natural, fmax (Fin (1/100)) (round2 natural))))"

definition max_loss_at :: "bool \<Rightarrow> pydict list \<Rightarrow> pynum \<Rightarrow> pynum \<Rightarrow> pynum option" where
  "max_loss_at buy legs price qty =
     (if buy then Some (fmul (fmul price qty) (Fin 100))
      else map_option (\<lambda>w. fmul (fmul (fsub w price) qty) (Fin 100)) (credit_width legs))"

definition suggestion_ev :: "pydict \<Rightarrow> pynum option" where
  "suggestion_ev s = (case maybe_float (dget s ''net_ev'') of Some x \<Rightarrow> Some x | None \<Rightarrow> maybe_float (dget s ''ev''))"

definition risk_budget_of :: "pydict \<Rightarrow> pyexn + pynum option" where
  "risk_budget_of s = rbind (sub_dict s ''sizing_metadata'') (\<lambda>d. Inr (maybe_float (dget d ''risk_budget_dollars'')))"

definition ev_and_budget :: "pynum \<Rightarrow> bool \<Rightarrow> pydict list \<Rightarrow> pynum \<Rightarrow> pydict \<Rightarrow> crossing \<Rightarrow> pyexn + crossing" where
  "ev_and_budget k buy legs qty s priced =
     (let cost = the (cx_cost priced); price = the (cx_price priced) in
      case suggestion_ev s of
        None \<Rightarrow> Inr (priced\<lparr>cx_reason := ''ev_unavailable''\<rparr>)
      | Some ev \<Rightarrow>
          (let seen = priced\<lparr>cx_ev := Some ev\<rparr> in
           if \<not> fle (fmul k cost) ev then Inr (seen\<lparr>cx_reason := ''ev_gate_failed''\<rparr>)
           else rbind (risk_budget_of s) (\<lambda>budget.
             Inr (case max_loss_at buy legs price qty of
                    None \<Rightarrow> seen\<lparr>cx_reason := ''credit_width_unavailable''\<rparr>
                  | Some loss \<Rightarrow>
                      (case budget of
                         None \<Rightarrow> seen\<lparr>cx_max_loss := Some loss, cx_reason := ''risk_budget_unavailable''\<rparr>
                       | Some b \<Rightarrow>
                           if fle loss b then seen\<lparr>cx_max_loss := Some loss, cx_upgrade := True, cx_reason := ''marketable_applied''\<rparr>
                           else seen\<lparr>cx_max_loss := Some loss, cx_reason := ''budget_ceiling_at_marketable''\<rparr>)))))"

definition compute_marketable_decision ::
  "pynum \<Rightarrow> pydict \<Rightarrow> pydict \<Rightarrow> (pyval \<Rightarrow> pydict option) \<Rightarrow> pyexn + crossing" where
  "compute_marketable_decision k order s quotes =
     rbind (sub_dict order ''order_json'') (\<lambda>oj.
     rbind (leg_items (py_or (dget oj ''legs'') (PList []))) (\<lambda>legs.
       let qty = (case maybe_float (dget order ''requested_qty'') of Some x \<Rightarrow> x | None \<Rightarrow> Fin 0);
           buy = (lower_text (py_or (dget order ''side'') (PStr ''buy'')) = ''buy'')
       in case positive_price (maybe_float (dget order ''requested_price'')) of
            None \<Rightarrow> Inr (not_crossing ''order_shape_unusable'')
          | Some mid \<Rightarrow>
              if legs = [] \<or> fle qty (Fin 0) then Inr (not_crossing ''order_shape_unusable'')
              else (case natural_net (\<lambda>key. leg_nbbo (quotes key)) legs (Fin 0) of
                      None \<Rightarrow> Inr (not_crossing ''no_quote_no_aggression'')
                    | Some net \<Rightarrow>
                        (case natural_of buy mid net of
                           (natural, cross, price) \<Rightarrow>
                             (let base = (not_crossing [])\<lparr>cx_natural := Some (round4 natural)\<rparr> in
                              if fle natural (Fin 0) \<and> buy then Inr (base\<lparr>cx_reason := ''natural_unusable''\<rparr>)
                              else if fle cross (Fin 0) then Inr (base\<lparr>cx_reason := ''already_marketable''\<rparr>)
                              else ev_and_budget k buy legs qty s
                                     (base\<lparr>cx_cross := Some cross, cx_cost := Some (fmul (fmul cross qty) (Fin 100)), cx_price := Some price\<rparr>))))))"

definition crossing_json :: "bool \<Rightarrow> bool \<Rightarrow> crossing \<Rightarrow> pydict" where
  "crossing_json on applied c =
     [(''upgrade'', PBool (cx_upgrade c)), (''reason'', PStr (cx_reason c)), (''natural'', opt_float (cx_natural c)),
      (''marketable_price'', opt_float (cx_price c)), (''cross_per_share'', opt_float (map_option round4 (cx_cross c))),
      (''cross_cost_total'', opt_float (map_option round2 (cx_cost c))), (''flag_on'', PBool on),
      (''mode'', PStr (if applied then ''applied'' else ''would_be''))]"

text \<open>
  The hook before a submission: the row that is submitted, and what is written to the table. The
  quotes of the legs are the answers of the quote service; the reads and the write may fail.
\<close>

definition crossing_in_scope :: "pydict \<Rightarrow> bool" where
  "crossing_in_scope order \<longleftrightarrow>
     truthy (dget order ''suggestion_id'') \<and> \<not> truthy (dget order ''position_id'')
     \<and> py_or (dget order ''execution_mode'') (PStr []) = PStr ''alpaca_live''
     \<and> py_or (dget order ''order_type'') (PStr ''limit'') = PStr ''limit''
     \<and> (case maybe_float (dget order ''requested_price'') of Some x \<Rightarrow> num_truthy x | None \<Rightarrow> False)"

definition crossing_columns :: "pydict \<Rightarrow> bool \<Rightarrow> crossing \<Rightarrow> pyexn + (string \<times> pyval) list" where
  "crossing_columns order on c =
     rbind (sub_dict order ''tcm'') (\<lambda>tcm.
       let applied = (on \<and> cx_upgrade c)
       in Inr ((''tcm'', PDict (dset tcm ''marketable_entry'' (PDict (crossing_json on applied c))))
            # (if applied then [(''requested_price'', opt_float (cx_price c))] else [])))"

definition maybe_apply_marketable_entry ::
  "environ \<Rightarrow> pydict option \<Rightarrow> (pyval \<Rightarrow> pydict option) \<Rightarrow> bool \<Rightarrow> pydict \<Rightarrow> desk \<Rightarrow> pydict \<times> desk" where
  "maybe_apply_marketable_entry env suggestion quotes write_ok order dk =
     (if \<not> crossing_in_scope order then (order, dk)
      else case compute_marketable_decision (ev_cross_k env) order (case suggestion of None \<Rightarrow> [] | Some s \<Rightarrow> s) quotes of
          Inl _ \<Rightarrow> (order, dk)
        | Inr c \<Rightarrow>
            (let on = opt_in (env ''MARKETABLE_ENTRY_ENABLED'') in
             case crossing_columns order on c of
               Inl _ \<Rightarrow> (order, dk)
             | Inr kvs \<Rightarrow>
                 if write_ok then (dset_all kvs order, update_order (dget order ''id'') kvs dk)
                 else if on \<and> cx_upgrade c then (order, dk)
                 else (dset_all kvs order, dk)))"

subsection \<open>What is guaranteed\<close>

text \<open>A stamped leg has all four greeks as finite numbers of the snapshot, or none.\<close>

lemma all_greeks_finite:
  assumes "all_greeks raw ns = Some vs"
  shows "map fst vs = ns \<and> (\<forall>n v. (n, v) \<in> set vs \<longrightarrow> (\<exists>q. v = PFloat (Fin q) \<and> py_float (dget raw n) = Inr (Fin q)))"
  using assms
proof (induction ns arbitrary: vs)
  case (Cons n ns)
  then obtain x r where x: "finite_float_or_none (dget raw n) = Some x" and r: "all_greeks raw ns = Some r" "vs = (n, PFloat x) # r"
    by (auto split: option.splits)
  moreover have "\<exists>q. x = Fin q \<and> py_float (dget raw n) = Inr (Fin q)"
    using x by (auto simp: finite_float_or_none_def is_finite_iff split: pyval.splits sum.splits if_splits)
  ultimately show ?case using Cons.IH [OF r(1)] by auto
qed simp

text \<open>The proposal charges nothing only at the broker; elsewhere it is the stored estimate.\<close>

lemma proposal_commission:
  "cpr_commission (build_proposal tcm v) = Inr c \<Longrightarrow>
     (v = BrokerVenue \<and> c = Fin 0) \<or> (v \<noteq> BrokerVenue \<and> finite_usd (dget tcm ''fees_usd'') = Some c)"
  by (auto simp: build_proposal_def Let_def proposed_commission_def component_of_def split: if_splits option.splits)

lemma broker_venue_iff:
  "classify_routing mode routing = BrokerVenue \<longleftrightarrow>
     token_text mode \<in> {''alpaca_paper'', ''alpaca_live''} \<and> token_text routing = ''live_eligible''"
  by (simp add: classify_routing_def)

end
