(* ===== verification/Entry_Staging.thy ===== *)
theory Entry_Staging
  imports Entry_Pricing Paper_Processing
begin

section \<open>Staging an order\<close>

text \<open>
  Model of \<open>_stage_order_internal\<close> in \<open>paper_endpoints.py\<close>: the portfolio, the gates, the row of the
  order with its estimate, its insertion, and what becomes of it in the mode of execution: it stays
  staged, is filled by the simulation (shadow books), or is submitted to the broker. Then the
  endpoints that stage: a batch of suggestions, and the manual close of a position.

  The record \<open>stage_run\<close> has what the outside world answers to one staging: the reads, the quotes,
  the account, the new identifiers, the writes. An insertion that raises or answers without a row
  has inserted nothing. A missing client of the broker is a broker that answers every call with an
  error. A new portfolio has the columns of its insertion and the table's default routing. Telemetry
  is left out.
\<close>

subsection \<open>State\<close>

datatype insert_answer = Inserted | NoRow | InsertError string

record stage_run =
  sr_environ :: environ
  sr_user :: string
  sr_desk :: desk_env
  sr_context_ok :: bool
  sr_trace :: string
  sr_quotes :: quote_source
  sr_accounts :: account_source
  sr_stamp_ok :: bool
  sr_snapshots :: "string \<Rightarrow> pyexn + pydict"
  sr_portfolio_ok :: bool
  sr_new_portfolio :: string
  sr_new_order :: string
  sr_first_insert :: insert_answer
  sr_second_insert :: insert_answer
  sr_client_id_ok :: bool
  sr_routing_ok :: bool
  sr_block_ok :: bool
  sr_process :: process_env
  sr_crossing_read_ok :: bool
  sr_crossing_quotes :: "pyval \<Rightarrow> pydict option"
  sr_crossing_ok :: bool
  sr_client_ok :: bool
  sr_submit :: submit_db

record 'b stage_state =
  ss_book :: paper_book
  ss_suggestions :: suggestion_rows
  ss_accounts :: account_cache
  ss_broker :: 'b

record stage_call =
  sc_ticket :: trade_ticket
  sc_portfolio :: pyval
  sc_position :: pyval
  sc_suggestion :: pyval
  sc_trace :: pyval
  sc_submit :: bool

abbreviation is_entry :: "stage_call \<Rightarrow> bool" where
  "is_entry c \<equiv> sc_position c = PNone"

subsection \<open>The portfolio\<close>

definition created_before :: "pydict \<Rightarrow> pydict \<Rightarrow> bool" where
  "created_before r s =
     (case (dget r ''created_at'', dget s ''created_at'') of (PStr a, PStr b) \<Rightarrow> text_before a b | (PStr _, PNone) \<Rightarrow> True | _ \<Rightarrow> False)"

definition new_portfolio :: "stage_run \<Rightarrow> pydict" where
  "new_portfolio run =
     [(''id'', PStr (sr_new_portfolio run)), (''user_id'', PStr (sr_user run)), (''name'', PStr ''Main Paper''),
      (''cash_balance'', PFloat (Fin 100000)), (''net_liq'', PFloat (Fin 100000)), (''routing_mode'', PStr ''live_eligible''),
      (''created_at'', PStr (de_now_text (sr_desk run)))]"

definition belongs_to :: "string \<Rightarrow> pydict \<Rightarrow> bool" where
  "belongs_to user r \<longleftrightarrow> dget r ''user_id'' = PStr user"

definition get_or_create_portfolio :: "stage_run \<Rightarrow> pyval \<Rightarrow> paper_book \<Rightarrow> (pyexn + pydict) \<times> paper_book" where
  "get_or_create_portfolio run pfid bk =
     (if truthy pfid
      then (case find (\<lambda>r. row_id r = pfid \<and> belongs_to (sr_user run) r) (pb_portfolios bk) of
              Some r \<Rightarrow> (Inr r, bk) | None \<Rightarrow> (Inl RuntimeError, bk))
      else (case sort_by created_before (filter (belongs_to (sr_user run)) (pb_portfolios bk)) of
              r # _ \<Rightarrow> (Inr r, bk)
            | [] \<Rightarrow>
                if sr_portfolio_ok run
                then (Inr (new_portfolio run), bk\<lparr>pb_portfolios := pb_portfolios bk @ [new_portfolio run]\<rparr>)
                else (Inl RuntimeError, bk)))"

subsection \<open>The context and the gates\<close>

definition staged_suggestion :: "stage_call \<Rightarrow> pyval" where
  "staged_suggestion c =
     (if truthy (sc_suggestion c) then sc_suggestion c
      else case tt_ref (sc_ticket c) of Some r \<Rightarrow> if r = [] then sc_suggestion c else PStr r | None \<Rightarrow> sc_suggestion c)"

definition suggestion_row :: "stage_run \<Rightarrow> pyval \<Rightarrow> suggestion_rows \<Rightarrow> pydict option" where
  "suggestion_row run sid rows =
     (if truthy sid \<and> sr_context_ok run then find (\<lambda>r. row_id r = sid) rows else None)"

definition scan_spot_of :: "pydict option \<Rightarrow> pyval" where
  "scan_spot_of s =
     (case s of None \<Rightarrow> PNone
      | Some d \<Rightarrow> (case sub_dict d ''order_json'' of Inr oj \<Rightarrow> dget oj ''scan_underlying_spot'' | Inl _ \<Rightarrow> PNone))"

definition trace_of :: "stage_run \<Rightarrow> stage_call \<Rightarrow> pydict option \<Rightarrow> pyval" where
  "trace_of run c s =
     py_or (sc_trace c) (py_or (case s of None \<Rightarrow> PNone | Some d \<Rightarrow> dget d ''trace_id'') (PStr (sr_trace run)))"

definition stage_quote :: "stage_run \<Rightarrow> trade_ticket \<Rightarrow> pyexn + pydict option" where
  "stage_quote run t =
     rbind (resolve_quote_symbol (trade_ticket_json t)) (\<lambda>symbol.
       Inr (case symbol of
              PStr s \<Rightarrow> (let q = fetch_quote_with_retry (qs_poly (sr_quotes run) 0 s) in if valid_quote q then q else None)
            | _ \<Rightarrow> None))"

text \<open>All gates: the quote for the estimate, and whether the structure is opened for a credit.\<close>

definition entry_gates ::
  "stage_run \<Rightarrow> stage_call \<Rightarrow> pydict \<Rightarrow> 'b stage_state \<Rightarrow> (stage_failure + pydict option \<times> bool) \<times> 'b stage_state" where
  "entry_gates run c portfolio st =
     (let env = sr_environ run; t = sc_ticket c; sid = staged_suggestion c; routing = dget portfolio ''routing_mode'' in
      case rbind (stage_lift (validate_order_legs t)) (\<lambda>_.
           rbind (stage_lift (stage_quote run t)) (\<lambda>quote.
           rbind (validate_entry_quotes env (sr_quotes run) (is_entry c) t) (\<lambda>quotes. Inr (quote, quotes)))) of
        Inl e \<Rightarrow> (Inl e, st)
      | Inr (quote, quotes) \<Rightarrow>
          (case apply_roundtrip_gate env (sr_stamp_ok run) (is_entry c) (is_shadow_routing routing) t quotes sid (ss_suggestions st) of
             (Inl e, rows) \<Rightarrow> (Inl e, st\<lparr>ss_suggestions := rows\<rparr>)
           | (Inr _, rows) \<Rightarrow>
               (case apply_options_level_preflight env (sr_stamp_ok run) (is_entry c) (sc_submit c) routing t (sr_accounts run) sid
                       (ss_accounts st) rows of
                  (Inl e, cache, rows') \<Rightarrow> (Inl e, st\<lparr>ss_accounts := cache, ss_suggestions := rows'\<rparr>)
                | (Inr _, cache, rows') \<Rightarrow>
                    (Inr (quote, entry_is_net_credit (is_entry c) t quotes), st\<lparr>ss_accounts := cache, ss_suggestions := rows'\<rparr>))))"

subsection \<open>The row of the order\<close>

definition mid_of_quote :: "pydict \<Rightarrow> pyexn + pynum option" where
  "mid_of_quote q =
     rbind (float_or (dget q ''bid'') 0) (\<lambda>b. rbind (float_or (dget q ''ask'') 0) (\<lambda>a.
       Inr (if flt (Fin 0) b \<and> flt (Fin 0) a then Some (round2 (fmul (fadd b a) (Fin (1/2)))) else None)))"

definition unpriced :: "pynum option \<Rightarrow> bool" where
  "unpriced x = (case x of None \<Rightarrow> True | Some y \<Rightarrow> \<not> num_truthy y \<or> fle y (Fin 0))"

text \<open>The limit in the broker's modes: the ticket's, else the expected fill of the estimate, else the mid.\<close>

definition entry_limit :: "execution_mode \<Rightarrow> pynum option \<Rightarrow> pydict \<Rightarrow> pydict option \<Rightarrow> pyexn + pynum option" where
  "entry_limit m limit tcm quote =
     (if m \<notin> {Alpaca_Paper, Alpaca_Live} \<or> \<not> unpriced limit then Inr limit
      else let expected = dget tcm ''expected_fill_price'' in
        rbind (if truthy expected then rbind (py_float expected) (\<lambda>x. Inr (Some x)) else Inr None) (\<lambda>price.
          case price of
            Some x \<Rightarrow>
              if flt (Fin 0) x then Inr (Some (round2 x))
              else (case quote of None \<Rightarrow> Inr limit
                    | Some q \<Rightarrow> rbind (mid_of_quote q) (\<lambda>m. Inr (case m of None \<Rightarrow> limit | Some y \<Rightarrow> Some y)))
          | None \<Rightarrow>
              (case quote of None \<Rightarrow> Inr limit
               | Some q \<Rightarrow> rbind (mid_of_quote q) (\<lambda>m. Inr (case m of None \<Rightarrow> limit | Some y \<Rightarrow> Some y)))))"

definition stamped_estimate :: "execution_mode \<Rightarrow> pydict \<Rightarrow> pydict \<Rightarrow> pydict" where
  "stamped_estimate m portfolio tcm =
     dset tcm ''tcm_v2_proposal''
       (PDict (proposal_json (build_proposal tcm (classify_routing (PStr (mode_text m)) (dget portfolio ''routing_mode'')))))"

definition stamped_ticket :: "stage_run \<Rightarrow> stage_call \<Rightarrow> trade_ticket \<Rightarrow> bool \<Rightarrow> pyval \<Rightarrow> pydict" where
  "stamped_ticket run c t credit spot =
     (let oj = trade_ticket_json t @ (if credit then [(''is_credit_open'', PBool True)] else []);
          legs = (case dget oj ''legs'' of PList xs \<Rightarrow> populate_stage_leg_greeks (sr_snapshots run) (is_entry c) xs | _ \<Rightarrow> [])
      in populate_stage_entry_spot (is_entry c) spot (dset oj ''legs'' (PList legs)))"

definition entry_row ::
  "stage_run \<Rightarrow> stage_call \<Rightarrow> execution_mode \<Rightarrow> pydict \<Rightarrow> pydict option \<Rightarrow> pydict option \<Rightarrow> pydict \<Rightarrow> trade_ticket \<Rightarrow> bool \<Rightarrow> pydict" where
  "entry_row run c m portfolio suggestion quote tcm t credit =
     [(''id'', PStr (sr_new_order run)), (''user_id'', PStr (sr_user run)), (''portfolio_id'', row_id portfolio),
      (''status'', PStr ''staged''), (''execution_mode'', PStr (mode_text m)), (''staged_at'', PStr (de_now_text (sr_desk run))),
      (''trace_id'', trace_of run c suggestion), (''suggestion_id'', staged_suggestion c),
      (''order_json'', PDict (stamped_ticket run c t credit (scan_spot_of suggestion))),
      (''requested_qty'', PInt (tt_qty t)),
      (''requested_price'', case tt_limit t of Some x \<Rightarrow> if num_truthy x then PFloat (round2 x) else PNone | None \<Rightarrow> PNone),
      (''side'', PStr (case tt_legs t of [] \<Rightarrow> ''buy'' | l # _ \<Rightarrow> en_action l)), (''order_type'', PStr (tt_order_type t)),
      (''quote_at_stage'', case quote of None \<Rightarrow> PNone | Some q \<Rightarrow> PDict q), (''tcm'', PDict tcm), (''position_id'', sc_position c)]"

text \<open>The error of a stale schema cache, after which the insertion is repeated without the order type.\<close>

definition is_pgrst204_order_type_error :: "string \<Rightarrow> bool" where
  "is_pgrst204_order_type_error err \<longleftrightarrow>
     contains ''pgrst204'' (str_lower err) \<and> contains ''order_type'' (str_lower err)
     \<and> (contains ''schema cache'' (str_lower err) \<or> contains ''could not find'' (str_lower err))"

definition without_order_type :: "pydict \<Rightarrow> pydict" where
  "without_order_type row = filter (\<lambda>kv. fst kv \<noteq> ''order_type'') row"

definition inserted_row :: "stage_run \<Rightarrow> pydict \<Rightarrow> pyexn + pydict" where
  "inserted_row run row =
     (case sr_first_insert run of
        Inserted \<Rightarrow> Inr row
      | NoRow \<Rightarrow> Inl RuntimeError
      | InsertError err \<Rightarrow>
          if is_pgrst204_order_type_error err
          then (if sr_second_insert run = Inserted then Inr (without_order_type row) else Inl RuntimeError)
          else Inl RuntimeError)"

definition add_order :: "pydict \<Rightarrow> paper_book \<Rightarrow> paper_book" where
  "add_order row bk = bk\<lparr>pb_desk := (pb_desk bk)\<lparr>dk_orders := pb_orders bk @ [row]\<rparr>\<rparr>"

text \<open>The client's order identifier: stamped on the row, in the table and in memory, when the write succeeds.\<close>

definition stamp_client_id :: "stage_run \<Rightarrow> pydict \<Rightarrow> paper_book \<Rightarrow> pyexn + pydict \<times> paper_book" where
  "stamp_client_id run row bk =
     rbind (deterministic_client_order_id row) (\<lambda>cid.
       Inr (case cid of
              Some s \<Rightarrow>
                if s \<noteq> [] \<and> sr_client_id_ok run
                then (dset row ''client_order_id'' (PStr s), write_order (row_id row) [(''client_order_id'', PStr s)] bk)
                else (row, bk)
            | None \<Rightarrow> (row, bk)))"

subsection \<open>After the insertion\<close>

definition routing_of :: "pyval \<Rightarrow> paper_book \<Rightarrow> string option" where
  "routing_of pf bk =
     (case find (\<lambda>r. row_id r = pf) (pb_portfolios bk) of
        Some f \<Rightarrow> (case dget f ''routing_mode'' of PStr m \<Rightarrow> Some m | _ \<Rightarrow> None) | None \<Rightarrow> None)"

definition on_desk :: "(desk \<Rightarrow> 'c \<times> 'b \<times> desk) \<Rightarrow> 'b stage_state \<Rightarrow> 'b stage_state" where
  "on_desk f st =
     (case f (pb_desk (ss_book st)) of (_, b, dk) \<Rightarrow> st\<lparr>ss_book := (ss_book st)\<lparr>pb_desk := dk\<rparr>, ss_broker := b\<rparr>)"

definition submit_entry :: "'b broker \<Rightarrow> stage_run \<Rightarrow> pydict \<Rightarrow> 'b stage_state \<Rightarrow> 'b stage_state" where
  "submit_entry br run row st =
     (let s = (if sr_crossing_read_ok run then find (\<lambda>r. row_id r = dget row ''suggestion_id'') (ss_suggestions st) else None) in
      case maybe_apply_marketable_entry (sr_environ run) s (sr_crossing_quotes run) (sr_crossing_ok run) row (pb_desk (ss_book st)) of
        (row', dk) \<Rightarrow>
          (let st' = st\<lparr>ss_book := (ss_book st)\<lparr>pb_desk := dk\<rparr>\<rparr> in
           if sr_client_ok run then on_desk (submit_and_track (sr_desk run) br (sr_submit run) row' (ss_broker st')) st' else st'))"

definition shadow_entry :: "stage_run \<Rightarrow> pyval \<Rightarrow> 'b stage_state \<Rightarrow> (stage_failure + pyval) \<times> 'b stage_state" where
  "shadow_entry run oid st =
     (if \<not> sr_block_ok run then (Inl (StageRaised RuntimeError), st)
      else case process_orders (sr_process run) (sr_user run) oid (write_order oid [(''execution_mode'', PStr ''shadow_blocked'')] (ss_book st)) of
          (Inl e, bk) \<Rightarrow> (Inl (StageRaised e), st\<lparr>ss_book := bk\<rparr>)
        | (Inr _, bk) \<Rightarrow> (Inr oid, st\<lparr>ss_book := bk\<rparr>))"

definition route_entry ::
  "'b broker \<Rightarrow> stage_run \<Rightarrow> bool \<Rightarrow> execution_mode \<Rightarrow> pydict \<Rightarrow> 'b stage_state \<Rightarrow> (stage_failure + pyval) \<times> 'b stage_state" where
  "route_entry br run submit m row st =
     (if m \<notin> {Alpaca_Paper, Alpaca_Live} \<or> dry_run (sr_environ run) \<or> \<not> submit then (Inr (row_id row), st)
      else if \<not> should_submit_to_broker (sr_routing_ok run) (routing_of (dget row ''portfolio_id'') (ss_book st)) (Some row)
      then shadow_entry run (row_id row) st
      else (Inr (row_id row), submit_entry br run row st))"

subsection \<open>The whole staging\<close>

text \<open>The row that would be inserted for a call whose gates are passed.\<close>

definition prepared_row ::
  "stage_run \<Rightarrow> stage_call \<Rightarrow> pydict \<Rightarrow> pydict option \<Rightarrow> pydict option \<Rightarrow> bool \<Rightarrow> pyexn + pydict" where
  "prepared_row run c portfolio suggestion quote credit =
     (let m = get_execution_mode (sr_environ run); t = sc_ticket c in
      rbind (estimate default_costs (priced_ticket_of t) quote) (\<lambda>tcm.
      rbind (entry_limit m (tt_limit t) tcm quote) (\<lambda>limit.
        Inr (entry_row run c m portfolio suggestion quote (stamped_estimate m portfolio tcm) (t\<lparr>tt_limit := limit\<rparr>) credit))))"

definition stage_order ::
  "'b broker \<Rightarrow> stage_run \<Rightarrow> stage_call \<Rightarrow> 'b stage_state \<Rightarrow> (stage_failure + pyval) \<times> 'b stage_state" where
  "stage_order br run c st =
     (case get_or_create_portfolio run (sc_portfolio c) (ss_book st) of
        (Inl e, bk) \<Rightarrow> (Inl (StageRaised e), st\<lparr>ss_book := bk\<rparr>)
      | (Inr portfolio, bk) \<Rightarrow>
          (case entry_gates run c portfolio (st\<lparr>ss_book := bk\<rparr>) of
             (Inl e, st1) \<Rightarrow> (Inl e, st1)
           | (Inr (quote, credit), st1) \<Rightarrow>
               (case rbind (prepared_row run c portfolio (suggestion_row run (staged_suggestion c) (ss_suggestions st)) quote credit)
                       (inserted_row run) of
                  Inl e \<Rightarrow> (Inl (StageRaised e), st1)
                | Inr row \<Rightarrow>
                    (case stamp_client_id run row (add_order row (ss_book st1)) of
                       Inl e \<Rightarrow> (Inl (StageRaised e), st1\<lparr>ss_book := add_order row (ss_book st1)\<rparr>)
                     | Inr (row', bk') \<Rightarrow>
                         route_entry br run (sc_submit c) (get_execution_mode (sr_environ run)) row' (st1\<lparr>ss_book := bk'\<rparr>)))))"

text \<open>A suggestion is staged by the loops over the cohorts and by the batch endpoint.\<close>

definition suggestion_call :: "pyval \<Rightarrow> pyval \<Rightarrow> trade_ticket \<Rightarrow> stage_call" where
  "suggestion_call portfolio sid t =
     \<lparr>sc_ticket = t, sc_portfolio = portfolio, sc_position = PNone, sc_suggestion = sid, sc_trace = PNone, sc_submit = True\<rparr>"

definition stage_suggestion ::
  "'b broker \<Rightarrow> (string \<Rightarrow> string option) \<Rightarrow> stage_run \<Rightarrow> pydict \<Rightarrow> pyval \<Rightarrow> 'b stage_state \<Rightarrow> (stage_failure + pyval) \<times> 'b stage_state" where
  "stage_suggestion br uuid run s portfolio st =
     (case suggestion_to_ticket uuid s of
        Inl e \<Rightarrow> (Inl (StageRaised e), st)
      | Inr t \<Rightarrow> stage_order br run (suggestion_call portfolio (row_id s) t) st)"


subsection \<open>A batch of suggestions\<close>

text \<open>
  The suggestions are read once, before the first staging. A staged order whose suggestion cannot be
  marked is reported as failed. The run of each staging, and whether its mark is written, are given
  by the position in the request.
\<close>

datatype batch_entry = BatchStaged pyval pyval | BatchFailed pyval

definition requested_rows :: "string \<Rightarrow> pyval list \<Rightarrow> suggestion_rows \<Rightarrow> suggestion_rows" where
  "requested_rows user ids rows = filter (\<lambda>r. row_id r \<in> set ids \<and> dget r ''user_id'' = PStr user) rows"

definition mark_staged :: "pyval \<Rightarrow> 'b stage_state \<Rightarrow> 'b stage_state" where
  "mark_staged sid st =
     st\<lparr>ss_suggestions := update_rows (\<lambda>r. row_id r = sid) (\<lambda>r. dset r ''status'' (PStr ''staged'')) (ss_suggestions st)\<rparr>"

definition order_for :: "pyval \<Rightarrow> 'b stage_state \<Rightarrow> pydict option" where
  "order_for sid st = find (\<lambda>r. dget r ''suggestion_id'' = sid) (pb_orders (ss_book st))"

definition stage_one ::
  "'b broker \<Rightarrow> (string \<Rightarrow> string option) \<Rightarrow> stage_run \<Rightarrow> bool \<Rightarrow> pydict option \<Rightarrow> pyval \<Rightarrow> 'b stage_state \<Rightarrow> batch_entry \<times> 'b stage_state" where
  "stage_one br uuid run mark_ok fetched sid st =
     (case fetched of
        None \<Rightarrow> (BatchFailed sid, st)
      | Some s \<Rightarrow>
          if dget s ''status'' = PStr ''staged''
          then (case order_for sid st of Some r \<Rightarrow> (BatchStaged sid (row_id r), st) | None \<Rightarrow> (BatchFailed sid, st))
          else if dget s ''status'' \<noteq> PStr ''pending'' then (BatchFailed sid, st)
          else (case stage_suggestion br uuid run s PNone st of
                  (Inl e, st') \<Rightarrow> (BatchFailed sid, st')
                | (Inr oid, st') \<Rightarrow> if mark_ok then (BatchStaged sid oid, mark_staged sid st') else (BatchFailed sid, st')))"

fun stage_each ::
  "'b broker \<Rightarrow> (string \<Rightarrow> string option) \<Rightarrow> (nat \<Rightarrow> stage_run) \<Rightarrow> (nat \<Rightarrow> bool) \<Rightarrow> suggestion_rows \<Rightarrow> nat \<Rightarrow> pyval list \<Rightarrow> 'b stage_state \<Rightarrow>
     batch_entry list \<times> 'b stage_state" where
  "stage_each br uuid runs mark_ok fetched k [] st = ([], st)"
| "stage_each br uuid runs mark_ok fetched k (sid # ids) st =
     (case stage_one br uuid (runs k) (mark_ok k) (find (\<lambda>r. row_id r = sid) (rev fetched)) sid st of
        (out, st1) \<Rightarrow>
          (case stage_each br uuid runs mark_ok fetched (Suc k) ids st1 of (outs, st2) \<Rightarrow> (out # outs, st2)))"

definition stage_batch ::
  "'b broker \<Rightarrow> (string \<Rightarrow> string option) \<Rightarrow> string \<Rightarrow> (nat \<Rightarrow> stage_run) \<Rightarrow> (nat \<Rightarrow> bool) \<Rightarrow> pyval list \<Rightarrow> 'b stage_state \<Rightarrow>
     batch_entry list \<times> 'b stage_state" where
  "stage_batch br uuid user runs mark_ok ids st =
     stage_each br uuid runs mark_ok (requested_rows user ids (ss_suggestions st)) 0 ids st"

subsection \<open>The manual close\<close>

text \<open>The last part of the strategy key.\<close>

fun last_part :: "string \<Rightarrow> string \<Rightarrow> string" where
  "last_part acc [] = acc"
| "last_part acc (c # cs) = (if c = CHR ''_'' then last_part [] cs else last_part (acc @ [c]) cs)"

definition model_count :: "pynum \<Rightarrow> pyexn + int" where
  "model_count x = (case x of Fin q \<Rightarrow> if q = of_int \<lfloor>q\<rfloor> then Inr \<lfloor>q\<rfloor> else Inl ValueError | _ \<Rightarrow> Inl ValueError)"

definition manual_close_ticket :: "pydict \<Rightarrow> pyexn + trade_ticket" where
  "manual_close_ticket p =
     rbind (py_float (dget p ''quantity'')) (\<lambda>qty.
     rbind (case dget_default p ''strategy_key'' (PStr []) of PStr s \<Rightarrow> Inr (last_part [] s) | _ \<Rightarrow> Inl AttributeError) (\<lambda>strategy.
     rbind (required_text (dget p ''symbol'')) (\<lambda>symbol.
     rbind (model_count (fabs qty)) (\<lambda>n.
       Inr \<lparr>tt_source = Some ''manual_close'',
            tt_ref = (case dget p ''suggestion_id'' of PStr s \<Rightarrow> if s = [] then None else Some s | _ \<Rightarrow> None),
            tt_strategy = Some strategy, tt_symbol = symbol,
            tt_legs = [\<lparr>en_symbol = symbol, en_action = (if flt (Fin 0) qty then ''sell'' else ''buy''), en_type = ''call'',
                        en_strike = None, en_expiry = None, en_qty = n\<rparr>],
            tt_order_type = ''market'', tt_limit = None, tt_qty = n, tt_conviction = None, tt_ev = None\<rparr>))))"

definition staged_then_processed ::
  "'b broker \<Rightarrow> stage_run \<Rightarrow> stage_call \<Rightarrow> 'b stage_state \<Rightarrow> (stage_failure + pyval) \<times> 'b stage_state" where
  "staged_then_processed br run c st =
     (case stage_order br run c st of
        (Inl e, st1) \<Rightarrow> (Inl e, st1)
      | (Inr oid, st1) \<Rightarrow>
          (case process_orders (sr_process run) (sr_user run) oid (ss_book st1) of
             (Inl e, bk) \<Rightarrow> (Inl (StageRaised e), st1\<lparr>ss_book := bk\<rparr>)
           | (Inr _, bk) \<Rightarrow> (Inr oid, st1\<lparr>ss_book := bk\<rparr>)))"

definition close_paper_position ::
  "'b broker \<Rightarrow> stage_run \<Rightarrow> pyval \<Rightarrow> 'b stage_state \<Rightarrow> (stage_failure + pyval) \<times> 'b stage_state" where
  "close_paper_position br run pid st =
     (case find (\<lambda>r. row_id r = pid) (pb_positions (ss_book st)) of
        None \<Rightarrow> (Inl (StageRaised RuntimeError), st)
      | Some p \<Rightarrow>
          (case find (\<lambda>r. row_id r = dget p ''portfolio_id'') (pb_portfolios (ss_book st)) of
             None \<Rightarrow> (Inl (StageRaised RuntimeError), st)
           | Some f \<Rightarrow>
               if \<not> belongs_to (sr_user run) f then (Inl (StageRaised RuntimeError), st)
               else (case manual_close_ticket p of
                       Inl e \<Rightarrow> (Inl (StageRaised e), st)
                     | Inr t \<Rightarrow>
                         staged_then_processed br run
                           \<lparr>sc_ticket = t, sc_portfolio = dget p ''portfolio_id'', sc_position = pid, sc_suggestion = PNone,
                            sc_trace = dget p ''trace_id'', sc_submit = True\<rparr> st)))"

text \<open>The immediate mode: staged, then processed.\<close>

definition execute_paper_trade ::
  "'b broker \<Rightarrow> stage_run \<Rightarrow> trade_ticket \<Rightarrow> pyval \<Rightarrow> 'b stage_state \<Rightarrow> (stage_failure + pyval) \<times> 'b stage_state" where
  "execute_paper_trade br run t portfolio st =
     staged_then_processed br run
       \<lparr>sc_ticket = t, sc_portfolio = portfolio, sc_position = PNone, sc_suggestion = PNone, sc_trace = PNone, sc_submit = True\<rparr> st"

end
