(* ===== verification/Order_Columns.thy ===== *)
theory Order_Columns
  imports Entry_Staging Paper_Correct Broker_Correct
begin

section \<open>Columns of orders that nothing rewrites\<close>

text \<open>
  The identity of an order, its ticket and its suggestion are written when it is inserted. No fill, no
  repair and no submission writes these columns again, and none of them adds or removes an order:
  the column of the whole table stays as it is.
\<close>

definition order_column :: "string \<Rightarrow> pydict list \<Rightarrow> pyval list" where
  "order_column k rows = map (\<lambda>r. dget r k) rows"

definition lasting_columns :: "string set" where
  "lasting_columns = {''id'', ''suggestion_id'', ''order_json'', ''portfolio_id'', ''user_id''}"

lemma order_column_simps [simp]:
  "order_column k [] = []" "order_column k (r # rows) = dget r k # order_column k rows"
  "order_column k (rows @ rows') = order_column k rows @ order_column k rows'" "length (order_column k rows) = length rows"
  by (simp_all add: order_column_def)

lemma column_update_rows:
  assumes "k \<notin> fst ` set kvs" shows "order_column k (update_rows P (dset_all kvs) rows) = order_column k rows"
  unfolding order_column_def using assms by (intro map_key_update_rows) (simp add: dget_dset_all_other)

lemma column_write_order:
  assumes "k \<notin> fst ` set kvs" shows "order_column k (pb_orders (write_order oid kvs bk)) = order_column k (pb_orders bk)"
  using assms by (simp add: column_update_rows)

lemma column_update_order:
  assumes "k \<notin> fst ` set kvs" shows "order_column k (dk_orders (update_order oid kvs dk)) = order_column k (dk_orders dk)"
  using assms by (simp add: update_order_def column_update_rows)

lemma add_alert_orders [simp]: "dk_orders (add_alert env a dk) = dk_orders dk"
  by (simp add: add_alert_def)

subsection \<open>Fills\<close>

text \<open>The orders of a book, as far as a lasting column shows them.\<close>

abbreviation column_of :: "string \<Rightarrow> paper_book \<Rightarrow> pyval list" where
  "column_of k bk \<equiv> order_column k (pb_orders bk)"

lemma column_emit_cash [simp]:
  "pb_orders (emit_event env e bk) = pb_orders bk" "pb_orders (write_cash pf cash bk) = pb_orders bk"
  by simp_all

lemma write_close_orders: "write_close env p pl reason source bk = (res, bk') \<Longrightarrow> pb_orders bk' = pb_orders bk"
  by (auto simp: write_close_def Let_def split: pyval.splits prod.splits sum.splits writer_error.splits)

lemma close_by_fill_orders: "close_by_fill env ticket d p cur explicit bk = (res, bk') \<Longrightarrow> pb_orders bk' = pb_orders bk"
  by (auto simp: close_by_fill_def dest: write_close_orders split: if_splits sum.splits close_error.splits)

lemma close_by_fill_column: "close_by_fill env ticket d p cur explicit bk = (res, bk') \<Longrightarrow> column_of k bk' = column_of k bk"
  by (simp add: close_by_fill_orders)

lemma close_by_repair_orders: "close_by_repair env order symbol filled price p cur bk = (res, bk') \<Longrightarrow> pb_orders bk' = pb_orders bk"
  by (auto simp: close_by_repair_def dest: write_close_orders split: if_splits sum.splits close_error.splits)

lemma link_order_column:
  "k \<in> lasting_columns \<Longrightarrow> link_order env order pid bk = (res, bk') \<Longrightarrow> column_of k bk' = column_of k bk"
  by (auto simp: link_order_def lasting_columns_def column_update_rows split: if_splits)

lemma open_by_fill_column:
  "k \<in> lasting_columns \<Longrightarrow> open_by_fill env user order ticket pf key signed price bk = (res, bk') \<Longrightarrow> column_of k bk' = column_of k bk"
  by (auto simp: open_by_fill_def dest!: link_order_column split: if_splits sum.splits)

lemma fill_position_column:
  "k \<in> lasting_columns \<Longrightarrow> fill_position env user order ticket d pf bk = (res, bk') \<Longrightarrow> column_of k bk' = column_of k bk"
  by (auto simp: fill_position_def Let_def dest: close_by_fill_column open_by_fill_column split: if_splits sum.splits option.splits)

lemma settle_fill_column:
  "k \<in> lasting_columns \<Longrightarrow> settle_fill env order d res bk = (fin, bk') \<Longrightarrow> column_of k bk' = column_of k bk"
  by (auto simp: settle_fill_def lasting_columns_def column_update_rows split: if_splits sum.splits position_step.splits)

lemma fill_columns_lasting: "k \<in> lasting_columns \<Longrightarrow> k \<notin> fst ` set (fill_columns env order f d quote)"
  using fill_columns_keys [of env order f d quote] by (auto simp: lasting_columns_def)

lemma commit_fill_column:
  assumes k: "k \<in> lasting_columns" and run: "commit_fill env user order f quote pf bk = (res, pf', bk')"
  shows "column_of k bk' = column_of k bk"
proof (cases res)
  case (Inr fin)
  with run have "commit_fill env user order f quote pf bk = (Inr fin, pf', bk')" by simp
  then show ?thesis
    by (rule commit_fill_paid)
      (drule fill_position_column [OF k], drule settle_fill_column [OF k],
        simp add: column_update_rows fill_columns_lasting [OF k] del: write_cash_fields)
next
  case (Inl e)
  then show ?thesis
    using run fill_columns_lasting [OF k]
    by (auto simp: commit_fill_def Let_def column_update_rows split: sum.splits if_splits prod.splits pyval.splits)
qed

lemma start_working_column:
  "k \<in> lasting_columns \<Longrightarrow> start_working env order fin bk = (out, bk') \<Longrightarrow> column_of k bk' = column_of k bk"
  by (auto simp: start_working_def lasting_columns_def column_update_rows split: if_splits)

lemma process_fill_column:
  "k \<in> lasting_columns \<Longrightarrow> process_fill env user order quote f pf bk = (out, pf', bk') \<Longrightarrow> column_of k bk' = column_of k bk"
  by (auto simp: process_fill_def dest: start_working_column commit_fill_column split: if_splits prod.splits sum.splits)

lemma process_one_column:
  "k \<in> lasting_columns \<Longrightarrow> process_one env user order pf bk = (out, pf', bk') \<Longrightarrow> column_of k bk' = column_of k bk"
  by (auto simp: process_one_def dest: process_fill_column split: pyval.splits sum.splits prod.splits)

lemma process_all_column:
  assumes k: "k \<in> lasting_columns"
  shows "process_all env user orders pfs bk = (outs, bk') \<Longrightarrow> column_of k bk' = column_of k bk"
proof (induction orders arbitrary: pfs bk outs bk')
  case (Cons order rest)
  show ?case
  proof (cases "portfolio_of pfs order")
    case None
    with Cons.prems obtain outs' where "process_all env user rest pfs bk = (outs', bk')" by (auto split: prod.splits)
    then show ?thesis by (rule Cons.IH)
  next
    case (Some pf)
    obtain fin pf' bk1 where one: "process_one env user order pf bk = (fin, pf', bk1)" by (cases "process_one env user order pf bk")
    with Cons.prems Some obtain outs' where "process_all env user rest (put_portfolio pf' pfs) bk1 = (outs', bk')"
      by (auto split: prod.splits)
    then have "column_of k bk' = column_of k bk1" by (rule Cons.IH)
    then show ?thesis using process_one_column [OF k one] by simp
  qed
qed simp

lemma sweep_stale_column:
  assumes k: "k \<in> lasting_columns"
  shows "sweep_stale env orders bk = (res, bk') \<Longrightarrow> column_of k bk' = column_of k bk"
proof (induction orders arbitrary: bk res bk')
  case (Cons order rest)
  have keys: "k \<notin> fst ` set (cancel_columns age)" for age using k by (auto simp: cancel_columns_def lasting_columns_def)
  show ?case
  proof (cases "stale_age env order")
    case (Inl e)
    with Cons.prems show ?thesis by simp
  next
    case (Inr age)
    show ?thesis
    proof (cases age)
      case None
      obtain r bk1 where "sweep_stale env rest bk = (r, bk1)" by fastforce
      with Cons.prems Inr None Cons.IH show ?thesis by (auto split: sum.splits)
    next
      case (Some a)
      obtain r bk1 where sw: "sweep_stale env rest (write_order (row_id order) (cancel_columns a) bk) = (r, bk1)" by fastforce
      have "column_of k bk1 = column_of k bk" using Cons.IH [OF sw] column_write_order [OF keys] by metis
      with Cons.prems Inr Some sw show ?thesis by (auto split: sum.splits if_splits)
    qed
  qed
qed simp

subsection \<open>Repairs\<close>

lemma repair_position_column:
  assumes k: "k \<in> lasting_columns" and run: "repair_position env user order ticket pf filled price bk = (res, bk')"
  shows "column_of k bk' = column_of k bk"
proof (cases "find (open_with_key pf (derive_strategy_key env ticket)) (pb_positions bk)")
  case None
  then show ?thesis
    using run open_by_fill_column [OF k]
    by (fastforce simp: repair_position_def Let_def split: if_splits sum.splits prod.splits)
next
  case (Some p)
  show ?thesis
  proof (cases "position_numbers p")
    case (Inl e)
    with Some run show ?thesis by (auto simp: repair_position_def Let_def split: if_splits)
  next
    case (Inr na)
    obtain cur avg where [simp]: "na = (cur, avg)" by fastforce
    define step where "step = (if num_eq (fadd cur (signed_qty order filled)) (Fin 0)
        then close_by_repair env order (dget ticket ''symbol'') filled price p cur bk
        else if \<not> fe_write_ok env then (Inl RuntimeError, bk)
        else (Inr Applied, write_position (row_id p) (adjusted_columns env (fadd cur (signed_qty order filled))
               (entry_after cur avg (signed_qty order filled) price)) bk))"
    obtain r bk1 where st: "step = (r, bk1)" by fastforce
    have "pb_orders bk1 = pb_orders bk" using st close_by_repair_orders by (auto simp: step_def split: if_splits)
    moreover have "column_of k bk' = column_of k bk1 \<or> bk' = bk"
      using run Some Inr st link_order_column [OF k]
      by (auto simp: repair_position_def Let_def step_def [symmetric] split: if_splits sum.splits prod.splits position_step.splits)
    ultimately show ?thesis by auto
  qed
qed

lemma repair_filled_order_column:
  assumes k: "k \<in> lasting_columns" and run: "repair_filled_order env user order pf bk = (res, bk')"
  shows "column_of k bk' = column_of k bk"
proof -
  have keep: "column_of k b = column_of k bk" if "repair_position env user order ticket pf filled price bk = (r, b)" for ticket filled price r b
    using repair_position_column [OF k that] .
  show ?thesis
    using run unfolding repair_filled_order_def
    by (auto dest: keep split: pyval.splits sum.splits prod.splits if_splits position_step.splits)
qed

lemma repair_all_column:
  assumes k: "k \<in> lasting_columns"
  shows "repair_all env user orders pfs bk = (outs, bk') \<Longrightarrow> column_of k bk' = column_of k bk"
proof (induction orders arbitrary: bk outs bk')
  case (Cons order rest)
  show ?case
  proof (cases "portfolio_of pfs order")
    case None
    with Cons.prems obtain outs' where "repair_all env user rest pfs bk = (outs', bk')" by (auto split: prod.splits)
    then show ?thesis by (rule Cons.IH)
  next
    case (Some pf)
    obtain fin bk1 where one: "repair_filled_order (pr_fill env (row_id order)) user order pf bk = (fin, bk1)" by fastforce
    with Cons.prems Some obtain outs' where "repair_all env user rest pfs bk1 = (outs', bk')" by (auto split: prod.splits)
    then have "column_of k bk' = column_of k bk1" by (rule Cons.IH)
    then show ?thesis using repair_filled_order_column [OF k one] by simp
  qed
qed simp

lemma process_orders_column:
  assumes k: "k \<in> lasting_columns" and run: "process_orders env user target bk = (res, bk')"
  shows "column_of k bk' = column_of k bk"
proof -
  define pfs where "pfs = filter (own_portfolio user) (pb_portfolios bk)"
  define rows where "rows = orders_in pfs bk"
  show ?thesis
  proof (cases "orphan_orders rows")
    case (Inl e)
    then show ?thesis using run by (auto simp: process_orders_def Let_def pfs_def [symmetric] rows_def [symmetric] split: if_splits)
  next
    case (Inr orphans)
    obtain repaired bk1 where r: "repair_all env user orphans pfs bk = (repaired, bk1)" by fastforce
    obtain sw bk2 where s: "sweep_stale env (filter (in_status flight_statuses) rows) bk1 = (sw, bk2)" by fastforce
    have 12: "column_of k bk1 = column_of k bk" "column_of k bk2 = column_of k bk1"
      using repair_all_column [OF k r] sweep_stale_column [OF k s] by simp_all
    show ?thesis
      using run Inr r s 12 process_all_column [OF k]
      by (auto simp: process_orders_def Let_def pfs_def [symmetric] rows_def [symmetric] split: if_splits sum.splits prod.splits)
  qed
qed

subsection \<open>Submissions\<close>

abbreviation desk_column :: "string \<Rightarrow> desk \<Rightarrow> pyval list" where
  "desk_column k dk \<equiv> order_column k (dk_orders dk)"

lemma submitted_fields_lasting: "k \<in> lasting_columns \<Longrightarrow> k \<notin> fst ` set (submitted_fields br now d)"
  by (auto simp: submitted_fields_def lasting_columns_def)

lemma on_submit_error_column:
  assumes k: "k \<in> lasting_columns" and run: "on_submit_error env br sdb order n err b dk = (step, dk')"
  shows "desk_column k dk' = desk_column k dk"
  using run by (auto simp: on_submit_error_def Let_def column_update_order [OF submitted_fields_lasting [OF k]]
      split: if_splits sum.splits option.splits)

lemma submit_attempts_column:
  assumes k: "k \<in> lasting_columns"
  shows "submit_attempts env br sdb order n j made b dk = (res, made', b', dk') \<Longrightarrow> desk_column k dk' = desk_column k dk"
proof (induction n arbitrary: j made b dk res made' b' dk')
  case (Suc n)
  have again: "desk_column k dk' = desk_column k dk"
    if "on_submit_error env br sdb order j err b1 dk = (step, dk1)" and "submit_attempts env br sdb order n (j + 1) m b1 dk1 = (res, made', b', dk')"
    for err b1 step dk1 m
    using Suc.IH [OF that(2)] on_submit_error_column [OF k that(1)] by simp
  have written: "desk_column k (update_order i (submitted_fields br now d) dk) = desk_column k dk" for i now d
    by (rule column_update_order [OF submitted_fields_lasting [OF k]])
  show ?case
  proof (cases "build_alpaca_order_request order")
    case (Inl e)
    obtain step dk1 where s: "on_submit_error env br sdb order j (build_error_text e) b dk = (step, dk1)" by fastforce
    show ?thesis using Suc.prems Inl s again [OF s] on_submit_error_column [OF k s] by (cases step) auto
  next
    case (Inr req)
    obtain answer b1 where a: "br_submit br b req = (answer, b1)" by fastforce
    show ?thesis
    proof (cases answer)
      case (Ack d)
      show ?thesis
      proof (cases "truthy (dget d ''alpaca_order_id'')")
        case False
        then show ?thesis using Suc.prems Inr a Ack Suc.IH by simp
      next
        case True
        obtain step dk1 where s: "on_submit_error env br sdb order j (sd_error sdb) b1 dk = (step, dk1)" by fastforce
        show ?thesis using Suc.prems Inr a Ack True s again [OF s] on_submit_error_column [OF k s] written
          by (cases step) (auto split: if_splits)
      qed
    next
      case (AuthFailure t)
      then show ?thesis using Suc.prems Inr a by simp
    next
      case (SubmitError t)
      obtain step dk1 where s: "on_submit_error env br sdb order j t b1 dk = (step, dk1)" by fastforce
      show ?thesis using Suc.prems Inr a SubmitError s again [OF s] on_submit_error_column [OF k s] by (cases step) auto
    qed
  qed
qed simp

lemma submit_and_track_column:
  assumes k: "k \<in> lasting_columns" and run: "submit_and_track env br sdb order b dk = (res, b', dk')"
  shows "desk_column k dk' = desk_column k dk"
proof (cases "cancel_competing br order b")
  case (Inl e)
  with run show ?thesis by (simp add: submit_and_track_def)
next
  case (Inr b0)
  obtain r made b1 dk1 where a: "submit_attempts env br sdb order max_submit_attempts 1 0 b0 dk = (r, made, b1, dk1)"
    by (cases "submit_attempts env br sdb order max_submit_attempts 1 0 b0 dk")
  have "k \<notin> fst ` set [(''broker_status'', PStr ''needs_manual_review''), (''status'', PStr ''needs_manual_review'')]"
    using k by (auto simp: lasting_columns_def)
  note mark = column_update_order [OF this]
  show ?thesis
    using run Inr a submit_attempts_column [OF k a] mark
    by (auto simp: submit_and_track_def split: sum.splits option.splits if_splits)
qed

lemma crossing_columns_lasting:
  "k \<in> lasting_columns \<Longrightarrow> crossing_columns order on c = Inr kvs \<Longrightarrow> k \<notin> fst ` set kvs"
  by (auto simp: crossing_columns_def rbind_Inr_iff Let_def lasting_columns_def split: if_splits)

lemma marketable_column:
  assumes k: "k \<in> lasting_columns" and run: "maybe_apply_marketable_entry env s quotes ok order dk = (order', dk')"
  shows "desk_column k dk' = desk_column k dk"
  using run by (auto simp: maybe_apply_marketable_entry_def Let_def column_update_order [OF crossing_columns_lasting [OF k]]
      split: if_splits sum.splits)

end
