(* ===== verification/Staging_Samples.thy ===== *)
theory Staging_Samples
  imports Entry_Staging Paper_Correct
begin

section \<open>A sample staging\<close>

text \<open>
  A book, a suggestion for one call and the run of its staging, at which the theorems on stagings are
  applied: all services answer, and every quote is 2.00 bid at 2.10.
\<close>

definition sample_symbol :: string where
  "sample_symbol = ''O:SPY260116C00500000''"

definition sample_quote :: pydict where
  "sample_quote = [(''bid'', PFloat (Fin 2)), (''ask'', PFloat (Fin (21/10))), (''bid_price'', PFloat (Fin 2)), (''ask_price'', PFloat (Fin (21/10)))]"

definition sample_option :: option_leg where
  "sample_option = \<lparr>en_symbol = sample_symbol, en_action = ''buy'', en_type = ''call'', en_strike = Some (Fin 500), en_expiry = Some ''2026-01-16'', en_qty = 1\<rparr>"

definition sample_trade :: trade_ticket where
  "sample_trade = \<lparr>tt_source = Some ''manual'', tt_ref = Some ''s1'', tt_strategy = Some ''long_call'', tt_symbol = ''SPY'', tt_legs = [sample_option],
     tt_order_type = ''limit'', tt_limit = Some (Fin 2), tt_qty = 1, tt_conviction = None, tt_ev = Some (Fin 80)\<rparr>"

definition sample_suggestion :: pydict where
  "sample_suggestion = [(''id'', PStr ''s1''), (''user_id'', PStr ''u1''), (''status'', PStr ''pending''), (''cohort_name'', PStr ''c1''),
     (''ticker'', PStr ''SPY''), (''strategy'', PStr ''long_call''), (''ev'', PFloat (Fin 80)),
     (''order_json'', PDict [(''contracts'', PInt 1), (''limit_price'', PFloat (Fin 2)),
        (''legs'', PList [PDict [(''symbol'', PStr sample_symbol), (''side'', PStr ''buy'')]])])]"

definition sample_stage :: "environ \<Rightarrow> stage_run" where
  "sample_stage env = \<lparr>sr_environ = env, sr_user = ''u1'', sr_desk = sample_desk_env, sr_context_ok = True, sr_trace = ''t1'',
     sr_quotes = \<lparr>qs_poly = (\<lambda>_ _ _. Inr (Some sample_quote)), qs_truth = (\<lambda>_ _. Inl RuntimeError)\<rparr>,
     sr_accounts = \<lparr>as_client = Inr (Some ''paper''), as_now = 0, as_answer = Inr (PDict [(''options_trading_level'', PInt 3)])\<rparr>,
     sr_stamp_ok = True, sr_snapshots = (\<lambda>_. Inl RuntimeError), sr_portfolio_ok = True, sr_new_portfolio = ''f2'', sr_new_order = ''o1'',
     sr_first_insert = Inserted, sr_second_insert = Inserted, sr_client_id_ok = True, sr_routing_ok = True, sr_block_ok = True,
     sr_process = paper_run True, sr_crossing_read_ok = True, sr_crossing_quotes = (\<lambda>_. None), sr_crossing_ok = True, sr_client_ok = True,
     sr_submit = \<lparr>sd_ok = (\<lambda>_. True), sd_error = []\<rparr>\<rparr>"

definition sample_portfolio :: "string \<Rightarrow> pydict" where
  "sample_portfolio routing = [(''id'', PStr ''f1''), (''user_id'', PStr ''u1''), (''routing_mode'', PStr routing), (''cash_balance'', PFloat (Fin 1000))]"

definition sample_stage_state :: "string \<Rightarrow> nat stage_state" where
  "sample_stage_state routing = \<lparr>ss_book = \<lparr>pb_desk = \<lparr>dk_orders = [], dk_positions = [], dk_alerts = []\<rparr>, pb_portfolios = [sample_portfolio routing], pb_ledger = []\<rparr>,
     ss_suggestions = [sample_suggestion], ss_accounts = Map.empty, ss_broker = 0\<rparr>"

definition counting_broker :: "nat broker" where
  "counting_broker = \<lparr>br_submit = (\<lambda>n req. (SubmitError [], Suc n)), br_lookup = (\<lambda>_ _. Inl RuntimeError), br_cancel_for = (\<lambda>n _. n), br_paper = True\<rparr>"

definition internal_env :: environ where
  "internal_env = Map.empty"

definition sample_call :: stage_call where
  "sample_call = suggestion_call PNone (PStr ''s1'') sample_trade"

text \<open>The run stages an order, here without a broker.\<close>

lemma sample_staged:
  "\<exists>st'. stage_order counting_broker (sample_stage internal_env) sample_call (sample_stage_state ''live_eligible'') = (Inr (PStr ''o1''), st')
     \<and> length (pb_orders (ss_book st')) = 1"
proof -
  let ?run = "stage_order counting_broker (sample_stage internal_env) sample_call (sample_stage_state ''live_eligible'')"
  have "case ?run of (res, st') \<Rightarrow> res = Inr (PStr ''o1'') \<and> length (pb_orders (ss_book st')) = 1" by code_simp
  then show ?thesis by (cases ?run) simp
qed

end
