(* ===== verification/Staging_Correct.thy ===== *)
theory Staging_Correct
  imports Order_Columns Staging_Samples
begin

section \<open>What the staging of an order guarantees\<close>

subsection \<open>The two ends of a staging\<close>

text \<open>The orders of a state, as far as a lasting column shows them.\<close>

abbreviation staged_orders :: "'b stage_state \<Rightarrow> pydict list" where
  "staged_orders st \<equiv> pb_orders (ss_book st)"

lemma get_or_create_desk: "get_or_create_portfolio run pf bk = (res, bk') \<Longrightarrow> pb_desk bk' = pb_desk bk \<and> pb_ledger bk' = pb_ledger bk"
  by (auto simp: get_or_create_portfolio_def split: if_splits option.splits list.splits)

lemma roundtrip_gate_cases:
  assumes "apply_roundtrip_gate env ok is_open shadow t quotes sid rows = (res, rows')"
  shows "(\<exists>v. res = Inr v \<and> rows' = rows \<and> (\<exists>w. roundtrip_verdict env is_open shadow t quotes = Inr w \<and> (\<forall>c n. w \<noteq> CostRejects c n)))
    \<or> (\<exists>e. res = Inl e \<and> (rows' = rows \<or> rows' = stamp_reason_on ok sid ''ev_below_roundtrip_cost'' rows))"
  using assms by (auto simp: apply_roundtrip_gate_def split: sum.splits cost_verdict.splits)

lemma preflight_cases:
  assumes "apply_options_level_preflight env ok is_open submit routing t src sid cache rows = (res, cache', rows')"
  shows "(\<exists>v. res = Inr v \<and> rows' = rows
       \<and> (preflight_applies env is_open submit routing \<and> \<not> is_no_trade_verdict (tt_strategy t)
            \<longrightarrow> (\<exists>u. level_check (tt_strategy t) src cache = (Inr u, cache'))))
    \<or> (\<exists>e. res = Inl (LevelRejected e)
          \<and> rows' = (case level_reason e of None \<Rightarrow> rows | Some reason \<Rightarrow> stamp_reason_on ok sid reason rows))"
  using assms by (auto simp: apply_options_level_preflight_def split: if_splits sum.splits prod.splits)

text \<open>Only the cache and the stamp of the suggestion change in the gates.\<close>

lemma entry_gates_frame:
  assumes "entry_gates run c portfolio st = (res, st')"
  shows "ss_book st' = ss_book st \<and> ss_broker st' = ss_broker st
    \<and> (\<exists>reason. ss_suggestions st' = ss_suggestions st
         \<or> ss_suggestions st' = stamp_reason_on (sr_stamp_ok run) (staged_suggestion c) reason (ss_suggestions st))"
  using assms unfolding entry_gates_def Let_def
  by (auto split: sum.splits prod.splits option.splits dest!: roundtrip_gate_cases preflight_cases)

lemma entry_gates_passed:
  assumes "entry_gates run c portfolio st = (Inr (quote, credit), st')"
  obtains quotes v where "validate_order_legs (sc_ticket c) = Inr ()"
    and "stage_quote run (sc_ticket c) = Inr quote"
    and "validate_entry_quotes (sr_environ run) (sr_quotes run) (is_entry c) (sc_ticket c) = Inr quotes"
    and "roundtrip_verdict (sr_environ run) (is_entry c) (is_shadow_routing (dget portfolio ''routing_mode'')) (sc_ticket c) quotes = Inr v"
    and "\<And>x y. v \<noteq> CostRejects x y"
    and "preflight_applies (sr_environ run) (is_entry c) (sc_submit c) (dget portfolio ''routing_mode'') \<Longrightarrow>
         \<not> is_no_trade_verdict (tt_strategy (sc_ticket c)) \<Longrightarrow>
         \<exists>u cache. level_check (tt_strategy (sc_ticket c)) (sr_accounts run) (ss_accounts st) = (Inr u, cache)"
    and "credit = entry_is_net_credit (is_entry c) (sc_ticket c) quotes"
proof -
  let ?first = "rbind (stage_lift (validate_order_legs (sc_ticket c))) (\<lambda>_.
           rbind (stage_lift (stage_quote run (sc_ticket c))) (\<lambda>quote.
           rbind (validate_entry_quotes (sr_environ run) (sr_quotes run) (is_entry c) (sc_ticket c)) (\<lambda>quotes. Inr (quote, quotes))))"
  obtain q quotes where first: "?first = Inr (q, quotes)"
    using assms by (auto simp: entry_gates_def Let_def split: sum.splits)
  obtain r rows where rt: "apply_roundtrip_gate (sr_environ run) (sr_stamp_ok run) (is_entry c) (is_shadow_routing (dget portfolio ''routing_mode''))
      (sc_ticket c) quotes (staged_suggestion c) (ss_suggestions st) = (r, rows)" by fastforce
  obtain u where r: "r = Inr u" using assms first rt by (auto simp: entry_gates_def Let_def split: sum.splits)
  obtain p cache rows' where pre: "apply_options_level_preflight (sr_environ run) (sr_stamp_ok run) (is_entry c) (sc_submit c)
      (dget portfolio ''routing_mode'') (sc_ticket c) (sr_accounts run) (staged_suggestion c) (ss_accounts st) rows = (p, cache, rows')"
    by (cases "apply_options_level_preflight (sr_environ run) (sr_stamp_ok run) (is_entry c) (sc_submit c)
      (dget portfolio ''routing_mode'') (sc_ticket c) (sr_accounts run) (staged_suggestion c) (ss_accounts st) rows")
  obtain w where p: "p = Inr w" using assms first rt r pre by (auto simp: entry_gates_def Let_def split: sum.splits)
  have outcome: "quote = q \<and> credit = entry_is_net_credit (is_entry c) (sc_ticket c) quotes"
    using assms first rt r pre p by (simp add: entry_gates_def Let_def)
  show thesis
    using that [of quotes] first outcome roundtrip_gate_cases [OF rt] preflight_cases [OF pre] r p
    by (auto simp: rbind_Inr_iff stage_lift_def split: sum.splits)
qed


text \<open>What follows the insertion keeps the columns; the broker is reached only on one path.\<close>

lemma submit_entry_column:
  assumes k: "k \<in> lasting_columns"
  shows "order_column k (staged_orders (submit_entry br run row st)) = order_column k (staged_orders st)"
proof -
  define s where "s = (if sr_crossing_read_ok run then find (\<lambda>r. row_id r = dget row ''suggestion_id'') (ss_suggestions st) else None)"
  obtain row' dk where m: "maybe_apply_marketable_entry (sr_environ run) s (sr_crossing_quotes run) (sr_crossing_ok run) row (pb_desk (ss_book st)) = (row', dk)"
    by fastforce
  obtain res b dk' where t: "submit_and_track (sr_desk run) br (sr_submit run) row' (ss_broker st) dk = (res, b, dk')"
    by (cases "submit_and_track (sr_desk run) br (sr_submit run) row' (ss_broker st) dk")
  show ?thesis
    using marketable_column [OF k m] submit_and_track_column [OF k t] m t
    by (simp add: submit_entry_def Let_def s_def [symmetric] on_desk_def)
qed

lemma submit_entry_suggestions: "ss_suggestions (submit_entry br run row st) = ss_suggestions st"
  by (simp add: submit_entry_def Let_def on_desk_def split: prod.splits)

lemma shadow_entry_frame:
  assumes k: "k \<in> lasting_columns" and run: "shadow_entry run oid st = (res, st')"
  shows "order_column k (staged_orders st') = order_column k (staged_orders st) \<and> ss_broker st' = ss_broker st
    \<and> ss_suggestions st' = ss_suggestions st"
proof (cases "sr_block_ok run")
  case True
  obtain p bk where p: "process_orders (sr_process run) (sr_user run) oid (write_order oid [(''execution_mode'', PStr ''shadow_blocked'')] (ss_book st)) = (p, bk)"
    by fastforce
  have "order_column k (pb_orders bk) = order_column k (staged_orders st)"
    using process_orders_column [OF k p] k by (auto simp: column_update_rows lasting_columns_def)
  with run True p show ?thesis by (auto simp: shadow_entry_def split: sum.splits)
qed (use run in \<open>simp add: shadow_entry_def\<close>)

lemma route_entry_frame:
  assumes k: "k \<in> lasting_columns" and run: "route_entry br run submit m row st = (res, st')"
  shows "order_column k (staged_orders st') = order_column k (staged_orders st) \<and> ss_suggestions st' = ss_suggestions st
    \<and> (ss_broker st' \<noteq> ss_broker st \<longrightarrow>
         m \<in> {Alpaca_Paper, Alpaca_Live} \<and> \<not> dry_run (sr_environ run) \<and> submit
         \<and> should_submit_to_broker (sr_routing_ok run) (routing_of (dget row ''portfolio_id'') (ss_book st)) (Some row))"
proof (cases "m \<notin> {Alpaca_Paper, Alpaca_Live} \<or> dry_run (sr_environ run) \<or> \<not> submit")
  case True
  with run show ?thesis by (auto simp: route_entry_def split: if_splits)
next
  case direct: False
  show ?thesis
  proof (cases "should_submit_to_broker (sr_routing_ok run) (routing_of (dget row ''portfolio_id'') (ss_book st)) (Some row)")
    case True
    with run direct show ?thesis by (auto simp: route_entry_def submit_entry_column [OF k] submit_entry_suggestions)
  next
    case False
    with run direct have "shadow_entry run (row_id row) st = (res, st')" by (auto simp: route_entry_def)
    from shadow_entry_frame [OF k this] show ?thesis by simp
  qed
qed

lemma stamp_client_id_effect:
  assumes "stamp_client_id run row bk = Inr (row', bk')"
  shows "pb_portfolios bk' = pb_portfolios bk \<and> (\<forall>k \<in> lasting_columns. dget row' k = dget row k)
    \<and> (\<forall>k \<in> lasting_columns. order_column k (pb_orders bk') = order_column k (pb_orders bk))"
  using assms by (auto simp: stamp_client_id_def rbind_Inr_iff column_update_rows lasting_columns_def split: option.splits if_splits)

lemma add_order_orders [simp]: "pb_orders (add_order row bk) = pb_orders bk @ [row]" "pb_portfolios (add_order row bk) = pb_portfolios bk"
  by (simp_all add: add_order_def)

lemma inserted_row_cases: "inserted_row run r0 = Inr row \<Longrightarrow> row = r0 \<or> row = without_order_type r0"
  by (auto simp: inserted_row_def split: insert_answer.splits if_splits)

lemma prepared_row_parts:
  assumes "rbind (prepared_row run c portfolio suggestion quote credit) (inserted_row run) = Inr row"
  obtains tcm limit r0 where "estimate default_costs (priced_ticket_of (sc_ticket c)) quote = Inr tcm"
    and "entry_limit (get_execution_mode (sr_environ run)) (tt_limit (sc_ticket c)) tcm quote = Inr limit"
    and "r0 = entry_row run c (get_execution_mode (sr_environ run)) portfolio suggestion quote
           (stamped_estimate (get_execution_mode (sr_environ run)) portfolio tcm) ((sc_ticket c)\<lparr>tt_limit := limit\<rparr>) credit"
    and "row = r0 \<or> row = without_order_type r0"
  using assms by (auto simp: prepared_row_def Let_def rbind_Inr_iff dest!: inserted_row_cases)

lemma dget_without_order_type: "k \<noteq> ''order_type'' \<Longrightarrow> dget (without_order_type r) k = dget r k"
proof -
  assume "k \<noteq> ''order_type''"
  then have "map_of (without_order_type r) k = map_of r k" by (induction r) (auto simp: without_order_type_def)
  then show ?thesis by (simp add: dget_def)
qed

lemma prepared_columns:
  assumes "rbind (prepared_row run c portfolio suggestion quote credit) (inserted_row run) = Inr row"
  shows "dget row ''id'' = PStr (sr_new_order run) \<and> dget row ''suggestion_id'' = staged_suggestion c
    \<and> dget row ''portfolio_id'' = row_id portfolio \<and> dget row ''position_id'' = sc_position c
    \<and> dget row ''execution_mode'' = PStr (mode_text (get_execution_mode (sr_environ run)))"
proof (rule prepared_row_parts [OF assms])
  fix tcm limit r0
  assume "r0 = entry_row run c (get_execution_mode (sr_environ run)) portfolio suggestion quote
           (stamped_estimate (get_execution_mode (sr_environ run)) portfolio tcm) ((sc_ticket c)\<lparr>tt_limit := limit\<rparr>) credit"
    and "row = r0 \<or> row = without_order_type r0"
  then show ?thesis by (auto simp: dget_without_order_type) (simp_all add: entry_row_def dget_def)
qed

lemma stamp_client_id_total:
  assumes "dget row ''execution_mode'' = PStr m" shows "stamp_client_id run row bk \<noteq> Inl e"
  using assms by (auto simp: stamp_client_id_def deterministic_client_order_id_def py_or_def rbind_Inl_iff split: if_splits)

lemma stage_order_cases:
  assumes run: "stage_order br run c st = (res, st')"
  obtains (refused) e where "res = Inl e" and "ss_broker st' = ss_broker st" and "pb_desk (ss_book st') = pb_desk (ss_book st)"
      and "pb_ledger (ss_book st') = pb_ledger (ss_book st)" and "\<exists>reason. ss_suggestions st' = ss_suggestions st
             \<or> ss_suggestions st' = stamp_reason_on (sr_stamp_ok run) (staged_suggestion c) reason (ss_suggestions st)"
  | (inserted) portfolio bk quote credit st1 row row' bk' where
      "get_or_create_portfolio run (sc_portfolio c) (ss_book st) = (Inr portfolio, bk)"
      and "entry_gates run c portfolio (st\<lparr>ss_book := bk\<rparr>) = (Inr (quote, credit), st1)"
      and "rbind (prepared_row run c portfolio (suggestion_row run (staged_suggestion c) (ss_suggestions st)) quote credit) (inserted_row run) = Inr row"
      and "stamp_client_id run row (add_order row bk) = Inr (row', bk')"
      and "route_entry br run (sc_submit c) (get_execution_mode (sr_environ run)) row' (st1\<lparr>ss_book := bk'\<rparr>) = (res, st')"
proof -
  obtain pr bk where p: "get_or_create_portfolio run (sc_portfolio c) (ss_book st) = (pr, bk)" by fastforce
  note desk = get_or_create_desk [OF p]
  show thesis
  proof (cases pr)
    case (Inl e)
    then show thesis using run p desk by (intro refused) (auto simp: stage_order_def)
  next
    case (Inr portfolio)
    obtain g st1 where g: "entry_gates run c portfolio (st\<lparr>ss_book := bk\<rparr>) = (g, st1)" by fastforce
    note frame = entry_gates_frame [OF g]
    show thesis
    proof (cases g)
      case (Inl e)
      then show thesis using run p Inr g desk frame by (intro refused) (auto simp: stage_order_def)
    next
      case ok: (Inr qc)
      obtain quote credit where qc: "qc = (quote, credit)" by fastforce
      let ?row = "rbind (prepared_row run c portfolio (suggestion_row run (staged_suggestion c) (ss_suggestions st)) quote credit) (inserted_row run)"
      show thesis
      proof (cases ?row)
        case (Inl e)
        then show thesis using run p Inr g ok qc desk frame by (intro refused) (auto simp: stage_order_def)
      next
        case row: (Inr row)
        have book: "ss_book st1 = bk" using frame by simp
        show thesis
        proof (cases "stamp_client_id run row (add_order row bk)")
          case (Inl e)
          then show thesis using stamp_client_id_total prepared_columns [OF row] by blast
        next
          case st: (Inr rb)
          obtain row' bk' where rb: "rb = (row', bk')" by fastforce
          show thesis
            by (rule inserted [of portfolio bk quote credit st1 row row' bk']) (use run p Inr g ok qc row book st rb in \<open>simp_all add: stage_order_def\<close>)
        qed
      qed
    qed
  qed
qed

text \<open>A staging adds at most one order, with the suggestion of its call.\<close>

lemma stage_order_orders:
  assumes run: "stage_order br run c st = (res, st')" and k: "k \<in> lasting_columns"
  shows "order_column k (staged_orders st') = order_column k (staged_orders st)
    \<or> (\<exists>row. order_column k (staged_orders st') = order_column k (staged_orders st) @ [dget row k]
         \<and> dget row ''suggestion_id'' = staged_suggestion c \<and> dget row ''id'' = PStr (sr_new_order run))"
  using run
proof (cases rule: stage_order_cases)
  case (refused e)
  then show ?thesis by simp
next
  case (inserted portfolio bk quote credit st1 row row' bk')
  have "order_column k (staged_orders st') = order_column k (pb_orders bk')"
    using route_entry_frame [OF k inserted(5)] by simp
  also have "\<dots> = order_column k (pb_orders bk) @ [dget row k]"
    using stamp_client_id_effect [OF inserted(4)] k by simp
  finally show ?thesis using prepared_columns [OF inserted(3)] get_or_create_desk [OF inserted(1)] by auto
qed


text \<open>A new order has passed the gates.\<close>

lemma new_order_passed:
  assumes run: "stage_order br run c st = (res, st')" and new: "length (staged_orders st') \<noteq> length (staged_orders st)"
  obtains portfolio bk quote credit st1 where "get_or_create_portfolio run (sc_portfolio c) (ss_book st) = (Inr portfolio, bk)"
    and "entry_gates run c portfolio (st\<lparr>ss_book := bk\<rparr>) = (Inr (quote, credit), st1)"
  using run
proof (cases rule: stage_order_cases)
  case (refused e)
  with new show thesis by simp
next
  case (inserted portfolio bk quote credit st1 row row' bk')
  then show thesis using that by blast
qed

subsection \<open>Priced legs\<close>



subsection \<open>Covered costs\<close>

text \<open>The cost that the gate compares: of one structure, or of all.\<close>

definition applied_cost :: "environ \<Rightarrow> bool \<Rightarrow> roundtrip \<Rightarrow> pynum option" where
  "applied_cost env shadow rt = (if shadow \<or> opt_in (env ''GATE_QTY_FIX_LIVE_ENABLED'') then rt_per_contract rt else rt_total rt)"

lemma roundtrip_both: "executable_roundtrip_cost env items quotes n = Inr rt \<Longrightarrow> (rt_total rt = None \<longleftrightarrow> rt_per_contract rt = None)"
  by (auto simp: executable_roundtrip_cost_def Let_def rbind_Inr_iff split: if_splits)

lemma verdict_covers:
  assumes "roundtrip_verdict env True shadow t quotes = Inr v" and "\<And>x y. v \<noteq> CostRejects x y"
    and "quotes \<noteq> []" and "default_on (env ''ENTRY_ROUNDTRIP_COST_GATE_ENABLED'')" and "tt_ev t = Some ev"
    and rt: "executable_roundtrip_cost env (map cost_leg (tt_legs t)) (priced_both_ways quotes) (PInt (tt_qty t)) = Inr rt"
    and "applied_cost env shadow rt = Some cost"
  shows "\<not> flt (fsub ev cost) (min_edge_after_costs env)"
proof -
  obtain c pc where "rt_total rt = Some c" "rt_per_contract rt = Some pc"
    using roundtrip_both [OF rt] assms(7) by (cases "rt_total rt"; cases "rt_per_contract rt") (auto simp: applied_cost_def split: if_splits)
  then have "v = cost_decision env shadow ev c pc" "cost = (if shadow \<or> opt_in (env ''GATE_QTY_FIX_LIVE_ENABLED'') then pc else c)"
    using assms(1,3-7) by (auto simp: roundtrip_verdict_def applied_cost_def split: if_splits)
  then show ?thesis using assms(2) by (auto simp: cost_decision_def Let_def split: if_splits)
qed

text \<open>
  No entry order below its cost: when the staging of an entry adds an order, the
  validated quotes of its legs are two-sided and the ticket has an expected value, this value less
  the cost of crossing the market both ways is not below the minimum edge. Shadow books count the
  cost of one structure, live ones of all.
\<close>

theorem entry_orders_cover_their_cost:
  assumes "is_entry c" and "stage_order br run c st = (res, st')"
    and "length (staged_orders st') \<noteq> length (staged_orders st)"
    and "default_on (sr_environ run ''ENTRY_QUOTE_VALIDATION_ENABLED'')" "default_on (sr_environ run ''ENTRY_ROUNDTRIP_COST_GATE_ENABLED'')"
    and "tt_ev (sc_ticket c) = Some ev"
  shows "\<exists>portfolio quotes. fst (get_or_create_portfolio run (sc_portfolio c) (ss_book st)) = Inr portfolio
     \<and> quote_legs (entry_leg_quote (sr_environ run) (sr_quotes run)) 1 (tt_legs (sc_ticket c)) [] = Inr quotes
     \<and> (\<forall>rt cost. quotes \<noteq> []
          \<and> executable_roundtrip_cost (sr_environ run) (map cost_leg (tt_legs (sc_ticket c))) (priced_both_ways quotes) (PInt (tt_qty (sc_ticket c))) = Inr rt
          \<and> applied_cost (sr_environ run) (is_shadow_routing (dget portfolio ''routing_mode'')) rt = Some cost
          \<longrightarrow> \<not> flt (fsub ev cost) (min_edge_after_costs (sr_environ run)))"
proof -
  obtain portfolio bk quote credit st1 where p: "get_or_create_portfolio run (sc_portfolio c) (ss_book st) = (Inr portfolio, bk)"
    and g: "entry_gates run c portfolio (st\<lparr>ss_book := bk\<rparr>) = (Inr (quote, credit), st1)"
    by (rule new_order_passed [OF assms(2,3)])
  show ?thesis
  proof (rule entry_gates_passed [OF g])
    fix quotes v
    assume q: "validate_entry_quotes (sr_environ run) (sr_quotes run) (is_entry c) (sc_ticket c) = Inr quotes"
      and v: "roundtrip_verdict (sr_environ run) (is_entry c) (is_shadow_routing (dget portfolio ''routing_mode'')) (sc_ticket c) quotes = Inr v"
      "\<And>x y. v \<noteq> CostRejects x y"
    have "quote_legs (entry_leg_quote (sr_environ run) (sr_quotes run)) 1 (tt_legs (sc_ticket c)) [] = Inr quotes"
      using q assms(1,4) by (simp add: validate_entry_quotes_def)
    moreover have "\<not> flt (fsub ev cost) (min_edge_after_costs (sr_environ run))"
      if "quotes \<noteq> []" "executable_roundtrip_cost (sr_environ run) (map cost_leg (tt_legs (sc_ticket c))) (priced_both_ways quotes) (PInt (tt_qty (sc_ticket c))) = Inr rt"
        "applied_cost (sr_environ run) (is_shadow_routing (dget portfolio ''routing_mode'')) rt = Some cost" for rt cost
      by (rule verdict_covers [OF _ v(2) that(1) assms(5,6) that(2,3)]) (use v(1) assms(1) in simp)
    ultimately show ?thesis using p by (intro exI [of _ portfolio] exI [of _ quotes]) simp
  qed
qed


subsection \<open>Rejections\<close>

lemma route_entry_failure: "route_entry br run submit m row st = (Inl e, st') \<Longrightarrow> \<exists>x. e = StageRaised x"
  by (auto simp: route_entry_def shadow_entry_def split: if_splits prod.splits sum.splits)

lemma stamp_reason_columns:
  "k \<noteq> ''blocked_reason'' \<Longrightarrow> order_column k (stamp_reason_on ok sid reason rows) = order_column k rows"
  by (simp add: stamp_reason_on_def order_column_def map_key_update_rows)

lemma stamp_reason_others: "filter (\<lambda>r. row_id r \<noteq> sid) (stamp_reason_on ok sid reason rows) = filter (\<lambda>r. row_id r \<noteq> sid) rows"
  by (induction rows) (auto simp: stamp_reason_on_def)

text \<open>
  A rejection leaves nothing behind: when a gate rejects a staging, no order, position,
  alert or ledger event is written and the broker is not called; on the suggestions only the blocked
  reason of the one that was staged can change.
\<close>

theorem rejected_staging_leaves_nothing:
  assumes "stage_order br run c st = (Inl e, st')" and "\<And>x. e \<noteq> StageRaised x"
  shows "pb_desk (ss_book st') = pb_desk (ss_book st) \<and> pb_ledger (ss_book st') = pb_ledger (ss_book st) \<and> ss_broker st' = ss_broker st
     \<and> filter (\<lambda>r. row_id r \<noteq> staged_suggestion c) (ss_suggestions st') = filter (\<lambda>r. row_id r \<noteq> staged_suggestion c) (ss_suggestions st)
     \<and> (\<forall>k. k \<noteq> ''blocked_reason'' \<longrightarrow> order_column k (ss_suggestions st') = order_column k (ss_suggestions st))"
  using assms(1)
proof (cases rule: stage_order_cases)
  case (refused x)
  then show ?thesis using stamp_reason_others stamp_reason_columns by fastforce
next
  case (inserted portfolio bk quote credit st1 row row' bk')
  then show ?thesis using route_entry_failure assms(2) by blast
qed

subsection \<open>Permission\<close>

lemma get_or_create_found:
  assumes "get_or_create_portfolio run pf bk = (Inr portfolio, bk')" and "distinct (map row_id (pb_portfolios bk))"
    and "PStr (sr_new_portfolio run) \<notin> row_id ` set (pb_portfolios bk)"
  shows "find (\<lambda>r. row_id r = row_id portfolio) (pb_portfolios bk') = Some portfolio"
proof -
  have in_dist: "portfolio \<in> set (pb_portfolios bk') \<and> distinct (map row_id (pb_portfolios bk'))"
  proof (cases "truthy pf")
    case True
    then show ?thesis using assms(1,2) by (auto simp: get_or_create_portfolio_def find_Some_iff split: option.splits)
  next
    case False
    show ?thesis
    proof (cases "sort_by created_before (filter (belongs_to (sr_user run)) (pb_portfolios bk))")
      case Nil
      then have "portfolio = new_portfolio run" "pb_portfolios bk' = pb_portfolios bk @ [new_portfolio run]"
        using assms(1) False by (auto simp: get_or_create_portfolio_def split: if_splits)
      then show ?thesis using assms(2,3) by (auto simp: new_portfolio_def row_id_def dget_def)
    next
      case (Cons r rs)
      then have "r \<in> set (filter (belongs_to (sr_user run)) (pb_portfolios bk))" by (metis set_sort_by list.set_intros(1))
      then show ?thesis using assms(1,2) False Cons by (auto simp: get_or_create_portfolio_def)
    qed
  qed
  have "find (\<lambda>r. row_id r = row_id p) ps = Some p" if "p \<in> set ps" "distinct (map row_id ps)" for p ps
    using that by (induction ps) (auto simp: rev_image_eqI)
  with in_dist show ?thesis by blast
qed

lemma level_check_passed:
  assumes "level_check strategy src cache = (Inr u, cache')" and "\<not> is_no_trade_verdict strategy"
  shows "\<exists>client acct n required. as_client src = Inr (Some client)
     \<and> fst (get_account_with_ttl (as_now src) (as_answer src) client cache) = Inr (PDict acct)
     \<and> required_options_level strategy = Some required \<and> py_int (dget acct ''options_trading_level'') = Inr n \<and> required \<le> n"
proof -
  obtain client where c: "as_client src = Inr (Some client)"
    using assms(1) by (auto simp: level_check_def split: sum.splits option.splits)
  obtain account cache'' where a: "get_account_with_ttl (as_now src) (as_answer src) client cache = (Inr account, cache'')"
    using assms(1) c by (auto simp: level_check_def split: sum.splits prod.splits)
  obtain r where "check_options_level strategy True account = Inr r"
    using assms(1) c a by (auto simp: level_check_def rbind_Inr_iff)
  from check_passes [OF this] assms(2) c a show ?thesis by auto
qed

text \<open>
  The broker is reached only with permission: when the staging of an entry changes the
  broker's state, the mode is a broker's, it is no dry run, the portfolio is routed live, and the
  account that was read allows the level the strategy needs (or the strategy is a verdict not to
  trade, which the check leaves to others).
\<close>

theorem broker_needs_permission:
  assumes "is_entry c" and run: "stage_order br run c st = (res, st')" and "ss_broker st' \<noteq> ss_broker st"
    and "distinct (map row_id (pb_portfolios (ss_book st)))" and "PStr (sr_new_portfolio run) \<notin> row_id ` set (pb_portfolios (ss_book st))"
  shows "get_execution_mode (sr_environ run) \<in> {Alpaca_Paper, Alpaca_Live} \<and> \<not> dry_run (sr_environ run)
     \<and> (\<exists>portfolio. fst (get_or_create_portfolio run (sc_portfolio c) (ss_book st)) = Inr portfolio
          \<and> dget portfolio ''routing_mode'' = PStr ''live_eligible'')
     \<and> (is_no_trade_verdict (tt_strategy (sc_ticket c))
        \<or> (\<exists>client acct n required. as_client (sr_accounts run) = Inr (Some client)
             \<and> fst (get_account_with_ttl (as_now (sr_accounts run)) (as_answer (sr_accounts run)) client (ss_accounts st)) = Inr (PDict acct)
             \<and> required_options_level (tt_strategy (sc_ticket c)) = Some required
             \<and> py_int (dget acct ''options_trading_level'') = Inr n \<and> required \<le> n))"
  using run
proof (cases rule: stage_order_cases)
  case (refused x)
  with assms(3) show ?thesis by simp
next
  case (inserted portfolio bk quote credit st1 row row' bk')
  have "id": "''id'' \<in> lasting_columns" by (simp add: lasting_columns_def)
  have "ss_broker st1 = ss_broker st" using entry_gates_frame [OF inserted(2)] by simp
  then have sub: "get_execution_mode (sr_environ run) \<in> {Alpaca_Paper, Alpaca_Live}" "\<not> dry_run (sr_environ run)" "sc_submit c"
    "should_submit_to_broker (sr_routing_ok run) (routing_of (dget row' ''portfolio_id'') bk') (Some row')"
    using route_entry_frame [OF "id" inserted(5)] assms(3) by auto
  have "dget row' ''portfolio_id'' = row_id portfolio"
    using stamp_client_id_effect [OF inserted(4)] prepared_columns [OF inserted(3)] by (simp add: lasting_columns_def)
  moreover have "pb_portfolios bk' = pb_portfolios bk" using stamp_client_id_effect [OF inserted(4)] by simp
  ultimately have live: "dget portfolio ''routing_mode'' = PStr ''live_eligible''"
    using sub(4) get_or_create_found [OF inserted(1) assms(4,5)]
    by (auto simp: should_submit_to_broker_def routing_of_def split: if_splits pyval.splits)
  have "token_of (PStr ''live_eligible'') = Some ''live_eligible''" by code_simp
  then have "preflight_applies (sr_environ run) (is_entry c) (sc_submit c) (dget portfolio ''routing_mode'')"
    using assms(1) sub live by (simp add: preflight_applies_def py_or_def)
  then have "is_no_trade_verdict (tt_strategy (sc_ticket c))
      \<or> (\<exists>u cache. level_check (tt_strategy (sc_ticket c)) (sr_accounts run) (ss_accounts (st\<lparr>ss_book := bk\<rparr>)) = (Inr u, cache))"
    by (rule_tac entry_gates_passed [OF inserted(2)]) blast
  then show ?thesis using sub live inserted(1) level_check_passed by fastforce
qed


end
