(* ===== verification/Batch_Correct.thy ===== *)
theory Batch_Correct
  imports Staging_Correct
begin

section \<open>Credits, batches and the manual close\<close>

subsection \<open>The sign of a credit\<close>

lemma map_of_ticket_credit: "dget (trade_ticket_json t @ x) ''is_credit_open'' = dget x ''is_credit_open''"
  by (simp add: trade_ticket_json_def dget_def)

lemma stamped_ticket_credit:
  "dget (stamped_ticket run c t credit spot) ''is_credit_open'' = (if credit then PBool True else PNone)"
  by (simp add: stamped_ticket_def Let_def populate_stage_entry_spot_def map_of_ticket_credit)
    (simp add: dget_def trade_ticket_json_def)

lemma stamped_ticket_symbol: "dget (stamped_ticket run c t credit spot) ''symbol'' = PStr (tt_symbol t)"
proof -
  have "dget (trade_ticket_json t @ x) ''symbol'' = PStr (tt_symbol t)" for x by (simp add: trade_ticket_json_def dget_def)
  then show ?thesis by (simp add: stamped_ticket_def Let_def populate_stage_entry_spot_def)
qed

lemma stamped_ticket_truthy: "truthy (PDict (stamped_ticket run c t credit spot))"
proof -
  have "stamped_ticket run c t credit spot \<noteq> []"
  proof
    assume "stamped_ticket run c t credit spot = []"
    with stamped_ticket_symbol [of run c t credit spot] show False by (simp add: dget_def)
  qed
  then show ?thesis by simp
qed

lemma batch_build_lift_Inr: "build_lift (Inr x) = Inr x"
  by (simp add: build_lift_def)

lemma request_limit:
  assumes "order_json_of row = Inr oj" and "dget row ''position_id'' = PNone"
    and "dget row ''requested_price'' = PFloat (Fin q)" "0 < q" and "build_alpaca_order_request row = Inr req"
  shows "rq_limit req = signed_limit False (truthy (dget oj ''is_credit_open'')) (Fin (to_cents q))"
proof -
  have price: "py_or (PFloat (Fin q)) x = PFloat (Fin q)" for x using assms(4) by (simp add: py_or_def num_truthy_def)
  show ?thesis
    using assms(5) unfolding build_alpaca_order_request_def Let_def assms(1-3) batch_build_lift_Inr rbind_simps price
    by (auto simp: rbind_Inr_iff batch_build_lift_Inr round2_def split: if_splits)
qed

text \<open>
  The sign at the broker: for the order of an entry with a positive price, the limit
  of the broker's request is the price in cents, negative exactly when the validated mids of the legs
  make the structure cheaper than minus half a cent.
\<close>

theorem credit_entries_are_submitted_negative:
  assumes "is_entry c" and gates: "entry_gates run c portfolio st = (Inr (quote, credit), st')"
    and row: "rbind (prepared_row run c portfolio suggestion quote credit) (inserted_row run) = Inr row"
    and stamp: "stamp_client_id run row bk = Inr (row', bk')"
    and price: "dget row' ''requested_price'' = PFloat (Fin q)" and "0 < q"
    and req: "build_alpaca_order_request row' = Inr req"
  shows "\<exists>quotes. validate_entry_quotes (sr_environ run) (sr_quotes run) True (sc_ticket c) = Inr quotes
     \<and> rq_limit req =
         (if quotes \<noteq> [] \<and> (\<exists>x. net_mid_cost (sc_ticket c) quotes = Some x \<and> flt x (Fin (- 5 / 1000)))
          then Fin (- to_cents q) else Fin (to_cents q))"
proof -
  obtain quotes where q: "validate_entry_quotes (sr_environ run) (sr_quotes run) (is_entry c) (sc_ticket c) = Inr quotes"
    and credit: "credit = entry_is_net_credit (is_entry c) (sc_ticket c) quotes"
    by (rule entry_gates_passed [OF gates])
  have oj: "\<exists>t. dget row' ''order_json'' = PDict (stamped_ticket run c t credit (scan_spot_of suggestion))"
  proof (rule prepared_row_parts [OF row])
    fix tcm limit r0
    assume "r0 = entry_row run c (get_execution_mode (sr_environ run)) portfolio suggestion quote
           (stamped_estimate (get_execution_mode (sr_environ run)) portfolio tcm) ((sc_ticket c)\<lparr>tt_limit := limit\<rparr>) credit"
      and "row = r0 \<or> row = without_order_type r0"
    moreover have "dget row' ''order_json'' = dget row ''order_json''" using stamp_client_id_effect [OF stamp] by (simp add: lasting_columns_def)
    ultimately show ?thesis by (auto simp: dget_without_order_type) (auto simp: entry_row_def dget_def)
  qed
  have position: "dget row' ''position_id'' = PNone"
    using stamp prepared_columns [OF row] assms(1) by (auto simp: stamp_client_id_def rbind_Inr_iff split: option.splits if_splits)
  obtain t where t: "order_json_of row' = Inr (stamped_ticket run c t credit (scan_spot_of suggestion))"
    using oj stamped_ticket_truthy by (auto simp: order_json_of_def py_or_def)
  have cents: "0 \<le> to_cents q" using \<open>0 < q\<close> round_half_even_ge [of 0 "100 * q"] by (simp add: to_cents_def)
  have "rq_limit req = signed_limit False credit (Fin (to_cents q))"
    using request_limit [OF t position price \<open>0 < q\<close> req] by (simp add: stamped_ticket_credit)
  also have "\<dots> = (if credit then Fin (- to_cents q) else Fin (to_cents q))"
    using cents by (cases "to_cents q = 0") (simp_all add: signed_limit_def)
  finally show ?thesis using q credit assms(1) by (auto simp: entry_is_net_credit_def split: option.splits)
qed


subsection \<open>Batches\<close>

text \<open>The suggestions of the orders in the table.\<close>

abbreviation suggestion_column :: "'b stage_state \<Rightarrow> pyval list" where
  "suggestion_column st \<equiv> order_column ''suggestion_id'' (staged_orders st)"

lemma suggestion_lasting: "''suggestion_id'' \<in> lasting_columns"
  by (simp add: lasting_columns_def)

lemma stage_suggestion_column:
  assumes "stage_suggestion br uuid run s pf st = (res, st')" and "truthy (row_id s)"
  shows "suggestion_column st' = suggestion_column st \<or> suggestion_column st' = suggestion_column st @ [row_id s]"
proof (cases "suggestion_to_ticket uuid s")
  case (Inl e)
  with assms show ?thesis by (simp add: stage_suggestion_def)
next
  case (Inr t)
  with assms have run: "stage_order br run (suggestion_call pf (row_id s) t) st = (res, st')" by (simp add: stage_suggestion_def)
  have "staged_suggestion (suggestion_call pf (row_id s) t) = row_id s"
    using assms(2) by (simp add: staged_suggestion_def suggestion_call_def)
  with stage_order_orders [OF run suggestion_lasting] show ?thesis by auto
qed

lemma stage_order_success:
  assumes run: "stage_order br run c st = (Inr oid, st')"
  shows "suggestion_column st' = suggestion_column st @ [staged_suggestion c]"
  using run
proof (cases rule: stage_order_cases)
  case (refused e)
  then show ?thesis by simp
next
  case (inserted portfolio bk quote credit st1 row row' bk')
  have "suggestion_column st' = order_column ''suggestion_id'' (pb_orders bk')"
    using route_entry_frame [OF suggestion_lasting inserted(5)] by simp
  also have "\<dots> = order_column ''suggestion_id'' (pb_orders bk) @ [dget row ''suggestion_id'']"
    using stamp_client_id_effect [OF inserted(4)] suggestion_lasting by simp
  finally show ?thesis using prepared_columns [OF inserted(3)] get_or_create_desk [OF inserted(1)] by simp
qed

lemma mark_staged_orders [simp]: "ss_book (mark_staged sid st) = ss_book st"
  by (simp add: mark_staged_def)

lemma stage_one_column:
  assumes run: "stage_one br uuid run ok fetched sid st = (out, st')" and "truthy sid"
    and "\<And>s. fetched = Some s \<Longrightarrow> row_id s = sid"
  shows "suggestion_column st' = suggestion_column st
    \<or> suggestion_column st' = suggestion_column st @ [sid] \<and> (\<exists>s. fetched = Some s \<and> dget s ''status'' = PStr ''pending'')"
proof (cases fetched)
  case (Some s)
  show ?thesis
  proof (cases "dget s ''status'' = PStr ''pending''")
    case True
    obtain res st1 where stage: "stage_suggestion br uuid run s PNone st = (res, st1)" by fastforce
    have "suggestion_column st' = suggestion_column st1"
      using run Some True stage by (auto simp: stage_one_def split: sum.splits if_splits)
    then show ?thesis using stage_suggestion_column [OF stage] assms(2,3) Some True by auto
  qed (use run Some in \<open>auto simp: stage_one_def split: if_splits option.splits\<close>)
qed (use run in \<open>simp add: stage_one_def\<close>)

definition pending_request :: "suggestion_rows \<Rightarrow> pyval \<Rightarrow> bool" where
  "pending_request fetched sid \<longleftrightarrow> (\<exists>s \<in> set fetched. row_id s = sid \<and> dget s ''status'' = PStr ''pending'')"

lemma stage_each_count:
  assumes "\<forall>i \<in> set ids. truthy i"
  shows "stage_each br uuid runs ok fetched k ids st = (outs, st') \<Longrightarrow>
    count_list (suggestion_column st') x
      \<le> count_list (suggestion_column st) x + (if pending_request fetched x then count_list ids x else 0)"
  using assms
proof (induction ids arbitrary: k st outs)
  case (Cons sid ids)
  let ?f = "find (\<lambda>r. row_id r = sid) (rev fetched)"
  obtain out st1 where one: "stage_one br uuid (runs k) (ok k) ?f sid st = (out, st1)" by fastforce
  obtain outs' where rest: "stage_each br uuid runs ok fetched (Suc k) ids st1 = (outs', st')"
    using Cons.prems(1) one by (auto split: prod.splits)
  have found: "row_id s = sid \<and> s \<in> set fetched" if "?f = Some s" for s
    using find_Some_props [OF that] by simp
  have "suggestion_column st1 = suggestion_column st \<or> suggestion_column st1 = suggestion_column st @ [sid] \<and> pending_request fetched sid"
    using stage_one_column [OF one] Cons.prems(2) found by (auto simp: pending_request_def)
  then have "count_list (suggestion_column st1) x
      \<le> count_list (suggestion_column st) x + (if pending_request fetched x then count_list [sid] x else 0)" by auto
  moreover have "count_list (suggestion_column st') x
      \<le> count_list (suggestion_column st1) x + (if pending_request fetched x then count_list ids x else 0)"
    using Cons.IH [OF rest] Cons.prems(2) by simp
  ultimately show ?case by (auto split: if_splits)
qed simp

text \<open>
  A batch stages nothing on its own: the orders of a suggestion grow by at most one for
  each mention in the request, and only when the suggestion is the user's and was pending.
\<close>

theorem batch_orders_are_requested:
  assumes "\<forall>i \<in> set ids. truthy i" and "stage_batch br uuid user runs ok ids st = (outs, st')"
  shows "count_list (suggestion_column st') sid
     \<le> count_list (suggestion_column st) sid
        + (if \<exists>s \<in> set (ss_suggestions st). row_id s = sid \<and> dget s ''user_id'' = PStr user \<and> dget s ''status'' = PStr ''pending''
           then count_list ids sid else 0)"
proof (cases "sid \<in> set ids")
  case True
  then show ?thesis
    using stage_each_count [OF assms(1) assms(2) [unfolded stage_batch_def], of sid]
    by (auto simp: pending_request_def requested_rows_def split: if_splits)
next
  case False
  then show ?thesis
    using stage_each_count [OF assms(1) assms(2) [unfolded stage_batch_def], of sid]
    by (auto simp: count_notin split: if_splits)
qed

text \<open>
  A suggestion that is named twice in one request is staged twice: its status is read
  once, before the first staging, so both stagings that succeed add an order, and both are reported.
\<close>

theorem repeated_id_is_staged_twice:
  assumes "filter (\<lambda>r. row_id r = sid \<and> dget r ''user_id'' = PStr user) (ss_suggestions st) = [s]"
    and "dget s ''status'' = PStr ''pending''" and "truthy sid" and "suggestion_to_ticket uuid s = Inr t" and "ok 0" "ok 1"
    and "stage_order br (runs 0) (suggestion_call PNone sid t) st = (Inr o1, st1)"
    and "stage_order br (runs 1) (suggestion_call PNone sid t) (mark_staged sid st1) = (Inr o2, st2)"
  shows "fst (stage_batch br uuid user runs ok [sid, sid] st) = [BatchStaged sid o1, BatchStaged sid o2]
     \<and> count_list (suggestion_column (snd (stage_batch br uuid user runs ok [sid, sid] st))) sid = count_list (suggestion_column st) sid + 2"
proof -
  have "set [s] \<subseteq> {r. row_id r = sid}" unfolding assms(1) [symmetric] by auto
  then have s: "row_id s = sid" by simp
  have rows: "requested_rows user [sid, sid] (ss_suggestions st) = [s]" using assms(1) by (simp add: requested_rows_def)
  have "staged_suggestion (suggestion_call PNone sid t) = sid" using assms(3) by (simp add: staged_suggestion_def suggestion_call_def)
  then have "suggestion_column st1 = suggestion_column st @ [sid]" "suggestion_column st2 = suggestion_column st1 @ [sid]"
    using stage_order_success [OF assms(7)] stage_order_success [OF assms(8)] by simp_all
  moreover have "stage_batch br uuid user runs ok [sid, sid] st = ([BatchStaged sid o1, BatchStaged sid o2], mark_staged sid st2)"
    using assms(2,4-8) by (simp add: stage_batch_def rows s stage_one_def stage_suggestion_def)
  ultimately show ?thesis by simp
qed

subsection \<open>The manual close\<close>

text \<open>
  C40 (liveness). A manual close never stages: the ticket it makes has a call without a strike, which
  the check of the legs refuses, so no close through the endpoint ever gets an order, whatever the
  position is.
\<close>

theorem manual_close_never_stages:
  shows "\<exists>e st'. close_paper_position br run pid st = (Inl e, st') \<and> pb_desk (ss_book st') = pb_desk (ss_book st)
     \<and> pb_ledger (ss_book st') = pb_ledger (ss_book st) \<and> ss_broker st' = ss_broker st"
proof -
  have invalid: "validate_order_legs t = Inl ValueError" if "manual_close_ticket p = Inr t" for p t
    using that by (auto simp: manual_close_ticket_def rbind_Inr_iff validate_order_legs_def option_leg_ok_def)
  have refused: "\<exists>e st'. staged_then_processed br run c st = (Inl e, st') \<and> pb_desk (ss_book st') = pb_desk (ss_book st)
      \<and> pb_ledger (ss_book st') = pb_ledger (ss_book st) \<and> ss_broker st' = ss_broker st"
    if t: "validate_order_legs (sc_ticket c) = Inl ValueError" for c
  proof -
    obtain pr bk where p: "get_or_create_portfolio run (sc_portfolio c) (ss_book st) = (pr, bk)" by fastforce
    have "\<exists>e. stage_order br run c st = (Inl e, st\<lparr>ss_book := bk\<rparr>)"
      using p t by (cases pr) (simp_all add: stage_order_def entry_gates_def stage_lift_def)
    then show ?thesis using get_or_create_desk [OF p] by (auto simp: staged_then_processed_def)
  qed
  show ?thesis
    using invalid refused by (auto simp: close_paper_position_def split: option.splits sum.splits)
qed

end
