(* ===== verification/Cohort_Staging.thy ===== *)
theory Cohort_Staging
  imports Batch_Correct Entry_Correct
begin

section \<open>Cohorts that stage orders\<close>

text \<open>
  The entries per cohort with the staging of this development in place of their parameters: a
  suggestion is turned into a ticket and staged, a rejection comes back as the exception the loop
  distinguishes, and an order that was staged internally is processed. The run of a staging is given
  by the suggestion.
\<close>

definition cohort_stage ::
  "'b broker \<Rightarrow> (string \<Rightarrow> string option) \<Rightarrow> (pyval \<Rightarrow> stage_run) \<Rightarrow> pydict \<Rightarrow> pyval \<Rightarrow> 'b stage_state \<Rightarrow> (stage_error + pyval) \<times> 'b stage_state" where
  "cohort_stage br uuid runs s pf st =
     (case stage_suggestion br uuid (runs (row_id s)) s pf st of
        (Inr oid, st') \<Rightarrow> (Inr oid, st')
      | (Inl (LegUnpriceable _), st') \<Rightarrow> (Inl EntryQuoteUnpriceable, st')
      | (Inl (CostExceedsEV _ _), st') \<Rightarrow> (Inl EntryRoundtripCostExceedsEV, st')
      | (Inl (LevelRejected _), st') \<Rightarrow> (Inl (StageCrash RuntimeError), st')
      | (Inl (StageRaised e), st') \<Rightarrow> (Inl (StageCrash e), st'))"

definition cohort_process :: "process_env \<Rightarrow> string \<Rightarrow> pyval \<Rightarrow> 'b stage_state \<Rightarrow> (pyexn + nat) \<times> 'b stage_state" where
  "cohort_process env user oid st =
     (case process_orders env user oid (ss_book st) of
        (Inl e, bk) \<Rightarrow> (Inl e, st\<lparr>ss_book := bk\<rparr>) | (Inr outs, bk) \<Rightarrow> (Inr (length outs), st\<lparr>ss_book := bk\<rparr>))"

lemma cohort_stage_column:
  assumes "truthy (row_id s)"
  shows "suggestion_column (snd (cohort_stage br uuid runs s pf st)) = suggestion_column st
    \<or> suggestion_column (snd (cohort_stage br uuid runs s pf st)) = suggestion_column st @ [row_id s]"
proof -
  obtain res st' where run: "stage_suggestion br uuid (runs (row_id s)) s pf st = (res, st')" by fastforce
  have "snd (cohort_stage br uuid runs s pf st) = st'"
    using run by (auto simp: cohort_stage_def split: sum.splits stage_failure.splits)
  with stage_suggestion_column [OF run assms] show ?thesis by simp
qed

lemma cohort_process_column: "suggestion_column (snd (cohort_process env user oid st)) = suggestion_column st"
proof -
  obtain res bk where run: "process_orders env user oid (ss_book st) = (res, bk)" by fastforce
  from process_orders_column [OF suggestion_lasting run] run show ?thesis
    by (auto simp: cohort_process_def split: sum.splits)
qed

text \<open>A run whose stagings and processings are these.\<close>

definition stages_really :: "'b broker \<Rightarrow> (string \<Rightarrow> string option) \<Rightarrow> (pyval \<Rightarrow> stage_run) \<Rightarrow> process_env \<Rightarrow> 'b stage_state entry_run \<Rightarrow> bool" where
  "stages_really br uuid runs env run \<longleftrightarrow> er_stage run = cohort_stage br uuid runs \<and> er_process run = cohort_process env (er_user run)"

subsection \<open>One suggestion\<close>

lemma stage_entry_column:
  assumes "stages_really br uuid runs env run" and "truthy (row_id s)" and run: "stage_entry run pf s b risk res st = (fin, res', st')"
  shows "suggestion_column (es_world st') = suggestion_column (es_world st)
    \<or> suggestion_column (es_world st') = suggestion_column (es_world st) @ [row_id s]"
proof -
  obtain out w where staged: "cohort_stage br uuid runs s pf (es_world st) = (out, w)" by fastforce
  have "suggestion_column w = suggestion_column (es_world st) \<or> suggestion_column w = suggestion_column (es_world st) @ [row_id s]"
    using cohort_stage_column [OF assms(2), of br uuid runs pf "es_world st"] staged by simp
  moreover have "suggestion_column (es_world st') = suggestion_column w"
  proof (cases out)
    case (Inl e)
    then show ?thesis using run staged assms(1)
      by (cases e) (auto simp: stage_entry_def stages_really_def stamp_blocked_fields dest: stamp_not_executable_fields split: prod.splits)
  next
    case (Inr oid)
    obtain res1 w' where proc: "cohort_process env (er_user run) oid w = (res1, w')" by fastforce
    then have "suggestion_column w' = suggestion_column w" using cohort_process_column [of env "er_user run" oid w] by simp
    then show ?thesis using run staged assms(1) Inr proc
      by (auto simp: stage_entry_def stages_really_def Let_def split: if_splits sum.splits)
  qed
  ultimately show ?thesis by simp
qed

lemma enter_one_column:
  assumes "stages_really br uuid runs env run" and "truthy (row_id s)" and run: "enter_one run pf positions equity executed held s res st = (fin, res', st')"
  shows "suggestion_column (es_world st') = suggestion_column (es_world st)
    \<or> suggestion_column (es_world st') = suggestion_column (es_world st) @ [row_id s] \<and> row_id s \<notin> executed"
  using run
proof (cases rule: enter_one_cases)
  case Refused
  then show ?thesis by simp
next
  case (Staged d risk)
  from stage_entry_column [OF assms(1,2) Staged(7)] Staged(1) show ?thesis by blast
qed

lemma enter_all_count:
  assumes real: "stages_really br uuid runs env run"
  shows "enter_all run pf positions equity executed held rows res st = (outs, res', st') \<Longrightarrow> \<forall>s \<in> set rows. truthy (row_id s) \<Longrightarrow>
    count_list (suggestion_column (es_world st')) x \<le> count_list (suggestion_column (es_world st)) x + count_list (map row_id rows) x"
proof (induction rows arbitrary: res st outs)
  case (Cons s rows)
  obtain fin res1 st1 where one: "enter_one run pf positions equity executed held s res st = (fin, res1, st1)" by (rule prod_cases3)
  obtain outs2 where rest: "enter_all run pf positions equity executed held rows res1 st1 = (outs2, res', st')"
    using Cons.prems(1) one by (auto split: prod.splits)
  have "count_list (suggestion_column (es_world st1)) x \<le> count_list (suggestion_column (es_world st)) x + (if row_id s = x then 1 else 0)"
    using enter_one_column [OF real _ one] Cons.prems(2) by auto
  then show ?case using Cons.IH [OF rest] Cons.prems(2) by (auto split: if_splits)
qed simp

subsection \<open>The columns of the suggestions\<close>

definition suggestion_keys :: "string set" where
  "suggestion_keys = {''id'', ''cohort_name''}"

lemma stamp_blocked_keys: "k \<in> suggestion_keys \<Longrightarrow> order_column k (es_suggestions (stamp_blocked run sid reason st)) = order_column k (es_suggestions st)"
  by (simp add: stamp_blocked_def order_column_def suggestion_keys_def map_key_update_rows) (auto simp: map_key_update_rows)

lemma stamp_not_executable_keys:
  assumes "k \<in> suggestion_keys" and "stamp_not_executable run sid reason st = (ok, st')"
  shows "order_column k (es_suggestions st') = order_column k (es_suggestions st)"
  using assms by (auto simp: stamp_not_executable_def column_update_rows suggestion_keys_def split: if_splits)

lemma stage_entry_keys:
  assumes k: "k \<in> suggestion_keys" and run: "stage_entry run pf s b risk res st = (fin, res', st')"
  shows "order_column k (es_suggestions st') = order_column k (es_suggestions st)"
proof -
  obtain out w where staged: "er_stage run s pf (es_world st) = (out, w)" by fastforce
  show ?thesis
  proof (cases out)
    case (Inl e)
    show ?thesis
    proof (cases e)
      case EntryRoundtripCostExceedsEV
      obtain ok st1 where "stamp_not_executable run (row_id s) ''ev_below_roundtrip_cost'' (st\<lparr>es_world := w\<rparr>) = (ok, st1)" by fastforce
      from this stamp_not_executable_keys [OF k this] show ?thesis using run staged Inl EntryRoundtripCostExceedsEV
        by (simp add: stage_entry_def)
    qed (use run staged Inl in \<open>auto simp: stage_entry_def stamp_blocked_keys [OF k]\<close>)
  next
    case (Inr oid)
    then show ?thesis using run staged by (auto simp: stage_entry_def Let_def split: if_splits prod.splits sum.splits)
  qed
qed

lemma enter_one_keys:
  assumes k: "k \<in> suggestion_keys" and run: "enter_one run pf positions equity executed held s res st = (fin, res', st')"
  shows "order_column k (es_suggestions st') = order_column k (es_suggestions st)"
  using run unfolding enter_one_def
  by (auto simp: stamp_blocked_keys [OF k] dest: stage_entry_keys [OF k] split: if_splits sum.splits gate_error.splits prod.splits bucket_action.splits)

lemma enter_all_keys:
  assumes k: "k \<in> suggestion_keys"
  shows "enter_all run pf positions equity executed held rows res st = (outs, res', st') \<Longrightarrow>
    order_column k (es_suggestions st') = order_column k (es_suggestions st)"
proof (induction rows arbitrary: res st outs)
  case (Cons s rows)
  obtain fin res1 st1 where one: "enter_one run pf positions equity executed held s res st = (fin, res1, st1)" by (rule prod_cases3)
  obtain outs2 where rest: "enter_all run pf positions equity executed held rows res1 st1 = (outs2, res', st')"
    using Cons.prems one by (auto split: prod.splits)
  from Cons.IH [OF rest] enter_one_keys [OF k one] show ?case by simp
qed simp


subsection \<open>One cohort\<close>

lemma viability_rank_mset: "viability_rank env rows = Inr rows' \<Longrightarrow> mset rows' = mset rows"
proof -
  have pairs: "rmap (\<lambda>s. rbind (viability_rank_key s) (\<lambda>k. Inr (k, s))) rs = Inr ps \<Longrightarrow> map snd ps = rs" for rs ps
    by (induction rs arbitrary: ps) (auto simp: rbind_Inr_iff)
  have "mset (map snd (sort_by lt ps)) = mset (map snd ps)" for lt and ps :: "(pynum \<times> pydict) list"
    by (simp only: mset_map mset_sort_by)
  moreover have "mset (map snd ps) = mset rs" if "rmap (\<lambda>s. rbind (viability_rank_key s) (\<lambda>k. Inr (k, s))) rs = Inr ps" for rs ps
    using pairs [OF that] by simp
  ultimately show "viability_rank env rows = Inr rows' \<Longrightarrow> mset rows' = mset rows"
    by (auto simp: viability_rank_def rbind_Inr_iff simp del: mset_map split: if_splits option.splits)
qed

lemma first_rows_distinct: "distinct (map f xs) \<Longrightarrow> distinct (map f (first_rows n xs)) \<and> set (first_rows n xs) \<subseteq> set xs"
  by (auto simp: first_rows_def take_map [symmetric] dest: in_set_takeD)

lemma filter_benched_distinct:
  "distinct (map f xs) \<Longrightarrow> distinct (map f (filter_benched run plan st xs)) \<and> set (filter_benched run plan st xs) \<subseteq> set xs"
  by (auto simp: filter_benched_def distinct_map_filter split: sum.splits)

lemma count_list_distinct: "distinct xs \<Longrightarrow> count_list xs x = (if x \<in> set xs then 1 else 0)"
  by (induction xs) auto

text \<open>The suggestions with their cohorts.\<close>

definition listed :: "suggestion_rows \<Rightarrow> (pyval \<times> pyval) set" where
  "listed rows = set (zip (order_column ''id'' rows) (order_column ''cohort_name'' rows))"

lemma listed_rows: "listed rows = (\<lambda>r. (row_id r, dget r ''cohort_name'')) ` set rows"
  by (induction rows) (simp_all add: listed_def order_column_def row_id_def)

lemma listed_unique:
  assumes "distinct (map row_id rows)" and "(x, c) \<in> listed rows" and "(x, d) \<in> listed rows" shows "c = d"
  using assms unfolding listed_rows distinct_map by (auto dest: inj_onD)

lemma pending_for_distinct: "distinct (map f rows) \<Longrightarrow> distinct (map f (pending_for run c rows))"
proof -
  have sorted: "distinct (map f (sort_by lt xs)) = distinct (map f xs)" for lt and xs :: "pydict list"
    by (rule mset_eq_imp_distinct_iff) (simp add: mset_sort_by)
  show "distinct (map f rows) \<Longrightarrow> distinct (map f (pending_for run c rows))"
    unfolding pending_for_def sorted by (simp add: distinct_map_filter)
qed

lemma run_cohort_count:
  assumes real: "stages_really br uuid runs env run" and run: "run_cohort run plan st = Inr (outs, st')"
    and ids: "distinct (map row_id (es_suggestions st))" "\<forall>s \<in> set (es_suggestions st). truthy (row_id s)"
  shows "count_list (suggestion_column (es_world st')) x
      \<le> count_list (suggestion_column (es_world st)) x + (if (x, PStr (cp_name plan)) \<in> listed (es_suggestions st) then 1 else 0)
    \<and> (\<forall>k \<in> suggestion_keys. order_column k (es_suggestions st') = order_column k (es_suggestions st))"
proof (cases "truthy (cp_portfolio plan)")
  case True
  let ?pending = "pending_for run (cp_name plan) (es_suggestions st)"
  obtain rows where rows: "viability_rank (er_environ run) ?pending = Inr rows"
    using run True by (auto simp: run_cohort_def rbind_Inr_iff split: if_splits)
  let ?mine = "own_positions (cp_portfolio plan) (er_positions run (es_world st))"
  let ?chosen = "filter_benched run plan st (first_rows (cp_max plan) rows)"
  obtain outs1 res1 st1 where all: "enter_all run (cp_portfolio plan) ?mine (er_equity run (es_world st)) (er_executed run (es_world st))
      (held_symbols ?mine) ?chosen (\<lambda>_. None) st = (outs1, res1, st1)"
    by (rule prod_cases3)
  then have st1: "st1 = st'" using run True rows by (simp add: run_cohort_def Let_def split: if_splits)
  have "mset (map row_id rows) = mset (map row_id ?pending)" using viability_rank_mset [OF rows] by simp
  moreover have "distinct (map row_id ?pending)" by (rule pending_for_distinct [OF ids(1)])
  ultimately have "distinct (map row_id rows)" by (metis mset_eq_imp_distinct_iff)
  then have chosen: "distinct (map row_id ?chosen)" "set ?chosen \<subseteq> set rows"
    using first_rows_distinct [of row_id rows] filter_benched_distinct [of row_id "first_rows (cp_max plan) rows"] by blast+
  have members: "s \<in> set (es_suggestions st) \<and> dget s ''cohort_name'' = PStr (cp_name plan)" if "s \<in> set ?chosen" for s
  proof -
    have "set rows = set ?pending" using viability_rank_mset [OF rows] by (rule mset_eq_setD)
    with that chosen(2) have "s \<in> set ?pending" by blast
    then show ?thesis by (simp add: pending_for_def)
  qed
  have "count_list (map row_id ?chosen) x \<le> (if (x, PStr (cp_name plan)) \<in> listed (es_suggestions st) then 1 else 0)"
  proof (cases "x \<in> row_id ` set ?chosen")
    case True
    then obtain s where "s \<in> set ?chosen" "x = row_id s" by blast
    with members have "(x, PStr (cp_name plan)) \<in> listed (es_suggestions st)" by (force simp: listed_rows)
    then show ?thesis by (simp add: count_list_distinct [OF chosen(1)])
  qed (simp add: count_list_distinct [OF chosen(1)])
  moreover have "\<forall>s \<in> set ?chosen. truthy (row_id s)" using members ids(2) by blast
  ultimately show ?thesis
    using enter_all_count [OF real all, of x] enter_all_keys [OF _ all] st1 by auto
qed (use run in \<open>simp add: run_cohort_def\<close>)

subsection \<open>All cohorts\<close>

lemma run_cohorts_count:
  assumes real: "stages_really br uuid runs env run"
  shows "run_cohorts run plans st = (res, st') \<Longrightarrow> distinct (map row_id (es_suggestions st)) \<Longrightarrow>
    \<forall>s \<in> set (es_suggestions st). truthy (row_id s) \<Longrightarrow>
    count_list (suggestion_column (es_world st')) x
      \<le> count_list (suggestion_column (es_world st)) x
        + length (filter (\<lambda>plan. (x, PStr (cp_name plan)) \<in> listed (es_suggestions st)) plans)"
proof (induction plans arbitrary: st res)
  case (Cons plan plans)
  show ?case
  proof (cases "run_cohort run plan st")
    case (Inl e)
    with Cons.prems(1) show ?thesis by simp
  next
    case (Inr r)
    obtain outs st1 where r: "r = (outs, st1)" by fastforce
    obtain res1 where rest: "run_cohorts run plans st1 = (res1, st')" using Cons.prems(1) Inr r by (auto split: prod.splits sum.splits)
    note one = run_cohort_count [OF real Inr [unfolded r] Cons.prems(2,3), of x]
    have cols: "order_column ''id'' (es_suggestions st1) = order_column ''id'' (es_suggestions st)"
      "order_column ''cohort_name'' (es_suggestions st1) = order_column ''cohort_name'' (es_suggestions st)"
      using one by (simp_all add: suggestion_keys_def)
    then have same: "listed (es_suggestions st1) = listed (es_suggestions st)" by (simp add: listed_def)
    have "map row_id (es_suggestions st1) = map row_id (es_suggestions st)" using cols(1) by (simp add: order_column_def row_id_def [abs_def])
    then have "distinct (map row_id (es_suggestions st1))" "\<forall>s \<in> set (es_suggestions st1). truthy (row_id s)"
      using Cons.prems(2,3) by (simp, metis (no_types) list.set_map imageE imageI)
    from Cons.IH [OF rest this] one same show ?thesis by (auto split: if_splits)
  qed
qed simp

lemma plans_of_one_cohort:
  assumes "distinct (map row_id rows)" and "distinct (map cp_name plans)"
  shows "length (filter (\<lambda>plan. (x, PStr (cp_name plan)) \<in> listed rows) plans) \<le> 1"
  using assms(2)
proof (induction plans)
  case (Cons plan plans)
  show ?case
  proof (cases "(x, PStr (cp_name plan)) \<in> listed rows")
    case True
    then have "(x, PStr (cp_name q)) \<notin> listed rows" if "q \<in> set plans" for q
      using listed_unique [OF assms(1) True] that Cons.prems by auto
    then show ?thesis using True by (simp add: filter_False)
  qed (use Cons in simp)
qed simp

text \<open>
  One run over the cohorts stages a suggestion at most once: with unique identifiers of
  suggestions and names of cohorts, the orders of every suggestion grow by at most one, whatever the
  gates, the broker and the database answer.
\<close>

theorem cohorts_stage_a_suggestion_once:
  assumes "stages_really br uuid runs env run" and "run_cohorts run plans st = (res, st')"
    and "distinct (map row_id (es_suggestions st))" and "\<forall>s \<in> set (es_suggestions st). truthy (row_id s)" and "distinct (map cp_name plans)"
  shows "count_list (suggestion_column (es_world st')) sid \<le> count_list (suggestion_column (es_world st)) sid + 1"
  using run_cohorts_count [OF assms(1-4), of sid] plans_of_one_cohort [OF assms(3,5), of sid] by simp

end
