(* ===== verification/Spec2Isabelle.thy ===== *)
theory Spec2Isabelle
  imports Occ_Symbols Close_Math Ledger_Correct Payoff Leg_Reconcile Gate_Correct Tier_Correct Job_Correct Envelope_Correct
    Progression_Correct Close_Correct Broker_Correct Portfolio_Allocator Marks_Correct Exit_Rules_Correct Corroboration_Correct
    Close_Route_Correct Paper_Defects Entry_Correct Budget_Correct Disposition_Correct Cohort_Staging
begin

text \<open>
  A model of the core of the options trading companion (the Python package
  \<open>src/packages/quantum\<close>) with the theorems that make it correct.

  The program. Scheduled jobs scan markets, size candidate option structures against the
  account's capital tier, pass them through an entry gate that bounds how much capital is
  committed, submit orders, record the broker's fills in a position ledger, and compute realized
  profit when a structure is closed. Every job is a row of a database table that an enqueue
  request creates, a worker runs and a scheduler retries. The development models the parts that
  decide: what is booked, what is admitted, what is run, and how much is at risk.

  Theories, with the code they model (paths below \<open>src/packages/quantum\<close>):

  \<^item> \<open>Py_Prelude\<close>: the Python values the code handles (dictionaries, exact decimals, floats with
    infinities and NaN, text), the exceptions as the left side of a sum, \<open>rbind\<close>, \<open>rmap\<close> and
    \<open>rfold\<close> for code that raises, rounding half-even to cents, the shared simplification sets.
  \<^item> \<open>Py_Float\<close>: arithmetic and comparison of floats that may be infinite or NaN.
  \<^item> \<open>Py_Sort\<close>: the stable sort of Python over any strict comparison.
  \<^item> \<open>Interfaces\<close>: the locales. \<open>one_shot\<close> is an operation that takes effect at most once per key
    (the job store's creation, the closing of a position, the route of a close); \<open>bounded_gate\<close> is a gate that
    admits a candidate only within a bound (the caps of the buckets). Each is interpreted on the model's own
    operations in the theory of the component.
  \<^item> \<open>Occ_Symbols\<close>: \<open>services/options_utils.py\<close>; OCC option symbols and the legs fingerprint.
  \<^item> \<open>Close_Math\<close>: \<open>services/close_math.py\<close>; realized profit of a close and the extraction of its
    legs from the broker's payloads.
  \<^item> \<open>Position_Ledger\<close>, \<open>Ledger_Correct\<close>: \<open>services/position_ledger_service.py\<close>. The state
    \<open>ledger\<close> holds the rows of the four tables; \<open>record_fill\<close> is the whole handler with its
    deduplication, grouping and over-close split. \<open>Ledger_Correct\<close> holds the invariant, the
    refinement to an abstract ledger (net quantity per user and symbol, cash per user), the retry
    of a recorded fill, what goes wrong with over-closing fills, and the reconciliation against the
    broker's snapshot.
  \<^item> \<open>Position_Model\<close>, \<open>Position_Correct\<close>, \<open>Payoff\<close>, \<open>Leg_Reconcile\<close>: \<open>risk/position_model.py\<close>.
    Normalization of persisted positions into canonical ones, their expiration payoff (exact
    over all prices, not only at the strikes), the stress floor, the aggregation of Greeks and
    the comparison of a position with an observed book.
  \<^item> \<open>Utilization_Gate\<close>, \<open>Gate_Correct\<close>: \<open>risk/utilization_gate.py\<close>, with \<open>choose_basis\<close> of
    \<open>services/risk_basis_shadow.py\<close>; the capital each structure of the book commits and the
    admission of an entry: exactly the entries that fit, judged on the figures they are given.
  \<^item> \<open>Risk_Envelope\<close>, \<open>Envelope_Correct\<close>: \<open>risk/risk_envelope.py\<close> and \<open>risk/sector_mapping.py\<close>; the
    check of the whole book (Greeks, concentration, loss stops, stress scenarios) and what its
    verdict means in terms of the canonical positions.
  \<^item> \<open>Capital_Tiers\<close>, \<open>Tier_Correct\<close>: \<open>services/analytics/small_account_compounder.py\<close> and
    \<open>services/analytics/tier_taper.py\<close>; tiers, sizing, selection, and the taper with hysteresis.
  \<^item> \<open>Portfolio_Allocator\<close>: \<open>services/portfolio_allocator.py\<close>; the small tier's distribution of the
    envelope over the best candidates, with the bounds and the order it keeps.
  \<^item> \<open>Job_Runs\<close>, \<open>Job_Correct\<close>: \<open>jobs/job_runs.py\<close>, \<open>jobs/runner.py\<close>, \<open>jobs/origin.py\<close>, the retry
    scan of \<open>scheduler.py\<close>, the retry of \<open>jobs/endpoints.py\<close>, the enqueue request of
    \<open>public_tasks.py\<close> and \<open>policies/go_live_policy.py\<close>. Every write of a run may fail, with or
    without its effect; what a run then leaves in the table, and the job that is never retried.
  \<^item> \<open>Progression\<close>, \<open>Progression_Correct\<close>: \<open>services/progression_service.py\<close> with the jobs
    \<open>promotion_check.py\<close> and \<open>daily_progression_eval.py\<close>; the go-live phases of an account, the
    lifecycle of a strategy and its entry gate.
  \<^item> \<open>Position_Close\<close>, \<open>Close_Correct\<close>: \<open>services/close_helper.py\<close>, \<open>services/close_fill_gap.py\<close> and
    \<open>_close_position_on_fill\<close>; the one writer of closed positions and the handler that takes a
    filled close order to it. The \<open>desk\<close> is the part of the database they touch.
  \<^item> \<open>Broker_Orders\<close>, \<open>Broker_Correct\<close>: \<open>brokers/alpaca_order_handler.py\<close>; the request an order
    becomes, its submission with retries against a broker of any state type, and the poll with
    the idle watchdog; what the request says of the row, leg by leg, and how a submission ends.
  \<^item> \<open>Marks\<close>, \<open>Marks_Correct\<close>: \<open>risk/mark_math.py\<close>, \<open>risk/mark_validity.py\<close>,
    \<open>risk/payoff_bounds.py\<close> and \<open>risk/legs_convention.py\<close>; the mark and profit of an open structure
    and the two guards that reject values the structure cannot have.
  \<^item> \<open>Exit_Rules\<close>, \<open>Exit_Rules_Correct\<close>: \<open>services/paper_exit_evaluator.py\<close> up to the close itself
    and \<open>services/pdt_guard_service.py\<close>; exit conditions, their ranking, the limit on day trades,
    and the pass over the open positions, with the close as a parameter over any state type. The limit
    on day trades holds while the log can be read; a failed read counts as no day trades.
  \<^item> \<open>Corroboration\<close>, \<open>Corroboration_Correct\<close>: \<open>analytics/exit_mark_corroboration.py\<close>; the
    executable value of a structure, the verdict on a mark that triggers an exit, the cost of a
    round trip, and the profit the exit conditions see.
  \<^item> \<open>Close_Guard\<close>, \<open>Close_Guard_Correct\<close>: the guards around a close in
    \<open>services/paper_exit_evaluator.py\<close> (which orders block a close and when protection re-arms,
    reasons, limit, quote corroboration) and the routing decisions of
    \<open>brokers/execution_router.py\<close>; exactly when the guard lets a close through.
  \<^item> \<open>Internal_Commit\<close>, \<open>Internal_Commit_Correct\<close>: the database function
    \<open>rpc_commit_internal_close_v1\<close> (under \<open>src/supabase/migrations\<close>), which books a close that no
    broker fills as one step over orders, positions, portfolios and the cash ledger (\<open>close_book\<close>).
  \<^item> \<open>Close_Route\<close>, \<open>Close_Route_Correct\<close>: \<open>_close_position\<close> of
    \<open>services/paper_exit_evaluator.py\<close> as a whole, with the staging of the close order
    (\<open>_stage_order_internal\<close> of \<open>paper_endpoints.py\<close>), composed of the guards, the submission and the commit
    above; which reads and writes succeed is a parameter of the run.
  \<^item> \<open>Fill_Simulation\<close>, \<open>Fill_Correct\<close>: \<open>execution/transaction_cost_model.py\<close>; the estimate of costs
    and the simulated fill of a paper order, with the random draws as arguments, and the entry
    price after a fill.
  \<^item> \<open>Paper_Fills\<close>, \<open>Paper_Processing\<close>, \<open>Paper_Correct\<close>, \<open>Paper_Defects\<close>: the fill processor of
    \<open>paper_endpoints.py\<close> (\<open>_commit_fill\<close>, \<open>_repair_filled_order_commit\<close>,
    \<open>_process_orders_for_user\<close>) over \<open>paper_book\<close>: orders, positions, portfolios and the cash ledger.
    \<open>Paper_Correct\<close> shows that cash moves by exactly the events of the fills, of which the ledger gets
    those whose insertion succeeds, and that an order adding to a position is counted twice; \<open>Paper_Defects\<close> what a failing write and a missing price lead to.
  \<^item> \<open>Entry_Brakes\<close>, \<open>Cohort_Entries\<close>, \<open>Entry_Correct\<close>: what stops new positions. The brakes are the breaker on
    consecutive losses of \<open>risk/streak_breaker.py\<close> on the row \<open>ops_control\<close>, the cooldowns of \<open>services/reentry_cooldown.py\<close>,
    the exposure per bucket of \<open>risk/bucket_control.py\<close> with its reservations and the gate of \<open>risk/staleness_gate.py\<close>;
    \<open>execute_top_suggestions\<close> and \<open>_execute_per_cohort\<close> of \<open>services/paper_autopilot_service.py\<close> compose them with the
    utilization gate, over a world of any type in which staging and processing act. Which reads and writes succeed is a
    parameter. Proved: losses stop all entries when the pause is written and read, no evaluation lifts a pause, a pause that could not be written is never
    retried, a stopped symbol stays out of its cohort when the cohort is found, and armed buckets keep to their cap (as \<open>bounded_gate\<close>).
  \<^item> \<open>Sizing\<close>, \<open>Risk_Budget\<close>, \<open>Budget_Correct\<close>: how much is traded. \<open>Risk_Budget\<close> is \<open>services/risk_budget_engine.py\<close>: the
    caps of a regime, the risk of the open book and the amount of the next trade, on the tiers of \<open>Capital_Tiers\<close>;
    \<open>Sizing\<close> is \<open>services/sizing_engine.py\<close>, the number of contracts. Proved: the size is the largest admissible one,
    and a trade sized with the budget keeps a book within its global limit there.
  \<^item> \<open>Dispositions\<close>, \<open>Disposition_Correct\<close>: the table of final dispositions of \<open>services/candidate_disposition.py\<close> with its
    unique indexes, the recorder of a cycle and the milestones of executors that interleave (\<open>milestone_step\<close>).
    Proved: one final for each identity when the database answers, none after two failed writes, and milestones
    that only advance.
  \<^item> \<open>Option_Levels\<close>, \<open>Entry_Tickets\<close>, \<open>Entry_Gates\<close>, \<open>Entry_Pricing\<close>, \<open>Entry_Staging\<close>: how a suggestion becomes
    an order in \<open>paper_endpoints.py\<close> (\<open>_suggestion_to_ticket\<close>, \<open>_stage_order_internal\<close> and its helpers, the batch,
    \<open>/paper/execute\<close> and \<open>/paper/close\<close>), with \<open>services/options_level_preflight.py\<close>, \<open>analytics/strategy_identity.py\<close>,
    \<open>services/tcm_v2_proposal.py\<close> and \<open>execution/marketable_entry.py\<close>. The state \<open>stage_state\<close> is the book, the
    suggestions, the cache of accounts and the broker; the record \<open>stage_run\<close> what the outside answers to one staging.
  \<^item> \<open>Order_Columns\<close>, \<open>Staging_Correct\<close>, \<open>Batch_Correct\<close>, \<open>Cohort_Staging\<close>: columns that no later step rewrites; an
    order has complete and priced legs and covers its cost, a rejection leaves nothing, the broker is reached only with
    permission; the sign of a credit; a batch stages what it names, twice what it names twice; the manual close never
    stages; and the pass over the cohorts with the staging in place of its parameter stages a suggestion at most once.
    \<open>Staging_Samples\<close> holds a run at which the theorems are applied.

  Conventions and bounds.

  \<^item> A Python float or Decimal that is finite is an exact rational; rounding of intermediate
    results is not modelled, except where the code quantizes (\<open>to_cents\<close>, with the 28-digit limit
    of the decimal context as a hypothesis). Infinities and NaN are values of \<open>pynum\<close>.
  \<^item> Text is a list of 8-bit characters; case conversion and white space are those of ASCII.
  \<^item> A database table is a list of rows in insertion order, its ids drawn from a counter; a unique
    index of the schema is a check of the insertion that uses it. Another client that runs
    between two statements is a parameter where the code has a window (\<open>create_or_get\<close>).
  \<^item> SHA-256, \<open>str\<close> of values that are not text, the clock, job handlers, the broker's answers and
    the task queue are parameters; theorems about them hold for every choice.
  \<^item> \<open>record_fill\<close> calls itself once, for the remainder of an over-close. The model unrolls the
    call once, and \<open>record_fill_fixpoint\<close> proves that it satisfies the recursive equation of the
    source on well-formed ledgers, so the unrolling loses nothing there.
  \<^item> No other recursion of the code needs fuel: the loops modelled here run over lists.

  Not modelled: logging, most alerts and audit records; HTTP routing; the market data, broker and
  database clients; the scanner, the orchestrator and the statistical analytics, whose results
  reach the modelled parts as inputs.
\<close>

end
